(* ===== verification/PyBase.thy ===== *)
theory PyBase
  imports Main
begin

text \<open>
  The prelude of the development: the Python values the program handles, dictionaries as
  association lists, the string operations the program uses, and the lemmas on them that the
  components share.

  A Python value that crosses a component's interface (a decoded JSON document, a keyword
  argument, an attribute of a credentials object) is a \<open>py\<close>. Floats do not occur: no code
  modelled here inspects one. A dictionary keeps its keys in the order of insertion; no theorem
  depends on that order unless it says so.
\<close>

named_theorems dict_simps \<open>what a dictionary answers after an operation on it\<close>
named_theorems str_simps \<open>characteristic equations of the string operations\<close>

section \<open>Values\<close>

datatype py =
    PNone
  | PBool bool
  | PInt int
  | PStr string
  | PList "py list"
  | PDict "(string \<times> py) list"

text \<open>Python's truth value testing.\<close>

fun truthy :: "py \<Rightarrow> bool" where
  "truthy PNone = False"
| "truthy (PBool b) = b"
| "truthy (PInt i) = (i \<noteq> 0)"
| "truthy (PStr s) = (s \<noteq> [])"
| "truthy (PList xs) = (xs \<noteq> [])"
| "truthy (PDict d) = (d \<noteq> [])"

text \<open>\<open>x or y\<close> as a value.\<close>

definition py_or :: "py \<Rightarrow> py \<Rightarrow> py" where
  "py_or x y = (if truthy x then x else y)"

definition is_none :: "py \<Rightarrow> bool" where
  "is_none x = (x = PNone)"

lemma is_none_simps [simp]:
  "is_none PNone" "\<not> is_none (PBool b)" "\<not> is_none (PInt i)" "\<not> is_none (PStr s)"
  "\<not> is_none (PList xs)" "\<not> is_none (PDict d)"
  by (simp_all add: is_none_def)

lemma truthy_not_none: "truthy x \<Longrightarrow> \<not> is_none x"
  by (cases x) auto

section \<open>Dictionaries\<close>

type_synonym ('k, 'v) dict = "('k \<times> 'v) list"

text \<open>\<open>d.get(k)\<close>, \<open>d[k] = v\<close>, \<open>del d[k]\<close>, \<open>d.update(e)\<close>, \<open>k in d\<close>.\<close>

definition dget :: "('k, 'v) dict \<Rightarrow> 'k \<Rightarrow> 'v option" where
  "dget d k = map_of d k"

fun dset :: "('k, 'v) dict \<Rightarrow> 'k \<Rightarrow> 'v \<Rightarrow> ('k, 'v) dict" where
  "dset [] k v = [(k, v)]"
| "dset ((k', v') # d) k v = (if k' = k then (k, v) # d else (k', v') # dset d k v)"

fun ddel :: "('k, 'v) dict \<Rightarrow> 'k \<Rightarrow> ('k, 'v) dict" where
  "ddel [] k = []"
| "ddel ((k', v') # d) k = (if k' = k then ddel d k else (k', v') # ddel d k)"

fun dupdate :: "('k, 'v) dict \<Rightarrow> ('k, 'v) dict \<Rightarrow> ('k, 'v) dict" where
  "dupdate d [] = d"
| "dupdate d ((k, v) # e) = dupdate (dset d k v) e"

definition dhas :: "('k, 'v) dict \<Rightarrow> 'k \<Rightarrow> bool" where
  "dhas d k = (dget d k \<noteq> None)"

definition dkeys :: "('k, 'v) dict \<Rightarrow> 'k list" where
  "dkeys d = map fst d"

lemma dget_Nil [simp, dict_simps]: "dget [] k = None"
  by (simp add: dget_def)

lemma dget_Cons [simp, dict_simps]:
  "dget ((k', v) # d) k = (if k' = k then Some v else dget d k)"
  by (simp add: dget_def)

lemma dget_dset [simp, dict_simps]: "dget (dset d k v) k' = (if k = k' then Some v else dget d k')"
  by (induction d k v rule: dset.induct) auto

lemma dget_ddel [simp, dict_simps]: "dget (ddel d k) k' = (if k = k' then None else dget d k')"
  by (induction d) auto

lemma dget_append [dict_simps]:
  "dget (d @ e) k = (case dget d k of None \<Rightarrow> dget e k | Some v \<Rightarrow> Some v)"
  by (induction d) (auto split: option.splits)

lemma dkeys_simps [simp]:
  "dkeys [] = []" "dkeys ((k, v) # d) = k # dkeys d"
  by (simp_all add: dkeys_def)

lemma dhas_iff: "dhas d k \<longleftrightarrow> k \<in> set (dkeys d)"
  by (induction d) (auto simp: dhas_def)

lemma dget_None_iff: "dget d k = None \<longleftrightarrow> k \<notin> set (dkeys d)"
  by (induction d) (auto split: if_splits)

lemma set_dkeys_dset [simp]: "set (dkeys (dset d k v)) = insert k (set (dkeys d))"
  by (induction d k v rule: dset.induct) auto

lemma set_dkeys_ddel [simp]: "set (dkeys (ddel d k)) = set (dkeys d) - {k}"
  by (induction d k rule: ddel.induct) auto

lemma distinct_dset: "distinct (dkeys d) \<Longrightarrow> distinct (dkeys (dset d k v))"
  by (induction d k v rule: dset.induct) auto

lemma distinct_ddel: "distinct (dkeys d) \<Longrightarrow> distinct (dkeys (ddel d k))"
  by (induction d k rule: ddel.induct) auto

lemma distinct_dupdate: "distinct (dkeys d) \<Longrightarrow> distinct (dkeys (dupdate d e))"
  by (induction d e rule: dupdate.induct) (simp_all add: distinct_dset)

text \<open>The last binding of a key in \<open>e\<close> wins; keys not in \<open>e\<close> keep their value.\<close>

lemma dget_dupdate:
  "dget (dupdate d e) k = (case dget (rev e) k of None \<Rightarrow> dget d k | Some v \<Rightarrow> Some v)"
  by (induction d e rule: dupdate.induct) (auto simp: dget_append split: option.splits)

lemma dget_rev_distinct: "distinct (dkeys e) \<Longrightarrow> dget (rev e) k = dget e k"
proof (induction e)
  case Nil
  then show ?case by simp
next
  case (Cons x e)
  obtain a b where x: "x = (a, b)" by (cases x)
  with Cons have IH: "dget (rev e) k = dget e k" and new: "dget e a = None"
    by (simp_all add: dget_None_iff)
  show ?case
    using x IH new by (cases "dget e k") (auto simp: dget_append)
qed

lemma dget_dupdate_distinct [dict_simps]:
  "distinct (dkeys e) \<Longrightarrow>
   dget (dupdate d e) k = (case dget e k of None \<Rightarrow> dget d k | Some v \<Rightarrow> Some v)"
  by (simp add: dget_dupdate dget_rev_distinct)

lemma dget_Some_mem: "dget d k = Some v \<Longrightarrow> (k, v) \<in> set d"
  by (simp add: dget_def map_of_SomeD)

lemma mem_dget: "distinct (dkeys d) \<Longrightarrow> (k, v) \<in> set d \<Longrightarrow> dget d k = Some v"
  by (simp add: dget_def dkeys_def)

lemma dset_not_Nil [simp]: "dset d k v \<noteq> []"
  by (induction d k v rule: dset.induct) auto

section \<open>Strings\<close>

text \<open>\<open>sub in s\<close>, \<open>s.split(c)\<close>, \<open>sep.join(xs)\<close>, \<open>s.replace(a, b)\<close>, \<open>s.rstrip(c)\<close>, \<open>s.lower()\<close>.\<close>

fun str_contains :: "string \<Rightarrow> string \<Rightarrow> bool" where
  "str_contains sub [] = (sub = [])"
| "str_contains sub (c # cs) = (take (length sub) (c # cs) = sub \<or> str_contains sub cs)"

fun str_split :: "char \<Rightarrow> string \<Rightarrow> string list" where
  "str_split c [] = [[]]"
| "str_split c (x # xs) =
     (if x = c then [] # str_split c xs
      else (case str_split c xs of [] \<Rightarrow> [[x]] | y # ys \<Rightarrow> (x # y) # ys))"

fun str_join :: "string \<Rightarrow> string list \<Rightarrow> string" where
  "str_join sep [] = []"
| "str_join sep [x] = x"
| "str_join sep (x # y # ys) = x @ sep @ str_join sep (y # ys)"

text \<open>
  With an empty \<open>old\<close> Python inserts \<open>new\<close> before every character and at the end;
  otherwise it replaces the occurrences from left to right, without overlap.
\<close>

function str_replace_ne :: "string \<Rightarrow> string \<Rightarrow> string \<Rightarrow> string" where
  "str_replace_ne old new [] = []"
| "str_replace_ne old new (c # cs) =
     (if old \<noteq> [] \<and> take (length old) (c # cs) = old
      then new @ str_replace_ne old new (drop (length old) (c # cs))
      else c # str_replace_ne old new cs)"
  by pat_completeness auto
termination
  by (relation "measure (\<lambda>(old, new, s). length s)") (auto simp: neq_Nil_conv)

definition str_replace :: "string \<Rightarrow> string \<Rightarrow> string \<Rightarrow> string" where
  "str_replace old new s =
     (if old = [] then new @ concat (map (\<lambda>c. c # new) s) else str_replace_ne old new s)"

definition str_rstrip :: "char \<Rightarrow> string \<Rightarrow> string" where
  "str_rstrip c s = rev (dropWhile (\<lambda>x. x = c) (rev s))"

definition char_lower :: "char \<Rightarrow> char" where
  "char_lower c = (let n = (of_char c :: nat) in if 65 \<le> n \<and> n \<le> 90 then char_of (n + 32) else c)"

definition str_lower :: "string \<Rightarrow> string" where
  "str_lower s = map char_lower s"

definition char_upper :: "char \<Rightarrow> char" where
  "char_upper c = (let n = (of_char c :: nat) in if 97 \<le> n \<and> n \<le> 122 then char_of (n - 32) else c)"

definition str_upper :: "string \<Rightarrow> string" where
  "str_upper s = map char_upper s"

lemma str_split_not_Nil [simp]: "str_split c s \<noteq> []"
  by (cases s) (auto split: list.splits)

lemma str_join_Cons: "ys \<noteq> [] \<Longrightarrow> str_join sep (x # ys) = x @ sep @ str_join sep ys"
  by (cases ys) auto

lemma str_join_split [str_simps]: "str_join [c] (str_split c s) = s"
proof (induction s)
  case Nil
  then show ?case by simp
next
  case (Cons x s)
  obtain y ys where split: "str_split c s = y # ys"
    by (cases "str_split c s") auto
  from Cons.IH split have "str_join [c] (y # ys) = s" by simp
  then show ?case
    using split by (cases ys) auto
qed

lemma str_split_no_sep: "c \<notin> set s \<Longrightarrow> str_split c s = [s]"
  by (induction s) auto

lemma str_split_pieces: "x \<in> set (str_split c s) \<Longrightarrow> c \<notin> set x"
proof (induction s arbitrary: x)
  case Nil
  then show ?case by simp
next
  case (Cons a s)
  then show ?case
    by (cases "str_split c s") (auto split: if_splits)
qed

lemma str_split_append_sep:
  "c \<notin> set xs \<Longrightarrow> str_split c (xs @ c # ys) = xs # str_split c ys"
  by (induction xs) auto

lemma str_contains_iff: "str_contains sub s \<longleftrightarrow> (\<exists>a b. s = a @ sub @ b)"
proof (induction s)
  case Nil
  then show ?case by auto
next
  case (Cons c s)
  have "(\<exists>a b. c # s = a @ sub @ b) \<longleftrightarrow>
        (\<exists>b. c # s = sub @ b) \<or> (\<exists>a b. s = a @ sub @ b)"
    by (auto simp: Cons_eq_append_conv intro: exI [of _ "[]"])
  moreover have "take (length sub) (c # s) = sub \<longleftrightarrow> (\<exists>b. c # s = sub @ b)"
    by (metis append_eq_conv_conj append_take_drop_id)
  ultimately show ?case using Cons.IH by simp
qed

lemma str_replace_absent:
  "old \<noteq> [] \<Longrightarrow> \<not> str_contains old s \<Longrightarrow> str_replace_ne old new s = s"
proof (induction s)
  case Nil
  then show ?case by simp
next
  case (Cons c s)
  then show ?case by simp
qed

lemma str_rstrip_no_tail: "str_rstrip c s \<noteq> [] \<Longrightarrow> last (str_rstrip c s) \<noteq> c"
  unfolding str_rstrip_def
  by (metis (mono_tags, lifting) hd_dropWhile last_rev rev_is_Nil_conv)

section \<open>Decimal numbers\<close>

definition digit_char :: "nat \<Rightarrow> char" where
  "digit_char d = char_of (48 + d)"

definition is_digit :: "char \<Rightarrow> bool" where
  "is_digit c = (48 \<le> (of_char c :: nat) \<and> (of_char c :: nat) \<le> 57)"

definition digit_val :: "char \<Rightarrow> nat" where
  "digit_val c = of_char c - 48"

fun nat_str :: "nat \<Rightarrow> string" where
  "nat_str n = (if n < 10 then [digit_char n] else nat_str (n div 10) @ [digit_char (n mod 10)])"

declare nat_str.simps [simp del]

definition int_str :: "int \<Rightarrow> string" where
  "int_str i = (if i < 0 then CHR ''-'' # nat_str (nat (- i)) else nat_str (nat i))"

definition digits_val :: "string \<Rightarrow> nat" where
  "digits_val s = foldl (\<lambda>n c. 10 * n + digit_val c) 0 s"

definition all_digits :: "string \<Rightarrow> bool" where
  "all_digits s = (s \<noteq> [] \<and> list_all is_digit s)"

definition is_space :: "char \<Rightarrow> bool" where
  "is_space c = ((of_char c :: nat) = 32 \<or> (9 \<le> (of_char c :: nat) \<and> (of_char c :: nat) \<le> 13))"

definition str_strip :: "string \<Rightarrow> string" where
  "str_strip s = rev (dropWhile is_space (rev (dropWhile is_space s)))"

text \<open>\<open>int(s)\<close> on a string; \<open>None\<close> is the ValueError.\<close>

definition int_of_str :: "string \<Rightarrow> int option" where
  "int_of_str s =
     (case str_strip s of
        [] \<Rightarrow> None
      | c # cs \<Rightarrow>
          if c = CHR ''-'' then (if all_digits cs then Some (- int (digits_val cs)) else None)
          else if c = CHR ''+'' then (if all_digits cs then Some (int (digits_val cs)) else None)
          else if all_digits (c # cs) then Some (int (digits_val (c # cs))) else None)"

text \<open>\<open>s.startswith(p)\<close>.\<close>

definition starts_with :: "string \<Rightarrow> string \<Rightarrow> bool" where
  "starts_with p s = (take (length p) s = p)"

text \<open>\<open>os.path.join\<close> of two paths.\<close>

definition path_join :: "string \<Rightarrow> string \<Rightarrow> string" where
  "path_join a b =
     (if take 1 b = ''/'' then b
      else if a = [] \<or> last a = CHR ''/'' then a @ b else a @ ''/'' @ b)"

lemma digit_char_props:
  assumes "d < 10"
  shows "is_digit (digit_char d)" "digit_val (digit_char d) = d" "\<not> is_space (digit_char d)"
    "digit_char d \<noteq> CHR ''-''" "digit_char d \<noteq> CHR ''+''" "digit_char d \<noteq> CHR ''/''"
proof -
  have code: "(of_char (digit_char d) :: nat) = 48 + d"
    using assms by (simp add: digit_char_def)
  then show "is_digit (digit_char d)" "digit_val (digit_char d) = d" "\<not> is_space (digit_char d)"
    using assms by (simp_all add: is_digit_def digit_val_def is_space_def)
  have "(of_char (CHR ''-'') :: nat) = 45" "(of_char (CHR ''+'') :: nat) = 43"
    "(of_char (CHR ''/'') :: nat) = 47"
    by simp_all
  then show "digit_char d \<noteq> CHR ''-''" "digit_char d \<noteq> CHR ''+''" "digit_char d \<noteq> CHR ''/''"
    using code by auto
qed

lemma digits_val_snoc: "digits_val (s @ [c]) = 10 * digits_val s + digit_val c"
  by (simp add: digits_val_def)

lemma nat_str_props: "nat_str n \<noteq> [] \<and> list_all is_digit (nat_str n) \<and> digits_val (nat_str n) = n"
proof (induction n rule: nat_str.induct)
  case (1 n)
  show ?case
  proof (cases "n < 10")
    case True
    then show ?thesis
      by (simp add: nat_str.simps [of n] digit_char_props digits_val_def)
  next
    case False
    with 1 have "list_all is_digit (nat_str (n div 10))" "digits_val (nat_str (n div 10)) = n div 10"
      by simp_all
    with False show ?thesis
      by (simp add: nat_str.simps [of n] digits_val_snoc digit_char_props)
  qed
qed

lemma nat_str_digits [simp]: "list_all is_digit (nat_str n)"
  using nat_str_props by blast

lemma nat_str_not_Nil [simp]: "nat_str n \<noteq> []"
  using nat_str_props by blast

lemma digits_val_nat_str [simp]: "digits_val (nat_str n) = n"
  using nat_str_props by blast

lemma nat_str_inject [simp]: "nat_str m = nat_str n \<longleftrightarrow> m = n"
  by (metis digits_val_nat_str)

end
