(* ===== verification/Exceptions.thy ===== *)
theory Exceptions
  imports PyBase
begin

text \<open>
  The exception classes of \<open>automation/common/exceptions.py\<close> and the text an exception carries.
  The module defines the class \<open>RestClientException\<close> twice: the classes declared between the two
  definitions derive from the first one, and the name the module exports is bound to the second.
  The first class is \<open>RestClientException_1\<close> here.
\<close>

section \<open>The class hierarchy\<close>

text \<open>The classes in the order of the module; \<open>CommandFailed\<close> is not an \<open>AutomationException\<close> and stands apart below.\<close>

datatype (plugins only: code) exc_class =
    AutomationException
  | RestClientException_1
  | OtherRestClientException
  | ServerRestClientException
  | ClientRestClientException
  | InvalidHttpSuccessCode
  | NotFound
  | Unauthorized
  | Forbidden
  | TimeoutException
  | BadRequest
  | UnprocessableEntity
  | RateLimitExceeded
  | OverLimit
  | ServerFault
  | NotImplemented
  | Conflict
  | ResponseWithNonEmptyBody
  | ResponseWithEntity
  | InvalidHTTPResponseBody
  | InvalidHTTPResponseHeader
  | InvalidContentType
  | UnexpectedContentType
  | UnexpectedResponseCode
  | InvalidStructure
  | BadAltAuth
  | IdentityError
  | EndpointNotFound
  | InvalidCredentials
  | SSHTimeout
  | SSHExecCommandFailed
  | RestClientException
  | InvalidConfiguration
  | InvalidServiceTag
  | InvalidIdentityVersion
  | BuildErrorException
  | ImageKilledException
  | AddImageException
  | EC2RegisterImageException
  | VolumeBuildErrorException
  | VolumeRollbackErrorException
  | VolumeRestoreErrorException
  | SnapshotBuildErrorException
  | SnapshotDeleteException
  | VolumeBackupException
  | StackBuildErrorException
  | StackResourceBuildErrorException
  | AuthenticationFailure
  | ImageFault
  | ServerUnreachable
  | TearDownException
  | RFCViolation
  | FlavorNotFound
  | ImageNotFound
  | NetworkNotFound
  | ServerActionSucceed
  | ServerError
  | ServerTimeOut
  | ServerNetworkQosChangeFailed
  | ServerResizeFailed
  | ServerMigrateFailed
  | InitFailed
  | FloatingIpNotCorrectlyAssociated
  | PasswordNotCorrectlyUpdated
  | ImageNotCorrectlyCaptured
  | ServerNotCorrectlyCreatedFromCapturedImage
  | ServerDeleteException
  | VolumeDeleteException
  | DeleteException
  | CreateMonitorException
  | SecurityGroupException

primrec parent_class :: "exc_class \<Rightarrow> exc_class option" where
    "parent_class AutomationException = None"
  | "parent_class RestClientException_1 = Some AutomationException"
  | "parent_class OtherRestClientException = Some RestClientException_1"
  | "parent_class ServerRestClientException = Some RestClientException_1"
  | "parent_class ClientRestClientException = Some RestClientException_1"
  | "parent_class InvalidHttpSuccessCode = Some OtherRestClientException"
  | "parent_class NotFound = Some ClientRestClientException"
  | "parent_class Unauthorized = Some ClientRestClientException"
  | "parent_class Forbidden = Some ClientRestClientException"
  | "parent_class TimeoutException = Some OtherRestClientException"
  | "parent_class BadRequest = Some ClientRestClientException"
  | "parent_class UnprocessableEntity = Some ClientRestClientException"
  | "parent_class RateLimitExceeded = Some ClientRestClientException"
  | "parent_class OverLimit = Some ClientRestClientException"
  | "parent_class ServerFault = Some ServerRestClientException"
  | "parent_class NotImplemented = Some ServerRestClientException"
  | "parent_class Conflict = Some ClientRestClientException"
  | "parent_class ResponseWithNonEmptyBody = Some OtherRestClientException"
  | "parent_class ResponseWithEntity = Some OtherRestClientException"
  | "parent_class InvalidHTTPResponseBody = Some OtherRestClientException"
  | "parent_class InvalidHTTPResponseHeader = Some OtherRestClientException"
  | "parent_class InvalidContentType = Some ClientRestClientException"
  | "parent_class UnexpectedContentType = Some OtherRestClientException"
  | "parent_class UnexpectedResponseCode = Some OtherRestClientException"
  | "parent_class InvalidStructure = Some AutomationException"
  | "parent_class BadAltAuth = Some AutomationException"
  | "parent_class IdentityError = Some AutomationException"
  | "parent_class EndpointNotFound = Some AutomationException"
  | "parent_class InvalidCredentials = Some AutomationException"
  | "parent_class SSHTimeout = Some AutomationException"
  | "parent_class SSHExecCommandFailed = Some AutomationException"
  | "parent_class RestClientException = Some AutomationException"
  | "parent_class InvalidConfiguration = Some AutomationException"
  | "parent_class InvalidServiceTag = Some AutomationException"
  | "parent_class InvalidIdentityVersion = Some AutomationException"
  | "parent_class BuildErrorException = Some AutomationException"
  | "parent_class ImageKilledException = Some AutomationException"
  | "parent_class AddImageException = Some AutomationException"
  | "parent_class EC2RegisterImageException = Some AutomationException"
  | "parent_class VolumeBuildErrorException = Some AutomationException"
  | "parent_class VolumeRollbackErrorException = Some AutomationException"
  | "parent_class VolumeRestoreErrorException = Some AutomationException"
  | "parent_class SnapshotBuildErrorException = Some AutomationException"
  | "parent_class SnapshotDeleteException = Some AutomationException"
  | "parent_class VolumeBackupException = Some AutomationException"
  | "parent_class StackBuildErrorException = Some AutomationException"
  | "parent_class StackResourceBuildErrorException = Some AutomationException"
  | "parent_class AuthenticationFailure = Some AutomationException"
  | "parent_class ImageFault = Some AutomationException"
  | "parent_class ServerUnreachable = Some AutomationException"
  | "parent_class TearDownException = Some AutomationException"
  | "parent_class RFCViolation = Some RestClientException"
  | "parent_class FlavorNotFound = Some AutomationException"
  | "parent_class ImageNotFound = Some AutomationException"
  | "parent_class NetworkNotFound = Some AutomationException"
  | "parent_class ServerActionSucceed = Some AutomationException"
  | "parent_class ServerError = Some AutomationException"
  | "parent_class ServerTimeOut = Some AutomationException"
  | "parent_class ServerNetworkQosChangeFailed = Some AutomationException"
  | "parent_class ServerResizeFailed = Some AutomationException"
  | "parent_class ServerMigrateFailed = Some AutomationException"
  | "parent_class InitFailed = Some AutomationException"
  | "parent_class FloatingIpNotCorrectlyAssociated = Some AutomationException"
  | "parent_class PasswordNotCorrectlyUpdated = Some AutomationException"
  | "parent_class ImageNotCorrectlyCaptured = Some AutomationException"
  | "parent_class ServerNotCorrectlyCreatedFromCapturedImage = Some AutomationException"
  | "parent_class ServerDeleteException = Some AutomationException"
  | "parent_class VolumeDeleteException = Some AutomationException"
  | "parent_class DeleteException = Some AutomationException"
  | "parent_class CreateMonitorException = Some AutomationException"
  | "parent_class SecurityGroupException = Some AutomationException"

primrec own_message :: "exc_class \<Rightarrow> string option" where
    "own_message AutomationException =
      Some (''An unknown exception occurred'')"
  | "own_message RestClientException_1 = None"
  | "own_message OtherRestClientException = None"
  | "own_message ServerRestClientException = None"
  | "own_message ClientRestClientException = None"
  | "own_message InvalidHttpSuccessCode =
      Some (''The success code is different than the expected one'')"
  | "own_message NotFound =
      Some (''Object not found'')"
  | "own_message Unauthorized =
      Some (''Unauthorized'')"
  | "own_message Forbidden =
      Some (''Forbidden'')"
  | "own_message TimeoutException =
      Some (''Request timed out'')"
  | "own_message BadRequest =
      Some (''Bad request'')"
  | "own_message UnprocessableEntity =
      Some (''Unprocessable entity'')"
  | "own_message RateLimitExceeded =
      Some (''Rate limit exceeded'')"
  | "own_message OverLimit =
      Some (''Quota exceeded'')"
  | "own_message ServerFault =
      Some (''Got server fault'')"
  | "own_message NotImplemented =
      Some (''Got NotImplemented error'')"
  | "own_message Conflict =
      Some (''An object with that identifier already exists'')"
  | "own_message ResponseWithNonEmptyBody =
      Some (''RFC Violation! Response with %(status)d HTTP Status Code MUST NOT have a body'')"
  | "own_message ResponseWithEntity =
      Some (''RFC Violation! Response with 205 HTTP Status Code MUST NOT have an entity'')"
  | "own_message InvalidHTTPResponseBody =
      Some (''HTTP response body is invalid json or xml'')"
  | "own_message InvalidHTTPResponseHeader =
      Some (''HTTP response header is invalid'')"
  | "own_message InvalidContentType =
      Some (''Invalid content type provided'')"
  | "own_message UnexpectedContentType =
      Some (''Unexpected content type provided'')"
  | "own_message UnexpectedResponseCode =
      Some (''Unexpected response code received'')"
  | "own_message InvalidStructure =
      Some (''Invalid structure of table with details'')"
  | "own_message BadAltAuth =
      Some (''The alt auth looks the same as primary auth for %(part)s'')"
  | "own_message IdentityError =
      Some (''Got identity error'')"
  | "own_message EndpointNotFound =
      Some (''Endpoint not found'')"
  | "own_message InvalidCredentials =
      Some (''Invalid Credentials'')"
  | "own_message SSHTimeout =
      Some (''Connection to the %(host)s via SSH timed out.'' @ [CHR 0x0A] @ ''User: %(user)s, Password: %(password)s'')"
  | "own_message SSHExecCommandFailed =
      Some (''Command '' @ [CHR 0x27] @ ''%(command)s'' @ [CHR 0x27] @ '', exit status: %(exit_status)d, stderr:'' @ [CHR 0x0A] @ ''%(stderr)s'' @ [CHR 0x0A] @ ''stdout:'' @ [CHR 0x0A] @ ''%(stdout)s'')"
  | "own_message RestClientException = None"
  | "own_message InvalidConfiguration =
      Some (''Invalid Configuration'')"
  | "own_message InvalidServiceTag =
      Some (''Invalid service tag'')"
  | "own_message InvalidIdentityVersion =
      Some (''Invalid version %(identity_version) of the identity service'')"
  | "own_message BuildErrorException =
      Some (''Server %(server_id)s failed to build and is in ERROR status'')"
  | "own_message ImageKilledException =
      Some (''Image %(image_id)s '' @ [CHR 0x27] @ ''killed'' @ [CHR 0x27] @ '' while waiting for '' @ [CHR 0x27] @ ''%(status)s'' @ [CHR 0x27])"
  | "own_message AddImageException =
      Some (''Image %(image_id)s failed to become ACTIVE in the allotted time'')"
  | "own_message EC2RegisterImageException =
      Some (''Image %(image_id)s failed to become '' @ [CHR 0x27] @ ''available'' @ [CHR 0x27] @ '' in the allotted time'')"
  | "own_message VolumeBuildErrorException =
      Some (''Volume %(volume_id)s failed to build and is in ERROR status'')"
  | "own_message VolumeRollbackErrorException =
      Some (''Volume %(volume_id)s failed to rollback'')"
  | "own_message VolumeRestoreErrorException =
      Some (''Volume %(volume_id)s failed to restore and is in ERROR status'')"
  | "own_message SnapshotBuildErrorException =
      Some (''Snapshot %(snapshot_id)s failed to build and is in ERROR status'')"
  | "own_message SnapshotDeleteException =
      Some (''Snapshot failed to be deleted'')"
  | "own_message VolumeBackupException =
      Some (''Volume backup %(backup_id)s failed and is in ERROR status'')"
  | "own_message StackBuildErrorException =
      Some (''Stack %(stack_identifier)s is in %(stack_status)s status due to '' @ [CHR 0x27] @ ''%(stack_status_reason)s'' @ [CHR 0x27])"
  | "own_message StackResourceBuildErrorException =
      Some (''Resource %(resource_name)s in stack %(stack_identifier)s is in %(resource_status)s status due to '' @ [CHR 0x27] @ ''%(resource_status_reason)s'' @ [CHR 0x27])"
  | "own_message AuthenticationFailure =
      Some (''Authentication with user %(user)s and password %(password)s failed auth using tenant %(tenant)s.'')"
  | "own_message ImageFault =
      Some (''Got image fault'')"
  | "own_message ServerUnreachable =
      Some (''The server is not reachable via the configured network'')"
  | "own_message TearDownException =
      Some (''%(num)d cleanUp operation failed'')"
  | "own_message RFCViolation =
      Some (''RFC Violation'')"
  | "own_message FlavorNotFound =
      Some (''Flavor not found'')"
  | "own_message ImageNotFound =
      Some (''Image not found'')"
  | "own_message NetworkNotFound =
      Some (''Network not found'')"
  | "own_message ServerActionSucceed =
      Some (''Instance successfully spawned.'')"
  | "own_message ServerError =
      Some (''Instance changed into error state.'')"
  | "own_message ServerTimeOut =
      Some (''Instance spawn timeout.'')"
  | "own_message ServerNetworkQosChangeFailed =
      Some (''Failed to modify instance network qos.'')"
  | "own_message ServerResizeFailed =
      Some (''Failed to resize instance type.'')"
  | "own_message ServerMigrateFailed =
      Some (''Failed to migrate instance.'')"
  | "own_message InitFailed =
      Some (''Failed to init test env.'')"
  | "own_message FloatingIpNotCorrectlyAssociated =
      Some (''The floating ip is not correctly associated'')"
  | "own_message PasswordNotCorrectlyUpdated =
      Some (''The password is not correctly updated'')"
  | "own_message ImageNotCorrectlyCaptured =
      Some (''The image is not correctly captured'')"
  | "own_message ServerNotCorrectlyCreatedFromCapturedImage =
      Some (''The server is not correctly created from captured image'')"
  | "own_message ServerDeleteException =
      Some (''Failed to delete server.'')"
  | "own_message VolumeDeleteException =
      Some (''Failed to delete volume.'')"
  | "own_message DeleteException =
      Some (''Failed to delete resource.'')"
  | "own_message CreateMonitorException =
      Some (''Failed to create monitor service.'')"
  | "own_message SecurityGroupException =
      Some (''Security Group test failed'')"

definition class_rank :: "exc_class \<Rightarrow> nat" where
  "class_rank c =
     (if c = AutomationException then 0
      else if c = RestClientException_1 \<or> c = RestClientException then 1
      else if c = OtherRestClientException \<or> c = ServerRestClientException
              \<or> c = ClientRestClientException then 2
      else 3)"

lemma parent_class_rank: "parent_class c = Some p \<Longrightarrow> class_rank p < class_rank c"
  by (cases c) (auto simp: class_rank_def)

function supers :: "exc_class \<Rightarrow> exc_class list" where
  "supers c = c # (case parent_class c of None \<Rightarrow> [] | Some p \<Rightarrow> supers p)"
  by pat_completeness auto
termination
  by (relation "measure class_rank") (auto dest: parent_class_rank)

declare supers.simps [simp del]

definition isinstance_of :: "exc_class \<Rightarrow> exc_class \<Rightarrow> bool" where
  "isinstance_of c d = (d \<in> set (supers c))"

text \<open>\<open>self.message\<close>: the class attribute, looked up along the base classes.\<close>

function class_message :: "exc_class \<Rightarrow> string" where
  "class_message c =
     (case own_message c of
        Some m \<Rightarrow> m
      | None \<Rightarrow> (case parent_class c of None \<Rightarrow> [] | Some p \<Rightarrow> class_message p))"
  by pat_completeness auto
termination
  by (relation "measure class_rank") (auto dest: parent_class_rank)

declare class_message.simps [simp del]

section \<open>The text of an exception\<close>

text \<open>
  \<open>str(v)\<close>. The text of a list or of a dictionary is Python's \<open>repr\<close>, a parameter \<open>rp\<close>:
  no operation modelled here depends on it.
\<close>

fun py_text :: "(py \<Rightarrow> string) \<Rightarrow> py \<Rightarrow> string" where
  "py_text rp PNone = ''None''"
| "py_text rp (PBool b) = (if b then ''True'' else ''False'')"
| "py_text rp (PInt i) = int_str i"
| "py_text rp (PStr s) = s"
| "py_text rp v = rp v"

fun oct_str :: "nat \<Rightarrow> string" where
  "oct_str n = (if n < 8 then [digit_char n] else oct_str (n div 8) @ [digit_char (n mod 8)])"

declare oct_str.simps [simp del]

text \<open>
  One conversion of the \<open>%\<close> operator: \<open>flags\<close> are the characters between the closing
  parenthesis of the key and the conversion type. The numeric conversions raise TypeError (\<open>None\<close>) on
  anything but a number. No template of the module gives a width or a precision.
\<close>

definition is_flag :: "char \<Rightarrow> bool" where
  "is_flag c = (c = CHR ''#'' \<or> c = CHR ''0'' \<or> c = CHR ''-'' \<or> c = CHR '' '' \<or> c = CHR ''+'')"

definition py_number :: "py \<Rightarrow> int option" where
  "py_number v = (case v of PInt i \<Rightarrow> Some i | PBool b \<Rightarrow> Some (if b then 1 else 0) | _ \<Rightarrow> None)"

definition fmt_conv :: "(py \<Rightarrow> string) \<Rightarrow> string \<Rightarrow> char \<Rightarrow> py \<Rightarrow> string option" where
  "fmt_conv rp flags conv v =
     (if conv = CHR ''s'' then Some (py_text rp v)
      else if conv = CHR ''d'' \<or> conv = CHR ''i'' \<or> conv = CHR ''o'' then
        (case py_number v of
           None \<Rightarrow> None
         | Some i \<Rightarrow>
             let digits = (if conv = CHR ''o'' then oct_str (nat \<bar>i\<bar>) else nat_str (nat \<bar>i\<bar>));
                 sign = (if i < 0 then ''-'' else if CHR ''+'' \<in> set flags then ''+''
                         else if CHR '' '' \<in> set flags then '' '' else [])
             in Some (sign @ digits))
      else None)"

text \<open>\<open>template % kwargs\<close>; \<open>None\<close> is any exception the operator raises.\<close>

function fmt_kw :: "(py \<Rightarrow> string) \<Rightarrow> (string, py) dict \<Rightarrow> string \<Rightarrow> string option" where
  "fmt_kw rp kw [] = Some []"
| "fmt_kw rp kw (c # s) =
     (if c \<noteq> CHR ''%'' then map_option (\<lambda>r. c # r) (fmt_kw rp kw s)
      else case s of
        [] \<Rightarrow> None
      | d # s' \<Rightarrow>
          if d = CHR ''%'' then map_option (\<lambda>r. CHR ''%'' # r) (fmt_kw rp kw s')
          else if d \<noteq> CHR ''('' then None
          else
            (case dropWhile is_flag (tl (dropWhile (\<lambda>x. x \<noteq> CHR '')'') s')) of
               [] \<Rightarrow> None
             | conv # s'' \<Rightarrow>
                 (case dget kw (takeWhile (\<lambda>x. x \<noteq> CHR '')'') s') of
                    None \<Rightarrow> None
                  | Some v \<Rightarrow>
                      (case fmt_conv rp
                              (takeWhile is_flag (tl (dropWhile (\<lambda>x. x \<noteq> CHR '')'') s'))) conv v of
                         None \<Rightarrow> None
                       | Some t \<Rightarrow> map_option (\<lambda>r. t @ r) (fmt_kw rp kw s'')))))"
  by pat_completeness auto

lemma dropWhile_tl_shorter:
  "dropWhile P (tl (dropWhile Q s)) = c # r \<Longrightarrow> length r < length s"
proof -
  assume "dropWhile P (tl (dropWhile Q s)) = c # r"
  then have "Suc (length r) \<le> length (tl (dropWhile Q s))"
    by (metis length_Cons length_dropWhile_le)
  also have "\<dots> \<le> length s"
    by (metis diff_le_self le_trans length_dropWhile_le length_tl)
  finally show ?thesis by simp
qed

termination fmt_kw
  by (relation "measure (\<lambda>(rp, kw, s). length s)")
    (auto dest!: dropWhile_tl_shorter)

declare fmt_kw.simps [simp del]

text \<open>\<open>AutomationException.__init__\<close>: the text that \<open>__str__\<close> returns.\<close>

definition newline :: string where
  "newline = [CHR 0x0A]"

definition error_string :: "(py \<Rightarrow> string) \<Rightarrow> exc_class \<Rightarrow> py list \<Rightarrow> (string, py) dict \<Rightarrow> string" where
  "error_string rp c args kwargs =
     (let core = (case fmt_kw rp kwargs (class_message c) of None \<Rightarrow> class_message c | Some t \<Rightarrow> t)
      in if length args > 0
         then core @ newline @ ''Details: '' @ str_join newline (map (py_text rp) args)
         else core)"

text \<open>\<open>CommandFailed.__str__\<close>.\<close>

definition command_failed_str :: "int \<Rightarrow> string \<Rightarrow> string \<Rightarrow> string \<Rightarrow> string" where
  "command_failed_str returncode cmd output stderr =
     ''Command '' @ [CHR 0x27] @ cmd @ [CHR 0x27] @ '' returned non-zero exit status ''
     @ int_str returncode @ ''.'' @ newline @ ''stdout:'' @ newline @ output @ newline
     @ ''stderr:'' @ newline @ stderr"

section \<open>Raised exceptions\<close>

text \<open>
  What a Python operation of the program can raise: one of the module's exceptions, with its
  positional and keyword arguments, or a built-in one.
\<close>

datatype pyexc =
    Auto exc_class "py list" "(string \<times> py) list"
  | KeyErr string
  | IndexErr
  | TypeErr
  | ValueErr
  | AttrErr
  | AssertErr
  | StopIter
  | NotImplErr
  | IOErr
  | UnboundErr
  | OverflowErr
  | PlainExc string
  | SkipTest string

fun exc_class_of :: "pyexc \<Rightarrow> exc_class option" where
  "exc_class_of (Auto c args kw) = Some c"
| "exc_class_of _ = None"

text \<open>\<open>except C:\<close> for a class \<open>C\<close> of the module.\<close>

definition catches :: "exc_class \<Rightarrow> pyexc \<Rightarrow> bool" where
  "catches c e = (case exc_class_of e of None \<Rightarrow> False | Some d \<Rightarrow> isinstance_of d c)"

section \<open>Fallible Python operations on values\<close>

text \<open>\<open>v[k]\<close>, \<open>v.get(k, default)\<close> and \<open>k in v\<close> with a string \<open>k\<close>.\<close>

fun getitem :: "py \<Rightarrow> string \<Rightarrow> pyexc + py" where
  "getitem (PDict d) k = (case dget d k of None \<Rightarrow> Inl (KeyErr k) | Some v \<Rightarrow> Inr v)"
| "getitem _ k = Inl TypeErr"

fun py_get :: "py \<Rightarrow> string \<Rightarrow> py \<Rightarrow> pyexc + py" where
  "py_get (PDict d) k v = Inr (case dget d k of None \<Rightarrow> v | Some x \<Rightarrow> x)"
| "py_get _ k v = Inl AttrErr"

fun py_in :: "string \<Rightarrow> py \<Rightarrow> pyexc + bool" where
  "py_in k (PDict d) = Inr (dhas d k)"
| "py_in k (PStr s) = Inr (str_contains k s)"
| "py_in k (PList xs) = Inr (PStr k \<in> set xs)"
| "py_in k _ = Inl TypeErr"

text \<open>Sequencing of fallible computations without effects.\<close>

fun bindE :: "'e + 'a \<Rightarrow> ('a \<Rightarrow> 'e + 'b) \<Rightarrow> 'e + 'b" where
  "bindE (Inl e) f = Inl e"
| "bindE (Inr x) f = f x"

lemma bindE_cong [fundef_cong]:
  "m = m' \<Longrightarrow> (\<And>x. m' = Inr x \<Longrightarrow> f x = f' x) \<Longrightarrow> bindE m f = bindE m' f'"
  by (cases m') auto

lemma bindE_Inr_iff [simp]: "bindE m f = Inr y \<longleftrightarrow> (\<exists>x. m = Inr x \<and> f x = Inr y)"
  by (cases m) auto

lemma bindE_Inl_iff: "bindE m f = Inl e \<longleftrightarrow> m = Inl e \<or> (\<exists>x. m = Inr x \<and> f x = Inl e)"
  by (cases m) auto

text \<open>\<open>v.get(key)\<close>, \<open>v[0]\<close> and iterating over \<open>v\<close>.\<close>

fun py_lookup :: "py \<Rightarrow> py \<Rightarrow> pyexc + py" where
  "py_lookup (PDict d) (PStr k) = Inr (case dget d k of None \<Rightarrow> PNone | Some x \<Rightarrow> x)"
| "py_lookup (PDict d) (PList ks) = Inl TypeErr"
| "py_lookup (PDict d) (PDict ks) = Inl TypeErr"
| "py_lookup (PDict d) k = Inr PNone"
| "py_lookup v k = Inl AttrErr"

fun py_first :: "py \<Rightarrow> pyexc + py" where
  "py_first (PList xs) = (case xs of [] \<Rightarrow> Inl IndexErr | x # _ \<Rightarrow> Inr x)"
| "py_first (PStr s) = (case s of [] \<Rightarrow> Inl IndexErr | c # _ \<Rightarrow> Inr (PStr [c]))"
| "py_first (PDict d) = Inl (KeyErr ''0'')"
| "py_first v = Inl TypeErr"

fun py_iter :: "py \<Rightarrow> pyexc + py list" where
  "py_iter (PList xs) = Inr xs"
| "py_iter (PDict d) = Inr (map PStr (dkeys d))"
| "py_iter (PStr s) = Inr (map (\<lambda>c. PStr [c]) s)"
| "py_iter v = Inl TypeErr"

text \<open>\<open>[x for x in xs if p(x)]\<close>, and a text used where only a text will do.\<close>

fun filterE :: "('a \<Rightarrow> 'e + bool) \<Rightarrow> 'a list \<Rightarrow> 'e + 'a list" where
  "filterE p [] = Inr []"
| "filterE p (x # xs) =
     (case p x of Inl e \<Rightarrow> Inl e
      | Inr b \<Rightarrow> (case filterE p xs of Inl e \<Rightarrow> Inl e | Inr ys \<Rightarrow> Inr (if b then x # ys else ys)))"

fun as_str :: "pyexc \<Rightarrow> py \<Rightarrow> pyexc + string" where
  "as_str e (PStr s) = Inr s"
| "as_str e _ = Inl e"

lemma filterE_total:
  "(\<And>x. x \<in> set xs \<Longrightarrow> f x = Inr (q x)) \<Longrightarrow> filterE f xs = Inr (filter q xs)"
  by (induction xs) auto

end
