(* ===== verification/World.thy ===== *)
theory World
  imports Exceptions
begin

text \<open>
  Effects: the world a client acts on, computations that may raise, and the loops that poll.

  A computation is a function from the world to a result and a new world; a raised exception keeps
  the effects that came before it. The world holds the clock, the state of the remote services and
  the history of what was sent and slept. The remote services are code that is not in the
  repository: a \<open>server\<close> is a parameter, any function from a request and the services' state to a
  response (or a transport error), the new state and the time it takes.
\<close>

section \<open>Computations\<close>

type_synonym ('w, 'a) io = "'w \<Rightarrow> (pyexc + 'a) \<times> 'w"

definition ret :: "'a \<Rightarrow> ('w, 'a) io" where
  "ret x = (\<lambda>w. (Inr x, w))"

definition throw :: "pyexc \<Rightarrow> ('w, 'a) io" where
  "throw e = (\<lambda>w. (Inl e, w))"

definition lift :: "pyexc + 'a \<Rightarrow> ('w, 'a) io" where
  "lift r = (\<lambda>w. (r, w))"

definition bnd :: "('w, 'a) io \<Rightarrow> ('a \<Rightarrow> ('w, 'b) io) \<Rightarrow> ('w, 'b) io" where
  "bnd m f = (\<lambda>w. case m w of (Inl e, w') \<Rightarrow> (Inl e, w') | (Inr x, w') \<Rightarrow> f x w')"

text \<open>\<open>try: m / except ...: h\<close>; the handler says which exceptions it takes.\<close>

definition catch :: "('w, 'a) io \<Rightarrow> (pyexc \<Rightarrow> ('w, 'a) io option) \<Rightarrow> ('w, 'a) io" where
  "catch m h =
     (\<lambda>w. case m w of
            (Inl e, w') \<Rightarrow> (case h e of None \<Rightarrow> (Inl e, w') | Some k \<Rightarrow> k w')
          | (Inr x, w') \<Rightarrow> (Inr x, w'))"

text \<open>Reading and writing the state.\<close>

definition gets :: "('w \<Rightarrow> 'a) \<Rightarrow> ('w, 'a) io" where
  "gets f = (\<lambda>w. (Inr (f w), w))"

definition modify :: "('w \<Rightarrow> 'w) \<Rightarrow> ('w, unit) io" where
  "modify f = (\<lambda>w. (Inr (), f w))"

text \<open>\<open>for x in xs: f(x)\<close>.\<close>

primrec for_each :: "'a list \<Rightarrow> ('a \<Rightarrow> ('w, unit) io) \<Rightarrow> ('w, unit) io" where
  "for_each [] f = ret ()"
| "for_each (x # xs) f = bnd (f x) (\<lambda>_. for_each xs f)"

lemma ret_apply [simp]: "ret x w = (Inr x, w)"
  by (simp add: ret_def)

lemma throw_apply [simp]: "throw e w = (Inl e, w)"
  by (simp add: throw_def)

lemma lift_apply [simp]: "lift r w = (r, w)"
  by (simp add: lift_def)

lemma gets_apply [simp]: "gets f w = (Inr (f w), w)"
  by (simp add: gets_def)

lemma modify_apply [simp]: "modify f w = (Inr (), f w)"
  by (simp add: modify_def)

lemma bnd_ret [simp]: "bnd (ret x) f = f x"
  by (simp add: bnd_def fun_eq_iff)

lemma bnd_throw [simp]: "bnd (throw e) f = throw e"
  by (simp add: bnd_def fun_eq_iff)

lemma bnd_apply: "bnd m f w = (case m w of (Inl e, w') \<Rightarrow> (Inl e, w') | (Inr x, w') \<Rightarrow> f x w')"
  by (simp add: bnd_def)

lemma bnd_Inr: "m w = (Inr x, w') \<Longrightarrow> bnd m f w = f x w'"
  by (simp add: bnd_def)

lemma bnd_Inl: "m w = (Inl e, w') \<Longrightarrow> bnd m f w = (Inl e, w')"
  by (simp add: bnd_def)

lemma bnd_assoc: "bnd (bnd m f) g = bnd m (\<lambda>x. bnd (f x) g)"
  by (rule ext) (simp add: bnd_def split: prod.splits sum.splits)

lemma bnd_InrE:
  assumes "bnd m f w = (Inr y, w'')"
  obtains x w' where "m w = (Inr x, w')" "f x w' = (Inr y, w'')"
  using assms by (auto simp: bnd_def split: prod.splits sum.splits)

lemma bnd_InlE:
  assumes "bnd m f w = (Inl e, w'')"
  obtains "m w = (Inl e, w'')" | x w' where "m w = (Inr x, w')" "f x w' = (Inl e, w'')"
  using assms by (auto simp: bnd_def split: prod.splits sum.splits)

section \<open>Invariants of computations\<close>

text \<open>
  A computation is within a relation when every run, whatever its result, relates the world before
  to the world after; a reflexive and transitive relation passes through sequencing and handlers.
\<close>

named_theorems within_intros \<open>computations that respect a relation\<close>

definition within :: "('w \<Rightarrow> 'w \<Rightarrow> bool) \<Rightarrow> ('w, 'a) io \<Rightarrow> bool" where
  "within R m = (\<forall>w. R w (snd (m w)))"

lemma withinI: "(\<And>w r w'. m w = (r, w') \<Longrightarrow> R w w') \<Longrightarrow> within R m"
  by (metis prod.collapse within_def)

lemma withinD: "within R m \<Longrightarrow> m w = (r, w') \<Longrightarrow> R w w'"
  by (metis within_def snd_conv)

lemma within_pure:
  assumes "reflp R"
  shows "within R (ret x)" "within R (throw e)" "within R (lift r)" "within R (gets f)"
  using assms by (auto simp: within_def reflp_def)

lemma within_bnd:
  assumes R: "transp R" and m: "within R m" and f: "\<And>x. within R (f x)"
  shows "within R (bnd m f)"
proof (rule withinI)
  fix w r w''
  assume run: "bnd m f w = (r, w'')"
  obtain r' w' where first: "m w = (r', w')" by (cases "m w")
  with m have "R w w'" by (rule withinD)
  then show "R w w''"
    using run first R by (cases r') (auto simp: bnd_def dest!: withinD [OF f] dest: transpD)
qed

lemma within_modify: "(\<And>w. R w (f w)) \<Longrightarrow> within R (modify f)"
  by (simp add: within_def)

lemma within_catch:
  assumes R: "transp R" and m: "within R m" and h: "\<And>e k. h e = Some k \<Longrightarrow> within R k"
  shows "within R (catch m h)"
proof (rule withinI)
  fix w r w''
  assume run: "catch m h w = (r, w'')"
  obtain r' w' where first: "m w = (r', w')" by (cases "m w")
  with m have "R w w'" by (rule withinD)
  then show "R w w''"
    using run first R
    by (cases r') (auto simp: catch_def split: option.splits dest!: withinD [OF h] dest: transpD)
qed

section \<open>The world of an HTTP client\<close>

record http_request =
  rq_method :: string
  rq_url :: string
  rq_headers :: "(string, string) dict"
  rq_body :: py

text \<open>
  An \<open>httplib2.Response\<close>: a dictionary of headers (one of them \<open>status\<close>) with the status code as
  an attribute.
\<close>

record http_response =
  rs_status :: int
  rs_headers :: "(string, string) dict"

text \<open>The clock counts microseconds. \<open>sent\<close> and \<open>naps\<close> record the requests and the sleeps, in order.\<close>

record 'r world =
  now :: int
  remote :: 'r
  sent :: "http_request list"
  naps :: "int list"

type_synonym 'r server = "http_request \<Rightarrow> 'r \<Rightarrow> (pyexc + http_response \<times> string) \<times> 'r \<times> nat"

definition http_send :: "'r server \<Rightarrow> http_request \<Rightarrow> (('r, 'x) world_scheme, http_response \<times> string) io" where
  "http_send srv rq w =
     (case srv rq (remote w) of (res, r', t) \<Rightarrow>
        (res, w\<lparr>now := now w + int t, remote := r', sent := sent w @ [rq]\<rparr>))"

text \<open>\<open>int(time.time())\<close> and \<open>time.sleep(n)\<close>, which refuses a negative argument.\<close>

definition time_int :: "('r, 'x) world_scheme \<Rightarrow> int" where
  "time_int w = now w div 1000000"

definition sleep :: "int \<Rightarrow> (('r, 'x) world_scheme, unit) io" where
  "sleep n w =
     (if n < 0 then (Inl IOErr, w)
      else (Inr (), w\<lparr>now := now w + n * 1000000, naps := naps w @ [n]\<rparr>))"

lemma time_int_sleep [simp]: "time_int (w\<lparr>now := now w + n * 1000000, naps := ns\<rparr>) = time_int w + n"
  by (simp add: time_int_def)

text \<open>\<open>ClosingHttp.request\<close> of \<open>common/http.py\<close>: every request asks for the connection to be closed.\<close>

definition closing_request ::
    "'r server \<Rightarrow> string \<Rightarrow> string \<Rightarrow> (string, string) dict \<Rightarrow> py
     \<Rightarrow> (('r, 'x) world_scheme, http_response \<times> string) io" where
  "closing_request srv url method hs body =
     http_send srv
       \<lparr>rq_method = method, rq_url = url, rq_headers = dset hs ''connection'' ''close'', rq_body = body\<rparr>"

section \<open>Time only moves forward\<close>

named_theorems mono_intros \<open>computations that never set the clock back\<close>

definition time_mono :: "(('r, 'x) world_scheme, 'a) io \<Rightarrow> bool" where
  "time_mono m = (\<forall>w. now w \<le> now (snd (m w)))"

lemma time_monoD: "time_mono m \<Longrightarrow> m w = (r, w') \<Longrightarrow> now w \<le> now w'"
  by (metis time_mono_def snd_conv)

lemma time_monoI: "(\<And>w r w'. m w = (r, w') \<Longrightarrow> now w \<le> now w') \<Longrightarrow> time_mono m"
  by (metis prod.collapse time_mono_def)

lemma time_int_mono: "now w \<le> now w' \<Longrightarrow> time_int w \<le> time_int w'"
  by (simp add: time_int_def zdiv_mono1)

lemma time_mono_ret [mono_intros]: "time_mono (ret x)"
  by (simp add: time_mono_def)

lemma time_mono_throw [mono_intros]: "time_mono (throw e)"
  by (simp add: time_mono_def)

lemma time_mono_gets [mono_intros]: "time_mono (gets f)"
  by (simp add: time_mono_def)

lemma time_mono_modify: "(\<And>w. now (f w) = now w) \<Longrightarrow> time_mono (modify f)"
  by (simp add: time_mono_def)

lemma time_mono_lift [mono_intros]: "time_mono (lift r)"
  by (simp add: time_mono_def)

lemma time_mono_bnd [mono_intros]:
  assumes "time_mono m" "\<And>x. time_mono (f x)"
  shows "time_mono (bnd m f)"
proof (rule time_monoI)
  fix w r w''
  assume run: "bnd m f w = (r, w'')"
  obtain r' w' where m: "m w = (r', w')" by (cases "m w")
  then have le: "now w \<le> now w'" using assms(1) by (blast dest: time_monoD)
  show "now w \<le> now w''"
    using run m le
    by (cases r') (auto simp: bnd_def dest!: time_monoD [OF assms(2)])
qed

lemma time_mono_catch [mono_intros]:
  assumes "time_mono m" "\<And>e k. h e = Some k \<Longrightarrow> time_mono k"
  shows "time_mono (catch m h)"
proof (rule time_monoI)
  fix w r w''
  assume run: "catch m h w = (r, w'')"
  obtain r' w' where m: "m w = (r', w')" by (cases "m w")
  then have le: "now w \<le> now w'" using assms(1) by (blast dest: time_monoD)
  show "now w \<le> now w''"
    using run m le
    by (cases r') (auto simp: catch_def split: option.splits dest!: assms(2) dest: time_monoD)
qed

lemma time_mono_http_send [mono_intros]: "time_mono (http_send srv rq)"
  by (rule time_monoI) (auto simp: http_send_def split: prod.splits)

lemma time_mono_closing_request [mono_intros]: "time_mono (closing_request srv url m hs b)"
  unfolding closing_request_def by (rule time_mono_http_send)

lemma time_mono_sleep [mono_intros]: "time_mono (sleep n)"
  by (rule time_monoI) (auto simp: sleep_def split: if_splits)

lemma time_mono_if [mono_intros]: "time_mono a \<Longrightarrow> time_mono b \<Longrightarrow> time_mono (if c then a else b)"
  by simp

lemma time_mono_for_each [mono_intros]:
  "(\<And>x. x \<in> set xs \<Longrightarrow> time_mono (f x)) \<Longrightarrow> time_mono (for_each xs f)"
  by (induction xs) (auto intro!: mono_intros)

section \<open>Polling loops\<close>

text \<open>
  \<open>while True:\<close> with a body that raises, returns (\<open>Inr\<close>) or goes round again (\<open>Inl\<close>, with the loop's
  variables). The result is \<open>None\<close> when the loop never ends.
\<close>

partial_function (option) loop_io ::
    "('s \<Rightarrow> ('w, 's + 'a) io) \<Rightarrow> 's \<Rightarrow> 'w \<Rightarrow> ((pyexc + 'a) \<times> 'w) option" where
  "loop_io body s w =
     (case body s w of
        (Inl e, w') \<Rightarrow> Some (Inl e, w')
      | (Inr (Inl s'), w') \<Rightarrow> loop_io body s' w'
      | (Inr (Inr a), w') \<Rightarrow> Some (Inr a, w'))"

text \<open>
  The contract of a loop that ends: every round that goes on keeps the invariant and makes the
  measure smaller.
\<close>

locale bounded_loop =
  fixes body :: "'s \<Rightarrow> ('w, 's + 'a) io"
    and inv :: "'s \<Rightarrow> 'w \<Rightarrow> bool"
    and meas :: "'s \<Rightarrow> 'w \<Rightarrow> nat"
  assumes keeps: "inv s w \<Longrightarrow> body s w = (Inr (Inl s'), w') \<Longrightarrow> inv s' w'"
    and shrinks: "inv s w \<Longrightarrow> body s w = (Inr (Inl s'), w') \<Longrightarrow> meas s' w' < meas s w"
begin

lemma exit_round:
  "inv s w \<Longrightarrow>
   \<exists>s1 w1 r w'. inv s1 w1 \<and> loop_io body s w = Some (r, w')
     \<and> (body s1 w1 = (Inl (projl r), w') \<and> isl r
        \<or> body s1 w1 = (Inr (Inr (projr r)), w') \<and> \<not> isl r)"
proof (induction "meas s w" arbitrary: s w rule: less_induct)
  case less
  obtain r w' where run: "body s w = (r, w')" by (cases "body s w")
  show ?case
  proof (cases r)
    case (Inl e)
    with run less.prems show ?thesis
      by (intro exI [of _ s] exI [of _ w] exI [of _ "Inl e"] exI [of _ w'])
        (simp add: loop_io.simps)
  next
    case (Inr x)
    show ?thesis
    proof (cases x)
      case (Inl s')
      with run \<open>r = Inr x\<close> have go: "body s w = (Inr (Inl s'), w')" by simp
      then have "inv s' w'" "meas s' w' < meas s w"
        using less.prems keeps shrinks by blast+
      from less.hyps [OF this(2,1)] go show ?thesis
        by (simp add: loop_io.simps [of body s w])
    next
      case (Inr a)
      with run \<open>r = Inr x\<close> less.prems show ?thesis
        by (intro exI [of _ s] exI [of _ w] exI [of _ "Inr a"] exI [of _ w'])
          (simp add: loop_io.simps)
    qed
  qed
qed

lemma terminates: "inv s w \<Longrightarrow> \<exists>r w'. loop_io body s w = Some (r, w')"
  using exit_round by blast

lemma returned:
  assumes "inv s w" "loop_io body s w = Some (Inr a, w')"
  shows "\<exists>s1 w1. inv s1 w1 \<and> body s1 w1 = (Inr (Inr a), w')"
  using exit_round [OF assms(1)] assms(2) by auto

lemma raised:
  assumes "inv s w" "loop_io body s w = Some (Inl e, w')"
  shows "\<exists>s1 w1. inv s1 w1 \<and> body s1 w1 = (Inl e, w')"
  using exit_round [OF assms(1)] assms(2) by auto

end

text \<open>
  The most common loop: look, give up when the timeout since the start has passed, else sleep. It ends
  when the looking does not turn back the clock and the interval is at least one second (\<open>fair\<close>).
\<close>

locale clocked_loop =
  fixes round :: "int \<Rightarrow> (('r, 'x) world_scheme, int + 'a) io"
    and timeout interval start :: int
    and fair :: bool
  assumes goes_round: "fair \<Longrightarrow> round s w = (Inr (Inl s'), w') \<Longrightarrow>
      \<exists>t. s' = s \<and> time_int w \<le> t \<and> t - s < timeout \<and> time_int w' = t + interval \<and> 1 \<le> interval"
begin

sublocale bounded_loop round "\<lambda>s _. fair \<and> s = start" "\<lambda>s w. nat (s + timeout - time_int w)"
  by unfold_locales (auto dest!: goes_round)

end

end
