(* ===== verification/RestCore.thy ===== *)
theory RestCore
  imports World
begin

text \<open>
  The parts of \<open>automation/common/rest_client.py\<close> that look at one response: the default headers,
  the unauthenticated \<open>raw_request\<close>, the RFC checks, the decoding of a body, the classification of an
  error response and the validation of a success response.

  The code outside the repository is collected in an \<open>env\<close>: the services reached over HTTP
  (\<open>e_srv\<close>), the JSON codec of \<open>oslo_serialization\<close> (\<open>e_loads\<close>, with \<open>None\<close> for a ValueError, and
  \<open>e_dumps\<close>), the \<open>jsonschema\<close> validator (\<open>e_valid\<close>, with the message of a ValidationError) and
  Python's \<open>repr\<close> of a container (\<open>e_repr\<close>).
\<close>

record 'r env =
  e_srv :: "'r server"
  e_loads :: "string \<Rightarrow> py option"
  e_dumps :: "py \<Rightarrow> string"
  e_valid :: "py \<Rightarrow> py \<Rightarrow> string option"
  e_repr :: "py \<Rightarrow> string"

section \<open>The client object\<close>

record rest_client =
  rc_service :: py
  rc_region :: py
  rc_endpoint_type :: py
  rc_build_interval :: int
  rc_build_timeout :: int
  rc_api_version :: py
  rc_skip_path :: bool

text \<open>\<open>RestClient.__init__\<close>: the defaults are \<open>publicURL\<close>, one second and sixty seconds.\<close>

definition rest_client_init :: "py \<Rightarrow> py \<Rightarrow> rest_client" where
  "rest_client_init service region =
     \<lparr>rc_service = service, rc_region = region, rc_endpoint_type = PStr ''publicURL'',
      rc_build_interval = 1, rc_build_timeout = 60, rc_api_version = PNone, rc_skip_path = False\<rparr>"

definition general_header_lc :: "string list" where
  "general_header_lc = [''cache-control'', ''connection'', ''date'', ''pragma'', ''trailer'',
     ''transfer-encoding'', ''via'', ''warning'']"

definition response_header_lc :: "string list" where
  "response_header_lc = [''accept-ranges'', ''age'', ''etag'', ''location'', ''proxy-authenticate'',
     ''retry-after'', ''server'', ''vary'', ''www-authenticate'']"

definition filters :: "rest_client \<Rightarrow> (string, py) dict" where
  "filters c =
     (let f0 = [(''service'', rc_service c), (''endpoint_type'', rc_endpoint_type c),
                (''region'', rc_region c)];
          f1 = (if \<not> is_none (rc_api_version c) then dset f0 ''api_version'' (rc_api_version c) else f0)
      in if rc_skip_path c then dset f1 ''skip_path'' (PBool (rc_skip_path c)) else f1)"

definition skip_path :: "rest_client \<Rightarrow> rest_client" where
  "skip_path c = c\<lparr>rc_skip_path := True\<rparr>"

definition reset_path :: "rest_client \<Rightarrow> rest_client" where
  "reset_path c = c\<lparr>rc_skip_path := False\<rparr>"

text \<open>\<open>TYPE\<close> is \<open>json\<close> in every client; \<open>None\<close> arguments stand for it.\<close>

definition get_headers :: "string option \<Rightarrow> string option \<Rightarrow> (string, string) dict" where
  "get_headers accept_type send_type =
     (let acc = (case accept_type of None \<Rightarrow> ''json'' | Some t \<Rightarrow> t);
          snd = (case send_type of None \<Rightarrow> ''json'' | Some t \<Rightarrow> t)
      in [(''Content-Type'', ''application/'' @ snd), (''Accept'', ''application/'' @ acc)])"

definition raw_request ::
    "'r env \<Rightarrow> string \<Rightarrow> string \<Rightarrow> (string, string) dict option \<Rightarrow> py
     \<Rightarrow> (('r, 'x) world_scheme, http_response \<times> string) io" where
  "raw_request env url method hs body =
     closing_request (e_srv env) url method
       (case hs of None \<Rightarrow> get_headers None None | Some h \<Rightarrow> h) body"

lemma time_mono_raw_request [mono_intros]: "time_mono (raw_request env url m hs b)"
  unfolding raw_request_def by (rule time_mono_closing_request)

section \<open>Success codes\<close>

definition HTTP_SUCCESS :: "int list" where
  "HTTP_SUCCESS = [200, 201, 202, 203, 204, 205, 206, 207]"

definition HTTP_REDIRECTION :: "int list" where
  "HTTP_REDIRECTION = [300, 301, 302, 303, 304, 305, 306, 307]"

datatype exp_code = Code int | Codes "int list"

fun exp_codes :: "exp_code \<Rightarrow> int list" where
  "exp_codes (Code c) = [c]"
| "exp_codes (Codes cs) = cs"

fun exp_text :: "exp_code \<Rightarrow> string" where
  "exp_text (Code c) = int_str c"
| "exp_text (Codes cs) = ''['' @ str_join '', '' (map int_str cs) @ '']''"

definition expected_success :: "exp_code \<Rightarrow> int \<Rightarrow> pyexc + unit" where
  "expected_success expected_code read_code =
     (if \<not> list_all (\<lambda>c. c \<in> set (HTTP_SUCCESS @ HTTP_REDIRECTION)) (exp_codes expected_code)
      then Inl AssertErr
      else if read_code < 400 \<and> read_code \<notin> set (exp_codes expected_code)
      then Inl (Auto InvalidHttpSuccessCode
             [PStr (''Unexpected http success status code '' @ int_str read_code @ '','' @ newline
                    @ ''                         The expected status code is ''
                    @ exp_text expected_code)] [])
      else Inr ())"

lemma expected_success_iff:
  "expected_success ec rc = Inr () \<longleftrightarrow>
     (\<forall>c \<in> set (exp_codes ec). (200 \<le> c \<and> c \<le> 207) \<or> (300 \<le> c \<and> c \<le> 307))
     \<and> (400 \<le> rc \<or> rc \<in> set (exp_codes ec))"
proof -
  have "c \<in> set (HTTP_SUCCESS @ HTTP_REDIRECTION) \<longleftrightarrow>
        (200 \<le> c \<and> c \<le> 207) \<or> (300 \<le> c \<and> c \<le> 307)" for c :: int
    unfolding HTTP_SUCCESS_def HTTP_REDIRECTION_def by auto
  then show ?thesis
    by (auto simp: expected_success_def list_all_iff)
qed

section \<open>RFC checks\<close>

definition response_checker :: "string \<Rightarrow> http_response \<Rightarrow> string \<Rightarrow> pyexc + unit" where
  "response_checker method resp resp_body =
     (if (rs_status resp \<in> {204, 205, 304} \<or> rs_status resp < 200 \<or> str_upper method = ''HEAD'')
         \<and> resp_body \<noteq> []
      then Inl (Auto ResponseWithNonEmptyBody [] [(''status'', PInt (rs_status resp))])
      else if rs_status resp = 205
         \<and> set (dkeys (rs_headers resp)) - {''status''} - set response_header_lc - set general_header_lc \<noteq> {}
      then Inl (Auto ResponseWithEntity [] [])
      else Inr ())"

section \<open>Decoding a body\<close>

text \<open>
  \<open>_parse_resp\<close>: a document with a single top-level key whose value is a container is unwrapped. A
  document that is not an object has no \<open>keys\<close> (AttributeError), and \<open>six.next\<close> on an empty
  object raises StopIteration; neither is caught.
\<close>

definition parse_resp :: "'r env \<Rightarrow> string \<Rightarrow> pyexc + py" where
  "parse_resp env body =
     (case e_loads env body of
        None \<Rightarrow> Inr (PStr body)
      | Some (PDict d) \<Rightarrow>
          if length d > 1 then Inr (PDict d)
          else (case d of
                  [] \<Rightarrow> Inl StopIter
                | (first_key, first_item) # _ \<Rightarrow>
                    (case first_item of
                       PDict _ \<Rightarrow> Inr first_item
                     | PList _ \<Rightarrow> Inr first_item
                     | _ \<Rightarrow> Inr (PDict d)))
      | Some _ \<Rightarrow> Inl AttrErr)"

section \<open>Classifying an error response\<close>

definition resp_val :: "http_response \<Rightarrow> py" where
  "resp_val resp = PDict (map (\<lambda>(k, v). (k, PStr v)) (rs_headers resp))"

definition is_absolute_limit :: "http_response \<Rightarrow> py \<Rightarrow> pyexc + bool" where
  "is_absolute_limit resp resp_body =
     (case resp_body of
        PDict d \<Rightarrow>
          if \<not> dhas (rs_headers resp) ''retry-after'' then Inr True
          else (let over_limit = (case dget d ''overLimit'' of None \<Rightarrow> PNone | Some v \<Rightarrow> v)
                in if \<not> truthy over_limit then Inr True
                   else bindE (py_get over_limit ''message'' (PStr ''blabla'')) (py_in ''exceed''))
      | _ \<Rightarrow> Inr True)"

definition JSON_ENC :: "string list" where
  "JSON_ENC = [''application/json'', ''application/json; charset=utf-8'']"

definition TXT_ENC :: "string list" where
  "TXT_ENC = [''text/plain'', ''text/html'', ''text/html; charset=utf-8'', ''text/plain; charset=utf-8'']"

text \<open>\<open>if parse_resp: resp_body = self._parse_resp(resp_body)\<close>.\<close>

definition decoded :: "'r env \<Rightarrow> bool \<Rightarrow> string \<Rightarrow> pyexc + py" where
  "decoded env parse body = (if parse then parse_resp env body else Inr (PStr body))"

definition raise_with :: "exc_class \<Rightarrow> http_response \<Rightarrow> py \<Rightarrow> pyexc + unit" where
  "raise_with c resp body = Inl (Auto c [body] [(''resp'', resp_val resp)])"

text \<open>The message of a 500 or 501 response.\<close>

definition fault_message :: "py \<Rightarrow> py \<Rightarrow> pyexc + py" where
  "fault_message message resp_body =
     (case resp_body of
        PDict d \<Rightarrow>
          if dhas d ''cloudServersFault''
          then bindE (getitem resp_body ''cloudServersFault'') (\<lambda>v. getitem v ''message'')
          else if dhas d ''computeFault''
          then bindE (getitem resp_body ''computeFault'') (\<lambda>v. getitem v ''message'')
          else if dhas d ''error''
          then bindE (getitem resp_body ''error'') (\<lambda>v. getitem v ''message'')
          else if dhas d ''message'' then getitem resp_body ''message''
          else Inr message
      | _ \<Rightarrow> Inr resp_body)"

definition server_fault :: "'r env \<Rightarrow> bool \<Rightarrow> http_response \<Rightarrow> string \<Rightarrow> pyexc + unit" where
  "server_fault env parse resp resp_body =
     bindE (if parse
            then bindE (parse_resp env resp_body)
                   (\<lambda>b. bindE (fault_message (PStr resp_body) b) (\<lambda>m. Inr (b, m)))
            else Inr (PStr resp_body, PStr resp_body))
       (\<lambda>(b, m).
          Inl (Auto (if rs_status resp = 501 then NotImplemented else ServerFault) [b]
                 [(''resp'', resp_val resp), (''message'', m)]))"

definition error_checker :: "'r env \<Rightarrow> http_response \<Rightarrow> string \<Rightarrow> pyexc + unit" where
  "error_checker env resp resp_body =
     (let ctype = str_lower (case dget (rs_headers resp) ''content-type'' of
                               None \<Rightarrow> ''application/json'' | Some t \<Rightarrow> t);
          st = rs_status resp;
          parse = (ctype \<in> set JSON_ENC);
          simple = (\<lambda>c. bindE (decoded env parse resp_body) (raise_with c resp))
      in if st < 400 then Inr ()
         else if \<not> parse \<and> ctype \<notin> set TXT_ENC
         then Inl (Auto UnexpectedContentType [PStr (int_str st)] [(''resp'', resp_val resp)])
         else if st = 401 then simple Unauthorized
         else if st = 403 then simple Forbidden
         else if st = 404 then simple NotFound
         else if st = 400 then simple BadRequest
         else if st = 409 then simple Conflict
         else if st = 413 then
           bindE (decoded env parse resp_body)
             (\<lambda>b. bindE (is_absolute_limit resp b)
                (\<lambda>absolute. raise_with (if absolute then OverLimit else RateLimitExceeded) resp b))
         else if st = 415 then simple InvalidContentType
         else if st = 422 then simple UnprocessableEntity
         else if st = 500 \<or> st = 501 then server_fault env parse resp resp_body
         else Inl (Auto UnexpectedResponseCode [PStr (int_str st)] [(''resp'', resp_val resp)]))"

text \<open>Every response with a status of 400 or more raises, and no other.\<close>

lemma server_fault_raises: "server_fault env parse resp b \<noteq> Inr u"
  by (auto simp: server_fault_def split: prod.splits)

lemma error_checker_Inr_iff: "error_checker env resp b = Inr u \<longleftrightarrow> rs_status resp < 400"
  by (auto simp: error_checker_def Let_def raise_with_def server_fault_raises
        split: if_splits)

section \<open>Validating a success response\<close>

record response_schema =
  sc_status :: exp_code
  sc_body :: py
  sc_header :: py

definition check_body :: "'r env \<Rightarrow> response_schema \<Rightarrow> py \<Rightarrow> pyexc + unit" where
  "check_body env schema body =
     (if truthy (sc_body schema) then
        (case e_valid env body (sc_body schema) of
           None \<Rightarrow> Inr ()
         | Some ex \<Rightarrow> Inl (Auto InvalidHTTPResponseBody
             [PStr (''HTTP response body is invalid ('' @ ex @ '')'')] []))
      else if truthy body
      then Inl (Auto InvalidHTTPResponseBody
             [PStr (''HTTP response body should not exist ('' @ py_text (e_repr env) body @ '')'')] [])
      else Inr ())"

definition check_header :: "'r env \<Rightarrow> response_schema \<Rightarrow> http_response \<Rightarrow> pyexc + unit" where
  "check_header env schema resp =
     (if truthy (sc_header schema) then
        (case e_valid env (resp_val resp) (sc_header schema) of
           None \<Rightarrow> Inr ()
         | Some ex \<Rightarrow> Inl (Auto InvalidHTTPResponseHeader
             [PStr (''HTTP response header is invalid ('' @ ex @ '')'')] []))
      else Inr ())"

definition validate_response ::
    "'r env \<Rightarrow> response_schema \<Rightarrow> http_response \<Rightarrow> py \<Rightarrow> pyexc + unit" where
  "validate_response env schema resp body =
     (if rs_status resp \<in> set (HTTP_SUCCESS @ HTTP_REDIRECTION) then
        bindE (expected_success (sc_status schema) (rs_status resp))
          (\<lambda>_. bindE (check_body env schema body) (\<lambda>_. check_header env schema resp))
      else Inr ())"

section \<open>What a client method returns\<close>

text \<open>
  \<open>ResponseBody\<close>: \<open>dict.update\<close> with a falsy body adds nothing; a non-empty list or text is not a
  sequence of pairs (ValueError), a number is not iterable (TypeError).
\<close>

record response_body =
  rb_response :: http_response
  rb_data :: "(string \<times> py) list"

fun response_dict :: "http_response \<Rightarrow> py \<Rightarrow> pyexc + response_body" where
  "response_dict resp (PDict d) = Inr \<lparr>rb_response = resp, rb_data = d\<rparr>"
| "response_dict resp (PStr s) =
     (if s = [] then Inr \<lparr>rb_response = resp, rb_data = []\<rparr> else Inl ValueErr)"
| "response_dict resp (PList xs) =
     (if xs = [] then Inr \<lparr>rb_response = resp, rb_data = []\<rparr> else Inl ValueErr)"
| "response_dict resp PNone = Inr \<lparr>rb_response = resp, rb_data = []\<rparr>"
| "response_dict resp (PBool b) =
     (if b then Inl TypeErr else Inr \<lparr>rb_response = resp, rb_data = []\<rparr>)"
| "response_dict resp (PInt i) =
     (if i \<noteq> 0 then Inl TypeErr else Inr \<lparr>rb_response = resp, rb_data = []\<rparr>)"

text \<open>\<open>ResponseBodyList\<close>: \<open>list.extend\<close> takes any iterable.\<close>

record response_list =
  rl_response :: http_response
  rl_data :: "py list"

fun response_list_of :: "http_response \<Rightarrow> py \<Rightarrow> pyexc + response_list" where
  "response_list_of resp (PList xs) = Inr \<lparr>rl_response = resp, rl_data = xs\<rparr>"
| "response_list_of resp (PDict d) =
     Inr \<lparr>rl_response = resp, rl_data = map PStr (dkeys d)\<rparr>"
| "response_list_of resp (PStr s) = Inr \<lparr>rl_response = resp, rl_data = map (\<lambda>c. PStr [c]) s\<rparr>"
| "response_list_of resp v =
     (if truthy v then Inl TypeErr else Inr \<lparr>rl_response = resp, rl_data = []\<rparr>)"

end
