(* ===== verification/TokenClient.thy ===== *)
theory TokenClient
  imports RestCore
begin

text \<open>
  The token clients of \<open>services/identity/v2/token_client.py\<close> and
  \<open>services/identity/v3/token_client.py\<close>: the authentication documents they send and the reading of
  the answer. Both override \<open>request\<close>, so nothing here passes through the authentication provider.
\<close>

section \<open>The request\<close>

text \<open>\<open>json.loads\<close>.\<close>

definition loads :: "'r env \<Rightarrow> string \<Rightarrow> pyexc + py" where
  "loads env s = (case e_loads env s of None \<Rightarrow> Inl ValueErr | Some v \<Rightarrow> Inr v)"

lemma loads_Inr_iff [simp]: "loads env s = Inr v \<longleftrightarrow> e_loads env s = Some v"
  by (simp add: loads_def split: option.splits)

text \<open>The answer of the identity service, with the status codes the client accepts.\<close>

definition token_answer :: "'r env \<Rightarrow> int list \<Rightarrow> http_response \<Rightarrow> string \<Rightarrow> pyexc + (http_response \<times> py)" where
  "token_answer env accepted resp resp_body =
     (if rs_status resp = 401 \<or> rs_status resp = 403 then
        bindE (loads env resp_body) (\<lambda>b.
          bindE (getitem b ''error'') (\<lambda>e.
            bindE (getitem e ''message'') (\<lambda>m. Inl (Auto Unauthorized [m] []))))
      else if rs_status resp \<notin> set accepted then
        Inl (Auto IdentityError [PStr (''Unexpected status code '' @ int_str (rs_status resp))] [])
      else bindE (loads env resp_body) (\<lambda>b. Inr (resp, b)))"

definition token_request ::
    "'r env \<Rightarrow> int list \<Rightarrow> string \<Rightarrow> string \<Rightarrow> bool \<Rightarrow> (string, string) dict option \<Rightarrow> py
     \<Rightarrow> (('r, 'x) world_scheme, http_response \<times> py) io" where
  "token_request env accepted method url extra_headers hs body =
     (let own = get_headers (Some ''json'') None;
          h = (case hs of None \<Rightarrow> own | Some h0 \<Rightarrow> if extra_headers then dupdate h0 own else h0)
      in bnd (raw_request env url method (Some h) body)
           (\<lambda>(resp, resp_body). lift (token_answer env accepted resp resp_body)))"

definition v2_accepted :: "int list" where
  "v2_accepted = [200, 201]"

definition v3_accepted :: "int list" where
  "v3_accepted = [200, 201, 204]"

text \<open>The address of the token resource, normalised by the constructors.\<close>

definition v2_token_url :: "string \<Rightarrow> string" where
  "v2_token_url auth_url =
     (if \<not> str_contains ''tokens'' auth_url then str_rstrip CHR ''/'' auth_url @ ''/tokens''
      else auth_url)"

definition v3_token_url :: "string \<Rightarrow> string" where
  "v3_token_url auth_url =
     (if \<not> str_contains ''auth/tokens'' auth_url
      then str_rstrip CHR ''/'' auth_url @ ''/auth/tokens'' else auth_url)"

section \<open>Version 2\<close>

definition v2_auth_body :: "py \<Rightarrow> py \<Rightarrow> py \<Rightarrow> py" where
  "v2_auth_body user password tenant =
     (let a0 = [(''passwordCredentials'',
                 PDict [(''username'', user), (''password'', password)])];
          a1 = (if truthy tenant then dset a0 ''tenantName'' tenant else a0)
      in PDict [(''auth'', PDict a1)])"

definition v2_token_body :: "py \<Rightarrow> py \<Rightarrow> py" where
  "v2_token_body token_id tenant =
     (let a0 = [(''token'', PDict [(''id'', token_id)])];
          a1 = (if truthy tenant then dset a0 ''tenantName'' tenant else a0)
      in PDict [(''auth'', PDict a1)])"

text \<open>\<open>auth\<close> and \<open>auth_token\<close> differ in the document they post.\<close>

definition v2_post_auth ::
    "'r env \<Rightarrow> string \<Rightarrow> py \<Rightarrow> (('r, 'x) world_scheme, response_body) io" where
  "v2_post_auth env auth_url creds =
     bnd (token_request env v2_accepted ''POST'' auth_url False None (PStr (e_dumps env creds)))
       (\<lambda>(resp, body). lift
          (bindE (expected_success (Code 200) (rs_status resp)) (\<lambda>_.
             bindE (getitem body ''access'') (response_dict resp))))"

definition v2_auth ::
    "'r env \<Rightarrow> string \<Rightarrow> py \<Rightarrow> py \<Rightarrow> py \<Rightarrow> (('r, 'x) world_scheme, response_body) io" where
  "v2_auth env auth_url user password tenant =
     v2_post_auth env auth_url (v2_auth_body user password tenant)"

definition v2_auth_token ::
    "'r env \<Rightarrow> string \<Rightarrow> py \<Rightarrow> py \<Rightarrow> (('r, 'x) world_scheme, response_body) io" where
  "v2_auth_token env auth_url token_id tenant =
     v2_post_auth env auth_url (v2_token_body token_id tenant)"

text \<open>\<open>get_token(..., auth_data=True)\<close>: the token's id and the access document.\<close>

definition v2_get_token ::
    "'r env \<Rightarrow> string \<Rightarrow> py \<Rightarrow> py \<Rightarrow> py \<Rightarrow> (('r, 'x) world_scheme, py \<times> py) io" where
  "v2_get_token env auth_url user password tenant =
     bnd (v2_auth env auth_url user password tenant)
       (\<lambda>body. lift
          (bindE (getitem (PDict (rb_data body)) ''token'') (\<lambda>t.
             bindE (getitem t ''id'') (\<lambda>i. Inr (i, PDict (rb_data body))))))"

section \<open>Version 3\<close>

text \<open>A keyword argument of \<open>auth\<close>; every one defaults to \<open>None\<close>.\<close>

definition arg :: "(string, py) dict \<Rightarrow> string \<Rightarrow> py" where
  "arg kw k = (case dget kw k of None \<Rightarrow> PNone | Some v \<Rightarrow> v)"

definition v3_domain :: "py \<Rightarrow> py \<Rightarrow> (string, py) dict" where
  "v3_domain domain_id domain_name =
     (if \<not> is_none domain_id then [(''id'', domain_id)]
      else if \<not> is_none domain_name then [(''name'', domain_name)] else [])"

definition v3_user :: "(string, py) dict \<Rightarrow> (string, py) dict" where
  "v3_user kw =
     (let u0 = [(''password'', arg kw ''password'')];
          u1 = (if truthy (arg kw ''user_id'') then dset u0 ''id'' (arg kw ''user_id'')
                else dset u0 ''name'' (arg kw ''username''));
          dom = v3_domain (arg kw ''user_domain_id'') (arg kw ''user_domain_name'')
      in if dom \<noteq> [] then dset u1 ''domain'' (PDict dom) else u1)"

definition v3_identity :: "(string, py) dict \<Rightarrow> (string, py) dict" where
  "v3_identity kw =
     (let by_token = truthy (arg kw ''token'');
          by_password = ((truthy (arg kw ''user_id'') \<or> truthy (arg kw ''username''))
                         \<and> truthy (arg kw ''password''));
          methods = (if by_token then [PStr ''token''] else [])
                    @ (if by_password then [PStr ''password''] else []);
          i0 = [(''methods'', PList methods)];
          i1 = (if by_token then dset i0 ''token'' (PDict [(''id'', arg kw ''token'')]) else i0)
      in if by_password then dset i1 ''password'' (PDict [(''user'', PDict (v3_user kw))]) else i1)"

definition v3_project :: "(string, py) dict \<Rightarrow> (string, py) dict" where
  "v3_project kw =
     (if truthy (arg kw ''project_id'') then [(''id'', arg kw ''project_id'')]
      else
        (let p0 = [(''name'', arg kw ''project_name'')];
             dom = v3_domain (arg kw ''project_domain_id'') (arg kw ''project_domain_name'')
         in if dom \<noteq> [] then dset p0 ''domain'' (PDict dom) else p0))"

definition v3_auth_body :: "(string, py) dict \<Rightarrow> py" where
  "v3_auth_body kw =
     (let a0 = [(''identity'', PDict (v3_identity kw))];
          a1 = (if truthy (arg kw ''project_id'') \<or> truthy (arg kw ''project_name'')
                then dset a0 ''scope'' (PDict [(''project'', PDict (v3_project kw))])
                else if truthy (arg kw ''domain_id'')
                then dset a0 ''scope'' (PDict [(''domain'', PDict [(''id'', arg kw ''domain_id'')])])
                else if truthy (arg kw ''domain_name'')
                then dset a0 ''scope'' (PDict [(''domain'', PDict [(''name'', arg kw ''domain_name'')])])
                else a0)
      in PDict [(''auth'', PDict a1)])"

definition v3_auth ::
    "'r env \<Rightarrow> string \<Rightarrow> (string, py) dict \<Rightarrow> (('r, 'x) world_scheme, response_body) io" where
  "v3_auth env auth_url kw =
     bnd (token_request env v3_accepted ''POST'' auth_url False None (PStr (e_dumps env (v3_auth_body kw))))
       (\<lambda>(resp, body). lift
          (bindE (expected_success (Code 201) (rs_status resp)) (\<lambda>_. response_dict resp body)))"

text \<open>\<open>get_token\<close> puts the user and the project in the domain \<open>Default\<close> when no domain is given.\<close>

definition v3_default_domains :: "(string, py) dict \<Rightarrow> (string, py) dict" where
  "v3_default_domains kw =
     (let k1 = (if \<not> truthy (py_or (arg kw ''user_domain_id'') (arg kw ''user_domain_name''))
                then dset kw ''user_domain_name'' (PStr ''Default'') else kw)
      in if \<not> truthy (py_or (arg k1 ''project_domain_id'') (arg k1 ''project_domain_name''))
         then dset k1 ''project_domain_name'' (PStr ''Default'') else k1)"

definition v3_get_token ::
    "'r env \<Rightarrow> string \<Rightarrow> (string, py) dict \<Rightarrow> (('r, 'x) world_scheme, py \<times> py) io" where
  "v3_get_token env auth_url kw =
     bnd (v3_auth env auth_url (v3_default_domains kw))
       (\<lambda>body. lift
          (let token = (case dget (rs_headers (rb_response body)) ''x-subject-token'' of
                          None \<Rightarrow> PNone | Some t \<Rightarrow> PStr t)
           in bindE (getitem (PDict (rb_data body)) ''token'') (\<lambda>t. Inr (token, t))))"

section \<open>Facts\<close>

lemma time_mono_token_request [mono_intros]: "time_mono (token_request env acc m u x hs b)"
  unfolding token_request_def Let_def by (auto intro!: mono_intros split: prod.splits)

lemma time_mono_v2_get_token [mono_intros]: "time_mono (v2_get_token env url u p t)"
  unfolding v2_get_token_def v2_auth_def v2_post_auth_def
  by (auto intro!: mono_intros split: prod.splits)

lemma time_mono_v3_get_token [mono_intros]: "time_mono (v3_get_token env url kw)"
  unfolding v3_get_token_def v3_auth_def
  by (auto intro!: mono_intros split: prod.splits)

lemma arg_dset [simp]: "arg (dset kw k v) k' = (if k = k' then v else arg kw k')"
  by (simp add: arg_def)

end
