(* ===== verification/Credentials.thy ===== *)
theory Credentials
  imports Exceptions
begin

text \<open>
  The credentials objects of \<open>automation/auth.py\<close> (\<open>Credentials\<close>, \<open>KeystoneV2Credentials\<close>,
  \<open>KeystoneV3Credentials\<close>): the attributes set on the object, the coupled attributes of the v3 class,
  and the operations that fill, check and reset them.
\<close>

section \<open>The object\<close>

datatype ident_version = V2 | V3

definition v2_attributes :: "string list" where
  "v2_attributes = [''username'', ''password'', ''tenant_name'', ''user_id'', ''tenant_id'']"

definition v3_attributes :: "string list" where
  "v3_attributes = [''domain_id'', ''domain_name'', ''password'', ''username'',
     ''project_domain_id'', ''project_domain_name'', ''project_id'', ''project_name'',
     ''tenant_id'', ''tenant_name'', ''user_domain_id'', ''user_domain_name'', ''user_id'']"

definition attributes_of :: "ident_version \<Rightarrow> string list" where
  "attributes_of v = (case v of V2 \<Rightarrow> v2_attributes | V3 \<Rightarrow> v3_attributes)"

text \<open>\<open>cr_attrs\<close> is the instance dictionary, \<open>cr_initial\<close> the \<open>_initial\<close> keyword arguments.\<close>

record credentials =
  cr_version :: ident_version
  cr_attrs :: "(string, py) dict"
  cr_initial :: "(string, py) dict"

text \<open>A known attribute that is not set reads as \<open>None\<close>.\<close>

definition aget :: "(string, py) dict \<Rightarrow> string \<Rightarrow> py" where
  "aget a k = (case dget a k of None \<Rightarrow> PNone | Some v \<Rightarrow> v)"

definition cget :: "credentials \<Rightarrow> string \<Rightarrow> py" where
  "cget c k = aget (cr_attrs c) k"

text \<open>\<open>__getattr__\<close>, \<open>__delitem__\<close> and \<open>get\<close>.\<close>

definition cred_getattr :: "credentials \<Rightarrow> string \<Rightarrow> pyexc + py" where
  "cred_getattr c key =
     (case dget (cr_attrs c) key of
        Some v \<Rightarrow> Inr v
      | None \<Rightarrow> if key \<in> set (attributes_of (cr_version c)) then Inr PNone else Inl AttrErr)"

definition cred_delitem :: "credentials \<Rightarrow> string \<Rightarrow> pyexc + credentials" where
  "cred_delitem c key =
     (if key \<in> set (attributes_of (cr_version c)) \<and> dhas (cr_attrs c) key
      then Inr (c\<lparr>cr_attrs := ddel (cr_attrs c) key\<rparr>) else Inl AttrErr)"

definition cred_get :: "credentials \<Rightarrow> string \<Rightarrow> py \<Rightarrow> py" where
  "cred_get c item dflt = (case cred_getattr c item of Inr v \<Rightarrow> v | Inl e \<Rightarrow> dflt)"

lemma aget_dset [simp]: "aget (dset a k v) k' = (if k = k' then v else aget a k')"
  by (simp add: aget_def)

lemma aget_ddel [simp]: "aget (ddel a k) k' = (if k = k' then PNone else aget a k')"
  by (simp add: aget_def)

lemma aget_Nil [simp]: "aget [] k = PNone"
  by (simp add: aget_def)

section \<open>Setting an attribute\<close>

text \<open>\<open>KeystoneV3Credentials.__setattr__\<close>.\<close>

definition v3_setattr :: "(string, py) dict \<Rightarrow> string \<Rightarrow> py \<Rightarrow> (string, py) dict" where
  "v3_setattr a key value =
     (let a1 = (if key = ''tenant_id'' then dset a ''project_id'' value
                else if key = ''tenant_name'' then dset a ''project_name'' value else a);
          a2 = (if key = ''project_id'' then dset a1 ''tenant_id'' value
                else if key = ''project_name'' then dset a1 ''tenant_name'' value else a1);
          a3 = (if key = ''user_domain_id'' \<and> is_none (aget a2 ''project_domain_id'')
                then dset a2 ''project_domain_id'' value else a2);
          a4 = (if key = ''project_domain_id'' \<and> is_none (aget a3 ''user_domain_id'')
                then dset a3 ''user_domain_id'' value else a3);
          a5 = (if key = ''user_domain_name'' \<and> is_none (aget a4 ''project_domain_name'')
                then dset a4 ''project_domain_name'' value else a4);
          a6 = (if key = ''project_domain_name'' \<and> is_none (aget a5 ''user_domain_name'')
                then dset a5 ''user_domain_name'' value else a5);
          a7 = (if key = ''domain_name''
                then dset (dset a6 ''user_domain_name'' value) ''project_domain_name'' value else a6)
      in dset a7 key value)"

definition attrs_set :: "ident_version \<Rightarrow> (string, py) dict \<Rightarrow> string \<Rightarrow> py \<Rightarrow> (string, py) dict" where
  "attrs_set v a key value = (case v of V2 \<Rightarrow> dset a key value | V3 \<Rightarrow> v3_setattr a key value)"

definition cred_setattr :: "credentials \<Rightarrow> string \<Rightarrow> py \<Rightarrow> credentials" where
  "cred_setattr c key value = c\<lparr>cr_attrs := attrs_set (cr_version c) (cr_attrs c) key value\<rparr>"

text \<open>\<open>_apply_credentials\<close> and \<open>__init__\<close>.\<close>

fun apply_credentials ::
    "ident_version \<Rightarrow> (string, py) dict \<Rightarrow> (string, py) dict \<Rightarrow> pyexc + (string, py) dict" where
  "apply_credentials v a [] = Inr a"
| "apply_credentials v a ((key, value) # rest) =
     (if key \<in> set (attributes_of v)
      then apply_credentials v (attrs_set v a key value) rest
      else Inl (Auto InvalidCredentials [PStr (key @ '' is not a valid attr for '' @
             (case v of V2 \<Rightarrow> ''KeystoneV2Credentials'' | V3 \<Rightarrow> ''KeystoneV3Credentials''))] []))"

definition cred_init :: "ident_version \<Rightarrow> (string, py) dict \<Rightarrow> pyexc + credentials" where
  "cred_init v kwargs =
     bindE (apply_credentials v [] kwargs)
       (\<lambda>a. Inr \<lparr>cr_version = v, cr_attrs = a, cr_initial = kwargs\<rparr>)"

text \<open>\<open>reset\<close>: every known attribute that is set goes, then the initial ones come back.\<close>

fun clear_attrs :: "string list \<Rightarrow> (string, py) dict \<Rightarrow> (string, py) dict" where
  "clear_attrs [] a = a"
| "clear_attrs (k # ks) a =
     clear_attrs ks (if \<not> is_none (aget a k) then ddel a k else a)"

definition cred_reset :: "credentials \<Rightarrow> pyexc + credentials" where
  "cred_reset c =
     bindE (apply_credentials (cr_version c)
              (clear_attrs (attributes_of (cr_version c)) (cr_attrs c)) (cr_initial c))
       (\<lambda>a. Inr (c\<lparr>cr_attrs := a\<rparr>))"

section \<open>Checking credentials\<close>

definition v2_is_valid :: "credentials \<Rightarrow> bool" where
  "v2_is_valid c = (\<not> is_none (cget c ''username'') \<and> \<not> is_none (cget c ''password''))"

definition v3_is_valid :: "credentials \<Rightarrow> bool" where
  "v3_is_valid c =
     (let none = (\<lambda>k. is_none (cget c k));
          valid_user_domain = (\<not> none ''user_domain_id'' \<or> \<not> none ''user_domain_name'');
          valid_project_domain = (\<not> none ''project_domain_id'' \<or> \<not> none ''project_domain_name'');
          valid_user = (\<not> none ''user_id'' \<or> (\<not> none ''username'' \<and> valid_user_domain));
          valid_project_scope =
            (none ''project_name'' \<and> none ''project_id''
             \<or> \<not> none ''project_id''
             \<or> \<not> none ''project_name'' \<and> valid_project_domain);
          valid_domain_scope =
            (none ''domain_id'' \<and> none ''domain_name''
             \<or> truthy (py_or (cget c ''domain_id'') (cget c ''domain_name'')))
      in \<not> none ''password'' \<and> valid_user \<and> valid_project_scope \<and> valid_domain_scope)"

definition cred_is_valid :: "credentials \<Rightarrow> bool" where
  "cred_is_valid c = (case cr_version c of V2 \<Rightarrow> v2_is_valid c | V3 \<Rightarrow> v3_is_valid c)"

text \<open>
  \<open>__eq__\<close> compares the texts of the objects, which leave the password out; the texts of objects of
  different classes list different attributes.
\<close>

definition cred_eq :: "credentials \<Rightarrow> credentials \<Rightarrow> bool" where
  "cred_eq c d =
     (cr_version c = cr_version d
      \<and> list_all (\<lambda>k. cget c k = cget d k)
          (filter (\<lambda>k. k \<noteq> ''password'') (attributes_of (cr_version c))))"

section \<open>The coupled attributes stay coupled\<close>

text \<open>
  The v3 class stores the project under both the tenant and the project names; the invariant of
  every reachable object is that the two agree.
\<close>

definition coupled :: "(string, py) dict \<Rightarrow> bool" where
  "coupled a = (aget a ''tenant_id'' = aget a ''project_id''
                \<and> aget a ''tenant_name'' = aget a ''project_name'')"

definition v3_coupled_keys :: "string list" where
  "v3_coupled_keys = [''tenant_id'', ''tenant_name'', ''project_id'', ''project_name'',
     ''user_domain_id'', ''project_domain_id'', ''user_domain_name'', ''project_domain_name'',
     ''domain_name'']"

lemma v3_setattr_eqs:
  "v3_setattr a ''tenant_id'' v = dset (dset a ''project_id'' v) ''tenant_id'' v"
  "v3_setattr a ''tenant_name'' v = dset (dset a ''project_name'' v) ''tenant_name'' v"
  "v3_setattr a ''project_id'' v = dset (dset a ''tenant_id'' v) ''project_id'' v"
  "v3_setattr a ''project_name'' v = dset (dset a ''tenant_name'' v) ''project_name'' v"
  "v3_setattr a ''user_domain_id'' v =
     dset (if is_none (aget a ''project_domain_id'') then dset a ''project_domain_id'' v else a)
       ''user_domain_id'' v"
  "v3_setattr a ''project_domain_id'' v =
     dset (if is_none (aget a ''user_domain_id'') then dset a ''user_domain_id'' v else a)
       ''project_domain_id'' v"
  "v3_setattr a ''user_domain_name'' v =
     dset (if is_none (aget a ''project_domain_name'') then dset a ''project_domain_name'' v else a)
       ''user_domain_name'' v"
  "v3_setattr a ''project_domain_name'' v =
     dset (if is_none (aget a ''user_domain_name'') then dset a ''user_domain_name'' v else a)
       ''project_domain_name'' v"
  "v3_setattr a ''domain_name'' v =
     dset (dset (dset a ''user_domain_name'' v) ''project_domain_name'' v) ''domain_name'' v"
  by (simp_all add: v3_setattr_def)

lemma v3_setattr_plain: "key \<notin> set v3_coupled_keys \<Longrightarrow> v3_setattr a key v = dset a key v"
  by (simp add: v3_setattr_def v3_coupled_keys_def)

lemma v3_key_cases:
  assumes "key \<notin> set v3_coupled_keys \<Longrightarrow> P"
    and "key = ''tenant_id'' \<Longrightarrow> P" "key = ''tenant_name'' \<Longrightarrow> P"
    and "key = ''project_id'' \<Longrightarrow> P" "key = ''project_name'' \<Longrightarrow> P"
    and "key = ''user_domain_id'' \<Longrightarrow> P" "key = ''project_domain_id'' \<Longrightarrow> P"
    and "key = ''user_domain_name'' \<Longrightarrow> P" "key = ''project_domain_name'' \<Longrightarrow> P"
    and "key = ''domain_name'' \<Longrightarrow> P"
  shows P
proof (cases "key \<in> set v3_coupled_keys")
  case True
  then have "key = ''tenant_id'' \<or> key = ''tenant_name'' \<or> key = ''project_id''
    \<or> key = ''project_name'' \<or> key = ''user_domain_id'' \<or> key = ''project_domain_id''
    \<or> key = ''user_domain_name'' \<or> key = ''project_domain_name'' \<or> key = ''domain_name''"
    by (simp only: v3_coupled_keys_def list.set insert_iff empty_iff simp_thms)
  then show P by (elim disjE) (erule assms)+
qed (rule assms)

lemma v3_setattr_coupled: "coupled a \<Longrightarrow> coupled (v3_setattr a key v)"
  by (rule v3_key_cases [of key])
    (auto simp: v3_setattr_eqs v3_setattr_plain coupled_def v3_coupled_keys_def)

lemma apply_v3_coupled:
  "coupled a \<Longrightarrow> apply_credentials V3 a kw = Inr a' \<Longrightarrow> coupled a'"
proof (induction kw arbitrary: a)
  case (Cons kv kw)
  then show ?case
    by (cases kv) (auto simp: attrs_set_def dest: v3_setattr_coupled split: if_splits)
qed simp

lemma clear_attrs_get:
  "aget (clear_attrs ks a) k = (if k \<in> set ks then PNone else aget a k)"
  by (induction ks arbitrary: a) (auto simp: is_none_def)

text \<open>What a reset leaves depends on the initial arguments alone.\<close>

definition same_attrs :: "(string, py) dict \<Rightarrow> (string, py) dict \<Rightarrow> bool" where
  "same_attrs a b = (\<forall>k. aget a k = aget b k)"

lemma same_attrs_dset: "same_attrs a b \<Longrightarrow> same_attrs (dset a k v) (dset b k v)"
  by (simp add: same_attrs_def)

lemma same_attrsD: "same_attrs a b \<Longrightarrow> aget a k = aget b k"
  by (simp add: same_attrs_def)

lemma v3_setattr_same_attrs:
  assumes "same_attrs a b"
  shows "same_attrs (v3_setattr a key v) (v3_setattr b key v)"
  by (rule v3_key_cases [of key])
    (simp_all add: v3_setattr_eqs v3_setattr_plain same_attrs_dset assms same_attrsD [OF assms])

lemma attrs_set_same_attrs:
  "same_attrs a b \<Longrightarrow> same_attrs (attrs_set ver a key v) (attrs_set ver b key v)"
  by (cases ver) (simp_all add: attrs_set_def v3_setattr_same_attrs same_attrs_dset)

lemma apply_same_attrs:
  "same_attrs a b \<Longrightarrow> apply_credentials ver a kw = Inr a' \<Longrightarrow>
   \<exists>b'. apply_credentials ver b kw = Inr b' \<and> same_attrs a' b'"
proof (induction kw arbitrary: a b)
  case Nil
  then show ?case by simp
next
  case (Cons kv kw)
  obtain k v where kv: "kv = (k, v)" by (cases kv)
  with Cons.prems(2) have mem: "k \<in> set (attributes_of ver)"
    and rest: "apply_credentials ver (attrs_set ver a k v) kw = Inr a'"
    by (auto split: if_splits)
  from Cons.IH [OF attrs_set_same_attrs [OF Cons.prems(1)] rest] mem kv
  show ?case by simp
qed

text \<open>The attributes set on an object all have known names.\<close>

definition known_attrs :: "ident_version \<Rightarrow> (string, py) dict \<Rightarrow> bool" where
  "known_attrs v a = list_all (\<lambda>k. k \<in> set (attributes_of v)) (dkeys a)"

lemma known_attrs_dset:
  "known_attrs v a \<Longrightarrow> k \<in> set (attributes_of v) \<Longrightarrow> known_attrs v (dset a k x)"
  by (auto simp: known_attrs_def list_all_iff)

lemma v3_coupled_known:
  "''tenant_id'' \<in> set (attributes_of V3)" "''tenant_name'' \<in> set (attributes_of V3)"
  "''project_id'' \<in> set (attributes_of V3)" "''project_name'' \<in> set (attributes_of V3)"
  "''user_domain_id'' \<in> set (attributes_of V3)" "''project_domain_id'' \<in> set (attributes_of V3)"
  "''user_domain_name'' \<in> set (attributes_of V3)"
  "''project_domain_name'' \<in> set (attributes_of V3)" "''domain_name'' \<in> set (attributes_of V3)"
  by (simp_all add: attributes_of_def v3_attributes_def)

lemma attrs_set_known:
  assumes "key \<in> set (attributes_of v)" "known_attrs v a"
  shows "known_attrs v (attrs_set v a key x)"
proof (cases v)
  case V2
  with assms show ?thesis by (simp add: attrs_set_def known_attrs_dset)
next
  case V3
  have "known_attrs V3 (v3_setattr a key x)"
    by (rule v3_key_cases [of key])
      (use assms V3 in
        \<open>simp_all add: v3_setattr_eqs v3_setattr_plain known_attrs_dset v3_coupled_known\<close>)
  with V3 show ?thesis by (simp add: attrs_set_def)
qed

lemma apply_known:
  "apply_credentials v a kw = Inr a' \<Longrightarrow> known_attrs v a \<Longrightarrow> known_attrs v a'"
proof (induction kw arbitrary: a)
  case (Cons kv kw)
  then show ?case
    by (cases kv) (simp add: attrs_set_known split: if_splits)
qed simp

lemma unknown_unset: "known_attrs v a \<Longrightarrow> k \<notin> set (attributes_of v) \<Longrightarrow> aget a k = PNone"
  by (auto simp: known_attrs_def list_all_iff aget_def dget_None_iff split: option.splits
      dest!: dget_Some_mem [THEN imageI [of _ _ fst]] simp: dkeys_def)

end
