(* ===== verification/Urls.thy ===== *)
theory Urls
  imports PyBase
begin

text \<open>
  The part of Python's \<open>urlparse\<close> and \<open>urllib\<close> modules the program uses: taking a URL apart,
  putting it together again and encoding a query string, and the \<open>re.sub\<close> call of \<open>auth.py\<close> that
  merges contiguous slashes. A bracketed IPv6 host is read like any other (the module refuses
  unbalanced brackets).
\<close>

section \<open>Taking a URL apart\<close>

record url_parts =
  u_scheme :: string
  u_netloc :: string
  u_path :: string
  u_params :: string
  u_query :: string
  u_fragment :: string

definition scheme_char :: "char \<Rightarrow> bool" where
  "scheme_char c =
     (let n = (of_char c :: nat)
      in (97 \<le> n \<and> n \<le> 122) \<or> (65 \<le> n \<and> n \<le> 90) \<or> is_digit c
         \<or> c = CHR ''+'' \<or> c = CHR ''-'' \<or> c = CHR ''.'')"

text \<open>\<open>s.split(c, 1)\<close> when \<open>c\<close> is in \<open>s\<close>: what is before and what is after the first \<open>c\<close>.\<close>

definition before :: "char \<Rightarrow> string \<Rightarrow> string" where
  "before c s = takeWhile (\<lambda>x. x \<noteq> c) s"

definition after :: "char \<Rightarrow> string \<Rightarrow> string" where
  "after c s = tl (dropWhile (\<lambda>x. x \<noteq> c) s)"

definition netloc_end :: "char \<Rightarrow> bool" where
  "netloc_end c = (c = CHR ''/'' \<or> c = CHR ''?'' \<or> c = CHR ''#'')"

text \<open>The scheme and the rest: \<open>all_digits\<close> keeps \<open>host:80\<close> from being read as a scheme.\<close>

definition split_scheme :: "string \<Rightarrow> string \<times> string" where
  "split_scheme url =
     (if CHR '':'' \<in> set url \<and> before CHR '':'' url \<noteq> []
         \<and> (before CHR '':'' url = ''http''
             \<or> list_all scheme_char (before CHR '':'' url) \<and> \<not> all_digits (after CHR '':'' url))
      then (str_lower (before CHR '':'' url), after CHR '':'' url)
      else ([], url))"

definition split_netloc :: "string \<Rightarrow> string \<times> string" where
  "split_netloc url =
     (if take 2 url = ''//''
      then (takeWhile (\<lambda>c. \<not> netloc_end c) (drop 2 url), dropWhile (\<lambda>c. \<not> netloc_end c) (drop 2 url))
      else ([], url))"

definition uses_params :: "string list" where
  "uses_params = [[], ''ftp'', ''hdl'', ''prospero'', ''http'', ''imap'', ''https'', ''shttp'',
     ''rtsp'', ''rtspu'', ''sip'', ''sips'', ''mms'', ''sftp'', ''tel'']"

definition uses_netloc :: "string list" where
  "uses_netloc = [[], ''ftp'', ''http'', ''gopher'', ''nntp'', ''telnet'', ''imap'', ''wais'', ''file'',
     ''mms'', ''https'', ''shttp'', ''snews'', ''prospero'', ''rtsp'', ''rtspu'', ''rsync'', ''svn'',
     ''svn+ssh'', ''sftp'', ''nfs'', ''git'', ''git+ssh'']"

text \<open>The parameters follow the first semicolon of the last path segment.\<close>

definition last_segment :: "string \<Rightarrow> string" where
  "last_segment p = rev (takeWhile (\<lambda>c. c \<noteq> CHR ''/'') (rev p))"

definition split_params :: "string \<Rightarrow> string \<times> string" where
  "split_params p =
     (let seg = last_segment p; dir = take (length p - length seg) p
      in if CHR '';'' \<in> set seg then (dir @ before CHR '';'' seg, after CHR '';'' seg) else (p, []))"

definition urlparse :: "string \<Rightarrow> url_parts" where
  "urlparse url =
     (let (sch, r1) = split_scheme url;
          (net, r2) = split_netloc r1;
          (r3, frag) = (if CHR ''#'' \<in> set r2 then (before CHR ''#'' r2, after CHR ''#'' r2) else (r2, []));
          (r4, qry) = (if CHR ''?'' \<in> set r3 then (before CHR ''?'' r3, after CHR ''?'' r3) else (r3, []));
          (pth, prm) = (if sch \<in> set uses_params then split_params r4 else (r4, []))
      in \<lparr>u_scheme = sch, u_netloc = net, u_path = pth, u_params = prm, u_query = qry, u_fragment = frag\<rparr>)"

definition urlunparse :: "url_parts \<Rightarrow> string" where
  "urlunparse u =
     (let u1 = (if u_params u = [] then u_path u else u_path u @ '';'' @ u_params u);
          u2 = (if u_netloc u \<noteq> [] \<or> (u_scheme u \<noteq> [] \<and> u_scheme u \<in> set uses_netloc \<and> take 2 u1 \<noteq> ''//'')
                then ''//'' @ u_netloc u @ (if u1 \<noteq> [] \<and> hd u1 \<noteq> CHR ''/'' then CHR ''/'' # u1 else u1)
                else u1);
          u3 = (if u_scheme u \<noteq> [] then u_scheme u @ '':'' @ u2 else u2);
          u4 = (if u_query u \<noteq> [] then u3 @ ''?'' @ u_query u else u3)
      in if u_fragment u \<noteq> [] then u4 @ ''#'' @ u_fragment u else u4)"

section \<open>Contiguous slashes\<close>

text \<open>\<open>re.sub("/{2,}", "/", s)\<close>.\<close>

fun merge_slashes :: "string \<Rightarrow> string" where
  "merge_slashes [] = []"
| "merge_slashes [c] = [c]"
| "merge_slashes (c # d # s) =
     (if c = CHR ''/'' \<and> d = CHR ''/'' then merge_slashes (d # s) else c # merge_slashes (d # s))"

fun no_double_slash :: "string \<Rightarrow> bool" where
  "no_double_slash (c # d # s) = (\<not> (c = CHR ''/'' \<and> d = CHR ''/'') \<and> no_double_slash (d # s))"
| "no_double_slash _ = True"

lemma hd_merge_slashes [simp]: "hd (merge_slashes (c # s)) = c"
  by (induction "c # s" arbitrary: c s rule: merge_slashes.induct) auto

lemma merge_slashes_Nil_iff [simp]: "merge_slashes s = [] \<longleftrightarrow> s = []"
  by (induction s rule: merge_slashes.induct) auto

lemma no_double_slash_Cons:
  "no_double_slash (c # s) \<longleftrightarrow> no_double_slash s \<and> \<not> (c = CHR ''/'' \<and> s \<noteq> [] \<and> hd s = CHR ''/'')"
  by (cases s) auto

lemma merge_slashes_clean: "no_double_slash (merge_slashes s)"
  by (induction s rule: merge_slashes.induct) (auto simp: no_double_slash_Cons)

lemma merge_slashes_id: "no_double_slash s \<Longrightarrow> merge_slashes s = s"
  by (induction s rule: merge_slashes.induct) auto

lemma set_merge_slashes [simp]: "set (merge_slashes s) = set s"
  by (induction s rule: merge_slashes.induct) auto

lemma filter_merge_slashes:
  "filter (\<lambda>c. c \<noteq> CHR ''/'') (merge_slashes s) = filter (\<lambda>c. c \<noteq> CHR ''/'') s"
  by (induction s rule: merge_slashes.induct) auto

section \<open>Query strings\<close>

definition hex_digit :: "nat \<Rightarrow> char" where
  "hex_digit n = (if n < 10 then char_of (48 + n) else char_of (55 + n))"

definition always_safe :: "char \<Rightarrow> bool" where
  "always_safe c =
     (let n = (of_char c :: nat)
      in (97 \<le> n \<and> n \<le> 122) \<or> (65 \<le> n \<and> n \<le> 90) \<or> is_digit c
         \<or> c = CHR ''_'' \<or> c = CHR ''.'' \<or> c = CHR ''-'')"

definition quote_char :: "char \<Rightarrow> string" where
  "quote_char c =
     (if always_safe c then [c]
      else if c = CHR '' '' then ''+''
      else [CHR ''%'', hex_digit (of_char c div 16), hex_digit (of_char c mod 16)])"

definition quote_plus :: "string \<Rightarrow> string" where
  "quote_plus s = concat (map quote_char s)"

text \<open>\<open>urllib.urlencode\<close> of a dictionary whose values are given as texts.\<close>

definition urlencode :: "(string \<times> string) list \<Rightarrow> string" where
  "urlencode kvs = str_join ''&'' (map (\<lambda>(k, v). quote_plus k @ ''='' @ quote_plus v) kvs)"

section \<open>Well-formed URLs\<close>

text \<open>
  The URLs the program builds its requests from: a scheme, a host, and then nothing or a path that
  starts with a slash.
\<close>

definition plain_scheme :: "string \<Rightarrow> bool" where
  "plain_scheme s = (s = ''http'' \<or> s = ''https'')"

definition plain_netloc :: "string \<Rightarrow> bool" where
  "plain_netloc n = (n \<noteq> [] \<and> list_all (\<lambda>c. \<not> netloc_end c) n)"

definition plain_path :: "string \<Rightarrow> bool" where
  "plain_path p =
     ((p = [] \<or> hd p = CHR ''/'')
      \<and> list_all (\<lambda>c. c \<noteq> CHR ''?'' \<and> c \<noteq> CHR ''#'' \<and> c \<noteq> CHR '';'') p)"

definition http_url :: "string \<Rightarrow> string \<Rightarrow> string \<Rightarrow> string" where
  "http_url sch net rest = sch @ ''://'' @ net @ rest"

lemma takeWhile_append_stop:
  "list_all P xs \<Longrightarrow> ys = [] \<or> \<not> P (hd ys) \<Longrightarrow> takeWhile P (xs @ ys) = xs \<and> dropWhile P (xs @ ys) = ys"
  by (cases ys) (simp_all add: list_all_iff takeWhile_append dropWhile_append)

lemma str_lower_plain: "plain_scheme s \<Longrightarrow> str_lower s = s"
  by (auto simp: plain_scheme_def str_lower_def char_lower_def)

lemma split_scheme_plain:
  assumes "plain_scheme sch"
  shows "split_scheme (sch @ CHR '':'' # CHR ''/'' # r) = (sch, CHR ''/'' # r)"
proof -
  have "before CHR '':'' (sch @ CHR '':'' # CHR ''/'' # r) = sch"
       "after CHR '':'' (sch @ CHR '':'' # CHR ''/'' # r) = CHR ''/'' # r"
       "sch \<noteq> []" "list_all scheme_char sch"
    using assms by (auto simp: plain_scheme_def before_def after_def scheme_char_def is_digit_def)
  moreover have "\<not> all_digits (CHR ''/'' # r)"
    by (simp add: all_digits_def is_digit_def)
  ultimately show ?thesis
    by (simp add: split_scheme_def str_lower_plain assms)
qed

lemma split_netloc_plain:
  assumes "plain_netloc net" "rest = [] \<or> netloc_end (hd rest)"
  shows "split_netloc (CHR ''/'' # CHR ''/'' # net @ rest) = (net, rest)"
proof -
  have "takeWhile (\<lambda>c. \<not> netloc_end c) (net @ rest) = net
        \<and> dropWhile (\<lambda>c. \<not> netloc_end c) (net @ rest) = rest"
    by (rule takeWhile_append_stop) (use assms in \<open>auto simp: plain_netloc_def\<close>)
  then show ?thesis by (simp add: split_netloc_def)
qed

lemma split_params_plain: "CHR '';'' \<notin> set p \<Longrightarrow> split_params p = (p, [])"
  by (auto simp: split_params_def Let_def last_segment_def dest!: set_takeWhileD)

lemma urlparse_http_url:
  assumes "plain_scheme sch" "plain_netloc net" "plain_path p"
  shows "urlparse (http_url sch net p) =
     \<lparr>u_scheme = sch, u_netloc = net, u_path = p, u_params = [], u_query = [], u_fragment = []\<rparr>"
proof -
  have scheme: "split_scheme (http_url sch net p) = (sch, ''//'' @ net @ p)"
    using split_scheme_plain [OF assms(1), of "CHR ''/'' # net @ p"] by (simp add: http_url_def)
  have net: "split_netloc (''//'' @ net @ p) = (net, p)"
    using split_netloc_plain [OF assms(2), of p] assms(3)
    by (auto simp: plain_path_def netloc_end_def)
  have "CHR ''#'' \<notin> set p" "CHR ''?'' \<notin> set p" "CHR '';'' \<notin> set p"
    using assms(3) by (auto simp: plain_path_def list_all_iff)
  then show ?thesis
    by (simp add: urlparse_def scheme net [simplified] split_params_plain)
qed

lemma urlunparse_http_url:
  assumes "plain_scheme sch" "plain_netloc net" "p = [] \<or> hd p = CHR ''/''"
  shows "urlunparse \<lparr>u_scheme = sch, u_netloc = net, u_path = p, u_params = [], u_query = [], u_fragment = []\<rparr>
     = http_url sch net p"
  using assms by (auto simp: urlunparse_def http_url_def plain_scheme_def plain_netloc_def)

lemma urlunparse_urlparse:
  "plain_scheme sch \<Longrightarrow> plain_netloc net \<Longrightarrow> plain_path p \<Longrightarrow>
   urlunparse (urlparse (http_url sch net p)) = http_url sch net p"
  by (simp add: urlparse_http_url urlunparse_http_url plain_path_def)

text \<open>The same with a query string.\<close>

definition query_suffix :: "string \<Rightarrow> string" where
  "query_suffix q = (if q = [] then [] else CHR ''?'' # q)"

lemma before_after_sep:
  "c \<notin> set p \<Longrightarrow> before c (p @ c # r) = p \<and> after c (p @ c # r) = r"
  by (induction p) (auto simp: before_def after_def)

lemma urlparse_query:
  assumes "plain_scheme sch" "plain_netloc net" "plain_path p" "CHR ''#'' \<notin> set q"
  shows "urlparse (http_url sch net (p @ query_suffix q)) =
     \<lparr>u_scheme = sch, u_netloc = net, u_path = p, u_params = [], u_query = q, u_fragment = []\<rparr>"
proof -
  let ?r = "p @ query_suffix q"
  have scheme: "split_scheme (http_url sch net ?r) = (sch, ''//'' @ net @ ?r)"
    using split_scheme_plain [OF assms(1), of "CHR ''/'' # net @ ?r"] by (simp add: http_url_def)
  have "?r = [] \<or> netloc_end (hd ?r)"
    using assms(3) by (cases p) (auto simp: plain_path_def netloc_end_def query_suffix_def)
  then have net: "split_netloc (''//'' @ net @ ?r) = (net, ?r)"
    using split_netloc_plain [OF assms(2), of ?r] by simp
  have clean: "CHR ''#'' \<notin> set p" "CHR ''?'' \<notin> set p" "CHR '';'' \<notin> set p"
    using assms(3) by (auto simp: plain_path_def list_all_iff)
  show ?thesis
  proof (cases "q = []")
    case True
    with assms show ?thesis by (simp add: query_suffix_def urlparse_http_url)
  next
    case False
    have ends: "before CHR ''?'' (p @ CHR ''?'' # q) = p" "after CHR ''?'' (p @ CHR ''?'' # q) = q"
      using before_after_sep [OF clean(2), of q] by simp_all
    have r: "query_suffix q = CHR ''?'' # q"
      using False by (simp add: query_suffix_def)
    show ?thesis
      unfolding urlparse_def scheme
      using net clean assms(4) ends by (simp add: r split_params_plain)
  qed
qed

lemma urlunparse_query:
  assumes "plain_scheme sch" "plain_netloc net" "p = [] \<or> hd p = CHR ''/''"
  shows "urlunparse \<lparr>u_scheme = sch, u_netloc = net, u_path = p, u_params = [], u_query = q, u_fragment = []\<rparr>
     = http_url sch net (p @ query_suffix q)"
  using assms
  by (auto simp: urlunparse_def http_url_def plain_scheme_def plain_netloc_def query_suffix_def)

section \<open>Replacing a text\<close>

lemma str_replace_tail:
  assumes "p \<noteq> []" "\<And>i. i < length pre \<Longrightarrow> take (length p) (drop i (pre @ p)) \<noteq> p"
  shows "str_replace_ne p new (pre @ p) = pre @ new"
  using assms(2)
proof (induction pre)
  case Nil
  then show ?case using assms(1) by (cases p) auto
next
  case (Cons c pre)
  have "take (length p) ((c # pre) @ p) \<noteq> p"
    using Cons.prems [of 0] by simp
  moreover have "str_replace_ne p new (pre @ p) = pre @ new"
  proof (rule Cons.IH)
    fix i
    assume "i < length pre"
    then show "take (length p) (drop i (pre @ p)) \<noteq> p"
      using Cons.prems [of "Suc i"] by simp
  qed
  ultimately show ?case by simp
qed

end
