(* ===== verification/Auth.thy ===== *)
theory Auth
  imports TokenClient Credentials Urls
begin

text \<open>
  The authentication providers of \<open>automation/auth.py\<close>: the cached token, its expiry, the filling of
  the credentials from the identity service's answer, the selection of a base URL in the service
  catalogue, and the decoration of a request, with the part of the next request that may be altered.

  The state of a provider is the record \<open>provider\<close>; a client's world is the HTTP world extended with
  its provider. The provider's class is the one paired with the class of its credentials in
  \<open>IDENTITY_VERSION\<close>, so the version of the credentials selects the operation.

  The theory starts with the expiry dates of tokens (\<open>KeystoneAuthProvider._parse_expiry_time\<close> of \<open>automation/auth.py\<close>):
  \<open>datetime.strptime\<close> with the two formats the provider tries, and the instant a date names, in
  microseconds since 1970-01-01T00:00:00 UTC. The day of the month must have a leading zero or one
  digit (\<open>strptime\<close> also takes a leading blank there).
\<close>

section \<open>Calendar\<close>

record datetime =
  dt_year :: nat
  dt_month :: nat
  dt_day :: nat
  dt_hour :: nat
  dt_minute :: nat
  dt_second :: nat
  dt_micro :: nat

definition is_leap :: "nat \<Rightarrow> bool" where
  "is_leap y = (y mod 4 = 0 \<and> (y mod 100 \<noteq> 0 \<or> y mod 400 = 0))"

definition days_in_month :: "nat \<Rightarrow> nat \<Rightarrow> nat" where
  "days_in_month y m =
     (if m = 2 then (if is_leap y then 29 else 28)
      else if m \<in> {4, 6, 9, 11} then 30 else 31)"

definition days_before_year :: "nat \<Rightarrow> nat" where
  "days_before_year y = (let p = y - 1 in p * 365 + p div 4 - p div 100 + p div 400)"

definition days_before_month :: "nat \<Rightarrow> nat \<Rightarrow> nat" where
  "days_before_month y m = sum_list (map (days_in_month y) [1..<m])"

definition ordinal :: "datetime \<Rightarrow> nat" where
  "ordinal d = days_before_year (dt_year d) + days_before_month (dt_year d) (dt_month d) + dt_day d"

definition epoch_ordinal :: nat where
  "epoch_ordinal = 719163"

definition micros :: "datetime \<Rightarrow> int" where
  "micros d =
     (((int (ordinal d) - int epoch_ordinal) * 24 + int (dt_hour d)) * 60 + int (dt_minute d)) * 60000000
     + int (dt_second d) * 1000000 + int (dt_micro d)"

definition valid_datetime :: "datetime \<Rightarrow> bool" where
  "valid_datetime d =
     (1 \<le> dt_year d \<and> dt_year d \<le> 9999 \<and> 1 \<le> dt_month d \<and> dt_month d \<le> 12
      \<and> 1 \<le> dt_day d \<and> dt_day d \<le> days_in_month (dt_year d) (dt_month d)
      \<and> dt_hour d \<le> 23 \<and> dt_minute d \<le> 59 \<and> dt_second d \<le> 59 \<and> dt_micro d \<le> 999999)"

section \<open>strptime\<close>

text \<open>A numeric field: at least \<open>lo\<close> and at most \<open>hi\<close> digits, all that are there.\<close>

definition digit_field :: "nat \<Rightarrow> nat \<Rightarrow> string \<Rightarrow> (string \<times> string) option" where
  "digit_field lo hi s =
     (let ds = takeWhile is_digit s
      in if lo \<le> length ds \<and> length ds \<le> hi then Some (ds, dropWhile is_digit s) else None)"

text \<open>A literal of the format; letters match in either case.\<close>

fun literal :: "char \<Rightarrow> string \<Rightarrow> string option" where
  "literal c [] = None"
| "literal c (x # s) = (if char_upper x = char_upper c then Some s else None)"

definition field :: "nat \<Rightarrow> nat \<Rightarrow> char \<Rightarrow> string \<Rightarrow> (nat \<times> string) option" where
  "field lo hi sep s =
     (case digit_field lo hi s of
        None \<Rightarrow> None
      | Some (ds, r) \<Rightarrow> (case literal sep r of None \<Rightarrow> None | Some r' \<Rightarrow> Some (digits_val ds, r')))"

text \<open>\<open>%f\<close>: one to six digits, padded with zeros on the right.\<close>

definition micro_field :: "string \<Rightarrow> (nat \<times> string) option" where
  "micro_field s =
     (case digit_field 1 6 s of
        None \<Rightarrow> None
      | Some (ds, r) \<Rightarrow>
          (case literal CHR ''Z'' r of
             None \<Rightarrow> None
           | Some r' \<Rightarrow> Some (digits_val (ds @ replicate (6 - length ds) CHR ''0''), r')))"

definition date_part :: "string \<Rightarrow> (nat \<times> nat \<times> nat \<times> nat \<times> nat \<times> string) option" where
  "date_part s =
     (case field 4 4 CHR ''-'' s of None \<Rightarrow> None | Some (y, s1) \<Rightarrow>
     (case field 1 2 CHR ''-'' s1 of None \<Rightarrow> None | Some (m, s2) \<Rightarrow>
     (case field 1 2 CHR ''T'' s2 of None \<Rightarrow> None | Some (d, s3) \<Rightarrow>
     (case field 1 2 CHR '':'' s3 of None \<Rightarrow> None | Some (h, s4) \<Rightarrow>
     (case field 1 2 CHR '':'' s4 of None \<Rightarrow> None | Some (mi, s5) \<Rightarrow>
        Some (y, m, d, h, mi, s5))))))"

definition checked :: "datetime \<Rightarrow> string \<Rightarrow> datetime option" where
  "checked d rest = (if rest = [] \<and> valid_datetime d then Some d else None)"

definition strptime_float :: "string \<Rightarrow> datetime option" where
  "strptime_float s =
     (case date_part s of None \<Rightarrow> None | Some (y, m, d, h, mi, r) \<Rightarrow>
     (case field 1 2 CHR ''.'' r of None \<Rightarrow> None | Some (sec, r1) \<Rightarrow>
     (case micro_field r1 of None \<Rightarrow> None | Some (us, r2) \<Rightarrow>
        checked \<lparr>dt_year = y, dt_month = m, dt_day = d, dt_hour = h, dt_minute = mi,
                 dt_second = sec, dt_micro = us\<rparr> r2)))"

definition strptime_int :: "string \<Rightarrow> datetime option" where
  "strptime_int s =
     (case date_part s of None \<Rightarrow> None | Some (y, m, d, h, mi, r) \<Rightarrow>
     (case field 1 2 CHR ''Z'' r of None \<Rightarrow> None | Some (sec, r1) \<Rightarrow>
        checked \<lparr>dt_year = y, dt_month = m, dt_day = d, dt_hour = h, dt_minute = mi,
                 dt_second = sec, dt_micro = 0\<rparr> r1))"

text \<open>\<open>_parse_expiry_time\<close>: the last format that fits counts; a value that is no string is a TypeError.\<close>

definition parse_expiry_time :: "py \<Rightarrow> pyexc + int" where
  "parse_expiry_time v =
     (case v of
        PStr s \<Rightarrow>
          (case (case strptime_int s of Some d \<Rightarrow> Some d | None \<Rightarrow> strptime_float s) of
             None \<Rightarrow> Inl ValueErr
           | Some d \<Rightarrow> Inr (micros d))
      | _ \<Rightarrow> Inl TypeErr)"

lemma checked_valid: "checked d r = Some d' \<Longrightarrow> d' = d \<and> valid_datetime d"
  by (auto simp: checked_def split: if_splits)

lemma strptime_valid:
  "strptime_int s = Some d \<Longrightarrow> valid_datetime d"
  "strptime_float s = Some d \<Longrightarrow> valid_datetime d"
  by (auto simp: strptime_int_def strptime_float_def split: option.splits prod.splits
      dest: checked_valid)

lemmas expiry_eval =
  parse_expiry_time_def strptime_int_def strptime_float_def date_part_def field_def micro_field_def
  digit_field_def is_digit_def digits_val_def digit_val_def char_upper_def Let_def checked_def
  valid_datetime_def days_in_month_def is_leap_def

lemma june_days: "sum_list (map (days_in_month 2015) [Suc 0..<6]) = 151"
proof -
  have "[Suc 0..<6] = [1, 2, 3, 4, 5]" by (simp add: upt_rec)
  then show ?thesis by (simp add: days_in_month_def is_leap_def)
qed

lemma four_zeros: "replicate 4 c = [c, c, c, c]"
  by (simp add: eval_nat_numeral)

lemma parse_expiry_example:
  "parse_expiry_time (PStr ''2015-06-01T12:00:00Z'') = Inr 1433160000000000"
  by (simp add: expiry_eval micros_def ordinal_def epoch_ordinal_def days_before_year_def
      days_before_month_def june_days four_zeros)

lemma parse_expiry_float_example:
  "parse_expiry_time (PStr ''2015-06-01T12:00:00.25Z'') = Inr 1433160000250000"
  by (simp add: expiry_eval micros_def ordinal_def epoch_ordinal_def days_before_year_def
      days_before_month_def june_days four_zeros)

lemma parse_expiry_bad_day:
  "parse_expiry_time (PStr ''2015-02-30T12:00:00Z'') = Inl ValueErr"
  by (simp add: expiry_eval)

section \<open>State\<close>

type_synonym auth_data = "py \<times> py"

record provider =
  pv_auth_url :: string
  pv_creds :: credentials
  pv_cache :: "auth_data option"
  pv_alt_part :: "string option"
  pv_alt_auth :: "auth_data option"

record 'r auth_world = "'r world" +
  prov :: provider

definition upd_prov :: "(provider \<Rightarrow> provider) \<Rightarrow> (('r, 'x) auth_world_scheme, unit) io" where
  "upd_prov f = modify (\<lambda>w. w\<lparr>prov := f (prov w)\<rparr>)"

text \<open>A computation on the credentials object, run on the provider's.\<close>

definition on_creds :: "(credentials, 'a) io \<Rightarrow> (('r, 'x) auth_world_scheme, 'a) io" where
  "on_creds m w =
     (case m (pv_creds (prov w)) of (r, c) \<Rightarrow> (r, w\<lparr>prov := (prov w)\<lparr>pv_creds := c\<rparr>\<rparr>))"

section \<open>Filling the credentials\<close>

text \<open>
  \<open>if self.credentials.k is None: self.credentials.k = v\<close>. The value is evaluated only when it is
  needed, and what was set before an exception stays set.
\<close>

definition fill :: "string \<Rightarrow> (pyexc + py) \<Rightarrow> (credentials, unit) io" where
  "fill k v c =
     (if is_none (cget c k)
      then (case v of Inl e \<Rightarrow> (Inl e, c) | Inr x \<Rightarrow> (Inr (), cred_setattr c k x))
      else (Inr (), c))"

primrec fill_all :: "(string \<times> (pyexc + py)) list \<Rightarrow> (credentials, unit) io" where
  "fill_all [] = ret ()"
| "fill_all (kv # kvs) = bnd (fill (fst kv) (snd kv)) (\<lambda>_. fill_all kvs)"

definition v2_fill_credentials :: "py \<Rightarrow> (credentials, unit) io" where
  "v2_fill_credentials body =
     bnd (lift (bindE (getitem body ''token'') (\<lambda>t. getitem t ''tenant''))) (\<lambda>tenant.
     bnd (lift (getitem body ''user'')) (\<lambda>user.
       fill_all
         [(''tenant_name'', getitem tenant ''name''),
          (''tenant_id'', getitem tenant ''id''),
          (''username'', getitem user ''name''),
          (''user_id'', getitem user ''id'')]))"

definition v3_fill_credentials :: "py \<Rightarrow> (credentials, unit) io" where
  "v3_fill_credentials body =
     bnd (lift (py_get body ''project'' PNone)) (\<lambda>project.
     bnd (lift (py_get body ''domain'' PNone)) (\<lambda>domain.
     bnd (lift (getitem body ''user'')) (\<lambda>user.
     bnd (if \<not> is_none project
          then fill_all
            [(''project_name'', getitem project ''name''),
             (''project_id'', getitem project ''id''),
             (''project_domain_id'', bindE (getitem project ''domain'') (\<lambda>d. getitem d ''id'')),
             (''project_domain_name'', bindE (getitem project ''domain'') (\<lambda>d. getitem d ''name''))]
          else ret ()) (\<lambda>_.
     bnd (if \<not> is_none domain
          then fill_all
            [(''domain_id'', getitem domain ''id''), (''domain_name'', getitem domain ''name'')]
          else ret ()) (\<lambda>_.
       fill_all
         [(''username'', getitem user ''name''),
          (''user_id'', getitem user ''id''),
          (''user_domain_id'', bindE (getitem user ''domain'') (\<lambda>d. getitem d ''id'')),
          (''user_domain_name'', bindE (getitem user ''domain'') (\<lambda>d. getitem d ''name''))])))))"

text \<open>\<open>_fill_credentials\<close> of the provider's class.\<close>

definition provider_fill :: "py \<Rightarrow> (('r, 'x) auth_world_scheme, unit) io" where
  "provider_fill body w =
     on_creds (case cr_version (pv_creds (prov w)) of
                 V2 \<Rightarrow> v2_fill_credentials body | V3 \<Rightarrow> v3_fill_credentials body) w"

section \<open>Getting a token\<close>

text \<open>\<open>_auth_params\<close> of the v3 class; the v2 parameters are the arguments of \<open>v2_get_token\<close>.\<close>

definition v3_auth_params :: "credentials \<Rightarrow> (string, py) dict" where
  "v3_auth_params c =
     map (\<lambda>k. (k, cget c k))
       [''user_id'', ''username'', ''password'', ''project_id'', ''project_name'',
        ''user_domain_id'', ''user_domain_name'', ''project_domain_id'', ''project_domain_name'',
        ''domain_id'', ''domain_name'']"

definition fetch_auth :: "'r env \<Rightarrow> (('r, 'x) auth_world_scheme, auth_data) io" where
  "fetch_auth env w =
     (let p = prov w; c = pv_creds p
      in case cr_version c of
           V2 \<Rightarrow> v2_get_token env (v2_token_url (pv_auth_url p))
                   (cget c ''username'') (cget c ''password'') (cget c ''tenant_name'') w
         | V3 \<Rightarrow> v3_get_token env (v3_token_url (pv_auth_url p)) (v3_auth_params c) w)"

definition set_auth :: "'r env \<Rightarrow> (('r, 'x) auth_world_scheme, unit) io" where
  "set_auth env =
     bnd (fetch_auth env) (\<lambda>d.
     bnd (upd_prov (\<lambda>p. p\<lparr>pv_cache := Some d\<rparr>)) (\<lambda>_. provider_fill (snd d)))"

text \<open>
  \<open>is_expired\<close>: a token counts as expired sixty seconds before its date. A date of the first minute
  of year 1 has no such instant (OverflowError).
\<close>

definition expiry_field :: "ident_version \<Rightarrow> py \<Rightarrow> pyexc + py" where
  "expiry_field v access =
     (case v of
        V2 \<Rightarrow> bindE (getitem access ''token'') (\<lambda>t. getitem t ''expires'')
      | V3 \<Rightarrow> getitem access ''expires_at'')"

definition min_instant :: int where
  "min_instant = - 62135596800000000"

definition token_expiry_threshold :: int where
  "token_expiry_threshold = 60000000"

definition is_expired :: "ident_version \<Rightarrow> int \<Rightarrow> auth_data \<Rightarrow> pyexc + bool" where
  "is_expired v utcnow d =
     bindE (expiry_field v (snd d)) (\<lambda>s.
     bindE (parse_expiry_time s) (\<lambda>expiry.
       if expiry - token_expiry_threshold < min_instant then Inl OverflowErr
       else Inr (expiry - token_expiry_threshold \<le> utcnow)))"

text \<open>\<open>get_auth\<close>. After a successful \<open>set_auth\<close> the cache is set, so the TypeError is never raised.\<close>

definition needs_auth :: "('r, 'x) auth_world_scheme \<Rightarrow> pyexc + bool" where
  "needs_auth w =
     (case pv_cache (prov w) of
        None \<Rightarrow> Inr True
      | Some d \<Rightarrow> is_expired (cr_version (pv_creds (prov w))) (now w) d)"

definition get_auth :: "'r env \<Rightarrow> (('r, 'x) auth_world_scheme, auth_data) io" where
  "get_auth env =
     bnd (\<lambda>w. (needs_auth w, w)) (\<lambda>stale.
     bnd (if stale then set_auth env else ret ()) (\<lambda>_.
       \<lambda>w. (case pv_cache (prov w) of None \<Rightarrow> Inl TypeErr | Some d \<Rightarrow> Inr d, w)))"

definition get_token :: "'r env \<Rightarrow> (('r, 'x) auth_world_scheme, py) io" where
  "get_token env = bnd (get_auth env) (\<lambda>d. ret (fst d))"

text \<open>
  \<open>clear_auth\<close>. The initial arguments went through \<open>__init__\<close>, so applying them again does not fail.
\<close>

definition clear_auth :: "(('r, 'x) auth_world_scheme, unit) io" where
  "clear_auth =
     bnd (upd_prov (\<lambda>p. p\<lparr>pv_cache := None\<rparr>)) (\<lambda>_.
       on_creds (\<lambda>c. case cred_reset c of
          Inr c' \<Rightarrow> (Inr (), c')
        | Inl e \<Rightarrow> (Inl e, c\<lparr>cr_attrs := clear_attrs (attributes_of (cr_version c)) (cr_attrs c)\<rparr>)))"

definition fill_credentials :: "'r env \<Rightarrow> (('r, 'x) auth_world_scheme, credentials) io" where
  "fill_credentials env =
     bnd (get_auth env) (\<lambda>d.
     bnd (provider_fill (snd d)) (\<lambda>_. gets (\<lambda>w. pv_creds (prov w))))"

text \<open>\<open>AuthProvider.__init__\<close> on a credentials object.\<close>

definition provider_init :: "'r env \<Rightarrow> credentials \<Rightarrow> string \<Rightarrow> pyexc + provider" where
  "provider_init env c auth_url =
     (if cred_is_valid c then
        Inr \<lparr>pv_auth_url = auth_url, pv_creds = c, pv_cache = None, pv_alt_part = None,
             pv_alt_auth = None\<rparr>
      else
        Inl (Auto InvalidCredentials
          [PStr (''Credentials are: ''
             @ e_repr env (PDict (map (\<lambda>k. (k, cget c k))
                 (filter (\<lambda>k. k \<noteq> ''password'') (attributes_of (cr_version c)))))
             @ (if is_none (cget c ''password'') then '' Password is not defined.''
                else '' Password is defined.''))] []))"

text \<open>\<open>get_credentials\<close>: the provider lives for the one call.\<close>

definition parse_identity_version :: "string \<Rightarrow> ident_version option" where
  "parse_identity_version s = (if s = ''v2'' then Some V2 else if s = ''v3'' then Some V3 else None)"

definition with_provider ::
    "provider \<Rightarrow> ('r auth_world, 'a) io \<Rightarrow> ('r world, 'a) io" where
  "with_provider p m w =
     (case m \<lparr>now = now w, remote = remote w, sent = sent w, naps = naps w, prov = p\<rparr> of
        (r, v) \<Rightarrow> (r, \<lparr>now = now v, remote = remote v, sent = sent v, naps = naps v\<rparr>))"

definition get_credentials ::
    "'r env \<Rightarrow> string \<Rightarrow> bool \<Rightarrow> string \<Rightarrow> (string, py) dict \<Rightarrow> ('r world, credentials) io" where
  "get_credentials env auth_url fill_in identity_version kwargs =
     (case parse_identity_version identity_version of
        None \<Rightarrow> throw (Auto InvalidIdentityVersion [] [(''identity_version'', PStr identity_version)])
      | Some v \<Rightarrow>
          bnd (lift (cred_init v kwargs)) (\<lambda>creds.
            if fill_in then
              bnd (lift (provider_init env creds auth_url)) (\<lambda>p.
                with_provider p (fill_credentials env))
            else ret creds))"

section \<open>The base URL of a service\<close>

text \<open>The last endpoint of the region wins; \<open>None\<close> when the region is \<open>None\<close> or not there.\<close>

fun v2_last_match :: "py \<Rightarrow> py \<Rightarrow> py list \<Rightarrow> py \<Rightarrow> pyexc + py" where
  "v2_last_match region etype [] acc = Inr acc"
| "v2_last_match region etype (e # es) acc =
     (if is_none region then v2_last_match region etype es acc
      else bindE (getitem e ''region'') (\<lambda>r.
        if r = region
        then bindE (py_lookup e etype) (\<lambda>u. v2_last_match region etype es u)
        else v2_last_match region etype es acc))"

definition v2_service_url :: "py \<Rightarrow> py \<Rightarrow> py \<Rightarrow> pyexc + py" where
  "v2_service_url region etype ep =
     bindE (getitem ep ''endpoints'') (\<lambda>es.
     bindE (py_iter es) (\<lambda>l.
     bindE (v2_last_match region etype l PNone) (\<lambda>u.
       if \<not> truthy u then bindE (py_first es) (\<lambda>e0. py_lookup e0 etype) else Inr u)))"

fun v2_find_service :: "py \<Rightarrow> py \<Rightarrow> py \<Rightarrow> py list \<Rightarrow> pyexc + py" where
  "v2_find_service service region etype [] = Inr PNone"
| "v2_find_service service region etype (ep # eps) =
     bindE (getitem ep ''type'') (\<lambda>t.
       if t = service then v2_service_url region etype ep
       else v2_find_service service region etype eps)"

definition v2_catalog_url :: "py \<Rightarrow> py \<Rightarrow> py \<Rightarrow> py \<Rightarrow> pyexc + py" where
  "v2_catalog_url access service region etype =
     bindE (getitem access ''serviceCatalog'') (\<lambda>cat.
     bindE (py_iter cat) (v2_find_service service region etype))"

text \<open>The v3 catalogue is filtered by type, then by interface, then by region.\<close>

definition has_field :: "string \<Rightarrow> py \<Rightarrow> py \<Rightarrow> pyexc + bool" where
  "has_field k v ep = bindE (getitem ep k) (\<lambda>x. Inr (x = v))"

definition v3_interface :: "py \<Rightarrow> pyexc + py" where
  "v3_interface etype =
     bindE (py_in ''URL'' etype) (\<lambda>u.
       if u then bindE (as_str AttrErr etype) (\<lambda>s. Inr (PStr (str_replace ''URL'' [] s)))
       else Inr etype)"

definition v3_pick :: "py \<Rightarrow> py \<Rightarrow> py list \<Rightarrow> pyexc + py" where
  "v3_pick interface region eps =
     bindE (filterE (has_field ''interface'' interface) eps) (\<lambda>by_type.
     bindE (filterE (has_field ''region'' region) (if by_type = [] then eps else by_type)) (\<lambda>by_region.
       case by_region of
         e # _ \<Rightarrow> Inr e
       | [] \<Rightarrow> (case eps of e # _ \<Rightarrow> Inr e | [] \<Rightarrow> Inl IndexErr)))"

definition v3_catalog_url :: "py \<Rightarrow> py \<Rightarrow> py \<Rightarrow> py \<Rightarrow> pyexc + py" where
  "v3_catalog_url access service region etype =
     bindE (v3_interface etype) (\<lambda>interface.
     bindE (getitem access ''catalog'') (\<lambda>cat.
     bindE (py_iter cat) (\<lambda>l.
     bindE (filterE (has_field ''type'' service) l) (\<lambda>found.
       case found of
         [] \<Rightarrow> Inl (Auto EndpointNotFound [service] [])
       | sc # _ \<Rightarrow>
           bindE (getitem sc ''endpoints'') (\<lambda>es.
           bindE (py_iter es) (\<lambda>eps.
           bindE (v3_pick interface region eps) (\<lambda>e. py_lookup e (PStr ''url''))))))))"

text \<open>
  The version and the path of the URL are replaced as texts: every occurrence of the old path in the
  whole URL, wherever it stands.
\<close>

definition with_api_version :: "string \<Rightarrow> string \<Rightarrow> string \<Rightarrow> string" where
  "with_api_version api path base =
     (let noversion_path = str_join ''/'' (drop 2 (str_split CHR ''/'' path));
          new = ''/'' @ api @ (if noversion_path \<noteq> [] then ''/'' @ noversion_path else [])
      in str_replace path new base)"

definition filter_arg :: "(string, py) dict \<Rightarrow> string \<Rightarrow> py \<Rightarrow> py" where
  "filter_arg flt k dflt = (case dget flt k of None \<Rightarrow> dflt | Some v \<Rightarrow> v)"

definition adapt_url :: "ident_version \<Rightarrow> (string, py) dict \<Rightarrow> string \<Rightarrow> pyexc + string" where
  "adapt_url v flt base =
     (let path = u_path (urlparse base); api = filter_arg flt ''api_version'' PNone
      in bindE (if \<not> is_none api
                then bindE (as_str TypeErr api) (\<lambda>a. Inr (with_api_version a path base))
                else Inr base) (\<lambda>b.
         Inr (if \<not> is_none (filter_arg flt ''skip_path'' PNone) \<and> (v = V3 \<or> path \<noteq> [])
              then str_replace path ''/'' b else b)))"

definition base_url :: "ident_version \<Rightarrow> (string, py) dict \<Rightarrow> auth_data \<Rightarrow> pyexc + string" where
  "base_url v flt d =
     (let service = filter_arg flt ''service'' PNone;
          region = filter_arg flt ''region'' PNone;
          etype = filter_arg flt ''endpoint_type''
                    (PStr (case v of V2 \<Rightarrow> ''publicURL'' | V3 \<Rightarrow> ''public''))
      in if is_none service then Inl (Auto EndpointNotFound [PStr ''No service provided''] [])
         else bindE (case v of V2 \<Rightarrow> v2_catalog_url (snd d) service region etype
                             | V3 \<Rightarrow> v3_catalog_url (snd d) service region etype) (\<lambda>u.
           if is_none u then Inl (Auto EndpointNotFound [service] [])
           else bindE (as_str AttrErr u) (adapt_url v flt)))"

section \<open>Decorating a request\<close>

record auth_req =
  aq_url :: "string option"
  aq_headers :: "(string, string) dict option"
  aq_body :: py

text \<open>Joining the base URL and the relative one merges contiguous slashes of the path.\<close>

definition join_url :: "string \<Rightarrow> string option \<Rightarrow> string" where
  "join_url base url =
     (case url of
        None \<Rightarrow> base
      | Some u \<Rightarrow>
          if u = [] then base
          else (let parts = urlparse (base @ ''/'' @ u)
                in urlunparse (parts\<lparr>u_path := merge_slashes (u_path parts)\<rparr>)))"

definition decorate_with ::
    "'r env \<Rightarrow> ident_version \<Rightarrow> (string, py) dict \<Rightarrow> auth_req \<Rightarrow> auth_data \<Rightarrow> pyexc + auth_req" where
  "decorate_with env v flt rq d =
     bindE (base_url v flt d) (\<lambda>base.
       Inr \<lparr>aq_url = Some (join_url base (aq_url rq)),
            aq_headers = Some (dset (case aq_headers rq of None \<Rightarrow> [] | Some h \<Rightarrow> h)
                                 ''X-Auth-Token'' (py_text (e_repr env) (fst d))),
            aq_body = aq_body rq\<rparr>)"

definition decorate_request ::
    "'r env \<Rightarrow> (string, py) dict \<Rightarrow> auth_req \<Rightarrow> auth_data option
     \<Rightarrow> (('r, 'x) auth_world_scheme, auth_req) io" where
  "decorate_request env flt rq given =
     bnd (case given of None \<Rightarrow> get_auth env | Some d \<Rightarrow> ret d) (\<lambda>d w.
       (decorate_with env (cr_version (pv_creds (prov w))) flt rq d, w))"

text \<open>\<open>a[part] == b[part]\<close> and \<open>a[part] = b[part]\<close> on the dictionaries of a request's parts.\<close>

definition dict_eq :: "('k, 'v) dict \<Rightarrow> ('k, 'v) dict \<Rightarrow> bool" where
  "dict_eq a b = list_all (\<lambda>k. dget a k = dget b k) (dkeys a @ dkeys b)"

definition headers_eq :: "(string, string) dict option \<Rightarrow> (string, string) dict option \<Rightarrow> bool" where
  "headers_eq a b =
     (case (a, b) of (None, None) \<Rightarrow> True | (Some x, Some y) \<Rightarrow> dict_eq x y | _ \<Rightarrow> False)"

definition same_part :: "string \<Rightarrow> auth_req \<Rightarrow> auth_req \<Rightarrow> pyexc + bool" where
  "same_part part a b =
     (if part = ''url'' then Inr (aq_url a = aq_url b)
      else if part = ''headers'' then Inr (headers_eq (aq_headers a) (aq_headers b))
      else if part = ''body'' then Inr (aq_body a = aq_body b)
      else Inl (KeyErr part))"

definition copy_part :: "string \<Rightarrow> auth_req \<Rightarrow> auth_req \<Rightarrow> auth_req" where
  "copy_part part src dst =
     (if part = ''url'' then dst\<lparr>aq_url := aq_url src\<rparr>
      else if part = ''headers'' then dst\<lparr>aq_headers := aq_headers src\<rparr>
      else if part = ''body'' then dst\<lparr>aq_body := aq_body src\<rparr>
      else dst)"

definition set_alt_auth_data :: "string \<Rightarrow> auth_data option \<Rightarrow> (('r, 'x) auth_world_scheme, unit) io" where
  "set_alt_auth_data part d = upd_prov (\<lambda>p. p\<lparr>pv_alt_part := Some part, pv_alt_auth := d\<rparr>)"

definition reset_alt_auth_data :: "(('r, 'x) auth_world_scheme, unit) io" where
  "reset_alt_auth_data = upd_prov (\<lambda>p. p\<lparr>pv_alt_part := None, pv_alt_auth := None\<rparr>)"

definition override_part ::
    "string \<Rightarrow> auth_req \<Rightarrow> auth_req \<Rightarrow> (('r, 'x) auth_world_scheme, auth_req) io" where
  "override_part part auth_rq other =
     bnd (lift (same_part part auth_rq other)) (\<lambda>same.
       if same then throw (Auto BadAltAuth [] [(''part'', PStr part)])
       else bnd reset_alt_auth_data (\<lambda>_. ret (copy_part part other auth_rq)))"

definition auth_request ::
    "'r env \<Rightarrow> auth_req \<Rightarrow> (string, py) dict \<Rightarrow> (('r, 'x) auth_world_scheme, auth_req) io" where
  "auth_request env orig flt =
     bnd (decorate_request env flt orig None) (\<lambda>auth_rq w.
       (case pv_alt_part (prov w) of
          None \<Rightarrow> ret auth_rq
        | Some part \<Rightarrow>
            (case pv_alt_auth (prov w) of
               Some d \<Rightarrow>
                 bnd (decorate_request env flt orig (Some d)) (override_part part auth_rq)
             | None \<Rightarrow> override_part part auth_rq orig)) w)"

end
