(* ===== verification/AuthFacts.thy ===== *)
theory AuthFacts
  imports Auth
begin

text \<open>
  What the providers of \<open>automation/auth.py\<close> guarantee: which part of the state each operation may
  change, when a token is fetched, what a decorated request looks like, how the altered request part
  is used up, and how the base URL is adapted.
\<close>

section \<open>What an operation leaves alone\<close>

text \<open>
  Whatever an operation of the provider does, the class and the initial arguments of the credentials
  and the identity URL stay; known attributes stay known and coupled attributes stay coupled.
\<close>

definition creds_ok :: "credentials \<Rightarrow> bool" where
  "creds_ok c =
     (known_attrs (cr_version c) (cr_attrs c) \<and> (cr_version c = V3 \<longrightarrow> coupled (cr_attrs c)))"

definition creds_rel :: "credentials \<Rightarrow> credentials \<Rightarrow> bool" where
  "creds_rel c c' =
     (cr_version c' = cr_version c \<and> cr_initial c' = cr_initial c \<and> (creds_ok c \<longrightarrow> creds_ok c'))"

definition prov_rel :: "('r, 'x) auth_world_scheme \<Rightarrow> ('r, 'x) auth_world_scheme \<Rightarrow> bool" where
  "prov_rel w w' =
     (creds_rel (pv_creds (prov w)) (pv_creds (prov w'))
      \<and> pv_auth_url (prov w') = pv_auth_url (prov w))"

lemma creds_rel_refl: "creds_rel c c"
  by (simp add: creds_rel_def)

lemma creds_rel_trans: "creds_rel a b \<Longrightarrow> creds_rel b c \<Longrightarrow> creds_rel a c"
  by (simp add: creds_rel_def)

lemma creds_rel_order: "reflp creds_rel" "transp creds_rel"
  by (auto intro!: reflpI transpI intro: creds_rel_refl creds_rel_trans)

lemma prov_rel_order: "reflp prov_rel" "transp prov_rel"
  by (auto intro!: reflpI transpI simp: prov_rel_def intro: creds_rel_refl creds_rel_trans)

lemmas creds_pure [within_intros] = within_pure [OF creds_rel_order(1)]
lemmas prov_pure [within_intros] = within_pure [OF prov_rel_order(1)]
lemmas creds_bnd [within_intros] = within_bnd [OF creds_rel_order(2)]
lemmas prov_bnd [within_intros] = within_bnd [OF prov_rel_order(2)]

lemma creds_setattr_rel:
  assumes "k \<in> set (attributes_of (cr_version c))"
  shows "creds_rel c (cred_setattr c k x)"
  using assms
  by (cases "cr_version c")
    (auto simp: creds_rel_def creds_ok_def cred_setattr_def attrs_set_known attrs_set_def
      v3_setattr_coupled dest: attrs_set_known [where x = x])

text \<open>Filling only names attributes of the class.\<close>

definition creds_rel_of :: "ident_version \<Rightarrow> credentials \<Rightarrow> credentials \<Rightarrow> bool" where
  "creds_rel_of v c c' = (cr_version c = v \<longrightarrow> creds_rel c c')"

lemma creds_rel_of_order: "reflp (creds_rel_of v)" "transp (creds_rel_of v)"
  by (auto intro!: reflpI transpI simp: creds_rel_of_def creds_rel_def)

lemmas creds_of_pure [within_intros] = within_pure [OF creds_rel_of_order(1)]
lemmas creds_of_bnd [within_intros] = within_bnd [OF creds_rel_of_order(2)]

lemma fill_within:
  "k \<in> set (attributes_of v) \<Longrightarrow> within (creds_rel_of v) (fill k x)"
  by (auto simp: within_def creds_rel_of_def fill_def creds_rel_refl creds_setattr_rel split: sum.splits)

lemma fill_all_within:
  "list_all (\<lambda>kv. fst kv \<in> set (attributes_of v)) kvs \<Longrightarrow> within (creds_rel_of v) (fill_all kvs)"
  by (induction kvs) (auto intro!: within_intros fill_within)

lemma v2_fill_within: "within (creds_rel_of V2) (v2_fill_credentials body)"
  unfolding v2_fill_credentials_def
  by (intro within_intros fill_all_within) (simp add: attributes_of_def v2_attributes_def)

lemma v3_fill_within: "within (creds_rel_of V3) (v3_fill_credentials body)"
proof -
  have pick: "within (creds_rel_of V3) (if b then m else ret ())"
    if "within (creds_rel_of V3) m" for b and m :: "(credentials, unit) io"
    using that by (simp add: within_intros)
  show ?thesis
    unfolding v3_fill_credentials_def
    by (intro within_intros pick fill_all_within) (simp_all add: attributes_of_def v3_attributes_def)
qed

lemma on_creds_within:
  "(\<And>c. creds_rel c (snd (m c))) \<Longrightarrow> within prov_rel (on_creds m)"
  by (auto simp: within_def on_creds_def prov_rel_def split: prod.splits) (metis snd_conv)

lemma provider_fill_within [within_intros]: "within prov_rel (provider_fill body)"
proof -
  have "creds_rel c (snd ((case cr_version c of V2 \<Rightarrow> v2_fill_credentials body
                                              | V3 \<Rightarrow> v3_fill_credentials body) c))" for c
    using v2_fill_within [of body] v3_fill_within [of body]
    by (cases "cr_version c") (auto simp: within_def creds_rel_of_def)
  then show ?thesis
    by (auto simp: within_def provider_fill_def on_creds_def prov_rel_def split: prod.splits)
      (metis snd_conv)
qed

lemma upd_prov_within:
  "(\<And>p. pv_creds (f p) = pv_creds p \<and> pv_auth_url (f p) = pv_auth_url p) \<Longrightarrow>
   within prov_rel (upd_prov f)"
  by (simp add: within_def upd_prov_def prov_rel_def creds_rel_refl)

text \<open>The HTTP operations do not touch the provider.\<close>

definition same_prov :: "('r, 'x) auth_world_scheme \<Rightarrow> ('r, 'x) auth_world_scheme \<Rightarrow> bool" where
  "same_prov w w' = (prov w' = prov w)"

lemma same_prov_order: "reflp same_prov" "transp same_prov"
  by (auto intro!: reflpI transpI simp: same_prov_def)

lemmas same_pure [within_intros] = within_pure [OF same_prov_order(1)]
lemmas same_bnd [within_intros] = within_bnd [OF same_prov_order(2)]

lemma http_send_same_prov [within_intros]: "within same_prov (http_send srv rq)"
  by (auto simp: within_def same_prov_def http_send_def split: prod.splits)

lemma raw_request_same_prov [within_intros]: "within same_prov (raw_request env url m hs b)"
  by (simp add: raw_request_def closing_request_def within_intros)

lemma token_request_same_prov [within_intros]:
  "within same_prov (token_request env acc m url x hs b)"
  unfolding token_request_def Let_def by (auto intro!: within_intros split: prod.splits)

lemma get_token_same_prov [within_intros]:
  "within same_prov (v2_get_token env url u p t)" "within same_prov (v3_get_token env url kw)"
  unfolding v2_get_token_def v2_auth_def v2_post_auth_def v3_get_token_def v3_auth_def
  by (auto intro!: within_intros split: prod.splits)

lemma fetch_auth_same_prov [within_intros]: "within same_prov (fetch_auth env)"
  by (auto simp: within_def fetch_auth_def Let_def get_token_same_prov [unfolded within_def, rule_format]
      split: ident_version.splits)

lemma same_prov_rel: "within same_prov m \<Longrightarrow> within prov_rel m"
  by (simp add: within_def same_prov_def prov_rel_def creds_rel_refl)

lemma set_auth_within [within_intros]: "within prov_rel (set_auth env)"
  unfolding set_auth_def
  by (intro within_intros upd_prov_within same_prov_rel [OF fetch_auth_same_prov]) simp

lemma if_within: "within R a \<Longrightarrow> within R b \<Longrightarrow> within R (if c then a else b)"
  by simp

lemma read_within:
  "reflp R \<Longrightarrow> within R (\<lambda>w. (f w, w))"
  by (simp add: within_def reflp_def)

lemma get_auth_within [within_intros]: "within prov_rel (get_auth env)"
  unfolding get_auth_def
  by (intro within_intros if_within read_within prov_rel_order)

lemma fill_credentials_within [within_intros]: "within prov_rel (fill_credentials env)"
  unfolding fill_credentials_def by (intro within_intros)

lemma decorate_request_within [within_intros]: "within prov_rel (decorate_request env flt rq given)"
  unfolding decorate_request_def
  by (cases given) (auto intro!: within_intros read_within prov_rel_order)

lemma reset_alt_within [within_intros]: "within prov_rel reset_alt_auth_data"
  unfolding reset_alt_auth_data_def by (rule upd_prov_within) simp

lemma set_alt_within [within_intros]: "within prov_rel (set_alt_auth_data part d)"
  unfolding set_alt_auth_data_def by (rule upd_prov_within) simp

lemma override_part_within [within_intros]: "within prov_rel (override_part part a b)"
  unfolding override_part_def by (intro within_intros if_within)

lemma auth_request_within [within_intros]: "within prov_rel (auth_request env rq flt)"
proof -
  have sel: "within prov_rel
     (case part of None \<Rightarrow> ret a
      | Some part \<Rightarrow>
          (case alt of
             Some d \<Rightarrow> bnd (decorate_request env flt rq (Some d)) (override_part part a)
           | None \<Rightarrow> override_part part a rq))" for a part alt
    by (auto intro!: within_intros split: option.splits)
  show ?thesis
    unfolding auth_request_def
    by (rule within_bnd [OF prov_rel_order(2) decorate_request_within])
      (simp add: within_def sel [unfolded within_def])
qed

section \<open>Clearing brings back the initial credentials\<close>

lemma clear_attrs_known: "known_attrs v a \<Longrightarrow> known_attrs v (clear_attrs ks a)"
proof (induction ks arbitrary: a)
  case (Cons k ks)
  have "known_attrs v (ddel a k)"
    using Cons.prems by (auto simp: known_attrs_def list_all_iff)
  with Cons show ?case by simp
qed simp

lemma clear_attrs_coupled: "coupled (clear_attrs (attributes_of V3) a)"
  by (simp only: coupled_def clear_attrs_get v3_coupled_known if_True simp_thms)

lemma clear_attrs_empty: "known_attrs v a \<Longrightarrow> same_attrs [] (clear_attrs (attributes_of v) a)"
  by (auto simp: same_attrs_def clear_attrs_get unknown_unset)

lemma cred_reset_ok:
  assumes "cred_reset c = Inr c'" "known_attrs (cr_version c) (cr_attrs c)"
  shows "creds_ok c'"
proof -
  obtain a where app: "apply_credentials (cr_version c)
      (clear_attrs (attributes_of (cr_version c)) (cr_attrs c)) (cr_initial c) = Inr a"
    and c': "c' = c\<lparr>cr_attrs := a\<rparr>"
    using assms(1) by (auto simp: cred_reset_def)
  have "known_attrs (cr_version c) a"
    using apply_known [OF app] clear_attrs_known [OF assms(2)] by blast
  moreover have "coupled a" if "cr_version c = V3"
    using apply_v3_coupled [of _ "cr_initial c" a] app clear_attrs_coupled that by metis
  ultimately show ?thesis by (simp add: creds_ok_def c')
qed

lemma cred_reset_fields:
  "cred_reset c = Inr c' \<Longrightarrow> cr_version c' = cr_version c \<and> cr_initial c' = cr_initial c"
  by (auto simp: cred_reset_def)

lemma clear_auth_within [within_intros]: "within prov_rel clear_auth"
proof -
  define f where "f = (\<lambda>c. case cred_reset c of
          Inr c' \<Rightarrow> (Inr (), c')
        | Inl e \<Rightarrow> (Inl e, c\<lparr>cr_attrs := clear_attrs (attributes_of (cr_version c)) (cr_attrs c)\<rparr>))"
  have "creds_rel c (snd (f c))" for c
  proof (cases "cred_reset c")
    case (Inl e)
    then show ?thesis
      using clear_attrs_known clear_attrs_coupled
      by (auto simp: creds_rel_def creds_ok_def f_def)
  next
    case (Inr c')
    then show ?thesis
      using cred_reset_ok [OF Inr] cred_reset_fields [OF Inr]
      by (auto simp: creds_rel_def f_def creds_ok_def)
  qed
  then show ?thesis
    unfolding clear_auth_def f_def [symmetric]
    by (intro within_intros on_creds_within upd_prov_within) simp_all
qed

text \<open>
  The histories of a provider: any sequence of its operations, successful or not, interleaved with
  the passing of time.
\<close>

inductive provider_run ::
    "'r env \<Rightarrow> ('r, 'x) auth_world_scheme \<Rightarrow> ('r, 'x) auth_world_scheme \<Rightarrow> bool" for env where
  start: "provider_run env w w"
| get: "provider_run env w w1 \<Longrightarrow> get_auth env w1 = (r, w2) \<Longrightarrow> provider_run env w w2"
| fetch: "provider_run env w w1 \<Longrightarrow> set_auth env w1 = (r, w2) \<Longrightarrow> provider_run env w w2"
| clear: "provider_run env w w1 \<Longrightarrow> clear_auth w1 = (r, w2) \<Longrightarrow> provider_run env w w2"
| filled: "provider_run env w w1 \<Longrightarrow> fill_credentials env w1 = (r, w2) \<Longrightarrow> provider_run env w w2"
| request: "provider_run env w w1 \<Longrightarrow> auth_request env rq flt w1 = (r, w2) \<Longrightarrow> provider_run env w w2"
| alter: "provider_run env w w1 \<Longrightarrow> set_alt_auth_data part d w1 = (r, w2) \<Longrightarrow> provider_run env w w2"
| restore: "provider_run env w w1 \<Longrightarrow> reset_alt_auth_data w1 = (r, w2) \<Longrightarrow> provider_run env w w2"
| wait: "provider_run env w w1 \<Longrightarrow> provider_run env w (w1\<lparr>now := now w1 + int t\<rparr>)"

lemma prov_rel_refl [simp]: "prov_rel w w"
  by (simp add: prov_rel_def creds_rel_refl)

lemma prov_rel_trans: "prov_rel a b \<Longrightarrow> prov_rel b c \<Longrightarrow> prov_rel a c"
  using prov_rel_order(2) by (rule transpD)

lemma provider_run_rel: "provider_run env w w' \<Longrightarrow> prov_rel w w'"
proof (induction rule: provider_run.induct)
  case (wait w w1 t)
  then show ?case by (simp add: prov_rel_def)
qed (simp, (erule prov_rel_trans, erule withinD [rotated], rule within_intros)+)

lemma cred_init_ok:
  assumes "cred_init v kw = Inr c"
  shows "creds_ok c" "cr_version c = v" "cr_initial c = kw"
    "apply_credentials v [] kw = Inr (cr_attrs c)"
  using assms apply_known [of v "[]" kw] apply_v3_coupled [of "[]" kw]
  by (auto simp: cred_init_def creds_ok_def known_attrs_def coupled_def)

lemma cred_reset_initial:
  assumes "creds_ok c" "apply_credentials (cr_version c) [] (cr_initial c) = Inr a"
  shows "\<exists>c'. cred_reset c = Inr c' \<and> (\<forall>k. cget c' k = aget a k)"
proof -
  have "same_attrs [] (clear_attrs (attributes_of (cr_version c)) (cr_attrs c))"
    using assms(1) by (intro clear_attrs_empty) (simp add: creds_ok_def)
  from apply_same_attrs [OF this assms(2)] show ?thesis
    by (auto simp: cred_reset_def same_attrs_def cget_def)
qed

section \<open>When a token is fetched\<close>

text \<open>A computation that sends exactly one request, to the given address.\<close>

definition posts_to :: "string \<Rightarrow> (('r, 'x) world_scheme, 'a) io \<Rightarrow> bool" where
  "posts_to url m =
     (\<forall>w. \<exists>rq. rq_method rq = ''POST'' \<and> rq_url rq = url \<and> sent (snd (m w)) = sent w @ [rq])"

lemma posts_to_lift:
  assumes "posts_to url m" "\<And>x. \<exists>r. f x = lift r"
  shows "posts_to url (bnd m f)"
  unfolding posts_to_def
proof
  fix w
  obtain r w' where m: "m w = (r, w')" by fastforce
  have "snd (bnd m f w) = w'"
    using m assms(2) by (cases r) (simp_all add: bnd_def, metis lift_apply snd_conv)
  then show "\<exists>rq. rq_method rq = ''POST'' \<and> rq_url rq = url \<and> sent (snd (bnd m f w)) = sent w @ [rq]"
    using assms(1) m by (metis posts_to_def snd_conv)
qed

lemma posts_to_token_request: "posts_to url (token_request env acc ''POST'' url x hs b)"
  by (auto simp: posts_to_def token_request_def Let_def raw_request_def closing_request_def
      http_send_def bnd_def split: prod.splits sum.splits)

lemma posts_to_get_token:
  "posts_to url (v2_get_token env url u p t)"
  "posts_to url (v3_get_token env url kw)"
  unfolding v2_get_token_def v2_auth_def v2_post_auth_def v3_get_token_def v3_auth_def
  by (intro posts_to_lift posts_to_token_request; auto)+

definition token_url :: "provider \<Rightarrow> string" where
  "token_url p =
     (case cr_version (pv_creds p) of
        V2 \<Rightarrow> v2_token_url (pv_auth_url p) | V3 \<Rightarrow> v3_token_url (pv_auth_url p))"

lemma fetch_auth_sends:
  "\<exists>rq. rq_method rq = ''POST'' \<and> rq_url rq = token_url (prov w)
        \<and> sent (snd (fetch_auth env w)) = sent w @ [rq]"
  by (auto simp: fetch_auth_def Let_def token_url_def posts_to_get_token [unfolded posts_to_def, rule_format]
      split: ident_version.splits)

lemma fetch_auth_prov: "prov (snd (fetch_auth env w)) = prov w"
  by (rule fetch_auth_same_prov [unfolded within_def same_prov_def, rule_format])

lemma provider_fill_frame:
  "pv_cache (prov (snd (provider_fill b w))) = pv_cache (prov w)"
  "pv_alt_part (prov (snd (provider_fill b w))) = pv_alt_part (prov w)"
  "pv_alt_auth (prov (snd (provider_fill b w))) = pv_alt_auth (prov w)"
  "sent (snd (provider_fill b w)) = sent w" "now (snd (provider_fill b w)) = now w"
  "remote (snd (provider_fill b w)) = remote w" "naps (snd (provider_fill b w)) = naps w"
  by (auto simp: provider_fill_def on_creds_def split: prod.splits)

lemma set_auth_ok:
  assumes "set_auth env w = (Inr (), w')"
  shows "\<exists>d rq. pv_cache (prov w') = Some d \<and> rq_method rq = ''POST''
           \<and> rq_url rq = token_url (prov w) \<and> sent w' = sent w @ [rq]"
proof -
  obtain d w1 where fetch: "fetch_auth env w = (Inr d, w1)"
    and rest: "provider_fill (snd d) (w1\<lparr>prov := (prov w1)\<lparr>pv_cache := Some d\<rparr>\<rparr>) = (Inr (), w')"
    using assms by (auto simp: set_auth_def upd_prov_def elim!: bnd_InrE)
  obtain rq where "rq_method rq = ''POST''" "rq_url rq = token_url (prov w)"
    "sent w1 = sent w @ [rq]"
    using fetch_auth_sends [of w env] fetch by auto
  moreover have "pv_cache (prov w') = Some d" "sent w' = sent w1"
    using provider_fill_frame [of "snd d" "w1\<lparr>prov := (prov w1)\<lparr>pv_cache := Some d\<rparr>\<rparr>"] rest
    by simp_all
  ultimately show ?thesis by metis
qed

lemma get_auth_cached: "needs_auth w = Inr False \<Longrightarrow> pv_cache (prov w) = Some d \<Longrightarrow>
  get_auth env w = (Inr d, w)"
  by (simp add: get_auth_def bnd_def)

lemma get_auth_ok:
  assumes "get_auth env w = (Inr d, w')"
  shows "pv_cache (prov w') = Some d
     \<and> (w' = w \<and> needs_auth w = Inr False
        \<or> needs_auth w = Inr True \<and> (\<exists>rq. rq_method rq = ''POST'' \<and> rq_url rq = token_url (prov w)
                \<and> sent w' = sent w @ [rq]))"
proof -
  obtain stale w1 where st: "needs_auth w = Inr stale"
    and mid: "(if stale then set_auth env else ret ()) w = (Inr (), w1)"
    and fin: "(case pv_cache (prov w1) of None \<Rightarrow> Inl TypeErr | Some d \<Rightarrow> Inr d, w1) = (Inr d, w')"
    using assms unfolding get_auth_def by (elim bnd_InrE) auto
  have w': "w' = w1" "pv_cache (prov w1) = Some d"
    using fin by (auto split: option.splits)
  show ?thesis
  proof (cases stale)
    case True
    with set_auth_ok [of env w w1] mid st w' show ?thesis by auto
  next
    case False
    with mid st w' show ?thesis by auto
  qed
qed

lemma needs_auth_False_iff:
  "needs_auth w = Inr False \<longleftrightarrow>
     (\<exists>d. pv_cache (prov w) = Some d \<and> is_expired (cr_version (pv_creds (prov w))) (now w) d = Inr False)"
  by (auto simp: needs_auth_def split: option.splits)

lemma is_expired_False:
  "is_expired v t d = Inr False \<longleftrightarrow>
     (\<exists>s expiry. expiry_field v (snd d) = Inr s \<and> parse_expiry_time s = Inr expiry
        \<and> min_instant + token_expiry_threshold \<le> expiry \<and> t < expiry - token_expiry_threshold)"
  by (fastforce simp: is_expired_def bindE_Inr_iff not_le not_less algebra_simps split: if_splits)

end
