(* ===== verification/Demo.thy ===== *)
theory Demo
  imports Auth
begin

text \<open>
  Concrete instances of the parameters, used by the witnesses: an environment whose JSON codec is a
  table and whose validator accepts, worlds at a fixed time, and a v3 provider with a cached token.
\<close>

type_synonym script = "(int \<times> (string, string) dict \<times> string) list"

text \<open>A service that gives the answers of a script one after the other, each in one second.\<close>

definition scripted :: "script server" where
  "scripted rq r =
     (case r of
        [] \<Rightarrow> (Inl IOErr, [], 0)
      | (st, hs, b) # rest \<Rightarrow> (Inr (\<lparr>rs_status = st, rs_headers = hs\<rparr>, b), rest, 1000000))"

definition demo_env :: "(string, py) dict \<Rightarrow> script env" where
  "demo_env docs =
     \<lparr>e_srv = scripted, e_loads = dget docs, e_dumps = (\<lambda>v. ''{}''), e_valid = (\<lambda>v s. None),
      e_repr = (\<lambda>v. ''{}'')\<rparr>"

definition demo_access :: py where
  "demo_access = PDict
     [(''expires_at'', PStr ''2015-06-01T12:00:00Z''),
      (''user'', PDict [(''name'', PStr ''demo''), (''id'', PStr ''u1''),
                        (''domain'', PDict [(''id'', PStr ''users''), (''name'', PStr ''Users'')])]),
      (''project'', PDict [(''name'', PStr ''prj''), (''id'', PStr ''p1''),
                        (''domain'', PDict [(''id'', PStr ''projects''), (''name'', PStr ''Projects'')])]),
      (''catalog'', PList [PDict
         [(''type'', PStr ''compute''),
          (''endpoints'', PList [PDict
             [(''interface'', PStr ''public''), (''region'', PStr ''R1''),
              (''url'', PStr ''http://nova/v2/p1'')]])]])]"

definition demo_creds :: credentials where
  "demo_creds = \<lparr>cr_version = V3, cr_attrs = [(''username'', PStr ''demo''), (''password'', PStr ''s'')],
     cr_initial = [(''username'', PStr ''demo''), (''password'', PStr ''s'')]\<rparr>"

definition demo_provider :: provider where
  "demo_provider = \<lparr>pv_auth_url = ''http://key/v3'', pv_creds = demo_creds,
     pv_cache = Some (PStr ''T'', demo_access), pv_alt_part = None, pv_alt_auth = None\<rparr>"

definition demo_world :: "script \<Rightarrow> provider \<Rightarrow> script auth_world" where
  "demo_world r p = \<lparr>now = 1433150000000000, remote = r, sent = [], naps = [], prov = p\<rparr>"

definition demo_filters :: "(string, py) dict" where
  "demo_filters = [(''service'', PStr ''compute''), (''endpoint_type'', PStr ''publicURL''),
     (''region'', PStr ''R1'')]"

lemma demo_not_expired: "is_expired V3 1433150000000000 (tok, demo_access) = Inr False"
  by (simp add: is_expired_def expiry_field_def demo_access_def parse_expiry_example
      token_expiry_threshold_def min_instant_def)

lemma demo_get_auth:
  "pv_creds p = demo_creds \<Longrightarrow> pv_cache p = Some (PStr ''T'', demo_access) \<Longrightarrow>
   get_auth env (demo_world r p) = (Inr (PStr ''T'', demo_access), demo_world r p)"
  by (simp add: get_auth_def bnd_def needs_auth_def demo_world_def demo_creds_def demo_not_expired)

lemma demo_base_url: "base_url V3 demo_filters (tok, demo_access) = Inr ''http://nova/v2/p1''"
proof -
  have "v3_interface (PStr ''publicURL'') = Inr (PStr ''public'')"
    by (simp add: v3_interface_def str_replace_def)
  then show ?thesis
    by (simp add: base_url_def demo_filters_def filter_arg_def demo_access_def v3_catalog_url_def
        has_field_def v3_pick_def adapt_url_def)
qed

lemma demo_join: "join_url ''http://nova/v2/p1'' (Some ''/servers'') = ''http://nova/v2/p1/servers''"
  by (simp add: join_url_def urlparse_def split_scheme_def split_netloc_def before_def after_def
      scheme_char_def is_digit_def all_digits_def netloc_end_def str_lower_def char_lower_def
      uses_params_def split_params_def last_segment_def urlunparse_def uses_netloc_def)

end
