(* ===== verification/AuthProps.thy ===== *)
theory AuthProps
  imports AuthFacts Demo
begin

text \<open>
  The properties of the authentication providers (\<open>automation/auth.py\<close>).
  Before them what they rest on: the URL and the headers of a decorated request, the altered part of the next request, and the
  domain attributes that the v3 provider fills.
\<close>

section \<open>Joining\<close>

lemma join_url_merges:
  assumes "plain_scheme sch" "plain_netloc net" "plain_path p" "plain_path (CHR ''/'' # u)"
    "CHR ''#'' \<notin> set q" "u @ query_suffix q \<noteq> []"
  shows "join_url (http_url sch net p) (Some (u @ query_suffix q)) =
    http_url sch net (merge_slashes (p @ ''/'' @ u) @ query_suffix q)"
proof -
  have "plain_path (p @ ''/'' @ u)"
    using assms(3,4) by (cases p) (auto simp: plain_path_def)
  then have "urlparse (http_url sch net ((p @ ''/'' @ u) @ query_suffix q)) =
     \<lparr>u_scheme = sch, u_netloc = net, u_path = p @ ''/'' @ u, u_params = [], u_query = q,
      u_fragment = []\<rparr>"
    using assms(1,2,5) urlparse_query by blast
  then have parsed: "urlparse (http_url sch net p @ CHR ''/'' # u @ query_suffix q) =
     \<lparr>u_scheme = sch, u_netloc = net, u_path = p @ ''/'' @ u, u_params = [], u_query = q,
      u_fragment = []\<rparr>"
    by (simp add: http_url_def)
  have "hd (merge_slashes (p @ ''/'' @ u)) = CHR ''/''"
    using assms(3) by (cases p) (auto simp: plain_path_def)
  then show ?thesis
    using assms(1,2,6) by (auto simp: join_url_def parsed urlunparse_query)
qed

section \<open>Changing the version in the path\<close>

definition version_tail :: "string \<Rightarrow> string" where
  "version_tail rest = (if length rest \<le> 1 then [] else rest)"

lemma noversion_path:
  assumes "CHR ''/'' \<notin> set ver" "rest = [] \<or> hd rest = CHR ''/''"
  shows "str_join ''/'' (drop 2 (str_split CHR ''/'' (CHR ''/'' # ver @ rest))) = tl rest"
proof (cases rest)
  case Nil
  then show ?thesis using assms(1) by (simp add: str_split_no_sep)
next
  case (Cons c r)
  with assms have "str_split CHR ''/'' (ver @ rest) = ver # str_split CHR ''/'' r"
    by (simp add: str_split_append_sep)
  with Cons show ?thesis by (simp add: str_join_split)
qed

lemma first_of_drop: "i < length pre \<Longrightarrow> drop i (pre @ p) ! 0 = pre ! i"
  by (simp add: nth_append)

lemma no_early_occurrence:
  assumes "CHR ''/'' \<notin> set ver" "ver \<noteq> []" "CHR ''/'' \<notin> set sch" "CHR ''/'' \<notin> set net" "net \<noteq> []"
    "take (length ver) net \<noteq> ver" "i < length (sch @ ''://'' @ net)"
  shows "take (length (CHR ''/'' # ver @ rest))
           (drop i ((sch @ ''://'' @ net) @ CHR ''/'' # ver @ rest)) \<noteq> CHR ''/'' # ver @ rest"
proof
  let ?p = "CHR ''/'' # ver @ rest" and ?pre = "sch @ ''://'' @ net"
  assume occ: "take (length ?p) (drop i (?pre @ ?p)) = ?p"
  define s where "s = drop i (?pre @ ?p)"
  have s_hd: "take (Suc (length ver)) s = CHR ''/'' # ver"
  proof -
    have "take (Suc (length ver)) (take (length ?p) s) = take (Suc (length ver)) ?p"
      using occ s_def by simp
    then show ?thesis by (simp add: min_def)
  qed
  then have s0: "s ! 0 = CHR ''/''" and s1: "s ! Suc 0 = hd ver"
    using assms(2) by (cases s; cases ver; simp; cases "tl s"; simp)+
  have at: "s ! 0 = ?pre ! i"
    by (simp only: s_def first_of_drop [OF assms(7)])
  consider "i < length sch" | "i = length sch" | "i = Suc (length sch)" | "i = Suc (Suc (length sch))"
    | "length sch + 3 \<le> i"
    by linarith
  then show False
  proof cases
    case 1
    with at s0 have "sch ! i = CHR ''/''" by (simp add: nth_append)
    with 1 assms(3) nth_mem show False by metis
  next
    case 2
    with at s0 show False by (simp add: nth_append)
  next
    case 3
    then have "s ! Suc 0 = CHR ''/''" by (simp add: s_def nth_append)
    with s1 assms(1,2) show False by (cases ver) auto
  next
    case 4
    then have "s = CHR ''/'' # net @ ?p" by (simp add: s_def)
    with s_hd have eq: "take (length ver) (net @ ?p) = ver" by simp
    show False
    proof (cases "length ver \<le> length net")
      case True
      with eq assms(6) show False by simp
    next
      case False
      with eq have "CHR ''/'' \<in> set ver"
        by (metis append_take_drop_id in_set_conv_decomp le_eq_less_or_eq linorder_not_less
            list.set_intros(1) not_less_eq_eq take_Cons_numeral take_all_iff take_append Suc_diff_Suc
            Un_iff set_append take_Suc_Cons)
      with assms(1) show False by simp
    qed
  next
    case 5
    define k where "k = i - (length sch + 3)"
    have i: "i = length (sch @ ''://'') + k" "k < length net"
      using 5 assms(7) by (auto simp: k_def)
    have "?pre ! i = net ! k"
      using nth_append_length_plus [of "sch @ ''://''" net k] by (simp only: i append_assoc)
    with at s0 have "net ! k = CHR ''/''" by simp
    with i(2) assms(4) nth_mem show False by metis
  qed
qed

text \<open>The path with another version: a trailing slash after the version is dropped.\<close>

definition reversioned :: "string \<Rightarrow> string \<Rightarrow> string" where
  "reversioned api rest = ''/'' @ api @ (if tl rest \<noteq> [] then rest else [])"

lemma with_api_version_plain:
  assumes "CHR ''/'' \<notin> set ver" "ver \<noteq> []" "plain_scheme sch" "plain_netloc net"
    "take (length ver) net \<noteq> ver" "rest = [] \<or> hd rest = CHR ''/''"
  shows "with_api_version api (CHR ''/'' # ver @ rest) (http_url sch net (CHR ''/'' # ver @ rest)) =
     http_url sch net (reversioned api rest)"
proof -
  let ?p = "CHR ''/'' # ver @ rest" and ?pre = "sch @ ''://'' @ net"
  have "netloc_end CHR ''/''" by (simp add: netloc_end_def)
  then have "CHR ''/'' \<notin> set net" "net \<noteq> []"
    using assms(4) by (auto simp only: plain_netloc_def list_all_iff)
  moreover have "CHR ''/'' \<notin> set sch"
    using assms(3) by (auto simp: plain_scheme_def)
  ultimately have slashes: "CHR ''/'' \<notin> set sch" "CHR ''/'' \<notin> set net" "net \<noteq> []"
    by simp_all
  have repl: "str_replace_ne ?p new (?pre @ ?p) = ?pre @ new" for new
    by (rule str_replace_tail) (simp, rule no_early_occurrence [OF assms(1,2) slashes(1,2,3) assms(5)])
  have url: "http_url sch net ?p = ?pre @ ?p" and url': "http_url sch net x = ?pre @ x" for x
    by (simp_all add: http_url_def)
  have new: "''/'' @ api @ (if tl rest \<noteq> [] then ''/'' @ tl rest else []) = reversioned api rest"
    using assms(6) by (cases rest) (auto simp: reversioned_def)
  have "?p \<noteq> []" by simp
  then show ?thesis
    unfolding with_api_version_def noversion_path [OF assms(1,6)] Let_def new str_replace_def url
    by (simp only: if_False repl url')
qed

section \<open>Which domain the v3 provider fills in\<close>

lemma v3_setattr_keeps_domain_ids:
  "k \<noteq> ''user_domain_id'' \<Longrightarrow> k \<noteq> ''project_domain_id'' \<Longrightarrow>
   aget (v3_setattr a k x) ''user_domain_id'' = aget a ''user_domain_id''
   \<and> aget (v3_setattr a k x) ''project_domain_id'' = aget a ''project_domain_id''"
  by (simp add: v3_setattr_def Let_def)

lemma v3_setattr_keeps_set_domain:
  "k \<noteq> ''user_domain_id'' \<Longrightarrow> aget a ''user_domain_id'' \<noteq> PNone \<Longrightarrow>
   aget (v3_setattr a k x) ''user_domain_id'' = aget a ''user_domain_id''"
  by (simp add: v3_setattr_def Let_def is_none_def)

lemma fill_keeps_domain_ids:
  assumes "fill k x c = (r, c')" "cr_version c = V3" "k \<noteq> ''user_domain_id''" "k \<noteq> ''project_domain_id''"
  shows "cget c' ''user_domain_id'' = cget c ''user_domain_id''
    \<and> cget c' ''project_domain_id'' = cget c ''project_domain_id'' \<and> cr_version c' = V3"
  using assms v3_setattr_keeps_domain_ids [of k "cr_attrs c"]
  by (auto simp: fill_def cred_setattr_def attrs_set_def cget_def split: if_splits sum.splits)

lemma fill_keeps_set_domain:
  assumes "fill k x c = (r, c')" "cr_version c = V3" "cget c ''user_domain_id'' = d" "d \<noteq> PNone"
  shows "cget c' ''user_domain_id'' = d \<and> cr_version c' = V3"
  using assms v3_setattr_keeps_set_domain [of k "cr_attrs c"]
  by (cases "k = ''user_domain_id''")
    (auto simp: fill_def cred_setattr_def attrs_set_def cget_def is_none_def split: if_splits sum.splits)

lemma fill_all_keeps_set_domain:
  assumes "fill_all kvs c = (r, c')" "cr_version c = V3" "cget c ''user_domain_id'' = d" "d \<noteq> PNone"
  shows "cget c' ''user_domain_id'' = d \<and> cr_version c' = V3"
  using assms
proof (induction kvs arbitrary: c)
  case (Cons kv kvs)
  obtain r1 c1 where first: "fill (fst kv) (snd kv) c = (r1, c1)" by fastforce
  note keep = fill_keeps_set_domain [OF first Cons.prems(2-4)]
  show ?case
    using Cons.prems(1) first keep Cons.IH [of c1] Cons.prems(4)
    by (cases r1) (auto simp: bnd_def)
qed simp

lemma fill_project_domain:
  assumes "fill ''project_domain_id'' (Inr d) c = (r, c')" "cr_version c = V3"
    "cget c ''user_domain_id'' = PNone" "cget c ''project_domain_id'' = PNone"
  shows "cget c' ''user_domain_id'' = d \<and> cr_version c' = V3"
  using assms
  by (auto simp: fill_def cred_setattr_def attrs_set_def cget_def v3_setattr_eqs)

section \<open>The altered part survives a token fetch\<close>

definition same_alt :: "('r, 'x) auth_world_scheme \<Rightarrow> ('r, 'x) auth_world_scheme \<Rightarrow> bool" where
  "same_alt w w' =
     (pv_alt_part (prov w') = pv_alt_part (prov w) \<and> pv_alt_auth (prov w') = pv_alt_auth (prov w))"

lemma same_alt_order: "reflp same_alt" "transp same_alt"
  by (auto intro!: reflpI transpI simp: same_alt_def)

lemma set_auth_same_alt: "within same_alt (set_auth env)"
proof -
  have fetch: "within same_alt (fetch_auth env)"
    by (simp add: within_def same_alt_def fetch_auth_prov)
  have store: "within same_alt (upd_prov (\<lambda>p. p\<lparr>pv_cache := c\<rparr>))" for c
    by (simp add: within_def upd_prov_def same_alt_def)
  have fill: "within same_alt (provider_fill b)" for b
    by (simp add: within_def same_alt_def provider_fill_frame)
  show ?thesis
    unfolding set_auth_def
    by (intro within_bnd [OF same_alt_order(2)] fetch store fill)
qed

lemma get_auth_same_alt: "within same_alt (get_auth env)"
  unfolding get_auth_def
  by (intro within_bnd [OF same_alt_order(2)] if_within read_within same_alt_order set_auth_same_alt
      within_pure)

lemma decorate_None:
  assumes "decorate_request env flt rq None w = (r, w')"
  obtains d where "get_auth env w = (Inr d, w')"
      "r = decorate_with env (cr_version (pv_creds (prov w'))) flt rq d"
    | e where "get_auth env w = (Inl e, w')" "r = Inl e"
  using assms by (auto simp: decorate_request_def bnd_def split: prod.splits sum.splits)

lemma decorate_same_alt: "decorate_request env flt rq None w = (r, w') \<Longrightarrow> same_alt w w'"
  by (erule decorate_None) (auto dest: withinD [OF get_auth_same_alt])

lemma decorate_Some:
  "decorate_request env flt rq (Some d) w =
     (decorate_with env (cr_version (pv_creds (prov w))) flt rq d, w)"
  by (simp add: decorate_request_def)

section \<open>Properties\<close>

text \<open>
  C3 (clear_auth_restores): after any history of a provider made from given arguments, \<open>clear_auth\<close>
  succeeds, empties the token cache and gives every attribute of the credentials the value it had when
  they were made, whatever the identity service filled in meanwhile; nothing is sent. The project and
  tenant names of v3 credentials agree afterwards.
\<close>

theorem clear_auth_restores:
  assumes "cred_init v kwargs = Inr c0" "pv_creds (prov w0) = c0" "provider_run env w0 w"
  shows "\<exists>w'. clear_auth w = (Inr (), w') \<and> pv_cache (prov w') = None
     \<and> (\<forall>k. cget (pv_creds (prov w')) k = cget c0 k)
     \<and> (v = V3 \<longrightarrow> coupled (cr_attrs (pv_creds (prov w')))) \<and> sent w' = sent w"
proof -
  let ?c = "pv_creds (prov w)"
  note init = cred_init_ok [OF assms(1)]
  have rel: "creds_rel c0 ?c"
    using provider_run_rel [OF assms(3)] assms(2) by (simp add: prov_rel_def)
  with init have ok: "creds_ok ?c" "cr_version ?c = v" "cr_initial ?c = kwargs"
    by (auto simp: creds_rel_def)
  then have "apply_credentials (cr_version ?c) [] (cr_initial ?c) = Inr (cr_attrs c0)"
    using init(4) by simp
  from cred_reset_initial [OF ok(1) this] obtain c' where
    c': "cred_reset ?c = Inr c'" "\<And>k. cget c' k = aget (cr_attrs c0) k" by blast
  have "creds_ok c'" "cr_version c' = v"
    using cred_reset_ok [OF c'(1)] cred_reset_fields [OF c'(1)] ok by (auto simp: creds_ok_def)
  then show ?thesis
    using c' by (simp add: clear_auth_def upd_prov_def on_creds_def bnd_def creds_ok_def cget_def)
qed

theorem clear_auth_restores_witness:
  "\<exists>w'. clear_auth (demo_world [] demo_provider) = (Inr (), w') \<and> pv_cache (prov w') = None
     \<and> (\<forall>k. cget (pv_creds (prov w')) k = cget demo_creds k)
     \<and> (V3 = V3 \<longrightarrow> coupled (cr_attrs (pv_creds (prov w')))) \<and> sent w' = []"
proof -
  have "cred_init V3 [(''username'', PStr ''demo''), (''password'', PStr ''s'')] = Inr demo_creds"
    by (simp add: cred_init_def attributes_of_def v3_attributes_def attrs_set_def v3_setattr_def
        demo_creds_def)
  from clear_auth_restores [OF this _ provider_run.start, of "demo_world [] demo_provider"]
  show ?thesis by (simp add: demo_world_def demo_provider_def)
qed

text \<open>
  C4 (get_auth_contract): a successful \<open>get_auth\<close> returns what is cached afterwards; either the cached
  token expires more than sixty seconds from now and nothing at all changes, or there was no token, or
  it is within a minute of its end, and exactly one request is sent, a POST to the token resource.
\<close>

theorem get_auth_contract:
  assumes "get_auth env w = (Inr d, w')"
  shows "pv_cache (prov w') = Some d \<and> (w' = w \<and> (\<exists>s expiry. expiry_field (cr_version (pv_creds (prov w))) (snd d) = Inr s
             \<and> parse_expiry_time s = Inr expiry \<and> now w < expiry - 60 * 1000000)
       \<or> (\<exists>rq. rq_method rq = ''POST'' \<and> rq_url rq = token_url (prov w) \<and> sent w' = sent w @ [rq])
          \<and> (pv_cache (prov w) = None \<or> (\<exists>d0 s expiry. pv_cache (prov w) = Some d0
               \<and> expiry_field (cr_version (pv_creds (prov w))) (snd d0) = Inr s
               \<and> parse_expiry_time s = Inr expiry \<and> expiry - 60 * 1000000 \<le> now w)))"
proof -
  note ok = get_auth_ok [OF assms]
  have "w' = w \<and> (\<exists>s expiry. expiry_field (cr_version (pv_creds (prov w))) (snd d) = Inr s
             \<and> parse_expiry_time s = Inr expiry \<and> now w < expiry - 60 * 1000000)
       \<or> (\<exists>rq. rq_method rq = ''POST'' \<and> rq_url rq = token_url (prov w) \<and> sent w' = sent w @ [rq])
          \<and> (pv_cache (prov w) = None \<or> (\<exists>d0 s expiry. pv_cache (prov w) = Some d0
               \<and> expiry_field (cr_version (pv_creds (prov w))) (snd d0) = Inr s
               \<and> parse_expiry_time s = Inr expiry \<and> expiry - 60 * 1000000 \<le> now w))"
  proof (cases "needs_auth w = Inr False")
    case True
    then obtain d0 where "pv_cache (prov w) = Some d0"
      "is_expired (cr_version (pv_creds (prov w))) (now w) d0 = Inr False"
      by (auto simp: needs_auth_False_iff)
    with True ok show ?thesis
      by (auto simp: is_expired_False token_expiry_threshold_def)
  next
    case False
    with ok have stale: "needs_auth w = Inr True" and sent: "\<exists>rq. rq_method rq = ''POST''
        \<and> rq_url rq = token_url (prov w) \<and> sent w' = sent w @ [rq]" by auto
    from stale have "pv_cache (prov w) = None \<or> (\<exists>d0 s expiry. pv_cache (prov w) = Some d0
               \<and> expiry_field (cr_version (pv_creds (prov w))) (snd d0) = Inr s
               \<and> parse_expiry_time s = Inr expiry \<and> expiry - 60 * 1000000 \<le> now w)"
      by (auto simp: needs_auth_def is_expired_def token_expiry_threshold_def split: option.splits if_splits)
    with sent show ?thesis by blast
  qed
  with ok show ?thesis by blast
qed

theorem get_auth_contract_witness:
  "get_auth (demo_env []) (demo_world [] demo_provider)
     = (Inr (PStr ''T'', demo_access), demo_world [] demo_provider)
   \<and> pv_cache (prov (demo_world [] demo_provider)) = Some (PStr ''T'', demo_access)"
  using get_auth_contract [OF demo_get_auth [of demo_provider "demo_env []" "[]"]]
    demo_get_auth [of demo_provider "demo_env []" "[]"]
  by (simp add: demo_provider_def)

text \<open>
  C5 (auth_request_decorates): with no altered part, a successful \<open>auth_request\<close> takes the token and the
  catalogue of the provider's cache: the URL is the service's base URL joined with the relative one,
  the header X-Auth-Token is the token, every other header and the body are the caller's.
\<close>

theorem auth_request_decorates:
  assumes "auth_request env rq flt w = (Inr rq', w')" "pv_alt_part (prov w) = None"
  shows "\<exists>d base h. pv_cache (prov w') = Some d
     \<and> base_url (cr_version (pv_creds (prov w'))) flt d = Inr base
     \<and> rq' = \<lparr>aq_url = Some (join_url base (aq_url rq)), aq_headers = Some h, aq_body = aq_body rq\<rparr>
     \<and> dget h ''X-Auth-Token'' = Some (py_text (e_repr env) (fst d))
     \<and> (\<forall>k. k \<noteq> ''X-Auth-Token'' \<longrightarrow>
          dget h k = (case aq_headers rq of None \<Rightarrow> None | Some h0 \<Rightarrow> dget h0 k))"
proof -
  obtain r1 w1 where dec: "decorate_request env flt rq None w = (r1, w1)" by fastforce
  with assms have "pv_alt_part (prov w1) = None"
    using decorate_same_alt [OF dec] by (simp add: same_alt_def)
  with assms(1) dec have r1: "r1 = Inr rq'" "w1 = w'"
    by (cases r1; simp add: auth_request_def bnd_def)+
  from dec r1 obtain d where d: "get_auth env w = (Inr d, w')"
      "decorate_with env (cr_version (pv_creds (prov w'))) flt rq d = Inr rq'"
    by (auto elim!: decorate_None)
  from get_auth_ok [OF d(1)] have "pv_cache (prov w') = Some d" by simp
  with d(2) show ?thesis
    by (auto simp: decorate_with_def split: option.splits)
qed

theorem auth_request_decorates_witness:
  "\<exists>d base h. pv_cache (prov (demo_world [] demo_provider)) = Some d
     \<and> base_url V3 demo_filters d = Inr base
     \<and> \<lparr>aq_url = Some ''http://nova/v2/p1/servers'', aq_headers = Some [(''X-Auth-Token'', ''T'')],
         aq_body = PStr ''b''\<rparr>
       = \<lparr>aq_url = Some (join_url base (Some ''/servers'')), aq_headers = Some h, aq_body = PStr ''b''\<rparr>"
proof -
  let ?env = "demo_env []"
  let ?rq = "\<lparr>aq_url = Some ''/servers'', aq_headers = None, aq_body = PStr ''b''\<rparr>"
  have "auth_request ?env ?rq demo_filters (demo_world [] demo_provider)
     = (Inr \<lparr>aq_url = Some ''http://nova/v2/p1/servers'', aq_headers = Some [(''X-Auth-Token'', ''T'')],
         aq_body = PStr ''b''\<rparr>, demo_world [] demo_provider)"
    using demo_get_auth [of demo_provider ?env "[]"]
    by (simp add: auth_request_def decorate_request_def bnd_def decorate_with_def demo_provider_def
        demo_world_def demo_creds_def demo_base_url demo_join)
  from auth_request_decorates [OF this] show ?thesis
    by (simp add: demo_world_def demo_provider_def demo_creds_def)
qed

text \<open>
  (join_url_clean): joining a base URL and a relative URL keeps scheme, host and query, and the path of
  the result is the two paths put together with every run of slashes made one: it has no two
  contiguous slashes and the same other characters in the same order.
\<close>

theorem join_url_clean:
  assumes "plain_scheme sch" "plain_netloc net" "plain_path p" "plain_path (CHR ''/'' # u)"
    "CHR ''#'' \<notin> set q" "u @ query_suffix q \<noteq> []"
  shows "\<exists>path. urlparse (join_url (http_url sch net p) (Some (u @ query_suffix q))) =
       \<lparr>u_scheme = sch, u_netloc = net, u_path = path, u_params = [], u_query = q, u_fragment = []\<rparr>
     \<and> no_double_slash path
     \<and> filter (\<lambda>c. c \<noteq> CHR ''/'') path = filter (\<lambda>c. c \<noteq> CHR ''/'') (p @ u)"
proof -
  let ?path = "merge_slashes (p @ ''/'' @ u)"
  have "plain_path (p @ ''/'' @ u)"
    using assms(3,4) by (cases p) (auto simp: plain_path_def)
  then have "plain_path ?path"
    by (cases p) (auto simp: plain_path_def list_all_iff)
  then have "urlparse (http_url sch net (?path @ query_suffix q)) =
       \<lparr>u_scheme = sch, u_netloc = net, u_path = ?path, u_params = [], u_query = q, u_fragment = []\<rparr>"
    using assms by (intro urlparse_query)
  then show ?thesis
    using join_url_merges [OF assms] merge_slashes_clean [of "p @ ''/'' @ u"]
      filter_merge_slashes [of "p @ ''/'' @ u"]
    by (auto intro: exI [of _ ?path])
qed

theorem join_url_clean_witness:
  "\<exists>path. urlparse (join_url (http_url ''http'' ''nova:8774'' ''/v2/p1/'')
        (Some (''/servers//detail'' @ query_suffix ''name=a//b''))) =
       \<lparr>u_scheme = ''http'', u_netloc = ''nova:8774'', u_path = path, u_params = [],
        u_query = ''name=a//b'', u_fragment = []\<rparr>
     \<and> no_double_slash path
     \<and> filter (\<lambda>c. c \<noteq> CHR ''/'') path = ''v2p1serversdetail''"
proof -
  have "plain_scheme ''http''" "plain_netloc ''nova:8774''" "plain_path ''/v2/p1/''"
    "plain_path (CHR ''/'' # ''/servers//detail'')" "CHR ''#'' \<notin> set ''name=a//b''"
    "''/servers//detail'' @ query_suffix ''name=a//b'' \<noteq> []"
    by (simp_all add: plain_scheme_def plain_netloc_def plain_path_def netloc_end_def)
  from join_url_clean [OF this] show ?thesis by simp
qed

text \<open>
  C6 (alt_part_used_once): when a part of the next request is to be altered and the request succeeds, the
  part is one of url, headers and body, it differs from that of the normally authenticated request,
  the other parts do not, and the alteration is over; when it fails, whatever the reason (the altered
  part being the same is one), the alteration is still pending for the request after it.
\<close>

theorem alt_part_used_once:
  assumes "auth_request env rq flt w = (r, w')" "pv_alt_part (prov w) = Some part"
  shows "case r of
     Inr rq' \<Rightarrow> part \<in> {''url'', ''headers'', ''body''} \<and> pv_alt_part (prov w') = None
       \<and> (\<exists>good. fst (decorate_request env flt rq None w) = Inr good
            \<and> same_part part good rq' = Inr False
            \<and> (\<forall>other. other \<noteq> part \<longrightarrow> copy_part other rq' good = good))
   | Inl e \<Rightarrow> pv_alt_part (prov w') = Some part \<and> pv_alt_auth (prov w') = pv_alt_auth (prov w)"
proof -
  obtain r1 w1 where dec: "decorate_request env flt rq None w = (r1, w1)" by fastforce
  note alt = decorate_same_alt [OF dec, unfolded same_alt_def]
  show ?thesis
  proof (cases r1)
    case (Inl e)
    with assms(1) dec alt assms(2) show ?thesis
      by (auto simp: auth_request_def bnd_def)
  next
    case (Inr good)
    have override: "case r of
         Inr rq' \<Rightarrow> part \<in> {''url'', ''headers'', ''body''} \<and> pv_alt_part (prov w') = None
           \<and> same_part part good rq' = Inr False
           \<and> (\<forall>other. other \<noteq> part \<longrightarrow> copy_part other rq' good = good)
       | Inl e \<Rightarrow> w' = w1" if "override_part part good alt_rq w1 = (r, w')" for alt_rq
      using that
      by (auto simp: override_part_def bnd_def reset_alt_auth_data_def upd_prov_def same_part_def
          copy_part_def split: if_splits)
    have "\<exists>alt_rq. override_part part good alt_rq w1 = (r, w') \<or> (w' = w1 \<and> isl r)"
    proof (cases "pv_alt_auth (prov w)")
      case None
      with assms Inr dec alt show ?thesis
        by (auto simp: auth_request_def bnd_def)
    next
      case (Some d)
      obtain x where x: "decorate_request env flt rq (Some d) w1 = (x, w1)"
        by (simp add: decorate_Some)
      with assms Inr dec alt Some show ?thesis
        by (cases x) (auto simp: auth_request_def bnd_def)
    qed
    then show ?thesis
      using override alt assms(2) dec Inr by (cases r) auto
  qed
qed

theorem alt_part_used_once_witness:
  "pv_alt_part (prov (demo_world [] demo_provider)) = None
   \<and> (\<exists>good. fst (decorate_request (demo_env []) demo_filters
          \<lparr>aq_url = Some ''/servers'', aq_headers = None, aq_body = PNone\<rparr> None
          (demo_world [] (demo_provider\<lparr>pv_alt_part := Some ''headers''\<rparr>))) = Inr good
        \<and> same_part ''headers'' good
            \<lparr>aq_url = Some ''http://nova/v2/p1/servers'', aq_headers = None, aq_body = PNone\<rparr> = Inr False)"
proof -
  let ?p = "demo_provider\<lparr>pv_alt_part := Some ''headers''\<rparr>"
  let ?env = "demo_env []"
  let ?rq = "\<lparr>aq_url = Some ''/servers'', aq_headers = None, aq_body = PNone\<rparr>"
  have run: "auth_request ?env ?rq demo_filters (demo_world [] ?p)
     = (Inr \<lparr>aq_url = Some ''http://nova/v2/p1/servers'', aq_headers = None, aq_body = PNone\<rparr>,
        demo_world [] demo_provider)"
    using demo_get_auth [of ?p ?env "[]"]
    by (simp add: auth_request_def decorate_request_def bnd_def decorate_with_def demo_provider_def
        demo_world_def demo_creds_def demo_base_url demo_join override_part_def same_part_def
        headers_eq_def copy_part_def reset_alt_auth_data_def upd_prov_def)
  have "pv_alt_part (prov (demo_world [] ?p)) = Some ''headers''"
    by (simp add: demo_world_def)
  from alt_part_used_once [OF run this] show ?thesis by auto
qed

text \<open>
  (api_version_in_path): adapting a catalogue URL to another API version replaces the first segment of
  its path and keeps scheme, host and the rest of the path, when the host does not start with that
  segment (otherwise the text replacement hits the host first).
\<close>

theorem api_version_in_path:
  assumes "plain_scheme sch" "plain_netloc net" "plain_path (CHR ''/'' # ver @ rest)"
    "ver \<noteq> []" "CHR ''/'' \<notin> set ver" "rest = [] \<or> hd rest = CHR ''/''"
    "take (length ver) net \<noteq> ver"
    "filter_arg flt ''api_version'' PNone = PStr api" "filter_arg flt ''skip_path'' PNone = PNone"
  shows "adapt_url v flt (http_url sch net (''/'' @ ver @ rest)) =
     Inr (http_url sch net (''/'' @ api @ (if tl rest = [] then [] else rest)))"
proof -
  have path: "u_path (urlparse (http_url sch net (CHR ''/'' # ver @ rest))) = CHR ''/'' # ver @ rest"
    by (simp add: urlparse_http_url assms(1-3))
  have "reversioned api rest = ''/'' @ api @ (if tl rest = [] then [] else rest)"
    by (simp add: reversioned_def)
  then show ?thesis
    using path with_api_version_plain [OF assms(5,4,1,2,7,6), of api]
    by (simp add: adapt_url_def assms(8,9))
qed

theorem api_version_in_path_witness:
  "adapt_url V2 [(''api_version'', PStr ''v3'')] (http_url ''http'' ''nova'' (''/'' @ ''v2'' @ ''/p1'')) =
     Inr (http_url ''http'' ''nova'' (''/'' @ ''v3'' @ ''/p1''))"
proof -
  have "plain_scheme ''http''" "plain_netloc ''nova''" "plain_path (CHR ''/'' # ''v2'' @ ''/p1'')"
    by (simp_all add: plain_scheme_def plain_netloc_def plain_path_def netloc_end_def)
  from api_version_in_path [OF this, of "[(''api_version'', PStr ''v3'')]" "''v3''" V2]
  show ?thesis by (simp add: filter_arg_def)
qed

text \<open>
  (api_version_hits_host): for the URL http://v2.example.org/v2 of a service whose host starts with
  the version segment, the replacement of the path is made in the whole text: when the path occurs at
  the host, the request leaves for another host.
\<close>

theorem api_version_hits_host:
  "adapt_url V2 [(''api_version'', PStr ''v3'')] ''http://v2.example.org/v2'' =
     Inr ''http://v3.example.org/v3''"
proof -
  have "u_path (urlparse ''http://v2.example.org/v2'') = ''/v2''"
    using urlparse_http_url [of "''http''" "''v2.example.org''" "''/v2''"]
    by (simp add: http_url_def plain_scheme_def plain_netloc_def plain_path_def netloc_end_def)
  then show ?thesis
    by (simp add: adapt_url_def filter_arg_def with_api_version_def str_replace_def)
qed

text \<open>
  (v3_fill_takes_project_domain): when neither domain id is known, filling v3 credentials from a token
  scoped to a project leaves the project's domain as the user's domain id: setting the first couples
  the second, so the user's own domain, which the answer also names, is never read.
\<close>

theorem v3_fill_takes_project_domain:
  assumes "cr_version c = V3" "cget c ''user_domain_id'' = PNone" "cget c ''project_domain_id'' = PNone"
    "v3_fill_credentials body c = (Inr (), c')" "getitem body ''project'' = Inr project"
    "\<not> is_none project" "bindE (getitem project ''domain'') (\<lambda>d. getitem d ''id'') = Inr pd" "pd \<noteq> PNone"
  shows "cget c' ''user_domain_id'' = pd"
proof -
  have project: "py_get body ''project'' PNone = Inr project"
    using assms(5) by (cases body) (auto split: option.splits)
  obtain domain user c1 c2 c3 where
    run: "fill_all [(''project_name'', getitem project ''name''), (''project_id'', getitem project ''id''),
            (''project_domain_id'', Inr pd),
            (''project_domain_name'', bindE (getitem project ''domain'') (\<lambda>d. getitem d ''name''))] c
          = (Inr (), c1)"
      "(if \<not> is_none domain
        then fill_all [(''domain_id'', getitem domain ''id''), (''domain_name'', getitem domain ''name'')]
        else ret ()) c1 = (Inr (), c2)"
      "fill_all user c2 = (Inr (), c')"
    using assms(4,6,7) unfolding v3_fill_credentials_def project
    by (elim bnd_InrE) (auto simp del: fill_all.simps)
  from run(1) obtain b1 b2 b3 where
    "fill ''project_name'' (getitem project ''name'') c = (Inr (), b1)"
    "fill ''project_id'' (getitem project ''id'') b1 = (Inr (), b2)"
    "fill ''project_domain_id'' (Inr pd) b2 = (Inr (), b3)"
    and tail: "fill_all [(''project_domain_name'',
        bindE (getitem project ''domain'') (\<lambda>d. getitem d ''name''))] b3 = (Inr (), c1)"
    unfolding fill_all.simps fst_conv snd_conv by (elim bnd_InrE) (auto simp: bnd_def)
  note steps = this
  have b2: "cget b2 ''user_domain_id'' = PNone" "cget b2 ''project_domain_id'' = PNone" "cr_version b2 = V3"
    using fill_keeps_domain_ids [OF steps(1)] fill_keeps_domain_ids [OF steps(2)] assms(1-3) by simp_all
  have b3: "cget b3 ''user_domain_id'' = pd" "cr_version b3 = V3"
    using fill_project_domain [OF steps(3)] b2 by simp_all
  have c1: "cget c1 ''user_domain_id'' = pd" "cr_version c1 = V3"
    using fill_all_keeps_set_domain [OF tail b3(2,1) assms(8)] by simp_all
  have c2: "cget c2 ''user_domain_id'' = pd" "cr_version c2 = V3"
    using run(2) c1 fill_all_keeps_set_domain [OF _ c1(2,1) assms(8)]
    by (auto split: if_splits simp del: fill_all.simps)
  show ?thesis
    using fill_all_keeps_set_domain [OF run(3) c2(2,1) assms(8)] by simp
qed

theorem v3_fill_takes_project_domain_witness:
  "\<exists>c'. v3_fill_credentials demo_access demo_creds = (Inr (), c')
     \<and> cget c' ''user_domain_id'' = PStr ''projects''"
proof -
  have "fst (v3_fill_credentials demo_access demo_creds) = Inr ()"
    by code_simp
  then obtain c' where "v3_fill_credentials demo_access demo_creds = (Inr (), c')"
    by (metis prod.collapse)
  moreover from v3_fill_takes_project_domain [OF _ _ _ this, of
      "PDict [(''name'', PStr ''prj''), (''id'', PStr ''p1''),
              (''domain'', PDict [(''id'', PStr ''projects''), (''name'', PStr ''Projects'')])]"
      "PStr ''projects''"]
  have "cget c' ''user_domain_id'' = PStr ''projects''"
    by (simp add: demo_creds_def demo_access_def cget_def aget_def)
  ultimately show ?thesis by blast
qed

lemma credentials_eq_ignores_password:
  "cred_eq c (c\<lparr>cr_attrs := dset (cr_attrs c) ''password'' p\<rparr>)"
  by (simp add: cred_eq_def list_all_iff cget_def)

end
