(* ===== verification/RestClient.thy ===== *)
theory RestClient
  imports AuthFacts
begin

text \<open>
  The requests of \<open>automation/common/rest_client.py\<close>: one authenticated exchange (\<open>_request\<close>), the
  retries after a rate limit and the error check (\<open>request\<close>), the verbs, and the polling of
  \<open>wait_for_resource_deletion\<close>; then \<open>common/service_client.py\<close> and
  \<open>common/negative_rest_client.py\<close>, which specialise it.

  Logging is left out. The name of the calling test, which only decorates the message of a
  TimeoutException, is an argument.
\<close>

section \<open>One exchange\<close>

type_synonym headers = "(string, string) dict"
type_synonym answer = "http_response \<times> string"

definition send_authenticated ::
    "'r env \<Rightarrow> rest_client \<Rightarrow> string \<Rightarrow> string \<Rightarrow> headers option \<Rightarrow> py
     \<Rightarrow> (('r, 'x) auth_world_scheme, answer) io" where
  "send_authenticated env c method url hs body =
     bnd (auth_request env \<lparr>aq_url = Some url, aq_headers = hs, aq_body = body\<rparr> (filters c)) (\<lambda>rq.
     bnd (raw_request env (case aq_url rq of None \<Rightarrow> [] | Some u \<Rightarrow> u) method (aq_headers rq) (aq_body rq))
       (\<lambda>(resp, resp_body).
          lift (bindE (response_checker method resp resp_body) (\<lambda>_. Inr (resp, resp_body)))))"

section \<open>Retries\<close>

definition MAX_RECURSION_DEPTH :: nat where
  "MAX_RECURSION_DEPTH = 2"

text \<open>
  The condition of the retry loop, but for the count; a body that cannot be classified raises, also
  when no retry is left.
\<close>

definition rate_limited :: "'r env \<Rightarrow> http_response \<Rightarrow> string \<Rightarrow> pyexc + bool" where
  "rate_limited env resp resp_body =
     (if rs_status resp = 413 \<and> dhas (rs_headers resp) ''retry-after''
      then bindE (parse_resp env resp_body) (\<lambda>b.
           bindE (is_absolute_limit resp b) (\<lambda>absolute. Inr (\<not> absolute)))
      else Inr False)"

definition retry_delay :: "http_response \<Rightarrow> pyexc + int" where
  "retry_delay resp =
     (case dget (rs_headers resp) ''retry-after'' of
        None \<Rightarrow> Inl (KeyErr ''retry-after'')
      | Some s \<Rightarrow> (case int_of_str s of None \<Rightarrow> Inl ValueErr | Some n \<Rightarrow> Inr n))"

primrec retry_loop ::
    "'r env \<Rightarrow> (('r, 'x) auth_world_scheme, answer) io \<Rightarrow> nat \<Rightarrow> answer
     \<Rightarrow> (('r, 'x) auth_world_scheme, answer) io" where
  "retry_loop env again 0 a = bnd (lift (rate_limited env (fst a) (snd a))) (\<lambda>_. ret a)"
| "retry_loop env again (Suc left) a =
     bnd (lift (rate_limited env (fst a) (snd a))) (\<lambda>limited.
       if limited then
         bnd (lift (retry_delay (fst a))) (\<lambda>delay.
         bnd (sleep delay) (\<lambda>_.
         bnd again (retry_loop env again left)))
       else ret a)"

text \<open>The headers of a request; \<open>extra_headers\<close> adds the default ones.\<close>

definition effective_headers :: "headers option \<Rightarrow> bool \<Rightarrow> headers" where
  "effective_headers hs extra_headers =
     (case hs of
        None \<Rightarrow> get_headers None None
      | Some h \<Rightarrow> if extra_headers then dupdate h (get_headers None None) else h)"

definition exchange ::
    "'r env \<Rightarrow> rest_client \<Rightarrow> string \<Rightarrow> string \<Rightarrow> bool \<Rightarrow> headers option \<Rightarrow> py
     \<Rightarrow> (('r, 'x) auth_world_scheme, answer) io" where
  "exchange env c method url extra_headers hs body =
     (let again = send_authenticated env c method url (Some (effective_headers hs extra_headers)) body
      in bnd again (retry_loop env again MAX_RECURSION_DEPTH))"

definition request ::
    "'r env \<Rightarrow> rest_client \<Rightarrow> string \<Rightarrow> string \<Rightarrow> bool \<Rightarrow> headers option \<Rightarrow> py
     \<Rightarrow> (('r, 'x) auth_world_scheme, answer) io" where
  "request env c method url extra_headers hs body =
     bnd (exchange env c method url extra_headers hs body) (\<lambda>(resp, resp_body).
       lift (bindE (error_checker env resp resp_body) (\<lambda>_. Inr (resp, resp_body))))"

text \<open>\<open>NegativeRestClient\<close> overrides \<open>_error_checker\<close> with a method that does nothing.\<close>

definition negative_request ::
    "'r env \<Rightarrow> rest_client \<Rightarrow> string \<Rightarrow> string \<Rightarrow> bool \<Rightarrow> headers option \<Rightarrow> py
     \<Rightarrow> (('r, 'x) auth_world_scheme, answer) io" where
  "negative_request = exchange"

section \<open>The verbs\<close>

text \<open>
  The verbs, and the service clients built on them, use their client only through its \<open>request\<close>; they
  take it as an argument.
\<close>

type_synonym 'w requester =
  "string \<Rightarrow> string \<Rightarrow> bool \<Rightarrow> headers option \<Rightarrow> py \<Rightarrow> ('w, answer) io"

definition http_post :: "'w requester \<Rightarrow> string \<Rightarrow> py \<Rightarrow> headers option \<Rightarrow> bool \<Rightarrow> ('w, answer) io" where
  "http_post rq url body hs extra_headers = rq ''POST'' url extra_headers hs body"

definition http_get :: "'w requester \<Rightarrow> string \<Rightarrow> headers option \<Rightarrow> bool \<Rightarrow> ('w, answer) io" where
  "http_get rq url hs extra_headers = rq ''GET'' url extra_headers hs PNone"

definition http_delete :: "'w requester \<Rightarrow> string \<Rightarrow> headers option \<Rightarrow> py \<Rightarrow> bool \<Rightarrow> ('w, answer) io" where
  "http_delete rq url hs body extra_headers = rq ''DELETE'' url extra_headers hs body"

definition http_patch :: "'w requester \<Rightarrow> string \<Rightarrow> py \<Rightarrow> headers option \<Rightarrow> bool \<Rightarrow> ('w, answer) io" where
  "http_patch rq url body hs extra_headers = rq ''PATCH'' url extra_headers hs body"

definition http_put :: "'w requester \<Rightarrow> string \<Rightarrow> py \<Rightarrow> headers option \<Rightarrow> bool \<Rightarrow> ('w, answer) io" where
  "http_put rq url body hs extra_headers = rq ''PUT'' url extra_headers hs body"

definition http_head :: "'w requester \<Rightarrow> string \<Rightarrow> headers option \<Rightarrow> bool \<Rightarrow> ('w, answer) io" where
  "http_head rq url hs extra_headers = rq ''HEAD'' url extra_headers hs PNone"

definition http_copy :: "'w requester \<Rightarrow> string \<Rightarrow> headers option \<Rightarrow> bool \<Rightarrow> ('w, answer) io" where
  "http_copy rq url hs extra_headers = rq ''COPY'' url extra_headers hs PNone"

text \<open>\<open>NegativeRestClient.send_request\<close>, with the URL template already filled in.\<close>

definition send_request :: "'w requester \<Rightarrow> string \<Rightarrow> string \<Rightarrow> py \<Rightarrow> ('w, answer) io" where
  "send_request rq method url body =
     (if method = ''GET'' then http_get rq url None False
      else if method = ''POST'' then http_post rq url body None False
      else if method = ''PUT'' then http_put rq url body None False
      else if method = ''PATCH'' then http_patch rq url body None False
      else if method = ''HEAD'' then http_head rq url None False
      else if method = ''DELETE'' then http_delete rq url None PNone False
      else if method = ''COPY'' then http_copy rq url None False
      else throw AssertErr)"

text \<open>\<open>[f(x) for x in v]\<close> with a fallible \<open>f\<close>.\<close>

fun mapE :: "('a \<Rightarrow> 'e + 'b) \<Rightarrow> 'a list \<Rightarrow> 'e + 'b list" where
  "mapE f [] = Inr []"
| "mapE f (x # xs) =
     (case f x of Inl e \<Rightarrow> Inl e
      | Inr y \<Rightarrow> (case mapE f xs of Inl e \<Rightarrow> Inl e | Inr ys \<Rightarrow> Inr (y # ys)))"

definition get_versions :: "'r env \<Rightarrow> 'w requester \<Rightarrow> ('w, http_response \<times> py list) io" where
  "get_versions env rq =
     bnd (http_get rq [] None False) (\<lambda>(resp, body).
       lift (bindE (parse_resp env body) (\<lambda>b.
             bindE (py_iter b) (\<lambda>xs.
             bindE (mapE (\<lambda>x. getitem x ''id'') xs) (\<lambda>ids. Inr (resp, ids))))))"

definition get_request_id :: "http_response \<Rightarrow> string" where
  "get_request_id resp =
     (case dget (rs_headers resp) ''x-openstack-request-id'' of
        Some i \<Rightarrow> i
      | None \<Rightarrow> (case dget (rs_headers resp) ''x-compute-request-id'' of Some i \<Rightarrow> i | None \<Rightarrow> []))"

definition safe_body :: "(py \<Rightarrow> string) \<Rightarrow> py \<Rightarrow> nat \<Rightarrow> string" where
  "safe_body rp body maxlen =
     (let text = py_text rp body in if length text > maxlen then take maxlen text else text)"

text \<open>\<open>ServiceClient.__init__\<close>: an argument that is \<open>None\<close> leaves the default of the base class.\<close>

definition service_client_init ::
    "py \<Rightarrow> py \<Rightarrow> py option \<Rightarrow> int option \<Rightarrow> int option \<Rightarrow> rest_client" where
  "service_client_init service region endpoint_type build_interval build_timeout =
     (let c = rest_client_init service region
      in c\<lparr>rc_endpoint_type := (case endpoint_type of None \<Rightarrow> rc_endpoint_type c | Some e \<Rightarrow> e),
           rc_build_interval := (case build_interval of None \<Rightarrow> rc_build_interval c | Some i \<Rightarrow> i),
           rc_build_timeout := (case build_timeout of None \<Rightarrow> rc_build_timeout c | Some t \<Rightarrow> t)\<rparr>)"

section \<open>Waiting for a deletion\<close>

definition deletion_message :: "string option \<Rightarrow> string \<Rightarrow> string \<Rightarrow> int \<Rightarrow> string" where
  "deletion_message caller resource_type rid timeout =
     (let m = ''Failed to delete '' @ resource_type @ '' '' @ rid @ '' within the required time (''
              @ int_str timeout @ '' s).''
      in case caller of None \<Rightarrow> m | Some c \<Rightarrow> if c = [] then m else ''('' @ c @ '') '' @ m)"

definition deletion_round ::
    "rest_client \<Rightarrow> string option \<Rightarrow> string \<Rightarrow> string \<Rightarrow> (('r, 'x) world_scheme, bool) io \<Rightarrow> int
     \<Rightarrow> (('r, 'x) world_scheme, int + unit) io" where
  "deletion_round c caller resource_type rid is_resource_deleted start_time =
     bnd is_resource_deleted (\<lambda>deleted.
       if deleted then ret (Inr ())
       else bnd (gets time_int) (\<lambda>t.
         if rc_build_timeout c \<le> t - start_time
         then throw (Auto TimeoutException
                [PStr (deletion_message caller resource_type rid (rc_build_timeout c))] [])
         else bnd (sleep (rc_build_interval c)) (\<lambda>_. ret (Inl start_time))))"

definition wait_for_resource_deletion ::
    "rest_client \<Rightarrow> string option \<Rightarrow> string \<Rightarrow> string \<Rightarrow> (('r, 'x) world_scheme, bool) io
     \<Rightarrow> ('r, 'x) world_scheme \<Rightarrow> ((pyexc + unit) \<times> ('r, 'x) world_scheme) option" where
  "wait_for_resource_deletion c caller resource_type rid is_resource_deleted w =
     loop_io (deletion_round c caller resource_type rid is_resource_deleted) (time_int w) w"

section \<open>What every client may rely on\<close>

text \<open>
  The contract of \<open>request\<close> towards the service clients: what is returned is not an error, and a
  response that must not have a body has none.
\<close>

locale rest_api =
  fixes rq :: "'w requester"
  assumes no_error: "rq m u x h b w = (Inr (resp, body), w') \<Longrightarrow> rs_status resp < 400"
    and no_entity: "rq m u x h b w = (Inr (resp, body), w') \<Longrightarrow>
          rs_status resp \<in> {204, 205, 304} \<or> rs_status resp < 200 \<or> str_upper m = ''HEAD'' \<Longrightarrow>
          body = []"
begin

lemma get_no_error: "http_get rq u h x w = (Inr (resp, body), w') \<Longrightarrow> rs_status resp < 400"
  by (auto simp: http_get_def dest: no_error)

lemma head_no_body: "http_head rq u h x w = (Inr (resp, body), w') \<Longrightarrow> body = []"
  unfolding http_head_def by (erule no_entity) (simp add: str_upper_def char_upper_def)

text \<open>Checking the status of a success against one code leaves exactly that code.\<close>

lemma status_pinned:
  assumes "rq m u x h b w = (Inr (resp, body), w')" "expected_success (Code ec) (rs_status resp) = Inr ()"
  shows "rs_status resp = ec"
  using no_error [OF assms(1)] assms(2) by (auto simp: expected_success_iff)

end

lemma retry_loop_ok:
  assumes again: "\<And>w a w'. again w = (Inr a, w') \<Longrightarrow> P a"
    and "retry_loop env again n a w = (Inr a', w')" "P a"
  shows "P a'"
  using assms(2,3)
proof (induction n arbitrary: a w)
  case 0
  then show ?case by (auto elim!: bnd_InrE)
next
  case (Suc n)
  obtain limited where lim: "rate_limited env (fst a) (snd a) = Inr limited"
    and rest: "(if limited then
         bnd (lift (retry_delay (fst a))) (\<lambda>delay.
         bnd (sleep delay) (\<lambda>_. bnd again (retry_loop env again n)))
       else ret a) w = (Inr a', w')"
    using Suc.prems(1) by (auto elim!: bnd_InrE)
  show ?case
  proof (cases limited)
    case True
    with rest obtain a1 w1 w2 where "again w1 = (Inr a1, w2)" "retry_loop env again n a1 w2 = (Inr a', w')"
      by (auto elim!: bnd_InrE)
    with again Suc.IH show ?thesis by blast
  next
    case False
    with rest Suc.prems(2) show ?thesis by simp
  qed
qed

lemma send_authenticated_checked:
  "send_authenticated env c m u h b w = (Inr (resp, body), w') \<Longrightarrow> response_checker m resp body = Inr ()"
  by (auto simp: send_authenticated_def elim!: bnd_InrE)

lemma exchange_checked:
  fixes w :: "('a, 'b) auth_world_scheme"
  assumes "exchange env c m u x h b w = (Inr (resp, body), w')"
  shows "response_checker m resp body = Inr ()"
proof -
  define again :: "(('a, 'b) auth_world_scheme, answer) io"
    where "again = send_authenticated env c m u (Some (effective_headers h x)) b"
  obtain a w1 where "again w = (Inr a, w1)" "retry_loop env again MAX_RECURSION_DEPTH a w1 = (Inr (resp, body), w')"
    using assms unfolding exchange_def Let_def again_def [symmetric] by (erule bnd_InrE)
  note run = this
  let ?P = "\<lambda>a. response_checker m (fst a) (snd a) = Inr ()"
  have step: "?P a'" if "again v = (Inr a', v')" for a' v v'
    using that send_authenticated_checked by (cases a') (simp add: again_def)
  have "?P (resp, body)"
    by (rule retry_loop_ok [where P = ?P, OF step run(2) step [OF run(1)]])
  then show ?thesis by simp
qed

lemma request_exchange:
  assumes "request env c m u x h b w = (Inr (resp, body), w')"
  shows "exchange env c m u x h b w = (Inr (resp, body), w')" "rs_status resp < 400"
proof -
  obtain resp0 body0 w1 where ex: "exchange env c m u x h b w = (Inr (resp0, body0), w1)"
    and check: "bindE (error_checker env resp0 body0) (\<lambda>_. Inr (resp0, body0)) = Inr (resp, body)"
    and w1: "w1 = w'"
    using assms unfolding request_def by (elim bnd_InrE) (auto simp del: bindE_Inr_iff)
  from check have "resp0 = resp" "body0 = body" "error_checker env resp body = Inr ()" by auto
  then show "exchange env c m u x h b w = (Inr (resp, body), w')" "rs_status resp < 400"
    using ex w1 by (simp_all add: error_checker_Inr_iff)
qed

interpretation rest: rest_api "request env c" for env c
proof
  fix m u x h b w resp body w'
  assume "request env c m u x h b w = (Inr (resp, body), w')"
  then have "exchange env c m u x h b w = (Inr (resp, body), w')" and st: "rs_status resp < 400"
    by (rule request_exchange)+
  from exchange_checked [OF this(1)] have "response_checker m resp body = Inr ()" .
  then show "rs_status resp < 400" using st by simp
  show "body = []" if "rs_status resp \<in> {204, 205, 304} \<or> rs_status resp < 200 \<or> str_upper m = ''HEAD''"
    using \<open>response_checker m resp body = Inr ()\<close> that
    by (auto simp: response_checker_def split: if_splits)
qed

section \<open>How much a request may do\<close>

text \<open>
  A computation within a budget sends at most so many requests and sleeps at most so often; the
  histories only grow and the clock only moves forward.
\<close>

definition budget :: "nat \<Rightarrow> nat \<Rightarrow> ('r, 'x) world_scheme \<Rightarrow> ('r, 'x) world_scheme \<Rightarrow> bool" where
  "budget s n w w' =
     ((\<exists>xs. sent w' = sent w @ xs \<and> length xs \<le> s) \<and> (\<exists>ys. naps w' = naps w @ ys \<and> length ys \<le> n)
      \<and> now w \<le> now w')"

lemma budget_refl [simp]: "budget s n w w"
  by (simp add: budget_def)

lemma budget_trans: "budget s n a b \<Longrightarrow> budget s' n' b c \<Longrightarrow> budget (s + s') (n + n') a c"
  by (auto simp: budget_def intro: exI [of _ "_ @ _"])

lemma budget_weaken: "budget s n a b \<Longrightarrow> s \<le> s' \<Longrightarrow> n \<le> n' \<Longrightarrow> budget s' n' a b"
  by (force simp: budget_def)

lemma budget_pure:
  "within (budget s n) (ret x)" "within (budget s n) (throw e)" "within (budget s n) (lift r)"
  "within (budget s n) (gets f)"
  by (simp_all add: within_def)

lemma budget_bnd:
  assumes "within (budget s n) m" "\<And>x. within (budget s' n') (f x)"
  shows "within (budget (s + s') (n + n')) (bnd m f)"
proof (rule withinI)
  fix w r w''
  assume run: "bnd m f w = (r, w'')"
  obtain r1 w1 where m: "m w = (r1, w1)" by fastforce
  with assms(1) have first: "budget s n w w1" by (rule withinD)
  show "budget (s + s') (n + n') w w''"
  proof (cases r1)
    case (Inl e)
    with run m first show ?thesis by (auto simp: bnd_def intro: budget_weaken)
  next
    case (Inr x)
    with run m have "f x w1 = (r, w'')" by (simp add: bnd_def)
    with assms(2) have "budget s' n' w1 w''" by (rule withinD)
    with first show ?thesis by (rule budget_trans)
  qed
qed

lemma budget_pure_bnd:
  "within (budget 0 0) m \<Longrightarrow> (\<And>x. within (budget s n) (f x)) \<Longrightarrow> within (budget s n) (bnd m f)"
  using budget_bnd [of 0 0 m s n f] by simp

lemma budget_then_pure:
  "within (budget s n) m \<Longrightarrow> (\<And>x. within (budget 0 0) (f x)) \<Longrightarrow> within (budget s n) (bnd m f)"
  using budget_bnd [of s n m 0 0 f] by simp

lemma budget_if: "within (budget s n) a \<Longrightarrow> within (budget s n) b \<Longrightarrow> within (budget s n) (if c then a else b)"
  by simp

section \<open>The deletion loop ends\<close>

text \<open>
  At the start of a round the clock is where it was when the loop began, or less than the timeout and
  one interval after it.
\<close>

definition deletion_inv ::
    "rest_client \<Rightarrow> (('r, 'x) world_scheme, bool) io \<Rightarrow> int \<Rightarrow> int \<Rightarrow> ('r, 'x) world_scheme \<Rightarrow> bool" where
  "deletion_inv c is_deleted t0 s w =
     (s = t0 \<and> 1 \<le> rc_build_interval c \<and> time_mono is_deleted
      \<and> (time_int w = t0 \<or> time_int w < t0 + rc_build_timeout c + rc_build_interval c))"

definition deletion_left :: "rest_client \<Rightarrow> int \<Rightarrow> ('r, 'x) world_scheme \<Rightarrow> nat" where
  "deletion_left c s w = nat (s + rc_build_timeout c - time_int w)"

lemma deletion_round_again:
  assumes "deletion_round c caller ty rid is_deleted s w = (Inr (Inl s'), w')"
  obtains w1 where "is_deleted w = (Inr False, w1)" "time_int w1 - s < rc_build_timeout c"
    "time_int w' = time_int w1 + rc_build_interval c" "s' = s"
  using assms
  by (auto simp: deletion_round_def bnd_def sleep_def time_int_def split: prod.splits sum.splits if_splits)

interpretation deletion: bounded_loop "deletion_round c caller ty rid is_deleted"
    "deletion_inv c is_deleted t0" "deletion_left c" for c caller ty rid is_deleted t0
proof
  fix s s' :: int and w w'
  assume inv: "deletion_inv c is_deleted t0 s w"
    and "deletion_round c caller ty rid is_deleted s w = (Inr (Inl s'), w')"
  then obtain w1 where w1: "is_deleted w = (Inr False, w1)" "time_int w1 - s < rc_build_timeout c"
      "time_int w' = time_int w1 + rc_build_interval c" "s' = s"
    using deletion_round_again by blast
  have "time_int w \<le> time_int w1"
    using inv w1(1) by (auto simp: deletion_inv_def intro: time_int_mono dest: time_monoD)
  then show "deletion_left c s' w' < deletion_left c s w" "deletion_inv c is_deleted t0 s' w'"
    using w1 inv by (auto simp: deletion_inv_def deletion_left_def)
qed

lemma deletion_round_exit:
  assumes "deletion_round c caller ty rid is_deleted s w = (r, w')" "1 \<le> rc_build_interval c"
  shows "r = Inr (Inr u) \<Longrightarrow> is_deleted w = (Inr True, w')"
    and "r = Inl e \<Longrightarrow> is_deleted w = (Inl e, w')
       \<or> is_deleted w = (Inr False, w') \<and> rc_build_timeout c \<le> time_int w' - s
         \<and> e = Auto TimeoutException [PStr (deletion_message caller ty rid (rc_build_timeout c))] []"
  using assms
  by (auto simp: deletion_round_def bnd_def sleep_def split: prod.splits sum.splits if_splits)

end
