(* ===== verification/RestProps.thy ===== *)
theory RestProps
  imports RestClient AuthProps
begin

text \<open>
  The properties of \<open>automation/common/rest_client.py\<close>: what is returned and what is raised, how often
  a request is retried, how responses are classified and validated, and the polling for a deletion.
  At the end, the properties of \<open>automation/common/exceptions.py\<close>: which exceptions a handler of the REST client's
  base class takes, and what the text of an exception shows.
\<close>

section \<open>Budgets\<close>

lemma budget_provider: "within (budget 0 0) (upd_prov f)" "within (budget 0 0) (provider_fill b)"
  by (simp_all add: within_def budget_def upd_prov_def provider_fill_frame)

lemma budget_raw_request: "within (budget 1 0) (raw_request env url m hs b)"
  by (auto simp: within_def budget_def raw_request_def closing_request_def http_send_def
      split: prod.splits)

lemma budget_token_request: "within (budget 1 0) (token_request env acc m url x hs b)"
  unfolding token_request_def Let_def
  by (intro budget_then_pure budget_raw_request) (auto intro: budget_pure)

lemma budget_get_token:
  "within (budget 1 0) (v2_get_token env url u p t)" "within (budget 1 0) (v3_get_token env url kw)"
  unfolding v2_get_token_def v2_auth_def v2_post_auth_def v3_get_token_def v3_auth_def Let_def
  by (intro budget_then_pure budget_token_request; auto intro: budget_pure)+

lemma budget_fetch_auth: "within (budget 1 0) (fetch_auth env)"
  by (auto simp: within_def fetch_auth_def Let_def budget_get_token [unfolded within_def, rule_format]
      simp del: One_nat_def split: ident_version.splits)

lemma budget_set_auth: "within (budget 1 0) (set_auth env)"
  unfolding set_auth_def
  by (intro budget_then_pure budget_fetch_auth budget_pure_bnd budget_provider)

lemma budget_read: "within (budget s n) (\<lambda>w. (f w, w))"
  by (simp add: within_def)

lemma budget_get_auth: "within (budget 1 0) (get_auth env)"
proof -
  have "within (budget 1 0) (bnd (if stale then set_auth env else ret ()) (\<lambda>_.
       \<lambda>w. (case pv_cache (prov w) of None \<Rightarrow> Inl TypeErr | Some d \<Rightarrow> Inr d, w)))" for stale
    by (intro budget_then_pure budget_if budget_set_auth budget_pure budget_read)
  then show ?thesis
    unfolding get_auth_def by (rule budget_pure_bnd [OF budget_read])
qed

lemma budget_decorate: "within (budget 1 0) (decorate_request env flt rq None)"
  unfolding decorate_request_def
  by (simp only: option.case, intro budget_then_pure budget_get_auth budget_read)

lemma budget_override: "within (budget 0 0) (override_part part a b)"
  unfolding override_part_def reset_alt_auth_data_def
  by (intro budget_pure_bnd budget_pure budget_if budget_provider)

lemma budget_auth_request: "within (budget 1 0) (auth_request env rq flt)"
proof -
  have alt: "within (budget 0 0) (decorate_request env flt rq (Some d))" for d
    unfolding decorate_request_def by (simp add: budget_read)
  have sel: "within (budget 0 0)
     (case part of None \<Rightarrow> ret a
      | Some part \<Rightarrow>
          (case alt of
             Some d \<Rightarrow> bnd (decorate_request env flt rq (Some d)) (override_part part a)
           | None \<Rightarrow> override_part part a rq))" for a part alt
    by (auto intro!: budget_pure budget_pure_bnd alt budget_override split: option.splits)
  show ?thesis
    unfolding auth_request_def
    by (rule budget_then_pure [OF budget_decorate]) (simp add: within_def sel [unfolded within_def])
qed

lemma budget_send: "within (budget 2 0) (send_authenticated env c m url hs b)"
proof -
  have "within (budget 1 0) (bnd (raw_request env u m hs' b') (\<lambda>(resp, resp_body). lift (f resp resp_body)))"
    for u hs' b' and f :: "http_response \<Rightarrow> string \<Rightarrow> pyexc + answer"
    by (intro budget_then_pure budget_raw_request) (auto intro: budget_pure)
  then have "within (budget (1 + 1) (0 + 0)) (send_authenticated env c m url hs b)"
    unfolding send_authenticated_def by (intro budget_bnd budget_auth_request)
  then show ?thesis by (simp add: numeral_2_eq_2)
qed

lemma budget_sleep: "within (budget 0 1) (sleep n)"
  by (auto simp: within_def budget_def sleep_def)

lemma budget_retry:
  "within (budget s 0) again \<Longrightarrow> within (budget (n * s) n) (retry_loop env again n a)"
proof (induction n arbitrary: a)
  case 0
  show ?case by (auto intro!: budget_pure_bnd budget_pure)
next
  case (Suc n)
  have "within (budget (0 + (s + n * s)) (1 + (0 + n))) (bnd (sleep d) (\<lambda>_. bnd again (retry_loop env again n)))" for d
    by (intro budget_bnd budget_sleep Suc)
  then have go: "within (budget (Suc n * s) (Suc n))
      (bnd (sleep d) (\<lambda>_. bnd again (retry_loop env again n)))" for d
    by simp
  show ?case
    unfolding retry_loop.simps
    by (rule budget_pure_bnd [OF budget_pure(3)], rule budget_if,
        rule budget_pure_bnd [OF budget_pure(3)], rule go, rule budget_pure)
qed

lemma budget_exchange: "within (budget 6 2) (exchange env c m u x h b)"
proof -
  have "within (budget (2 + MAX_RECURSION_DEPTH * 2) (0 + MAX_RECURSION_DEPTH)) (exchange env c m u x h b)"
    unfolding exchange_def Let_def
    by (intro budget_bnd budget_send budget_retry)
  then show ?thesis by (simp add: MAX_RECURSION_DEPTH_def numeral_2_eq_2 [symmetric])
qed

lemma budget_request: "within (budget 6 2) (request env c m u x h b)"
  unfolding request_def
  by (intro budget_then_pure budget_exchange) (auto intro: budget_pure)

lemma time_mono_request [mono_intros]: "time_mono (request env c m u x h b)"
  by (rule time_monoI) (auto dest: withinD [OF budget_request] simp: budget_def)

section \<open>A client of the demonstration\<close>

definition demo_client :: rest_client where
  "demo_client = service_client_init (PStr ''compute'') (PStr ''R1'') None (Some 1) (Some 10)"

lemma demo_client_filters: "filters demo_client = demo_filters"
  by (simp add: filters_def demo_client_def service_client_init_def rest_client_init_def demo_filters_def)

definition demo_request_record :: "headers \<Rightarrow> py \<Rightarrow> string \<Rightarrow> http_request" where
  "demo_request_record h b m =
     \<lparr>rq_method = m, rq_url = ''http://nova/v2/p1/servers'',
      rq_headers = dset (dset h ''X-Auth-Token'' ''T'') ''connection'' ''close'', rq_body = b\<rparr>"

lemma demo_send_to:
  assumes "rem = (st, hs, txt) # rest" "now w = 1433150000000000 + k" "remote w = rem"
    "prov w = demo_provider" "k < 1000000000"  "0 \<le> k"
    and url: "join_url ''http://nova/v2/p1'' (Some u) = full"
  shows "send_authenticated (demo_env docs) demo_client m u (Some h) b w =
     (bindE (response_checker m \<lparr>rs_status = st, rs_headers = hs\<rparr> txt)
        (\<lambda>_. Inr (\<lparr>rs_status = st, rs_headers = hs\<rparr>, txt)),
      w\<lparr>now := now w + 1000000, remote := rest, sent := sent w @ [(demo_request_record h b m)\<lparr>rq_url := full\<rparr>]\<rparr>)"
proof -
  have fresh: "is_expired V3 (now w) (PStr ''T'', demo_access) = Inr False"
    using assms by (simp add: is_expired_def expiry_field_def demo_access_def parse_expiry_example
      token_expiry_threshold_def min_instant_def)
  have "get_auth (demo_env docs) w = (Inr (PStr ''T'', demo_access), w)"
    by (rule get_auth_cached)
      (simp_all add: needs_auth_def assms(4) demo_provider_def demo_creds_def fresh)
  then have "auth_request (demo_env docs) \<lparr>aq_url = Some u, aq_headers = Some h, aq_body = b\<rparr>
      (filters demo_client) w
     = (Inr \<lparr>aq_url = Some full, aq_headers = Some (dset h ''X-Auth-Token'' ''T''),
         aq_body = b\<rparr>, w)"
    by (simp add: auth_request_def decorate_request_def bnd_def decorate_with_def assms(4)
        demo_provider_def demo_creds_def demo_base_url url demo_client_filters)
  then show ?thesis
    using assms(1,3)
    by (simp add: send_authenticated_def bnd_def raw_request_def closing_request_def http_send_def
        demo_env_def scripted_def demo_request_record_def)
qed

lemma demo_send:
  assumes "rem = (st, hs, txt) # rest" "now w = 1433150000000000 + k" "remote w = rem"
    "prov w = demo_provider" "k < 1000000000"  "0 \<le> k"
  shows "send_authenticated (demo_env docs) demo_client m ''/servers'' (Some h) b w =
     (bindE (response_checker m \<lparr>rs_status = st, rs_headers = hs\<rparr> txt)
        (\<lambda>_. Inr (\<lparr>rs_status = st, rs_headers = hs\<rparr>, txt)),
      w\<lparr>now := now w + 1000000, remote := rest, sent := sent w @ [demo_request_record h b m]\<rparr>)"
  using demo_send_to [OF assms demo_join] by (simp add: demo_request_record_def)

section \<open>Properties\<close>

text \<open>
  C1 (request_returns_success): whatever \<open>request\<close> returns has a status below 400, and no body when the
  status or the method forbids one.
\<close>

theorem request_returns_success:
  assumes "request env c m u x h b w = (Inr (resp, body), w')"
  shows "rs_status resp < 400
     \<and> (rs_status resp \<in> {204, 205, 304} \<or> rs_status resp < 200 \<or> str_upper m = ''HEAD'' \<longrightarrow> body = [])"
  using rest.no_error [OF assms] rest.no_entity [OF assms] by blast

lemma demo_request_204:
  "\<exists>w'. request (demo_env []) demo_client ''DELETE'' ''/servers'' False None PNone
     (demo_world [(204, [], [])] demo_provider) = (Inr (\<lparr>rs_status = 204, rs_headers = []\<rparr>, []), w')"
  using demo_send [of "[(204, [], [])]" 204 "[]" "[]" "[]" "demo_world [(204, [], [])] demo_provider" 0
      "[]" "''DELETE''" "get_headers None None" PNone]
  by (simp add: request_def exchange_def effective_headers_def bnd_def demo_world_def response_checker_def
      MAX_RECURSION_DEPTH_def numeral_2_eq_2 rate_limited_def error_checker_def Let_def str_upper_def
      char_upper_def)

theorem request_returns_success_witness:
  "\<exists>resp body w'. request (demo_env []) demo_client ''DELETE'' ''/servers'' False None PNone
     (demo_world [(204, [], [])] demo_provider) = (Inr (resp, body), w') \<and> rs_status resp < 400 \<and> body = []"
proof -
  obtain w' where run: "request (demo_env []) demo_client ''DELETE'' ''/servers'' False None PNone
     (demo_world [(204, [], [])] demo_provider) = (Inr (\<lparr>rs_status = 204, rs_headers = []\<rparr>, []), w')"
    using demo_request_204 by blast
  from request_returns_success [OF run] run show ?thesis by auto
qed

text \<open>
  C2 (request_is_bounded): one call of \<open>request\<close>, whatever it returns or raises, sends at most six
  requests (three attempts, each with a token fetch) and sleeps at most twice; the histories of
  requests and sleeps only grow and the clock does not go back.
\<close>

theorem request_is_bounded:
  assumes "request env c m u x h b w = (r, w')"
  shows "(\<exists>rqs. sent w' = sent w @ rqs \<and> length rqs \<le> 6)
     \<and> (\<exists>delays. naps w' = naps w @ delays \<and> length delays \<le> 2) \<and> now w \<le> now w'"
  using withinD [OF budget_request assms] by (simp add: budget_def)

theorem request_is_bounded_witness:
  "\<exists>r w'. request (demo_env []) demo_client ''DELETE'' ''/servers'' False None PNone
     (demo_world [(204, [], [])] demo_provider) = (r, w') \<and> length (sent w') \<le> 6 \<and> length (naps w') \<le> 2"
proof -
  obtain w' where run: "request (demo_env []) demo_client ''DELETE'' ''/servers'' False None PNone
     (demo_world [(204, [], [])] demo_provider) = (Inr (\<lparr>rs_status = 204, rs_headers = []\<rparr>, []), w')"
    using demo_request_204 by blast
  from request_is_bounded [OF run] run show ?thesis by (auto simp: demo_world_def)
qed

text \<open>
  C12 (rate_limit_retried): when the first attempt is answered by a rate limit with a delay, the request is
  sent again after that delay, and a success of the second attempt is the result.
\<close>

theorem rate_limit_retried:
  fixes w :: "('r, 'x) auth_world_scheme"
  assumes "again = send_authenticated env c m u (Some (effective_headers h x)) b"
    "again w = (Inr (resp1, body1), w1)" "rate_limited env resp1 body1 = Inr True"
    "retry_delay resp1 = Inr d" "0 \<le> d"
    "again (w1\<lparr>now := now w1 + d * 1000000, naps := naps w1 @ [d]\<rparr>) = (Inr (resp2, body2), w2)"
    "rs_status resp2 < 400"
  shows "request env c m u x h b w = (Inr (resp2, body2), w2)"
proof -
  have "sleep d w1 = (Inr (), w1\<lparr>now := now w1 + d * 1000000, naps := naps w1 @ [d]\<rparr>)"
    using assms(5) by (simp add: sleep_def)
  moreover have "rate_limited env resp2 body2 = Inr False"
    using assms(7) by (simp add: rate_limited_def)
  ultimately have "retry_loop env again MAX_RECURSION_DEPTH (resp1, body1) w1 = (Inr (resp2, body2), w2)"
    using assms(3,4,6)
    by (simp add: MAX_RECURSION_DEPTH_def numeral_2_eq_2 bnd_def)
  then have "exchange env c m u x h b w = (Inr (resp2, body2), w2)"
    using assms(2) by (simp add: exchange_def assms(1) [symmetric] bnd_def)
  moreover have "error_checker env resp2 body2 = Inr ()"
    using assms(7) by (simp add: error_checker_Inr_iff)
  ultimately show ?thesis by (simp add: request_def bnd_def)
qed

theorem rate_limit_retried_witness:
  "\<exists>w'. request (demo_env [(''{413}'', PDict [(''overLimit'',
            PDict [(''message'', PStr ''retry'')]), (''code'', PInt 413)])]) demo_client
        ''GET'' ''/servers'' False None PNone
        (demo_world [(413, [(''retry-after'', ''5'')], ''{413}''), (200, [], ''ok'')] demo_provider)
      = (Inr (\<lparr>rs_status = 200, rs_headers = []\<rparr>, ''ok''), w')"
proof -
  let ?env = "demo_env [(''{413}'', PDict [(''overLimit'', PDict [(''message'', PStr ''retry'')]),
                        (''code'', PInt 413)])]"
  let ?a1 = "(413, [(''retry-after'', ''5'')], ''{413}'') :: int \<times> (string, string) dict \<times> string"
  let ?r1 = "\<lparr>rs_status = 413, rs_headers = [(''retry-after'', ''5'')]\<rparr>"
  let ?w = "demo_world [?a1, (200, [], ''ok'')] demo_provider"
  let ?h = "get_headers None None"
  let ?again = "send_authenticated ?env demo_client ''GET'' ''/servers'' (Some (effective_headers None False)) PNone
      :: (script auth_world, answer) io"
  let ?w1 = "?w\<lparr>now := now ?w + 1000000, remote := [(200, [], ''ok'')],
      sent := [demo_request_record ?h PNone ''GET'']\<rparr>"
  have first: "?again ?w = (Inr (?r1, ''{413}''), ?w1)"
    using demo_send [of "remote ?w" 413 "[(''retry-after'', ''5'')]" "''{413}''" "[(200, [], ''ok'')]" ?w 0]
    by (simp add: demo_world_def response_checker_def effective_headers_def str_upper_def char_upper_def)
  have limited: "rate_limited ?env ?r1 ''{413}'' = Inr True"
    by (simp add: rate_limited_def dhas_def demo_env_def parse_resp_def is_absolute_limit_def)
  have delay: "retry_delay ?r1 = Inr 5"
    by (simp add: retry_delay_def int_of_str_def str_strip_def is_space_def all_digits_def is_digit_def
        digits_val_def digit_val_def)
  let ?w2 = "?w1\<lparr>now := now ?w1 + 5 * 1000000, naps := naps ?w1 @ [5]\<rparr>"
  have "?again ?w2 = (Inr (\<lparr>rs_status = 200, rs_headers = []\<rparr>, ''ok''),
      ?w2\<lparr>now := now ?w2 + 1000000, remote := [], sent := sent ?w2 @ [demo_request_record ?h PNone ''GET'']\<rparr>)"
    using demo_send [of "remote ?w2" 200 "[]" "''ok''" "[]" ?w2 6000000]
    by (simp add: demo_world_def response_checker_def effective_headers_def str_upper_def char_upper_def)
  from rate_limit_retried [OF refl first limited delay _ this] show ?thesis by auto
qed

section \<open>Errors\<close>

definition error_class :: "int \<Rightarrow> exc_class" where
  "error_class st =
     (if st = 400 then BadRequest else if st = 401 then Unauthorized else if st = 403 then Forbidden
      else if st = 404 then NotFound else if st = 409 then Conflict
      else if st = 415 then InvalidContentType else if st = 422 then UnprocessableEntity
      else UnexpectedResponseCode)"

text \<open>What \<open>_parse_resp\<close> makes of a non-empty object.\<close>

definition unwrapped :: "(string \<times> py) list \<Rightarrow> py" where
  "unwrapped d =
     (case d of
        [(k, PDict x)] \<Rightarrow> PDict x
      | [(k, PList x)] \<Rightarrow> PList x
      | _ \<Rightarrow> PDict d)"

lemma parse_resp_object: "e_loads env s = Some (PDict d) \<Longrightarrow> d \<noteq> [] \<Longrightarrow> parse_resp env s = Inr (unwrapped d)"
  by (cases d) (auto simp: parse_resp_def unwrapped_def Suc_le_eq split: py.splits list.splits)

definition json_error :: "http_response \<Rightarrow> bool" where
  "json_error resp =
     (400 \<le> rs_status resp
      \<and> str_lower (case dget (rs_headers resp) ''content-type'' of None \<Rightarrow> ''application/json'' | Some t \<Rightarrow> t)
          \<in> set JSON_ENC)"

text \<open>
  (error_classified): an error response with a JSON content type whose body is a non-empty object
  raises the class of its status, with the body (unwrapped from its single key) and the response as
  arguments; a status outside the table raises UnexpectedResponseCode with the status. (413, 500 and
  501 also read inside the body.)
\<close>

theorem error_classified:
  assumes "json_error resp" "rs_status resp \<notin> {413, 500, 501}" "e_loads env body = Some (PDict d)" "d \<noteq> []"
  shows "error_checker env resp body =
     Inl (Auto (error_class (rs_status resp))
       [if error_class (rs_status resp) = UnexpectedResponseCode then PStr (int_str (rs_status resp))
        else unwrapped d]
       [(''resp'', resp_val resp)])"
  using assms
  by (auto simp: error_checker_def json_error_def Let_def error_class_def decoded_def raise_with_def
      parse_resp_object)

theorem error_classified_witness:
  "error_checker (demo_env [(''{b}'', PDict [(''itemNotFound'', PDict [(''code'', PInt 404)])])])
     \<lparr>rs_status = 404, rs_headers = []\<rparr> ''{b}''
   = Inl (Auto NotFound [PDict [(''code'', PInt 404)]] [(''resp'', PDict [])])"
  using error_classified [of "\<lparr>rs_status = 404, rs_headers = []\<rparr>"
      "demo_env [(''{b}'', PDict [(''itemNotFound'', PDict [(''code'', PInt 404)])])]" "''{b}''"
      "[(''itemNotFound'', PDict [(''code'', PInt 404)])]"]
  by (simp add: json_error_def JSON_ENC_def str_lower_def char_lower_def demo_env_def error_class_def
      unwrapped_def resp_val_def)

text \<open>
  (error_body_not_object): an error response with one of the handled statuses and a JSON content type
  whose body is a JSON document other than an object does not raise the exception of its status: it
  raises AttributeError, and for an empty object StopIteration.
\<close>

definition handled_status :: "int \<Rightarrow> bool" where
  "handled_status st = (st \<in> {400, 401, 403, 404, 409, 413, 415, 422, 500, 501})"

theorem error_body_not_object:
  assumes "json_error resp" "handled_status (rs_status resp)" "e_loads env body = Some v"
    "\<forall>d. v = PDict d \<longrightarrow> d = []"
  shows "error_checker env resp body = Inl (if v = PDict [] then StopIter else AttrErr)"
proof -
  have parse: "parse_resp env body = Inl (if v = PDict [] then StopIter else AttrErr)"
    using assms(3,4) by (cases v) (auto simp: parse_resp_def)
  show ?thesis
    using assms(1,2)
    by (auto simp: error_checker_def json_error_def Let_def handled_status_def decoded_def server_fault_def parse)
qed

theorem error_body_not_object_witness:
  "error_checker (demo_env [(''[]'', PList [])]) \<lparr>rs_status = 404, rs_headers = []\<rparr> ''[]'' = Inl AttrErr"
  using error_body_not_object [of "\<lparr>rs_status = 404, rs_headers = []\<rparr>" "demo_env [(''[]'', PList [])]"
      "''[]''" "PList []"]
  by (simp add: json_error_def JSON_ENC_def str_lower_def char_lower_def demo_env_def handled_status_def)

section \<open>Validation\<close>

text \<open>
  (validate_response_iff): a success response passes the validation exactly when its status is one of
  the schema's (themselves success codes), the validator accepts the body against the body schema, or
  there is neither a body schema nor a body, and it accepts the headers against a header schema.
\<close>

theorem validate_response_iff:
  assumes "rs_status resp \<in> set (HTTP_SUCCESS @ HTTP_REDIRECTION)"
  shows "validate_response env schema resp body = Inr () \<longleftrightarrow>
     rs_status resp \<in> set (exp_codes (sc_status schema))
     \<and> (\<forall>code \<in> set (exp_codes (sc_status schema)). (200 \<le> code \<and> code \<le> 207) \<or> (300 \<le> code \<and> code \<le> 307))
     \<and> (if truthy (sc_body schema) then e_valid env body (sc_body schema) = None else \<not> truthy body)
     \<and> (truthy (sc_header schema) \<longrightarrow> e_valid env (resp_val resp) (sc_header schema) = None)"
proof -
  have "rs_status resp < 400"
    using assms by (auto simp: HTTP_SUCCESS_def HTTP_REDIRECTION_def)
  then show ?thesis
    using assms
    by (auto simp: validate_response_def expected_success_iff check_body_def check_header_def
        split: option.splits if_splits)
qed

theorem validate_response_iff_witness:
  "\<not> validate_response (demo_env []) \<lparr>sc_status = Code 200, sc_body = PNone, sc_header = PNone\<rparr>
       \<lparr>rs_status = 202, rs_headers = []\<rparr> PNone = Inr ()"
  using validate_response_iff [of "\<lparr>rs_status = 202, rs_headers = []\<rparr>" "demo_env []"
      "\<lparr>sc_status = Code 200, sc_body = PNone, sc_header = PNone\<rparr>" PNone]
  by (simp add: HTTP_SUCCESS_def)

section \<open>Waiting for a deletion\<close>

text \<open>
  C11 (deletion_wait_ends): with a polling interval of at least one second the wait for a deletion always
  ends. It returns only when a check found the resource deleted; it raises what a check raised, or
  TimeoutException after a check found the resource still there and at least the timeout has passed.
  The last check begins less than the timeout and one interval after the start.
\<close>

theorem deletion_wait_ends:
  assumes "1 \<le> rc_build_interval c" "time_mono is_deleted"
  shows "\<exists>r w' w1. wait_for_resource_deletion c caller ty rid is_deleted w = Some (r, w')
     \<and> (time_int w1 = time_int w \<or> time_int w1 < time_int w + rc_build_timeout c + rc_build_interval c)
     \<and> (case r of
          Inr u \<Rightarrow> is_deleted w1 = (Inr True, w')
        | Inl e \<Rightarrow> is_deleted w1 = (Inl e, w')
            \<or> is_deleted w1 = (Inr False, w') \<and> rc_build_timeout c \<le> time_int w' - time_int w
              \<and> e = Auto TimeoutException [PStr (deletion_message caller ty rid (rc_build_timeout c))] [])"
proof -
  have inv: "deletion_inv c is_deleted (time_int w) (time_int w) w"
    using assms by (simp add: deletion_inv_def)
  from deletion.exit_round [OF this, of caller ty rid] obtain s1 w1 r w' where
    w1: "deletion_inv c is_deleted (time_int w) s1 w1"
      "wait_for_resource_deletion c caller ty rid is_deleted w = Some (r, w')"
    and exit: "deletion_round c caller ty rid is_deleted s1 w1 = (Inl (projl r), w') \<and> isl r
        \<or> deletion_round c caller ty rid is_deleted s1 w1 = (Inr (Inr (projr r)), w') \<and> \<not> isl r"
    by (auto simp: wait_for_resource_deletion_def)
  from w1(1) have s1: "s1 = time_int w" by (simp add: deletion_inv_def)
  have clock: "time_int w1 = time_int w \<or> time_int w1 < time_int w + rc_build_timeout c + rc_build_interval c"
    using w1(1) by (simp add: deletion_inv_def)
  show ?thesis
  proof (cases r)
    case (Inl e)
    with exit s1 have "deletion_round c caller ty rid is_deleted (time_int w) w1 = (Inl e, w')" by simp
    from deletion_round_exit(2) [OF this assms(1) refl] w1(2) clock Inl show ?thesis
      by (intro exI [of _ r] exI [of _ w'] exI [of _ w1]) simp
  next
    case (Inr u)
    with exit s1 have "deletion_round c caller ty rid is_deleted (time_int w) w1 = (Inr (Inr u), w')" by simp
    from deletion_round_exit(1) [OF this assms(1) refl] w1(2) clock Inr show ?thesis
      by (intro exI [of _ r] exI [of _ w'] exI [of _ w1]) simp
  qed
qed

theorem deletion_wait_ends_witness:
  "\<exists>r w'. wait_for_resource_deletion demo_client None ''server'' ''s1''
     (bnd (request (demo_env []) demo_client ''HEAD'' ''/servers'' False None PNone) (\<lambda>_. ret True))
     (demo_world [] demo_provider) = Some (r, w')"
proof -
  have "1 \<le> rc_build_interval demo_client"
    by (simp add: demo_client_def service_client_init_def rest_client_init_def)
  moreover have "time_mono (bnd (request (demo_env []) demo_client ''HEAD'' ''/servers'' False None PNone)
      (\<lambda>_. ret True))"
    by (intro mono_intros)
  ultimately show ?thesis
    using deletion_wait_ends [of demo_client "bnd (request (demo_env []) demo_client ''HEAD'' ''/servers''
        False None PNone) (\<lambda>_. ret True)"] by blast
qed

section \<open>Exceptions\<close>

lemma isinstance_rest_client: "isinstance_of d RestClientException \<longleftrightarrow> d = RestClientException \<or> d = RFCViolation"
  by (cases d) (simp_all add: isinstance_of_def supers.simps)

definition rest_caught :: "pyexc \<Rightarrow> bool" where
  "rest_caught e = (exc_class_of e \<in> {Some RestClientException, Some RFCViolation})"

lemma catches_rest_client: "catches RestClientException e = rest_caught e"
  by (cases "exc_class_of e") (auto simp: catches_def isinstance_rest_client rest_caught_def)

lemma built_in_uncaught [simp]:
  "\<not> rest_caught (KeyErr k)" "\<not> rest_caught TypeErr" "\<not> rest_caught AttrErr" "\<not> rest_caught StopIter"
  by (simp_all add: rest_caught_def)

lemma getitem_uncaught: "getitem v k = Inl e \<Longrightarrow> \<not> rest_caught e"
  by (cases v) (auto split: option.splits)

lemma py_in_uncaught: "py_in k v = Inl e \<Longrightarrow> \<not> rest_caught e"
  by (cases v) auto

lemma py_get_uncaught: "py_get v k d = Inl e \<Longrightarrow> \<not> rest_caught e"
  by (cases v) auto

lemma parse_resp_uncaught: "parse_resp env tx = Inl e \<Longrightarrow> \<not> rest_caught e"
  by (auto simp: parse_resp_def split: option.splits py.splits list.splits if_splits)

lemma decoded_uncaught: "decoded env parse tx = Inl e \<Longrightarrow> \<not> rest_caught e"
  by (auto simp: decoded_def parse_resp_uncaught split: if_splits)

lemma absolute_uncaught: "is_absolute_limit resp v = Inl e \<Longrightarrow> \<not> rest_caught e"
  by (auto simp: is_absolute_limit_def Let_def bindE_Inl_iff py_in_uncaught py_get_uncaught
      simp del: py_get.simps py_in.simps split: py.splits if_splits)

lemmas uncaught = getitem_uncaught parse_resp_uncaught decoded_uncaught absolute_uncaught

lemma fault_message_errors: "fault_message m v = Inl e \<Longrightarrow> \<not> rest_caught e"
  by (auto simp: fault_message_def bindE_Inl_iff getitem_uncaught simp del: getitem.simps
      split: py.splits if_splits)

text \<open>
  (client_handler_scope): the module defines RestClientException twice, and the classes of the error
  responses derive from the first. A handler of the name takes none of the exceptions that an error
  response raises, whatever the response.
\<close>

theorem client_handler_scope:
  assumes "error_checker env resp tx = Inl e"
  shows "\<not> catches RestClientException e"
proof -
  let ?json = "str_lower (case dget (rs_headers resp) ''content-type'' of
      None \<Rightarrow> ''application/json'' | Some t \<Rightarrow> t) \<in> set JSON_ENC"
  have simple: "\<not> rest_caught e" if "bindE (decoded env p tx) (raise_with c resp) = Inl e"
      "c \<noteq> RestClientException" "c \<noteq> RFCViolation" for c p
    using that by (auto simp: raise_with_def rest_caught_def dest!: uncaught simp: bindE_Inl_iff)
  have fault: "\<not> rest_caught e" if "server_fault env p resp tx = Inl e" for p
    using that unfolding server_fault_def
    by (auto simp: rest_caught_def [of "Auto _ _ _"] bindE_Inl_iff dest!: uncaught fault_message_errors
        split: if_splits)
  have limit: "\<not> rest_caught e" if "bindE (decoded env p tx)
      (\<lambda>b. bindE (is_absolute_limit resp b)
        (\<lambda>absolute. raise_with (if absolute then OverLimit else RateLimitExceeded) resp b)) = Inl e" for p
    using that by (auto simp: raise_with_def rest_caught_def [of "Auto _ _ _"] bindE_Inl_iff
        dest!: uncaught split: if_splits)
  show ?thesis
    using assms unfolding error_checker_def Let_def catches_rest_client
    by (auto dest: simple fault limit simp: rest_caught_def [of "Auto _ _ _"] split: if_splits)
qed

theorem client_handler_scope_witness:
  "\<exists>e. error_checker (demo_env []) \<lparr>rs_status = 404, rs_headers = []\<rparr> [] = Inl e
     \<and> \<not> catches RestClientException e \<and> catches NotFound e"
proof -
  have run: "error_checker (demo_env []) \<lparr>rs_status = 404, rs_headers = []\<rparr> []
      = Inl (Auto NotFound [PStr []] [(''resp'', PDict [])])"
    by (simp add: error_checker_def JSON_ENC_def str_lower_def char_lower_def demo_env_def decoded_def
        parse_resp_def raise_with_def resp_val_def)
  have "catches NotFound (Auto NotFound [PStr []] [(''resp'', PDict [])])"
    by (simp add: catches_def isinstance_of_def supers.simps)
  with run client_handler_scope [OF run] show ?thesis by blast
qed

text \<open>
  The template of InvalidIdentityVersion lacks the conversion type after the key: the blank and the
  \<open>o\<close> that follow are read as an octal conversion, which fails on a text, and the template itself is
  shown.
\<close>

lemma identity_version_not_shown:
  "error_string rp InvalidIdentityVersion [] [(''identity_version'', PStr v)] = class_message InvalidIdentityVersion"
  by (simp add: error_string_def class_message.simps fmt_kw.simps fmt_conv_def py_number_def is_flag_def)

end
