(* ===== verification/Waiters.thy ===== *)
theory Waiters
  imports RestClient
begin

text \<open>
  The polling functions of \<open>automation/common/waiters.py\<close>: servers, images, volumes and baremetal
  nodes. What they poll, a client's \<open>show_\<close> method, is an argument, a computation that returns the
  resource as a dictionary. Every loop keeps the resource it saw last.
\<close>

section \<open>The functions\<close>

record waiter =
  wt_interval :: int
  wt_timeout :: int
  wt_caller :: "string option"
  wt_repr :: "py \<Rightarrow> string"

type_synonym resource = "(string, py) dict"

definition field_of :: "resource \<Rightarrow> string \<Rightarrow> pyexc + py" where
  "field_of d k = getitem (PDict d) k"

definition with_caller :: "string option \<Rightarrow> string \<Rightarrow> string" where
  "with_caller caller m =
     (case caller of None \<Rightarrow> m | Some c \<Rightarrow> if c = [] then m else ''('' @ c @ '') '' @ m)"

definition timed_out :: "waiter \<Rightarrow> int \<Rightarrow> int \<Rightarrow> string \<Rightarrow> 's \<Rightarrow> (('r, 'x) world_scheme, 's + unit) io" where
  "timed_out wt timeout start message s =
     bnd (gets time_int) (\<lambda>t.
       if timeout \<le> t - start then throw (Auto TimeoutException [PStr message] []) else ret (Inl s))"

text \<open>\<open>wait_for_server_status\<close>. The loop's state: the status and task state now and before.\<close>

record server_poll =
  sp_old_status :: py
  sp_old_task :: py
  sp_status :: py
  sp_task :: py

definition task_state :: "resource \<Rightarrow> py" where
  "task_state body = (case dget body ''OS-EXT-STS:task_state'' of None \<Rightarrow> PNone | Some v \<Rightarrow> v)"

definition server_message :: "waiter \<Rightarrow> string \<Rightarrow> string \<Rightarrow> bool \<Rightarrow> int \<Rightarrow> py \<Rightarrow> py \<Rightarrow> string" where
  "server_message wt server_id status ready_wait timeout cur task =
     with_caller (wt_caller wt)
       (''Server '' @ server_id @ '' failed to reach '' @ status @ '' status and task state \"''
        @ (if ready_wait then ''None'' else ''n/a'') @ ''\" within the required time (''
        @ int_str timeout @ '' s). Current status: '' @ py_text (wt_repr wt) cur
        @ ''. Current task state: '' @ py_text (wt_repr wt) task @ ''.'')"

text \<open>The text of a state transition, for the log: joining needs both statuses to be texts.\<close>

definition transition_logged :: "server_poll \<Rightarrow> pyexc + unit" where
  "transition_logged s =
     (if sp_status s \<noteq> sp_old_status s \<or> sp_task s \<noteq> sp_old_task s
      then bindE (as_str TypeErr (sp_old_status s)) (\<lambda>_.
           bindE (as_str TypeErr (sp_status s)) (\<lambda>_. Inr ()))
      else Inr ())"

text \<open>The tests at the top of the loop: go on, return, or return after the pause of the configuration.\<close>

datatype arrival = NotYet | Arrived | ArrivedPausing

definition server_arrival :: "string \<Rightarrow> bool \<Rightarrow> py \<Rightarrow> py \<Rightarrow> arrival" where
  "server_arrival status ready_wait st task =
     (if status = ''BUILD'' \<and> st \<noteq> PStr ''UNKNOWN'' then Arrived
      else if st = PStr status then
        (if ready_wait then
           (if status = ''BUILD'' then Arrived
            else if task = PNone \<or> task = PStr ''None'' then ArrivedPausing
            else NotYet)
         else Arrived)
      else NotYet)"

definition build_error :: "resource \<Rightarrow> string \<Rightarrow> pyexc" where
  "build_error body server_id =
     Auto BuildErrorException (case dget body ''fault'' of None \<Rightarrow> [] | Some f \<Rightarrow> [f])
       [(''server_id'', PStr server_id)]"

definition server_poll_again ::
    "waiter \<Rightarrow> (('r, 'x) world_scheme, resource) io \<Rightarrow> string \<Rightarrow> string \<Rightarrow> bool \<Rightarrow> bool \<Rightarrow> int \<Rightarrow> int
     \<Rightarrow> server_poll \<Rightarrow> (('r, 'x) world_scheme, server_poll + unit) io" where
  "server_poll_again wt show_server server_id status ready_wait raise_on_error timeout start s =
     bnd (sleep (wt_interval wt)) (\<lambda>_.
     bnd show_server (\<lambda>body.
     bnd (lift (field_of body ''status'')) (\<lambda>st.
       (let s' = s\<lparr>sp_status := st, sp_task := task_state body\<rparr> in
        bnd (lift (transition_logged s')) (\<lambda>_.
          if st = PStr ''ERROR'' \<and> raise_on_error then throw (build_error body server_id)
          else timed_out wt timeout start
                 (server_message wt server_id status ready_wait timeout st (task_state body))
                 (s'\<lparr>sp_old_status := st, sp_old_task := task_state body\<rparr>))))))"

definition server_round ::
    "waiter \<Rightarrow> int \<Rightarrow> (('r, 'x) world_scheme, resource) io \<Rightarrow> string \<Rightarrow> string \<Rightarrow> bool \<Rightarrow> bool \<Rightarrow> int \<Rightarrow> int
     \<Rightarrow> server_poll \<Rightarrow> (('r, 'x) world_scheme, server_poll + unit) io" where
  "server_round wt ready_secs show_server server_id status ready_wait raise_on_error timeout start s =
     (case server_arrival status ready_wait (sp_status s) (sp_task s) of
        Arrived \<Rightarrow> ret (Inr ())
      | ArrivedPausing \<Rightarrow> bnd (sleep ready_secs) (\<lambda>_. ret (Inr ()))
      | NotYet \<Rightarrow>
          server_poll_again wt show_server server_id status ready_wait raise_on_error timeout start s)"

text \<open>A computation that may not end, started after one that does.\<close>

definition then_loop ::
    "('w, 'a) io \<Rightarrow> ('a \<Rightarrow> 'w \<Rightarrow> ((pyexc + 'b) \<times> 'w) option) \<Rightarrow> 'w \<Rightarrow> ((pyexc + 'b) \<times> 'w) option" where
  "then_loop m f w = (case m w of (Inl e, w') \<Rightarrow> Some (Inl e, w') | (Inr x, w') \<Rightarrow> f x w')"

definition wait_for_server_status ::
    "waiter \<Rightarrow> int \<Rightarrow> (('r, 'x) world_scheme, resource) io \<Rightarrow> string \<Rightarrow> string \<Rightarrow> bool \<Rightarrow> int \<Rightarrow> bool
     \<Rightarrow> ('r, 'x) world_scheme \<Rightarrow> ((pyexc + unit) \<times> ('r, 'x) world_scheme) option" where
  "wait_for_server_status wt ready_secs show_server server_id status ready_wait extra_timeout raise_on_error =
     then_loop (bnd show_server (\<lambda>body.
                bnd (lift (field_of body ''status'')) (\<lambda>st. ret (st, task_state body))))
       (\<lambda>(st, task) w.
          loop_io (server_round wt ready_secs show_server server_id status ready_wait raise_on_error
                     (wt_timeout wt + extra_timeout) (time_int w))
            \<lparr>sp_old_status = st, sp_old_task = task, sp_status = st, sp_task = task\<rparr> w)"

text \<open>\<open>wait_for_image_status\<close>: the loop's state is the image.\<close>

definition image_message :: "waiter \<Rightarrow> string \<Rightarrow> string \<Rightarrow> py \<Rightarrow> string" where
  "image_message wt image_id status cur =
     with_caller (wt_caller wt)
       (''Image '' @ image_id @ '' failed to reach '' @ status @ '' state(current state ''
        @ py_text (wt_repr wt) cur @ '') within the required time ('' @ int_str (wt_timeout wt) @ '' s).'')"

definition image_round ::
    "waiter \<Rightarrow> (('r, 'x) world_scheme, resource) io \<Rightarrow> string \<Rightarrow> string \<Rightarrow> int
     \<Rightarrow> resource \<Rightarrow> (('r, 'x) world_scheme, resource + unit) io" where
  "image_round wt show_image image_id status start img =
     bnd (lift (field_of img ''status'')) (\<lambda>st.
       if st = PStr status then ret (Inr ())
       else
         bnd (sleep (wt_interval wt)) (\<lambda>_.
         bnd show_image (\<lambda>img'.
         bnd (lift (field_of img' ''status'')) (\<lambda>status_curr.
           if status_curr = PStr ''ERROR''
           then throw (Auto AddImageException [] [(''image_id'', PStr image_id)])
           else if status_curr = PStr status then ret (Inr ())
           else timed_out wt (wt_timeout wt) start (image_message wt image_id status status_curr) img'))))"

definition wait_for_image_status ::
    "waiter \<Rightarrow> (('r, 'x) world_scheme, resource) io \<Rightarrow> string \<Rightarrow> string
     \<Rightarrow> ('r, 'x) world_scheme \<Rightarrow> ((pyexc + unit) \<times> ('r, 'x) world_scheme) option" where
  "wait_for_image_status wt show_image image_id status =
     then_loop show_image (\<lambda>img w.
       loop_io (image_round wt show_image image_id status (time_int w)) img w)"

text \<open>\<open>wait_for_volume_status\<close>: the loop's state is the volume's status.\<close>

definition volume_message :: "waiter \<Rightarrow> string \<Rightarrow> string \<Rightarrow> py \<Rightarrow> string" where
  "volume_message wt volume_id status cur =
     ''Volume '' @ volume_id @ '' failed to reach '' @ status @ '' status (current ''
     @ py_text (wt_repr wt) cur @ '') within the required time ('' @ int_str (wt_timeout wt) @ '' s).''"

definition volume_round ::
    "waiter \<Rightarrow> (('r, 'x) world_scheme, resource) io \<Rightarrow> string \<Rightarrow> string \<Rightarrow> int
     \<Rightarrow> py \<Rightarrow> (('r, 'x) world_scheme, py + unit) io" where
  "volume_round wt show_volume volume_id status start volume_status =
     (if volume_status = PStr status then ret (Inr ())
      else
        bnd (sleep (wt_interval wt)) (\<lambda>_.
        bnd show_volume (\<lambda>body.
        bnd (lift (field_of body ''status'')) (\<lambda>st.
          if st = PStr ''error''
          then throw (Auto VolumeBuildErrorException [] [(''volume_id'', PStr volume_id)])
          else if st = PStr ''error_restoring''
          then throw (Auto VolumeRestoreErrorException [] [(''volume_id'', PStr volume_id)])
          else timed_out wt (wt_timeout wt) start (volume_message wt volume_id status st) st))))"

definition wait_for_volume_status ::
    "waiter \<Rightarrow> (('r, 'x) world_scheme, resource) io \<Rightarrow> string \<Rightarrow> string
     \<Rightarrow> ('r, 'x) world_scheme \<Rightarrow> ((pyexc + unit) \<times> ('r, 'x) world_scheme) option" where
  "wait_for_volume_status wt show_volume volume_id status =
     then_loop (bnd show_volume (\<lambda>body. lift (field_of body ''status''))) (\<lambda>st w.
       loop_io (volume_round wt show_volume volume_id status (time_int w)) st w)"

text \<open>\<open>wait_for_bm_node_status\<close>.\<close>

definition node_message :: "waiter \<Rightarrow> string \<Rightarrow> string \<Rightarrow> string \<Rightarrow> py \<Rightarrow> string" where
  "node_message wt node_id attr status cur =
     with_caller (wt_caller wt)
       (''Node '' @ node_id @ '' failed to reach '' @ attr @ ''='' @ status @ '' within the required time (''
        @ int_str (wt_timeout wt) @ '' s). Current state of '' @ attr @ '': '' @ py_text (wt_repr wt) cur @ ''.'')"

definition node_round ::
    "waiter \<Rightarrow> (('r, 'x) world_scheme, resource) io \<Rightarrow> string \<Rightarrow> string \<Rightarrow> string \<Rightarrow> int
     \<Rightarrow> resource \<Rightarrow> (('r, 'x) world_scheme, resource + unit) io" where
  "node_round wt show_node node_id attr status start node =
     bnd (lift (field_of node attr)) (\<lambda>st.
       if st = PStr status then ret (Inr ())
       else
         bnd (sleep (wt_interval wt)) (\<lambda>_.
         bnd show_node (\<lambda>node'.
         bnd (lift (field_of node' attr)) (\<lambda>status_curr.
           if status_curr = PStr status then ret (Inr ())
           else timed_out wt (wt_timeout wt) start (node_message wt node_id attr status status_curr) node'))))"

definition wait_for_bm_node_status ::
    "waiter \<Rightarrow> (('r, 'x) world_scheme, resource) io \<Rightarrow> string \<Rightarrow> string \<Rightarrow> string
     \<Rightarrow> ('r, 'x) world_scheme \<Rightarrow> ((pyexc + unit) \<times> ('r, 'x) world_scheme) option" where
  "wait_for_bm_node_status wt show_node node_id attr status =
     then_loop show_node (\<lambda>node w.
       loop_io (node_round wt show_node node_id attr status (time_int w)) node w)"

section \<open>The contract of a polling loop\<close>

text \<open>
  A round that goes on has slept at least a second, ended before the timeout and kept the invariant.
  Such a loop is bounded by the time that is left.
\<close>

locale polling =
  fixes poll :: "'s \<Rightarrow> (('r, 'x) world_scheme, 's + 'a) io"
    and good :: "'s \<Rightarrow> ('r, 'x) world_scheme \<Rightarrow> bool"
    and start timeout :: int
  assumes good_again: "good s w \<Longrightarrow> poll s w = (Inr (Inl s'), w') \<Longrightarrow> good s' w'"
    and advances: "good s w \<Longrightarrow> poll s w = (Inr (Inl s'), w') \<Longrightarrow> time_int w < time_int w'"
    and in_time: "good s w \<Longrightarrow> poll s w = (Inr (Inl s'), w') \<Longrightarrow> time_int w' - start < timeout"

sublocale polling \<subseteq> bounded_loop poll good "\<lambda>s w. nat (start + timeout - time_int w)"
proof
  fix s w s' w'
  assume "good s w" "poll s w = (Inr (Inl s'), w')"
  note again = good_again [OF this] advances [OF this] in_time [OF this]
  show "good s' w'" by (rule again)
  show "nat (start + timeout - time_int w') < nat (start + timeout - time_int w)"
    using again(2,3) by simp
qed

text \<open>
  A polling computation sleeps, asks and only goes on when the timeout has not passed.
\<close>

lemma timed_out_again:
  assumes "timed_out wt timeout start m s w = (Inr (Inl s'), w')"
  shows "s' = s \<and> w' = w \<and> time_int w - start < timeout"
  using assms by (auto simp: timed_out_def bnd_def split: if_splits)

lemma timed_out_exit:
  assumes "timed_out wt timeout start m s w = (r, w')"
  shows "r = Inr (Inl s) \<and> time_int w - start < timeout \<and> w' = w
     \<or> r = Inl (Auto TimeoutException [PStr m] []) \<and> timeout \<le> time_int w - start \<and> w' = w"
  using assms by (auto simp: timed_out_def bnd_def split: if_splits)

lemma timed_out_not_done [simp]: "timed_out wt timeout start m s w \<noteq> (Inr (Inr u), w')"
  by (auto simp: timed_out_def bnd_def)

lemma sleep_show_advances:
  assumes "sleep i w = (Inr (), w1)" "time_mono show" "show w1 = (r, w2)" "1 \<le> i"
  shows "time_int w < time_int w2"
proof -
  have "time_int w1 = time_int w + i"
    using assms(1,4) by (auto simp: sleep_def split: if_splits)
  moreover have "time_int w1 \<le> time_int w2"
    using time_monoD [OF assms(2,3)] by (rule time_int_mono)
  ultimately show ?thesis using assms(4) by simp
qed

text \<open>What the loop of \<open>wait_for_server_status\<close> holds: the states that the last answer named.\<close>

definition just_shown :: "(('r, 'x) world_scheme, resource) io \<Rightarrow> resource \<Rightarrow> ('r, 'x) world_scheme \<Rightarrow> bool" where
  "just_shown show d w = (\<exists>w0. show w0 = (Inr d, w))"

definition fair_polling :: "waiter \<Rightarrow> (('r, 'x) world_scheme, 'a) io \<Rightarrow> bool" where
  "fair_polling wt show = (1 \<le> wt_interval wt \<and> time_mono show)"

definition server_inv ::
    "waiter \<Rightarrow> (('r, 'x) world_scheme, resource) io \<Rightarrow> server_poll \<Rightarrow> ('r, 'x) world_scheme \<Rightarrow> bool" where
  "server_inv wt show_server s w =
     (fair_polling wt show_server
      \<and> (\<exists>body. just_shown show_server body w \<and> field_of body ''status'' = Inr (sp_status s)
           \<and> task_state body = sp_task s))"

lemma server_round_again:
  assumes "server_round wt rs show_server sid status rw roe timeout start s w = (Inr (Inl s'), w')"
  obtains w1 body where "sleep (wt_interval wt) w = (Inr (), w1)" "show_server w1 = (Inr body, w')"
    "field_of body ''status'' = Inr (sp_status s')" "task_state body = sp_task s'"
    "time_int w' - start < timeout"
proof -
  have again: "server_poll_again wt show_server sid status rw roe timeout start s w = (Inr (Inl s'), w')"
    using assms by (auto simp: server_round_def bnd_def split: arrival.splits prod.splits sum.splits)
  then obtain w1 body w2 st where run: "sleep (wt_interval wt) w = (Inr (), w1)"
      "show_server w1 = (Inr body, w2)" "field_of body ''status'' = Inr st"
    and rest: "(if st = PStr ''ERROR'' \<and> roe then throw (build_error body sid)
          else timed_out wt timeout start (server_message wt sid status rw timeout st (task_state body))
                 (s\<lparr>sp_status := st, sp_task := task_state body, sp_old_status := st,
                    sp_old_task := task_state body\<rparr>)) w2 = (Inr (Inl s'), w')"
    unfolding server_poll_again_def Let_def by (elim bnd_InrE) auto
  from rest have "s' = s\<lparr>sp_status := st, sp_task := task_state body, sp_old_status := st,
        sp_old_task := task_state body\<rparr> \<and> w' = w2 \<and> time_int w2 - start < timeout"
    by (auto dest: timed_out_again split: if_splits)
  then show thesis using run by (intro that [of w1 body]) simp_all
qed

interpretation server_poll: polling "server_round wt rs show_server sid status rw roe timeout start"
    "server_inv wt show_server" start timeout for wt rs show_server sid status rw roe timeout start
proof
  fix s s' w w'
  assume inv: "server_inv wt show_server s w"
    and "server_round wt rs show_server sid status rw roe timeout start s w = (Inr (Inl s'), w')"
  then obtain w1 body where run: "sleep (wt_interval wt) w = (Inr (), w1)" "show_server w1 = (Inr body, w')"
    "field_of body ''status'' = Inr (sp_status s')" "task_state body = sp_task s'"
    "time_int w' - start < timeout"
    using server_round_again by blast
  then show "server_inv wt show_server s' w'" "time_int w' - start < timeout"
    using inv by (auto simp: server_inv_def just_shown_def)
  show "time_int w < time_int w'"
    using inv run(1,2) sleep_show_advances by (auto simp: server_inv_def fair_polling_def)
qed

text \<open>The other three loops hold the last answer, or its status.\<close>

definition shown_inv ::
    "waiter \<Rightarrow> (('r, 'x) world_scheme, resource) io \<Rightarrow> resource \<Rightarrow> ('r, 'x) world_scheme \<Rightarrow> bool" where
  "shown_inv wt show d w = (fair_polling wt show \<and> just_shown show d w)"

definition volume_inv ::
    "waiter \<Rightarrow> (('r, 'x) world_scheme, resource) io \<Rightarrow> py \<Rightarrow> ('r, 'x) world_scheme \<Rightarrow> bool" where
  "volume_inv wt show st w =
     (fair_polling wt show \<and> (\<exists>d. just_shown show d w \<and> field_of d ''status'' = Inr st))"

lemma image_round_again:
  assumes "image_round wt show_image iid status start s w = (Inr (Inl s'), w')"
  obtains w1 where "sleep (wt_interval wt) w = (Inr (), w1)" "show_image w1 = (Inr s', w')"
    "time_int w' - start < wt_timeout wt"
  using assms unfolding image_round_def
  by (auto elim!: bnd_InrE dest!: timed_out_again split: if_splits)

lemma node_round_again:
  assumes "node_round wt show_node nid attr status start s w = (Inr (Inl s'), w')"
  obtains w1 where "sleep (wt_interval wt) w = (Inr (), w1)" "show_node w1 = (Inr s', w')"
    "time_int w' - start < wt_timeout wt"
  using assms unfolding node_round_def
  by (auto elim!: bnd_InrE dest!: timed_out_again split: if_splits)

lemma volume_round_again:
  assumes "volume_round wt show_volume vid status start s w = (Inr (Inl s'), w')"
  obtains w1 d where "sleep (wt_interval wt) w = (Inr (), w1)" "show_volume w1 = (Inr d, w')"
    "field_of d ''status'' = Inr s'" "time_int w' - start < wt_timeout wt"
  using assms unfolding volume_round_def
  by (auto elim!: bnd_InrE dest!: timed_out_again split: if_splits)

lemma shown_polling:
  assumes "shown_inv wt show s w" "sleep (wt_interval wt) w = (Inr (), w1)" "show w1 = (Inr s', w')"
  shows "shown_inv wt show s' w'" "time_int w < time_int w'"
  using assms sleep_show_advances by (auto simp: shown_inv_def just_shown_def fair_polling_def)

interpretation image_poll: polling "image_round wt show_image iid status start"
    "shown_inv wt show_image" start "wt_timeout wt" for wt show_image iid status start
  by unfold_locales (auto elim!: image_round_again dest: shown_polling)

interpretation node_poll: polling "node_round wt show_node nid attr status start"
    "shown_inv wt show_node" start "wt_timeout wt" for wt show_node nid attr status start
  by unfold_locales (auto elim!: node_round_again dest: shown_polling)

interpretation volume_poll: polling "volume_round wt show_volume vid status start"
    "volume_inv wt show_volume" start "wt_timeout wt" for wt show_volume vid status start
proof
  fix s s' w w'
  assume inv: "volume_inv wt show_volume s w"
    and "volume_round wt show_volume vid status start s w = (Inr (Inl s'), w')"
  then obtain w1 d where run: "sleep (wt_interval wt) w = (Inr (), w1)" "show_volume w1 = (Inr d, w')"
    "field_of d ''status'' = Inr s'" "time_int w' - start < wt_timeout wt"
    using volume_round_again by blast
  then show "volume_inv wt show_volume s' w'" "time_int w' - start < wt_timeout wt"
    using inv by (auto simp: volume_inv_def just_shown_def)
  show "time_int w < time_int w'"
    using inv run(1,2) sleep_show_advances by (auto simp: volume_inv_def fair_polling_def)
qed

section \<open>How the loops end\<close>

lemma then_loop_cases:
  assumes "\<And>e w1. m w = (Inl e, w1) \<Longrightarrow> P (Inl e) w1"
    and "\<And>x w1. m w = (Inr x, w1) \<Longrightarrow> \<exists>r w'. f x w1 = Some (r, w') \<and> P r w'"
  shows "\<exists>r w'. then_loop m f w = Some (r, w') \<and> P r w'"
proof -
  obtain r w1 where m: "m w = (r, w1)" by fastforce
  then show ?thesis
    using assms by (cases r) (auto simp: then_loop_def)
qed

lemma server_round_exit:
  assumes "server_round wt rs show_server sid status rw roe timeout start s w = (Inr (Inr u), w')"
  shows "server_arrival status rw (sp_status s) (sp_task s) \<noteq> NotYet"
proof
  assume "server_arrival status rw (sp_status s) (sp_task s) = NotYet"
  then have "server_poll_again wt show_server sid status rw roe timeout start s w = (Inr (Inr u), w')"
    using assms by (simp add: server_round_def)
  then show False
    unfolding server_poll_again_def Let_def
    by (auto elim!: bnd_InrE split: if_splits)
qed

lemma image_round_exit:
  assumes "image_round wt show_image iid status start s w = (Inr (Inr u), w')" "just_shown show_image s w"
  shows "\<exists>d. just_shown show_image d w' \<and> field_of d ''status'' = Inr (PStr status)"
  using assms unfolding image_round_def
  by (auto simp: just_shown_def elim!: bnd_InrE split: if_splits; blast)

lemma node_round_exit:
  assumes "node_round wt show_node nid attr status start s w = (Inr (Inr u), w')" "just_shown show_node s w"
  shows "\<exists>d. just_shown show_node d w' \<and> field_of d attr = Inr (PStr status)"
  using assms unfolding node_round_def
  by (auto simp: just_shown_def elim!: bnd_InrE split: if_splits; blast)

lemma volume_round_exit:
  assumes "volume_round wt show_volume vid status start s w = (Inr (Inr u), w')"
  shows "s = PStr status \<and> w' = w"
  using assms unfolding volume_round_def
  by (auto elim!: bnd_InrE split: if_splits)

end
