(* ===== verification/WaiterProps.thy ===== *)
theory WaiterProps
  imports Waiters Demo
begin

text \<open>
  The properties of the polling functions of \<open>automation/common/waiters.py\<close>: they end, what a return
  means, and how they differ when the status and the timeout arrive together.
\<close>

text \<open>A resource that becomes available with the first sleep.\<close>

definition demo_show :: "string \<Rightarrow> (('r, 'x) world_scheme, resource) io" where
  "demo_show target = gets (\<lambda>w. [(''status'', PStr (if naps w = [] then ''creating'' else target))])"

definition demo_waiter :: "int \<Rightarrow> waiter" where
  "demo_waiter timeout =
     \<lparr>wt_interval = 1, wt_timeout = timeout, wt_caller = None, wt_repr = (\<lambda>v. [])\<rparr>"

lemma demo_fair: "fair_polling (demo_waiter t) (demo_show s)"
  by (simp add: fair_polling_def demo_waiter_def demo_show_def mono_intros)

lemma server_wait_outcome:
  assumes "fair_polling wt show_server"
  shows "\<exists>r w'. wait_for_server_status wt ready_secs show_server server_id status ready_wait extra roe w
       = Some (r, w')
     \<and> (r = Inr () \<longrightarrow> (\<exists>body st w1. just_shown show_server body w1 \<and> field_of body ''status'' = Inr st
          \<and> (status = ''BUILD'' \<and> st \<noteq> PStr ''UNKNOWN''
             \<or> st = PStr status \<and> (ready_wait \<longrightarrow> status = ''BUILD''
                  \<or> task_state body = PNone \<or> task_state body = PStr ''None''))))"
  unfolding wait_for_server_status_def
proof (rule then_loop_cases)
  fix x w1
  assume "bnd show_server (\<lambda>body. bnd (lift (field_of body ''status'')) (\<lambda>st. ret (st, task_state body))) w
     = (Inr x, w1)"
  then obtain body where body: "show_server w = (Inr body, w1)" "field_of body ''status'' = Inr (fst x)"
      "task_state body = snd x"
    by (auto elim!: bnd_InrE)
  let ?s = "\<lparr>sp_old_status = fst x, sp_old_task = snd x, sp_status = fst x, sp_task = snd x\<rparr>"
  have "server_inv wt show_server ?s w1"
    using assms body by (auto simp: server_inv_def just_shown_def)
  from server_poll.exit_round [OF this, of ready_secs server_id status ready_wait roe "wt_timeout wt + extra" "time_int w1"]
  obtain s1 w2 r w' where s1: "server_inv wt show_server s1 w2"
    and run: "loop_io (server_round wt ready_secs show_server server_id status ready_wait roe
        (wt_timeout wt + extra) (time_int w1)) ?s w1 = Some (r, w')"
    and exit: "r = Inr () \<longrightarrow> server_round wt ready_secs show_server server_id status ready_wait roe
        (wt_timeout wt + extra) (time_int w1) s1 w2 = (Inr (Inr ()), w')"
    by (auto simp: isl_def)
  have "\<exists>body st w1. just_shown show_server body w1 \<and> field_of body ''status'' = Inr st
          \<and> (status = ''BUILD'' \<and> st \<noteq> PStr ''UNKNOWN''
             \<or> st = PStr status \<and> (ready_wait \<longrightarrow> status = ''BUILD''
                  \<or> task_state body = PNone \<or> task_state body = PStr ''None''))" if "r = Inr ()"
  proof -
    have "server_arrival status ready_wait (sp_status s1) (sp_task s1) \<noteq> NotYet"
      using exit that by (auto dest: server_round_exit)
    moreover obtain b where "just_shown show_server b w2" "field_of b ''status'' = Inr (sp_status s1)"
        "task_state b = sp_task s1"
      using s1 by (auto simp: server_inv_def)
    ultimately show ?thesis
      by (intro exI [of _ b] exI [of _ "sp_status s1"] exI [of _ w2])
        (auto simp: server_arrival_def split: if_splits)
  qed
  with run show "\<exists>r w'. (case x of (st, task) \<Rightarrow> \<lambda>w. loop_io (server_round wt ready_secs show_server server_id
          status ready_wait roe (wt_timeout wt + extra) (time_int w))
          \<lparr>sp_old_status = st, sp_old_task = task, sp_status = st, sp_task = task\<rparr> w) w1 = Some (r, w')
     \<and> (r = Inr () \<longrightarrow> (\<exists>body st w1. just_shown show_server body w1 \<and> field_of body ''status'' = Inr st
          \<and> (status = ''BUILD'' \<and> st \<noteq> PStr ''UNKNOWN''
             \<or> st = PStr status \<and> (ready_wait \<longrightarrow> status = ''BUILD''
                  \<or> task_state body = PNone \<or> task_state body = PStr ''None''))))"
    by (cases x) auto
qed simp

text \<open>
  C13 (server_wait_ends): with a polling interval of at least one second, \<open>wait_for_server_status\<close> always
  ends. When it returns, some answer of the server had the wanted status, and no task in progress if
  that was asked for; waiting for BUILD is also over with any status but UNKNOWN.
\<close>

theorem server_wait_ends:
  assumes "fair_polling wt show_server"
  shows "\<exists>r w'. wait_for_server_status wt ready_secs show_server server_id status ready_wait extra roe w
       = Some (r, w')
     \<and> (r = Inr () \<longrightarrow> (\<exists>body st w1. just_shown show_server body w1 \<and> field_of body ''status'' = Inr st
          \<and> (status = ''BUILD'' \<and> st \<noteq> PStr ''UNKNOWN''
             \<or> st = PStr status \<and> (ready_wait \<longrightarrow> status = ''BUILD''
                  \<or> task_state body = PNone \<or> task_state body = PStr ''None''))))"
  using assms by (rule server_wait_outcome)

theorem server_wait_ends_witness:
  "\<exists>r w'. wait_for_server_status (demo_waiter 10) 3 (demo_show ''ACTIVE'') ''s1'' ''ACTIVE'' True 0 True
     (demo_world [] demo_provider) = Some (r, w')"
  using server_wait_ends [OF demo_fair] by blast

text \<open>
  (image_wait_ends): with a polling interval of at least one second, \<open>wait_for_image_status\<close> always
  ends, and when it returns the image's last answer has the wanted status.
\<close>

theorem image_wait_ends:
  assumes "fair_polling wt show_image"
  shows "\<exists>r w'. wait_for_image_status wt show_image image_id status w = Some (r, w')
     \<and> (r = Inr () \<longrightarrow> (\<exists>d. just_shown show_image d w' \<and> field_of d ''status'' = Inr (PStr status)))"
  unfolding wait_for_image_status_def
proof (rule then_loop_cases)
  fix d w1
  assume "show_image w = (Inr d, w1)"
  then have "shown_inv wt show_image d w1"
    using assms by (auto simp: shown_inv_def just_shown_def)
  from image_poll.exit_round [OF this, of image_id status "time_int w1"]
  show "\<exists>r w'. loop_io (image_round wt show_image image_id status (time_int w1)) d w1 = Some (r, w')
     \<and> (r = Inr () \<longrightarrow> (\<exists>d. just_shown show_image d w' \<and> field_of d ''status'' = Inr (PStr status)))"
    by (auto simp: isl_def shown_inv_def dest: image_round_exit)
qed simp

theorem image_wait_ends_witness:
  "\<exists>r w'. wait_for_image_status (demo_waiter 10) (demo_show ''ACTIVE'') ''i1'' ''ACTIVE''
     (demo_world [] demo_provider) = Some (r, w')"
  using image_wait_ends [OF demo_fair] by blast

text \<open>The same for volumes and for baremetal nodes.\<close>

lemma volume_wait_ends:
  assumes "fair_polling wt show_volume"
  shows "\<exists>r w'. wait_for_volume_status wt show_volume volume_id status w = Some (r, w')
     \<and> (r = Inr () \<longrightarrow> (\<exists>d. just_shown show_volume d w' \<and> field_of d ''status'' = Inr (PStr status)))"
  unfolding wait_for_volume_status_def
proof (rule then_loop_cases)
  fix st w1
  assume "bnd show_volume (\<lambda>body. lift (field_of body ''status'')) w = (Inr st, w1)"
  then have "volume_inv wt show_volume st w1"
    using assms by (fastforce simp: volume_inv_def just_shown_def elim!: bnd_InrE)
  from volume_poll.exit_round [OF this, of volume_id status "time_int w1"]
  show "\<exists>r w'. loop_io (volume_round wt show_volume volume_id status (time_int w1)) st w1 = Some (r, w')
     \<and> (r = Inr () \<longrightarrow> (\<exists>d. just_shown show_volume d w' \<and> field_of d ''status'' = Inr (PStr status)))"
    by (auto simp: isl_def volume_inv_def dest!: volume_round_exit)
qed simp

lemma node_wait_ends:
  assumes "fair_polling wt show_node"
  shows "\<exists>r w'. wait_for_bm_node_status wt show_node node_id attr status w = Some (r, w')
     \<and> (r = Inr () \<longrightarrow> (\<exists>d. just_shown show_node d w' \<and> field_of d attr = Inr (PStr status)))"
  unfolding wait_for_bm_node_status_def
proof (rule then_loop_cases)
  fix d w1
  assume "show_node w = (Inr d, w1)"
  then have "shown_inv wt show_node d w1"
    using assms by (auto simp: shown_inv_def just_shown_def)
  from node_poll.exit_round [OF this, of node_id attr status "time_int w1"]
  show "\<exists>r w'. loop_io (node_round wt show_node node_id attr status (time_int w1)) d w1 = Some (r, w')
     \<and> (r = Inr () \<longrightarrow> (\<exists>d. just_shown show_node d w' \<and> field_of d attr = Inr (PStr status)))"
    by (auto simp: isl_def shown_inv_def dest: node_round_exit)
qed simp

section \<open>When the status and the timeout arrive together\<close>

text \<open>The second answer has the wanted status, but it came when the timeout had passed.\<close>

definition late_success ::
    "waiter \<Rightarrow> (('r, 'x) world_scheme, resource) io \<Rightarrow> string \<Rightarrow> ('r, 'x) world_scheme
     \<Rightarrow> ('r, 'x) world_scheme \<Rightarrow> bool" where
  "late_success wt show status w w3 =
     (\<exists>d1 w1 w2 d2 st1. show w = (Inr d1, w1) \<and> field_of d1 ''status'' = Inr st1 \<and> st1 \<noteq> PStr status
        \<and> sleep (wt_interval wt) w1 = (Inr (), w2)
        \<and> show w2 = (Inr d2, w3) \<and> field_of d2 ''status'' = Inr (PStr status)
        \<and> wt_timeout wt \<le> time_int w3 - time_int w1)"

lemma demo_late:
  "late_success (demo_waiter 1) (demo_show ''available'') ''available'' (demo_world [] demo_provider)
     ((demo_world [] demo_provider)\<lparr>now := now (demo_world [] demo_provider) + 1000000, naps := [1]\<rparr>)"
  by (simp add: late_success_def demo_show_def demo_waiter_def demo_world_def field_of_def sleep_def time_int_def)

text \<open>
  (image_wait_late_success): the image waiter looks at the status again before it looks at the clock:
  a status that arrives together with the timeout is a success.
\<close>

theorem image_wait_late_success:
  assumes "late_success wt show_image status w w3" "status \<noteq> ''ERROR''"
  shows "wait_for_image_status wt show_image image_id status w = Some (Inr (), w3)"
  using assms
  by (auto simp: late_success_def wait_for_image_status_def then_loop_def loop_io.simps image_round_def bnd_def)

theorem image_wait_late_success_witness:
  "\<exists>w3. wait_for_image_status (demo_waiter 1) (demo_show ''available'') ''i1'' ''available''
     (demo_world [] demo_provider) = Some (Inr (), w3)"
  using image_wait_late_success [OF demo_late, of "''i1''"] by auto

text \<open>
  (volume_wait_false_timeout): the volume waiter does not: when the wanted status arrives together with
  the timeout it raises TimeoutException, with a message that names the wanted status as the current
  one.
\<close>

theorem volume_wait_false_timeout:
  assumes "late_success wt show_volume status w w3" "status \<noteq> ''error''" "status \<noteq> ''error_restoring''"
  shows "wait_for_volume_status wt show_volume volume_id status w =
     Some (Inl (Auto TimeoutException [PStr (volume_message wt volume_id status (PStr status))] []), w3)"
  using assms
  by (auto simp: late_success_def wait_for_volume_status_def then_loop_def loop_io.simps volume_round_def
      bnd_def timed_out_def)

theorem volume_wait_false_timeout_witness:
  "\<exists>w3. wait_for_volume_status (demo_waiter 1) (demo_show ''available'') ''v1'' ''available''
     (demo_world [] demo_provider)
   = Some (Inl (Auto TimeoutException
       [PStr (volume_message (demo_waiter 1) ''v1'' ''available'' (PStr ''available''))] []), w3)"
  using volume_wait_false_timeout [OF demo_late, of "''v1''"] by auto

end
