(* ===== verification/CredProvider.thy ===== *)
theory CredProvider
  imports Auth
begin

text \<open>
  \<open>automation/common/cred_provider.py\<close> and \<open>common/fixed_network.py\<close>: credentials built from the
  configuration, the resources that go with them, and the choice of a network by name.

  The options read from the configuration are the record \<open>conf\<close>. The three connection options in
  \<open>DEFAULT_PARAMS\<close> (certificates, tracing) never reach the credentials and are left out. A network
  client is used through \<open>list_networks\<close>, an argument.
\<close>

section \<open>Configuration\<close>

record conf =
  cf_auth_version :: string
  cf_uri :: string
  cf_uri_v3 :: string
  cf_default_domain :: py
  cf_option :: "string \<Rightarrow> string \<Rightarrow> py"
  cf_admin_role :: string
  cf_operator_role :: string
  cf_reseller_role :: string
  cf_accounts_file :: string

text \<open>\<open>identity_version or CONF.identity.auth_version\<close>.\<close>

definition version_or_default :: "conf \<Rightarrow> string option \<Rightarrow> string" where
  "version_or_default cf v =
     (case v of None \<Rightarrow> cf_auth_version cf | Some s \<Rightarrow> if s = [] then cf_auth_version cf else s)"

text \<open>A computation on the HTTP world alone, run in a larger state.\<close>

definition on_world :: "('r world, 'a) io \<Rightarrow> (('r, 'x) world_scheme, 'a) io" where
  "on_world m w =
     (case m \<lparr>now = now w, remote = remote w, sent = sent w, naps = naps w\<rparr> of
        (r, v) \<Rightarrow> (r, w\<lparr>now := now v, remote := remote v, sent := sent v, naps := naps v\<rparr>))"

section \<open>Credentials\<close>

definition domain_fields :: "string list" where
  "domain_fields = filter (str_contains ''domain'') v3_attributes"

definition with_default_domain :: "conf \<Rightarrow> (string, py) dict \<Rightarrow> (string, py) dict" where
  "with_default_domain cf kwargs =
     (if list_all (\<lambda>k. \<not> dhas kwargs k) domain_fields
      then dset kwargs ''user_domain_name'' (cf_default_domain cf) else kwargs)"

definition provided_credentials ::
    "'r env \<Rightarrow> conf \<Rightarrow> bool \<Rightarrow> string option \<Rightarrow> (string, py) dict \<Rightarrow> ('r world, credentials) io" where
  "provided_credentials env cf fill_in identity_version kwargs =
     (let v = version_or_default cf identity_version
      in if v = ''v3''
         then get_credentials env (cf_uri_v3 cf) fill_in v (with_default_domain cf kwargs)
         else get_credentials env (cf_uri cf) fill_in v kwargs)"

text \<open>\<open>CREDENTIAL_TYPES\<close> and the options a configured account is read from.\<close>

definition credential_type :: "string \<Rightarrow> (string \<times> string option) option" where
  "credential_type t =
     (if t = ''identity_admin'' then Some (''identity'', Some ''admin'')
      else if t = ''user'' then Some (''identity'', None)
      else if t = ''alt_user'' then Some (''identity'', Some ''alt'') else None)"

definition configured_params :: "conf \<Rightarrow> string \<Rightarrow> string option \<Rightarrow> string \<Rightarrow> (string, py) dict" where
  "configured_params cf section prefix v =
     map (\<lambda>attr. (attr, cf_option cf section
            (case prefix of None \<Rightarrow> attr | Some p \<Rightarrow> p @ ''_'' @ attr)))
       ([''username'', ''password'', ''tenant_name''] @ (if v = ''v3'' then [''domain_name''] else []))"

definition get_configured_credentials ::
    "'r env \<Rightarrow> conf \<Rightarrow> string \<Rightarrow> bool \<Rightarrow> string option \<Rightarrow> ('r world, credentials) io" where
  "get_configured_credentials env cf ctype fill_in identity_version =
     (let v = version_or_default cf identity_version
      in if v \<noteq> ''v2'' \<and> v \<noteq> ''v3''
         then throw (Auto InvalidConfiguration [PStr (''Unsupported auth version: '' @ v)] [])
         else
           (case credential_type ctype of
              None \<Rightarrow> throw (Auto InvalidCredentials [] [])
            | Some (section, prefix) \<Rightarrow>
                bnd (provided_credentials env cf fill_in (Some v) (configured_params cf section prefix v))
                  (\<lambda>c. if \<not> fill_in \<and> \<not> cred_is_valid c
                       then throw (Auto InvalidConfiguration
                         [PStr (''The '' @ ctype @ '' credentials are incorrectly set in the config file.''
                            @ '' Double check that all required values are assigned'')] [])
                       else ret c)))"

text \<open>\<open>CredentialProvider.__init__\<close>: the name and the version.\<close>

definition provider_name :: "string option \<Rightarrow> string" where
  "provider_name n = (case n of None \<Rightarrow> ''test_creds'' | Some s \<Rightarrow> if s = [] then ''test_creds'' else s)"

definition credential_provider_init :: "conf \<Rightarrow> string option \<Rightarrow> string option \<Rightarrow> pyexc + (string \<times> string)" where
  "credential_provider_init cf identity_version name =
     (let v = version_or_default cf identity_version
      in if parse_identity_version v = None
         then Inl (Auto InvalidIdentityVersion [] [(''identity_version'', PStr v)])
         else Inr (provider_name name, v))"

text \<open>\<open>TestResources\<close>.\<close>

record test_resources =
  tr_credentials :: credentials
  tr_network :: py
  tr_subnet :: py
  tr_router :: py

definition test_resources_init :: "credentials \<Rightarrow> test_resources" where
  "test_resources_init c =
     \<lparr>tr_credentials = c, tr_network = PNone, tr_subnet = PNone, tr_router = PNone\<rparr>"

definition set_network :: "py \<Rightarrow> test_resources \<Rightarrow> test_resources" where
  "set_network n t = t\<lparr>tr_network := n\<rparr>"

section \<open>Networks\<close>

definition invalid_configuration :: pyexc where
  "invalid_configuration = Auto InvalidConfiguration [] []"

definition pick_network :: "py \<Rightarrow> py list \<Rightarrow> pyexc + py" where
  "pick_network name networks =
     bindE (filterE (has_field ''label'' name) networks) (\<lambda>found.
       (case found of
          [n] \<Rightarrow>
            bindE (py_get n ''name'' PNone) (\<lambda>a.
            bindE (if truthy a then Inr a else py_get n ''label'' PNone) (\<lambda>nm.
              if \<not> truthy nm then Inl invalid_configuration
              else (case n of PDict d \<Rightarrow> Inr (PDict (dset d ''name'' nm)) | _ \<Rightarrow> Inl TypeErr)))
        | _ \<Rightarrow> Inl invalid_configuration))"

definition get_network_from_name :: "('w, py list) io \<Rightarrow> py \<Rightarrow> ('w, py) io" where
  "get_network_from_name list_networks name =
     (if \<not> truthy name then throw invalid_configuration
      else bnd list_networks (\<lambda>networks. lift (pick_network name networks)))"

text \<open>\<open>except exceptions.InvalidConfiguration: network = {}\<close>.\<close>

definition network_or_empty :: "('w, py) io \<Rightarrow> ('w, py) io" where
  "network_or_empty m =
     catch m (\<lambda>e. if catches InvalidConfiguration e then Some (ret (PDict [])) else None)"

definition get_tenant_network ::
    "conf \<Rightarrow> ('w, test_resources) io \<Rightarrow> ('w, py list) io \<Rightarrow> ('w, py) io" where
  "get_tenant_network cf get_primary_creds list_networks =
     bnd get_primary_creds (\<lambda>net_creds.
       (let network = tr_network net_creds; fixed = cf_option cf ''compute'' ''fixed_network_name''
        in bnd (if \<not> truthy network then ret True
                else lift (bindE (py_get network ''name'' PNone) (\<lambda>n. Inr (\<not> truthy n)))) (\<lambda>missing.
           if missing \<and> truthy fixed
           then network_or_empty (get_network_from_name list_networks fixed)
           else ret network)))"

definition set_networks_kwarg :: "py \<Rightarrow> (string, py) dict option \<Rightarrow> pyexc + (string, py) dict" where
  "set_networks_kwarg network kwargs =
     (let params = (case kwargs of None \<Rightarrow> [] | Some k \<Rightarrow> k)
      in if dhas params ''networks'' then Inr params
         else if truthy network then
           (case network of
              PDict d \<Rightarrow>
                (case dget d ''id'' of
                   None \<Rightarrow> Inr params
                 | Some i \<Rightarrow> Inr (dset params ''networks'' (PList [PDict [(''uuid'', i)]])))
            | _ \<Rightarrow> Inl AttrErr)
         else Inr params)"

section \<open>Facts\<close>

lemma with_default_domain_v3:
  "list_all (\<lambda>k. \<not> dhas kwargs k) domain_fields \<Longrightarrow>
   dget (with_default_domain cf kwargs) ''user_domain_name'' = Some (cf_default_domain cf)"
  by (simp add: with_default_domain_def)

lemma set_networks_kwarg_keeps:
  "set_networks_kwarg network (Some k) = Inr p \<Longrightarrow> dhas k ''networks'' \<Longrightarrow> p = k"
  by (simp add: set_networks_kwarg_def)

end
