(* ===== verification/Accounts.thy ===== *)
theory Accounts
  imports CredProvider
begin

text \<open>
  \<open>automation/common/accounts.py\<close>: test accounts read from a file, handed out to concurrent test
  processes under lock files.

  The directory of lock files is shared: \<open>None\<close> when it does not exist, else the files with their
  contents. \<open>_get_free_hash\<close> and \<open>remove_hash\<close> run under an external lock, so each is one atomic
  operation on it. The MD5 digest of an account's text is a parameter. Dictionaries and sets are
  walked in the order of insertion; Python may walk them in another.
\<close>

section \<open>The accounts file\<close>

text \<open>An entry after \<open>roles\<close>, \<open>types\<close> and \<open>resources\<close> were popped from it.\<close>

record account =
  ac_attrs :: "(string, py) dict"
  ac_roles :: "string list"
  ac_types :: "string list"
  ac_resources :: "(string, py) dict"

record hash_dict =
  hd_roles :: "(string, string list) dict"
  hd_creds :: "(string, (string, py) dict) dict"
  hd_networks :: "(string, py) dict"

definition append_role :: "string \<Rightarrow> string \<Rightarrow> hash_dict \<Rightarrow> hash_dict" where
  "append_role role account_hash tbl =
     (case dget (hd_roles tbl) role of
        Some hs \<Rightarrow> tbl\<lparr>hd_roles := dset (hd_roles tbl) role (hs @ [account_hash])\<rparr>
      | None \<Rightarrow> tbl\<lparr>hd_roles := dset (hd_roles tbl) role [account_hash]\<rparr>)"

definition role_of_type :: "conf \<Rightarrow> string \<Rightarrow> string option" where
  "role_of_type cf t =
     (if t = ''admin'' then Some (cf_admin_role cf)
      else if t = ''operator'' then Some (cf_operator_role cf)
      else if t = ''reseller_admin'' then Some (cf_reseller_role cf) else None)"

definition append_type :: "conf \<Rightarrow> string \<Rightarrow> string \<Rightarrow> hash_dict \<Rightarrow> hash_dict" where
  "append_type cf t h tbl =
     (case role_of_type cf t of None \<Rightarrow> tbl | Some role \<Rightarrow> append_role role h tbl)"

definition add_account :: "conf \<Rightarrow> ((string, py) dict \<Rightarrow> string) \<Rightarrow> account \<Rightarrow> hash_dict \<Rightarrow> hash_dict" where
  "add_account cf digest a tbl =
     (let h = digest (ac_attrs a);
          tbl1 = tbl\<lparr>hd_creds := dset (hd_creds tbl) h (ac_attrs a)\<rparr>;
          tbl2 = fold (\<lambda>role. append_role role h) (ac_roles a) tbl1;
          tbl3 = fold (\<lambda>t. append_type cf t h) (ac_types a) tbl2
      in (case dget (ac_resources a) ''network'' of
            None \<Rightarrow> tbl3
          | Some n \<Rightarrow> tbl3\<lparr>hd_networks := dset (hd_networks tbl3) h n\<rparr>))"

definition get_hash_dict :: "conf \<Rightarrow> ((string, py) dict \<Rightarrow> string) \<Rightarrow> account list \<Rightarrow> hash_dict" where
  "get_hash_dict cf digest accounts =
     fold (add_account cf digest) accounts \<lparr>hd_roles = [], hd_creds = [], hd_networks = []\<rparr>"

section \<open>Lock files\<close>

type_synonym lock_dir = "(string, string) dict option"

text \<open>\<open>_create_hash_file\<close>.\<close>

definition create_hash_file :: "string \<Rightarrow> string \<Rightarrow> (string, string) dict \<Rightarrow> bool \<times> (string, string) dict" where
  "create_hash_file name h files =
     (if dhas files h then (False, files) else (True, dset files h name))"

fun first_free :: "string \<Rightarrow> string list \<Rightarrow> (string, string) dict \<Rightarrow> (string list + string) \<times> (string, string) dict" where
  "first_free name [] files = (Inl [], files)"
| "first_free name (h # hs) files =
     (case create_hash_file name h files of
        (True, files') \<Rightarrow> (Inr h, files')
      | (False, _) \<Rightarrow>
          (case first_free name hs files of
             (Inl names, fs) \<Rightarrow> (Inl ((case dget files h of None \<Rightarrow> [] | Some n \<Rightarrow> n) # names), fs)
           | (Inr x, fs) \<Rightarrow> (Inr x, fs)))"

text \<open>
  \<open>_get_free_hash\<close>. When the directory is new no file can be in the way; with an empty list of hashes
  the directory is left behind and indexing the list raises.
\<close>

definition get_free_hash :: "string \<Rightarrow> string list \<Rightarrow> (lock_dir, string) io" where
  "get_free_hash name hashes d =
     (case d of
        None \<Rightarrow>
          (case hashes of
             [] \<Rightarrow> (Inl IndexErr, Some [])
           | h # _ \<Rightarrow> (Inr h, Some (snd (create_hash_file name h []))))
      | Some files \<Rightarrow>
          (case first_free name hashes files of
             (Inr h, files') \<Rightarrow> (Inr h, Some files')
           | (Inl names, files') \<Rightarrow>
               (Inl (Auto InvalidConfiguration
                  [PStr (''Insufficient number of users provided. '' @ str_join '','' names
                     @ '' have allocated all the credentials for this allocation request'')] []),
                Some files')))"

definition remove_hash :: "string \<Rightarrow> (lock_dir, unit) io" where
  "remove_hash h d =
     (case d of
        None \<Rightarrow> (Inr (), None)
      | Some files \<Rightarrow>
          if \<not> dhas files h then (Inr (), Some files)
          else (let rest = ddel files h in (Inr (), if rest = [] then None else Some rest)))"

section \<open>Selecting accounts\<close>

fun role_hashes :: "(string, string list) dict \<Rightarrow> string list \<Rightarrow> pyexc + string list list" where
  "role_hashes rd [] = Inr []"
| "role_hashes rd (role # roles) =
     (case dget rd role of
        Some (h # hs) \<Rightarrow> bindE (role_hashes rd roles) (\<lambda>rest. Inr ((h # hs) # rest))
      | _ \<Rightarrow> Inl (Auto InvalidConfiguration
               [PStr (''No credentials with role: '' @ role @ '' specified in the accounts file'')] []))"

definition intersect_all :: "string list list \<Rightarrow> string list" where
  "intersect_all hss =
     (case hss of [] \<Rightarrow> [] | hs # rest \<Rightarrow> foldl (\<lambda>acc l. filter (\<lambda>h. h \<in> set l) acc) (remdups hs) rest)"

definition get_match_hash_list :: "conf \<Rightarrow> hash_dict \<Rightarrow> string list \<Rightarrow> pyexc + string list" where
  "get_match_hash_list cf tbl roles =
     bindE (if roles \<noteq> [] then bindE (role_hashes (hd_roles tbl) roles) (\<lambda>hss. Inr (intersect_all hss))
            else Inr (dkeys (hd_creds tbl))) (\<lambda>hashes.
       (case dget (hd_roles tbl) (cf_admin_role cf) of
          None \<Rightarrow> Inr hashes
        | Some admin_hashes \<Rightarrow>
            if cf_admin_role cf \<notin> set roles
            then Inr (filter (\<lambda>x. x \<notin> set admin_hashes) hashes) else Inr hashes))"

section \<open>The provider object\<close>

record accounts_obj =
  ao_name :: string
  ao_version :: string
  ao_default :: bool
  ao_table :: hash_dict
  ao_isolated :: "(string, test_resources) dict"

record 'r accounts_world = "'r world" +
  locks :: lock_dir
  acc :: accounts_obj

text \<open>\<open>Accounts.__init__\<close>; \<open>None\<close> stands for a missing accounts file.\<close>

definition accounts_init ::
    "conf \<Rightarrow> ((string, py) dict \<Rightarrow> string) \<Rightarrow> account list option \<Rightarrow> string option \<Rightarrow> string option
     \<Rightarrow> pyexc + accounts_obj" where
  "accounts_init cf digest file identity_version name =
     bindE (credential_provider_init cf identity_version name) (\<lambda>(n, v).
       Inr \<lparr>ao_name = n, ao_version = v, ao_default = (file = None),
            ao_table = get_hash_dict cf digest (case file of None \<Rightarrow> [] | Some as \<Rightarrow> as),
            ao_isolated = []\<rparr>)"

definition on_locks :: "(lock_dir, 'a) io \<Rightarrow> (('r, 'x) accounts_world_scheme, 'a) io" where
  "on_locks m w = (case m (locks w) of (r, d) \<Rightarrow> (r, w\<lparr>locks := d\<rparr>))"

definition set_isolated :: "string \<Rightarrow> test_resources \<Rightarrow> (('r, 'x) accounts_world_scheme, unit) io" where
  "set_isolated k v =
     modify (\<lambda>w. w\<lparr>acc := (acc w)\<lparr>ao_isolated := dset (ao_isolated (acc w)) k v\<rparr>\<rparr>)"

definition no_accounts_file :: "conf \<Rightarrow> pyexc" where
  "no_accounts_file cf =
     Auto InvalidConfiguration [PStr (''Account file '' @ cf_accounts_file cf @ '' doesn't exist'')] []"

definition is_multi_user :: "conf \<Rightarrow> accounts_obj \<Rightarrow> pyexc + bool" where
  "is_multi_user cf a =
     (if ao_default a then Inl (no_accounts_file cf) else Inr (length (hd_creds (ao_table a)) > 1))"

definition is_role_available :: "string \<Rightarrow> accounts_obj \<Rightarrow> bool" where
  "is_role_available role a =
     (if ao_default a then False
      else (case dget (hd_roles (ao_table a)) role of None \<Rightarrow> False | Some hs \<Rightarrow> hs \<noteq> []))"

definition admin_available :: "conf \<Rightarrow> accounts_obj \<Rightarrow> bool" where
  "admin_available cf a = is_role_available (cf_admin_role cf) a"

definition sanitize_creds :: "(string, py) dict \<Rightarrow> pyexc + (string, py) dict" where
  "sanitize_creds creds =
     (if dhas creds ''password'' then Inr (ddel creds ''password'') else Inl (KeyErr ''password''))"

text \<open>
  \<open>_wrap_creds_with_network\<close>. The network client that \<open>clients.Manager\<close> builds on the credentials is
  used through its \<open>list_networks\<close>.
\<close>

definition wrap_creds_with_network ::
    "'r env \<Rightarrow> conf \<Rightarrow> (credentials \<Rightarrow> ('r world, py list) io) \<Rightarrow> string
     \<Rightarrow> (('r, 'x) accounts_world_scheme, test_resources) io" where
  "wrap_creds_with_network env cf list_networks h =
     bnd (gets acc) (\<lambda>a.
       case dget (hd_creds (ao_table a)) h of
         None \<Rightarrow> throw (KeyErr h)
       | Some creds_dict \<Rightarrow>
           bnd (on_world (provided_credentials env cf True (Some (ao_version a)) creds_dict)) (\<lambda>c.
           bnd (on_world (network_or_empty (get_network_from_name (list_networks c)
                  (case dget (hd_networks (ao_table a)) h of None \<Rightarrow> PNone | Some n \<Rightarrow> n)))) (\<lambda>network.
             ret (set_network network (test_resources_init c)))))"

definition get_creds ::
    "'r env \<Rightarrow> conf \<Rightarrow> (credentials \<Rightarrow> ('r world, py list) io) \<Rightarrow> string list
     \<Rightarrow> (('r, 'x) accounts_world_scheme, test_resources) io" where
  "get_creds env cf list_networks roles =
     bnd (gets acc) (\<lambda>a.
       if ao_default a then throw (no_accounts_file cf)
       else
         bnd (lift (get_match_hash_list cf (ao_table a) roles)) (\<lambda>hashes.
         bnd (on_locks (get_free_hash (ao_name a) hashes)) (\<lambda>h.
         bnd (lift (case dget (hd_creds (ao_table a)) h of
                      None \<Rightarrow> Inl (KeyErr h) | Some c \<Rightarrow> sanitize_creds c)) (\<lambda>_.
           wrap_creds_with_network env cf list_networks h))))"

text \<open>\<open>get_primary_creds\<close> and \<open>get_alt_creds\<close>.\<close>

definition cached_creds ::
    "string \<Rightarrow> (('r, 'x) accounts_world_scheme, test_resources) io
     \<Rightarrow> (('r, 'x) accounts_world_scheme, test_resources) io" where
  "cached_creds key fetch =
     bnd (gets acc) (\<lambda>a.
       case dget (ao_isolated a) key of
         Some c \<Rightarrow> ret c
       | None \<Rightarrow> bnd fetch (\<lambda>c. bnd (set_isolated key c) (\<lambda>_. ret c)))"

definition get_primary_creds ::
    "'r env \<Rightarrow> conf \<Rightarrow> (credentials \<Rightarrow> ('r world, py list) io)
     \<Rightarrow> (('r, 'x) accounts_world_scheme, test_resources) io" where
  "get_primary_creds env cf list_networks = cached_creds ''primary'' (get_creds env cf list_networks [])"

definition get_alt_creds ::
    "'r env \<Rightarrow> conf \<Rightarrow> (credentials \<Rightarrow> ('r world, py list) io)
     \<Rightarrow> (('r, 'x) accounts_world_scheme, test_resources) io" where
  "get_alt_creds env cf list_networks = cached_creds ''alt'' (get_creds env cf list_networks [])"

text \<open>\<open>get_creds_by_roles\<close>; the text of a list of roles is a parameter.\<close>

definition get_creds_by_roles ::
    "'r env \<Rightarrow> conf \<Rightarrow> (credentials \<Rightarrow> ('r world, py list) io) \<Rightarrow> (string list \<Rightarrow> string)
     \<Rightarrow> string list \<Rightarrow> bool \<Rightarrow> (('r, 'x) accounts_world_scheme, test_resources) io" where
  "get_creds_by_roles env cf list_networks roles_text roles0 force_new =
     (let roles = remdups roles0; key = roles_text roles
      in bnd (gets acc) (\<lambda>a.
           let fetch = bnd (get_creds env cf list_networks roles) (\<lambda>c.
                         bnd (set_isolated key c) (\<lambda>_. ret c))
           in case dget (ao_isolated a) key of
                None \<Rightarrow> fetch
              | Some old \<Rightarrow>
                  if \<not> force_new then ret old
                  else bnd (set_isolated (key @ ''-'' @ nat_str (length (ao_isolated a))) old) (\<lambda>_. fetch)))"

definition get_admin_creds ::
    "'r env \<Rightarrow> conf \<Rightarrow> (credentials \<Rightarrow> ('r world, py list) io) \<Rightarrow> (string list \<Rightarrow> string)
     \<Rightarrow> (('r, 'x) accounts_world_scheme, test_resources) io" where
  "get_admin_creds env cf list_networks roles_text =
     get_creds_by_roles env cf list_networks roles_text [cf_admin_role cf] False"

section \<open>Giving accounts back\<close>

text \<open>\<open>get_hash\<close>: the first account whose attributes are those the credentials were made from.\<close>

definition hash_attributes :: "conf \<Rightarrow> string list \<Rightarrow> (string, py) dict \<Rightarrow> (string, py) dict" where
  "hash_attributes cf init_attributes creds =
     (if ''user_domain_name'' \<in> set init_attributes \<and> \<not> dhas creds ''user_domain_name''
      then dset creds ''user_domain_name'' (cf_default_domain cf) else creds)"

fun all_equal :: "credentials \<Rightarrow> (string, py) dict \<Rightarrow> string list \<Rightarrow> pyexc + bool" where
  "all_equal c attrs [] = Inr True"
| "all_equal c attrs (k # ks) =
     bindE (cred_getattr c k) (\<lambda>v.
       case dget attrs k of
         None \<Rightarrow> Inl (KeyErr k)
       | Some x \<Rightarrow> bindE (all_equal c attrs ks) (\<lambda>b. Inr (v = x \<and> b)))"

fun find_hash :: "conf \<Rightarrow> credentials \<Rightarrow> (string, (string, py) dict) dict \<Rightarrow> pyexc + string" where
  "find_hash cf c [] = Inl AttrErr"
| "find_hash cf c ((h, attrs) # rest) =
     (let ks = dkeys (cr_initial c)
      in bindE (all_equal c (hash_attributes cf ks attrs) ks) (\<lambda>same.
           if same then Inr h else find_hash cf c rest))"

definition get_hash :: "conf \<Rightarrow> accounts_obj \<Rightarrow> credentials \<Rightarrow> pyexc + string" where
  "get_hash cf a c = find_hash cf c (hd_creds (ao_table a))"

definition remove_credentials :: "conf \<Rightarrow> test_resources \<Rightarrow> (('r, 'x) accounts_world_scheme, unit) io" where
  "remove_credentials cf t =
     bnd (gets acc) (\<lambda>a.
     bnd (lift (get_hash cf a (tr_credentials t))) (\<lambda>h.
     bnd (lift (case dget (hd_creds (ao_table a)) h of
                  None \<Rightarrow> Inl (KeyErr h) | Some c \<Rightarrow> sanitize_creds c)) (\<lambda>_.
       on_locks (remove_hash h))))"

definition clear_isolated_creds :: "conf \<Rightarrow> (('r, 'x) accounts_world_scheme, unit) io" where
  "clear_isolated_creds cf =
     bnd (gets acc) (\<lambda>a. for_each (map snd (ao_isolated a)) (remove_credentials cf))"

section \<open>Accounts without locking\<close>

text \<open>\<open>NotLockingAccounts\<close>: credentials from the configuration.\<close>

definition configured_creds ::
    "'r env \<Rightarrow> conf \<Rightarrow> string \<Rightarrow> (('r, 'x) accounts_world_scheme, test_resources) io" where
  "configured_creds env cf ctype =
     bnd (gets acc) (\<lambda>a.
     bnd (on_world (get_configured_credentials env cf ctype True (Some (ao_version a)))) (\<lambda>c.
       ret (test_resources_init c)))"

definition nl_get_primary_creds :: "'r env \<Rightarrow> conf \<Rightarrow> (('r, 'x) accounts_world_scheme, test_resources) io" where
  "nl_get_primary_creds env cf = cached_creds ''primary'' (configured_creds env cf ''user'')"

definition nl_get_alt_creds :: "'r env \<Rightarrow> conf \<Rightarrow> (('r, 'x) accounts_world_scheme, test_resources) io" where
  "nl_get_alt_creds env cf = cached_creds ''alt'' (configured_creds env cf ''alt_user'')"

definition nl_get_admin_creds :: "'r env \<Rightarrow> conf \<Rightarrow> (('r, 'x) accounts_world_scheme, test_resources) io" where
  "nl_get_admin_creds env cf =
     bnd (on_world (get_configured_credentials env cf ''identity_admin'' False None)) (\<lambda>c.
     bnd (set_isolated ''admin'' (test_resources_init c)) (\<lambda>_. ret (test_resources_init c)))"

definition nl_clear_isolated_creds :: "(('r, 'x) accounts_world_scheme, unit) io" where
  "nl_clear_isolated_creds = modify (\<lambda>w. w\<lparr>acc := (acc w)\<lparr>ao_isolated := []\<rparr>\<rparr>)"

text \<open>\<open>_unique_creds\<close>; \<open>ic.message\<close> is the attribute of the class.\<close>

definition unique_creds :: "'r env \<Rightarrow> conf \<Rightarrow> string \<Rightarrow> (('r, 'x) accounts_world_scheme, bool) io" where
  "unique_creds env cf cred_arg =
     catch (bnd (nl_get_primary_creds env cf) (\<lambda>u.
            bnd (nl_get_alt_creds env cf) (\<lambda>v.
            bnd (lift (cred_getattr (tr_credentials u) cred_arg)) (\<lambda>x.
            bnd (lift (cred_getattr (tr_credentials v) cred_arg)) (\<lambda>y. ret (x \<noteq> y))))))
       (\<lambda>e. if catches InvalidCredentials e
            then Some (throw (Auto InvalidConfiguration
              [PStr (''At least one of the configured credentials is not valid: ''
                  @ class_message InvalidCredentials)] []))
            else None)"

section \<open>The contract of the lock directory\<close>

text \<open>
  What the processes may rely on: taking gives one of the wanted locks, that nobody had, and records
  its owner; it is refused only when all are taken, and then nothing changes; giving back frees
  exactly that lock.
\<close>

locale lock_service =
  fixes take :: "string \<Rightarrow> string list \<Rightarrow> ('d, string) io"
    and give :: "string \<Rightarrow> ('d, unit) io"
    and owner :: "'d \<Rightarrow> string \<Rightarrow> string option"
  assumes taken: "take n hs d = (Inr h, d') \<Longrightarrow>
      h \<in> set hs \<and> owner d h = None \<and> owner d' = (owner d)(h \<mapsto> n)"
    and refused: "take n hs d = (Inl e, d') \<Longrightarrow>
      (\<forall>h \<in> set hs. owner d h \<noteq> None) \<and> owner d' = owner d"
    and given: "give h d = (r, d') \<Longrightarrow> r = Inr () \<and> owner d' = (owner d)(h := None)"

text \<open>The processes of a test run, by name, and the locks each was given and has not given back.\<close>

record 'd cluster =
  cl_dir :: 'd
  cl_held :: "string \<Rightarrow> string set"

inductive cluster_run ::
    "(string \<Rightarrow> string list \<Rightarrow> ('d, string) io) \<Rightarrow> (string \<Rightarrow> ('d, unit) io) \<Rightarrow> 'd \<Rightarrow> 'd cluster \<Rightarrow> bool"
  for take give d0 where
  begin_run: "cluster_run take give d0 \<lparr>cl_dir = d0, cl_held = (\<lambda>p. {})\<rparr>"
| acquire: "cluster_run take give d0 s \<Longrightarrow> take p hs (cl_dir s) = (Inr h, d') \<Longrightarrow>
    cluster_run take give d0 \<lparr>cl_dir = d', cl_held = (cl_held s)(p := insert h (cl_held s p))\<rparr>"
| refusal: "cluster_run take give d0 s \<Longrightarrow> take p hs (cl_dir s) = (Inl e, d') \<Longrightarrow>
    cluster_run take give d0 (s\<lparr>cl_dir := d'\<rparr>)"
| release: "cluster_run take give d0 s \<Longrightarrow> h \<in> cl_held s p \<Longrightarrow> give h (cl_dir s) = (r, d') \<Longrightarrow>
    cluster_run take give d0 \<lparr>cl_dir = d', cl_held = (cl_held s)(p := cl_held s p - {h})\<rparr>"

context lock_service
begin

definition consistent :: "'d cluster \<Rightarrow> bool" where
  "consistent s = (\<forall>p h. h \<in> cl_held s p \<longleftrightarrow> owner (cl_dir s) h = Some p)"

lemma run_consistent:
  assumes "cluster_run take give d0 s" "\<And>h. owner d0 h = None"
  shows "consistent s"
  using assms(1)
proof (induction rule: cluster_run.induct)
  case begin_run
  then show ?case by (simp add: consistent_def assms(2))
next
  case (acquire s p hs h d')
  from taken [OF acquire(2)] acquire(3) show ?case
    by (auto simp: consistent_def)
next
  case (refusal s p hs e d')
  from refused [OF refusal(2)] refusal(3) show ?case
    by (simp add: consistent_def)
next
  case (release s h p r d')
  from given [OF release(3)] release(2,4) show ?case
    by (auto simp: consistent_def)
qed

lemma exclusive:
  "consistent s \<Longrightarrow> h \<in> cl_held s p \<Longrightarrow> h \<in> cl_held s q \<Longrightarrow> p = q"
  by (simp add: consistent_def)

end

text \<open>The lock files provide it.\<close>

definition lock_owner :: "lock_dir \<Rightarrow> string \<Rightarrow> string option" where
  "lock_owner d h = (case d of None \<Rightarrow> None | Some files \<Rightarrow> dget files h)"

lemma first_free_result:
  assumes "first_free n hs files = (r, files')"
  shows "(case r of
            Inr h \<Rightarrow> h \<in> set hs \<and> dget files h = None \<and> files' = dset files h n
          | Inl names \<Rightarrow> (\<forall>h \<in> set hs. dget files h \<noteq> None) \<and> files' = files)"
  using assms
proof (induction hs arbitrary: r files')
  case (Cons h hs)
  show ?case
  proof (cases "dhas files h")
    case True
    obtain r1 f1 where rest: "first_free n hs files = (r1, f1)" by fastforce
    with Cons.prems True Cons.IH [OF rest] show ?thesis
      by (auto simp: create_hash_file_def dhas_def split: sum.splits)
  next
    case False
    with Cons.prems show ?thesis
      by (auto simp: create_hash_file_def dhas_def)
  qed
qed simp

interpretation accounts_locks: lock_service get_free_hash remove_hash lock_owner
proof
  fix n hs d h d'
  assume take: "get_free_hash n hs d = (Inr h, d')"
  show "h \<in> set hs \<and> lock_owner d h = None \<and> lock_owner d' = (lock_owner d)(h \<mapsto> n)"
  proof (cases d)
    case None
    with take show ?thesis
      by (auto simp: get_free_hash_def lock_owner_def create_hash_file_def dhas_def fun_eq_iff
          split: list.splits)
  next
    case (Some files)
    obtain r f where ff: "first_free n hs files = (r, f)" by fastforce
    with take Some first_free_result [OF ff] show ?thesis
      by (auto simp: get_free_hash_def lock_owner_def fun_eq_iff split: sum.splits)
  qed
next
  fix n hs d e d'
  assume take: "get_free_hash n hs d = (Inl e, d')"
  show "(\<forall>h \<in> set hs. lock_owner d h \<noteq> None) \<and> lock_owner d' = lock_owner d"
  proof (cases d)
    case None
    with take show ?thesis
      by (auto simp: get_free_hash_def lock_owner_def fun_eq_iff split: list.splits)
  next
    case (Some files)
    obtain r f where ff: "first_free n hs files = (r, f)" by fastforce
    with take Some first_free_result [OF ff] show ?thesis
      by (auto simp: get_free_hash_def lock_owner_def split: sum.splits)
  qed
next
  fix h d r d'
  assume "remove_hash h d = (r, d')"
  then show "r = Inr () \<and> lock_owner d' = (lock_owner d)(h := None)"
    by (auto simp: remove_hash_def lock_owner_def fun_eq_iff dhas_def Let_def split: option.splits if_splits)
      (metis dget_Nil dget_ddel)+
qed

end
