(* ===== verification/AccountsProps.thy ===== *)
theory AccountsProps
  imports Accounts Demo
begin

text \<open>
  The properties of \<open>automation/common/accounts.py\<close>: the table built from the accounts file, the
  selection by roles, the mutual exclusion of the test processes, and two ways in which giving
  accounts back goes wrong.
\<close>

section \<open>The table\<close>

definition role_set :: "hash_dict \<Rightarrow> string \<Rightarrow> string set" where
  "role_set tbl r = (case dget (hd_roles tbl) r of None \<Rightarrow> {} | Some hs \<Rightarrow> set hs)"

definition account_roles :: "conf \<Rightarrow> account \<Rightarrow> string set" where
  "account_roles cf a = set (ac_roles a) \<union> {r. \<exists>t \<in> set (ac_types a). role_of_type cf t = Some r}"

lemma role_set_append:
  "role_set (append_role role h tbl) r = role_set tbl r \<union> (if r = role then {h} else {})"
  by (auto simp: role_set_def append_role_def split: option.splits)

lemma role_set_append_type:
  "role_set (append_type cf t h tbl) r = role_set tbl r \<union> (if role_of_type cf t = Some r then {h} else {})"
  by (auto simp: append_type_def role_set_append split: option.splits)

lemma role_set_fold_roles:
  "role_set (fold (\<lambda>role. append_role role h) rs tbl) r = role_set tbl r \<union> (if r \<in> set rs then {h} else {})"
  by (induction rs arbitrary: tbl) (auto simp: role_set_append)

lemma role_set_fold_types:
  "role_set (fold (\<lambda>t. append_type cf t h) ts tbl) r =
     role_set tbl r \<union> (if \<exists>t \<in> set ts. role_of_type cf t = Some r then {h} else {})"
  by (induction ts arbitrary: tbl) (auto simp: role_set_append_type)

lemma role_set_update [simp]:
  "role_set (tbl\<lparr>hd_creds := c\<rparr>) r = role_set tbl r" "role_set (tbl\<lparr>hd_networks := n\<rparr>) r = role_set tbl r"
  by (simp_all add: role_set_def)

lemma role_set_add:
  "role_set (add_account cf digest a tbl) r =
     role_set tbl r \<union> (if r \<in> account_roles cf a then {digest (ac_attrs a)} else {})"
  by (auto simp: add_account_def Let_def role_set_fold_types role_set_fold_roles account_roles_def
      split: option.splits)

lemma creds_append_role [simp]: "hd_creds (append_role r h tbl) = hd_creds tbl"
  by (simp add: append_role_def split: option.splits)

lemma creds_append_type [simp]: "hd_creds (append_type cf t h tbl) = hd_creds tbl"
  by (simp add: append_type_def split: option.splits)

lemma creds_fold [simp]:
  "hd_creds (fold (\<lambda>role. append_role role h) rs tbl) = hd_creds tbl"
  "hd_creds (fold (\<lambda>t. append_type cf t h) ts tbl) = hd_creds tbl"
  by (induction rs arbitrary: tbl) (simp_all, induction ts arbitrary: tbl, simp_all)

lemma creds_add: "hd_creds (add_account cf digest a tbl) = dset (hd_creds tbl) (digest (ac_attrs a)) (ac_attrs a)"
  by (simp add: add_account_def Let_def split: option.splits)

lemma role_set_fold_add:
  "role_set (fold (add_account cf digest) as tbl) r =
     role_set tbl r \<union> {digest (ac_attrs a) | a. a \<in> set as \<and> r \<in> account_roles cf a}"
  by (induction as arbitrary: tbl) (auto simp: role_set_add)

lemma creds_keys_fold_add:
  "set (dkeys (hd_creds (fold (add_account cf digest) as tbl))) =
     set (dkeys (hd_creds tbl)) \<union> {digest (ac_attrs a) | a. a \<in> set as}"
  by (induction as arbitrary: tbl) (auto simp: creds_add)

text \<open>
  (hash_table_roles): in the table built from the accounts file, the hashes under a role are those of
  the accounts that list the role or a type that stands for it, and the credentials are kept under the
  hashes of all accounts.
\<close>

theorem hash_table_roles:
  "(case dget (hd_roles (get_hash_dict cf digest as)) r of None \<Rightarrow> {} | Some hs \<Rightarrow> set hs) =
      {digest (ac_attrs a) | a. a \<in> set as \<and>
         (r \<in> set (ac_roles a) \<or> (\<exists>t \<in> set (ac_types a). role_of_type cf t = Some r))}
   \<and> set (dkeys (hd_creds (get_hash_dict cf digest as))) = {digest (ac_attrs a) | a. a \<in> set as}"
  using role_set_fold_add [of cf digest as "\<lparr>hd_roles = [], hd_creds = [], hd_networks = []\<rparr>" r]
    creds_keys_fold_add [of cf digest as "\<lparr>hd_roles = [], hd_creds = [], hd_networks = []\<rparr>"]
  by (auto simp: get_hash_dict_def role_set_def account_roles_def)

section \<open>Selection\<close>

lemma role_hashes_ok:
  "role_hashes rd roles = Inr hss \<Longrightarrow>
   length hss = length roles \<and> (\<forall>i < length roles. dget rd (roles ! i) = Some (hss ! i))"
proof (induction roles arbitrary: hss)
  case (Cons r roles)
  then show ?case
    by (auto simp: nth_Cons' less_Suc_eq_0_disj split: option.splits list.splits)
qed simp

lemma set_intersect_all:
  "hss \<noteq> [] \<Longrightarrow> set (intersect_all hss) = {h. \<forall>hs \<in> set hss. h \<in> set hs}"
proof -
  have step: "set (foldl (\<lambda>acc l. filter (\<lambda>h. h \<in> set l) acc) a ls) = {h \<in> set a. \<forall>l \<in> set ls. h \<in> set l}"
    for a :: "string list" and ls
    by (induction ls arbitrary: a) auto
  show "hss \<noteq> [] \<Longrightarrow> ?thesis"
    by (cases hss) (auto simp: intersect_all_def step)
qed

text \<open>
  (match_hash_list_spec): the hashes selected for a request are those of the accounts that have every
  requested role; unless the admin role is requested, accounts with the admin role are left out.
\<close>

theorem match_hash_list_spec:
  assumes "get_match_hash_list cf tbl roles = Inr hs"
  shows "h \<in> set hs \<longleftrightarrow>
     (roles = [] \<longrightarrow> h \<in> set (dkeys (hd_creds tbl)))
     \<and> (\<forall>r \<in> set roles. \<exists>l. dget (hd_roles tbl) r = Some l \<and> h \<in> set l)
     \<and> (cf_admin_role cf \<notin> set roles \<longrightarrow>
          (\<forall>l. dget (hd_roles tbl) (cf_admin_role cf) = Some l \<longrightarrow> h \<notin> set l))"
proof -
  have sel: "h \<in> set base \<longleftrightarrow> (\<forall>r \<in> set roles. \<exists>l. dget (hd_roles tbl) r = Some l \<and> h \<in> set l)"
    if ne: "roles \<noteq> []" and "role_hashes (hd_roles tbl) roles = Inr hss" "base = intersect_all hss" for hss base
  proof -
    note ok = role_hashes_ok [OF that(2)]
    then have "hss \<noteq> []" using ne by auto
    then have "h \<in> set base \<longleftrightarrow> (\<forall>i < length hss. h \<in> set (hss ! i))"
      by (auto simp: that(3) set_intersect_all all_set_conv_all_nth)
    also have "\<dots> \<longleftrightarrow> (\<forall>r \<in> set roles. \<exists>l. dget (hd_roles tbl) r = Some l \<and> h \<in> set l)"
      using ok by (auto simp: all_set_conv_all_nth)
    finally show ?thesis .
  qed
  show ?thesis
  proof (cases "roles = []")
    case True
    with assms show ?thesis
      by (auto simp: get_match_hash_list_def split: option.splits if_splits)
  next
    case False
    with assms obtain hss where hss: "role_hashes (hd_roles tbl) roles = Inr hss"
      by (auto simp: get_match_hash_list_def)
    from sel [OF False this refl] False hss assms show ?thesis
      by (auto simp: get_match_hash_list_def split: option.splits if_splits)
  qed
qed

definition demo_conf :: conf where
  "demo_conf = \<lparr>cf_auth_version = ''v2'', cf_uri = ''http://key/v2.0'', cf_uri_v3 = ''http://key/v3'',
     cf_default_domain = PStr ''Default'', cf_option = (\<lambda>s k. PNone), cf_admin_role = ''admin'',
     cf_operator_role = ''operator'', cf_reseller_role = ''reseller'', cf_accounts_file = ''accounts.yaml''\<rparr>"

definition demo_accounts :: "account list" where
  "demo_accounts =
     [\<lparr>ac_attrs = [(''username'', PStr ''u1''), (''password'', PStr ''p''), (''tenant_name'', PStr ''t1'')],
       ac_roles = [''member''], ac_types = [], ac_resources = []\<rparr>,
      \<lparr>ac_attrs = [(''username'', PStr ''u2''), (''password'', PStr ''p'')],
       ac_roles = [''member''], ac_types = [''admin''], ac_resources = []\<rparr>]"

definition demo_digest :: "(string, py) dict \<Rightarrow> string" where
  "demo_digest d = (case dget d ''username'' of Some (PStr s) \<Rightarrow> s | _ \<Rightarrow> [])"

lemma demo_table:
  "get_hash_dict demo_conf demo_digest demo_accounts =
     \<lparr>hd_roles = [(''member'', [''u1'', ''u2'']), (''admin'', [''u2''])],
      hd_creds = [(''u1'', ac_attrs (demo_accounts ! 0)), (''u2'', ac_attrs (demo_accounts ! 1))],
      hd_networks = []\<rparr>"
  by (simp add: get_hash_dict_def demo_accounts_def add_account_def demo_digest_def append_role_def
      append_type_def role_of_type_def demo_conf_def Let_def)

theorem match_hash_list_spec_witness:
  "get_match_hash_list demo_conf (get_hash_dict demo_conf demo_digest demo_accounts) [''member''] = Inr [''u1'']
   \<and> (''u2'' \<notin> set [''u1''])"
proof -
  have run: "get_match_hash_list demo_conf (get_hash_dict demo_conf demo_digest demo_accounts) [''member'']
      = Inr [''u1'']"
    unfolding demo_table by (simp add: get_match_hash_list_def intersect_all_def demo_conf_def)
  have "''u2'' \<notin> set [''u1'']"
    using match_hash_list_spec [OF run, of "''u2''"] unfolding demo_table by (simp add: demo_conf_def)
  with run show ?thesis by blast
qed

section \<open>Locks\<close>

text \<open>
  C7 (accounts_mutual_exclusion): in every run of any number of processes that take accounts with
  \<open>_get_free_hash\<close> and give back with \<open>remove_hash\<close> only what they were given, no account is held by two
  processes, and the lock files are exactly the held accounts, each with the name of its holder.
\<close>

theorem accounts_mutual_exclusion:
  assumes "cluster_run get_free_hash remove_hash None s"
  shows "(h \<in> cl_held s p \<longrightarrow> h \<in> cl_held s q \<longrightarrow> p = q)
     \<and> (lock_owner (cl_dir s) h = Some p \<longleftrightarrow> h \<in> cl_held s p)"
proof -
  have "accounts_locks.consistent s"
    by (rule accounts_locks.run_consistent [OF assms]) (simp add: lock_owner_def)
  then show ?thesis
    by (auto simp: accounts_locks.consistent_def)
qed

theorem accounts_mutual_exclusion_witness:
  "\<exists>s. cluster_run get_free_hash remove_hash None s \<and> ''u1'' \<in> cl_held s ''A''
     \<and> ''u1'' \<notin> cl_held s ''B'' \<and> lock_owner (cl_dir s) ''u1'' = Some ''A''"
proof -
  have "get_free_hash ''A'' [''u1''] None = (Inr ''u1'', Some [(''u1'', ''A'')])"
    by (simp add: get_free_hash_def create_hash_file_def dhas_def)
  then have run: "cluster_run get_free_hash remove_hash None
      \<lparr>cl_dir = Some [(''u1'', ''A'')], cl_held = (\<lambda>p. {})(''A'' := {''u1''})\<rparr>"
    using cluster_run.acquire [OF cluster_run.begin_run, of get_free_hash "''A''" "[''u1'']" None] by simp
  show ?thesis
    using run accounts_mutual_exclusion [OF run, of "''u1''" "''A''" "''B''"] by auto
qed

text \<open>
  (allocation_complete): \<open>_get_free_hash\<close> succeeds exactly when one of the requested accounts is free.
\<close>

theorem allocation_complete:
  "(\<exists>h d'. get_free_hash name hashes d = (Inr h, d')) \<longleftrightarrow> (\<exists>h \<in> set hashes. lock_owner d h = None)"
proof -
  obtain r d' where run: "get_free_hash name hashes d = (r, d')" by fastforce
  show ?thesis
  proof (cases r)
    case (Inl e)
    with run accounts_locks.refused [of name hashes d e d'] show ?thesis by auto
  next
    case (Inr h)
    with run accounts_locks.taken [of name hashes d h d'] show ?thesis by auto
  qed
qed

section \<open>Giving accounts back\<close>

lemma on_locks_remove:
  "on_locks (remove_hash h) w = (r, w') \<Longrightarrow>
   r = Inr () \<and> acc w' = acc w \<and> lock_owner (locks w') = (lock_owner (locks w))(h := None)"
  by (auto simp: on_locks_def split: prod.splits dest: accounts_locks.given)

lemma remove_credentials_ok:
  assumes "remove_credentials cf t w = (Inr (), w')"
  shows "\<exists>h. get_hash cf (acc w) (tr_credentials t) = Inr h \<and> acc w' = acc w
     \<and> lock_owner (locks w') = (lock_owner (locks w))(h := None)"
  using assms by (auto simp: remove_credentials_def elim!: bnd_InrE dest!: on_locks_remove)

lemma remove_all_ok:
  assumes "for_each ts (remove_credentials cf) w = (Inr (), w')"
  shows "acc w' = acc w \<and> (\<forall>h. lock_owner (locks w) h = None \<longrightarrow> lock_owner (locks w') h = None)
     \<and> (\<forall>t \<in> set ts. \<exists>h. get_hash cf (acc w) (tr_credentials t) = Inr h \<and> lock_owner (locks w') h = None)"
  using assms
proof (induction ts arbitrary: w)
  case (Cons t ts)
  then obtain w1 where first: "remove_credentials cf t w = (Inr (), w1)"
    and rest: "for_each ts (remove_credentials cf) w1 = (Inr (), w')"
    by (auto elim!: bnd_InrE)
  from remove_credentials_ok [OF first] Cons.IH [OF rest] show ?case
    by auto
qed simp

text \<open>
  (cleared_creds_stay_cached): \<open>clear_isolated_creds\<close> removes the lock of every allocated account but
  leaves the credentials in the cache: after it, \<open>get_primary_creds\<close> hands out the same account
  without taking its lock, so another process may be given it as well.
\<close>

theorem cleared_creds_stay_cached:
  assumes "clear_isolated_creds cf w = (Inr (), w')" "dget (ao_isolated (acc w)) ''primary'' = Some t"
  shows "get_primary_creds env cf list_networks w' = (Inr t, w')
     \<and> (\<exists>h. get_hash cf (acc w) (tr_credentials t) = Inr h \<and> lock_owner (locks w') h = None
          \<and> (\<exists>d. get_free_hash other [h] (locks w') = (Inr h, d)))"
proof -
  have run: "for_each (map snd (ao_isolated (acc w))) (remove_credentials cf) w = (Inr (), w')"
    using assms(1) by (simp add: clear_isolated_creds_def bnd_def)
  have "t \<in> set (map snd (ao_isolated (acc w)))"
    using dget_Some_mem [OF assms(2)] by force
  with remove_all_ok [OF run] obtain h where h: "get_hash cf (acc w) (tr_credentials t) = Inr h"
      "lock_owner (locks w') h = None" "acc w' = acc w"
    by blast
  moreover have "\<exists>d. get_free_hash other [h] (locks w') = (Inr h, d)"
    using h(2)
    by (auto simp: get_free_hash_def lock_owner_def create_hash_file_def dhas_def split: option.splits)
  ultimately show ?thesis
    using assms(2) by (simp add: get_primary_creds_def cached_creds_def bnd_def)
qed

definition demo_user :: test_resources where
  "demo_user = test_resources_init
     \<lparr>cr_version = V2,
      cr_attrs = [(''username'', PStr ''u2''), (''password'', PStr ''p'')],
      cr_initial = [(''username'', PStr ''u2''), (''password'', PStr ''p'')]\<rparr>"

definition demo_accounts_world :: "script accounts_world" where
  "demo_accounts_world =
     \<lparr>now = 0, remote = [], sent = [], naps = [], locks = Some [(''u2'', ''A'')],
      acc = \<lparr>ao_name = ''A'', ao_version = ''v2'', ao_default = False,
             ao_table = get_hash_dict demo_conf demo_digest demo_accounts,
             ao_isolated = [(''primary'', demo_user)]\<rparr>\<rparr>"

lemma demo_clear:
  "clear_isolated_creds demo_conf demo_accounts_world = (Inr (), demo_accounts_world\<lparr>locks := None\<rparr>)"
proof -
  have "get_hash demo_conf (acc demo_accounts_world) (tr_credentials demo_user) = Inr ''u2''"
    unfolding get_hash_def demo_accounts_world_def demo_table
    by (simp add: demo_user_def test_resources_init_def demo_accounts_def hash_attributes_def cred_getattr_def)
  moreover have "dget (hd_creds (ao_table (acc demo_accounts_world))) ''u2'' = Some (ac_attrs (demo_accounts ! 1))"
    unfolding demo_accounts_world_def demo_table by simp
  ultimately have "remove_credentials demo_conf demo_user demo_accounts_world
      = (Inr (), demo_accounts_world\<lparr>locks := None\<rparr>)"
    by (simp add: remove_credentials_def bnd_def sanitize_creds_def demo_accounts_def dhas_def on_locks_def)
      (simp add: demo_accounts_world_def remove_hash_def dhas_def)
  moreover have "map snd (ao_isolated (acc demo_accounts_world)) = [demo_user]"
    by (simp add: demo_accounts_world_def)
  ultimately show ?thesis
    by (simp add: clear_isolated_creds_def bnd_def)
qed

theorem cleared_creds_stay_cached_witness:
  "get_primary_creds (demo_env []) demo_conf (\<lambda>c. ret []) (demo_accounts_world\<lparr>locks := None\<rparr>)
     = (Inr demo_user, demo_accounts_world\<lparr>locks := None\<rparr>)
   \<and> (\<exists>h d. get_free_hash ''B'' [h] (locks (demo_accounts_world\<lparr>locks := None\<rparr>)) = (Inr h, d))"
  using cleared_creds_stay_cached [OF demo_clear, of demo_user "demo_env []" "\<lambda>c. ret []" "''B''"]
  by (auto simp: demo_accounts_world_def)

text \<open>
  (get_hash_heterogeneous): looking up the account of given credentials raises KeyError as soon as the
  first account of the table lacks an attribute the credentials were made from, although a later
  account may be theirs.
\<close>

lemma all_equal_missing:
  assumes "k \<in> set ks" "dget attrs k = None" "\<And>j. j \<in> set ks \<Longrightarrow> j \<in> set (attributes_of (cr_version c))"
  shows "\<exists>j. all_equal c attrs ks = Inl (KeyErr j)"
  using assms
proof (induction ks)
  case (Cons j ks)
  have "\<exists>v. cred_getattr c j = Inr v"
    using Cons.prems(3) [of j] by (simp add: cred_getattr_def split: option.splits)
  then obtain v where v: "cred_getattr c j = Inr v" by blast
  show ?case
  proof (cases "dget attrs j")
    case None
    with v show ?thesis by simp
  next
    case (Some x)
    with Cons.prems have "k \<in> set ks" by auto
    with Cons obtain i where "all_equal c attrs ks = Inl (KeyErr i)" by auto
    with v Some show ?thesis by simp
  qed
qed simp

theorem get_hash_heterogeneous:
  assumes "hd_creds (ao_table a) = (h, attrs) # rest"
    "k \<in> set (dkeys (cr_initial c))" "dget attrs k = None" "k \<noteq> ''user_domain_name''"
    "set (dkeys (cr_initial c)) \<subseteq> set (attributes_of (cr_version c))"
  shows "\<exists>j. get_hash cf a c = Inl (KeyErr j)"
proof -
  have "dget (hash_attributes cf (dkeys (cr_initial c)) attrs) k = None"
    using assms(3,4) by (simp add: hash_attributes_def)
  with all_equal_missing [OF assms(2) this] assms(5)
  obtain j where "all_equal c (hash_attributes cf (dkeys (cr_initial c)) attrs) (dkeys (cr_initial c))
      = Inl (KeyErr j)" by blast
  then show ?thesis
    by (auto simp: get_hash_def assms(1) Let_def)
qed

theorem get_hash_heterogeneous_witness:
  "\<exists>j. get_hash demo_conf
     \<lparr>ao_name = ''A'', ao_version = ''v2'', ao_default = False,
      ao_table = get_hash_dict demo_conf demo_digest (rev demo_accounts), ao_isolated = []\<rparr>
     \<lparr>cr_version = V2, cr_attrs = ac_attrs (demo_accounts ! 0), cr_initial = ac_attrs (demo_accounts ! 0)\<rparr>
   = Inl (KeyErr j)"
proof -
  have "hd_creds (get_hash_dict demo_conf demo_digest (rev demo_accounts)) =
      [(''u2'', ac_attrs (demo_accounts ! 1)), (''u1'', ac_attrs (demo_accounts ! 0))]"
    by (simp add: get_hash_dict_def demo_accounts_def creds_add demo_digest_def)
  then show ?thesis
    by (intro get_hash_heterogeneous [where k = "''tenant_name''" and h = "''u2''"
          and attrs = "ac_attrs (demo_accounts ! 1)" and rest = "[(''u1'', ac_attrs (demo_accounts ! 0))]"])
      (simp_all add: demo_accounts_def attributes_of_def v2_attributes_def)
qed

end
