(* ===== verification/Generators.thy ===== *)
theory Generators
  imports RestClient
begin

text \<open>
  The generators of test data from JSON schemas (\<open>automation/common/generator\<close>): the valid generator,
  the negative generators with the scenarios made of them, and the payload of a scenario.

  A schema is the decoded JSON document. The methods of a generator class that carry a \<open>types\<close>
  attribute are its generators; \<open>dir\<close> lists them in alphabetical order.
\<close>

section \<open>Results\<close>

text \<open>A number, and \<open>"x" * n\<close>.\<close>

fun py_num :: "py \<Rightarrow> pyexc + int" where
  "py_num (PInt i) = Inr i"
| "py_num (PBool b) = Inr (if b then 1 else 0)"
| "py_num _ = Inl TypeErr"

definition xs_of :: "int \<Rightarrow> py" where
  "xs_of n = PStr (replicate (nat n) CHR ''x'')"

definition field_or :: "(string, py) dict \<Rightarrow> string \<Rightarrow> py \<Rightarrow> py" where
  "field_or d k dflt = (case dget d k of None \<Rightarrow> dflt | Some v \<Rightarrow> v)"

definition check_for_expected_result :: "string \<Rightarrow> (string, py) dict \<Rightarrow> pyexc + py" where
  "check_for_expected_result name schema =
     (case dget schema ''results'' of
        None \<Rightarrow> Inr PNone
      | Some r \<Rightarrow> bindE (py_in name r) (\<lambda>b. if b then getitem r name else Inr PNone))"

text \<open>The decorator \<open>simple_generator\<close>: a result of \<open>None\<close> is no result.\<close>

definition simple_generator :: "string \<Rightarrow> (string, py) dict \<Rightarrow> pyexc + py \<Rightarrow> pyexc + (py \<times> py) option" where
  "simple_generator name schema result =
     bindE result (\<lambda>r.
       if is_none r then Inr None
       else bindE (check_for_expected_result name schema) (\<lambda>e. Inr (Some (r, e))))"

text \<open>The type that selects the generators; of a list of types only integer is supported.\<close>

definition selected_type :: "(string, py) dict \<Rightarrow> pyexc + string" where
  "selected_type schema =
     bindE (getitem (PDict schema) ''type'') (\<lambda>t.
       case t of
         PStr s \<Rightarrow> Inr s
       | PList ts \<Rightarrow> if PStr ''integer'' \<in> set ts then Inr ''integer''
                     else Inl (PlainExc ''non-integer list types not supported'')
       | _ \<Rightarrow> Inl TypeErr)"

section \<open>Valid data\<close>

definition valid_string :: "(string, py) dict \<Rightarrow> pyexc + py" where
  "valid_string schema = bindE (py_num (field_or schema ''minLength'' (PInt 1))) (\<lambda>n. Inr (xs_of n))"

definition valid_integer :: "(string, py) dict \<Rightarrow> pyexc + py" where
  "valid_integer schema =
     (case dget schema ''minimum'' of
        Some m \<Rightarrow>
          if \<not> dhas schema ''exclusiveMinimum'' then Inr m
          else bindE (py_num m) (\<lambda>i. Inr (PInt (i + 1)))
      | None \<Rightarrow>
          (case dget schema ''maximum'' of
             Some m \<Rightarrow>
               if \<not> dhas schema ''exclusiveMaximum'' then Inr m
               else bindE (py_num m) (\<lambda>i. Inr (PInt (i - 1)))
           | None \<Rightarrow> Inr (PInt 0)))"

text \<open>\<open>generate(schema)[0][1]\<close>: every type has one generator; without its result the list is empty.\<close>

definition first_result :: "pyexc + (py \<times> py) option \<Rightarrow> pyexc + py" where
  "first_result r = bindE r (\<lambda>x. case x of None \<Rightarrow> Inl IndexErr | Some (v, _) \<Rightarrow> Inr v)"

lemma size_dict_mem: "(k, v) \<in> set d \<Longrightarrow> size v < size (PDict d)"
  by (induction d) auto

lemma size_dget: "dget d k = Some v \<Longrightarrow> size v < size (PDict d)"
  by (rule size_dict_mem [OF dget_Some_mem])

lemma mapE_cong [fundef_cong]:
  "xs = ys \<Longrightarrow> (\<And>x. x \<in> set ys \<Longrightarrow> f x = g x) \<Longrightarrow> mapE f xs = mapE g ys"
  by (induction xs arbitrary: ys) (auto split: sum.splits)

function generate_valid :: "py \<Rightarrow> pyexc + py" where
  "generate_valid (PDict schema) =
     bindE (selected_type schema) (\<lambda>t.
       if t = ''string'' then
         first_result (simple_generator ''generate_valid_string'' schema (valid_string schema))
       else if t = ''integer'' then
         first_result (simple_generator ''generate_valid_integer'' schema (valid_integer schema))
       else if t = ''object'' then
         first_result (simple_generator ''generate_valid_object'' schema
           (case dget schema ''properties'' of
              None \<Rightarrow> Inl (KeyErr ''properties'')
            | Some (PDict ps) \<Rightarrow>
                bindE (mapE (\<lambda>(k, v). bindE (generate_valid v) (\<lambda>x. Inr (k, x))) ps) (\<lambda>kvs. Inr (PDict kvs))
            | Some _ \<Rightarrow> Inl AttrErr))
       else Inl TypeErr)"
| "generate_valid PNone = Inl TypeErr"
| "generate_valid (PBool b) = Inl TypeErr"
| "generate_valid (PInt i) = Inl TypeErr"
| "generate_valid (PStr s) = Inl TypeErr"
| "generate_valid (PList xs) = Inl TypeErr"
  by pat_completeness auto
termination
  by (relation "measure size")
    (auto dest!: size_dget size_dict_mem simp del: py.size dest: less_trans)

section \<open>Negative data\<close>

datatype generator =
  GenInt | GenString | GenNone | GenStrMinLength | GenStrMaxLength | GenIntMin | GenIntMax | GenObjAddAttr

definition generator_name :: "generator \<Rightarrow> string" where
  "generator_name g =
     (case g of GenInt \<Rightarrow> ''gen_int'' | GenString \<Rightarrow> ''gen_string'' | GenNone \<Rightarrow> ''gen_none''
      | GenStrMinLength \<Rightarrow> ''gen_str_min_length'' | GenStrMaxLength \<Rightarrow> ''gen_str_max_length''
      | GenIntMin \<Rightarrow> ''gen_int_min'' | GenIntMax \<Rightarrow> ''gen_int_max'' | GenObjAddAttr \<Rightarrow> ''gen_obj_add_attr'')"

definition needed_property :: "generator \<Rightarrow> string option" where
  "needed_property g =
     (case g of GenStrMaxLength \<Rightarrow> Some ''maxLength'' | GenIntMin \<Rightarrow> Some ''minimum''
      | GenIntMax \<Rightarrow> Some ''maximum'' | GenObjAddAttr \<Rightarrow> Some ''additionalProperties'' | _ \<Rightarrow> None)"

text \<open>\<open>types_dict\<close> of the negative generator.\<close>

definition generators_for :: "string \<Rightarrow> pyexc + generator list" where
  "generators_for t =
     (if t = ''integer'' then Inr [GenIntMax, GenIntMin, GenNone, GenString]
      else if t = ''object'' then Inr [GenObjAddAttr]
      else if t = ''string'' then Inr [GenInt, GenNone, GenStrMaxLength, GenStrMinLength]
      else Inl (KeyErr t))"

definition gen_str_min_length :: "(string, py) dict \<Rightarrow> pyexc + py" where
  "gen_str_min_length schema =
     bindE (py_num (field_or schema ''minLength'' (PInt 0))) (\<lambda>n.
       Inr (if n > 0 then xs_of (n - 1) else PNone))"

definition gen_str_max_length :: "(string, py) dict \<Rightarrow> pyexc + py" where
  "gen_str_max_length schema =
     bindE (py_num (field_or schema ''maxLength'' (PInt (- 1)))) (\<lambda>n. Inr (xs_of (n + 1)))"

definition gen_int_bound :: "string \<Rightarrow> string \<Rightarrow> int \<Rightarrow> (string, py) dict \<Rightarrow> pyexc + py" where
  "gen_int_bound bound exclusive step schema =
     bindE (getitem (PDict schema) bound) (\<lambda>m.
       if \<not> dhas schema exclusive then bindE (py_num m) (\<lambda>i. Inr (PInt (i + step))) else Inr m)"

definition gen_int_min :: "(string, py) dict \<Rightarrow> pyexc + py" where
  "gen_int_min = gen_int_bound ''minimum'' ''exclusiveMinimum'' (- 1)"

definition gen_int_max :: "(string, py) dict \<Rightarrow> pyexc + py" where
  "gen_int_max = gen_int_bound ''maximum'' ''exclusiveMaximum'' 1"

definition extra_attribute :: string where
  "extra_attribute = ''$$$$$$$$$$''"

definition gen_obj_add_attr :: "(string, py) dict \<Rightarrow> pyexc + py" where
  "gen_obj_add_attr schema =
     bindE (generate_valid (PDict schema)) (\<lambda>v.
       case v of PDict d \<Rightarrow> Inr (PDict (dset d extra_attribute (PStr ''xxx''))) | _ \<Rightarrow> Inl TypeErr)"

text \<open>A call of a generator: \<open>None\<close>, or the snippet and the expected result. \<open>gen_none\<close> is not decorated.\<close>

definition run_generator :: "generator \<Rightarrow> (string, py) dict \<Rightarrow> pyexc + (py \<times> py) option" where
  "run_generator g schema =
     (let simple = simple_generator (generator_name g) schema in
      case g of
        GenInt \<Rightarrow> simple (Inr (PInt 4))
      | GenString \<Rightarrow> simple (Inr (PStr ''XXXXXX''))
      | GenNone \<Rightarrow> bindE (check_for_expected_result ''gen_none'' schema) (\<lambda>e. Inr (Some (PNone, e)))
      | GenStrMinLength \<Rightarrow> simple (gen_str_min_length schema)
      | GenStrMaxLength \<Rightarrow> simple (gen_str_max_length schema)
      | GenIntMin \<Rightarrow> simple (gen_int_min schema)
      | GenIntMax \<Rightarrow> simple (gen_int_max schema)
      | GenObjAddAttr \<Rightarrow> simple (gen_obj_add_attr schema))"

section \<open>Scenarios\<close>

record scenario =
  sc_name :: string
  sc_generator :: generator
  sc_schema :: "(string, py) dict"
  sc_path :: "string list option"

definition wanted :: "(string, py) dict \<Rightarrow> generator \<Rightarrow> pyexc + bool" where
  "wanted schema g =
     (if (case needed_property g of
            None \<Rightarrow> False
          | Some p \<Rightarrow> (case dget schema p of None \<Rightarrow> True | Some v \<Rightarrow> v = PNone \<or> v = PBool False))
      then Inr False
      else (case dget schema ''exclude_tests'' of
              None \<Rightarrow> Inr True
            | Some ex \<Rightarrow> bindE (py_in (generator_name g) ex) (\<lambda>b. Inr (\<not> b))))"

definition scenario_of :: "(string, py) dict \<Rightarrow> string list option \<Rightarrow> generator \<Rightarrow> scenario" where
  "scenario_of schema path g =
     \<lparr>sc_name = (case path of None \<Rightarrow> generator_name g
                 | Some p \<Rightarrow> str_join ''_'' p @ ''_'' @ generator_name g),
      sc_generator = g, sc_schema = schema, sc_path = path\<rparr>"

definition own_scenarios :: "(string, py) dict \<Rightarrow> string list option \<Rightarrow> string \<Rightarrow> pyexc + scenario list" where
  "own_scenarios schema path t =
     bindE (generators_for t) (\<lambda>gs.
     bindE (filterE (wanted schema) gs) (\<lambda>ws. Inr (map (scenario_of schema path) ws)))"

definition extend_path :: "string list option \<Rightarrow> string \<Rightarrow> string list" where
  "extend_path path attribute = (case path of None \<Rightarrow> [attribute] | Some p \<Rightarrow> p @ [attribute])"

function generate_scenarios :: "py \<Rightarrow> string list option \<Rightarrow> pyexc + scenario list" where
  "generate_scenarios (PDict schema) path =
     bindE (getitem (PDict schema) ''type'') (\<lambda>ty.
     bindE (if ty = PStr ''object'' then
              (case dget schema ''properties'' of
                 None \<Rightarrow> Inl (KeyErr ''properties'')
               | Some (PDict ps) \<Rightarrow>
                   bindE (mapE (\<lambda>(k, v). generate_scenarios v (Some (extend_path path k))) ps)
                     (\<lambda>ss. Inr (concat ss))
               | Some _ \<Rightarrow> Inl AttrErr)
            else Inr []) (\<lambda>inner.
     bindE (selected_type schema) (\<lambda>t.
     bindE (own_scenarios schema path t) (\<lambda>own. Inr (inner @ own)))))"
| "generate_scenarios PNone path = Inl TypeErr"
| "generate_scenarios (PBool b) path = Inl TypeErr"
| "generate_scenarios (PInt i) path = Inl TypeErr"
| "generate_scenarios (PStr s) path = Inl TypeErr"
| "generate_scenarios (PList xs) path = Inl TypeErr"
  by pat_completeness auto
termination
  by (relation "measure (size \<circ> fst)")
    (auto dest!: size_dget size_dict_mem simp del: py.size dest: less_trans)

section \<open>Payloads\<close>

text \<open>\<open>reduce(dict.get, path, v)[element] = x\<close>: the nested dictionary is changed in place.\<close>

fun put_at :: "string list \<Rightarrow> string \<Rightarrow> py \<Rightarrow> py \<Rightarrow> pyexc + py" where
  "put_at [] element x (PDict d) = Inr (PDict (dset d element x))"
| "put_at (k # ks) element x (PDict d) =
     (case dget d k of
        None \<Rightarrow> Inl TypeErr
      | Some v \<Rightarrow> bindE (put_at ks element x v) (\<lambda>v'. Inr (PDict (dset d k v'))))"
| "put_at _ element x _ = Inl TypeErr"

text \<open>
  \<open>generate_payload\<close>: the expected result and the changed payload. A scenario of the whole document
  has no path, and popping from \<open>None\<close> raises AttributeError.
\<close>

definition generate_payload :: "scenario \<Rightarrow> py \<Rightarrow> pyexc + (py \<times> py)" where
  "generate_payload sc payload =
     bindE (run_generator (sc_generator sc) (sc_schema sc)) (\<lambda>ret.
       case ret of
         None \<Rightarrow> Inr (PNone, payload)
       | Some (invalid_snippet, expected_result) \<Rightarrow>
           (case sc_path sc of
              None \<Rightarrow> Inl AttrErr
            | Some [] \<Rightarrow> Inl IndexErr
            | Some p \<Rightarrow>
                bindE (put_at (butlast p) (last p) invalid_snippet payload)
                  (\<lambda>payload'. Inr (expected_result, payload'))))"

end
