(* ===== verification/GeneratorProps.thy ===== *)
theory GeneratorProps
  imports Generators "HOL-Library.Sublist"
begin

text \<open>
  What the generators of \<open>automation/common/generator\<close> should produce and do: an abstract notion of a
  value that conforms to a schema (the keywords of JSON Schema draft 4 that the generators read), the
  theorem that valid data conforms, that negative data does not, and where that fails.
\<close>

section \<open>Conformance\<close>

fun has_type :: "string \<Rightarrow> py \<Rightarrow> bool" where
  "has_type t (PStr s) = (t = ''string'')"
| "has_type t (PInt i) = (t = ''integer'' \<or> t = ''number'')"
| "has_type t (PDict d) = (t = ''object'')"
| "has_type t (PBool b) = (t = ''boolean'')"
| "has_type t PNone = (t = ''null'')"
| "has_type t (PList xs) = (t = ''array'')"

fun type_allows :: "py \<Rightarrow> py \<Rightarrow> bool" where
  "type_allows (PStr t) v = has_type t v"
| "type_allows (PList ts) v = list_ex (\<lambda>t. case t of PStr s \<Rightarrow> has_type s v | _ \<Rightarrow> False) ts"
| "type_allows _ v = True"

definition above :: "(string, py) dict \<Rightarrow> int \<Rightarrow> bool" where
  "above d i =
     (case dget d ''minimum'' of
        Some (PInt m) \<Rightarrow> if dget d ''exclusiveMinimum'' = Some (PBool True) then m < i else m \<le> i
      | _ \<Rightarrow> True)"

definition below :: "(string, py) dict \<Rightarrow> int \<Rightarrow> bool" where
  "below d i =
     (case dget d ''maximum'' of
        Some (PInt m) \<Rightarrow> if dget d ''exclusiveMaximum'' = Some (PBool True) then i < m else i \<le> m
      | _ \<Rightarrow> True)"

definition length_ok :: "(string, py) dict \<Rightarrow> int \<Rightarrow> bool" where
  "length_ok d n =
     ((case dget d ''minLength'' of Some (PInt m) \<Rightarrow> m \<le> n | _ \<Rightarrow> True)
      \<and> (case dget d ''maxLength'' of Some (PInt m) \<Rightarrow> n \<le> m | _ \<Rightarrow> True))"

definition property_names :: "(string, py) dict \<Rightarrow> string list" where
  "property_names d = (case dget d ''properties'' of Some (PDict ps) \<Rightarrow> dkeys ps | _ \<Rightarrow> [])"

definition keys_ok :: "(string, py) dict \<Rightarrow> string list \<Rightarrow> bool" where
  "keys_ok d ks =
     ((case dget d ''required'' of
         Some (PList rs) \<Rightarrow> list_all (\<lambda>r. case r of PStr s \<Rightarrow> s \<in> set ks | _ \<Rightarrow> True) rs
       | _ \<Rightarrow> True)
      \<and> (dget d ''additionalProperties'' = Some (PBool False) \<longrightarrow> set ks \<subseteq> set (property_names d)))"

function conforms :: "py \<Rightarrow> py \<Rightarrow> bool" where
  "conforms (PDict d) v =
     ((case dget d ''type'' of None \<Rightarrow> True | Some t \<Rightarrow> type_allows t v)
      \<and> (case v of
           PStr s \<Rightarrow> length_ok d (int (length s))
         | PInt i \<Rightarrow> above d i \<and> below d i
         | PDict kvs \<Rightarrow>
             keys_ok d (dkeys kvs)
             \<and> (case dget d ''properties'' of
                  Some (PDict ps) \<Rightarrow>
                    list_all (\<lambda>(k, s). case dget kvs k of None \<Rightarrow> True | Some x \<Rightarrow> conforms s x) ps
                | _ \<Rightarrow> True)
         | _ \<Rightarrow> True))"
| "conforms PNone v = True"
| "conforms (PBool b) v = True"
| "conforms (PInt i) v = True"
| "conforms (PStr s) v = True"
| "conforms (PList xs) v = True"
  by pat_completeness auto
termination
  by (relation "measure (size \<circ> fst)")
    (auto dest!: size_dget size_dict_mem simp del: py.size dest: less_trans)

text \<open>The bounds that the valid generator keeps.\<close>

definition results_ok :: "(string, py) dict \<Rightarrow> bool" where
  "results_ok d = (case dget d ''results'' of None \<Rightarrow> True | Some (PDict r) \<Rightarrow> True | _ \<Rightarrow> False)"

definition string_bounds :: "(string, py) dict \<Rightarrow> bool" where
  "string_bounds d =
     (case dget d ''minLength'' of
        None \<Rightarrow> length_ok d 1
      | Some (PInt n) \<Rightarrow> 0 \<le> n \<and> length_ok d n
      | _ \<Rightarrow> False)"

definition integer_bounds :: "(string, py) dict \<Rightarrow> bool" where
  "integer_bounds d =
     (case dget d ''minimum'' of
        Some (PInt m) \<Rightarrow> below d (if dhas d ''exclusiveMinimum'' then m + 1 else m)
      | None \<Rightarrow> (case dget d ''maximum'' of None \<Rightarrow> True | Some (PInt m) \<Rightarrow> True | _ \<Rightarrow> False)
      | _ \<Rightarrow> False)"

inductive sane :: "py \<Rightarrow> bool" where
  sane_string: "dget d ''type'' = Some (PStr ''string'') \<Longrightarrow> results_ok d \<Longrightarrow> string_bounds d \<Longrightarrow> sane (PDict d)"
| sane_integer: "dget d ''type'' = Some (PStr ''integer'') \<or>
      (\<exists>ts. dget d ''type'' = Some (PList ts) \<and> PStr ''integer'' \<in> set ts) \<Longrightarrow>
    results_ok d \<Longrightarrow> integer_bounds d \<Longrightarrow> sane (PDict d)"
| sane_object: "dget d ''type'' = Some (PStr ''object'') \<Longrightarrow> results_ok d \<Longrightarrow>
    dget d ''properties'' = Some (PDict ps) \<Longrightarrow> distinct (dkeys ps) \<Longrightarrow> keys_ok d (dkeys ps) \<Longrightarrow>
    (\<And>k s. (k, s) \<in> set ps \<Longrightarrow> sane s) \<Longrightarrow> sane (PDict d)"

lemma expected_ok: "results_ok d \<Longrightarrow> \<exists>e. check_for_expected_result n d = Inr e"
  by (auto simp: check_for_expected_result_def results_ok_def dhas_def split: option.splits py.splits)

lemma first_simple:
  "results_ok d \<Longrightarrow> v \<noteq> PNone \<Longrightarrow> first_result (simple_generator n d (Inr v)) = Inr v"
  using expected_ok [of d n] by (auto simp: first_result_def simple_generator_def is_none_def)

lemma mapE_ok:
  "(\<And>x. x \<in> set xs \<Longrightarrow> \<exists>y. f x = Inr y) \<Longrightarrow> \<exists>ys. mapE f xs = Inr ys"
proof (induction xs)
  case (Cons a xs)
  then obtain y ys where "f a = Inr y" "mapE f xs = Inr ys" by fastforce
  then show ?case by simp
qed simp

lemma mapE_all2: "mapE f xs = Inr ys \<Longrightarrow> list_all2 (\<lambda>x y. f x = Inr y) xs ys"
  by (induction xs arbitrary: ys) (auto split: sum.splits)

section \<open>Valid data conforms\<close>

lemma valid_string_conforms:
  assumes "dget d ''type'' = Some (PStr ''string'')" "string_bounds d"
  shows "\<exists>v. valid_string d = Inr v \<and> v \<noteq> PNone \<and> conforms (PDict d) v"
  using assms
  by (auto simp: valid_string_def field_or_def string_bounds_def xs_of_def split: option.splits py.splits)

lemma valid_integer_conforms:
  assumes "dget d ''type'' = Some (PStr ''integer'') \<or>
      (\<exists>ts. dget d ''type'' = Some (PList ts) \<and> PStr ''integer'' \<in> set ts)" "integer_bounds d"
  shows "\<exists>v. valid_integer d = Inr v \<and> v \<noteq> PNone \<and> conforms (PDict d) v"
proof -
  have ty: "(case dget d ''type'' of None \<Rightarrow> True | Some t \<Rightarrow> type_allows t (PInt i))" for i
    using assms(1) by (auto simp: list_ex_iff intro!: bexI [of _ "PStr ''integer''"])
  have "\<exists>i. valid_integer d = Inr (PInt i) \<and> above d i \<and> below d i"
  proof (cases "dget d ''minimum''")
    case None
    then have "above d i" for i by (simp add: above_def)
    with None assms(2) show ?thesis
      by (cases "dhas d ''exclusiveMaximum''")
        (auto simp: valid_integer_def integer_bounds_def below_def dhas_def split: option.splits py.splits)
  next
    case (Some m)
    with assms(2) obtain i where m: "m = PInt i"
        "below d (if dhas d ''exclusiveMinimum'' then i + 1 else i)"
      by (auto simp: integer_bounds_def split: py.splits)
    with Some show ?thesis
      by (cases "dhas d ''exclusiveMinimum''") (simp_all add: valid_integer_def above_def dhas_def)
  qed
  with ty show ?thesis by auto
qed

lemma object_members:
  assumes "mapE (\<lambda>(k, v). bindE (generate_valid v) (\<lambda>x. Inr (k, x))) ps = Inr kvs"
  shows "dkeys kvs = dkeys ps \<and> (\<forall>k v. dget ps k = Some v \<longrightarrow> (\<exists>x. dget kvs k = Some x \<and> generate_valid v = Inr x))"
  using mapE_all2 [OF assms]
  by (induction rule: list_all2_induct) (auto simp del: generate_valid.simps)

lemma sane_data_conforms:
  assumes "sane s"
  shows "\<exists>v. generate_valid s = Inr v \<and> v \<noteq> PNone \<and> conforms s v"
  using assms
proof (induction rule: sane.induct)
  case (sane_string d)
  from valid_string_conforms [OF sane_string(1,3)] sane_string(1,2) show ?case
    by (auto simp: selected_type_def first_simple simp del: conforms.simps)
next
  case (sane_integer d)
  have "selected_type d = Inr ''integer''"
    using sane_integer(1) by (auto simp: selected_type_def)
  with valid_integer_conforms [OF sane_integer(1,3)] sane_integer(2) show ?case
    by (auto simp: first_simple simp del: conforms.simps)
next
  case (sane_object d ps)
  let ?f = "\<lambda>(k, v). bindE (generate_valid v) (\<lambda>x. Inr (k :: string, x))"
  have "\<exists>y. ?f kv = Inr y" if "kv \<in> set ps" for kv
    using sane_object.IH [of "fst kv" "snd kv"] that by (cases kv) (auto simp del: conforms.simps)
  then obtain kvs where kvs: "mapE ?f ps = Inr kvs"
    using mapE_ok [of ps ?f] by blast
  note members = object_members [OF kvs]
  have "generate_valid (PDict d) = Inr (PDict kvs)"
    using sane_object(1,2,3) kvs by (simp add: selected_type_def first_simple)
  moreover have "list_all (\<lambda>(k, s). case dget kvs k of None \<Rightarrow> True | Some x \<Rightarrow> conforms s x) ps"
  proof (clarsimp simp: list_all_iff simp del: conforms.simps split: option.splits)
    fix k s x
    assume mem: "(k, s) \<in> set ps" and x: "dget kvs k = Some x"
    with sane_object(4) have "dget ps k = Some s" by (intro mem_dget)
    with members x have "generate_valid s = Inr x" by fastforce
    with sane_object.IH [OF mem] show "conforms s x" by auto
  qed
  ultimately show ?case
    using sane_object(1,3,5) members
    by (intro exI [of _ "PDict kvs"]) (simp del: generate_valid.simps)
qed

text \<open>
  The schemas that the generator is written for. Their keywords are those that \<open>conforms\<close> interprets, annotations,
  and the two that the generators add to the language: on these schemas \<open>conforms\<close> is validity by draft 4 of JSON
  Schema. Schemas with \<open>pattern\<close>, \<open>format\<close>, \<open>multipleOf\<close>, \<open>enum\<close> and the like, which the generator does not read, are
  not among them.
\<close>

definition generator_keywords :: "string list" where
  "generator_keywords =
     [''type'', ''minLength'', ''maxLength'', ''minimum'', ''maximum'', ''exclusiveMinimum'', ''exclusiveMaximum'',
      ''properties'', ''required'', ''additionalProperties'', ''title'', ''description'', ''default'',
      ''results'', ''exclude_tests'']"

definition well_typed :: "(string, py) dict \<Rightarrow> bool" where
  "well_typed d =
     (list_all (\<lambda>k. k \<in> set generator_keywords) (dkeys d)
      \<and> list_all (\<lambda>k. case dget d k of None \<Rightarrow> True | Some (PInt i) \<Rightarrow> 0 \<le> i | _ \<Rightarrow> False) [''minLength'', ''maxLength'']
      \<and> list_all (\<lambda>k. case dget d k of None \<Rightarrow> True | Some (PInt i) \<Rightarrow> True | _ \<Rightarrow> False) [''minimum'', ''maximum'']
      \<and> list_all (\<lambda>k. case dget d k of None \<Rightarrow> True | Some (PBool b) \<Rightarrow> True | _ \<Rightarrow> False)
          [''exclusiveMinimum'', ''exclusiveMaximum'', ''additionalProperties'']
      \<and> (case dget d ''required'' of
           None \<Rightarrow> True | Some (PList rs) \<Rightarrow> list_all (\<lambda>r. \<exists>s. r = PStr s) rs | _ \<Rightarrow> False)
      \<and> results_ok d)"

text \<open>
  A text, an integer or an object with declared properties, nested to any depth, for which there is a valid value at
  all. Left out are the two cases in which the generator misses the valid values: a \<open>maxLength\<close> of 0 without a
  \<open>minLength\<close> (see \<open>empty_text_missed\<close>), and an \<open>exclusiveMinimum\<close> that is there but false (see
  \<open>least_integer_missed\<close>); the generator also never makes a property that is required but not declared.
\<close>

inductive supported :: "py \<Rightarrow> bool" where
  supported_string: "well_typed d \<Longrightarrow> dget d ''type'' = Some (PStr ''string'') \<Longrightarrow> \<exists>v. conforms (PDict d) v \<Longrightarrow>
    dget d ''minLength'' = None \<longrightarrow> dget d ''maxLength'' \<noteq> Some (PInt 0) \<Longrightarrow> supported (PDict d)"
| supported_integer: "well_typed d \<Longrightarrow> dget d ''type'' = Some (PStr ''integer'') \<or>
      (\<exists>ts. dget d ''type'' = Some (PList ts) \<and> PStr ''integer'' \<in> set ts) \<Longrightarrow>
    \<exists>i. conforms (PDict d) (PInt i) \<Longrightarrow> dget d ''exclusiveMinimum'' \<noteq> Some (PBool False) \<Longrightarrow> supported (PDict d)"
| supported_object: "well_typed d \<Longrightarrow> dget d ''type'' = Some (PStr ''object'') \<Longrightarrow>
    dget d ''properties'' = Some (PDict ps) \<Longrightarrow> distinct (dkeys ps) \<Longrightarrow>
    \<forall>rs k. dget d ''required'' = Some (PList rs) \<and> PStr k \<in> set rs \<longrightarrow> k \<in> set (dkeys ps) \<Longrightarrow>
    (\<And>k s. (k, s) \<in> set ps \<Longrightarrow> supported s) \<Longrightarrow> supported (PDict d)"

lemma string_bounds_of:
  assumes "length_ok d n" "case dget d ''minLength'' of None \<Rightarrow> True | Some (PInt i) \<Rightarrow> 0 \<le> i | _ \<Rightarrow> False"
    "case dget d ''maxLength'' of None \<Rightarrow> True | Some (PInt i) \<Rightarrow> 0 \<le> i | _ \<Rightarrow> False"
    "dget d ''minLength'' = None \<longrightarrow> dget d ''maxLength'' \<noteq> Some (PInt 0)"
  shows "string_bounds d"
proof (cases "dget d ''minLength''")
  case None
  then show ?thesis
    using assms(3,4) by (cases "dget d ''maxLength''") (simp_all add: string_bounds_def length_ok_def split: py.splits)
next
  case (Some m)
  then obtain i where "m = PInt i" "0 \<le> i" using assms(2) by (cases m) simp_all
  then show ?thesis
    using Some assms(1,3) by (cases "dget d ''maxLength''") (simp_all add: string_bounds_def length_ok_def split: py.splits)
qed

lemma integer_bounds_of:
  assumes "above d i" "below d i"
    "case dget d ''minimum'' of None \<Rightarrow> True | Some (PInt i) \<Rightarrow> True | _ \<Rightarrow> False"
    "case dget d ''maximum'' of None \<Rightarrow> True | Some (PInt i) \<Rightarrow> True | _ \<Rightarrow> False"
    "case dget d ''exclusiveMinimum'' of None \<Rightarrow> True | Some (PBool b) \<Rightarrow> True | _ \<Rightarrow> False"
    "dget d ''exclusiveMinimum'' \<noteq> Some (PBool False)"
  shows "integer_bounds d"
proof (cases "dget d ''minimum''")
  case None
  then show ?thesis using assms(4) by (simp add: integer_bounds_def)
next
  case (Some m)
  then obtain j where m: "m = PInt j" using assms(3) by (cases m) simp_all
  have "dhas d ''exclusiveMinimum'' \<longleftrightarrow> dget d ''exclusiveMinimum'' = Some (PBool True)"
    using assms(5,6) by (cases "dget d ''exclusiveMinimum''") (auto simp: dhas_def split: py.splits)
  then have "(if dhas d ''exclusiveMinimum'' then j + 1 else j) \<le> i"
    using assms(1) Some m by (simp add: above_def split: if_splits)
  then show ?thesis
    using assms(2) Some m
    by (cases "dget d ''maximum''") (auto simp: integer_bounds_def below_def split: py.splits if_splits)
qed

lemma supported_sane: "supported s \<Longrightarrow> sane s"
proof (induction rule: supported.induct)
  case (supported_string d)
  obtain v where "conforms (PDict d) v" using supported_string(3) by blast
  then obtain s :: string where "length_ok d (int (length s))" using supported_string(2) by (cases v) auto
  moreover have "case dget d ''minLength'' of None \<Rightarrow> True | Some (PInt i) \<Rightarrow> 0 \<le> i | _ \<Rightarrow> False"
    "case dget d ''maxLength'' of None \<Rightarrow> True | Some (PInt i) \<Rightarrow> 0 \<le> i | _ \<Rightarrow> False"
    using supported_string(1) by (simp_all add: well_typed_def)
  ultimately have "string_bounds d"
    using supported_string(4) by (rule string_bounds_of)
  then show ?case using supported_string by (intro sane_string) (simp_all add: well_typed_def)
next
  case (supported_integer d)
  obtain i where "conforms (PDict d) (PInt i)" using supported_integer(3) by blast
  then have "above d i" "below d i" by simp_all
  moreover have "case dget d ''minimum'' of None \<Rightarrow> True | Some (PInt i) \<Rightarrow> True | _ \<Rightarrow> False"
    "case dget d ''maximum'' of None \<Rightarrow> True | Some (PInt i) \<Rightarrow> True | _ \<Rightarrow> False"
    "case dget d ''exclusiveMinimum'' of None \<Rightarrow> True | Some (PBool b) \<Rightarrow> True | _ \<Rightarrow> False"
    using supported_integer(1) by (simp_all add: well_typed_def)
  ultimately have "integer_bounds d"
    using supported_integer(4) by (rule integer_bounds_of)
  then show ?case using supported_integer by (intro sane_integer) (simp_all add: well_typed_def)
next
  case (supported_object d ps)
  then have "keys_ok d (dkeys ps)"
    unfolding keys_ok_def by (auto simp: property_names_def list_all_iff split: option.splits py.splits)
  with supported_object show ?case by (intro sane_object) (simp_all add: well_typed_def)
qed

text \<open>
  C9 (valid_data_conforms): for a schema of texts, integers and objects in the keywords that the generator reads,
  nested to any depth and satisfiable, the valid generator returns a value, and the value is valid for the schema. The
  two kinds of satisfiable bounds that it misses are excepted, and so are required properties that are not declared.
\<close>

theorem valid_data_conforms:
  assumes "supported s"
  shows "\<exists>v. generate_valid s = Inr v \<and> v \<noteq> PNone \<and> conforms s v"
  by (rule sane_data_conforms [OF supported_sane [OF assms]])

text \<open>(empty_text_missed): only the empty text is valid, and the generator returns another.\<close>

lemma empty_text_missed:
  "conforms (PDict [(''type'', PStr ''string''), (''maxLength'', PInt 0)]) (PStr [])
   \<and> generate_valid (PDict [(''type'', PStr ''string''), (''maxLength'', PInt 0)]) = Inr (PStr ''x'')
   \<and> \<not> conforms (PDict [(''type'', PStr ''string''), (''maxLength'', PInt 0)]) (PStr ''x'')"
  by (simp add: length_ok_def selected_type_def first_result_def simple_generator_def valid_string_def field_or_def
      xs_of_def is_none_def check_for_expected_result_def)

text \<open>(least_integer_missed): 3 is the one valid value, and the generator returns 4.\<close>

lemma least_integer_missed:
  assumes "d = [(''type'', PStr ''integer''), (''minimum'', PInt 3), (''exclusiveMinimum'', PBool False), (''maximum'', PInt 3)]"
  shows "conforms (PDict d) (PInt 3) \<and> generate_valid (PDict d) = Inr (PInt 4) \<and> \<not> conforms (PDict d) (PInt 4)"
  by (simp add: assms above_def below_def selected_type_def first_result_def simple_generator_def valid_integer_def
      dhas_def is_none_def check_for_expected_result_def)

definition demo_schema :: py where
  "demo_schema = PDict
     [(''type'', PStr ''object''), (''additionalProperties'', PBool True),
      (''properties'', PDict
         [(''name'', PDict [(''type'', PStr ''string''), (''minLength'', PInt 2), (''maxLength'', PInt 5)]),
          (''size'', PDict [(''type'', PStr ''integer''), (''minimum'', PInt 1)])])]"

lemma demo_schema_sane: "sane demo_schema"
  unfolding demo_schema_def
proof (rule sane_object [where ps = "[(''name'', PDict [(''type'', PStr ''string''), (''minLength'', PInt 2),
      (''maxLength'', PInt 5)]), (''size'', PDict [(''type'', PStr ''integer''), (''minimum'', PInt 1)])]"])
  fix k s
  assume "(k, s) \<in> set [(''name'', PDict [(''type'', PStr ''string''), (''minLength'', PInt 2),
      (''maxLength'', PInt 5)]), (''size'', PDict [(''type'', PStr ''integer''), (''minimum'', PInt 1)])]"
  then have "s = PDict [(''type'', PStr ''string''), (''minLength'', PInt 2), (''maxLength'', PInt 5)]
     \<or> s = PDict [(''type'', PStr ''integer''), (''minimum'', PInt 1)]" by auto
  then show "sane s"
    by (elim disjE)
      (simp_all add: sane_string sane_integer results_ok_def string_bounds_def length_ok_def
        integer_bounds_def below_def)
qed (simp_all add: results_ok_def keys_ok_def)

lemma demo_schema_supported: "supported demo_schema"
  unfolding demo_schema_def
proof (rule supported_object [where ps = "[(''name'', PDict [(''type'', PStr ''string''), (''minLength'', PInt 2),
      (''maxLength'', PInt 5)]), (''size'', PDict [(''type'', PStr ''integer''), (''minimum'', PInt 1)])]"])
  have name: "supported (PDict [(''type'', PStr ''string''), (''minLength'', PInt 2), (''maxLength'', PInt 5)])"
    by (rule supported_string)
      (auto simp: well_typed_def generator_keywords_def results_ok_def length_ok_def intro!: exI [of _ "PStr ''abc''"])
  have amount: "supported (PDict [(''type'', PStr ''integer''), (''minimum'', PInt 1)])"
    by (rule supported_integer)
      (auto simp: well_typed_def generator_keywords_def results_ok_def above_def below_def intro!: exI [of _ 1])
  fix k s
  assume "(k, s) \<in> set [(''name'', PDict [(''type'', PStr ''string''), (''minLength'', PInt 2),
      (''maxLength'', PInt 5)]), (''size'', PDict [(''type'', PStr ''integer''), (''minimum'', PInt 1)])]"
  then show "supported s" using name amount by auto
qed (simp_all add: well_typed_def generator_keywords_def results_ok_def)

theorem valid_data_conforms_witness:
  "\<exists>v. generate_valid demo_schema = Inr v \<and> conforms demo_schema v"
  using valid_data_conforms [OF demo_schema_supported] by blast

section \<open>Negative data does not\<close>

lemma mapE_mem: "mapE f xs = Inr ys \<Longrightarrow> y \<in> set ys \<Longrightarrow> \<exists>x \<in> set xs. f x = Inr y"
  by (induction xs arbitrary: ys) (auto split: sum.splits)

lemma filterE_mem: "filterE p xs = Inr ys \<Longrightarrow> y \<in> set ys \<Longrightarrow> y \<in> set xs \<and> p y = Inr True"
  by (induction xs arbitrary: ys) (auto split: sum.splits if_splits)

text \<open>Every scenario is made for a schema of its generator's type that the generator is wanted for.\<close>

definition scenario_fits :: "scenario \<Rightarrow> bool" where
  "scenario_fits sc =
     (\<exists>t gs. selected_type (sc_schema sc) = Inr t \<and> generators_for t = Inr gs
        \<and> sc_generator sc \<in> set gs \<and> wanted (sc_schema sc) (sc_generator sc) = Inr True)"

lemma own_scenarios_fit:
  assumes "own_scenarios d path t = Inr ss" "selected_type d = Inr t" "sc \<in> set ss"
  shows "scenario_fits sc"
proof -
  obtain gs ws where gs: "generators_for t = Inr gs" "filterE (wanted d) gs = Inr ws"
    and "ss = map (scenario_of d path) ws"
    using assms(1) by (auto simp: own_scenarios_def)
  with assms(3) obtain g where "g \<in> set ws" "sc = scenario_of d path g" by auto
  with filterE_mem [OF gs(2)] gs(1) assms(2) show ?thesis
    by (auto simp: scenario_fits_def scenario_of_def)
qed

lemma scenarios_fit:
  "generate_scenarios s path = Inr ss \<Longrightarrow> sc \<in> set ss \<Longrightarrow> scenario_fits sc"
proof (induction s path arbitrary: ss rule: generate_scenarios.induct)
  case (1 d path)
  obtain ty inner t own where ty: "getitem (PDict d) ''type'' = Inr ty"
    and inner: "(if ty = PStr ''object'' then
              (case dget d ''properties'' of
                 None \<Rightarrow> Inl (KeyErr ''properties'')
               | Some (PDict ps) \<Rightarrow>
                   bindE (mapE (\<lambda>(k, v). generate_scenarios v (Some (extend_path path k))) ps)
                     (\<lambda>ss. Inr (concat ss))
               | Some _ \<Rightarrow> Inl AttrErr)
            else Inr []) = Inr inner"
    and t: "selected_type d = Inr t" "own_scenarios d path t = Inr own" and ss: "ss = inner @ own"
    using 1(2) by (auto simp del: getitem.simps)
  show ?case
  proof (cases "sc \<in> set own")
    case True
    then show ?thesis using own_scenarios_fit t by blast
  next
    case False
    with 1(3) ss have sc: "sc \<in> set inner" by auto
    then obtain ps where obj: "ty = PStr ''object''" "dget d ''properties'' = Some (PDict ps)"
      using inner by (auto split: if_splits option.splits py.splits)
    then obtain sss where maps: "mapE (\<lambda>(k, v). generate_scenarios v (Some (extend_path path k))) ps = Inr sss"
        "inner = concat sss"
      using inner by auto
    with sc obtain x where "x \<in> set sss" "sc \<in> set x" by auto
    from mapE_mem [OF maps(1) this(1)] obtain k v where kv: "(k, v) \<in> set ps"
        "generate_scenarios v (Some (extend_path path k)) = Inr x" by auto
    from 1(1) [OF ty obj _ kv(1) refl kv(2) \<open>sc \<in> set x\<close>] show ?thesis by simp
  qed
qed simp_all

text \<open>The keywords the generators compute with are integers, and the bounds marked exclusive are.\<close>

definition plain_keywords :: "(string, py) dict \<Rightarrow> bool" where
  "plain_keywords d =
     ((\<exists>s. dget d ''type'' = Some (PStr s))
      \<and> list_all (\<lambda>k. case dget d k of None \<Rightarrow> True | Some (PInt i) \<Rightarrow> True | _ \<Rightarrow> False)
          [''minLength'', ''maxLength'', ''minimum'', ''maximum'']
      \<and> list_all (\<lambda>k. case dget d k of None \<Rightarrow> True | Some v \<Rightarrow> v = PBool True)
          [''exclusiveMinimum'', ''exclusiveMaximum''])"

lemma simple_generator_Some:
  "simple_generator n d r = Inr (Some (x, e)) \<Longrightarrow> r = Inr x \<and> x \<noteq> PNone"
  by (auto simp: simple_generator_def is_none_def split: if_splits)

lemma not_conforms_type:
  "dget d ''type'' = Some (PStr s) \<Longrightarrow> \<not> has_type s x \<Longrightarrow> \<not> conforms (PDict d) x"
  by simp

lemma not_conforms_length:
  "\<not> length_ok d (int (length s)) \<Longrightarrow> \<not> conforms (PDict d) (PStr s)"
  by simp

lemma not_conforms_bound:
  "\<not> (above d i \<and> below d i) \<Longrightarrow> \<not> conforms (PDict d) (PInt i)"
  by simp

text \<open>
  C10 (scenario_data_invalid): every scenario of a schema, but those that add an attribute to an object,
  has a generator whose data does not conform to the scenario's schema.
\<close>

theorem scenario_data_invalid:
  assumes "generate_scenarios s path = Inr ss" "sc \<in> set ss" "sc_generator sc \<noteq> GenObjAddAttr"
    "plain_keywords (sc_schema sc)" "run_generator (sc_generator sc) (sc_schema sc) = Inr (Some (x, e))"
  shows "\<not> conforms (PDict (sc_schema sc)) x"
proof -
  let ?d = "sc_schema sc"
  obtain t gs where fit: "selected_type ?d = Inr t" "generators_for t = Inr gs" "sc_generator sc \<in> set gs"
      "wanted ?d (sc_generator sc) = Inr True"
    using scenarios_fit [OF assms(1,2)] by (auto simp: scenario_fits_def)
  have ty: "dget ?d ''type'' = Some (PStr t)"
    using fit(1) assms(4) by (auto simp: selected_type_def plain_keywords_def)
  have kw: "case dget ?d k of None \<Rightarrow> True | Some (PInt i) \<Rightarrow> True | _ \<Rightarrow> False"
    if "k \<in> {''minLength'', ''maxLength'', ''minimum'', ''maximum''}" for k
    using assms(4) that by (auto simp: plain_keywords_def)
  have ex: "dhas ?d k \<longleftrightarrow> dget ?d k = Some (PBool True)" if "k \<in> {''exclusiveMinimum'', ''exclusiveMaximum''}" for k
    using assms(4) that by (auto simp: plain_keywords_def dhas_def split: option.splits)
  have t: "sc_generator sc \<in> {GenIntMax, GenIntMin, GenNone, GenString} \<and> t = ''integer''
      \<or> sc_generator sc \<in> {GenInt, GenNone, GenStrMaxLength, GenStrMinLength} \<and> t = ''string''"
    using fit(2,3) assms(3) by (auto simp: generators_for_def split: if_splits)
  note run = assms(5) [unfolded run_generator_def Let_def]
  show ?thesis
  proof (cases "sc_generator sc")
    case GenInt
    with run t ty show ?thesis
      by (intro not_conforms_type [OF ty]) (auto dest!: simple_generator_Some)
  next
    case GenString
    with run t ty show ?thesis
      by (intro not_conforms_type [OF ty]) (auto dest!: simple_generator_Some)
  next
    case GenNone
    with run t ty show ?thesis
      by (intro not_conforms_type [OF ty]) auto
  next
    case GenStrMinLength
    with run have r: "gen_str_min_length ?d = Inr x" "x \<noteq> PNone"
      by (auto dest!: simple_generator_Some)
    with kw [of "''minLength''"] obtain n where "dget ?d ''minLength'' = Some (PInt n)" "n > 0"
        "x = PStr (replicate (nat (n - 1)) CHR ''x'')"
      by (auto simp: gen_str_min_length_def field_or_def xs_of_def split: option.splits py.splits if_splits)
    then show ?thesis
      by (auto simp: length_ok_def simp del: conforms.simps intro!: not_conforms_length)
  next
    case GenStrMaxLength
    with run have r: "gen_str_max_length ?d = Inr x"
      by (auto dest!: simple_generator_Some)
    from fit(4) GenStrMaxLength have "dget ?d ''maxLength'' \<noteq> None"
      by (auto simp: wanted_def needed_property_def split: option.splits)
    with r kw [of "''maxLength''"] obtain n where "dget ?d ''maxLength'' = Some (PInt n)"
        "x = PStr (replicate (nat (n + 1)) CHR ''x'')"
      by (auto simp: gen_str_max_length_def field_or_def xs_of_def split: option.splits py.splits)
    then show ?thesis
      by (auto simp: length_ok_def simp del: conforms.simps intro!: not_conforms_length split: if_splits)
  next
    case GenIntMin
    with run have r: "gen_int_min ?d = Inr x"
      by (auto dest!: simple_generator_Some)
    with kw [of "''minimum''"] obtain m where "dget ?d ''minimum'' = Some (PInt m)"
        "x = PInt (if dhas ?d ''exclusiveMinimum'' then m else m - 1)"
      by (auto simp: gen_int_min_def gen_int_bound_def split: option.splits py.splits if_splits)
    then show ?thesis
      using ex [of "''exclusiveMinimum''"]
      by (auto simp: above_def simp del: conforms.simps intro!: not_conforms_bound)
  next
    case GenIntMax
    with run have r: "gen_int_max ?d = Inr x"
      by (auto dest!: simple_generator_Some)
    with kw [of "''maximum''"] obtain m where "dget ?d ''maximum'' = Some (PInt m)"
        "x = PInt (if dhas ?d ''exclusiveMaximum'' then m else m + 1)"
      by (auto simp: gen_int_max_def gen_int_bound_def split: option.splits py.splits if_splits)
    then show ?thesis
      using ex [of "''exclusiveMaximum''"]
      by (auto simp: below_def simp del: conforms.simps intro!: not_conforms_bound)
  next
    case GenObjAddAttr
    with assms(3) show ?thesis by simp
  qed
qed

lemma demo_scenarios:
  "generate_scenarios demo_schema None = Inr
     (map (scenario_of [(''type'', PStr ''string''), (''minLength'', PInt 2), (''maxLength'', PInt 5)] (Some [''name'']))
        [GenInt, GenNone, GenStrMaxLength, GenStrMinLength]
      @ map (scenario_of [(''type'', PStr ''integer''), (''minimum'', PInt 1)] (Some [''size'']))
        [GenIntMin, GenNone, GenString]
      @ [scenario_of (case demo_schema of PDict d \<Rightarrow> d) None GenObjAddAttr])"
  by (simp add: demo_schema_def own_scenarios_def generators_for_def wanted_def needed_property_def
      selected_type_def extend_path_def)

theorem scenario_data_invalid_witness:
  "\<not> conforms (PDict [(''type'', PStr ''integer''), (''minimum'', PInt 1)]) (PInt 0)"
proof -
  let ?d = "[(''type'', PStr ''integer''), (''minimum'', PInt 1)]"
  let ?sc = "scenario_of ?d (Some [''size'']) GenIntMin"
  have run: "run_generator (sc_generator ?sc) (sc_schema ?sc) = Inr (Some (PInt 0, PNone))"
    by (simp add: scenario_of_def run_generator_def simple_generator_def gen_int_min_def gen_int_bound_def
        dhas_def check_for_expected_result_def)
  have "plain_keywords (sc_schema ?sc)"
    by (simp add: scenario_of_def plain_keywords_def)
  from scenario_data_invalid [OF demo_scenarios _ _ this run]
  show ?thesis by (simp add: scenario_of_def)
qed

text \<open>
  (added_attribute_is_valid): the scenario that adds an attribute to an object is made when the schema
  allows additional properties, and then its data conforms; for a schema that forbids them, where the
  data would be invalid, it is not made.
\<close>

theorem added_attribute_is_valid:
  assumes "sane (PDict d)" "dget d ''type'' = Some (PStr ''object'')" "extra_attribute \<notin> set (property_names d)"
    "run_generator GenObjAddAttr d = Inr (Some (x, e))"
  shows "(dget d ''additionalProperties'' = Some (PBool True) \<longrightarrow> conforms (PDict d) x)
     \<and> (dget d ''additionalProperties'' = Some (PBool False) \<longrightarrow>
          wanted d GenObjAddAttr = Inr False \<and> \<not> conforms (PDict d) x)"
proof -
  obtain v where v: "generate_valid (PDict d) = Inr v" "conforms (PDict d) v"
    using sane_data_conforms [OF assms(1)] by auto
  have "gen_obj_add_attr d = Inr x"
    using assms(4) by (auto simp: run_generator_def dest!: simple_generator_Some)
  with v(1) obtain kvs where kvs: "v = PDict kvs" "x = PDict (dset kvs extra_attribute (PStr ''xxx''))"
    by (auto simp: gen_obj_add_attr_def simp del: generate_valid.simps split: py.splits)
  have other: "dget (dset kvs extra_attribute (PStr ''xxx'')) k = dget kvs k"
    if "k \<noteq> extra_attribute" for k
    using that by auto
  have "wanted d GenObjAddAttr = Inr False" if "dget d ''additionalProperties'' = Some (PBool False)"
    using that by (simp add: wanted_def needed_property_def)
  moreover have "\<not> conforms (PDict d) x" if "dget d ''additionalProperties'' = Some (PBool False)"
    using that assms(3) by (auto simp: kvs keys_ok_def)
  moreover have "conforms (PDict d) x" if ap: "dget d ''additionalProperties'' = Some (PBool True)"
  proof -
    have keys: "keys_ok d (dkeys (dset kvs extra_attribute (PStr ''xxx'')))"
      using v(2) ap unfolding kvs(1) by (auto simp: keys_ok_def list_all_iff split: option.splits py.splits)
    have "list_all (\<lambda>(k, s). case dget (dset kvs extra_attribute (PStr ''xxx'')) k of
            None \<Rightarrow> True | Some y \<Rightarrow> conforms s y) ps" if ps: "dget d ''properties'' = Some (PDict ps)" for ps
    proof -
      have "extra_attribute \<notin> set (dkeys ps)"
        using assms(3) ps by (simp add: property_names_def)
      then have "k \<noteq> extra_attribute" if "(k, s) \<in> set ps" for k s
        using that by (force simp: dkeys_def)
      moreover have "list_all (\<lambda>(k, s). case dget kvs k of None \<Rightarrow> True | Some y \<Rightarrow> conforms s y) ps"
        using v(2) ps unfolding kvs(1) by simp
      ultimately show ?thesis
        by (fastforce simp: list_all_iff simp del: conforms.simps)
    qed
    note props = this
    show ?thesis
    proof (cases "dget d ''properties''")
      case None
      with keys assms(2) show ?thesis unfolding kvs(2) by simp
    next
      case (Some p)
      with keys assms(2) props show ?thesis unfolding kvs(2) by (cases p) simp_all
    qed
  qed
  ultimately show ?thesis by blast
qed

theorem added_attribute_is_valid_witness:
  "\<exists>x e. run_generator GenObjAddAttr (case demo_schema of PDict d \<Rightarrow> d) = Inr (Some (x, e))
     \<and> conforms demo_schema x"
proof -
  let ?d = "case demo_schema of PDict d \<Rightarrow> d"
  have run: "\<exists>x e. run_generator GenObjAddAttr ?d = Inr (Some (x, e))"
    by (simp add: run_generator_def simple_generator_def gen_obj_add_attr_def demo_schema_def
        selected_type_def first_result_def valid_string_def valid_integer_def xs_of_def field_or_def dhas_def
        check_for_expected_result_def)
  then obtain x e where "run_generator GenObjAddAttr ?d = Inr (Some (x, e))" by blast
  moreover from added_attribute_is_valid [OF _ _ _ this] have "conforms demo_schema x"
    using demo_schema_sane
    by (simp add: demo_schema_def property_names_def extra_attribute_def del: conforms.simps)
  ultimately show ?thesis by blast
qed

text \<open>
  (exclusive_false_not_negative): with \<open>exclusiveMinimum\<close> present but false, the negative generator for
  the minimum returns the minimum itself, which conforms.
\<close>

theorem exclusive_false_not_negative:
  assumes "dget d ''type'' = Some (PStr ''integer'')" "dget d ''minimum'' = Some (PInt m)"
    "dget d ''exclusiveMinimum'' = Some (PBool False)" "below d m"
  shows "gen_int_min d = Inr (PInt m) \<and> conforms (PDict d) (PInt m)"
  using assms by (simp add: gen_int_min_def gen_int_bound_def dhas_def above_def)

theorem exclusive_false_not_negative_witness:
  "conforms (PDict [(''type'', PStr ''integer''), (''minimum'', PInt 3), (''exclusiveMinimum'', PBool False)])
     (PInt 3)"
  using exclusive_false_not_negative
      [of "[(''type'', PStr ''integer''), (''minimum'', PInt 3), (''exclusiveMinimum'', PBool False)]" 3]
  by (simp add: below_def)

section \<open>Payloads\<close>

fun get_at :: "string list \<Rightarrow> py \<Rightarrow> py option" where
  "get_at [] v = Some v"
| "get_at (k # ks) (PDict d) = (case dget d k of None \<Rightarrow> None | Some v \<Rightarrow> get_at ks v)"
| "get_at (k # ks) v = None"

lemma put_at_get:
  "put_at ks e x v = Inr v' \<Longrightarrow> get_at (ks @ [e]) v' = Some x"
proof (induction ks arbitrary: v v')
  case Nil
  then show ?case by (cases v) auto
next
  case (Cons k ks)
  then show ?case by (cases v) (auto split: option.splits)
qed

lemma put_at_other:
  "put_at ks e x v = Inr v' \<Longrightarrow> \<not> prefix q (ks @ [e]) \<Longrightarrow> \<not> prefix (ks @ [e]) q \<Longrightarrow>
   get_at q v' = get_at q v"
proof (induction ks arbitrary: v v' q)
  case Nil
  then show ?case by (cases v; cases q) auto
next
  case (Cons k ks)
  obtain d v1 v2 where v: "v = PDict d" "dget d k = Some v1" "put_at ks e x v1 = Inr v2"
      "v' = PDict (dset d k v2)"
    using Cons.prems(1) by (cases v) (auto split: option.splits)
  show ?case
    using Cons.prems(2,3) Cons.IH [OF v(3)] by (cases q) (auto simp: v)
qed

text \<open>
  (payload_replaces_one): \<open>generate_payload\<close> puts the generator's snippet at the scenario's path of the
  payload and changes no other place; a generator without a result leaves the payload as it is.
\<close>

theorem payload_replaces_one:
  assumes "generate_payload sc payload = Inr (e, payload')"
  shows "case run_generator (sc_generator sc) (sc_schema sc) of
     Inr (Some (x, e')) \<Rightarrow>
       (\<exists>p. sc_path sc = Some p \<and> e = e' \<and> get_at p payload' = Some x
          \<and> (\<forall>q. \<not> prefix q p \<and> \<not> prefix p q \<longrightarrow> get_at q payload' = get_at q payload))
   | Inr None \<Rightarrow> e = PNone \<and> payload' = payload
   | Inl _ \<Rightarrow> False"
proof -
  obtain ret where ret: "run_generator (sc_generator sc) (sc_schema sc) = Inr ret"
    using assms by (auto simp: generate_payload_def)
  show ?thesis
  proof (cases ret)
    case None
    with assms ret show ?thesis by (simp add: generate_payload_def)
  next
    case (Some r)
    obtain x e' where r: "r = (x, e')" by (cases r)
    obtain p where p: "sc_path sc = Some p" "p \<noteq> []"
      using assms ret Some r by (auto simp: generate_payload_def split: option.splits list.splits)
    then have put: "put_at (butlast p) (last p) x payload = Inr payload'" and "e = e'"
      using assms ret Some r by (cases p; auto simp: generate_payload_def)+
    moreover have "butlast p @ [last p] = p" using p(2) by simp
    ultimately show ?thesis
      using put_at_get [OF put] put_at_other [OF put] ret Some r p(1) by auto
  qed
qed

theorem payload_replaces_one_witness:
  "get_at [''size''] (PDict [(''name'', PStr ''xx''), (''size'', PInt 0)]) = Some (PInt 0)
   \<and> get_at [''name''] (PDict [(''name'', PStr ''xx''), (''size'', PInt 0)])
     = get_at [''name''] (PDict [(''name'', PStr ''xx''), (''size'', PInt 1)])"
proof -
  let ?d = "[(''type'', PStr ''integer''), (''minimum'', PInt 1)]"
  let ?sc = "scenario_of ?d (Some [''size'']) GenIntMin"
  have run: "run_generator (sc_generator ?sc) (sc_schema ?sc) = Inr (Some (PInt 0, PNone))"
    by (simp add: scenario_of_def run_generator_def simple_generator_def gen_int_min_def gen_int_bound_def
        dhas_def check_for_expected_result_def)
  then have "generate_payload ?sc (PDict [(''name'', PStr ''xx''), (''size'', PInt 1)])
      = Inr (PNone, PDict [(''name'', PStr ''xx''), (''size'', PInt 0)])"
    by (simp add: generate_payload_def scenario_of_def)
  from payload_replaces_one [OF this] run show ?thesis
    by (simp add: scenario_of_def)
qed

text \<open>The top-level scenario of an object has no path: making its payload raises.\<close>

lemma top_level_payload_raises:
  "run_generator (sc_generator sc) (sc_schema sc) = Inr (Some r) \<Longrightarrow> sc_path sc = None \<Longrightarrow>
   generate_payload sc payload = Inl AttrErr"
  by (cases r) (simp add: generate_payload_def)

end
