(* ===== verification/ServersClient.thy ===== *)
theory ServersClient
  imports RestClient Urls
begin

text \<open>
  The compute servers client, \<open>automation/services/compute/json/servers_client.py\<close>.

  A method uses its client through \<open>request\<close>, the argument \<open>rq\<close>. The response schemas of
  \<open>api_schema/response/compute/v2_1/servers.py\<close> are data; \<open>sc\<close> maps their names to them.
\<close>

section \<open>Replies\<close>

type_synonym schemas = "string \<Rightarrow> response_schema"

text \<open>\<open>json.loads\<close>.\<close>

definition json_loads :: "'r env \<Rightarrow> string \<Rightarrow> pyexc + py" where
  "json_loads env s = (case e_loads env s of None \<Rightarrow> Inl ValueErr | Some v \<Rightarrow> Inr v)"

definition json_dumps :: "'r env \<Rightarrow> py \<Rightarrow> py" where
  "json_dumps env v = PStr (e_dumps env v)"

text \<open>
  The common ends of the methods: decode the body, validate it when there is a schema, take the part
  under a key when there is one, and wrap it.
\<close>

definition json_part :: "'r env \<Rightarrow> response_schema option \<Rightarrow> string option \<Rightarrow> answer \<Rightarrow> pyexc + py" where
  "json_part env schema key a =
     bindE (json_loads env (snd a)) (\<lambda>b.
     bindE (case schema of None \<Rightarrow> Inr () | Some s \<Rightarrow> validate_response env s (fst a) b) (\<lambda>_.
       case key of None \<Rightarrow> Inr b | Some k \<Rightarrow> getitem b k))"

definition json_reply ::
    "'r env \<Rightarrow> response_schema option \<Rightarrow> string option \<Rightarrow> answer \<Rightarrow> pyexc + response_body" where
  "json_reply env schema key a = bindE (json_part env schema key a) (response_dict (fst a))"

definition json_list_reply ::
    "'r env \<Rightarrow> response_schema option \<Rightarrow> string option \<Rightarrow> answer \<Rightarrow> pyexc + response_list" where
  "json_list_reply env schema key a = bindE (json_part env schema key a) (response_list_of (fst a))"

text \<open>Validating against \<open>None\<close>: the status is looked up in it, which it does not support.\<close>

definition validate_optional ::
    "'r env \<Rightarrow> response_schema option \<Rightarrow> http_response \<Rightarrow> py \<Rightarrow> pyexc + unit" where
  "validate_optional env schema resp body =
     (case schema of
        Some s \<Rightarrow> validate_response env s resp body
      | None \<Rightarrow> if rs_status resp \<in> set (HTTP_SUCCESS @ HTTP_REDIRECTION) then Inl TypeErr else Inr ())"

definition raw_reply :: "'r env \<Rightarrow> response_schema \<Rightarrow> answer \<Rightarrow> pyexc + response_body" where
  "raw_reply env schema a =
     bindE (validate_response env schema (fst a) (PStr (snd a))) (\<lambda>_. response_dict (fst a) (PStr (snd a)))"

definition get_json ::
    "'r env \<Rightarrow> 'w requester \<Rightarrow> string \<Rightarrow> response_schema option \<Rightarrow> string option \<Rightarrow> ('w, response_body) io" where
  "get_json env rq url schema key = bnd (http_get rq url None False) (\<lambda>a. lift (json_reply env schema key a))"

definition post_json ::
    "'r env \<Rightarrow> 'w requester \<Rightarrow> string \<Rightarrow> py \<Rightarrow> response_schema option \<Rightarrow> string option \<Rightarrow> ('w, response_body) io" where
  "post_json env rq url doc schema key =
     bnd (http_post rq url (json_dumps env doc) None False) (\<lambda>a. lift (json_reply env schema key a))"

definition put_json ::
    "'r env \<Rightarrow> 'w requester \<Rightarrow> string \<Rightarrow> py \<Rightarrow> response_schema option \<Rightarrow> string option \<Rightarrow> ('w, response_body) io" where
  "put_json env rq url body schema key =
     bnd (http_put rq url body None False) (\<lambda>a. lift (json_reply env schema key a))"

definition delete_raw :: "'r env \<Rightarrow> 'w requester \<Rightarrow> string \<Rightarrow> response_schema \<Rightarrow> ('w, response_body) io" where
  "delete_raw env rq url schema =
     bnd (http_delete rq url None PNone False) (\<lambda>a. lift (raw_reply env schema a))"

section \<open>Availability zones\<close>

definition add_availability_zone :: "'r env \<Rightarrow> 'w requester \<Rightarrow> py \<Rightarrow> ('w, response_body) io" where
  "add_availability_zone env rq az_name =
     post_json env rq ''os-az-setting/add_availability_zone/action'' (PDict [(''az_name'', az_name)]) None None"

definition remove_availability_zone :: "'r env \<Rightarrow> 'w requester \<Rightarrow> py \<Rightarrow> ('w, response_body) io" where
  "remove_availability_zone env rq az_name =
     post_json env rq ''os-az-setting/remove_availability_zone/action'' (PDict [(''az_name'', az_name)]) None None"

definition display_default_nova_az :: "'r env \<Rightarrow> 'w requester \<Rightarrow> ('w, response_list) io" where
  "display_default_nova_az env rq =
     bnd (http_get rq ''os-az-setting/display_default_nova_az/action'' None False)
       (\<lambda>a. lift (json_list_reply env None (Some ''nova_az_host_list'') a))"

definition list_availability_zones :: "'r env \<Rightarrow> 'w requester \<Rightarrow> ('w, response_list) io" where
  "list_availability_zones env rq =
     bnd (http_get rq ''os-az-setting/list_availability_zones/action'' None False)
       (\<lambda>a. lift (json_list_reply env None (Some ''availability_zone_list'') a))"

definition az_host :: "py \<Rightarrow> py \<Rightarrow> py" where
  "az_host az_name host = PDict [(''az_name'', az_name), (''host_name'', host)]"

definition add_host_for_availability_zone :: "'r env \<Rightarrow> 'w requester \<Rightarrow> py \<Rightarrow> py \<Rightarrow> ('w, response_body) io" where
  "add_host_for_availability_zone env rq az_name host =
     post_json env rq ''/os-az-setting/add_host_for_availability_zone/action'' (az_host az_name host) None None"

definition remove_host_for_availability_zone :: "'r env \<Rightarrow> 'w requester \<Rightarrow> py \<Rightarrow> py \<Rightarrow> ('w, response_body) io" where
  "remove_host_for_availability_zone env rq az_name host =
     post_json env rq ''/os-az-setting/remove_host_for_availability_zone/action'' (az_host az_name host) None None"

definition az_tenant :: "py \<Rightarrow> py \<Rightarrow> py" where
  "az_tenant az_name tenant_id = PDict [(''az_name'', az_name), (''tenant_id'', tenant_id)]"

definition associate_az_tenant :: "'r env \<Rightarrow> 'w requester \<Rightarrow> py \<Rightarrow> py \<Rightarrow> ('w, response_body) io" where
  "associate_az_tenant env rq az_name tenant_id =
     post_json env rq ''/os-az-setting/az-tenant-bind/action'' (az_tenant az_name tenant_id) None None"

definition disassociate_az_tenant :: "'r env \<Rightarrow> 'w requester \<Rightarrow> py \<Rightarrow> py \<Rightarrow> ('w, response_body) io" where
  "disassociate_az_tenant env rq az_name tenant_id =
     post_json env rq ''/os-az-setting/az-tenant-unbind/action'' (az_tenant az_name tenant_id) None None"

definition bind_all_hosts_to_az :: "'r env \<Rightarrow> 'w requester \<Rightarrow> py \<Rightarrow> ('w, unit) io" where
  "bind_all_hosts_to_az env rq az_name =
     bnd (display_default_nova_az env rq) (\<lambda>hosts.
       for_each (rl_data hosts) (\<lambda>single_host.
         bnd (lift (getitem single_host ''host_name'')) (\<lambda>host_name.
         bnd (add_host_for_availability_zone env rq az_name host_name) (\<lambda>_. ret ()))))"

section \<open>Creating and changing servers\<close>

text \<open>The optional arguments: the name in the document and the name of the argument.\<close>

definition create_options :: "(string \<times> string) list" where
  "create_options =
     [(''personality'', ''personality''), (''adminPass'', ''adminPass''), (''key_name'', ''key_name''),
      (''security_groups'', ''security_groups''), (''networks'', ''networks''), (''user_data'', ''user_data''),
      (''availability_zone'', ''availability_zone''), (''accessIPv4'', ''accessIPv4''),
      (''accessIPv6'', ''accessIPv6''), (''min_count'', ''min_count''), (''max_count'', ''max_count''),
      (''metadata'', ''meta''), (''OS-DCF:diskConfig'', ''disk_config''),
      (''return_reservation_id'', ''return_reservation_id''),
      (''block_device_mapping'', ''block_device_mapping''),
      (''block_device_mapping_v2'', ''block_device_mapping_v2'')]"

text \<open>\<open>if value is not None: post_body[post_param] = value\<close> for every option.\<close>

definition add_options ::
    "(string, py) dict \<Rightarrow> (string \<times> string) list \<Rightarrow> (string, py) dict \<Rightarrow> (string, py) dict" where
  "add_options kwargs opts body =
     fold (\<lambda>(post_param, key) b.
       case dget kwargs key of
         None \<Rightarrow> b
       | Some v \<Rightarrow> if is_none v then b else dset b post_param v) opts body"

definition create_server_body :: "py \<Rightarrow> py \<Rightarrow> py \<Rightarrow> (string, py) dict \<Rightarrow> py" where
  "create_server_body name image_ref flavor_ref kwargs =
     (let server = add_options kwargs create_options
            [(''name'', name), (''imageRef'', image_ref), (''flavorRef'', flavor_ref)];
          post_body = [(''server'', PDict server)]
      in PDict (case dget kwargs ''sched_hints'' of
                  None \<Rightarrow> post_body
                | Some h \<Rightarrow> dset post_body ''os:scheduler_hints'' h))"

definition create_server_reply :: "'r env \<Rightarrow> schemas \<Rightarrow> bool \<Rightarrow> answer \<Rightarrow> pyexc + response_body" where
  "create_server_reply env sc enable_instance_password a =
     bindE (json_loads env (snd a)) (\<lambda>b.
     bindE (py_in ''reservation_id'' b) (\<lambda>reserved.
       if reserved then response_dict (fst a) b
       else
         bindE (validate_response env
                  (sc (if enable_instance_password then ''create_server_with_admin_pass'' else ''create_server''))
                  (fst a) b) (\<lambda>_.
         bindE (getitem b ''server'') (response_dict (fst a)))))"

definition create_server ::
    "'r env \<Rightarrow> schemas \<Rightarrow> bool \<Rightarrow> 'w requester \<Rightarrow> py \<Rightarrow> py \<Rightarrow> py \<Rightarrow> (string, py) dict \<Rightarrow> ('w, response_body) io" where
  "create_server env sc enable_instance_password rq name image_ref flavor_ref kwargs =
     bnd (http_post rq ''servers'' (json_dumps env (create_server_body name image_ref flavor_ref kwargs)) None False)
       (\<lambda>a. lift (create_server_reply env sc enable_instance_password a))"

definition set_unless_none :: "string \<Rightarrow> py \<Rightarrow> (string, py) dict \<Rightarrow> (string, py) dict" where
  "set_unless_none k v d = (if is_none v then d else dset d k v)"

definition update_server ::
    "'r env \<Rightarrow> schemas \<Rightarrow> 'w requester \<Rightarrow> string \<Rightarrow> py \<Rightarrow> py \<Rightarrow> py \<Rightarrow> py \<Rightarrow> py \<Rightarrow> ('w, response_body) io" where
  "update_server env sc rq server_id name meta accessIPv4 accessIPv6 disk_config =
     (let post_body =
        set_unless_none ''OS-DCF:diskConfig'' disk_config
          (set_unless_none ''accessIPv6'' accessIPv6
            (set_unless_none ''accessIPv4'' accessIPv4
              (set_unless_none ''name'' name (set_unless_none ''metadata'' meta []))))
      in put_json env rq (''servers/'' @ server_id) (json_dumps env (PDict [(''server'', PDict post_body)]))
           (Some (sc ''update_server'')) (Some ''server''))"

definition show_server :: "'r env \<Rightarrow> schemas \<Rightarrow> 'w requester \<Rightarrow> string \<Rightarrow> ('w, response_body) io" where
  "show_server env sc rq server_id =
     get_json env rq (''servers/'' @ server_id) (Some (sc ''get_server'')) (Some ''server'')"

definition delete_server :: "'r env \<Rightarrow> schemas \<Rightarrow> 'w requester \<Rightarrow> string \<Rightarrow> ('w, response_body) io" where
  "delete_server env sc rq server_id = delete_raw env rq (''servers/'' @ server_id) (sc ''delete_server'')"

text \<open>\<open>urllib.urlencode(params)\<close> of values that are not sequences to be spread.\<close>

definition urlencode_params :: "'r env \<Rightarrow> (string, py) dict \<Rightarrow> string" where
  "urlencode_params env params = urlencode (map (\<lambda>(k, v). (k, py_text (e_repr env) v)) params)"

definition list_servers :: "'r env \<Rightarrow> schemas \<Rightarrow> 'w requester \<Rightarrow> bool \<Rightarrow> (string, py) dict \<Rightarrow> ('w, response_body) io" where
  "list_servers env sc rq detail params =
     get_json env rq
       (''servers'' @ (if detail then ''/detail'' else [])
        @ (if params \<noteq> [] then ''?'' @ urlencode_params env params else []))
       (Some (sc (if detail then ''list_servers_detail'' else ''list_servers''))) None"

section \<open>Waiting for the end of a server\<close>

text \<open>
  The check of one round: the server is gone when showing it raises NotFound. Raising the class
  TimeoutException makes an instance without arguments.
\<close>

definition termination_round ::
    "rest_client \<Rightarrow> (('r, 'x) world_scheme, response_body) io \<Rightarrow> string \<Rightarrow> bool \<Rightarrow> int
     \<Rightarrow> (('r, 'x) world_scheme, int + unit) io" where
  "termination_round c show_it server_id ignore_error start_time =
     bnd (catch (bnd show_it (\<lambda>body. ret (Some body)))
            (\<lambda>e. if catches NotFound e then Some (ret None) else None)) (\<lambda>found.
       case found of
         None \<Rightarrow> ret (Inr ())
       | Some body \<Rightarrow>
           bnd (lift (getitem (PDict (rb_data body)) ''status'')) (\<lambda>server_status.
             if server_status = PStr ''ERROR'' \<and> \<not> ignore_error
             then throw (Auto BuildErrorException [] [(''server_id'', PStr server_id)])
             else bnd (gets time_int) (\<lambda>t.
               if rc_build_timeout c \<le> t - start_time then throw (Auto TimeoutException [] [])
               else bnd (sleep (rc_build_interval c)) (\<lambda>_. ret (Inl start_time)))))"

definition wait_for_server_termination ::
    "rest_client \<Rightarrow> (('r, 'x) world_scheme, response_body) io \<Rightarrow> string \<Rightarrow> bool
     \<Rightarrow> ('r, 'x) world_scheme \<Rightarrow> ((pyexc + unit) \<times> ('r, 'x) world_scheme) option" where
  "wait_for_server_termination c show_it server_id ignore_error w =
     loop_io (termination_round c show_it server_id ignore_error) (time_int w) w"

end
