(* ===== verification/ServerActions.thy ===== *)
theory ServerActions
  imports ServersClient
begin

text \<open>
  The second half of \<open>automation/services/compute/json/servers_client.py\<close>: the actions on a server and
  the resources below it. An action posts a document with one key, the action's name; the keyword
  arguments of a method are a dictionary that does not name the parameters of \<open>action\<close> itself.
\<close>

section \<open>Actions\<close>

text \<open>\<open>ResponseBodyData\<close> keeps the data as it is.\<close>

record response_data =
  rd_response :: http_response
  rd_data :: py

definition response_data_of :: "http_response \<Rightarrow> py \<Rightarrow> pyexc + response_data" where
  "response_data_of resp data = Inr \<lparr>rd_response = resp, rd_data = data\<rparr>"

definition action_reply ::
    "'r env \<Rightarrow> string option \<Rightarrow> response_schema option \<Rightarrow> (http_response \<Rightarrow> py \<Rightarrow> pyexc + 'a)
     \<Rightarrow> answer \<Rightarrow> pyexc + 'a" where
  "action_reply env response_key schema response_class a =
     (case response_key of
        Some k \<Rightarrow> bindE (json_part env schema (Some k) a) (response_class (fst a))
      | None \<Rightarrow>
          bindE (validate_optional env schema (fst a) (PStr (snd a))) (\<lambda>_.
            response_class (fst a) (PStr (snd a))))"

definition action ::
    "'r env \<Rightarrow> 'w requester \<Rightarrow> string \<Rightarrow> string \<Rightarrow> string option \<Rightarrow> response_schema option
     \<Rightarrow> (http_response \<Rightarrow> py \<Rightarrow> pyexc + 'a) \<Rightarrow> (string, py) dict \<Rightarrow> ('w, 'a) io" where
  "action env rq server_id action_name response_key schema response_class kwargs =
     bnd (http_post rq (''servers/'' @ server_id @ ''/action'')
            (json_dumps env (PDict [(action_name, PDict kwargs)])) None False)
       (\<lambda>a. lift (action_reply env response_key schema response_class a))"

text \<open>An action without a response key, with the schema that is the parameter's default.\<close>

definition plain_action ::
    "'r env \<Rightarrow> schemas \<Rightarrow> 'w requester \<Rightarrow> string \<Rightarrow> string \<Rightarrow> (string, py) dict \<Rightarrow> ('w, response_body) io" where
  "plain_action env sc rq server_id action_name kwargs =
     action env rq server_id action_name None (Some (sc ''server_actions_common_schema'')) response_dict kwargs"

definition create_backup ::
    "'r env \<Rightarrow> schemas \<Rightarrow> 'w requester \<Rightarrow> string \<Rightarrow> py \<Rightarrow> py \<Rightarrow> py \<Rightarrow> ('w, response_body) io" where
  "create_backup env sc rq server_id backup_type rotation name =
     plain_action env sc rq server_id ''createBackup'' 
       [(''backup_type'', backup_type), (''rotation'', rotation), (''name'', name)]"

definition change_password ::
    "'r env \<Rightarrow> schemas \<Rightarrow> 'w requester \<Rightarrow> string \<Rightarrow> py \<Rightarrow> ('w, response_body) io" where
  "change_password env sc rq server_id admin_pass =
     plain_action env sc rq server_id ''changePassword'' [(''adminPass'', admin_pass)]"

definition reboot ::
    "'r env \<Rightarrow> schemas \<Rightarrow> 'w requester \<Rightarrow> string \<Rightarrow> py \<Rightarrow> ('w, response_body) io" where
  "reboot env sc rq server_id reboot_type =
     plain_action env sc rq server_id ''reboot'' [(''type'', reboot_type)]"

text \<open>The keyword \<open>disk_config\<close> travels under the name of the API's extension.\<close>

definition rename_disk_config :: "(string, py) dict \<Rightarrow> (string, py) dict" where
  "rename_disk_config kwargs =
     (case dget kwargs ''disk_config'' of
        None \<Rightarrow> kwargs
      | Some v \<Rightarrow> ddel (dset kwargs ''OS-DCF:diskConfig'' v) ''disk_config'')"

definition rebuild ::
    "'r env \<Rightarrow> schemas \<Rightarrow> bool \<Rightarrow> 'w requester \<Rightarrow> string \<Rightarrow> py \<Rightarrow> (string, py) dict \<Rightarrow> ('w, response_body) io" where
  "rebuild env sc enable_instance_password rq server_id image_ref kwargs =
     action env rq server_id ''rebuild'' (Some ''server'')
       (Some (sc (if enable_instance_password then ''rebuild_server_with_admin_pass'' else ''rebuild_server'')))
       response_dict (rename_disk_config (dset kwargs ''imageRef'' image_ref))"

definition resize ::
    "'r env \<Rightarrow> schemas \<Rightarrow> 'w requester \<Rightarrow> string \<Rightarrow> py \<Rightarrow> (string, py) dict \<Rightarrow> ('w, response_body) io" where
  "resize env sc rq server_id flavor_ref kwargs =
     plain_action env sc rq server_id ''resize'' (rename_disk_config (dset kwargs ''flavorRef'' flavor_ref))"

definition confirm_resize ::
    "'r env \<Rightarrow> schemas \<Rightarrow> 'w requester \<Rightarrow> string \<Rightarrow> (string, py) dict \<Rightarrow> ('w, response_body) io" where
  "confirm_resize env sc rq server_id kwargs =
     action env rq server_id ''confirmResize'' None (Some (sc ''server_actions_confirm_resize'')) response_dict kwargs"

definition revert_resize ::
    "'r env \<Rightarrow> schemas \<Rightarrow> 'w requester \<Rightarrow> string \<Rightarrow> (string, py) dict \<Rightarrow> ('w, response_body) io" where
  "revert_resize env sc rq server_id kwargs =
     plain_action env sc rq server_id ''revertResize'' kwargs"

definition stop ::
    "'r env \<Rightarrow> schemas \<Rightarrow> 'w requester \<Rightarrow> string \<Rightarrow> (string, py) dict \<Rightarrow> ('w, response_body) io" where
  "stop env sc rq server_id kwargs =
     plain_action env sc rq server_id ''os-stop'' kwargs"

definition start ::
    "'r env \<Rightarrow> schemas \<Rightarrow> 'w requester \<Rightarrow> string \<Rightarrow> (string, py) dict \<Rightarrow> ('w, response_body) io" where
  "start env sc rq server_id kwargs =
     plain_action env sc rq server_id ''os-start'' kwargs"

definition migrate_server ::
    "'r env \<Rightarrow> schemas \<Rightarrow> 'w requester \<Rightarrow> string \<Rightarrow> (string, py) dict \<Rightarrow> ('w, response_body) io" where
  "migrate_server env sc rq server_id kwargs =
     plain_action env sc rq server_id ''migrate'' kwargs"

definition lock_server ::
    "'r env \<Rightarrow> schemas \<Rightarrow> 'w requester \<Rightarrow> string \<Rightarrow> (string, py) dict \<Rightarrow> ('w, response_body) io" where
  "lock_server env sc rq server_id kwargs =
     plain_action env sc rq server_id ''lock'' kwargs"

definition unlock_server ::
    "'r env \<Rightarrow> schemas \<Rightarrow> 'w requester \<Rightarrow> string \<Rightarrow> (string, py) dict \<Rightarrow> ('w, response_body) io" where
  "unlock_server env sc rq server_id kwargs =
     plain_action env sc rq server_id ''unlock'' kwargs"

definition suspend_server ::
    "'r env \<Rightarrow> schemas \<Rightarrow> 'w requester \<Rightarrow> string \<Rightarrow> (string, py) dict \<Rightarrow> ('w, response_body) io" where
  "suspend_server env sc rq server_id kwargs =
     plain_action env sc rq server_id ''suspend'' kwargs"

definition resume_server ::
    "'r env \<Rightarrow> schemas \<Rightarrow> 'w requester \<Rightarrow> string \<Rightarrow> (string, py) dict \<Rightarrow> ('w, response_body) io" where
  "resume_server env sc rq server_id kwargs =
     plain_action env sc rq server_id ''resume'' kwargs"

definition pause_server ::
    "'r env \<Rightarrow> schemas \<Rightarrow> 'w requester \<Rightarrow> string \<Rightarrow> (string, py) dict \<Rightarrow> ('w, response_body) io" where
  "pause_server env sc rq server_id kwargs =
     plain_action env sc rq server_id ''pause'' kwargs"

definition unpause_server ::
    "'r env \<Rightarrow> schemas \<Rightarrow> 'w requester \<Rightarrow> string \<Rightarrow> (string, py) dict \<Rightarrow> ('w, response_body) io" where
  "unpause_server env sc rq server_id kwargs =
     plain_action env sc rq server_id ''unpause'' kwargs"

definition shelve_server ::
    "'r env \<Rightarrow> schemas \<Rightarrow> 'w requester \<Rightarrow> string \<Rightarrow> (string, py) dict \<Rightarrow> ('w, response_body) io" where
  "shelve_server env sc rq server_id kwargs =
     plain_action env sc rq server_id ''shelve'' kwargs"

definition unshelve_server ::
    "'r env \<Rightarrow> schemas \<Rightarrow> 'w requester \<Rightarrow> string \<Rightarrow> (string, py) dict \<Rightarrow> ('w, response_body) io" where
  "unshelve_server env sc rq server_id kwargs =
     plain_action env sc rq server_id ''unshelve'' kwargs"

definition shelve_offload_server ::
    "'r env \<Rightarrow> schemas \<Rightarrow> 'w requester \<Rightarrow> string \<Rightarrow> (string, py) dict \<Rightarrow> ('w, response_body) io" where
  "shelve_offload_server env sc rq server_id kwargs =
     plain_action env sc rq server_id ''shelveOffload'' kwargs"

definition force_delete_server ::
    "'r env \<Rightarrow> schemas \<Rightarrow> 'w requester \<Rightarrow> string \<Rightarrow> (string, py) dict \<Rightarrow> ('w, response_body) io" where
  "force_delete_server env sc rq server_id kwargs =
     plain_action env sc rq server_id ''forceDelete'' kwargs"

definition restore_soft_deleted_server ::
    "'r env \<Rightarrow> schemas \<Rightarrow> 'w requester \<Rightarrow> string \<Rightarrow> (string, py) dict \<Rightarrow> ('w, response_body) io" where
  "restore_soft_deleted_server env sc rq server_id kwargs =
     plain_action env sc rq server_id ''restore'' kwargs"

definition reset_network ::
    "'r env \<Rightarrow> schemas \<Rightarrow> 'w requester \<Rightarrow> string \<Rightarrow> (string, py) dict \<Rightarrow> ('w, response_body) io" where
  "reset_network env sc rq server_id kwargs =
     plain_action env sc rq server_id ''resetNetwork'' kwargs"

definition inject_network_info ::
    "'r env \<Rightarrow> schemas \<Rightarrow> 'w requester \<Rightarrow> string \<Rightarrow> (string, py) dict \<Rightarrow> ('w, response_body) io" where
  "inject_network_info env sc rq server_id kwargs =
     plain_action env sc rq server_id ''injectNetworkInfo'' kwargs"

definition add_security_group ::
    "'r env \<Rightarrow> schemas \<Rightarrow> 'w requester \<Rightarrow> string \<Rightarrow> py \<Rightarrow> ('w, response_body) io" where
  "add_security_group env sc rq server_id name =
     plain_action env sc rq server_id ''addSecurityGroup'' [(''name'', name)]"

definition remove_security_group ::
    "'r env \<Rightarrow> schemas \<Rightarrow> 'w requester \<Rightarrow> string \<Rightarrow> py \<Rightarrow> ('w, response_body) io" where
  "remove_security_group env sc rq server_id name =
     plain_action env sc rq server_id ''removeSecurityGroup'' [(''name'', name)]"

definition reset_state ::
    "'r env \<Rightarrow> schemas \<Rightarrow> 'w requester \<Rightarrow> string \<Rightarrow> py \<Rightarrow> ('w, response_body) io" where
  "reset_state env sc rq server_id state =
     plain_action env sc rq server_id ''os-resetState'' [(''state'', state)]"

definition unrescue_server ::
    "'r env \<Rightarrow> schemas \<Rightarrow> 'w requester \<Rightarrow> string \<Rightarrow> ('w, response_body) io" where
  "unrescue_server env sc rq server_id =
     plain_action env sc rq server_id ''unrescue'' []"

definition get_console_output ::
    "'r env \<Rightarrow> schemas \<Rightarrow> 'w requester \<Rightarrow> string \<Rightarrow> py \<Rightarrow> ('w, response_data) io" where
  "get_console_output env sc rq server_id len =
     action env rq server_id ''os-getConsoleOutput'' (Some ''output'') (Some (sc ''get_console_output''))
       response_data_of (if truthy len then [(''length'', len)] else [])"

definition rescue_server ::
    "'r env \<Rightarrow> schemas \<Rightarrow> 'w requester \<Rightarrow> string \<Rightarrow> (string, py) dict \<Rightarrow> ('w, response_data) io" where
  "rescue_server env sc rq server_id kwargs =
     action env rq server_id ''rescue'' (Some ''adminPass'') (Some (sc ''rescue_server'')) response_data_of kwargs"

definition get_vnc_console ::
    "'r env \<Rightarrow> schemas \<Rightarrow> 'w requester \<Rightarrow> string \<Rightarrow> py \<Rightarrow> ('w, response_body) io" where
  "get_vnc_console env sc rq server_id console_type =
     action env rq server_id ''os-getVNCConsole'' (Some ''console'') (Some (sc ''get_vnc_console''))
       response_dict [(''type'', console_type)]"

definition capture_image ::
    "'r env \<Rightarrow> schemas \<Rightarrow> 'w requester \<Rightarrow> string \<Rightarrow> py \<Rightarrow> py \<Rightarrow> (string, py) dict \<Rightarrow> ('w, response_body) io" where
  "capture_image env sc rq server_id name description kwargs =
     plain_action env sc rq server_id ''captureBootVolume'' 
       (dset (dset kwargs ''name'' name) ''description'' description)"

definition live_migrate_server ::
    "'r env \<Rightarrow> schemas \<Rightarrow> 'w requester \<Rightarrow> string \<Rightarrow> py \<Rightarrow> py \<Rightarrow> ('w, response_body) io" where
  "live_migrate_server env sc rq server_id dest_host use_block_migration =
     bnd (http_post rq (''servers/'' @ server_id @ ''/action'')
            (json_dumps env (PDict [(''os-migrateLive'', PDict
               [(''disk_over_commit'', PBool False), (''block_migration'', use_block_migration),
                (''host'', dest_host)])])) None False)
       (\<lambda>a. lift (raw_reply env (sc ''server_actions_common_schema'') a))"

section \<open>What belongs to a server\<close>

definition list_addresses ::
    "'r env \<Rightarrow> schemas \<Rightarrow> 'w requester \<Rightarrow> string \<Rightarrow> ('w, response_body) io" where
  "list_addresses env sc rq server_id =
     get_json env rq (''servers/'' @ server_id @ ''/ips'') (Some (sc ''list_addresses'')) (Some ''addresses'')"

definition list_addresses_by_network ::
    "'r env \<Rightarrow> schemas \<Rightarrow> 'w requester \<Rightarrow> string \<Rightarrow> string \<Rightarrow> ('w, response_body) io" where
  "list_addresses_by_network env sc rq server_id network_id =
     get_json env rq (''servers/'' @ server_id @ ''/ips/'' @ network_id) (Some (sc ''list_addresses_by_network'')) None"

definition get_password ::
    "'r env \<Rightarrow> schemas \<Rightarrow> 'w requester \<Rightarrow> string \<Rightarrow> ('w, response_body) io" where
  "get_password env sc rq server_id =
     get_json env rq (''servers/'' @ server_id @ ''/os-server-password'') (Some (sc ''get_password'')) None"

definition delete_password ::
    "'r env \<Rightarrow> schemas \<Rightarrow> 'w requester \<Rightarrow> string \<Rightarrow> ('w, response_body) io" where
  "delete_password env sc rq server_id =
     delete_raw env rq (''servers/'' @ server_id @ ''/os-server-password'') (sc ''server_actions_delete_password'')"

definition list_server_metadata ::
    "'r env \<Rightarrow> schemas \<Rightarrow> 'w requester \<Rightarrow> string \<Rightarrow> ('w, response_body) io" where
  "list_server_metadata env sc rq server_id =
     get_json env rq (''servers/'' @ server_id @ ''/metadata'') (Some (sc ''list_server_metadata'')) (Some ''metadata'')"

definition set_server_metadata ::
    "'r env \<Rightarrow> schemas \<Rightarrow> 'w requester \<Rightarrow> string \<Rightarrow> py \<Rightarrow> bool \<Rightarrow> ('w, response_body) io" where
  "set_server_metadata env sc rq server_id meta no_metadata_field =
     put_json env rq (''servers/'' @ server_id @ ''/metadata'')
       (if no_metadata_field then PStr [] else json_dumps env (PDict [(''metadata'', meta)]))
       (Some (sc ''set_server_metadata'')) (Some ''metadata'')"

definition update_server_metadata ::
    "'r env \<Rightarrow> schemas \<Rightarrow> 'w requester \<Rightarrow> string \<Rightarrow> py \<Rightarrow> ('w, response_body) io" where
  "update_server_metadata env sc rq server_id meta =
     post_json env rq (''servers/'' @ server_id @ ''/metadata'') (PDict [(''metadata'', meta)])
       (Some (sc ''update_server_metadata'')) (Some ''metadata'')"

definition get_server_metadata_item ::
    "'r env \<Rightarrow> schemas \<Rightarrow> 'w requester \<Rightarrow> string \<Rightarrow> string \<Rightarrow> ('w, response_body) io" where
  "get_server_metadata_item env sc rq server_id key =
     get_json env rq (''servers/'' @ server_id @ ''/metadata/'' @ key) (Some (sc ''set_get_server_metadata_item'')) (Some ''meta'')"

definition set_server_metadata_item ::
    "'r env \<Rightarrow> schemas \<Rightarrow> 'w requester \<Rightarrow> string \<Rightarrow> string \<Rightarrow> py \<Rightarrow> ('w, response_body) io" where
  "set_server_metadata_item env sc rq server_id key meta =
     put_json env rq (''servers/'' @ server_id @ ''/metadata/'' @ key) (json_dumps env (PDict [(''meta'', meta)]))
       (Some (sc ''set_get_server_metadata_item'')) (Some ''meta'')"

definition delete_server_metadata_item ::
    "'r env \<Rightarrow> schemas \<Rightarrow> 'w requester \<Rightarrow> string \<Rightarrow> string \<Rightarrow> ('w, response_body) io" where
  "delete_server_metadata_item env sc rq server_id key =
     delete_raw env rq (''servers/'' @ server_id @ ''/metadata/'' @ key) (sc ''delete_server_metadata_item'')"

definition attach_volume ::
    "'r env \<Rightarrow> schemas \<Rightarrow> 'w requester \<Rightarrow> string \<Rightarrow> py \<Rightarrow> py \<Rightarrow> ('w, response_body) io" where
  "attach_volume env sc rq server_id volume_id device =
     post_json env rq (''servers/'' @ server_id @ ''/os-volume_attachments'')
       (PDict [(''volumeAttachment'', PDict [(''volumeId'', volume_id), (''device'', device)])])
       (Some (sc ''attach_volume'')) (Some ''volumeAttachment'')"

definition detach_volume ::
    "'r env \<Rightarrow> schemas \<Rightarrow> 'w requester \<Rightarrow> string \<Rightarrow> string \<Rightarrow> ('w, response_body) io" where
  "detach_volume env sc rq server_id volume_id =
     delete_raw env rq (''servers/'' @ server_id @ ''/os-volume_attachments/'' @ volume_id) (sc ''detach_volume'')"

definition get_volume_attachment ::
    "'r env \<Rightarrow> schemas \<Rightarrow> 'w requester \<Rightarrow> string \<Rightarrow> string \<Rightarrow> ('w, response_body) io" where
  "get_volume_attachment env sc rq server_id attach_id =
     get_json env rq (''servers/'' @ server_id @ ''/os-volume_attachments/'' @ attach_id) (Some (sc ''get_volume_attachment'')) (Some ''volumeAttachment'')"

definition list_volume_attachments ::
    "'r env \<Rightarrow> schemas \<Rightarrow> 'w requester \<Rightarrow> string \<Rightarrow> ('w, response_list) io" where
  "list_volume_attachments env sc rq server_id =
     bnd (http_get rq (''servers/'' @ server_id @ ''/os-volume_attachments'') None False)
       (\<lambda>a. lift (json_list_reply env (Some (sc ''list_volume_attachments'')) (Some ''volumeAttachments'') a))"

definition list_virtual_interfaces ::
    "'r env \<Rightarrow> schemas \<Rightarrow> 'w requester \<Rightarrow> string \<Rightarrow> ('w, response_body) io" where
  "list_virtual_interfaces env sc rq server_id =
     get_json env rq (''servers/'' @ server_id @ ''/os-virtual-interfaces'') (Some (sc ''list_virtual_interfaces'')) None"

definition list_interfaces ::
    "'r env \<Rightarrow> schemas \<Rightarrow> 'w requester \<Rightarrow> string \<Rightarrow> ('w, response_body) io" where
  "list_interfaces env sc rq server_id =
     get_json env rq (''servers/'' @ server_id @ ''/os-interface'') None None"

definition get_server_diagnostics ::
    "'r env \<Rightarrow> schemas \<Rightarrow> 'w requester \<Rightarrow> string \<Rightarrow> ('w, response_body) io" where
  "get_server_diagnostics env sc rq server_id =
     get_json env rq (''servers/'' @ server_id @ ''/diagnostics'') None None"

definition list_instance_actions ::
    "'r env \<Rightarrow> schemas \<Rightarrow> 'w requester \<Rightarrow> string \<Rightarrow> ('w, response_list) io" where
  "list_instance_actions env sc rq server_id =
     bnd (http_get rq (''servers/'' @ server_id @ ''/os-instance-actions'') None False)
       (\<lambda>a. lift (json_list_reply env (Some (sc ''list_instance_actions'')) (Some ''instanceActions'') a))"

definition get_instance_action ::
    "'r env \<Rightarrow> schemas \<Rightarrow> 'w requester \<Rightarrow> string \<Rightarrow> string \<Rightarrow> ('w, response_body) io" where
  "get_instance_action env sc rq server_id request_id =
     get_json env rq (''servers/'' @ server_id @ ''/os-instance-actions/'' @ request_id) (Some (sc ''get_instance_action'')) (Some ''instanceAction'')"

section \<open>Network QoS\<close>

definition get_server_network_qos ::
    "'r env \<Rightarrow> schemas \<Rightarrow> 'w requester \<Rightarrow> string \<Rightarrow> ('w, response_body) io" where
  "get_server_network_qos env sc rq server_id =
     get_json env rq (''os-qos-setting/vif-get-detail/'' @ server_id @ ''/action'') None None"

text \<open>The body of the answer is not decoded before it is wrapped.\<close>

definition set_server_network_qos ::
    "'r env \<Rightarrow> schemas \<Rightarrow> 'w requester \<Rightarrow> py \<Rightarrow> py \<Rightarrow> py \<Rightarrow> ('w, response_body) io" where
  "set_server_network_qos env sc rq server_id current_qos_id new_qos_id =
     bnd (http_post rq ''os-qos-setting/vif-update/action''
            (json_dumps env (PDict [(''instance_uuid'', server_id), (''current_qos_id'', current_qos_id),
               (''new_qos_id'', new_qos_id)])) None False)
       (\<lambda>a. lift (response_dict (fst a) (PStr (snd a))))"

definition get_network_qos_types ::
    "'r env \<Rightarrow> schemas \<Rightarrow> 'w requester \<Rightarrow> ('w, py) io" where
  "get_network_qos_types env sc rq =
     bnd (http_get rq ''os-qos-setting/list_vif_instance_qos_types'' None False)
       (\<lambda>a. lift (bindE (json_loads env (snd a)) (\<lambda>b. py_get b ''vif_qos_list'' PNone)))"

end
