(* ===== verification/ServersProps.thy ===== *)
theory ServersProps
  imports ServerActions RestProps
begin

text \<open>
  The properties of \<open>services/compute/json/servers_client.py\<close>: the document that creates a server, what
  a returned answer guarantees, and the wait for the end of a server.
\<close>

section \<open>The wait for the end of a server\<close>

text \<open>Polling is fair when the answers do not turn back the clock and the interval is a second or more.\<close>

definition fair_client :: "rest_client \<Rightarrow> (('r, 'x) world_scheme, 'a) io \<Rightarrow> bool" where
  "fair_client c look = (1 \<le> rc_build_interval c \<and> time_mono look)"

lemma termination_round_again:
  assumes "termination_round c show_it sid ignore s w = (Inr (Inl s'), w')"
  obtains body w1 where "show_it w = (Inr body, w1)" "s' = s" "time_int w1 - s < rc_build_timeout c"
    "time_int w' = time_int w1 + rc_build_interval c"
  using assms
  by (auto simp: termination_round_def bnd_def catch_def sleep_def time_int_def
      split: prod.splits sum.splits if_splits)

interpretation server_end: clocked_loop "termination_round c show_it sid ignore"
    "rc_build_timeout c" "rc_build_interval c" start "fair_client c show_it" for c show_it sid ignore start
proof
  fix s s' w w'
  assume fair: "fair_client c show_it"
    and "termination_round c show_it sid ignore s w = (Inr (Inl s'), w')"
  then obtain body w1 where "show_it w = (Inr body, w1)" "s' = s" "time_int w1 - s < rc_build_timeout c"
    "time_int w' = time_int w1 + rc_build_interval c"
    using termination_round_again by blast
  moreover from this(1) fair have "time_int w \<le> time_int w1"
    by (auto simp: fair_client_def intro: time_int_mono dest: time_monoD)
  ultimately show "\<exists>t. s' = s \<and> time_int w \<le> t \<and> t - s < rc_build_timeout c
      \<and> time_int w' = t + rc_build_interval c \<and> 1 \<le> rc_build_interval c"
    using fair by (auto simp: fair_client_def)
qed

lemma termination_round_returned:
  assumes "termination_round c show_it sid ignore s w = (Inr (Inr u), w')"
  shows "\<exists>e. show_it w = (Inl e, w') \<and> catches NotFound e"
  using assms
  by (auto simp: termination_round_def bnd_def catch_def sleep_def split: prod.splits sum.splits if_splits)

lemma termination_round_raised:
  assumes "termination_round c show_it sid ignore s w = (Inl e, w')" "1 \<le> rc_build_interval c"
  shows "show_it w = (Inl e, w') \<and> \<not> catches NotFound e
     \<or> (\<exists>body. show_it w = (Inr body, w')
          \<and> (getitem (PDict (rb_data body)) ''status'' = Inl e
             \<or> getitem (PDict (rb_data body)) ''status'' = Inr (PStr ''ERROR'') \<and> \<not> ignore
               \<and> e = Auto BuildErrorException [] [(''server_id'', PStr sid)]
             \<or> rc_build_timeout c \<le> time_int w' - s \<and> e = Auto TimeoutException [] []))"
  using assms
  by (auto simp: termination_round_def bnd_def catch_def sleep_def simp del: getitem.simps
      split: prod.splits sum.splits if_splits)

text \<open>
  C14 (termination_wait_ends): the wait for the end of a server always ends when the interval is at least one
  second. It returns exactly when showing the server raised NotFound; it raises what showing the
  server raised, KeyError when the answer has no status, BuildErrorException when the status is ERROR
  (unless errors are ignored), or TimeoutException, the latter only when the timeout has passed.
\<close>

theorem termination_wait_ends:
  assumes fair: "fair_client c show_it"
  shows "\<exists>r w1 w'. wait_for_server_termination c show_it server_id ignore_error w = Some (r, w')
     \<and> (case r of
          Inr _ \<Rightarrow> \<exists>e. show_it w1 = (Inl e, w') \<and> catches NotFound e
        | Inl e \<Rightarrow> show_it w1 = (Inl e, w') \<and> \<not> catches NotFound e
           \<or> (\<exists>body. show_it w1 = (Inr body, w')
                \<and> (getitem (PDict (rb_data body)) ''status'' = Inl e
                   \<or> getitem (PDict (rb_data body)) ''status'' = Inr (PStr ''ERROR'') \<and> \<not> ignore_error
                     \<and> e = Auto BuildErrorException [] [(''server_id'', PStr server_id)]
                   \<or> rc_build_timeout c \<le> time_int w' - time_int w \<and> e = Auto TimeoutException [] [])))"
proof -
  have interval: "1 \<le> rc_build_interval c"
    using fair by (simp add: fair_client_def)
  have "fair_client c show_it \<and> time_int w = time_int w" using fair by simp
  from server_end.exit_round [OF this, where w = w]
  obtain w1 r w' where run: "wait_for_server_termination c show_it server_id ignore_error w = Some (r, w')"
    and exit: "termination_round c show_it server_id ignore_error (time_int w) w1 = (Inl (projl r), w') \<and> isl r
      \<or> termination_round c show_it server_id ignore_error (time_int w) w1 = (Inr (Inr (projr r)), w') \<and> \<not> isl r"
    unfolding wait_for_server_termination_def by blast
  show ?thesis
  proof (cases r)
    case (Inl e)
    with exit have "termination_round c show_it server_id ignore_error (time_int w) w1 = (Inl e, w')" by auto
    from termination_round_raised [OF this interval] run Inl show ?thesis
      by (intro exI [of _ r] exI [of _ w1] exI [of _ w']) (auto simp del: getitem.simps)
  next
    case (Inr u)
    with exit have "termination_round c show_it server_id ignore_error (time_int w) w1 = (Inr (Inr u), w')" by auto
    from termination_round_returned [OF this] run Inr show ?thesis
      by (intro exI [of _ r] exI [of _ w1] exI [of _ w']) auto
  qed
qed

definition demo_gone :: "(('r, 'x) world_scheme, response_body) io" where
  "demo_gone = throw (Auto NotFound [] [])"

theorem termination_wait_ends_witness:
  "\<exists>r w'. wait_for_server_termination (rest_client_init PNone PNone) demo_gone ''s1'' False
     (demo_world [] demo_provider) = Some (r, w')"
proof -
  have "fair_client (rest_client_init PNone PNone) demo_gone"
    by (simp add: fair_client_def rest_client_init_def demo_gone_def mono_intros)
  from termination_wait_ends [OF this] show ?thesis by blast
qed

section \<open>Creating a server\<close>

lemma add_options_get:
  "distinct (map fst opts) \<Longrightarrow>
   dget (add_options kwargs opts body) k =
     (case map_of opts k of
        None \<Rightarrow> dget body k
      | Some key \<Rightarrow> (case dget kwargs key of
           None \<Rightarrow> dget body k
         | Some v \<Rightarrow> if v = PNone then dget body k else Some v))"
proof (induction opts arbitrary: body)
  case Nil
  then show ?case by (simp add: add_options_def)
next
  case (Cons o1 opts)
  obtain p key where o1: "o1 = (p, key)" by fastforce
  define body' where "body' = (case dget kwargs key of
      None \<Rightarrow> body | Some v \<Rightarrow> if is_none v then body else dset body p v)"
  have step: "add_options kwargs ((p, key) # opts) body = add_options kwargs opts body'"
    by (simp add: add_options_def body'_def)
  have "map_of opts p = None" if "p = k"
    using Cons.prems o1 by (simp add: map_of_eq_None_iff)
  with Cons show ?case
    by (auto simp: o1 step body'_def is_none_def split: option.splits)
qed

lemma create_options_distinct: "distinct (map fst create_options)"
  by (simp add: create_options_def)

text \<open>
  (create_document): the document that creates a server has under \<open>server\<close> the name, the image and the
  flavor, every keyword argument of the table of options whose value is not None, under the name the
  API gives it, and nothing else; scheduler hints stand beside it, exactly when they are given.
\<close>

theorem create_document:
  "\<exists>d s. create_server_body name image_ref flavor_ref kwargs = PDict d
     \<and> dget d ''server'' = Some (PDict s)
     \<and> dget d ''os:scheduler_hints'' = dget kwargs ''sched_hints''
     \<and> (\<forall>k. dget s k = (case map_of create_options k of
             None \<Rightarrow> dget [(''name'', name), (''imageRef'', image_ref), (''flavorRef'', flavor_ref)] k
           | Some key \<Rightarrow> (case dget kwargs key of
                None \<Rightarrow> None
              | Some v \<Rightarrow> if v = PNone then None else Some v)))"
proof -
  let ?base = "[(''name'', name), (''imageRef'', image_ref), (''flavorRef'', flavor_ref)]"
  define s where "s = add_options kwargs create_options ?base"
  define d where "d = (case dget kwargs ''sched_hints'' of
      None \<Rightarrow> [(''server'', PDict s)] | Some h \<Rightarrow> [(''server'', PDict s), (''os:scheduler_hints'', h)])"
  have base: "dget ?base k = None" if "map_of create_options k = Some key" for k key
    using that by (auto simp: create_options_def split: if_splits)
  have "create_server_body name image_ref flavor_ref kwargs = PDict d"
    by (simp add: create_server_body_def s_def d_def split: option.splits)
  moreover have "dget d ''server'' = Some (PDict s)" "dget d ''os:scheduler_hints'' = dget kwargs ''sched_hints''"
    by (simp_all add: d_def split: option.splits)
  moreover have "dget s k = (case map_of create_options k of
             None \<Rightarrow> dget ?base k
           | Some key \<Rightarrow> (case dget kwargs key of
                None \<Rightarrow> None
              | Some v \<Rightarrow> if v = PNone then None else Some v))" for k
    unfolding s_def add_options_get [OF create_options_distinct]
    by (simp add: base del: dget_Cons split: option.splits)
  ultimately show ?thesis by blast
qed

section \<open>What the answers guarantee\<close>

lemma demo_join_plain: "join_url ''http://nova/v2/p1'' (Some ''servers'') = ''http://nova/v2/p1/servers''"
  by (simp add: join_url_def urlparse_def split_scheme_def split_netloc_def before_def after_def
      scheme_char_def is_digit_def all_digits_def netloc_end_def str_lower_def char_lower_def
      uses_params_def split_params_def last_segment_def urlunparse_def uses_netloc_def)

lemma demo_request:
  assumes "200 \<le> st" "st < 300" "tx = [] \<or> st \<notin> {204, 205}" "str_upper m \<noteq> ''HEAD''"
    and "join_url ''http://nova/v2/p1'' (Some u) = full"
  shows "\<exists>w'. request (demo_env docs) demo_client m u False None b (demo_world [(st, [], tx)] demo_provider)
     = (Inr (\<lparr>rs_status = st, rs_headers = []\<rparr>, tx), w')"
  using demo_send_to [of "[(st, [], tx)]" st "[]" tx "[]" "demo_world [(st, [], tx)] demo_provider" 0 u full
      docs m "get_headers None None" b] assms
  by (auto simp: request_def exchange_def effective_headers_def bnd_def demo_world_def response_checker_def
      MAX_RECURSION_DEPTH_def numeral_2_eq_2 rate_limited_def error_checker_def Let_def)

definition demo_schemas :: schemas where
  "demo_schemas = (\<lambda>name. \<lparr>sc_status = Code 202, sc_body = PNone, sc_header = PNone\<rparr>)"

text \<open>A response accepted by the validation against one status code, received through \<open>request\<close>.\<close>

lemma validated_status:
  assumes "request env c m u x h b w = (Inr (resp, tx), w')"
    and "validate_response env schema resp v = Inr ()"
    and known: "rs_status resp \<in> {200..207} \<union> {300..307}"
  shows "rs_status resp \<in> set (exp_codes (sc_status schema))"
proof -
  have "rs_status resp \<in> set (HTTP_SUCCESS @ HTTP_REDIRECTION)"
    unfolding HTTP_SUCCESS_def HTTP_REDIRECTION_def using known by auto
  then have "expected_success (sc_status schema) (rs_status resp) = Inr ()"
    using assms(2) by (auto simp: validate_response_def)
  moreover have "rs_status resp < 400" using assms(1) by (rule rest.no_error)
  ultimately show ?thesis by (simp add: expected_success_iff)
qed

lemma response_dict_response: "response_dict resp part = Inr b \<Longrightarrow> rb_response b = resp"
  by (cases part) (auto split: if_splits)

text \<open>
  (created_server): what \<open>create_server\<close> returns is the answer to one POST of the document to \<open>servers\<close>.
  Either the decoded answer has a reservation id and is returned whole and unchecked, or it passed the
  validation against the schema that the configuration of the password selects, and its \<open>server\<close> part
  is returned.
\<close>

theorem created_server:
  assumes "create_server env sc pw (request env c) name image_ref flavor_ref kwargs w = (Inr b, w')"
  shows "\<exists>tx v. request env c ''POST'' ''servers'' False None
        (PStr (e_dumps env (create_server_body name image_ref flavor_ref kwargs))) w
        = (Inr (rb_response b, tx), w')
     \<and> rs_status (rb_response b) < 400 \<and> e_loads env tx = Some v
     \<and> (if py_in ''reservation_id'' v = Inr True then v = PDict (rb_data b)
        else validate_response env (sc (if pw then ''create_server_with_admin_pass'' else ''create_server''))
               (rb_response b) v = Inr ()
           \<and> (\<exists>part. getitem v ''server'' = Inr part \<and> response_dict (rb_response b) part = Inr b))"
proof -
  obtain resp tx where post: "request env c ''POST'' ''servers'' False None
        (PStr (e_dumps env (create_server_body name image_ref flavor_ref kwargs))) w = (Inr (resp, tx), w')"
      and reply: "create_server_reply env sc pw (resp, tx) = Inr b"
    using assms by (auto simp: create_server_def http_post_def json_dumps_def elim!: bnd_InrE)
  obtain v where v: "e_loads env tx = Some v"
    using reply by (auto simp: create_server_reply_def json_loads_def split: option.splits)
  have "rs_status resp < 400"
    using rest.no_error [OF post] .
  moreover have "rb_response b = resp \<and> (if py_in ''reservation_id'' v = Inr True then v = PDict (rb_data b)
        else validate_response env (sc (if pw then ''create_server_with_admin_pass'' else ''create_server''))
               (rb_response b) v = Inr ()
           \<and> (\<exists>part. getitem v ''server'' = Inr part \<and> response_dict (rb_response b) part = Inr b))"
  proof (cases "py_in ''reservation_id'' v = Inr True")
    case True
    then have "response_dict resp v = Inr b"
      using reply v by (simp add: create_server_reply_def json_loads_def)
    with True response_dict_response [OF this] show ?thesis
      by (cases v; cases b) (auto split: if_splits)
  next
    case False
    then show ?thesis
      using reply v response_dict_response [of resp _ b]
      by (auto simp: create_server_reply_def json_loads_def simp del: getitem.simps)
  qed
  ultimately show ?thesis
    using post v by auto
qed

theorem created_server_witness:
  "\<exists>b w'. create_server (demo_env [(''{r}'', PDict [(''reservation_id'', PStr ''r1'')])]) demo_schemas True
     (request (demo_env [(''{r}'', PDict [(''reservation_id'', PStr ''r1'')])]) demo_client)
     (PStr ''vm'') (PStr ''i1'') (PStr ''1'') [] (demo_world [(202, [], ''{r}'')] demo_provider) = (Inr b, w')
     \<and> rs_status (rb_response b) < 400"
proof -
  let ?env = "demo_env [(''{r}'', PDict [(''reservation_id'', PStr ''r1'')])]"
  obtain w' where "request ?env demo_client ''POST'' ''servers'' False None
      (PStr (e_dumps ?env (create_server_body (PStr ''vm'') (PStr ''i1'') (PStr ''1'') [])))
      (demo_world [(202, [], ''{r}'')] demo_provider) = (Inr (\<lparr>rs_status = 202, rs_headers = []\<rparr>, ''{r}''), w')"
    using demo_request [OF _ _ _ _ demo_join_plain, where st = 202 and tx = "''{r}''" and m = "''POST''"
        and docs = "[(''{r}'', PDict [(''reservation_id'', PStr ''r1'')])]"]
    by (auto simp: str_upper_def char_upper_def)
  then have "create_server ?env demo_schemas True (request ?env demo_client) (PStr ''vm'') (PStr ''i1'') (PStr ''1'') []
      (demo_world [(202, [], ''{r}'')] demo_provider)
    = (Inr \<lparr>rb_response = \<lparr>rs_status = 202, rs_headers = []\<rparr>, rb_data = [(''reservation_id'', PStr ''r1'')]\<rparr>, w')"
    by (simp add: create_server_def http_post_def json_dumps_def bnd_Inr create_server_reply_def json_loads_def
        demo_env_def dhas_def)
  with created_server [OF this] show ?thesis by auto
qed

text \<open>
  (action_returns_empty): an action without a response key returns only an answer without a body, and with
  a status code of the common schema when it is a success or a redirection of the known ranges; any
  body makes it raise.
\<close>

theorem action_returns_empty:
  assumes "plain_action env sc (request env c) server_id action_name kwargs w = (Inr b, w')"
  shows "request env c ''POST'' (''servers/'' @ server_id @ ''/action'') False None
       (PStr (e_dumps env (PDict [(action_name, PDict kwargs)]))) w = (Inr (rb_response b, []), w')
     \<and> rb_data b = []
     \<and> (rs_status (rb_response b) \<in> set (exp_codes (sc_status (sc ''server_actions_common_schema'')))
          \<or> rs_status (rb_response b) \<in> - ({200..207} \<union> {300..307}))"
proof -
  obtain resp tx where post: "request env c ''POST'' (''servers/'' @ server_id @ ''/action'') False None
       (PStr (e_dumps env (PDict [(action_name, PDict kwargs)]))) w = (Inr (resp, tx), w')"
      and reply: "action_reply env None (Some (sc ''server_actions_common_schema'')) response_dict (resp, tx) = Inr b"
    using assms
    by (auto simp: plain_action_def action_def http_post_def json_dumps_def elim!: bnd_InrE)
  from reply have valid: "validate_response env (sc ''server_actions_common_schema'') resp (PStr tx) = Inr ()"
      and wrapped: "response_dict resp (PStr tx) = Inr b"
    by (auto simp: action_reply_def validate_optional_def simp del: response_dict.simps)
  from wrapped have "tx = []" "rb_response b = resp" "rb_data b = []"
    by (auto split: if_splits)
  with post validated_status [OF post valid] show ?thesis by auto
qed

theorem action_returns_empty_witness:
  "\<exists>b w'. plain_action (demo_env []) demo_schemas (request (demo_env []) demo_client) ''s1'' ''os-stop'' []
     (demo_world [(202, [], [])] demo_provider) = (Inr b, w') \<and> rb_data b = []"
proof -
  have join: "join_url ''http://nova/v2/p1'' (Some ''servers/s1/action'') = ''http://nova/v2/p1/servers/s1/action''"
    by (simp add: join_url_def urlparse_def split_scheme_def split_netloc_def before_def after_def
      scheme_char_def is_digit_def all_digits_def netloc_end_def str_lower_def char_lower_def
      uses_params_def split_params_def last_segment_def urlunparse_def uses_netloc_def)
  obtain w' where "request (demo_env []) demo_client ''POST'' (''servers/'' @ ''s1'' @ ''/action'') False None
      (PStr (e_dumps (demo_env []) (PDict [(''os-stop'', PDict [])])))
      (demo_world [(202, [], [])] demo_provider) = (Inr (\<lparr>rs_status = 202, rs_headers = []\<rparr>, []), w')"
    using demo_request [OF _ _ _ _ join, where st = 202 and tx = "[]" and m = "''POST''" and docs = "[]"]
    by (auto simp: str_upper_def char_upper_def)
  then have "plain_action (demo_env []) demo_schemas (request (demo_env []) demo_client) ''s1'' ''os-stop'' []
      (demo_world [(202, [], [])] demo_provider)
    = (Inr \<lparr>rb_response = \<lparr>rs_status = 202, rs_headers = []\<rparr>, rb_data = []\<rparr>, w')"
    by (simp add: plain_action_def action_def http_post_def json_dumps_def bnd_Inr action_reply_def
        validate_optional_def demo_schemas_def validate_response_def HTTP_SUCCESS_def HTTP_REDIRECTION_def
        expected_success_def check_body_def check_header_def)
  with action_returns_empty [OF this] show ?thesis by (auto simp: demo_schemas_def)
qed

text \<open>
  (qos_update_refuses_answer): setting the network QoS of a server wraps the undecoded text of the answer
  in a ResponseBody: with any text, the JSON document the service sends included, it raises ValueError.
\<close>

theorem qos_update_refuses_answer:
  assumes "rq ''POST'' ''os-qos-setting/vif-update/action'' False None
       (json_dumps env (PDict [(''instance_uuid'', server_id), (''current_qos_id'', cur),
          (''new_qos_id'', new)])) w = (Inr (resp, c # cs), w')"
  shows "set_server_network_qos env sc rq server_id cur new w = (Inl ValueErr, w')"
  using assms by (simp add: set_server_network_qos_def http_post_def bnd_Inr)

theorem qos_update_refuses_answer_witness:
  "set_server_network_qos (demo_env []) demo_schemas
     (\<lambda>m u x h b w. (Inr (\<lparr>rs_status = 200, rs_headers = []\<rparr>, ''{}''), w)) (PStr ''s1'') PNone PNone ()
   = (Inl ValueErr, ())"
  by (rule qos_update_refuses_answer) simp

end
