(* ===== verification/NetworkClient.thy ===== *)
theory NetworkClient
  imports ServersClient
begin

text \<open>
  The network client, \<open>automation/services/network/json/network_client.py\<close>: five operations on
  resources, the methods built from them, and the waits.
\<close>

section \<open>Operations on resources\<close>

definition uri_prefix :: string where
  "uri_prefix = ''v2.0''"

text \<open>\<open>urllib.urlencode(params, doseq=1)\<close>: a value with a length other than a text is spread.\<close>

fun spread :: "(py \<Rightarrow> string) \<Rightarrow> py \<Rightarrow> string list" where
  "spread rp (PList xs) = map (py_text rp) xs"
| "spread rp (PDict d) = dkeys d"
| "spread rp v = [py_text rp v]"

definition urlencode_doseq :: "'r env \<Rightarrow> (string, py) dict \<Rightarrow> string" where
  "urlencode_doseq env params =
     urlencode (concat (map (\<lambda>(k, v). map (Pair k) (spread (e_repr env) v)) params))"

definition resource_uri :: "'r env \<Rightarrow> string \<Rightarrow> (string, py) dict \<Rightarrow> string" where
  "resource_uri env uri flds =
     uri_prefix @ uri @ (if flds \<noteq> [] then ''?'' @ urlencode_doseq env flds else [])"

text \<open>The end of the operations: decode the text, then check the status.\<close>

definition resource_reply :: "'r env \<Rightarrow> int \<Rightarrow> answer \<Rightarrow> pyexc + response_body" where
  "resource_reply env code a =
     bindE (json_loads env (snd a)) (\<lambda>b.
     bindE (expected_success (Code code) (rs_status (fst a))) (\<lambda>_. response_dict (fst a) b))"

definition list_resources ::
    "'r env \<Rightarrow> 'w requester \<Rightarrow> string \<Rightarrow> (string, py) dict \<Rightarrow> ('w, response_body) io" where
  "list_resources env rq uri fltrs =
     bnd (http_get rq (resource_uri env uri fltrs) None False) (\<lambda>a. lift (resource_reply env 200 a))"

definition delete_resource :: "'w requester \<Rightarrow> string \<Rightarrow> ('w, response_body) io" where
  "delete_resource rq uri =
     bnd (http_delete rq (uri_prefix @ uri) None PNone False) (\<lambda>a. lift (
       bindE (expected_success (Code 204) (rs_status (fst a))) (\<lambda>_. response_dict (fst a) (PStr (snd a)))))"

definition show_resource ::
    "'r env \<Rightarrow> 'w requester \<Rightarrow> string \<Rightarrow> (string, py) dict \<Rightarrow> ('w, response_body) io" where
  "show_resource env rq uri flds =
     bnd (http_get rq (resource_uri env uri flds) None False) (\<lambda>a. lift (resource_reply env 200 a))"

definition create_resource :: "'r env \<Rightarrow> 'w requester \<Rightarrow> string \<Rightarrow> py \<Rightarrow> ('w, response_body) io" where
  "create_resource env rq uri post_data =
     bnd (http_post rq (uri_prefix @ uri) (json_dumps env post_data) None False)
       (\<lambda>a. lift (resource_reply env 201 a))"

definition update_resource :: "'r env \<Rightarrow> 'w requester \<Rightarrow> string \<Rightarrow> py \<Rightarrow> ('w, response_body) io" where
  "update_resource env rq uri post_data =
     bnd (http_put rq (uri_prefix @ uri) (json_dumps env post_data) None False)
       (\<lambda>a. lift (resource_reply env 200 a))"

section \<open>The methods\<close>

definition create_network ::
    "'r env \<Rightarrow> 'w requester \<Rightarrow> (string, py) dict \<Rightarrow> ('w, response_body) io" where
  "create_network env rq kwargs =
     create_resource env rq ''/networks'' (PDict [(''network'', PDict kwargs)])"

definition update_network ::
    "'r env \<Rightarrow> 'w requester \<Rightarrow> string \<Rightarrow> (string, py) dict \<Rightarrow> ('w, response_body) io" where
  "update_network env rq network_id kwargs =
     update_resource env rq (''/networks/'' @ network_id) (PDict [(''network'', PDict kwargs)])"

definition show_network ::
    "'r env \<Rightarrow> 'w requester \<Rightarrow> string \<Rightarrow> (string, py) dict \<Rightarrow> ('w, response_body) io" where
  "show_network env rq network_id flds =
     show_resource env rq (''/networks/'' @ network_id) flds"

definition delete_network :: "'w requester \<Rightarrow> string \<Rightarrow> ('w, response_body) io" where
  "delete_network rq network_id = delete_resource rq (''/networks/'' @ network_id)"

definition list_networks ::
    "'r env \<Rightarrow> 'w requester \<Rightarrow> (string, py) dict \<Rightarrow> ('w, response_body) io" where
  "list_networks env rq flt =
     list_resources env rq ''/networks'' flt"

definition create_subnet ::
    "'r env \<Rightarrow> 'w requester \<Rightarrow> (string, py) dict \<Rightarrow> ('w, response_body) io" where
  "create_subnet env rq kwargs =
     create_resource env rq ''/subnets'' (PDict [(''subnet'', PDict kwargs)])"

definition update_subnet ::
    "'r env \<Rightarrow> 'w requester \<Rightarrow> string \<Rightarrow> (string, py) dict \<Rightarrow> ('w, response_body) io" where
  "update_subnet env rq subnet_id kwargs =
     update_resource env rq (''/subnets/'' @ subnet_id) (PDict [(''subnet'', PDict kwargs)])"

definition show_subnet ::
    "'r env \<Rightarrow> 'w requester \<Rightarrow> string \<Rightarrow> (string, py) dict \<Rightarrow> ('w, response_body) io" where
  "show_subnet env rq subnet_id flds =
     show_resource env rq (''/subnets/'' @ subnet_id) flds"

definition delete_subnet :: "'w requester \<Rightarrow> string \<Rightarrow> ('w, response_body) io" where
  "delete_subnet rq subnet_id = delete_resource rq (''/subnets/'' @ subnet_id)"

definition list_subnets ::
    "'r env \<Rightarrow> 'w requester \<Rightarrow> (string, py) dict \<Rightarrow> ('w, response_body) io" where
  "list_subnets env rq flt =
     list_resources env rq ''/subnets'' flt"

definition create_port ::
    "'r env \<Rightarrow> 'w requester \<Rightarrow> (string, py) dict \<Rightarrow> ('w, response_body) io" where
  "create_port env rq kwargs =
     create_resource env rq ''/ports'' (PDict [(''port'', PDict kwargs)])"

definition update_port ::
    "'r env \<Rightarrow> 'w requester \<Rightarrow> string \<Rightarrow> (string, py) dict \<Rightarrow> ('w, response_body) io" where
  "update_port env rq port_id kwargs =
     update_resource env rq (''/ports/'' @ port_id) (PDict [(''port'', PDict kwargs)])"

definition show_port ::
    "'r env \<Rightarrow> 'w requester \<Rightarrow> string \<Rightarrow> (string, py) dict \<Rightarrow> ('w, response_body) io" where
  "show_port env rq port_id flds =
     show_resource env rq (''/ports/'' @ port_id) flds"

definition delete_port :: "'w requester \<Rightarrow> string \<Rightarrow> ('w, response_body) io" where
  "delete_port rq port_id = delete_resource rq (''/ports/'' @ port_id)"

definition list_ports ::
    "'r env \<Rightarrow> 'w requester \<Rightarrow> (string, py) dict \<Rightarrow> ('w, response_body) io" where
  "list_ports env rq flt =
     list_resources env rq ''/ports'' flt"

definition create_floatingip ::
    "'r env \<Rightarrow> 'w requester \<Rightarrow> (string, py) dict \<Rightarrow> ('w, response_body) io" where
  "create_floatingip env rq kwargs =
     create_resource env rq ''/floatingips'' (PDict [(''floatingip'', PDict kwargs)])"

definition update_floatingip ::
    "'r env \<Rightarrow> 'w requester \<Rightarrow> string \<Rightarrow> (string, py) dict \<Rightarrow> ('w, response_body) io" where
  "update_floatingip env rq floatingip_id kwargs =
     update_resource env rq (''/floatingips/'' @ floatingip_id) (PDict [(''floatingip'', PDict kwargs)])"

definition show_floatingip ::
    "'r env \<Rightarrow> 'w requester \<Rightarrow> string \<Rightarrow> (string, py) dict \<Rightarrow> ('w, response_body) io" where
  "show_floatingip env rq floatingip_id flds =
     show_resource env rq (''/floatingips/'' @ floatingip_id) flds"

definition delete_floatingip :: "'w requester \<Rightarrow> string \<Rightarrow> ('w, response_body) io" where
  "delete_floatingip rq floatingip_id = delete_resource rq (''/floatingips/'' @ floatingip_id)"

definition list_floatingips ::
    "'r env \<Rightarrow> 'w requester \<Rightarrow> (string, py) dict \<Rightarrow> ('w, response_body) io" where
  "list_floatingips env rq flt =
     list_resources env rq ''/floatingips'' flt"

definition create_metering_label ::
    "'r env \<Rightarrow> 'w requester \<Rightarrow> (string, py) dict \<Rightarrow> ('w, response_body) io" where
  "create_metering_label env rq kwargs =
     create_resource env rq ''/metering/metering-labels'' (PDict [(''metering_label'', PDict kwargs)])"

definition show_metering_label ::
    "'r env \<Rightarrow> 'w requester \<Rightarrow> string \<Rightarrow> (string, py) dict \<Rightarrow> ('w, response_body) io" where
  "show_metering_label env rq metering_label_id flds =
     show_resource env rq (''/metering/metering-labels/'' @ metering_label_id) flds"

definition delete_metering_label :: "'w requester \<Rightarrow> string \<Rightarrow> ('w, response_body) io" where
  "delete_metering_label rq metering_label_id = delete_resource rq (''/metering/metering-labels/'' @ metering_label_id)"

definition list_metering_labels ::
    "'r env \<Rightarrow> 'w requester \<Rightarrow> (string, py) dict \<Rightarrow> ('w, response_body) io" where
  "list_metering_labels env rq flt =
     list_resources env rq ''/metering/metering-labels'' flt"

definition create_metering_label_rule ::
    "'r env \<Rightarrow> 'w requester \<Rightarrow> (string, py) dict \<Rightarrow> ('w, response_body) io" where
  "create_metering_label_rule env rq kwargs =
     create_resource env rq ''/metering/metering-label-rules'' (PDict [(''metering_label_rule'', PDict kwargs)])"

definition show_metering_label_rule ::
    "'r env \<Rightarrow> 'w requester \<Rightarrow> string \<Rightarrow> (string, py) dict \<Rightarrow> ('w, response_body) io" where
  "show_metering_label_rule env rq metering_label_rule_id flds =
     show_resource env rq (''/metering/metering-label-rules/'' @ metering_label_rule_id) flds"

definition delete_metering_label_rule :: "'w requester \<Rightarrow> string \<Rightarrow> ('w, response_body) io" where
  "delete_metering_label_rule rq metering_label_rule_id = delete_resource rq (''/metering/metering-label-rules/'' @ metering_label_rule_id)"

definition list_metering_label_rules ::
    "'r env \<Rightarrow> 'w requester \<Rightarrow> (string, py) dict \<Rightarrow> ('w, response_body) io" where
  "list_metering_label_rules env rq flt =
     list_resources env rq ''/metering/metering-label-rules'' flt"

definition create_security_group ::
    "'r env \<Rightarrow> 'w requester \<Rightarrow> (string, py) dict \<Rightarrow> ('w, response_body) io" where
  "create_security_group env rq kwargs =
     create_resource env rq ''/security-groups'' (PDict [(''security_group'', PDict kwargs)])"

definition update_security_group ::
    "'r env \<Rightarrow> 'w requester \<Rightarrow> string \<Rightarrow> (string, py) dict \<Rightarrow> ('w, response_body) io" where
  "update_security_group env rq security_group_id kwargs =
     update_resource env rq (''/security-groups/'' @ security_group_id) (PDict [(''security_group'', PDict kwargs)])"

definition show_security_group ::
    "'r env \<Rightarrow> 'w requester \<Rightarrow> string \<Rightarrow> (string, py) dict \<Rightarrow> ('w, response_body) io" where
  "show_security_group env rq security_group_id flds =
     show_resource env rq (''/security-groups/'' @ security_group_id) flds"

definition delete_security_group :: "'w requester \<Rightarrow> string \<Rightarrow> ('w, response_body) io" where
  "delete_security_group rq security_group_id = delete_resource rq (''/security-groups/'' @ security_group_id)"

definition list_security_groups ::
    "'r env \<Rightarrow> 'w requester \<Rightarrow> (string, py) dict \<Rightarrow> ('w, response_body) io" where
  "list_security_groups env rq flt =
     list_resources env rq ''/security-groups'' flt"

definition create_security_group_rule ::
    "'r env \<Rightarrow> 'w requester \<Rightarrow> (string, py) dict \<Rightarrow> ('w, response_body) io" where
  "create_security_group_rule env rq kwargs =
     create_resource env rq ''/security-group-rules'' (PDict [(''security_group_rule'', PDict kwargs)])"

definition show_security_group_rule ::
    "'r env \<Rightarrow> 'w requester \<Rightarrow> string \<Rightarrow> (string, py) dict \<Rightarrow> ('w, response_body) io" where
  "show_security_group_rule env rq security_group_rule_id flds =
     show_resource env rq (''/security-group-rules/'' @ security_group_rule_id) flds"

definition delete_security_group_rule :: "'w requester \<Rightarrow> string \<Rightarrow> ('w, response_body) io" where
  "delete_security_group_rule rq security_group_rule_id = delete_resource rq (''/security-group-rules/'' @ security_group_rule_id)"

definition list_security_group_rules ::
    "'r env \<Rightarrow> 'w requester \<Rightarrow> (string, py) dict \<Rightarrow> ('w, response_body) io" where
  "list_security_group_rules env rq flt =
     list_resources env rq ''/security-group-rules'' flt"

definition create_firewall_rule ::
    "'r env \<Rightarrow> 'w requester \<Rightarrow> (string, py) dict \<Rightarrow> ('w, response_body) io" where
  "create_firewall_rule env rq kwargs =
     create_resource env rq ''/fw/firewall_rules'' (PDict [(''firewall_rule'', PDict kwargs)])"

definition update_firewall_rule ::
    "'r env \<Rightarrow> 'w requester \<Rightarrow> string \<Rightarrow> (string, py) dict \<Rightarrow> ('w, response_body) io" where
  "update_firewall_rule env rq firewall_rule_id kwargs =
     update_resource env rq (''/fw/firewall_rules/'' @ firewall_rule_id) (PDict [(''firewall_rule'', PDict kwargs)])"

definition show_firewall_rule ::
    "'r env \<Rightarrow> 'w requester \<Rightarrow> string \<Rightarrow> (string, py) dict \<Rightarrow> ('w, response_body) io" where
  "show_firewall_rule env rq firewall_rule_id flds =
     show_resource env rq (''/fw/firewall_rules/'' @ firewall_rule_id) flds"

definition delete_firewall_rule :: "'w requester \<Rightarrow> string \<Rightarrow> ('w, response_body) io" where
  "delete_firewall_rule rq firewall_rule_id = delete_resource rq (''/fw/firewall_rules/'' @ firewall_rule_id)"

definition create_firewall_policy ::
    "'r env \<Rightarrow> 'w requester \<Rightarrow> (string, py) dict \<Rightarrow> ('w, response_body) io" where
  "create_firewall_policy env rq kwargs =
     create_resource env rq ''/fw/firewall_policies'' (PDict [(''firewall_policy'', PDict kwargs)])"

definition update_firewall_policy ::
    "'r env \<Rightarrow> 'w requester \<Rightarrow> string \<Rightarrow> (string, py) dict \<Rightarrow> ('w, response_body) io" where
  "update_firewall_policy env rq firewall_policy_id kwargs =
     update_resource env rq (''/fw/firewall_policies/'' @ firewall_policy_id) (PDict [(''firewall_policy'', PDict kwargs)])"

definition show_firewall_policy ::
    "'r env \<Rightarrow> 'w requester \<Rightarrow> string \<Rightarrow> (string, py) dict \<Rightarrow> ('w, response_body) io" where
  "show_firewall_policy env rq firewall_policy_id flds =
     show_resource env rq (''/fw/firewall_policies/'' @ firewall_policy_id) flds"

definition delete_firewall_policy :: "'w requester \<Rightarrow> string \<Rightarrow> ('w, response_body) io" where
  "delete_firewall_policy rq firewall_policy_id = delete_resource rq (''/fw/firewall_policies/'' @ firewall_policy_id)"

definition create_firewall ::
    "'r env \<Rightarrow> 'w requester \<Rightarrow> (string, py) dict \<Rightarrow> ('w, response_body) io" where
  "create_firewall env rq kwargs =
     create_resource env rq ''/fw/firewalls'' (PDict [(''firewall'', PDict kwargs)])"

definition update_firewall ::
    "'r env \<Rightarrow> 'w requester \<Rightarrow> string \<Rightarrow> (string, py) dict \<Rightarrow> ('w, response_body) io" where
  "update_firewall env rq firewall_id kwargs =
     update_resource env rq (''/fw/firewalls/'' @ firewall_id) (PDict [(''firewall'', PDict kwargs)])"

definition show_firewall ::
    "'r env \<Rightarrow> 'w requester \<Rightarrow> string \<Rightarrow> (string, py) dict \<Rightarrow> ('w, response_body) io" where
  "show_firewall env rq firewall_id flds =
     show_resource env rq (''/fw/firewalls/'' @ firewall_id) flds"

definition delete_firewall :: "'w requester \<Rightarrow> string \<Rightarrow> ('w, response_body) io" where
  "delete_firewall rq firewall_id = delete_resource rq (''/fw/firewalls/'' @ firewall_id)"

definition show_extension ::
    "'r env \<Rightarrow> 'w requester \<Rightarrow> string \<Rightarrow> (string, py) dict \<Rightarrow> ('w, response_body) io" where
  "show_extension env rq ext_alias flds =
     show_resource env rq (''/extensions/'' @ ext_alias) flds"

definition list_extensions ::
    "'r env \<Rightarrow> 'w requester \<Rightarrow> (string, py) dict \<Rightarrow> ('w, response_body) io" where
  "list_extensions env rq flt =
     list_resources env rq ''/extensions'' flt"

definition update_quotas ::
    "'r env \<Rightarrow> 'w requester \<Rightarrow> string \<Rightarrow> (string, py) dict \<Rightarrow> ('w, response_body) io" where
  "update_quotas env rq tenant_id kwargs =
     update_resource env rq (''/quotas/'' @ tenant_id) (PDict [(''quota'', PDict kwargs)])"

definition reset_quotas :: "'w requester \<Rightarrow> string \<Rightarrow> ('w, response_body) io" where
  "reset_quotas rq tenant_id = delete_resource rq (''/quotas/'' @ tenant_id)"

definition show_quotas ::
    "'r env \<Rightarrow> 'w requester \<Rightarrow> string \<Rightarrow> (string, py) dict \<Rightarrow> ('w, response_body) io" where
  "show_quotas env rq tenant_id flds =
     show_resource env rq (''/quotas/'' @ tenant_id) flds"

definition list_quotas ::
    "'r env \<Rightarrow> 'w requester \<Rightarrow> (string, py) dict \<Rightarrow> ('w, response_body) io" where
  "list_quotas env rq flt =
     list_resources env rq ''/quotas'' flt"

definition show_router ::
    "'r env \<Rightarrow> 'w requester \<Rightarrow> string \<Rightarrow> (string, py) dict \<Rightarrow> ('w, response_body) io" where
  "show_router env rq router_id flds =
     show_resource env rq (''/routers/'' @ router_id) flds"

definition delete_router :: "'w requester \<Rightarrow> string \<Rightarrow> ('w, response_body) io" where
  "delete_router rq router_id = delete_resource rq (''/routers/'' @ router_id)"

definition list_routers ::
    "'r env \<Rightarrow> 'w requester \<Rightarrow> (string, py) dict \<Rightarrow> ('w, response_body) io" where
  "list_routers env rq flt =
     list_resources env rq ''/routers'' flt"

definition add_router_interface_with_subnet_id ::
    "'r env \<Rightarrow> 'w requester \<Rightarrow> string \<Rightarrow> py \<Rightarrow> ('w, response_body) io" where
  "add_router_interface_with_subnet_id env rq router_id subnet_id =
     update_resource env rq (''/routers/'' @ router_id @ ''/add_router_interface'') (PDict [(''subnet_id'', subnet_id)])"

definition add_router_interface_with_port_id ::
    "'r env \<Rightarrow> 'w requester \<Rightarrow> string \<Rightarrow> py \<Rightarrow> ('w, response_body) io" where
  "add_router_interface_with_port_id env rq router_id port_id =
     update_resource env rq (''/routers/'' @ router_id @ ''/add_router_interface'') (PDict [(''port_id'', port_id)])"

definition remove_router_interface_with_subnet_id ::
    "'r env \<Rightarrow> 'w requester \<Rightarrow> string \<Rightarrow> py \<Rightarrow> ('w, response_body) io" where
  "remove_router_interface_with_subnet_id env rq router_id subnet_id =
     update_resource env rq (''/routers/'' @ router_id @ ''/remove_router_interface'') (PDict [(''subnet_id'', subnet_id)])"

definition remove_router_interface_with_port_id ::
    "'r env \<Rightarrow> 'w requester \<Rightarrow> string \<Rightarrow> py \<Rightarrow> ('w, response_body) io" where
  "remove_router_interface_with_port_id env rq router_id port_id =
     update_resource env rq (''/routers/'' @ router_id @ ''/remove_router_interface'') (PDict [(''port_id'', port_id)])"

definition list_router_interfaces ::
    "'r env \<Rightarrow> 'w requester \<Rightarrow> string \<Rightarrow> ('w, response_body) io" where
  "list_router_interfaces env rq uuid =
     list_resources env rq (''/ports?device_id='' @ uuid) []"

definition show_agent ::
    "'r env \<Rightarrow> 'w requester \<Rightarrow> string \<Rightarrow> (string, py) dict \<Rightarrow> ('w, response_body) io" where
  "show_agent env rq agent_id flds =
     show_resource env rq (''/agents/'' @ agent_id) flds"

definition list_agents ::
    "'r env \<Rightarrow> 'w requester \<Rightarrow> (string, py) dict \<Rightarrow> ('w, response_body) io" where
  "list_agents env rq flt =
     list_resources env rq ''/agents'' flt"

definition list_routers_on_l3_agent ::
    "'r env \<Rightarrow> 'w requester \<Rightarrow> string \<Rightarrow> ('w, response_body) io" where
  "list_routers_on_l3_agent env rq agent_id =
     list_resources env rq (''/agents/'' @ agent_id @ ''/l3-routers'') []"

definition list_l3_agents_hosting_router ::
    "'r env \<Rightarrow> 'w requester \<Rightarrow> string \<Rightarrow> ('w, response_body) io" where
  "list_l3_agents_hosting_router env rq router_id =
     list_resources env rq (''/routers/'' @ router_id @ ''/l3-agents'') []"

definition add_router_to_l3_agent ::
    "'r env \<Rightarrow> 'w requester \<Rightarrow> string \<Rightarrow> py \<Rightarrow> ('w, response_body) io" where
  "add_router_to_l3_agent env rq agent_id router_id =
     create_resource env rq (''/agents/'' @ agent_id @ ''/l3-routers'') (PDict [(''router_id'', router_id)])"

definition remove_router_from_l3_agent :: "'w requester \<Rightarrow> string \<Rightarrow> string \<Rightarrow> ('w, response_body) io" where
  "remove_router_from_l3_agent rq agent_id router_id = delete_resource rq (''/agents/'' @ agent_id @ ''/l3-routers/'' @ router_id)"

definition list_dhcp_agent_hosting_network ::
    "'r env \<Rightarrow> 'w requester \<Rightarrow> string \<Rightarrow> ('w, response_body) io" where
  "list_dhcp_agent_hosting_network env rq network_id =
     list_resources env rq (''/networks/'' @ network_id @ ''/dhcp-agents'') []"

definition list_networks_hosted_by_one_dhcp_agent ::
    "'r env \<Rightarrow> 'w requester \<Rightarrow> string \<Rightarrow> ('w, response_body) io" where
  "list_networks_hosted_by_one_dhcp_agent env rq agent_id =
     list_resources env rq (''/agents/'' @ agent_id @ ''/dhcp-networks'') []"

definition remove_network_from_dhcp_agent :: "'w requester \<Rightarrow> string \<Rightarrow> string \<Rightarrow> ('w, response_body) io" where
  "remove_network_from_dhcp_agent rq agent_id network_id = delete_resource rq (''/agents/'' @ agent_id @ ''/dhcp-networks/'' @ network_id)"

definition add_dhcp_agent_to_network ::
    "'r env \<Rightarrow> 'w requester \<Rightarrow> string \<Rightarrow> py \<Rightarrow> ('w, response_body) io" where
  "add_dhcp_agent_to_network env rq agent_id network_id =
     create_resource env rq (''/agents/'' @ agent_id @ ''/dhcp-networks'') (PDict [(''network_id'', network_id)])"

text \<open>Several resources at once, and documents with more than one key.\<close>

definition create_bulk_network :: "'r env \<Rightarrow> 'w requester \<Rightarrow> py list \<Rightarrow> ('w, response_body) io" where
  "create_bulk_network env rq names =
     create_resource env rq ''/networks''
       (PDict [(''networks'', PList (map (\<lambda>name. PDict [(''name'', name)]) names))])"

definition create_bulk_subnet :: "'r env \<Rightarrow> 'w requester \<Rightarrow> py \<Rightarrow> ('w, response_body) io" where
  "create_bulk_subnet env rq subnet_list = create_resource env rq ''/subnets'' (PDict [(''subnets'', subnet_list)])"

definition create_bulk_port :: "'r env \<Rightarrow> 'w requester \<Rightarrow> py \<Rightarrow> ('w, response_body) io" where
  "create_bulk_port env rq port_list = create_resource env rq ''/ports'' (PDict [(''ports'', port_list)])"

definition insert_firewall_policy_rule ::
    "'r env \<Rightarrow> 'w requester \<Rightarrow> string \<Rightarrow> py \<Rightarrow> ('w, response_body) io" where
  "insert_firewall_policy_rule env rq firewall_policy_id firewall_rule_id =
     update_resource env rq (''/fw/firewall_policies/'' @ firewall_policy_id @ ''/insert_rule'')
       (PDict [(''insert_after'', PStr []), (''firewall_rule_id'', firewall_rule_id), (''insert_before'', PStr [])])"

definition remove_firewall_policy_rule ::
    "'r env \<Rightarrow> 'w requester \<Rightarrow> string \<Rightarrow> py \<Rightarrow> ('w, response_body) io" where
  "remove_firewall_policy_rule env rq firewall_policy_id firewall_rule_id =
     update_resource env rq (''/fw/firewall_policies/'' @ firewall_policy_id @ ''/remove_rule'')
       (PDict [(''firewall_rule_id'', firewall_rule_id)])"

definition update_agent :: "'r env \<Rightarrow> 'w requester \<Rightarrow> string \<Rightarrow> py \<Rightarrow> ('w, response_body) io" where
  "update_agent env rq agent_id agent_info =
     update_resource env rq (''/agents/'' @ agent_id) (PDict [(''agent'', agent_info)])"

definition update_extra_routes :: "'r env \<Rightarrow> 'w requester \<Rightarrow> string \<Rightarrow> py \<Rightarrow> ('w, response_body) io" where
  "update_extra_routes env rq router_id routes =
     update_resource env rq (''/routers/'' @ router_id) (PDict [(''router'', PDict [(''routes'', routes)])])"

definition delete_extra_routes :: "'r env \<Rightarrow> 'w requester \<Rightarrow> string \<Rightarrow> ('w, response_body) io" where
  "delete_extra_routes env rq router_id =
     update_resource env rq (''/routers/'' @ router_id) (PDict [(''router'', PDict [(''routes'', PNone)])])"

section \<open>Routers\<close>

definition create_router ::
    "'r env \<Rightarrow> 'w requester \<Rightarrow> py \<Rightarrow> py \<Rightarrow> (string, py) dict \<Rightarrow> ('w, response_body) io" where
  "create_router env rq name admin_state_up kwargs =
     create_resource env rq ''/routers''
       (PDict [(''router'', PDict (dset (dset kwargs ''name'' name) ''admin_state_up'' admin_state_up))])"

text \<open>
  The gateway information that is written back: without the fixed addresses, and without
  \<open>enable_snat\<close> unless it is to be set. Only a dictionary has a \<open>pop\<close> with two arguments.
\<close>

fun strip_gateway :: "bool \<Rightarrow> py \<Rightarrow> pyexc + py" where
  "strip_gateway set_enable_snat (PDict d) =
     Inr (PDict (if d = [] then d
                 else if set_enable_snat then ddel d ''external_fixed_ips''
                 else ddel (ddel d ''external_fixed_ips'') ''enable_snat''))"
| "strip_gateway set_enable_snat (PList xs) = (if xs = [] then Inr (PList xs) else Inl TypeErr)"
| "strip_gateway set_enable_snat v = (if truthy v then Inl AttrErr else Inr v)"

definition kwarg :: "(string, py) dict \<Rightarrow> string \<Rightarrow> py \<Rightarrow> py" where
  "kwarg kwargs k dflt = (case dget kwargs k of None \<Rightarrow> dflt | Some v \<Rightarrow> v)"

definition router_update :: "bool \<Rightarrow> (string, py) dict \<Rightarrow> py \<Rightarrow> pyexc + py" where
  "router_update set_enable_snat kwargs body =
     bindE (getitem body ''router'') (\<lambda>router.
     bindE (getitem router ''name'') (\<lambda>name.
     bindE (getitem router ''admin_state_up'') (\<lambda>up.
     bindE (getitem router ''external_gateway_info'') (\<lambda>gw.
     bindE (strip_gateway set_enable_snat gw) (\<lambda>cur_gw_info.
       Inr (PDict [(''router'', PDict (
         [(''name'', kwarg kwargs ''name'' name),
          (''admin_state_up'', kwarg kwargs ''admin_state_up'' up),
          (''external_gateway_info'', kwarg kwargs ''external_gateway_info'' cur_gw_info)]
         @ (case dget kwargs ''distributed'' of None \<Rightarrow> [] | Some v \<Rightarrow> [(''distributed'', v)])))]))))))"

definition update_router_with ::
    "'r env \<Rightarrow> 'w requester \<Rightarrow> string \<Rightarrow> bool \<Rightarrow> (string, py) dict \<Rightarrow> ('w, response_body) io" where
  "update_router_with env rq router_id set_enable_snat kwargs =
     bnd (show_resource env rq (''/routers/'' @ router_id) []) (\<lambda>body.
     bnd (lift (router_update set_enable_snat kwargs (PDict (rb_data body)))) (\<lambda>update_body.
       update_resource env rq (''/routers/'' @ router_id) update_body))"

definition update_router ::
    "'r env \<Rightarrow> 'w requester \<Rightarrow> string \<Rightarrow> (string, py) dict \<Rightarrow> ('w, response_body) io" where
  "update_router env rq router_id kwargs = update_router_with env rq router_id False kwargs"

definition update_router_with_snat_gw_info ::
    "'r env \<Rightarrow> 'w requester \<Rightarrow> string \<Rightarrow> (string, py) dict \<Rightarrow> ('w, response_body) io" where
  "update_router_with_snat_gw_info env rq router_id kwargs = update_router_with env rq router_id True kwargs"

section \<open>Waiting\<close>

text \<open>The methods \<open>getattr(self, 'show_' + resource_type)\<close> can find.\<close>

definition show_methods :: "'r env \<Rightarrow> 'w requester \<Rightarrow> (string \<times> (string \<Rightarrow> ('w, response_body) io)) list" where
  "show_methods env rq =
     [(''network'', \<lambda>i. show_network env rq i []),
      (''subnet'', \<lambda>i. show_subnet env rq i []),
      (''port'', \<lambda>i. show_port env rq i []),
      (''floatingip'', \<lambda>i. show_floatingip env rq i []),
      (''metering_label'', \<lambda>i. show_metering_label env rq i []),
      (''metering_label_rule'', \<lambda>i. show_metering_label_rule env rq i []),
      (''security_group'', \<lambda>i. show_security_group env rq i []),
      (''security_group_rule'', \<lambda>i. show_security_group_rule env rq i []),
      (''firewall_rule'', \<lambda>i. show_firewall_rule env rq i []),
      (''firewall_policy'', \<lambda>i. show_firewall_policy env rq i []),
      (''firewall'', \<lambda>i. show_firewall env rq i []),
      (''extension'', \<lambda>i. show_extension env rq i []),
      (''quotas'', \<lambda>i. show_quotas env rq i []),
      (''router'', \<lambda>i. show_router env rq i []),
      (''agent'', \<lambda>i. show_agent env rq i [])]"

text \<open>The handler of AttributeError covers the call as well as the lookup of the method.\<close>

definition is_resource_deleted ::
    "'r env \<Rightarrow> 'w requester \<Rightarrow> string \<Rightarrow> string \<Rightarrow> ('w, bool) io" where
  "is_resource_deleted env rq resource_type rid =
     catch (bnd (case map_of (show_methods env rq) resource_type of
                   None \<Rightarrow> throw AttrErr
                 | Some show_it \<Rightarrow> show_it rid) (\<lambda>_. ret False))
       (\<lambda>e. if e = AttrErr then Some (throw (PlainExc (''Unknown resource type '' @ resource_type @ '' '')))
             else if catches NotFound e then Some (ret True) else None)"

definition network_deletion_round ::
    "rest_client \<Rightarrow> (('r, 'x) world_scheme, bool) io \<Rightarrow> int \<Rightarrow> (('r, 'x) world_scheme, int + unit) io" where
  "network_deletion_round c is_deleted start_time =
     bnd is_deleted (\<lambda>deleted.
       if deleted then ret (Inr ())
       else bnd (gets time_int) (\<lambda>t.
         if rc_build_timeout c \<le> t - start_time then throw (Auto TimeoutException [] [])
         else bnd (sleep (rc_build_interval c)) (\<lambda>_. ret (Inl start_time))))"

definition network_wait_for_deletion ::
    "'r env \<Rightarrow> rest_client \<Rightarrow> (('r, 'x) world_scheme) requester \<Rightarrow> string \<Rightarrow> string
     \<Rightarrow> ('r, 'x) world_scheme \<Rightarrow> ((pyexc + unit) \<times> ('r, 'x) world_scheme) option" where
  "network_wait_for_deletion env c rq resource_type rid w =
     loop_io (network_deletion_round c (is_resource_deleted env rq resource_type rid)) (time_int w) w"

text \<open>
  \<open>wait_for_resource_status\<close>: the loop's variable is the last resource, \<open>None\<close> before the first
  round; \<open>time.time()\<close> is the clock itself, without rounding.
\<close>

definition status_message :: "'r env \<Rightarrow> string option \<Rightarrow> py \<Rightarrow> py \<Rightarrow> py \<Rightarrow> int \<Rightarrow> string" where
  "status_message env caller resource status current timeout =
     (let m = ''Resource '' @ py_text (e_repr env) resource
              @ '' failed to reach status '' @ py_text (e_repr env) status
              @ '' (current: '' @ py_text (e_repr env) current @ '')''
              @ '' within the required time '' @ int_str timeout
      in case caller of None \<Rightarrow> m | Some c \<Rightarrow> if c = [] then m else ''('' @ c @ '') '' @ m)"

definition status_timeout :: "'r env \<Rightarrow> string option \<Rightarrow> py \<Rightarrow> int \<Rightarrow> py option \<Rightarrow> pyexc" where
  "status_timeout env caller status timeout seen =
     (case seen of
        None \<Rightarrow> UnboundErr
      | Some resource \<Rightarrow>
          (case getitem resource ''status'' of
             Inl e \<Rightarrow> e
           | Inr current \<Rightarrow>
               Auto TimeoutException [PStr (status_message env caller resource status current timeout)] []))"

definition status_round ::
    "'r env \<Rightarrow> string option \<Rightarrow> (('r, 'x) world_scheme, py) io \<Rightarrow> py \<Rightarrow> int \<Rightarrow> int \<Rightarrow> int
     \<Rightarrow> py option \<Rightarrow> (('r, 'x) world_scheme, py option + unit) io" where
  "status_round env caller fetch status interval timeout start_time seen =
     bnd (gets now) (\<lambda>t.
       if t - start_time \<le> timeout * 1000000 then
         bnd fetch (\<lambda>resource.
         bnd (lift (getitem resource ''status'')) (\<lambda>current.
           if current = status then ret (Inr ())
           else bnd (sleep interval) (\<lambda>_. ret (Inl (Some resource)))))
       else throw (status_timeout env caller status timeout seen))"

definition or_default :: "int option \<Rightarrow> int \<Rightarrow> int" where
  "or_default x dflt = (case x of None \<Rightarrow> dflt | Some n \<Rightarrow> if n = 0 then dflt else n)"

definition wait_for_resource_status ::
    "'r env \<Rightarrow> rest_client \<Rightarrow> string option \<Rightarrow> (('r, 'x) world_scheme, py) io \<Rightarrow> py \<Rightarrow> int option
     \<Rightarrow> int option \<Rightarrow> ('r, 'x) world_scheme \<Rightarrow> ((pyexc + unit) \<times> ('r, 'x) world_scheme) option" where
  "wait_for_resource_status env c caller fetch status interval timeout w =
     loop_io (status_round env caller fetch status (or_default interval (rc_build_interval c))
                (or_default timeout (rc_build_timeout c)) (now w)) None w"

end
