(* ===== verification/NetworkProps.thy ===== *)
theory NetworkProps
  imports NetworkClient ServersProps
begin

text \<open>
  The properties of \<open>services/network/json/network_client.py\<close>: the status a returned resource had, the
  document that updates a router, how a deletion is detected, and the wait for a status.
\<close>

section \<open>What a returned resource guarantees\<close>

lemma resource_reply_ok:
  assumes "request env c m u x h b w = (Inr (resp, tx), w')" "resource_reply env code (resp, tx) = Inr body"
  shows "rs_status resp = code \<and> rb_response body = resp
     \<and> (\<exists>v. e_loads env tx = Some v \<and> response_dict resp v = Inr body)"
proof -
  obtain v where v: "e_loads env tx = Some v" "response_dict resp v = Inr body"
      and code: "expected_success (Code code) (rs_status resp) = Inr ()"
    using assms(2) by (auto simp: resource_reply_def json_loads_def split: option.splits)
  from rest.status_pinned [OF assms(1) code] v show ?thesis
    by (auto dest: response_dict_response)
qed

text \<open>
  (created_resource): what \<open>_create_resource\<close> returns answers one POST of the document below \<open>v2.0\<close>, had
  status 201, and holds the decoded answer.
\<close>

theorem created_resource:
  assumes "create_resource env (request env c) uri post_data w = (Inr body, w')"
  shows "\<exists>tx v. request env c ''POST'' (''v2.0'' @ uri) False None (PStr (e_dumps env post_data)) w
        = (Inr (rb_response body, tx), w')
     \<and> rs_status (rb_response body) = 201
     \<and> e_loads env tx = Some v \<and> response_dict (rb_response body) v = Inr body"
proof -
  obtain resp tx where post: "request env c ''POST'' (''v2.0'' @ uri) False None (PStr (e_dumps env post_data)) w
        = (Inr (resp, tx), w')" and reply: "resource_reply env 201 (resp, tx) = Inr body"
    using assms
    by (auto simp: create_resource_def http_post_def json_dumps_def uri_prefix_def elim!: bnd_InrE)
  from resource_reply_ok [OF post reply] post show ?thesis by auto
qed

theorem created_resource_witness:
  "\<exists>body w'. create_network (demo_env [(''{}'', PDict [])]) (request (demo_env [(''{}'', PDict [])]) demo_client)
     [(''name'', PStr ''net'')] (demo_world [(201, [], ''{}'')] demo_provider) = (Inr body, w')
     \<and> rs_status (rb_response body) = 201"
proof -
  let ?env = "demo_env [(''{}'', PDict [])]"
  let ?doc = "PDict [(''network'', PDict [(''name'', PStr ''net'')])]"
  have join: "join_url ''http://nova/v2/p1'' (Some ''v2.0/networks'') = ''http://nova/v2/p1/v2.0/networks''"
    by (simp add: join_url_def urlparse_def split_scheme_def split_netloc_def before_def after_def
      scheme_char_def is_digit_def all_digits_def netloc_end_def str_lower_def char_lower_def
      uses_params_def split_params_def last_segment_def urlunparse_def uses_netloc_def)
  obtain w' where "request ?env demo_client ''POST'' ''v2.0/networks'' False None (PStr (e_dumps ?env ?doc))
      (demo_world [(201, [], ''{}'')] demo_provider) = (Inr (\<lparr>rs_status = 201, rs_headers = []\<rparr>, ''{}''), w')"
    using demo_request [OF _ _ _ _ join, where st = 201 and tx = "''{}''" and m = "''POST''"
        and docs = "[(''{}'', PDict [])]"]
    by (auto simp: str_upper_def char_upper_def)
  then have "create_resource ?env (request ?env demo_client) ''/networks'' ?doc
      (demo_world [(201, [], ''{}'')] demo_provider)
    = (Inr \<lparr>rb_response = \<lparr>rs_status = 201, rs_headers = []\<rparr>, rb_data = []\<rparr>, w')"
    by (simp add: create_resource_def http_post_def json_dumps_def bnd_Inr resource_reply_def json_loads_def
        demo_env_def uri_prefix_def expected_success_def HTTP_SUCCESS_def)
  with created_resource [OF this] show ?thesis by (auto simp: create_network_def)
qed

section \<open>Updating a router\<close>

lemma strip_gateway_get:
  assumes "strip_gateway snat gw = Inr gw'" "gw' = PDict g" "\<not> snat"
  shows "dget g ''enable_snat'' = None"
  using assms by (cases gw) (auto split: if_splits)

text \<open>
  (update_router_keeps_snat): \<open>update_router\<close> shows the router and then writes it back under the same URI
  with a PUT: name and administrative state are the given ones or the current ones, and unless the
  caller gives a gateway, the one written is the current one without \<open>enable_snat\<close>.
\<close>

theorem update_router_keeps_snat:
  assumes "update_router env rq router_id kwargs w = (Inr b, w')" "dget kwargs ''external_gateway_info'' = None"
  shows "\<exists>shown w1 router d name up gw. show_resource env rq (''/routers/'' @ router_id) [] w = (Inr shown, w1)
     \<and> dget (rb_data shown) ''router'' = Some (PDict router)
     \<and> dget router ''name'' = Some name \<and> dget router ''admin_state_up'' = Some up
     \<and> update_resource env rq (''/routers/'' @ router_id) (PDict [(''router'', PDict d)]) w1 = (Inr b, w')
     \<and> dget d ''name'' = Some (kwarg kwargs ''name'' name)
     \<and> dget d ''admin_state_up'' = Some (kwarg kwargs ''admin_state_up'' up)
     \<and> dget d ''external_gateway_info'' = Some gw
     \<and> (case gw of PDict g \<Rightarrow> dget g ''enable_snat'' = None | _ \<Rightarrow> \<not> truthy gw)"
proof -
  obtain shown w1 doc where show_it: "show_resource env rq (''/routers/'' @ router_id) [] w = (Inr shown, w1)"
      and doc: "router_update False kwargs (PDict (rb_data shown)) = Inr doc"
      and put: "update_resource env rq (''/routers/'' @ router_id) doc w1 = (Inr b, w')"
    using assms(1) by (auto simp: update_router_def update_router_with_def elim!: bnd_InrE)
  obtain router name up gw0 gw where fields: "getitem (PDict (rb_data shown)) ''router'' = Inr router"
      "getitem router ''name'' = Inr name" "getitem router ''admin_state_up'' = Inr up"
      and gw: "strip_gateway False gw0 = Inr gw"
      and d: "doc = PDict [(''router'', PDict ([(''name'', kwarg kwargs ''name'' name),
          (''admin_state_up'', kwarg kwargs ''admin_state_up'' up),
          (''external_gateway_info'', gw)]
         @ (case dget kwargs ''distributed'' of None \<Rightarrow> [] | Some v \<Rightarrow> [(''distributed'', v)])))]"
    using doc assms(2)
    by (auto simp: router_update_def kwarg_def [of kwargs "''external_gateway_info''"] simp del: getitem.simps)
  obtain r where r: "router = PDict r" "dget (rb_data shown) ''router'' = Some (PDict r)"
      "dget r ''name'' = Some name" "dget r ''admin_state_up'' = Some up"
    using fields by (cases router) (auto split: option.splits)
  have shape: "case gw of PDict g \<Rightarrow> dget g ''enable_snat'' = None | _ \<Rightarrow> \<not> truthy gw"
    using gw by (cases gw0) (auto split: if_splits)
  show ?thesis
    using show_it put r shape unfolding d
    by (intro exI conjI) (assumption | simp)+
qed

definition demo_router :: py where
  "demo_router = PDict [(''router'', PDict [(''name'', PStr ''r''), (''admin_state_up'', PBool True),
     (''external_gateway_info'', PDict [(''network_id'', PStr ''n1''), (''enable_snat'', PBool True)])])]"

definition demo_echo :: "unit requester" where
  "demo_echo m u x h b w = (Inr (\<lparr>rs_status = 200, rs_headers = []\<rparr>, ''{r}''), w)"

theorem update_router_keeps_snat_witness:
  "\<exists>b. update_router (demo_env [(''{r}'', demo_router)]) demo_echo ''r1'' [(''name'', PStr ''new'')] ()
     = (Inr b, ())
   \<and> (\<exists>shown w1. show_resource (demo_env [(''{r}'', demo_router)]) demo_echo (''/routers/'' @ ''r1'') [] ()
        = (Inr shown, w1))"
proof -
  have "update_router (demo_env [(''{r}'', demo_router)]) demo_echo ''r1'' [(''name'', PStr ''new'')] ()
     = (Inr \<lparr>rb_response = \<lparr>rs_status = 200, rs_headers = []\<rparr>,
          rb_data = [(''router'', PDict [(''name'', PStr ''r''), (''admin_state_up'', PBool True),
             (''external_gateway_info'', PDict [(''network_id'', PStr ''n1''), (''enable_snat'', PBool True)])])]\<rparr>, ())"
    by (simp add: update_router_def update_router_with_def show_resource_def update_resource_def http_get_def
        http_put_def demo_echo_def bnd_def resource_reply_def json_loads_def json_dumps_def demo_env_def
        expected_success_def HTTP_SUCCESS_def demo_router_def router_update_def)
  from update_router_keeps_snat [OF this] this show ?thesis by auto
qed

section \<open>Detecting a deletion\<close>

lemma request_raises:
  assumes "exchange env c m u x h b w = (Inr (resp, tx), w')" "error_checker env resp tx = Inl e"
  shows "request env c m u x h b w = (Inl e, w')"
  using assms by (simp add: request_def bnd_Inr)

lemma show_resource_raises:
  assumes "rq ''GET'' (''v2.0'' @ uri) False None PNone w = (Inl e, w')"
  shows "show_resource env rq uri [] w = (Inl e, w')"
  using assms by (simp add: show_resource_def http_get_def resource_uri_def uri_prefix_def bnd_Inl)

lemma not_found_raises:
  assumes "json_error resp" "rs_status resp = 404" "e_loads env tx = Some v"
  shows "error_checker env resp tx = Inl (case v of
     PDict d \<Rightarrow> if d = [] then StopIter else Auto NotFound [unwrapped d] [(''resp'', resp_val resp)]
   | _ \<Rightarrow> AttrErr)"
proof (cases "\<exists>d. v = PDict d \<and> d \<noteq> []")
  case True
  with assms show ?thesis
    by (auto simp: error_checker_def json_error_def Let_def decoded_def raise_with_def parse_resp_object)
next
  case False
  then have "parse_resp env tx = Inl (case v of PDict d \<Rightarrow> StopIter | _ \<Rightarrow> AttrErr)"
    using assms(3) by (cases v) (auto simp: parse_resp_def)
  with False assms show ?thesis
    by (auto simp: error_checker_def json_error_def Let_def decoded_def split: py.splits)
qed

text \<open>
  (deletion_seen_by_body): when the network service answers 404 for a network that is gone, the client
  takes it as deleted only if the body is a non-empty object; with any other JSON document it raises
  \<open>Unknown resource type network\<close>, and with an empty object StopIteration.
\<close>

theorem deletion_seen_by_body:
  assumes "exchange env c ''GET'' (''v2.0/networks/'' @ rid) False None PNone w = (Inr (resp, tx), w')"
    and "json_error resp" "rs_status resp = 404" "e_loads env tx = Some v"
  shows "is_resource_deleted env (request env c) ''network'' rid w = (case v of
     PDict d \<Rightarrow> if d = [] then Inl StopIter else Inr True
   | _ \<Rightarrow> Inl (PlainExc ''Unknown resource type network ''), w')"
proof -
  define e where "e = (case v of
     PDict d \<Rightarrow> if d = [] then StopIter else Auto NotFound [unwrapped d] [(''resp'', resp_val resp)]
   | _ \<Rightarrow> AttrErr)"
  have "request env c ''GET'' (''v2.0'' @ ''/networks/'' @ rid) False None PNone w = (Inl e, w')"
    using request_raises [OF assms(1)] not_found_raises [OF assms(2-4)] by (simp add: e_def)
  from show_resource_raises [where rq = "request env c" and uri = "''/networks/'' @ rid", OF this]
  have "show_network env (request env c) rid [] w = (Inl e, w')"
    by (simp add: show_network_def)
  then show ?thesis
    by (auto simp: is_resource_deleted_def show_methods_def catch_def bnd_def e_def catches_def
        isinstance_of_def supers.simps split: py.splits)
qed

theorem deletion_seen_by_body_witness:
  "\<exists>w'. is_resource_deleted (demo_env [(''[]'', PList [])]) (request (demo_env [(''[]'', PList [])]) demo_client)
     ''network'' ''n1'' (demo_world [(404, [], ''[]'')] demo_provider)
     = (Inl (PlainExc ''Unknown resource type network ''), w')"
proof -
  let ?env = "demo_env [(''[]'', PList [])]"
  have join: "join_url ''http://nova/v2/p1'' (Some ''v2.0/networks/n1'') = ''http://nova/v2/p1/v2.0/networks/n1''"
    by (simp add: join_url_def urlparse_def split_scheme_def split_netloc_def before_def after_def
      scheme_char_def is_digit_def all_digits_def netloc_end_def str_lower_def char_lower_def
      uses_params_def split_params_def last_segment_def urlunparse_def uses_netloc_def)
  obtain w' where "exchange ?env demo_client ''GET'' (''v2.0/networks/'' @ ''n1'') False None PNone
      (demo_world [(404, [], ''[]'')] demo_provider) = (Inr (\<lparr>rs_status = 404, rs_headers = []\<rparr>, ''[]''), w')"
    using demo_send_to [OF refl _ _ _ _ _ join, of "demo_world [(404, [], ''[]'')] demo_provider" 0
        "404" "[]" "''[]''" "[]" "[(''[]'', PList [])]" "''GET''" "get_headers None None" PNone]
    by (simp add: exchange_def effective_headers_def bnd_def demo_world_def response_checker_def
      MAX_RECURSION_DEPTH_def numeral_2_eq_2 rate_limited_def Let_def str_upper_def char_upper_def)
  from deletion_seen_by_body [OF this, of "PList []"] show ?thesis
    by (simp add: json_error_def JSON_ENC_def str_lower_def char_lower_def demo_env_def)
qed

section \<open>Waiting for a deletion\<close>

lemma network_deletion_again:
  assumes "network_deletion_round c is_deleted s w = (Inr (Inl s'), w')"
  obtains w1 where "is_deleted w = (Inr False, w1)" "s' = s" "time_int w1 - s < rc_build_timeout c"
    "time_int w' = time_int w1 + rc_build_interval c"
  using assms
  by (auto simp: network_deletion_round_def bnd_def sleep_def time_int_def
      split: prod.splits sum.splits if_splits)

interpretation network_deletion: clocked_loop "network_deletion_round c is_deleted"
    "rc_build_timeout c" "rc_build_interval c" t0 "fair_client c is_deleted" for c is_deleted t0
proof
  fix s s' w w'
  assume fair: "fair_client c is_deleted"
    and "network_deletion_round c is_deleted s w = (Inr (Inl s'), w')"
  then obtain w1 where "is_deleted w = (Inr False, w1)" "s' = s" "time_int w1 - s < rc_build_timeout c"
    "time_int w' = time_int w1 + rc_build_interval c"
    using network_deletion_again by blast
  moreover from this(1) fair have "time_int w \<le> time_int w1"
    by (auto simp: fair_client_def intro: time_int_mono dest: time_monoD)
  ultimately show "\<exists>t. s' = s \<and> time_int w \<le> t \<and> t - s < rc_build_timeout c
      \<and> time_int w' = t + rc_build_interval c \<and> 1 \<le> rc_build_interval c"
    using fair by (auto simp: fair_client_def)
qed

lemma network_deletion_exit:
  assumes "network_deletion_round c is_deleted s w = (r, w')" "1 \<le> rc_build_interval c"
  shows "r = Inr (Inr u) \<Longrightarrow> is_deleted w = (Inr True, w')"
    and "r = Inl e \<Longrightarrow> is_deleted w = (Inl e, w')
       \<or> is_deleted w = (Inr False, w') \<and> rc_build_timeout c \<le> time_int w' - s \<and> e = Auto TimeoutException [] []"
  using assms
  by (auto simp: network_deletion_round_def bnd_def sleep_def split: prod.splits sum.splits if_splits)

lemma network_deletion_ends:
  fixes w :: "('r, 'x) world_scheme"
  assumes fair: "fair_client c (is_resource_deleted env rq ty rid)"
  shows "\<exists>r w1 w'. network_wait_for_deletion env c rq ty rid w = Some (r, w')
     \<and> (case r of
          Inr _ \<Rightarrow> is_resource_deleted env rq ty rid w1 = (Inr True, w')
        | Inl e \<Rightarrow> is_resource_deleted env rq ty rid w1 = (Inl e, w')
           \<or> is_resource_deleted env rq ty rid w1 = (Inr False, w')
             \<and> rc_build_timeout c \<le> time_int w' - time_int w \<and> e = Auto TimeoutException [] [])"
proof -
  let ?del = "is_resource_deleted env rq ty rid"
  have "fair_client c ?del \<and> time_int w = time_int w" and interval: "1 \<le> rc_build_interval c"
    using fair by (simp_all add: fair_client_def)
  from network_deletion.exit_round [OF this(1)] obtain w1 r w' where
      run: "network_wait_for_deletion env c rq ty rid w = Some (r, w')"
    and exit: "network_deletion_round c ?del (time_int w) w1 = (Inl (projl r), w') \<and> isl r
      \<or> network_deletion_round c ?del (time_int w) w1 = (Inr (Inr (projr r)), w') \<and> \<not> isl r"
    unfolding network_wait_for_deletion_def by blast
  have "case r of
          Inr _ \<Rightarrow> ?del w1 = (Inr True, w')
        | Inl e \<Rightarrow> ?del w1 = (Inl e, w')
           \<or> ?del w1 = (Inr False, w') \<and> rc_build_timeout c \<le> time_int w' - time_int w
             \<and> e = Auto TimeoutException [] []"
    using exit network_deletion_exit [OF _ interval] by (cases r) (fastforce+)
  with run show ?thesis by blast
qed

section \<open>Waiting for a status\<close>

lemma status_round_again:
  assumes "status_round env caller fetch status interval timeout t0 s w = (Inr (Inl s'), w')"
  obtains res w1 where "fetch w = (Inr res, w1)" "now w - t0 \<le> timeout * 1000000"
    "s' = Some res" "0 \<le> interval" "now w' = now w1 + interval * 1000000"
  using assms
  by (auto simp: status_round_def bnd_def sleep_def simp del: getitem.simps
      split: prod.splits sum.splits if_splits)

definition status_inv ::
    "int \<Rightarrow> int \<Rightarrow> int \<Rightarrow> (('r, 'x) world_scheme, py) io \<Rightarrow> py option \<Rightarrow> ('r, 'x) world_scheme \<Rightarrow> bool" where
  "status_inv interval timeout t0 fetch seen w =
     (1 \<le> interval \<and> time_mono fetch
      \<and> (case seen of None \<Rightarrow> now w = t0 | Some _ \<Rightarrow> 0 \<le> timeout))"

interpretation status_wait: bounded_loop "status_round env caller fetch status interval timeout t0"
    "status_inv interval timeout t0 fetch" "\<lambda>_ w. nat (t0 + timeout * 1000000 + 1 - now w)"
    for env caller fetch status interval timeout t0
proof
  fix s s' w w'
  assume inv: "status_inv interval timeout t0 fetch s w"
    and "status_round env caller fetch status interval timeout t0 s w = (Inr (Inl s'), w')"
  then obtain res w1 where run: "fetch w = (Inr res, w1)" "now w - t0 \<le> timeout * 1000000"
    "s' = Some res" "now w' = now w1 + interval * 1000000"
    using status_round_again by blast
  then have "now w \<le> now w1"
    using inv by (auto simp: status_inv_def dest: time_monoD)
  then show "nat (t0 + timeout * 1000000 + 1 - now w') < nat (t0 + timeout * 1000000 + 1 - now w)"
    using run inv by (simp add: status_inv_def)
  show "status_inv interval timeout t0 fetch s' w'"
    using run inv by (auto simp: status_inv_def split: option.splits)
qed

lemma status_round_exit:
  assumes "status_round env caller fetch status interval timeout t0 s w = (r, w')" "1 \<le> interval"
  shows "r = Inr (Inr u) \<Longrightarrow> \<exists>res. fetch w = (Inr res, w') \<and> getitem res ''status'' = Inr status"
    and "r = Inl e \<Longrightarrow> fetch w = (Inl e, w')
       \<or> (\<exists>res. fetch w = (Inr res, w') \<and> getitem res ''status'' = Inl e)
       \<or> w' = w \<and> timeout * 1000000 < now w - t0 \<and> e = status_timeout env caller status timeout s"
  using assms
  by (auto simp: status_round_def bnd_def sleep_def simp del: getitem.simps
      split: prod.splits sum.splits if_splits)

text \<open>
  (status_wait_ends): with an interval of at least one second the wait for the status of a network
  resource always ends. It returns only after an answer with that status; it raises what fetching the
  resource raised, KeyError or TypeError for an answer without a status, or when the timeout has
  passed. An UnboundLocalError of its own needs a negative timeout.
\<close>

theorem status_wait_ends:
  fixes w :: "('r, 'x) world_scheme"
  assumes "tmo = or_default timeout (rc_build_timeout c)"
    and "1 \<le> or_default interval (rc_build_interval c)" "time_mono fetch"
  shows "\<exists>r w1 w' seen. wait_for_resource_status env c caller fetch status interval timeout w = Some (r, w')
     \<and> (case r of
          Inr _ \<Rightarrow> \<exists>res. fetch w1 = (Inr res, w') \<and> getitem res ''status'' = Inr status
        | Inl e \<Rightarrow> fetch w1 = (Inl e, w') \<or> (\<exists>res. fetch w1 = (Inr res, w') \<and> getitem res ''status'' = Inl e)
           \<or> tmo * 1000000 < now w' - now w \<and> e = status_timeout env caller status tmo seen
             \<and> (case seen of None \<Rightarrow> tmo < 0 | Some _ \<Rightarrow> 0 \<le> tmo))"
proof -
  let ?ivl = "or_default interval (rc_build_interval c)"
  let ?round = "status_round env caller fetch status ?ivl tmo (now w)"
  have "status_inv ?ivl tmo (now w) fetch None w"
    using assms(2,3) by (simp add: status_inv_def)
  from status_wait.exit_round [OF this, of env caller status] obtain seen w1 r w' where
      inv: "status_inv ?ivl tmo (now w) fetch seen w1"
    and run: "wait_for_resource_status env c caller fetch status interval timeout w = Some (r, w')"
    and exit: "?round seen w1 = (Inl (projl r), w') \<and> isl r \<or> ?round seen w1 = (Inr (Inr (projr r)), w') \<and> \<not> isl r"
    unfolding wait_for_resource_status_def assms(1) [symmetric] by blast
  have unseen: "case seen of None \<Rightarrow> tmo < 0 | Some _ \<Rightarrow> 0 \<le> tmo" if "tmo * 1000000 < now w1 - now w"
    using inv that by (auto simp: status_inv_def split: option.splits)
  show ?thesis
  proof (cases r)
    case (Inl e)
    with exit have "?round seen w1 = (Inl e, w')" by auto
    from status_round_exit(2) [OF this assms(2) refl] run Inl unseen show ?thesis
      by (intro exI [of _ r] exI [of _ w1] exI [of _ w'] exI [of _ seen]) (auto simp del: getitem.simps)
  next
    case (Inr u)
    with exit have "?round seen w1 = (Inr (Inr u), w')" by auto
    from status_round_exit(1) [OF this assms(2) refl] run Inr show ?thesis
      by (intro exI [of _ r] exI [of _ w1] exI [of _ w']) auto
  qed
qed

theorem status_wait_ends_witness:
  "\<exists>r w'. wait_for_resource_status (demo_env []) demo_client None
     (gets (\<lambda>w. PDict [(''status'', PStr ''ACTIVE'')])) (PStr ''ACTIVE'') None None
     (demo_world [] demo_provider) = Some (r, w')"
proof -
  have "1 \<le> or_default None (rc_build_interval demo_client)"
    by (simp add: or_default_def demo_client_def service_client_init_def rest_client_init_def)
  from status_wait_ends [OF refl this time_mono_gets] show ?thesis by blast
qed

end
