(* ===== verification/SsdServer.thy ===== *)
theory SsdServer
  imports World
begin

text \<open>
  The agent that prepares SSD cards, \<open>fpga_ssd_backup/tools/ssd_op/ssdSingleDeal.py\<close> with its constants
  in \<open>define.py\<close>, and the master's client \<open>tools/master/ssdRpcClient.py\<close>.

  The agent works by shell commands. What a command does to the machine is not in the repository: the
  machine is a parameter, a function that runs a command and one that tells whether a path exists. The
  host records the commands that ran, with the text read from each, and the time slept. Requests are
  those \<open>reqCreator\<close> builds: the handle is a text. Logging is left out.
\<close>

section \<open>The machine\<close>

record 'o machine =
  mc_popen :: "string \<Rightarrow> 'o \<Rightarrow> string \<times> 'o"
  mc_exists :: "string \<Rightarrow> 'o \<Rightarrow> bool"
  mc_hostname :: string

record 'o host =
  ho_os :: 'o
  ho_ran :: "(string \<times> string) list"
  ho_slept :: int

text \<open>\<open>cmdRun\<close>: the output with the line ends taken out, read only when it is needed.\<close>

definition cmd_run :: "'o machine \<Rightarrow> string \<Rightarrow> ('o host, string) io" where
  "cmd_run mc cmd h =
     (case mc_popen mc cmd (ho_os h) of (out, os') \<Rightarrow>
        (let result = filter (\<lambda>c. c \<noteq> CHR 0x0A) out
         in (Inr result, h\<lparr>ho_os := os', ho_ran := ho_ran h @ [(cmd, result)]\<rparr>)))"

lemma cmd_run_result:
  obtains out os' where
    "cmd_run mc cmd h = (Inr out, h\<lparr>ho_os := os', ho_ran := ho_ran h @ [(cmd, out)]\<rparr>)"
  by (cases "mc_popen mc cmd (ho_os h)") (auto simp: cmd_run_def Let_def)

definition cmd_do :: "'o machine \<Rightarrow> string \<Rightarrow> ('o host, unit) io" where
  "cmd_do mc cmd = bnd (cmd_run mc cmd) (\<lambda>_. ret ())"

definition path_exists :: "'o machine \<Rightarrow> string \<Rightarrow> ('o host, bool) io" where
  "path_exists mc p = gets (\<lambda>h. mc_exists mc p (ho_os h))"

definition host_sleep :: "int \<Rightarrow> ('o host, unit) io" where
  "host_sleep n = modify (\<lambda>h. h\<lparr>ho_slept := ho_slept h + n\<rparr>)"

definition quoted :: "string \<Rightarrow> string" where
  "quoted s = [CHR 0x27] @ s @ [CHR 0x27]"

section \<open>Constants and replies\<close>

definition SSDMAGIC :: string where "SSDMAGIC = ''ssd-magic''"
definition kernelUrl :: string where "kernelUrl = ''http://ikernel.baidu.com/2.6.32-ssd_1branch''"
definition toolsUrl :: string where "toolsUrl = ''http://10.81.22.29/download/ssd''"
definition udevUrl :: string where "udevUrl = ''http://10.81.22.29/download/ssd/''"

datatype ssd_error =
    NOERR | ERRMAGIC | ERROPER | ERRCHK | ERRRMMOD | ERRINSMOD | ERRNOFILE | ERRNEWCARD | ERRDOWN
  | ERRPCI | ERRV5V | ERRV5 | ERRS6 | ERRCHECK | ERRGETEC | ERRSETEC

fun error_code :: "ssd_error \<Rightarrow> int" where
  "error_code NOERR = 0"
| "error_code ERRMAGIC = -1"
| "error_code ERROPER = -2"
| "error_code ERRCHK = -3"
| "error_code ERRRMMOD = -4"
| "error_code ERRINSMOD = -5"
| "error_code ERRNOFILE = -6"
| "error_code ERRNEWCARD = -7"
| "error_code ERRDOWN = -8"
| "error_code ERRPCI = -9"
| "error_code ERRV5V = -10"
| "error_code ERRV5 = -11"
| "error_code ERRS6 = -12"
| "error_code ERRCHECK = -13"
| "error_code ERRGETEC = -14"
| "error_code ERRSETEC = -15"

text \<open>The texts of the agent, by code.\<close>

definition errorString :: "(int, string) dict" where
  "errorString =
     [(0, ''success''), (-1, ''ssd driver magic error''), (-2, ''the type of operation error''),
      (-3, ''change kernel error''), (-4, ''remove module error''), (-5, ''insert module error''),
      (-6, ''file is not exist''), (-7, ''open new card error''), (-8, ''download files error''),
      (-9, ''change PCI error''), (-10, ''version of V5 error''), (-11, ''change V5 error''),
      (-12, ''change S6 error''), (-13, ''check ssd error''),
      (-14, ''get erase count from huawei error''), (-15, ''set erase count to baidu error'')]"

record reply =
  rp_magic :: string
  rp_result :: py
  rp_error :: int

definition answer_with :: "py \<Rightarrow> ssd_error \<Rightarrow> reply" where
  "answer_with r e = \<lparr>rp_magic = SSDMAGIC, rp_result = r, rp_error = error_code e\<rparr>"

definition success :: reply where
  "success = answer_with (PInt 0) NOERR"

definition failure :: "ssd_error \<Rightarrow> reply" where
  "failure e = answer_with (PInt (-1)) e"

text \<open>\<open>if NOERR != res['error']: return res\<close>, else go on.\<close>

definition unless_error :: "('o host, reply) io \<Rightarrow> ('o host, reply) io \<Rightarrow> ('o host, reply) io" where
  "unless_error m k = bnd m (\<lambda>res. if rp_error res \<noteq> error_code NOERR then ret res else k)"

text \<open>\<open>s[-1]\<close>.\<close>

definition last_char :: "string \<Rightarrow> ('w, char) io" where
  "last_char s = (if s = [] then throw IndexErr else ret (last s))"

section \<open>Simple operations\<close>

definition host_scan :: "('o host, reply) io" where
  "host_scan = ret success"

definition get_kernel :: "'o machine \<Rightarrow> ('o host, reply) io" where
  "get_kernel mc =
     bnd (cmd_run mc ''uname -r'') (\<lambda>kernel.
       ret (answer_with (PList [PStr (mc_hostname mc), PStr kernel]) NOERR))"

definition remove_if_there :: "'o machine \<Rightarrow> string \<Rightarrow> string list \<Rightarrow> ('o host, unit) io" where
  "remove_if_there mc file names =
     bnd (path_exists mc file) (\<lambda>there.
       if there then for_each names (\<lambda>n. cmd_do mc (''rm -fr '' @ n)) else ret ())"

definition wget :: "'o machine \<Rightarrow> string \<Rightarrow> ('o host, unit) io" where
  "wget mc url = cmd_do mc (''wget '' @ url @ '' 2>/dev/null 1>/dev/null'')"

definition change_kernel :: "'o machine \<Rightarrow> string \<Rightarrow> ('o host, reply) io" where
  "change_kernel mc kernel_name =
     (let file_name = kernel_name @ ''.tgz''
      in bnd (remove_if_there mc file_name [file_name, kernel_name]) (\<lambda>_.
         bnd (wget mc (path_join kernelUrl file_name)) (\<lambda>_.
         bnd (path_exists mc file_name) (\<lambda>there.
           if \<not> there then ret (failure ERRCHK)
           else
             bnd (cmd_do mc (''tar zxf '' @ file_name @ '' && cd '' @ kernel_name
                    @ '' && ./auto_changekernel.pl 1>/dev/null 2>/dev/null'')) (\<lambda>_.
             bnd (cmd_do mc (''sed -i '' @ quoted ''s/default=[^0]/default=0/g'' @ '' /boot/grub/grub.conf'')) (\<lambda>_.
             bnd (cmd_do mc ''shutdown -r +1 &'') (\<lambda>_. ret success)))))))"

section \<open>The driver\<close>

definition check_ssd_mod :: "'o machine \<Rightarrow> string \<Rightarrow> ('o host, bool) io" where
  "check_ssd_mod mc mod_name =
     bnd (cmd_run mc (''lsmod | grep '' @ mod_name)) (\<lambda>out. ret (out \<noteq> []))"

text \<open>The tries of \<open>checkDevice\<close>: \<open>True\<close> when one of them saw the device.\<close>

primrec device_tries :: "'o machine \<Rightarrow> nat \<Rightarrow> ('o host, bool) io" where
  "device_tries mc 0 = ret False"
| "device_tries mc (Suc n) =
     bnd (cmd_run mc ''ls /dev | grep ssd_Baidu43'') (\<lambda>out.
       if out \<noteq> [] then ret True
       else bnd (host_sleep 3) (\<lambda>_. device_tries mc n))"

definition check_device :: "'o machine \<Rightarrow> ('o host, reply) io" where
  "check_device mc =
     bnd (device_tries mc 5) (\<lambda>seen.
       if \<not> seen then ret (failure ERRINSMOD)
       else bnd (host_sleep 3) (\<lambda>_. ret success))"

text \<open>Taking the module out when it is there: any output of \<open>rmmod\<close> is a failure.\<close>

definition rmmod_first :: "'o machine \<Rightarrow> string \<Rightarrow> ('o host, reply) io \<Rightarrow> ('o host, reply) io" where
  "rmmod_first mc mod_name k =
     bnd (check_ssd_mod mc mod_name) (\<lambda>loaded.
       if loaded
       then bnd (cmd_run mc (''rmmod '' @ mod_name)) (\<lambda>out. if out \<noteq> [] then ret (failure ERRRMMOD) else k)
       else k)"

text \<open>\<open>if not self.checkSsdMod(modName): return ...\<close>, then the device.\<close>

definition module_and_device :: "'o machine \<Rightarrow> string \<Rightarrow> ('o host, reply) io \<Rightarrow> ('o host, reply) io" where
  "module_and_device mc mod_name k =
     bnd (check_ssd_mod mc mod_name) (\<lambda>loaded.
       if \<not> loaded then ret (failure ERRINSMOD) else unless_error (check_device mc) k)"

definition load_ssd_driver :: "'o machine \<Rightarrow> string \<Rightarrow> ('o host, reply) io" where
  "load_ssd_driver mc drv_name =
     (let ssd_name = str_replace ''.ko'' [] drv_name
      in rmmod_first mc ssd_name (
         bnd (remove_if_there mc drv_name [drv_name]) (\<lambda>_.
         bnd (wget mc (path_join toolsUrl drv_name)) (\<lambda>_.
         bnd (path_exists mc drv_name) (\<lambda>there.
           if \<not> there then ret (failure ERRNOFILE)
           else
             bnd (cmd_run mc ''uname -r'') (\<lambda>path.
             bnd (cmd_do mc (''cp -f --reply=yes '' @ drv_name @ '' ''
                    @ ''/lib/modules/'' @ path @ ''/kernel/drivers/block/'')) (\<lambda>_.
             bnd (cmd_do mc ''depmod -a'') (\<lambda>_.
             bnd (cmd_do mc (''modprobe '' @ ssd_name)) (\<lambda>_.
               module_and_device mc ssd_name (ret success))))))))))"

definition insmod_ssd_driver :: "'o machine \<Rightarrow> string \<Rightarrow> ('o host, reply) io" where
  "insmod_ssd_driver mc root_dir =
     rmmod_first mc ''ssd_drv'' (
       (let drv_path = path_join root_dir ''ssd_drv.ko''
        in bnd (path_exists mc drv_path) (\<lambda>there.
             if \<not> there then load_ssd_driver mc ''ssd_drv.ko''
             else
               bnd (cmd_do mc (''insmod '' @ drv_path)) (\<lambda>_.
                 module_and_device mc ''ssd_drv'' (ret success)))))"

definition dep_mod :: "'o machine \<Rightarrow> string \<Rightarrow> ('o host, reply) io" where
  "dep_mod mc root_dir =
     (let ssd_path = path_join root_dir ''ssd_drv.ko''
      in bnd (path_exists mc ssd_path) (\<lambda>there.
         bnd (if \<not> there then bnd (insmod_ssd_driver mc root_dir) (\<lambda>_. ret ())
              else
                bnd (cmd_run mc ''uname -r'') (\<lambda>path.
                bnd (cmd_do mc (''cp -f --reply=yes '' @ ssd_path @ '' ''
                       @ ''/lib/modules/'' @ path @ ''/kernel/drivers/block/'')) (\<lambda>_.
                  cmd_do mc ''depmod -a''))) (\<lambda>_.
         bnd (cmd_do mc (''sed -i '' @ quoted ''/modprobe ssd_drv/d'' @ '' /etc/rc.d/rc.local'')) (\<lambda>_.
         bnd (cmd_do mc ''echo modprobe ssd_drv >> /etc/rc.d/rc.local'') (\<lambda>_.
         bnd (cmd_do mc ''rmmod ssd_drv'') (\<lambda>_.
         bnd (cmd_do mc ''modprobe ssd_drv'') (\<lambda>_. ret success)))))))"

end
