(* ===== verification/SsdFlash.thy ===== *)
theory SsdFlash
  imports SsdServer
begin

text \<open>
  The longer operations of the agent \<open>ssdSingleDeal.py\<close>: downloading the tools, flashing a card, checking
  it, moving the erase counts; the dispatch of a request; and the client that collects the hosts that
  failed, \<open>ssdRpcClient.py\<close>.
\<close>

section \<open>Downloads\<close>

definition download_list :: "string list" where
  "download_list = [''flash_tools.tar.gz'', ''bridge'', ''controller'', ''op_tools.tar'', ''ssd_drv.ko'']"

text \<open>One file of the list: \<open>False\<close> when it did not arrive.\<close>

definition download_one :: "'o machine \<Rightarrow> string \<Rightarrow> string \<Rightarrow> ('o host, bool) io" where
  "download_one mc root_dir file =
     bnd (remove_if_there mc file [file]) (\<lambda>_.
     bnd (wget mc (path_join toolsUrl file)) (\<lambda>_.
     bnd (path_exists mc file) (\<lambda>there.
       if \<not> there then ret False
       else bnd (cmd_do mc (''mv -f '' @ file @ '' '' @ root_dir)) (\<lambda>_. ret True))))"

primrec download_all :: "'o machine \<Rightarrow> string \<Rightarrow> string list \<Rightarrow> ('o host, bool) io" where
  "download_all mc root_dir [] = ret True"
| "download_all mc root_dir (file # files) =
     bnd (download_one mc root_dir file) (\<lambda>got. if \<not> got then ret False else download_all mc root_dir files)"

definition down_loads :: "'o machine \<Rightarrow> string \<Rightarrow> ('o host, reply) io" where
  "down_loads mc root_dir =
     bnd (cmd_do mc (''mkdir -p '' @ root_dir)) (\<lambda>_.
     bnd (download_all mc root_dir download_list) (\<lambda>got.
       if \<not> got then ret (failure ERRDOWN)
       else
         bnd (cmd_do mc (''cd '' @ root_dir @ '' && tar zxf flash_tools.tar.gz'')) (\<lambda>_.
         bnd (cmd_do mc (''cd '' @ root_dir @ '' && tar zxf op_tools.tar'')) (\<lambda>_.
           ret (answer_with (PList (map PStr download_list)) NOERR)))))"

section \<open>Erase counts\<close>

definition get_ec_from_huawei :: "'o machine \<Rightarrow> string \<Rightarrow> ('o host, reply) io" where
  "get_ec_from_huawei mc root_dir =
     (let table_path = path_join root_dir ''erase_table_huawei''
      in bnd (path_exists mc (path_join root_dir ''flash_tools'')) (\<lambda>there.
         bnd (if there then ret () else bnd (down_loads mc root_dir) (\<lambda>_. ret ())) (\<lambda>_.
         bnd (cmd_do mc (''cd '' @ root_dir @ ''/flash_tools/huawei-mlc-3G/ssd_utils''
                @ '' && ./ssd_ecinfo -d /dev/ssda > '' @ table_path)) (\<lambda>_.
         bnd (cmd_run mc (''cat '' @ table_path @ '' | wc -l'')) (\<lambda>res.
           ret (if res \<noteq> ''45056'' then answer_with (PStr res) ERRGETEC else success))))))"

definition mark_command :: "string \<Rightarrow> string" where
  "mark_command root_dir =
     path_join (path_join root_dir ''op_tools'') ''ssd_mark_erase_count''
       @ '' -f '' @ path_join root_dir ''erase_table_huawei''"

definition set_ec_to_baidu :: "'o machine \<Rightarrow> string \<Rightarrow> ('o host, reply) io" where
  "set_ec_to_baidu mc root_dir =
     bnd (path_exists mc (path_join root_dir ''erase_table_huawei'')) (\<lambda>there.
       if \<not> there then ret (failure ERRGETEC)
       else
         bnd (cmd_run mc (mark_command root_dir)) (\<lambda>res.
           ret (if str_contains ''fail'' res then answer_with (PStr res) ERRSETEC else success)))"

section \<open>Flashing\<close>

text \<open>The files that must be there, each missing one starting a download of everything.\<close>

primrec ensure_files :: "'o machine \<Rightarrow> string \<Rightarrow> string list \<Rightarrow> ('o host, reply) io \<Rightarrow> ('o host, reply) io" where
  "ensure_files mc root_dir [] k = k"
| "ensure_files mc root_dir (file # files) k =
     bnd (path_exists mc (path_join root_dir file)) (\<lambda>there.
       if there then ensure_files mc root_dir files k
       else unless_error (down_loads mc root_dir) (ensure_files mc root_dir files k))"

definition cfg_flash :: "'o machine \<Rightarrow> string \<Rightarrow> ('o host, reply) io" where
  "cfg_flash mc root_dir =
     ensure_files mc root_dir [''flash_tools'', ''bridge'', ''controller''] (
       unless_error (get_ec_from_huawei mc root_dir) (
         bnd (cmd_do mc (''cd '' @ root_dir @ '' ''
                @ ''&& mv bridge controller flash_tools/huawei-mlc-3G/ssd_utils ''
                @ ''&& cd flash_tools/huawei-mlc-3G/ssd_utils ''
                @ ''&& ./ssd_fwcrc -f . 2>/dev/null 1>/dev/null ''
                @ ''&& ./ssd_firmware -d /dev/ssda -f ssd_fw 2>/dev/null 1>/dev/null '')) (\<lambda>_.
         bnd (cmd_do mc ''init 6'') (\<lambda>_. ret success))))"

section \<open>Loading the card's logic\<close>

definition open_newcard :: "'o machine \<Rightarrow> string \<Rightarrow> ('o host, string) io" where
  "open_newcard mc cmd = cmd_run mc (cmd @ ''&& ./open_newcard'')"

definition reload_s6 :: "'o machine \<Rightarrow> string \<Rightarrow> bool \<Rightarrow> ('o host, reply) io" where
  "reload_s6 mc root_dir check_flash =
     (let cmd = ''cd '' @ root_dir @ '' ''
      in bnd (cmd_do mc (cmd @ ''&& ./wr_n 0x80f8 0 '')) (\<lambda>_.
         bnd (cmd_do mc (cmd @ ''&& ./wr_n 0x80f8 1'')) (\<lambda>_.
         bnd (cmd_run mc (cmd @ ''&& ./rd_n 0x8068'')) (\<lambda>v5.
         bnd (last_char v5) (\<lambda>c.
           if c \<noteq> CHR ''0'' \<and> check_flash then
             bnd (cmd_do mc (cmd @ ''&& ./cfg_flash_n final_new.mcs '')) (\<lambda>_.
             bnd (cmd_do mc (cmd @ ''&& ./cfg_v5_n '')) (\<lambda>_.
             bnd (cmd_do mc ''reboot'') (\<lambda>_. ret (answer_with (PStr v5) ERRV5))))
           else
             bnd (cmd_run mc (cmd @ ''&& ./cfg_s6_n_40 1 '')) (\<lambda>s6.
               if \<not> str_contains ''sucess'' s6 then ret (answer_with (PStr s6) ERRS6)
               else
                 bnd (open_newcard mc cmd) (\<lambda>card.
                   ret (if \<not> str_contains ''PASS'' card then answer_with (PStr card) ERRNEWCARD
                        else success))))))))"

text \<open>What \<open>checkFlash\<close> does when the first opening of the card did not pass.\<close>

definition reload_twice :: "'o machine \<Rightarrow> string \<Rightarrow> string \<Rightarrow> ('o host, reply) io \<Rightarrow> ('o host, reply) io" where
  "reload_twice mc dir cmd k =
     bnd (reload_s6 mc dir True) (\<lambda>res.
       if rp_error res = error_code NOERR then k
       else if rp_error res \<noteq> error_code ERRNEWCARD then ret res
       else
         bnd (reload_s6 mc dir False) (\<lambda>res2.
           if rp_error res2 \<noteq> error_code NOERR then
             bnd (cmd_do mc (cmd @ ''&& ./cfg_v5_n '')) (\<lambda>_.
             bnd (cmd_do mc ''reboot'') (\<lambda>_. ret res2))
           else k))"

text \<open>The last part: the driver is replaced, the card opened again and the erase counts written.\<close>

definition update_udev :: "'o machine \<Rightarrow> ('o host, unit) io" where
  "update_udev mc =
     bnd (cmd_run mc ''udev -V'') (\<lambda>res.
       case int_of_str res of
         None \<Rightarrow> throw ValueErr
       | Some v \<Rightarrow>
           if v < 70 then
             bnd (cmd_do mc (''wget '' @ udevUrl @ ''udev-070.tar.gz >/dev/null 2>/dev/null'')) (\<lambda>_.
               cmd_do mc (''tar zxf udev-070.tar.gz && cd udev-070 && make >/dev/null 2>/dev/null''
                 @ '' && make install >/dev/null 2>/dev/null && cd .. && rm udev-070* -fr''))
           else ret ())"

definition init_newcard_command :: "string \<Rightarrow> string" where
  "init_newcard_command root_dir = ''cd '' @ root_dir @ '' && cd op_tools && ./init_newcard''"

definition finish_flash :: "'o machine \<Rightarrow> string \<Rightarrow> string \<Rightarrow> ('o host, reply) io" where
  "finish_flash mc root_dir cmd =
     bnd (cmd_do mc ''rmmod ssd_drv'') (\<lambda>_.
     bnd (update_udev mc) (\<lambda>_.
     bnd (cmd_do mc (cmd @ ''&& cp -f --reply=yes 60-BaiduSSD.rules /etc/udev/rules.d/ '')) (\<lambda>_.
       unless_error (insmod_ssd_driver mc root_dir) (
         bnd (cmd_run mc (cmd @ ''&& ./init_newcard'')) (\<lambda>card.
           if \<not> str_contains ''PASS'' card then ret (failure ERRNEWCARD)
           else set_ec_to_baidu mc root_dir)))))"

text \<open>The version and the state of V5, then the first opening of the card.\<close>

definition check_v5 :: "'o machine \<Rightarrow> string \<Rightarrow> string \<Rightarrow> ('o host, reply) io" where
  "check_v5 mc root_dir cmd =
     bnd (cmd_do mc (cmd @ ''&& ./wr_n 0x80e8 1 '')) (\<lambda>_.
     bnd (cmd_run mc (cmd @ ''&& ./rd_n 0x8000'')) (\<lambda>version.
     bnd (last_char version) (\<lambda>vc.
       if vc \<noteq> CHR ''9'' then
         bnd (cmd_do mc ''reboot'') (\<lambda>_. ret (answer_with (PStr version) ERRV5V))
       else
         bnd (cmd_run mc (cmd @ ''&& ./rd_n 0x8068 '')) (\<lambda>v5.
         bnd (last_char v5) (\<lambda>c.
           if c \<noteq> CHR ''0'' then
             bnd (cmd_do mc (cmd @ ''&& ./cfg_v5_n '')) (\<lambda>_.
             bnd (cmd_do mc ''reboot'') (\<lambda>_. ret (answer_with (PStr v5) ERRV5)))
           else
             bnd (open_newcard mc cmd) (\<lambda>card.
               if \<not> str_contains ''PASS'' card
               then reload_twice mc (path_join root_dir ''op_tools'') cmd (finish_flash mc root_dir cmd)
               else finish_flash mc root_dir cmd))))))"

definition check_flash :: "'o machine \<Rightarrow> string \<Rightarrow> ('o host, reply) io" where
  "check_flash mc root_dir =
     (let cmd = ''cd '' @ root_dir @ '' && cd op_tools ''
      in bnd (cmd_run mc (''lspci | grep '' @ quoted ''RAM memory'')) (\<lambda>pci.
           if \<not> str_contains ''RAM memory'' pci then ret (answer_with (PStr pci) ERRPCI)
           else
             rmmod_first mc ''ssd_drv'' (
               bnd (cmd_do mc (cmd @ ''&& insmod ssd_drv-ne.ko'')) (\<lambda>_.
               module_and_device mc ''ssd_drv'' (
               bnd (cmd_run mc (cmd @ ''&& ./cfg_s6_n_40 1 '')) (\<lambda>s6.
                 if \<not> str_contains ''sucess'' s6 then ret (answer_with (PStr s6) ERRS6)
                 else check_v5 mc root_dir cmd))))))"

section \<open>Links and checks\<close>

definition soft_links :: "string list" where
  "soft_links =
     [''ssd_error'', ''ssd_ls'', ''ssd_stat'', ''ssd_read_id'', ''ssd_read_table'', ''util_erasetable'',
      ''close_force'', ''ssd_mark_bad_block'', ''ssd_erase_id'', ''ssd_mark_erase_count'']"

definition soft_link_tools :: "'o machine \<Rightarrow> string \<Rightarrow> ('o host, reply) io" where
  "soft_link_tools mc root_dir =
     bnd (for_each soft_links (\<lambda>link.
            cmd_do mc (''ln -s '' @ path_join (path_join root_dir ''op_tools'') link
                       @ '' '' @ path_join ''/bin'' link))) (\<lambda>_.
       ret success)"

definition reply_value :: "reply \<Rightarrow> py" where
  "reply_value r = PDict [(''magic'', PStr (rp_magic r)), (''result'', rp_result r), (''error'', PInt (rp_error r))]"

definition check_ssd :: "'o machine \<Rightarrow> string \<Rightarrow> ('o host, reply) io" where
  "check_ssd mc root_dir =
     bnd (insmod_ssd_driver mc ''ssd_drv'') (\<lambda>res.
       if rp_error res \<noteq> error_code NOERR then ret (answer_with (reply_value res) ERRCHECK)
       else
         (let tool_path = path_join root_dir ''op_tools''
          in bnd (cmd_do mc (''cd '' @ tool_path @ '' && ./ssd_check_all > ssd_check.log'')) (\<lambda>_.
             bnd (cmd_run mc (''cd '' @ tool_path @ '' && cat ssd_check.log'')) (\<lambda>out.
               ret (if \<not> str_contains ''error'' out then success else answer_with (PStr out) ERRCHECK)))))"

section \<open>Requests\<close>

text \<open>
  A request is whatever the caller sent, a Python value. The table of \<open>opCall\<close>: the first two operations ignore the
  handle, the others use it as a text. One that is not a text is refused before the first command here, in the code
  where it is first put into a path or a command.
\<close>

definition with_text :: "(string \<Rightarrow> ('w, 'a) io) \<Rightarrow> py \<Rightarrow> ('w, 'a) io" where
  "with_text f handle = bnd (lift (as_str TypeErr handle)) f"

definition operations :: "'o machine \<Rightarrow> (string \<times> (py \<Rightarrow> ('o host, reply) io)) list" where
  "operations mc =
     [(''scan'', \<lambda>x. host_scan), (''getkernel'', \<lambda>x. get_kernel mc), (''chkernel'', with_text (change_kernel mc)),
      (''loadssd'', with_text (load_ssd_driver mc)), (''cfgflash'', with_text (cfg_flash mc)),
      (''pretools'', with_text (down_loads mc)), (''chkflash'', with_text (check_flash mc)),
      (''insmod'', with_text (insmod_ssd_driver mc)), (''softlink'', with_text (soft_link_tools mc)),
      (''depmod'', with_text (dep_mod mc)), (''checkssd'', with_text (check_ssd mc)),
      (''getec'', with_text (get_ec_from_huawei mc)), (''setec'', with_text (set_ec_to_baidu mc))]"

definition operation_of :: "'o machine \<Rightarrow> py \<Rightarrow> pyexc + (py \<Rightarrow> ('o host, reply) io)" where
  "operation_of mc op =
     (case op of
        PStr s \<Rightarrow> (case map_of (operations mc) s of None \<Rightarrow> Inl (KeyErr s) | Some f \<Rightarrow> Inr f)
      | PList xs \<Rightarrow> Inl TypeErr
      | PDict d \<Rightarrow> Inl TypeErr
      | _ \<Rightarrow> Inl (KeyErr []))"

text \<open>
  The magic word is read before the \<open>try\<close>. Any exception of the operation, an unknown operation, and a request without
  one or without a handle, is answered with ERROPER.
\<close>

definition op_call :: "'o machine \<Rightarrow> py \<Rightarrow> ('o host, reply) io" where
  "op_call mc rq =
     bnd (lift (getitem rq ''magic'')) (\<lambda>magic.
       if magic \<noteq> PStr SSDMAGIC then ret (failure ERRMAGIC)
       else catch (bnd (lift (bindE (getitem rq ''operation'') (operation_of mc))) (\<lambda>f.
                   bnd (lift (getitem rq ''handle'')) f))
              (\<lambda>e. Some (ret (failure ERROPER))))"

text \<open>The handle the agent's own command line gives to an operation; \<open>NULL\<close> when it knows none.\<close>

definition handle_of :: "string list \<Rightarrow> py \<Rightarrow> string" where
  "handle_of known op =
     (case op of
        PStr s \<Rightarrow>
          if s = ''chkernel'' then ''kernel-2.6.32_1-9-0-0_ssd''
          else if s = ''loadssd'' then ''ssd_drv.ko''
          else if s \<in> set known then ''/home'' else ''NULL''
      | _ \<Rightarrow> ''NULL'')"

definition server_known :: "string list" where
  "server_known = [''pretools'', ''cfgflash'', ''chkflash'', ''insmod'', ''softlink'', ''depmod'', ''checkssd'',
     ''getec'', ''setec'']"

definition client_known :: "string list" where
  "client_known = [''pretools'', ''cfgflash'', ''chkflash'', ''insmod'', ''softlink'']"

definition req_creator :: "py \<Rightarrow> py \<Rightarrow> py \<Rightarrow> string \<Rightarrow> py" where
  "req_creator server port op handle =
     PDict [(''magic'', PStr SSDMAGIC), (''server'', server), (''port'', port), (''operation'', op),
            (''handle'', PStr handle)]"

section \<open>The master's client\<close>

text \<open>The client's own table of texts lacks the last three codes.\<close>

definition client_errors :: "(int, string) dict" where
  "client_errors = filter (\<lambda>(e, s). -12 \<le> e) errorString"

text \<open>\<open>failList[server]\<close>: an error code of the server, or an exception of the call.\<close>

datatype fail_entry = FailCode int | FailExc pyexc

definition rpc_call :: "(py \<Rightarrow> pyexc + reply) \<Rightarrow> string \<Rightarrow> py
     \<Rightarrow> (string, fail_entry) dict \<Rightarrow> (string, fail_entry) dict" where
  "rpc_call proxy server rq failed =
     (case proxy rq of
        Inl e \<Rightarrow> dset failed server (FailExc e)
      | Inr r \<Rightarrow>
          (case dget client_errors (rp_error r) of
             None \<Rightarrow> dset failed server (FailExc (KeyErr (int_str (rp_error r))))
           | Some s \<Rightarrow>
               if rp_error r \<noteq> error_code NOERR then dset failed server (FailCode (rp_error r))
               else if dhas failed server then ddel failed server else failed))"

text \<open>\<open>rqs\<close> has the request for each server.\<close>

definition rpc_multi_call :: "(string \<Rightarrow> py \<Rightarrow> pyexc + reply) \<Rightarrow> (string \<Rightarrow> py) \<Rightarrow> string list
     \<Rightarrow> (string, fail_entry) dict \<Rightarrow> (string, fail_entry) dict" where
  "rpc_multi_call proxies rqs servers failed =
     fold (\<lambda>s f. rpc_call (proxies s) s (rqs s) f) servers failed"

section \<open>The command lines\<close>

text \<open>The agent run by hand: the answer is printed with the text of its code.\<close>

definition agent_main :: "'o machine \<Rightarrow> py \<Rightarrow> ('o host, string \<times> reply) io" where
  "agent_main mc operation =
     bnd (op_call mc (req_creator PNone PNone operation (handle_of server_known operation))) (\<lambda>reply.
     bnd (lift (case dget errorString (rp_error reply) of
                  None \<Rightarrow> Inl (KeyErr (int_str (rp_error reply))) | Some msg \<Rightarrow> Inr msg)) (\<lambda>msg.
       ret (msg, reply)))"

text \<open>
  What \<open>optparse\<close> gives to the master's \<open>main\<close>, an option that was not given being None; the file system: the lines
  of a file, or the exception that opening it raises, for the paths that exist.
\<close>

record master_options =
  mo_file :: "string option"
  mo_server :: "string option"
  mo_port :: string
  mo_operation :: "string option"

definition given_text :: "string option \<Rightarrow> bool" where
  "given_text x = (case x of None \<Rightarrow> False | Some s \<Rightarrow> s \<noteq> [])"

definition host_lines :: "string list \<Rightarrow> string list" where
  "host_lines ls = map (str_replace [CHR 0x0A] []) ls"

text \<open>
  The result is what \<open>main\<close> returns, \<open>Some (- 1)\<close> for a refused command line, with the list of failures, which it
  prints when there are any.
\<close>

definition master_main ::
    "(string \<Rightarrow> string \<Rightarrow> py \<Rightarrow> pyexc + reply) \<Rightarrow> (string \<Rightarrow> (pyexc + string list) option) \<Rightarrow> master_options
     \<Rightarrow> (string, fail_entry) dict \<Rightarrow> pyexc + int option \<times> (string, fail_entry) dict" where
  "master_main agents files opts failed =
     (if \<not> given_text (mo_operation opts) then Inr (Some (- 1), failed)
      else
        (let op = PStr (the (mo_operation opts));
             rq = (\<lambda>server. req_creator (PStr server) (PStr (mo_port opts)) op (handle_of client_known op));
             proxies = (\<lambda>server. agents server (mo_port opts))
         in if given_text (mo_file opts) then
              (case files (the (mo_file opts)) of
                 None \<Rightarrow> Inr (Some (- 1), failed)
               | Some opened \<Rightarrow>
                   bindE opened (\<lambda>serverList. Inr (None, rpc_multi_call proxies rq (host_lines serverList) failed)))
            else if given_text (mo_server opts) then
              (let server = the (mo_server opts) in Inr (None, rpc_call (proxies server) server (rq server) failed))
            else Inr (Some (- 1), failed)))"

end
