(* ===== verification/SsdProps.thy ===== *)
theory SsdProps
  imports SsdFlash "HOL-Library.Sublist"
begin

text \<open>
  The properties of the SSD agent: the shape of every reply, what a successful check of a card has
  seen, and the bounds of probing for the device.
\<close>

section \<open>Every reply is well formed\<close>

definition well_formed :: "reply \<Rightarrow> bool" where
  "well_formed r = (rp_magic r = SSDMAGIC \<and> dhas errorString (rp_error r))"

definition replies :: "('o host, reply) io \<Rightarrow> bool" where
  "replies m = (\<forall>h r h'. m h = (Inr r, h') \<longrightarrow> well_formed r)"

named_theorems replies_intros \<open>computations whose replies are well formed\<close>

lemma well_formed_answer [simp]: "well_formed (answer_with v e)" "well_formed success" "well_formed (failure e)"
  by (cases e; simp add: well_formed_def answer_with_def errorString_def dhas_def success_def failure_def)+

lemma replies_ret [replies_intros]: "well_formed r \<Longrightarrow> replies (ret r)"
  by (simp add: replies_def)

lemma replies_throw [replies_intros]: "replies (throw e)"
  by (simp add: replies_def)

lemma replies_bnd [replies_intros]: "(\<And>x. replies (f x)) \<Longrightarrow> replies (bnd m f)"
  by (auto simp: replies_def elim!: bnd_InrE)

lemma replies_if [replies_intros]: "replies a \<Longrightarrow> replies b \<Longrightarrow> replies (if c then a else b)"
  by simp

lemma replies_unless_error [replies_intros]:
  assumes "replies m" "replies k"
  shows "replies (unless_error m k)"
proof -
  have "well_formed r" if run: "unless_error m k h = (Inr r, h')" for h r h'
  proof -
    obtain x w where x: "m h = (Inr x, w)" "(if rp_error x \<noteq> error_code NOERR then ret x else k) w = (Inr r, h')"
      using run unfolding unless_error_def by (rule bnd_InrE)
    with assms show ?thesis unfolding replies_def by (cases "rp_error x = error_code NOERR") (fastforce | simp)+
  qed
  then show ?thesis by (simp add: replies_def)
qed

lemma replies_rmmod_first [replies_intros]: "replies k \<Longrightarrow> replies (rmmod_first mc m k)"
  unfolding rmmod_first_def by (intro replies_intros) simp

lemma replies_check_device [replies_intros]: "replies (check_device mc)"
  unfolding check_device_def by (intro replies_intros) simp_all

lemma replies_module_and_device [replies_intros]: "replies k \<Longrightarrow> replies (module_and_device mc m k)"
  unfolding module_and_device_def by (intro replies_intros) simp

lemma replies_load [replies_intros]: "replies (load_ssd_driver mc d)"
  unfolding load_ssd_driver_def Let_def by (intro replies_intros) simp_all

lemma replies_insmod [replies_intros]: "replies (insmod_ssd_driver mc d)"
  unfolding insmod_ssd_driver_def Let_def by (intro replies_intros) simp_all

lemma replies_down_loads [replies_intros]: "replies (down_loads mc d)"
  unfolding down_loads_def by (intro replies_intros) simp_all

lemma replies_huawei [replies_intros]: "replies (get_ec_from_huawei mc d)"
  unfolding get_ec_from_huawei_def Let_def by (intro replies_intros) simp

lemma replies_baidu [replies_intros]: "replies (set_ec_to_baidu mc d)"
  unfolding set_ec_to_baidu_def by (intro replies_intros) simp_all

lemma replies_ensure_files [replies_intros]: "replies k \<Longrightarrow> replies (ensure_files mc d fs k)"
  by (induction fs) (simp_all, intro replies_intros)

lemma replies_reload_s6 [replies_intros]: "replies (reload_s6 mc d b)"
  unfolding reload_s6_def Let_def by (intro replies_intros) simp_all

lemma replies_finish [replies_intros]: "replies (finish_flash mc d cmd)"
  unfolding finish_flash_def by (intro replies_intros) simp

lemma replies_reload_twice [replies_intros]:
  assumes "replies k"
  shows "replies (reload_twice mc d cmd k)"
proof -
  have keep: "replies (bnd m f)" if "replies m" "\<And>x. well_formed x \<Longrightarrow> replies (f x)"
    for m :: "('a host, reply) io" and f
    using that by (fastforce simp: replies_def elim!: bnd_InrE)
  show ?thesis
    unfolding reload_twice_def
    by (intro keep replies_if assms replies_reload_s6 replies_bnd [where m = "cmd_do _ _"]) (simp_all add: replies_ret)
qed

lemma replies_check_v5 [replies_intros]: "replies (check_v5 mc d cmd)"
  unfolding check_v5_def by (intro replies_intros) simp_all

lemma replies_get_kernel: "replies (get_kernel mc)"
  unfolding get_kernel_def by (intro replies_intros) simp

lemma replies_change_kernel: "replies (change_kernel mc k)"
  unfolding change_kernel_def Let_def by (intro replies_intros) simp_all

lemma replies_cfg_flash: "replies (cfg_flash mc d)"
  unfolding cfg_flash_def by (intro replies_intros) simp

lemma replies_check_flash: "replies (check_flash mc d)"
  unfolding check_flash_def Let_def by (intro replies_intros) simp_all

lemma replies_soft_links: "replies (soft_link_tools mc d)"
  unfolding soft_link_tools_def by (intro replies_intros) simp

lemma replies_dep_mod: "replies (dep_mod mc d)"
  unfolding dep_mod_def Let_def by (intro replies_intros) simp

lemma replies_check_ssd: "replies (check_ssd mc d)"
  unfolding check_ssd_def Let_def by (intro replies_intros) simp_all

lemmas operations_reply = replies_get_kernel replies_change_kernel replies_cfg_flash replies_check_flash
  replies_soft_links replies_dep_mod replies_check_ssd replies_load replies_insmod replies_down_loads
  replies_huawei replies_baidu

lemma replies_with_text: "(\<And>s. replies (f s)) \<Longrightarrow> replies (with_text f x)"
  by (cases x) (simp_all add: with_text_def replies_def bnd_def)

lemma replies_operations: "list_all (\<lambda>(s, f). \<forall>x. replies (f x)) (operations mc)"
  by (simp add: operations_def operations_reply host_scan_def replies_ret replies_with_text)

lemma bnd_lift_Inr: "bnd (lift (Inr x)) f = f x"
  by (simp add: bnd_def fun_eq_iff)

lemma operation_of_ok: "operation_of mc op = Inr f \<Longrightarrow> \<exists>s. map_of (operations mc) s = Some f"
  by (cases op) (auto simp: operation_of_def split: option.splits)

lemma op_call_raises: "getitem rq ''magic'' = Inl e \<Longrightarrow> op_call mc rq h = (Inl e, h)"
  by (simp add: op_call_def bnd_def)

lemma op_call_replies:
  assumes "getitem rq ''magic'' = Inr m"
  shows "\<exists>r h'. op_call mc rq h = (Inr r, h') \<and> well_formed r"
proof (cases "m = PStr SSDMAGIC")
  case True
  obtain res h' where run: "bnd (lift (bindE (getitem rq ''operation'') (operation_of mc))) (\<lambda>f.
      bnd (lift (getitem rq ''handle'')) f) h = (res, h')"
    by fastforce
  have "well_formed r" if "res = Inr r" for r
  proof -
    from run that obtain s f x where "map_of (operations mc) s = Some f" "f x h = (Inr r, h')"
      by (auto simp: bindE_Inr_iff elim!: bnd_InrE dest!: operation_of_ok)
    then show ?thesis
      using replies_operations [of mc] map_of_SomeD unfolding replies_def list_all_iff by fast
  qed
  moreover have "op_call mc rq h = catch (bnd (lift (bindE (getitem rq ''operation'') (operation_of mc))) (\<lambda>f.
      bnd (lift (getitem rq ''handle'')) f)) (\<lambda>e. Some (ret (failure ERROPER))) h"
    using True assms by (simp add: op_call_def bnd_lift_Inr)
  ultimately show ?thesis
    by (cases res) (simp_all add: run catch_def)
qed (simp add: op_call_def bnd_def assms)

text \<open>
  C25 (op_call_well_formed): whatever the request, a value of any shape, \<open>opCall\<close> raises only when it has no magic word to
  read, a KeyError or a TypeError, before any command. Otherwise it answers with the magic word and an error code that has
  a text in the agent's table; a wrong magic word is answered with ERRMAGIC and runs no command.
\<close>

theorem op_call_well_formed:
  "case getitem rq ''magic'' of
     Inl e \<Rightarrow> op_call mc rq h = (Inl e, h)
   | Inr m \<Rightarrow> (\<exists>r h'. op_call mc rq h = (Inr r, h') \<and> rp_magic r = SSDMAGIC \<and> dhas errorString (rp_error r)
       \<and> (m = PStr SSDMAGIC \<or> r = failure ERRMAGIC \<and> h' = h))"
proof (cases "getitem rq ''magic''")
  case (Inl e)
  then show ?thesis by (simp add: op_call_raises)
next
  case (Inr m)
  obtain r h' where r: "op_call mc rq h = (Inr r, h')" "well_formed r" using op_call_replies [OF Inr] by blast
  moreover have "m = PStr SSDMAGIC \<or> r = failure ERRMAGIC \<and> h' = h"
    using r(1) Inr by (auto simp: op_call_def bnd_def)
  ultimately show ?thesis using Inr by (auto simp: well_formed_def)
qed

text \<open>
  (agent_main_prints): whatever the operation on the command line, none included, the agent run by hand prints the
  text of a code and an answer; it does not raise.
\<close>

theorem agent_main_prints:
  "\<exists>msg reply h'. agent_main mc operation h = (Inr (msg, reply), h') \<and> (rp_error reply, msg) \<in> set errorString"
proof -
  obtain r h' where r: "op_call mc (req_creator PNone PNone operation (handle_of server_known operation)) h = (Inr r, h')"
      "well_formed r"
    using op_call_replies [of "req_creator PNone PNone operation (handle_of server_known operation)" "PStr SSDMAGIC" mc h]
    by (auto simp: req_creator_def)
  then obtain msg where "dget errorString (rp_error r) = Some msg"
    by (auto simp: well_formed_def dhas_def)
  moreover from this have "(rp_error r, msg) \<in> set errorString"
    by (rule dget_Some_mem)
  ultimately show ?thesis using r(1) by (simp add: agent_main_def bnd_def lift_def ret_def)
qed

section \<open>What a successful operation has seen\<close>

text \<open>
  Histories of commands: a command ran with an output of some kind, and one history after another. A
  computation sees \<open>P\<close> when every run that ends with a success adds a history satisfying \<open>P\<close>.
\<close>

type_synonym history = "(string \<times> string) list"

definition saw :: "string \<Rightarrow> (string \<Rightarrow> bool) \<Rightarrow> history \<Rightarrow> bool" where
  "saw cmd Q xs = (\<exists>out. (cmd, out) \<in> set xs \<and> Q out)"

definition followed :: "(history \<Rightarrow> bool) \<Rightarrow> (history \<Rightarrow> bool) \<Rightarrow> history \<Rightarrow> bool" where
  "followed P Q xs = (\<exists>ys zs. xs = ys @ zs \<and> P ys \<and> Q zs)"

definition left_closed :: "(history \<Rightarrow> bool) \<Rightarrow> bool" where
  "left_closed P = (\<forall>ys xs. P xs \<longrightarrow> P (ys @ xs))"

lemma left_closed_saw [simp]: "left_closed (saw cmd Q)"
  by (auto simp: left_closed_def saw_def)

lemma left_closed_followed [simp]: "left_closed P \<Longrightarrow> left_closed (followed P Q)"
  unfolding left_closed_def followed_def by (metis append.assoc)

definition grown :: "'o host \<Rightarrow> 'o host \<Rightarrow> bool" where
  "grown h h' = (\<exists>xs. ho_ran h' = ho_ran h @ xs)"

lemma grown_order: "reflp grown" "transp grown"
  by (auto simp: grown_def reflp_def transp_def)

named_theorems grows_intros \<open>computations that only add to the history\<close>

lemmas grows_basic [grows_intros] = within_pure [OF grown_order(1)] within_bnd [OF grown_order(2)]

lemma grows_if [grows_intros]: "within grown a \<Longrightarrow> within grown b \<Longrightarrow> within grown (if c then a else b)"
  by simp

lemma grows_cmd_run [grows_intros]: "within grown (cmd_run mc cmd)"
  by (rule withinI) (auto simp: cmd_run_def grown_def Let_def split: prod.splits)

lemma grows_cmd_do [grows_intros]: "within grown (cmd_do mc cmd)"
  unfolding cmd_do_def by (intro grows_intros)

lemma grows_path_exists [grows_intros]: "within grown (path_exists mc p)"
  unfolding path_exists_def by (intro grows_intros)

lemma grows_sleep [grows_intros]: "within grown (host_sleep n)"
  unfolding host_sleep_def by (rule within_modify) (simp add: grown_def)

lemma grows_for_each [grows_intros]: "(\<And>x. within grown (f x)) \<Longrightarrow> within grown (for_each xs f)"
  by (induction xs) (auto intro!: grows_intros)

lemma grows_last_char [grows_intros]: "within grown (last_char s)"
  unfolding last_char_def by (intro grows_intros)

lemma grows_udev [grows_intros]: "within grown (update_udev mc)"
  unfolding update_udev_def by (auto intro!: grows_intros split: option.splits)

lemma grows_reload [grows_intros]: "within grown (reload_s6 mc d b)"
  unfolding reload_s6_def open_newcard_def Let_def by (intro grows_intros)

lemma grows_device_tries [grows_intros]: "within grown (device_tries mc n)"
proof (induction n)
  case 0
  show ?case unfolding device_tries.simps by (intro grows_intros)
next
  case (Suc n)
  show ?case unfolding device_tries.simps by (intro grows_intros Suc)
qed

definition sees :: "('o host, reply) io \<Rightarrow> (history \<Rightarrow> bool) \<Rightarrow> bool" where
  "sees m P = (\<forall>h r h'. m h = (Inr r, h') \<longrightarrow> rp_error r = error_code NOERR
     \<longrightarrow> (\<exists>xs. ho_ran h' = ho_ran h @ xs \<and> P xs))"

lemma seesI:
  "(\<And>h r h'. m h = (Inr r, h') \<Longrightarrow> rp_error r = error_code NOERR \<Longrightarrow> \<exists>xs. ho_ran h' = ho_ran h @ xs \<and> P xs)
   \<Longrightarrow> sees m P"
  unfolding sees_def by blast

lemma seesD: "sees m P \<Longrightarrow> m h = (Inr r, h') \<Longrightarrow> rp_error r = error_code NOERR \<Longrightarrow> \<exists>xs. ho_ran h' = ho_ran h @ xs \<and> P xs"
  unfolding sees_def by blast

lemma sees_mono: "sees m P \<Longrightarrow> (\<And>xs. P xs \<Longrightarrow> Q xs) \<Longrightarrow> sees m Q"
  unfolding sees_def by blast

lemma followed_last: "followed P Q xs \<Longrightarrow> left_closed Q \<Longrightarrow> Q xs"
  by (auto simp: followed_def left_closed_def)

lemma sees_failure: "sees (ret (failure e)) P" if "e \<noteq> NOERR" for e
  using that by (cases e) (auto simp: sees_def failure_def answer_with_def)

lemma sees_answer: "sees (ret (answer_with v e)) P" if "e \<noteq> NOERR" for e
  using that by (cases e) (auto simp: sees_def answer_with_def)

lemma sees_if: "(c \<Longrightarrow> sees a P) \<Longrightarrow> (\<not> c \<Longrightarrow> sees b P) \<Longrightarrow> sees (if c then a else b) P"
  by simp

lemma sees_after:
  assumes m: "within grown m" and f: "\<And>x. sees (f x) P" and P: "left_closed P"
  shows "sees (bnd m f) P"
proof (rule seesI)
  fix h r h'
  assume "bnd m f h = (Inr r, h')" "rp_error r = error_code NOERR"
  then obtain x w where x: "m h = (Inr x, w)" "f x w = (Inr r, h')" "rp_error r = error_code NOERR"
    by (auto elim: bnd_InrE)
  obtain ys where "ho_ran w = ho_ran h @ ys"
    using withinD [OF m x(1)] by (auto simp: grown_def)
  moreover obtain xs where "ho_ran h' = ho_ran w @ xs" "P xs"
    using seesD [OF f x(2,3)] by blast
  ultimately show "\<exists>xs. ho_ran h' = ho_ran h @ xs \<and> P xs"
    using P by (intro exI [of _ "ys @ xs"]) (simp add: left_closed_def)
qed

lemma sees_unless_error:
  assumes "sees m P" "sees k Q"
  shows "sees (unless_error m k) (followed P Q)"
proof (rule seesI)
  fix h r h'
  assume "unless_error m k h = (Inr r, h')" "rp_error r = error_code NOERR"
  then obtain x w where x: "m h = (Inr x, w)" "(if rp_error x \<noteq> error_code NOERR then ret x else k) w = (Inr r, h')"
      and r: "rp_error r = error_code NOERR"
    unfolding unless_error_def by (auto elim: bnd_InrE)
  then have ok: "rp_error x = error_code NOERR" "k w = (Inr r, h')"
    by (auto split: if_splits)
  from seesD [OF assms(1) x(1) ok(1)] seesD [OF assms(2) ok(2) r]
  show "\<exists>xs. ho_ran h' = ho_ran h @ xs \<and> followed P Q xs"
    unfolding followed_def by force
qed

text \<open>A command whose output decides.\<close>

lemma sees_cmd:
  assumes "\<And>out. Q out \<Longrightarrow> sees (f out) P" "\<And>out h r h'. f out h = (Inr r, h') \<Longrightarrow> rp_error r = error_code NOERR \<Longrightarrow> Q out"
  shows "sees (bnd (cmd_run mc cmd) f) (followed (saw cmd Q) P)"
proof (rule seesI)
  fix h r h'
  assume "bnd (cmd_run mc cmd) f h = (Inr r, h')" "rp_error r = error_code NOERR"
  then obtain out w where x: "cmd_run mc cmd h = (Inr out, w)" "f out w = (Inr r, h')" "rp_error r = error_code NOERR"
    by (auto elim: bnd_InrE)
  then have Q: "Q out" using assms(2) by blast
  have "ho_ran w = ho_ran h @ [(cmd, out)]"
    using x(1) by (auto simp: cmd_run_def Let_def split: prod.splits)
  moreover obtain xs where "ho_ran h' = ho_ran w @ xs" "P xs"
    using seesD [OF assms(1) [OF Q] x(2,3)] by blast
  moreover have "followed (saw cmd Q) P ([(cmd, out)] @ xs)"
    unfolding followed_def saw_def
  proof (intro exI conjI)
    show "[(cmd, out)] @ xs = [(cmd, out)] @ xs" by (rule refl)
    show "(cmd, out) \<in> set [(cmd, out)]" by simp
    show "Q out" by (rule Q)
    show "P xs" by fact
  qed
  ultimately show "\<exists>xs. ho_ran h' = ho_ran h @ xs \<and> followed (saw cmd Q) P xs"
    by (intro exI [of _ "[(cmd, out)] @ xs"]) simp
qed

section \<open>A checked card\<close>

definition nonempty :: "string \<Rightarrow> bool" where
  "nonempty out = (out \<noteq> [])"

definition driver_up :: "history \<Rightarrow> bool" where
  "driver_up = followed (saw ''lsmod | grep ssd_drv'' nonempty)
     (followed (saw ''ls /dev | grep ssd_Baidu43'' nonempty) (\<lambda>xs. True))"

text \<open>The end of the check: the new driver is up, the card was initialised and its erase counts were marked.\<close>

definition card_finished :: "string \<Rightarrow> history \<Rightarrow> bool" where
  "card_finished root_dir =
     followed driver_up
       (followed (saw (init_newcard_command root_dir) (str_contains ''PASS''))
          (saw (mark_command root_dir) (\<lambda>out. \<not> str_contains ''fail'' out)))"

text \<open>The output of a command ends in the character \<open>c\<close>.\<close>

definition ends_in :: "char \<Rightarrow> string \<Rightarrow> bool" where
  "ends_in c out = (out \<noteq> [] \<and> last out = c)"

definition tools_command :: "string \<Rightarrow> string" where
  "tools_command root_dir = ''cd '' @ root_dir @ '' && cd op_tools ''"

definition s6_loaded :: "string \<Rightarrow> history \<Rightarrow> bool" where
  "s6_loaded cmd = saw (cmd @ ''&& ./cfg_s6_n_40 1 '') (str_contains ''sucess'')"

definition card_opens :: "string \<Rightarrow> history \<Rightarrow> bool" where
  "card_opens cmd = saw (cmd @ ''&& ./open_newcard'') (str_contains ''PASS'')"

text \<open>The card was opened by a reload: S6 was loaded again before, in the directory of the tools.\<close>

definition card_reopened :: "string \<Rightarrow> history \<Rightarrow> bool" where
  "card_reopened dir = followed (s6_loaded (''cd '' @ dir @ '' '')) (card_opens (''cd '' @ dir @ '' ''))"

definition card_opened :: "string \<Rightarrow> history \<Rightarrow> bool" where
  "card_opened root_dir xs =
     (card_opens (tools_command root_dir) xs \<or> card_reopened (path_join root_dir ''op_tools'') xs)"

text \<open>
  Everything that a successful check has seen, in its order: the card on the PCI bus, the driver and the device, the
  load of S6, version 9 and state 0 of V5, the opening of the card, and the end of the check.
\<close>

definition card_ready :: "string \<Rightarrow> history \<Rightarrow> bool" where
  "card_ready root_dir =
     followed (saw (''lspci | grep '' @ quoted ''RAM memory'') (str_contains ''RAM memory''))
    (followed driver_up
    (followed (s6_loaded (tools_command root_dir))
    (followed (saw (tools_command root_dir @ ''&& ./rd_n 0x8000'') (ends_in CHR ''9''))
    (followed (saw (tools_command root_dir @ ''&& ./rd_n 0x8068 '') (ends_in CHR ''0''))
    (followed (card_opened root_dir) (card_finished root_dir))))))"

lemma left_closed_ready [simp]:
  "left_closed driver_up" "left_closed (card_finished d)" "left_closed (s6_loaded c)" "left_closed (card_opens c)"
  "left_closed (card_reopened d)"
  by (simp_all add: driver_up_def card_finished_def s6_loaded_def card_opens_def card_reopened_def)

lemma left_closed_opened [simp]: "left_closed (card_opened d)"
  using left_closed_ready(4) [of "tools_command d"] left_closed_ready(5) [of "path_join d ''op_tools''"]
  unfolding left_closed_def card_opened_def by blast

lemma followed_assoc: "followed (followed P Q) R = followed P (followed Q R)"
  unfolding followed_def by (rule ext) (metis append.assoc)

lemma followed_any: "left_closed P \<Longrightarrow> followed (\<lambda>xs. True) P = P"
  unfolding followed_def left_closed_def by (rule ext) (metis append_Nil)

lemma driver_up_then:
  "left_closed P \<Longrightarrow> followed (saw ''lsmod | grep ssd_drv'' nonempty) (followed (saw ''ls /dev | grep ssd_Baidu43'' nonempty) P)
     = followed driver_up P"
  by (simp add: driver_up_def followed_assoc followed_any)

lemma device_tries_seen:
  "device_tries mc n h = (Inr True, h') \<Longrightarrow>
   \<exists>xs. ho_ran h' = ho_ran h @ xs \<and> saw ''ls /dev | grep ssd_Baidu43'' nonempty xs"
proof (induction n arbitrary: h)
  case (Suc n)
  let ?c = "''ls /dev | grep ssd_Baidu43''"
  obtain out w where run: "cmd_run mc ?c h = (Inr out, w)"
      "(if out \<noteq> [] then ret True else bnd (host_sleep 3) (\<lambda>_. device_tries mc n)) w = (Inr True, h')"
    using Suc.prems by (auto elim: bnd_InrE)
  have w: "ho_ran w = ho_ran h @ [(?c, out)]"
    using run(1) by (auto simp: cmd_run_def Let_def split: prod.splits)
  show ?case
  proof (cases "out = []")
    case True
    with run(2) have "device_tries mc n (w\<lparr>ho_slept := ho_slept w + 3\<rparr>) = (Inr True, h')"
      by (simp add: host_sleep_def bnd_def)
    from Suc.IH [OF this] obtain xs where "ho_ran h' = ho_ran w @ xs" "saw ?c nonempty xs" by auto
    with w show ?thesis by (intro exI [of _ "(?c, out) # xs"]) (auto simp: saw_def)
  next
    case False
    with run(2) w show ?thesis by (auto simp: saw_def nonempty_def)
  qed
qed simp

lemma sees_check_device: "sees (check_device mc) (saw ''ls /dev | grep ssd_Baidu43'' nonempty)"
proof (rule seesI)
  fix h r h'
  assume "check_device mc h = (Inr r, h')" and r: "rp_error r = error_code NOERR"
  then obtain seen w where run: "device_tries mc 5 h = (Inr seen, w)"
      "(if \<not> seen then ret (failure ERRINSMOD) else bnd (host_sleep 3) (\<lambda>_. ret success)) w = (Inr r, h')"
    unfolding check_device_def by (auto elim: bnd_InrE)
  have seen: seen
    using run(2) r by (auto simp: failure_def answer_with_def split: if_splits)
  with run(2) have "ho_ran h' = ho_ran w"
    by (auto simp: host_sleep_def bnd_def)
  with device_tries_seen [of mc 5 h w] run(1) seen
  show "\<exists>xs. ho_ran h' = ho_ran h @ xs \<and> saw ''ls /dev | grep ssd_Baidu43'' nonempty xs" by simp
qed

lemma sees_success: "sees (ret success) (\<lambda>xs. True)"
  by (simp add: sees_def)

lemma sees_module_and_device:
  assumes "sees k P"
  shows "sees (module_and_device mc m k)
     (followed (saw (''lsmod | grep '' @ m) nonempty)
        (followed (saw ''ls /dev | grep ssd_Baidu43'' nonempty) P))"
proof -
  have "sees (bnd (cmd_run mc (''lsmod | grep '' @ m)) (\<lambda>out.
       if out = [] then ret (failure ERRINSMOD) else unless_error (check_device mc) k))
     (followed (saw (''lsmod | grep '' @ m) nonempty)
        (followed (saw ''ls /dev | grep ssd_Baidu43'' nonempty) P))"
  proof (rule sees_cmd)
    show "sees (if out = [] then ret (failure ERRINSMOD) else unless_error (check_device mc) k)
        (followed (saw ''ls /dev | grep ssd_Baidu43'' nonempty) P)" for out
      by (intro sees_if sees_failure sees_unless_error sees_check_device assms) simp
    show "(if out = [] then ret (failure ERRINSMOD) else unless_error (check_device mc) k) h = (Inr r, h') \<Longrightarrow>
        rp_error r = error_code NOERR \<Longrightarrow> nonempty out" for out h r h'
      by (auto simp: nonempty_def failure_def answer_with_def split: if_splits)
  qed
  then show ?thesis
    by (simp add: module_and_device_def check_ssd_mod_def bnd_assoc cong: if_cong)
qed

lemma sees_rmmod_first:
  assumes "sees k P" "left_closed P"
  shows "sees (rmmod_first mc m k) P"
  unfolding rmmod_first_def check_ssd_mod_def bnd_assoc
  by (intro sees_after sees_if sees_failure grows_intros assms) simp_all

lemma sees_module_up: "sees (module_and_device mc ''ssd_drv'' (ret success)) driver_up"
  using sees_module_and_device [OF sees_success, of mc "''ssd_drv''"] by (simp add: driver_up_def)

lemma sees_load: "sees (load_ssd_driver mc ''ssd_drv.ko'') driver_up"
proof -
  have name: "str_replace ''.ko'' [] ''ssd_drv.ko'' = ''ssd_drv''"
    by (simp add: str_replace_def)
  show ?thesis
    unfolding load_ssd_driver_def Let_def name remove_if_there_def wget_def
    by (intro sees_rmmod_first sees_after sees_if sees_failure sees_module_up grows_intros) simp_all
qed

lemma sees_insmod: "sees (insmod_ssd_driver mc d) driver_up"
  unfolding insmod_ssd_driver_def Let_def
  by (intro sees_rmmod_first sees_after sees_if sees_load sees_module_up grows_intros) simp_all

lemma sees_set_ec: "sees (set_ec_to_baidu mc d) (saw (mark_command d) (\<lambda>out. \<not> str_contains ''fail'' out))"
proof -
  have "sees (bnd (cmd_run mc (mark_command d)) (\<lambda>res.
           ret (if str_contains ''fail'' res then answer_with (PStr res) ERRSETEC else success)))
     (followed (saw (mark_command d) (\<lambda>out. \<not> str_contains ''fail'' out)) (\<lambda>xs. True))"
    by (rule sees_cmd) (auto simp: sees_def answer_with_def split: if_splits)
  moreover have "followed (saw c Q) (\<lambda>xs. True) xs \<Longrightarrow> saw c Q xs" for c Q xs
    by (auto simp: followed_def saw_def)
  ultimately have step: "sees (bnd (cmd_run mc (mark_command d)) (\<lambda>res.
           ret (if str_contains ''fail'' res then answer_with (PStr res) ERRSETEC else success)))
     (saw (mark_command d) (\<lambda>out. \<not> str_contains ''fail'' out))"
    unfolding sees_def by blast
  show ?thesis
    unfolding set_ec_to_baidu_def
    by (rule sees_after [OF grows_path_exists]) (intro sees_if sees_failure step, simp_all)
qed

lemma sees_finish: "sees (finish_flash mc d (tools_command d)) (card_finished d)"
proof -
  have "sees (bnd (cmd_run mc (init_newcard_command d)) (\<lambda>card.
           if \<not> str_contains ''PASS'' card then ret (failure ERRNEWCARD) else set_ec_to_baidu mc d))
     (followed (saw (init_newcard_command d) (str_contains ''PASS''))
          (saw (mark_command d) (\<lambda>out. \<not> str_contains ''fail'' out)))"
  proof (rule sees_cmd)
    show "sees (if \<not> str_contains ''PASS'' out then ret (failure ERRNEWCARD) else set_ec_to_baidu mc d)
        (saw (mark_command d) (\<lambda>out. \<not> str_contains ''fail'' out))" for out
      by (intro sees_if sees_failure sees_set_ec) simp
  qed (auto simp: failure_def answer_with_def split: if_splits)
  from sees_unless_error [OF sees_insmod this]
  have "sees (unless_error (insmod_ssd_driver mc d)
         (bnd (cmd_run mc (tools_command d @ ''&& ./init_newcard'')) (\<lambda>card.
           if \<not> str_contains ''PASS'' card then ret (failure ERRNEWCARD)
           else set_ec_to_baidu mc d))) (card_finished d)"
    by (simp add: card_finished_def init_newcard_command_def tools_command_def)
  then show ?thesis
    unfolding finish_flash_def by (intro sees_after grows_intros) simp_all
qed

text \<open>The whole history of a command and what follows it, and the check of the last character of an output.\<close>

lemma sees_cmd_each:
  assumes "\<And>out. sees (f out) (R out)"
  shows "sees (bnd (cmd_run mc cmd) f) (\<lambda>xs. \<exists>out ys. xs = (cmd, out) # ys \<and> R out ys)"
proof (rule seesI)
  fix h r h'
  assume "bnd (cmd_run mc cmd) f h = (Inr r, h')" "rp_error r = error_code NOERR"
  then obtain out w where x: "cmd_run mc cmd h = (Inr out, w)" "f out w = (Inr r, h')" "rp_error r = error_code NOERR"
    by (auto elim: bnd_InrE)
  have "ho_ran w = ho_ran h @ [(cmd, out)]"
    using x(1) by (auto simp: cmd_run_def Let_def split: prod.splits)
  moreover obtain ys where "ho_ran h' = ho_ran w @ ys" "R out ys"
    using seesD [OF assms x(2,3)] by blast
  ultimately show "\<exists>xs. ho_ran h' = ho_ran h @ xs \<and> (\<exists>out ys. xs = (cmd, out) # ys \<and> R out ys)" by simp
qed

definition never_succeeds :: "('o host, reply) io \<Rightarrow> bool" where
  "never_succeeds m = (\<forall>h r h'. m h = (Inr r, h') \<longrightarrow> rp_error r \<noteq> error_code NOERR)"

lemma never_succeeds_answer: "e \<noteq> NOERR \<Longrightarrow> never_succeeds (ret (answer_with v e))"
  by (cases e) (simp_all add: never_succeeds_def answer_with_def)

lemma never_succeeds_bnd: "(\<And>x. never_succeeds (f x)) \<Longrightarrow> never_succeeds (bnd m f)"
  by (auto simp: never_succeeds_def elim!: bnd_InrE)

lemma reboot_never_succeeds:
  "never_succeeds (bnd (cmd_do mc c) (\<lambda>_. bnd (cmd_do mc c') (\<lambda>_. bnd (cmd_do mc ''reboot'') (\<lambda>_.
     ret (answer_with v ERRV5)))))"
  by (intro never_succeeds_bnd never_succeeds_answer) simp

lemma sees_bad: "never_succeeds m \<Longrightarrow> sees m P"
  by (auto simp: never_succeeds_def sees_def)

lemma sees_ends:
  assumes "\<And>out. never_succeeds (bad out)" "sees k P"
  shows "sees (bnd (cmd_run mc cmd) (\<lambda>out. bnd (last_char out) (\<lambda>ch. if ch \<noteq> c then bad out else k)))
    (followed (saw cmd (ends_in c)) P)"
proof (rule sees_cmd)
  show "ends_in c out \<Longrightarrow> sees (bnd (last_char out) (\<lambda>ch. if ch \<noteq> c then bad out else k)) P" for out
    using assms(2) by (simp add: ends_in_def last_char_def)
  show "ends_in c out" if run: "bnd (last_char out) (\<lambda>ch. if ch \<noteq> c then bad out else k) h = (Inr r, h')"
      "rp_error r = error_code NOERR" for out h r h'
  proof -
    from run(1) have "out \<noteq> []" "(if last out \<noteq> c then bad out else k) h = (Inr r, h')"
      by (auto simp: last_char_def bnd_def split: if_splits)
    then show ?thesis
      using run(2) assms(1) [of out] by (cases "last out = c") (auto simp: never_succeeds_def ends_in_def)
  qed
qed

lemma sees_contains:
  assumes "e \<noteq> NOERR" "sees k P"
  shows "sees (bnd (cmd_run mc cmd) (\<lambda>out. if \<not> str_contains t out then ret (answer_with (PStr out) e) else k))
    (followed (saw cmd (str_contains t)) P)"
proof (rule sees_cmd)
  show "str_contains t out \<Longrightarrow> sees (if \<not> str_contains t out then ret (answer_with (PStr out) e) else k) P" for out
    using assms(2) by simp
  show "(if \<not> str_contains t out then ret (answer_with (PStr out) e) else k) h = (Inr r, h') \<Longrightarrow>
      rp_error r = error_code NOERR \<Longrightarrow> str_contains t out" for out h r h'
    using assms(1) by (cases e) (auto simp: answer_with_def split: if_splits)
qed

lemma sees_opening:
  "sees (bnd (open_newcard mc cmd) (\<lambda>card. ret (if \<not> str_contains ''PASS'' card then answer_with (PStr card) ERRNEWCARD
     else success))) (card_opens cmd)"
proof -
  have "followed (saw c Q) (\<lambda>xs. True) xs \<Longrightarrow> saw c Q xs" for c Q xs
    by (auto simp: followed_def saw_def)
  moreover have "sees (bnd (cmd_run mc (cmd @ ''&& ./open_newcard'')) (\<lambda>card. if \<not> str_contains ''PASS'' card
      then ret (answer_with (PStr card) ERRNEWCARD) else ret success))
      (followed (saw (cmd @ ''&& ./open_newcard'') (str_contains ''PASS'')) (\<lambda>xs. True))"
    by (rule sees_contains) (simp_all add: sees_success)
  ultimately show ?thesis
    unfolding open_newcard_def card_opens_def by (auto intro: sees_mono simp: if_distrib [of ret])
qed

lemma sees_reload: "sees (reload_s6 mc d b) (card_reopened d)"
proof -
  let ?cmd = "''cd '' @ d @ '' ''"
  have tail: "sees (bnd (cmd_run mc (?cmd @ ''&& ./cfg_s6_n_40 1 '')) (\<lambda>s6.
       if \<not> str_contains ''sucess'' s6 then ret (answer_with (PStr s6) ERRS6)
       else bnd (open_newcard mc ?cmd) (\<lambda>card.
         ret (if \<not> str_contains ''PASS'' card then answer_with (PStr card) ERRNEWCARD else success)))) (card_reopened d)"
    unfolding card_reopened_def s6_loaded_def by (rule sees_contains [OF _ sees_opening]) simp
  show ?thesis
    unfolding reload_s6_def Let_def
    by (intro sees_after [OF grows_cmd_do] sees_after [OF grows_cmd_run] sees_after [OF grows_last_char]
        sees_if sees_bad [OF reboot_never_succeeds] tail left_closed_ready)
qed

lemma sees_reload_twice:
  assumes k: "sees k P"
  shows "sees (reload_twice mc dir cmd k) (followed (card_reopened dir) P)"
proof (rule seesI)
  fix h r h'
  assume "reload_twice mc dir cmd k h = (Inr r, h')" and r: "rp_error r = error_code NOERR"
  then obtain res w where res: "reload_s6 mc dir True h = (Inr res, w)"
      "(if rp_error res = error_code NOERR then k
        else if rp_error res \<noteq> error_code ERRNEWCARD then ret res
        else bnd (reload_s6 mc dir False) (\<lambda>res2.
           if rp_error res2 \<noteq> error_code NOERR then
             bnd (cmd_do mc (cmd @ ''&& ./cfg_v5_n '')) (\<lambda>_.
             bnd (cmd_do mc ''reboot'') (\<lambda>_. ret res2))
           else k)) w = (Inr r, h')"
    unfolding reload_twice_def by (auto elim: bnd_InrE)
  have ext: "\<exists>xs. ho_ran h' = ho_ran h @ xs \<and> followed (card_reopened dir) P xs"
    if grown: "ho_ran v = ho_ran h @ ys" "card_reopened dir ys" and run: "k v = (Inr r, h')" for v ys
  proof -
    obtain zs where "ho_ran h' = ho_ran v @ zs" "P zs" using seesD [OF k run r] by blast
    with grown show ?thesis by (intro exI [of _ "ys @ zs"]) (auto simp: followed_def)
  qed
  show "\<exists>xs. ho_ran h' = ho_ran h @ xs \<and> followed (card_reopened dir) P xs"
  proof (cases "rp_error res = error_code NOERR")
    case True
    with seesD [OF sees_reload res(1)] ext res(2) show ?thesis by auto
  next
    case False
    with res(2) r obtain res2 w2 where res2: "reload_s6 mc dir False w = (Inr res2, w2)"
        "(if rp_error res2 \<noteq> error_code NOERR then
             bnd (cmd_do mc (cmd @ ''&& ./cfg_v5_n '')) (\<lambda>_.
             bnd (cmd_do mc ''reboot'') (\<lambda>_. ret res2))
           else k) w2 = (Inr r, h')"
      by (auto split: if_splits elim: bnd_InrE)
    have ok: "rp_error res2 = error_code NOERR"
      using res2(2) r by (auto elim!: bnd_InrE split: if_splits)
    obtain ys where "ho_ran w2 = ho_ran w @ ys" "card_reopened dir ys"
      using seesD [OF sees_reload res2(1) ok] by blast
    moreover obtain us where "ho_ran w = ho_ran h @ us"
      using withinD [OF grows_reload res(1)] by (auto simp: grown_def)
    ultimately have "ho_ran w2 = ho_ran h @ (us @ ys)" "card_reopened dir (us @ ys)"
      using left_closed_ready(5) by (auto simp: left_closed_def)
    with ext ok res2(2) show ?thesis by simp
  qed
qed

lemma sees_first_opening:
  "sees (bnd (open_newcard mc (tools_command d)) (\<lambda>card.
      if \<not> str_contains ''PASS'' card
      then reload_twice mc (path_join d ''op_tools'') (tools_command d) (finish_flash mc d (tools_command d))
      else finish_flash mc d (tools_command d)))
    (followed (card_opened d) (card_finished d))"
proof -
  let ?open = "tools_command d @ ''&& ./open_newcard''"
  define R where "R out ys = (if \<not> str_contains ''PASS'' out
    then followed (card_reopened (path_join d ''op_tools'')) (card_finished d) ys else card_finished d ys)" for out ys
  have each: "sees (if \<not> str_contains ''PASS'' card
      then reload_twice mc (path_join d ''op_tools'') (tools_command d) (finish_flash mc d (tools_command d))
      else finish_flash mc d (tools_command d)) (R card)" for card
    using sees_reload_twice [OF sees_finish, of mc "path_join d ''op_tools''" "tools_command d" mc d] sees_finish [of mc d]
    by (simp add: R_def [abs_def])
  have opened: "followed (card_opened d) (card_finished d) xs" if xs: "xs = (?open, out) # ys" and R: "R out ys" for xs out ys
  proof (cases "str_contains ''PASS'' out")
    case True
    then have "card_opened d [(?open, out)]" by (simp add: card_opened_def card_opens_def saw_def)
    moreover have "card_finished d ys" using R True by (simp add: R_def)
    moreover have "xs = [(?open, out)] @ ys" using xs by simp
    ultimately show ?thesis unfolding followed_def by blast
  next
    case False
    then obtain us vs where "ys = us @ vs" "card_reopened (path_join d ''op_tools'') us" "card_finished d vs"
      using R by (auto simp: R_def followed_def)
    moreover from this(2) have "card_reopened (path_join d ''op_tools'') ([(?open, out)] @ us)"
      using left_closed_ready(5) unfolding left_closed_def by blast
    moreover have "xs = ([(?open, out)] @ us) @ vs" using xs \<open>ys = us @ vs\<close> by simp
    ultimately show ?thesis unfolding followed_def card_opened_def by blast
  qed
  show ?thesis
    unfolding open_newcard_def by (rule sees_mono [OF sees_cmd_each [OF each]]) (elim exE conjE, rule opened)
qed

lemma sees_check_v5:
  "sees (check_v5 mc d (tools_command d))
    (followed (saw (tools_command d @ ''&& ./rd_n 0x8000'') (ends_in CHR ''9''))
    (followed (saw (tools_command d @ ''&& ./rd_n 0x8068 '') (ends_in CHR ''0''))
    (followed (card_opened d) (card_finished d))))"
  unfolding check_v5_def
  by (rule sees_after [OF grows_cmd_do], rule sees_ends, rule never_succeeds_bnd, rule never_succeeds_answer, simp,
      rule sees_ends, rule never_succeeds_bnd, rule never_succeeds_bnd, rule never_succeeds_answer, simp,
      rule sees_first_opening, intro left_closed_followed left_closed_saw)

lemma sees_check_flash: "sees (check_flash mc d) (card_ready d)"
proof -
  have "sees (bnd (cmd_run mc (tools_command d @ ''&& ./cfg_s6_n_40 1 '')) (\<lambda>s6.
      if \<not> str_contains ''sucess'' s6 then ret (answer_with (PStr s6) ERRS6) else check_v5 mc d (tools_command d)))
      (followed (s6_loaded (tools_command d))
        (followed (saw (tools_command d @ ''&& ./rd_n 0x8000'') (ends_in CHR ''9''))
        (followed (saw (tools_command d @ ''&& ./rd_n 0x8068 '') (ends_in CHR ''0''))
        (followed (card_opened d) (card_finished d)))))" (is "sees ?tail ?P")
    unfolding s6_loaded_def by (rule sees_contains [OF _ sees_check_v5]) simp
  then have "sees (module_and_device mc ''ssd_drv'' ?tail) (followed driver_up ?P)"
    using sees_module_and_device [of ?tail ?P mc "''ssd_drv''"] by (simp add: driver_up_then)
  then have "sees (rmmod_first mc ''ssd_drv'' (bnd (cmd_do mc (tools_command d @ ''&& insmod ssd_drv-ne.ko'')) (\<lambda>_.
      module_and_device mc ''ssd_drv'' ?tail))) (followed driver_up ?P)"
    by (intro sees_rmmod_first sees_after [OF grows_cmd_do]) simp_all
  from sees_contains [OF _ this, of ERRPCI] show ?thesis
    unfolding check_flash_def card_ready_def Let_def tools_command_def by simp
qed

lemma answered_card_ready:
  assumes "op_call mc rq h = (Inr r, h')" "getitem rq ''operation'' = Inr (PStr ''chkflash'')"
    and "getitem rq ''handle'' = Inr (PStr d)" "rp_error r = error_code NOERR"
  shows "\<exists>xs. ho_ran h' = ho_ran h @ xs \<and> card_ready d xs"
proof -
  have "operation_of mc (PStr ''chkflash'') = Inr (with_text (check_flash mc))"
    by (simp add: operation_of_def operations_def)
  then have "check_flash mc d h = (Inr r, h')"
    using assms
    by (auto simp: op_call_def catch_def failure_def answer_with_def with_text_def bnd_def
        split: if_splits prod.splits sum.splits)
  from seesD [OF sees_check_flash this assms(4)] show ?thesis .
qed

text \<open>
  C26 (checked_card_ready): when a \<open>chkflash\<close> request is answered with success, then among the commands it ran there
  are, in this order, one that saw the card on the PCI bus, one that saw the driver loaded, one that saw the device, a
  load of S6 that succeeded, a V5 of version 9 in state 0, an opening of the card that passed, again one that saw the
  driver and one that saw the device, an initialisation of the card that passed, and one that marked the erase counts
  without failing.
\<close>

theorem checked_card_ready:
  assumes "op_call mc rq h = (Inr r, h')" "getitem rq ''operation'' = Inr (PStr ''chkflash'')"
    and "getitem rq ''handle'' = Inr (PStr d)" "rp_error r = error_code NOERR"
  shows "\<exists>xs. ho_ran h' = ho_ran h @ xs \<and> card_ready d xs"
  using assms by (rule answered_card_ready)

text \<open>A machine on which everything works.\<close>

definition demo_out :: "string \<Rightarrow> string" where
  "demo_out cmd =
     (if take 5 cmd = ''rmmod'' then []
      else if drop (length cmd - 6) cmd = ''0x8000'' then ''9''
      else if cmd = ''udev -V'' then ''128'' else ''RAM memory, sucess, PASS 0'')"

definition demo_machine :: "unit machine" where
  "demo_machine =
     \<lparr>mc_popen = (\<lambda>cmd os. (demo_out cmd, os)), mc_exists = (\<lambda>p os. True), mc_hostname = ''host''\<rparr>"

definition demo_host :: "unit host" where
  "demo_host = \<lparr>ho_os = (), ho_ran = [], ho_slept = 0\<rparr>"

text \<open>On this machine the result of a computation does not depend on the host.\<close>

definition gives :: "(unit host, 'a) io \<Rightarrow> 'a \<Rightarrow> bool" where
  "gives m x = (\<forall>h. fst (m h) = Inr x)"

lemma gives_bnd: "gives m x \<Longrightarrow> gives (f x) y \<Longrightarrow> gives (bnd m f) y"
  unfolding gives_def bnd_def by (metis (no_types, lifting) case_prod_beta old.sum.simps(6))

lemma gives_ret: "gives (ret x) x"
  by (simp add: gives_def)

lemma gives_cmd_run: "demo_out cmd = out \<Longrightarrow> CHR 0x0A \<notin> set out \<Longrightarrow> gives (cmd_run demo_machine cmd) out"
proof -
  assume out: "demo_out cmd = out" and "CHR 0x0A \<notin> set out"
  then have "filter (\<lambda>c. c \<noteq> CHR 0x0A) out = out" by (intro filter_True) auto
  with out show ?thesis
    by (simp add: gives_def cmd_run_def demo_machine_def Let_def)
qed

lemma gives_cmd_do: "gives (cmd_do demo_machine cmd) ()"
  unfolding gives_def
proof
  fix h
  show "fst (cmd_do demo_machine cmd h) = Inr ()"
    by (rule cmd_run_result [of demo_machine cmd h]) (simp add: cmd_do_def bnd_def)
qed

lemma gives_sleep: "gives (host_sleep n) ()"
  by (simp add: gives_def host_sleep_def)

lemma gives_path_exists: "gives (path_exists demo_machine p) True"
  by (simp add: gives_def path_exists_def demo_machine_def)

lemma gives_last_char: "s \<noteq> [] \<Longrightarrow> gives (last_char s) (last s)"
  by (simp add: gives_def last_char_def)

lemma gives_if: "c \<Longrightarrow> gives a x \<Longrightarrow> gives (if c then a else b) x" "\<not> c \<Longrightarrow> gives b x \<Longrightarrow> gives (if c then a else b) x"
  by simp_all

lemma rp_error_success: "rp_error success = error_code NOERR"
  by (simp add: success_def answer_with_def)

lemma gives_unless_error: "gives m success \<Longrightarrow> gives k x \<Longrightarrow> gives (unless_error m k) x"
  unfolding unless_error_def
  by (rule gives_bnd [where x = success]) (simp_all add: rp_error_success)

lemma gives_check_mod: "gives (check_ssd_mod demo_machine ''ssd_drv'') True"
  unfolding check_ssd_mod_def
  by (rule gives_bnd [OF gives_cmd_run [OF refl]]) (simp_all add: demo_out_def gives_ret)

lemma gives_check_device: "gives (check_device demo_machine) success"
proof -
  have "gives (device_tries demo_machine (Suc 4)) True"
    unfolding device_tries.simps
    by (rule gives_bnd [OF gives_cmd_run [OF refl]]) (simp_all add: demo_out_def gives_ret)
  then have "gives (device_tries demo_machine 5) True" by simp
  then show ?thesis
    unfolding check_device_def
    by (rule gives_bnd) (auto intro: gives_bnd [OF gives_sleep] gives_ret)
qed

lemma gives_module_and_device: "gives k x \<Longrightarrow> gives (module_and_device demo_machine ''ssd_drv'' k) x"
  unfolding module_and_device_def
  by (rule gives_bnd [OF gives_check_mod]) (simp add: gives_unless_error gives_check_device)

lemma gives_rmmod_first: "gives k x \<Longrightarrow> gives (rmmod_first demo_machine ''ssd_drv'' k) x"
proof -
  assume k: "gives k x"
  have "gives (cmd_run demo_machine (''rmmod '' @ ''ssd_drv'')) []"
    by (rule gives_cmd_run) (simp_all add: demo_out_def)
  then have "gives (bnd (cmd_run demo_machine (''rmmod '' @ ''ssd_drv''))
      (\<lambda>out. if out \<noteq> [] then ret (failure ERRRMMOD) else k)) x"
    by (rule gives_bnd) (simp add: k)
  then show ?thesis
    unfolding rmmod_first_def by (intro gives_bnd [OF gives_check_mod]) simp
qed

lemma gives_insmod: "gives (insmod_ssd_driver demo_machine ''/home'') success"
  unfolding insmod_ssd_driver_def Let_def
  by (intro gives_rmmod_first gives_bnd [OF gives_path_exists])
    (simp add: gives_bnd [OF gives_cmd_do] gives_module_and_device gives_ret)

lemma gives_set_ec: "gives (set_ec_to_baidu demo_machine ''/home'') success"
proof -
  have "gives (cmd_run demo_machine (mark_command ''/home'')) ''RAM memory, sucess, PASS 0''"
    by (rule gives_cmd_run) (simp_all add: demo_out_def mark_command_def path_join_def)
  then have "gives (bnd (cmd_run demo_machine (mark_command ''/home'')) (\<lambda>res.
      ret (if str_contains ''fail'' res then answer_with (PStr res) ERRSETEC else success))) success"
    by (rule gives_bnd) (simp add: gives_ret)
  then show ?thesis
    unfolding set_ec_to_baidu_def by (intro gives_bnd [OF gives_path_exists]) simp
qed

lemma gives_udev: "gives (update_udev demo_machine) ()"
proof -
  have out: "gives (cmd_run demo_machine ''udev -V'') ''128''"
    by (rule gives_cmd_run) (simp_all add: demo_out_def)
  have "int_of_str ''128'' = Some 128" by code_simp
  then show ?thesis
    unfolding update_udev_def by (intro gives_bnd [OF out]) (simp add: gives_ret)
qed

lemma gives_finish: "gives (finish_flash demo_machine ''/home'' (''cd '' @ ''/home'' @ '' && cd op_tools '')) success"
proof -
  have "gives (cmd_run demo_machine ((''cd '' @ ''/home'' @ '' && cd op_tools '') @ ''&& ./init_newcard''))
      ''RAM memory, sucess, PASS 0''"
    by (rule gives_cmd_run) (simp_all add: demo_out_def)
  then have "gives (bnd (cmd_run demo_machine ((''cd '' @ ''/home'' @ '' && cd op_tools '') @ ''&& ./init_newcard''))
      (\<lambda>card. if \<not> str_contains ''PASS'' card then ret (failure ERRNEWCARD)
           else set_ec_to_baidu demo_machine ''/home'')) success"
    by (rule gives_bnd) (simp add: gives_set_ec)
  then show ?thesis
    unfolding finish_flash_def
    by (intro gives_bnd [OF gives_cmd_do] gives_bnd [OF gives_udev] gives_unless_error gives_insmod)
qed

lemma gives_check_flash: "gives (check_flash demo_machine ''/home'') success"
proof -
  let ?cmd = "''cd '' @ ''/home'' @ '' && cd op_tools ''"
  let ?ok = "''RAM memory, sucess, PASS 0''"
  have v5: "gives (cmd_run demo_machine (?cmd @ ''&& ./rd_n 0x8000'')) ''9''"
      "gives (cmd_run demo_machine (?cmd @ ''&& ./rd_n 0x8068 '')) ?ok"
      "gives (cmd_run demo_machine (?cmd @ ''&& ./open_newcard'')) ?ok"
      "gives (cmd_run demo_machine (?cmd @ ''&& ./cfg_s6_n_40 1 '')) ?ok"
      "gives (cmd_run demo_machine (''lspci | grep '' @ quoted ''RAM memory'')) ?ok"
    by (rule gives_cmd_run; simp add: demo_out_def quoted_def)+
  have lst: "gives (last_char ''9'') CHR ''9''" "gives (last_char ?ok) CHR ''0''"
    using gives_last_char [of "''9''"] gives_last_char [of ?ok] by simp_all
  have "gives (check_v5 demo_machine ''/home'' ?cmd) success"
    unfolding check_v5_def open_newcard_def
    by (rule gives_bnd [OF gives_cmd_do] gives_bnd [OF v5(1)] gives_bnd [OF lst(1)] gives_if(2)
        gives_bnd [OF v5(2)] gives_bnd [OF lst(2)] gives_bnd [OF v5(3)] gives_finish | simp (no_asm))+
  then show ?thesis
    unfolding check_flash_def Let_def
    by (intro gives_bnd [OF v5(5)] gives_if(2) gives_rmmod_first gives_bnd [OF gives_cmd_do]
        gives_module_and_device gives_bnd [OF v5(4)]) simp_all
qed

theorem checked_card_ready_witness:
  "\<exists>r h' xs. op_call demo_machine (req_creator PNone PNone (PStr ''chkflash'') ''/home'') demo_host = (Inr r, h')
     \<and> rp_error r = 0 \<and> ho_ran h' = ho_ran demo_host @ xs \<and> card_ready ''/home'' xs"
proof -
  obtain h' where flash: "check_flash demo_machine ''/home'' demo_host = (Inr success, h')"
    using gives_check_flash unfolding gives_def by (metis prod.collapse)
  have run: "op_call demo_machine (req_creator PNone PNone (PStr ''chkflash'') ''/home'') demo_host = (Inr success, h')"
    by (simp add: op_call_def req_creator_def operation_of_def operations_def with_text_def bnd_def catch_def flash)
  have rq: "getitem (req_creator PNone PNone (PStr ''chkflash'') ''/home'') ''operation'' = Inr (PStr ''chkflash'')"
      "getitem (req_creator PNone PNone (PStr ''chkflash'') ''/home'') ''handle'' = Inr (PStr ''/home'')"
    by (simp_all add: req_creator_def)
  from checked_card_ready [OF run rq] run show ?thesis
    by (auto simp: success_def answer_with_def)
qed

section \<open>Probing for the device\<close>

lemma device_tries_bounds:
  "\<exists>seen h' xs. device_tries mc n h = (Inr seen, h') \<and> ho_ran h' = ho_ran h @ xs \<and> length xs \<le> n
     \<and> ho_slept h' = ho_slept h + 3 * (int (length xs) - (if seen then 1 else 0))
     \<and> (seen \<longrightarrow> xs \<noteq> []) \<and> (\<not> seen \<longrightarrow> length xs = n)"
proof (induction n arbitrary: h)
  case 0
  show ?case by (auto simp: ret_def)
next
  case (Suc n)
  let ?cmd = "''ls /dev | grep ssd_Baidu43''"
  obtain out os' where run:
    "cmd_run mc ?cmd h = (Inr out, h\<lparr>ho_os := os', ho_ran := ho_ran h @ [(?cmd, out)]\<rparr>)"
    by (rule cmd_run_result)
  show ?case
  proof (cases "out = []")
    case False
    with run show ?thesis by (simp add: bnd_def ret_def) (rule exI [of _ True], rule TrueI)
  next
    case True
    let ?h = "h\<lparr>ho_os := os', ho_ran := ho_ran h @ [(?cmd, out)], ho_slept := ho_slept h + 3\<rparr>"
    obtain seen h' xs where ih: "device_tries mc n ?h = (Inr seen, h')"
        "ho_ran h' = ho_ran ?h @ xs" "length xs \<le> n"
        "ho_slept h' = ho_slept ?h + 3 * (int (length xs) - (if seen then 1 else 0))"
        "seen \<longrightarrow> xs \<noteq> []" "\<not> seen \<longrightarrow> length xs = n"
      using Suc.IH [of ?h] by blast
    have "device_tries mc (Suc n) h = (Inr seen, h')"
      using run True ih(1) by (simp add: bnd_def host_sleep_def)
    with ih(2-) show ?thesis
      by (intro exI [of _ seen] exI [of _ h'] exI [of _ "(?cmd, out) # xs"]) simp
  qed
qed

text \<open>
  (device_probe_bounded): \<open>checkDevice\<close> always returns, whatever the machine does: it runs at most five
  commands and sleeps at most fifteen seconds; it fails only after all five tries, and succeeds only
  after at least one.
\<close>

theorem device_probe_bounded:
  "\<exists>r h' xs. check_device mc h = (Inr r, h') \<and> ho_ran h' = ho_ran h @ xs \<and> length xs \<le> 5
     \<and> ho_slept h' - ho_slept h \<le> 15
     \<and> (r = failure ERRINSMOD \<and> length xs = 5 \<or> r = success \<and> xs \<noteq> [])"
proof -
  obtain seen h' xs where tries: "device_tries mc 5 h = (Inr seen, h')"
      "ho_ran h' = ho_ran h @ xs" "length xs \<le> 5"
      "ho_slept h' = ho_slept h + 3 * (int (length xs) - (if seen then 1 else 0))"
      "seen \<longrightarrow> xs \<noteq> []" "\<not> seen \<longrightarrow> length xs = 5"
    using device_tries_bounds [of mc 5 h] by blast
  show ?thesis
  proof (cases seen)
    case True
    with tries have "check_device mc h = (Inr success, h'\<lparr>ho_slept := ho_slept h' + 3\<rparr>)"
      by (simp add: check_device_def bnd_def host_sleep_def ret_def)
    with tries True show ?thesis by simp
  next
    case False
    with tries have "check_device mc h = (Inr (failure ERRINSMOD), h')"
      by (simp add: check_device_def bnd_def ret_def)
    with tries False show ?thesis by simp
  qed
qed

end
