(* ===== verification/SsdReports.thy ===== *)
theory SsdReports
  imports SsdProps
begin

text \<open>
  The reports on a card, \<open>fpga_ssd_backup/tools/op_tools/\<close>: bad blocks (\<open>ssd_bad_blocks.py\<close> and
  \<open>ssd_noah_badblock.py\<close>), free blocks (\<open>ssd_get_free_blocks.py\<close>) and erase counts
  (\<open>ssd_erase_state.py\<close>). The output of the table reader for a channel is the parameter \<open>table\<close>.
  The lemmas are about what the reports compute, the list of failed hosts the master keeps, what it means for
  the agents it has called (\<open>master_cards_ready\<close>), and the answer of the agent to \<open>depmod\<close>.
\<close>

section \<open>Reading the table\<close>

definition channels :: nat where
  "channels = 44"

text \<open>\<open>result.read().split('\n')\<close> without the part after the last line end.\<close>

definition table_lines :: "string \<Rightarrow> string list" where
  "table_lines out = butlast (str_split (CHR 0x0A) out)"

definition last_number :: "char \<Rightarrow> string \<Rightarrow> pyexc + int" where
  "last_number sep line =
     (case int_of_str (last (str_split sep line)) of None \<Rightarrow> Inl ValueErr | Some n \<Rightarrow> Inr n)"

fun numbers_of :: "char \<Rightarrow> string list \<Rightarrow> pyexc + int list" where
  "numbers_of sep [] = Inr []"
| "numbers_of sep (l # ls) =
     bindE (last_number sep l) (\<lambda>n. bindE (numbers_of sep ls) (\<lambda>ns. Inr (n # ns)))"

section \<open>Bad blocks by plane\<close>

text \<open>The plane of a block: its half of the channel and its parity.\<close>

definition plane_index :: "int \<Rightarrow> nat" where
  "plane_index block =
     (if block < 4096 then (if block mod 2 = 0 then 0 else 1) else (if block mod 2 = 0 then 2 else 3))"

definition count_block :: "int \<Rightarrow> nat list \<Rightarrow> nat list" where
  "count_block block plane = plane[plane_index block := plane ! plane_index block + 1]"

definition planes_of :: "int list \<Rightarrow> nat list" where
  "planes_of blocks = fold count_block blocks [0, 0, 0, 0]"

text \<open>
  \<open>ssd_bad_blocks.max_bad_blocks\<close>: a channel's entry is assigned inside the loop over its lines, so a
  channel without bad blocks keeps \<open>None\<close>.
\<close>

fun bad_blocks_of :: "(nat \<Rightarrow> string) \<Rightarrow> nat list \<Rightarrow> pyexc + nat list option list" where
  "bad_blocks_of table [] = Inr []"
| "bad_blocks_of table (ch # chs) =
     bindE (numbers_of (CHR '' '') (table_lines (table ch))) (\<lambda>blocks.
     bindE (bad_blocks_of table chs) (\<lambda>rest.
       Inr ((if blocks = [] then None else Some (planes_of blocks)) # rest)))"

definition bad_blocks_table :: "(nat \<Rightarrow> string) \<Rightarrow> pyexc + nat list option list" where
  "bad_blocks_table table = bad_blocks_of table [0..<channels]"

text \<open>The search for the maximum: the count, its channel and its plane. Indexing \<open>None\<close> raises.\<close>

record worst =
  wo_max :: nat
  wo_channel :: nat
  wo_plane :: nat

definition look_plane :: "nat \<Rightarrow> nat list \<Rightarrow> nat \<Rightarrow> worst \<Rightarrow> worst" where
  "look_plane ch plane pl m =
     (if wo_max m < plane ! pl then \<lparr>wo_max = plane ! pl, wo_channel = ch, wo_plane = pl\<rparr> else m)"

fun look_channels :: "nat \<Rightarrow> nat list option list \<Rightarrow> worst \<Rightarrow> pyexc + worst" where
  "look_channels ch [] m = Inr m"
| "look_channels ch (None # rest) m = Inl TypeErr"
| "look_channels ch (Some plane # rest) m =
     look_channels (Suc ch) rest (fold (look_plane ch plane) [0, 1, 2, 3] m)"

definition worst_plane :: "(nat \<Rightarrow> string) \<Rightarrow> pyexc + worst" where
  "worst_plane table =
     bindE (bad_blocks_table table)
       (\<lambda>blocks. look_channels 0 blocks \<lparr>wo_max = 0, wo_channel = 0, wo_plane = 0\<rparr>)"

text \<open>\<open>ssd_noah_badblock.max_bad_blocks\<close>: the maximum alone, and its percentage of a plane, rounded up.\<close>

fun noah_max :: "(nat \<Rightarrow> string) \<Rightarrow> nat list \<Rightarrow> nat \<Rightarrow> pyexc + nat" where
  "noah_max table [] m = Inr m"
| "noah_max table (ch # chs) m =
     bindE (numbers_of (CHR '' '') (table_lines (table ch))) (\<lambda>blocks.
       noah_max table chs (fold (\<lambda>i m. if m < planes_of blocks ! i then planes_of blocks ! i else m) [0, 1, 2, 3] m))"

definition noah_bad_blocks :: "(nat \<Rightarrow> string) \<Rightarrow> pyexc + nat" where
  "noah_bad_blocks table = noah_max table [0..<channels] 0"

definition noah_percent :: "(nat \<Rightarrow> string) \<Rightarrow> pyexc + nat" where
  "noah_percent table = bindE (noah_bad_blocks table) (\<lambda>m. Inr ((m * 100 + 2047) div 2048))"

section \<open>Free blocks\<close>

definition ssd_phy_blocks_per_channel :: int where
  "ssd_phy_blocks_per_channel = 8192"

definition ssd_free_blocks :: "(nat \<Rightarrow> string) \<Rightarrow> int list" where
  "ssd_free_blocks table =
     map (\<lambda>ch. ssd_phy_blocks_per_channel - int (length (table_lines (table ch)))) [0..<channels]"

definition shown_free_blocks :: "(nat \<Rightarrow> string) \<Rightarrow> int list" where
  "shown_free_blocks table = map (\<lambda>n. if n > 8000 then 8000 else n) (ssd_free_blocks table)"

section \<open>Erase counts\<close>

record erase_info =
  ei_bad :: nat
  ei_max :: int
  ei_min :: int
  ei_avg :: int

record erase_acc =
  ea_total :: int
  ea_bad :: nat
  ea_max :: int
  ea_min :: int

definition add_erase :: "int \<Rightarrow> erase_acc \<Rightarrow> erase_acc" where
  "add_erase n a =
     \<lparr>ea_total = ea_total a + n,
      ea_bad = (if n > 3000 then ea_bad a + 1 else ea_bad a),
      ea_max = (if ea_max a < n then n else ea_max a),
      ea_min = (if ea_min a > n then n else ea_min a)\<rparr>"

definition erase_info_of :: "int list \<Rightarrow> erase_info" where
  "erase_info_of counts =
     (let a = fold add_erase counts \<lparr>ea_total = 0, ea_bad = 0, ea_max = 0, ea_min = 0\<rparr>
      in \<lparr>ei_bad = ea_bad a, ei_max = ea_max a, ei_min = ea_min a,
          ei_avg = (if length counts > 0 then ea_total a div int (length counts) else 0)\<rparr>)"

fun erase_info_blocks :: "(nat \<Rightarrow> string) \<Rightarrow> nat list \<Rightarrow> pyexc + erase_info list" where
  "erase_info_blocks table [] = Inr []"
| "erase_info_blocks table (ch # chs) =
     bindE (numbers_of (CHR 0x09) (table_lines (table ch))) (\<lambda>counts.
     bindE (erase_info_blocks table chs) (\<lambda>rest. Inr (erase_info_of counts # rest)))"

section \<open>What the counting computes\<close>

text \<open>The number of blocks of a plane, as a specification.\<close>

definition plane_count :: "int list \<Rightarrow> nat \<Rightarrow> nat" where
  "plane_count blocks i = length (filter (\<lambda>b. plane_index b = i) blocks)"

lemma plane_index_less: "plane_index b < 4"
  by (simp add: plane_index_def)

lemma fold_count_block:
  "length plane = 4 \<Longrightarrow>
   length (fold count_block blocks plane) = 4
   \<and> (\<forall>i < 4. fold count_block blocks plane ! i = plane ! i + plane_count blocks i)"
proof (induction blocks arbitrary: plane)
  case Nil
  then show ?case by (simp add: plane_count_def)
next
  case (Cons b blocks)
  have len: "length (count_block b plane) = 4"
    using Cons.prems by (simp add: count_block_def)
  have "count_block b plane ! i = (if plane_index b = i then plane ! i + 1 else plane ! i)" if "i < 4" for i
    using Cons.prems that plane_index_less [of b] by (simp add: count_block_def nth_list_update)
  with Cons.IH [OF len] show ?case
    by (auto simp: plane_count_def)
qed

lemma planes_of_spec: "planes_of blocks = map (plane_count blocks) [0, 1, 2, 3]"
proof (rule nth_equalityI)
  have four: "length [0, 0, 0, 0 :: nat] = 4" by simp
  show "length (planes_of blocks) = length (map (plane_count blocks) [0, 1, 2, 3])"
    using fold_count_block [OF four] by (simp add: planes_of_def)
  fix i assume "i < length (planes_of blocks)"
  then have "i < 4" using fold_count_block [OF four] by (simp add: planes_of_def)
  then have "planes_of blocks ! i = [0, 0, 0, 0] ! i + plane_count blocks i"
    using fold_count_block [OF four] by (simp add: planes_of_def)
  with \<open>i < 4\<close> show "planes_of blocks ! i = map (plane_count blocks) [0, 1, 2, 3] ! i"
    by (auto simp: less_Suc_eq numeral_eq_Suc)
qed

lemma plane_count_total: "(\<Sum>i\<leftarrow>[0, 1, 2, 3]. plane_count blocks i) = length blocks"
proof (induction blocks)
  case Nil
  then show ?case by (simp add: plane_count_def)
next
  case (Cons b blocks)
  have "plane_index b = 0 \<or> plane_index b = 1 \<or> plane_index b = 2 \<or> plane_index b = 3"
    using plane_index_less [of b] by linarith
  with Cons show ?case by (auto simp: plane_count_def)
qed

section \<open>The two searches for the worst plane\<close>

text \<open>The count of a channel's worst plane, starting from \<open>m\<close>; \<open>None\<close> counts as no bad block.\<close>

definition raise_max :: "nat list option \<Rightarrow> nat \<Rightarrow> nat" where
  "raise_max pl m =
     (let plane = (case pl of None \<Rightarrow> planes_of [] | Some p \<Rightarrow> p)
      in fold (\<lambda>i m. if m < plane ! i then plane ! i else m) [0, 1, 2, 3] m)"

lemma raise_max_None [simp]: "raise_max None m = m"
  by (simp add: raise_max_def planes_of_def)

lemma bad_blocks_error:
  "bad_blocks_of table chs = Inl e \<Longrightarrow> noah_max table chs m = Inl e"
proof (induction chs arbitrary: m)
  case (Cons ch chs)
  then show ?case
    by (cases "numbers_of (CHR '' '') (table_lines (table ch))";
        cases "bad_blocks_of table chs") (simp_all add: bindE.simps)
qed simp

lemma bad_blocks_max:
  "bad_blocks_of table chs = Inr bs \<Longrightarrow> noah_max table chs m = Inr (fold raise_max bs m)"
proof (induction chs arbitrary: bs m)
  case (Cons ch chs)
  obtain blocks rest where parts: "numbers_of (CHR '' '') (table_lines (table ch)) = Inr blocks"
      "bad_blocks_of table chs = Inr rest"
      "bs = (if blocks = [] then None else Some (planes_of blocks)) # rest"
    using Cons.prems
    by (cases "numbers_of (CHR '' '') (table_lines (table ch))";
        cases "bad_blocks_of table chs") (simp_all add: bindE.simps)
  with Cons.IH [OF parts(2)] show ?case
    by (simp add: bindE.simps raise_max_def)
qed simp

lemma numbers_of_Nil: "numbers_of sep ls = Inr [] \<Longrightarrow> ls = []"
  by (cases ls) (auto simp: bindE.simps split: sum.splits)

lemma bad_blocks_None:
  "bad_blocks_of table chs = Inr bs \<Longrightarrow>
   None \<in> set bs \<longleftrightarrow> (\<exists>ch \<in> set chs. table_lines (table ch) = [])"
proof (induction chs arbitrary: bs)
  case (Cons ch chs)
  obtain blocks rest where parts: "numbers_of (CHR '' '') (table_lines (table ch)) = Inr blocks"
      "bad_blocks_of table chs = Inr rest"
      "bs = (if blocks = [] then None else Some (planes_of blocks)) # rest"
    using Cons.prems
    by (cases "numbers_of (CHR '' '') (table_lines (table ch))";
        cases "bad_blocks_of table chs") (simp_all add: bindE.simps)
  have "blocks = [] \<longleftrightarrow> table_lines (table ch) = []"
    using parts(1) numbers_of_Nil by fastforce
  with Cons.IH [OF parts(2)] parts(3) show ?case by auto
qed simp

lemma look_plane_max:
  "wo_max (fold (look_plane ch p) is w) = fold (\<lambda>i m. if m < p ! i then p ! i else m) is (wo_max w)"
  by (induction "is" arbitrary: w) (simp_all add: look_plane_def)

lemma look_channels_max:
  "bindE (look_channels ch bs w) (\<lambda>w. Inr (wo_max w))
     = (if None \<in> set bs then Inl TypeErr else Inr (fold raise_max bs (wo_max w)))"
proof (induction ch bs w rule: look_channels.induct)
  case (3 ch p rest w)
  have "wo_max (fold (look_plane ch p) [0, 1, 2, 3] w) = raise_max (Some p) (wo_max w)"
    by (simp only: look_plane_max raise_max_def Let_def option.case)
  with 3 show ?case
    by (simp only: look_channels.simps) simp
qed simp_all

text \<open>
  C28 (worst_plane_agrees): the two scripts agree on the number of bad blocks of the worst plane, except
  that \<open>ssd_bad_blocks.py\<close> raises when some channel has no bad block at all; a table that does not
  parse stops both with the same error.
\<close>

theorem worst_plane_agrees:
  "bindE (worst_plane table) (\<lambda>w. Inr (wo_max w)) =
     bindE (noah_bad_blocks table) (\<lambda>m.
       if \<exists>ch \<in> {0..<channels}. table_lines (table ch) = [] then Inl TypeErr else Inr m)"
proof (cases "bad_blocks_table table")
  case (Inl e)
  then have "noah_bad_blocks table = Inl e"
    unfolding noah_bad_blocks_def by (intro bad_blocks_error) (simp add: bad_blocks_table_def)
  with Inl show ?thesis by (simp add: worst_plane_def bindE.simps)
next
  case (Inr bs)
  then have "noah_bad_blocks table = Inr (fold raise_max bs 0)"
    unfolding noah_bad_blocks_def by (intro bad_blocks_max) (simp add: bad_blocks_table_def)
  moreover have "None \<in> set bs \<longleftrightarrow> (\<exists>ch \<in> {0..<channels}. table_lines (table ch) = [])"
    using bad_blocks_None [of table "[0..<channels]" bs] Inr by (simp add: bad_blocks_table_def)
  moreover have "worst_plane table = look_channels 0 bs \<lparr>wo_max = 0, wo_channel = 0, wo_plane = 0\<rparr>"
    using Inr by (simp add: worst_plane_def bindE.simps)
  ultimately show ?thesis
    by (simp add: look_channels_max)
qed

section \<open>Erase counts\<close>

lemma Max_insert_max: "finite S \<Longrightarrow> Max (insert (max a n) S) = Max (insert a (insert n S))" for a :: int
  by (cases "S = {}") (simp_all add: max.assoc)

lemma Min_insert_min: "finite S \<Longrightarrow> Min (insert (min a n) S) = Min (insert a (insert n S))" for a :: int
  by (cases "S = {}") (simp_all add: min.assoc)

lemma add_erase_max:
  "add_erase n a =
     \<lparr>ea_total = ea_total a + n, ea_bad = (if n > 3000 then ea_bad a + 1 else ea_bad a),
      ea_max = max (ea_max a) n, ea_min = min (ea_min a) n\<rparr>"
  by (simp add: add_erase_def max_def min_def)

lemma fold_add_erase:
  "fold add_erase counts a =
     \<lparr>ea_total = ea_total a + sum_list counts,
      ea_bad = ea_bad a + length (filter (\<lambda>n. n > 3000) counts),
      ea_max = Max (insert (ea_max a) (set counts)),
      ea_min = Min (insert (ea_min a) (set counts))\<rparr>"
proof (induction counts arbitrary: a)
  case (Cons n counts)
  show ?case
    unfolding fold_simps(2) Cons.IH by (simp add: add_erase_max Max_insert_max Min_insert_min del: Max_insert Min_insert)
qed simp

text \<open>
  (erase_info_values): the erase report of a channel. The number of worn blocks, the largest count and
  the floor of the mean are right; the smallest is taken over the counts and zero, so that it is never
  above zero.
\<close>

theorem erase_info_values:
  "erase_info_of counts =
     \<lparr>ei_bad = length (filter (\<lambda>n. n > 3000) counts),
      ei_max = Max (insert 0 (set counts)),
      ei_min = Min (insert 0 (set counts)),
      ei_avg = sum_list counts div int (length counts)\<rparr>"
  by (simp add: erase_info_of_def fold_add_erase Let_def)

section \<open>The failed hosts\<close>

text \<open>What a call of a host leaves in the list of failures.\<close>

definition rpc_outcome :: "pyexc + reply \<Rightarrow> fail_entry option" where
  "rpc_outcome res =
     (case res of
        Inl e \<Rightarrow> Some (FailExc e)
      | Inr r \<Rightarrow>
          if rp_error r = 0 then None
          else if rp_error r \<in> {-12..-1} then Some (FailCode (rp_error r))
          else Some (FailExc (KeyErr (int_str (rp_error r)))))"

lemma client_errors_keys: "set (dkeys client_errors) = {-12..0}"
proof -
  have "dkeys client_errors = map (\<lambda>i. - int i) [0..<13]"
    by (simp add: client_errors_def errorString_def dkeys_def upt_rec)
  also have "set \<dots> = {-12..0}"
  proof (intro equalityI subsetI)
    fix x :: int assume "x \<in> {-12..0}"
    then have "nat (- x) \<in> set [0..<13]" "x = - int (nat (- x))" by auto
    then show "x \<in> set (map (\<lambda>i. - int i) [0..<13])" unfolding set_map by (intro image_eqI)
  qed auto
  finally show ?thesis .
qed

lemma rpc_call_failed:
  "dget (rpc_call proxy s rq failed) s' = (if s' = s then rpc_outcome (proxy rq) else dget failed s')"
proof (cases "proxy rq")
  case (Inr r)
  have known: "dget client_errors (rp_error r) = None \<longleftrightarrow> rp_error r \<notin> {-12..0}"
    using client_errors_keys by (simp add: dget_None_iff)
  have "dget failed s = None" if "\<not> dhas failed s" using that by (simp add: dhas_def)
  with Inr known show ?thesis
    by (cases "dget client_errors (rp_error r)") (auto simp: rpc_call_def rpc_outcome_def)
qed (simp add: rpc_call_def rpc_outcome_def)

lemma rpc_multi_call_failed:
  "dget (rpc_multi_call proxies rqs servers failed) s =
     (if s \<in> set servers then rpc_outcome (proxies s (rqs s)) else dget failed s)"
  unfolding rpc_multi_call_def
  by (induction servers arbitrary: failed) (auto simp: rpc_call_failed)

text \<open>
  (rpc_failed_hosts): after the master has called a list of hosts, its list of failures holds, for
  each of them, what its last call gave: nothing for a success, the exception of a call that raised,
  the code for the codes the client knows, and a \<open>KeyError\<close> for the three it lacks a text for. The
  entries of other hosts are untouched.
\<close>

theorem rpc_failed_hosts:
  "dget (rpc_multi_call proxies rqs servers failed) s =
     (if s \<in> set servers then rpc_outcome (proxies s (rqs s)) else dget failed s)"
  by (rule rpc_multi_call_failed)

text \<open>Which command lines the master refuses: it calls no host.\<close>

lemma master_refuses:
  "fst (projr (master_main agents files opts failed)) = Some (- 1)
   \<and> snd (projr (master_main agents files opts failed)) = failed"
  if "\<not> given_text (mo_operation opts)
    \<or> (if given_text (mo_file opts) then files (the (mo_file opts)) = None else \<not> given_text (mo_server opts))"
  using that by (auto simp: master_main_def Let_def split: if_splits)

text \<open>The request the master sends to a host.\<close>

definition master_request :: "master_options \<Rightarrow> string \<Rightarrow> py" where
  "master_request opts server =
     (let op = PStr (the (mo_operation opts))
      in req_creator (PStr server) (PStr (mo_port opts)) op (handle_of client_known op))"

lemma master_calls_hosts:
  assumes "given_text (mo_operation opts)" "given_text (mo_file opts)" "files (the (mo_file opts)) = Some (Inr ls)"
  shows "master_main agents files opts failed =
    Inr (None, rpc_multi_call (\<lambda>s. agents s (mo_port opts)) (master_request opts) (host_lines ls) failed)"
  using assms by (simp add: master_main_def master_request_def [abs_def] Let_def)

lemma rpc_outcome_None: "rpc_outcome res = None \<longleftrightarrow> (\<exists>r. res = Inr r \<and> rp_error r = error_code NOERR)"
  by (auto simp: rpc_outcome_def split: sum.splits if_splits)

text \<open>
  C27 (master_cards_ready): the master and the agents together. After the master has sent \<open>chkflash\<close> to the hosts of a
  file, each of them once, and an answer that reaches it is what the agent of the host gave, then on every host that
  is not in the list of failures the agent has gone through every check of \<open>card_ready\<close>, in the directory that the
  master sends: PCI, driver, device, S6, version and state of V5, opening, driver, device, initialisation, marking.
\<close>

theorem master_cards_ready:
  assumes "master_main agents files opts [] = Inr (code, failed)"
    and "mo_operation opts = Some ''chkflash''" "given_text (mo_file opts)"
    and "files (the (mo_file opts)) = Some (Inr ls)" "distinct (host_lines ls)"
    and "\<forall>s port rq r. agents s port rq = Inr r \<longrightarrow> fst (op_call (mc s) rq (h s)) = Inr r"
    and "s \<in> set (host_lines ls)" "dget failed s = None"
  shows "\<exists>r h' xs. op_call (mc s) (master_request opts s) (h s) = (Inr r, h')
    \<and> ho_ran h' = ho_ran (h s) @ xs \<and> card_ready ''/home'' xs"
proof -
  let ?rq = "master_request opts s"
  have rq: "getitem ?rq ''operation'' = Inr (PStr ''chkflash'')" "getitem ?rq ''handle'' = Inr (PStr ''/home'')"
    using assms(2) by (simp_all add: master_request_def req_creator_def handle_of_def client_known_def)
  have "failed = rpc_multi_call (\<lambda>s. agents s (mo_port opts)) (master_request opts) (host_lines ls) []"
    using assms(1-4) by (simp add: master_calls_hosts given_text_def)
  then have "rpc_outcome (agents s (mo_port opts) ?rq) = None"
    using assms(7,8) rpc_multi_call_failed [of "\<lambda>s. agents s (mo_port opts)" "master_request opts" "host_lines ls" "[]" s]
    by simp
  then obtain r where r: "agents s (mo_port opts) ?rq = Inr r" "rp_error r = error_code NOERR"
    by (auto simp: rpc_outcome_None)
  with assms(6) obtain h' where "op_call (mc s) ?rq (h s) = (Inr r, h')"
    by (metis prod.collapse)
  with answered_card_ready [OF this rq r(2)] show ?thesis by auto
qed

text \<open>One host whose card passes, and one that does not answer.\<close>

definition demo_agents :: "string \<Rightarrow> string \<Rightarrow> py \<Rightarrow> pyexc + reply" where
  "demo_agents s port rq =
     (if s = ''a'' then fst (op_call demo_machine rq demo_host) else Inl (PlainExc ''refused''))"

theorem master_cards_ready_witness:
  "\<exists>r h' xs. op_call demo_machine (req_creator (PStr ''a'') (PStr ''33333'') (PStr ''chkflash'') ''/home'') demo_host = (Inr r, h')
    \<and> ho_ran h' = ho_ran demo_host @ xs \<and> card_ready ''/home'' xs"
proof -
  let ?opts = "\<lparr>mo_file = Some ''hosts'', mo_server = None, mo_port = ''33333'', mo_operation = Some ''chkflash''\<rparr>"
  let ?files = "\<lambda>f. if f = ''hosts'' then Some (Inr [''a'' @ [CHR 0x0A], ''b'']) else None"
  let ?rq = "req_creator (PStr ''a'') (PStr ''33333'') (PStr ''chkflash'') ''/home''"
  have rq: "master_request ?opts ''a'' = ?rq" by (simp add: master_request_def handle_of_def client_known_def)
  have lines: "host_lines [''a'' @ [CHR 0x0A], ''b''] = [''a'', ''b'']" by code_simp
  obtain failed where run: "master_main demo_agents ?files ?opts [] = Inr (None, failed)"
    and failed: "failed = rpc_multi_call (\<lambda>s. demo_agents s ''33333'') (master_request ?opts) [''a'', ''b''] []"
    using lines by (simp add: master_calls_hosts given_text_def)
  obtain h' where "check_flash demo_machine ''/home'' demo_host = (Inr success, h')"
    using gives_check_flash unfolding gives_def by (metis prod.collapse)
  then have "fst (op_call demo_machine ?rq demo_host) = Inr success"
    by (simp add: op_call_def req_creator_def operation_of_def operations_def with_text_def bnd_def catch_def)
  then have "rpc_outcome (demo_agents ''a'' ''33333'' ?rq) = None"
    by (simp add: demo_agents_def rpc_outcome_None success_def answer_with_def)
  then have "dget failed ''a'' = None"
    unfolding failed by (subst rpc_multi_call_failed) (simp add: rq)
  from master_cards_ready [where mc = "\<lambda>s. demo_machine" and h = "\<lambda>s. demo_host" and s = "''a''", OF run _ _ _ _ _ _ this,
      of "[''a'' @ [CHR 0x0A], ''b'']"]
  show ?thesis by (simp add: lines [simplified] given_text_def demo_agents_def rq)
qed

section \<open>The driver at boot\<close>

text \<open>Computations that do not raise.\<close>

definition returns :: "('w, 'a) io \<Rightarrow> bool" where
  "returns m = (\<forall>w. \<exists>x w'. m w = (Inr x, w'))"

named_theorems returns_intros \<open>computations that do not raise\<close>

lemma returns_ret [returns_intros]: "returns (ret x)"
  by (simp add: returns_def)

lemma returns_bnd [returns_intros]: "returns m \<Longrightarrow> (\<And>x. returns (f x)) \<Longrightarrow> returns (bnd m f)"
  unfolding returns_def by (metis bnd_Inr)

lemma returns_if [returns_intros]: "returns a \<Longrightarrow> returns b \<Longrightarrow> returns (if c then a else b)"
  by simp

lemma returns_for_each [returns_intros]: "(\<And>x. returns (f x)) \<Longrightarrow> returns (for_each xs f)"
  by (induction xs) (simp_all add: returns_intros)

lemma returns_cmd_run [returns_intros]: "returns (cmd_run mc c)"
  unfolding returns_def by (metis cmd_run_result)

lemma returns_cmd_do [returns_intros]: "returns (cmd_do mc c)"
  unfolding cmd_do_def by (intro returns_intros)

lemma returns_path_exists [returns_intros]: "returns (path_exists mc p)"
  by (simp add: returns_def path_exists_def)

lemma returns_sleep [returns_intros]: "returns (host_sleep n)"
  by (simp add: returns_def host_sleep_def)

lemma returns_tries [returns_intros]: "returns (device_tries mc n)"
proof (induction n)
  case 0
  show ?case unfolding device_tries.simps by (rule returns_ret)
next
  case (Suc n)
  then show ?case unfolding device_tries.simps by (intro returns_intros)
qed

lemma returns_unless_error [returns_intros]: "returns m \<Longrightarrow> returns k \<Longrightarrow> returns (unless_error m k)"
  unfolding unless_error_def by (intro returns_intros)

lemma returns_insmod [returns_intros]: "returns (insmod_ssd_driver mc d)"
  unfolding insmod_ssd_driver_def load_ssd_driver_def rmmod_first_def module_and_device_def
    check_ssd_mod_def check_device_def remove_if_there_def wget_def Let_def
  by (intro returns_intros)

lemma fst_bnd_const:
  assumes "returns m" "\<And>w. fst (k w) = Inr r"
  shows "fst (bnd m (\<lambda>_. k) w) = Inr r"
  using assms unfolding returns_def by (metis bnd_Inr)

text \<open>
  (dep_mod_never_fails): \<open>depMod\<close> answers success whatever the machine does: the answer of the
  insertion of the driver, which may have failed, is thrown away.
\<close>

theorem dep_mod_never_fails:
  "fst (dep_mod mc root_dir h) = Inr success"
proof -
  have "fst (dep_mod mc root_dir w) = Inr success" for w
  proof -
    have there: "fst (bnd (if \<not> there then bnd (insmod_ssd_driver mc root_dir) (\<lambda>_. ret ()) else
        bnd (cmd_run mc ''uname -r'') (\<lambda>path. bnd (cmd_do mc (f path)) (\<lambda>_. cmd_do mc ''depmod -a'')))
        (\<lambda>_. bnd (cmd_do mc a) (\<lambda>_. bnd (cmd_do mc b) (\<lambda>_. bnd (cmd_do mc c) (\<lambda>_.
          bnd (cmd_do mc d) (\<lambda>_. ret success))))) w) = Inr success" for there f a b c d w
      by (intro fst_bnd_const returns_intros) simp
    obtain b where "path_exists mc (path_join root_dir ''ssd_drv.ko'') w = (Inr b, w)"
      by (simp add: path_exists_def)
    then show ?thesis
      unfolding dep_mod_def Let_def by (simp only: bnd_Inr there)
  qed
  then show ?thesis .
qed

end
