(* ===== verification/ClientBase.thy ===== *)
theory ClientBase
  imports ServerActions
begin

text \<open>
  What the methods of the smaller service clients share: they send one request and read the answer.
  Optional arguments of a method are passed explicitly, an absent one as \<open>PNone\<close>; an argument that
  only goes into the URL is its text.
\<close>

section \<open>Requests\<close>

definition get_with :: "'w requester \<Rightarrow> string \<Rightarrow> (answer \<Rightarrow> pyexc + 'a) \<Rightarrow> ('w, 'a) io" where
  "get_with rq url reader = bnd (http_get rq url None False) (\<lambda>a. lift (reader a))"

definition head_with :: "'w requester \<Rightarrow> string \<Rightarrow> (answer \<Rightarrow> pyexc + 'a) \<Rightarrow> ('w, 'a) io" where
  "head_with rq url reader = bnd (http_head rq url None False) (\<lambda>a. lift (reader a))"

definition delete_with :: "'w requester \<Rightarrow> string \<Rightarrow> (answer \<Rightarrow> pyexc + 'a) \<Rightarrow> ('w, 'a) io" where
  "delete_with rq url reader = bnd (http_delete rq url None PNone False) (\<lambda>a. lift (reader a))"

definition post_with :: "'w requester \<Rightarrow> string \<Rightarrow> py \<Rightarrow> (answer \<Rightarrow> pyexc + 'a) \<Rightarrow> ('w, 'a) io" where
  "post_with rq url body reader = bnd (http_post rq url body None False) (\<lambda>a. lift (reader a))"

definition put_with :: "'w requester \<Rightarrow> string \<Rightarrow> py \<Rightarrow> (answer \<Rightarrow> pyexc + 'a) \<Rightarrow> ('w, 'a) io" where
  "put_with rq url body reader = bnd (http_put rq url body None False) (\<lambda>a. lift (reader a))"

definition patch_with :: "'w requester \<Rightarrow> string \<Rightarrow> py \<Rightarrow> (answer \<Rightarrow> pyexc + 'a) \<Rightarrow> ('w, 'a) io" where
  "patch_with rq url body reader = bnd (http_patch rq url body None False) (\<lambda>a. lift (reader a))"

text \<open>\<open>json.dumps({key: d})\<close>, \<open>kwargs.get(key, default)\<close>, and \<open>if c: d[key] = v\<close>.\<close>

definition wrapped :: "'r env \<Rightarrow> string \<Rightarrow> (string, py) dict \<Rightarrow> py" where
  "wrapped env key d = json_dumps env (PDict [(key, PDict d)])"

definition kw_get :: "(string, py) dict \<Rightarrow> string \<Rightarrow> py \<Rightarrow> py" where
  "kw_get kwargs key dflt = (case dget kwargs key of None \<Rightarrow> dflt | Some v \<Rightarrow> v)"

definition set_if :: "bool \<Rightarrow> string \<Rightarrow> py \<Rightarrow> (string, py) dict \<Rightarrow> (string, py) dict" where
  "set_if c key v d = (if c then dset d key v else d)"

section \<open>Answers\<close>

text \<open>\<open>body[key]\<close> when there is a key, else the body.\<close>

definition under_key :: "string option \<Rightarrow> py \<Rightarrow> pyexc + py" where
  "under_key key b = (case key of None \<Rightarrow> Inr b | Some k \<Rightarrow> getitem b k)"

text \<open>\<open>expected_success\<close>, then \<open>json.loads\<close>.\<close>

definition checked_part :: "'r env \<Rightarrow> exp_code \<Rightarrow> string option \<Rightarrow> answer \<Rightarrow> pyexc + py" where
  "checked_part env code key a =
     bindE (expected_success code (rs_status (fst a))) (\<lambda>_.
     bindE (json_loads env (snd a)) (under_key key))"

text \<open>\<open>json.loads\<close>, then \<open>expected_success\<close>.\<close>

definition loaded_part :: "'r env \<Rightarrow> exp_code \<Rightarrow> string option \<Rightarrow> answer \<Rightarrow> pyexc + py" where
  "loaded_part env code key a =
     bindE (json_loads env (snd a)) (\<lambda>b.
     bindE (expected_success code (rs_status (fst a))) (\<lambda>_. under_key key b))"

definition checked_json :: "'r env \<Rightarrow> exp_code \<Rightarrow> string option \<Rightarrow> answer \<Rightarrow> pyexc + response_body" where
  "checked_json env code key a = bindE (checked_part env code key a) (response_dict (fst a))"

definition checked_list :: "'r env \<Rightarrow> exp_code \<Rightarrow> string option \<Rightarrow> answer \<Rightarrow> pyexc + response_list" where
  "checked_list env code key a = bindE (checked_part env code key a) (response_list_of (fst a))"

definition loaded_json :: "'r env \<Rightarrow> exp_code \<Rightarrow> string option \<Rightarrow> answer \<Rightarrow> pyexc + response_body" where
  "loaded_json env code key a = bindE (loaded_part env code key a) (response_dict (fst a))"

definition loaded_list :: "'r env \<Rightarrow> exp_code \<Rightarrow> string option \<Rightarrow> answer \<Rightarrow> pyexc + response_list" where
  "loaded_list env code key a = bindE (loaded_part env code key a) (response_list_of (fst a))"

text \<open>The text itself, no body at all, and \<open>_parse_resp\<close>.\<close>

definition checked_text :: "exp_code \<Rightarrow> answer \<Rightarrow> pyexc + response_body" where
  "checked_text code a =
     bindE (expected_success code (rs_status (fst a))) (\<lambda>_. response_dict (fst a) (PStr (snd a)))"

definition checked_text_data :: "exp_code \<Rightarrow> answer \<Rightarrow> pyexc + response_data" where
  "checked_text_data code a =
     bindE (expected_success code (rs_status (fst a))) (\<lambda>_. response_data_of (fst a) (PStr (snd a)))"

definition checked_empty :: "exp_code \<Rightarrow> answer \<Rightarrow> pyexc + response_body" where
  "checked_empty code a =
     bindE (expected_success code (rs_status (fst a))) (\<lambda>_. response_dict (fst a) PNone)"

definition parsed_json :: "'r env \<Rightarrow> exp_code \<Rightarrow> answer \<Rightarrow> pyexc + response_body" where
  "parsed_json env code a =
     bindE (expected_success code (rs_status (fst a))) (\<lambda>_.
     bindE (parse_resp env (snd a)) (response_dict (fst a)))"

definition parsed_list :: "'r env \<Rightarrow> exp_code \<Rightarrow> answer \<Rightarrow> pyexc + response_list" where
  "parsed_list env code a =
     bindE (expected_success code (rs_status (fst a))) (\<lambda>_.
     bindE (parse_resp env (snd a)) (response_list_of (fst a)))"

section \<open>Looking for a resource\<close>

text \<open>\<open>try: self.show(id) / except NotFound: return True / return False\<close>.\<close>

definition is_gone :: "('w, 'a) io \<Rightarrow> ('w, bool) io" where
  "is_gone m =
     catch (bnd m (\<lambda>_. ret False)) (\<lambda>e. if catches NotFound e then Some (ret True) else None)"

text \<open>The first element of a list with a value under a key; an element without the key raises.\<close>

fun first_with :: "string \<Rightarrow> py \<Rightarrow> py list \<Rightarrow> pyexc + py option" where
  "first_with key v [] = Inr None"
| "first_with key v (x # xs) =
     bindE (getitem x key) (\<lambda>y. if y = v then Inr (Some x) else first_with key v xs)"

text \<open>\<open>body[key]\<close> of a \<open>ResponseBody\<close>.\<close>

definition rb_item :: "response_body \<Rightarrow> string \<Rightarrow> pyexc + py" where
  "rb_item b key = getitem (PDict (rb_data b)) key"

text \<open>\<open>kwargs.get(key, body[key])\<close>: the default is looked up in any case.\<close>

definition kw_or :: "(string, py) dict \<Rightarrow> response_body \<Rightarrow> string \<Rightarrow> pyexc + py" where
  "kw_or kwargs b key = bindE (rb_item b key) (\<lambda>v. Inr (kw_get kwargs key v))"

section \<open>Facts\<close>

lemma first_with_Some:
  "first_with key v xs = Inr (Some x) \<Longrightarrow> x \<in> set xs \<and> getitem x key = Inr v"
  by (induction key v xs rule: first_with.induct) (auto split: if_splits)

lemma first_with_None:
  "first_with key v xs = Inr None \<Longrightarrow> y \<in> set xs \<Longrightarrow> getitem y key \<noteq> Inr v"
  by (induction key v xs rule: first_with.induct) (auto split: if_splits)

lemma kw_or_Inr:
  "kw_or kwargs b key = Inr v \<longleftrightarrow> (\<exists>cur. dget (rb_data b) key = Some cur \<and> v = kw_get kwargs key cur)"
  by (auto simp: kw_or_def rb_item_def split: option.splits)

lemma dget_set_if: "dget (set_if c key v d) k = (if c \<and> k = key then Some v else dget d k)"
  by (simp add: set_if_def)

end
