(* ===== verification/IdentityClients.thy ===== *)
theory IdentityClients
  imports ClientBase
begin

text \<open>
  The identity clients of both versions.

  The v2 identity client, \<open>automation/services/identity/v2/json/identity_client.py\<close>. Its methods are
  those of the class, with the prefix \<open>id2\<close>.

  The v3 identity clients, \<open>automation/services/identity/v3/json/\<close>: \<open>identity_client.py\<close> and the clients of
  policies, services, regions, credentials and endpoints. Their methods have the prefix \<open>id3\<close>.
\<close>

section \<open>Version 2\<close>

subsection \<open>The client\<close>

definition id2_get_api_description :: "'r env \<Rightarrow> 'w requester \<Rightarrow> ('w, response_body) io" where
  "id2_get_api_description env rq = get_with rq [] (parsed_json env (Codes [200, 203]))"

definition id2_list_roles :: "'r env \<Rightarrow> 'w requester \<Rightarrow> ('w, response_list) io" where
  "id2_list_roles env rq = get_with rq ''OS-KSADM/roles'' (parsed_list env (Code 200))"

text \<open>The answer is kept in the client, the argument \<open>cached\<close>; the second part of the result is the new one.\<close>

definition id2_has_admin_extensions ::
    "'r env \<Rightarrow> 'w requester \<Rightarrow> bool option \<Rightarrow> ('w, bool \<times> bool option) io" where
  "id2_has_admin_extensions env rq cached =
     (case cached of
        Some b \<Rightarrow> ret (b, cached)
      | None \<Rightarrow>
          catch (bnd (id2_list_roles env rq) (\<lambda>_. ret (True, Some True)))
            (\<lambda>e. Some (ret (False, Some False))))"

definition id2_create_role :: "'r env \<Rightarrow> 'w requester \<Rightarrow> py \<Rightarrow> ('w, response_body) io" where
  "id2_create_role env rq name =
     post_with rq ''OS-KSADM/roles'' (wrapped env ''role'' [(''name'', name)])
       (parsed_json env (Code 200))"

definition id2_get_role :: "'r env \<Rightarrow> 'w requester \<Rightarrow> string \<Rightarrow> ('w, response_body) io" where
  "id2_get_role env rq role_id =
     get_with rq (''OS-KSADM/roles/'' @ role_id) (checked_json env (Code 200) (Some ''role''))"

definition id2_create_tenant ::
    "'r env \<Rightarrow> 'w requester \<Rightarrow> py \<Rightarrow> (string, py) dict \<Rightarrow> ('w, response_body) io" where
  "id2_create_tenant env rq name kwargs =
     post_with rq ''tenants''
       (wrapped env ''tenant''
          [(''name'', name), (''description'', kw_get kwargs ''description'' (PStr [])),
           (''enabled'', kw_get kwargs ''enabled'' (PBool True))]) (parsed_json env (Code 200))"

definition id2_delete_role :: "'w requester \<Rightarrow> string \<Rightarrow> ('w, answer) io" where
  "id2_delete_role rq role_id =
     delete_with rq (''OS-KSADM/roles/'' @ role_id)
       (\<lambda>a. bindE (expected_success (Code 204) (rs_status (fst a))) (\<lambda>_. Inr a))"

definition id2_list_user_roles ::
    "'r env \<Rightarrow> 'w requester \<Rightarrow> string \<Rightarrow> string \<Rightarrow> ('w, response_list) io" where
  "id2_list_user_roles env rq tenant_id user_id =
     get_with rq (''/tenants/'' @ tenant_id @ ''/users/'' @ user_id @ ''/roles'')
       (parsed_list env (Code 200))"

definition id2_assign_user_role ::
    "'r env \<Rightarrow> 'w requester \<Rightarrow> string \<Rightarrow> string \<Rightarrow> string \<Rightarrow> ('w, response_body) io" where
  "id2_assign_user_role env rq tenant_id user_id role_id =
     put_with rq (''/tenants/'' @ tenant_id @ ''/users/'' @ user_id @ ''/roles/OS-KSADM/'' @ role_id)
       (PStr []) (parsed_json env (Code 200))"

definition id2_remove_user_role ::
    "'w requester \<Rightarrow> string \<Rightarrow> string \<Rightarrow> string \<Rightarrow> ('w, response_body) io" where
  "id2_remove_user_role rq tenant_id user_id role_id =
     delete_with rq (''/tenants/'' @ tenant_id @ ''/users/'' @ user_id @ ''/roles/OS-KSADM/'' @ role_id)
       (checked_text (Code 204))"

definition id2_delete_tenant :: "'w requester \<Rightarrow> string \<Rightarrow> ('w, response_body) io" where
  "id2_delete_tenant rq tenant_id = delete_with rq (''tenants/'' @ tenant_id) (checked_text (Code 204))"

definition id2_get_tenant :: "'r env \<Rightarrow> 'w requester \<Rightarrow> string \<Rightarrow> ('w, response_body) io" where
  "id2_get_tenant env rq tenant_id =
     get_with rq (''tenants/'' @ tenant_id) (parsed_json env (Code 200))"

definition id2_list_tenants :: "'r env \<Rightarrow> 'w requester \<Rightarrow> ('w, response_list) io" where
  "id2_list_tenants env rq = get_with rq ''tenants'' (checked_list env (Code 200) (Some ''tenants''))"

definition found_or :: "string \<Rightarrow> py option \<Rightarrow> pyexc + py" where
  "found_or message found =
     (case found of None \<Rightarrow> Inl (Auto NotFound [PStr message] []) | Some x \<Rightarrow> Inr x)"

definition id2_get_tenant_by_name :: "'r env \<Rightarrow> 'w requester \<Rightarrow> py \<Rightarrow> ('w, py) io" where
  "id2_get_tenant_by_name env rq tenant_name =
     bnd (id2_list_tenants env rq) (\<lambda>tenants. lift (
       bindE (first_with ''name'' tenant_name (rl_data tenants)) (found_or ''No such tenant'')))"

definition tenant_document :: "string \<Rightarrow> (string, py) dict \<Rightarrow> response_body \<Rightarrow> pyexc + (string, py) dict" where
  "tenant_document tenant_id kwargs body =
     bindE (kw_or kwargs body ''name'') (\<lambda>name.
     bindE (kw_or kwargs body ''description'') (\<lambda>desc.
     bindE (kw_or kwargs body ''enabled'') (\<lambda>en.
       Inr [(''id'', PStr tenant_id), (''name'', name), (''description'', desc), (''enabled'', en)])))"

definition id2_update_tenant ::
    "'r env \<Rightarrow> 'w requester \<Rightarrow> string \<Rightarrow> (string, py) dict \<Rightarrow> ('w, response_body) io" where
  "id2_update_tenant env rq tenant_id kwargs =
     bnd (id2_get_tenant env rq tenant_id) (\<lambda>body.
     bnd (lift (tenant_document tenant_id kwargs body)) (\<lambda>post_body.
       post_with rq (''tenants/'' @ tenant_id) (wrapped env ''tenant'' post_body) (parsed_json env (Code 200))))"

definition id2_create_user ::
    "'r env \<Rightarrow> 'w requester \<Rightarrow> py \<Rightarrow> py \<Rightarrow> py \<Rightarrow> py \<Rightarrow> (string, py) dict
     \<Rightarrow> ('w, response_body) io" where
  "id2_create_user env rq name password tenant_id email kwargs =
     post_with rq ''users''
       (wrapped env ''user''
          (set_if (\<not> is_none (kw_get kwargs ''enabled'' PNone)) ''enabled''
             (kw_get kwargs ''enabled'' PNone)
             (set_if (\<not> is_none tenant_id) ''tenantId'' tenant_id
                [(''name'', name), (''password'', password), (''email'', email)])))
       (parsed_json env (Code 200))"

definition id2_update_user ::
    "'r env \<Rightarrow> 'w requester \<Rightarrow> string \<Rightarrow> (string, py) dict \<Rightarrow> ('w, response_body) io" where
  "id2_update_user env rq user_id kwargs =
     put_with rq (''users/'' @ user_id) (wrapped env ''user'' kwargs) (parsed_json env (Code 200))"

definition id2_get_user :: "'r env \<Rightarrow> 'w requester \<Rightarrow> string \<Rightarrow> ('w, response_body) io" where
  "id2_get_user env rq user_id = get_with rq (''users/'' @ user_id) (parsed_json env (Code 200))"

definition id2_delete_user :: "'w requester \<Rightarrow> string \<Rightarrow> ('w, response_body) io" where
  "id2_delete_user rq user_id = delete_with rq (''users/'' @ user_id) (checked_text (Code 204))"

definition id2_get_users :: "'r env \<Rightarrow> 'w requester \<Rightarrow> ('w, response_list) io" where
  "id2_get_users env rq = get_with rq ''users'' (parsed_list env (Code 200))"

definition id2_enable_disable_user ::
    "'r env \<Rightarrow> 'w requester \<Rightarrow> string \<Rightarrow> py \<Rightarrow> ('w, response_body) io" where
  "id2_enable_disable_user env rq user_id enabled =
     put_with rq (''users/'' @ user_id @ ''/enabled'') (wrapped env ''user'' [(''enabled'', enabled)])
       (parsed_json env (Code 200))"

definition id2_get_token :: "'r env \<Rightarrow> 'w requester \<Rightarrow> string \<Rightarrow> ('w, response_body) io" where
  "id2_get_token env rq token_id = get_with rq (''tokens/'' @ token_id) (parsed_json env (Code 200))"

definition id2_delete_token :: "'w requester \<Rightarrow> string \<Rightarrow> ('w, response_body) io" where
  "id2_delete_token rq token_id = delete_with rq (''tokens/'' @ token_id) (checked_text (Code 204))"

definition id2_list_users_for_tenant ::
    "'r env \<Rightarrow> 'w requester \<Rightarrow> string \<Rightarrow> ('w, response_list) io" where
  "id2_list_users_for_tenant env rq tenant_id =
     get_with rq (''/tenants/'' @ tenant_id @ ''/users'') (parsed_list env (Code 200))"

definition id2_get_user_by_username ::
    "'r env \<Rightarrow> 'w requester \<Rightarrow> string \<Rightarrow> py \<Rightarrow> ('w, py) io" where
  "id2_get_user_by_username env rq tenant_id username =
     bnd (id2_list_users_for_tenant env rq tenant_id) (\<lambda>users. lift (
       bindE (first_with ''name'' username (rl_data users)) (found_or ''No such user'')))"

definition id2_create_service ::
    "'r env \<Rightarrow> 'w requester \<Rightarrow> py \<Rightarrow> py \<Rightarrow> (string, py) dict \<Rightarrow> ('w, response_body) io" where
  "id2_create_service env rq name service_type kwargs =
     post_with rq ''/OS-KSADM/services''
       (wrapped env ''OS-KSADM:service''
          [(''name'', name), (''type'', service_type),
           (''description'', kw_get kwargs ''description'' PNone)]) (parsed_json env (Code 200))"

definition id2_get_service :: "'r env \<Rightarrow> 'w requester \<Rightarrow> string \<Rightarrow> ('w, response_body) io" where
  "id2_get_service env rq service_id =
     get_with rq (''/OS-KSADM/services/'' @ service_id) (parsed_json env (Code 200))"

definition id2_list_services :: "'r env \<Rightarrow> 'w requester \<Rightarrow> ('w, response_list) io" where
  "id2_list_services env rq = get_with rq ''/OS-KSADM/services'' (parsed_list env (Code 200))"

definition id2_delete_service :: "'w requester \<Rightarrow> string \<Rightarrow> ('w, response_body) io" where
  "id2_delete_service rq service_id =
     delete_with rq (''/OS-KSADM/services/'' @ service_id) (checked_text (Code 204))"

definition id2_create_endpoint ::
    "'r env \<Rightarrow> 'w requester \<Rightarrow> py \<Rightarrow> py \<Rightarrow> (string, py) dict \<Rightarrow> ('w, response_body) io" where
  "id2_create_endpoint env rq service_id region_id kwargs =
     post_with rq ''/endpoints''
       (wrapped env ''endpoint''
          [(''service_id'', service_id), (''region'', region_id),
           (''publicurl'', kw_get kwargs ''publicurl'' PNone),
           (''adminurl'', kw_get kwargs ''adminurl'' PNone),
           (''internalurl'', kw_get kwargs ''internalurl'' PNone)]) (parsed_json env (Code 200))"

definition id2_list_endpoints :: "'r env \<Rightarrow> 'w requester \<Rightarrow> ('w, response_list) io" where
  "id2_list_endpoints env rq = get_with rq ''/endpoints'' (parsed_list env (Code 200))"

definition id2_delete_endpoint :: "'w requester \<Rightarrow> string \<Rightarrow> ('w, response_body) io" where
  "id2_delete_endpoint rq endpoint_id =
     delete_with rq (''/endpoints/'' @ endpoint_id) (checked_text (Code 204))"

definition id2_update_user_password ::
    "'r env \<Rightarrow> 'w requester \<Rightarrow> string \<Rightarrow> py \<Rightarrow> ('w, response_body) io" where
  "id2_update_user_password env rq user_id new_pass =
     put_with rq (''users/'' @ user_id @ ''/OS-KSADM/password'')
       (wrapped env ''user'' [(''password'', new_pass), (''id'', PStr user_id)])
       (parsed_json env (Code 200))"

definition id2_list_extensions :: "'r env \<Rightarrow> 'w requester \<Rightarrow> ('w, response_list) io" where
  "id2_list_extensions env rq =
     get_with rq ''/extensions'' (\<lambda>a.
       bindE (checked_part env (Code 200) (Some ''extensions'') a) (\<lambda>extensions.
       bindE (getitem extensions ''values'') (response_list_of (fst a))))"

definition id2_create_user_ec2_credentials ::
    "'r env \<Rightarrow> 'w requester \<Rightarrow> string \<Rightarrow> py \<Rightarrow> ('w, response_body) io" where
  "id2_create_user_ec2_credentials env rq user_id tenant_id =
     post_with rq (''/users/'' @ user_id @ ''/credentials/OS-EC2'')
       (json_dumps env (PDict [(''tenant_id'', tenant_id)])) (parsed_json env (Code 200))"

definition id2_list_user_ec2_credentials ::
    "'r env \<Rightarrow> 'w requester \<Rightarrow> string \<Rightarrow> ('w, response_list) io" where
  "id2_list_user_ec2_credentials env rq user_id =
     get_with rq (''/users/'' @ user_id @ ''/credentials/OS-EC2'') (parsed_list env (Code 200))"

section \<open>Version 3\<close>

subsection \<open>Users, projects, roles, domains, groups and trusts\<close>

definition id3_get_api_description :: "'r env \<Rightarrow> 'w requester \<Rightarrow> ('w, response_body) io" where
  "id3_get_api_description env rq = get_with rq [] (parsed_json env (Code 200))"

definition id3_create_user ::
    "'r env \<Rightarrow> 'w requester \<Rightarrow> py \<Rightarrow> py \<Rightarrow> py \<Rightarrow> py \<Rightarrow> py \<Rightarrow> (string, py) dict
     \<Rightarrow> ('w, response_body) io" where
  "id3_create_user env rq user_name password project_id email domain_id kwargs =
     post_with rq ''users''
       (wrapped env ''user''
          [(''project_id'', project_id),
           (''default_project_id'', kw_get kwargs ''default_project_id'' PNone),
           (''description'', kw_get kwargs ''description'' PNone), (''domain_id'', domain_id),
           (''email'', email), (''enabled'', kw_get kwargs ''enabled'' (PBool True)),
           (''name'', user_name), (''password'', password)])
       (checked_json env (Code 201) (Some ''user''))"

definition user_document :: "string \<Rightarrow> py \<Rightarrow> (string, py) dict \<Rightarrow> response_body \<Rightarrow> pyexc + (string, py) dict" where
  "user_document user_id name kwargs body =
     bindE (kw_or kwargs body ''email'') (\<lambda>email.
     bindE (kw_or kwargs body ''enabled'') (\<lambda>en.
     bindE (kw_or kwargs body ''project_id'') (\<lambda>project_id.
     bindE (if dhas (rb_data body) ''default_project_id'' then kw_or kwargs body ''default_project_id''
            else Inr (kw_get kwargs ''default_project_id'' PNone)) (\<lambda>default_project_id.
     bindE (kw_or kwargs body ''description'') (\<lambda>description.
     bindE (kw_or kwargs body ''domain_id'') (\<lambda>domain_id.
       Inr [(''name'', name), (''email'', email), (''enabled'', en), (''project_id'', project_id),
            (''default_project_id'', default_project_id), (''id'', PStr user_id),
            (''domain_id'', domain_id), (''description'', description)]))))))"

definition id3_get_user :: "'r env \<Rightarrow> 'w requester \<Rightarrow> string \<Rightarrow> ('w, response_body) io" where
  "id3_get_user env rq user_id =
     get_with rq (''users/'' @ user_id) (checked_json env (Code 200) (Some ''user''))"

definition id3_update_user ::
    "'r env \<Rightarrow> 'w requester \<Rightarrow> string \<Rightarrow> py \<Rightarrow> (string, py) dict \<Rightarrow> ('w, response_body) io" where
  "id3_update_user env rq user_id name kwargs =
     bnd (id3_get_user env rq user_id) (\<lambda>body.
     bnd (lift (user_document user_id name kwargs body)) (\<lambda>post_body.
       patch_with rq (''users/'' @ user_id) (wrapped env ''user'' post_body)
         (checked_json env (Code 200) (Some ''user''))))"

definition id3_update_user_password ::
    "'r env \<Rightarrow> 'w requester \<Rightarrow> string \<Rightarrow> py \<Rightarrow> py \<Rightarrow> ('w, response_body) io" where
  "id3_update_user_password env rq user_id password original_password =
     post_with rq (''users/'' @ user_id @ ''/password'')
       (wrapped env ''user'' [(''password'', password), (''original_password'', original_password)])
       (checked_empty (Code 204))"

definition id3_list_user_projects :: "'r env \<Rightarrow> 'w requester \<Rightarrow> string \<Rightarrow> ('w, response_list) io" where
  "id3_list_user_projects env rq user_id =
     get_with rq (''users/'' @ user_id @ ''/projects'')
       (checked_list env (Code 200) (Some ''projects''))"

definition id3_get_users ::
    "'r env \<Rightarrow> 'w requester \<Rightarrow> (string, py) dict \<Rightarrow> ('w, response_list) io" where
  "id3_get_users env rq params =
     get_with rq
       (''users'' @ (if params \<noteq> [] then (''?'' @ (urlencode_params env params)) else []))
       (checked_list env (Code 200) (Some ''users''))"

definition id3_delete_user :: "'w requester \<Rightarrow> string \<Rightarrow> ('w, response_body) io" where
  "id3_delete_user rq user_id = delete_with rq (''users/'' @ user_id) (checked_text (Code 204))"

definition id3_create_project ::
    "'r env \<Rightarrow> 'w requester \<Rightarrow> py \<Rightarrow> (string, py) dict \<Rightarrow> ('w, response_body) io" where
  "id3_create_project env rq name kwargs =
     post_with rq ''projects''
       (wrapped env ''project''
          [(''description'', kw_get kwargs ''description'' PNone),
           (''domain_id'', kw_get kwargs ''domain_id'' (PStr ''default'')),
           (''enabled'', kw_get kwargs ''enabled'' (PBool True)), (''name'', name)])
       (checked_json env (Code 201) (Some ''project''))"

definition id3_list_projects ::
    "'r env \<Rightarrow> 'w requester \<Rightarrow> (string, py) dict \<Rightarrow> ('w, response_list) io" where
  "id3_list_projects env rq params =
     get_with rq
       (''projects'' @ (if params \<noteq> [] then (''?'' @ (urlencode_params env params)) else []))
       (checked_list env (Code 200) (Some ''projects''))"

definition id3_get_project :: "'r env \<Rightarrow> 'w requester \<Rightarrow> string \<Rightarrow> ('w, response_body) io" where
  "id3_get_project env rq project_id = get_with rq (''projects/'' @ project_id) (checked_json env (Code 200) (Some ''project''))"

definition project_document :: "string \<Rightarrow> (string, py) dict \<Rightarrow> response_body \<Rightarrow> pyexc + (string, py) dict" where
  "project_document project_id kwargs body =
     bindE (kw_or kwargs body ''name'') (\<lambda>name.
     bindE (kw_or kwargs body ''description'') (\<lambda>desc.
     bindE (kw_or kwargs body ''enabled'') (\<lambda>en.
     bindE (kw_or kwargs body ''domain_id'') (\<lambda>domain_id.
       Inr [(''id'', PStr project_id), (''name'', name), (''description'', desc), (''enabled'', en), (''domain_id'', domain_id)]))))"

definition id3_update_project ::
    "'r env \<Rightarrow> 'w requester \<Rightarrow> string \<Rightarrow> (string, py) dict \<Rightarrow> ('w, response_body) io" where
  "id3_update_project env rq project_id kwargs =
     bnd (id3_get_project env rq project_id) (\<lambda>body.
     bnd (lift (project_document project_id kwargs body)) (\<lambda>post_body.
       patch_with rq (''projects/'' @ project_id) (wrapped env ''project'' post_body)
         (checked_json env (Code 200) (Some ''project''))))"

definition id3_delete_project :: "'w requester \<Rightarrow> string \<Rightarrow> ('w, response_body) io" where
  "id3_delete_project rq project_id =
     delete_with rq (''projects/'' @ project_id) (checked_text (Code 204))"

definition id3_create_role :: "'r env \<Rightarrow> 'w requester \<Rightarrow> py \<Rightarrow> ('w, response_body) io" where
  "id3_create_role env rq name =
     post_with rq ''roles'' (wrapped env ''role'' [(''name'', name)])
       (checked_json env (Code 201) (Some ''role''))"

definition id3_get_role :: "'r env \<Rightarrow> 'w requester \<Rightarrow> string \<Rightarrow> ('w, response_body) io" where
  "id3_get_role env rq role_id =
     get_with rq (''roles/'' @ role_id) (checked_json env (Code 200) (Some ''role''))"

definition id3_list_roles :: "'r env \<Rightarrow> 'w requester \<Rightarrow> ('w, response_list) io" where
  "id3_list_roles env rq = get_with rq ''roles'' (checked_list env (Code 200) (Some ''roles''))"

definition id3_update_role :: "'r env \<Rightarrow> 'w requester \<Rightarrow> py \<Rightarrow> string \<Rightarrow> ('w, response_body) io" where
  "id3_update_role env rq name role_id =
     patch_with rq (''roles/'' @ role_id) (wrapped env ''role'' [(''name'', name)])
       (checked_json env (Code 200) (Some ''role''))"

definition id3_delete_role :: "'w requester \<Rightarrow> string \<Rightarrow> ('w, response_body) io" where
  "id3_delete_role rq role_id = delete_with rq (''roles/'' @ role_id) (checked_text (Code 204))"

definition id3_assign_user_role ::
    "'w requester \<Rightarrow> string \<Rightarrow> string \<Rightarrow> string \<Rightarrow> ('w, response_body) io" where
  "id3_assign_user_role rq project_id user_id role_id =
     put_with rq (''projects/'' @ project_id @ ''/users/'' @ user_id @ ''/roles/'' @ role_id) PNone
       (checked_text (Code 204))"

definition id3_create_domain ::
    "'r env \<Rightarrow> 'w requester \<Rightarrow> py \<Rightarrow> (string, py) dict \<Rightarrow> ('w, response_body) io" where
  "id3_create_domain env rq name kwargs =
     post_with rq ''domains''
       (wrapped env ''domain''
          [(''description'', kw_get kwargs ''description'' PNone),
           (''enabled'', kw_get kwargs ''enabled'' (PBool True)), (''name'', name)])
       (checked_json env (Code 201) (Some ''domain''))"

definition id3_delete_domain :: "'w requester \<Rightarrow> string \<Rightarrow> ('w, response_body) io" where
  "id3_delete_domain rq domain_id = delete_with rq (''domains/'' @ domain_id) (checked_text (Code 204))"

definition id3_list_domains ::
    "'r env \<Rightarrow> 'w requester \<Rightarrow> (string, py) dict \<Rightarrow> ('w, response_list) io" where
  "id3_list_domains env rq params =
     get_with rq
       (''domains'' @ (if params \<noteq> [] then (''?'' @ (urlencode_params env params)) else []))
       (checked_list env (Code 200) (Some ''domains''))"

definition id3_get_domain :: "'r env \<Rightarrow> 'w requester \<Rightarrow> string \<Rightarrow> ('w, response_body) io" where
  "id3_get_domain env rq domain_id = get_with rq (''domains/'' @ domain_id) (checked_json env (Code 200) (Some ''domain''))"

definition domain_document :: "(string, py) dict \<Rightarrow> response_body \<Rightarrow> pyexc + (string, py) dict" where
  "domain_document kwargs body =
     bindE (kw_or kwargs body ''description'') (\<lambda>description.
     bindE (kw_or kwargs body ''enabled'') (\<lambda>en.
     bindE (kw_or kwargs body ''name'') (\<lambda>name.
       Inr [(''description'', description), (''enabled'', en), (''name'', name)])))"

definition id3_update_domain ::
    "'r env \<Rightarrow> 'w requester \<Rightarrow> string \<Rightarrow> (string, py) dict \<Rightarrow> ('w, response_body) io" where
  "id3_update_domain env rq domain_id kwargs =
     bnd (id3_get_domain env rq domain_id) (\<lambda>body.
     bnd (lift (domain_document kwargs body)) (\<lambda>post_body.
       patch_with rq (''domains/'' @ domain_id) (wrapped env ''domain'' post_body)
         (checked_json env (Code 200) (Some ''domain''))))"

definition id3_get_token :: "'r env \<Rightarrow> 'w requester \<Rightarrow> string \<Rightarrow> ('w, response_body) io" where
  "id3_get_token env rq resp_token =
     bnd (http_get rq ''auth/tokens'' (Some [(''X-Subject-Token'', resp_token)]) False) (\<lambda>a.
       lift (checked_json env (Code 200) (Some ''token'') a))"

definition id3_delete_token :: "'w requester \<Rightarrow> string \<Rightarrow> ('w, response_body) io" where
  "id3_delete_token rq resp_token =
     bnd (http_delete rq ''auth/tokens'' (Some [(''X-Subject-Token'', resp_token)]) PNone False) (\<lambda>a.
       lift (checked_text (Code 204) a))"

definition id3_create_group ::
    "'r env \<Rightarrow> 'w requester \<Rightarrow> py \<Rightarrow> (string, py) dict \<Rightarrow> ('w, response_body) io" where
  "id3_create_group env rq name kwargs =
     post_with rq ''groups''
       (wrapped env ''group''
          [(''description'', kw_get kwargs ''description'' PNone),
           (''domain_id'', kw_get kwargs ''domain_id'' (PStr ''default'')),
           (''project_id'', kw_get kwargs ''project_id'' PNone), (''name'', name)])
       (checked_json env (Code 201) (Some ''group''))"

definition id3_get_group :: "'r env \<Rightarrow> 'w requester \<Rightarrow> string \<Rightarrow> ('w, response_body) io" where
  "id3_get_group env rq group_id =
     get_with rq (''groups/'' @ group_id) (checked_json env (Code 200) (Some ''group''))"

definition id3_list_groups :: "'r env \<Rightarrow> 'w requester \<Rightarrow> ('w, response_list) io" where
  "id3_list_groups env rq = get_with rq ''groups'' (checked_list env (Code 200) (Some ''groups''))"

definition group_document :: "(string, py) dict \<Rightarrow> response_body \<Rightarrow> pyexc + (string, py) dict" where
  "group_document kwargs body =
     bindE (kw_or kwargs body ''name'') (\<lambda>name.
     bindE (kw_or kwargs body ''description'') (\<lambda>description.
       Inr [(''name'', name), (''description'', description)]))"

definition id3_update_group ::
    "'r env \<Rightarrow> 'w requester \<Rightarrow> string \<Rightarrow> (string, py) dict \<Rightarrow> ('w, response_body) io" where
  "id3_update_group env rq group_id kwargs =
     bnd (id3_get_group env rq group_id) (\<lambda>body.
     bnd (lift (group_document kwargs body)) (\<lambda>post_body.
       patch_with rq (''groups/'' @ group_id) (wrapped env ''group'' post_body)
         (checked_json env (Code 200) (Some ''group''))))"

definition id3_delete_group :: "'w requester \<Rightarrow> string \<Rightarrow> ('w, response_body) io" where
  "id3_delete_group rq group_id = delete_with rq (''groups/'' @ group_id) (checked_text (Code 204))"

definition id3_add_group_user :: "'w requester \<Rightarrow> string \<Rightarrow> string \<Rightarrow> ('w, response_body) io" where
  "id3_add_group_user rq group_id user_id =
     put_with rq (''groups/'' @ group_id @ ''/users/'' @ user_id) PNone (checked_text (Code 204))"

definition id3_list_group_users :: "'r env \<Rightarrow> 'w requester \<Rightarrow> string \<Rightarrow> ('w, response_list) io" where
  "id3_list_group_users env rq group_id =
     get_with rq (''groups/'' @ group_id @ ''/users'') (checked_list env (Code 200) (Some ''users''))"

definition id3_list_user_groups :: "'r env \<Rightarrow> 'w requester \<Rightarrow> string \<Rightarrow> ('w, response_list) io" where
  "id3_list_user_groups env rq user_id =
     get_with rq (''users/'' @ user_id @ ''/groups'') (checked_list env (Code 200) (Some ''groups''))"

definition id3_delete_group_user :: "'w requester \<Rightarrow> string \<Rightarrow> string \<Rightarrow> ('w, response_body) io" where
  "id3_delete_group_user rq group_id user_id =
     delete_with rq (''groups/'' @ group_id @ ''/users/'' @ user_id) (checked_text (Code 204))"

definition id3_assign_user_role_on_project ::
    "'w requester \<Rightarrow> string \<Rightarrow> string \<Rightarrow> string \<Rightarrow> ('w, response_body) io" where
  "id3_assign_user_role_on_project rq project_id user_id role_id =
     put_with rq (''projects/'' @ project_id @ ''/users/'' @ user_id @ ''/roles/'' @ role_id) PNone
       (checked_text (Code 204))"

definition id3_assign_user_role_on_domain ::
    "'w requester \<Rightarrow> string \<Rightarrow> string \<Rightarrow> string \<Rightarrow> ('w, response_body) io" where
  "id3_assign_user_role_on_domain rq domain_id user_id role_id =
     put_with rq (''domains/'' @ domain_id @ ''/users/'' @ user_id @ ''/roles/'' @ role_id) PNone
       (checked_text (Code 204))"

definition id3_list_user_roles_on_project ::
    "'r env \<Rightarrow> 'w requester \<Rightarrow> string \<Rightarrow> string \<Rightarrow> ('w, response_list) io" where
  "id3_list_user_roles_on_project env rq project_id user_id =
     get_with rq (''projects/'' @ project_id @ ''/users/'' @ user_id @ ''/roles'')
       (checked_list env (Code 200) (Some ''roles''))"

definition id3_list_user_roles_on_domain ::
    "'r env \<Rightarrow> 'w requester \<Rightarrow> string \<Rightarrow> string \<Rightarrow> ('w, response_list) io" where
  "id3_list_user_roles_on_domain env rq domain_id user_id =
     get_with rq (''domains/'' @ domain_id @ ''/users/'' @ user_id @ ''/roles'')
       (checked_list env (Code 200) (Some ''roles''))"

definition id3_revoke_role_from_user_on_project ::
    "'w requester \<Rightarrow> string \<Rightarrow> string \<Rightarrow> string \<Rightarrow> ('w, response_body) io" where
  "id3_revoke_role_from_user_on_project rq project_id user_id role_id =
     delete_with rq (''projects/'' @ project_id @ ''/users/'' @ user_id @ ''/roles/'' @ role_id)
       (checked_text (Code 204))"

definition id3_revoke_role_from_user_on_domain ::
    "'w requester \<Rightarrow> string \<Rightarrow> string \<Rightarrow> string \<Rightarrow> ('w, response_body) io" where
  "id3_revoke_role_from_user_on_domain rq domain_id user_id role_id =
     delete_with rq (''domains/'' @ domain_id @ ''/users/'' @ user_id @ ''/roles/'' @ role_id)
       (checked_text (Code 204))"

definition id3_assign_group_role_on_project ::
    "'w requester \<Rightarrow> string \<Rightarrow> string \<Rightarrow> string \<Rightarrow> ('w, response_body) io" where
  "id3_assign_group_role_on_project rq project_id group_id role_id =
     put_with rq (''projects/'' @ project_id @ ''/groups/'' @ group_id @ ''/roles/'' @ role_id) PNone
       (checked_text (Code 204))"

definition id3_assign_group_role_on_domain ::
    "'w requester \<Rightarrow> string \<Rightarrow> string \<Rightarrow> string \<Rightarrow> ('w, response_body) io" where
  "id3_assign_group_role_on_domain rq domain_id group_id role_id =
     put_with rq (''domains/'' @ domain_id @ ''/groups/'' @ group_id @ ''/roles/'' @ role_id) PNone
       (checked_text (Code 204))"

definition id3_list_group_roles_on_project ::
    "'r env \<Rightarrow> 'w requester \<Rightarrow> string \<Rightarrow> string \<Rightarrow> ('w, response_list) io" where
  "id3_list_group_roles_on_project env rq project_id group_id =
     get_with rq (''projects/'' @ project_id @ ''/groups/'' @ group_id @ ''/roles'')
       (checked_list env (Code 200) (Some ''roles''))"

definition id3_list_group_roles_on_domain ::
    "'r env \<Rightarrow> 'w requester \<Rightarrow> string \<Rightarrow> string \<Rightarrow> ('w, response_list) io" where
  "id3_list_group_roles_on_domain env rq domain_id group_id =
     get_with rq (''domains/'' @ domain_id @ ''/groups/'' @ group_id @ ''/roles'')
       (checked_list env (Code 200) (Some ''roles''))"

definition id3_revoke_role_from_group_on_project ::
    "'w requester \<Rightarrow> string \<Rightarrow> string \<Rightarrow> string \<Rightarrow> ('w, response_body) io" where
  "id3_revoke_role_from_group_on_project rq project_id group_id role_id =
     delete_with rq (''projects/'' @ project_id @ ''/groups/'' @ group_id @ ''/roles/'' @ role_id)
       (checked_text (Code 204))"

definition id3_revoke_role_from_group_on_domain ::
    "'w requester \<Rightarrow> string \<Rightarrow> string \<Rightarrow> string \<Rightarrow> ('w, response_body) io" where
  "id3_revoke_role_from_group_on_domain rq domain_id group_id role_id =
     delete_with rq (''domains/'' @ domain_id @ ''/groups/'' @ group_id @ ''/roles/'' @ role_id)
       (checked_text (Code 204))"

definition id3_create_trust ::
    "'r env \<Rightarrow> 'w requester \<Rightarrow> py \<Rightarrow> py \<Rightarrow> py \<Rightarrow> py list \<Rightarrow> py \<Rightarrow> py \<Rightarrow> ('w, response_body) io" where
  "id3_create_trust env rq trustor_user_id trustee_user_id project_id role_names impersonation expires_at =
     post_with rq ''OS-TRUST/trusts''
       (wrapped env ''trust''
          [(''trustor_user_id'', trustor_user_id), (''trustee_user_id'', trustee_user_id),
           (''project_id'', project_id), (''impersonation'', impersonation),
           (''roles'', PList (map (\<lambda>n. PDict [(''name'', n)]) role_names)), (''expires_at'', expires_at)])
       (checked_json env (Code 201) (Some ''trust''))"

definition id3_delete_trust :: "'w requester \<Rightarrow> string \<Rightarrow> ('w, response_body) io" where
  "id3_delete_trust rq trust_id =
     delete_with rq (''OS-TRUST/trusts/'' @ trust_id) (checked_text (Code 204))"

definition id3_get_trusts :: "'r env \<Rightarrow> 'w requester \<Rightarrow> py \<Rightarrow> py \<Rightarrow> ('w, response_list) io" where
  "id3_get_trusts env rq trustor_user_id trustee_user_id =
     get_with rq
       (''OS-TRUST/trusts'' @
          (if truthy trustor_user_id then ''?trustor_user_id='' @ py_text (e_repr env) trustor_user_id
           else if truthy trustee_user_id then ''?trustee_user_id='' @ py_text (e_repr env) trustee_user_id
           else []))
       (checked_list env (Code 200) (Some ''trusts''))"

definition id3_get_trust :: "'r env \<Rightarrow> 'w requester \<Rightarrow> string \<Rightarrow> ('w, response_body) io" where
  "id3_get_trust env rq trust_id =
     get_with rq (''OS-TRUST/trusts/'' @ trust_id) (checked_json env (Code 200) (Some ''trust''))"

definition id3_get_trust_roles :: "'r env \<Rightarrow> 'w requester \<Rightarrow> string \<Rightarrow> ('w, response_list) io" where
  "id3_get_trust_roles env rq trust_id =
     get_with rq (''OS-TRUST/trusts/'' @ trust_id @ ''/roles'')
       (checked_list env (Code 200) (Some ''roles''))"

definition id3_get_trust_role ::
    "'r env \<Rightarrow> 'w requester \<Rightarrow> string \<Rightarrow> string \<Rightarrow> ('w, response_body) io" where
  "id3_get_trust_role env rq trust_id role_id =
     get_with rq (''OS-TRUST/trusts/'' @ trust_id @ ''/roles/'' @ role_id)
       (checked_json env (Code 200) (Some ''role''))"

definition id3_check_trust_role :: "'w requester \<Rightarrow> string \<Rightarrow> string \<Rightarrow> ('w, response_body) io" where
  "id3_check_trust_role rq trust_id role_id =
     head_with rq (''OS-TRUST/trusts/'' @ trust_id @ ''/roles/'' @ role_id) (checked_text (Code 200))"

subsection \<open>Policies\<close>

definition id3_create_policy :: "'r env \<Rightarrow> 'w requester \<Rightarrow> py \<Rightarrow> py \<Rightarrow> ('w, response_body) io" where
  "id3_create_policy env rq blob service_type =
     post_with rq ''policies'' (wrapped env ''policy'' [(''blob'', blob), (''type'', service_type)])
       (checked_json env (Code 201) (Some ''policy''))"

definition id3_list_policies :: "'r env \<Rightarrow> 'w requester \<Rightarrow> ('w, response_list) io" where
  "id3_list_policies env rq =
     get_with rq ''policies'' (checked_list env (Code 200) (Some ''policies''))"

definition id3_get_policy :: "'r env \<Rightarrow> 'w requester \<Rightarrow> string \<Rightarrow> ('w, response_body) io" where
  "id3_get_policy env rq policy_id =
     get_with rq (''policies/'' @ policy_id) (checked_json env (Code 200) (Some ''policy''))"

definition id3_update_policy ::
    "'r env \<Rightarrow> 'w requester \<Rightarrow> string \<Rightarrow> (string, py) dict \<Rightarrow> ('w, response_body) io" where
  "id3_update_policy env rq policy_id kwargs =
     patch_with rq (''policies/'' @ policy_id)
       (wrapped env ''policy'' [(''type'', kw_get kwargs ''type'' PNone)])
       (checked_json env (Code 200) (Some ''policy''))"

definition id3_delete_policy :: "'w requester \<Rightarrow> string \<Rightarrow> ('w, response_body) io" where
  "id3_delete_policy rq policy_id =
     delete_with rq (''policies/'' @ policy_id) (checked_text (Code 204))"

subsection \<open>Services\<close>

definition id3_get_service :: "'r env \<Rightarrow> 'w requester \<Rightarrow> string \<Rightarrow> ('w, response_body) io" where
  "id3_get_service env rq service_id = get_with rq (''services/'' @ service_id) (checked_json env (Code 200) (Some ''service''))"

definition service_document :: "(string, py) dict \<Rightarrow> response_body \<Rightarrow> pyexc + (string, py) dict" where
  "service_document kwargs body =
     bindE (kw_or kwargs body ''name'') (\<lambda>name.
     bindE (kw_or kwargs body ''type'') (\<lambda>service_type.
     bindE (kw_or kwargs body ''description'') (\<lambda>desc.
       Inr [(''description'', desc), (''type'', service_type), (''name'', name)])))"

definition id3_update_service ::
    "'r env \<Rightarrow> 'w requester \<Rightarrow> string \<Rightarrow> (string, py) dict \<Rightarrow> ('w, response_body) io" where
  "id3_update_service env rq service_id kwargs =
     bnd (id3_get_service env rq service_id) (\<lambda>body.
     bnd (lift (service_document kwargs body)) (\<lambda>post_body.
       patch_with rq (''services/'' @ service_id) (wrapped env ''service'' post_body)
         (checked_json env (Code 200) (Some ''service''))))"

definition id3_create_service ::
    "'r env \<Rightarrow> 'w requester \<Rightarrow> py \<Rightarrow> py \<Rightarrow> py \<Rightarrow> bool \<Rightarrow> ('w, response_body) io" where
  "id3_create_service env rq serv_type name description enabled =
     post_with rq ''services''
       (wrapped env ''service''
          [(''name'', name), (''type'', serv_type), (''enabled'', PBool enabled),
           (''description'', description)]) (checked_json env (Code 201) (Some ''service''))"

definition id3_delete_service :: "'w requester \<Rightarrow> string \<Rightarrow> ('w, response_body) io" where
  "id3_delete_service rq serv_id = delete_with rq (''services/'' @ serv_id) (checked_text (Code 204))"

definition id3_list_services :: "'r env \<Rightarrow> 'w requester \<Rightarrow> ('w, response_list) io" where
  "id3_list_services env rq =
     get_with rq ''services'' (checked_list env (Code 200) (Some ''services''))"

subsection \<open>Regions\<close>

definition id3_create_region :: "'r env \<Rightarrow> 'w requester \<Rightarrow> py \<Rightarrow> (string, py) dict \<Rightarrow> ('w, response_body) io" where
  "id3_create_region env rq description kwargs =
     (let parent = kw_get kwargs ''parent_region_id'' PNone;
          unique = kw_get kwargs ''unique_region_id'' PNone;
          req_body = wrapped env ''region''
            (set_if (truthy parent) ''parent_region_id'' parent [(''description'', description)]);
          reader = checked_json env (Code 201) (Some ''region'')
      in if truthy unique
         then put_with rq (''regions/'' @ py_text (e_repr env) unique) req_body reader
         else post_with rq ''regions'' req_body reader)"

definition id3_update_region :: "'r env \<Rightarrow> 'w requester \<Rightarrow> string \<Rightarrow> (string, py) dict \<Rightarrow> ('w, response_body) io" where
  "id3_update_region env rq region_id kwargs =
     patch_with rq (''regions/'' @ region_id)
       (wrapped env ''region''
          (set_if (dhas kwargs ''parent_region_id'') ''parent_region_id'' (kw_get kwargs ''parent_region_id'' PNone)
             (set_if (dhas kwargs ''description'') ''description'' (kw_get kwargs ''description'' PNone) [])))
       (checked_json env (Code 200) (Some ''region''))"

definition id3_get_region :: "'r env \<Rightarrow> 'w requester \<Rightarrow> string \<Rightarrow> ('w, response_body) io" where
  "id3_get_region env rq region_id =
     get_with rq (''regions/'' @ region_id) (checked_json env (Code 200) (Some ''region''))"

definition id3_list_regions ::
    "'r env \<Rightarrow> 'w requester \<Rightarrow> (string, py) dict \<Rightarrow> ('w, response_list) io" where
  "id3_list_regions env rq params =
     get_with rq
       (''regions'' @ (if params \<noteq> [] then (''?'' @ (urlencode_params env params)) else []))
       (checked_list env (Code 200) (Some ''regions''))"

definition id3_delete_region :: "'w requester \<Rightarrow> string \<Rightarrow> ('w, response_body) io" where
  "id3_delete_region rq region_id = delete_with rq (''regions/'' @ region_id) (checked_text (Code 204))"

subsection \<open>Credentials\<close>

text \<open>The blob of a credential is a document of its own; \<open>json.loads\<close> refuses anything but a text.\<close>

definition blob_text :: "'r env \<Rightarrow> py \<Rightarrow> py \<Rightarrow> string" where
  "blob_text env access_key secret_key =
     (let quot = [CHR 0x22]
      in ''{'' @ quot @ ''access'' @ quot @ '': '' @ quot @ py_text (e_repr env) access_key @ quot @ '', ''
         @ quot @ ''secret'' @ quot @ '': '' @ quot @ py_text (e_repr env) secret_key @ quot @ ''}'')"

definition with_blob :: "'r env \<Rightarrow> py \<Rightarrow> pyexc + py" where
  "with_blob env credential =
     bindE (getitem credential ''blob'') (\<lambda>blob.
     bindE (case blob of PStr s \<Rightarrow> json_loads env s | _ \<Rightarrow> Inl TypeErr) (\<lambda>v.
       case credential of PDict d \<Rightarrow> Inr (PDict (dset d ''blob'' v)) | _ \<Rightarrow> Inl TypeErr))"

definition credential_reply :: "'r env \<Rightarrow> int \<Rightarrow> answer \<Rightarrow> pyexc + response_body" where
  "credential_reply env code a =
     bindE (checked_part env (Code code) (Some ''credential'') a) (\<lambda>c.
     bindE (with_blob env c) (response_dict (fst a)))"

definition id3_create_credential ::
    "'r env \<Rightarrow> 'w requester \<Rightarrow> py \<Rightarrow> py \<Rightarrow> py \<Rightarrow> py \<Rightarrow> ('w, response_body) io" where
  "id3_create_credential env rq access_key secret_key user_id project_id =
     post_with rq ''credentials''
       (wrapped env ''credential''
          [(''blob'', PStr (blob_text env access_key secret_key)), (''project_id'', project_id),
           (''type'', PStr ''ec2''), (''user_id'', user_id)])
       (credential_reply env 201)"

definition id3_get_credential :: "'r env \<Rightarrow> 'w requester \<Rightarrow> string \<Rightarrow> ('w, response_body) io" where
  "id3_get_credential env rq credential_id =
     get_with rq (''credentials/'' @ credential_id) (credential_reply env 200)"

definition credential_document :: "'r env \<Rightarrow> (string, py) dict \<Rightarrow> response_body \<Rightarrow> pyexc + (string, py) dict" where
  "credential_document env kwargs body =
     bindE (kw_or kwargs body ''type'') (\<lambda>cred_type.
     bindE (bindE (rb_item body ''blob'') (\<lambda>b. getitem b ''access'')) (\<lambda>access.
     bindE (bindE (rb_item body ''blob'') (\<lambda>b. getitem b ''secret'')) (\<lambda>secret.
     bindE (kw_or kwargs body ''project_id'') (\<lambda>project_id.
     bindE (kw_or kwargs body ''user_id'') (\<lambda>user_id.
       Inr [(''blob'', PStr (blob_text env (kw_get kwargs ''access_key'' access)
                               (kw_get kwargs ''secret_key'' secret))),
            (''project_id'', project_id), (''type'', cred_type), (''user_id'', user_id)])))))"

definition id3_update_credential ::
    "'r env \<Rightarrow> 'w requester \<Rightarrow> string \<Rightarrow> (string, py) dict \<Rightarrow> ('w, response_body) io" where
  "id3_update_credential env rq credential_id kwargs =
     bnd (id3_get_credential env rq credential_id) (\<lambda>body.
     bnd (lift (credential_document env kwargs body)) (\<lambda>post_body.
       patch_with rq (''credentials/'' @ credential_id) (wrapped env ''credential'' post_body)
         (credential_reply env 200)))"

definition id3_list_credentials :: "'r env \<Rightarrow> 'w requester \<Rightarrow> ('w, response_list) io" where
  "id3_list_credentials env rq =
     get_with rq ''credentials'' (checked_list env (Code 200) (Some ''credentials''))"

definition id3_delete_credential :: "'w requester \<Rightarrow> string \<Rightarrow> ('w, response_body) io" where
  "id3_delete_credential rq credential_id =
     delete_with rq (''credentials/'' @ credential_id) (checked_text (Code 204))"

subsection \<open>Endpoints\<close>

definition id3_list_endpoints :: "'r env \<Rightarrow> 'w requester \<Rightarrow> ('w, response_list) io" where
  "id3_list_endpoints env rq =
     get_with rq ''endpoints'' (checked_list env (Code 200) (Some ''endpoints''))"

definition id3_create_endpoint ::
    "'r env \<Rightarrow> 'w requester \<Rightarrow> py \<Rightarrow> py \<Rightarrow> py \<Rightarrow> (string, py) dict \<Rightarrow> ('w, response_body) io" where
  "id3_create_endpoint env rq service_id interface url kwargs =
     post_with rq ''endpoints''
       (wrapped env ''endpoint''
          [(''service_id'', service_id), (''interface'', interface), (''url'', url),
           (''region'', kw_get kwargs ''region'' PNone),
           (''enabled'', if dhas kwargs ''force_enabled'' then kw_get kwargs ''force_enabled'' PNone
                       else kw_get kwargs ''enabled'' PNone)])
       (checked_json env (Code 201) (Some ''endpoint''))"

definition id3_update_endpoint ::
    "'r env \<Rightarrow> 'w requester \<Rightarrow> string \<Rightarrow> py \<Rightarrow> py \<Rightarrow> py \<Rightarrow> py \<Rightarrow> py \<Rightarrow> (string, py) dict
     \<Rightarrow> ('w, response_body) io" where
  "id3_update_endpoint env rq endpoint_id service_id interface url region enabled kwargs =
     (let given = set_if (\<not> is_none region) ''region'' region
            (set_if (\<not> is_none url) ''url'' url
               (set_if (\<not> is_none interface) ''interface'' interface
                  (set_if (\<not> is_none service_id) ''service_id'' service_id [])));
          post_body =
            (if dhas kwargs ''force_enabled'' then dset given ''enabled'' (kw_get kwargs ''force_enabled'' PNone)
             else set_if (\<not> is_none enabled) ''enabled'' enabled given)
      in patch_with rq (''endpoints/'' @ endpoint_id) (wrapped env ''endpoint'' post_body)
           (checked_json env (Code 200) (Some ''endpoint'')))"

definition id3_delete_endpoint :: "'w requester \<Rightarrow> string \<Rightarrow> ('w, response_body) io" where
  "id3_delete_endpoint rq endpoint_id =
     delete_with rq (''endpoints/'' @ endpoint_id) (checked_text (Code 204))"

end
