(* ===== verification/VolumeClients.thy ===== *)
theory VolumeClients
  imports ClientBase Waiters
begin

text \<open>
  The block storage clients, \<open>automation/services/volume/json/\<close>: volumes, snapshots, backups, QoS
  specifications, types, quotas, hosts, services, extensions and zones, with the waits of the snapshots,
  backups and QoS clients. A wait polls a client's \<open>show_\<close> method, an argument.
\<close>

section \<open>Volumes\<close>

text \<open>What \<open>_ext_get\<close> returns, by the type of the value under the key.\<close>

datatype ext_reply = ExtBody response_body | ExtList response_list | ExtData response_data

text \<open>Parameters of a list: an encoded text or a dictionary.\<close>

datatype url_params = Encoded string | Pairs "(string, py) dict"

definition get_attachment_from_volume :: "py \<Rightarrow> pyexc + py" where
  "get_attachment_from_volume volume = bindE (getitem volume ''attachments'') py_first"

definition ext_reply_of :: "http_response \<Rightarrow> py \<Rightarrow> pyexc + ext_reply" where
  "ext_reply_of resp v =
     (case v of
        PDict d \<Rightarrow> bindE (response_dict resp v) (\<lambda>b. Inr (ExtBody b))
      | PList xs \<Rightarrow> bindE (response_list_of resp v) (\<lambda>l. Inr (ExtList l))
      | _ \<Rightarrow> bindE (response_data_of resp v) (\<lambda>d. Inr (ExtData d)))"

definition ext_get :: "'r env \<Rightarrow> 'w requester \<Rightarrow> string \<Rightarrow> string option \<Rightarrow> int \<Rightarrow> ('w, ext_reply) io" where
  "ext_get env rq url key status =
     get_with rq url (\<lambda>a.
       bindE (loaded_part env (Code status) None a) (\<lambda>b.
         case key of
           None \<Rightarrow> bindE (response_dict (fst a) b) (\<lambda>d. Inr (ExtBody d))
         | Some k \<Rightarrow>
             if k = [] then bindE (response_dict (fst a) b) (\<lambda>d. Inr (ExtBody d))
             else bindE (getitem b k) (ext_reply_of (fst a))))"

definition prepare_params :: "'r env \<Rightarrow> url_params \<Rightarrow> string" where
  "prepare_params env params =
     (case params of Encoded s \<Rightarrow> s | Pairs d \<Rightarrow> urlencode_params env d)"

definition has_params :: "url_params \<Rightarrow> bool" where
  "has_params params = (case params of Encoded s \<Rightarrow> s \<noteq> [] | Pairs d \<Rightarrow> d \<noteq> [])"

definition list_volumes :: "'r env \<Rightarrow> 'w requester \<Rightarrow> bool \<Rightarrow> url_params \<Rightarrow> bool \<Rightarrow> ('w, ext_reply) io" where
  "list_volumes env rq detail params return_body =
     ext_get env rq
       (''volumes'' @ (if detail then ''/detail'' else [])
        @ (if has_params params then ''?'' @ prepare_params env params else []))
       (if return_body then None else Some ''volumes'') 200"

definition show_volume :: "'r env \<Rightarrow> 'w requester \<Rightarrow> string \<Rightarrow> ('w, response_body) io" where
  "show_volume env rq volume_id =
     get_with rq (''volumes/'' @ volume_id) (loaded_json env (Code 200) (Some ''volume''))"

text \<open>\<open>default_size\<close> and \<open>create_resp\<close> are attributes of the client; the second is 202 for v2.\<close>

definition create_volume ::
    "'r env \<Rightarrow> int \<Rightarrow> py \<Rightarrow> 'w requester \<Rightarrow> py \<Rightarrow> (string, py) dict \<Rightarrow> ('w, response_body) io" where
  "create_volume env create_resp default_size rq vol_size kwargs =
     post_with rq ''volumes''
       (wrapped env ''volume''
          (dupdate [(''size'', if is_none vol_size then default_size else vol_size)] kwargs))
       (loaded_json env (Code create_resp) (Some ''volume''))"

definition update_volume ::
    "'r env \<Rightarrow> 'w requester \<Rightarrow> string \<Rightarrow> (string, py) dict \<Rightarrow> ('w, response_body) io" where
  "update_volume env rq volume_id kwargs =
     put_with rq (''volumes/'' @ volume_id) (wrapped env ''volume'' kwargs)
       (loaded_json env (Code 200) (Some ''volume''))"

definition delete_volume :: "'w requester \<Rightarrow> string \<Rightarrow> ('w, response_body) io" where
  "delete_volume rq volume_id = delete_with rq (''volumes/'' @ volume_id) (checked_text (Code 202))"

definition upload_volume ::
    "'r env \<Rightarrow> 'w requester \<Rightarrow> string \<Rightarrow> py \<Rightarrow> py \<Rightarrow> ('w, response_body) io" where
  "upload_volume env rq volume_id image_name disk_format =
     post_with rq (''volumes/'' @ volume_id @ ''/action'')
       (wrapped env ''os-volume_upload_image''
          [(''image_name'', image_name), (''disk_format'', disk_format)])
       (loaded_json env (Code 202) (Some ''os-volume_upload_image''))"

definition vol_attach_volume ::
    "'r env \<Rightarrow> 'w requester \<Rightarrow> string \<Rightarrow> py \<Rightarrow> py \<Rightarrow> ('w, response_body) io" where
  "vol_attach_volume env rq volume_id instance_uuid mountpoint =
     post_with rq (''volumes/'' @ volume_id @ ''/action'')
       (wrapped env ''os-attach'' [(''instance_uuid'', instance_uuid), (''mountpoint'', mountpoint)])
       (checked_text (Code 202))"

definition set_bootable_volume ::
    "'r env \<Rightarrow> 'w requester \<Rightarrow> string \<Rightarrow> py \<Rightarrow> ('w, response_body) io" where
  "set_bootable_volume env rq volume_id bootable =
     post_with rq (''volumes/'' @ volume_id @ ''/action'')
       (wrapped env ''os-set_bootable'' [(''bootable'', bootable)]) (checked_text (Code 200))"

definition vol_detach_volume :: "'r env \<Rightarrow> 'w requester \<Rightarrow> string \<Rightarrow> ('w, response_body) io" where
  "vol_detach_volume env rq volume_id =
     post_with rq (''volumes/'' @ volume_id @ ''/action'') (wrapped env ''os-detach'' [])
       (checked_text (Code 202))"

definition reserve_volume :: "'r env \<Rightarrow> 'w requester \<Rightarrow> string \<Rightarrow> ('w, response_body) io" where
  "reserve_volume env rq volume_id =
     post_with rq (''volumes/'' @ volume_id @ ''/action'') (wrapped env ''os-reserve'' [])
       (checked_text (Code 202))"

definition unreserve_volume :: "'r env \<Rightarrow> 'w requester \<Rightarrow> string \<Rightarrow> ('w, response_body) io" where
  "unreserve_volume env rq volume_id =
     post_with rq (''volumes/'' @ volume_id @ ''/action'') (wrapped env ''os-unreserve'' [])
       (checked_text (Code 202))"

definition volume_deleted :: "'r env \<Rightarrow> 'w requester \<Rightarrow> string \<Rightarrow> ('w, bool) io" where
  "volume_deleted env rq item_id = is_gone (show_volume env rq item_id)"

definition extend_volume :: "'r env \<Rightarrow> 'w requester \<Rightarrow> string \<Rightarrow> py \<Rightarrow> ('w, response_body) io" where
  "extend_volume env rq volume_id extend_size =
     post_with rq (''volumes/'' @ volume_id @ ''/action'')
       (wrapped env ''os-extend'' [(''new_size'', extend_size)]) (checked_text (Code 202))"

definition rollback_volume :: "'r env \<Rightarrow> 'w requester \<Rightarrow> string \<Rightarrow> py \<Rightarrow> ('w, response_body) io" where
  "rollback_volume env rq volume_id snapshot_id =
     post_with rq (''volumes/'' @ volume_id @ ''/action'')
       (wrapped env ''os-rollback'' [(''snapshot_id'', snapshot_id)]) (checked_text (Code 202))"

definition reset_volume_status ::
    "'r env \<Rightarrow> 'w requester \<Rightarrow> string \<Rightarrow> py \<Rightarrow> ('w, response_body) io" where
  "reset_volume_status env rq volume_id status =
     post_with rq (''volumes/'' @ volume_id @ ''/action'')
       (wrapped env ''os-reset_status'' [(''status'', status)]) (checked_text (Code 202))"

definition volume_begin_detaching :: "'r env \<Rightarrow> 'w requester \<Rightarrow> string \<Rightarrow> ('w, response_body) io" where
  "volume_begin_detaching env rq volume_id =
     post_with rq (''volumes/'' @ volume_id @ ''/action'') (wrapped env ''os-begin_detaching'' [])
       (checked_text (Code 202))"

definition volume_roll_detaching :: "'r env \<Rightarrow> 'w requester \<Rightarrow> string \<Rightarrow> ('w, response_body) io" where
  "volume_roll_detaching env rq volume_id =
     post_with rq (''volumes/'' @ volume_id @ ''/action'') (wrapped env ''os-roll_detaching'' [])
       (checked_text (Code 202))"

definition create_volume_transfer ::
    "'r env \<Rightarrow> 'w requester \<Rightarrow> py \<Rightarrow> py \<Rightarrow> ('w, response_body) io" where
  "create_volume_transfer env rq vol_id display_name =
     post_with rq ''os-volume-transfer''
       (wrapped env ''transfer''
          (set_if (truthy display_name) ''name'' display_name [(''volume_id'', vol_id)]))
       (loaded_json env (Code 202) (Some ''transfer''))"

definition show_volume_transfer :: "'r env \<Rightarrow> 'w requester \<Rightarrow> string \<Rightarrow> ('w, response_body) io" where
  "show_volume_transfer env rq transfer_id =
     get_with rq (''os-volume-transfer/'' @ transfer_id)
       (loaded_json env (Code 200) (Some ''transfer''))"

definition list_volume_transfers ::
    "'r env \<Rightarrow> 'w requester \<Rightarrow> (string, py) dict \<Rightarrow> ('w, response_list) io" where
  "list_volume_transfers env rq params =
     get_with rq
       (''os-volume-transfer''
          @ (if params \<noteq> [] then (''?'' @ (urlencode_params env params)) else []))
       (loaded_list env (Code 200) (Some ''transfers''))"

definition delete_volume_transfer :: "'w requester \<Rightarrow> string \<Rightarrow> ('w, response_body) io" where
  "delete_volume_transfer rq transfer_id =
     delete_with rq (''os-volume-transfer/'' @ transfer_id) (checked_text (Code 202))"

definition accept_volume_transfer ::
    "'r env \<Rightarrow> 'w requester \<Rightarrow> string \<Rightarrow> py \<Rightarrow> ('w, response_body) io" where
  "accept_volume_transfer env rq transfer_id transfer_auth_key =
     post_with rq (''os-volume-transfer/'' @ transfer_id @ ''/accept'')
       (wrapped env ''accept'' [(''auth_key'', transfer_auth_key)])
       (loaded_json env (Code 202) (Some ''transfer''))"

definition update_volume_readonly ::
    "'r env \<Rightarrow> 'w requester \<Rightarrow> string \<Rightarrow> py \<Rightarrow> ('w, response_body) io" where
  "update_volume_readonly env rq volume_id readonly =
     post_with rq (''volumes/'' @ volume_id @ ''/action'')
       (wrapped env ''os-update_readonly_flag'' [(''readonly'', readonly)]) (checked_text (Code 202))"

definition force_delete_volume :: "'r env \<Rightarrow> 'w requester \<Rightarrow> string \<Rightarrow> ('w, response_body) io" where
  "force_delete_volume env rq volume_id =
     post_with rq (''volumes/'' @ volume_id @ ''/action'') (wrapped env ''os-force_delete'' [])
       (checked_text (Code 202))"

definition create_volume_metadata ::
    "'r env \<Rightarrow> 'w requester \<Rightarrow> string \<Rightarrow> py \<Rightarrow> ('w, response_body) io" where
  "create_volume_metadata env rq volume_id metadata =
     post_with rq (''volumes/'' @ volume_id @ ''/metadata'')
       (json_dumps env (PDict [(''metadata'', metadata)]))
       (loaded_json env (Code 200) (Some ''metadata''))"

definition show_volume_metadata :: "'r env \<Rightarrow> 'w requester \<Rightarrow> string \<Rightarrow> ('w, response_body) io" where
  "show_volume_metadata env rq volume_id =
     get_with rq (''volumes/'' @ volume_id @ ''/metadata'')
       (loaded_json env (Code 200) (Some ''metadata''))"

definition update_volume_metadata ::
    "'r env \<Rightarrow> 'w requester \<Rightarrow> string \<Rightarrow> py \<Rightarrow> ('w, response_body) io" where
  "update_volume_metadata env rq volume_id metadata =
     put_with rq (''volumes/'' @ volume_id @ ''/metadata'')
       (json_dumps env (PDict [(''metadata'', metadata)]))
       (loaded_json env (Code 200) (Some ''metadata''))"

definition update_volume_metadata_item ::
    "'r env \<Rightarrow> 'w requester \<Rightarrow> string \<Rightarrow> string \<Rightarrow> py \<Rightarrow> ('w, response_body) io" where
  "update_volume_metadata_item env rq volume_id item_id meta_item =
     put_with rq (''volumes/'' @ volume_id @ ''/metadata/'' @ item_id)
       (json_dumps env (PDict [(''meta'', meta_item)])) (loaded_json env (Code 200) (Some ''meta''))"

definition delete_volume_metadata_item ::
    "'w requester \<Rightarrow> string \<Rightarrow> string \<Rightarrow> ('w, response_body) io" where
  "delete_volume_metadata_item rq volume_id item_id =
     delete_with rq (''volumes/'' @ volume_id @ ''/metadata/'' @ item_id) (checked_text (Code 200))"

definition retype_volume ::
    "'r env \<Rightarrow> 'w requester \<Rightarrow> string \<Rightarrow> py \<Rightarrow> (string, py) dict \<Rightarrow> ('w, unit) io" where
  "retype_volume env rq volume_id volume_type kwargs =
     post_with rq (''volumes/'' @ volume_id @ ''/action'')
       (wrapped env ''os-retype'' (dupdate [(''new_type'', volume_type)] kwargs))
       (\<lambda>a. expected_success (Code 202) (rs_status (fst a)))"

section \<open>Snapshots\<close>

definition list_snapshots ::
    "'r env \<Rightarrow> 'w requester \<Rightarrow> bool \<Rightarrow> (string, py) dict \<Rightarrow> ('w, response_list) io" where
  "list_snapshots env rq detail params =
     get_with rq
       ((if detail then ''snapshots/detail'' else ''snapshots'')
          @ (if params \<noteq> [] then (''?'' @ (urlencode_params env params)) else []))
       (loaded_list env (Code 200) (Some ''snapshots''))"

definition show_snapshot :: "'r env \<Rightarrow> 'w requester \<Rightarrow> string \<Rightarrow> ('w, response_body) io" where
  "show_snapshot env rq snapshot_id =
     get_with rq (''snapshots/'' @ snapshot_id) (loaded_json env (Code 200) (Some ''snapshot''))"

definition create_snapshot ::
    "'r env \<Rightarrow> int \<Rightarrow> 'w requester \<Rightarrow> py \<Rightarrow> (string, py) dict \<Rightarrow> ('w, response_body) io" where
  "create_snapshot env create_resp rq volume_id kwargs =
     post_with rq ''snapshots'' (wrapped env ''snapshot'' (dupdate [(''volume_id'', volume_id)] kwargs))
       (loaded_json env (Code create_resp) (Some ''snapshot''))"

definition update_snapshot ::
    "'r env \<Rightarrow> 'w requester \<Rightarrow> string \<Rightarrow> (string, py) dict \<Rightarrow> ('w, response_body) io" where
  "update_snapshot env rq snapshot_id kwargs =
     put_with rq (''snapshots/'' @ snapshot_id) (wrapped env ''snapshot'' kwargs)
       (loaded_json env (Code 200) (Some ''snapshot''))"

text \<open>A status \<open>error\<close> is raised.\<close>

definition get_snapshot_status :: "('w, response_body) io \<Rightarrow> string \<Rightarrow> ('w, py) io" where
  "get_snapshot_status show_it snapshot_id =
     bnd show_it (\<lambda>body. bnd (lift (rb_item body ''status'')) (\<lambda>st.
       if st = PStr ''error''
       then throw (Auto SnapshotBuildErrorException [] [(''snapshot_id'', PStr snapshot_id)])
       else ret st))"

text \<open>
  The rounds of \<open>wait_for_snapshot_status\<close>: the state is the last status. The time is taken before the
  first of the two sleeps, in microseconds. The result is the status.
\<close>

definition snapshot_message :: "rest_client \<Rightarrow> 'r env \<Rightarrow> string \<Rightarrow> py \<Rightarrow> string" where
  "snapshot_message c env status cur =
     ''Time Limit Exceeded! ('' @ int_str (rc_build_timeout c) @ ''s)while waiting for '' @ status
     @ '', but we got '' @ py_text (e_repr env) cur @ ''.''"

definition snapshot_round ::
    "rest_client \<Rightarrow> 'r env \<Rightarrow> (('r, 'x) world_scheme, py) io \<Rightarrow> string \<Rightarrow> int \<Rightarrow> py
     \<Rightarrow> (('r, 'x) world_scheme, py + py) io" where
  "snapshot_round c env get_status status start_time cur =
     bnd (gets now) (\<lambda>t.
     bnd (sleep (rc_build_interval c)) (\<lambda>_.
       if cur = PStr status then ret (Inr cur)
       else if rc_build_timeout c * 1000000 < t - start_time
       then throw (Auto TimeoutException [PStr (snapshot_message c env status cur)] [])
       else
         bnd (sleep (rc_build_interval c)) (\<lambda>_.
         bnd get_status (\<lambda>st. ret (Inl st)))))"

definition wait_for_snapshot_status ::
    "rest_client \<Rightarrow> 'r env \<Rightarrow> (('r, 'x) world_scheme, response_body) io \<Rightarrow> string \<Rightarrow> string
     \<Rightarrow> ('r, 'x) world_scheme \<Rightarrow> ((pyexc + py) \<times> ('r, 'x) world_scheme) option" where
  "wait_for_snapshot_status c env show_it snapshot_id status w =
     (let get_status = get_snapshot_status show_it snapshot_id
      in then_loop get_status (loop_io (snapshot_round c env get_status status (now w))) w)"

definition delete_snapshot :: "'w requester \<Rightarrow> string \<Rightarrow> ('w, response_body) io" where
  "delete_snapshot rq snapshot_id =
     delete_with rq (''snapshots/'' @ snapshot_id) (checked_text (Code 202))"

definition snapshot_deleted :: "'r env \<Rightarrow> 'w requester \<Rightarrow> string \<Rightarrow> ('w, bool) io" where
  "snapshot_deleted env rq item_id = is_gone (show_snapshot env rq item_id)"

definition reset_snapshot_status ::
    "'r env \<Rightarrow> 'w requester \<Rightarrow> string \<Rightarrow> py \<Rightarrow> ('w, response_body) io" where
  "reset_snapshot_status env rq snapshot_id status =
     post_with rq (''snapshots/'' @ snapshot_id @ ''/action'')
       (wrapped env ''os-reset_status'' [(''status'', status)]) (checked_text (Code 202))"

definition update_snapshot_status ::
    "'r env \<Rightarrow> 'w requester \<Rightarrow> string \<Rightarrow> py \<Rightarrow> py \<Rightarrow> ('w, response_body) io" where
  "update_snapshot_status env rq snapshot_id status progress =
     post_with rq (''snapshots/'' @ snapshot_id @ ''/action'')
       (wrapped env ''os-update_snapshot_status'' [(''status'', status), (''progress'', progress)])
       (checked_text (Code 202))"

definition create_snapshot_metadata ::
    "'r env \<Rightarrow> 'w requester \<Rightarrow> string \<Rightarrow> py \<Rightarrow> ('w, response_body) io" where
  "create_snapshot_metadata env rq snapshot_id metadata =
     post_with rq (''snapshots/'' @ snapshot_id @ ''/metadata'')
       (json_dumps env (PDict [(''metadata'', metadata)]))
       (loaded_json env (Code 200) (Some ''metadata''))"

definition show_snapshot_metadata :: "'r env \<Rightarrow> 'w requester \<Rightarrow> string \<Rightarrow> ('w, response_body) io" where
  "show_snapshot_metadata env rq snapshot_id =
     get_with rq (''snapshots/'' @ snapshot_id @ ''/metadata'')
       (loaded_json env (Code 200) (Some ''metadata''))"

definition update_snapshot_metadata ::
    "'r env \<Rightarrow> 'w requester \<Rightarrow> string \<Rightarrow> py \<Rightarrow> ('w, response_body) io" where
  "update_snapshot_metadata env rq snapshot_id metadata =
     put_with rq (''snapshots/'' @ snapshot_id @ ''/metadata'')
       (json_dumps env (PDict [(''metadata'', metadata)]))
       (loaded_json env (Code 200) (Some ''metadata''))"

definition update_snapshot_metadata_item ::
    "'r env \<Rightarrow> 'w requester \<Rightarrow> string \<Rightarrow> string \<Rightarrow> py \<Rightarrow> ('w, response_body) io" where
  "update_snapshot_metadata_item env rq snapshot_id item_id meta_item =
     put_with rq (''snapshots/'' @ snapshot_id @ ''/metadata/'' @ item_id)
       (json_dumps env (PDict [(''meta'', meta_item)])) (loaded_json env (Code 200) (Some ''meta''))"

definition delete_snapshot_metadata_item ::
    "'w requester \<Rightarrow> string \<Rightarrow> string \<Rightarrow> ('w, response_body) io" where
  "delete_snapshot_metadata_item rq snapshot_id item_id =
     delete_with rq (''snapshots/'' @ snapshot_id @ ''/metadata/'' @ item_id) (checked_text (Code 200))"

definition force_delete_snapshot :: "'r env \<Rightarrow> 'w requester \<Rightarrow> string \<Rightarrow> ('w, response_body) io" where
  "force_delete_snapshot env rq snapshot_id =
     post_with rq (''snapshots/'' @ snapshot_id @ ''/action'') (wrapped env ''os-force_delete'' [])
       (checked_text (Code 202))"

section \<open>Backups\<close>

definition vol_create_backup ::
    "'r env \<Rightarrow> 'w requester \<Rightarrow> py \<Rightarrow> py \<Rightarrow> py \<Rightarrow> py \<Rightarrow> ('w, response_body) io" where
  "vol_create_backup env rq volume_id container name description =
     post_with rq ''backups''
       (wrapped env ''backup''
          (set_if (truthy description) ''description'' description
             (set_if (truthy name) ''name'' name
                (set_if (truthy container) ''container'' container [(''volume_id'', volume_id)]))))
       (loaded_json env (Code 202) (Some ''backup''))"

definition restore_backup :: "'r env \<Rightarrow> 'w requester \<Rightarrow> string \<Rightarrow> py \<Rightarrow> ('w, response_body) io" where
  "restore_backup env rq backup_id volume_id =
     post_with rq (''backups/'' @ backup_id @ ''/restore'')
       (wrapped env ''restore'' [(''volume_id'', volume_id)])
       (loaded_json env (Code 202) (Some ''restore''))"

definition delete_backup :: "'w requester \<Rightarrow> string \<Rightarrow> ('w, response_body) io" where
  "delete_backup rq backup_id = delete_with rq (''backups/'' @ backup_id) (checked_text (Code 202))"

definition show_backup :: "'r env \<Rightarrow> 'w requester \<Rightarrow> string \<Rightarrow> ('w, response_body) io" where
  "show_backup env rq backup_id =
     get_with rq (''backups/'' @ backup_id) (loaded_json env (Code 200) (Some ''backup''))"

definition list_backups :: "'r env \<Rightarrow> 'w requester \<Rightarrow> bool \<Rightarrow> ('w, response_list) io" where
  "list_backups env rq detail =
     get_with rq (if detail then ''backups/detail'' else ''backups'')
       (loaded_list env (Code 200) (Some ''backups''))"

definition export_backup :: "'r env \<Rightarrow> 'w requester \<Rightarrow> string \<Rightarrow> ('w, response_body) io" where
  "export_backup env rq backup_id =
     get_with rq (''backups/'' @ backup_id @ ''/export_record'')
       (loaded_json env (Code 200) (Some ''backup-record''))"

definition import_backup :: "'r env \<Rightarrow> 'w requester \<Rightarrow> py \<Rightarrow> py \<Rightarrow> ('w, response_body) io" where
  "import_backup env rq backup_service backup_url =
     post_with rq ''backups/import_record''
       (wrapped env ''backup-record''
          [(''backup_service'', backup_service), (''backup_url'', backup_url)])
       (loaded_json env (Code 201) (Some ''backup''))"

definition backup_message :: "rest_client \<Rightarrow> 'r env \<Rightarrow> string \<Rightarrow> string \<Rightarrow> py \<Rightarrow> string" where
  "backup_message c env backup_id status cur =
     ''Volume backup '' @ backup_id @ '' failed to reach '' @ status @ '' status (current ''
     @ py_text (e_repr env) cur @ '') within the required time ('' @ int_str (rc_build_timeout c) @ '' s).''"

definition backup_round ::
    "rest_client \<Rightarrow> 'r env \<Rightarrow> (('r, 'x) world_scheme, response_body) io \<Rightarrow> string \<Rightarrow> string \<Rightarrow> int \<Rightarrow> py
     \<Rightarrow> (('r, 'x) world_scheme, py + unit) io" where
  "backup_round c env show_it backup_id status start_time backup_status =
     (if backup_status = PStr status then ret (Inr ())
      else
        bnd (sleep (rc_build_interval c)) (\<lambda>_.
        bnd show_it (\<lambda>body.
        bnd (lift (rb_item body ''status'')) (\<lambda>st.
          if st = PStr ''error'' then throw (Auto VolumeBackupException [] [(''backup_id'', PStr backup_id)])
          else bnd (gets time_int) (\<lambda>t.
            if rc_build_timeout c \<le> t - start_time
            then throw (Auto TimeoutException [PStr (backup_message c env backup_id status st)] [])
            else ret (Inl st))))))"

definition wait_for_backup_status ::
    "rest_client \<Rightarrow> 'r env \<Rightarrow> (('r, 'x) world_scheme, response_body) io \<Rightarrow> string \<Rightarrow> string
     \<Rightarrow> ('r, 'x) world_scheme \<Rightarrow> ((pyexc + unit) \<times> ('r, 'x) world_scheme) option" where
  "wait_for_backup_status c env show_it backup_id status =
     then_loop (bnd show_it (\<lambda>body. lift (rb_item body ''status''))) (\<lambda>st w.
       loop_io (backup_round c env show_it backup_id status (time_int w)) st w)"

definition backup_deletion_round ::
    "rest_client \<Rightarrow> (('r, 'x) world_scheme, response_body) io \<Rightarrow> int
     \<Rightarrow> (('r, 'x) world_scheme, int + unit) io" where
  "backup_deletion_round c show_it start_time =
     bnd (is_gone show_it) (\<lambda>gone.
       if gone then ret (Inr ())
       else bnd (gets time_int) (\<lambda>t.
         if rc_build_timeout c \<le> t - start_time then throw (Auto TimeoutException [] [])
         else bnd (sleep (rc_build_interval c)) (\<lambda>_. ret (Inl start_time))))"

definition wait_for_backup_deletion ::
    "rest_client \<Rightarrow> (('r, 'x) world_scheme, response_body) io \<Rightarrow> ('r, 'x) world_scheme
     \<Rightarrow> ((pyexc + unit) \<times> ('r, 'x) world_scheme) option" where
  "wait_for_backup_deletion c show_it w = loop_io (backup_deletion_round c show_it) (time_int w) w"

section \<open>QoS specifications\<close>

definition create_qos ::
    "'r env \<Rightarrow> 'w requester \<Rightarrow> py \<Rightarrow> py \<Rightarrow> (string, py) dict \<Rightarrow> ('w, response_body) io" where
  "create_qos env rq name consumer kwargs =
     post_with rq ''qos-specs''
       (wrapped env ''qos_specs'' (dupdate [(''name'', name), (''consumer'', consumer)] kwargs))
       (checked_json env (Code 200) (Some ''qos_specs''))"

definition delete_qos :: "'w requester \<Rightarrow> string \<Rightarrow> string \<Rightarrow> ('w, response_body) io" where
  "delete_qos rq qos_id force =
     delete_with rq (''qos-specs/'' @ qos_id @ ''?force='' @ force) (checked_text (Code 202))"

definition list_qos :: "'r env \<Rightarrow> 'w requester \<Rightarrow> ('w, response_list) io" where
  "list_qos env rq = get_with rq ''qos-specs'' (loaded_list env (Code 200) (Some ''qos_specs''))"

definition show_qos :: "'r env \<Rightarrow> 'w requester \<Rightarrow> string \<Rightarrow> ('w, response_body) io" where
  "show_qos env rq qos_id =
     get_with rq (''qos-specs/'' @ qos_id) (loaded_json env (Code 200) (Some ''qos_specs''))"

definition set_qos_key ::
    "'r env \<Rightarrow> 'w requester \<Rightarrow> string \<Rightarrow> (string, py) dict \<Rightarrow> ('w, response_body) io" where
  "set_qos_key env rq qos_id kwargs =
     put_with rq (''qos-specs/'' @ qos_id) (wrapped env ''qos_specs'' kwargs)
       (loaded_json env (Code 200) (Some ''qos_specs''))"

definition unset_qos_key :: "'r env \<Rightarrow> 'w requester \<Rightarrow> string \<Rightarrow> py \<Rightarrow> ('w, response_body) io" where
  "unset_qos_key env rq qos_id keys =
     put_with rq (''qos-specs/'' @ qos_id @ ''/delete_keys'')
       (json_dumps env (PDict [(''keys'', keys)])) (checked_text (Code 202))"

definition associate_qos :: "'w requester \<Rightarrow> string \<Rightarrow> string \<Rightarrow> ('w, response_body) io" where
  "associate_qos rq qos_id vol_type_id =
     get_with rq ((''qos-specs/'' @ qos_id @ ''/associate'') @ (''?vol_type_id='' @ vol_type_id))
       (checked_text (Code 202))"

definition show_association_qos :: "'r env \<Rightarrow> 'w requester \<Rightarrow> string \<Rightarrow> ('w, response_list) io" where
  "show_association_qos env rq qos_id =
     get_with rq (''qos-specs/'' @ qos_id @ ''/associations'')
       (loaded_list env (Code 200) (Some ''qos_associations''))"

definition disassociate_qos :: "'w requester \<Rightarrow> string \<Rightarrow> string \<Rightarrow> ('w, response_body) io" where
  "disassociate_qos rq qos_id vol_type_id =
     get_with rq ((''qos-specs/'' @ qos_id @ ''/disassociate'') @ (''?vol_type_id='' @ vol_type_id))
       (checked_text (Code 202))"

definition disassociate_all_qos :: "'w requester \<Rightarrow> string \<Rightarrow> ('w, response_body) io" where
  "disassociate_all_qos rq qos_id =
     get_with rq (''qos-specs/'' @ qos_id @ ''/disassociate_all'') (checked_text (Code 202))"

section \<open>Extensions\<close>

definition vol_list_extensions :: "'r env \<Rightarrow> 'w requester \<Rightarrow> ('w, response_list) io" where
  "vol_list_extensions env rq =
     get_with rq ''extensions'' (loaded_list env (Code 200) (Some ''extensions''))"

section \<open>Zones\<close>

definition vol_list_availability_zones :: "'r env \<Rightarrow> 'w requester \<Rightarrow> ('w, response_body) io" where
  "vol_list_availability_zones env rq =
     get_with rq ''os-availability-zone'' (loaded_json env (Code 200) (Some ''availabilityZoneInfo''))"

section \<open>Volume types\<close>

definition list_volume_types ::
    "'r env \<Rightarrow> 'w requester \<Rightarrow> (string, py) dict option \<Rightarrow> ('w, response_list) io" where
  "list_volume_types env rq params =
     get_with rq
       (''types'' @ (case params of None \<Rightarrow> [] | Some p \<Rightarrow> ''?'' @ urlencode_params env p))
       (loaded_list env (Code 200) (Some ''volume_types''))"

definition show_volume_type :: "'r env \<Rightarrow> 'w requester \<Rightarrow> string \<Rightarrow> ('w, response_body) io" where
  "show_volume_type env rq volume_id =
     get_with rq (''types/'' @ volume_id) (loaded_json env (Code 200) (Some ''volume_type''))"

definition create_volume_type ::
    "'r env \<Rightarrow> 'w requester \<Rightarrow> py \<Rightarrow> (string, py) dict \<Rightarrow> ('w, response_body) io" where
  "create_volume_type env rq name kwargs =
     post_with rq ''types''
       (wrapped env ''volume_type''
          [(''name'', name), (''extra_specs'', kw_get kwargs ''extra_specs'' PNone)])
       (loaded_json env (Code 200) (Some ''volume_type''))"

definition delete_volume_type :: "'w requester \<Rightarrow> string \<Rightarrow> ('w, response_body) io" where
  "delete_volume_type rq volume_id = delete_with rq (''types/'' @ volume_id) (checked_text (Code 202))"

definition list_volume_types_extra_specs ::
    "'r env \<Rightarrow> 'w requester \<Rightarrow> string \<Rightarrow> (string, py) dict option \<Rightarrow> ('w, response_body) io" where
  "list_volume_types_extra_specs env rq vol_type_id params =
     get_with rq
       (''types/'' @ vol_type_id @ ''/extra_specs''
        @ (case params of None \<Rightarrow> [] | Some p \<Rightarrow> ''?'' @ urlencode_params env p))
       (loaded_json env (Code 200) (Some ''extra_specs''))"

definition show_volume_type_extra_specs ::
    "'r env \<Rightarrow> 'w requester \<Rightarrow> string \<Rightarrow> string \<Rightarrow> ('w, response_body) io" where
  "show_volume_type_extra_specs env rq vol_type_id extra_spec_name =
     get_with rq (''types/'' @ vol_type_id @ ''/extra_specs/'' @ extra_spec_name)
       (loaded_json env (Code 200) None)"

definition create_volume_type_extra_specs ::
    "'r env \<Rightarrow> 'w requester \<Rightarrow> string \<Rightarrow> py \<Rightarrow> ('w, response_body) io" where
  "create_volume_type_extra_specs env rq vol_type_id extra_spec =
     post_with rq (''types/'' @ vol_type_id @ ''/extra_specs'')
       (json_dumps env (PDict [(''extra_specs'', extra_spec)]))
       (loaded_json env (Code 200) (Some ''extra_specs''))"

definition delete_volume_type_extra_specs ::
    "'w requester \<Rightarrow> string \<Rightarrow> string \<Rightarrow> ('w, response_body) io" where
  "delete_volume_type_extra_specs rq vol_id extra_spec_name =
     delete_with rq (''types/'' @ vol_id @ ''/extra_specs/'' @ extra_spec_name)
       (checked_text (Code 202))"

definition update_volume_type_extra_specs ::
    "'r env \<Rightarrow> 'w requester \<Rightarrow> string \<Rightarrow> string \<Rightarrow> py \<Rightarrow> ('w, response_body) io" where
  "update_volume_type_extra_specs env rq vol_type_id extra_spec_name extra_spec =
     put_with rq (''types/'' @ vol_type_id @ ''/extra_specs/'' @ extra_spec_name)
       (json_dumps env extra_spec) (loaded_json env (Code 200) None)"

definition show_encryption_type :: "'r env \<Rightarrow> 'w requester \<Rightarrow> string \<Rightarrow> ('w, response_body) io" where
  "show_encryption_type env rq vol_type_id =
     get_with rq (''/types/'' @ vol_type_id @ ''/encryption'') (loaded_json env (Code 200) None)"

definition create_encryption_type ::
    "'r env \<Rightarrow> 'w requester \<Rightarrow> string \<Rightarrow> (string, py) dict \<Rightarrow> ('w, response_body) io" where
  "create_encryption_type env rq vol_type_id kwargs =
     post_with rq (''/types/'' @ vol_type_id @ ''/encryption'')
       (wrapped env ''encryption'' (dupdate [] kwargs))
       (loaded_json env (Code 200) (Some ''encryption''))"

definition delete_encryption_type :: "'w requester \<Rightarrow> string \<Rightarrow> ('w, response_body) io" where
  "delete_encryption_type rq vol_type_id =
     delete_with rq (''/types/'' @ vol_type_id @ ''/encryption/provider'') (checked_text (Code 202))"

section \<open>Quotas\<close>

definition show_default_quota_set :: "'r env \<Rightarrow> 'w requester \<Rightarrow> string \<Rightarrow> ('w, response_body) io" where
  "show_default_quota_set env rq tenant_id =
     get_with rq (''os-quota-sets/'' @ tenant_id @ ''/defaults'') (parsed_json env (Code 200))"

definition show_quota_set ::
    "'r env \<Rightarrow> 'w requester \<Rightarrow> string \<Rightarrow> (string, py) dict \<Rightarrow> ('w, response_body) io" where
  "show_quota_set env rq tenant_id params =
     get_with rq
       (if params \<noteq> [] then (''os-quota-sets/'' @ tenant_id) @ (''?'' @ (urlencode_params env params)) else ''os-quota-sets/'' @ tenant_id)
       (parsed_json env (Code 200))"

definition show_quota_usage :: "'r env \<Rightarrow> 'w requester \<Rightarrow> string \<Rightarrow> ('w, response_body) io" where
  "show_quota_usage env rq tenant_id = show_quota_set env rq tenant_id [(''usage'', PBool True)]"

definition update_quota_set ::
    "'r env \<Rightarrow> 'w requester \<Rightarrow> string \<Rightarrow> py \<Rightarrow> py \<Rightarrow> py \<Rightarrow> ('w, response_body) io" where
  "update_quota_set env rq tenant_id gigabytes volumes snapshots =
     put_with rq (''os-quota-sets/'' @ tenant_id)
       (wrapped env ''quota_set''
          (set_if (\<not> is_none snapshots) ''snapshots'' snapshots
             (set_if (\<not> is_none volumes) ''volumes'' volumes
                (set_if (\<not> is_none gigabytes) ''gigabytes'' gigabytes []))))
       (parsed_json env (Code 200))"

definition delete_quota_set :: "'w requester \<Rightarrow> string \<Rightarrow> ('w, response_body) io" where
  "delete_quota_set rq tenant_id =
     delete_with rq (''os-quota-sets/'' @ tenant_id) (checked_text (Code 200))"

section \<open>Hosts\<close>

definition list_hosts :: "'r env \<Rightarrow> 'w requester \<Rightarrow> (string, py) dict \<Rightarrow> ('w, response_list) io" where
  "list_hosts env rq params =
     get_with rq
       (''os-hosts'' @ (if params \<noteq> [] then (''?'' @ (urlencode_params env params)) else []))
       (loaded_list env (Code 200) (Some ''hosts''))"

section \<open>Services\<close>

definition list_services ::
    "'r env \<Rightarrow> 'w requester \<Rightarrow> (string, py) dict \<Rightarrow> ('w, response_list) io" where
  "list_services env rq params =
     get_with rq
       (''os-services'' @ (if params \<noteq> [] then (''?'' @ (urlencode_params env params)) else []))
       (loaded_list env (Code 200) (Some ''services''))"

section \<open>Waiting for a QoS operation\<close>

definition qos_deleted :: "'r env \<Rightarrow> 'w requester \<Rightarrow> string \<Rightarrow> ('w, bool) io" where
  "qos_deleted env rq qos_id = is_gone (show_qos env rq qos_id)"

text \<open>
  The operation with its argument: the keys that were unset, the volume type that was dissociated. Any
  other text is refused.
\<close>

datatype qos_operation = QosKeyUnset "string list" | Disassociate string | DisassociateAll | OtherOperation

text \<open>\<open>any(...)\<close> over a check that may raise.\<close>

fun any_of :: "('a \<Rightarrow> pyexc + bool) \<Rightarrow> 'a list \<Rightarrow> pyexc + bool" where
  "any_of f [] = Inr False"
| "any_of f (x # xs) = bindE (f x) (\<lambda>b. if b then Inr True else any_of f xs)"

definition qos_done :: "(('r, 'x) world_scheme, response_body) io \<Rightarrow> (('r, 'x) world_scheme, response_list) io
     \<Rightarrow> qos_operation \<Rightarrow> (('r, 'x) world_scheme, bool) io" where
  "qos_done show_it associations op =
     (case op of
        QosKeyUnset keys \<Rightarrow>
          bnd show_it (\<lambda>body. lift (
            if keys = [] then Inr True
            else bindE (any_of (\<lambda>key. bindE (rb_item body ''specs'') (py_in key)) keys) (\<lambda>b. Inr (\<not> b))))
      | Disassociate vol_type \<Rightarrow>
          bnd associations (\<lambda>body. lift (
            bindE (any_of (\<lambda>x. bindE (getitem x ''id'') (py_in vol_type)) (rl_data body)) (\<lambda>b. Inr (\<not> b))))
      | DisassociateAll \<Rightarrow> bnd associations (\<lambda>body. ret (rl_data body = []))
      | OtherOperation \<Rightarrow>
          throw (Auto UnprocessableEntity
            [PStr '' operation value is either not defined or incorrect.''] []))"

definition qos_round ::
    "rest_client \<Rightarrow> (('r, 'x) world_scheme, response_body) io \<Rightarrow> (('r, 'x) world_scheme, response_list) io
     \<Rightarrow> qos_operation \<Rightarrow> int \<Rightarrow> (('r, 'x) world_scheme, int + unit) io" where
  "qos_round c show_it associations op start_time =
     bnd (qos_done show_it associations op) (\<lambda>finished.
       if finished then ret (Inr ())
       else bnd (gets time_int) (\<lambda>t.
         if rc_build_timeout c \<le> t - start_time then throw (Auto TimeoutException [] [])
         else bnd (sleep (rc_build_interval c)) (\<lambda>_. ret (Inl start_time))))"

definition wait_for_qos_operations ::
    "rest_client \<Rightarrow> (('r, 'x) world_scheme, response_body) io \<Rightarrow> (('r, 'x) world_scheme, response_list) io
     \<Rightarrow> qos_operation \<Rightarrow> ('r, 'x) world_scheme \<Rightarrow> ((pyexc + unit) \<times> ('r, 'x) world_scheme) option" where
  "wait_for_qos_operations c show_it associations op w =
     loop_io (qos_round c show_it associations op) (time_int w) w"

section \<open>Deleted volume types\<close>

text \<open>\<open>is_resource_deleted\<close> of volume types: the resource is a dictionary with a type and an id.\<close>

definition type_shown_empty :: "'r env \<Rightarrow> 'w requester \<Rightarrow> py \<Rightarrow> ('w, bool) io" where
  "type_shown_empty env rq resource =
     bnd (lift (getitem resource ''type'')) (\<lambda>kind.
       if kind = PStr ''volume-type'' then
         bnd (lift (getitem resource ''id'')) (\<lambda>i.
         bnd (show_volume_type env rq (py_text (e_repr env) i)) (\<lambda>_. ret False))
       else if kind = PStr ''encryption-type'' then
         bnd (lift (getitem resource ''id'')) (\<lambda>i.
         bnd (show_encryption_type env rq (py_text (e_repr env) i)) (\<lambda>body. ret (rb_data body = [])))
       else throw (Auto UnprocessableEntity
              [PStr '' resource value is either not defined or incorrect.''] []))"

definition volume_type_deleted :: "'r env \<Rightarrow> 'w requester \<Rightarrow> py \<Rightarrow> ('w, bool) io" where
  "volume_type_deleted env rq resource =
     catch (type_shown_empty env rq resource)
       (\<lambda>e. if catches NotFound e then Some (ret True) else None)"

end
