(* ===== verification/ComputeClients.thy ===== *)
theory ComputeClients
  imports VolumeClients
begin

text \<open>
  The smaller compute clients, \<open>automation/services/compute/json/\<close>: every client but the one of servers.
  The prefix \<open>nova\<close> is only on names that another client has too. The schemas of a client are those it
  names; \<open>sc\<close> maps their names to them.
\<close>

section \<open>Agents\<close>

definition nova_list_agents ::
    "'r env \<Rightarrow> schemas \<Rightarrow> 'w requester \<Rightarrow> (string, py) dict \<Rightarrow> ('w, response_list) io" where
  "nova_list_agents env sc rq params =
     get_with rq
       (''os-agents'' @ (if params \<noteq> [] then (''?'' @ (urlencode_params env params)) else []))
       (json_list_reply env (Some (sc ''list_agents'')) (Some ''agents''))"

definition create_agent ::
    "'r env \<Rightarrow> schemas \<Rightarrow> 'w requester \<Rightarrow> (string, py) dict \<Rightarrow> ('w, response_body) io" where
  "create_agent env sc rq kwargs =
     post_with rq ''os-agents'' (wrapped env ''agent'' kwargs)
       (json_reply env (Some (sc ''create_agent'')) (Some ''agent''))"

definition delete_agent :: "'r env \<Rightarrow> schemas \<Rightarrow> 'w requester \<Rightarrow> string \<Rightarrow> ('w, response_body) io" where
  "delete_agent env sc rq agent_id =
     delete_with rq (''os-agents/'' @ agent_id) (raw_reply env (sc ''delete_agent''))"

definition nova_update_agent :: "'r env \<Rightarrow> 'w requester \<Rightarrow> string \<Rightarrow> (string, py) dict \<Rightarrow> ('w, response_body) io" where
  "nova_update_agent env rq agent_id kwargs =
     put_with rq (''os-agents/'' @ agent_id) (wrapped env ''para'' kwargs) (json_reply env None (Some ''agent''))"

section \<open>Aggregates\<close>

definition list_aggregates :: "'r env \<Rightarrow> schemas \<Rightarrow> 'w requester \<Rightarrow> ('w, response_list) io" where
  "list_aggregates env sc rq =
     get_with rq ''os-aggregates''
       (json_list_reply env (Some (sc ''list_aggregates'')) (Some ''aggregates''))"

definition show_aggregate ::
    "'r env \<Rightarrow> schemas \<Rightarrow> 'w requester \<Rightarrow> string \<Rightarrow> ('w, response_body) io" where
  "show_aggregate env sc rq aggregate_id =
     get_with rq (''os-aggregates/'' @ aggregate_id)
       (json_reply env (Some (sc ''get_aggregate'')) (Some ''aggregate''))"

definition create_aggregate ::
    "'r env \<Rightarrow> schemas \<Rightarrow> 'w requester \<Rightarrow> (string, py) dict \<Rightarrow> ('w, response_body) io" where
  "create_aggregate env sc rq kwargs =
     post_with rq ''os-aggregates'' (wrapped env ''aggregate'' kwargs)
       (json_reply env (Some (sc ''create_aggregate'')) (Some ''aggregate''))"

definition update_aggregate ::
    "'r env \<Rightarrow> schemas \<Rightarrow> 'w requester \<Rightarrow> string \<Rightarrow> (string, py) dict \<Rightarrow> ('w, response_body) io" where
  "update_aggregate env sc rq aggregate_id kwargs =
     put_with rq (''os-aggregates/'' @ aggregate_id) (wrapped env ''aggregate'' kwargs)
       (json_reply env (Some (sc ''update_aggregate'')) (Some ''aggregate''))"

definition delete_aggregate ::
    "'r env \<Rightarrow> schemas \<Rightarrow> 'w requester \<Rightarrow> string \<Rightarrow> ('w, response_body) io" where
  "delete_aggregate env sc rq aggregate_id =
     delete_with rq (''os-aggregates/'' @ aggregate_id) (raw_reply env (sc ''delete_aggregate''))"

definition aggregate_deleted :: "'r env \<Rightarrow> schemas \<Rightarrow> 'w requester \<Rightarrow> string \<Rightarrow> ('w, bool) io" where
  "aggregate_deleted env sc rq item_id = is_gone (show_aggregate env sc rq item_id)"

definition add_host ::
    "'r env \<Rightarrow> schemas \<Rightarrow> 'w requester \<Rightarrow> string \<Rightarrow> (string, py) dict \<Rightarrow> ('w, response_body) io" where
  "add_host env sc rq aggregate_id kwargs =
     post_with rq (''os-aggregates/'' @ aggregate_id @ ''/action'') (wrapped env ''add_host'' kwargs)
       (json_reply env (Some (sc ''aggregate_add_remove_host'')) (Some ''aggregate''))"

definition remove_host ::
    "'r env \<Rightarrow> schemas \<Rightarrow> 'w requester \<Rightarrow> string \<Rightarrow> (string, py) dict \<Rightarrow> ('w, response_body) io" where
  "remove_host env sc rq aggregate_id kwargs =
     post_with rq (''os-aggregates/'' @ aggregate_id @ ''/action'') (wrapped env ''remove_host'' kwargs)
       (json_reply env (Some (sc ''aggregate_add_remove_host'')) (Some ''aggregate''))"

definition set_metadata ::
    "'r env \<Rightarrow> schemas \<Rightarrow> 'w requester \<Rightarrow> string \<Rightarrow> (string, py) dict \<Rightarrow> ('w, response_body) io" where
  "set_metadata env sc rq aggregate_id kwargs =
     post_with rq (''os-aggregates/'' @ aggregate_id @ ''/action'')
       (wrapped env ''set_metadata'' kwargs)
       (json_reply env (Some (sc ''aggregate_set_metadata'')) (Some ''aggregate''))"

section \<open>Availability zones\<close>

definition nova_list_availability_zones ::
    "'r env \<Rightarrow> schemas \<Rightarrow> 'w requester \<Rightarrow> bool \<Rightarrow> ('w, response_list) io" where
  "nova_list_availability_zones env sc rq detail =
     get_with rq (if detail then ''os-availability-zone/detail'' else ''os-availability-zone'')
       (json_list_reply env
          (Some
             (sc
                (if detail then ''list_availability_zone_list_detail'' else ''list_availability_zone_list'')))
          (Some ''availabilityZoneInfo''))"

section \<open>Baremetal nodes\<close>

definition list_baremetal_nodes ::
    "'r env \<Rightarrow> schemas \<Rightarrow> 'w requester \<Rightarrow> (string, py) dict \<Rightarrow> ('w, response_list) io" where
  "list_baremetal_nodes env sc rq params =
     get_with rq
       (''os-baremetal-nodes''
          @ (if params \<noteq> [] then (''?'' @ (urlencode_params env params)) else []))
       (json_list_reply env (Some (sc ''list_baremetal_nodes'')) (Some ''nodes''))"

definition show_baremetal_node ::
    "'r env \<Rightarrow> schemas \<Rightarrow> 'w requester \<Rightarrow> string \<Rightarrow> ('w, response_body) io" where
  "show_baremetal_node env sc rq baremetal_node_id =
     get_with rq (''os-baremetal-nodes/'' @ baremetal_node_id)
       (json_reply env (Some (sc ''get_baremetal_node'')) (Some ''node''))"

section \<open>Certificates\<close>

definition show_certificate ::
    "'r env \<Rightarrow> schemas \<Rightarrow> 'w requester \<Rightarrow> string \<Rightarrow> ('w, response_body) io" where
  "show_certificate env sc rq certificate_id =
     get_with rq (''os-certificates/'' @ certificate_id)
       (json_reply env (Some (sc ''get_certificate'')) (Some ''certificate''))"

definition create_certificate :: "'r env \<Rightarrow> schemas \<Rightarrow> 'w requester \<Rightarrow> ('w, response_body) io" where
  "create_certificate env sc rq =
     post_with rq ''os-certificates'' PNone
       (json_reply env (Some (sc ''create_certificate'')) (Some ''certificate''))"

section \<open>Extensions\<close>

definition nova_list_extensions :: "'r env \<Rightarrow> schemas \<Rightarrow> 'w requester \<Rightarrow> ('w, response_list) io" where
  "nova_list_extensions env sc rq =
     get_with rq ''extensions''
       (json_list_reply env (Some (sc ''list_extensions'')) (Some ''extensions''))"

definition nova_show_extension :: "'r env \<Rightarrow> 'w requester \<Rightarrow> string \<Rightarrow> ('w, response_body) io" where
  "nova_show_extension env rq extension_alias =
     get_with rq (''extensions/'' @ extension_alias) (json_reply env None (Some ''extension''))"

section \<open>Fixed addresses\<close>

definition show_fixed_ip ::
    "'r env \<Rightarrow> schemas \<Rightarrow> 'w requester \<Rightarrow> string \<Rightarrow> ('w, response_body) io" where
  "show_fixed_ip env sc rq fixed_ip =
     get_with rq (''os-fixed-ips/'' @ fixed_ip)
       (json_reply env (Some (sc ''get_fixed_ip'')) (Some ''fixed_ip''))"

definition reserve_fixed_ip ::
    "'r env \<Rightarrow> schemas \<Rightarrow> 'w requester \<Rightarrow> string \<Rightarrow> (string, py) dict \<Rightarrow> ('w, response_body) io" where
  "reserve_fixed_ip env sc rq fixed_ip kwargs =
     post_with rq (''os-fixed-ips/'' @ fixed_ip @ ''/action'') (json_dumps env (PDict kwargs)) (\<lambda>a.
       bindE (validate_response env (sc ''reserve_fixed_ip'') (fst a) (PStr (snd a))) (\<lambda>_.
         response_dict (fst a) PNone))"

section \<open>Flavors\<close>

definition list_flavors ::
    "'r env \<Rightarrow> schemas \<Rightarrow> 'w requester \<Rightarrow> bool \<Rightarrow> (string, py) dict \<Rightarrow> ('w, response_list) io" where
  "list_flavors env sc rq detail params =
     get_with rq
       ((if detail then ''flavors/detail'' else ''flavors'')
          @ (if params \<noteq> [] then (''?'' @ (urlencode_params env params)) else []))
       (json_list_reply env (Some (sc (if detail then ''list_flavors_details'' else ''list_flavors'')))
          (Some ''flavors''))"

definition show_flavor :: "'r env \<Rightarrow> schemas \<Rightarrow> 'w requester \<Rightarrow> string \<Rightarrow> ('w, response_body) io" where
  "show_flavor env sc rq flavor_id =
     get_with rq (''flavors/'' @ flavor_id)
       (json_reply env (Some (sc ''create_get_flavor_details'')) (Some ''flavor''))"

text \<open>\<open>if kwargs.get(old): kwargs[new] = kwargs.pop(old)\<close>.\<close>

definition rename_if_set :: "string \<Rightarrow> string \<Rightarrow> (string, py) dict \<Rightarrow> (string, py) dict" where
  "rename_if_set old new d =
     (let v = kw_get d old PNone in if truthy v then dset (ddel d old) new v else d)"

definition create_flavor :: "'r env \<Rightarrow> schemas \<Rightarrow> 'w requester \<Rightarrow> (string, py) dict \<Rightarrow> ('w, response_body) io" where
  "create_flavor env sc rq kwargs =
     post_with rq ''flavors''
       (wrapped env ''flavor''
          (rename_if_set ''is_public'' ''os-flavor-access:is_public''
             (rename_if_set ''ephemeral'' ''OS-FLV-EXT-DATA:ephemeral'' kwargs)))
       (json_reply env (Some (sc ''create_get_flavor_details'')) (Some ''flavor''))"

definition delete_flavor ::
    "'r env \<Rightarrow> schemas \<Rightarrow> 'w requester \<Rightarrow> string \<Rightarrow> ('w, response_body) io" where
  "delete_flavor env sc rq flavor_id =
     delete_with rq (''flavors/'' @ flavor_id) (raw_reply env (sc ''delete_flavor''))"

definition flavor_deleted :: "'r env \<Rightarrow> schemas \<Rightarrow> 'w requester \<Rightarrow> py \<Rightarrow> ('w, bool) io" where
  "flavor_deleted env sc rq item_id =
     bnd (list_flavors env sc rq True []) (\<lambda>flavors. lift (
       bindE (first_with ''id'' item_id (rl_data flavors)) (\<lambda>found. Inr (found = None))))"

definition set_flavor_extra_spec ::
    "'r env \<Rightarrow> schemas \<Rightarrow> 'w requester \<Rightarrow> string \<Rightarrow> (string, py) dict \<Rightarrow> ('w, response_body) io" where
  "set_flavor_extra_spec env sc rq flavor_id kwargs =
     post_with rq (''flavors/'' @ flavor_id @ ''/os-extra_specs'') (wrapped env ''extra_specs'' kwargs)
       (json_reply env (Some (sc ''set_get_flavor_extra_specs'')) (Some ''extra_specs''))"

definition list_flavor_extra_specs ::
    "'r env \<Rightarrow> schemas \<Rightarrow> 'w requester \<Rightarrow> string \<Rightarrow> ('w, response_body) io" where
  "list_flavor_extra_specs env sc rq flavor_id =
     get_with rq (''flavors/'' @ flavor_id @ ''/os-extra_specs'')
       (json_reply env (Some (sc ''set_get_flavor_extra_specs'')) (Some ''extra_specs''))"

definition show_flavor_extra_spec ::
    "'r env \<Rightarrow> schemas \<Rightarrow> 'w requester \<Rightarrow> string \<Rightarrow> string \<Rightarrow> ('w, response_body) io" where
  "show_flavor_extra_spec env sc rq flavor_id key =
     get_with rq (''flavors/'' @ flavor_id @ ''/os-extra_specs/'' @ key)
       (json_reply env (Some (sc ''set_get_flavor_extra_specs_key'')) None)"

definition update_flavor_extra_spec ::
    "'r env \<Rightarrow> schemas \<Rightarrow> 'w requester \<Rightarrow> string \<Rightarrow> string \<Rightarrow> (string, py) dict
     \<Rightarrow> ('w, response_body) io" where
  "update_flavor_extra_spec env sc rq flavor_id key kwargs =
     put_with rq (''flavors/'' @ flavor_id @ ''/os-extra_specs/'' @ key) (json_dumps env (PDict kwargs))
       (json_reply env (Some (sc ''set_get_flavor_extra_specs_key'')) None)"

definition unset_flavor_extra_spec ::
    "'r env \<Rightarrow> schemas \<Rightarrow> 'w requester \<Rightarrow> string \<Rightarrow> string \<Rightarrow> ('w, response_body) io" where
  "unset_flavor_extra_spec env sc rq flavor_id key =
     delete_with rq (''flavors/'' @ flavor_id @ ''/os-extra_specs/'' @ key)
       (raw_reply env (sc ''unset_flavor_extra_specs''))"

definition list_flavor_access ::
    "'r env \<Rightarrow> schemas \<Rightarrow> 'w requester \<Rightarrow> string \<Rightarrow> ('w, response_list) io" where
  "list_flavor_access env sc rq flavor_id =
     get_with rq (''flavors/'' @ flavor_id @ ''/os-flavor-access'')
       (json_list_reply env (Some (sc ''add_remove_list_flavor_access'')) (Some ''flavor_access''))"

definition add_flavor_access ::
    "'r env \<Rightarrow> schemas \<Rightarrow> 'w requester \<Rightarrow> string \<Rightarrow> py \<Rightarrow> ('w, response_list) io" where
  "add_flavor_access env sc rq flavor_id tenant_id =
     post_with rq (''flavors/'' @ flavor_id @ ''/action'')
       (json_dumps env (PDict [(''addTenantAccess'', PDict [(''tenant'', tenant_id)])]))
       (json_list_reply env (Some (sc ''add_remove_list_flavor_access'')) (Some ''flavor_access''))"

definition remove_flavor_access ::
    "'r env \<Rightarrow> schemas \<Rightarrow> 'w requester \<Rightarrow> string \<Rightarrow> py \<Rightarrow> ('w, response_body) io" where
  "remove_flavor_access env sc rq flavor_id tenant_id =
     post_with rq (''flavors/'' @ flavor_id @ ''/action'')
       (json_dumps env (PDict [(''removeTenantAccess'', PDict [(''tenant'', tenant_id)])]))
       (json_reply env (Some (sc ''add_remove_list_flavor_access'')) (Some ''flavor_access''))"

section \<open>Pools of floating addresses\<close>

definition list_floating_ip_pools ::
    "'r env \<Rightarrow> schemas \<Rightarrow> 'w requester \<Rightarrow> (string, py) dict \<Rightarrow> ('w, response_list) io" where
  "list_floating_ip_pools env sc rq params =
     get_with rq
       (''os-floating-ip-pools''
          @ (if params \<noteq> [] then (''?'' @ (urlencode_params env params)) else []))
       (json_list_reply env (Some (sc ''list_floating_ip_pools'')) (Some ''floating_ip_pools''))"

section \<open>Floating addresses in bulk\<close>

definition create_floating_ips_bulk ::
    "'r env \<Rightarrow> schemas \<Rightarrow> 'w requester \<Rightarrow> py \<Rightarrow> py \<Rightarrow> py \<Rightarrow> ('w, response_body) io" where
  "create_floating_ips_bulk env sc rq ip_range pool interface =
     post_with rq ''os-floating-ips-bulk''
       (wrapped env ''floating_ips_bulk_create''
          [(''ip_range'', ip_range), (''pool'', pool), (''interface'', interface)])
       (json_reply env (Some (sc ''create_floating_ips_bulk'')) (Some ''floating_ips_bulk_create''))"

definition list_floating_ips_bulk :: "'r env \<Rightarrow> schemas \<Rightarrow> 'w requester \<Rightarrow> ('w, response_list) io" where
  "list_floating_ips_bulk env sc rq =
     get_with rq ''os-floating-ips-bulk''
       (json_list_reply env (Some (sc ''list_floating_ips_bulk'')) (Some ''floating_ip_info''))"

definition delete_floating_ips_bulk :: "'r env \<Rightarrow> schemas \<Rightarrow> 'w requester \<Rightarrow> py \<Rightarrow> ('w, response_data) io" where
  "delete_floating_ips_bulk env sc rq ip_range =
     put_with rq ''os-floating-ips-bulk/delete'' (json_dumps env (PDict [(''ip_range'', ip_range)])) (\<lambda>a.
       bindE (json_part env (Some (sc ''delete_floating_ips_bulk'')) (Some ''floating_ips_bulk_delete'') a)
         (response_data_of (fst a)))"

section \<open>Floating addresses\<close>

definition list_floating_ips ::
    "'r env \<Rightarrow> schemas \<Rightarrow> 'w requester \<Rightarrow> (string, py) dict \<Rightarrow> ('w, response_list) io" where
  "list_floating_ips env sc rq params =
     get_with rq
       (''os-floating-ips''
          @ (if params \<noteq> [] then (''?'' @ (urlencode_params env params)) else []))
       (json_list_reply env (Some (sc ''list_floating_ips'')) (Some ''floating_ips''))"

definition show_floating_ip ::
    "'r env \<Rightarrow> schemas \<Rightarrow> 'w requester \<Rightarrow> string \<Rightarrow> ('w, response_body) io" where
  "show_floating_ip env sc rq floating_ip_id =
     get_with rq (''os-floating-ips/'' @ floating_ip_id)
       (json_reply env (Some (sc ''create_get_floating_ip'')) (Some ''floating_ip''))"

definition create_floating_ip ::
    "'r env \<Rightarrow> schemas \<Rightarrow> 'w requester \<Rightarrow> py \<Rightarrow> ('w, response_body) io" where
  "create_floating_ip env sc rq pool_name =
     post_with rq ''os-floating-ips'' (json_dumps env (PDict [(''pool'', pool_name)]))
       (json_reply env (Some (sc ''create_get_floating_ip'')) (Some ''floating_ip''))"

definition delete_floating_ip ::
    "'r env \<Rightarrow> schemas \<Rightarrow> 'w requester \<Rightarrow> string \<Rightarrow> ('w, response_body) io" where
  "delete_floating_ip env sc rq floating_ip_id =
     delete_with rq (''os-floating-ips/'' @ floating_ip_id)
       (raw_reply env (sc ''add_remove_floating_ip''))"

definition associate_floating_ip_to_server ::
    "'r env \<Rightarrow> schemas \<Rightarrow> 'w requester \<Rightarrow> py \<Rightarrow> string \<Rightarrow> ('w, response_body) io" where
  "associate_floating_ip_to_server env sc rq floating_ip server_id =
     post_with rq (''servers/'' @ server_id @ ''/action'')
       (json_dumps env (PDict [(''addFloatingIp'', PDict [(''address'', floating_ip)])]))
       (raw_reply env (sc ''add_remove_floating_ip''))"

definition disassociate_floating_ip_from_server ::
    "'r env \<Rightarrow> schemas \<Rightarrow> 'w requester \<Rightarrow> py \<Rightarrow> string \<Rightarrow> ('w, response_body) io" where
  "disassociate_floating_ip_from_server env sc rq floating_ip server_id =
     post_with rq (''servers/'' @ server_id @ ''/action'')
       (json_dumps env (PDict [(''removeFloatingIp'', PDict [(''address'', floating_ip)])]))
       (raw_reply env (sc ''add_remove_floating_ip''))"

definition floating_ip_deleted :: "'r env \<Rightarrow> schemas \<Rightarrow> 'w requester \<Rightarrow> string \<Rightarrow> ('w, bool) io" where
  "floating_ip_deleted env sc rq item_id = is_gone (show_floating_ip env sc rq item_id)"

section \<open>Hosts\<close>

definition nova_list_hosts ::
    "'r env \<Rightarrow> schemas \<Rightarrow> 'w requester \<Rightarrow> (string, py) dict \<Rightarrow> ('w, response_list) io" where
  "nova_list_hosts env sc rq params =
     get_with rq
       (''os-hosts'' @ (if params \<noteq> [] then (''?'' @ (urlencode_params env params)) else []))
       (json_list_reply env (Some (sc ''list_hosts'')) (Some ''hosts''))"

definition show_host :: "'r env \<Rightarrow> schemas \<Rightarrow> 'w requester \<Rightarrow> string \<Rightarrow> ('w, response_list) io" where
  "show_host env sc rq hostname =
     get_with rq (''os-hosts/'' @ hostname)
       (json_list_reply env (Some (sc ''get_host_detail'')) (Some ''host''))"

definition update_host ::
    "'r env \<Rightarrow> schemas \<Rightarrow> 'w requester \<Rightarrow> string \<Rightarrow> (string, py) dict \<Rightarrow> ('w, response_body) io" where
  "update_host env sc rq hostname kwargs =
     put_with rq (''os-hosts/'' @ hostname)
       (json_dumps env (PDict (dupdate [(''status'', PNone), (''maintenance_mode'', PNone)] kwargs)))
       (json_reply env (Some (sc ''update_host'')) None)"

definition startup_host :: "'r env \<Rightarrow> schemas \<Rightarrow> 'w requester \<Rightarrow> string \<Rightarrow> ('w, response_body) io" where
  "startup_host env sc rq hostname =
     get_with rq (''os-hosts/'' @ hostname @ ''/startup'')
       (json_reply env (Some (sc ''startup_host'')) (Some ''host''))"

definition shutdown_host ::
    "'r env \<Rightarrow> schemas \<Rightarrow> 'w requester \<Rightarrow> string \<Rightarrow> ('w, response_body) io" where
  "shutdown_host env sc rq hostname =
     get_with rq (''os-hosts/'' @ hostname @ ''/shutdown'')
       (json_reply env (Some (sc ''shutdown_host'')) (Some ''host''))"

definition reboot_host :: "'r env \<Rightarrow> schemas \<Rightarrow> 'w requester \<Rightarrow> string \<Rightarrow> ('w, response_body) io" where
  "reboot_host env sc rq hostname =
     get_with rq (''os-hosts/'' @ hostname @ ''/reboot'')
       (json_reply env (Some (sc ''reboot_host'')) (Some ''host''))"

section \<open>Hypervisors\<close>

definition list_hypervisors ::
    "'r env \<Rightarrow> schemas \<Rightarrow> 'w requester \<Rightarrow> bool \<Rightarrow> ('w, response_list) io" where
  "list_hypervisors env sc rq detail =
     get_with rq (if detail then ''os-hypervisors/detail'' else ''os-hypervisors'')
       (json_list_reply env
          (Some (sc (if detail then ''list_hypervisors_detail'' else ''list_search_hypervisors'')))
          (Some ''hypervisors''))"

definition show_hypervisor ::
    "'r env \<Rightarrow> schemas \<Rightarrow> 'w requester \<Rightarrow> string \<Rightarrow> ('w, response_body) io" where
  "show_hypervisor env sc rq hypervisor_id =
     get_with rq (''os-hypervisors/'' @ hypervisor_id)
       (json_reply env (Some (sc ''get_hypervisor'')) (Some ''hypervisor''))"

definition list_servers_on_hypervisor ::
    "'r env \<Rightarrow> schemas \<Rightarrow> 'w requester \<Rightarrow> string \<Rightarrow> ('w, response_list) io" where
  "list_servers_on_hypervisor env sc rq hypervisor_name =
     get_with rq (''os-hypervisors/'' @ hypervisor_name @ ''/servers'')
       (json_list_reply env (Some (sc ''get_hypervisors_servers'')) (Some ''hypervisors''))"

definition show_hypervisor_statistics ::
    "'r env \<Rightarrow> schemas \<Rightarrow> 'w requester \<Rightarrow> ('w, response_body) io" where
  "show_hypervisor_statistics env sc rq =
     get_with rq ''os-hypervisors/statistics''
       (json_reply env (Some (sc ''get_hypervisor_statistics'')) (Some ''hypervisor_statistics''))"

definition show_hypervisor_uptime ::
    "'r env \<Rightarrow> schemas \<Rightarrow> 'w requester \<Rightarrow> string \<Rightarrow> ('w, response_body) io" where
  "show_hypervisor_uptime env sc rq hypervisor_id =
     get_with rq (''os-hypervisors/'' @ hypervisor_id @ ''/uptime'')
       (json_reply env (Some (sc ''get_hypervisor_uptime'')) (Some ''hypervisor''))"

definition search_hypervisor ::
    "'r env \<Rightarrow> schemas \<Rightarrow> 'w requester \<Rightarrow> string \<Rightarrow> ('w, response_list) io" where
  "search_hypervisor env sc rq hypervisor_name =
     get_with rq (''os-hypervisors/'' @ hypervisor_name @ ''/search'')
       (json_list_reply env (Some (sc ''list_search_hypervisors'')) (Some ''hypervisors''))"

section \<open>Images\<close>

definition create_image ::
    "'r env \<Rightarrow> schemas \<Rightarrow> 'w requester \<Rightarrow> string \<Rightarrow> (string, py) dict \<Rightarrow> ('w, response_body) io" where
  "create_image env sc rq server_id kwargs =
     post_with rq (''servers/'' @ server_id @ ''/action'')
       (json_dumps env (PDict [(''createImage'', PDict kwargs)])) (raw_reply env (sc ''create_image''))"

definition list_images ::
    "'r env \<Rightarrow> schemas \<Rightarrow> 'w requester \<Rightarrow> bool \<Rightarrow> (string, py) dict \<Rightarrow> ('w, response_list) io" where
  "list_images env sc rq detail params =
     get_with rq
       ((if detail then ''images/detail'' else ''images'')
          @ (if params \<noteq> [] then (''?'' @ (urlencode_params env params)) else []))
       (json_list_reply env (Some (sc (if detail then ''list_images_details'' else ''list_images'')))
          (Some ''images''))"

definition nova_show_image :: "'r env \<Rightarrow> schemas \<Rightarrow> 'w requester \<Rightarrow> string \<Rightarrow> ('w, response_body) io" where
  "nova_show_image env sc rq image_id =
     get_with rq (''images/'' @ image_id) (\<lambda>a.
       bindE (expected_success (Code 200) (rs_status (fst a))) (\<lambda>_.
         json_reply env (Some (sc ''get_image'')) (Some ''image'') a))"

definition delete_image :: "'r env \<Rightarrow> schemas \<Rightarrow> 'w requester \<Rightarrow> string \<Rightarrow> ('w, response_body) io" where
  "delete_image env sc rq image_id =
     delete_with rq (''images/'' @ image_id) (raw_reply env (sc ''delete''))"

definition list_image_metadata ::
    "'r env \<Rightarrow> schemas \<Rightarrow> 'w requester \<Rightarrow> string \<Rightarrow> ('w, response_body) io" where
  "list_image_metadata env sc rq image_id =
     get_with rq (''images/'' @ image_id @ ''/metadata'')
       (json_reply env (Some (sc ''image_metadata'')) (Some ''metadata''))"

definition set_image_metadata ::
    "'r env \<Rightarrow> schemas \<Rightarrow> 'w requester \<Rightarrow> string \<Rightarrow> py \<Rightarrow> ('w, response_body) io" where
  "set_image_metadata env sc rq image_id meta =
     put_with rq (''images/'' @ image_id @ ''/metadata'')
       (json_dumps env (PDict [(''metadata'', meta)]))
       (json_reply env (Some (sc ''image_metadata'')) (Some ''metadata''))"

definition update_image_metadata ::
    "'r env \<Rightarrow> schemas \<Rightarrow> 'w requester \<Rightarrow> string \<Rightarrow> py \<Rightarrow> ('w, response_body) io" where
  "update_image_metadata env sc rq image_id meta =
     post_with rq (''images/'' @ image_id @ ''/metadata'')
       (json_dumps env (PDict [(''metadata'', meta)]))
       (json_reply env (Some (sc ''image_metadata'')) (Some ''metadata''))"

definition show_image_metadata_item ::
    "'r env \<Rightarrow> schemas \<Rightarrow> 'w requester \<Rightarrow> string \<Rightarrow> string \<Rightarrow> ('w, response_body) io" where
  "show_image_metadata_item env sc rq image_id key =
     get_with rq (''images/'' @ image_id @ ''/metadata/'' @ key)
       (json_reply env (Some (sc ''image_meta_item'')) (Some ''meta''))"

definition set_image_metadata_item ::
    "'r env \<Rightarrow> schemas \<Rightarrow> 'w requester \<Rightarrow> string \<Rightarrow> string \<Rightarrow> py \<Rightarrow> ('w, response_body) io" where
  "set_image_metadata_item env sc rq image_id key meta =
     put_with rq (''images/'' @ image_id @ ''/metadata/'' @ key)
       (json_dumps env (PDict [(''meta'', meta)]))
       (json_reply env (Some (sc ''image_meta_item'')) (Some ''meta''))"

definition delete_image_metadata_item ::
    "'r env \<Rightarrow> schemas \<Rightarrow> 'w requester \<Rightarrow> string \<Rightarrow> string \<Rightarrow> ('w, response_body) io" where
  "delete_image_metadata_item env sc rq image_id key =
     delete_with rq (''images/'' @ image_id @ ''/metadata/'' @ key) (raw_reply env (sc ''delete''))"

definition nova_image_deleted :: "'r env \<Rightarrow> schemas \<Rightarrow> 'w requester \<Rightarrow> string \<Rightarrow> ('w, bool) io" where
  "nova_image_deleted env sc rq item_id = is_gone (nova_show_image env sc rq item_id)"

section \<open>Usage audit\<close>

definition list_instance_usage_audit_logs ::
    "'r env \<Rightarrow> schemas \<Rightarrow> 'w requester \<Rightarrow> ('w, response_body) io" where
  "list_instance_usage_audit_logs env sc rq =
     get_with rq ''os-instance_usage_audit_log''
       (json_reply env (Some (sc ''list_instance_usage_audit_log''))
          (Some ''instance_usage_audit_logs''))"

definition show_instance_usage_audit_log ::
    "'r env \<Rightarrow> schemas \<Rightarrow> 'w requester \<Rightarrow> string \<Rightarrow> ('w, response_body) io" where
  "show_instance_usage_audit_log env sc rq time_before =
     get_with rq (''os-instance_usage_audit_log/'' @ time_before)
       (json_reply env (Some (sc ''get_instance_usage_audit_log'')) (Some ''instance_usage_audit_log''))"

section \<open>Interfaces\<close>

definition nova_list_interfaces ::
    "'r env \<Rightarrow> schemas \<Rightarrow> 'w requester \<Rightarrow> string \<Rightarrow> ('w, response_list) io" where
  "nova_list_interfaces env sc rq server_id =
     get_with rq (''servers/'' @ server_id @ ''/os-interface'')
       (json_list_reply env (Some (sc ''list_interfaces'')) (Some ''interfaceAttachments''))"

definition create_interface ::
    "'r env \<Rightarrow> schemas \<Rightarrow> 'w requester \<Rightarrow> string \<Rightarrow> (string, py) dict \<Rightarrow> ('w, response_body) io" where
  "create_interface env sc rq server_id kwargs =
     post_with rq (''servers/'' @ server_id @ ''/os-interface'')
       (json_dumps env (PDict [(''interfaceAttachment'', PDict kwargs)]))
       (json_reply env (Some (sc ''get_create_interfaces'')) (Some ''interfaceAttachment''))"

definition show_interface ::
    "'r env \<Rightarrow> schemas \<Rightarrow> 'w requester \<Rightarrow> string \<Rightarrow> string \<Rightarrow> ('w, response_body) io" where
  "show_interface env sc rq server_id port_id =
     get_with rq (''servers/'' @ server_id @ ''/os-interface/'' @ port_id)
       (json_reply env (Some (sc ''get_create_interfaces'')) (Some ''interfaceAttachment''))"

definition delete_interface ::
    "'r env \<Rightarrow> schemas \<Rightarrow> 'w requester \<Rightarrow> string \<Rightarrow> string \<Rightarrow> ('w, response_body) io" where
  "delete_interface env sc rq server_id port_id =
     delete_with rq (''servers/'' @ server_id @ ''/os-interface/'' @ port_id)
       (raw_reply env (sc ''delete_interface''))"

definition add_fixed_ip ::
    "'r env \<Rightarrow> schemas \<Rightarrow> 'w requester \<Rightarrow> string \<Rightarrow> (string, py) dict \<Rightarrow> ('w, response_body) io" where
  "add_fixed_ip env sc rq server_id kwargs =
     post_with rq (''servers/'' @ server_id @ ''/action'') (wrapped env ''addFixedIp'' kwargs)
       (raw_reply env (sc ''server_actions_common_schema''))"

definition remove_fixed_ip ::
    "'r env \<Rightarrow> schemas \<Rightarrow> 'w requester \<Rightarrow> string \<Rightarrow> (string, py) dict \<Rightarrow> ('w, response_body) io" where
  "remove_fixed_ip env sc rq server_id kwargs =
     post_with rq (''servers/'' @ server_id @ ''/action'') (wrapped env ''removeFixedIp'' kwargs)
       (raw_reply env (sc ''server_actions_common_schema''))"

section \<open>Key pairs\<close>

definition list_keypairs :: "'r env \<Rightarrow> schemas \<Rightarrow> 'w requester \<Rightarrow> ('w, response_list) io" where
  "list_keypairs env sc rq =
     get_with rq ''os-keypairs'' (json_list_reply env (Some (sc ''list_keypairs'')) (Some ''keypairs''))"

definition show_keypair :: "'r env \<Rightarrow> schemas \<Rightarrow> 'w requester \<Rightarrow> string \<Rightarrow> ('w, response_body) io" where
  "show_keypair env sc rq keypair_name =
     get_with rq (''os-keypairs/'' @ keypair_name)
       (json_reply env (Some (sc ''get_keypair'')) (Some ''keypair''))"

definition create_keypair ::
    "'r env \<Rightarrow> schemas \<Rightarrow> 'w requester \<Rightarrow> (string, py) dict \<Rightarrow> ('w, response_body) io" where
  "create_keypair env sc rq kwargs =
     post_with rq ''os-keypairs'' (wrapped env ''keypair'' kwargs)
       (json_reply env (Some (sc ''create_keypair'')) (Some ''keypair''))"

definition delete_keypair ::
    "'r env \<Rightarrow> schemas \<Rightarrow> 'w requester \<Rightarrow> string \<Rightarrow> ('w, response_body) io" where
  "delete_keypair env sc rq keypair_name =
     delete_with rq (''os-keypairs/'' @ keypair_name) (raw_reply env (sc ''delete_keypair''))"

section \<open>Limits\<close>

definition show_limits :: "'r env \<Rightarrow> schemas \<Rightarrow> 'w requester \<Rightarrow> ('w, response_body) io" where
  "show_limits env sc rq =
     get_with rq ''limits'' (json_reply env (Some (sc ''get_limit'')) (Some ''limits''))"

section \<open>Migrations\<close>

definition list_migrations ::
    "'r env \<Rightarrow> schemas \<Rightarrow> 'w requester \<Rightarrow> (string, py) dict \<Rightarrow> ('w, response_list) io" where
  "list_migrations env sc rq params =
     get_with rq
       (''os-migrations'' @ (if params \<noteq> [] then (''?'' @ (urlencode_params env params)) else []))
       (json_list_reply env (Some (sc ''list_migrations'')) (Some ''migrations''))"

section \<open>Networks\<close>

definition nova_list_networks :: "'r env \<Rightarrow> 'w requester \<Rightarrow> ('w, response_list) io" where
  "nova_list_networks env rq =
     get_with rq ''os-networks'' (loaded_list env (Code 200) (Some ''networks''))"

definition nova_show_network :: "'r env \<Rightarrow> 'w requester \<Rightarrow> string \<Rightarrow> ('w, response_body) io" where
  "nova_show_network env rq network_id =
     get_with rq (''os-networks/'' @ network_id) (loaded_json env (Code 200) (Some ''network''))"

section \<open>Quota classes\<close>

definition show_quota_class_set ::
    "'r env \<Rightarrow> schemas \<Rightarrow> 'w requester \<Rightarrow> string \<Rightarrow> ('w, response_body) io" where
  "show_quota_class_set env sc rq quota_class_id =
     get_with rq (''os-quota-class-sets/'' @ quota_class_id)
       (json_reply env (Some (sc ''get_quota_class_set'')) (Some ''quota_class_set''))"

definition update_quota_class_set ::
    "'r env \<Rightarrow> schemas \<Rightarrow> 'w requester \<Rightarrow> string \<Rightarrow> (string, py) dict \<Rightarrow> ('w, response_body) io" where
  "update_quota_class_set env sc rq quota_class_id kwargs =
     put_with rq (''os-quota-class-sets/'' @ quota_class_id) (wrapped env ''quota_class_set'' kwargs)
       (json_reply env (Some (sc ''update_quota_class_set'')) (Some ''quota_class_set''))"

section \<open>Quotas\<close>

definition nova_show_quota_set ::
    "'r env \<Rightarrow> schemas \<Rightarrow> 'w requester \<Rightarrow> string \<Rightarrow> string \<Rightarrow> ('w, response_body) io" where
  "nova_show_quota_set env sc rq tenant_id user_id =
     get_with rq
       (if user_id \<noteq> [] then (''os-quota-sets/'' @ tenant_id) @ (''?user_id='' @ user_id) else ''os-quota-sets/'' @ tenant_id)
       (json_reply env (Some (sc ''get_quota_set'')) (Some ''quota_set''))"

definition nova_show_default_quota_set ::
    "'r env \<Rightarrow> schemas \<Rightarrow> 'w requester \<Rightarrow> string \<Rightarrow> ('w, response_body) io" where
  "nova_show_default_quota_set env sc rq tenant_id =
     get_with rq (''os-quota-sets/'' @ tenant_id @ ''/defaults'')
       (json_reply env (Some (sc ''get_quota_set'')) (Some ''quota_set''))"

definition nova_update_quota_set ::
    "'r env \<Rightarrow> schemas \<Rightarrow> 'w requester \<Rightarrow> string \<Rightarrow> py \<Rightarrow> (string, py) dict \<Rightarrow> ('w, response_body) io" where
  "nova_update_quota_set env sc rq tenant_id user_id kwargs =
     put_with rq
       (''os-quota-sets/'' @ tenant_id
        @ (if truthy user_id then ''?user_id='' @ py_text (e_repr env) user_id else []))
       (wrapped env ''quota_set'' kwargs) (json_reply env (Some (sc ''update_quota_set'')) (Some ''quota_set''))"

definition nova_delete_quota_set ::
    "'r env \<Rightarrow> schemas \<Rightarrow> 'w requester \<Rightarrow> string \<Rightarrow> ('w, response_body) io" where
  "nova_delete_quota_set env sc rq tenant_id =
     delete_with rq (''os-quota-sets/'' @ tenant_id) (raw_reply env (sc ''delete_quota''))"

section \<open>Default rules of security groups\<close>

definition create_security_default_group_rule ::
    "'r env \<Rightarrow> schemas \<Rightarrow> 'w requester \<Rightarrow> (string, py) dict \<Rightarrow> ('w, response_body) io" where
  "create_security_default_group_rule env sc rq kwargs =
     post_with rq ''os-security-group-default-rules'' (wrapped env ''security_group_default_rule'' kwargs)
       (json_reply env (Some (sc ''create_get_security_group_default_rule''))
          (Some ''security_group_default_rule''))"

definition delete_security_group_default_rule ::
    "'r env \<Rightarrow> schemas \<Rightarrow> 'w requester \<Rightarrow> string \<Rightarrow> ('w, response_body) io" where
  "delete_security_group_default_rule env sc rq security_group_default_rule_id =
     delete_with rq (''os-security-group-default-rules/'' @ security_group_default_rule_id)
       (raw_reply env (sc ''delete_security_group_default_rule''))"

definition list_security_group_default_rules :: "'r env \<Rightarrow> schemas \<Rightarrow> 'w requester \<Rightarrow> ('w, response_list) io" where
  "list_security_group_default_rules env sc rq =
     get_with rq ''os-security-group-default-rules''
       (json_list_reply env (Some (sc ''list_security_group_default_rules''))
          (Some ''security_group_default_rules''))"

definition show_security_group_default_rule ::
    "'r env \<Rightarrow> schemas \<Rightarrow> 'w requester \<Rightarrow> string \<Rightarrow> ('w, response_body) io" where
  "show_security_group_default_rule env sc rq rule_id =
     get_with rq (''os-security-group-default-rules/'' @ rule_id)
       (json_reply env (Some (sc ''create_get_security_group_default_rule''))
          (Some ''security_group_default_rule''))"

section \<open>Rules of security groups\<close>

definition nova_create_security_group_rule ::
    "'r env \<Rightarrow> schemas \<Rightarrow> 'w requester \<Rightarrow> (string, py) dict \<Rightarrow> ('w, response_body) io" where
  "nova_create_security_group_rule env sc rq kwargs =
     post_with rq ''os-security-group-rules'' (wrapped env ''security_group_rule'' kwargs)
       (json_reply env (Some (sc ''create_security_group_rule'')) (Some ''security_group_rule''))"

definition nova_delete_security_group_rule ::
    "'r env \<Rightarrow> schemas \<Rightarrow> 'w requester \<Rightarrow> string \<Rightarrow> ('w, response_body) io" where
  "nova_delete_security_group_rule env sc rq group_rule_id =
     delete_with rq (''os-security-group-rules/'' @ group_rule_id)
       (raw_reply env (sc ''delete_security_group_rule''))"

definition nova_list_security_group_rules ::
    "'r env \<Rightarrow> schemas \<Rightarrow> 'w requester \<Rightarrow> py \<Rightarrow> ('w, response_list) io" where
  "nova_list_security_group_rules env sc rq security_group_id =
     get_with rq ''os-security-groups'' (\<lambda>a.
       bindE (json_part env (Some (sc ''list_security_groups'')) (Some ''security_groups'') a) (\<lambda>groups.
       bindE (py_iter groups) (\<lambda>l.
       bindE (first_with ''id'' security_group_id l) (\<lambda>found.
         case found of
           None \<Rightarrow> Inl (Auto NotFound [PStr ''No such Security Group''] [])
         | Some sg \<Rightarrow> bindE (getitem sg ''rules'') (response_list_of (fst a))))))"

section \<open>Security groups\<close>

definition nova_list_security_groups ::
    "'r env \<Rightarrow> schemas \<Rightarrow> 'w requester \<Rightarrow> (string, py) dict \<Rightarrow> ('w, response_list) io" where
  "nova_list_security_groups env sc rq params =
     get_with rq
       (''os-security-groups''
          @ (if params \<noteq> [] then (''?'' @ (urlencode_params env params)) else []))
       (json_list_reply env (Some (sc ''list_security_groups'')) (Some ''security_groups''))"

definition nova_show_security_group ::
    "'r env \<Rightarrow> schemas \<Rightarrow> 'w requester \<Rightarrow> string \<Rightarrow> ('w, response_body) io" where
  "nova_show_security_group env sc rq security_group_id =
     get_with rq (''os-security-groups/'' @ security_group_id)
       (json_reply env (Some (sc ''get_security_group'')) (Some ''security_group''))"

definition nova_create_security_group ::
    "'r env \<Rightarrow> schemas \<Rightarrow> 'w requester \<Rightarrow> (string, py) dict \<Rightarrow> ('w, response_body) io" where
  "nova_create_security_group env sc rq kwargs =
     post_with rq ''os-security-groups'' (wrapped env ''security_group'' kwargs)
       (json_reply env (Some (sc ''get_security_group'')) (Some ''security_group''))"

definition nova_update_security_group ::
    "'r env \<Rightarrow> schemas \<Rightarrow> 'w requester \<Rightarrow> string \<Rightarrow> (string, py) dict \<Rightarrow> ('w, response_body) io" where
  "nova_update_security_group env sc rq security_group_id kwargs =
     put_with rq (''os-security-groups/'' @ security_group_id) (wrapped env ''security_group'' kwargs)
       (json_reply env (Some (sc ''update_security_group'')) (Some ''security_group''))"

definition nova_delete_security_group ::
    "'r env \<Rightarrow> schemas \<Rightarrow> 'w requester \<Rightarrow> string \<Rightarrow> ('w, response_body) io" where
  "nova_delete_security_group env sc rq security_group_id =
     delete_with rq (''os-security-groups/'' @ security_group_id)
       (raw_reply env (sc ''delete_security_group''))"

definition security_group_deleted :: "'r env \<Rightarrow> schemas \<Rightarrow> 'w requester \<Rightarrow> string \<Rightarrow> ('w, bool) io" where
  "security_group_deleted env sc rq item_id = is_gone (nova_show_security_group env sc rq item_id)"

section \<open>Server groups\<close>

definition create_server_group ::
    "'r env \<Rightarrow> schemas \<Rightarrow> 'w requester \<Rightarrow> py \<Rightarrow> py \<Rightarrow> ('w, response_body) io" where
  "create_server_group env sc rq name policies =
     post_with rq ''os-server-groups''
       (wrapped env ''server_group'' [(''name'', name), (''policies'', policies)])
       (json_reply env (Some (sc ''create_get_server_group'')) (Some ''server_group''))"

definition delete_server_group ::
    "'r env \<Rightarrow> schemas \<Rightarrow> 'w requester \<Rightarrow> string \<Rightarrow> ('w, response_body) io" where
  "delete_server_group env sc rq server_group_id =
     delete_with rq (''os-server-groups/'' @ server_group_id)
       (raw_reply env (sc ''delete_server_group''))"

definition list_server_groups :: "'r env \<Rightarrow> schemas \<Rightarrow> 'w requester \<Rightarrow> ('w, response_list) io" where
  "list_server_groups env sc rq =
     get_with rq ''os-server-groups''
       (json_list_reply env (Some (sc ''list_server_groups'')) (Some ''server_groups''))"

definition get_server_group ::
    "'r env \<Rightarrow> schemas \<Rightarrow> 'w requester \<Rightarrow> string \<Rightarrow> ('w, response_body) io" where
  "get_server_group env sc rq server_group_id =
     get_with rq (''os-server-groups/'' @ server_group_id)
       (json_reply env (Some (sc ''create_get_server_group'')) (Some ''server_group''))"

section \<open>Services\<close>

definition nova_list_services ::
    "'r env \<Rightarrow> schemas \<Rightarrow> 'w requester \<Rightarrow> (string, py) dict \<Rightarrow> ('w, response_list) io" where
  "nova_list_services env sc rq params =
     get_with rq
       (''os-services'' @ (if params \<noteq> [] then (''?'' @ (urlencode_params env params)) else []))
       (json_list_reply env (Some (sc ''list_services'')) (Some ''services''))"

definition enable_service ::
    "'r env \<Rightarrow> schemas \<Rightarrow> 'w requester \<Rightarrow> py \<Rightarrow> py \<Rightarrow> ('w, response_body) io" where
  "enable_service env sc rq host_name binary =
     put_with rq ''os-services/enable''
       (json_dumps env (PDict [(''binary'', binary), (''host'', host_name)]))
       (json_reply env (Some (sc ''enable_service'')) (Some ''service''))"

definition disable_service :: "'r env \<Rightarrow> 'w requester \<Rightarrow> py \<Rightarrow> py \<Rightarrow> ('w, response_body) io" where
  "disable_service env rq host_name binary =
     put_with rq ''os-services/disable''
       (json_dumps env (PDict [(''binary'', binary), (''host'', host_name)]))
       (json_reply env None (Some ''service''))"

section \<open>Networks of a tenant\<close>

definition list_tenant_networks :: "'r env \<Rightarrow> schemas \<Rightarrow> 'w requester \<Rightarrow> ('w, response_list) io" where
  "list_tenant_networks env sc rq =
     get_with rq ''os-tenant-networks''
       (json_list_reply env (Some (sc ''list_tenant_networks'')) (Some ''networks''))"

definition show_tenant_network ::
    "'r env \<Rightarrow> schemas \<Rightarrow> 'w requester \<Rightarrow> string \<Rightarrow> ('w, response_body) io" where
  "show_tenant_network env sc rq network_id =
     get_with rq (''os-tenant-networks/'' @ network_id)
       (json_reply env (Some (sc ''get_tenant_network'')) (Some ''network''))"

section \<open>Usage of tenants\<close>

text \<open>\<open>body['tenant_usages'][0]\<close>.\<close>

definition list_tenant_usages :: "'r env \<Rightarrow> schemas \<Rightarrow> 'w requester \<Rightarrow> (string, py) dict \<Rightarrow> ('w, response_list) io" where
  "list_tenant_usages env sc rq params =
     get_with rq
       (''os-simple-tenant-usage'' @ (if params \<noteq> [] then ''?'' @ urlencode_params env params else [])) (\<lambda>a.
       bindE (json_part env (Some (sc ''list_tenant_usage'')) (Some ''tenant_usages'') a) (\<lambda>usages.
       bindE (py_first usages) (response_list_of (fst a))))"

definition show_tenant_usage ::
    "'r env \<Rightarrow> schemas \<Rightarrow> 'w requester \<Rightarrow> string \<Rightarrow> (string, py) dict \<Rightarrow> ('w, response_list) io" where
  "show_tenant_usage env sc rq tenant_id params =
     get_with rq
       (if params \<noteq> [] then (''os-simple-tenant-usage/'' @ tenant_id) @ (''?'' @ (urlencode_params env params)) else ''os-simple-tenant-usage/'' @ tenant_id)
       (json_list_reply env (Some (sc ''get_tenant_usage'')) (Some ''tenant_usage''))"

section \<open>Volumes\<close>

definition nova_list_volumes ::
    "'r env \<Rightarrow> schemas \<Rightarrow> 'w requester \<Rightarrow> bool \<Rightarrow> (string, py) dict \<Rightarrow> ('w, response_list) io" where
  "nova_list_volumes env sc rq detail params =
     get_with rq
       ((if detail then ''os-volumes/detail'' else ''os-volumes'')
          @ (if params \<noteq> [] then (''?'' @ (urlencode_params env params)) else []))
       (json_list_reply env (Some (sc ''list_volumes'')) (Some ''volumes''))"

definition nova_show_volume ::
    "'r env \<Rightarrow> schemas \<Rightarrow> 'w requester \<Rightarrow> string \<Rightarrow> ('w, response_body) io" where
  "nova_show_volume env sc rq volume_id =
     get_with rq (''os-volumes/'' @ volume_id)
       (json_reply env (Some (sc ''create_get_volume'')) (Some ''volume''))"

definition nova_create_volume ::
    "'r env \<Rightarrow> schemas \<Rightarrow> py \<Rightarrow> 'w requester \<Rightarrow> py \<Rightarrow> (string, py) dict \<Rightarrow> ('w, response_body) io" where
  "nova_create_volume env sc default_size rq vol_size kwargs =
     post_with rq ''os-volumes''
       (wrapped env ''volume''
          (dupdate [(''size'', if is_none vol_size then default_size else vol_size)] kwargs))
       (json_reply env (Some (sc ''create_get_volume'')) (Some ''volume''))"

definition nova_delete_volume ::
    "'r env \<Rightarrow> schemas \<Rightarrow> 'w requester \<Rightarrow> string \<Rightarrow> ('w, response_body) io" where
  "nova_delete_volume env sc rq volume_id =
     delete_with rq (''os-volumes/'' @ volume_id) (raw_reply env (sc ''delete_volume''))"

definition nova_volume_deleted :: "'r env \<Rightarrow> schemas \<Rightarrow> 'w requester \<Rightarrow> string \<Rightarrow> ('w, bool) io" where
  "nova_volume_deleted env sc rq item_id = is_gone (nova_show_volume env sc rq item_id)"

end
