(* ===== verification/DataUtils.thy ===== *)
theory DataUtils
  imports Exceptions "HOL-Library.Word"
begin

unbundle bit_operations_syntax

text \<open>
  The test data of \<open>automation/common/utils/data_utils.py\<close>.

  The modules \<open>random\<close> and \<open>uuid\<close> are a source of numbers, the parameter \<open>rnd\<close>, and a position in it; a
  function that draws returns its value and the next position. \<open>netaddr\<close> is not in the repository: what
  it makes of a text is a parameter.
\<close>

section \<open>Drawing\<close>

type_synonym 'a drawn = "'a \<times> nat"

definition randint :: "(nat \<Rightarrow> nat) \<Rightarrow> int \<Rightarrow> int \<Rightarrow> nat \<Rightarrow> int drawn" where
  "randint rnd a b n = (a + int (rnd n) mod (b - a + 1), Suc n)"

definition choice :: "(nat \<Rightarrow> nat) \<Rightarrow> 'a list \<Rightarrow> nat \<Rightarrow> 'a drawn" where
  "choice rnd xs n = (xs ! (rnd n mod length xs), Suc n)"

primrec draws :: "(nat \<Rightarrow> 'a drawn) \<Rightarrow> nat \<Rightarrow> nat \<Rightarrow> 'a list drawn" where
  "draws f 0 n = ([], n)"
| "draws f (Suc k) n = (case f n of (x, n1) \<Rightarrow> (case draws f k n1 of (xs, n2) \<Rightarrow> (x # xs, n2)))"

lemma randint_bounds: "a \<le> b \<Longrightarrow> fst (randint rnd a b n) \<in> {a..b}"
proof -
  assume "a \<le> b"
  then have "0 \<le> int (rnd n) mod (b - a + 1)" "int (rnd n) mod (b - a + 1) < b - a + 1"
    using pos_mod_bound [of "b - a + 1" "int (rnd n)"] by simp_all
  then show ?thesis by (simp add: randint_def)
qed

lemma choice_mem: "xs \<noteq> [] \<Longrightarrow> fst (choice rnd xs n) \<in> set xs"
  by (simp add: choice_def)

lemma draws_mem:
  assumes "\<And>n. fst (f n) \<in> S"
  shows "length (fst (draws f k n)) = k" "set (fst (draws f k n)) \<subseteq> S"
proof (induction k arbitrary: n)
  case (Suc k)
  {
    case 1
    show ?case using Suc by (simp add: case_prod_beta)
  next
    case 2
    show ?case using Suc assms by (simp add: case_prod_beta)
  }
qed simp_all

section \<open>Names and numbers\<close>

definition max_rand :: int where
  "max_rand = 2147483647"

definition rand_name :: "(nat \<Rightarrow> nat) \<Rightarrow> string \<Rightarrow> string option \<Rightarrow> nat \<Rightarrow> string drawn" where
  "rand_name rnd name prefix n =
     (case randint rnd 1 max_rand n of (i, n') \<Rightarrow>
        (let randbits = int_str i;
             named = (if name \<noteq> [] then name @ ''-'' @ randbits else randbits)
         in (case prefix of
               None \<Rightarrow> named
             | Some p \<Rightarrow> if p \<noteq> [] then p @ ''-'' @ named else named, n')))"

definition rand_url :: "(nat \<Rightarrow> nat) \<Rightarrow> nat \<Rightarrow> string drawn" where
  "rand_url rnd n =
     (case randint rnd 1 max_rand n of (i, n') \<Rightarrow> (''https://url-'' @ int_str i @ ''.com'', n'))"

definition rand_int_id :: "(nat \<Rightarrow> nat) \<Rightarrow> int \<Rightarrow> int \<Rightarrow> nat \<Rightarrow> int drawn" where
  "rand_int_id rnd low high n = randint rnd low high n"

text \<open>\<open>string.ascii_uppercase\<close>, \<open>ascii_letters\<close>, \<open>digits\<close> and the special characters.\<close>

definition ascii_uppercase :: string where
  "ascii_uppercase = ''ABCDEFGHIJKLMNOPQRSTUVWXYZ''"

definition ascii_letters :: string where
  "ascii_letters = ''abcdefghijklmnopqrstuvwxyz'' @ ascii_uppercase"

definition ascii_digits :: string where
  "ascii_digits = ''0123456789''"

definition puncs :: string where
  "puncs = ''~!@#$%^&*_=+''"

definition rand_password :: "(nat \<Rightarrow> nat) \<Rightarrow> int \<Rightarrow> nat \<Rightarrow> string drawn" where
  "rand_password rnd len n =
     (case choice rnd ascii_uppercase n of (upper, n1) \<Rightarrow>
     (case choice rnd ascii_digits n1 of (digit, n2) \<Rightarrow>
     (case choice rnd puncs n2 of (punc, n3) \<Rightarrow>
     (case draws (choice rnd (ascii_letters @ ascii_digits @ puncs)) (nat (len - 3)) n3 of (rest, n4) \<Rightarrow>
        ([upper, digit, punc] @ rest, n4)))))"

definition low_hex_digit :: "int \<Rightarrow> char" where
  "low_hex_digit i = ''0123456789abcdef'' ! nat i"

text \<open>\<open>\"%02x\" % x\<close> of a byte.\<close>

definition hex2 :: "int \<Rightarrow> string" where
  "hex2 i = [low_hex_digit (i div 16), low_hex_digit (i mod 16)]"

definition rand_mac_address :: "(nat \<Rightarrow> nat) \<Rightarrow> nat \<Rightarrow> string drawn" where
  "rand_mac_address rnd n =
     (case draws (randint rnd 0 255) 3 n of (bs, n') \<Rightarrow>
        (str_join '':'' (map hex2 ([250, 22, 62] @ bs)), n'))"

definition random_bytes :: "(nat \<Rightarrow> nat) \<Rightarrow> int \<Rightarrow> nat \<Rightarrow> string drawn" where
  "random_bytes rnd len n =
     (case draws (randint rnd 0 255) (nat len) n of (bs, n') \<Rightarrow> (map (\<lambda>b. char_of (nat b)) bs, n'))"

section \<open>Texts\<close>

definition parse_image_id :: "string \<Rightarrow> string" where
  "parse_image_id image_ref = last (str_split (CHR ''/'') image_ref)"

text \<open>\<open>islice(cycle(base), n)\<close>: the second argument is what is left of the current pass.\<close>

fun cycle_take :: "'a list \<Rightarrow> 'a list \<Rightarrow> nat \<Rightarrow> 'a list" where
  "cycle_take base cur 0 = []"
| "cycle_take base (c # cur) (Suc n) = c # cycle_take base cur n"
| "cycle_take base [] (Suc n) = (case base of [] \<Rightarrow> [] | b # bs \<Rightarrow> b # cycle_take base bs n)"

definition arbitrary_string :: "int \<Rightarrow> string option \<Rightarrow> pyexc + string" where
  "arbitrary_string len base_text =
     (let base = (case base_text of None \<Rightarrow> ''test'' | Some b \<Rightarrow> if b = [] then ''test'' else b)
      in if len < 0 then Inl ValueErr else Inr (cycle_take base base (nat len)))"

section \<open>Addresses\<close>

record netaddr =
  na_valid_ipv4 :: "string \<Rightarrow> bool"
  na_eui64 :: "string \<Rightarrow> pyexc + int"
  na_first :: "string \<Rightarrow> pyexc + int"
  na_address :: "int \<Rightarrow> pyexc + int"

text \<open>
  \<open>prefix.first + eui64 ^ (1 << 57)\<close>: the sum binds tighter. \<open>AddrFormatError\<close> is netaddr's, a
  \<open>PlainExc\<close>; it, \<open>ValueError\<close> and \<open>TypeError\<close> become a \<open>TypeError\<close>.
\<close>

definition format_error :: "pyexc \<Rightarrow> bool" where
  "format_error e = (e = ValueErr \<or> e = TypeErr \<or> e = PlainExc ''AddrFormatError'')"

definition get_ipv6_addr_by_EUI64 :: "netaddr \<Rightarrow> string \<Rightarrow> string \<Rightarrow> pyexc + int" where
  "get_ipv6_addr_by_EUI64 na cidr mac =
     (if na_valid_ipv4 na cidr then Inl TypeErr
      else
        (case bindE (na_eui64 na mac) (\<lambda>eui64.
              bindE (na_first na cidr) (\<lambda>first. na_address na ((first + eui64) XOR 2 ^ 57))) of
           Inl e \<Rightarrow> if format_error e then Inl TypeErr else Inl e
         | Inr a \<Rightarrow> Inr a))"

section \<open>What they compute\<close>

lemma cycle_take_nth:
  "base \<noteq> [] \<Longrightarrow> cur = drop k base \<Longrightarrow> k \<le> length base \<Longrightarrow>
   cycle_take base cur n = map (\<lambda>i. base ! ((k + i) mod length base)) [0..<n]"
proof (induction n arbitrary: cur k)
  case (Suc n)
  have upt: "[0..<Suc n] = 0 # map Suc [0..<n]" unfolding map_Suc_upt by (rule upt_conv_Cons) simp
  show ?case
  proof (cases "k = length base")
    case True
    obtain b bs where base: "base = b # bs" using Suc.prems(1) by (cases base) auto
    then have bs: "bs = drop 1 base" "1 \<le> length base" by simp_all
    have "cycle_take base cur (Suc n) = b # cycle_take base bs n"
      using True Suc.prems(2) by (simp add: base)
    also have "cycle_take base bs n = map (\<lambda>i. base ! ((1 + i) mod length base)) [0..<n]"
      by (rule Suc.IH [OF Suc.prems(1) bs])
    also have "b = base ! 0" by (simp add: base)
    finally show ?thesis
      unfolding upt using True by (simp add: comp_def)
  next
    case False
    then have k: "k < length base" using Suc.prems(3) by simp
    then have "drop k base = base ! k # drop (Suc k) base" by (simp add: Cons_nth_drop_Suc)
    moreover have "cycle_take base (drop (Suc k) base) n = map (\<lambda>i. base ! ((Suc k + i) mod length base)) [0..<n]"
      using Suc.IH [of "drop (Suc k) base" "Suc k"] Suc.prems(1) k by simp
    ultimately show ?thesis
      using Suc.prems(2) k unfolding upt by (simp add: comp_def)
  qed
qed simp

lemma xor_high:
  fixes a e :: int
  assumes a: "2 ^ n dvd a" and e: "0 \<le> e" "e < 2 ^ n" and m: "m < n"
  shows "(a + e) XOR 2 ^ m = a + (e XOR 2 ^ m)"
proof -
  have small: "take_bit n e = e" "take_bit n ((2::int) ^ m) = 2 ^ m"
    using e m by (simp_all add: take_bit_int_eq_self_iff)
  have low: "\<not> bit a k" if "k < n" for k
  proof -
    have "take_bit n a = 0" using a by (simp add: take_bit_eq_mod mod_eq_0_iff_dvd)
    then have "bit (take_bit n a) k = False" by simp
    then show ?thesis using that by (simp add: bit_take_bit_iff)
  qed
  have sum: "a + x = a OR x" if "take_bit n x = x" for x
  proof (rule disjunctive_add)
    fix k
    have "bit x k \<longrightarrow> k < n" by (metis that bit_take_bit_iff)
    then show "\<not> bit a k \<or> \<not> bit x k" using low by blast
  qed
  have "take_bit n (e XOR 2 ^ m) = e XOR 2 ^ m"
    unfolding take_bit_xor small by (rule refl)
  then have "a + (e XOR 2 ^ m) = a OR (e XOR 2 ^ m)" by (rule sum)
  moreover have "(a OR e) XOR 2 ^ m = a OR (e XOR 2 ^ m)"
    by (rule bit_eqI) (use low [OF m] in \<open>auto simp: bit_simps\<close>)
  ultimately show ?thesis using sum [OF small(1)] by simp
qed

end
