(* ===== verification/IsolatedCreds.thy ===== *)
theory IsolatedCreds
  imports IdentityClients NetworkClient CredProvider DataUtils
begin

text \<open>
  Credentials made on the fly, \<open>automation/common/isolated_creds.py\<close>: a project, a user with its roles and,
  on demand, a network of its own, all through administrator's clients, and their removal.

  The clients are used through \<open>request\<close>, the record \<open>admins\<close>; the object \<open>IsolatedCreds\<close> is the record
  \<open>isolated\<close>. A computation runs on the pair of the object and the world. What \<open>netaddr\<close> makes of the
  configured range, the order of a set and the random numbers are parameters of \<open>iso_conf\<close>.
\<close>

section \<open>State\<close>

record 'w admins =
  ad_identity :: "'w requester"
  ad_network :: "'w requester"
  ad_manager_network :: "'w requester"
  ad_compute :: "'w requester"

record iso_conf =
  ic_conf :: conf
  ic_tempest_roles :: "string list"
  ic_subnets :: "string list"
  ic_public_network :: py
  ic_neutron :: bool
  ic_baremetal :: bool
  ic_isolated_networks :: bool
  ic_rnd :: "nat \<Rightarrow> nat"
  ic_uuid :: "nat \<Rightarrow> string"
  ic_order :: "string list \<Rightarrow> string list"

text \<open>
  The object. No \<open>network_resources\<close> is the empty dictionary; \<open>is_domain\<close> is \<open>creds_domain\<close>, for v3 only;
  \<open>is_pos\<close> is the position in the random numbers.
\<close>

record isolated =
  is_name :: string
  is_version :: string
  is_resources :: "(string, py) dict"
  is_creds :: "(string, test_resources) dict"
  is_domain :: py
  is_pos :: nat

definition on_net :: "('w, 'a) io \<Rightarrow> (isolated \<times> 'w, 'a) io" where
  "on_net m = (\<lambda>(s, w). case m w of (r, w') \<Rightarrow> (r, (s, w')))"

definition upd_iso :: "(isolated \<Rightarrow> isolated) \<Rightarrow> (isolated \<times> 'w, unit) io" where
  "upd_iso f = modify (\<lambda>(s, w). (f s, w))"

definition get_iso :: "(isolated \<Rightarrow> 'a) \<Rightarrow> (isolated \<times> 'w, 'a) io" where
  "get_iso f = gets (\<lambda>(s, w). f s)"

definition draw :: "(nat \<Rightarrow> 'a drawn) \<Rightarrow> (isolated \<times> 'w, 'a) io" where
  "draw f = (\<lambda>(s, w). case f (is_pos s) of (x, n) \<Rightarrow> (Inr x, (s\<lparr>is_pos := n\<rparr>, w)))"

text \<open>\<open>except exceptions.NotFound\<close> with nothing but a log entry.\<close>

definition ignore_missing :: "('w, 'a) io \<Rightarrow> ('w, unit) io" where
  "ignore_missing m =
     catch (bnd m (\<lambda>_. ret ())) (\<lambda>e. if catches NotFound e then Some (ret ()) else None)"

section \<open>The identity clients behind one interface\<close>

text \<open>\<open>V2CredsClient\<close> goes with version v2, \<open>V3CredsClient\<close> with any other.\<close>

definition cc_create_user ::
    "'r env \<Rightarrow> 'w admins \<Rightarrow> string \<Rightarrow> string \<Rightarrow> response_body \<Rightarrow> string \<Rightarrow> (isolated \<times> 'w, response_body) io" where
  "cc_create_user env ad username password project email =
     bnd (lift (rb_item project ''id'')) (\<lambda>project_id.
     bnd (get_iso is_version) (\<lambda>v. on_net (
       if v = ''v2'' then id2_create_user env (ad_identity ad) (PStr username) (PStr password) project_id (PStr email) []
       else id3_create_user env (ad_identity ad) (PStr username) (PStr password) project_id (PStr email)
              (PStr ''default'') [])))"

definition cc_create_project :: "'r env \<Rightarrow> 'w admins \<Rightarrow> string \<Rightarrow> string \<Rightarrow> (isolated \<times> 'w, response_body) io" where
  "cc_create_project env ad name description =
     bnd (get_iso is_version) (\<lambda>v.
       if v = ''v2''
       then on_net (id2_create_tenant env (ad_identity ad) (PStr name) [(''description'', PStr description)])
       else
         bnd (bnd (get_iso is_domain) (\<lambda>d. lift (getitem d ''id''))) (\<lambda>domain_id.
           on_net (id3_create_project env (ad_identity ad) (PStr name)
             [(''description'', PStr description), (''domain_id'', domain_id)])))"

definition cc_list_roles :: "'r env \<Rightarrow> 'w admins \<Rightarrow> (isolated \<times> 'w, response_list) io" where
  "cc_list_roles env ad =
     bnd (get_iso is_version) (\<lambda>v. on_net (
       if v = ''v2'' then id2_list_roles env (ad_identity ad) else id3_list_roles env (ad_identity ad)))"

text \<open>\<open>except StopIteration\<close>: no role with the name, or an answer that \<open>_parse_resp\<close> finds nothing in.\<close>

definition cc_check_role_exists :: "'r env \<Rightarrow> 'w admins \<Rightarrow> string \<Rightarrow> (isolated \<times> 'w, py option) io" where
  "cc_check_role_exists env ad role_name =
     catch (bnd (cc_list_roles env ad) (\<lambda>roles. lift (first_with ''name'' (PStr role_name) (rl_data roles))))
       (\<lambda>e. if e = StopIter then Some (ret None) else None)"

definition cc_create_user_role :: "'r env \<Rightarrow> 'w admins \<Rightarrow> string \<Rightarrow> (isolated \<times> 'w, unit) io" where
  "cc_create_user_role env ad role_name =
     bnd (cc_check_role_exists env ad role_name) (\<lambda>role.
       if role \<noteq> None then ret ()
       else bnd (get_iso is_version) (\<lambda>v. on_net (
         if v = ''v2'' then bnd (id2_create_role env (ad_identity ad) (PStr role_name)) (\<lambda>_. ret ())
         else bnd (id3_create_role env (ad_identity ad) (PStr role_name)) (\<lambda>_. ret ()))))"

definition cc_assign_user_role ::
    "'r env \<Rightarrow> 'w admins \<Rightarrow> response_body \<Rightarrow> response_body \<Rightarrow> string \<Rightarrow> (isolated \<times> 'w, unit) io" where
  "cc_assign_user_role env ad user project role_name =
     (let txt1 = py_text (e_repr env) in
      bnd (cc_check_role_exists env ad role_name) (\<lambda>found.
        case found of
          None \<Rightarrow> throw (Auto NotFound [PStr (''No \"'' @ role_name @ ''\" role found'')] [])
        | Some role \<Rightarrow>
            catch
              (bnd (lift (rb_item project ''id'')) (\<lambda>p.
               bnd (lift (rb_item user ''id'')) (\<lambda>u.
               bnd (lift (getitem role ''id'')) (\<lambda>r.
               bnd (get_iso is_version) (\<lambda>v. on_net (
                 if v = ''v2''
                 then bnd (id2_assign_user_role env (ad_identity ad) (txt1 p) (txt1 u) (txt1 r)) (\<lambda>_. ret ())
                 else bnd (id3_assign_user_role (ad_identity ad) (txt1 p) (txt1 u) (txt1 r)) (\<lambda>_. ret ())))))))
              (\<lambda>e. if catches Conflict e then Some (ret ()) else None)))"

definition cc_get_credentials ::
    "'r env \<Rightarrow> iso_conf \<Rightarrow> response_body \<Rightarrow> response_body \<Rightarrow> string
     \<Rightarrow> (isolated \<times> ('r, 'x) world_scheme, credentials) io" where
  "cc_get_credentials env ic user project password =
     bnd (get_iso is_version) (\<lambda>v.
     bnd (lift (rb_item user ''name'')) (\<lambda>uname.
     bnd (lift (rb_item user ''id'')) (\<lambda>uid.
     bnd (lift (rb_item project ''name'')) (\<lambda>pname.
     bnd (lift (rb_item project ''id'')) (\<lambda>pid.
       if v = ''v2''
       then on_net (on_world (provided_credentials env (ic_conf ic) True (Some ''v2'')
              [(''username'', uname), (''user_id'', uid), (''tenant_name'', pname), (''tenant_id'', pid),
               (''password'', PStr password)]))
       else
         bnd (bnd (get_iso is_domain) (\<lambda>d. lift (getitem d ''name''))) (\<lambda>dname.
           on_net (on_world (provided_credentials env (ic_conf ic) True (Some ''v3'')
              [(''username'', uname), (''user_id'', uid), (''project_name'', pname), (''project_id'', pid),
               (''password'', PStr password), (''project_domain_name'', dname)]))))))))"

definition cc_delete_user :: "'r env \<Rightarrow> 'w admins \<Rightarrow> py \<Rightarrow> (isolated \<times> 'w, unit) io" where
  "cc_delete_user env ad user_id =
     bnd (get_iso is_version) (\<lambda>v. on_net (
       if v = ''v2'' then bnd (id2_delete_user (ad_identity ad) (py_text (e_repr env) user_id)) (\<lambda>_. ret ())
       else bnd (id3_delete_user (ad_identity ad) (py_text (e_repr env) user_id)) (\<lambda>_. ret ())))"

definition cc_delete_project :: "'r env \<Rightarrow> 'w admins \<Rightarrow> py \<Rightarrow> (isolated \<times> 'w, unit) io" where
  "cc_delete_project env ad project_id =
     bnd (get_iso is_version) (\<lambda>v. on_net (
       if v = ''v2'' then bnd (id2_delete_tenant (ad_identity ad) (py_text (e_repr env) project_id)) (\<lambda>_. ret ())
       else bnd (id3_delete_project (ad_identity ad) (py_text (e_repr env) project_id)) (\<lambda>_. ret ())))"

text \<open>\<open>V3CredsClient.__init__\<close>: the domain of the created projects.\<close>

definition v3_creds_domain :: "'r env \<Rightarrow> 'w requester \<Rightarrow> py \<Rightarrow> ('w, py) io" where
  "v3_creds_domain env rq domain_name =
     catch (bnd (id3_list_domains env rq [(''name'', domain_name)]) (\<lambda>l. lift (py_first (PList (rl_data l)))))
       (\<lambda>e. if catches NotFound e
            then Some (throw (Auto InvalidConfiguration
              [PStr (''Configured domain '' @ py_text (e_repr env) domain_name @ '' could not be found'')] []))
            else None)"

text \<open>
  \<open>IsolatedCreds.__init__\<close>: the default administrator's credentials, then the domain. Building the
  clients sends nothing.
\<close>

definition isolated_init ::
    "'r env \<Rightarrow> iso_conf \<Rightarrow> (('r, 'x) world_scheme) admins \<Rightarrow> string option \<Rightarrow> string option
     \<Rightarrow> (string, py) dict \<Rightarrow> nat \<Rightarrow> (('r, 'x) world_scheme, isolated) io" where
  "isolated_init env ic ad identity_version name resources pos =
     bnd (lift (credential_provider_init (ic_conf ic) identity_version name)) (\<lambda>(nm, v).
     bnd (on_world (get_configured_credentials env (ic_conf ic) ''identity_admin'' True (Some v))) (\<lambda>c.
     bnd (if v = ''v3'' then lift (cred_getattr c ''project_domain_name'') else ret PNone) (\<lambda>own.
     bnd (if v = ''v2'' then ret PNone
          else v3_creds_domain env (ad_identity ad)
                 (if v = ''v3'' then py_or own (cf_default_domain (ic_conf ic)) else PNone)) (\<lambda>domain.
       ret \<lparr>is_name = nm, is_version = v, is_resources = resources, is_creds = [], is_domain = domain,
            is_pos = pos\<rparr>))))"

section \<open>Creating credentials\<close>

text \<open>The availability zone: the first there is, or a new one with every host.\<close>

definition pick_zone :: "'r env \<Rightarrow> iso_conf \<Rightarrow> 'w admins \<Rightarrow> (isolated \<times> 'w, py) io" where
  "pick_zone env ic ad =
     bnd (on_net (list_availability_zones env (ad_compute ad))) (\<lambda>zones.
       case rl_data zones of
         [] \<Rightarrow>
           bnd (draw (\<lambda>n. (ic_uuid ic n, Suc n))) (\<lambda>u.
           bnd (on_net (add_availability_zone env (ad_compute ad) (PStr (''az_'' @ u)))) (\<lambda>new_az.
           bnd (lift (rb_item new_az ''az_name'')) (\<lambda>az_name.
           bnd (on_net (bind_all_hosts_to_az env (ad_compute ad) az_name)) (\<lambda>_. ret az_name))))
       | z # _ \<Rightarrow> lift (getitem z ''az_name''))"

definition rand_name_of :: "iso_conf \<Rightarrow> string \<Rightarrow> (isolated \<times> 'w, string) io" where
  "rand_name_of ic root = draw (rand_name (ic_rnd ic) root None)"

text \<open>\<open>roles\<close> is None or what the loop over the argument gives; the result says whether a role was assigned.\<close>

definition assign_roles ::
    "'r env \<Rightarrow> iso_conf \<Rightarrow> 'w admins \<Rightarrow> response_body \<Rightarrow> response_body \<Rightarrow> bool \<Rightarrow> string list
     \<Rightarrow> (isolated \<times> 'w, bool) io" where
  "assign_roles env ic ad user project admin roles =
     (let names = (if admin then [cf_admin_role (ic_conf ic)] else []) @ ic_tempest_roles ic @ roles
      in bnd (for_each names (cc_assign_user_role env ad user project)) (\<lambda>_. ret (names \<noteq> [])))"

definition create_creds ::
    "'r env \<Rightarrow> iso_conf \<Rightarrow> (('r, 'x) world_scheme) admins \<Rightarrow> string \<Rightarrow> bool \<Rightarrow> string list
     \<Rightarrow> (isolated \<times> ('r, 'x) world_scheme, test_resources) io" where
  "create_creds env ic ad suffix admin roles =
     bnd (get_iso is_name) (\<lambda>name.
       (let root = (if CHR ''.'' \<in> set name then [] else name) in
        bnd (rand_name_of ic root) (\<lambda>pn.
        bnd (cc_create_project env ad (pn @ suffix) (pn @ suffix @ ''-desc'')) (\<lambda>project.
        bnd (lift (rb_item project ''id'')) (\<lambda>tenant_id.
        bnd (pick_zone env ic ad) (\<lambda>az_name.
        bnd (on_net (associate_az_tenant env (ad_compute ad) az_name tenant_id)) (\<lambda>_.
        bnd (rand_name_of ic root) (\<lambda>un.
        bnd (draw (rand_password (ic_rnd ic) 15)) (\<lambda>user_password.
        bnd (rand_name_of ic root) (\<lambda>en.
        bnd (cc_create_user env ad (un @ suffix) user_password project (en @ suffix @ ''@example.com'')) (\<lambda>user.
        bnd (assign_roles env ic ad user project admin roles) (\<lambda>role_assigned.
        bnd (get_iso is_version) (\<lambda>v.
        bnd (if v = ''v3'' \<and> \<not> role_assigned
             then bnd (cc_create_user_role env ad ''Member'') (\<lambda>_. cc_assign_user_role env ad user project ''Member'')
             else ret ()) (\<lambda>_.
        bnd (cc_get_credentials env ic user project user_password) (\<lambda>creds.
          ret (test_resources_init creds))))))))))))))))"

section \<open>Creating networks\<close>

definition settings_error :: "string \<Rightarrow> pyexc" where
  "settings_error m = Auto InvalidConfiguration [PStr m] []"

text \<open>The checks of the settings: a router needs a subnet, a subnet a network, DHCP a subnet.\<close>

definition check_settings :: "(string, py) dict \<Rightarrow> pyexc + unit" where
  "check_settings res =
     (if res = [] then Inr ()
      else bindE (getitem (PDict res) ''router'') (\<lambda>router.
        if truthy router then
          bindE (getitem (PDict res) ''subnet'') (\<lambda>subnet.
            if \<not> truthy subnet then Inl (settings_error ''A router requires a subnet and network'')
            else bindE (getitem (PDict res) ''network'') (\<lambda>network.
              if \<not> truthy network then Inl (settings_error ''A router requires a subnet and network'')
              else Inr ()))
        else
          bindE (getitem (PDict res) ''subnet'') (\<lambda>subnet.
            if truthy subnet then
              bindE (getitem (PDict res) ''network'') (\<lambda>network.
                if \<not> truthy network then Inl (settings_error ''A subnet requires a network'') else Inr ())
            else
              bindE (getitem (PDict res) ''dhcp'') (\<lambda>dhcp.
                if truthy dhcp then Inl (settings_error ''DHCP requires a subnet'') else Inr ()))))"

definition iso_create_network :: "'r env \<Rightarrow> 'w requester \<Rightarrow> string \<Rightarrow> py \<Rightarrow> ('w, py) io" where
  "iso_create_network env nq name tenant_id =
     bnd (create_network env nq [(''name'', PStr name), (''tenant_id'', tenant_id)]) (\<lambda>b.
       lift (rb_item b ''network''))"

definition subnet_fields ::
    "(string, py) dict \<Rightarrow> string \<Rightarrow> py \<Rightarrow> py \<Rightarrow> string \<Rightarrow> pyexc + (string, py) dict" where
  "subnet_fields res name tenant_id network_id cidr =
     (if res \<noteq> [] then
        bindE (getitem (PDict res) ''dhcp'') (\<lambda>dhcp.
          Inr [(''network_id'', network_id), (''cidr'', PStr cidr), (''name'', PStr name),
               (''tenant_id'', tenant_id), (''enable_dhcp'', dhcp), (''ip_version'', PInt 4)])
      else
        Inr [(''network_id'', network_id), (''cidr'', PStr cidr), (''name'', PStr name),
             (''tenant_id'', tenant_id), (''ip_version'', PInt 4)])"

text \<open>\<open>str(e)\<close> of an exception of the module.\<close>

definition exc_text :: "'r env \<Rightarrow> pyexc \<Rightarrow> string" where
  "exc_text env e = (case e of Auto c args kw \<Rightarrow> error_string (e_repr env) c args kw | _ \<Rightarrow> [])"

definition overlaps :: "'r env \<Rightarrow> pyexc \<Rightarrow> bool" where
  "overlaps env e = (catches BadRequest e \<and> str_contains ''overlaps with another subnet'' (exc_text env e))"

fun try_subnets :: "'r env \<Rightarrow> (string \<Rightarrow> ('w, response_body) io) \<Rightarrow> string list \<Rightarrow> ('w, response_body) io" where
  "try_subnets env create [] = throw (PlainExc ''Available CIDR for subnet creation could not be found'')"
| "try_subnets env create (cidr # cidrs) =
     catch (create cidr) (\<lambda>e. if overlaps env e then Some (try_subnets env create cidrs) else None)"

definition iso_create_subnet ::
    "'r env \<Rightarrow> iso_conf \<Rightarrow> 'w requester \<Rightarrow> (string, py) dict \<Rightarrow> string \<Rightarrow> py \<Rightarrow> py \<Rightarrow> ('w, py) io" where
  "iso_create_subnet env ic nq res name tenant_id network_id =
     bnd (try_subnets env
            (\<lambda>cidr. bnd (lift (subnet_fields res name tenant_id network_id cidr)) (create_subnet env nq))
            (ic_subnets ic)) (\<lambda>b.
       lift (rb_item b ''subnet''))"

definition iso_create_router :: "'r env \<Rightarrow> iso_conf \<Rightarrow> 'w requester \<Rightarrow> string \<Rightarrow> py \<Rightarrow> ('w, py) io" where
  "iso_create_router env ic nq name tenant_id =
     bnd (create_router env nq (PStr name) (PBool True)
            [(''external_gateway_info'', PDict [(''network_id'', ic_public_network ic)]), (''tenant_id'', tenant_id)]) (\<lambda>b.
       lift (rb_item b ''router''))"

definition add_router_interface :: "'r env \<Rightarrow> 'w requester \<Rightarrow> py \<Rightarrow> py \<Rightarrow> ('w, unit) io" where
  "add_router_interface env nq router subnet =
     bnd (lift (getitem router ''id'')) (\<lambda>r.
     bnd (lift (getitem subnet ''id'')) (\<lambda>s.
     bnd (add_router_interface_with_subnet_id env nq (py_text (e_repr env) r) s) (\<lambda>_. ret ())))"

text \<open>\<open>_clear_isolated_router\<close>, \<open>_subnet\<close> and \<open>_network\<close>, on \<open>resource['id']\<close> and \<open>resource['name']\<close>.\<close>

definition clear_resource :: "'r env \<Rightarrow> (string \<Rightarrow> ('w, response_body) io) \<Rightarrow> py \<Rightarrow> ('w, unit) io" where
  "clear_resource env delete resource =
     bnd (lift (getitem resource ''id'')) (\<lambda>i.
     bnd (lift (getitem resource ''name'')) (\<lambda>n.
       ignore_missing (delete (py_text (e_repr env) i))))"

definition clear_created :: "'r env \<Rightarrow> 'w requester \<Rightarrow> py \<Rightarrow> py \<Rightarrow> py \<Rightarrow> ('w, unit) io" where
  "clear_created env nq router subnet network =
     bnd (if truthy router then clear_resource env (delete_router nq) router else ret ()) (\<lambda>_.
     bnd (if truthy subnet then clear_resource env (delete_subnet nq) subnet else ret ()) (\<lambda>_.
       if truthy network then clear_resource env (delete_network nq) network else ret ()))"

text \<open>\<open>except Exception: clean up; raise\<close>.\<close>

definition or_clear :: "('w, 'a) io \<Rightarrow> ('w, unit) io \<Rightarrow> ('w, 'a) io" where
  "or_clear m cleanup = catch m (\<lambda>e. Some (bnd cleanup (\<lambda>_. throw e)))"

definition when_wanted :: "'r env \<Rightarrow> (string, py) dict \<Rightarrow> string \<Rightarrow> ('w, py) io \<Rightarrow> ('w, py) io" where
  "when_wanted env res key m =
     bnd (if res = [] then ret True else bnd (lift (getitem (PDict res) key)) (\<lambda>v. ret (truthy v))) (\<lambda>wanted.
       if wanted then m else ret PNone)"

text \<open>What is created inside the \<open>try\<close>, with what there is to clear at every step.\<close>

definition network_resources ::
    "'r env \<Rightarrow> iso_conf \<Rightarrow> 'w requester \<Rightarrow> (string, py) dict \<Rightarrow> string \<Rightarrow> py \<Rightarrow> ('w, py \<times> py \<times> py) io" where
  "network_resources env ic nq res root tenant_id =
     bnd (when_wanted env res ''network'' (iso_create_network env nq (root @ ''-network'') tenant_id)) (\<lambda>network.
     bnd (or_clear
            (when_wanted env res ''subnet''
               (bnd (lift (getitem network ''id'')) (\<lambda>n.
                  iso_create_subnet env ic nq res (root @ ''-subnet'') tenant_id n)))
            (clear_created env nq PNone PNone network)) (\<lambda>subnet.
     bnd (or_clear
            (when_wanted env res ''router'' (iso_create_router env ic nq (root @ ''-router'') tenant_id))
            (clear_created env nq PNone subnet network)) (\<lambda>router.
     bnd (or_clear
            (when_wanted env res ''router'' (bnd (add_router_interface env nq router subnet) (\<lambda>_. ret PNone)))
            (clear_created env nq router subnet network)) (\<lambda>_.
       ret (network, subnet, router)))))"

definition create_network_resources ::
    "'r env \<Rightarrow> iso_conf \<Rightarrow> 'w admins \<Rightarrow> py \<Rightarrow> (isolated \<times> 'w, py \<times> py \<times> py) io" where
  "create_network_resources env ic ad tenant_id =
     bnd (get_iso is_resources) (\<lambda>res.
     bnd (lift (check_settings res)) (\<lambda>_.
     bnd (get_iso is_name) (\<lambda>name.
     bnd (rand_name_of ic name) (\<lambda>root.
       on_net (network_resources env ic (ad_network ad) res root tenant_id)))))"

section \<open>Handing out credentials\<close>

datatype cred_type = Named string | Roles "string list"

definition type_key :: "'r env \<Rightarrow> cred_type \<Rightarrow> string" where
  "type_key env t = (case t of Named s \<Rightarrow> s | Roles rs \<Rightarrow> e_repr env (PList (map PStr rs)))"

definition creds_for ::
    "'r env \<Rightarrow> iso_conf \<Rightarrow> (('r, 'x) world_scheme) admins \<Rightarrow> cred_type
     \<Rightarrow> (isolated \<times> ('r, 'x) world_scheme, test_resources) io" where
  "creds_for env ic ad t =
     (case t of
        Named s \<Rightarrow>
          if s \<in> {''primary'', ''alt'', ''admin''} then create_creds env ic ad [] (s = ''admin'') []
          else create_creds env ic ad [] False (map (\<lambda>c. [c]) s)
      | Roles rs \<Rightarrow> create_creds env ic ad [] False rs)"

definition set_resources :: "py \<times> py \<times> py \<Rightarrow> test_resources \<Rightarrow> test_resources" where
  "set_resources = (\<lambda>(network, subnet, router) t.
     t\<lparr>tr_network := network, tr_subnet := subnet, tr_router := router\<rparr>)"

text \<open>The credentials are entered before their network is created.\<close>

definition iso_get_credentials ::
    "'r env \<Rightarrow> iso_conf \<Rightarrow> (('r, 'x) world_scheme) admins \<Rightarrow> cred_type
     \<Rightarrow> (isolated \<times> ('r, 'x) world_scheme, test_resources) io" where
  "iso_get_credentials env ic ad t =
     bnd (get_iso (\<lambda>s. dget (is_creds s) (type_key env t))) (\<lambda>found.
       case found of
         Some c \<Rightarrow> ret c
       | None \<Rightarrow>
           bnd (creds_for env ic ad t) (\<lambda>c.
           bnd (upd_iso (\<lambda>s. s\<lparr>is_creds := dset (is_creds s) (type_key env t) c\<rparr>)) (\<lambda>_.
             if ic_neutron ic \<and> \<not> ic_baremetal ic \<and> ic_isolated_networks ic then
               bnd (lift (cred_getattr (tr_credentials c) ''tenant_id'')) (\<lambda>tenant_id.
               bnd (create_network_resources env ic ad tenant_id) (\<lambda>nets.
               bnd (upd_iso (\<lambda>s. s\<lparr>is_creds := dset (is_creds s) (type_key env t) (set_resources nets c)\<rparr>)) (\<lambda>_.
                 ret (set_resources nets c))))
             else ret c)))"

definition iso_get_primary_creds where
  "iso_get_primary_creds env ic ad = iso_get_credentials env ic ad (Named ''primary'')"

definition iso_get_admin_creds where
  "iso_get_admin_creds env ic ad = iso_get_credentials env ic ad (Named ''admin'')"

definition iso_get_alt_creds where
  "iso_get_alt_creds env ic ad = iso_get_credentials env ic ad (Named ''alt'')"

text \<open>With \<open>force_new\<close> the credentials there are move to a key of their own.\<close>

definition iso_get_creds_by_roles ::
    "'r env \<Rightarrow> iso_conf \<Rightarrow> (('r, 'x) world_scheme) admins \<Rightarrow> string list \<Rightarrow> bool
     \<Rightarrow> (isolated \<times> ('r, 'x) world_scheme, test_resources) io" where
  "iso_get_creds_by_roles env ic ad roles force_new =
     (let rs = ic_order ic roles; key = type_key env (Roles rs) in
      bnd (get_iso (\<lambda>s. dget (is_creds s) key)) (\<lambda>exist_creds.
      bnd (case exist_creds of
             Some c \<Rightarrow>
               if force_new
               then upd_iso (\<lambda>s.
                 (let new_index = key @ ''-'' @ int_str (int (length (is_creds s)))
                  in s\<lparr>is_creds := ddel (dset (is_creds s) new_index c) key\<rparr>))
               else ret ()
           | None \<Rightarrow> ret ()) (\<lambda>_.
        iso_get_credentials env ic ad (Roles rs))))"

section \<open>Removing credentials\<close>

definition cleanup_default_secgroup :: "'r env \<Rightarrow> 'w requester \<Rightarrow> py \<Rightarrow> ('w, unit) io" where
  "cleanup_default_secgroup env nq tenant =
     bnd (list_security_groups env nq [(''tenant_id'', tenant), (''name'', PStr ''default'')]) (\<lambda>b.
     bnd (lift (bindE (rb_item b ''security_groups'') py_iter)) (\<lambda>groups.
       for_each groups (\<lambda>g.
         bnd (lift (getitem g ''id'')) (\<lambda>i.
           catch (bnd (delete_security_group nq (py_text (e_repr env) i)) (\<lambda>_. ret ()))
             (\<lambda>e. if catches NotFound e then Some (bnd (lift (getitem g ''name'')) (\<lambda>_. ret ())) else None)))))"

text \<open>\<open>self.network_resources.get(key)\<close>, or no settings at all.\<close>

definition was_wanted :: "(string, py) dict \<Rightarrow> string \<Rightarrow> bool" where
  "was_wanted res key = (res = [] \<or> truthy (kw_get res key PNone))"

definition detach_router :: "'r env \<Rightarrow> 'w requester \<Rightarrow> py \<Rightarrow> py \<Rightarrow> ('w, unit) io" where
  "detach_router env nq router subnet =
     bnd (lift (getitem router ''id'')) (\<lambda>r.
     bnd (lift (getitem subnet ''id'')) (\<lambda>s.
       catch (bnd (remove_router_interface_with_subnet_id env nq (py_text (e_repr env) r) s) (\<lambda>_. ret ()))
         (\<lambda>e. if catches NotFound e then Some (bnd (lift (getitem router ''name'')) (\<lambda>_. ret ())) else None)))"

definition clear_net_of :: "'r env \<Rightarrow> 'w requester \<Rightarrow> (string, py) dict \<Rightarrow> test_resources \<Rightarrow> ('w, unit) io" where
  "clear_net_of env nq res c =
     (if \<not> truthy (tr_router c) \<and> \<not> truthy (tr_network c) \<and> \<not> truthy (tr_subnet c) then ret ()
      else
        bnd (if res = [] \<or> truthy (kw_get res ''router'' PNone) \<and> truthy (tr_subnet c)
             then bnd (detach_router env nq (tr_router c) (tr_subnet c)) (\<lambda>_.
                    clear_resource env (delete_router nq) (tr_router c))
             else ret ()) (\<lambda>_.
        bnd (if was_wanted res ''subnet'' then clear_resource env (delete_subnet nq) (tr_subnet c) else ret ()) (\<lambda>_.
          if was_wanted res ''network'' then clear_resource env (delete_network nq) (tr_network c) else ret ())))"

definition clear_net_resources :: "'r env \<Rightarrow> 'w admins \<Rightarrow> (isolated \<times> 'w, unit) io" where
  "clear_net_resources env ad =
     bnd (get_iso is_creds) (\<lambda>creds.
     bnd (get_iso is_resources) (\<lambda>res.
       for_each (map snd creds) (\<lambda>c. on_net (clear_net_of env (ad_network ad) res c))))"

text \<open>The network that a highly available router leaves behind.\<close>

definition clear_ha_network :: "'r env \<Rightarrow> 'w requester \<Rightarrow> py \<Rightarrow> ('w, unit) io" where
  "clear_ha_network env nq tenant_id =
     bnd (list_networks env nq [(''name'', PStr (''HA network tenant '' @ py_text (e_repr env) tenant_id))]) (\<lambda>nets.
       if rb_data nets = [] then ret ()
       else bnd (lift (rb_item nets ''networks'')) (\<lambda>networks.
         if \<not> truthy networks then ret ()
         else bnd (lift (bindE (py_first networks) (\<lambda>n. getitem n ''id''))) (\<lambda>i.
           bnd (delete_network nq (py_text (e_repr env) i)) (\<lambda>_. ret ()))))"

definition remove_one :: "'r env \<Rightarrow> iso_conf \<Rightarrow> 'w admins \<Rightarrow> test_resources \<Rightarrow> (isolated \<times> 'w, unit) io" where
  "remove_one env ic ad c =
     bnd (lift (cred_getattr (tr_credentials c) ''user_id'')) (\<lambda>user_id.
     bnd (ignore_missing (cc_delete_user env ad user_id)) (\<lambda>_.
       ignore_missing (
         bnd (lift (cred_getattr (tr_credentials c) ''tenant_id'')) (\<lambda>tenant_id.
         bnd (if ic_neutron ic
              then on_net (bnd (cleanup_default_secgroup env (ad_network ad) tenant_id) (\<lambda>_.
                     clear_ha_network env (ad_manager_network ad) tenant_id))
              else ret ()) (\<lambda>_.
           cc_delete_project env ad tenant_id)))))"

definition iso_clear_isolated_creds :: "'r env \<Rightarrow> iso_conf \<Rightarrow> 'w admins \<Rightarrow> (isolated \<times> 'w, unit) io" where
  "iso_clear_isolated_creds env ic ad =
     bnd (get_iso is_creds) (\<lambda>creds.
       if creds = [] then ret ()
       else
         bnd (clear_net_resources env ad) (\<lambda>_.
         bnd (for_each (map snd creds) (remove_one env ic ad)) (\<lambda>_.
           upd_iso (\<lambda>s. s\<lparr>is_creds := []\<rparr>))))"

end
