(* ===== verification/IsolatedProps.thy ===== *)
theory IsolatedProps
  imports IsolatedCreds Demo
begin

text \<open>
  The properties of the isolated credentials: what is owed to the network service after
  a creation that succeeds or fails, the settings that are accepted, and what is kept in the table of credentials.
  Then the table: which operations keep it, what a failed creation leaves in it, and when it is emptied.
\<close>

section \<open>What is owed to the network service\<close>

text \<open>
  The exchanges with the network service are recorded: method, URL and the outcome of \<open>request\<close>. From them follows
  what is owed: a resource whose creation was answered, until a deletion of it was answered or found nothing. A
  deletion that is refused for another reason (409, 403, 500 and so on) releases nothing, and a creation that is
  refused owes nothing.
\<close>

definition names_resource :: "'r env \<Rightarrow> string \<Rightarrow> answer \<Rightarrow> string \<Rightarrow> bool" where
  "names_resource env kind a i =
     (\<exists>b d v n. resource_reply env 201 a = Inr b \<and> dget (rb_data b) kind = Some (PDict d)
        \<and> dget d ''id'' = Some v \<and> dget d ''name'' = Some n \<and> i = py_text (e_repr env) v)"

definition kind_path :: "string \<Rightarrow> string" where
  "kind_path kind = ''v2.0/'' @ kind @ ''s''"

type_synonym exchange = "string \<times> string \<times> (pyexc + answer)"

definition kinds :: "string set" where
  "kinds = {''network'', ''subnet'', ''router''}"

definition after_exchange :: "'r env \<Rightarrow> exchange \<Rightarrow> (string \<times> string) set \<Rightarrow> (string \<times> string) set" where
  "after_exchange env x owed =
     (case x of (method, url, r) \<Rightarrow>
        if method = ''POST'' then
          (case r of
             Inl e \<Rightarrow> owed
           | Inr a \<Rightarrow> owed \<union> {(kind, i). kind \<in> kinds \<and> url = kind_path kind \<and> names_resource env kind a i})
        else if method = ''DELETE'' then
          (case r of
             Inl e \<Rightarrow> if catches NotFound e
                      then owed - {(kind, i). kind \<in> kinds \<and> url = kind_path kind @ ''/'' @ i} else owed
           | Inr a \<Rightarrow> owed - {(kind, i). kind \<in> kinds \<and> url = kind_path kind @ ''/'' @ i})
        else owed)"

definition owed_after :: "'r env \<Rightarrow> exchange list \<Rightarrow> (string \<times> string) set" where
  "owed_after env xs = fold (after_exchange env) xs {}"

lemma owed_after_snoc: "owed_after env (xs @ [x]) = after_exchange env x (owed_after env xs)"
  by (simp add: owed_after_def)

text \<open>The last exchange was a deletion, refused with this exception.\<close>

definition deletion_refused :: "pyexc \<Rightarrow> exchange list \<Rightarrow> bool" where
  "deletion_refused e xs =
     (\<not> catches NotFound e \<and> (\<exists>ys url. xs = ys @ [(''DELETE'', url, Inl e)]))"

definition logs_exchanges :: "'w requester \<Rightarrow> ('w \<Rightarrow> exchange list) \<Rightarrow> bool" where
  "logs_exchanges rq log =
     (\<forall>m u x h b w r w'. rq m u x h b w = (r, w') \<longrightarrow> log w' = log w @ [(m, u, r)])"

text \<open>
  The answers that the API reference of the service documents: a successful creation is a 201 with the resource, its
  id and its name; a successful deletion is a 204 without a body. A request may fail in any way.
\<close>

definition documented_answers :: "'r env \<Rightarrow> 'w requester \<Rightarrow> bool" where
  "documented_answers env rq =
     ((\<forall>kind \<in> kinds. \<forall>body w a w'. rq ''POST'' (kind_path kind) False None body w = (Inr a, w') \<longrightarrow>
          (\<exists>i. names_resource env kind a i))
      \<and> (\<forall>kind \<in> kinds. \<forall>i w a w'. rq ''DELETE'' (kind_path kind @ ''/'' @ i) False None PNone w = (Inr a, w') \<longrightarrow>
          rs_status (fst a) = 204 \<and> snd a = []))"

text \<open>What the requests of each kind do to what is owed.\<close>

definition creates :: "'r env \<Rightarrow> 'w requester \<Rightarrow> ('w \<Rightarrow> (string \<times> string) set) \<Rightarrow> string \<Rightarrow> bool" where
  "creates env rq owed kind =
     (\<forall>body w r w'. rq ''POST'' (kind_path kind) False None body w = (r, w') \<longrightarrow>
        (case r of
           Inl e \<Rightarrow> owed w' = owed w
         | Inr a \<Rightarrow> (\<exists>i. names_resource env kind a i \<and> owed w' = insert (kind, i) (owed w))))"

definition deletes ::
    "'w requester \<Rightarrow> ('w \<Rightarrow> (string \<times> string) set) \<Rightarrow> (pyexc \<Rightarrow> 'w \<Rightarrow> bool) \<Rightarrow> string \<Rightarrow> bool" where
  "deletes rq owed refused kind =
     (\<forall>i w r w'. rq ''DELETE'' (kind_path kind @ ''/'' @ i) False None PNone w = (r, w') \<longrightarrow>
        (case r of
           Inl e \<Rightarrow> if catches NotFound e then owed w' = owed w - {(kind, i)} else refused e w'
         | Inr a \<Rightarrow> rs_status (fst a) = 204 \<and> snd a = [] \<and> owed w' = owed w - {(kind, i)}))"

definition ledger ::
    "'r env \<Rightarrow> 'w requester \<Rightarrow> ('w \<Rightarrow> (string \<times> string) set) \<Rightarrow> (pyexc \<Rightarrow> 'w \<Rightarrow> bool) \<Rightarrow> bool" where
  "ledger env rq owed refused =
     ((\<forall>kind \<in> kinds. creates env rq owed kind \<and> deletes rq owed refused kind)
      \<and> (\<forall>url body w. owed (snd (rq ''PUT'' url False None body w)) = owed w))"

lemma kind_path_inj [simp]: "kind_path k = kind_path l \<longleftrightarrow> k = l"
  by (simp add: kind_path_def)

lemma kind_path_id_inj:
  "kind \<in> kinds \<Longrightarrow> {(k, j). k \<in> kinds \<and> kind_path kind @ CHR ''/'' # i = kind_path k @ CHR ''/'' # j} = {(kind, i)}"
  by (auto simp: kinds_def kind_path_def)

lemma names_resource_det: "names_resource env kind a i \<Longrightarrow> names_resource env kind a j \<Longrightarrow> i = j"
  by (auto simp: names_resource_def)

lemma names_resource_only:
  "kind \<in> kinds \<Longrightarrow> names_resource env kind a i \<Longrightarrow>
   {(k, j). k \<in> kinds \<and> kind_path kind = kind_path k \<and> names_resource env k a j} = {(kind, i)}"
  by (auto dest: names_resource_det)

lemma ledger_of_log:
  assumes recorded: "logs_exchanges rq log" and documented: "documented_answers env rq"
  shows "ledger env rq (\<lambda>w. owed_after env (log w)) (\<lambda>e w. deletion_refused e (log w))"
proof -
  note after = recorded [unfolded logs_exchanges_def, rule_format]
  have post: "creates env rq (\<lambda>w. owed_after env (log w)) kind" if kind: "kind \<in> kinds" for kind
    unfolding creates_def
  proof (intro allI impI)
    fix body w r w'
    assume run: "rq ''POST'' (kind_path kind) False None body w = (r, w')"
    show "case r of Inl e \<Rightarrow> owed_after env (log w') = owed_after env (log w)
      | Inr a \<Rightarrow> \<exists>i. names_resource env kind a i \<and> owed_after env (log w') = insert (kind, i) (owed_after env (log w))"
    proof (cases r)
      case (Inr a)
      then obtain i where i: "names_resource env kind a i"
        using documented run kind unfolding documented_answers_def by blast
      then show ?thesis
        using Inr names_resource_only [OF kind i] by (auto simp: after [OF run] owed_after_snoc after_exchange_def)
    qed (simp add: after [OF run] owed_after_snoc after_exchange_def)
  qed
  have delete: "deletes rq (\<lambda>w. owed_after env (log w)) (\<lambda>e w. deletion_refused e (log w)) kind"
    if kind: "kind \<in> kinds" for kind
    unfolding deletes_def
  proof (intro allI impI)
    fix i w r w'
    assume run: "rq ''DELETE'' (kind_path kind @ ''/'' @ i) False None PNone w = (r, w')"
    show "case r of
        Inl e \<Rightarrow> if catches NotFound e then owed_after env (log w') = owed_after env (log w) - {(kind, i)}
                 else deletion_refused e (log w')
      | Inr a \<Rightarrow> rs_status (fst a) = 204 \<and> snd a = [] \<and> owed_after env (log w') = owed_after env (log w) - {(kind, i)}"
    proof (cases r)
      case (Inr a)
      then have "rs_status (fst a) = 204 \<and> snd a = []"
        using documented run kind unfolding documented_answers_def by blast
      then show ?thesis
        using Inr by (simp add: after [OF run] owed_after_snoc after_exchange_def kind_path_id_inj [OF kind])
    qed (simp add: after [OF run] owed_after_snoc after_exchange_def kind_path_id_inj [OF kind] deletion_refused_def)
  qed
  have "owed_after env (log (snd (rq ''PUT'' url False None body w))) = owed_after env (log w)" for url body w
    using after [of "''PUT''" url False None body w] by (cases "rq ''PUT'' url False None body w")
      (simp add: owed_after_snoc after_exchange_def)
  then show ?thesis using post delete by (simp add: ledger_def)
qed

text \<open>A resource that the code holds: nothing, or a document with an id and a name.\<close>

definition held :: "'r env \<Rightarrow> string \<Rightarrow> py \<Rightarrow> (string \<times> string) set" where
  "held env kind v =
     (case v of
        PDict d \<Rightarrow> (case dget d ''id'' of Some i \<Rightarrow> {(kind, py_text (e_repr env) i)} | None \<Rightarrow> {})
      | _ \<Rightarrow> {})"

definition holdable :: "py \<Rightarrow> bool" where
  "holdable v = (v = PNone \<or> (\<exists>d. v = PDict d \<and> dhas d ''id'' \<and> dhas d ''name''))"

lemma held_None [simp]: "held env kind PNone = {}" "holdable PNone"
  by (simp_all add: held_def holdable_def)

section \<open>Creating\<close>

text \<open>
  A computation that creates at most one resource of a kind; \<open>sel\<close> finds it in the result.
\<close>

definition made ::
    "'r env \<Rightarrow> ('w \<Rightarrow> (string \<times> string) set) \<Rightarrow> string \<Rightarrow> 'w \<Rightarrow> py \<Rightarrow> 'w \<Rightarrow> bool" where
  "made env stock kind w v w' =
     (holdable v \<and> stock w' = held env kind v \<union> stock w)"

definition makes ::
    "'r env \<Rightarrow> ('w \<Rightarrow> (string \<times> string) set) \<Rightarrow> string \<Rightarrow> ('a \<Rightarrow> pyexc + py) \<Rightarrow> ('w, 'a) io \<Rightarrow> bool" where
  "makes env stock kind sel m =
     (\<forall>w r w'. m w = (r, w') \<longrightarrow>
        (case r of Inl e \<Rightarrow> stock w' = stock w | Inr x \<Rightarrow> \<exists>v. sel x = Inr v \<and> made env stock kind w v w'))"

named_theorems makes_intros \<open>computations that create at most one resource\<close>

lemma makesD:
  assumes "makes env stock kind sel m" "m w = (r, w')"
  obtains e where "r = Inl e" "stock w' = stock w"
  | x v where "r = Inr x" "sel x = Inr v" "made env stock kind w v w'"
  using assms unfolding makes_def by (cases r) fastforce+

lemma makes_throw [makes_intros]: "makes env stock kind sel (throw e)"
  by (simp add: makes_def)

lemma makes_none [makes_intros]: "makes env stock kind Inr (ret PNone)"
  by (auto simp: makes_def made_def ret_def)

lemma makes_lift [makes_intros]:
  "(\<And>x. makes env stock kind sel (f x)) \<Longrightarrow> makes env stock kind sel (bnd (lift r) f)"
  by (cases r) (simp_all add: makes_def bnd_def)

lemma makes_if [makes_intros]:
  "makes env stock kind sel a \<Longrightarrow> makes env stock kind sel b \<Longrightarrow> makes env stock kind sel (if c then a else b)"
  by simp

lemma makes_select [makes_intros]:
  assumes "makes env stock kind sel m"
  shows "makes env stock kind Inr (bnd m (\<lambda>b. lift (sel b)))"
  unfolding makes_def
proof (intro allI impI)
  fix w r w'
  assume run: "bnd m (\<lambda>b. lift (sel b)) w = (r, w')"
  obtain q w1 where q: "m w = (q, w1)" by fastforce
  from assms q show "case r of Inl e \<Rightarrow> stock w' = stock w | Inr x \<Rightarrow> \<exists>v. Inr x = Inr v \<and> made env stock kind w v w'"
  proof (cases rule: makesD)
    case (1 e)
    with run q have "r = Inl e" "w' = w1" by (auto simp: bnd_def)
    with 1 show ?thesis by simp
  next
    case (2 x v)
    with run q have "r = Inr v" "w' = w1" by (simp_all add: bnd_def)
    with 2 show ?thesis by simp
  qed
qed

lemma makes_catch:
  assumes m: "makes env stock kind sel m" and h: "\<And>e k. h e = Some k \<Longrightarrow> makes env stock kind sel k"
  shows "makes env stock kind sel (catch m h)"
  unfolding makes_def
proof (intro allI impI)
  fix w r w'
  assume run: "catch m h w = (r, w')"
  obtain q w1 where q: "m w = (q, w1)" by fastforce
  let ?goal = "case r of Inl e \<Rightarrow> stock w' = stock w | Inr x \<Rightarrow> \<exists>v. sel x = Inr v \<and> made env stock kind w v w'"
  from m q show ?goal
  proof (cases rule: makesD)
    case (1 e)
    show ?goal
    proof (cases "h e")
      case None
      with 1 q run have "r = Inl e" "w' = w1" by (auto simp: catch_def)
      with 1 show ?goal by simp
    next
      case (Some k)
      with 1 q run have "k w1 = (r, w')" by (simp add: catch_def)
      from h [OF Some] this show ?goal
        by (cases rule: makesD) (use 1 in \<open>auto simp: made_def\<close>)
    qed
  next
    case (2 x v)
    with q run have "r = Inr x" "w' = w1" by (auto simp: catch_def)
    with 2 show ?goal by auto
  qed
qed

lemma makes_created [makes_intros]:
  assumes law: "creates env rq stock kind" and path: "uri_prefix @ path = kind_path kind"
  shows "makes env stock kind (\<lambda>b. rb_item b kind) (create_resource env rq path doc)"
  unfolding makes_def
proof (intro allI impI)
  fix w r w'
  assume run: "create_resource env rq path doc w = (r, w')"
  obtain q w1 where post: "rq ''POST'' (kind_path kind) False None (json_dumps env doc) w = (q, w1)"
    by fastforce
  note effect = law [unfolded creates_def, rule_format, OF post]
  let ?goal = "case r of Inl e \<Rightarrow> stock w' = stock w
    | Inr x \<Rightarrow> \<exists>v. rb_item x kind = Inr v \<and> made env stock kind w v w'"
  show ?goal
  proof (cases q)
    case (Inl e)
    with post run path effect show ?goal
      by (auto simp: create_resource_def http_post_def bnd_def)
  next
    case (Inr a)
    with effect obtain i b d v n where a: "resource_reply env 201 a = Inr b"
        "dget (rb_data b) kind = Some (PDict d)" "dget d ''id'' = Some v" "dget d ''name'' = Some n"
        "i = py_text (e_repr env) v" "stock w1 = insert (kind, i) (stock w)"
      by (auto simp: names_resource_def)
    from a(1) have "r = Inr b" "w' = w1"
      using post run path Inr by (simp_all add: create_resource_def http_post_def bnd_def)
    with a show ?goal by (auto simp: held_def holdable_def dhas_def rb_item_def made_def)
  qed
qed

lemma path_simps:
  "uri_prefix @ ''/networks'' = kind_path ''network''"
  "uri_prefix @ ''/subnets'' = kind_path ''subnet''"
  "uri_prefix @ ''/routers'' = kind_path ''router''"
  by (simp_all add: uri_prefix_def kind_path_def)

lemma makes_network:
  "creates env rq stock ''network'' \<Longrightarrow> makes env stock ''network'' Inr (iso_create_network env rq name tenant)"
  unfolding iso_create_network_def create_network_def by (intro makes_intros path_simps)

lemma makes_router:
  "creates env rq stock ''router'' \<Longrightarrow> makes env stock ''router'' Inr (iso_create_router env ic rq name tenant)"
  unfolding iso_create_router_def create_router_def by (intro makes_intros path_simps)

lemma makes_try_subnets:
  "(\<And>cidr. makes env stock kind sel (create cidr)) \<Longrightarrow> makes env stock kind sel (try_subnets env create cidrs)"
proof (induction cidrs)
  case (Cons c cs)
  then show ?case by (auto intro!: makes_catch split: if_splits)
qed (simp add: makes_throw)

lemma makes_subnet:
  assumes "creates env rq stock ''subnet''"
  shows "makes env stock ''subnet'' Inr (iso_create_subnet env ic rq res name tenant network_id)"
  unfolding iso_create_subnet_def
  by (rule makes_select, rule makes_try_subnets, rule makes_lift)
    (simp add: create_subnet_def makes_created assms path_simps)

lemma makes_when_wanted:
  assumes "makes env stock kind sel m" "makes env stock kind sel (ret PNone)"
  shows "makes env stock kind sel (when_wanted env res key m)"
proof (cases "res = []")
  case True
  with assms show ?thesis by (simp add: when_wanted_def)
next
  case False
  then have "when_wanted env res key m
      = bnd (lift (getitem (PDict res) key)) (\<lambda>v. if truthy v then m else ret PNone)"
    by (simp add: when_wanted_def bnd_assoc)
  with assms show ?thesis by (simp add: makes_intros)
qed

section \<open>Clearing\<close>

text \<open>A computation that removes the given resources, unless one of the deletions is refused.\<close>

definition removes ::
    "('w \<Rightarrow> (string \<times> string) set) \<Rightarrow> (pyexc \<Rightarrow> 'w \<Rightarrow> bool) \<Rightarrow> (string \<times> string) set \<Rightarrow> ('w, unit) io \<Rightarrow> bool" where
  "removes stock refused S m =
     (\<forall>w r w'. m w = (r, w') \<longrightarrow> (case r of Inl e \<Rightarrow> refused e w' | Inr u \<Rightarrow> stock w' = stock w - S))"

lemma removesD:
  assumes "removes stock refused S m" "m w = (r, w')"
  obtains e where "r = Inl e" "refused e w'" | "r = Inr ()" "stock w' = stock w - S"
  using assms unfolding removes_def by (cases r) fastforce+

lemma removes_ret: "removes stock refused {} (ret ())"
  by (auto simp: removes_def ret_def)

lemma removes_bnd:
  assumes m: "removes stock refused S m" and k: "removes stock refused T k"
  shows "removes stock refused (S \<union> T) (bnd m (\<lambda>_. k))"
  unfolding removes_def
proof (intro allI impI)
  fix w r w'
  assume run: "bnd m (\<lambda>_. k) w = (r, w')"
  obtain q w1 where q: "m w = (q, w1)" by fastforce
  show "case r of Inl e \<Rightarrow> refused e w' | Inr u \<Rightarrow> stock w' = stock w - (S \<union> T)"
    using m q
  proof (cases rule: removesD)
    case 2
    with run q have "k w1 = (r, w')" by (simp add: bnd_def)
    with k show ?thesis by (cases rule: removesD) (use 2 in auto)
  qed (use run q in \<open>auto simp: bnd_def\<close>)
qed

lemma removes_delete:
  assumes "deletes rq stock refused kind" and path: "uri_prefix @ path @ i = kind_path kind @ ''/'' @ i"
  shows "removes stock refused {(kind, i)} (ignore_missing (delete_resource rq (path @ i)))"
  unfolding removes_def
proof (intro allI impI)
  fix w r w'
  assume run: "ignore_missing (delete_resource rq (path @ i)) w = (r, w')"
  obtain q w1 where del: "rq ''DELETE'' (kind_path kind @ ''/'' @ i) False None PNone w = (q, w1)"
    by fastforce
  note effect = assms(1) [unfolded deletes_def, rule_format, OF del]
  have del: "rq ''DELETE'' (uri_prefix @ path @ i) False None PNone w = (q, w1)"
    unfolding path by (rule del)
  show "case r of Inl e \<Rightarrow> refused e w' | Inr u \<Rightarrow> stock w' = stock w - {(kind, i)}"
  proof (cases q)
    case (Inl e)
    have "ignore_missing (delete_resource rq (path @ i)) w = (if catches NotFound e then Inr () else Inl e, w1)"
      by (simp add: ignore_missing_def delete_resource_def http_delete_def catch_def bnd_def del Inl)
    with run have "r = (if catches NotFound e then Inr () else Inl e)" "w' = w1" by simp_all
    with effect Inl show ?thesis by (simp split: if_splits)
  next
    case (Inr a)
    with effect have "expected_success (Code 204) (rs_status (fst a)) = Inr ()" "snd a = []"
      by (simp_all add: expected_success_iff)
    then have "ignore_missing (delete_resource rq (path @ i)) w = (Inr (), w1)"
      by (simp add: ignore_missing_def delete_resource_def http_delete_def catch_def bnd_def del Inr)
    with run have "r = Inr ()" "w' = w1" by simp_all
    with effect Inr show ?thesis by simp
  qed
qed

lemma clear_resource_eq:
  assumes "dget d ''id'' = Some i" "dhas d ''name''"
  shows "clear_resource env del (PDict d) = ignore_missing (del (py_text (e_repr env) i))"
  using assms by (auto simp: clear_resource_def dhas_def fun_eq_iff bnd_def)

lemma removes_held:
  assumes "deletes rq stock refused kind" "holdable v"
    and path: "\<And>i. del i = delete_resource rq (path @ i)" "\<And>i. uri_prefix @ path @ i = kind_path kind @ ''/'' @ i"
  shows "removes stock refused (held env kind v) (if truthy v then clear_resource env del v else ret ())"
proof (cases "v = PNone")
  case False
  then obtain d i where d: "v = PDict d" "dget d ''id'' = Some i" "dhas d ''name''"
    using assms(2) by (auto simp: holdable_def dhas_def)
  then have "d \<noteq> []" by auto
  then show ?thesis
    using d clear_resource_eq [OF d(2,3), of env del] removes_delete [OF assms(1) path(2)]
    by (simp add: held_def path(1))
qed (simp add: removes_ret)

lemma removes_created:
  assumes "ledger env rq stock refused" "holdable router" "holdable subnet" "holdable network"
  shows "removes stock refused (held env ''router'' router \<union> (held env ''subnet'' subnet \<union> held env ''network'' network))
     (clear_created env rq router subnet network)"
proof -
  have law: "deletes rq stock refused ''router''" "deletes rq stock refused ''subnet''" "deletes rq stock refused ''network''"
    using assms(1) by (simp_all add: ledger_def kinds_def)
  show ?thesis
    unfolding clear_created_def
    by (intro removes_bnd removes_held [OF law(1) assms(2)] removes_held [OF law(2) assms(3)]
        removes_held [OF law(3) assms(4)])
      (simp_all add: delete_router_def delete_subnet_def delete_network_def uri_prefix_def kind_path_def)
qed

section \<open>A network that cannot be completed\<close>

lemma or_clear_run:
  assumes "or_clear m cleanup w = (r, w')" "makes env stock kind sel m" "removes stock refused S cleanup"
  obtains e where "r = Inl e" "stock w' = stock w - S \<or> refused e w'"
  | x v where "r = Inr x" "sel x = Inr v" "made env stock kind w v w'"
proof -
  obtain q w1 where q: "m w = (q, w1)" by fastforce
  from assms(2) q show thesis
  proof (cases rule: makesD)
    case (1 e)
    obtain c w2 where cleanup: "cleanup w1 = (c, w2)" by fastforce
    from assms(3) cleanup show thesis
      by (cases rule: removesD)
        (use 1 q assms(1) cleanup in \<open>auto simp: or_clear_def catch_def bnd_def intro: that(1)\<close>)
  next
    case (2 x v)
    with q assms(1) show thesis by (intro that(2)) (auto simp: or_clear_def catch_def)
  qed
qed

text \<open>Attaching the router keeps the stock.\<close>

definition keeps_stock :: "('w \<Rightarrow> (string \<times> string) set) \<Rightarrow> ('w, 'a) io \<Rightarrow> bool" where
  "keeps_stock stock m = (\<forall>w. stock (snd (m w)) = stock w)"

lemma keeps_bnd: "keeps_stock stock m \<Longrightarrow> (\<And>x. keeps_stock stock (f x)) \<Longrightarrow> keeps_stock stock (bnd m f)"
  unfolding keeps_stock_def bnd_def by (simp split: prod.splits sum.splits) (metis snd_conv)

lemma keeps_pure: "keeps_stock stock (lift r)" "keeps_stock stock (ret x)"
  by (simp_all add: keeps_stock_def)

lemma keeps_put: "ledger env rq stock refused \<Longrightarrow> keeps_stock stock (rq ''PUT'' url False None body)"
  by (simp add: ledger_def keeps_stock_def)

lemma keeps_attach: "ledger env rq stock refused \<Longrightarrow> keeps_stock stock (add_router_interface env rq router subnet)"
  unfolding add_router_interface_def add_router_interface_with_subnet_id_def update_resource_def http_put_def
  by (intro keeps_bnd keeps_pure keeps_put)

lemma makes_attach:
  assumes "ledger env rq stock refused"
  shows "makes env stock kind (\<lambda>_. Inr PNone) (bnd (add_router_interface env rq router subnet) (\<lambda>_. ret PNone))"
  unfolding makes_def
proof (intro allI impI)
  fix w r w'
  assume run: "bnd (add_router_interface env rq router subnet) (\<lambda>_. ret PNone) w = (r, w')"
  have "keeps_stock stock (bnd (add_router_interface env rq router subnet) (\<lambda>_. ret PNone))"
    by (intro keeps_bnd keeps_attach [OF assms] keeps_pure)
  then have "stock w' = stock w" unfolding keeps_stock_def using run by (metis snd_conv)
  then show "case r of Inl e \<Rightarrow> stock w' = stock w | Inr x \<Rightarrow> \<exists>v. Inr PNone = Inr v \<and> made env stock kind w v w'"
    by (cases r) (auto simp: made_def)
qed

text \<open>The first step that is not guarded, and a guarded one.\<close>

lemma bnd_makes:
  assumes "bnd m f w = (r, w')" "makes env stock kind Inr m"
  obtains e where "r = Inl e" "stock w' = stock w"
  | v w1 where "made env stock kind w v w1" "f v w1 = (r, w')"
proof -
  obtain q w1 where q: "m w = (q, w1)" by fastforce
  from assms(2) q show thesis
  proof (cases rule: makesD)
    case (1 e)
    with q assms(1) have "r = Inl e" "stock w' = stock w" by (simp_all add: bnd_def)
    then show thesis by (rule that(1))
  next
    case (2 x v)
    with q assms(1) have "made env stock kind w v w1" "f v w1 = (r, w')" by (simp_all add: bnd_def)
    then show thesis by (rule that(2))
  qed
qed

lemma bnd_or_clear:
  assumes "bnd (or_clear m cleanup) f w = (r, w')" "makes env stock kind sel m" "removes stock refused S cleanup"
  obtains e where "r = Inl e" "stock w' = stock w - S \<or> refused e w'"
  | x v w1 where "sel x = Inr v" "made env stock kind w v w1" "f x w1 = (r, w')"
proof -
  obtain q w1 where q: "or_clear m cleanup w = (q, w1)" by fastforce
  from q assms(2,3) show thesis
  proof (cases rule: or_clear_run)
    case (1 e)
    with q assms(1) have "r = Inl e" "stock w' = stock w - S \<or> refused e w'" by (simp_all add: bnd_def)
    then show thesis by (rule that(1))
  next
    case (2 x v)
    with q assms(1) have "sel x = Inr v" "made env stock kind w v w1" "f x w1 = (r, w')"
      by (simp_all add: bnd_def)
    then show thesis by (rule that(2))
  qed
qed

lemma network_resources_atomic:
  assumes service: "ledger env rq stock refused"
    and run: "network_resources env ic rq res root tenant w = (r, w')"
  shows "case r of
      Inl e \<Rightarrow> stock w' \<subseteq> stock w \<or> refused e w'
    | Inr (network, subnet, router) \<Rightarrow>
        stock w' = held env ''router'' router \<union> held env ''subnet'' subnet \<union> held env ''network'' network \<union> stock w"
proof -
  have create: "creates env rq stock ''network''" "creates env rq stock ''subnet''" "creates env rq stock ''router''"
    using service by (simp_all add: ledger_def kinds_def)
  note step = makes_when_wanted [OF _ makes_none]
  have attached: "makes env stock k (\<lambda>_. Inr PNone)
      (when_wanted env res ''router'' (bnd (add_router_interface env rq router subnet) (\<lambda>_. ret PNone)))"
    for k router subnet
    by (rule makes_when_wanted [OF makes_attach [OF service]]) (simp add: makes_def made_def)
  from run [unfolded network_resources_def] step [OF makes_network [OF create(1)]] show ?thesis
  proof (cases rule: bnd_makes)
    case (2 network w1)
    have n: "holdable network"
        "stock w1 = held env ''network'' network \<union> stock w"
      using 2(1) by (simp_all add: made_def)
    have "removes stock refused (held env ''network'' network) (clear_created env rq PNone PNone network)"
      using removes_created [OF service, of PNone PNone network] n(1) by simp
    from 2(2) step [OF makes_lift [OF makes_subnet [OF create(2)]]] this show ?thesis
    proof (cases rule: bnd_or_clear)
      case (1 e)
      with n show ?thesis by auto
    next
      case (2 x subnet w2)
      have s: "holdable subnet"
          "stock w2 = held env ''subnet'' subnet \<union> stock w1"
        using 2(2) by (simp_all add: made_def)
      have clear: "removes stock refused (held env ''subnet'' subnet \<union> held env ''network'' network)
          (clear_created env rq PNone subnet network)"
        using removes_created [OF service, of PNone subnet network] n(1) s(1) by simp
      from 2(1,3) have rest: "bnd (or_clear (when_wanted env res ''router'' (iso_create_router env ic rq (root @ ''-router'') tenant))
            (clear_created env rq PNone subnet network)) (\<lambda>router.
          bnd (or_clear
             (when_wanted env res ''router'' (bnd (add_router_interface env rq router subnet) (\<lambda>_. ret PNone)))
             (clear_created env rq router subnet network)) (\<lambda>_. ret (network, subnet, router))) w2 = (r, w')"
        by simp
      from rest step [OF makes_router [OF create(3)]] clear show ?thesis
      proof (cases rule: bnd_or_clear)
        case (1 e)
        with n s show ?thesis by auto
      next
        case (2 y router w3)
        have r: "holdable router"
            "stock w3 = held env ''router'' router \<union> stock w2" "y = router"
          using 2(1,2) by (simp_all add: made_def)
        from 2(3) [unfolded r(3)] attached [of "''none''"] removes_created [OF service r(1) s(1) n(1)] show ?thesis
        proof (cases rule: bnd_or_clear)
          case (1 e)
          with n s r show ?thesis by auto
        next
          case (2 z v w4)
          with n s r show ?thesis by (auto simp: made_def)
        qed
      qed
    qed
  qed simp
qed

text \<open>
  C8 (network_creation_atomic): creating the network of a project is all or nothing, as far as the service lets it be.
  When \<open>_create_network_resources\<close> raises, whatever step failed, nothing more is owed to the service than before:
  every network, subnet and router that was created for the project was deleted again. The one exception is a
  deletion of the clean-up that is refused: then that refusal is what is raised and no request follows it. When
  \<open>_create_network_resources\<close> returns, owed are in addition exactly the resources that are returned.
\<close>

theorem network_creation_atomic:
  assumes "logs_exchanges (ad_network ad) log" "documented_answers env (ad_network ad)"
    and "create_network_resources env ic ad tenant_id (s, w) = (r, (s', w'))"
  shows "case r of
      Inl e \<Rightarrow> owed_after env (log w') \<subseteq> owed_after env (log w) \<or> deletion_refused e (log w')
    | Inr (network, subnet, router) \<Rightarrow>
        owed_after env (log w') = held env ''router'' router \<union> held env ''subnet'' subnet \<union> held env ''network'' network
          \<union> owed_after env (log w)"
proof (cases "check_settings (is_resources s)")
  case (Inl e)
  with assms(3) show ?thesis
    by (auto simp: create_network_resources_def get_iso_def bnd_def)
next
  case (Inr u)
  obtain root n where name: "rand_name (ic_rnd ic) (is_name s) None (is_pos s) = (root, n)" by fastforce
  obtain q w1 where nets: "network_resources env ic (ad_network ad) (is_resources s) root tenant_id w = (q, w1)"
    by fastforce
  have "r = q" "w' = w1"
    using assms(3) Inr name nets
    by (simp_all add: create_network_resources_def get_iso_def rand_name_of_def draw_def on_net_def bnd_def)
  show ?thesis
    unfolding \<open>r = q\<close> \<open>w' = w1\<close>
    by (rule network_resources_atomic [OF ledger_of_log [OF assms(1,2)] nets])
qed

text \<open>A service that makes networks and subnets but no routers and keeps what was exchanged with it.\<close>

definition toy_docs :: "(string, py) dict" where
  "toy_docs =
     [(''N'', PDict [(''network'', PDict [(''id'', PStr ''n1''), (''name'', PStr ''net'')])]),
      (''S'', PDict [(''subnet'', PDict [(''id'', PStr ''s1''), (''name'', PStr ''sub'')])])]"

definition toy_reply :: "int \<Rightarrow> string \<Rightarrow> answer" where
  "toy_reply st b = (\<lparr>rs_status = st, rs_headers = []\<rparr>, b)"

definition toy_answer :: "string \<Rightarrow> string \<Rightarrow> pyexc + answer" where
  "toy_answer method url =
     (if method = ''POST'' then
        (if url = kind_path ''network'' then Inr (toy_reply 201 ''N'')
         else if url = kind_path ''subnet'' then Inr (toy_reply 201 ''S'')
         else Inl (Auto Conflict [] []))
      else if method = ''DELETE'' then Inr (toy_reply 204 [])
      else Inr (toy_reply 200 []))"

definition toy_service :: "exchange list requester" where
  "toy_service method url extra hs body log = (toy_answer method url, log @ [(method, url, toy_answer method url)])"

lemma toy_logs: "logs_exchanges toy_service (\<lambda>log. log)"
  by (simp add: logs_exchanges_def toy_service_def)

lemma toy_documented: "documented_answers (demo_env toy_docs) toy_service"
  unfolding documented_answers_def
  by (auto simp: toy_service_def toy_answer_def kinds_def kind_path_def names_resource_def resource_reply_def
      json_loads_def demo_env_def toy_docs_def toy_reply_def expected_success_iff split: if_splits)

text \<open>A run in which the router is refused: the network and the subnet are removed again.\<close>

definition toy_cf :: conf where
  "toy_cf = \<lparr>cf_auth_version = ''v2'', cf_uri = ''http://key/v2.0'', cf_uri_v3 = ''http://key/v3'',
     cf_default_domain = PStr ''Default'', cf_option = (\<lambda>section option. PNone), cf_admin_role = ''admin'',
     cf_operator_role = ''operator'', cf_reseller_role = ''reseller'', cf_accounts_file = []\<rparr>"

definition toy_conf :: iso_conf where
  "toy_conf = \<lparr>ic_conf = toy_cf, ic_tempest_roles = [], ic_subnets = [''10.0.0.0/28''],
     ic_public_network = PNone, ic_neutron = True, ic_baremetal = False, ic_isolated_networks = True,
     ic_rnd = (\<lambda>n. 0), ic_uuid = (\<lambda>n. []), ic_order = id\<rparr>"

definition toy_isolated :: isolated where
  "toy_isolated = \<lparr>is_name = ''t'', is_version = ''v2'', is_resources = [], is_creds = [], is_domain = PNone,
     is_pos = 0\<rparr>"

definition toy_admins :: "exchange list admins" where
  "toy_admins = \<lparr>ad_identity = toy_service, ad_network = toy_service, ad_manager_network = toy_service,
     ad_compute = toy_service\<rparr>"

lemma toy_success: "expected_success (Code 201) 201 = Inr ()" "expected_success (Code 204) 204 = Inr ()"
  by (simp_all add: expected_success_iff)

definition toy_exchange :: "string \<Rightarrow> string \<Rightarrow> exchange" where
  "toy_exchange method url = (method, url, toy_answer method url)"

lemma toy_service_run: "toy_service method url extra hs body log = (toy_answer method url, log @ [toy_exchange method url])"
  by (simp add: toy_service_def toy_exchange_def)

lemma toy_network:
  "iso_create_network (demo_env toy_docs) toy_service name PNone log
     = (Inr (PDict [(''id'', PStr ''n1''), (''name'', PStr ''net'')]), log @ [toy_exchange ''POST'' ''v2.0/networks''])"
  by (simp add: iso_create_network_def create_network_def create_resource_def http_post_def bnd_def
      toy_service_run toy_answer_def toy_reply_def kind_path_def uri_prefix_def resource_reply_def
      json_loads_def demo_env_def toy_docs_def toy_success rb_item_def)

lemma toy_subnet:
  "iso_create_subnet (demo_env toy_docs) toy_conf toy_service [] name PNone i log
     = (Inr (PDict [(''id'', PStr ''s1''), (''name'', PStr ''sub'')]), log @ [toy_exchange ''POST'' ''v2.0/subnets''])"
  by (simp add: toy_conf_def iso_create_subnet_def create_subnet_def create_resource_def http_post_def bnd_def
      catch_def subnet_fields_def toy_service_run toy_answer_def toy_reply_def kind_path_def uri_prefix_def
      resource_reply_def json_loads_def demo_env_def toy_docs_def toy_success rb_item_def)

lemma toy_router:
  "iso_create_router env ic toy_service name PNone log
     = (Inl (Auto Conflict [] []), log @ [toy_exchange ''POST'' ''v2.0/routers''])"
  by (simp add: iso_create_router_def create_router_def create_resource_def http_post_def bnd_def
      toy_service_run toy_answer_def kind_path_def uri_prefix_def)

lemma toy_clear:
  "clear_created (demo_env toy_docs) toy_service PNone
     (PDict [(''id'', PStr ''s1''), (''name'', PStr ''sub'')])
     (PDict [(''id'', PStr ''n1''), (''name'', PStr ''net'')]) log
   = (Inr (), log @ [toy_exchange ''DELETE'' ''v2.0/subnets/s1'', toy_exchange ''DELETE'' ''v2.0/networks/n1''])"
  by (simp add: clear_created_def clear_resource_def ignore_missing_def bnd_def catch_def
      delete_network_def delete_subnet_def delete_resource_def http_delete_def
      toy_service_run toy_answer_def toy_reply_def uri_prefix_def toy_success)

definition toy_log :: "exchange list" where
  "toy_log = [toy_exchange ''POST'' ''v2.0/networks'', toy_exchange ''POST'' ''v2.0/subnets'',
     toy_exchange ''POST'' ''v2.0/routers'', toy_exchange ''DELETE'' ''v2.0/subnets/s1'',
     toy_exchange ''DELETE'' ''v2.0/networks/n1'']"

lemma toy_refused:
  "network_resources (demo_env toy_docs) toy_conf toy_service [] root PNone [] = (Inl (Auto Conflict [] []), toy_log)"
  by (simp add: network_resources_def when_wanted_def bnd_def or_clear_def toy_network toy_subnet toy_router
      catch_def toy_clear toy_log_def)

theorem network_creation_atomic_witness:
  "\<exists>s'. create_network_resources (demo_env toy_docs) toy_conf toy_admins PNone (toy_isolated, [])
       = (Inl (Auto Conflict [] []), (s', toy_log))
     \<and> owed_after (demo_env toy_docs) toy_log = {}"
proof -
  obtain s' where run: "create_network_resources (demo_env toy_docs) toy_conf toy_admins PNone
      (toy_isolated, []) = (Inl (Auto Conflict [] []), (s', toy_log))"
    by (simp add: create_network_resources_def get_iso_def bnd_def check_settings_def toy_isolated_def
        rand_name_of_def draw_def case_prod_beta on_net_def toy_admins_def toy_refused)
  have "\<not> deletion_refused (Auto Conflict [] []) toy_log"
    by (simp add: deletion_refused_def toy_log_def toy_exchange_def toy_answer_def Cons_eq_append_conv)
  then have "owed_after (demo_env toy_docs) toy_log = {}"
    using network_creation_atomic [OF _ _ run, of "\<lambda>log. log"]
    by (simp add: toy_admins_def toy_logs toy_documented owed_after_def)
  with run show ?thesis by blast
qed

section \<open>Computations that keep the table\<close>

definition keeps_table :: "(isolated \<times> 'w, 'a) io \<Rightarrow> bool" where
  "keeps_table m = (\<forall>s w. is_creds (fst (snd (m (s, w)))) = is_creds s)"

named_theorems keeps_intros \<open>computations that keep the table of credentials\<close>

lemma keeps_tableD: "keeps_table m \<Longrightarrow> m (s, w) = (r, (s', w')) \<Longrightarrow> is_creds s' = is_creds s"
  by (metis keeps_table_def fst_conv snd_conv)

lemma keeps_table_bnd [keeps_intros]:
  assumes "keeps_table m" "\<And>x. keeps_table (f x)"
  shows "keeps_table (bnd m f)"
  unfolding keeps_table_def
proof (intro allI)
  fix s w
  obtain r s1 w1 where run: "m (s, w) = (r, (s1, w1))" by (metis prod.exhaust)
  obtain q s2 w2 where f: "(case r of Inl e \<Rightarrow> (Inl e, (s1, w1)) | Inr x \<Rightarrow> f x (s1, w1)) = (q, (s2, w2))"
    by (metis prod.exhaust)
  have "is_creds s2 = is_creds s1"
    using f keeps_tableD [OF assms(2)] by (cases r) auto
  then show "is_creds (fst (snd (bnd m f (s, w)))) = is_creds s"
    using keeps_tableD [OF assms(1) run] f run by (cases r) (auto simp: bnd_def)
qed

lemma keeps_table_catch [keeps_intros]:
  assumes "keeps_table m" "\<And>e k. h e = Some k \<Longrightarrow> keeps_table k"
  shows "keeps_table (catch m h)"
  unfolding keeps_table_def
proof (intro allI)
  fix s w
  obtain r s1 w1 where run: "m (s, w) = (r, (s1, w1))" by (metis prod.exhaust)
  have kept: "is_creds s1 = is_creds s" using keeps_tableD [OF assms(1) run] .
  show "is_creds (fst (snd (catch m h (s, w)))) = is_creds s"
  proof (cases r)
    case (Inl e)
    show ?thesis
    proof (cases "h e")
      case (Some k)
      obtain q s2 w2 where k: "k (s1, w1) = (q, (s2, w2))" by (metis prod.exhaust)
      then show ?thesis using Some Inl run kept keeps_tableD [OF assms(2) [OF Some] k] by (simp add: catch_def)
    qed (use Inl run kept in \<open>simp add: catch_def\<close>)
  qed (use run kept in \<open>simp add: catch_def\<close>)
qed

lemma keeps_table_basic [keeps_intros]:
  "keeps_table (ret x)" "keeps_table (lift r)" "keeps_table (throw e)" "keeps_table (get_iso f)"
  "keeps_table (on_net m)" "keeps_table (draw d)"
  by (simp_all add: keeps_table_def get_iso_def on_net_def draw_def split: prod.split)

lemma keeps_table_if [keeps_intros]: "keeps_table a \<Longrightarrow> keeps_table b \<Longrightarrow> keeps_table (if c then a else b)"
  by simp

lemma keeps_table_option [keeps_intros]:
  "keeps_table a \<Longrightarrow> (\<And>x. keeps_table (b x)) \<Longrightarrow> keeps_table (case v of None \<Rightarrow> a | Some x \<Rightarrow> b x)"
  by (cases v) simp_all

lemma keeps_table_list [keeps_intros]:
  "keeps_table a \<Longrightarrow> (\<And>x xs. keeps_table (b x xs)) \<Longrightarrow> keeps_table (case v of [] \<Rightarrow> a | x # xs \<Rightarrow> b x xs)"
  by (cases v) simp_all

lemma keeps_table_for_each [keeps_intros]: "(\<And>x. keeps_table (f x)) \<Longrightarrow> keeps_table (for_each xs f)"
  by (induction xs) (simp_all add: keeps_intros)

lemma keeps_table_ignore [keeps_intros]: "keeps_table m \<Longrightarrow> keeps_table (ignore_missing m)"
  unfolding ignore_missing_def by (intro keeps_intros) (auto intro: keeps_intros split: if_splits)

lemma keeps_clients [keeps_intros]:
  "keeps_table (cc_create_user env ad username password project email)"
  "keeps_table (cc_create_project env ad name description)"
  "keeps_table (cc_delete_user env ad i)"
  "keeps_table (cc_delete_project env ad i)"
  "keeps_table (cc_list_roles env ad)"
  unfolding cc_create_user_def cc_create_project_def cc_delete_user_def cc_delete_project_def cc_list_roles_def
  by (intro keeps_intros)+

lemma keeps_roles [keeps_intros]:
  "keeps_table (cc_check_role_exists env ad role)"
  unfolding cc_check_role_exists_def by (intro keeps_intros) (auto intro: keeps_intros split: if_splits)

lemma keeps_user_role [keeps_intros]:
  "keeps_table (cc_create_user_role env ad role)"
  "keeps_table (cc_assign_user_role env ad user project role)"
  unfolding cc_create_user_role_def cc_assign_user_role_def Let_def
  by (intro keeps_intros; auto intro: keeps_intros split: if_splits)+

lemma keeps_credentials [keeps_intros]:
  "keeps_table (cc_get_credentials env ic user project password)"
  unfolding cc_get_credentials_def by (intro keeps_intros)

lemma keeps_create_creds [keeps_intros]: "keeps_table (create_creds env ic ad suffix admin roles)"
  unfolding create_creds_def assign_roles_def pick_zone_def rand_name_of_def Let_def by (intro keeps_intros)

lemma keeps_creds_for [keeps_intros]: "keeps_table (creds_for env ic ad t)"
  unfolding creds_for_def by (cases t) (simp_all add: keeps_intros)

lemma keeps_networks [keeps_intros]:
  "keeps_table (create_network_resources env ic ad tenant_id)"
  "keeps_table (clear_net_resources env ad)"
  unfolding create_network_resources_def clear_net_resources_def rand_name_of_def by (intro keeps_intros)+

lemma keeps_remove_one [keeps_intros]: "keeps_table (remove_one env ic ad c)"
  unfolding remove_one_def by (intro keeps_intros)

section \<open>What is kept of a creation\<close>

text \<open>
  (credentials_kept): \<open>get_credentials\<close> creates once. After it returned, a second call with the same type
  gives the same credentials and sends nothing. After it raised, either the table is as it was, or it holds
  the credentials of the type and the second call returns them: credentials whose network could not be
  created are handed out by the next call, without a network.
\<close>

theorem credentials_kept:
  "case iso_get_credentials env ic ad t (s, w) of
     (Inr c, (s', w')) \<Rightarrow> iso_get_credentials env ic ad t (s', v) = (Inr c, (s', v))
   | (Inl e, (s', w')) \<Rightarrow>
       is_creds s' = is_creds s
       \<or> (\<exists>c. is_creds s' = dset (is_creds s) (type_key env t) c
            \<and> iso_get_credentials env ic ad t (s', v) = (Inr c, (s', v)))"
proof -
  have again: "iso_get_credentials env ic ad t (s', x) = (Inr c, (s', x))"
    if "dget (is_creds s') (type_key env t) = Some c" for s' c x
    using that by (simp add: iso_get_credentials_def get_iso_def bnd_def)
  show ?thesis
  proof (cases "dget (is_creds s) (type_key env t)")
    case (Some c)
    then show ?thesis by (simp add: again)
  next
    case None
    obtain r s1 w1 where made: "creds_for env ic ad t (s, w) = (r, (s1, w1))" by (metis prod.exhaust)
    have kept: "is_creds s1 = is_creds s" using keeps_tableD [OF keeps_creds_for made] .
    show ?thesis
    proof (cases r)
      case (Inl e)
      with None made kept show ?thesis by (simp add: iso_get_credentials_def get_iso_def bnd_def)
    next
      case (Inr c)
      define s2 where "s2 = s1\<lparr>is_creds := dset (is_creds s1) (type_key env t) c\<rparr>"
      define m where "m = (if ic_neutron ic \<and> \<not> ic_baremetal ic \<and> ic_isolated_networks ic then
          bnd (lift (cred_getattr (tr_credentials c) ''tenant_id'')) (\<lambda>tenant_id.
            create_network_resources env ic ad tenant_id)
        else throw AssertErr)"
      obtain q s3 w3 where nets: "m (s2, w1) = (q, (s3, w3))" by (metis prod.exhaust)
      have "keeps_table m" unfolding m_def by (intro keeps_intros)
      from keeps_tableD [OF this nets] have k3: "is_creds s3 = dset (is_creds s) (type_key env t) c"
        using kept by (simp add: s2_def)
      have run: "iso_get_credentials env ic ad t (s, w)
          = (if ic_neutron ic \<and> \<not> ic_baremetal ic \<and> ic_isolated_networks ic then
               (case q of
                  Inl e \<Rightarrow> (Inl e, (s3, w3))
                | Inr n \<Rightarrow> (Inr (set_resources n c),
                    (s3\<lparr>is_creds := dset (is_creds s3) (type_key env t) (set_resources n c)\<rparr>, w3)))
             else (Inr c, (s2, w1)))"
        using None made Inr nets
        by (auto simp: iso_get_credentials_def get_iso_def bnd_def upd_iso_def m_def s2_def lift_def
            split: sum.splits prod.splits)
      show ?thesis
        by (cases q) (simp_all add: run again k3 s2_def)
    qed
  qed
qed

text \<open>A failure of the network, seen from outside: the caller gets the error, and the credentials stay.\<close>

lemma network_failure_keeps_credentials:
  assumes "dget (is_creds s) (type_key env t) = None"
    and "ic_neutron ic" "\<not> ic_baremetal ic" "ic_isolated_networks ic"
    and "creds_for env ic ad t (s, w) = (Inr c, (s1, w1))"
    and "cred_getattr (tr_credentials c) ''tenant_id'' = Inr i"
    and "create_network_resources env ic ad i
           (s1\<lparr>is_creds := dset (is_creds s1) (type_key env t) c\<rparr>, w1) = (Inl e, (s2, w2))"
  shows "iso_get_credentials env ic ad t (s, w) = (Inl e, (s2, w2))"
    and "iso_get_credentials env ic ad t (s2, v) = (Inr c, (s2, v))"
  using assms keeps_tableD [OF keeps_networks(1) assms(7)]
  by (simp_all add: iso_get_credentials_def get_iso_def bnd_def upd_iso_def)

section \<open>Emptying the table\<close>

text \<open>
  (clear_all_or_keep): \<open>clear_isolated_creds\<close> forgets the credentials only when all of them were removed:
  it leaves the table empty when it returns, and as it was when it raises, so that it can be called again.
\<close>

theorem clear_all_or_keep:
  "case iso_clear_isolated_creds env ic ad (s, w) of
     (Inr u, (s', w')) \<Rightarrow> is_creds s' = []
   | (Inl e, (s', w')) \<Rightarrow> is_creds s' = is_creds s"
proof (cases "is_creds s = []")
  case False
  define m where "m = bnd (clear_net_resources env ad) (\<lambda>_.
    for_each (map snd (is_creds s)) (remove_one env ic ad))"
  obtain r s1 w1 where run: "m (s, w) = (r, (s1, w1))" by (metis prod.exhaust)
  have "keeps_table m" unfolding m_def by (intro keeps_intros)
  then have kept: "is_creds s1 = is_creds s" using run by (rule keeps_tableD)
  have "iso_clear_isolated_creds env ic ad (s, w)
      = (case r of Inl e \<Rightarrow> (Inl e, (s1, w1)) | Inr u \<Rightarrow> (Inr (), (s1\<lparr>is_creds := []\<rparr>, w1)))"
    using False run
    by (auto simp: iso_clear_isolated_creds_def get_iso_def upd_iso_def bnd_def m_def
        split: sum.splits prod.splits)
  with kept show ?thesis by (cases r) simp_all
qed (simp add: iso_clear_isolated_creds_def get_iso_def bnd_def)

text \<open>A NotFound while the network of a project is cleaned up skips the deletion of the project.\<close>

lemma cleanup_missing_skips_project:
  assumes "cred_getattr (tr_credentials c) ''user_id'' = Inr u"
    and "cred_getattr (tr_credentials c) ''tenant_id'' = Inr i"
    and "ic_neutron ic"
    and "ignore_missing (cc_delete_user env ad u) (s, w) = (Inr (), (s1, w1))"
    and "cleanup_default_secgroup env (ad_network ad) i w1 = (Inl e, w2)" "catches NotFound e"
  shows "remove_one env ic ad c (s, w) = (Inr (), (s1, w2))"
  using assms by (simp add: remove_one_def bnd_def on_net_def) (simp add: ignore_missing_def catch_def bnd_def on_net_def)

section \<open>The settings of the network\<close>

definition net_settings :: "bool \<Rightarrow> bool \<Rightarrow> bool \<Rightarrow> bool \<Rightarrow> (string, py) dict" where
  "net_settings network subnet router dhcp =
     [(''network'', PBool network), (''router'', PBool router), (''subnet'', PBool subnet), (''dhcp'', PBool dhcp)]"

text \<open>
  (settings_accepted): of the sixteen settings a test can ask for, those are accepted where a router has a
  subnet, a subnet has a network and DHCP has a subnet; all others are refused with
  \<open>InvalidConfiguration\<close> before any request is sent.
\<close>

theorem settings_accepted:
  "(check_settings (net_settings network subnet router dhcp) = Inr ()
      \<longleftrightarrow> router \<le> subnet \<and> subnet \<le> network \<and> dhcp \<le> subnet)
   \<and> (case check_settings (net_settings network subnet router dhcp) of
        Inl e \<Rightarrow> catches InvalidConfiguration e | Inr u \<Rightarrow> True)"
  by (cases network; cases subnet; cases router; cases dhcp)
    (simp_all add: check_settings_def net_settings_def settings_error_def catches_def
      isinstance_of_def supers.simps)

end
