(* ===== verification/GlanceHttp.thy ===== *)
theory GlanceHttp
  imports ClientBase
begin

text \<open>
  The HTTP client of the image service, \<open>automation/common/glance_http.py\<close>: the endpoint, the requests
  with their chunked bodies, the reading of the answers, and the checks of the TLS certificate.

  \<open>httplib\<close> is the parameter \<open>dial\<close>: what a connection makes of a request on the wire. An OpenSSL context
  is the parameter \<open>ssl\<close>; a certificate is the record \<open>x509\<close> of what the code reads from it. The
  authentication provider's \<open>auth_request\<close> is the parameter \<open>auth\<close>.
\<close>

section \<open>The endpoint\<close>

text \<open>\<open>hostname\<close> and \<open>port\<close> of \<open>urlparse\<close>'s result.\<close>

definition last_piece :: "char \<Rightarrow> string \<Rightarrow> string" where
  "last_piece c s = last (str_split c s)"

definition url_hostname :: "string \<Rightarrow> string option" where
  "url_hostname netloc =
     (let h = last_piece CHR ''@'' netloc in
      if CHR ''['' \<in> set h \<and> CHR '']'' \<in> set h then Some (str_lower (drop 1 (before CHR '']'' h)))
      else if CHR '':'' \<in> set h then Some (str_lower (before CHR '':'' h))
      else if h = [] then None else Some (str_lower h))"

definition url_port :: "string \<Rightarrow> pyexc + int option" where
  "url_port netloc =
     (let h = last_piece CHR '']'' (last_piece CHR ''@'' netloc) in
      if CHR '':'' \<in> set h \<and> str_split CHR '':'' h ! 1 \<noteq> [] then
        (case int_of_str (str_split CHR '':'' h ! 1) of
           None \<Rightarrow> Inl ValueErr
         | Some p \<Rightarrow> Inr (if 0 \<le> p \<and> p \<le> 65535 then Some p else None))
      else Inr None)"

record glance_client =
  gc_endpoint :: string
  gc_scheme :: string
  gc_hostname :: "string option"
  gc_port :: "int option"
  gc_path :: string
  gc_kwargs :: "(string, py) dict"

text \<open>The timeout of ten minutes is a float in the code.\<close>

definition get_connection_kwargs :: "string \<Rightarrow> (string, py) dict \<Rightarrow> (string, py) dict" where
  "get_connection_kwargs scheme kwargs =
     (''timeout'', kw_get kwargs ''timeout'' (PInt 600))
     # (if scheme = ''https''
        then [(''ca_certs'', kw_get kwargs ''ca_certs'' PNone), (''cert_file'', kw_get kwargs ''cert_file'' PNone),
              (''key_file'', kw_get kwargs ''key_file'' PNone), (''insecure'', kw_get kwargs ''insecure'' (PBool False)),
              (''ssl_compression'', kw_get kwargs ''ssl_compression'' (PBool True))]
        else [])"

definition glance_client_init :: "string \<Rightarrow> (string, py) dict \<Rightarrow> pyexc + glance_client" where
  "glance_client_init endpoint kwargs =
     (let u = urlparse endpoint in
      bindE (url_port (u_netloc u)) (\<lambda>port.
        Inr \<lparr>gc_endpoint = endpoint, gc_scheme = u_scheme u, gc_hostname = url_hostname (u_netloc u),
             gc_port = port, gc_path = u_path u,
             gc_kwargs = get_connection_kwargs (u_scheme u) kwargs\<rparr>))"

section \<open>Bodies\<close>

text \<open>A body is absent (None), a text, or a file with what is left to read in it.\<close>

datatype glance_body = NoBody | Text string | File string

definition CHUNKSIZE :: nat where
  "CHUNKSIZE = 65536"

text \<open>What the successive \<open>read(n)\<close> of a file give, up to the first empty one.\<close>

function file_chunks :: "nat \<Rightarrow> string \<Rightarrow> string list" where
  "file_chunks n s = (if s = [] \<or> n = 0 then [] else take n s # file_chunks n (drop n s))"
  by auto
termination by (relation "measure (\<lambda>(n, s). length s)") auto

declare file_chunks.simps [simp del]

text \<open>\<open>'%x'\<close> of a length.\<close>

definition lower_hex :: "nat \<Rightarrow> char" where
  "lower_hex n = (if n < 10 then char_of (48 + n) else char_of (87 + n))"

fun hex_str :: "nat \<Rightarrow> string" where
  "hex_str n = (if n < 16 then [lower_hex n] else hex_str (n div 16) @ [lower_hex (n mod 16)])"

declare hex_str.simps [simp del]

definition crlf :: string where
  "crlf = [CHR 0x0D, CHR 0x0A]"

definition chunk_text :: "string \<Rightarrow> string" where
  "chunk_text chunk = hex_str (length chunk) @ crlf @ chunk @ crlf"

definition chunk_stream :: "string \<Rightarrow> string" where
  "chunk_stream s = concat (map chunk_text (file_chunks CHUNKSIZE s)) @ ''0'' @ crlf @ crlf"

section \<open>Requests\<close>

text \<open>\<open>posixpath.normpath\<close>.\<close>

fun norm_comps :: "bool \<Rightarrow> string list \<Rightarrow> string list \<Rightarrow> string list" where
  "norm_comps rooted acc [] = rev acc"
| "norm_comps rooted acc (c # cs) =
     (if c = [] \<or> c = ''.'' then norm_comps rooted acc cs
      else if c \<noteq> ''..'' \<or> \<not> rooted \<and> acc = [] \<or> acc \<noteq> [] \<and> hd acc = ''..''
      then norm_comps rooted (c # acc) cs
      else norm_comps rooted (tl acc) cs)"

definition initial_slashes :: "string \<Rightarrow> nat" where
  "initial_slashes path =
     (if take 1 path \<noteq> ''/'' then 0 else if take 2 path = ''//'' \<and> take 3 path \<noteq> ''///'' then 2 else 1)"

definition normpath :: "string \<Rightarrow> string" where
  "normpath path =
     (let n = initial_slashes path;
          p = replicate n CHR ''/'' @ str_join ''/'' (norm_comps (0 < n) [] (str_split CHR ''/'' path))
      in if path = [] \<or> p = [] then ''.'' else p)"

text \<open>A request on the wire. A chunked body is the stream of its chunks; other bodies are given to \<open>httplib\<close>.\<close>

datatype wire_body = Given "glance_body option" | Chunked string

record wire =
  wr_method :: string
  wr_path :: string
  wr_headers :: headers
  wr_body :: wire_body

datatype dial_error = BadUrl | NoAddress string | SocketFailed string

type_synonym 'w dialer = "glance_client \<Rightarrow> wire \<Rightarrow> 'w \<Rightarrow> (dial_error + http_response \<times> string) \<times> 'w"

definition dial_exception :: "glance_client \<Rightarrow> string \<Rightarrow> dial_error \<Rightarrow> pyexc" where
  "dial_exception c url e =
     (case e of
        BadUrl \<Rightarrow> Auto EndpointNotFound [] []
      | NoAddress t \<Rightarrow> Auto EndpointNotFound [PStr (''Error finding address for '' @ url @ '': '' @ t)] []
      | SocketFailed t \<Rightarrow>
          Auto TimeoutException [PStr (''Error communicating with '' @ gc_endpoint c @ '' '' @ t)] [])"

definition setdefault :: "(string, 'v) dict \<Rightarrow> string \<Rightarrow> 'v \<Rightarrow> (string, 'v) dict" where
  "setdefault d k v = (if dhas d k then d else dset d k v)"

text \<open>Only a file can be read in chunks; the key \<open>body\<close> may be missing altogether (None here).\<close>

definition wire_body_of :: "headers \<Rightarrow> glance_body option \<Rightarrow> pyexc + wire_body" where
  "wire_body_of hs body =
     (if dget hs ''Transfer-Encoding'' = Some ''chunked'' then
        (case body of
           None \<Rightarrow> Inl (KeyErr ''body'')
         | Some (File s) \<Rightarrow> Inr (Chunked (chunk_stream s))
         | Some b \<Rightarrow> Inl AttrErr)
      else Inr (Given body))"

text \<open>
  An answer that is not \<open>application/octet-stream\<close> is read into a text. For one that is, the response is
  logged with \<open>len\<close> of an iterator, which has none.
\<close>

definition glance_answer :: "http_response \<times> string \<Rightarrow> pyexc + answer" where
  "glance_answer = (\<lambda>(resp, body).
     if dget (rs_headers resp) ''content-type'' = Some ''application/octet-stream'' then Inl TypeErr
     else Inr (resp, concat (file_chunks CHUNKSIZE body)))"

definition glance_request ::
    "'w dialer \<Rightarrow> glance_client \<Rightarrow> string \<Rightarrow> string \<Rightarrow> headers \<Rightarrow> glance_body option \<Rightarrow> ('w, answer) io" where
  "glance_request dial c url method hs body =
     (let hs' = setdefault hs ''User-Agent'' ''tempest'' in
      bnd (lift (wire_body_of hs' body)) (\<lambda>b w.
        (case dial c \<lparr>wr_method = method, wr_path = normpath (u_path (urlparse url)), wr_headers = hs',
                      wr_body = b\<rparr> w of
           (Inl e, w') \<Rightarrow> (Inl (dial_exception c url e), w')
         | (Inr a, w') \<Rightarrow> (glance_answer a, w'))))"

definition glance_json_request ::
    "'r env \<Rightarrow> 'w dialer \<Rightarrow> glance_client \<Rightarrow> string \<Rightarrow> string \<Rightarrow> headers \<Rightarrow> py option
     \<Rightarrow> ('w, http_response \<times> py) io" where
  "glance_json_request env dial c method url hs body =
     (let hs' = setdefault hs ''Content-Type'' ''application/json'' in
      if dget hs' ''Content-Type'' \<noteq> Some ''application/json''
      then throw (Auto InvalidContentType [PStr ''Only application/json content-type is supported.''] [])
      else
        bnd (glance_request dial c url method hs' (map_option (\<lambda>v. Text (e_dumps env v)) body)) (\<lambda>(resp, text1).
          if str_contains ''application/json''
               (case dget (rs_headers resp) ''content-type'' of None \<Rightarrow> [] | Some t \<Rightarrow> t)
          then ret (resp, case e_loads env text1 of None \<Rightarrow> PStr text1 | Some v \<Rightarrow> v)
          else throw (Auto InvalidContentType [PStr ''Only json/application content-type is supported.''] [])))"

type_synonym 'w authenticator =
  "string \<Rightarrow> string \<Rightarrow> headers \<Rightarrow> glance_body \<Rightarrow> ('w, string \<times> headers \<times> glance_body) io"

definition is_file :: "glance_body \<Rightarrow> bool" where
  "is_file b = (case b of File s \<Rightarrow> True | _ \<Rightarrow> False)"

definition raw_headers :: "string \<Rightarrow> headers \<Rightarrow> glance_body \<Rightarrow> headers" where
  "raw_headers method hs body =
     (let hs' = setdefault hs ''Content-Type'' ''application/octet-stream'' in
      if is_file body \<and> (str_lower method = ''post'' \<or> str_lower method = ''put'')
      then dset hs' ''Transfer-Encoding'' ''chunked'' else hs')"

definition glance_raw_request ::
    "'w dialer \<Rightarrow> 'w authenticator \<Rightarrow> glance_client \<Rightarrow> string \<Rightarrow> string \<Rightarrow> headers \<Rightarrow> glance_body
     \<Rightarrow> ('w, answer) io" where
  "glance_raw_request dial auth c method url hs body =
     bnd (auth method url (raw_headers method hs body) body) (\<lambda>(req_url, hs', body').
       glance_request dial c req_url method hs' (Some body'))"

text \<open>
  The provider's \<open>auth_request\<close> as an authenticator. It never changes the body: the altered part of a
  request is taken from the same request with other credentials.
\<close>

definition provider_auth :: "'r env \<Rightarrow> (string, py) dict \<Rightarrow> (('r, 'x) auth_world_scheme) authenticator" where
  "provider_auth env flt method url hs body =
     bnd (auth_request env
            \<lparr>aq_url = Some url, aq_headers = Some hs,
             aq_body = (case body of Text t \<Rightarrow> PStr t | _ \<Rightarrow> PNone)\<rparr> flt) (\<lambda>rq.
       ret (case aq_url rq of None \<Rightarrow> [] | Some u \<Rightarrow> u, case aq_headers rq of None \<Rightarrow> [] | Some h \<Rightarrow> h, body))"

section \<open>Certificates\<close>

record x509 =
  x5_common_name :: string
  x5_extensions :: "(string \<times> string) list"
  x5_expired :: bool

text \<open>The names of a subjectAltName: blanks are removed, then commas separate.\<close>

definition san_names :: "string \<Rightarrow> string list" where
  "san_names t = str_split CHR '','' (filter (\<lambda>c. \<not> is_space c) t)"

text \<open>
  \<open>exceptions.SSLCertificateError\<close> and \<open>SSLConfigurationError\<close> are not defined in \<open>exceptions.py\<close>: naming
  them is an \<open>AttributeError\<close>.
\<close>

definition SSLCertificateError :: pyexc where
  "SSLCertificateError = AttrErr"

definition SSLConfigurationError :: pyexc where
  "SSLConfigurationError = AttrErr"

definition host_matches_cert :: "string \<Rightarrow> x509 \<Rightarrow> pyexc + bool" where
  "host_matches_cert host x =
     (if x5_common_name x = host then Inr True
      else if \<exists>(name, t) \<in> set (x5_extensions x). name = ''subjectAltName'' \<and> (''DNS:'' @ host) \<in> set (san_names t)
      then Inr True
      else Inl SSLCertificateError)"

definition verify_callback :: "string \<Rightarrow> x509 \<Rightarrow> int \<Rightarrow> py \<Rightarrow> pyexc + py" where
  "verify_callback host x depth preverify_ok =
     (if x5_expired x then Inl SSLCertificateError
      else if depth = 0 \<and> preverify_ok = PBool True then bindE (host_matches_cert host x) (\<lambda>b. Inr (PBool b))
      else Inr preverify_ok)"

datatype ssl_call =
    SetOptions int
  | SetVerify bool
  | UseCertificate py
  | UsePrivateKey py
  | LoadCA py
  | DefaultPaths

definition ssl_or_error :: "('w, unit) io \<Rightarrow> ('w, unit) io" where
  "ssl_or_error m = catch m (\<lambda>e. Some (throw SSLConfigurationError))"

text \<open>\<open>setcontext\<close>; \<open>SetVerify\<close> says whether the peer is verified. 0x20000 is no compression.\<close>

definition setcontext ::
    "(ssl_call \<Rightarrow> ('w, unit) io) \<Rightarrow> py \<Rightarrow> py \<Rightarrow> py \<Rightarrow> py \<Rightarrow> py \<Rightarrow> ('w, unit) io" where
  "setcontext ssl ssl_compression insecure cert_file key_file ca_certs =
     bnd (if ssl_compression = PBool False then ssl (SetOptions 131072) else ret ()) (\<lambda>_.
     bnd (ssl (SetVerify (insecure \<noteq> PBool True))) (\<lambda>_.
     bnd (if truthy cert_file
          then bnd (ssl_or_error (ssl (UseCertificate cert_file))) (\<lambda>_.
                 if key_file = PNone then ssl_or_error (ssl (UsePrivateKey cert_file)) else ret ())
          else ret ()) (\<lambda>_.
     bnd (if truthy key_file then ssl_or_error (ssl (UsePrivateKey key_file)) else ret ()) (\<lambda>_.
       if truthy ca_certs then ssl_or_error (ssl (LoadCA ca_certs)) else ssl DefaultPaths))))"

end
