(* ===== verification/ImageClients.thy ===== *)
theory ImageClients
  imports GlanceHttp Waiters
begin

text \<open>
  The clients of the image service, \<open>automation/services/image/v1/json/image_client.py\<close> (prefix \<open>im1_\<close>) and
  \<open>automation/services/image/v2/json/image_client.py\<close> (\<open>im2_\<close>). Requests with image data go through the
  HTTP client of the image service, its \<open>raw_request\<close> (the argument \<open>raw\<close>), the others through \<open>request\<close>.
\<close>

type_synonym 'w raw_requester = "string \<Rightarrow> string \<Rightarrow> headers \<Rightarrow> glance_body \<Rightarrow> ('w, answer) io"

section \<open>Image metadata as headers\<close>

text \<open>\<open>_image_meta_from_headers\<close>. The prefixes have 22 and 13 characters.\<close>

definition property_prefix :: string where
  "property_prefix = ''x-image-meta-property-''"

definition meta_prefix :: string where
  "meta_prefix = ''x-image-meta-''"

text \<open>\<open>meta['properties'][key] = value\<close>: a header can have put a text under \<open>properties\<close>.\<close>

definition add_property :: "(string, py) dict \<Rightarrow> string \<Rightarrow> string \<Rightarrow> pyexc + (string, py) dict" where
  "add_property meta k v =
     (case dget meta ''properties'' of
        Some (PDict d) \<Rightarrow> Inr (dset meta ''properties'' (PDict (dset d k (PStr v))))
      | _ \<Rightarrow> Inl TypeErr)"

definition read_header :: "string \<times> string \<Rightarrow> (string, py) dict \<Rightarrow> pyexc + (string, py) dict" where
  "read_header = (\<lambda>(k, v) meta.
     if starts_with property_prefix k then add_property meta (drop 22 k) v
     else if starts_with meta_prefix k then Inr (dset meta (drop 13 k) (PStr v))
     else Inr meta)"

primrec read_headers :: "(string \<times> string) list \<Rightarrow> (string, py) dict \<Rightarrow> pyexc + (string, py) dict" where
  "read_headers [] meta = Inr meta"
| "read_headers (h # hs) meta = bindE (read_header h meta) (read_headers hs)"

definition flag_keys :: "string list" where
  "flag_keys = [''is_public'', ''protected'', ''deleted'']"

definition number_keys :: "string list" where
  "number_keys = [''size'', ''min_ram'', ''min_disk'']"

definition read_flag :: "py \<Rightarrow> py" where
  "read_flag v =
     (case v of PStr s \<Rightarrow> PBool (str_lower (str_strip s) \<in> {''t'', ''true'', ''yes'', ''1''}) | _ \<Rightarrow> v)"

definition read_number :: "py \<Rightarrow> py" where
  "read_number v =
     (case v of PStr s \<Rightarrow> (case int_of_str s of None \<Rightarrow> v | Some i \<Rightarrow> PInt i) | _ \<Rightarrow> v)"

definition change_at :: "(py \<Rightarrow> py) \<Rightarrow> string \<Rightarrow> (string, py) dict \<Rightarrow> (string, py) dict" where
  "change_at f k d = (case dget d k of None \<Rightarrow> d | Some v \<Rightarrow> dset d k (f v))"

definition image_meta_from_headers :: "(string \<times> string) list \<Rightarrow> pyexc + (string, py) dict" where
  "image_meta_from_headers headers =
     bindE (read_headers headers [(''properties'', PDict [])]) (\<lambda>meta.
       Inr (fold (change_at read_number) number_keys (fold (change_at read_flag) flag_keys meta)))"

text \<open>\<open>_image_meta_to_headers\<close>. \<open>copy_from\<close> is a text; iterating over no dictionary is an AttributeError.\<close>

definition items_of :: "py \<Rightarrow> pyexc + (string, py) dict" where
  "items_of v = (case v of PDict d \<Rightarrow> Inr d | _ \<Rightarrow> Inl AttrErr)"

definition header_lines :: "'r env \<Rightarrow> string \<Rightarrow> (string, py) dict \<Rightarrow> headers" where
  "header_lines env prefix d = map (\<lambda>(k, v). (prefix @ k, py_text (e_repr env) v)) d"

definition image_meta_to_headers :: "'r env \<Rightarrow> (string, py) dict \<Rightarrow> pyexc + headers" where
  "image_meta_to_headers env flds =
     (let copy_from = kw_get flds ''copy_from'' PNone;
          rest = ddel (ddel (ddel flds ''copy_from'') ''properties'') ''api'' in
      bindE (if is_none copy_from then Inr []
             else bindE (as_str TypeErr copy_from) (\<lambda>t. Inr [(''x-glance-api-copy-from'', t)])) (\<lambda>h0.
      bindE (items_of (kw_get flds ''properties'' (PDict []))) (\<lambda>props.
      bindE (items_of (kw_get flds ''api'' (PDict []))) (\<lambda>api.
        Inr (dupdate (dupdate (dupdate h0 (header_lines env property_prefix props))
               (header_lines env ''x-glance-api-property-'' api)) (header_lines env meta_prefix rest))))))"

section \<open>Version 1\<close>

text \<open>
  \<open>_error_checker\<close> on an answer of the image service's client, an \<open>httplib\<close> response with an iterator as
  its body: a missing content type is None, and the iterator of a JSON body cannot be decoded.
\<close>

definition parsed_statuses :: "int list" where
  "parsed_statuses = [401, 403, 404, 400, 409, 413, 415, 422, 500, 501]"

definition glance_error_checker :: "'r env \<Rightarrow> answer \<Rightarrow> pyexc + unit" where
  "glance_error_checker env a =
     (if rs_status (fst a) < 400 then Inr ()
      else
        (case dget (rs_headers (fst a)) ''content-type'' of
           None \<Rightarrow> Inl AttrErr
         | Some ctype \<Rightarrow>
             if str_lower ctype \<in> set JSON_ENC \<and> rs_status (fst a) \<in> set parsed_statuses then Inl TypeErr
             else error_checker env (fst a) (snd a)))"

definition data_reply :: "'r env \<Rightarrow> answer \<Rightarrow> pyexc + response_body" where
  "data_reply env a =
     bindE (glance_error_checker env a) (\<lambda>_. bindE (json_loads env (snd a)) (response_dict (fst a)))"

definition create_with_data :: "'r env \<Rightarrow> 'w raw_requester \<Rightarrow> headers \<Rightarrow> glance_body \<Rightarrow> ('w, response_body) io" where
  "create_with_data env raw hs data =
     bnd (raw ''POST'' ''/v1/images'' hs data) (\<lambda>a. lift (data_reply env a))"

definition update_with_data ::
    "'r env \<Rightarrow> 'w raw_requester \<Rightarrow> string \<Rightarrow> headers \<Rightarrow> glance_body \<Rightarrow> ('w, response_body) io" where
  "update_with_data env raw image_id hs data =
     bnd (raw ''PUT'' (''/v1/images/'' @ image_id) hs data) (\<lambda>a. lift (data_reply env a))"

text \<open>\<open>data\<close> is the keyword argument \<open>data\<close>, if there is one.\<close>

definition create_options1 :: "string list" where
  "create_options1 = [''is_public'', ''location'', ''properties'', ''copy_from'', ''min_ram'']"

definition im1_fields :: "py \<Rightarrow> py \<Rightarrow> py \<Rightarrow> py \<Rightarrow> (string, py) dict \<Rightarrow> (string, py) dict" where
  "im1_fields name container_format disk_format size1 kwargs =
     fold (\<lambda>k d. case dget kwargs k of None \<Rightarrow> d | Some v \<Rightarrow> dset d k v) create_options1
       (set_if (\<not> is_none size1) ''size'' size1
          [(''name'', name), (''container_format'', container_format), (''disk_format'', disk_format)])"

definition im1_create_image ::
    "'r env \<Rightarrow> 'w requester \<Rightarrow> 'w raw_requester \<Rightarrow> py \<Rightarrow> py \<Rightarrow> py \<Rightarrow> py \<Rightarrow> (string, py) dict \<Rightarrow> glance_body option
     \<Rightarrow> ('w, response_body) io" where
  "im1_create_image env rq raw name container_format disk_format size1 kwargs data =
     bnd (lift (image_meta_to_headers env (im1_fields name container_format disk_format size1 kwargs))) (\<lambda>hs.
       case data of
         Some d \<Rightarrow> create_with_data env raw hs d
       | None \<Rightarrow>
           bnd (http_post rq ''v1/images'' PNone (Some hs) False) (\<lambda>a. lift (checked_json env (Code 201) None a)))"

text \<open>\<open>data=None\<close> is no data.\<close>

definition im1_update_image ::
    "'r env \<Rightarrow> 'w requester \<Rightarrow> 'w raw_requester \<Rightarrow> string \<Rightarrow> py \<Rightarrow> py \<Rightarrow> glance_body option \<Rightarrow> py \<Rightarrow> py
     \<Rightarrow> ('w, response_body) io" where
  "im1_update_image env rq raw image_id name container_format data properties size1 =
     bnd (lift (image_meta_to_headers env
            (set_if (\<not> is_none size1) ''size'' size1
              (set_if (\<not> is_none properties) ''properties'' properties
                (set_if (\<not> is_none container_format) ''container_format'' container_format
                  (set_if (\<not> is_none name) ''name'' name [])))))) (\<lambda>hs.
       case data of
         Some d \<Rightarrow> update_with_data env raw image_id hs d
       | None \<Rightarrow>
           bnd (http_put rq (''v1/images/'' @ image_id) PNone (Some hs) False) (\<lambda>a.
             lift (checked_json env (Code 200) None a)))"

definition im1_delete_image :: "'w requester \<Rightarrow> string \<Rightarrow> ('w, response_body) io" where
  "im1_delete_image rq image_id = delete_with rq (''v1/images/'' @ image_id) (checked_text (Code 200))"

definition im1_list_params :: "(string, py) dict \<Rightarrow> py \<Rightarrow> (string, py) dict \<Rightarrow> (string, py) dict" where
  "im1_list_params properties changes_since kwargs =
     set_if (\<not> is_none changes_since) ''changes-since'' changes_since
       (dupdate kwargs (map (\<lambda>(k, v). (''property-'' @ k, v)) properties))"

definition im1_list_images ::
    "'r env \<Rightarrow> 'w requester \<Rightarrow> bool \<Rightarrow> (string, py) dict \<Rightarrow> py \<Rightarrow> (string, py) dict \<Rightarrow> ('w, response_body) io" where
  "im1_list_images env rq detail properties changes_since kwargs =
     (let params = im1_list_params properties changes_since kwargs in
      get_with rq
        (''v1/images'' @ (if detail then ''/detail'' else [])
         @ (if params \<noteq> [] then ''?'' @ urlencode_params env params else []))
        (checked_json env (Code 200) None))"

definition im1_get_image_meta :: "'w requester \<Rightarrow> string \<Rightarrow> ('w, response_body) io" where
  "im1_get_image_meta rq image_id =
     head_with rq (''v1/images/'' @ image_id) (\<lambda>a.
       bindE (expected_success (Code 200) (rs_status (fst a))) (\<lambda>_.
       bindE (image_meta_from_headers (rs_headers (fst a))) (\<lambda>meta. response_dict (fst a) (PDict meta))))"

definition im1_show_image :: "'w requester \<Rightarrow> string \<Rightarrow> ('w, response_data) io" where
  "im1_show_image rq image_id = get_with rq (''v1/images/'' @ image_id) (checked_text_data (Code 200))"

definition im1_image_deleted :: "'w requester \<Rightarrow> string \<Rightarrow> ('w, bool) io" where
  "im1_image_deleted rq item_id = is_gone (im1_get_image_meta rq item_id)"

definition im1_list_image_members :: "'r env \<Rightarrow> 'w requester \<Rightarrow> string \<Rightarrow> ('w, response_body) io" where
  "im1_list_image_members env rq image_id =
     get_with rq (''v1/images/'' @ image_id @ ''/members'') (checked_json env (Code 200) None)"

definition im1_list_shared_images :: "'r env \<Rightarrow> 'w requester \<Rightarrow> string \<Rightarrow> ('w, response_body) io" where
  "im1_list_shared_images env rq tenant_id =
     get_with rq (''v1/shared-images/'' @ tenant_id) (checked_json env (Code 200) None)"

definition im1_add_member :: "'r env \<Rightarrow> 'w requester \<Rightarrow> string \<Rightarrow> string \<Rightarrow> bool \<Rightarrow> ('w, response_body) io" where
  "im1_add_member env rq member_id image_id can_share =
     put_with rq (''v1/images/'' @ image_id @ ''/members/'' @ member_id)
       (if can_share then wrapped env ''member'' [(''can_share'', PBool True)] else PNone)
       (checked_empty (Code 204))"

definition im1_delete_member :: "'w requester \<Rightarrow> string \<Rightarrow> string \<Rightarrow> ('w, response_body) io" where
  "im1_delete_member rq member_id image_id =
     delete_with rq (''v1/images/'' @ image_id @ ''/members/'' @ member_id) (checked_empty (Code 204))"

text \<open>
  \<open>wait_for_image_status\<close>: the state of the loop is the value of the status. It is compared after a
  sleep, and the time that has passed is read before that sleep.
\<close>

definition im1_message :: "rest_client \<Rightarrow> 'r env \<Rightarrow> string option \<Rightarrow> string \<Rightarrow> py \<Rightarrow> string" where
  "im1_message c env caller status cur =
     with_caller caller
       (''Time Limit Exceeded! ('' @ int_str (rc_build_timeout c) @ ''s)while waiting for '' @ status
        @ '', but we got '' @ py_text (e_repr env) cur @ ''.'')"

definition im1_round ::
    "rest_client \<Rightarrow> 'r env \<Rightarrow> string option \<Rightarrow> (('r, 'x) world_scheme, py) io \<Rightarrow> string \<Rightarrow> string \<Rightarrow> int \<Rightarrow> py
     \<Rightarrow> (('r, 'x) world_scheme, py + py) io" where
  "im1_round c env caller get_status image_id status start_time cur =
     bnd (gets now) (\<lambda>t.
     bnd (sleep (rc_build_interval c)) (\<lambda>_.
       if cur = PStr status then ret (Inr cur)
       else if cur = PStr ''killed''
       then throw (Auto ImageKilledException [] [(''image_id'', PStr image_id), (''status'', PStr status)])
       else if rc_build_timeout c * 1000000 < t - start_time
       then throw (Auto TimeoutException [PStr (im1_message c env caller status cur)] [])
       else
         bnd (sleep (rc_build_interval c)) (\<lambda>_.
         bnd get_status (\<lambda>st. ret (Inl st)))))"

definition im1_get_image_status :: "('w, response_body) io \<Rightarrow> ('w, py) io" where
  "im1_get_image_status get_meta = bnd get_meta (\<lambda>b. lift (rb_item b ''status''))"

definition im1_wait_for_image_status ::
    "rest_client \<Rightarrow> 'r env \<Rightarrow> string option \<Rightarrow> (('r, 'x) world_scheme, response_body) io \<Rightarrow> string \<Rightarrow> string
     \<Rightarrow> ('r, 'x) world_scheme \<Rightarrow> ((pyexc + py) \<times> ('r, 'x) world_scheme) option" where
  "im1_wait_for_image_status c env caller get_meta image_id status w =
     (let get_status = im1_get_image_status get_meta
      in then_loop get_status (loop_io (im1_round c env caller get_status image_id status (now w))) w)"

section \<open>Version 2\<close>

definition im2_show_schema :: "'r env \<Rightarrow> 'w requester \<Rightarrow> string \<Rightarrow> ('w, response_body) io" where
  "im2_show_schema env rq schema =
     get_with rq (''v2/schemas/'' @ schema) (checked_json env (Code 200) None)"

text \<open>\<open>jsonschema.validate\<close> raises a \<open>ValidationError\<close> of its own.\<close>

definition im2_validate_schema :: "'r env \<Rightarrow> 'w requester \<Rightarrow> py \<Rightarrow> string \<Rightarrow> ('w, unit) io" where
  "im2_validate_schema env rq body kind =
     (if kind = ''image'' \<or> kind = ''images'' then
        bnd (im2_show_schema env rq kind) (\<lambda>schema.
          case e_valid env body (PDict (rb_data schema)) of
            None \<Rightarrow> ret ()
          | Some ex \<Rightarrow> throw (PlainExc ''ValidationError''))
      else throw ValueErr)"

text \<open>What is validated is the text of the document.\<close>

definition im2_update_image :: "'r env \<Rightarrow> 'w requester \<Rightarrow> string \<Rightarrow> py \<Rightarrow> ('w, response_body) io" where
  "im2_update_image env rq image_id patch =
     bnd (im2_validate_schema env rq (json_dumps env patch) ''image'') (\<lambda>_.
     bnd (http_patch rq (''v2/images/'' @ image_id) (json_dumps env patch)
            (Some [(''Content-Type'', ''application/openstack-images-v2.0-json-patch'')]) False) (\<lambda>a.
       lift (parsed_json env (Code 200) a)))"

definition im2_params :: "py \<Rightarrow> py \<Rightarrow> py \<Rightarrow> (string, py) dict \<Rightarrow> (string, py) dict" where
  "im2_params name container_format disk_format kwargs =
     fold (\<lambda>(k, v) d. case v of PDict e \<Rightarrow> dupdate d e | _ \<Rightarrow> dset d k v) kwargs
       [(''name'', name), (''container_format'', container_format), (''disk_format'', disk_format)]"

definition im2_create_image ::
    "'r env \<Rightarrow> 'w requester \<Rightarrow> py \<Rightarrow> py \<Rightarrow> py \<Rightarrow> (string, py) dict \<Rightarrow> ('w, response_body) io" where
  "im2_create_image env rq name container_format disk_format kwargs =
     (let data = json_dumps env (PDict (im2_params name container_format disk_format kwargs)) in
      bnd (im2_validate_schema env rq data ''image'') (\<lambda>_.
        post_with rq ''v2/images'' data (checked_json env (Code 201) None)))"

definition im2_deactivate_image :: "'w requester \<Rightarrow> string \<Rightarrow> ('w, response_body) io" where
  "im2_deactivate_image rq image_id =
     post_with rq (''v2/images/'' @ image_id @ ''/actions/deactivate'') PNone (checked_text (Code 204))"

definition im2_reactivate_image :: "'w requester \<Rightarrow> string \<Rightarrow> ('w, response_body) io" where
  "im2_reactivate_image rq image_id =
     post_with rq (''v2/images/'' @ image_id @ ''/actions/reactivate'') PNone (checked_text (Code 204))"

definition im2_delete_image :: "'w requester \<Rightarrow> string \<Rightarrow> ('w, response_body) io" where
  "im2_delete_image rq image_id = delete_with rq (''v2/images/'' @ image_id) (checked_empty (Code 204))"

text \<open>\<open>params\<close> is None or a dictionary; here the document itself is validated.\<close>

definition im2_list_images :: "'r env \<Rightarrow> 'w requester \<Rightarrow> (string, py) dict \<Rightarrow> ('w, response_list) io" where
  "im2_list_images env rq params =
     bnd (get_with rq (''v2/images'' @ (if params \<noteq> [] then ''?'' @ urlencode_params env params else []))
            (\<lambda>a. bindE (checked_part env (Code 200) None a) (\<lambda>b. Inr (fst a, b)))) (\<lambda>(resp, b).
     bnd (im2_validate_schema env rq b ''images'') (\<lambda>_.
       lift (bindE (getitem b ''images'') (response_list_of resp))))"

definition im2_show_image :: "'r env \<Rightarrow> 'w requester \<Rightarrow> string \<Rightarrow> ('w, response_body) io" where
  "im2_show_image env rq image_id =
     get_with rq (''v2/images/'' @ image_id) (checked_json env (Code 200) None)"

definition im2_image_deleted :: "'r env \<Rightarrow> 'w requester \<Rightarrow> string \<Rightarrow> ('w, bool) io" where
  "im2_image_deleted env rq item_id = is_gone (im2_show_image env rq item_id)"

text \<open>
  \<open>ResponseBody(resp, body)\<close> with the file object of an answer: \<open>dict.update\<close> iterates over its lines, each
  with its end, and takes a line of two characters for a pair.
\<close>

function file_lines :: "string \<Rightarrow> string list" where
  "file_lines s =
     (if s = [] then []
      else (let l = takeWhile (\<lambda>c. c \<noteq> CHR 0x0A) s; n = Suc (length l) in take n s # file_lines (drop n s)))"
  by auto
termination by (relation "measure length") auto

declare file_lines.simps [simp del]

definition file_pair :: "string \<Rightarrow> pyexc + string \<times> py" where
  "file_pair l = (case l of [a, b] \<Rightarrow> Inr ([a], PStr [b]) | _ \<Rightarrow> Inl ValueErr)"

definition file_response :: "answer \<Rightarrow> pyexc + response_body" where
  "file_response a =
     bindE (mapE file_pair (file_lines (snd a))) (\<lambda>ps. Inr \<lparr>rb_response = fst a, rb_data = dupdate [] ps\<rparr>)"

definition im2_store_image_file ::
    "'r env \<Rightarrow> 'w raw_requester \<Rightarrow> string \<Rightarrow> glance_body \<Rightarrow> py \<Rightarrow> ('w, response_body) io" where
  "im2_store_image_file env raw image_id data size1 =
     bnd (raw ''PUT'' (''v2/images/'' @ image_id @ ''/file'')
            (if is_none size1 then [(''Content-Type'', ''application/octet-stream'')]
             else [(''Content-Type'', ''application/octet-stream''), (''Content-Length'', py_text (e_repr env) size1)])
            data) (\<lambda>a.
       lift (bindE (expected_success (Code 204) (rs_status (fst a))) (\<lambda>_. file_response a)))"

definition im2_load_image_file :: "'w requester \<Rightarrow> string \<Rightarrow> ('w, response_data) io" where
  "im2_load_image_file rq image_id =
     get_with rq (''v2/images/'' @ image_id @ ''/file'') (checked_text_data (Code 200))"

definition im2_add_image_tag :: "'w requester \<Rightarrow> string \<Rightarrow> string \<Rightarrow> ('w, response_body) io" where
  "im2_add_image_tag rq image_id tag =
     put_with rq (''v2/images/'' @ image_id @ ''/tags/'' @ tag) PNone (checked_text (Code 204))"

definition im2_delete_image_tag :: "'w requester \<Rightarrow> string \<Rightarrow> string \<Rightarrow> ('w, response_body) io" where
  "im2_delete_image_tag rq image_id tag =
     delete_with rq (''v2/images/'' @ image_id @ ''/tags/'' @ tag) (checked_empty (Code 204))"

definition im2_list_image_members :: "'r env \<Rightarrow> 'w requester \<Rightarrow> string \<Rightarrow> ('w, response_body) io" where
  "im2_list_image_members env rq image_id =
     get_with rq (''v2/images/'' @ image_id @ ''/members'') (checked_json env (Code 200) None)"

definition im2_add_image_member :: "'r env \<Rightarrow> 'w requester \<Rightarrow> string \<Rightarrow> py \<Rightarrow> ('w, response_body) io" where
  "im2_add_image_member env rq image_id member_id =
     post_with rq (''v2/images/'' @ image_id @ ''/members'')
       (json_dumps env (PDict [(''member'', member_id)])) (checked_json env (Code 200) None)"

definition im2_update_image_member ::
    "'r env \<Rightarrow> 'w requester \<Rightarrow> string \<Rightarrow> string \<Rightarrow> py \<Rightarrow> ('w, response_body) io" where
  "im2_update_image_member env rq image_id member_id body =
     put_with rq (''v2/images/'' @ image_id @ ''/members/'' @ member_id) (json_dumps env body)
       (checked_json env (Code 200) None)"

definition im2_show_image_member :: "'r env \<Rightarrow> 'w requester \<Rightarrow> string \<Rightarrow> string \<Rightarrow> ('w, response_body) io" where
  "im2_show_image_member env rq image_id member_id =
     get_with rq (''v2/images/'' @ image_id @ ''/members/'' @ member_id) (checked_json env (Code 200) None)"

definition im2_remove_image_member :: "'w requester \<Rightarrow> string \<Rightarrow> string \<Rightarrow> ('w, response_body) io" where
  "im2_remove_image_member rq image_id member_id =
     delete_with rq (''v2/images/'' @ image_id @ ''/members/'' @ member_id) (checked_empty (Code 204))"

end
