(* ===== verification/ImageProps.thy ===== *)
theory ImageProps
  imports VolumeClients ImageClients GlanceHttp Demo
begin

text \<open>
  The properties of the image service's HTTP client: a chunked body is decoded to the file that was read,
  what never comes back, when a certificate is accepted, and how paths are normalised.

  The properties of the image clients: metadata survives the way through the headers, and what an upload
  reports.

  At the end, the waits of the snapshots and of the first image client. Both compare the status they hold after a sleep, and fetch it
  again after another one: the locale \<open>delayed_poll\<close>. They end, and they succeed when the status comes in
  time.
\<close>

section \<open>Chunked bodies\<close>

text \<open>A reader of the chunked coding of HTTP, without extensions and trailers: the reference.\<close>

definition hex_char_value :: "char \<Rightarrow> nat" where
  "hex_char_value c = (if of_char c < (58 :: nat) then of_char c - 48 else of_char c - 87)"

definition hex_value :: "string \<Rightarrow> nat" where
  "hex_value s = foldl (\<lambda>a c. 16 * a + hex_char_value c) 0 s"

definition size_line :: "string \<Rightarrow> string" where
  "size_line s = takeWhile (\<lambda>c. c \<noteq> CHR 0x0D) s"

function dechunk :: "string \<Rightarrow> string option" where
  "dechunk s =
     (let line = size_line s; rest = drop (length line) s; n = hex_value line; content = drop 2 rest in
      if line = [] \<or> take 2 rest \<noteq> crlf then None
      else if n = 0 then (if content = crlf then Some [] else None)
      else if length content < n + 2 \<or> take 2 (drop n content) \<noteq> crlf then None
      else map_option (append (take n content)) (dechunk (drop (n + 2) content)))"
  by auto
termination
  by (relation "measure length") (auto simp: size_line_def dest: arg_cong [where f = length])

declare dechunk.simps [simp del]

lemma lower_hex_char: "n < 16 \<Longrightarrow> hex_char_value (lower_hex n) = n \<and> lower_hex n \<noteq> CHR 0x0D"
proof -
  assume "n < 16"
  then have code: "of_char (lower_hex n) = (if n < 10 then 48 + n else 87 + n)"
    by (simp add: lower_hex_def)
  then have "of_char (lower_hex n) \<noteq> (of_char (CHR 0x0D) :: nat)" by simp
  with code show ?thesis by (auto simp: hex_char_value_def)
qed

lemma hex_value_snoc: "hex_value (s @ [c]) = 16 * hex_value s + hex_char_value c"
  by (simp add: hex_value_def)

lemma hex_str_props: "hex_str n \<noteq> [] \<and> CHR 0x0D \<notin> set (hex_str n) \<and> hex_value (hex_str n) = n"
proof (induction n rule: hex_str.induct)
  case (1 n)
  show ?case
  proof (cases "n < 16")
    case True
    have c: "hex_char_value (lower_hex n) = n" "lower_hex n \<noteq> CHR 0x0D"
      using lower_hex_char [OF True] by simp_all
    show ?thesis
      unfolding hex_str.simps [of n] using True c by (auto simp: hex_value_def)
  next
    case False
    have c: "hex_char_value (lower_hex (n mod 16)) = n mod 16" "lower_hex (n mod 16) \<noteq> CHR 0x0D"
      using lower_hex_char [of "n mod 16"] by simp_all
    show ?thesis
      unfolding hex_str.simps [of n] using 1 [OF False] False c by (auto simp: hex_value_snoc)
  qed
qed

lemma size_line_hex: "size_line (hex_str n @ crlf @ t) = hex_str n"
proof -
  have "\<forall>c \<in> set (hex_str n). c \<noteq> CHR 0x0D" using hex_str_props by metis
  then show ?thesis by (simp add: size_line_def crlf_def takeWhile_append2)
qed

lemma dechunk_chunk:
  assumes "chunk \<noteq> []"
  shows "dechunk (chunk_text chunk @ t) = map_option (append chunk) (dechunk t)"
proof -
  let ?s = "hex_str (length chunk) @ crlf @ chunk @ crlf @ t"
  have "length crlf = 2" by (simp add: crlf_def)
  then have "dechunk ?s = map_option (append chunk) (dechunk t)"
    using assms hex_str_props [of "length chunk"]
    by (subst dechunk.simps) (simp add: size_line_hex Let_def)
  then show ?thesis by (simp add: chunk_text_def)
qed

lemma dechunk_end: "dechunk (''0'' @ crlf @ crlf) = Some []"
  by (subst dechunk.simps) (simp add: size_line_def crlf_def hex_value_def hex_char_value_def)

lemma dechunk_chunks:
  "\<forall>c \<in> set cs. c \<noteq> [] \<Longrightarrow> dechunk (concat (map chunk_text cs) @ ''0'' @ crlf @ crlf) = Some (concat cs)"
proof (induction cs)
  case Nil
  show ?case using dechunk_end by simp
next
  case (Cons c cs)
  then show ?case by (simp add: dechunk_chunk)
qed

lemma file_chunks_pieces: "0 < n \<Longrightarrow> concat (file_chunks n s) = s"
  by (induction n s rule: file_chunks.induct) (subst file_chunks.simps, simp)

lemma file_chunks_sizes: "c \<in> set (file_chunks n s) \<Longrightarrow> c \<noteq> [] \<and> length c \<le> n"
proof (induction n s rule: file_chunks.induct)
  case (1 n s)
  show ?case
  proof (cases "s = [] \<or> n = 0")
    case True
    then show ?thesis using "1.prems" by (subst (asm) file_chunks.simps) simp
  next
    case False
    then have "c = take n s \<or> c \<in> set (file_chunks n (drop n s))"
      using "1.prems" by (subst (asm) file_chunks.simps) auto
    then show ?thesis using "1.IH" [OF False] False by auto
  qed
qed

text \<open>
  C19 (chunked_round_trip): whatever a file holds, a reader of the chunked coding gets it back from the stream
  that \<open>_http_request\<close> sends.
\<close>

theorem chunked_round_trip: "dechunk (chunk_stream s) = Some s"
proof -
  have "\<forall>c \<in> set (file_chunks CHUNKSIZE s). c \<noteq> []" using file_chunks_sizes by blast
  from dechunk_chunks [OF this] show ?thesis
    by (simp add: chunk_stream_def file_chunks_pieces CHUNKSIZE_def)
qed

section \<open>Answers\<close>

text \<open>
  (image_data_never_returned): the HTTP client of the image service returns no image data. Whatever the
  service answers, what \<open>_http_request\<close> returns is not of the type \<open>application/octet-stream\<close>; such an
  answer ends in the \<open>TypeError\<close> of the logging of its length.
\<close>

theorem image_data_never_returned:
  "case glance_request dial c url method hs body w of
     (Inr (resp, t), w') \<Rightarrow> dget (rs_headers resp) ''content-type'' \<noteq> Some ''application/octet-stream''
   | (Inl e, w') \<Rightarrow> True"
  by (auto simp: glance_request_def bnd_def lift_def Let_def glance_answer_def split: prod.splits sum.splits if_splits)

section \<open>Authentication\<close>

lemma decorated_body:
  "decorate_request env flt rq given w = (Inr rq', w') \<Longrightarrow> aq_body rq' = aq_body rq"
  by (auto simp: decorate_request_def decorate_with_def bindE_Inr_iff bnd_def split: prod.splits sum.splits)

lemma overridden_body:
  assumes "override_part part a b w = (Inr rq, w')" "aq_body a = aq_body b"
  shows "aq_body rq = aq_body a"
  using assms
  by (auto simp: override_part_def bnd_def copy_part_def same_part_def reset_alt_auth_data_def
      split: sum.splits prod.splits if_splits)

text \<open>What justifies \<open>provider_auth\<close>: the provider returns the body it was given.\<close>

lemma auth_request_keeps_body:
  assumes "auth_request env rq flt w = (Inr rq', w')"
  shows "aq_body rq' = aq_body rq"
proof -
  from assms obtain a w1 where a: "decorate_request env flt rq None w = (Inr a, w1)"
    and rest: "(case pv_alt_part (prov w1) of None \<Rightarrow> ret a
        | Some part \<Rightarrow> (case pv_alt_auth (prov w1) of
            Some d \<Rightarrow> bnd (decorate_request env flt rq (Some d)) (override_part part a)
          | None \<Rightarrow> override_part part a rq)) w1 = (Inr rq', w')"
    unfolding auth_request_def by (elim bnd_InrE)
  note ab = decorated_body [OF a]
  show ?thesis
  proof (cases "pv_alt_part (prov w1)")
    case None
    with rest ab show ?thesis by simp
  next
    case (Some part)
    show ?thesis
    proof (cases "pv_alt_auth (prov w1)")
      case None
      with Some rest have "override_part part a rq w1 = (Inr rq', w')" by simp
      from overridden_body [OF this ab] ab show ?thesis by simp
    next
      case (Some d)
      with \<open>pv_alt_part (prov w1) = Some part\<close> rest
      have "bnd (decorate_request env flt rq (Some d)) (override_part part a) w1 = (Inr rq', w')" by simp
      then obtain b w2 where b: "decorate_request env flt rq (Some d) w1 = (Inr b, w2)"
        and o: "override_part part a b w2 = (Inr rq', w')"
        by (elim bnd_InrE)
      from overridden_body [OF o] ab decorated_body [OF b] show ?thesis by simp
    qed
  qed
qed

section \<open>Certificates\<close>

text \<open>
  (host_check_spec): a host matches a certificate exactly when it is its common name or one of the DNS
  names of a subjectAltName; otherwise an exception is raised.
\<close>

theorem host_check_spec:
  "host_matches_cert host x
     = (if host = x5_common_name x
           \<or> (\<exists>t. (''subjectAltName'', t) \<in> set (x5_extensions x) \<and> ''DNS:'' @ host \<in> set (san_names t))
        then Inr True else Inl AttrErr)"
  by (auto simp: host_matches_cert_def SSLCertificateError_def)

text \<open>
  (host_not_checked): the callback compares OpenSSL's verdict with \<open>is True\<close>. OpenSSL's verdict is a number;
  for any number the host of the certificate is not looked at.
\<close>

theorem host_not_checked:
  "verify_callback host x depth (PInt ok) = verify_callback other x depth (PInt ok)
   \<and> (verify_callback host x depth (PInt ok) = Inr (PInt ok)) = (\<not> x5_expired x)"
  by (simp add: verify_callback_def SSLCertificateError_def)

section \<open>Dictionaries with distinct keys\<close>

lemma dset_new: "k \<notin> set (dkeys d) \<Longrightarrow> dset d k v = d @ [(k, v)]"
  by (induction d k v rule: dset.induct) auto

lemma dset_old:
  "distinct (dkeys d) \<Longrightarrow> dget d k = Some u \<Longrightarrow> dset d k v = map (\<lambda>(k', v'). (k', if k' = k then v else v')) d"
proof (induction d)
  case (Cons p d)
  then show ?case
    by (cases p) (auto intro!: map_idI [symmetric] simp: dkeys_def image_iff split: if_splits)
qed simp

lemma dupdate_new:
  "distinct (dkeys e) \<Longrightarrow> set (dkeys d) \<inter> set (dkeys e) = {} \<Longrightarrow> dupdate d e = d @ e"
proof (induction d e rule: dupdate.induct)
  case (2 d k v e)
  then show ?case by (simp add: dset_new)
qed simp

lemma ddel_absent: "k \<notin> set (dkeys d) \<Longrightarrow> ddel d k = d"
  by (induction d k rule: ddel.induct) auto

section \<open>Reading the headers\<close>

lemma read_headers_append: "read_headers (a @ b) meta = bindE (read_headers a meta) (read_headers b)"
proof (induction a arbitrary: meta)
  case (Cons h a)
  then show ?case by (cases "read_header h meta") simp_all
qed simp

lemma prefix_simps:
  "starts_with property_prefix (property_prefix @ k)" "drop 22 (property_prefix @ k) = k"
  "starts_with meta_prefix (meta_prefix @ k)" "drop 13 (meta_prefix @ k) = k"
  "starts_with property_prefix (meta_prefix @ k) = starts_with ''property-'' k"
  by (simp_all add: starts_with_def property_prefix_def meta_prefix_def)

lemma read_header_simps:
  "read_header (property_prefix @ k, v) meta = add_property meta k v"
  "\<not> starts_with ''property-'' k \<Longrightarrow> read_header (meta_prefix @ k, v) meta = Inr (dset meta k (PStr v))"
  by (simp_all add: read_header_def prefix_simps del: drop_append)

definition text_props :: "(string, string) dict \<Rightarrow> (string, py) dict" where
  "text_props props = map (\<lambda>(k, v). (k, PStr v)) props"

lemma dkeys_text_props [simp]: "dkeys (text_props props) = dkeys props"
  by (simp add: text_props_def dkeys_def case_prod_beta comp_def)

lemma read_properties:
  "distinct (dkeys (acc @ text_props props)) \<Longrightarrow>
   read_headers (header_lines env property_prefix (text_props props)) [(''properties'', PDict acc)]
     = Inr [(''properties'', PDict (acc @ text_props props))]"
proof (induction props arbitrary: acc)
  case (Cons p props)
  obtain k v where p: "p = (k, v)" by fastforce
  have new: "k \<notin> set (dkeys acc)" using Cons.prems by (auto simp: p text_props_def dkeys_def)
  have "distinct (dkeys ((acc @ [(k, PStr v)]) @ text_props props))"
    using Cons.prems by (simp add: p text_props_def)
  from Cons.IH [OF this] show ?case
    by (simp add: p text_props_def header_lines_def read_header_simps add_property_def dset_new [OF new])
qed (simp add: header_lines_def text_props_def)

lemma read_fields:
  "distinct (dkeys (acc @ meta)) \<Longrightarrow> \<forall>k \<in> set (dkeys meta). \<not> starts_with ''property-'' k \<Longrightarrow>
   read_headers (header_lines env meta_prefix meta) acc
     = Inr (acc @ map (\<lambda>(k, v). (k, PStr (py_text (e_repr env) v))) meta)"
proof (induction meta arbitrary: acc)
  case (Cons p meta)
  obtain k v where p: "p = (k, v)" by fastforce
  let ?t = "PStr (py_text (e_repr env) v)"
  have new: "k \<notin> set (dkeys acc)" using Cons.prems by (auto simp: p dkeys_def)
  have "distinct (dkeys ((acc @ [(k, ?t)]) @ meta))" using Cons.prems(1) by (simp add: p dkeys_def)
  from Cons.IH [OF this] Cons.prems(2) show ?case
    by (simp add: p header_lines_def read_header_simps dset_new [OF new])
qed (simp add: header_lines_def)

lemma change_at_map:
  assumes d: "distinct (dkeys d)"
  shows "change_at f k d = map (\<lambda>(k', v). (k', if k' = k then f v else v)) d"
proof (cases "dget d k")
  case None
  then have "k \<notin> fst ` set d" by (simp add: dget_None_iff dkeys_def)
  then have "map (\<lambda>(k', v). (k', if k' = k then f v else v)) d = d"
    by (intro map_idI) (auto simp: image_iff)
  with None show ?thesis by (simp add: change_at_def)
next
  case (Some u)
  have "f u = f v" if "(k, v) \<in> set d" for v using mem_dget [OF d that] Some by simp
  then show ?thesis
    using Some by (auto simp: change_at_def dset_old [OF d Some])
qed

lemma fold_change_at:
  "distinct ks \<Longrightarrow> distinct (dkeys d) \<Longrightarrow>
   fold (change_at f) ks d = map (\<lambda>(k', v). (k', if k' \<in> set ks then f v else v)) d"
proof (induction ks arbitrary: d)
  case Nil
  show ?case by (auto intro!: map_idI [symmetric])
next
  case (Cons k ks)
  let ?d = "map (\<lambda>(k', v). (k', if k' = k then f v else v)) d"
  have keys: "dkeys ?d = dkeys d" by (simp add: dkeys_def case_prod_beta comp_def)
  have "fold (change_at f) (k # ks) d = fold (change_at f) ks ?d"
    using change_at_map [OF Cons.prems(2)] by simp
  also have "\<dots> = map (\<lambda>(k', v). (k', if k' \<in> set ks then f v else v)) ?d"
    using Cons.IH [of ?d] Cons.prems keys by simp
  also have "\<dots> = map (\<lambda>(k', v). (k', if k' \<in> set (k # ks) then f v else v)) d"
    using Cons.prems(1) by auto
  finally show ?case .
qed

section \<open>The round trip\<close>

lemma strip_plain:
  assumes "s \<noteq> []" "\<not> is_space (hd s)" "\<not> is_space (last s)"
  shows "str_strip s = s"
proof -
  have "dropWhile is_space s = s" "dropWhile is_space (rev s) = rev s"
    using assms by (simp_all add: dropWhile_eq_self_iff hd_rev)
  then show ?thesis by (simp add: str_strip_def)
qed

lemma digit_not_space: "is_digit c \<Longrightarrow> \<not> is_space c"
  by (auto simp: is_digit_def is_space_def)

lemma int_of_int_str: "int_of_str (int_str i) = Some i"
proof -
  have digits: "list_all is_digit (nat_str n)" "nat_str n \<noteq> []" for n by simp_all
  have ends: "is_digit (hd (nat_str n))" "is_digit (last (nat_str n))" for n
    using digits(1) [of n] hd_in_set [OF digits(2)] last_in_set [OF digits(2)] by (metis list_all_iff)+
  note ends = ends ends [THEN digit_not_space]
  have no_sign: "c \<noteq> CHR ''-''" "c \<noteq> CHR ''+''" if "is_digit c" for c
    using that by (auto simp: is_digit_def)
  show ?thesis
  proof (cases "i < 0")
    case True
    have "\<not> is_space CHR ''-''" by (simp add: is_space_def)
    then have "str_strip (CHR ''-'' # nat_str (nat (- i))) = CHR ''-'' # nat_str (nat (- i))"
      using ends by (intro strip_plain) auto
    with True show ?thesis by (simp add: int_of_str_def int_str_def all_digits_def)
  next
    case False
    have "str_strip (nat_str (nat i)) = nat_str (nat i)" using ends by (intro strip_plain) auto
    moreover obtain c cs where "nat_str (nat i) = c # cs" using digits(2) list.exhaust by blast
    moreover have "digits_val (nat_str (nat i)) = nat i" "all_digits (nat_str (nat i))"
      by (simp_all add: all_digits_def)
    ultimately show ?thesis
      using False no_sign ends(1) [of "nat i"] by (simp add: int_of_str_def int_str_def)
  qed
qed

text \<open>A field of an image, with a value of the type that the headers are read with.\<close>

definition image_field :: "string \<Rightarrow> py \<Rightarrow> bool" where
  "image_field k v =
     (k \<notin> {''copy_from'', ''properties'', ''api''} \<and> \<not> starts_with ''property-'' k
      \<and> (if k \<in> set flag_keys then (\<exists>b. v = PBool b)
         else if k \<in> set number_keys then (\<exists>i. v = PInt i) else (\<exists>s. v = PStr s)))"

lemma read_back:
  assumes "image_field k v"
  shows "(if k \<in> set number_keys then read_number else id) ((if k \<in> set flag_keys then read_flag else id)
     (PStr (py_text rp v))) = v"
proof -
  have "str_lower (str_strip ''True'') = ''true''" "str_lower (str_strip ''False'') = ''false''"
    by code_simp+
  moreover have "set flag_keys \<inter> set number_keys = {}" by (simp add: flag_keys_def number_keys_def)
  ultimately show ?thesis
    using assms by (auto simp: image_field_def read_flag_def read_number_def int_of_int_str split: if_splits)
qed

text \<open>What the readers of flags and numbers make of a value.\<close>

definition typed :: "string \<times> py \<Rightarrow> string \<times> py" where
  "typed = (\<lambda>(k, v). (k, (if k \<in> set number_keys then read_number else id)
     ((if k \<in> set flag_keys then read_flag else id) v)))"

lemma typed_headers:
  assumes "\<forall>(k, v) \<in> set meta. image_field k v"
  shows "map typed (map (\<lambda>(k, v). (k, PStr (py_text rp v))) meta) = meta"
  unfolding map_map
proof (rule map_idI)
  fix p
  assume "p \<in> set meta"
  then obtain k v where p: "p = (k, v)" "image_field k v" using assms by (cases p) auto
  from read_back [OF p(2), of rp] show "(typed \<circ> (\<lambda>(k, v). (k, PStr (py_text rp v)))) p = p"
    by (simp add: p(1) typed_def)
qed

lemma typed_fold:
  assumes "distinct (dkeys d)"
  shows "fold (change_at read_number) number_keys (fold (change_at read_flag) flag_keys d) = map typed d"
  using assms
  by (subst fold_change_at, simp add: flag_keys_def, assumption, subst fold_change_at)
    (auto simp: number_keys_def dkeys_def case_prod_beta comp_def typed_def)

lemma dkeys_headers: "dkeys (header_lines env p d) = map ((@) p) (dkeys d)"
  by (simp add: header_lines_def dkeys_def case_prod_beta comp_def)

lemma field_names:
  assumes "\<forall>(k, v) \<in> set meta. image_field k v" "k \<in> set (dkeys meta)"
  shows "k \<noteq> ''copy_from'' \<and> k \<noteq> ''properties'' \<and> k \<noteq> ''api'' \<and> \<not> starts_with ''property-'' k"
  using assms by (auto simp: dkeys_def image_field_def)

lemma written_headers:
  assumes "distinct (dkeys meta)" "distinct (dkeys props)" "\<forall>(k, v) \<in> set meta. image_field k v"
  shows "image_meta_to_headers env ((''properties'', PDict (text_props props)) # meta)
     = Inr (header_lines env property_prefix (text_props props) @ header_lines env meta_prefix meta)"
proof -
  let ?given = "(''properties'', PDict (text_props props)) # meta"
  let ?hp = "header_lines env property_prefix (text_props props)"
  let ?hm = "header_lines env meta_prefix meta"
  note names = field_names [OF assms(3)]
  have "property_prefix @ a \<noteq> meta_prefix @ k" if "k \<in> set (dkeys meta)" for a k
    using names [OF that] prefix_simps(1) [of a] prefix_simps(5) [of k] by metis
  then have disjoint: "set (dkeys ?hp) \<inter> set (dkeys ?hm) = {}" by (auto simp: dkeys_headers)
  have dist: "distinct (dkeys ?hp)" "distinct (dkeys ?hm)"
    using assms(1,2) by (simp_all add: dkeys_headers distinct_map inj_on_def)
  have "ddel (ddel (ddel ?given ''copy_from'') ''properties'') ''api'' = meta"
    using names by simp (metis ddel_absent)
  moreover have "dget ?given ''copy_from'' = None" "dget ?given ''api'' = None"
    using names by (auto simp: dget_None_iff)
  ultimately have "image_meta_to_headers env ?given = Inr (dupdate (dupdate (dupdate [] ?hp) []) ?hm)"
    by (simp add: image_meta_to_headers_def kw_get_def items_of_def) (simp add: header_lines_def)
  also have "dupdate (dupdate (dupdate [] ?hp) []) ?hm = ?hp @ ?hm"
    using dist disjoint by (simp add: dupdate_new)
  finally show ?thesis .
qed

text \<open>
  C20 (image_meta_round_trip): the metadata of an image survives the way through the headers of the first
  image API. Fields that are texts, flags and numbers, with text properties, are read back as they were
  given, values, types and order.
\<close>

theorem image_meta_round_trip:
  assumes "distinct (dkeys meta)" "distinct (dkeys props)" "\<forall>(k, v) \<in> set meta. image_field k v"
    and "given = (''properties'', PDict (text_props props)) # meta"
  shows "bindE (image_meta_to_headers env given) image_meta_from_headers = Inr given"
proof -
  let ?raw = "(''properties'', PDict (text_props props)) # map (\<lambda>(k, v). (k, PStr (py_text (e_repr env) v))) meta"
  note names = field_names [OF assms(3)]
  have "distinct (dkeys ([(''properties'', PDict (text_props props))] @ meta))"
    using assms(1) names by (auto simp: dkeys_def)
  from read_fields [OF this, of env] names assms(2)
  have read: "read_headers (header_lines env property_prefix (text_props props) @ header_lines env meta_prefix meta)
      [(''properties'', PDict [])] = Inr ?raw"
    using read_properties [of "[]" props env] by (simp add: read_headers_append)
  have "distinct (dkeys ?raw)"
    using assms(1) names by (auto simp: dkeys_def case_prod_beta comp_def)
  moreover have "typed (''properties'', PDict (text_props props)) = (''properties'', PDict (text_props props))"
    by (simp add: typed_def flag_keys_def number_keys_def)
  ultimately have "fold (change_at read_number) number_keys (fold (change_at read_flag) flag_keys ?raw) = given"
    using typed_fold typed_headers [OF assms(3)] assms(4) by simp
  then show ?thesis
    by (simp add: written_headers [OF assms(1-3)] assms(4) image_meta_from_headers_def read)
qed

theorem image_meta_round_trip_witness:
  "bindE (image_meta_to_headers (demo_env [])
       [(''properties'', PDict [(''arch'', PStr ''x86_64'')]), (''name'', PStr ''disk''), (''is_public'', PBool True),
        (''size'', PInt 1024)]) image_meta_from_headers
   = Inr [(''properties'', PDict [(''arch'', PStr ''x86_64'')]), (''name'', PStr ''disk''), (''is_public'', PBool True),
        (''size'', PInt 1024)]"
  by (rule image_meta_round_trip [where props = "[(''arch'', ''x86_64'')]"])
    (simp_all add: image_field_def starts_with_def flag_keys_def number_keys_def text_props_def, auto)

section \<open>Uploads\<close>

text \<open>
  (refused_upload_reported_stored): the second image client does not check for an error when it stores image
  data: an error status without a body, whatever it is, is returned as a success.
\<close>

theorem refused_upload_reported_stored:
  assumes "raw ''PUT'' (''v2/images/'' @ image_id @ ''/file'') hs data w = (Inr (resp, []), w')"
    and "400 \<le> rs_status resp" "hs = [(''Content-Type'', ''application/octet-stream'')]"
  shows "im2_store_image_file env raw image_id data PNone w = (Inr \<lparr>rb_response = resp, rb_data = []\<rparr>, w')"
proof -
  have "expected_success (Code 204) (rs_status resp) = Inr ()"
    using assms(2) by (simp add: expected_success_iff)
  moreover have "file_response (resp, []) = Inr \<lparr>rb_response = resp, rb_data = []\<rparr>"
    by (simp add: file_response_def file_lines.simps)
  ultimately show ?thesis
    using assms(1,3) by (simp add: im2_store_image_file_def bnd_def)
qed

theorem refused_upload_reported_stored_witness:
  "im2_store_image_file (demo_env []) (\<lambda>method url hs data w. (Inr (\<lparr>rs_status = 403, rs_headers = []\<rparr>, []), w))
     ''i1'' (File ''data'') PNone (demo_world [] demo_provider)
   = (Inr \<lparr>rb_response = \<lparr>rs_status = 403, rs_headers = []\<rparr>, rb_data = []\<rparr>, demo_world [] demo_provider)"
  by (rule refused_upload_reported_stored) (rule refl, simp, rule refl)

text \<open>The first client checks: there an error status of an upload is never a success.\<close>

lemma v1_upload_checked:
  assumes "400 \<le> rs_status (fst a)"
  shows "data_reply env a \<noteq> Inr b"
  using assms error_checker_Inr_iff [of env "fst a" "snd a"]
  by (auto simp: data_reply_def glance_error_checker_def split: option.splits if_splits)

section \<open>The contract\<close>

text \<open>
  A status that comes: an answer takes at most \<open>lag\<close>; from the time \<open>T\<close> on it is the goal; before, it is not
  fatal.
\<close>

definition arrives_by ::
    "(('r, 'x) world_scheme, py) io \<Rightarrow> py \<Rightarrow> (py \<Rightarrow> bool) \<Rightarrow> int \<Rightarrow> int \<Rightarrow> bool" where
  "arrives_by fetch goal fatal T lag =
     (\<forall>w. \<exists>st w'. fetch w = (Inr st, w') \<and> now w \<le> now w' \<and> now w' \<le> now w + lag
        \<and> (st = goal \<or> now w < T \<and> \<not> fatal st))"

text \<open>
  \<open>fatal\<close> is a status at which the loop gives up. A round reads the clock first; \<open>limit\<close> and \<open>interval\<close> are
  in seconds.
\<close>

locale delayed_poll =
  fixes round :: "py \<Rightarrow> (('r, 'x) world_scheme, py + py) io"
    and fetch :: "(('r, 'x) world_scheme, py) io"
    and goal :: py and fatal :: "py \<Rightarrow> bool" and interval limit start :: int
  assumes again: "round cur w = (Inr (Inl st), w') \<Longrightarrow>
      cur \<noteq> goal \<and> now w - start \<le> limit * 1000000
      \<and> (\<exists>w1. now w1 = now w + 2 * interval * 1000000 \<and> fetch w1 = (Inr st, w'))"
    and finish: "round cur w = (Inr (Inr v), w') \<Longrightarrow> cur = goal \<and> v = goal"
    and failed: "1 \<le> interval \<Longrightarrow> round cur w = (Inl e, w') \<Longrightarrow>
      cur \<noteq> goal \<and> (fatal cur \<or> limit * 1000000 < now w - start \<or> (\<exists>w1. fetch w1 = (Inl e, w')))"
begin

text \<open>The invariant carries what every answer of \<open>fetch\<close> satisfies, with the time it was given at.\<close>

definition fair_fetch :: "(py \<Rightarrow> int \<Rightarrow> bool) \<Rightarrow> bool" where
  "fair_fetch P = (1 \<le> interval \<and> time_mono fetch \<and> (\<forall>w st w'. fetch w = (Inr st, w') \<longrightarrow> P st (now w')))"

lemma ending: "bounded_loop round (\<lambda>cur w. fair_fetch P \<and> P cur (now w)) (\<lambda>_ w. nat (start + limit * 1000000 + 1 - now w))"
proof
  fix s w s' w'
  assume inv: "fair_fetch P \<and> P s (now w)" and "round s w = (Inr (Inl s'), w')"
  then obtain w1 where run: "now w - start \<le> limit * 1000000" "now w1 = now w + 2 * interval * 1000000"
      "fetch w1 = (Inr s', w')"
    using again by blast
  then show "fair_fetch P \<and> P s' (now w')" using inv by (auto simp: fair_fetch_def)
  have "now w1 \<le> now w'" using inv run(3) by (auto simp: fair_fetch_def dest: time_monoD)
  then show "nat (start + limit * 1000000 + 1 - now w') < nat (start + limit * 1000000 + 1 - now w)"
    using run inv by (simp add: fair_fetch_def)
qed

lemma loop_outcome:
  assumes "fair_fetch P" "P cur (now w)"
  obtains w' where "loop_io round cur w = Some (Inr goal, w')"
  | e w' st t where "loop_io round cur w = Some (Inl e, w')" "P st t" "st \<noteq> goal"
      "fatal st \<or> limit * 1000000 < t - start \<or> (\<exists>w2. fetch w2 = (Inl e, w'))"
proof -
  from bounded_loop.exit_round [OF ending [of P], of cur w] assms
  obtain s1 w1 r w' where inv: "fair_fetch P \<and> P s1 (now w1)" and run: "loop_io round cur w = Some (r, w')"
    and exit: "round s1 w1 = (Inl (projl r), w') \<and> isl r \<or> round s1 w1 = (Inr (Inr (projr r)), w') \<and> \<not> isl r"
    by blast
  show thesis
  proof (cases r)
    case (Inl e)
    with exit have "round s1 w1 = (Inl e, w')" by auto
    from failed [OF _ this] inv run Inl show thesis by (intro that(2) [of e w' s1 "now w1"]) (auto simp: fair_fetch_def)
  next
    case (Inr v)
    with exit have "round s1 w1 = (Inr (Inr v), w')" by auto
    from finish [OF this] run Inr show thesis by (intro that(1)) simp
  qed
qed

text \<open>Every status but the goal was answered by \<open>T + lag\<close>.\<close>

lemma succeeds:
  assumes "1 \<le> interval" "arrives_by fetch goal fatal T lag" "T + lag - start \<le> limit * 1000000"
  shows "\<exists>w'. then_loop fetch (loop_io round) w = Some (Inr goal, w')"
proof -
  define P where "P = (\<lambda>st t. st = goal \<or> t \<le> T + lag \<and> \<not> fatal st)"
  have fetched: "P st (now w')" "now w \<le> now w'" if "fetch w = (Inr st, w')" for w st w'
  proof -
    from assms(2) that have "now w \<le> now w'" "now w' \<le> now w + lag" "st = goal \<or> now w < T \<and> \<not> fatal st"
      unfolding arrives_by_def by (metis prod.inject sum.inject(2))+
    then show "P st (now w')" "now w \<le> now w'" by (auto simp: P_def)
  qed
  have answers: "\<exists>st w'. fetch w = (Inr st, w')" for w using assms(2) unfolding arrives_by_def by blast
  have "time_mono fetch"
    by (rule time_monoI) (metis answers fetched(2) prod.inject)
  then have fair: "fair_fetch P" using assms(1) fetched(1) by (auto simp: fair_fetch_def)
  obtain st w1 where first: "fetch w = (Inr st, w1)" using answers by blast
  from fair fetched(1) [OF first] show ?thesis
  proof (cases rule: loop_outcome [of P st w1])
    case (1 w')
    with first show ?thesis by (simp add: then_loop_def)
  next
    case (2 e w' st1 t)
    moreover have "fetch w3 \<noteq> (Inl e, w')" for w3 using answers [of w3] by auto
    ultimately show ?thesis using assms(3) by (auto simp: P_def)
  qed
qed

lemma ends:
  assumes "1 \<le> interval" "time_mono fetch"
  shows "\<exists>r w'. then_loop fetch (loop_io round) w = Some (r, w') \<and> (case r of Inr v \<Rightarrow> v = goal | Inl e \<Rightarrow> True)"
proof (rule then_loop_cases)
  fix x w1
  assume "fetch w = (Inr x, w1)"
  have "fair_fetch (\<lambda>_ _. True)" using assms by (simp add: fair_fetch_def)
  from this TrueI show "\<exists>r w'. loop_io round x w1 = Some (r, w') \<and> (case r of Inr v \<Rightarrow> v = goal | Inl e \<Rightarrow> True)"
    by (cases rule: loop_outcome [of _ x w1]) auto
qed simp

end

section \<open>The two waits\<close>

interpretation snapshot_poll: delayed_poll "snapshot_round c env fetch status start_time" fetch "PStr status"
    "\<lambda>_. False" "rc_build_interval c" "rc_build_timeout c" start_time
  for c env fetch status start_time
  by unfold_locales
    (auto simp: snapshot_round_def bnd_def sleep_def split: if_splits prod.splits sum.splits,
     (rule exI, rule conjI [rotated], assumption, simp)+)

interpretation image_v1_poll: delayed_poll "im1_round c env caller fetch image_id status start_time" fetch "PStr status"
    "\<lambda>st. st = PStr ''killed''" "rc_build_interval c" "rc_build_timeout c" start_time
  for c env caller fetch image_id status start_time
  by unfold_locales
    (auto simp: im1_round_def bnd_def sleep_def split: if_splits prod.splits sum.splits,
     (rule exI, rule conjI [rotated], assumption, simp)+)

section \<open>The properties\<close>

text \<open>
  (image_v1_wait_succeeds): the first image client's wait succeeds when the image gets ready in time. If
  every request for the metadata is answered within \<open>lag\<close>, with the wanted status from the time \<open>T\<close> on and
  never with \<open>killed\<close>, and \<open>T + lag\<close> is within the timeout, then the wait returns, with that status.
\<close>

theorem image_v1_wait_succeeds:
  assumes "1 \<le> rc_build_interval c"
    and "arrives_by (im1_get_image_status get_meta) (PStr status) (\<lambda>st. st = PStr ''killed'') T lag"
    and "T + lag - now w \<le> rc_build_timeout c * 1000000"
  shows "\<exists>w'. im1_wait_for_image_status c env caller get_meta image_id status w = Some (Inr (PStr status), w')"
  unfolding im1_wait_for_image_status_def Let_def by (rule image_v1_poll.succeeds [OF assms])

text \<open>
  (snapshot_wait_ends): with an interval of at least one second and answers that do not turn back the clock
  the wait for a snapshot always ends; what it returns is the wanted status.
\<close>

theorem snapshot_wait_ends:
  assumes "1 \<le> rc_build_interval c" "time_mono show_it"
  shows "\<exists>r w'. wait_for_snapshot_status c env show_it snapshot_id status w = Some (r, w')
     \<and> (case r of Inr v \<Rightarrow> v = PStr status | Inl e \<Rightarrow> True)"
proof -
  have "time_mono (get_snapshot_status show_it snapshot_id)"
    using assms(2) unfolding get_snapshot_status_def by (auto intro!: mono_intros)
  from snapshot_poll.ends [OF assms(1) this] show ?thesis unfolding wait_for_snapshot_status_def Let_def .
qed

section \<open>Witnesses\<close>

text \<open>An image that is queued for five seconds.\<close>

definition polling_client :: rest_client where
  "polling_client = rest_client_init (PStr ''image'') (PStr ''R1'')"

definition image_answer :: "int \<Rightarrow> (('r, 'x) world_scheme, response_body) io" where
  "image_answer T =
     gets (\<lambda>w. \<lparr>rb_response = \<lparr>rs_status = 200, rs_headers = []\<rparr>,
               rb_data = [(''status'', PStr (if T \<le> now w then ''active'' else ''queued''))]\<rparr>)"

theorem image_v1_wait_succeeds_witness:
  "\<exists>w'. im1_wait_for_image_status polling_client (demo_env []) None (image_answer 1433150005000000) ''i1'' ''active''
      (demo_world [] demo_provider) = Some (Inr (PStr ''active''), w')"
proof (rule image_v1_wait_succeeds [where T = 1433150005000000 and lag = 0])
  show "1 \<le> rc_build_interval polling_client"
    by (simp add: polling_client_def rest_client_init_def)
  show "arrives_by (im1_get_image_status (image_answer 1433150005000000)) (PStr ''active'')
      (\<lambda>st. st = PStr ''killed'') 1433150005000000 0"
    by (simp add: arrives_by_def im1_get_image_status_def image_answer_def bnd_def rb_item_def)
  show "1433150005000000 + 0 - now (demo_world [] demo_provider) \<le> rc_build_timeout polling_client * 1000000"
    by (simp add: polling_client_def rest_client_init_def demo_world_def)
qed

theorem snapshot_wait_ends_witness:
  "\<exists>r w'. wait_for_snapshot_status polling_client (demo_env []) (image_answer 1433150005000000) ''s1'' ''active''
      (demo_world [] demo_provider) = Some (r, w')
     \<and> (case r of Inr v \<Rightarrow> v = PStr ''active'' | Inl e \<Rightarrow> True)"
  by (rule snapshot_wait_ends)
    (simp_all add: polling_client_def rest_client_init_def image_answer_def mono_intros)

end
