(* ===== verification/NetResources.thy ===== *)
theory NetResources
  imports NetworkProps "HOL-Library.Sublist"
begin

text \<open>
  The resources of the network service as objects, \<open>automation/services/network/resources.py\<close>: dictionaries
  with a client, that delete, update and refresh themselves. The object a method is called on is a field of
  the world, \<open>it\<close>; the client's \<open>request\<close> is the argument \<open>rq\<close>.
\<close>

section \<open>Objects\<close>

datatype resource_class =
    DeletableNetwork | DeletableSubnet | DeletableRouter | DeletableFloatingIp | DeletablePort
  | DeletableSecurityGroup | DeletableSecurityGroupRule | DeletablePool | DeletableMember | DeletableVip

text \<open>\<open>no_routers\<close> is the set \<open>_router_ids\<close> of a subnet, in the order of its iteration.\<close>

record net_object =
  no_class :: resource_class
  no_data :: "(string, py) dict"
  no_routers :: "string list"

record 'r object_world = "'r world" +
  it :: net_object

text \<open>Attribute access reads the dictionary.\<close>

definition res_attr :: "net_object \<Rightarrow> string \<Rightarrow> pyexc + py" where
  "res_attr obj name = (case dget (no_data obj) name of None \<Rightarrow> Inl AttrErr | Some v \<Rightarrow> Inr v)"

definition upd_it :: "(net_object \<Rightarrow> net_object) \<Rightarrow> ('r object_world, unit) io" where
  "upd_it f = modify (\<lambda>w. w\<lparr>it := f (it w)\<rparr>)"

definition own_id :: "'r env \<Rightarrow> ('r object_world, string) io" where
  "own_id env = bnd (gets it) (\<lambda>obj. lift (bindE (res_attr obj ''id'') (\<lambda>v. Inr (py_text (e_repr env) v))))"

section \<open>Methods\<close>

text \<open>\<open>dict.update(**result[key])\<close>.\<close>

definition take_over :: "string \<Rightarrow> response_body \<Rightarrow> ('r object_world, unit) io" where
  "take_over key result =
     bnd (lift (getitem (PDict (rb_data result)) key)) (\<lambda>v.
       case v of
         PDict d \<Rightarrow> upd_it (\<lambda>obj. obj\<lparr>no_data := dupdate (no_data obj) d\<rparr>)
       | _ \<Rightarrow> throw TypeErr)"

definition res_update ::
    "'r env \<Rightarrow> 'r object_world requester \<Rightarrow> (string, py) dict \<Rightarrow> ('r object_world, unit) io" where
  "res_update env rq kwargs =
     bnd (gets it) (\<lambda>obj.
       case no_class obj of
         DeletableSubnet \<Rightarrow>
           bnd (own_id env) (\<lambda>i. bnd (update_subnet env rq i kwargs) (take_over ''subnet''))
       | DeletableRouter \<Rightarrow>
           bnd (own_id env) (\<lambda>i. bnd (update_router env rq i kwargs) (take_over ''router''))
       | DeletableFloatingIp \<Rightarrow>
           bnd (own_id env) (\<lambda>i. bnd (update_floatingip env rq i kwargs) (take_over ''floatingip''))
       | _ \<Rightarrow> upd_it (\<lambda>o1. o1\<lparr>no_data := dupdate (no_data o1) kwargs\<rparr>))"

text \<open>The network client has no \<open>show_vip\<close>; the other classes inherit an empty method.\<close>

definition res_refresh :: "'r env \<Rightarrow> 'r object_world requester \<Rightarrow> ('r object_world, unit) io" where
  "res_refresh env rq =
     bnd (gets it) (\<lambda>obj.
       case no_class obj of
         DeletableFloatingIp \<Rightarrow>
           bnd (own_id env) (\<lambda>i. bnd (show_floatingip env rq i []) (take_over ''floatingip''))
       | DeletableVip \<Rightarrow> throw AttrErr
       | _ \<Rightarrow> ret ())"

definition res_set_gateway :: "'r env \<Rightarrow> 'r object_world requester \<Rightarrow> py \<Rightarrow> ('r object_world, unit) io" where
  "res_set_gateway env rq network_id =
     res_update env rq [(''external_gateway_info'', PDict [(''network_id'', network_id)])]"

definition res_unset_gateway :: "'r env \<Rightarrow> 'r object_world requester \<Rightarrow> ('r object_world, unit) io" where
  "res_unset_gateway env rq = res_update env rq [(''external_gateway_info'', PDict [])]"

text \<open>The router is remembered before the interface is added.\<close>

definition res_add_to_router :: "'r env \<Rightarrow> 'r object_world requester \<Rightarrow> string \<Rightarrow> ('r object_world, unit) io" where
  "res_add_to_router env rq router_id =
     bnd (upd_it (\<lambda>obj. if router_id \<in> set (no_routers obj) then obj
                       else obj\<lparr>no_routers := no_routers obj @ [router_id]\<rparr>)) (\<lambda>_.
     bnd (gets it) (\<lambda>obj.
     bnd (lift (res_attr obj ''id'')) (\<lambda>i.
     bnd (add_router_interface_with_subnet_id env rq router_id i) (\<lambda>_. ret ()))))"

definition detach_one :: "'r env \<Rightarrow> 'r object_world requester \<Rightarrow> string \<Rightarrow> ('r object_world, unit) io" where
  "detach_one env rq router_id =
     bnd (gets it) (\<lambda>obj.
     bnd (lift (res_attr obj ''id'')) (\<lambda>i.
     bnd (remove_router_interface_with_subnet_id env rq router_id i) (\<lambda>_.
       upd_it (\<lambda>o1. o1\<lparr>no_routers := remove1 router_id (no_routers o1)\<rparr>))))"

definition delete_own :: "'r env \<Rightarrow> (string \<Rightarrow> ('r object_world, response_body) io) \<Rightarrow> ('r object_world, unit) io" where
  "delete_own env del = bnd (own_id env) (\<lambda>i. bnd (del i) (\<lambda>_. ret ()))"

text \<open>The network client has no \<open>delete_pool\<close>, \<open>delete_member\<close> and \<open>delete_vip\<close>.\<close>

definition res_delete :: "'r env \<Rightarrow> 'r object_world requester \<Rightarrow> ('r object_world, unit) io" where
  "res_delete env rq =
     bnd (gets it) (\<lambda>obj.
       case no_class obj of
         DeletableNetwork \<Rightarrow> delete_own env (delete_network rq)
       | DeletableSubnet \<Rightarrow>
           bnd (for_each (no_routers obj) (detach_one env rq)) (\<lambda>_. delete_own env (delete_subnet rq))
       | DeletableRouter \<Rightarrow> bnd (res_unset_gateway env rq) (\<lambda>_. delete_own env (delete_router rq))
       | DeletableFloatingIp \<Rightarrow> delete_own env (delete_floatingip rq)
       | DeletablePort \<Rightarrow> delete_own env (delete_port rq)
       | DeletableSecurityGroup \<Rightarrow> delete_own env (delete_security_group rq)
       | DeletableSecurityGroupRule \<Rightarrow> delete_own env (delete_security_group_rule rq)
       | _ \<Rightarrow> throw AttrErr)"

definition helper_get :: "'r env \<Rightarrow> 'r object_world requester \<Rightarrow> ('r object_world, py) io" where
  "helper_get env rq = bnd (res_refresh env rq) (\<lambda>_. gets (\<lambda>w. PDict (no_data (it w))))"

definition res_wait_for_status ::
    "'r env \<Rightarrow> rest_client \<Rightarrow> string option \<Rightarrow> 'r object_world requester \<Rightarrow> py \<Rightarrow> 'r object_world
     \<Rightarrow> ((pyexc + unit) \<times> 'r object_world) option" where
  "res_wait_for_status env c caller rq status w =
     (if dhas (no_data (it w)) ''status''
      then wait_for_resource_status env c caller (helper_get env rq) status None None w
      else Some (Inr (), w))"

section \<open>Deleting a subnet\<close>

text \<open>What the objects rely on of a client: its requests do not touch the object.\<close>

definition keeps_it :: "'r object_world requester \<Rightarrow> bool" where
  "keeps_it rq = (\<forall>m u x h b w. it (snd (rq m u x h b w)) = it w)"

lemma keeps_itD: "keeps_it rq \<Longrightarrow> rq m u x h b w = (r, w') \<Longrightarrow> it w' = it w"
  by (metis keeps_it_def snd_conv)

lemma detach_one_routers:
  assumes "keeps_it rq" "detach_one env rq i w = (r, w')"
  shows "no_routers (it w') = (case r of Inl e \<Rightarrow> no_routers (it w) | Inr u \<Rightarrow> remove1 i (no_routers (it w)))"
proof -
  have put: "\<And>u b w r w1. rq ''PUT'' u False None b w = (r, w1) \<Longrightarrow> it w1 = it w"
    using assms(1) by (rule keeps_itD)
  show ?thesis
    using assms(2)
    by (auto simp: detach_one_def bnd_def upd_it_def remove_router_interface_with_subnet_id_def update_resource_def
        http_put_def dest!: put split: prod.splits sum.splits)
qed

lemma for_each_detach:
  assumes "keeps_it rq"
  shows "for_each rs (detach_one env rq) w = (r, w') \<Longrightarrow> no_routers (it w) = rs \<Longrightarrow>
    suffix (no_routers (it w')) rs \<and> (case r of Inl e \<Rightarrow> no_routers (it w') \<noteq> [] | Inr u \<Rightarrow> no_routers (it w') = [])"
proof (induction rs arbitrary: w)
  case (Cons i rs)
  obtain q w1 where one: "detach_one env rq i w = (q, w1)" by fastforce
  note routers = detach_one_routers [OF assms one]
  show ?case
  proof (cases q)
    case (Inl e)
    with Cons.prems one have "r = Inl e" "w1 = w'" by (simp_all add: bnd_def)
    with Inl routers Cons.prems(2) show ?thesis by (simp add: suffix_def)
  next
    case (Inr u)
    with Cons.prems one have "for_each rs (detach_one env rq) w1 = (r, w')" by (simp add: bnd_def)
    from Cons.IH [OF this] Inr Cons.prems(2) routers show ?thesis by (auto intro: suffix_ConsI)
  qed
qed auto

text \<open>
  (subnet_detaches_first): a subnet knows the routers it is still attached to. When its deletion raises,
  what it remembers is a final part of the routers it remembered, so that calling it again goes on with
  the router that failed; when it returns, it remembers none.
\<close>

theorem subnet_detaches_first:
  assumes "keeps_it rq" "no_class (it w) = DeletableSubnet" "res_delete env rq w = (r, w')"
  shows "suffix (no_routers (it w')) (no_routers (it w))
     \<and> (case r of Inl e \<Rightarrow> True | Inr u \<Rightarrow> no_routers (it w') = [])"
proof -
  obtain q w1 where loop: "for_each (no_routers (it w)) (detach_one env rq) w = (q, w1)" by fastforce
  note detached = for_each_detach [OF assms(1) loop refl]
  have "no_routers (it w') = no_routers (it w1)" if "delete_own env (delete_subnet rq) w1 = (p, w')" for p
    using that assms(1)
    by (auto simp: delete_own_def own_id_def bnd_def delete_subnet_def delete_resource_def http_delete_def
        dest: keeps_itD split: prod.splits sum.splits)
  then have "no_routers (it w') = no_routers (it w1)
      \<and> (case r of Inl e \<Rightarrow> True | Inr u \<Rightarrow> (\<exists>v. q = Inr v))"
    using assms(2,3) loop by (cases q) (auto simp: res_delete_def bnd_def split: sum.splits)
  with detached show ?thesis by (auto split: sum.splits)
qed

section \<open>Waiting without refreshing\<close>

definition refreshes :: "resource_class \<Rightarrow> bool" where
  "refreshes cls = (cls = DeletableFloatingIp \<or> cls = DeletableVip)"

lemma stale_fetch:
  "\<not> refreshes (no_class (it w)) \<Longrightarrow> helper_get env rq w = (Inr (PDict (no_data (it w))), w)"
  by (cases "no_class (it w)") (simp_all add: refreshes_def helper_get_def res_refresh_def bnd_def)

lemma stale_round:
  assumes "\<not> refreshes (no_class (it w))" "dget (no_data (it w)) ''status'' = Some v" "v \<noteq> status" "1 \<le> interval"
  shows "status_round env caller (helper_get env rq) status interval timeout t0 seen w
    = (if now w - t0 \<le> timeout * 1000000
       then (Inr (Inl (Some (PDict (no_data (it w))))),
             w\<lparr>now := now w + interval * 1000000, naps := naps w @ [interval]\<rparr>)
       else (Inl (status_timeout env caller status timeout seen), w))"
  using assms by (simp add: status_round_def bnd_def stale_fetch sleep_def)

text \<open>
  (stale_wait_times_out): only the floating address has a working \<open>refresh\<close>. For any other resource that does not have
  the status already, \<open>wait_for_status\<close> sends no request at all and ends in the timeout.
\<close>

theorem stale_wait_times_out:
  fixes w :: "'r object_world"
  assumes "\<not> refreshes (no_class (it w))" "dget (no_data (it w)) ''status'' = Some v" "v \<noteq> status"
    and "1 \<le> rc_build_interval c" "0 \<le> rc_build_timeout c"
  shows "\<exists>w' m. res_wait_for_status env c caller rq status w = Some (Inl (Auto TimeoutException [PStr m] []), w')
     \<and> sent w' = sent w"
proof -
  let ?round = "status_round env caller (helper_get env rq) status (rc_build_interval c) (rc_build_timeout c) (now w)"
  define inv where "inv = (\<lambda>seen (w1 :: 'r object_world). it w1 = it w \<and> sent w1 = sent w
    \<and> (case seen of None \<Rightarrow> now w1 = now w | Some res \<Rightarrow> res = PDict (no_data (it w))))"
  have round: "?round seen w1 = (if now w1 - now w \<le> rc_build_timeout c * 1000000
       then (Inr (Inl (Some (PDict (no_data (it w))))),
             w1\<lparr>now := now w1 + rc_build_interval c * 1000000, naps := naps w1 @ [rc_build_interval c]\<rparr>)
       else (Inl (status_timeout env caller status (rc_build_timeout c) seen), w1))"
    if "inv seen w1" for seen w1
    using stale_round [of w1 v status] assms that by (simp add: inv_def)
  have loop: "bounded_loop ?round inv (\<lambda>_ w1. nat (now w + rc_build_timeout c * 1000000 + 1 - now w1))"
  proof
    fix seen w1 s' w2
    assume i: "inv seen w1" and go: "?round seen w1 = (Inr (Inl s'), w2)"
    then show "inv s' w2" by (auto simp: round inv_def split: if_splits)
    show "nat (now w + rc_build_timeout c * 1000000 + 1 - now w2) < nat (now w + rc_build_timeout c * 1000000 + 1 - now w1)"
      using go assms(4) by (auto simp: round [OF i] split: if_splits)
  qed
  have "inv None w" by (simp add: inv_def)
  from bounded_loop.exit_round [OF loop this] obtain seen w1 r w' where i: "inv seen w1"
    and run: "loop_io ?round None w = Some (r, w')"
    and exit: "?round seen w1 = (Inl (projl r), w') \<and> isl r \<or> ?round seen w1 = (Inr (Inr (projr r)), w') \<and> \<not> isl r"
    by blast
  from exit have out: "r = Inl (status_timeout env caller status (rc_build_timeout c) seen)" "w' = w1"
      "rc_build_timeout c * 1000000 < now w1 - now w"
    by (auto simp: round [OF i] split: if_splits)
  then have "seen = Some (PDict (no_data (it w)))"
    using i assms(5) by (auto simp: inv_def split: option.splits)
  then have "\<exists>m. r = Inl (Auto TimeoutException [PStr m] [])"
    using out(1) assms(2) by (simp add: status_timeout_def)
  moreover have "sent w' = sent w" using i out(2) by (simp add: inv_def)
  moreover have "res_wait_for_status env c caller rq status w = Some (r, w')"
    using run assms(2) by (simp add: res_wait_for_status_def dhas_def wait_for_resource_status_def or_default_def)
  ultimately show ?thesis by blast
qed

section \<open>Witnesses\<close>

definition toy_subnet_object :: net_object where
  "toy_subnet_object =
     \<lparr>no_class = DeletableSubnet, no_data = [(''id'', PStr ''s1''), (''status'', PStr ''DOWN'')],
      no_routers = [''r1'', ''r2'']\<rparr>"

definition toy_object_world :: "script object_world" where
  "toy_object_world = \<lparr>now = 0, remote = [], sent = [], naps = [], it = toy_subnet_object\<rparr>"

definition toy_requests :: "script object_world requester" where
  "toy_requests m u x h b w =
     (Inr (if m = ''DELETE'' then (\<lparr>rs_status = 204, rs_headers = []\<rparr>, [])
           else (\<lparr>rs_status = 200, rs_headers = []\<rparr>, ''{}'')), w)"

lemma toy_keeps: "keeps_it toy_requests"
  by (simp add: keeps_it_def toy_requests_def)

theorem subnet_detaches_first_witness:
  "case res_delete (demo_env [(''{}'', PDict [])]) toy_requests toy_object_world of
     (Inr u, w') \<Rightarrow> no_routers (it w') = [] | (Inl e, w') \<Rightarrow> suffix (no_routers (it w')) [''r1'', ''r2'']"
proof -
  obtain r w' where run: "res_delete (demo_env [(''{}'', PDict [])]) toy_requests toy_object_world = (r, w')"
    by fastforce
  have "no_class (it toy_object_world) = DeletableSubnet" "no_routers (it toy_object_world) = [''r1'', ''r2'']"
    by (simp_all add: toy_object_world_def toy_subnet_object_def)
  with subnet_detaches_first [OF toy_keeps _ run] run show ?thesis by (auto split: sum.splits)
qed

theorem stale_wait_times_out_witness:
  "\<exists>w' m. res_wait_for_status (demo_env []) demo_client None toy_requests (PStr ''ACTIVE'') toy_object_world
       = Some (Inl (Auto TimeoutException [PStr m] []), w')
     \<and> sent w' = sent toy_object_world"
  by (rule stale_wait_times_out [where v = "PStr ''DOWN''"])
    (simp_all add: toy_object_world_def toy_subnet_object_def refreshes_def demo_client_def
      service_client_init_def rest_client_init_def)

end
