(* ===== verification/TestServer.thy ===== *)
theory TestServer
  imports ComputeClients CredProvider Waiters DataUtils
begin

text \<open>
  A server for a test and what it needs to be reached: \<open>automation/common/compute.py\<close> and
  \<open>automation/common/validation_resources.py\<close>. The clients are used through their \<open>request\<close>. Both wait, so
  a computation may not end: its type is \<open>loopy\<close>. Random names are arguments.
\<close>

section \<open>Computations that wait\<close>

type_synonym ('w, 'a) loopy = "'w \<Rightarrow> ((pyexc + 'a) \<times> 'w) option"

definition io_loop :: "('w, 'a) io \<Rightarrow> ('w, 'a) loopy" where
  "io_loop m w = Some (m w)"

definition bnd_loop :: "('w, 'a) loopy \<Rightarrow> ('a \<Rightarrow> ('w, 'b) loopy) \<Rightarrow> ('w, 'b) loopy" where
  "bnd_loop m f w =
     (case m w of
        None \<Rightarrow> None
      | Some (Inl e, w') \<Rightarrow> Some (Inl e, w')
      | Some (Inr x, w') \<Rightarrow> f x w')"

definition catch_loop :: "('w, 'a) loopy \<Rightarrow> (pyexc \<Rightarrow> ('w, 'a) loopy option) \<Rightarrow> ('w, 'a) loopy" where
  "catch_loop m h w =
     (case m w of
        Some (Inl e, w') \<Rightarrow> (case h e of None \<Rightarrow> Some (Inl e, w') | Some k \<Rightarrow> k w')
      | r \<Rightarrow> r)"

primrec each_loop :: "'a list \<Rightarrow> ('a \<Rightarrow> ('w, unit) loopy) \<Rightarrow> ('w, unit) loopy" where
  "each_loop [] f = io_loop (ret ())"
| "each_loop (x # xs) f = bnd_loop (f x) (\<lambda>_. each_loop xs f)"

section \<open>A server for a test\<close>

record server_conf =
  sv_flavor_ref :: py
  sv_image_ref :: py
  sv_run_validation :: bool
  sv_enable_password :: bool
  sv_connect_method :: string
  sv_ready_secs :: int
  sv_waiter :: waiter

text \<open>The clients of the manager: servers and floating addresses.\<close>

record 'w server_clients =
  cl_servers :: "'w requester"
  cl_floating_ips :: "'w requester"

definition nested :: "py \<Rightarrow> string \<Rightarrow> string \<Rightarrow> pyexc + py" where
  "nested v k1 k2 = bindE (getitem v k1) (\<lambda>x. getitem x k2)"

definition or_key_error :: "pyexc + 'a \<Rightarrow> 'a \<Rightarrow> pyexc + 'a" where
  "or_key_error r dflt = (case r of Inl (KeyErr k) \<Rightarrow> Inr dflt | _ \<Rightarrow> r)"

definition group_entry :: "py \<Rightarrow> pyexc + py" where
  "group_entry resources =
     bindE (nested resources ''security_group'' ''name'') (\<lambda>n. Inr (PDict [(''name'', n)]))"

text \<open>The security group: appended to those given, or set when there is one.\<close>

definition with_group :: "py \<Rightarrow> (string, py) dict \<Rightarrow> pyexc + (string, py) dict" where
  "with_group resources kwargs =
     (case dget kwargs ''security_groups'' of
        Some (PList gs) \<Rightarrow>
          bindE (group_entry resources) (\<lambda>g. Inr (dset kwargs ''security_groups'' (PList (gs @ [g]))))
      | Some v \<Rightarrow> Inl AttrErr
      | None \<Rightarrow>
          or_key_error
            (bindE (group_entry resources) (\<lambda>g. Inr (dset kwargs ''security_groups'' (PList [g])))) kwargs)"

definition with_key :: "py \<Rightarrow> (string, py) dict \<Rightarrow> pyexc + (string, py) dict" where
  "with_key resources kwargs =
     (if dhas kwargs ''key_name'' then Inr kwargs
      else or_key_error
        (bindE (nested resources ''keypair'' ''name'') (\<lambda>n. Inr (dset kwargs ''key_name'' n))) kwargs)"

definition validation_kwargs :: "server_conf \<Rightarrow> py \<Rightarrow> (string, py) dict \<Rightarrow> pyexc + (string, py) dict" where
  "validation_kwargs cf resources kwargs =
     (if dhas kwargs ''min_count'' \<or> dhas kwargs ''max_count'' then Inl ValueErr
      else
        bindE (with_group resources kwargs) (\<lambda>k1.
        bindE (with_key resources k1) (\<lambda>k2.
          Inr (if sv_connect_method cf = ''floating'' \<and> \<not> dhas k2 ''wait_until''
               then dset k2 ''wait_until'' (PStr ''ACTIVE'') else k2))))"

definition server_kwargs ::
    "server_conf \<Rightarrow> bool \<Rightarrow> py \<Rightarrow> py \<Rightarrow> (string, py) dict \<Rightarrow> pyexc + (string, py) dict" where
  "server_kwargs cf validatable resources tenant_network kwargs =
     bindE (set_networks_kwarg tenant_network (Some kwargs)) (\<lambda>k.
       if sv_run_validation cf \<and> validatable then validation_kwargs cf resources k else Inr k)"

text \<open>With several servers, those whose name starts with the given one.\<close>

definition name_matches :: "string \<Rightarrow> py \<Rightarrow> pyexc + bool" where
  "name_matches name s =
     bindE (getitem s ''name'') (\<lambda>n. bindE (as_str AttrErr n) (\<lambda>t. Inr (take (length name) t = name)))"

definition created_servers ::
    "'r env \<Rightarrow> schemas \<Rightarrow> 'w requester \<Rightarrow> string \<Rightarrow> (string, py) dict \<Rightarrow> response_body \<Rightarrow> ('w, py list) io" where
  "created_servers env sc rq name kwargs body =
     (if dhas kwargs ''min_count'' \<or> dhas kwargs ''max_count'' then
        bnd (list_servers env sc rq False []) (\<lambda>b.
          lift (bindE (rb_item b ''servers'') (\<lambda>v. bindE (py_iter v) (filterE (name_matches name)))))
      else ret [PDict (rb_data body)])"

text \<open>The cleanup after a failed wait; a failed deletion is only logged, with the id of the server.\<close>

definition remove_server :: "'r env \<Rightarrow> schemas \<Rightarrow> 'w requester \<Rightarrow> py \<Rightarrow> ('w, unit) io" where
  "remove_server env sc rq server =
     bnd (lift (getitem server ''id'')) (\<lambda>i.
       catch (bnd (delete_server env sc rq (py_text (e_repr env) i)) (\<lambda>_. ret ())) (\<lambda>e. Some (ret ())))"

definition remove_servers ::
    "'r env \<Rightarrow> schemas \<Rightarrow> 'w requester \<Rightarrow> (string, py) dict \<Rightarrow> py list \<Rightarrow> ('w, unit) io" where
  "remove_servers env sc rq kwargs servers =
     (if \<not> dhas kwargs ''preserve_server_on_error''
         \<or> dget kwargs ''preserve_server_on_error'' = Some (PBool False)
      then for_each servers (remove_server env sc rq) else ret ())"

definition await_server ::
    "'r env \<Rightarrow> schemas \<Rightarrow> server_conf \<Rightarrow> (('r, 'x) world_scheme) server_clients \<Rightarrow> bool \<Rightarrow> py \<Rightarrow> py \<Rightarrow> py list \<Rightarrow> py
     \<Rightarrow> (('r, 'x) world_scheme, unit) loopy" where
  "await_server env sc cf cl validatable resources status servers server =
     bnd_loop (io_loop (lift (bindE (getitem server ''id'') (\<lambda>i. bindE (as_str TypeErr status) (\<lambda>st.
                 Inr (py_text (e_repr env) i, st)))))) (\<lambda>(sid, st).
     bnd_loop
       (wait_for_server_status (sv_waiter cf) (sv_ready_secs cf)
          (bnd (show_server env sc (cl_servers cl) sid) (\<lambda>b. ret (rb_data b))) sid st True 0 True) (\<lambda>_.
       if sv_run_validation cf \<and> validatable \<and> sv_connect_method cf = ''floating'' then
         io_loop
           (bnd (lift (nested resources ''floating_ip'' ''ip'')) (\<lambda>ip.
            bnd (lift (bindE (py_first (PList servers)) (\<lambda>s. getitem s ''id''))) (\<lambda>i.
            bnd (associate_floating_ip_to_server env sc (cl_floating_ips cl) ip (py_text (e_repr env) i)) (\<lambda>_. ret ()))))
       else io_loop (ret ())))"

definition await_servers ::
    "'r env \<Rightarrow> schemas \<Rightarrow> server_conf \<Rightarrow> (('r, 'x) world_scheme) server_clients \<Rightarrow> bool \<Rightarrow> py \<Rightarrow> (string, py) dict \<Rightarrow> py
     \<Rightarrow> py list \<Rightarrow> (('r, 'x) world_scheme, unit) loopy" where
  "await_servers env sc cf cl validatable resources kwargs status servers =
     each_loop servers (\<lambda>server.
       catch_loop (await_server env sc cf cl validatable resources status servers server)
         (\<lambda>e. Some (io_loop (bnd (remove_servers env sc (cl_servers cl) kwargs servers) (\<lambda>_. throw e)))))"

text \<open>\<open>fresh\<close> is the random name; a given name is a text.\<close>

definition create_test_server ::
    "'r env \<Rightarrow> schemas \<Rightarrow> server_conf \<Rightarrow> (('r, 'x) world_scheme) server_clients \<Rightarrow> string \<Rightarrow> bool \<Rightarrow> py \<Rightarrow> py
     \<Rightarrow> (string, py) dict \<Rightarrow> (('r, 'x) world_scheme, response_body \<times> py list) loopy" where
  "create_test_server env sc cf cl fresh validatable resources tenant_network kwargs =
     (let name = kw_get kwargs ''name'' (PStr fresh); rest = ddel kwargs ''name'' in
      bnd_loop (io_loop (lift (server_kwargs cf validatable resources tenant_network rest))) (\<lambda>kw.
      bnd_loop (io_loop (create_server env sc (sv_enable_password cf) (cl_servers cl) name (kw_get rest ''image_id'' (sv_image_ref cf))
                  (kw_get rest ''flavor'' (sv_flavor_ref cf)) kw)) (\<lambda>body.
      bnd_loop (io_loop (bnd (lift (as_str AttrErr name)) (\<lambda>n.
                  created_servers env sc (cl_servers cl) n kw body))) (\<lambda>servers.
      bnd_loop
        (case dget kw ''wait_until'' of
           None \<Rightarrow> io_loop (ret ())
         | Some status \<Rightarrow> await_servers env sc cf cl validatable resources kw status servers) (\<lambda>_.
        io_loop (ret (body, servers)))))))"

section \<open>Validation resources\<close>

record 'w validation_clients =
  vc_keypairs :: "'w requester"
  vc_security_groups :: "'w requester"
  vc_security_group_rules :: "'w requester"
  vc_floating_ips :: "'w requester"

definition ssh_rule :: "py \<Rightarrow> string \<Rightarrow> int \<Rightarrow> (string, py) dict" where
  "ssh_rule grp protocol port =
     [(''parent_group_id'', grp), (''ip_protocol'', PStr protocol), (''from_port'', PInt port),
      (''to_port'', PInt port)]"

definition create_ssh_security_group ::
    "'r env \<Rightarrow> schemas \<Rightarrow> 'w validation_clients \<Rightarrow> string \<Rightarrow> string \<Rightarrow> bool \<Rightarrow> ('w, response_body) io" where
  "create_ssh_security_group env sc vc sg_name sg_description add_rule =
     bnd (nova_create_security_group env sc (vc_security_groups vc)
            [(''name'', PStr sg_name), (''description'', PStr sg_description)]) (\<lambda>grp.
     bnd (if add_rule then
            bnd (lift (rb_item grp ''id'')) (\<lambda>i.
            bnd (nova_create_security_group_rule env sc (vc_security_group_rules vc) (ssh_rule i ''tcp'' 22)) (\<lambda>_.
            bnd (nova_create_security_group_rule env sc (vc_security_group_rules vc) (ssh_rule i ''icmp'' (- 1))) (\<lambda>_.
              ret ())))
          else ret ()) (\<lambda>_. ret grp))"

definition wanted_part :: "(string, py) dict \<Rightarrow> string \<Rightarrow> ('w, response_body) io \<Rightarrow> (string, py) dict
     \<Rightarrow> ('w, (string, py) dict) io" where
  "wanted_part resources key create data =
     bnd (lift (getitem (PDict resources) key)) (\<lambda>v.
       if truthy v then bnd create (\<lambda>b. ret (dset data key (PDict (rb_data b)))) else ret data)"

definition create_validation_resources ::
    "'r env \<Rightarrow> schemas \<Rightarrow> 'w validation_clients \<Rightarrow> string \<Rightarrow> string \<Rightarrow> string \<Rightarrow> (string, py) dict
     \<Rightarrow> ('w, (string, py) dict) io" where
  "create_validation_resources env sc vc keypair_name sg_name sg_description resources =
     (if resources = [] then ret []
      else
        bnd (wanted_part resources ''keypair''
               (create_keypair env sc (vc_keypairs vc) [(''name'', PStr keypair_name)]) []) (\<lambda>d1.
        bnd (wanted_part resources ''security_group''
               (bnd (lift (getitem (PDict resources) ''security_group_rules'')) (\<lambda>rules.
                  create_ssh_security_group env sc vc sg_name sg_description (truthy rules))) d1) (\<lambda>d2.
          wanted_part resources ''floating_ip'' (create_floating_ip env sc (vc_floating_ips vc) PNone) d2)))"

text \<open>
  Removing: a missing resource is ignored, of the other exceptions the first is kept (\<open>has_exception\<close>), and
  the next resource follows in any case. A missing name or id raises at once.
\<close>

definition keep_first :: "pyexc option \<Rightarrow> pyexc \<Rightarrow> pyexc option" where
  "keep_first found e = (case found of None \<Rightarrow> Some e | Some f \<Rightarrow> Some f)"

definition guarded :: "('w, unit) loopy \<Rightarrow> pyexc option \<Rightarrow> ('w, pyexc option) loopy" where
  "guarded m found =
     catch_loop (bnd_loop m (\<lambda>_. io_loop (ret found)))
       (\<lambda>e. Some (io_loop (ret (if catches NotFound e then found else keep_first found e))))"

definition clear_part ::
    "'r env \<Rightarrow> (string, py) dict \<Rightarrow> string \<Rightarrow> string \<Rightarrow> (string \<Rightarrow> ('w, unit) loopy) \<Rightarrow> pyexc option
     \<Rightarrow> ('w, pyexc option) loopy" where
  "clear_part env data key attr del found =
     (case dget data key of
        None \<Rightarrow> io_loop (ret found)
      | Some v \<Rightarrow>
          bnd_loop (io_loop (lift (getitem v attr))) (\<lambda>i. guarded (del (py_text (e_repr env) i)) found))"

definition delete_group_and_wait ::
    "'r env \<Rightarrow> schemas \<Rightarrow> rest_client \<Rightarrow> string option \<Rightarrow> (('r, 'x) world_scheme) requester \<Rightarrow> string
     \<Rightarrow> (('r, 'x) world_scheme, unit) loopy" where
  "delete_group_and_wait env sc c caller rq i =
     bnd_loop (io_loop (nova_delete_security_group env sc rq i)) (\<lambda>_.
       wait_for_resource_deletion c caller ''security_group'' i (security_group_deleted env sc rq i))"

definition clear_validation_resources ::
    "'r env \<Rightarrow> schemas \<Rightarrow> rest_client \<Rightarrow> string option \<Rightarrow> (('r, 'x) world_scheme) validation_clients
     \<Rightarrow> (string, py) dict \<Rightarrow> (('r, 'x) world_scheme, unit) loopy" where
  "clear_validation_resources env sc c caller vc data =
     bnd_loop (clear_part env data ''keypair'' ''name''
        (\<lambda>n. io_loop (bnd (delete_keypair env sc (vc_keypairs vc) n) (\<lambda>_. ret ()))) None) (\<lambda>f1.
     bnd_loop (clear_part env data ''security_group'' ''id''
        (delete_group_and_wait env sc c caller (vc_security_groups vc)) f1) (\<lambda>f2.
     bnd_loop (clear_part env data ''floating_ip'' ''id''
        (\<lambda>i. io_loop (bnd (delete_floating_ip env sc (vc_floating_ips vc) i) (\<lambda>_. ret ()))) f2) (\<lambda>f3.
       io_loop (case f3 of None \<Rightarrow> ret () | Some e \<Rightarrow> throw e))))"

end
