(* ===== verification/TestServerProps.thy ===== *)
theory TestServerProps
  imports TestServer Demo
begin

text \<open>
  The properties of the servers for tests: when a server does not come up all are asked to be
  deleted, and the removal of the
  validation resources goes on after a failure.
\<close>

section \<open>Servers that do not come up\<close>

text \<open>
  Nothing is relied on of the compute service; its answers are whatever they are. The requests sent to it are recorded
  in the order in which they were sent.
\<close>

definition logs_requests :: "'w requester \<Rightarrow> ('w \<Rightarrow> (string \<times> string) list) \<Rightarrow> bool" where
  "logs_requests rq log = (\<forall>m u x h b w. log (snd (rq m u x h b w)) = log w @ [(m, u)])"

definition has_id :: "'r env \<Rightarrow> py \<Rightarrow> string \<Rightarrow> bool" where
  "has_id env s i = (\<exists>v. getitem s ''id'' = Inr v \<and> py_text (e_repr env) v = i)"

definition deletion_of :: "string \<Rightarrow> string \<times> string" where
  "deletion_of i = (''DELETE'', ''servers/'' @ i)"

lemma remove_server_run:
  assumes "logs_requests rq log" "has_id env s i"
  shows "\<exists>w'. remove_server env sc rq s w = (Inr (), w') \<and> log w' = log w @ [deletion_of i]"
proof -
  obtain v where v: "getitem s ''id'' = Inr v" "py_text (e_repr env) v = i" using assms(2) by (auto simp: has_id_def)
  obtain r w' where del: "rq ''DELETE'' (''servers/'' @ i) False None PNone w = (r, w')" by fastforce
  have "log w' = log w @ [deletion_of i]"
    using assms(1) del unfolding logs_requests_def deletion_of_def by (metis snd_conv)
  moreover have "snd (delete_server env sc rq i w) = w'"
    using del by (cases r) (simp_all add: delete_server_def delete_raw_def http_delete_def bnd_def)
  then have "remove_server env sc rq s w = (Inr (), w')"
    using v by (auto simp: remove_server_def bnd_def catch_def split: prod.splits sum.splits)
  ultimately show ?thesis by blast
qed

lemma remove_all_run:
  assumes "logs_requests rq log"
  shows "list_all2 (has_id env) servers ids \<Longrightarrow>
    \<exists>w'. for_each servers (remove_server env sc rq) w = (Inr (), w') \<and> log w' = log w @ map deletion_of ids"
proof (induction servers ids arbitrary: w rule: list_all2_induct)
  case (Cons s servers i ids)
  obtain w1 where one: "remove_server env sc rq s w = (Inr (), w1)" "log w1 = log w @ [deletion_of i]"
    using remove_server_run [OF assms Cons.hyps(1)] by blast
  obtain w2 where "for_each servers (remove_server env sc rq) w1 = (Inr (), w2)" "log w2 = log w1 @ map deletion_of ids"
    using Cons.IH by blast
  with one show ?case by (simp add: bnd_def)
qed simp

lemma each_loop_raises:
  "each_loop xs f w = Some (Inl e, w') \<Longrightarrow> \<exists>x \<in> set xs. \<exists>w1. f x w1 = Some (Inl e, w')"
proof (induction xs arbitrary: w)
  case (Cons x xs)
  then show ?case
    by (auto simp: bnd_loop_def split: option.splits prod.splits sum.splits)
qed (simp add: io_loop_def)

lemma catch_raises:
  fixes c :: "('w, unit) io"
  assumes "catch_loop m (\<lambda>e. Some (io_loop (bnd c (\<lambda>_. throw e)))) w = Some (Inl e, w')"
  obtains e1 w2 where "m w = Some (Inl e1, w2)" "bnd c (\<lambda>_. throw e1 :: ('w, 'a) io) w2 = (Inl e, w')"
proof (cases "m w")
  case (Some p)
  obtain r w2 where p: "p = (r, w2)" by fastforce
  show ?thesis
  proof (cases r)
    case (Inl e1)
    have "bnd c (\<lambda>_. throw e1 :: ('w, 'a) io) w2 = (Inl e, w')"
      using assms Some p Inl by (auto simp: catch_loop_def io_loop_def bnd_def split: prod.splits sum.splits)
    then show ?thesis using that Some p Inl by blast
  qed (use assms Some p in \<open>simp add: catch_loop_def\<close>)
qed (use assms in \<open>simp add: catch_loop_def\<close>)

text \<open>
  C21 (failed_servers_removed): when a test's servers do not all come up, the exception raised is the one that ended
  the wait for one of them, and after that exception a deletion is sent for every one of the servers, in their order,
  whatever the service answers to each, unless the caller asked to preserve them: then nothing more is sent.
\<close>

theorem failed_servers_removed:
  assumes "await_servers env sc cf cl validatable resources kwargs status servers w = Some (Inl e, w')"
    and "logs_requests (cl_servers cl) log" "list_all2 (has_id env) servers ids"
  shows "\<exists>server \<in> set servers. \<exists>w1 w2.
    await_server env sc cf cl validatable resources status servers server w1 = Some (Inl e, w2)
    \<and> log w' = log w2 @ (if dget kwargs ''preserve_server_on_error'' \<in> {None, Some (PBool False)}
                           then map deletion_of ids else [])"
proof -
  from each_loop_raises [OF assms(1) [unfolded await_servers_def]] obtain x w1 where x: "x \<in> set servers"
    and "catch_loop (await_server env sc cf cl validatable resources status servers x)
       (\<lambda>e. Some (io_loop (bnd (remove_servers env sc (cl_servers cl) kwargs servers) (\<lambda>_. throw e)))) w1
     = Some (Inl e, w')"
    by blast
  from this(2) obtain e1 w2 where failed:
    "await_server env sc cf cl validatable resources status servers x w1 = Some (Inl e1, w2)"
    "bnd (remove_servers env sc (cl_servers cl) kwargs servers) (\<lambda>_. throw e1 :: (_, unit) io) w2 = (Inl e, w')"
    by (rule catch_raises)
  obtain w3 where "for_each servers (remove_server env sc (cl_servers cl)) w2 = (Inr (), w3)"
      "log w3 = log w2 @ map deletion_of ids"
    using remove_all_run [OF assms(2,3)] by blast
  then have "e1 = e \<and> log w' = log w2 @ (if dget kwargs ''preserve_server_on_error'' \<in> {None, Some (PBool False)}
      then map deletion_of ids else [])"
    using failed(2) by (auto simp: remove_servers_def dhas_def bnd_def split: if_splits)
  then show ?thesis using x failed(1) by blast
qed

section \<open>Validation resources\<close>

text \<open>The first exception that is not about a missing resource.\<close>

definition first_failure :: "(pyexc + 'a) list \<Rightarrow> pyexc option" where
  "first_failure rs =
     (case filter (\<lambda>e. \<not> catches NotFound e) (map projl (filter isl rs)) of [] \<Rightarrow> None | e # es \<Rightarrow> Some e)"

lemma guarded_run:
  "m w = Some (r, w') \<Longrightarrow> guarded m found w
     = Some (Inr (case found of Some e \<Rightarrow> Some e | None \<Rightarrow> first_failure [r]), w')"
  by (cases r; cases found)
    (auto simp: guarded_def catch_loop_def bnd_loop_def io_loop_def keep_first_def first_failure_def)

definition unit_of :: "pyexc + 'a \<Rightarrow> pyexc + unit" where
  "unit_of r = (case r of Inl e \<Rightarrow> Inl e | Inr x \<Rightarrow> Inr ())"

lemma ignoring_result: "m w = (r, w') \<Longrightarrow> io_loop (bnd m (\<lambda>_. ret ())) w = Some (unit_of r, w')"
  by (cases r) (simp_all add: io_loop_def bnd_def unit_of_def)

lemma clear_part_run:
  "dget data key = Some (PDict d) \<Longrightarrow> dget d attr = Some (PStr i) \<Longrightarrow>
   clear_part env data key attr del found w = guarded (del i) found w"
  by (simp add: clear_part_def bnd_loop_def io_loop_def)

text \<open>
  C22 (clear_goes_on): \<open>clear_validation_resources\<close> deletes the key pair, the security group and the floating
  address one after the other, whatever becomes of each deletion. Missing resources are ignored; of the
  other failures the first is raised at the end.
\<close>

theorem clear_goes_on:
  assumes "dget data ''keypair'' = Some (PDict k)" "dget k ''name'' = Some (PStr n)"
    and "dget data ''security_group'' = Some (PDict g)" "dget g ''id'' = Some (PStr gi)"
    and "dget data ''floating_ip'' = Some (PDict f)" "dget f ''id'' = Some (PStr fi)"
    and "delete_keypair env sc (vc_keypairs vc) n w = (r1, w1)"
    and "delete_group_and_wait env sc c caller (vc_security_groups vc) gi w1 = Some (r2, w2)"
    and "delete_floating_ip env sc (vc_floating_ips vc) fi w2 = (r3, w3)"
  shows "clear_validation_resources env sc c caller vc data w
     = Some (case first_failure [unit_of r1, r2, unit_of r3] of None \<Rightarrow> Inr () | Some e \<Rightarrow> Inl e, w3)"
proof -
  have steps:
    "guarded (io_loop (bnd (delete_keypair env sc (vc_keypairs vc) n) (\<lambda>_. ret ()))) found w
       = Some (Inr (case found of Some e \<Rightarrow> Some e | None \<Rightarrow> first_failure [unit_of r1]), w1)"
    "guarded (delete_group_and_wait env sc c caller (vc_security_groups vc) gi) found w1
       = Some (Inr (case found of Some e \<Rightarrow> Some e | None \<Rightarrow> first_failure [r2]), w2)"
    "guarded (io_loop (bnd (delete_floating_ip env sc (vc_floating_ips vc) fi) (\<lambda>_. ret ()))) found w2
       = Some (Inr (case found of Some e \<Rightarrow> Some e | None \<Rightarrow> first_failure [unit_of r3]), w3)" for found
    by (rule guarded_run, rule ignoring_result, rule assms)
      (rule guarded_run, rule assms, rule guarded_run, rule ignoring_result, rule assms)
  have "first_failure [a, b, d] = (case first_failure [a] of Some e \<Rightarrow> Some e
      | None \<Rightarrow> (case first_failure [b] of Some e \<Rightarrow> Some e | None \<Rightarrow> first_failure [d]))" for a b d :: "pyexc + unit"
    by (cases a; cases b; cases d) (auto simp: first_failure_def)
  then show ?thesis
    by (simp add: clear_validation_resources_def bnd_loop_def clear_part_run [OF assms(1,2)]
        clear_part_run [OF assms(3,4)] clear_part_run [OF assms(5,6)] steps io_loop_def split: option.splits)
qed

section \<open>Witnesses\<close>

text \<open>A service that keeps the requests and refuses them all, and two that do nothing.\<close>

definition stock_env :: "(string \<times> string) list env" where
  "stock_env = \<lparr>e_srv = (\<lambda>rq r. (Inl IOErr, r, 0)), e_loads = (\<lambda>t. None), e_dumps = (\<lambda>v. []), e_valid = (\<lambda>v s. None),
     e_repr = (\<lambda>v. [])\<rparr>"

definition stock_schemas :: schemas where
  "stock_schemas name = \<lparr>sc_status = Code 200, sc_body = PNone, sc_header = PNone\<rparr>"

definition stock_requests :: "(string \<times> string) list world requester" where
  "stock_requests m u x h b w =
     (Inl (Auto (if m = ''DELETE'' then Conflict else NotFound) [] []), w\<lparr>remote := remote w @ [(m, u)]\<rparr>)"

definition missing :: "'w requester" where
  "missing m u x h b w = (Inl (Auto NotFound [] []), w)"

definition refusing :: "'w requester" where
  "refusing m u x h b w = (Inl (Auto Conflict [] []), w)"

definition stock_world :: "(string \<times> string) list world" where
  "stock_world = \<lparr>now = 0, remote = [], sent = [], naps = []\<rparr>"

definition stock_conf :: server_conf where
  "stock_conf = \<lparr>sv_flavor_ref = PStr ''f'', sv_image_ref = PStr ''i'', sv_run_validation = False,
     sv_enable_password = False, sv_connect_method = ''fixed'', sv_ready_secs = 0,
     sv_waiter = \<lparr>wt_interval = 1, wt_timeout = 10, wt_caller = None, wt_repr = (\<lambda>v. [])\<rparr>\<rparr>"

theorem failed_servers_removed_witness:
  "\<exists>w' (w2 :: (string \<times> string) list world). await_servers stock_env stock_schemas stock_conf
       \<lparr>cl_servers = stock_requests, cl_floating_ips = stock_requests\<rparr> False PNone [] (PStr ''ACTIVE'')
       [PDict [(''id'', PStr ''s1'')], PDict [(''id'', PStr ''s2'')]] stock_world = Some (Inl (Auto NotFound [] []), w')
     \<and> remote w' = remote w2 @ [(''DELETE'', ''servers/s1''), (''DELETE'', ''servers/s2'')]"
proof -
  let ?cl = "\<lparr>cl_servers = stock_requests, cl_floating_ips = stock_requests\<rparr>"
  let ?servers = "[PDict [(''id'', PStr ''s1'')], PDict [(''id'', PStr ''s2'')]]"
  obtain w' where run: "await_servers stock_env stock_schemas stock_conf ?cl False PNone [] (PStr ''ACTIVE'') ?servers
      stock_world = Some (Inl (Auto NotFound [] []), w')"
    by (simp add: await_servers_def await_server_def catch_loop_def bnd_loop_def io_loop_def bnd_def
        wait_for_server_status_def then_loop_def show_server_def get_json_def http_get_def stock_requests_def
        remove_servers_def dhas_def remove_server_def catch_def delete_server_def delete_raw_def http_delete_def)
  have recorded: "logs_requests (cl_servers ?cl) remote"
    by (simp add: logs_requests_def stock_requests_def)
  have named: "list_all2 (has_id stock_env) ?servers [''s1'', ''s2'']"
    by (simp add: has_id_def)
  from failed_servers_removed [OF run recorded named] obtain w2 :: "(string \<times> string) list world"
    where "remote w' = remote w2 @ (if dget [] ''preserve_server_on_error'' \<in> {None, Some (PBool False)}
       then map deletion_of [''s1'', ''s2''] else [])"
    by blast
  then have "remote w' = remote w2 @ [(''DELETE'', ''servers/s1''), (''DELETE'', ''servers/s2'')]"
    by (simp add: deletion_of_def)
  with run show ?thesis by blast
qed

theorem clear_goes_on_witness:
  "clear_validation_resources stock_env stock_schemas (rest_client_init (PStr ''compute'') (PStr ''R1'')) None
     \<lparr>vc_keypairs = refusing, vc_security_groups = refusing, vc_security_group_rules = refusing,
      vc_floating_ips = missing\<rparr>
     [(''keypair'', PDict [(''name'', PStr ''k'')]), (''security_group'', PDict [(''id'', PStr ''g'')]),
      (''floating_ip'', PDict [(''id'', PStr ''f'')])] stock_world
   = Some (Inl (Auto Conflict [] []), stock_world)"
proof -
  let ?c = "rest_client_init (PStr ''compute'') (PStr ''R1'')"
  have runs: "delete_keypair stock_env stock_schemas refusing ''k'' stock_world = (Inl (Auto Conflict [] []), stock_world)"
    "delete_group_and_wait stock_env stock_schemas ?c None refusing ''g'' stock_world
       = Some (Inl (Auto Conflict [] []), stock_world)"
    "delete_floating_ip stock_env stock_schemas missing ''f'' stock_world = (Inl (Auto NotFound [] []), stock_world)"
    by (simp_all add: delete_keypair_def delete_with_def http_delete_def refusing_def bnd_def delete_group_and_wait_def
        bnd_loop_def io_loop_def nova_delete_security_group_def delete_floating_ip_def missing_def stock_world_def)
  have "first_failure [unit_of (Inl (Auto Conflict [] []) :: pyexc + response_body), Inl (Auto Conflict [] []),
      unit_of (Inl (Auto NotFound [] []) :: pyexc + response_body)] = Some (Auto Conflict [] [])"
    by (simp add: first_failure_def unit_of_def catches_def isinstance_of_def supers.simps)
  moreover have "clear_validation_resources stock_env stock_schemas ?c None
     \<lparr>vc_keypairs = refusing, vc_security_groups = refusing, vc_security_group_rules = refusing,
      vc_floating_ips = missing\<rparr>
     [(''keypair'', PDict [(''name'', PStr ''k'')]), (''security_group'', PDict [(''id'', PStr ''g'')]),
      (''floating_ip'', PDict [(''id'', PStr ''f'')])] stock_world
   = Some (case first_failure [unit_of (Inl (Auto Conflict [] []) :: pyexc + response_body), Inl (Auto Conflict [] []),
      unit_of (Inl (Auto NotFound [] []) :: pyexc + response_body)] of None \<Rightarrow> Inr () | Some e \<Rightarrow> Inl e, stock_world)"
    using runs
    by (intro clear_goes_on [where k = "[(''name'', PStr ''k'')]" and n = "''k''" and g = "[(''id'', PStr ''g'')]"
        and gi = "''g''" and f = "[(''id'', PStr ''f'')]" and fi = "''f''" and ?w1.0 = stock_world
        and ?w2.0 = stock_world]) simp_all
  ultimately show ?thesis by simp
qed

end
