(* ===== verification/RemoteAccess.thy ===== *)
theory RemoteAccess
  imports ClientBase Waiters
begin

text \<open>
  Commands on a server over SSH: \<open>automation/common/ssh.py\<close> and
  \<open>automation/common/utils/linux/remote_client.py\<close>. \<open>paramiko\<close> is a parameter: what an attempt to connect
  gives, and a channel (the record \<open>channel\<close>). The clock counts microseconds, also in sleeps of half
  seconds.
\<close>

section \<open>Connecting\<close>

record ssh_client =
  sh_host :: string
  sh_username :: string
  sh_password :: py
  sh_timeout :: int

text \<open>\<open>time.sleep\<close> of a number of microseconds.\<close>

definition pause :: "int \<Rightarrow> (('r, 'x) world_scheme, unit) io" where
  "pause us = modify (\<lambda>w. w\<lparr>now := now w + us\<rparr>)"

definition ssh_timed_out :: "ssh_client \<Rightarrow> int \<Rightarrow> int \<Rightarrow> bool" where
  "ssh_timed_out c start_time t = (start_time < t - sh_timeout c * 1000000)"

text \<open>
  An attempt gives a connection, or None for a \<open>socket.error\<close> or an \<open>SSHException\<close>; another exception is
  raised. The state of the loop is the last pause and the number of attempts.
\<close>

definition connect_round ::
    "ssh_client \<Rightarrow> (('r, 'x) world_scheme, 'c option) io \<Rightarrow> int \<Rightarrow> int \<Rightarrow> int \<times> nat
     \<Rightarrow> (('r, 'x) world_scheme, (int \<times> nat) + 'c) io" where
  "connect_round c connect backoff start_time = (\<lambda>(bsleep, attempts).
     bnd connect (\<lambda>found.
       case found of
         Some connection \<Rightarrow> ret (Inr connection)
       | None \<Rightarrow>
           bnd (gets now) (\<lambda>t.
             if ssh_timed_out c start_time t
             then throw (Auto SSHTimeout []
                    [(''host'', PStr (sh_host c)), (''user'', PStr (sh_username c)), (''password'', sh_password c)])
             else bnd (pause (bsleep + backoff)) (\<lambda>_. ret (Inl (bsleep + backoff, Suc attempts))))))"

text \<open>The defaults: a pause of 1.5 seconds, one second more after each attempt.\<close>

definition get_ssh_connection ::
    "ssh_client \<Rightarrow> (('r, 'x) world_scheme, 'c option) io \<Rightarrow> ('r, 'x) world_scheme
     \<Rightarrow> ((pyexc + 'c) \<times> ('r, 'x) world_scheme) option" where
  "get_ssh_connection c connect w = loop_io (connect_round c connect 1000000 (now w)) (1500000, 0) w"

section \<open>Executing\<close>

text \<open>
  A channel: running the command up to its exit status, polling, the chunks that are ready (None when there
  is nothing), whether it is closed, and all its output when the system cannot poll.
\<close>

record 'w channel =
  ch_run :: "string \<Rightarrow> ('w, int) io"
  ch_poll :: "('w, bool) io"
  ch_recv :: "('w, string option) io"
  ch_recv_stderr :: "('w, string option) io"
  ch_closed :: "('w, bool) io"
  ch_files :: "('w, string \<times> string) io"

definition chunk_of :: "string option \<Rightarrow> string" where
  "chunk_of c = (case c of None \<Rightarrow> [] | Some s \<Rightarrow> s)"

definition kept :: "string option \<Rightarrow> string list" where
  "kept c = (case c of None \<Rightarrow> [] | Some s \<Rightarrow> [s])"

definition exec_round ::
    "ssh_client \<Rightarrow> (('r, 'x) world_scheme) channel \<Rightarrow> string \<Rightarrow> int \<Rightarrow> string list \<times> string list
     \<Rightarrow> (('r, 'x) world_scheme, (string list \<times> string list) + string list \<times> string list) io" where
  "exec_round c ch cmd start_time = (\<lambda>(out, err).
     bnd (ch_poll ch) (\<lambda>ready.
       if \<not> ready then
         bnd (gets now) (\<lambda>t.
           if ssh_timed_out c start_time t
           then throw (Auto TimeoutException
                  [PStr (''Command: '' @ [CHR 0x27] @ cmd @ [CHR 0x27] @ '' executed on host '' @ [CHR 0x27]
                         @ sh_host c @ [CHR 0x27] @ ''.'')] [])
           else ret (Inl (out, err)))
       else
         bnd (ch_recv ch) (\<lambda>out_chunk.
         bnd (ch_recv_stderr ch) (\<lambda>err_chunk.
         bnd (ch_closed ch) (\<lambda>closed.
           (let s = (out @ kept out_chunk, err @ kept err_chunk) in
            if closed \<and> chunk_of err_chunk = [] \<and> chunk_of out_chunk = [] then ret (Inr s) else ret (Inl s)))))))"

definition exec_output ::
    "ssh_client \<Rightarrow> (('r, 'x) world_scheme) channel \<Rightarrow> bool \<Rightarrow> string \<Rightarrow> ('r, 'x) world_scheme
     \<Rightarrow> ((pyexc + string \<times> string) \<times> ('r, 'x) world_scheme) option" where
  "exec_output c ch can_poll cmd w =
     (if can_poll then
        map_option (\<lambda>(r, w'). (case r of Inl e \<Rightarrow> Inl e | Inr (out, err) \<Rightarrow> Inr (concat out, concat err), w'))
          (loop_io (exec_round c ch cmd (now w)) ([], []) w)
      else Some (ch_files ch w))"

definition exec_result :: "string \<Rightarrow> int \<Rightarrow> string \<times> string \<Rightarrow> pyexc + string" where
  "exec_result cmd exit_status = (\<lambda>(out, err).
     if exit_status \<noteq> 0
     then Inl (Auto SSHExecCommandFailed []
            [(''command'', PStr cmd), (''exit_status'', PInt exit_status), (''stderr'', PStr err),
             (''stdout'', PStr out)])
     else Inr out)"

definition ssh_exec_command ::
    "ssh_client \<Rightarrow> (('r, 'x) world_scheme, (('r, 'x) world_scheme) channel option) io \<Rightarrow> bool \<Rightarrow> string
     \<Rightarrow> ('r, 'x) world_scheme \<Rightarrow> ((pyexc + string) \<times> ('r, 'x) world_scheme) option" where
  "ssh_exec_command c connect can_poll cmd w =
     (case get_ssh_connection c connect w of
        None \<Rightarrow> None
      | Some (Inl e, w1) \<Rightarrow> Some (Inl e, w1)
      | Some (Inr ch, w1) \<Rightarrow>
          then_loop (ch_run ch cmd) (\<lambda>exit_status w2.
            map_option (\<lambda>(r, w3). (bindE r (exec_result cmd exit_status), w3)) (exec_output c ch can_poll cmd w2)) w1)"

section \<open>The remote client\<close>

text \<open>The address to connect to: the server's first on the network with the IP version.\<close>

fun address_with_version :: "py \<Rightarrow> py list \<Rightarrow> pyexc + py" where
  "address_with_version version [] = Inl (Auto ServerUnreachable [] [])"
| "address_with_version version (a # as) =
     bindE (getitem a ''version'') (\<lambda>v.
       if v = version then getitem a ''addr'' else address_with_version version as)"

definition remote_address :: "string \<Rightarrow> py \<Rightarrow> py \<Rightarrow> pyexc + py" where
  "remote_address network version server =
     (case server of
        PStr s \<Rightarrow> Inr server
      | _ \<Rightarrow>
          bindE (getitem server ''addresses'') (\<lambda>as. bindE (getitem as network) (\<lambda>l.
          bindE (py_iter l) (address_with_version version))))"

text \<open>\<open>str.split()\<close>: the words between runs of blanks.\<close>

function py_words :: "string \<Rightarrow> string list" where
  "py_words s =
     (case dropWhile is_space s of
        [] \<Rightarrow> []
      | c # cs \<Rightarrow> (c # takeWhile (\<lambda>x. \<not> is_space x) cs) # py_words (dropWhile (\<lambda>x. \<not> is_space x) cs))"
  by auto
termination
proof (relation "measure length")
  fix s :: string and c cs
  assume *: "dropWhile is_space s = c # cs"
  have "length (dropWhile (\<lambda>x. \<not> is_space x) cs) \<le> length cs" by (rule length_dropWhile_le)
  also have "\<dots> < length (dropWhile is_space s)" by (simp add: *)
  also have "\<dots> \<le> length s" by (rule length_dropWhile_le)
  finally show "(dropWhile (\<lambda>x. \<not> is_space x) cs, s) \<in> measure length" by simp
qed simp

declare py_words.simps [simp del]

text \<open>\<open>exec_command\<close> adds the prologue of the configuration. \<open>run\<close> is the SSH client's.\<close>

definition rc_exec :: "string \<Rightarrow> (string \<Rightarrow> ('w, string) io) \<Rightarrow> string \<Rightarrow> ('w, string) io" where
  "rc_exec prologue run cmd = run (prologue @ '' '' @ cmd)"

definition hostname_equals_servername :: "(string \<Rightarrow> ('w, string) io) \<Rightarrow> string \<Rightarrow> ('w, bool) io" where
  "hostname_equals_servername exec expected =
     bnd (exec ''hostname'') (\<lambda>out. ret (expected = rev (dropWhile is_space (rev out))))"

definition get_ram_size_in_mb :: "(string \<Rightarrow> ('w, string) io) \<Rightarrow> ('w, string option) io" where
  "get_ram_size_in_mb exec =
     bnd (exec ''free -m | grep Mem'') (\<lambda>out.
       if out = [] then ret None
       else (case py_words out of a # b # rest \<Rightarrow> ret (Some b) | _ \<Rightarrow> throw IndexErr))"

definition int_or_error :: "string \<Rightarrow> pyexc + int" where
  "int_or_error s = (case int_of_str s of None \<Rightarrow> Inl ValueErr | Some i \<Rightarrow> Inr i)"

definition get_number_of_vcpus :: "(string \<Rightarrow> ('w, string) io) \<Rightarrow> ('w, int) io" where
  "get_number_of_vcpus exec = bnd (exec ''grep -c processor /proc/cpuinfo'') (\<lambda>out. lift (int_or_error out))"

definition get_partitions :: "(string \<Rightarrow> ('w, string) io) \<Rightarrow> ('w, string) io" where
  "get_partitions exec = exec ''cat /proc/partitions''"

text \<open>The time of the boot in microseconds; \<open>time.localtime\<close> of it is what the code returns.\<close>

definition get_boot_time ::
    "(string \<Rightarrow> (('r, 'x) world_scheme, string) io) \<Rightarrow> (('r, 'x) world_scheme, int) io" where
  "get_boot_time exec =
     bnd (exec ''cut -f1 -d. /proc/uptime'') (\<lambda>out.
     bnd (gets now) (\<lambda>t. lift (bindE (int_or_error out) (\<lambda>secs. Inr (t - secs * 1000000)))))"

text \<open>A dollar or a back quote gets two backslashes in front; a backslash does not.\<close>

definition console_text :: "string \<Rightarrow> string" where
  "console_text message =
     concat (map (\<lambda>c. if c = CHR ''$'' \<or> c = CHR 0x60 then [CHR 0x5C, CHR 0x5C, c] else [c]) message)"

definition write_to_console :: "(string \<Rightarrow> ('w, string) io) \<Rightarrow> string \<Rightarrow> ('w, string) io" where
  "write_to_console exec message =
     exec (''sudo sh -c \"echo '' @ [CHR 0x5C] @ ''\"'' @ console_text message @ [CHR 0x5C] @ ''\" >/dev/console\"'')"

definition ping_host ::
    "(string \<Rightarrow> ('w, string) io) \<Rightarrow> (string \<Rightarrow> pyexc + int) \<Rightarrow> string \<Rightarrow> int \<Rightarrow> int \<Rightarrow> ('w, string) io" where
  "ping_host exec ip_version host count1 size1 =
     bnd (lift (ip_version host)) (\<lambda>v.
       exec ((if v = 6 then ''ping6'' else ''ping'') @ '' -c'' @ int_str count1 @ '' -w'' @ int_str count1
             @ '' -s'' @ int_str size1 @ '' '' @ host))"

definition get_mac_address :: "(string \<Rightarrow> ('w, string) io) \<Rightarrow> ('w, string) io" where
  "get_mac_address exec = exec (''ip addr | awk '' @ [CHR 0x27] @ ''/ether/ {print $2}'' @ [CHR 0x27])"

text \<open>\<open>nic.strip().strip(':').lower()\<close>.\<close>

definition strip_char :: "char \<Rightarrow> string \<Rightarrow> string" where
  "strip_char c s = rev (dropWhile ((=) c) (rev (dropWhile ((=) c) s)))"

definition get_nic_name :: "(string \<Rightarrow> ('w, string) io) \<Rightarrow> string \<Rightarrow> ('w, string) io" where
  "get_nic_name exec address =
     bnd (exec (''ip -o addr | awk '' @ [CHR 0x27] @ ''/'' @ address @ ''/ {print $2}'' @ [CHR 0x27])) (\<lambda>nic.
       ret (str_lower (strip_char CHR '':'' (str_strip nic))))"

definition get_ip_list :: "(string \<Rightarrow> ('w, string) io) \<Rightarrow> ('w, string) io" where
  "get_ip_list exec = exec ''ip address''"

definition assign_static_ip :: "(string \<Rightarrow> ('w, string) io) \<Rightarrow> int \<Rightarrow> string \<Rightarrow> string \<Rightarrow> ('w, string) io" where
  "assign_static_ip exec mask_bits nic addr =
     exec (''sudo ip addr add '' @ addr @ ''/'' @ int_str mask_bits @ '' dev '' @ nic)"

definition turn_nic_on :: "(string \<Rightarrow> ('w, string) io) \<Rightarrow> string \<Rightarrow> ('w, string) io" where
  "turn_nic_on exec nic = exec (''sudo ip link set '' @ nic @ '' up'')"

definition get_pids :: "(string \<Rightarrow> ('w, string) io) \<Rightarrow> string \<Rightarrow> ('w, string list) io" where
  "get_pids exec pr_name =
     bnd (exec (''ps -ef | grep '' @ pr_name @ '' | grep -v '' @ [CHR 0x27] @ ''grep'' @ [CHR 0x27]
                @ '' | awk {'' @ [CHR 0x27] @ ''print $1'' @ [CHR 0x27] @ ''}''))
       (\<lambda>out. ret (str_split CHR 0x0A out))"

text \<open>The second word of the lines that start with \<open>nameserver\<close>.\<close>

definition dns_entry :: "string list \<Rightarrow> pyexc + string list" where
  "dns_entry l =
     (case l of
        [] \<Rightarrow> Inr []
      | w # ws \<Rightarrow> if w = ''nameserver'' then (case ws of [] \<Rightarrow> Inl IndexErr | s # rest \<Rightarrow> Inr [s]) else Inr [])"

definition dns_servers_of :: "string \<Rightarrow> pyexc + string list" where
  "dns_servers_of out =
     bindE (mapE dns_entry (map py_words (str_split CHR 0x0A (str_strip out)))) (\<lambda>ls. Inr (concat ls))"

definition get_dns_servers :: "(string \<Rightarrow> ('w, string) io) \<Rightarrow> ('w, string list) io" where
  "get_dns_servers exec = bnd (exec ''cat /etc/resolv.conf'') (\<lambda>out. lift (dns_servers_of out))"

definition send_signal :: "(string \<Rightarrow> ('w, string) io) \<Rightarrow> string \<Rightarrow> string \<Rightarrow> ('w, string) io" where
  "send_signal exec pid signum = exec (''sudo /bin/kill -'' @ signum @ '' '' @ pid)"

definition renew_lease_udhcpc :: "(string \<Rightarrow> ('w, string) io) \<Rightarrow> string \<Rightarrow> ('w, unit) io" where
  "renew_lease_udhcpc exec fixed_ip =
     bnd (get_nic_name exec fixed_ip) (\<lambda>nic.
     bnd (exec (''cat /var/run/udhcpc.'' @ nic @ ''.pid'')) (\<lambda>pid.
     bnd (send_signal exec (str_strip pid) ''USR1'') (\<lambda>_. ret ())))"

definition renew_lease_dhclient :: "(string \<Rightarrow> ('w, string) io) \<Rightarrow> ('w, unit) io" where
  "renew_lease_dhclient exec =
     bnd (exec ''sudo /sbin/dhclient -r && sudo /sbin/dhclient'') (\<lambda>_. ret ())"

definition renew_lease :: "(string \<Rightarrow> ('w, string) io) \<Rightarrow> string \<Rightarrow> string option \<Rightarrow> ('w, unit) io" where
  "renew_lease exec dhcp_client fixed_ip =
     (if dhcp_client \<noteq> ''udhcpc'' \<and> dhcp_client \<noteq> ''dhclient''
      then throw (Auto InvalidConfiguration [PStr (dhcp_client @ '' DHCP client unsupported'')] [])
      else if dhcp_client = ''udhcpc'' then
        (case fixed_ip of
           None \<Rightarrow> throw ValueErr
         | Some ip \<Rightarrow> if ip = [] then throw ValueErr else renew_lease_udhcpc exec ip)
      else renew_lease_dhclient exec)"

end
