(* ===== verification/RemoteProps.thy ===== *)
theory RemoteProps
  imports RemoteAccess Demo
begin

text \<open>
  The properties of remote commands: connecting ends, reading the output ends, and which output is
  returned.
\<close>

section \<open>Connecting\<close>

definition connect_inv :: "(('r, 'x) world_scheme, 'c option) io \<Rightarrow> int \<times> nat \<Rightarrow> ('r, 'x) world_scheme \<Rightarrow> bool" where
  "connect_inv connect s w = (time_mono connect \<and> 0 \<le> fst s)"

lemma connect_round_again:
  assumes "connect_round c connect 1000000 t0 s w = (Inr (Inl s'), w')"
  obtains w1 where "connect w = (Inr None, w1)" "now w1 - t0 \<le> sh_timeout c * 1000000"
    "fst s' = fst s + 1000000" "now w' = now w1 + fst s'"
  using assms
  by (cases s) (auto simp: connect_round_def bnd_def pause_def ssh_timed_out_def
      split: prod.splits sum.splits option.splits if_splits)

interpretation ssh_connect: bounded_loop "connect_round c connect 1000000 t0" "connect_inv connect"
    "\<lambda>_ w. nat (t0 + sh_timeout c * 1000000 + 1 - now w)" for c connect t0
proof
  fix s s' w w'
  assume inv: "connect_inv connect s w"
    and again: "connect_round c connect 1000000 t0 s w = (Inr (Inl s'), w')"
  obtain w1 where w1: "connect w = (Inr None, w1)" "now w1 - t0 \<le> sh_timeout c * 1000000"
      "fst s' = fst s + 1000000" "now w' = now w1 + fst s'"
    using again by (rule connect_round_again)
  have "now w \<le> now w1" using inv w1(1) by (auto simp: connect_inv_def dest: time_monoD)
  then show "nat (t0 + sh_timeout c * 1000000 + 1 - now w') < nat (t0 + sh_timeout c * 1000000 + 1 - now w)"
    using inv w1 by (simp add: connect_inv_def)
  show "connect_inv connect s' w'" using inv w1(3) by (simp add: connect_inv_def)
qed

lemma connect_round_exit:
  assumes "connect_round c connect 1000000 t0 s w = (r, w')"
  shows "r = Inr (Inr x) \<Longrightarrow> connect w = (Inr (Some x), w')"
    and "r = Inl e \<Longrightarrow> connect w = (Inl e, w')
       \<or> connect w = (Inr None, w') \<and> sh_timeout c * 1000000 < now w' - t0
         \<and> (\<exists>kw. e = Auto SSHTimeout [] kw)"
  using assms
  by (cases s; auto simp: connect_round_def bnd_def pause_def ssh_timed_out_def
      split: prod.splits sum.splits option.splits if_splits)+

text \<open>
  C15 (ssh_connect_ends): connecting over SSH always ends, when the attempts do not turn back the clock. It ends
  with the connection of an attempt, with an exception that the client does not retry, or with
  \<open>SSHTimeout\<close>, after an attempt that failed when more than the timeout had passed.
\<close>

theorem ssh_connect_ends:
  assumes "time_mono connect"
  shows "\<exists>r w1 w'. get_ssh_connection c connect w = Some (r, w')
     \<and> (case r of
          Inr x \<Rightarrow> connect w1 = (Inr (Some x), w')
        | Inl e \<Rightarrow> connect w1 = (Inl e, w')
            \<or> connect w1 = (Inr None, w') \<and> sh_timeout c * 1000000 < now w' - now w
              \<and> (\<exists>kw. e = Auto SSHTimeout [] kw))"
proof -
  let ?round = "connect_round c connect 1000000 (now w)"
  have "connect_inv connect (1500000, 0) w" using assms by (simp add: connect_inv_def)
  from ssh_connect.exit_round [OF this] obtain s1 w1 r w' where
      run: "loop_io ?round (1500000, 0) w = Some (r, w')"
    and exit: "?round s1 w1 = (Inl (projl r), w') \<and> isl r \<or> ?round s1 w1 = (Inr (Inr (projr r)), w') \<and> \<not> isl r"
    by blast
  have "case r of
          Inr x \<Rightarrow> connect w1 = (Inr (Some x), w')
        | Inl e \<Rightarrow> connect w1 = (Inl e, w')
            \<or> connect w1 = (Inr None, w') \<and> sh_timeout c * 1000000 < now w' - now w
              \<and> (\<exists>kw. e = Auto SSHTimeout [] kw)"
  proof (cases r)
    case (Inl e)
    with exit have "?round s1 w1 = (Inl e, w')" by auto
    from connect_round_exit(2) [OF this refl] Inl show ?thesis by simp
  next
    case (Inr x)
    with exit have "?round s1 w1 = (Inr (Inr x), w')" by auto
    from connect_round_exit(1) [OF this refl] Inr show ?thesis by simp
  qed
  with run show ?thesis unfolding get_ssh_connection_def by blast
qed

section \<open>The output of a command\<close>

text \<open>
  What the documentation of \<open>paramiko\<close> says of a channel. \<open>ro\<close> and \<open>re\<close> are what the command has written, or still
  writes, and is not read; \<open>shut\<close> tells whether the channel is closed. A read gives the next piece, or nothing when
  none has arrived yet; once the channel is closed everything has arrived, and a read finds nothing only at the
  end. A closed channel stays closed, and it is closed by the time \<open>closing\<close>. A poll takes time.
\<close>

definition quiet :: "(('r, 'x) world_scheme \<Rightarrow> string) \<Rightarrow> (('r, 'x) world_scheme, 'a) io \<Rightarrow> bool" where
  "quiet rest m = (\<forall>w. rest (snd (m w)) = rest w)"

definition stays :: "(('r, 'x) world_scheme \<Rightarrow> bool) \<Rightarrow> (('r, 'x) world_scheme, 'a) io \<Rightarrow> bool" where
  "stays shut m = (\<forall>w. shut w \<longrightarrow> shut (snd (m w)))"

definition reads ::
    "(('r, 'x) world_scheme \<Rightarrow> string) \<Rightarrow> (('r, 'x) world_scheme \<Rightarrow> bool) \<Rightarrow> (('r, 'x) world_scheme, string option) io
     \<Rightarrow> bool" where
  "reads rest shut m =
     (\<forall>w. \<exists>c w'. m w = (Inr c, w') \<and> rest w = chunk_of c @ rest w' \<and> now w \<le> now w'
        \<and> (shut w \<and> chunk_of c = [] \<longrightarrow> rest w' = []))"

definition delivers ::
    "(('r, 'x) world_scheme) channel \<Rightarrow> (('r, 'x) world_scheme \<Rightarrow> string) \<Rightarrow> (('r, 'x) world_scheme \<Rightarrow> string)
     \<Rightarrow> (('r, 'x) world_scheme \<Rightarrow> bool) \<Rightarrow> int \<Rightarrow> bool" where
  "delivers ch ro re shut closing =
     ((\<forall>w. \<exists>b w'. ch_poll ch w = (Inr b, w') \<and> now w < now w')
      \<and> quiet ro (ch_poll ch) \<and> quiet re (ch_poll ch) \<and> stays shut (ch_poll ch)
      \<and> reads ro shut (ch_recv ch) \<and> quiet re (ch_recv ch) \<and> stays shut (ch_recv ch)
      \<and> reads re shut (ch_recv_stderr ch) \<and> quiet ro (ch_recv_stderr ch) \<and> stays shut (ch_recv_stderr ch)
      \<and> (\<forall>w. \<exists>w'. ch_closed ch w = (Inr (shut w'), w') \<and> now w \<le> now w')
      \<and> quiet ro (ch_closed ch) \<and> quiet re (ch_closed ch) \<and> stays shut (ch_closed ch)
      \<and> (\<forall>w. closing \<le> now w \<longrightarrow> shut w))"

text \<open>The last look at a channel: both reads find nothing, then the channel is seen to be closed.\<close>

definition last_look ::
    "(('r, 'x) world_scheme) channel \<Rightarrow> ('r, 'x) world_scheme \<Rightarrow> ('r, 'x) world_scheme \<Rightarrow> bool" where
  "last_look ch v w' =
     (\<exists>oc v1 ec v2. ch_recv ch v = (Inr oc, v1) \<and> ch_recv_stderr ch v1 = (Inr ec, v2) \<and> ch_closed ch v2 = (Inr True, w')
        \<and> chunk_of oc = [] \<and> chunk_of ec = [])"

lemma staysD: "stays shut m \<Longrightarrow> m w = (r, w') \<Longrightarrow> shut w \<Longrightarrow> shut w'"
  by (metis stays_def snd_conv)

lemma quietD: "quiet rest m \<Longrightarrow> m w = (r, w') \<Longrightarrow> rest w' = rest w"
  by (metis quiet_def snd_conv)

lemma concat_kept: "concat (xs @ kept c) = concat xs @ chunk_of c"
  by (cases c) (simp_all add: kept_def chunk_of_def)

text \<open>
  One round: nothing is ready; or a piece of each stream is read, and the round is the last one when there is nothing
  in both pieces and the channel is closed.
\<close>

lemma exec_round_cases:
  assumes "delivers ch ro re shut closing"
  obtains w' where "now w < now w'" "ro w' = ro w" "re w' = re w" "shut w \<longrightarrow> shut w'"
      "exec_round c ch cmd t0 (out, err) w = (if ssh_timed_out c t0 (now w')
         then (Inl (Auto TimeoutException
                  [PStr (''Command: '' @ [CHR 0x27] @ cmd @ [CHR 0x27] @ '' executed on host '' @ [CHR 0x27]
                         @ sh_host c @ [CHR 0x27] @ ''.'')] []), w')
         else (Inr (Inl (out, err)), w'))"
  | oc ec v w' where "now w < now w'" "ro w = chunk_of oc @ ro w'" "re w = chunk_of ec @ re w'"
      "shut w \<longrightarrow> shut v" "shut v \<longrightarrow> shut w'"
      "shut v \<and> chunk_of oc = [] \<longrightarrow> ro w' = []" "shut v \<and> chunk_of ec = [] \<longrightarrow> re w' = []"
      "shut w' \<and> chunk_of ec = [] \<and> chunk_of oc = [] \<longrightarrow> last_look ch v w'"
      "exec_round c ch cmd t0 (out, err) w
         = (if shut w' \<and> chunk_of ec = [] \<and> chunk_of oc = [] then (Inr (Inr (out @ kept oc, err @ kept ec)), w')
            else (Inr (Inl (out @ kept oc, err @ kept ec)), w'))"
proof -
  note laws = assms [unfolded delivers_def]
  obtain b w1 where poll: "ch_poll ch w = (Inr b, w1)" "now w < now w1"
    using laws by blast
  have p: "ro w1 = ro w" "re w1 = re w" "shut w \<longrightarrow> shut w1"
    using laws poll(1) by (blast dest: quietD staysD)+
  show thesis
  proof (cases b)
    case False
    with poll p show thesis by (intro that(1) [of w1]) (simp_all add: exec_round_def bnd_def)
  next
    case True
    obtain oc w2 where o: "ch_recv ch w1 = (Inr oc, w2)" "ro w1 = chunk_of oc @ ro w2" "now w1 \<le> now w2"
        "shut w1 \<and> chunk_of oc = [] \<longrightarrow> ro w2 = []"
      using laws unfolding reads_def by blast
    obtain ec w3 where e: "ch_recv_stderr ch w2 = (Inr ec, w3)" "re w2 = chunk_of ec @ re w3" "now w2 \<le> now w3"
        "shut w2 \<and> chunk_of ec = [] \<longrightarrow> re w3 = []"
      using laws unfolding reads_def by blast
    obtain w4 where cl: "ch_closed ch w3 = (Inr (shut w4), w4)" "now w3 \<le> now w4" using laws by blast
    have same: "re w2 = re w1" "ro w3 = ro w2" "ro w4 = ro w3" "re w4 = re w3"
      and shut: "shut w1 \<longrightarrow> shut w2" "shut w2 \<longrightarrow> shut w3" "shut w3 \<longrightarrow> shut w4"
      using laws o(1) e(1) cl(1) by (blast dest: quietD staysD)+
    have look: "shut w4 \<and> chunk_of ec = [] \<and> chunk_of oc = [] \<longrightarrow> last_look ch w1 w4"
      using o(1) e(1) cl(1) unfolding last_look_def by auto
    have round: "exec_round c ch cmd t0 (out, err) w
         = (if shut w4 \<and> chunk_of ec = [] \<and> chunk_of oc = [] then (Inr (Inr (out @ kept oc, err @ kept ec)), w4)
            else (Inr (Inl (out @ kept oc, err @ kept ec)), w4))"
      using True poll(1) o(1) e(1) cl(1) by (simp add: exec_round_def bnd_def Let_def)
    show thesis
      by (rule that(2) [OF _ _ _ _ _ _ _ look round]) (use poll(2) p o e cl(2) same shut in auto)
  qed
qed

text \<open>
  C16 (exec_output_complete): reading the output of a command always ends, at the latest when the channel is closed
  and everything is read: with \<open>TimeoutException\<close>, after the timeout, or normally. In the second case nothing read is
  lost or out of order, and the end was not taken too early: the channel is closed and the last reads found nothing.
  Of what the command wrote nothing is then unread, unless the channel was closed only after these last reads had begun;
  in particular everything is returned when the channel is closed from the start.
\<close>

theorem exec_output_complete:
  fixes w :: "('r, 'x) world_scheme"
  assumes "delivers ch ro re shut closing"
  shows "\<exists>r w'. exec_output c ch True cmd w = Some (r, w')
     \<and> (case r of
          Inr (out, err) \<Rightarrow> ro w = out @ ro w' \<and> re w = err @ re w'
            \<and> (\<exists>v. last_look ch v w' \<and> (shut v \<longrightarrow> ro w' = [] \<and> re w' = []) \<and> (shut w \<longrightarrow> shut v)) \<and> shut w'
        | Inl e \<Rightarrow> (\<exists>m. e = Auto TimeoutException [PStr m] []) \<and> sh_timeout c * 1000000 < now w' - now w)"
proof -
  let ?round = "exec_round c ch cmd (now w)"
  define inv where "inv = (\<lambda>s (w1 :: ('r, 'x) world_scheme).
    concat (fst s) @ ro w1 = ro w \<and> concat (snd s) @ re w1 = re w \<and> (shut w \<longrightarrow> shut w1))"
  define left where "left = (\<lambda>w1 :: ('r, 'x) world_scheme. length (ro w1) + length (re w1)
    + nat (now w + sh_timeout c * 1000000 + 1 - now w1) + nat (closing - now w1))"
  have late: "closing \<le> now w1 \<longrightarrow> shut w1" for w1 using assms unfolding delivers_def by blast
  have "bounded_loop ?round inv (\<lambda>_. left)"
  proof
    fix s w1 s' w2
    assume i: "inv s w1" and go: "?round s w1 = (Inr (Inl s'), w2)"
    obtain out err where s: "s = (out, err)" by fastforce
    from assms have "inv s' w2 \<and> left w2 < left w1"
    proof (cases rule: exec_round_cases [of _ _ _ _ _ w1 c cmd "now w" out err])
      case (1 w')
      with go i show ?thesis by (auto simp: s inv_def left_def ssh_timed_out_def split: if_splits)
    next
      case (2 oc ec v w')
      have s': "s' = (out @ kept oc, err @ kept ec)" "w2 = w'"
        and more: "\<not> (shut w' \<and> chunk_of ec = [] \<and> chunk_of oc = [])"
        using go 2(9) by (auto simp: s split: if_splits)
      have lengths: "length (ro w1) = length (chunk_of oc) + length (ro w')"
          "length (re w1) = length (chunk_of ec) + length (re w')"
          "nat (now w + sh_timeout c * 1000000 + 1 - now w') \<le> nat (now w + sh_timeout c * 1000000 + 1 - now w1)"
          "nat (closing - now w') \<le> nat (closing - now w1)"
        using 2(1-3) by simp_all
      have "left w' < left w1"
      proof (cases "chunk_of oc = [] \<and> chunk_of ec = []")
        case True
        then have "now w' < closing" using more late [of w'] by linarith
        with 2(1) have "nat (closing - now w') < nat (closing - now w1)" by simp
        with lengths show ?thesis unfolding left_def by linarith
      next
        case False
        then have "0 < length (chunk_of oc) + length (chunk_of ec)" by (cases "chunk_of oc") simp_all
        with lengths show ?thesis unfolding left_def by linarith
      qed
      moreover have "inv (out @ kept oc, err @ kept ec) w'"
        using 2(2-5) i by (simp add: inv_def s concat_kept del: concat_append)
      ultimately show ?thesis by (simp add: s')
    qed
    then show "inv s' w2" "left w2 < left w1" by blast+
  qed
  note loop = bounded_loop.exit_round [OF this]
  have "inv ([], []) w" by (simp add: inv_def)
  from loop [OF this] obtain s1 w1 r w' where i: "inv s1 w1" and run: "loop_io ?round ([], []) w = Some (r, w')"
    and exit: "?round s1 w1 = (Inl (projl r), w') \<and> isl r \<or> ?round s1 w1 = (Inr (Inr (projr r)), w') \<and> \<not> isl r"
    by blast
  obtain out err where s: "s1 = (out, err)" by fastforce
  from assms have "case r of
          Inr (o1, e1) \<Rightarrow> ro w = concat o1 @ ro w' \<and> re w = concat e1 @ re w'
            \<and> (\<exists>v. last_look ch v w' \<and> (shut v \<longrightarrow> ro w' = [] \<and> re w' = []) \<and> (shut w \<longrightarrow> shut v)) \<and> shut w'
        | Inl e \<Rightarrow> (\<exists>m. e = Auto TimeoutException [PStr m] []) \<and> sh_timeout c * 1000000 < now w' - now w"
  proof (cases rule: exec_round_cases [of _ _ _ _ _ w1 c cmd "now w" out err])
    case (1 w2)
    with exit show ?thesis by (cases r) (auto simp: s ssh_timed_out_def split: if_splits)
  next
    case (2 oc ec v w2)
    then obtain r1: "r = Inr (out @ kept oc, err @ kept ec)" and w2: "w' = w2"
      and over: "shut w2" "chunk_of ec = []" "chunk_of oc = []"
      using exit by (cases r) (auto simp: s split: if_splits)
    have "concat (out @ kept oc) @ ro w2 = ro w" "concat (err @ kept ec) @ re w2 = re w" "shut w \<longrightarrow> shut w1"
      using i 2(2,3) by (simp_all add: inv_def s concat_kept del: concat_append)
    with 2(4-8) over show ?thesis unfolding r1 w2 by (auto simp del: concat_append)
  qed
  then show ?thesis using run by (auto simp: exec_output_def split: sum.splits prod.splits)
qed

text \<open>
  The last reads and the question whether the channel is closed are separate steps. Output that arrives between them,
  just before the channel is closed, is lost: nothing had arrived when it was looked for.
\<close>

definition late_channel :: "(string world) channel" where
  "late_channel =
     \<lparr>ch_run = (\<lambda>cmd. ret 0), ch_poll = (\<lambda>w. (Inr True, w\<lparr>now := now w + 1\<rparr>)),
      ch_recv = (\<lambda>w. if now w < 2 then (Inr None, w) else (Inr (Some (remote w)), w\<lparr>remote := []\<rparr>)),
      ch_recv_stderr = ret None, ch_closed = (\<lambda>w. (Inr True, w\<lparr>now := max 2 (now w)\<rparr>)), ch_files = ret ([], [])\<rparr>"

lemma late_delivers: "delivers late_channel remote (\<lambda>w. []) (\<lambda>w. 2 \<le> now w) 2"
  by (auto simp: delivers_def late_channel_def quiet_def stays_def reads_def chunk_of_def ret_def)

theorem late_output_lost:
  "exec_output c late_channel True cmd \<lparr>now = 0, remote = ''output'', sent = [], naps = []\<rparr>
     = Some (Inr ([], []), \<lparr>now = 2, remote = ''output'', sent = [], naps = []\<rparr>)"
  by (simp add: exec_output_def loop_io.simps exec_round_def bnd_def late_channel_def chunk_of_def kept_def Let_def)

text \<open>A backslash in a message for the console is not escaped, unlike a dollar and a back quote.\<close>

lemma console_backslash: "console_text [CHR 0x5C] = [CHR 0x5C]" "length (console_text ''$'') = 3"
  by (simp_all add: console_text_def)

section \<open>Witnesses\<close>

definition toy_ssh :: ssh_client where
  "toy_ssh = \<lparr>sh_host = ''10.0.0.1'', sh_username = ''cirros'', sh_password = PNone, sh_timeout = 300\<rparr>"

definition slow_connect :: "(('r, 'x) world_scheme, string option) io" where
  "slow_connect = gets (\<lambda>w. if now w < 1433150005000000 then None else Some ''connection'')"

theorem ssh_connect_ends_witness:
  "\<exists>r w1 w'. get_ssh_connection toy_ssh slow_connect (demo_world [] demo_provider) = Some (r, w')
     \<and> (case r of
          Inr x \<Rightarrow> slow_connect w1 = (Inr (Some x), w')
        | Inl e \<Rightarrow> slow_connect w1 = (Inl e, w')
            \<or> slow_connect w1 = (Inr None, w') \<and> sh_timeout toy_ssh * 1000000 < now w' - now (demo_world [] demo_provider)
              \<and> (\<exists>kw. e = Auto SSHTimeout [] kw))"
  by (rule ssh_connect_ends) (simp add: slow_connect_def mono_intros)

text \<open>
  A channel that gives two characters at a time: the output from the third poll on, the errors when it is closed, that
  is from the seventh poll on.
\<close>

definition toy_read ::
    "int \<Rightarrow> (string \<times> string \<Rightarrow> string) \<Rightarrow> (string \<Rightarrow> string \<times> string \<Rightarrow> string \<times> string)
     \<Rightarrow> ((string \<times> string) world, string option) io" where
  "toy_read t0 rd wr w =
     (if now w < t0 \<or> rd (remote w) = [] then (Inr None, w)
      else (Inr (Some (take 2 (rd (remote w)))), w\<lparr>remote := wr (drop 2 (rd (remote w))) (remote w)\<rparr>))"

definition toy_channel :: "((string \<times> string) world) channel" where
  "toy_channel =
     \<lparr>ch_run = (\<lambda>cmd. ret 0), ch_poll = (\<lambda>w. (Inr True, w\<lparr>now := now w + 1\<rparr>)),
      ch_recv = toy_read 3 fst (\<lambda>x (a, b). (x, b)), ch_recv_stderr = toy_read 7 snd (\<lambda>x (a, b). (a, x)),
      ch_closed = (\<lambda>w. (Inr (7 \<le> now w), w)), ch_files = ret ([], [])\<rparr>"

lemma toy_delivers:
  "delivers toy_channel (\<lambda>w. fst (remote w)) (\<lambda>w. snd (remote w)) (\<lambda>w. 7 \<le> now w) 7"
  by (auto simp: delivers_def toy_channel_def quiet_def stays_def reads_def toy_read_def chunk_of_def split: prod.splits)

definition toy_stream :: "int \<Rightarrow> (string \<times> string) world" where
  "toy_stream t = \<lparr>now = t, remote = (''some output'', ''!''), sent = [], naps = []\<rparr>"

lemma toy_stream_sel: "fst (remote (toy_stream t)) = ''some output''" "snd (remote (toy_stream t)) = ''!''" "now (toy_stream t) = t"
  by (simp_all add: toy_stream_def)

theorem exec_output_complete_witness:
  "(\<exists>r w'. exec_output toy_ssh toy_channel True ''ls'' (toy_stream 0) = Some (r, w')
       \<and> (\<forall>out err. r = Inr (out, err) \<longrightarrow> ''some output'' = out @ fst (remote w') \<and> 7 \<le> now w'))
   \<and> (\<exists>r w'. exec_output toy_ssh toy_channel True ''ls'' (toy_stream 7) = Some (r, w')
       \<and> (\<forall>out err. r = Inr (out, err) \<longrightarrow> out = ''some output'' \<and> err = ''!''))"
proof -
  obtain r w' where first: "exec_output toy_ssh toy_channel True ''ls'' (toy_stream 0) = Some (r, w')"
    "\<forall>out err. r = Inr (out, err) \<longrightarrow> ''some output'' = out @ fst (remote w') \<and> 7 \<le> now w'"
    using exec_output_complete [OF toy_delivers, of toy_ssh "''ls''" "toy_stream 0"]
    by (fastforce simp: toy_stream_sel)
  obtain q v' where second: "exec_output toy_ssh toy_channel True ''ls'' (toy_stream 7) = Some (q, v')"
    "\<forall>out err. q = Inr (out, err) \<longrightarrow> out = ''some output'' \<and> err = ''!''"
    using exec_output_complete [OF toy_delivers, of toy_ssh "''ls''" "toy_stream 7"]
    by (fastforce simp: toy_stream_sel)
  from first second show ?thesis by blast
qed

end
