(* ===== verification/TestSupport.thy ===== *)
theory TestSupport
  imports Accounts RestClient "HOL-Library.List_Lexorder" "HOL-Library.Char_ord"
begin

text \<open>
  Support for the test cases: the matchers of \<open>automation/common/custom_matchers.py\<close>, the search for the
  name of the running test in \<open>automation/common/utils/misc.py\<close>, and the choice of a provider of credentials
  in \<open>automation/common/credentials.py\<close>.
\<close>

section \<open>Response headers\<close>

text \<open>\<open>ExistsAllResponseHeaders.match\<close>: the checks in the order of the code; the first missing header.\<close>

fun first_missing :: "string list \<Rightarrow> (string, 'v) dict \<Rightarrow> string option" where
  "first_missing [] actual = None"
| "first_missing (h # hs) actual = (if dhas actual h then first_missing hs actual else Some h)"

definition common_headers :: "string list" where
  "common_headers = [''content-length'', ''content-type'', ''x-trans-id'', ''date'']"

definition get_headers_of :: "string \<Rightarrow> string list" where
  "get_headers_of target =
     [''x-timestamp'', ''accept-ranges'']
     @ (if target = ''Account''
        then [''x-account-bytes-used'', ''x-account-container-count'', ''x-account-object-count'']
        else if target = ''Container'' then [''x-container-bytes-used'', ''x-container-object-count'']
        else if target = ''Object'' then [''etag'', ''last-modified''] else [])"

definition checked_headers :: "string \<Rightarrow> string \<Rightarrow> string list" where
  "checked_headers target method =
     common_headers
     @ (if method = ''GET'' \<or> method = ''HEAD'' then get_headers_of target
        else if method = ''PUT'' then (if target = ''Object'' then [''etag'', ''last-modified''] else [])
        else if method = ''COPY'' then
          (if target = ''Object''
           then [''etag'', ''last-modified'', ''x-copied-from'', ''x-copied-from-last-modified''] else [])
        else [])"

definition exists_all_response_headers :: "string \<Rightarrow> string \<Rightarrow> (string, 'v) dict \<Rightarrow> string option" where
  "exists_all_response_headers target method actual = first_missing (checked_headers target method) actual"

definition nonexistent_header_text :: "string \<Rightarrow> string" where
  "nonexistent_header_text h = h @ '' header does not exist''"

text \<open>\<open>AreAllWellFormatted.match\<close>, with its regular expressions written out.\<close>

definition is_alnum :: "char \<Rightarrow> bool" where
  "is_alnum c = (is_digit c \<or> c \<in> {CHR ''a'' .. CHR ''z''} \<or> c \<in> {CHR ''A'' .. CHR ''Z''})"

definition timestamp_format :: "string \<Rightarrow> bool" where
  "timestamp_format v =
     (let rest = dropWhile is_digit v in
      v \<noteq> [] \<and> is_digit (hd v)
      \<and> list_all is_digit (case rest of [] \<Rightarrow> [] | c # cs \<Rightarrow> if c = CHR ''.'' then cs else c # cs))"

text \<open>\<open>\S+/\S+\<close> at the start: a slash that is not first, with something after it, in the first word.\<close>

definition copied_from_format :: "string \<Rightarrow> bool" where
  "copied_from_format v =
     (let word = takeWhile (\<lambda>c. \<not> is_space c) v in CHR ''/'' \<in> set (butlast (drop 1 word)))"

definition is_hex_char :: "char \<Rightarrow> bool" where
  "is_hex_char c = (is_digit c \<or> c \<in> {CHR ''a'' .. CHR ''f''})"

definition trans_id_format :: "string \<Rightarrow> bool" where
  "trans_id_format v =
     (take 2 v = ''tx'' \<and> length (take 21 (drop 2 v)) = 21 \<and> list_all is_hex_char (take 21 (drop 2 v))
      \<and> take 1 (drop 23 v) = ''-''
      \<and> length (take 10 (drop 24 v)) = 10 \<and> list_all is_hex_char (take 10 (drop 24 v)))"

definition well_formatted :: "string \<Rightarrow> string \<Rightarrow> bool" where
  "well_formatted key v =
     (if key \<in> {''content-length'', ''x-account-bytes-used'', ''x-account-container-count'',
                ''x-account-object-count'', ''x-container-bytes-used'', ''x-container-object-count''}
      then all_digits v
      else if key \<in> {''content-type'', ''date'', ''last-modified'', ''x-copied-from-last-modified''} then v \<noteq> []
      else if key = ''x-timestamp'' then timestamp_format v
      else if key = ''x-copied-from'' then copied_from_format v
      else if key = ''x-trans-id'' then trans_id_format v
      else if key = ''accept-ranges'' then v = ''bytes''
      else if key = ''etag'' then v \<noteq> [] \<and> list_all is_alnum v
      else if key = ''transfer-encoding'' then v = ''chunked''
      else True)"

fun are_all_well_formatted :: "(string, string) dict \<Rightarrow> (string \<times> string) option" where
  "are_all_well_formatted [] = None"
| "are_all_well_formatted ((k, v) # actual) =
     (if \<not> well_formatted k v then Some (k, v) else are_all_well_formatted actual)"

definition invalid_format_text :: "string \<times> string \<Rightarrow> string" where
  "invalid_format_text = (\<lambda>(k, v). ''InvalidFormat ('' @ k @ '', '' @ v @ '')'')"

section \<open>Dictionaries except for some keys\<close>

text \<open>\<open>dict_subtract(a, b)\<close> of testtools: the items of \<open>a\<close> whose key is not in \<open>b\<close>.\<close>

definition dict_subtract :: "(string, 'v) dict \<Rightarrow> string list \<Rightarrow> (string, 'v) dict" where
  "dict_subtract a ks = filter (\<lambda>(k, v). k \<notin> set ks) a"

definition matches_dict_except_for_keys ::
    "(string, py) dict \<Rightarrow> string list \<Rightarrow> (string, py) dict \<Rightarrow> ((string, py) dict \<times> (string, py) dict) option" where
  "matches_dict_except_for_keys expected excluded actual =
     (let e = dict_subtract expected excluded; a = dict_subtract actual excluded
      in if \<not> dict_eq a e then Some (e, a) else None)"

definition format_dict :: "'r env \<Rightarrow> (string, py) dict \<Rightarrow> string" where
  "format_dict env d =
     (let s = ''{'' @ concat (map (\<lambda>k. [CHR 0x27] @ k @ [CHR 0x27] @ '': ''
                 @ (case dget d k of None \<Rightarrow> [] | Some v \<Rightarrow> py_text (e_repr env) v) @ '', '') (sort (dkeys d)))
      in take (length s - 2) s @ ''}'')"

text \<open>The differing keys come in the order of a set, the parameter \<open>order\<close>.\<close>

definition mismatch_text ::
    "'r env \<Rightarrow> (string list \<Rightarrow> string list) \<Rightarrow> (string, py) dict \<times> (string, py) dict \<Rightarrow> string" where
  "mismatch_text env order = (\<lambda>(expected, actual).
     (let only_expected = dict_subtract expected (dkeys actual);
          only_actual = dict_subtract actual (dkeys expected);
          diff_set = filter (\<lambda>k. dhas actual k \<and> dget expected k \<noteq> dget actual k) (dkeys expected);
          shown = (\<lambda>d k. case dget d k of None \<Rightarrow> [] | Some v \<Rightarrow> py_text (e_repr env) v)
      in (if only_expected \<noteq> [] then ''Only in expected:'' @ newline @ ''  '' @ format_dict env only_expected @ newline else [])
         @ (if only_actual \<noteq> [] then ''Only in actual:'' @ newline @ ''  '' @ format_dict env only_actual @ newline else [])
         @ (if diff_set \<noteq> []
            then ''Differences:'' @ newline
                 @ concat (map (\<lambda>k. ''  '' @ k @ '': expected '' @ shown expected k @ '', actual '' @ shown actual k
                                    @ newline) (order diff_set))
            else [])))"

section \<open>The name of the running test\<close>

text \<open>A frame: the function's name, the class of \<open>self\<close> and the name of \<open>cls\<close>, where there are such locals.\<close>

record frame =
  fr_name :: string
  fr_self :: "string option"
  fr_cls :: "string option"

definition frame_class :: "frame \<Rightarrow> string" where
  "frame_class f =
     (case fr_cls f of Some c \<Rightarrow> c | None \<Rightarrow> (case fr_self f of Some s \<Rightarrow> s | None \<Rightarrow> []))"

definition test_method :: "string \<Rightarrow> bool" where
  "test_method name = (starts_with ''test_'' name \<or> starts_with ''setUp'' name \<or> starts_with ''tearDown'' name)"

text \<open>Up the stack; its end is an exception that ends the search.\<close>

fun climb :: "bool \<Rightarrow> frame list \<Rightarrow> string option" where
  "climb is_cleanup [] = None"
| "climb is_cleanup (f # fs) =
     (if test_method (fr_name f) then Some (frame_class f @ '':'' @ fr_name f)
      else if starts_with ''_run_cleanup'' (fr_name f) then climb True fs
      else if fr_name f = ''main'' then Some ''main''
      else if is_cleanup \<and> frame_class f \<noteq> [] \<and> \<not> starts_with ''RunTest'' (frame_class f)
      then Some (frame_class f @ '':_run_cleanups'')
      else climb is_cleanup fs)"

definition find_test_caller :: "frame list \<Rightarrow> string option" where
  "find_test_caller callers = climb False callers"

section \<open>The provider of credentials\<close>

datatype provider_class = IsolatedCredentials | LockingAccounts | PlainAccounts

text \<open>\<open>file\<close> is the accounts file's content, None when it is not configured or does not exist.\<close>

definition provider_for :: "bool \<Rightarrow> bool \<Rightarrow> account list option \<Rightarrow> provider_class" where
  "provider_for allow_tenant_isolation force_tenant_isolation file =
     (if allow_tenant_isolation \<or> force_tenant_isolation then IsolatedCredentials
      else if file \<noteq> None then LockingAccounts else PlainAccounts)"

definition is_admin_available ::
    "'r env \<Rightarrow> conf \<Rightarrow> ((string, py) dict \<Rightarrow> string) \<Rightarrow> bool \<Rightarrow> account list option \<Rightarrow> ('r world, bool) io" where
  "is_admin_available env cf digest allow_tenant_isolation file =
     (if allow_tenant_isolation then ret True
      else if file \<noteq> None then
        lift (bindE (accounts_init cf digest file None (Some ''check_admin'')) (\<lambda>a. Inr (admin_available cf a)))
      else
        catch (bnd (get_configured_credentials env cf ''identity_admin'' False None) (\<lambda>_. ret True))
          (\<lambda>e. if catches InvalidConfiguration e then Some (ret False) else None))"

text \<open>
  \<open>set_accounts\<close> is the object that \<open>NotLockingAccounts\<close> makes of itself: without a file, with empty tables.
\<close>

definition is_alt_available ::
    "'r env \<Rightarrow> conf \<Rightarrow> ((string, py) dict \<Rightarrow> string) \<Rightarrow> bool \<Rightarrow> account list option \<Rightarrow> ('r accounts_world, bool) io" where
  "is_alt_available env cf digest allow_tenant_isolation file =
     (if allow_tenant_isolation then ret True
      else
        bnd (lift (accounts_init cf digest file None (Some ''check_alt''))) (\<lambda>a.
        catch
          (if file \<noteq> None then lift (is_multi_user cf a)
           else bnd (modify (\<lambda>w. w\<lparr>acc := a\<rparr>)) (\<lambda>_. unique_creds env cf ''username''))
          (\<lambda>e. if catches InvalidConfiguration e then Some (ret False) else None)))"

section \<open>Properties\<close>

lemma first_missing_None: "first_missing hs actual = None \<longleftrightarrow> (\<forall>h \<in> set hs. dhas actual h)"
  by (induction hs actual rule: first_missing.induct) auto

lemma dget_subtract: "dget (dict_subtract d ks) k = (if k \<in> set ks then None else dget d k)"
proof (induction d)
  case Nil
  show ?case by (simp add: dict_subtract_def)
next
  case (Cons p d)
  then show ?case by (cases p) (auto simp: dict_subtract_def split: if_splits)
qed

lemma dkeys_subtract: "dkeys (dict_subtract d ks) = filter (\<lambda>k. k \<notin> set ks) (dkeys d)"
  by (induction d) (auto simp: dict_subtract_def dkeys_def)

lemma dict_eq_iff: "dict_eq a b \<longleftrightarrow> (\<forall>k. dget a k = dget b k)"
proof -
  have "dget a k = dget b k" if "k \<notin> set (dkeys a @ dkeys b)" for k
    using that by (simp add: dget_None_iff [THEN iffD2])
  then show ?thesis by (auto simp: dict_eq_def list_all_iff)
qed

text \<open>
  (dict_match_spec): the matcher of dictionaries accepts exactly when all keys but the excluded ones have
  the same value or are missing in both, and what it reports otherwise is never an empty text.
\<close>

theorem dict_match_spec:
  "case matches_dict_except_for_keys expected excluded actual of
     None \<Rightarrow> (\<lambda>k. if k \<in> set excluded then None else dget expected k)
             = (\<lambda>k. if k \<in> set excluded then None else dget actual k)
   | Some m \<Rightarrow> mismatch_text env order m \<noteq> []
       \<and> (\<exists>k. k \<notin> set excluded \<and> dget expected k \<noteq> dget actual k)"
proof -
  let ?e = "dict_subtract expected excluded" and ?a = "dict_subtract actual excluded"
  show ?thesis
  proof (cases "dict_eq ?a ?e")
    case True
    then have "dget ?a = dget ?e" by (auto simp: dict_eq_iff)
    then have "(\<lambda>k. if k \<in> set excluded then None else dget expected k)
             = (\<lambda>k. if k \<in> set excluded then None else dget actual k)"
      by (simp add: fun_eq_iff dget_subtract)
    with True show ?thesis by (simp add: matches_dict_except_for_keys_def)
  next
    case False
    then obtain k where k: "dget ?a k \<noteq> dget ?e k" by (auto simp: dict_eq_iff)
    have "mismatch_text env order (?e, ?a) \<noteq> []"
    proof (cases "dget ?e k = None \<or> dget ?a k = None")
      case True
      then have "k \<in> set (dkeys (dict_subtract ?e (dkeys ?a))) \<or> k \<in> set (dkeys (dict_subtract ?a (dkeys ?e)))"
        using k unfolding dkeys_subtract [of ?e "dkeys ?a"] dkeys_subtract [of ?a "dkeys ?e"] set_filter mem_Collect_eq
        by (metis dget_None_iff)
      then have "dict_subtract ?e (dkeys ?a) \<noteq> [] \<or> dict_subtract ?a (dkeys ?e) \<noteq> []" by auto
      then show ?thesis by (auto simp: mismatch_text_def Let_def)
    next
      case both: False
      then have "k \<in> set (filter (\<lambda>k. dhas ?a k \<and> dget ?e k \<noteq> dget ?a k) (dkeys ?e))"
        using k by (auto simp: dhas_def) (metis dget_None_iff option.distinct(1))
      then have "filter (\<lambda>k. dhas ?a k \<and> dget ?e k \<noteq> dget ?a k) (dkeys ?e) \<noteq> []"
        by (metis filter_empty_conv empty_iff empty_set)
      then show ?thesis by (auto simp: mismatch_text_def Let_def)
    qed
    moreover have "k \<notin> set excluded \<and> dget expected k \<noteq> dget actual k"
      using k by (auto simp: dget_subtract split: if_splits)
    ultimately show ?thesis using False by (auto simp: matches_dict_except_for_keys_def Let_def)
  qed
qed

text \<open>What the search returns: \<open>main\<close>, or the class of a frame with the name of a method.\<close>

lemma climb_result:
  "climb b fs = Some c \<Longrightarrow> c = ''main''
     \<or> (\<exists>f \<in> set fs. test_method (fr_name f) \<and> c = frame_class f @ '':'' @ fr_name f)
     \<or> (\<exists>f \<in> set fs. frame_class f \<noteq> [] \<and> c = frame_class f @ '':_run_cleanups'')"
  by (induction b fs rule: climb.induct) (auto split: if_splits)

end
