(* ===== verification/SchemaBase.thy ===== *)
theory SchemaBase
  imports RestProps GeneratorProps
begin

text \<open>
  The response schemas of \<open>automation/api_schema\<close> as values: the changes that their modules make to
  dictionaries while they are loaded, the schema that \<open>validate_response\<close> reads, and what it means that a
  document is valid. The validator \<open>jsonschema\<close> is not in the repository; \<open>js_valid\<close> is the part of JSON
  Schema, draft 4, that the schemas use. Regular expressions and formats are parameters.
\<close>

section \<open>Building schemas\<close>

text \<open>\<open>d[k] = v\<close>, \<open>d.update(e)\<close>, \<open>l.extend(xs)\<close>, \<open>d[k2] = d.pop(k1)\<close>; where the code would raise, None.\<close>

definition py_set :: "string \<Rightarrow> py \<Rightarrow> py \<Rightarrow> py" where
  "py_set k v x = (case x of PDict d \<Rightarrow> PDict (dset d k v) | _ \<Rightarrow> PNone)"

definition py_update :: "(string, py) dict \<Rightarrow> py \<Rightarrow> py" where
  "py_update e x = (case x of PDict d \<Rightarrow> PDict (dupdate d e) | _ \<Rightarrow> PNone)"

definition py_extend :: "py list \<Rightarrow> py \<Rightarrow> py" where
  "py_extend ys x = (case x of PList xs \<Rightarrow> PList (xs @ ys) | _ \<Rightarrow> PNone)"

definition py_move :: "string \<Rightarrow> string \<Rightarrow> py \<Rightarrow> py" where
  "py_move k1 k2 x =
     (case x of
        PDict d \<Rightarrow> (case dget d k1 of Some v \<Rightarrow> PDict (dset (ddel d k1) k2 v) | None \<Rightarrow> PNone)
      | _ \<Rightarrow> PNone)"

text \<open>A change of \<open>x[k1]...[kn]\<close>.\<close>

fun at_path :: "string list \<Rightarrow> (py \<Rightarrow> py) \<Rightarrow> py \<Rightarrow> py" where
  "at_path [] f x = f x"
| "at_path (k # ks) f x =
     (case x of
        PDict d \<Rightarrow> (case dget d k of Some v \<Rightarrow> PDict (dset d k (at_path ks f v)) | None \<Rightarrow> PNone)
      | _ \<Rightarrow> PNone)"

lemmas build_simps = py_set_def py_update_def py_extend_def py_move_def

section \<open>Reading schemas\<close>

text \<open>What \<open>validate_response\<close> reads: the status codes, and the schemas of body and headers, if any.\<close>

definition int_of_py :: "py \<Rightarrow> int" where
  "int_of_py v = (case v of PInt i \<Rightarrow> i | _ \<Rightarrow> 0)"

definition response_schema_of :: "py \<Rightarrow> response_schema" where
  "response_schema_of s =
     (case s of
        PDict d \<Rightarrow>
          \<lparr>sc_status = (case dget d ''status_code'' of Some (PList cs) \<Rightarrow> Codes (map int_of_py cs) | _ \<Rightarrow> Codes []),
           sc_body = (case dget d ''response_body'' of Some b \<Rightarrow> b | None \<Rightarrow> PNone),
           sc_header = (case dget d ''response_header'' of Some h \<Rightarrow> h | None \<Rightarrow> PNone)\<rparr>
      | _ \<Rightarrow> \<lparr>sc_status = Codes [], sc_body = PNone, sc_header = PNone\<rparr>)"

text \<open>The module that a client imports as \<open>schema\<close>; a name that it lacks would be an AttributeError.\<close>

definition module_schemas :: "(string \<times> py) list \<Rightarrow> string \<Rightarrow> response_schema" where
  "module_schemas names n = response_schema_of (case dget names n of Some s \<Rightarrow> s | None \<Rightarrow> PNone)"

section \<open>Validity\<close>

record checker =
  ck_format :: "string \<Rightarrow> string \<Rightarrow> bool"
  ck_search :: "string \<Rightarrow> string \<Rightarrow> bool"

definition sub_dict :: "(string, py) dict \<Rightarrow> string \<Rightarrow> (string, py) dict" where
  "sub_dict d k = (case dget d k of Some (PDict e) \<Rightarrow> e | _ \<Rightarrow> [])"

definition sub_list :: "(string, py) dict \<Rightarrow> string \<Rightarrow> py list" where
  "sub_list d k = (case dget d k of Some (PList xs) \<Rightarrow> xs | _ \<Rightarrow> [])"

definition text_ok :: "checker \<Rightarrow> (string, py) dict \<Rightarrow> string \<Rightarrow> bool" where
  "text_ok ck d s =
     (length_ok d (int (length s))
      \<and> (case dget d ''format'' of Some (PStr f) \<Rightarrow> ck_format ck f s | _ \<Rightarrow> True)
      \<and> (case dget d ''pattern'' of Some (PStr p) \<Rightarrow> ck_search ck p s | _ \<Rightarrow> True))"

definition items_ok :: "(string, py) dict \<Rightarrow> int \<Rightarrow> bool" where
  "items_ok d n =
     ((case dget d ''minItems'' of Some (PInt m) \<Rightarrow> m \<le> n | _ \<Rightarrow> True)
      \<and> (case dget d ''maxItems'' of Some (PInt m) \<Rightarrow> n \<le> m | _ \<Rightarrow> True))"

text \<open>Required keys, and the keys that neither \<open>properties\<close> nor \<open>patternProperties\<close> knows.\<close>

definition names_ok :: "checker \<Rightarrow> (string, py) dict \<Rightarrow> (string, py) dict \<Rightarrow> bool" where
  "names_ok ck d kvs =
     (list_all (\<lambda>r. case r of PStr s \<Rightarrow> dhas kvs s | _ \<Rightarrow> True) (sub_list d ''required'')
      \<and> (dget d ''additionalProperties'' = Some (PBool False) \<longrightarrow>
           list_all (\<lambda>k. dhas (sub_dict d ''properties'') k
                         \<or> list_ex (\<lambda>p. ck_search ck p k) (dkeys (sub_dict d ''patternProperties''))) (dkeys kvs)))"

definition enum_ok :: "(string, py) dict \<Rightarrow> py \<Rightarrow> bool" where
  "enum_ok d v = (case dget d ''enum'' of Some (PList vs) \<Rightarrow> v \<in> set vs | _ \<Rightarrow> True)"

lemma sub_dict_size: "(k, s) \<in> set (sub_dict d x) \<Longrightarrow> size s < size (PDict d)"
proof -
  assume *: "(k, s) \<in> set (sub_dict d x)"
  then obtain e where e: "dget d x = Some (PDict e)" "(k, s) \<in> set e"
    by (cases "dget d x") (auto simp: sub_dict_def split: py.splits)
  from size_dict_mem [OF e(2)] size_dget [OF e(1)] show ?thesis by (rule less_trans)
qed

lemma sub_list_size: "s \<in> set (sub_list d x) \<Longrightarrow> size s < size (PDict d)"
proof -
  assume "s \<in> set (sub_list d x)"
  then obtain xs where xs: "dget d x = Some (PList xs)" "s \<in> set xs"
    by (cases "dget d x") (auto simp: sub_list_def split: py.splits)
  have "size s < size (PList xs)" using xs(2) by (induction xs) auto
  also have "\<dots> < size (PDict d)" using xs(1) by (rule size_dget)
  finally show ?thesis .
qed

function js_valid :: "checker \<Rightarrow> py \<Rightarrow> py \<Rightarrow> bool" where
  "js_valid ck (PDict d) v =
     ((case dget d ''type'' of None \<Rightarrow> True | Some t \<Rightarrow> type_allows t v)
      \<and> enum_ok d v
      \<and> (case v of
           PStr s \<Rightarrow> text_ok ck d s
         | PInt i \<Rightarrow> above d i \<and> below d i
         | PList xs \<Rightarrow>
             items_ok d (int (length xs))
             \<and> (case dget d ''items'' of None \<Rightarrow> True | Some s \<Rightarrow> list_all (\<lambda>x. js_valid ck s x) xs)
         | PDict kvs \<Rightarrow>
             names_ok ck d kvs
             \<and> list_all (\<lambda>(k, s). case dget kvs k of None \<Rightarrow> True | Some x \<Rightarrow> js_valid ck s x)
                  (sub_dict d ''properties'')
             \<and> list_all (\<lambda>(p, s). list_all (\<lambda>(k, x). ck_search ck p k \<longrightarrow> js_valid ck s x) kvs)
                  (sub_dict d ''patternProperties'')
         | _ \<Rightarrow> True)
      \<and> (dhas d ''oneOf'' \<longrightarrow> length (filter (\<lambda>s. js_valid ck s v) (sub_list d ''oneOf'')) = 1))"
| "js_valid ck PNone v = True"
| "js_valid ck (PBool b) v = True"
| "js_valid ck (PInt i) v = True"
| "js_valid ck (PStr s) v = True"
| "js_valid ck (PList xs) v = True"
  by pat_completeness auto
termination
  by (relation "measure (\<lambda>(ck, s, v). size s)")
    (auto dest: size_dget sub_dict_size sub_list_size simp del: py.size)

declare js_valid.simps(1) [simp del]

text \<open>What a valid object is known to have: the required fields, each valid.\<close>

lemma js_valid_type: "js_valid ck (PDict d) v \<Longrightarrow> dget d ''type'' = Some t \<Longrightarrow> type_allows t v"
  by (simp add: js_valid.simps(1))

lemma js_valid_object:
  assumes "js_valid ck (PDict d) v" "dget d ''type'' = Some (PStr ''object'')"
    and "PStr k \<in> set (sub_list d ''required'')" "dget (sub_dict d ''properties'') k = Some s"
  obtains kvs x where "v = PDict kvs" "dget kvs k = Some x" "js_valid ck s x"
proof -
  from js_valid_type [OF assms(1,2)] obtain kvs where v: "v = PDict kvs" by (cases v) auto
  with assms(1,3) have "dhas kvs k" by (auto simp: js_valid.simps(1) names_ok_def list_all_iff split: py.splits)
  then obtain x where x: "dget kvs k = Some x" by (auto simp: dhas_def)
  have "(k, s) \<in> set (sub_dict d ''properties'')" using assms(4) by (rule dget_Some_mem)
  with assms(1) v x have "js_valid ck s x" by (fastforce simp: js_valid.simps(1) list_all_iff split: option.splits)
  with v x show thesis by (rule that)
qed

lemma js_valid_array:
  assumes "js_valid ck (PDict d) v" "dget d ''type'' = Some (PStr ''array'')" "dget d ''items'' = Some s"
  obtains xs where "v = PList xs" "\<forall>x \<in> set xs. js_valid ck s x"
proof -
  from js_valid_type [OF assms(1,2)] obtain xs where v: "v = PList xs" by (cases v) auto
  with assms(1,3) have "\<forall>x \<in> set xs. js_valid ck s x" by (auto simp: js_valid.simps(1) list_all_iff)
  with v show thesis by (rule that)
qed

lemma js_valid_text:
  assumes "js_valid ck (PDict d) v" "dget d ''type'' = Some (PStr ''string'')"
  obtains s where "v = PStr s"
  using js_valid_type [OF assms] by (cases v) auto

text \<open>
  What a schema guarantees: the value at a path of required fields is there, and has a type. \<open>schema_at\<close> is the
  schema of that value.
\<close>

fun schema_at :: "py \<Rightarrow> string list \<Rightarrow> py option" where
  "schema_at s [] = Some s"
| "schema_at (PDict d) (k # ks) =
     (if dget d ''type'' = Some (PStr ''object'') \<and> PStr k \<in> set (sub_list d ''required'')
      then (case dget (sub_dict d ''properties'') k of Some s \<Rightarrow> schema_at s ks | None \<Rightarrow> None)
      else None)"
| "schema_at s (k # ks) = None"

fun value_at :: "py \<Rightarrow> string list \<Rightarrow> py option" where
  "value_at v [] = Some v"
| "value_at (PDict d) (k # ks) = (case dget d k of Some x \<Rightarrow> value_at x ks | None \<Rightarrow> None)"
| "value_at v (k # ks) = None"

definition schema_type :: "py \<Rightarrow> string option" where
  "schema_type s = (case s of PDict d \<Rightarrow> (case dget d ''type'' of Some (PStr t) \<Rightarrow> Some t | _ \<Rightarrow> None) | _ \<Rightarrow> None)"

definition guarantees :: "py \<Rightarrow> string list \<Rightarrow> string \<Rightarrow> bool" where
  "guarantees s ks t = (case schema_at s ks of Some u \<Rightarrow> schema_type u = Some t | None \<Rightarrow> False)"

lemma value_at_schema:
  "js_valid ck s v \<Longrightarrow> schema_at s ks = Some u \<Longrightarrow> \<exists>x. value_at v ks = Some x \<and> js_valid ck u x"
proof (induction s ks arbitrary: v rule: schema_at.induct)
  case (2 d k ks)
  from 2(3) obtain s where s: "dget d ''type'' = Some (PStr ''object'')" "PStr k \<in> set (sub_list d ''required'')"
      "dget (sub_dict d ''properties'') k = Some s" "schema_at s ks = Some u"
    by (auto split: if_splits option.splits)
  from js_valid_object [OF 2(2) s(1-3)] obtain kvs x
    where x: "v = PDict kvs" "dget kvs k = Some x" "js_valid ck s x" .
  from 2(1) [OF conjI [OF s(1,2)] s(3) x(3) s(4)] x show ?case by simp
qed auto

lemma guaranteed:
  assumes "js_valid ck s v" "guarantees s ks t"
  obtains x where "value_at v ks = Some x" "has_type t x"
proof -
  from assms(2) obtain u where u: "schema_at s ks = Some u" "schema_type u = Some t"
    by (auto simp: guarantees_def split: option.splits)
  from value_at_schema [OF assms(1) u(1)] obtain x where x: "value_at v ks = Some x" "js_valid ck u x" by blast
  from u(2) obtain d where d: "u = PDict d" "dget d ''type'' = Some (PStr t)"
    by (cases u) (auto simp: schema_type_def split: option.splits py.splits)
  from x js_valid_type [of ck d x] d show thesis by (intro that) auto
qed

lemma has_type_string: "has_type ''string'' x \<longleftrightarrow> (\<exists>s. x = PStr s)"
  by (cases x) auto

lemma has_type_array: "has_type ''array'' x \<longleftrightarrow> (\<exists>xs. x = PList xs)"
  by (cases x) auto

lemma has_type_object: "has_type ''object'' x \<longleftrightarrow> (\<exists>d. x = PDict d)"
  by (cases x) auto

section \<open>Well-formed schemas\<close>

definition known_types :: "string list" where
  "known_types = [''string'', ''integer'', ''number'', ''boolean'', ''null'', ''array'', ''object'']"

definition known_keywords :: "string list" where
  "known_keywords =
     [''type'', ''properties'', ''required'', ''additionalProperties'', ''items'', ''format'', ''oneOf'',
      ''patternProperties'', ''enum'', ''minimum'', ''pattern'', ''minItems'', ''maxItems'']"

definition type_known :: "py \<Rightarrow> bool" where
  "type_known t =
     (case t of
        PStr s \<Rightarrow> s \<in> set known_types
      | PList ts \<Rightarrow> ts \<noteq> [] \<and> list_all (\<lambda>x. case x of PStr s \<Rightarrow> s \<in> set known_types | _ \<Rightarrow> False) ts
      | _ \<Rightarrow> False)"

text \<open>Only known keywords, known types, and nothing required that is not declared.\<close>

function schema_ok :: "py \<Rightarrow> bool" where
  "schema_ok (PDict d) =
     (list_all (\<lambda>k. k \<in> set known_keywords) (dkeys d)
      \<and> (case dget d ''type'' of None \<Rightarrow> True | Some t \<Rightarrow> type_known t)
      \<and> list_all (\<lambda>r. case r of PStr s \<Rightarrow> dhas (sub_dict d ''properties'') s | _ \<Rightarrow> False) (sub_list d ''required'')
      \<and> list_all (\<lambda>(k, s). schema_ok s) (sub_dict d ''properties'')
      \<and> list_all (\<lambda>(p, s). schema_ok s) (sub_dict d ''patternProperties'')
      \<and> (case dget d ''items'' of None \<Rightarrow> True | Some s \<Rightarrow> schema_ok s)
      \<and> list_all (\<lambda>s. schema_ok s) (sub_list d ''oneOf''))"
| "schema_ok PNone = False"
| "schema_ok (PBool b) = False"
| "schema_ok (PInt i) = False"
| "schema_ok (PStr s) = False"
| "schema_ok (PList xs) = False"
  by pat_completeness auto
termination
  by (relation "measure size") (auto dest: size_dget sub_dict_size sub_list_size simp del: py.size)

text \<open>A response schema: success codes only, nothing but the keys that are read, and well-formed parts.\<close>

definition response_schema_ok :: "py \<Rightarrow> bool" where
  "response_schema_ok s =
     (case s of
        PDict d \<Rightarrow>
          list_all (\<lambda>k. k \<in> {''status_code'', ''response_body'', ''response_header''}) (dkeys d)
          \<and> sub_list d ''status_code'' \<noteq> []
          \<and> list_all (\<lambda>c. case c of PInt i \<Rightarrow> i \<in> set HTTP_SUCCESS | _ \<Rightarrow> False) (sub_list d ''status_code'')
          \<and> (case dget d ''response_body'' of None \<Rightarrow> True | Some b \<Rightarrow> schema_ok b)
          \<and> (case dget d ''response_header'' of None \<Rightarrow> True | Some h \<Rightarrow> schema_ok h)
      | _ \<Rightarrow> False)"

end
