(* ===== verification/ServerSchemas.thy ===== *)
theory ServerSchemas
  imports SchemaBase
begin

text \<open>
  The schemas of the answers about servers and images: \<open>parameter_types.py\<close>, \<open>servers.py\<close> and \<open>images.py\<close> of
  \<open>automation/api_schema/response/compute/v2_1\<close>.
\<close>

section \<open>Parameter types\<close>

definition parameter_types_links :: py where
  "parameter_types_links =
     PDict [
       (''type'', PStr ''array''),
       (''items'', PDict [
           (''type'', PStr ''object''),
           (''properties'', PDict [
               (''href'', PDict [(''type'', PStr ''string''), (''format'', PStr ''uri'')]),
               (''rel'', PDict [(''type'', PStr ''string'')])]),
           (''additionalProperties'', PBool False),
           (''required'', PList [PStr ''href'', PStr ''rel''])])]"

definition parameter_types_mac_address :: py where
  "parameter_types_mac_address =
     PDict [(''type'', PStr ''string''), (''pattern'', PStr ''(?:[a-f0-9]{2}:){5}[a-f0-9]{2}'')]"

definition parameter_types_ip_address :: py where
  "parameter_types_ip_address =
     PDict [
       (''oneOf'', PList [
           PDict [
             (''type'', PStr ''string''),
             (''oneOf'', PList [PDict [(''format'', PStr ''ipv4'')], PDict [(''format'', PStr ''ipv6'')]])],
           PDict [(''type'', PStr ''null'')]])]"

definition parameter_types_access_ip_v4 :: py where
  "parameter_types_access_ip_v4 =
     PDict [
       (''type'', PStr ''string''),
       (''oneOf'', PList [PDict [(''format'', PStr ''ipv4'')], PDict [(''enum'', PList [PStr []])]])]"

definition parameter_types_access_ip_v6 :: py where
  "parameter_types_access_ip_v6 =
     PDict [
       (''type'', PStr ''string''),
       (''oneOf'', PList [PDict [(''format'', PStr ''ipv6'')], PDict [(''enum'', PList [PStr []])]])]"

definition parameter_types_addresses :: py where
  "parameter_types_addresses =
     PDict [
       (''type'', PStr ''object''),
       (''patternProperties'', PDict [
           (''^[a-zA-Z0-9-_.]+$'', PDict [
               (''type'', PStr ''array''),
               (''items'', PDict [
                   (''type'', PStr ''object''),
                   (''properties'', PDict [
                       (''version'', PDict [(''type'', PStr ''integer'')]),
                       (''addr'', PDict [
                           (''type'', PStr ''string''),
                           (''oneOf'', PList [PDict [(''format'', PStr ''ipv4'')], PDict [(''format'', PStr ''ipv6'')]])])]),
                   (''additionalProperties'', PBool False),
                   (''required'', PList [PStr ''version'', PStr ''addr''])])])])]"

definition parameter_types_response_header_declared :: py where
  "parameter_types_response_header_declared =
     PDict [
       (''connection'', PDict [(''type'', PStr ''string'')]),
       (''content-length'', PDict [(''type'', PStr ''string'')]),
       (''content-type'', PDict [(''type'', PStr ''string'')]),
       (''status'', PDict [(''type'', PStr ''string'')]),
       (''x-compute-request-id'', PDict [(''type'', PStr ''string'')]),
       (''vary'', PDict [(''type'', PStr ''string'')]),
       (''x-openstack-nova-api-version'', PDict [(''type'', PStr ''string'')]),
       (''date'', PDict [(''type'', PStr ''string''), (''format'', PStr ''data-time'')])]"

text \<open>The module \<open>images\<close> adds \<open>location\<close> to this dictionary itself, through its \<open>create_image\<close>.\<close>

definition parameter_types_response_header :: py where
  "parameter_types_response_header =
     py_update [(''location'', PDict [(''type'', PStr ''string''), (''format'', PStr ''uri'')])] parameter_types_response_header_declared"

section \<open>Servers\<close>

definition servers_create_server :: py where
  "servers_create_server =
     PDict [
       (''status_code'', PList [PInt 202]),
       (''response_body'', PDict [
           (''type'', PStr ''object''),
           (''properties'', PDict [
               (''server'', PDict [
                   (''type'', PStr ''object''),
                   (''properties'', PDict [
                       (''id'', PDict [(''type'', PStr ''string'')]),
                       (''security_groups'', PDict [(''type'', PStr ''array'')]),
                       (''links'', parameter_types_links),
                       (''OS-DCF:diskConfig'', PDict [(''type'', PStr ''string'')])]),
                   (''additionalProperties'', PBool False),
                   (''required'', PList [PStr ''id'', PStr ''links''])])]),
           (''additionalProperties'', PBool False),
           (''required'', PList [PStr ''server''])])]"

definition servers_create_server_with_admin_pass :: py where
  "servers_create_server_with_admin_pass =
     (let x = servers_create_server;
          x = at_path [''response_body'', ''properties'', ''server'', ''properties''] (py_update [(''adminPass'', PDict [(''type'', PStr ''string'')])]) x;
          x = at_path [''response_body'', ''properties'', ''server'', ''required''] (py_extend [PStr ''adminPass'']) x
      in x)"

definition servers_list_servers :: py where
  "servers_list_servers =
     PDict [
       (''status_code'', PList [PInt 200]),
       (''response_body'', PDict [
           (''type'', PStr ''object''),
           (''properties'', PDict [
               (''servers'', PDict [
                   (''type'', PStr ''array''),
                   (''items'', PDict [
                       (''type'', PStr ''object''),
                       (''properties'', PDict [
                           (''id'', PDict [(''type'', PStr ''string'')]),
                           (''links'', parameter_types_links),
                           (''name'', PDict [(''type'', PStr ''string'')])]),
                       (''additionalProperties'', PBool False),
                       (''required'', PList [PStr ''id'', PStr ''links'', PStr ''name''])])]),
               (''servers_links'', parameter_types_links)]),
           (''additionalProperties'', PBool False),
           (''required'', PList [PStr ''servers''])])]"

definition servers_delete_server :: py where
  "servers_delete_server =
     PDict [(''status_code'', PList [PInt 204])]"

definition servers_common_show_server :: py where
  "servers_common_show_server =
     PDict [
       (''type'', PStr ''object''),
       (''properties'', PDict [
           (''id'', PDict [(''type'', PStr ''string'')]),
           (''name'', PDict [(''type'', PStr ''string'')]),
           (''status'', PDict [(''type'', PStr ''string'')]),
           (''image'', PDict [
               (''oneOf'', PList [
                   PDict [
                     (''type'', PStr ''object''),
                     (''properties'', PDict [(''id'', PDict [(''type'', PStr ''string'')]), (''links'', parameter_types_links)]),
                     (''additionalProperties'', PBool False),
                     (''required'', PList [PStr ''id'', PStr ''links''])],
                   PDict [(''type'', PList [PStr ''string'', PStr ''null''])]])]),
           (''flavor'', PDict [
               (''type'', PStr ''object''),
               (''properties'', PDict [(''id'', PDict [(''type'', PStr ''string'')]), (''links'', parameter_types_links)]),
               (''additionalProperties'', PBool False),
               (''required'', PList [PStr ''id'', PStr ''links''])]),
           (''fault'', PDict [
               (''type'', PStr ''object''),
               (''properties'', PDict [
                   (''code'', PDict [(''type'', PStr ''integer'')]),
                   (''created'', PDict [(''type'', PStr ''string'')]),
                   (''message'', PDict [(''type'', PStr ''string'')]),
                   (''details'', PDict [(''type'', PStr ''string'')])]),
               (''additionalProperties'', PBool False),
               (''required'', PList [PStr ''code'', PStr ''created'', PStr ''message''])]),
           (''user_id'', PDict [(''type'', PStr ''string'')]),
           (''tenant_id'', PDict [(''type'', PStr ''string'')]),
           (''created'', PDict [(''type'', PStr ''string'')]),
           (''updated'', PDict [(''type'', PStr ''string'')]),
           (''progress'', PDict [(''type'', PStr ''integer'')]),
           (''metadata'', PDict [(''type'', PStr ''object'')]),
           (''links'', parameter_types_links),
           (''addresses'', parameter_types_addresses),
           (''hostId'', PDict [(''type'', PStr ''string'')]),
           (''OS-DCF:diskConfig'', PDict [(''type'', PStr ''string'')]),
           (''accessIPv4'', parameter_types_access_ip_v4),
           (''accessIPv6'', parameter_types_access_ip_v6)]),
       (''additionalProperties'', PBool False),
       (''required'', PList [
           PStr ''id'',
           PStr ''name'',
           PStr ''status'',
           PStr ''image'',
           PStr ''flavor'',
           PStr ''user_id'',
           PStr ''tenant_id'',
           PStr ''created'',
           PStr ''updated'',
           PStr ''metadata'',
           PStr ''links'',
           PStr ''addresses'',
           PStr ''hostId''])]"

definition servers_update_server :: py where
  "servers_update_server =
     PDict [
       (''status_code'', PList [PInt 200]),
       (''response_body'', PDict [
           (''type'', PStr ''object''),
           (''properties'', PDict [(''server'', servers_common_show_server)]),
           (''additionalProperties'', PBool False),
           (''required'', PList [PStr ''server''])])]"

definition servers_server_detail :: py where
  "servers_server_detail =
     (let x = servers_common_show_server;
          x = at_path [''properties''] (py_update [
                  (''key_name'', PDict [(''type'', PList [PStr ''string'', PStr ''null''])]),
                  (''security_groups'', PDict [(''type'', PStr ''array'')]),
                  (''OS-SRV-USG:launched_at'', PDict [(''type'', PList [PStr ''string'', PStr ''null''])]),
                  (''OS-SRV-USG:terminated_at'', PDict [(''type'', PList [PStr ''string'', PStr ''null''])]),
                  (''OS-EXT-AZ:availability_zone'', PDict [(''type'', PStr ''string'')]),
                  (''OS-EXT-STS:task_state'', PDict [(''type'', PList [PStr ''string'', PStr ''null''])]),
                  (''OS-EXT-STS:vm_state'', PDict [(''type'', PStr ''string'')]),
                  (''OS-EXT-STS:power_state'', PDict [(''type'', PStr ''integer'')]),
                  (''OS-EXT-SRV-ATTR:host'', PDict [(''type'', PList [PStr ''string'', PStr ''null''])]),
                  (''OS-EXT-SRV-ATTR:instance_name'', PDict [(''type'', PStr ''string'')]),
                  (''OS-EXT-SRV-ATTR:hypervisor_hostname'', PDict [(''type'', PList [PStr ''string'', PStr ''null''])]),
                  (''os-extended-volumes:volumes_attached'', PDict [(''type'', PStr ''array'')]),
                  (''config_drive'', PDict [(''type'', PStr ''string'')])]) x;
          x = at_path [''properties'', ''addresses'', ''patternProperties'', ''^[a-zA-Z0-9-_.]+$'', ''items'', ''properties''] (py_update [
                  (''OS-EXT-IPS:type'', PDict [(''type'', PStr ''string'')]),
                  (''OS-EXT-IPS-MAC:mac_addr'', parameter_types_mac_address)]) x
      in x)"

definition servers_get_server :: py where
  "servers_get_server =
     PDict [
       (''status_code'', PList [PInt 200]),
       (''response_body'', PDict [
           (''type'', PStr ''object''),
           (''properties'', PDict [(''server'', servers_server_detail)]),
           (''additionalProperties'', PBool False),
           (''required'', PList [PStr ''server''])])]"

definition servers_list_servers_detail :: py where
  "servers_list_servers_detail =
     PDict [
       (''status_code'', PList [PInt 200]),
       (''response_body'', PDict [
           (''type'', PStr ''object''),
           (''properties'', PDict [
               (''servers'', PDict [(''type'', PStr ''array''), (''items'', servers_server_detail)]),
               (''servers_links'', parameter_types_links)]),
           (''additionalProperties'', PBool False),
           (''required'', PList [PStr ''servers''])])]"

definition servers_rebuild_server :: py where
  "servers_rebuild_server =
     (let x = servers_update_server;
          x = py_set ''status_code'' (PList [PInt 202]) x
      in x)"

definition servers_rebuild_server_with_admin_pass :: py where
  "servers_rebuild_server_with_admin_pass =
     (let x = servers_rebuild_server;
          x = at_path [''response_body'', ''properties'', ''server'', ''properties''] (py_update [(''adminPass'', PDict [(''type'', PStr ''string'')])]) x;
          x = at_path [''response_body'', ''properties'', ''server'', ''required''] (py_extend [PStr ''adminPass'']) x
      in x)"

definition servers_rescue_server :: py where
  "servers_rescue_server =
     PDict [
       (''status_code'', PList [PInt 200]),
       (''response_body'', PDict [
           (''type'', PStr ''object''),
           (''properties'', PDict [(''adminPass'', PDict [(''type'', PStr ''string'')])]),
           (''additionalProperties'', PBool False),
           (''required'', PList [PStr ''adminPass''])])]"

definition servers_list_virtual_interfaces :: py where
  "servers_list_virtual_interfaces =
     PDict [
       (''status_code'', PList [PInt 200]),
       (''response_body'', PDict [
           (''type'', PStr ''object''),
           (''properties'', PDict [
               (''virtual_interfaces'', PDict [
                   (''type'', PStr ''array''),
                   (''items'', PDict [
                       (''type'', PStr ''object''),
                       (''properties'', PDict [
                           (''id'', PDict [(''type'', PStr ''string'')]),
                           (''mac_address'', parameter_types_mac_address),
                           (''OS-EXT-VIF-NET:net_id'', PDict [(''type'', PStr ''string'')])]),
                       (''additionalProperties'', PBool False),
                       (''required'', PList [PStr ''id'', PStr ''mac_address''])])])]),
           (''additionalProperties'', PBool False),
           (''required'', PList [PStr ''virtual_interfaces''])])]"

text \<open>
  \<open>attach_volume\<close> and \<open>list_volume_attachments\<close> hold the same dictionary \<open>common_attach_volume_info\<close>, not copies.
  The module changes it in place, through \<open>list_volume_attachments\<close>, after \<open>get_volume_attachment\<close> was copied from
  \<open>attach_volume\<close>: \<open>_declared\<close> is its value up to there, the plain name its value after the module is loaded.
\<close>

definition servers_common_attach_volume_info_declared :: py where
  "servers_common_attach_volume_info_declared =
     PDict [
       (''type'', PStr ''object''),
       (''properties'', PDict [
           (''id'', PDict [(''type'', PStr ''string'')]),
           (''device'', PDict [(''type'', PStr ''string'')]),
           (''volumeId'', PDict [(''type'', PStr ''string'')]),
           (''serverId'', PDict [(''type'', PList [PStr ''integer'', PStr ''string''])])]),
       (''additionalProperties'', PBool False),
       (''required'', PList [PStr ''id'', PStr ''device'', PStr ''volumeId'', PStr ''serverId''])]"

definition servers_common_attach_volume_info :: py where
  "servers_common_attach_volume_info =
     at_path [''properties''] (py_update [(''serverId'', PDict [(''type'', PStr ''string'')])]) servers_common_attach_volume_info_declared"

definition servers_attach_volume_of :: "py \<Rightarrow> py" where
  "servers_attach_volume_of info =
     PDict [
       (''status_code'', PList [PInt 200]),
       (''response_body'', PDict [
           (''type'', PStr ''object''),
           (''properties'', PDict [(''volumeAttachment'', info)]),
           (''additionalProperties'', PBool False),
           (''required'', PList [PStr ''volumeAttachment''])])]"

definition servers_attach_volume :: py where
  "servers_attach_volume = servers_attach_volume_of servers_common_attach_volume_info"

definition servers_detach_volume :: py where
  "servers_detach_volume =
     PDict [(''status_code'', PList [PInt 202])]"

definition servers_get_volume_attachment :: py where
  "servers_get_volume_attachment =
     (let x = servers_attach_volume_of servers_common_attach_volume_info_declared;
          x = at_path [''response_body'', ''properties'', ''volumeAttachment'', ''properties''] (py_update [(''serverId'', PDict [(''type'', PStr ''string'')])]) x
      in x)"

definition servers_list_volume_attachments :: py where
  "servers_list_volume_attachments =
     PDict [
       (''status_code'', PList [PInt 200]),
       (''response_body'', PDict [
           (''type'', PStr ''object''),
           (''properties'', PDict [
               (''volumeAttachments'', PDict [(''type'', PStr ''array''), (''items'', servers_common_attach_volume_info)])]),
           (''additionalProperties'', PBool False),
           (''required'', PList [PStr ''volumeAttachments''])])]"

definition servers_list_addresses_by_network :: py where
  "servers_list_addresses_by_network =
     PDict [(''status_code'', PList [PInt 200]), (''response_body'', parameter_types_addresses)]"

definition servers_list_addresses :: py where
  "servers_list_addresses =
     PDict [
       (''status_code'', PList [PInt 200]),
       (''response_body'', PDict [
           (''type'', PStr ''object''),
           (''properties'', PDict [(''addresses'', parameter_types_addresses)]),
           (''additionalProperties'', PBool False),
           (''required'', PList [PStr ''addresses''])])]"

definition servers_common_server_group :: py where
  "servers_common_server_group =
     PDict [
       (''type'', PStr ''object''),
       (''properties'', PDict [
           (''id'', PDict [(''type'', PStr ''string'')]),
           (''name'', PDict [(''type'', PStr ''string'')]),
           (''policies'', PDict [(''type'', PStr ''array''), (''items'', PDict [(''type'', PStr ''string'')])]),
           (''members'', PDict [(''type'', PStr ''array''), (''items'', PDict [(''type'', PStr ''string'')])]),
           (''metadata'', PDict [(''type'', PStr ''object'')])]),
       (''additionalProperties'', PBool False),
       (''required'', PList [PStr ''id'', PStr ''name'', PStr ''policies'', PStr ''members'', PStr ''metadata''])]"

definition servers_create_get_server_group :: py where
  "servers_create_get_server_group =
     PDict [
       (''status_code'', PList [PInt 200]),
       (''response_body'', PDict [
           (''type'', PStr ''object''),
           (''properties'', PDict [(''server_group'', servers_common_server_group)]),
           (''additionalProperties'', PBool False),
           (''required'', PList [PStr ''server_group''])])]"

definition servers_delete_server_group :: py where
  "servers_delete_server_group =
     PDict [(''status_code'', PList [PInt 204])]"

definition servers_list_server_groups :: py where
  "servers_list_server_groups =
     PDict [
       (''status_code'', PList [PInt 200]),
       (''response_body'', PDict [
           (''type'', PStr ''object''),
           (''properties'', PDict [
               (''server_groups'', PDict [(''type'', PStr ''array''), (''items'', servers_common_server_group)])]),
           (''additionalProperties'', PBool False),
           (''required'', PList [PStr ''server_groups''])])]"

definition servers_instance_actions :: py where
  "servers_instance_actions =
     PDict [
       (''type'', PStr ''object''),
       (''properties'', PDict [
           (''action'', PDict [(''type'', PStr ''string'')]),
           (''request_id'', PDict [(''type'', PStr ''string'')]),
           (''user_id'', PDict [(''type'', PStr ''string'')]),
           (''project_id'', PDict [(''type'', PStr ''string'')]),
           (''start_time'', PDict [(''type'', PStr ''string'')]),
           (''message'', PDict [(''type'', PList [PStr ''string'', PStr ''null''])]),
           (''instance_uuid'', PDict [(''type'', PStr ''string'')])]),
       (''additionalProperties'', PBool False),
       (''required'', PList [
           PStr ''action'',
           PStr ''request_id'',
           PStr ''user_id'',
           PStr ''project_id'',
           PStr ''start_time'',
           PStr ''message'',
           PStr ''instance_uuid''])]"

definition servers_instance_action_events :: py where
  "servers_instance_action_events =
     PDict [
       (''type'', PStr ''array''),
       (''items'', PDict [
           (''type'', PStr ''object''),
           (''properties'', PDict [
               (''event'', PDict [(''type'', PStr ''string'')]),
               (''start_time'', PDict [(''type'', PStr ''string'')]),
               (''finish_time'', PDict [(''type'', PStr ''string'')]),
               (''result'', PDict [(''type'', PStr ''string'')]),
               (''traceback'', PDict [(''type'', PList [PStr ''string'', PStr ''null''])])]),
           (''additionalProperties'', PBool False),
           (''required'', PList [
               PStr ''event'',
               PStr ''start_time'',
               PStr ''finish_time'',
               PStr ''result'',
               PStr ''traceback''])])]"

definition servers_list_instance_actions :: py where
  "servers_list_instance_actions =
     PDict [
       (''status_code'', PList [PInt 200]),
       (''response_body'', PDict [
           (''type'', PStr ''object''),
           (''properties'', PDict [
               (''instanceActions'', PDict [(''type'', PStr ''array''), (''items'', servers_instance_actions)])]),
           (''additionalProperties'', PBool False),
           (''required'', PList [PStr ''instanceActions''])])]"

definition servers_instance_actions_with_events :: py where
  "servers_instance_actions_with_events =
     (let x = servers_instance_actions;
          x = at_path [''properties''] (py_update [(''events'', servers_instance_action_events)]) x
      in x)"

definition servers_get_instance_action :: py where
  "servers_get_instance_action =
     PDict [
       (''status_code'', PList [PInt 200]),
       (''response_body'', PDict [
           (''type'', PStr ''object''),
           (''properties'', PDict [(''instanceAction'', servers_instance_actions_with_events)]),
           (''additionalProperties'', PBool False),
           (''required'', PList [PStr ''instanceAction''])])]"

definition servers_get_password :: py where
  "servers_get_password =
     PDict [
       (''status_code'', PList [PInt 200]),
       (''response_body'', PDict [
           (''type'', PStr ''object''),
           (''properties'', PDict [(''password'', PDict [(''type'', PStr ''string'')])]),
           (''additionalProperties'', PBool False),
           (''required'', PList [PStr ''password''])])]"

definition servers_get_vnc_console :: py where
  "servers_get_vnc_console =
     PDict [
       (''status_code'', PList [PInt 200]),
       (''response_body'', PDict [
           (''type'', PStr ''object''),
           (''properties'', PDict [
               (''console'', PDict [
                   (''type'', PStr ''object''),
                   (''properties'', PDict [
                       (''type'', PDict [(''type'', PStr ''string'')]),
                       (''url'', PDict [(''type'', PStr ''string''), (''format'', PStr ''uri'')])]),
                   (''additionalProperties'', PBool False),
                   (''required'', PList [PStr ''type'', PStr ''url''])])]),
           (''additionalProperties'', PBool False),
           (''required'', PList [PStr ''console''])])]"

definition servers_get_console_output :: py where
  "servers_get_console_output =
     PDict [
       (''status_code'', PList [PInt 200]),
       (''response_body'', PDict [
           (''type'', PStr ''object''),
           (''properties'', PDict [(''output'', PDict [(''type'', PStr ''string'')])]),
           (''additionalProperties'', PBool False),
           (''required'', PList [PStr ''output''])])]"

definition servers_set_server_metadata :: py where
  "servers_set_server_metadata =
     PDict [
       (''status_code'', PList [PInt 200]),
       (''response_body'', PDict [
           (''type'', PStr ''object''),
           (''properties'', PDict [
               (''metadata'', PDict [
                   (''type'', PStr ''object''),
                   (''patternProperties'', PDict [(''^.+$'', PDict [(''type'', PStr ''string'')])])])]),
           (''additionalProperties'', PBool False),
           (''required'', PList [PStr ''metadata''])])]"

definition servers_list_server_metadata :: py where
  "servers_list_server_metadata =
     servers_set_server_metadata"

definition servers_update_server_metadata :: py where
  "servers_update_server_metadata =
     servers_set_server_metadata"

definition servers_delete_server_metadata_item :: py where
  "servers_delete_server_metadata_item =
     PDict [(''status_code'', PList [PInt 204])]"

definition servers_set_get_server_metadata_item :: py where
  "servers_set_get_server_metadata_item =
     PDict [
       (''status_code'', PList [PInt 200]),
       (''response_body'', PDict [
           (''type'', PStr ''object''),
           (''properties'', PDict [
               (''meta'', PDict [
                   (''type'', PStr ''object''),
                   (''patternProperties'', PDict [(''^.+$'', PDict [(''type'', PStr ''string'')])])])]),
           (''additionalProperties'', PBool False),
           (''required'', PList [PStr ''meta''])])]"

definition servers_server_actions_common_schema :: py where
  "servers_server_actions_common_schema =
     PDict [(''status_code'', PList [PInt 202])]"

definition servers_server_actions_delete_password :: py where
  "servers_server_actions_delete_password =
     PDict [(''status_code'', PList [PInt 204])]"

definition servers_server_actions_confirm_resize :: py where
  "servers_server_actions_confirm_resize =
     servers_server_actions_delete_password"

definition servers_schemas :: "(string \<times> py) list" where
  "servers_schemas =
     [(''create_server'', servers_create_server),
      (''create_server_with_admin_pass'', servers_create_server_with_admin_pass),
      (''list_servers'', servers_list_servers),
      (''delete_server'', servers_delete_server),
      (''update_server'', servers_update_server),
      (''get_server'', servers_get_server),
      (''list_servers_detail'', servers_list_servers_detail),
      (''rebuild_server'', servers_rebuild_server),
      (''rebuild_server_with_admin_pass'', servers_rebuild_server_with_admin_pass),
      (''rescue_server'', servers_rescue_server),
      (''list_virtual_interfaces'', servers_list_virtual_interfaces),
      (''attach_volume'', servers_attach_volume),
      (''detach_volume'', servers_detach_volume),
      (''get_volume_attachment'', servers_get_volume_attachment),
      (''list_volume_attachments'', servers_list_volume_attachments),
      (''list_addresses_by_network'', servers_list_addresses_by_network),
      (''list_addresses'', servers_list_addresses),
      (''create_get_server_group'', servers_create_get_server_group),
      (''delete_server_group'', servers_delete_server_group),
      (''list_server_groups'', servers_list_server_groups),
      (''list_instance_actions'', servers_list_instance_actions),
      (''get_instance_action'', servers_get_instance_action),
      (''get_password'', servers_get_password),
      (''get_vnc_console'', servers_get_vnc_console),
      (''get_console_output'', servers_get_console_output),
      (''set_server_metadata'', servers_set_server_metadata),
      (''list_server_metadata'', servers_list_server_metadata),
      (''update_server_metadata'', servers_update_server_metadata),
      (''delete_server_metadata_item'', servers_delete_server_metadata_item),
      (''set_get_server_metadata_item'', servers_set_get_server_metadata_item),
      (''server_actions_common_schema'', servers_server_actions_common_schema),
      (''server_actions_delete_password'', servers_server_actions_delete_password),
      (''server_actions_confirm_resize'', servers_server_actions_confirm_resize)]"

section \<open>Images\<close>

definition images_image_links :: py where
  "images_image_links =
     (let x = parameter_types_links;
          x = at_path [''items'', ''properties''] (py_update [(''type'', PDict [(''type'', PStr ''string'')])]) x
      in x)"

definition images_common_image_schema :: py where
  "images_common_image_schema =
     PDict [
       (''type'', PStr ''object''),
       (''properties'', PDict [
           (''id'', PDict [(''type'', PStr ''string'')]),
           (''status'', PDict [(''type'', PStr ''string'')]),
           (''updated'', PDict [(''type'', PStr ''string'')]),
           (''links'', images_image_links),
           (''name'', PDict [(''type'', PStr ''string'')]),
           (''created'', PDict [(''type'', PStr ''string'')]),
           (''minDisk'', PDict [(''type'', PStr ''integer'')]),
           (''minRam'', PDict [(''type'', PStr ''integer'')]),
           (''progress'', PDict [(''type'', PStr ''integer'')]),
           (''metadata'', PDict [(''type'', PStr ''object'')]),
           (''server'', PDict [
               (''type'', PStr ''object''),
               (''properties'', PDict [(''id'', PDict [(''type'', PStr ''string'')]), (''links'', parameter_types_links)]),
               (''additionalProperties'', PBool False),
               (''required'', PList [PStr ''id'', PStr ''links''])]),
           (''OS-EXT-IMG-SIZE:size'', PDict [(''type'', PStr ''integer'')]),
           (''OS-DCF:diskConfig'', PDict [(''type'', PStr ''string'')])]),
       (''additionalProperties'', PBool False),
       (''required'', PList [
           PStr ''id'',
           PStr ''status'',
           PStr ''updated'',
           PStr ''links'',
           PStr ''name'',
           PStr ''created'',
           PStr ''minDisk'',
           PStr ''minRam'',
           PStr ''progress'',
           PStr ''metadata''])]"

definition images_get_image :: py where
  "images_get_image =
     PDict [
       (''status_code'', PList [PInt 200]),
       (''response_body'', PDict [
           (''type'', PStr ''object''),
           (''properties'', PDict [(''image'', images_common_image_schema)]),
           (''additionalProperties'', PBool False),
           (''required'', PList [PStr ''image''])])]"

definition images_list_images :: py where
  "images_list_images =
     PDict [
       (''status_code'', PList [PInt 200]),
       (''response_body'', PDict [
           (''type'', PStr ''object''),
           (''properties'', PDict [
               (''images'', PDict [
                   (''type'', PStr ''array''),
                   (''items'', PDict [
                       (''type'', PStr ''object''),
                       (''properties'', PDict [
                           (''id'', PDict [(''type'', PStr ''string'')]),
                           (''links'', images_image_links),
                           (''name'', PDict [(''type'', PStr ''string'')])]),
                       (''additionalProperties'', PBool False),
                       (''required'', PList [PStr ''id'', PStr ''links'', PStr ''name''])])]),
               (''images_links'', parameter_types_links)]),
           (''additionalProperties'', PBool False),
           (''required'', PList [PStr ''images''])])]"

definition images_create_image :: py where
  "images_create_image =
     (let x = PDict [
               (''status_code'', PList [PInt 202]),
               (''response_header'', PDict [(''type'', PStr ''object''), (''properties'', parameter_types_response_header)])];
          x = at_path [''response_header''] (py_set ''required'' (PList [PStr ''location''])) x
      in x)"

definition images_delete :: py where
  "images_delete =
     PDict [(''status_code'', PList [PInt 204])]"

definition images_image_metadata :: py where
  "images_image_metadata =
     PDict [
       (''status_code'', PList [PInt 200]),
       (''response_body'', PDict [
           (''type'', PStr ''object''),
           (''properties'', PDict [(''metadata'', PDict [(''type'', PStr ''object'')])]),
           (''additionalProperties'', PBool False),
           (''required'', PList [PStr ''metadata''])])]"

definition images_image_meta_item :: py where
  "images_image_meta_item =
     PDict [
       (''status_code'', PList [PInt 200]),
       (''response_body'', PDict [
           (''type'', PStr ''object''),
           (''properties'', PDict [(''meta'', PDict [(''type'', PStr ''object'')])]),
           (''additionalProperties'', PBool False),
           (''required'', PList [PStr ''meta''])])]"

definition images_list_images_details :: py where
  "images_list_images_details =
     PDict [
       (''status_code'', PList [PInt 200]),
       (''response_body'', PDict [
           (''type'', PStr ''object''),
           (''properties'', PDict [
               (''images'', PDict [(''type'', PStr ''array''), (''items'', images_common_image_schema)]),
               (''images_links'', parameter_types_links)]),
           (''additionalProperties'', PBool False),
           (''required'', PList [PStr ''images''])])]"

definition images_schemas :: "(string \<times> py) list" where
  "images_schemas =
     [(''get_image'', images_get_image),
      (''list_images'', images_list_images),
      (''create_image'', images_create_image),
      (''delete'', images_delete),
      (''image_metadata'', images_image_metadata),
      (''image_meta_item'', images_image_meta_item),
      (''list_images_details'', images_list_images_details)]"

end
