(* ===== verification/NovaSchemas.thy ===== *)
theory NovaSchemas
  imports ServerSchemas
begin

text \<open>
  The schemas of the other answers of the compute service, \<open>automation/api_schema/response/compute/v2_1\<close>.
\<close>

section \<open>Agents\<close>

definition agents_common_agent_info :: py where
  "agents_common_agent_info =
     PDict [
       (''type'', PStr ''object''),
       (''properties'', PDict [
           (''agent_id'', PDict [(''type'', PList [PStr ''integer'', PStr ''string''])]),
           (''hypervisor'', PDict [(''type'', PStr ''string'')]),
           (''os'', PDict [(''type'', PStr ''string'')]),
           (''architecture'', PDict [(''type'', PStr ''string'')]),
           (''version'', PDict [(''type'', PStr ''string'')]),
           (''url'', PDict [(''type'', PStr ''string''), (''format'', PStr ''uri'')]),
           (''md5hash'', PDict [(''type'', PStr ''string'')])]),
       (''additionalProperties'', PBool False),
       (''required'', PList [
           PStr ''agent_id'',
           PStr ''hypervisor'',
           PStr ''os'',
           PStr ''architecture'',
           PStr ''version'',
           PStr ''url'',
           PStr ''md5hash''])]"

definition agents_list_agents :: py where
  "agents_list_agents =
     PDict [
       (''status_code'', PList [PInt 200]),
       (''response_body'', PDict [
           (''type'', PStr ''object''),
           (''properties'', PDict [(''agents'', PDict [(''type'', PStr ''array''), (''items'', agents_common_agent_info)])]),
           (''additionalProperties'', PBool False),
           (''required'', PList [PStr ''agents''])])]"

definition agents_create_agent :: py where
  "agents_create_agent =
     PDict [
       (''status_code'', PList [PInt 200]),
       (''response_body'', PDict [
           (''type'', PStr ''object''),
           (''properties'', PDict [(''agent'', agents_common_agent_info)]),
           (''additionalProperties'', PBool False),
           (''required'', PList [PStr ''agent''])])]"

definition agents_delete_agent :: py where
  "agents_delete_agent =
     PDict [(''status_code'', PList [PInt 200])]"

definition agents_schemas :: "(string \<times> py) list" where
  "agents_schemas =
     [(''list_agents'', agents_list_agents),
      (''create_agent'', agents_create_agent),
      (''delete_agent'', agents_delete_agent)]"

section \<open>Aggregates\<close>

definition aggregates_aggregate_for_create :: py where
  "aggregates_aggregate_for_create =
     PDict [
       (''type'', PStr ''object''),
       (''properties'', PDict [
           (''availability_zone'', PDict [(''type'', PList [PStr ''string'', PStr ''null''])]),
           (''created_at'', PDict [(''type'', PStr ''string'')]),
           (''deleted'', PDict [(''type'', PStr ''boolean'')]),
           (''deleted_at'', PDict [(''type'', PList [PStr ''string'', PStr ''null''])]),
           (''id'', PDict [(''type'', PStr ''integer'')]),
           (''name'', PDict [(''type'', PStr ''string'')]),
           (''updated_at'', PDict [(''type'', PList [PStr ''string'', PStr ''null''])])]),
       (''additionalProperties'', PBool False),
       (''required'', PList [
           PStr ''availability_zone'',
           PStr ''created_at'',
           PStr ''deleted'',
           PStr ''deleted_at'',
           PStr ''id'',
           PStr ''name'',
           PStr ''updated_at''])]"

definition aggregates_common_aggregate_info :: py where
  "aggregates_common_aggregate_info =
     (let x = aggregates_aggregate_for_create;
          x = at_path [''properties''] (py_update [
                  (''hosts'', PDict [(''type'', PStr ''array'')]),
                  (''metadata'', PDict [(''type'', PStr ''object'')])]) x;
          x = at_path [''required''] (py_extend [PStr ''hosts'', PStr ''metadata'']) x
      in x)"

definition aggregates_list_aggregates :: py where
  "aggregates_list_aggregates =
     PDict [
       (''status_code'', PList [PInt 200]),
       (''response_body'', PDict [
           (''type'', PStr ''object''),
           (''properties'', PDict [
               (''aggregates'', PDict [(''type'', PStr ''array''), (''items'', aggregates_common_aggregate_info)])]),
           (''additionalProperties'', PBool False),
           (''required'', PList [PStr ''aggregates''])])]"

definition aggregates_get_aggregate :: py where
  "aggregates_get_aggregate =
     PDict [
       (''status_code'', PList [PInt 200]),
       (''response_body'', PDict [
           (''type'', PStr ''object''),
           (''properties'', PDict [(''aggregate'', aggregates_common_aggregate_info)]),
           (''additionalProperties'', PBool False),
           (''required'', PList [PStr ''aggregate''])])]"

definition aggregates_aggregate_set_metadata :: py where
  "aggregates_aggregate_set_metadata =
     aggregates_get_aggregate"

definition aggregates_update_aggregate :: py where
  "aggregates_update_aggregate =
     (let x = aggregates_get_aggregate;
          x = at_path [''response_body'', ''properties'', ''aggregate'', ''properties''] (py_set ''updated_at'' (PDict [(''type'', PStr ''string'')])) x
      in x)"

definition aggregates_delete_aggregate :: py where
  "aggregates_delete_aggregate =
     PDict [(''status_code'', PList [PInt 200])]"

definition aggregates_create_aggregate :: py where
  "aggregates_create_aggregate =
     PDict [
       (''status_code'', PList [PInt 200]),
       (''response_body'', PDict [
           (''type'', PStr ''object''),
           (''properties'', PDict [(''aggregate'', aggregates_aggregate_for_create)]),
           (''additionalProperties'', PBool False),
           (''required'', PList [PStr ''aggregate''])])]"

definition aggregates_aggregate_add_remove_host :: py where
  "aggregates_aggregate_add_remove_host =
     aggregates_get_aggregate"

definition aggregates_schemas :: "(string \<times> py) list" where
  "aggregates_schemas =
     [(''list_aggregates'', aggregates_list_aggregates),
      (''get_aggregate'', aggregates_get_aggregate),
      (''aggregate_set_metadata'', aggregates_aggregate_set_metadata),
      (''update_aggregate'', aggregates_update_aggregate),
      (''delete_aggregate'', aggregates_delete_aggregate),
      (''create_aggregate'', aggregates_create_aggregate),
      (''aggregate_add_remove_host'', aggregates_aggregate_add_remove_host)]"

section \<open>Availability zone\<close>

definition availability_zone_base :: py where
  "availability_zone_base =
     PDict [
       (''status_code'', PList [PInt 200]),
       (''response_body'', PDict [
           (''type'', PStr ''object''),
           (''properties'', PDict [
               (''availabilityZoneInfo'', PDict [
                   (''type'', PStr ''array''),
                   (''items'', PDict [
                       (''type'', PStr ''object''),
                       (''properties'', PDict [
                           (''zoneName'', PDict [(''type'', PStr ''string'')]),
                           (''zoneState'', PDict [
                               (''type'', PStr ''object''),
                               (''properties'', PDict [(''available'', PDict [(''type'', PStr ''boolean'')])]),
                               (''additionalProperties'', PBool False),
                               (''required'', PList [PStr ''available''])]),
                           (''hosts'', PDict [(''type'', PStr ''null'')])]),
                       (''additionalProperties'', PBool False),
                       (''required'', PList [PStr ''zoneName'', PStr ''zoneState'', PStr ''hosts''])])])]),
           (''additionalProperties'', PBool False),
           (''required'', PList [PStr ''availabilityZoneInfo''])])]"

definition availability_zone_detail :: py where
  "availability_zone_detail =
     PDict [
       (''type'', PStr ''object''),
       (''patternProperties'', PDict [
           (''^[a-zA-Z0-9-_.]+$'', PDict [
               (''type'', PStr ''object''),
               (''patternProperties'', PDict [
                   (''^.*$'', PDict [
                       (''type'', PStr ''object''),
                       (''properties'', PDict [
                           (''available'', PDict [(''type'', PStr ''boolean'')]),
                           (''active'', PDict [(''type'', PStr ''boolean'')]),
                           (''updated_at'', PDict [(''type'', PList [PStr ''string'', PStr ''null''])])]),
                       (''additionalProperties'', PBool False),
                       (''required'', PList [PStr ''available'', PStr ''active'', PStr ''updated_at''])])])])])]"

definition availability_zone_list_availability_zone_list :: py where
  "availability_zone_list_availability_zone_list =
     availability_zone_base"

definition availability_zone_list_availability_zone_list_detail :: py where
  "availability_zone_list_availability_zone_list_detail =
     (let x = availability_zone_base;
          x = at_path [''response_body'', ''properties'', ''availabilityZoneInfo'', ''items'', ''properties''] (py_set ''hosts'' availability_zone_detail) x
      in x)"

definition availability_zone_schemas :: "(string \<times> py) list" where
  "availability_zone_schemas =
     [(''base'', availability_zone_base),
      (''list_availability_zone_list'', availability_zone_list_availability_zone_list),
      (''list_availability_zone_list_detail'', availability_zone_list_availability_zone_list_detail)]"

section \<open>Baremetal nodes\<close>

definition baremetal_nodes_node :: py where
  "baremetal_nodes_node =
     PDict [
       (''type'', PStr ''object''),
       (''properties'', PDict [
           (''id'', PDict [(''type'', PStr ''string'')]),
           (''interfaces'', PDict [(''type'', PStr ''array'')]),
           (''host'', PDict [(''type'', PStr ''string'')]),
           (''task_state'', PDict [(''type'', PList [PStr ''string'', PStr ''null''])]),
           (''cpus'', PDict [(''type'', PList [PStr ''integer'', PStr ''string''])]),
           (''memory_mb'', PDict [(''type'', PList [PStr ''integer'', PStr ''string''])]),
           (''disk_gb'', PDict [(''type'', PList [PStr ''integer'', PStr ''string''])])]),
       (''additionalProperties'', PBool False),
       (''required'', PList [
           PStr ''id'',
           PStr ''interfaces'',
           PStr ''host'',
           PStr ''task_state'',
           PStr ''cpus'',
           PStr ''memory_mb'',
           PStr ''disk_gb''])]"

definition baremetal_nodes_list_baremetal_nodes :: py where
  "baremetal_nodes_list_baremetal_nodes =
     PDict [
       (''status_code'', PList [PInt 200]),
       (''response_body'', PDict [
           (''type'', PStr ''object''),
           (''properties'', PDict [(''nodes'', PDict [(''type'', PStr ''array''), (''items'', baremetal_nodes_node)])]),
           (''additionalProperties'', PBool False),
           (''required'', PList [PStr ''nodes''])])]"

definition baremetal_nodes_baremetal_node :: py where
  "baremetal_nodes_baremetal_node =
     PDict [
       (''status_code'', PList [PInt 200]),
       (''response_body'', PDict [
           (''type'', PStr ''object''),
           (''properties'', PDict [(''node'', baremetal_nodes_node)]),
           (''additionalProperties'', PBool False),
           (''required'', PList [PStr ''node''])])]"

definition baremetal_nodes_get_baremetal_node :: py where
  "baremetal_nodes_get_baremetal_node =
     (let x = baremetal_nodes_baremetal_node;
          x = at_path [''response_body'', ''properties'', ''node'', ''properties''] (py_update [(''instance_uuid'', PDict [(''type'', PList [PStr ''string'', PStr ''null''])])]) x;
          x = at_path [''response_body'', ''properties'', ''node'', ''required''] (py_extend [PStr ''instance_uuid'']) x
      in x)"

definition baremetal_nodes_schemas :: "(string \<times> py) list" where
  "baremetal_nodes_schemas =
     [(''list_baremetal_nodes'', baremetal_nodes_list_baremetal_nodes),
      (''baremetal_node'', baremetal_nodes_baremetal_node),
      (''get_baremetal_node'', baremetal_nodes_get_baremetal_node)]"

section \<open>Certificates\<close>

definition certificates_common_schema :: py where
  "certificates_common_schema =
     PDict [
       (''status_code'', PList [PInt 200]),
       (''response_body'', PDict [
           (''type'', PStr ''object''),
           (''properties'', PDict [
               (''certificate'', PDict [
                   (''type'', PStr ''object''),
                   (''properties'', PDict [
                       (''data'', PDict [(''type'', PStr ''string'')]),
                       (''private_key'', PDict [(''type'', PStr ''string'')])]),
                   (''additionalProperties'', PBool False),
                   (''required'', PList [PStr ''data'', PStr ''private_key''])])]),
           (''additionalProperties'', PBool False),
           (''required'', PList [PStr ''certificate''])])]"

definition certificates_get_certificate :: py where
  "certificates_get_certificate =
     (let x = certificates_common_schema;
          x = at_path [''response_body'', ''properties'', ''certificate'', ''properties'', ''private_key''] (py_update [(''type'', PStr ''null'')]) x
      in x)"

definition certificates_create_certificate :: py where
  "certificates_create_certificate =
     certificates_common_schema"

definition certificates_schemas :: "(string \<times> py) list" where
  "certificates_schemas =
     [(''_common_schema'', certificates_common_schema),
      (''get_certificate'', certificates_get_certificate),
      (''create_certificate'', certificates_create_certificate)]"

section \<open>Extensions\<close>

definition extensions_list_extensions :: py where
  "extensions_list_extensions =
     PDict [
       (''status_code'', PList [PInt 200]),
       (''response_body'', PDict [
           (''type'', PStr ''object''),
           (''properties'', PDict [
               (''extensions'', PDict [
                   (''type'', PStr ''array''),
                   (''items'', PDict [
                       (''type'', PStr ''object''),
                       (''properties'', PDict [
                           (''updated'', PDict [(''type'', PStr ''string''), (''format'', PStr ''data-time'')]),
                           (''name'', PDict [(''type'', PStr ''string'')]),
                           (''links'', PDict [(''type'', PStr ''array'')]),
                           (''namespace'', PDict [(''type'', PStr ''string''), (''format'', PStr ''uri'')]),
                           (''alias'', PDict [(''type'', PStr ''string'')]),
                           (''description'', PDict [(''type'', PStr ''string'')])]),
                       (''additionalProperties'', PBool False),
                       (''required'', PList [
                           PStr ''updated'',
                           PStr ''name'',
                           PStr ''links'',
                           PStr ''namespace'',
                           PStr ''alias'',
                           PStr ''description''])])])]),
           (''additionalProperties'', PBool False),
           (''required'', PList [PStr ''extensions''])])]"

definition extensions_schemas :: "(string \<times> py) list" where
  "extensions_schemas =
     [(''list_extensions'', extensions_list_extensions)]"

section \<open>Fixed ips\<close>

definition fixed_ips_get_fixed_ip :: py where
  "fixed_ips_get_fixed_ip =
     PDict [
       (''status_code'', PList [PInt 200]),
       (''response_body'', PDict [
           (''type'', PStr ''object''),
           (''properties'', PDict [
               (''fixed_ip'', PDict [
                   (''type'', PStr ''object''),
                   (''properties'', PDict [
                       (''address'', parameter_types_ip_address),
                       (''cidr'', PDict [(''type'', PStr ''string'')]),
                       (''host'', PDict [(''type'', PStr ''string'')]),
                       (''hostname'', PDict [(''type'', PStr ''string'')])]),
                   (''additionalProperties'', PBool False),
                   (''required'', PList [PStr ''address'', PStr ''cidr'', PStr ''host'', PStr ''hostname''])])]),
           (''additionalProperties'', PBool False),
           (''required'', PList [PStr ''fixed_ip''])])]"

definition fixed_ips_reserve_fixed_ip :: py where
  "fixed_ips_reserve_fixed_ip =
     PDict [(''status_code'', PList [PInt 202]), (''response_body'', PDict [(''type'', PStr ''string'')])]"

definition fixed_ips_schemas :: "(string \<times> py) list" where
  "fixed_ips_schemas =
     [(''get_fixed_ip'', fixed_ips_get_fixed_ip),
      (''reserve_fixed_ip'', fixed_ips_reserve_fixed_ip)]"

section \<open>Flavors\<close>

definition flavors_list_flavors :: py where
  "flavors_list_flavors =
     PDict [
       (''status_code'', PList [PInt 200]),
       (''response_body'', PDict [
           (''type'', PStr ''object''),
           (''properties'', PDict [
               (''flavors'', PDict [
                   (''type'', PStr ''array''),
                   (''items'', PDict [
                       (''type'', PStr ''object''),
                       (''properties'', PDict [
                           (''name'', PDict [(''type'', PStr ''string'')]),
                           (''links'', parameter_types_links),
                           (''id'', PDict [(''type'', PStr ''string'')])]),
                       (''additionalProperties'', PBool False),
                       (''required'', PList [PStr ''name'', PStr ''links'', PStr ''id''])])]),
               (''flavors_links'', parameter_types_links)]),
           (''additionalProperties'', PBool False),
           (''required'', PList [PStr ''flavors''])])]"

definition flavors_common_flavor_info :: py where
  "flavors_common_flavor_info =
     PDict [
       (''type'', PStr ''object''),
       (''properties'', PDict [
           (''name'', PDict [(''type'', PStr ''string'')]),
           (''links'', parameter_types_links),
           (''ram'', PDict [(''type'', PStr ''integer'')]),
           (''vcpus'', PDict [(''type'', PStr ''integer'')]),
           (''swap'', PDict [(''type'', PList [PStr ''integer'', PStr ''string''])]),
           (''disk'', PDict [(''type'', PStr ''integer'')]),
           (''id'', PDict [(''type'', PStr ''string'')]),
           (''OS-FLV-DISABLED:disabled'', PDict [(''type'', PStr ''boolean'')]),
           (''os-flavor-access:is_public'', PDict [(''type'', PStr ''boolean'')]),
           (''rxtx_factor'', PDict [(''type'', PStr ''number'')]),
           (''OS-FLV-EXT-DATA:ephemeral'', PDict [(''type'', PStr ''integer'')])]),
       (''additionalProperties'', PBool False),
       (''required'', PList [
           PStr ''name'',
           PStr ''links'',
           PStr ''ram'',
           PStr ''vcpus'',
           PStr ''swap'',
           PStr ''disk'',
           PStr ''id''])]"

definition flavors_list_flavors_details :: py where
  "flavors_list_flavors_details =
     PDict [
       (''status_code'', PList [PInt 200]),
       (''response_body'', PDict [
           (''type'', PStr ''object''),
           (''properties'', PDict [
               (''flavors'', PDict [(''type'', PStr ''array''), (''items'', flavors_common_flavor_info)]),
               (''flavors_links'', parameter_types_links)]),
           (''additionalProperties'', PBool False),
           (''required'', PList [PStr ''flavors''])])]"

definition flavors_unset_flavor_extra_specs :: py where
  "flavors_unset_flavor_extra_specs =
     PDict [(''status_code'', PList [PInt 200])]"

definition flavors_create_get_flavor_details :: py where
  "flavors_create_get_flavor_details =
     PDict [
       (''status_code'', PList [PInt 200]),
       (''response_body'', PDict [
           (''type'', PStr ''object''),
           (''properties'', PDict [(''flavor'', flavors_common_flavor_info)]),
           (''additionalProperties'', PBool False),
           (''required'', PList [PStr ''flavor''])])]"

definition flavors_delete_flavor :: py where
  "flavors_delete_flavor =
     PDict [(''status_code'', PList [PInt 202])]"

definition flavors_schemas :: "(string \<times> py) list" where
  "flavors_schemas =
     [(''list_flavors'', flavors_list_flavors),
      (''list_flavors_details'', flavors_list_flavors_details),
      (''unset_flavor_extra_specs'', flavors_unset_flavor_extra_specs),
      (''create_get_flavor_details'', flavors_create_get_flavor_details),
      (''delete_flavor'', flavors_delete_flavor)]"

section \<open>Flavors access\<close>

definition flavors_access_add_remove_list_flavor_access :: py where
  "flavors_access_add_remove_list_flavor_access =
     PDict [
       (''status_code'', PList [PInt 200]),
       (''response_body'', PDict [
           (''type'', PStr ''object''),
           (''properties'', PDict [
               (''flavor_access'', PDict [
                   (''type'', PStr ''array''),
                   (''items'', PDict [
                       (''type'', PStr ''object''),
                       (''properties'', PDict [
                           (''flavor_id'', PDict [(''type'', PStr ''string'')]),
                           (''tenant_id'', PDict [(''type'', PStr ''string'')])]),
                       (''additionalProperties'', PBool False),
                       (''required'', PList [PStr ''flavor_id'', PStr ''tenant_id''])])])]),
           (''additionalProperties'', PBool False),
           (''required'', PList [PStr ''flavor_access''])])]"

definition flavors_access_schemas :: "(string \<times> py) list" where
  "flavors_access_schemas =
     [(''add_remove_list_flavor_access'', flavors_access_add_remove_list_flavor_access)]"

section \<open>Flavors extra specs\<close>

definition flavors_extra_specs_set_get_flavor_extra_specs :: py where
  "flavors_extra_specs_set_get_flavor_extra_specs =
     PDict [
       (''status_code'', PList [PInt 200]),
       (''response_body'', PDict [
           (''type'', PStr ''object''),
           (''properties'', PDict [
               (''extra_specs'', PDict [
                   (''type'', PStr ''object''),
                   (''patternProperties'', PDict [
                       ((''^[a-zA-Z0-9_'' @ [CHR 0x5C] @ ''-'' @ [CHR 0x5C] @ ''. :]+$''), PDict [(''type'', PStr ''string'')])])])]),
           (''additionalProperties'', PBool False),
           (''required'', PList [PStr ''extra_specs''])])]"

definition flavors_extra_specs_set_get_flavor_extra_specs_key :: py where
  "flavors_extra_specs_set_get_flavor_extra_specs_key =
     PDict [
       (''status_code'', PList [PInt 200]),
       (''response_body'', PDict [
           (''type'', PStr ''object''),
           (''patternProperties'', PDict [
               ((''^[a-zA-Z0-9_'' @ [CHR 0x5C] @ ''-'' @ [CHR 0x5C] @ ''. :]+$''), PDict [(''type'', PStr ''string'')])])])]"

definition flavors_extra_specs_schemas :: "(string \<times> py) list" where
  "flavors_extra_specs_schemas =
     [(''set_get_flavor_extra_specs'', flavors_extra_specs_set_get_flavor_extra_specs),
      (''set_get_flavor_extra_specs_key'', flavors_extra_specs_set_get_flavor_extra_specs_key)]"

section \<open>Floating ips\<close>

definition floating_ips_common_floating_ip_info :: py where
  "floating_ips_common_floating_ip_info =
     PDict [
       (''type'', PStr ''object''),
       (''properties'', PDict [
           (''id'', PDict [(''type'', PList [PStr ''integer'', PStr ''string''])]),
           (''pool'', PDict [(''type'', PList [PStr ''string'', PStr ''null''])]),
           (''instance_id'', PDict [(''type'', PList [PStr ''string'', PStr ''null''])]),
           (''ip'', parameter_types_ip_address),
           (''fixed_ip'', parameter_types_ip_address)]),
       (''additionalProperties'', PBool False),
       (''required'', PList [PStr ''id'', PStr ''pool'', PStr ''instance_id'', PStr ''ip'', PStr ''fixed_ip''])]"

definition floating_ips_list_floating_ips :: py where
  "floating_ips_list_floating_ips =
     PDict [
       (''status_code'', PList [PInt 200]),
       (''response_body'', PDict [
           (''type'', PStr ''object''),
           (''properties'', PDict [
               (''floating_ips'', PDict [(''type'', PStr ''array''), (''items'', floating_ips_common_floating_ip_info)])]),
           (''additionalProperties'', PBool False),
           (''required'', PList [PStr ''floating_ips''])])]"

definition floating_ips_create_get_floating_ip :: py where
  "floating_ips_create_get_floating_ip =
     PDict [
       (''status_code'', PList [PInt 200]),
       (''response_body'', PDict [
           (''type'', PStr ''object''),
           (''properties'', PDict [(''floating_ip'', floating_ips_common_floating_ip_info)]),
           (''additionalProperties'', PBool False),
           (''required'', PList [PStr ''floating_ip''])])]"

definition floating_ips_list_floating_ip_pools :: py where
  "floating_ips_list_floating_ip_pools =
     PDict [
       (''status_code'', PList [PInt 200]),
       (''response_body'', PDict [
           (''type'', PStr ''object''),
           (''properties'', PDict [
               (''floating_ip_pools'', PDict [
                   (''type'', PStr ''array''),
                   (''items'', PDict [
                       (''type'', PStr ''object''),
                       (''properties'', PDict [(''name'', PDict [(''type'', PStr ''string'')])]),
                       (''additionalProperties'', PBool False),
                       (''required'', PList [PStr ''name''])])])]),
           (''additionalProperties'', PBool False),
           (''required'', PList [PStr ''floating_ip_pools''])])]"

definition floating_ips_add_remove_floating_ip :: py where
  "floating_ips_add_remove_floating_ip =
     PDict [(''status_code'', PList [PInt 202])]"

definition floating_ips_create_floating_ips_bulk :: py where
  "floating_ips_create_floating_ips_bulk =
     PDict [
       (''status_code'', PList [PInt 200]),
       (''response_body'', PDict [
           (''type'', PStr ''object''),
           (''properties'', PDict [
               (''floating_ips_bulk_create'', PDict [
                   (''type'', PStr ''object''),
                   (''properties'', PDict [
                       (''interface'', PDict [(''type'', PList [PStr ''string'', PStr ''null''])]),
                       (''ip_range'', PDict [(''type'', PStr ''string'')]),
                       (''pool'', PDict [(''type'', PList [PStr ''string'', PStr ''null''])])]),
                   (''additionalProperties'', PBool False),
                   (''required'', PList [PStr ''interface'', PStr ''ip_range'', PStr ''pool''])])]),
           (''additionalProperties'', PBool False),
           (''required'', PList [PStr ''floating_ips_bulk_create''])])]"

definition floating_ips_delete_floating_ips_bulk :: py where
  "floating_ips_delete_floating_ips_bulk =
     PDict [
       (''status_code'', PList [PInt 200]),
       (''response_body'', PDict [
           (''type'', PStr ''object''),
           (''properties'', PDict [(''floating_ips_bulk_delete'', PDict [(''type'', PStr ''string'')])]),
           (''additionalProperties'', PBool False),
           (''required'', PList [PStr ''floating_ips_bulk_delete''])])]"

definition floating_ips_list_floating_ips_bulk :: py where
  "floating_ips_list_floating_ips_bulk =
     PDict [
       (''status_code'', PList [PInt 200]),
       (''response_body'', PDict [
           (''type'', PStr ''object''),
           (''properties'', PDict [
               (''floating_ip_info'', PDict [
                   (''type'', PStr ''array''),
                   (''items'', PDict [
                       (''type'', PStr ''object''),
                       (''properties'', PDict [
                           (''address'', parameter_types_ip_address),
                           (''instance_uuid'', PDict [(''type'', PList [PStr ''string'', PStr ''null''])]),
                           (''interface'', PDict [(''type'', PList [PStr ''string'', PStr ''null''])]),
                           (''pool'', PDict [(''type'', PList [PStr ''string'', PStr ''null''])]),
                           (''project_id'', PDict [(''type'', PList [PStr ''string'', PStr ''null''])]),
                           (''fixed_ip'', parameter_types_ip_address)]),
                       (''additionalProperties'', PBool False),
                       (''required'', PList [
                           PStr ''address'',
                           PStr ''instance_uuid'',
                           PStr ''interface'',
                           PStr ''pool'',
                           PStr ''project_id''])])])]),
           (''additionalProperties'', PBool False),
           (''required'', PList [PStr ''floating_ip_info''])])]"

definition floating_ips_schemas :: "(string \<times> py) list" where
  "floating_ips_schemas =
     [(''list_floating_ips'', floating_ips_list_floating_ips),
      (''create_get_floating_ip'', floating_ips_create_get_floating_ip),
      (''list_floating_ip_pools'', floating_ips_list_floating_ip_pools),
      (''add_remove_floating_ip'', floating_ips_add_remove_floating_ip),
      (''create_floating_ips_bulk'', floating_ips_create_floating_ips_bulk),
      (''delete_floating_ips_bulk'', floating_ips_delete_floating_ips_bulk),
      (''list_floating_ips_bulk'', floating_ips_list_floating_ips_bulk)]"

section \<open>Hosts\<close>

definition hosts_list_hosts :: py where
  "hosts_list_hosts =
     PDict [
       (''status_code'', PList [PInt 200]),
       (''response_body'', PDict [
           (''type'', PStr ''object''),
           (''properties'', PDict [
               (''hosts'', PDict [
                   (''type'', PStr ''array''),
                   (''items'', PDict [
                       (''type'', PStr ''object''),
                       (''properties'', PDict [
                           (''host_name'', PDict [(''type'', PStr ''string'')]),
                           (''service'', PDict [(''type'', PStr ''string'')]),
                           (''zone'', PDict [(''type'', PStr ''string'')])]),
                       (''additionalProperties'', PBool False),
                       (''required'', PList [PStr ''host_name'', PStr ''service'', PStr ''zone''])])])]),
           (''additionalProperties'', PBool False),
           (''required'', PList [PStr ''hosts''])])]"

definition hosts_get_host_detail :: py where
  "hosts_get_host_detail =
     PDict [
       (''status_code'', PList [PInt 200]),
       (''response_body'', PDict [
           (''type'', PStr ''object''),
           (''properties'', PDict [
               (''host'', PDict [
                   (''type'', PStr ''array''),
                   (''item'', PDict [
                       (''type'', PStr ''object''),
                       (''properties'', PDict [
                           (''resource'', PDict [
                               (''type'', PStr ''object''),
                               (''properties'', PDict [
                                   (''cpu'', PDict [(''type'', PStr ''integer'')]),
                                   (''disk_gb'', PDict [(''type'', PStr ''integer'')]),
                                   (''host'', PDict [(''type'', PStr ''string'')]),
                                   (''memory_mb'', PDict [(''type'', PStr ''integer'')]),
                                   (''project'', PDict [(''type'', PStr ''string'')])]),
                               (''additionalProperties'', PBool False),
                               (''required'', PList [
                                   PStr ''cpu'',
                                   PStr ''disk_gb'',
                                   PStr ''host'',
                                   PStr ''memory_mb'',
                                   PStr ''project''])])]),
                       (''additionalProperties'', PBool False),
                       (''required'', PList [PStr ''resource''])])])]),
           (''additionalProperties'', PBool False),
           (''required'', PList [PStr ''host''])])]"

definition hosts_startup_host :: py where
  "hosts_startup_host =
     PDict [
       (''status_code'', PList [PInt 200]),
       (''response_body'', PDict [
           (''type'', PStr ''object''),
           (''properties'', PDict [
               (''host'', PDict [(''type'', PStr ''string'')]),
               (''power_action'', PDict [(''enum'', PList [PStr ''startup''])])]),
           (''additionalProperties'', PBool False),
           (''required'', PList [PStr ''host'', PStr ''power_action''])])]"

definition hosts_shutdown_host :: py where
  "hosts_shutdown_host =
     (let x = hosts_startup_host;
          x = at_path [''response_body'', ''properties''] (py_set ''power_action'' (PDict [(''enum'', PList [PStr ''shutdown''])])) x
      in x)"

definition hosts_reboot_host :: py where
  "hosts_reboot_host =
     (let x = hosts_startup_host;
          x = at_path [''response_body'', ''properties''] (py_set ''power_action'' (PDict [(''enum'', PList [PStr ''reboot''])])) x
      in x)"

definition hosts_update_host :: py where
  "hosts_update_host =
     PDict [
       (''status_code'', PList [PInt 200]),
       (''response_body'', PDict [
           (''type'', PStr ''object''),
           (''properties'', PDict [
               (''host'', PDict [(''type'', PStr ''string'')]),
               (''maintenance_mode'', PDict [(''enum'', PList [PStr ''on_maintenance'', PStr ''off_maintenance''])]),
               (''status'', PDict [(''enum'', PList [PStr ''enabled'', PStr ''disabled''])])]),
           (''additionalProperties'', PBool False),
           (''required'', PList [PStr ''host'', PStr ''maintenance_mode'', PStr ''status''])])]"

definition hosts_schemas :: "(string \<times> py) list" where
  "hosts_schemas =
     [(''list_hosts'', hosts_list_hosts),
      (''get_host_detail'', hosts_get_host_detail),
      (''startup_host'', hosts_startup_host),
      (''shutdown_host'', hosts_shutdown_host),
      (''reboot_host'', hosts_reboot_host),
      (''update_host'', hosts_update_host)]"

section \<open>Hypervisors\<close>

definition hypervisors_get_hypervisor_statistics :: py where
  "hypervisors_get_hypervisor_statistics =
     PDict [
       (''status_code'', PList [PInt 200]),
       (''response_body'', PDict [
           (''type'', PStr ''object''),
           (''properties'', PDict [
               (''hypervisor_statistics'', PDict [
                   (''type'', PStr ''object''),
                   (''properties'', PDict [
                       (''count'', PDict [(''type'', PStr ''integer'')]),
                       (''current_workload'', PDict [(''type'', PStr ''integer'')]),
                       (''disk_available_least'', PDict [(''type'', PList [PStr ''integer'', PStr ''null''])]),
                       (''free_disk_gb'', PDict [(''type'', PStr ''integer'')]),
                       (''free_ram_mb'', PDict [(''type'', PStr ''integer'')]),
                       (''local_gb'', PDict [(''type'', PStr ''integer'')]),
                       (''local_gb_used'', PDict [(''type'', PStr ''integer'')]),
                       (''memory_mb'', PDict [(''type'', PStr ''integer'')]),
                       (''memory_mb_used'', PDict [(''type'', PStr ''integer'')]),
                       (''running_vms'', PDict [(''type'', PStr ''integer'')]),
                       (''vcpus'', PDict [(''type'', PStr ''integer'')]),
                       (''vcpus_used'', PDict [(''type'', PStr ''integer'')])]),
                   (''additionalProperties'', PBool False),
                   (''required'', PList [
                       PStr ''count'',
                       PStr ''current_workload'',
                       PStr ''disk_available_least'',
                       PStr ''free_disk_gb'',
                       PStr ''free_ram_mb'',
                       PStr ''local_gb'',
                       PStr ''local_gb_used'',
                       PStr ''memory_mb'',
                       PStr ''memory_mb_used'',
                       PStr ''running_vms'',
                       PStr ''vcpus'',
                       PStr ''vcpus_used''])])]),
           (''additionalProperties'', PBool False),
           (''required'', PList [PStr ''hypervisor_statistics''])])]"

definition hypervisors_hypervisor_detail :: py where
  "hypervisors_hypervisor_detail =
     PDict [
       (''type'', PStr ''object''),
       (''properties'', PDict [
           (''status'', PDict [(''type'', PStr ''string'')]),
           (''state'', PDict [(''type'', PStr ''string'')]),
           (''cpu_info'', PDict [(''type'', PStr ''string'')]),
           (''current_workload'', PDict [(''type'', PStr ''integer'')]),
           (''disk_available_least'', PDict [(''type'', PList [PStr ''integer'', PStr ''null''])]),
           (''host_ip'', parameter_types_ip_address),
           (''free_disk_gb'', PDict [(''type'', PStr ''integer'')]),
           (''free_ram_mb'', PDict [(''type'', PStr ''integer'')]),
           (''hypervisor_hostname'', PDict [(''type'', PStr ''string'')]),
           (''hypervisor_type'', PDict [(''type'', PStr ''string'')]),
           (''hypervisor_version'', PDict [(''type'', PStr ''integer'')]),
           (''id'', PDict [(''type'', PList [PStr ''integer'', PStr ''string''])]),
           (''local_gb'', PDict [(''type'', PStr ''integer'')]),
           (''local_gb_used'', PDict [(''type'', PStr ''integer'')]),
           (''memory_mb'', PDict [(''type'', PStr ''integer'')]),
           (''memory_mb_used'', PDict [(''type'', PStr ''integer'')]),
           (''running_vms'', PDict [(''type'', PStr ''integer'')]),
           (''service'', PDict [
               (''type'', PStr ''object''),
               (''properties'', PDict [
                   (''host'', PDict [(''type'', PStr ''string'')]),
                   (''id'', PDict [(''type'', PList [PStr ''integer'', PStr ''string''])]),
                   (''disabled_reason'', PDict [(''type'', PList [PStr ''string'', PStr ''null''])])]),
               (''additionalProperties'', PBool False),
               (''required'', PList [PStr ''host'', PStr ''id''])]),
           (''vcpus'', PDict [(''type'', PStr ''integer'')]),
           (''vcpus_used'', PDict [(''type'', PStr ''integer'')])]),
       (''additionalProperties'', PBool False),
       (''required'', PList [
           PStr ''cpu_info'',
           PStr ''current_workload'',
           PStr ''disk_available_least'',
           PStr ''host_ip'',
           PStr ''free_disk_gb'',
           PStr ''free_ram_mb'',
           PStr ''hypervisor_hostname'',
           PStr ''hypervisor_type'',
           PStr ''hypervisor_version'',
           PStr ''id'',
           PStr ''local_gb'',
           PStr ''local_gb_used'',
           PStr ''memory_mb'',
           PStr ''memory_mb_used'',
           PStr ''running_vms'',
           PStr ''service'',
           PStr ''vcpus'',
           PStr ''vcpus_used''])]"

definition hypervisors_list_hypervisors_detail :: py where
  "hypervisors_list_hypervisors_detail =
     PDict [
       (''status_code'', PList [PInt 200]),
       (''response_body'', PDict [
           (''type'', PStr ''object''),
           (''properties'', PDict [
               (''hypervisors'', PDict [(''type'', PStr ''array''), (''items'', hypervisors_hypervisor_detail)])]),
           (''additionalProperties'', PBool False),
           (''required'', PList [PStr ''hypervisors''])])]"

definition hypervisors_get_hypervisor :: py where
  "hypervisors_get_hypervisor =
     PDict [
       (''status_code'', PList [PInt 200]),
       (''response_body'', PDict [
           (''type'', PStr ''object''),
           (''properties'', PDict [(''hypervisor'', hypervisors_hypervisor_detail)]),
           (''additionalProperties'', PBool False),
           (''required'', PList [PStr ''hypervisor''])])]"

definition hypervisors_list_search_hypervisors :: py where
  "hypervisors_list_search_hypervisors =
     PDict [
       (''status_code'', PList [PInt 200]),
       (''response_body'', PDict [
           (''type'', PStr ''object''),
           (''properties'', PDict [
               (''hypervisors'', PDict [
                   (''type'', PStr ''array''),
                   (''items'', PDict [
                       (''type'', PStr ''object''),
                       (''properties'', PDict [
                           (''status'', PDict [(''type'', PStr ''string'')]),
                           (''state'', PDict [(''type'', PStr ''string'')]),
                           (''id'', PDict [(''type'', PList [PStr ''integer'', PStr ''string''])]),
                           (''hypervisor_hostname'', PDict [(''type'', PStr ''string'')])]),
                       (''additionalProperties'', PBool False),
                       (''required'', PList [PStr ''id'', PStr ''hypervisor_hostname''])])])]),
           (''additionalProperties'', PBool False),
           (''required'', PList [PStr ''hypervisors''])])]"

definition hypervisors_get_hypervisor_uptime :: py where
  "hypervisors_get_hypervisor_uptime =
     PDict [
       (''status_code'', PList [PInt 200]),
       (''response_body'', PDict [
           (''type'', PStr ''object''),
           (''properties'', PDict [
               (''hypervisor'', PDict [
                   (''type'', PStr ''object''),
                   (''properties'', PDict [
                       (''status'', PDict [(''type'', PStr ''string'')]),
                       (''state'', PDict [(''type'', PStr ''string'')]),
                       (''id'', PDict [(''type'', PList [PStr ''integer'', PStr ''string''])]),
                       (''hypervisor_hostname'', PDict [(''type'', PStr ''string'')]),
                       (''uptime'', PDict [(''type'', PStr ''string'')])]),
                   (''additionalProperties'', PBool False),
                   (''required'', PList [PStr ''id'', PStr ''hypervisor_hostname'', PStr ''uptime''])])]),
           (''additionalProperties'', PBool False),
           (''required'', PList [PStr ''hypervisor''])])]"

definition hypervisors_get_hypervisors_servers :: py where
  "hypervisors_get_hypervisors_servers =
     (let x = hypervisors_list_search_hypervisors;
          x = at_path [''response_body'', ''properties'', ''hypervisors'', ''items'', ''properties''] (py_set ''servers'' (PDict [
                  (''type'', PStr ''array''),
                  (''items'', PDict [
                      (''type'', PStr ''object''),
                      (''properties'', PDict [
                          (''uuid'', PDict [(''type'', PStr ''string'')]),
                          (''name'', PDict [(''type'', PStr ''string'')])]),
                      (''additionalProperties'', PBool False)])])) x
      in x)"

definition hypervisors_schemas :: "(string \<times> py) list" where
  "hypervisors_schemas =
     [(''get_hypervisor_statistics'', hypervisors_get_hypervisor_statistics),
      (''list_hypervisors_detail'', hypervisors_list_hypervisors_detail),
      (''get_hypervisor'', hypervisors_get_hypervisor),
      (''list_search_hypervisors'', hypervisors_list_search_hypervisors),
      (''get_hypervisor_uptime'', hypervisors_get_hypervisor_uptime),
      (''get_hypervisors_servers'', hypervisors_get_hypervisors_servers)]"

section \<open>Instance usage audit logs\<close>

definition instance_usage_audit_logs_common_instance_usage_audit_log :: py where
  "instance_usage_audit_logs_common_instance_usage_audit_log =
     PDict [
       (''type'', PStr ''object''),
       (''properties'', PDict [
           (''hosts_not_run'', PDict [(''type'', PStr ''array''), (''items'', PDict [(''type'', PStr ''string'')])]),
           (''log'', PDict [(''type'', PStr ''object'')]),
           (''num_hosts'', PDict [(''type'', PStr ''integer'')]),
           (''num_hosts_done'', PDict [(''type'', PStr ''integer'')]),
           (''num_hosts_not_run'', PDict [(''type'', PStr ''integer'')]),
           (''num_hosts_running'', PDict [(''type'', PStr ''integer'')]),
           (''overall_status'', PDict [(''type'', PStr ''string'')]),
           (''period_beginning'', PDict [(''type'', PStr ''string'')]),
           (''period_ending'', PDict [(''type'', PStr ''string'')]),
           (''total_errors'', PDict [(''type'', PStr ''integer'')]),
           (''total_instances'', PDict [(''type'', PStr ''integer'')])]),
       (''additionalProperties'', PBool False),
       (''required'', PList [
           PStr ''hosts_not_run'',
           PStr ''log'',
           PStr ''num_hosts'',
           PStr ''num_hosts_done'',
           PStr ''num_hosts_not_run'',
           PStr ''num_hosts_running'',
           PStr ''overall_status'',
           PStr ''period_beginning'',
           PStr ''period_ending'',
           PStr ''total_errors'',
           PStr ''total_instances''])]"

definition instance_usage_audit_logs_get_instance_usage_audit_log :: py where
  "instance_usage_audit_logs_get_instance_usage_audit_log =
     PDict [
       (''status_code'', PList [PInt 200]),
       (''response_body'', PDict [
           (''type'', PStr ''object''),
           (''properties'', PDict [(''instance_usage_audit_log'', instance_usage_audit_logs_common_instance_usage_audit_log)]),
           (''additionalProperties'', PBool False),
           (''required'', PList [PStr ''instance_usage_audit_log''])])]"

definition instance_usage_audit_logs_list_instance_usage_audit_log :: py where
  "instance_usage_audit_logs_list_instance_usage_audit_log =
     PDict [
       (''status_code'', PList [PInt 200]),
       (''response_body'', PDict [
           (''type'', PStr ''object''),
           (''properties'', PDict [(''instance_usage_audit_logs'', instance_usage_audit_logs_common_instance_usage_audit_log)]),
           (''additionalProperties'', PBool False),
           (''required'', PList [PStr ''instance_usage_audit_logs''])])]"

definition instance_usage_audit_logs_schemas :: "(string \<times> py) list" where
  "instance_usage_audit_logs_schemas =
     [(''get_instance_usage_audit_log'', instance_usage_audit_logs_get_instance_usage_audit_log),
      (''list_instance_usage_audit_log'', instance_usage_audit_logs_list_instance_usage_audit_log)]"

section \<open>Interfaces\<close>

definition interfaces_interface_common_info :: py where
  "interfaces_interface_common_info =
     PDict [
       (''type'', PStr ''object''),
       (''properties'', PDict [
           (''port_state'', PDict [(''type'', PStr ''string'')]),
           (''fixed_ips'', PDict [
               (''type'', PStr ''array''),
               (''items'', PDict [
                   (''type'', PStr ''object''),
                   (''properties'', PDict [
                       (''subnet_id'', PDict [(''type'', PStr ''string''), (''format'', PStr ''uuid'')]),
                       (''ip_address'', parameter_types_ip_address)]),
                   (''additionalProperties'', PBool False),
                   (''required'', PList [PStr ''subnet_id'', PStr ''ip_address''])])]),
           (''port_id'', PDict [(''type'', PStr ''string''), (''format'', PStr ''uuid'')]),
           (''net_id'', PDict [(''type'', PStr ''string''), (''format'', PStr ''uuid'')]),
           (''mac_addr'', parameter_types_mac_address)]),
       (''additionalProperties'', PBool False),
       (''required'', PList [PStr ''port_state'', PStr ''fixed_ips'', PStr ''port_id'', PStr ''net_id'', PStr ''mac_addr''])]"

definition interfaces_get_create_interfaces :: py where
  "interfaces_get_create_interfaces =
     PDict [
       (''status_code'', PList [PInt 200]),
       (''response_body'', PDict [
           (''type'', PStr ''object''),
           (''properties'', PDict [(''interfaceAttachment'', interfaces_interface_common_info)]),
           (''additionalProperties'', PBool False),
           (''required'', PList [PStr ''interfaceAttachment''])])]"

definition interfaces_list_interfaces :: py where
  "interfaces_list_interfaces =
     PDict [
       (''status_code'', PList [PInt 200]),
       (''response_body'', PDict [
           (''type'', PStr ''object''),
           (''properties'', PDict [
               (''interfaceAttachments'', PDict [(''type'', PStr ''array''), (''items'', interfaces_interface_common_info)])]),
           (''additionalProperties'', PBool False),
           (''required'', PList [PStr ''interfaceAttachments''])])]"

definition interfaces_delete_interface :: py where
  "interfaces_delete_interface =
     PDict [(''status_code'', PList [PInt 202])]"

definition interfaces_schemas :: "(string \<times> py) list" where
  "interfaces_schemas =
     [(''get_create_interfaces'', interfaces_get_create_interfaces),
      (''list_interfaces'', interfaces_list_interfaces),
      (''delete_interface'', interfaces_delete_interface)]"

end
