(* ===== verification/NovaSchemas2.thy ===== *)
theory NovaSchemas2
  imports ServerSchemas
begin

text \<open>
  More schemas of answers of the compute service, \<open>automation/api_schema/response/compute/v2_1\<close>.
\<close>

section \<open>Keypairs\<close>

definition keypairs_get_keypair :: py where
  "keypairs_get_keypair =
     PDict [
       (''status_code'', PList [PInt 200]),
       (''response_body'', PDict [
           (''type'', PStr ''object''),
           (''properties'', PDict [
               (''keypair'', PDict [
                   (''type'', PStr ''object''),
                   (''properties'', PDict [
                       (''public_key'', PDict [(''type'', PStr ''string'')]),
                       (''name'', PDict [(''type'', PStr ''string'')]),
                       (''fingerprint'', PDict [(''type'', PStr ''string'')]),
                       (''user_id'', PDict [(''type'', PStr ''string'')]),
                       (''deleted'', PDict [(''type'', PStr ''boolean'')]),
                       (''created_at'', PDict [(''type'', PStr ''string'')]),
                       (''updated_at'', PDict [(''type'', PList [PStr ''string'', PStr ''null''])]),
                       (''deleted_at'', PDict [(''type'', PList [PStr ''string'', PStr ''null''])]),
                       (''id'', PDict [(''type'', PStr ''integer'')])]),
                   (''additionalProperties'', PBool False),
                   (''required'', PList [PStr ''public_key'', PStr ''name'', PStr ''fingerprint''])])]),
           (''additionalProperties'', PBool False),
           (''required'', PList [PStr ''keypair''])])]"

definition keypairs_create_keypair :: py where
  "keypairs_create_keypair =
     PDict [
       (''status_code'', PList [PInt 200]),
       (''response_body'', PDict [
           (''type'', PStr ''object''),
           (''properties'', PDict [
               (''keypair'', PDict [
                   (''type'', PStr ''object''),
                   (''properties'', PDict [
                       (''fingerprint'', PDict [(''type'', PStr ''string'')]),
                       (''name'', PDict [(''type'', PStr ''string'')]),
                       (''public_key'', PDict [(''type'', PStr ''string'')]),
                       (''user_id'', PDict [(''type'', PStr ''string'')]),
                       (''private_key'', PDict [(''type'', PStr ''string'')])]),
                   (''additionalProperties'', PBool False),
                   (''required'', PList [PStr ''fingerprint'', PStr ''name'', PStr ''public_key'', PStr ''user_id''])])]),
           (''additionalProperties'', PBool False),
           (''required'', PList [PStr ''keypair''])])]"

definition keypairs_delete_keypair :: py where
  "keypairs_delete_keypair =
     PDict [(''status_code'', PList [PInt 202])]"

definition keypairs_list_keypairs :: py where
  "keypairs_list_keypairs =
     PDict [
       (''status_code'', PList [PInt 200]),
       (''response_body'', PDict [
           (''type'', PStr ''object''),
           (''properties'', PDict [
               (''keypairs'', PDict [
                   (''type'', PStr ''array''),
                   (''items'', PDict [
                       (''type'', PStr ''object''),
                       (''properties'', PDict [
                           (''keypair'', PDict [
                               (''type'', PStr ''object''),
                               (''properties'', PDict [
                                   (''public_key'', PDict [(''type'', PStr ''string'')]),
                                   (''name'', PDict [(''type'', PStr ''string'')]),
                                   (''fingerprint'', PDict [(''type'', PStr ''string'')])]),
                               (''additionalProperties'', PBool False),
                               (''required'', PList [PStr ''public_key'', PStr ''name'', PStr ''fingerprint''])])]),
                       (''additionalProperties'', PBool False),
                       (''required'', PList [PStr ''keypair''])])])]),
           (''additionalProperties'', PBool False),
           (''required'', PList [PStr ''keypairs''])])]"

definition keypairs_schemas :: "(string \<times> py) list" where
  "keypairs_schemas =
     [(''get_keypair'', keypairs_get_keypair),
      (''create_keypair'', keypairs_create_keypair),
      (''delete_keypair'', keypairs_delete_keypair),
      (''list_keypairs'', keypairs_list_keypairs)]"

section \<open>Limits\<close>

definition limits_get_limit :: py where
  "limits_get_limit =
     PDict [
       (''status_code'', PList [PInt 200]),
       (''response_body'', PDict [
           (''type'', PStr ''object''),
           (''properties'', PDict [
               (''limits'', PDict [
                   (''type'', PStr ''object''),
                   (''properties'', PDict [
                       (''absolute'', PDict [
                           (''type'', PStr ''object''),
                           (''properties'', PDict [
                               (''maxTotalRAMSize'', PDict [(''type'', PStr ''integer'')]),
                               (''totalCoresUsed'', PDict [(''type'', PStr ''integer'')]),
                               (''maxTotalInstances'', PDict [(''type'', PStr ''integer'')]),
                               (''maxTotalFloatingIps'', PDict [(''type'', PStr ''integer'')]),
                               (''totalSecurityGroupsUsed'', PDict [(''type'', PStr ''integer'')]),
                               (''maxTotalCores'', PDict [(''type'', PStr ''integer'')]),
                               (''totalFloatingIpsUsed'', PDict [(''type'', PStr ''integer'')]),
                               (''maxSecurityGroups'', PDict [(''type'', PStr ''integer'')]),
                               (''maxServerMeta'', PDict [(''type'', PStr ''integer'')]),
                               (''maxPersonality'', PDict [(''type'', PStr ''integer'')]),
                               (''maxImageMeta'', PDict [(''type'', PStr ''integer'')]),
                               (''maxPersonalitySize'', PDict [(''type'', PStr ''integer'')]),
                               (''maxSecurityGroupRules'', PDict [(''type'', PStr ''integer'')]),
                               (''maxTotalKeypairs'', PDict [(''type'', PStr ''integer'')]),
                               (''totalRAMUsed'', PDict [(''type'', PStr ''integer'')]),
                               (''totalInstancesUsed'', PDict [(''type'', PStr ''integer'')]),
                               (''maxServerGroupMembers'', PDict [(''type'', PStr ''integer'')]),
                               (''maxServerGroups'', PDict [(''type'', PStr ''integer'')]),
                               (''totalServerGroupsUsed'', PDict [(''type'', PStr ''integer'')])]),
                           (''additionalProperties'', PBool False),
                           (''required'', PList [
                               PStr ''maxImageMeta'',
                               PStr ''maxPersonality'',
                               PStr ''maxPersonalitySize'',
                               PStr ''maxSecurityGroupRules'',
                               PStr ''maxSecurityGroups'',
                               PStr ''maxServerMeta'',
                               PStr ''maxTotalCores'',
                               PStr ''maxTotalFloatingIps'',
                               PStr ''maxTotalInstances'',
                               PStr ''maxTotalKeypairs'',
                               PStr ''maxTotalRAMSize'',
                               PStr ''totalCoresUsed'',
                               PStr ''totalFloatingIpsUsed'',
                               PStr ''totalInstancesUsed'',
                               PStr ''totalRAMUsed'',
                               PStr ''totalSecurityGroupsUsed''])]),
                       (''rate'', PDict [
                           (''type'', PStr ''array''),
                           (''items'', PDict [
                               (''type'', PStr ''object''),
                               (''properties'', PDict [
                                   (''limit'', PDict [
                                       (''type'', PStr ''array''),
                                       (''items'', PDict [
                                           (''type'', PStr ''object''),
                                           (''properties'', PDict [
                                               (''next-available'', PDict [(''type'', PStr ''string'')]),
                                               (''remaining'', PDict [(''type'', PStr ''integer'')]),
                                               (''unit'', PDict [(''type'', PStr ''string'')]),
                                               (''value'', PDict [(''type'', PStr ''integer'')]),
                                               (''verb'', PDict [(''type'', PStr ''string'')])]),
                                           (''additionalProperties'', PBool False)])]),
                                   (''regex'', PDict [(''type'', PStr ''string'')]),
                                   (''uri'', PDict [(''type'', PStr ''string'')])]),
                               (''additionalProperties'', PBool False)])])]),
                   (''additionalProperties'', PBool False),
                   (''required'', PList [PStr ''absolute'', PStr ''rate''])])]),
           (''additionalProperties'', PBool False),
           (''required'', PList [PStr ''limits''])])]"

definition limits_schemas :: "(string \<times> py) list" where
  "limits_schemas =
     [(''get_limit'', limits_get_limit)]"

section \<open>Migrations\<close>

definition migrations_list_migrations :: py where
  "migrations_list_migrations =
     PDict [
       (''status_code'', PList [PInt 200]),
       (''response_body'', PDict [
           (''type'', PStr ''object''),
           (''properties'', PDict [
               (''migrations'', PDict [
                   (''type'', PStr ''array''),
                   (''items'', PDict [
                       (''type'', PStr ''object''),
                       (''properties'', PDict [
                           (''id'', PDict [(''type'', PStr ''integer'')]),
                           (''status'', PDict [(''type'', PList [PStr ''string'', PStr ''null''])]),
                           (''instance_uuid'', PDict [(''type'', PList [PStr ''string'', PStr ''null''])]),
                           (''source_node'', PDict [(''type'', PList [PStr ''string'', PStr ''null''])]),
                           (''source_compute'', PDict [(''type'', PList [PStr ''string'', PStr ''null''])]),
                           (''dest_node'', PDict [(''type'', PList [PStr ''string'', PStr ''null''])]),
                           (''dest_compute'', PDict [(''type'', PList [PStr ''string'', PStr ''null''])]),
                           (''dest_host'', PDict [(''type'', PList [PStr ''string'', PStr ''null''])]),
                           (''old_instance_type_id'', PDict [(''type'', PList [PStr ''integer'', PStr ''null''])]),
                           (''new_instance_type_id'', PDict [(''type'', PList [PStr ''integer'', PStr ''null''])]),
                           (''created_at'', PDict [(''type'', PStr ''string'')]),
                           (''updated_at'', PDict [(''type'', PList [PStr ''string'', PStr ''null''])])]),
                       (''additionalProperties'', PBool False),
                       (''required'', PList [
                           PStr ''id'',
                           PStr ''status'',
                           PStr ''instance_uuid'',
                           PStr ''source_node'',
                           PStr ''source_compute'',
                           PStr ''dest_node'',
                           PStr ''dest_compute'',
                           PStr ''dest_host'',
                           PStr ''old_instance_type_id'',
                           PStr ''new_instance_type_id'',
                           PStr ''created_at'',
                           PStr ''updated_at''])])])]),
           (''additionalProperties'', PBool False),
           (''required'', PList [PStr ''migrations''])])]"

definition migrations_schemas :: "(string \<times> py) list" where
  "migrations_schemas =
     [(''list_migrations'', migrations_list_migrations)]"

section \<open>Quotas\<close>

definition quotas_update_quota_set :: py where
  "quotas_update_quota_set =
     PDict [
       (''status_code'', PList [PInt 200]),
       (''response_body'', PDict [
           (''type'', PStr ''object''),
           (''properties'', PDict [
               (''quota_set'', PDict [
                   (''type'', PStr ''object''),
                   (''properties'', PDict [
                       (''instances'', PDict [(''type'', PStr ''integer'')]),
                       (''cores'', PDict [(''type'', PStr ''integer'')]),
                       (''ram'', PDict [(''type'', PStr ''integer'')]),
                       (''floating_ips'', PDict [(''type'', PStr ''integer'')]),
                       (''fixed_ips'', PDict [(''type'', PStr ''integer'')]),
                       (''metadata_items'', PDict [(''type'', PStr ''integer'')]),
                       (''key_pairs'', PDict [(''type'', PStr ''integer'')]),
                       (''security_groups'', PDict [(''type'', PStr ''integer'')]),
                       (''security_group_rules'', PDict [(''type'', PStr ''integer'')]),
                       (''server_group_members'', PDict [(''type'', PStr ''integer'')]),
                       (''server_groups'', PDict [(''type'', PStr ''integer'')]),
                       (''injected_files'', PDict [(''type'', PStr ''integer'')]),
                       (''injected_file_content_bytes'', PDict [(''type'', PStr ''integer'')]),
                       (''injected_file_path_bytes'', PDict [(''type'', PStr ''integer'')])]),
                   (''additionalProperties'', PBool False),
                   (''required'', PList [
                       PStr ''instances'',
                       PStr ''cores'',
                       PStr ''ram'',
                       PStr ''floating_ips'',
                       PStr ''fixed_ips'',
                       PStr ''metadata_items'',
                       PStr ''key_pairs'',
                       PStr ''security_groups'',
                       PStr ''security_group_rules'',
                       PStr ''injected_files'',
                       PStr ''injected_file_content_bytes'',
                       PStr ''injected_file_path_bytes''])])]),
           (''additionalProperties'', PBool False),
           (''required'', PList [PStr ''quota_set''])])]"

definition quotas_get_quota_set :: py where
  "quotas_get_quota_set =
     (let x = quotas_update_quota_set;
          x = at_path [''response_body'', ''properties'', ''quota_set'', ''properties''] (py_set ''id'' (PDict [(''type'', PStr ''string'')])) x;
          x = at_path [''response_body'', ''properties'', ''quota_set'', ''required''] (py_extend [PStr ''id'']) x
      in x)"

definition quotas_delete_quota :: py where
  "quotas_delete_quota =
     PDict [(''status_code'', PList [PInt 202])]"

definition quotas_schemas :: "(string \<times> py) list" where
  "quotas_schemas =
     [(''update_quota_set'', quotas_update_quota_set),
      (''get_quota_set'', quotas_get_quota_set),
      (''delete_quota'', quotas_delete_quota)]"

section \<open>Quota classes\<close>

definition quota_classes_get_quota_class_set :: py where
  "quota_classes_get_quota_class_set =
     (let x = quotas_get_quota_set;
          x = at_path [''response_body'', ''properties''] (py_move ''quota_set'' ''quota_class_set'') x;
          x = at_path [''response_body''] (py_set ''required'' (PList [PStr ''quota_class_set''])) x
      in x)"

definition quota_classes_update_quota_class_set :: py where
  "quota_classes_update_quota_class_set =
     (let x = quotas_update_quota_set;
          x = at_path [''response_body'', ''properties''] (py_move ''quota_set'' ''quota_class_set'') x;
          x = at_path [''response_body''] (py_set ''required'' (PList [PStr ''quota_class_set''])) x
      in x)"

definition quota_classes_schemas :: "(string \<times> py) list" where
  "quota_classes_schemas =
     [(''get_quota_class_set'', quota_classes_get_quota_class_set),
      (''update_quota_class_set'', quota_classes_update_quota_class_set)]"

section \<open>Security group default rule\<close>

definition security_group_default_rule_common_security_group_default_rule_info :: py where
  "security_group_default_rule_common_security_group_default_rule_info =
     PDict [
       (''type'', PStr ''object''),
       (''properties'', PDict [
           (''from_port'', PDict [(''type'', PStr ''integer'')]),
           (''id'', PDict [(''type'', PStr ''integer'')]),
           (''ip_protocol'', PDict [(''type'', PStr ''string'')]),
           (''ip_range'', PDict [
               (''type'', PStr ''object''),
               (''properties'', PDict [(''cidr'', PDict [(''type'', PStr ''string'')])]),
               (''additionalProperties'', PBool False),
               (''required'', PList [PStr ''cidr''])]),
           (''to_port'', PDict [(''type'', PStr ''integer'')])]),
       (''additionalProperties'', PBool False),
       (''required'', PList [PStr ''from_port'', PStr ''id'', PStr ''ip_protocol'', PStr ''ip_range'', PStr ''to_port''])]"

definition security_group_default_rule_create_get_security_group_default_rule :: py where
  "security_group_default_rule_create_get_security_group_default_rule =
     PDict [
       (''status_code'', PList [PInt 200]),
       (''response_body'', PDict [
           (''type'', PStr ''object''),
           (''properties'', PDict [
               (''security_group_default_rule'', security_group_default_rule_common_security_group_default_rule_info)]),
           (''additionalProperties'', PBool False),
           (''required'', PList [PStr ''security_group_default_rule''])])]"

definition security_group_default_rule_delete_security_group_default_rule :: py where
  "security_group_default_rule_delete_security_group_default_rule =
     PDict [(''status_code'', PList [PInt 204])]"

definition security_group_default_rule_list_security_group_default_rules :: py where
  "security_group_default_rule_list_security_group_default_rules =
     PDict [
       (''status_code'', PList [PInt 200]),
       (''response_body'', PDict [
           (''type'', PStr ''object''),
           (''properties'', PDict [
               (''security_group_default_rules'', PDict [
                   (''type'', PStr ''array''),
                   (''items'', security_group_default_rule_common_security_group_default_rule_info)])]),
           (''additionalProperties'', PBool False),
           (''required'', PList [PStr ''security_group_default_rules''])])]"

definition security_group_default_rule_schemas :: "(string \<times> py) list" where
  "security_group_default_rule_schemas =
     [(''create_get_security_group_default_rule'', security_group_default_rule_create_get_security_group_default_rule),
      (''delete_security_group_default_rule'', security_group_default_rule_delete_security_group_default_rule),
      (''list_security_group_default_rules'', security_group_default_rule_list_security_group_default_rules)]"

section \<open>Security groups\<close>

definition security_groups_common_security_group_rule :: py where
  "security_groups_common_security_group_rule =
     PDict [
       (''from_port'', PDict [(''type'', PList [PStr ''integer'', PStr ''null''])]),
       (''to_port'', PDict [(''type'', PList [PStr ''integer'', PStr ''null''])]),
       (''group'', PDict [
           (''type'', PStr ''object''),
           (''properties'', PDict [
               (''tenant_id'', PDict [(''type'', PStr ''string'')]),
               (''name'', PDict [(''type'', PStr ''string'')])]),
           (''additionalProperties'', PBool False)]),
       (''ip_protocol'', PDict [(''type'', PList [PStr ''string'', PStr ''null''])]),
       (''parent_group_id'', PDict [(''type'', PList [PStr ''string'', PStr ''integer'', PStr ''null''])]),
       (''ip_range'', PDict [
           (''type'', PStr ''object''),
           (''properties'', PDict [(''cidr'', PDict [(''type'', PStr ''string'')])]),
           (''additionalProperties'', PBool False)]),
       (''id'', PDict [(''type'', PList [PStr ''string'', PStr ''integer''])])]"

definition security_groups_common_security_group :: py where
  "security_groups_common_security_group =
     PDict [
       (''type'', PStr ''object''),
       (''properties'', PDict [
           (''id'', PDict [(''type'', PList [PStr ''integer'', PStr ''string''])]),
           (''name'', PDict [(''type'', PStr ''string'')]),
           (''tenant_id'', PDict [(''type'', PStr ''string'')]),
           (''rules'', PDict [
               (''type'', PStr ''array''),
               (''items'', PDict [
                   (''type'', PList [PStr ''object'', PStr ''null'']),
                   (''properties'', security_groups_common_security_group_rule),
                   (''additionalProperties'', PBool False)])]),
           (''description'', PDict [(''type'', PStr ''string'')])]),
       (''additionalProperties'', PBool False),
       (''required'', PList [PStr ''id'', PStr ''name'', PStr ''tenant_id'', PStr ''rules'', PStr ''description''])]"

definition security_groups_list_security_groups :: py where
  "security_groups_list_security_groups =
     PDict [
       (''status_code'', PList [PInt 200]),
       (''response_body'', PDict [
           (''type'', PStr ''object''),
           (''properties'', PDict [
               (''security_groups'', PDict [(''type'', PStr ''array''), (''items'', security_groups_common_security_group)])]),
           (''additionalProperties'', PBool False),
           (''required'', PList [PStr ''security_groups''])])]"

definition security_groups_get_security_group :: py where
  "security_groups_get_security_group =
     PDict [
       (''status_code'', PList [PInt 200]),
       (''response_body'', PDict [
           (''type'', PStr ''object''),
           (''properties'', PDict [(''security_group'', security_groups_common_security_group)]),
           (''additionalProperties'', PBool False),
           (''required'', PList [PStr ''security_group''])])]"

definition security_groups_delete_security_group :: py where
  "security_groups_delete_security_group =
     PDict [(''status_code'', PList [PInt 202])]"

definition security_groups_create_security_group_rule :: py where
  "security_groups_create_security_group_rule =
     PDict [
       (''status_code'', PList [PInt 200]),
       (''response_body'', PDict [
           (''type'', PStr ''object''),
           (''properties'', PDict [
               (''security_group_rule'', PDict [
                   (''type'', PStr ''object''),
                   (''properties'', security_groups_common_security_group_rule),
                   (''additionalProperties'', PBool False),
                   (''required'', PList [
                       PStr ''from_port'',
                       PStr ''to_port'',
                       PStr ''group'',
                       PStr ''ip_protocol'',
                       PStr ''parent_group_id'',
                       PStr ''id'',
                       PStr ''ip_range''])])]),
           (''additionalProperties'', PBool False),
           (''required'', PList [PStr ''security_group_rule''])])]"

definition security_groups_delete_security_group_rule :: py where
  "security_groups_delete_security_group_rule =
     PDict [(''status_code'', PList [PInt 202])]"

definition security_groups_schemas :: "(string \<times> py) list" where
  "security_groups_schemas =
     [(''list_security_groups'', security_groups_list_security_groups),
      (''get_security_group'', security_groups_get_security_group),
      (''delete_security_group'', security_groups_delete_security_group),
      (''create_security_group_rule'', security_groups_create_security_group_rule),
      (''delete_security_group_rule'', security_groups_delete_security_group_rule)]"

section \<open>Services\<close>

definition services_list_services :: py where
  "services_list_services =
     PDict [
       (''status_code'', PList [PInt 200]),
       (''response_body'', PDict [
           (''type'', PStr ''object''),
           (''properties'', PDict [
               (''services'', PDict [
                   (''type'', PStr ''array''),
                   (''items'', PDict [
                       (''type'', PStr ''object''),
                       (''properties'', PDict [
                           (''id'', PDict [
                               (''type'', PList [PStr ''integer'', PStr ''string'']),
                               (''pattern'', PStr ''^[a-zA-Z!]*@[0-9]+$'')]),
                           (''zone'', PDict [(''type'', PStr ''string'')]),
                           (''host'', PDict [(''type'', PStr ''string'')]),
                           (''state'', PDict [(''type'', PStr ''string'')]),
                           (''binary'', PDict [(''type'', PStr ''string'')]),
                           (''status'', PDict [(''type'', PStr ''string'')]),
                           (''updated_at'', PDict [(''type'', PList [PStr ''string'', PStr ''null''])]),
                           (''disabled_reason'', PDict [(''type'', PList [PStr ''string'', PStr ''null''])])]),
                       (''additionalProperties'', PBool False),
                       (''required'', PList [
                           PStr ''id'',
                           PStr ''zone'',
                           PStr ''host'',
                           PStr ''state'',
                           PStr ''binary'',
                           PStr ''status'',
                           PStr ''updated_at'',
                           PStr ''disabled_reason''])])])]),
           (''additionalProperties'', PBool False),
           (''required'', PList [PStr ''services''])])]"

definition services_enable_service :: py where
  "services_enable_service =
     PDict [
       (''status_code'', PList [PInt 200]),
       (''response_body'', PDict [
           (''type'', PStr ''object''),
           (''properties'', PDict [
               (''service'', PDict [
                   (''type'', PStr ''object''),
                   (''properties'', PDict [
                       (''status'', PDict [(''type'', PStr ''string'')]),
                       (''binary'', PDict [(''type'', PStr ''string'')]),
                       (''host'', PDict [(''type'', PStr ''string'')])]),
                   (''additionalProperties'', PBool False),
                   (''required'', PList [PStr ''status'', PStr ''binary'', PStr ''host''])])]),
           (''additionalProperties'', PBool False),
           (''required'', PList [PStr ''service''])])]"

definition services_schemas :: "(string \<times> py) list" where
  "services_schemas =
     [(''list_services'', services_list_services),
      (''enable_service'', services_enable_service)]"

section \<open>Tenant networks\<close>

definition tenant_networks_param_network :: py where
  "tenant_networks_param_network =
     PDict [
       (''type'', PStr ''object''),
       (''properties'', PDict [
           (''id'', PDict [(''type'', PStr ''string'')]),
           (''cidr'', PDict [(''type'', PList [PStr ''string'', PStr ''null''])]),
           (''label'', PDict [(''type'', PStr ''string'')])]),
       (''additionalProperties'', PBool False),
       (''required'', PList [PStr ''id'', PStr ''cidr'', PStr ''label''])]"

definition tenant_networks_list_tenant_networks :: py where
  "tenant_networks_list_tenant_networks =
     PDict [
       (''status_code'', PList [PInt 200]),
       (''response_body'', PDict [
           (''type'', PStr ''object''),
           (''properties'', PDict [
               (''networks'', PDict [(''type'', PStr ''array''), (''items'', tenant_networks_param_network)])]),
           (''additionalProperties'', PBool False),
           (''required'', PList [PStr ''networks''])])]"

definition tenant_networks_get_tenant_network :: py where
  "tenant_networks_get_tenant_network =
     PDict [
       (''status_code'', PList [PInt 200]),
       (''response_body'', PDict [
           (''type'', PStr ''object''),
           (''properties'', PDict [(''network'', tenant_networks_param_network)]),
           (''additionalProperties'', PBool False),
           (''required'', PList [PStr ''network''])])]"

definition tenant_networks_schemas :: "(string \<times> py) list" where
  "tenant_networks_schemas =
     [(''list_tenant_networks'', tenant_networks_list_tenant_networks),
      (''get_tenant_network'', tenant_networks_get_tenant_network)]"

section \<open>Tenant usages\<close>

definition tenant_usages_server_usages :: py where
  "tenant_usages_server_usages =
     PDict [
       (''type'', PStr ''array''),
       (''items'', PDict [
           (''type'', PStr ''object''),
           (''properties'', PDict [
               (''ended_at'', PDict [
                   (''oneOf'', PList [PDict [(''type'', PStr ''string'')], PDict [(''type'', PStr ''null'')]])]),
               (''flavor'', PDict [(''type'', PStr ''string'')]),
               (''hours'', PDict [(''type'', PStr ''number'')]),
               (''instance_id'', PDict [(''type'', PStr ''string'')]),
               (''local_gb'', PDict [(''type'', PStr ''integer'')]),
               (''memory_mb'', PDict [(''type'', PStr ''integer'')]),
               (''name'', PDict [(''type'', PStr ''string'')]),
               (''started_at'', PDict [(''type'', PStr ''string'')]),
               (''state'', PDict [(''type'', PStr ''string'')]),
               (''tenant_id'', PDict [(''type'', PStr ''string'')]),
               (''uptime'', PDict [(''type'', PStr ''integer'')]),
               (''vcpus'', PDict [(''type'', PStr ''integer'')])]),
           (''required'', PList [
               PStr ''ended_at'',
               PStr ''flavor'',
               PStr ''hours'',
               PStr ''instance_id'',
               PStr ''local_gb'',
               PStr ''memory_mb'',
               PStr ''name'',
               PStr ''started_at'',
               PStr ''state'',
               PStr ''tenant_id'',
               PStr ''uptime'',
               PStr ''vcpus''])])]"

definition tenant_usages_tenant_usage_list :: py where
  "tenant_usages_tenant_usage_list =
     PDict [
       (''type'', PStr ''object''),
       (''properties'', PDict [
           (''server_usages'', tenant_usages_server_usages),
           (''start'', PDict [(''type'', PStr ''string'')]),
           (''stop'', PDict [(''type'', PStr ''string'')]),
           (''tenant_id'', PDict [(''type'', PStr ''string'')]),
           (''total_hours'', PDict [(''type'', PStr ''number'')]),
           (''total_local_gb_usage'', PDict [(''type'', PStr ''number'')]),
           (''total_memory_mb_usage'', PDict [(''type'', PStr ''number'')]),
           (''total_vcpus_usage'', PDict [(''type'', PStr ''number'')])]),
       (''required'', PList [
           PStr ''start'',
           PStr ''stop'',
           PStr ''tenant_id'',
           PStr ''total_hours'',
           PStr ''total_local_gb_usage'',
           PStr ''total_memory_mb_usage'',
           PStr ''total_vcpus_usage''])]"

definition tenant_usages_tenant_usage_get :: py where
  "tenant_usages_tenant_usage_get =
     (let x = tenant_usages_tenant_usage_list;
          x = py_set ''required'' (PList [
                  PStr ''server_usages'',
                  PStr ''start'',
                  PStr ''stop'',
                  PStr ''tenant_id'',
                  PStr ''total_hours'',
                  PStr ''total_local_gb_usage'',
                  PStr ''total_memory_mb_usage'',
                  PStr ''total_vcpus_usage'']) x
      in x)"

definition tenant_usages_list_tenant_usage :: py where
  "tenant_usages_list_tenant_usage =
     PDict [
       (''status_code'', PList [PInt 200]),
       (''response_body'', PDict [
           (''type'', PStr ''object''),
           (''properties'', PDict [
               (''tenant_usages'', PDict [(''type'', PStr ''array''), (''items'', tenant_usages_tenant_usage_list)])]),
           (''required'', PList [PStr ''tenant_usages''])])]"

definition tenant_usages_get_tenant_usage :: py where
  "tenant_usages_get_tenant_usage =
     PDict [
       (''status_code'', PList [PInt 200]),
       (''response_body'', PDict [
           (''type'', PStr ''object''),
           (''properties'', PDict [(''tenant_usage'', tenant_usages_tenant_usage_get)]),
           (''required'', PList [PStr ''tenant_usage''])])]"

definition tenant_usages_schemas :: "(string \<times> py) list" where
  "tenant_usages_schemas =
     [(''list_tenant_usage'', tenant_usages_list_tenant_usage),
      (''get_tenant_usage'', tenant_usages_get_tenant_usage)]"

section \<open>Version\<close>

definition version_version :: py where
  "version_version =
     PDict [
       (''status_code'', PList [PInt 200]),
       (''response_body'', PDict [
           (''type'', PStr ''object''),
           (''properties'', PDict [
               (''version'', PDict [
                   (''type'', PStr ''object''),
                   (''properties'', PDict [
                       (''id'', PDict [(''type'', PStr ''string'')]),
                       (''links'', PDict [
                           (''type'', PStr ''array''),
                           (''items'', PDict [
                               (''type'', PStr ''object''),
                               (''properties'', PDict [
                                   (''href'', PDict [(''type'', PStr ''string''), (''format'', PStr ''uri'')]),
                                   (''rel'', PDict [(''type'', PStr ''string'')]),
                                   (''type'', PDict [(''type'', PStr ''string'')])]),
                               (''required'', PList [PStr ''href'', PStr ''rel''])])]),
                       (''media-types'', PDict [
                           (''type'', PStr ''array''),
                           (''items'', PDict [
                               (''type'', PStr ''object''),
                               (''properties'', PDict [
                                   (''base'', PDict [(''type'', PStr ''string'')]),
                                   (''type'', PDict [(''type'', PStr ''string'')])]),
                               (''required'', PList [PStr ''base'', PStr ''type''])])]),
                       (''status'', PDict [(''type'', PStr ''string'')]),
                       (''updated'', PDict [(''type'', PStr ''string''), (''format'', PStr ''date-time'')]),
                       (''version'', PDict [(''type'', PStr ''string'')]),
                       (''min_version'', PDict [(''type'', PStr ''string'')])]),
                   (''required'', PList [
                       PStr ''id'',
                       PStr ''links'',
                       PStr ''media-types'',
                       PStr ''status'',
                       PStr ''updated''])])]),
           (''required'', PList [PStr ''version''])])]"

definition version_schemas :: "(string \<times> py) list" where
  "version_schemas =
     [(''version'', version_version)]"

section \<open>Volumes\<close>

definition volumes_create_get_volume :: py where
  "volumes_create_get_volume =
     PDict [
       (''status_code'', PList [PInt 200]),
       (''response_body'', PDict [
           (''type'', PStr ''object''),
           (''properties'', PDict [
               (''volume'', PDict [
                   (''type'', PStr ''object''),
                   (''properties'', PDict [
                       (''id'', PDict [(''type'', PStr ''string'')]),
                       (''status'', PDict [(''type'', PStr ''string'')]),
                       (''displayName'', PDict [(''type'', PList [PStr ''string'', PStr ''null''])]),
                       (''availabilityZone'', PDict [(''type'', PStr ''string'')]),
                       (''createdAt'', PDict [(''type'', PStr ''string'')]),
                       (''displayDescription'', PDict [(''type'', PList [PStr ''string'', PStr ''null''])]),
                       (''volumeType'', PDict [(''type'', PList [PStr ''string'', PStr ''null''])]),
                       (''snapshotId'', PDict [(''type'', PList [PStr ''string'', PStr ''null''])]),
                       (''metadata'', PDict [(''type'', PStr ''object'')]),
                       (''size'', PDict [(''type'', PStr ''integer'')]),
                       (''attachments'', PDict [
                           (''type'', PStr ''array''),
                           (''items'', PDict [
                               (''type'', PStr ''object''),
                               (''properties'', PDict [
                                   (''id'', PDict [(''type'', PStr ''string'')]),
                                   (''device'', PDict [(''type'', PStr ''string'')]),
                                   (''volumeId'', PDict [(''type'', PStr ''string'')]),
                                   (''serverId'', PDict [(''type'', PStr ''string'')])]),
                               (''additionalProperties'', PBool False)])])]),
                   (''additionalProperties'', PBool False),
                   (''required'', PList [
                       PStr ''id'',
                       PStr ''status'',
                       PStr ''displayName'',
                       PStr ''availabilityZone'',
                       PStr ''createdAt'',
                       PStr ''displayDescription'',
                       PStr ''volumeType'',
                       PStr ''snapshotId'',
                       PStr ''metadata'',
                       PStr ''size'',
                       PStr ''attachments''])])]),
           (''additionalProperties'', PBool False),
           (''required'', PList [PStr ''volume''])])]"

definition volumes_list_volumes :: py where
  "volumes_list_volumes =
     PDict [
       (''status_code'', PList [PInt 200]),
       (''response_body'', PDict [
           (''type'', PStr ''object''),
           (''properties'', PDict [
               (''volumes'', PDict [
                   (''type'', PStr ''array''),
                   (''items'', PDict [
                       (''type'', PStr ''object''),
                       (''properties'', PDict [
                           (''id'', PDict [(''type'', PStr ''string'')]),
                           (''status'', PDict [(''type'', PStr ''string'')]),
                           (''displayName'', PDict [(''type'', PList [PStr ''string'', PStr ''null''])]),
                           (''availabilityZone'', PDict [(''type'', PStr ''string'')]),
                           (''createdAt'', PDict [(''type'', PStr ''string'')]),
                           (''displayDescription'', PDict [(''type'', PList [PStr ''string'', PStr ''null''])]),
                           (''volumeType'', PDict [(''type'', PList [PStr ''string'', PStr ''null''])]),
                           (''snapshotId'', PDict [(''type'', PList [PStr ''string'', PStr ''null''])]),
                           (''metadata'', PDict [(''type'', PStr ''object'')]),
                           (''size'', PDict [(''type'', PStr ''integer'')]),
                           (''attachments'', PDict [
                               (''type'', PStr ''array''),
                               (''items'', PDict [
                                   (''type'', PStr ''object''),
                                   (''properties'', PDict [
                                       (''id'', PDict [(''type'', PStr ''string'')]),
                                       (''device'', PDict [(''type'', PStr ''string'')]),
                                       (''volumeId'', PDict [(''type'', PStr ''string'')]),
                                       (''serverId'', PDict [(''type'', PStr ''string'')])]),
                                   (''additionalProperties'', PBool False)])])]),
                       (''additionalProperties'', PBool False),
                       (''required'', PList [
                           PStr ''id'',
                           PStr ''status'',
                           PStr ''displayName'',
                           PStr ''availabilityZone'',
                           PStr ''createdAt'',
                           PStr ''displayDescription'',
                           PStr ''volumeType'',
                           PStr ''snapshotId'',
                           PStr ''metadata'',
                           PStr ''size'',
                           PStr ''attachments''])])])]),
           (''additionalProperties'', PBool False),
           (''required'', PList [PStr ''volumes''])])]"

definition volumes_delete_volume :: py where
  "volumes_delete_volume =
     PDict [(''status_code'', PList [PInt 202])]"

definition volumes_schemas :: "(string \<times> py) list" where
  "volumes_schemas =
     [(''create_get_volume'', volumes_create_get_volume),
      (''list_volumes'', volumes_list_volumes),
      (''delete_volume'', volumes_delete_volume)]"

end
