(* ===== verification/OtherSchemas.thy ===== *)
theory OtherSchemas
  imports SchemaBase
begin

text \<open>
  The schemas of the answers of the message service, \<open>automation/api_schema/response/messaging/v1/queues.py\<close>, and the
  descriptions of the negative tests of flavors under \<open>automation/api_schema/request/compute\<close>.
\<close>

section \<open>Queues\<close>

definition queues_list_link :: py where
  "queues_list_link =
     PDict [
       (''type'', PStr ''object''),
       (''properties'', PDict [
           (''rel'', PDict [(''type'', PStr ''string'')]),
           (''href'', PDict [(''type'', PStr ''string''), (''format'', PStr ''uri'')])]),
       (''required'', PList [PStr ''href'', PStr ''rel''])]"

definition queues_list_queue :: py where
  "queues_list_queue =
     PDict [
       (''type'', PStr ''object''),
       (''properties'', PDict [
           (''name'', PDict [(''type'', PStr ''string'')]),
           (''href'', PDict [(''type'', PStr ''string''), (''format'', PStr ''uri'')]),
           (''metadata'', PDict [(''type'', PStr ''object'')])]),
       (''required'', PList [PStr ''name'', PStr ''href''])]"

definition queues_list_queues :: py where
  "queues_list_queues =
     PDict [
       (''status_code'', PList [PInt 200, PInt 204]),
       (''response_body'', PDict [
           (''type'', PStr ''object''),
           (''properties'', PDict [
               (''links'', PDict [(''type'', PStr ''array''), (''items'', queues_list_link), (''maxItems'', PInt 1)]),
               (''queues'', PDict [(''type'', PStr ''array''), (''items'', queues_list_queue)])]),
           (''required'', PList [PStr ''links'', PStr ''queues''])])]"

definition queues_age :: py where
  "queues_age =
     PDict [(''type'', PStr ''number''), (''minimum'', PInt 0)]"

definition queues_message_link :: py where
  "queues_message_link =
     PDict [
       (''type'', PStr ''object''),
       (''properties'', PDict [
           (''href'', PDict [(''type'', PStr ''string''), (''format'', PStr ''uri'')]),
           (''age'', queues_age),
           (''created'', PDict [(''type'', PStr ''string''), (''format'', PStr ''date-time'')])]),
       (''required'', PList [PStr ''href'', PStr ''age'', PStr ''created''])]"

definition queues_messages :: py where
  "queues_messages =
     PDict [
       (''type'', PStr ''object''),
       (''properties'', PDict [
           (''free'', PDict [(''type'', PStr ''number'')]),
           (''claimed'', PDict [(''type'', PStr ''number'')]),
           (''total'', PDict [(''type'', PStr ''number'')]),
           (''oldest'', queues_message_link),
           (''newest'', queues_message_link)]),
       (''required'', PList [PStr ''free'', PStr ''claimed'', PStr ''total''])]"

definition queues_queue_stats :: py where
  "queues_queue_stats =
     PDict [
       (''status_code'', PList [PInt 200]),
       (''response_body'', PDict [
           (''type'', PStr ''object''),
           (''properties'', PDict [(''messages'', queues_messages)]),
           (''required'', PList [PStr ''messages''])])]"

definition queues_resource_schema :: py where
  "queues_resource_schema =
     PDict [
       (''type'', PStr ''array''),
       (''items'', PDict [(''type'', PStr ''string'')]),
       (''minItems'', PInt 1)]"

definition queues_post_messages :: py where
  "queues_post_messages =
     PDict [
       (''status_code'', PList [PInt 201]),
       (''response_body'', PDict [
           (''type'', PStr ''object''),
           (''properties'', PDict [
               (''resources'', queues_resource_schema),
               (''partial'', PDict [(''type'', PStr ''boolean'')])])]),
       (''required'', PList [PStr ''resources'', PStr ''partial''])]"

definition queues_message_ttl :: py where
  "queues_message_ttl =
     PDict [(''type'', PStr ''number''), (''minimum'', PInt 1)]"

definition queues_list_messages_links :: py where
  "queues_list_messages_links =
     PDict [
       (''type'', PStr ''array''),
       (''maxItems'', PInt 1),
       (''minItems'', PInt 1),
       (''items'', PDict [
           (''type'', PStr ''object''),
           (''properties'', PDict [
               (''rel'', PDict [(''type'', PStr ''string'')]),
               (''href'', PDict [(''type'', PStr ''string'')])]),
           (''required'', PList [PStr ''rel'', PStr ''href''])])]"

definition queues_list_messages_response :: py where
  "queues_list_messages_response =
     PDict [
       (''type'', PStr ''array''),
       (''minItems'', PInt 1),
       (''items'', PDict [
           (''type'', PStr ''object''),
           (''properties'', PDict [
               (''href'', PDict [(''type'', PStr ''string'')]),
               (''ttl'', queues_message_ttl),
               (''age'', queues_age),
               (''body'', PDict [(''type'', PStr ''object'')])]),
           (''required'', PList [PStr ''href'', PStr ''ttl'', PStr ''age'', PStr ''body''])])]"

definition queues_list_messages :: py where
  "queues_list_messages =
     PDict [
       (''status_code'', PList [PInt 200, PInt 204]),
       (''response_body'', PDict [
           (''type'', PStr ''object''),
           (''properties'', PDict [(''links'', queues_list_messages_links), (''messages'', queues_list_messages_response)])]),
       (''required'', PList [PStr ''links'', PStr ''messages''])]"

definition queues_single_message :: py where
  "queues_single_message =
     PDict [
       (''type'', PStr ''object''),
       (''properties'', PDict [
           (''href'', PDict [(''type'', PStr ''string'')]),
           (''ttl'', queues_message_ttl),
           (''age'', queues_age),
           (''body'', PDict [(''type'', PStr ''object'')])]),
       (''required'', PList [PStr ''href'', PStr ''ttl'', PStr ''age'', PStr ''body''])]"

definition queues_get_single_message :: py where
  "queues_get_single_message =
     PDict [(''status_code'', PList [PInt 200]), (''response_body'', queues_single_message)]"

definition queues_get_multiple_messages :: py where
  "queues_get_multiple_messages =
     PDict [
       (''status_code'', PList [PInt 200]),
       (''response_body'', PDict [(''type'', PStr ''array''), (''items'', queues_single_message), (''minItems'', PInt 1)])]"

definition queues_messages_claimed :: py where
  "queues_messages_claimed =
     PDict [
       (''type'', PStr ''object''),
       (''properties'', PDict [
           (''href'', PDict [(''type'', PStr ''string''), (''format'', PStr ''uri'')]),
           (''ttl'', queues_message_ttl),
           (''age'', PDict [(''type'', PStr ''number'')]),
           (''body'', PDict [(''type'', PStr ''object'')])]),
       (''required'', PList [PStr ''href'', PStr ''ttl'', PStr ''age'', PStr ''body''])]"

definition queues_claim_messages :: py where
  "queues_claim_messages =
     PDict [
       (''status_code'', PList [PInt 201, PInt 204]),
       (''response_body'', PDict [(''type'', PStr ''array''), (''items'', queues_messages_claimed), (''minItems'', PInt 1)])]"

definition queues_claim_ttl :: py where
  "queues_claim_ttl =
     PDict [(''type'', PStr ''number''), (''minimum'', PInt 1)]"

definition queues_query_claim :: py where
  "queues_query_claim =
     PDict [
       (''status_code'', PList [PInt 200]),
       (''response_body'', PDict [
           (''type'', PStr ''object''),
           (''properties'', PDict [
               (''age'', PDict [(''type'', PStr ''number'')]),
               (''ttl'', queues_claim_ttl),
               (''messages'', PDict [(''type'', PStr ''array''), (''minItems'', PInt 1)])]),
           (''required'', PList [PStr ''ttl'', PStr ''age'', PStr ''messages''])])]"

definition queues_schemas :: "(string \<times> py) list" where
  "queues_schemas =
     [(''list_queues'', queues_list_queues),
      (''queue_stats'', queues_queue_stats),
      (''post_messages'', queues_post_messages),
      (''list_messages'', queues_list_messages),
      (''get_single_message'', queues_get_single_message),
      (''get_multiple_messages'', queues_get_multiple_messages),
      (''claim_messages'', queues_claim_messages),
      (''query_claim'', queues_query_claim)]"

section \<open>Flavors request\<close>

definition flavors_request_common_flavor_details :: py where
  "flavors_request_common_flavor_details =
     PDict [
       (''name'', PStr ''get-flavor-details''),
       (''http-method'', PStr ''GET''),
       (''url'', PStr ''flavors/%s''),
       (''resources'', PList [PDict [(''name'', PStr ''flavor''), (''expected_result'', PInt 404)]])]"

definition flavors_request_common_flavor_list :: py where
  "flavors_request_common_flavor_list =
     PDict [
       (''name'', PStr ''list-flavors-with-detail''),
       (''http-method'', PStr ''GET''),
       (''url'', PStr ''flavors/detail''),
       (''json-schema'', PDict [(''type'', PStr ''object''), (''properties'', PDict [])])]"

definition flavors_request_common_admin_flavor_create :: py where
  "flavors_request_common_admin_flavor_create =
     PDict [
       (''name'', PStr ''flavor-create''),
       (''http-method'', PStr ''POST''),
       (''admin_client'', PBool True),
       (''url'', PStr ''flavors''),
       (''default_result_code'', PInt 400),
       (''json-schema'', PDict [
           (''type'', PStr ''object''),
           (''properties'', PDict [
               (''flavor'', PDict [
                   (''type'', PStr ''object''),
                   (''properties'', PDict [
                       (''name'', PDict [
                           (''type'', PStr ''string''),
                           (''exclude_tests'', PList [PStr ''gen_str_min_length''])]),
                       (''ram'', PDict [(''type'', PStr ''integer''), (''minimum'', PInt 1)]),
                       (''vcpus'', PDict [(''type'', PStr ''integer''), (''minimum'', PInt 1)]),
                       (''disk'', PDict [(''type'', PStr ''integer'')]),
                       (''id'', PDict [
                           (''type'', PStr ''integer''),
                           (''exclude_tests'', PList [PStr ''gen_none'', PStr ''gen_string''])])])])])])]"

section \<open>Flavors v2\<close>

definition flavors_v2_flavors_details :: py where
  "flavors_v2_flavors_details =
     flavors_request_common_flavor_details"

definition flavors_v2_flavor_list :: py where
  "flavors_v2_flavor_list =
     (let x = flavors_request_common_flavor_list;
          x = at_path [''json-schema''] (py_set ''properties'' (PDict [
                  (''minRam'', PDict [
                      (''type'', PStr ''integer''),
                      (''results'', PDict [(''gen_none'', PInt 400), (''gen_string'', PInt 400)])]),
                  (''minDisk'', PDict [
                      (''type'', PStr ''integer''),
                      (''results'', PDict [(''gen_none'', PInt 400), (''gen_string'', PInt 400)])])])) x
      in x)"

definition flavors_v2_flavor_create :: py where
  "flavors_v2_flavor_create =
     flavors_request_common_admin_flavor_create"

end
