(* ===== verification/SchemaProps.thy ===== *)
theory SchemaProps
  imports ServerSchemas NovaSchemas NovaSchemas2 OtherSchemas TestServer ServersProps Demo
begin

text \<open>
  What the response schemas guarantee, and where they do not say what they mean to. A validator is assumed
  to do what JSON Schema asks (\<open>validates\<close>).
\<close>

section \<open>All response schemas\<close>

definition compute_schemas :: "(string \<times> py) list" where
  "compute_schemas =
     servers_schemas @ images_schemas @ agents_schemas @ aggregates_schemas @ availability_zone_schemas
     @ baremetal_nodes_schemas @ certificates_schemas @ extensions_schemas @ fixed_ips_schemas @ flavors_schemas
     @ flavors_access_schemas @ flavors_extra_specs_schemas @ floating_ips_schemas @ hosts_schemas
     @ hypervisors_schemas @ instance_usage_audit_logs_schemas @ interfaces_schemas @ keypairs_schemas
     @ limits_schemas @ migrations_schemas @ quotas_schemas @ quota_classes_schemas
     @ security_group_default_rule_schemas @ security_groups_schemas @ services_schemas @ tenant_networks_schemas
     @ tenant_usages_schemas @ version_schemas @ volumes_schemas"

definition ill_formed :: "(string \<times> py) list \<Rightarrow> string list" where
  "ill_formed names = map fst (filter (\<lambda>(n, s). \<not> response_schema_ok s) names)"

lemma ill_formed_append: "ill_formed (xs @ ys) = ill_formed xs @ ill_formed ys"
  by (simp add: ill_formed_def)

lemma ill_formed_split:
  "ill_formed xs = ill_formed (take 6 xs) @ ill_formed (take 3 (drop 6 xs)) @ ill_formed (drop 9 xs)"
proof -
  have "xs = take 6 xs @ take 3 (drop 6 xs) @ drop 9 xs"
    using append_take_drop_id [of 3 "drop 6 xs"] append_take_drop_id [of 6 xs] by simp
  then show ?thesis by (metis ill_formed_append)
qed

lemma servers_well_formed_parts:
  "ill_formed (take 6 servers_schemas) = []"
  "ill_formed (take 3 (drop 6 servers_schemas)) = []"
  "ill_formed (drop 9 servers_schemas) = []"
  by code_simp+

lemma servers_well_formed: "ill_formed servers_schemas = []"
  using servers_well_formed_parts ill_formed_split [of servers_schemas] by simp

lemma images_to_fixed_ips:
  "ill_formed (images_schemas @ agents_schemas @ aggregates_schemas @ availability_zone_schemas
     @ baremetal_nodes_schemas @ certificates_schemas @ extensions_schemas @ fixed_ips_schemas) = []"
  by code_simp

lemma flavors_to_hypervisors:
  "ill_formed (flavors_schemas @ flavors_access_schemas @ flavors_extra_specs_schemas @ floating_ips_schemas
     @ hosts_schemas @ hypervisors_schemas) = [''get_host_detail'']"
  by code_simp

lemma audit_to_quotas:
  "ill_formed (instance_usage_audit_logs_schemas @ interfaces_schemas @ keypairs_schemas @ limits_schemas
     @ migrations_schemas @ quotas_schemas @ quota_classes_schemas) = []"
  by code_simp

lemma security_to_volumes:
  "ill_formed (security_group_default_rule_schemas @ security_groups_schemas @ services_schemas
     @ tenant_networks_schemas @ tenant_usages_schemas @ version_schemas @ volumes_schemas) = []"
  by code_simp

lemma queues_ill_formed: "ill_formed queues_schemas = [''post_messages'', ''list_messages'']"
  by code_simp

text \<open>
  (schemas_well_formed): the response schemas are well-formed: they expect success codes only, have no keys that
  are never read, use only known keywords and types, and require only fields that they declare. The exceptions
  are three: the details of a host, with \<open>item\<close> for \<open>items\<close>, and two schemas of the message service that have
  \<open>required\<close> outside of the schema of the body.
\<close>

theorem schemas_well_formed:
  "ill_formed (compute_schemas @ queues_schemas) = [''get_host_detail'', ''post_messages'', ''list_messages'']"
  using servers_well_formed images_to_fixed_ips flavors_to_hypervisors audit_to_quotas security_to_volumes queues_ill_formed
  by (simp add: compute_schemas_def ill_formed_append)

section \<open>Answers that passed a schema\<close>

definition validates :: "'r env \<Rightarrow> checker \<Rightarrow> bool" where
  "validates env ck = (\<forall>body schema. (e_valid env body schema = None) = js_valid ck schema body)"

definition known_status :: "http_response \<Rightarrow> bool" where
  "known_status resp = (rs_status resp \<in> set (HTTP_SUCCESS @ HTTP_REDIRECTION))"

lemma known_status_200 [simp]: "rs_status resp = 200 \<Longrightarrow> known_status resp"
  by (simp add: known_status_def HTTP_SUCCESS_def)

lemma validated:
  assumes "validate_response env schema resp v = Inr ()" "known_status resp" "validates env ck"
  shows "rs_status resp \<in> set (exp_codes (sc_status schema))
     \<and> (truthy (sc_body schema) \<longrightarrow> js_valid ck (sc_body schema) v)"
proof -
  from assms(1,2) have "expected_success (sc_status schema) (rs_status resp) = Inr ()" "check_body env schema v = Inr ()"
    by (auto simp: validate_response_def known_status_def bindE_Inr_iff)
  moreover have "rs_status resp < 400"
    using assms(2) by (auto simp: known_status_def HTTP_SUCCESS_def HTTP_REDIRECTION_def)
  ultimately show ?thesis
    using assms(3) by (auto simp: expected_success_iff check_body_def validates_def split: option.splits if_splits)
qed

text \<open>What \<open>get_json\<close> returns under the key of a document with a schema.\<close>

lemma get_json_validated:
  assumes "get_json env rq url (Some schema) key w = (Inr b, w')" "known_status (rb_response b)" "validates env ck"
    and "truthy (sc_body schema)"
  obtains v part where "rs_status (rb_response b) \<in> set (exp_codes (sc_status schema))" "js_valid ck (sc_body schema) v"
    "(case key of None \<Rightarrow> Inr v | Some k \<Rightarrow> getitem v k) = Inr part" "response_dict (rb_response b) part = Inr b"
proof -
  obtain a w1 where "json_reply env (Some schema) key a = Inr b"
    using assms(1) by (auto simp: get_json_def elim!: bnd_InrE)
  then obtain v part where *: "validate_response env schema (fst a) v = Inr ()"
      "(case key of None \<Rightarrow> Inr v | Some k \<Rightarrow> getitem v k) = Inr part" "response_dict (fst a) part = Inr b"
    by (auto simp: json_reply_def json_part_def bindE_Inr_iff)
  from response_dict_response [OF *(3)] have resp: "rb_response b = fst a" .
  with validated [OF *(1) _ assms(3)] assms(2,4) * show thesis by (intro that) auto
qed

section \<open>Listed and shown servers\<close>

definition listed_schema :: py where
  "listed_schema = sc_body (module_schemas servers_schemas ''list_servers'')"

lemma listed_schema_guarantees:
  "truthy listed_schema \<and> guarantees listed_schema [''servers''] ''array''
   \<and> (case schema_at listed_schema [''servers''] of
        Some (PDict d) \<Rightarrow>
          (case dget d ''items'' of
             Some s \<Rightarrow> guarantees s [''id''] ''string'' \<and> guarantees s [''name''] ''string''
           | None \<Rightarrow> False)
      | _ \<Rightarrow> False)"
  by code_simp

lemma shown_schema_guarantees:
  "truthy (sc_body (module_schemas servers_schemas ''get_server''))
   \<and> guarantees (sc_body (module_schemas servers_schemas ''get_server'')) [''server'', ''id''] ''string''
   \<and> guarantees (sc_body (module_schemas servers_schemas ''get_server'')) [''server'', ''status''] ''string''
   \<and> sc_status (module_schemas servers_schemas ''get_server'') = Codes [200]"
  by code_simp

lemma value_at_one: "value_at v [k] = Some x \<longleftrightarrow> (\<exists>d. v = PDict d \<and> dget d k = Some x)"
  by (cases v) (auto split: option.splits)

lemma listed_schema_array:
  obtains a s where "schema_at listed_schema [''servers''] = Some (PDict a)" "dget a ''type'' = Some (PStr ''array'')"
    "dget a ''items'' = Some s" "guarantees s [''id''] ''string''" "guarantees s [''name''] ''string''"
proof -
  note g = listed_schema_guarantees
  obtain u where u: "schema_at listed_schema [''servers''] = Some u"
    using g by (cases "schema_at listed_schema [''servers'']") simp_all
  with g obtain a where a: "u = PDict a" by (cases u) simp_all
  with u g obtain s where s: "dget a ''items'' = Some s" by (cases "dget a ''items''") simp_all
  have "schema_type u = Some ''array''" using g u by (simp add: guarantees_def)
  then have "dget a ''type'' = Some (PStr ''array'')"
    unfolding a by (auto simp: schema_type_def split: option.splits py.splits)
  moreover have "guarantees s [''id''] ''string''" "guarantees s [''name''] ''string''"
    using g unfolding u option.case a py.case s by blast+
  ultimately show thesis using u a s by (intro that) simp_all
qed

lemma listed_servers_described:
  assumes "js_valid ck listed_schema v"
  obtains d ss where "v = PDict d" "dget d ''servers'' = Some (PList ss)"
    "\<forall>s \<in> set ss. \<exists>e i n. s = PDict e \<and> dget e ''id'' = Some (PStr i) \<and> dget e ''name'' = Some (PStr n)"
proof -
  obtain a s where a: "schema_at listed_schema [''servers''] = Some (PDict a)" "dget a ''items'' = Some s"
      and named: "guarantees s [''id''] ''string''" "guarantees s [''name''] ''string''"
      and arr: "dget a ''type'' = Some (PStr ''array'')"
    by (rule listed_schema_array)
  from value_at_schema [OF assms a(1)] obtain x where x: "value_at v [''servers''] = Some x" "js_valid ck (PDict a) x"
    by blast
  from js_valid_array [OF x(2) arr a(2)] obtain ss where ss: "x = PList ss" "\<forall>y \<in> set ss. js_valid ck s y" .
  have "\<exists>e i n. y = PDict e \<and> dget e ''id'' = Some (PStr i) \<and> dget e ''name'' = Some (PStr n)"
    if "y \<in> set ss" for y
  proof -
    from ss(2) that have y: "js_valid ck s y" by blast
    obtain i n where "value_at y [''id''] = Some (PStr i)" "value_at y [''name''] = Some (PStr n)"
      using guaranteed [OF y named(1)] guaranteed [OF y named(2)] unfolding has_type_string by metis
    then show ?thesis by (auto simp: value_at_one)
  qed
  with x(1) ss(1) show thesis by (auto simp: value_at_one intro: that)
qed

lemma filterE_filter:
  "(\<And>x. x \<in> set xs \<Longrightarrow> f x = Inr (g x)) \<Longrightarrow> filterE f xs = Inr (filter g xs)"
  by (induction xs) auto

text \<open>
  (named_servers_selected): with a validator that does what JSON Schema asks, selecting the servers that were
  created together cannot fail. Once the list is received, it is a list of servers with texts as names and
  ids, and the result is the servers whose name starts with the given one.
\<close>

theorem named_servers_selected:
  assumes "validates env ck" "dhas kwargs ''min_count''"
    and "list_servers env (module_schemas servers_schemas) rq False [] w = (Inr b, w')" "known_status (rb_response b)"
  shows "\<exists>ss. dget (rb_data b) ''servers'' = Some (PList ss)
     \<and> created_servers env (module_schemas servers_schemas) rq name kwargs body w
         = (Inr (filter (\<lambda>s. \<exists>n. value_at s [''name''] = Some (PStr n) \<and> take (length name) n = name) ss), w')
     \<and> (\<forall>s \<in> set ss. \<exists>i. value_at s [''id''] = Some (PStr i))"
proof -
  have get: "get_json env rq (''servers'') (Some (module_schemas servers_schemas ''list_servers'')) None w = (Inr b, w')"
    using assms(3) by (simp add: list_servers_def)
  have "truthy (sc_body (module_schemas servers_schemas ''list_servers''))"
    using listed_schema_guarantees by (simp add: listed_schema_def)
  from get_json_validated [OF get assms(4,1) this] obtain v where
    v: "js_valid ck listed_schema v" "response_dict (rb_response b) v = Inr b"
    by (auto simp: listed_schema_def)
  from listed_servers_described [OF v(1)] obtain d ss where
    d: "v = PDict d" "dget d ''servers'' = Some (PList ss)"
    and ss: "\<forall>s \<in> set ss. \<exists>e i n. s = PDict e \<and> dget e ''id'' = Some (PStr i) \<and> dget e ''name'' = Some (PStr n)" .
  from v(2) d(1) have data: "rb_data b = d" by (cases b) auto
  have "name_matches name s
      = Inr (\<exists>n. value_at s [''name''] = Some (PStr n) \<and> take (length name) n = name)" if "s \<in> set ss" for s
    using ss that by (fastforce simp: name_matches_def)
  then have "filterE (name_matches name) ss
      = Inr (filter (\<lambda>s. \<exists>n. value_at s [''name''] = Some (PStr n) \<and> take (length name) n = name) ss)"
    by (rule filterE_filter)
  with assms(2,3) d data have "created_servers env (module_schemas servers_schemas) rq name kwargs body w
      = (Inr (filter (\<lambda>s. \<exists>n. value_at s [''name''] = Some (PStr n) \<and> take (length name) n = name) ss), w')"
    by (simp add: created_servers_def bnd_def lift_def rb_item_def)
  moreover have "\<forall>s \<in> set ss. \<exists>i. value_at s [''id''] = Some (PStr i)"
    using ss by (fastforce simp: value_at_one)
  ultimately show ?thesis using d data by blast
qed

text \<open>A server that is shown has an id and a status, so the waits never miss one.\<close>

lemma shown_server_described:
  assumes "validates env ck" "known_status (rb_response b)"
    and "show_server env (module_schemas servers_schemas) rq server_id w = (Inr b, w')"
  shows "rs_status (rb_response b) = 200
     \<and> (\<exists>i st. dget (rb_data b) ''id'' = Some (PStr i) \<and> field_of (rb_data b) ''status'' = Inr (PStr st))"
proof -
  note shown = shown_schema_guarantees
  have get: "get_json env rq (''servers/'' @ server_id) (Some (module_schemas servers_schemas ''get_server''))
      (Some ''server'') w = (Inr b, w')"
    using assms(3) by (simp add: show_server_def)
  from get_json_validated [OF get assms(2,1)] shown obtain v part where
    st: "rs_status (rb_response b) = 200" and v: "js_valid ck (sc_body (module_schemas servers_schemas ''get_server'')) v"
    and part: "getitem v ''server'' = Inr part" "response_dict (rb_response b) part = Inr b"
    by auto
  obtain i where i: "value_at v [''server'', ''id''] = Some (PStr i)"
    using guaranteed [OF v] shown has_type_string by metis
  obtain t where t: "value_at v [''server'', ''status''] = Some (PStr t)"
    using guaranteed [OF v] shown has_type_string by metis
  from i t obtain d e where "v = PDict d" "dget d ''server'' = Some (PDict e)" "dget e ''id'' = Some (PStr i)"
      "dget e ''status'' = Some (PStr t)"
    by (cases v) (auto simp: value_at_one split: option.splits)
  with st part show ?thesis by (cases b) (auto simp: field_of_def)
qed

section \<open>The attachment of a volume\<close>

definition attachment :: "string \<Rightarrow> string \<Rightarrow> string \<Rightarrow> py \<Rightarrow> py" where
  "attachment i dev vol server_id =
     PDict [(''volumeAttachment'',
             PDict [(''id'', PStr i), (''device'', PStr dev), (''volumeId'', PStr vol), (''serverId'', server_id)])]"

lemmas keyword_simps =
  js_valid.simps(1) enum_ok_def text_ok_def names_ok_def sub_dict_def sub_list_def dhas_def length_ok_def above_def below_def

lemma attachment_declared:
  "js_valid ck (sc_body (response_schema_of (servers_attach_volume_of servers_common_attach_volume_info_declared)))
     (attachment i dev vol (PInt n))"
  by (simp add: response_schema_of_def servers_attach_volume_of_def servers_common_attach_volume_info_declared_def
      attachment_def keyword_simps)

lemma attachment_loaded:
  "js_valid ck (sc_body (module_schemas servers_schemas ''attach_volume'')) (attachment i dev vol server_id)
     \<longleftrightarrow> has_type ''string'' server_id"
  by (cases server_id)
    (simp_all add: module_schemas_def servers_schemas_def response_schema_of_def servers_attach_volume_def
      servers_attach_volume_of_def servers_common_attach_volume_info_def servers_common_attach_volume_info_declared_def
      at_path.simps build_simps attachment_def keyword_simps)

lemma attach_schemas:
  "sc_status (module_schemas servers_schemas ''attach_volume'') = Codes [200]
   \<and> sc_header (module_schemas servers_schemas ''attach_volume'') = PNone
   \<and> truthy (sc_body (module_schemas servers_schemas ''attach_volume''))
   \<and> sc_status (response_schema_of (servers_attach_volume_of servers_common_attach_volume_info_declared)) = Codes [200]
   \<and> sc_header (response_schema_of (servers_attach_volume_of servers_common_attach_volume_info_declared)) = PNone
   \<and> truthy (sc_body (response_schema_of (servers_attach_volume_of servers_common_attach_volume_info_declared)))"
  by code_simp

text \<open>
  (integer_server_id_refused): the schema of an attachment is declared to take a server's id that is a number
  or a text. The module changes the same dictionary for the list of attachments, and from then on takes
  only texts: an answer with a number, valid by the declaration, makes \<open>attach_volume\<close> raise
  \<open>InvalidHTTPResponseBody\<close>.
\<close>

theorem integer_server_id_refused:
  assumes "validates env ck"
    and "rq ''POST'' (''servers/'' @ server_id @ ''/os-volume_attachments'') False None
           (json_dumps env (PDict [(''volumeAttachment'', PDict [(''volumeId'', volume_id), (''device'', device)])])) w
         = (Inr (resp, tx), w')"
    and "rs_status resp = 200" "e_loads env tx = Some (attachment i dev vol (PInt n))"
  shows "validate_response env (response_schema_of (servers_attach_volume_of servers_common_attach_volume_info_declared))
           resp (attachment i dev vol (PInt n)) = Inr ()
     \<and> (\<exists>m. attach_volume env (module_schemas servers_schemas) rq server_id volume_id device w
           = (Inl (Auto InvalidHTTPResponseBody [PStr m] []), w'))"
proof -
  let ?doc = "attachment i dev vol (PInt n)"
  have "e_valid env ?doc (sc_body (response_schema_of (servers_attach_volume_of servers_common_attach_volume_info_declared)))
      = None"
    using assms(1) attachment_declared by (simp add: validates_def)
  then have "validate_response env (response_schema_of (servers_attach_volume_of servers_common_attach_volume_info_declared))
      resp ?doc = Inr ()"
    using assms(3) attach_schemas
    by (simp add: validate_response_def expected_success_def check_body_def check_header_def attachment_def
        HTTP_SUCCESS_def)
  moreover obtain m where "e_valid env ?doc (sc_body (module_schemas servers_schemas ''attach_volume'')) = Some m"
    using assms(1) attachment_loaded [of ck i dev vol "PInt n"] by (fastforce simp: validates_def)
  then have "\<exists>m. validate_response env (module_schemas servers_schemas ''attach_volume'') resp ?doc
      = Inl (Auto InvalidHTTPResponseBody [PStr m] [])"
    using assms(3) attach_schemas
    by (simp add: validate_response_def expected_success_def check_body_def HTTP_SUCCESS_def)
  then have "\<exists>m. attach_volume env (module_schemas servers_schemas) rq server_id volume_id device w
      = (Inl (Auto InvalidHTTPResponseBody [PStr m] []), w')"
    using assms(2,4)
    by (auto simp: attach_volume_def post_json_def http_post_def bnd_def lift_def json_reply_def json_part_def
        json_loads_def)
  ultimately show ?thesis by blast
qed

section \<open>Witnesses\<close>

text \<open>A validator, and a service that gives one answer.\<close>

definition lenient :: checker where
  "lenient = \<lparr>ck_format = (\<lambda>f s. True), ck_search = (\<lambda>p s. True)\<rparr>"

definition validating_env :: "py \<Rightarrow> script env" where
  "validating_env doc =
     (demo_env [(''{}'', doc)])\<lparr>e_valid := (\<lambda>v s. if js_valid lenient s v then None else Some ''invalid'')\<rparr>"

definition one_answer :: "'w requester" where
  "one_answer m u x h b w = (Inr (\<lparr>rs_status = 200, rs_headers = []\<rparr>, ''{}''), w)"

lemma validating: "validates (validating_env doc) lenient"
  by (simp add: validates_def validating_env_def)

definition two_servers :: py where
  "two_servers = PDict [(''servers'',
     PList [PDict [(''id'', PStr ''1''), (''links'', PList []), (''name'', PStr ''vm-1'')],
            PDict [(''id'', PStr ''2''), (''links'', PList []), (''name'', PStr ''db'')]])]"

lemma two_servers_valid: "js_valid lenient listed_schema two_servers"
  by code_simp

lemma list_servers_status: "sc_status (module_schemas servers_schemas ''list_servers'') = Codes [200]
   \<and> sc_header (module_schemas servers_schemas ''list_servers'') = PNone"
  by code_simp

theorem named_servers_selected_witness:
  "created_servers (validating_env two_servers) (module_schemas servers_schemas) one_answer ''vm''
     [(''min_count'', PInt 2)] \<lparr>rb_response = \<lparr>rs_status = 202, rs_headers = []\<rparr>, rb_data = []\<rparr> ()
   = (Inr [PDict [(''id'', PStr ''1''), (''links'', PList []), (''name'', PStr ''vm-1'')]], ())"
proof -
  have "validate_response (validating_env two_servers) (module_schemas servers_schemas ''list_servers'')
      \<lparr>rs_status = 200, rs_headers = []\<rparr> two_servers = Inr ()"
    using list_servers_status listed_schema_guarantees two_servers_valid
    by (simp add: validate_response_def HTTP_SUCCESS_def expected_success_def check_body_def check_header_def
        validating_env_def listed_schema_def)
  then have run: "list_servers (validating_env two_servers) (module_schemas servers_schemas) one_answer False [] ()
      = (Inr \<lparr>rb_response = \<lparr>rs_status = 200, rs_headers = []\<rparr>,
              rb_data = (case two_servers of PDict d \<Rightarrow> d | _ \<Rightarrow> [])\<rparr>, ())"
    by (simp add: list_servers_def get_json_def http_get_def one_answer_def bnd_def lift_def json_reply_def
        json_part_def json_loads_def validating_env_def demo_env_def two_servers_def)
  have "dhas [(''min_count'', PInt 2)] ''min_count''" by (simp add: dhas_def)
  from named_servers_selected [OF validating this run, of "''vm''"] show ?thesis
    by (simp add: two_servers_def)
qed

theorem integer_server_id_refused_witness:
  "\<exists>m. attach_volume (validating_env (attachment ''a'' ''/dev/vdb'' ''v1'' (PInt 7))) (module_schemas servers_schemas)
       one_answer ''s1'' (PStr ''v1'') PNone () = (Inl (Auto InvalidHTTPResponseBody [PStr m] []), ())"
  using integer_server_id_refused [where env = "validating_env (attachment ''a'' ''/dev/vdb'' ''v1'' (PInt 7))"
      and rq = one_answer and tx = "''{}''" and i = "''a''" and dev = "''/dev/vdb''" and vol = "''v1''" and n = 7
      and resp = "\<lparr>rs_status = 200, rs_headers = []\<rparr>" and w = "()" and w' = "()", OF validating]
  by (simp add: one_answer_def validating_env_def demo_env_def)

end
