(* ===== verification/LiveLoops.thy ===== *)
theory LiveLoops
  imports TestServer
begin

text \<open>
  Two loops of the test cases: \<open>for x in self.xs\<close> over a list of the object that the body changes, and
  \<open>while timeout >= 0\<close>, which counts a number of seconds down by the interval of the polls.
\<close>

section \<open>Iterating over a list that changes\<close>

text \<open>
  Python iterates by position: after the body ran for position \<open>i\<close>, the next element is the one at \<open>i + 1\<close> of
  the list as it is then. \<open>get\<close> reads the list from the state.
\<close>

partial_function (option) live_from ::
    "('w \<Rightarrow> 'a list) \<Rightarrow> ('a \<Rightarrow> ('w, unit) loopy) \<Rightarrow> nat \<Rightarrow> ('w, unit) loopy" where
  "live_from get f i w =
     (if i < length (get w) then
        (case f (get w ! i) w of
           None \<Rightarrow> None
         | Some (Inl e, w') \<Rightarrow> Some (Inl e, w')
         | Some (Inr u, w') \<Rightarrow> live_from get f (Suc i) w')
      else Some (Inr (), w))"

definition live_for :: "('w \<Rightarrow> 'a list) \<Rightarrow> ('a \<Rightarrow> ('w, unit) loopy) \<Rightarrow> ('w, unit) loopy" where
  "live_for get f = live_from get f 0"

text \<open>\<open>except Exception: pass\<close> or a warning.\<close>

definition ignoring :: "('w, unit) loopy \<Rightarrow> ('w, unit) loopy" where
  "ignoring m = catch_loop m (\<lambda>e. Some (io_loop (ret ())))"

definition ignoring_class :: "exc_class \<Rightarrow> ('w, unit) loopy \<Rightarrow> ('w, unit) loopy" where
  "ignoring_class c m = catch_loop m (\<lambda>e. if catches c e then Some (io_loop (ret ())) else None)"

text \<open>What is left of a list when the body removes the element it is called with: every second one.\<close>

fun skipped :: "'a list \<Rightarrow> 'a list" where
  "skipped (x # y # zs) = y # skipped zs"
| "skipped [] = []"
| "skipped [x] = []"

lemma length_skipped: "length (skipped xs) = length xs div 2"
  by (induction xs rule: skipped.induct) auto

lemma skipped_Nil_iff: "skipped xs = [] \<longleftrightarrow> length xs \<le> 1"
  by (cases xs rule: skipped.cases) auto

lemma skipped_subset: "set (skipped xs) \<subseteq> set xs"
  by (induction xs rule: skipped.induct) auto

lemma distinct_skipped: "distinct xs \<Longrightarrow> distinct (skipped xs)"
  using skipped_subset by (induction xs rule: skipped.induct) fastforce+

text \<open>
  The elements before position \<open>i\<close> are those that were skipped; \<open>ok\<close> is what the other steps keep of the state.
\<close>

lemma live_from_removes:
  assumes step: "\<And>x w. ok w \<Longrightarrow> x \<in> set (get w) \<Longrightarrow>
      \<exists>w'. f x w = Some (Inr (), w') \<and> get w' = remove1 x (get w) \<and> ok w'"
  shows "ok w \<Longrightarrow> distinct (get w) \<Longrightarrow> get w = ys @ zs \<Longrightarrow> i = length ys \<Longrightarrow>
    \<exists>w'. live_from get f i w = Some (Inr (), w') \<and> get w' = ys @ skipped zs \<and> ok w'"
proof (induction zs arbitrary: ys i w rule: skipped.induct)
  case (1 x y zs)
  have "get w ! i = x" using 1 by (simp add: nth_append)
  from step [of w x] 1 obtain w1 where w1: "f x w = Some (Inr (), w1)" "get w1 = (ys @ [y]) @ zs" "ok w1"
    by (auto simp: remove1_append)
  with 1(1) [of w1 "ys @ [y]" "Suc i"] 1(2-) obtain w' where
    "live_from get f (Suc i) w1 = Some (Inr (), w')" "get w' = (ys @ [y]) @ skipped zs" "ok w'"
    by auto
  with w1 1(2-) \<open>get w ! i = x\<close> show ?case by (subst live_from.simps) simp
next
  case 2
  then show ?case by (subst live_from.simps) simp
next
  case (3 x)
  then have "get w ! i = x" by simp
  from step [of w x] 3 obtain w1 where w1: "f x w = Some (Inr (), w1)" "get w1 = ys" "ok w1"
    by (auto simp: remove1_append)
  from 3 have "\<not> Suc i < length (get w1)" using w1 by simp
  then have "live_from get f (Suc i) w1 = Some (Inr (), w1)" by (subst live_from.simps) simp
  with w1 3 \<open>get w ! i = x\<close> show ?case by (subst live_from.simps) simp
qed

lemma live_for_removes:
  assumes "\<And>x w. ok w \<Longrightarrow> x \<in> set (get w) \<Longrightarrow>
      \<exists>w'. f x w = Some (Inr (), w') \<and> get w' = remove1 x (get w) \<and> ok w'"
    and "ok w" "distinct (get w)"
  shows "\<exists>w'. live_for get f w = Some (Inr (), w') \<and> get w' = skipped (get w) \<and> ok w'"
  using live_from_removes [of ok get f w "[]" "get w" 0] assms by (simp add: live_for_def)

text \<open>When the list stays as it is, the loop is the loop over a copy.\<close>

lemma live_from_still:
  assumes keeps: "\<And>x w r w'. f x w = Some (r, w') \<Longrightarrow> get w' = get w"
  shows "get w = ys @ zs \<Longrightarrow> i = length ys \<Longrightarrow> live_from get f i w = each_loop zs f w"
proof (induction zs arbitrary: ys i w)
  case Nil
  then show ?case by (subst live_from.simps) (simp add: io_loop_def)
next
  case (Cons z zs)
  then have z: "i < length (get w)" "get w ! i = z" by simp_all
  show ?case
  proof (cases "f z w")
    case None
    with z show ?thesis by (subst live_from.simps) (simp add: bnd_loop_def)
  next
    case (Some p)
    obtain r w' where p: "p = (r, w')" by (cases p)
    from keeps Some p Cons.prems have "get w' = (ys @ [z]) @ zs" by simp
    from Cons.IH [OF this] Some p z Cons.prems show ?thesis
      by (subst live_from.simps) (simp add: bnd_loop_def split: sum.splits)
  qed
qed

lemma live_for_still:
  assumes "\<And>x w r w'. f x w = Some (r, w') \<Longrightarrow> get w' = get w"
  shows "live_for get f w = each_loop (get w) f w"
  using live_from_still [of f get w "[]" "get w" 0] assms by (simp add: live_for_def)

text \<open>A list that only gets shorter is run through in the end.\<close>

lemma live_from_ends:
  assumes step: "\<And>x w. \<exists>r w'. f x w = Some (r, w') \<and> length (get w') \<le> length (get w)"
  shows "\<exists>r w'. live_from get f i w = Some (r, w') \<and> length (get w') \<le> length (get w)"
proof (induction "length (get w) - i" arbitrary: i w rule: less_induct)
  case less
  show ?case
  proof (cases "i < length (get w)")
    case False
    then show ?thesis by (subst live_from.simps) simp
  next
    case True
    from step [of "get w ! i" w] obtain r w1 where w1: "f (get w ! i) w = Some (r, w1)"
        "length (get w1) \<le> length (get w)"
      by blast
    show ?thesis
    proof (cases r)
      case (Inl e)
      with w1 True show ?thesis by (subst live_from.simps) simp
    next
      case (Inr u)
      have "length (get w1) - Suc i < length (get w) - i" using w1(2) True by linarith
      from less.hyps [OF this] obtain r' w' where "live_from get f (Suc i) w1 = Some (r', w')"
          "length (get w') \<le> length (get w1)" by blast
      with w1 True Inr show ?thesis by (subst live_from.simps) auto
    qed
  qed
qed

lemma live_for_ends:
  assumes "\<And>x w. \<exists>r w'. f x w = Some (r, w') \<and> length (get w') \<le> length (get w)"
  shows "\<exists>r w'. live_for get f w = Some (r, w') \<and> length (get w') \<le> length (get w)"
  unfolding live_for_def using assms by (rule live_from_ends)

text \<open>Computations that always end.\<close>

definition always_ends :: "('w, 'a) loopy \<Rightarrow> bool" where
  "always_ends m = (\<forall>w. m w \<noteq> None)"

lemma endsE:
  assumes "always_ends m"
  obtains r w' where "m w = Some (r, w')"
  using assms unfolding always_ends_def by (metis option.exhaust surj_pair)

lemma ends_io: "always_ends (io_loop m)"
  by (simp add: always_ends_def io_loop_def)

lemma ends_bnd:
  assumes m: "always_ends m" and f: "\<And>x. always_ends (f x)"
  shows "always_ends (bnd_loop m f)"
  unfolding always_ends_def
proof
  fix w
  obtain r w' where w': "m w = Some (r, w')" using m by (rule endsE)
  show "bnd_loop m f w \<noteq> None"
    using f [unfolded always_ends_def] by (cases r) (simp_all add: bnd_loop_def w')
qed

lemma ends_live_for:
  assumes "\<And>x. within (\<lambda>w w'. length (get w') \<le> length (get w)) (m x)"
  shows "always_ends (live_for get (\<lambda>x. io_loop (m x)))"
  unfolding always_ends_def
proof
  fix w
  have step: "\<exists>r w'. io_loop (m x) v = Some (r, w') \<and> length (get w') \<le> length (get v)" for x v
    using assms [of x] by (cases "m x v") (auto simp: io_loop_def within_def dest: spec [of _ v])
  from live_for_ends [of "\<lambda>x. io_loop (m x)" get w, OF step]
  show "live_for get (\<lambda>x. io_loop (m x)) w \<noteq> None" by auto
qed

lemma ignoring_io:
  "ignoring (io_loop m) = io_loop (catch m (\<lambda>e. Some (ret ())))"
  by (rule ext) (simp add: ignoring_def catch_loop_def io_loop_def catch_def split: prod.splits sum.splits)

section \<open>Looping while something is left\<close>

text \<open>\<open>while xs and timeout >= 0: timeout -= interval; ...\<close>: the variable is the number of seconds left.\<close>

partial_function (option) while_left ::
    "('w \<Rightarrow> 'a list) \<Rightarrow> int \<Rightarrow> ('w, unit) loopy \<Rightarrow> int \<Rightarrow> ('w, unit) loopy" where
  "while_left get interval body left w =
     (if get w \<noteq> [] \<and> 0 \<le> left then
        (case body w of
           None \<Rightarrow> None
         | Some (Inl e, w') \<Rightarrow> Some (Inl e, w')
         | Some (Inr u, w') \<Rightarrow> while_left get interval body (left - interval) w')
      else Some (Inr (), w))"

lemma while_left_ends:
  assumes i: "1 \<le> interval" and body: "always_ends body"
  shows "while_left get interval body left w \<noteq> None"
proof (induction "nat (left + 1)" arbitrary: left w rule: less_induct)
  case less
  show ?case
  proof (cases "get w \<noteq> [] \<and> 0 \<le> left")
    case False
    then show ?thesis by (subst while_left.simps) auto
  next
    case True
    obtain r w' where w': "body w = Some (r, w')" using body by (rule endsE)
    show ?thesis
    proof (cases r)
      case (Inl e)
      with w' True show ?thesis by (subst while_left.simps) simp
    next
      case (Inr u)
      have "nat (left - interval + 1) < nat (left + 1)" using i True by simp
      from less.hyps [OF this, of w'] w' True Inr show ?thesis by (subst while_left.simps) simp
    qed
  qed
qed

text \<open>
  A round that leaves every second element halves the list: after the rounds that fit into the time, a list of
  \<open>n\<close> elements has \<open>n div 2 ^ rounds\<close> of them.
\<close>

definition rounds_left :: "int \<Rightarrow> int \<Rightarrow> nat" where
  "rounds_left interval left = (if left < 0 then 0 else nat (left div interval) + 1)"

lemma rounds_left_step:
  assumes "1 \<le> interval" "0 \<le> left"
  shows "rounds_left interval left = Suc (rounds_left interval (left - interval))"
proof (cases "left < interval")
  case True
  with assms show ?thesis by (simp add: rounds_left_def)
next
  case False
  have "left div interval = (left - interval) div interval + 1"
    using assms div_add_self2 [of interval "left - interval"] by simp
  moreover have "0 \<le> (left - interval) div interval" using assms False by (simp add: pos_imp_zdiv_nonneg_iff)
  ultimately show ?thesis using assms False by (simp add: rounds_left_def nat_add_distrib)
qed

lemma while_left_halves:
  assumes i: "1 \<le> interval"
    and body: "\<And>w. ok w \<Longrightarrow> \<exists>w'. body w = Some (Inr (), w') \<and> get w' = skipped (get w) \<and> ok w'"
  shows "ok w \<Longrightarrow> \<exists>w'. while_left get interval body left w = Some (Inr (), w')
    \<and> length (get w') = length (get w) div 2 ^ rounds_left interval left \<and> set (get w') \<subseteq> set (get w) \<and> ok w'"
proof (induction "nat (left + 1)" arbitrary: left w rule: less_induct)
  case less
  show ?case
  proof (cases "get w \<noteq> [] \<and> 0 \<le> left")
    case False
    then show ?thesis using less.prems
      by (subst while_left.simps) (auto simp: rounds_left_def)
  next
    case True
    from body [OF less.prems] obtain w1 where w1: "body w = Some (Inr (), w1)" "get w1 = skipped (get w)" "ok w1"
      by blast
    have "nat (left - interval + 1) < nat (left + 1)" using i True by simp
    from less.hyps [OF this w1(3)] obtain w' where
      w': "while_left get interval body (left - interval) w1 = Some (Inr (), w')"
      "length (get w') = length (get w1) div 2 ^ rounds_left interval (left - interval)"
      "set (get w') \<subseteq> set (get w1)" "ok w'"
      by blast
    have "set (skipped (get w)) \<subseteq> set (get w)" by (rule skipped_subset)
    then show ?thesis
      using w1 w' True rounds_left_step [OF i, of left]
      by (subst while_left.simps) (auto simp: length_skipped div_mult2_eq [symmetric])
  qed
qed

section \<open>Counting down\<close>

text \<open>
  \<open>while timeout >= 0\<close> with a check, a pause of the interval and the seconds left as the variable of the loop.
  The check gives a value, which ends the loop, or None; the loop gives None when the time is up.
\<close>

definition countdown_round ::
    "int \<Rightarrow> (('r, 'x) world_scheme, 'a option) io \<Rightarrow> int \<Rightarrow> (('r, 'x) world_scheme, int + 'a option) io" where
  "countdown_round interval check left =
     (if left < 0 then ret (Inr None)
      else bnd check (\<lambda>found.
        case found of
          Some x \<Rightarrow> ret (Inr (Some x))
        | None \<Rightarrow> bnd (sleep interval) (\<lambda>_. ret (Inl (left - interval)))))"

definition countdown ::
    "int \<Rightarrow> (('r, 'x) world_scheme, 'a option) io \<Rightarrow> int \<Rightarrow> (('r, 'x) world_scheme, 'a option) loopy" where
  "countdown interval check timeout = loop_io (countdown_round interval check) timeout"

text \<open>A value, or the exception of the time that is up.\<close>

definition or_raise :: "pyexc \<Rightarrow> ('w, 'a option) loopy \<Rightarrow> ('w, 'a) loopy" where
  "or_raise e m = bnd_loop m (\<lambda>r. io_loop (case r of None \<Rightarrow> throw e | Some x \<Rightarrow> ret x))"

interpretation counting: bounded_loop "countdown_round interval check" "\<lambda>_ _. 1 \<le> interval" "\<lambda>s _. nat (s + 1)"
  for interval :: int and check :: "(('r, 'x) world_scheme, 'a option) io"
  by unfold_locales
    (auto simp: countdown_round_def bnd_def split: if_splits option.splits prod.splits sum.splits)

lemma countdown_ends: "1 \<le> interval \<Longrightarrow> \<exists>r w'. countdown interval check timeout w = Some (r, w')"
  unfolding countdown_def by (rule counting.terminates)

text \<open>When no check finds anything, there is one check for every interval that fits, and one more.\<close>

lemma countdown_all_naps:
  assumes i: "1 \<le> interval"
    and quiet: "\<And>w. good w \<Longrightarrow> \<exists>w'. check w = (Inr None, w') \<and> naps w' = naps w \<and> good w'"
    and nap: "\<And>w. good w \<Longrightarrow> good (snd (sleep interval w))"
  shows "good w \<Longrightarrow> \<exists>w'. countdown interval check timeout w = Some (Inr None, w') \<and> good w'
    \<and> naps w' = naps w @ replicate (rounds_left interval timeout) interval"
proof (induction "nat (timeout + 1)" arbitrary: timeout w rule: less_induct)
  case less
  show ?case
  proof (cases "timeout < 0")
    case True
    with less.prems show ?thesis
      by (simp add: countdown_def loop_io.simps [of _ timeout] countdown_round_def rounds_left_def)
  next
    case False
    from quiet [OF less.prems] obtain w1 where w1: "check w = (Inr None, w1)" "naps w1 = naps w" "good w1"
      by blast
    obtain w2 where w2: "sleep interval w1 = (Inr (), w2)" "naps w2 = naps w @ [interval]"
      using i w1(2) by (simp add: sleep_def)
    have good: "good w2" using nap [OF w1(3)] w2 by simp
    have run: "countdown_round interval check timeout w = (Inr (Inl (timeout - interval)), w2)"
      using False w1 w2 by (simp add: countdown_round_def bnd_Inr)
    have "nat (timeout - interval + 1) < nat (timeout + 1)" using i False by simp
    from less.hyps [OF this good] obtain w' where w':
      "countdown interval check (timeout - interval) w2 = Some (Inr None, w')" "good w'"
      "naps w' = naps w2 @ replicate (rounds_left interval (timeout - interval)) interval"
      by blast
    have step: "countdown interval check timeout w = countdown interval check (timeout - interval) w2"
      using run by (simp add: countdown_def loop_io.simps [of _ timeout])
    show ?thesis
      using w' w2(2) step rounds_left_step [OF i, of timeout] False by simp
  qed
qed

text \<open>What the check and the pause keep holds at the end.\<close>

lemma countdown_keeps:
  assumes i: "1 \<le> interval"
    and check: "\<And>w r w'. good w \<Longrightarrow> check w = (r, w') \<Longrightarrow> good w'"
    and nap: "\<And>w. good w \<Longrightarrow> good (snd (sleep interval w))"
  shows "good w \<Longrightarrow> countdown interval check timeout w = Some (r, w') \<Longrightarrow> good w'"
proof (induction "nat (timeout + 1)" arbitrary: timeout w rule: less_induct)
  case less
  note run = less.prems(2) [unfolded countdown_def]
  show ?case
  proof (cases "timeout < 0")
    case True
    with run less.prems(1) show ?thesis by (simp add: loop_io.simps [of _ timeout] countdown_round_def)
  next
    case False
    obtain a w1 where w1: "check w = (a, w1)" by (cases "check w")
    with check less.prems(1) have g1: "good w1" by blast
    show ?thesis
    proof (cases "a = Inr None")
      case True
      obtain w2 where w2: "sleep interval w1 = (Inr (), w2)" using i by (simp add: sleep_def)
      with nap [OF g1] have "good w2" by simp
      moreover have "countdown interval check (timeout - interval) w2 = Some (r, w')"
        using run False True w1 w2
        by (simp add: loop_io.simps [of _ timeout] countdown_round_def bnd_Inr countdown_def)
      moreover have "nat (timeout - interval + 1) < nat (timeout + 1)" using i False by simp
      ultimately show ?thesis using less.hyps by blast
    next
      case other: False
      with run False w1 g1 show ?thesis
        by (simp add: loop_io.simps [of _ timeout] countdown_round_def bnd_def split: sum.splits option.splits)
    qed
  qed
qed

lemma live_for_Nil: "get w = [] \<Longrightarrow> live_for get f w = Some (Inr (), w)"
  by (simp add: live_for_def live_from.simps)

section \<open>The lists of what was created\<close>

text \<open>\<open>xs.append(x)\<close> and \<open>xs.remove(x)\<close> on a list of the state.\<close>

definition remember :: "((py list \<Rightarrow> py list) \<Rightarrow> 'w \<Rightarrow> 'w) \<Rightarrow> py \<Rightarrow> ('w, unit) io" where
  "remember upd x = modify (upd (\<lambda>xs. xs @ [x]))"

definition forget ::
    "('w \<Rightarrow> py list) \<Rightarrow> ((py list \<Rightarrow> py list) \<Rightarrow> 'w \<Rightarrow> 'w) \<Rightarrow> py \<Rightarrow> ('w, unit) io" where
  "forget get upd x =
     bnd (gets get) (\<lambda>xs. if x \<in> set xs then modify (upd (remove1 x)) else throw ValueErr)"

text \<open>The id of the first element with a name: \<open>for x in xs: if x['name'] == name: return x['id']\<close>.\<close>

fun id_named :: "exc_class \<Rightarrow> py \<Rightarrow> py list \<Rightarrow> pyexc + py" where
  "id_named c name [] = Inl (Auto c [] [])"
| "id_named c name (x # xs) =
     bindE (getitem x ''name'') (\<lambda>n. if n = name then getitem x ''id'' else id_named c name xs)"

definition id_text :: "'r env \<Rightarrow> py \<Rightarrow> string" where
  "id_text env i = py_text (e_repr env) i"

text \<open>\<open>body.get(key)\<close> of a \<open>ResponseBody\<close>.\<close>

definition rb_get :: "response_body \<Rightarrow> string \<Rightarrow> py" where
  "rb_get b key = (case dget (rb_data b) key of None \<Rightarrow> PNone | Some v \<Rightarrow> v)"

end
