(* ===== verification/NetworkBase.thy ===== *)
theory NetworkBase
  imports LiveLoops NetworkClient
begin

text \<open>
  The base of the network test cases, \<open>testcases/network_tests/base.py\<close>: it creates networks, subnets, routers,
  security groups, floating addresses and firewalls, remembers their ids, and removes them at the end.

  The lists of the ids are fields of the world; what the methods only read is the record \<open>net_base\<close>. The
  network client is used through its \<open>request\<close>, the argument \<open>rq\<close>. Random values are arguments.
\<close>

section \<open>State\<close>

record 'r net_world = "'r world" +
  nw_networks :: "py list"
  nw_subnets :: "py list"
  nw_routers :: "py list"
  nw_security_groups :: "py list"
  nw_security_group_rules :: "py list"
  nw_floating_ips :: "py list"
  nw_firewall_rules :: "py list"
  nw_firewall_policies :: "py list"
  nw_firewalls :: "py list"

record net_base =
  nb_network_name :: py
  nb_subnet_name :: py
  nb_firewall_name :: py
  nb_vlan_id :: py
  nb_subnet_cidr :: py
  nb_subnet_ip_version :: py
  nb_router_name :: py
  nb_external_network_id :: py
  nb_sec_group_name :: py
  nb_build_interval :: int
  nb_build_timeout :: int

definition nb_get_external_network :: "'r env \<Rightarrow> 'w requester \<Rightarrow> py \<Rightarrow> ('w, py) io" where
  "nb_get_external_network env rq external =
     bnd (list_networks env rq []) (\<lambda>b.
     bnd (lift (bindE (py_get (PDict (rb_data b)) ''networks'' (PList [])) py_iter)) (\<lambda>networks.
       lift (id_named NetworkNotFound external networks)))"

definition no_lists :: "('r, 'x) net_world_scheme \<Rightarrow> ('r, 'x) net_world_scheme" where
  "no_lists w = w\<lparr>nw_networks := [], nw_subnets := [], nw_routers := [], nw_security_groups := [],
     nw_security_group_rules := [], nw_floating_ips := [], nw_firewall_rules := [],
     nw_firewall_policies := [], nw_firewalls := []\<rparr>"

text \<open>\<open>__init__\<close>: \<open>given\<close> are the arguments (PNone when missing), \<open>option\<close> the options of the section network.\<close>

definition nb_init ::
    "'r env \<Rightarrow> (string \<Rightarrow> py) \<Rightarrow> (('r, 'x) net_world_scheme) requester \<Rightarrow> net_base
     \<Rightarrow> (('r, 'x) net_world_scheme, net_base) io" where
  "nb_init env option rq given =
     bnd (if truthy (nb_external_network_id given) then ret (nb_external_network_id given)
          else nb_get_external_network env rq (option ''external_network'')) (\<lambda>external.
     bnd (modify no_lists) (\<lambda>_.
       ret (given\<lparr>nb_network_name := py_or (nb_network_name given) (option ''tenant_network_name''),
                  nb_subnet_name := py_or (nb_subnet_name given) (option ''tenant_subnet_name''),
                  nb_firewall_name := py_or (nb_firewall_name given) (option ''firewall_name''),
                  nb_subnet_cidr := py_or (nb_subnet_cidr given) (option ''subnet_cidr''),
                  nb_subnet_ip_version := py_or (nb_subnet_ip_version given) (option ''subnet_ip_version''),
                  nb_router_name := py_or (nb_router_name given) (option ''router_name''),
                  nb_external_network_id := external,
                  nb_sec_group_name := py_or (nb_sec_group_name given) (option ''sec_group_name'')\<rparr>)))"

section \<open>Waiting\<close>

definition nb_wait_resource_status ::
    "net_base \<Rightarrow> (py \<Rightarrow> (('r, 'x) net_world_scheme, py) io) \<Rightarrow> py \<Rightarrow> string \<Rightarrow> int option \<Rightarrow> int option
     \<Rightarrow> (('r, 'x) net_world_scheme, unit) loopy" where
  "nb_wait_resource_status nb method resource_id status interval timeout =
     or_raise (Auto TimeoutException [] [])
       (countdown (or_default interval (nb_build_interval nb))
          (bnd (method resource_id) (\<lambda>current. ret (if current = PStr status then Some () else None)))
          (or_default timeout (nb_build_timeout nb)))"

text \<open>\<open>test_ping_floatingip\<close>: \<open>ping\<close> gives the lines of the command's output.\<close>

definition ping_answered :: "string list \<Rightarrow> bool" where
  "ping_answered output = list_ex (str_contains '', 0% packet loss'') output"

definition nb_test_ping_floatingip ::
    "net_base \<Rightarrow> (string \<Rightarrow> (('r, 'x) net_world_scheme, string list) io) \<Rightarrow> string \<Rightarrow> int option \<Rightarrow> int option
     \<Rightarrow> (('r, 'x) net_world_scheme, unit) loopy" where
  "nb_test_ping_floatingip nb ping ip_address interval timeout =
     or_raise (Auto TimeoutException [] [])
       (countdown (or_default interval (nb_build_interval nb))
          (bnd (ping (''ping -c 4 '' @ ip_address)) (\<lambda>output. ret (if ping_answered output then Some () else None)))
          (or_default timeout (nb_build_timeout nb)))"

text \<open>\<open>detail[key]['status']\<close>.\<close>

definition status_in :: "string \<Rightarrow> ('w, response_body) io \<Rightarrow> ('w, py) io" where
  "status_in key show_it = bnd show_it (\<lambda>b. lift (nested (PDict (rb_data b)) key ''status''))"

definition nb_get_network_status :: "'r env \<Rightarrow> 'w requester \<Rightarrow> py \<Rightarrow> ('w, py) io" where
  "nb_get_network_status env rq i = status_in ''network'' (show_network env rq (id_text env i) [])"

definition nb_get_firewall_status :: "'r env \<Rightarrow> 'w requester \<Rightarrow> py \<Rightarrow> ('w, py) io" where
  "nb_get_firewall_status env rq i = status_in ''firewall'' (show_firewall env rq (id_text env i) [])"

definition nb_get_router_status :: "'r env \<Rightarrow> 'w requester \<Rightarrow> py \<Rightarrow> ('w, py) io" where
  "nb_get_router_status env rq i = status_in ''router'' (show_router env rq (id_text env i) [])"

definition nb_get_floatingip_status :: "'r env \<Rightarrow> 'w requester \<Rightarrow> py \<Rightarrow> ('w, py) io" where
  "nb_get_floatingip_status env rq i = status_in ''floatingip'' (show_floatingip env rq (id_text env i) [])"

section \<open>Creating\<close>

text \<open>The id of the answer is remembered before anything else can fail; \<open>upd\<close> says in which list.\<close>

definition remember_id ::
    "((py list \<Rightarrow> py list) \<Rightarrow> 'w \<Rightarrow> 'w) \<Rightarrow> string \<Rightarrow> ('w, response_body) io \<Rightarrow> ('w, py \<times> py) io" where
  "remember_id upd key create =
     bnd create (\<lambda>b.
     bnd (lift (nested (PDict (rb_data b)) key ''id'')) (\<lambda>i.
     bnd (remember upd i) (\<lambda>_.
     bnd (lift (rb_item b key)) (\<lambda>made. ret (i, made)))))"

definition network_params :: "net_base \<Rightarrow> py \<Rightarrow> (string, py) dict" where
  "network_params nb name =
     [(''name'', if name \<noteq> PNone then name else nb_network_name nb),
      (''provider:network_type'', PStr ''vlan''), (''provider:physical_network'', PStr ''default''),
      (''admin_state_up'', PBool True)]
     @ (if truthy (nb_vlan_id nb) then [(''provider:segmentation_id'', nb_vlan_id nb)] else [])"

definition nb_create_network ::
    "'r env \<Rightarrow> net_base \<Rightarrow> (('r, 'x) net_world_scheme) requester \<Rightarrow> py
     \<Rightarrow> (('r, 'x) net_world_scheme, py) loopy" where
  "nb_create_network env nb rq name =
     bnd_loop (io_loop (remember_id nw_networks_update ''network''
                          (create_network env rq (network_params nb name)))) (\<lambda>(i, made).
     bnd_loop (nb_wait_resource_status nb (nb_get_network_status env rq) i ''ACTIVE'' None None) (\<lambda>_.
       io_loop (ret made)))"

text \<open>\<open>third\<close> is the random part of the address range.\<close>

definition subnet_params :: "net_base \<Rightarrow> int \<Rightarrow> py \<Rightarrow> py \<Rightarrow> py \<Rightarrow> py \<Rightarrow> (string, py) dict" where
  "subnet_params nb third network_id name subnet_cidr ip_version =
     [(''name'', py_or name (nb_subnet_name nb)), (''network_id'', network_id),
      (''ip_version'', py_or ip_version (nb_subnet_ip_version nb)),
      (''cidr'', py_or subnet_cidr (PStr (''192.168.'' @ int_str third @ ''.0/24'')))]"

definition nb_create_subnet ::
    "'r env \<Rightarrow> net_base \<Rightarrow> (('r, 'x) net_world_scheme) requester \<Rightarrow> int \<Rightarrow> py \<Rightarrow> py \<Rightarrow> py \<Rightarrow> py
     \<Rightarrow> (('r, 'x) net_world_scheme, py) io" where
  "nb_create_subnet env nb rq third network_id name subnet_cidr ip_version =
     bnd (remember_id nw_subnets_update ''subnet''
            (create_subnet env rq (subnet_params nb third network_id name subnet_cidr ip_version))) (\<lambda>(i, made).
       ret made)"

definition nb_create_router ::
    "'r env \<Rightarrow> net_base \<Rightarrow> (('r, 'x) net_world_scheme) requester \<Rightarrow> py
     \<Rightarrow> (('r, 'x) net_world_scheme, py) loopy" where
  "nb_create_router env nb rq name =
     bnd_loop (io_loop (remember_id nw_routers_update ''router''
                          (create_router env rq (py_or name (nb_router_name nb)) (PBool True) []))) (\<lambda>(i, made).
     bnd_loop (nb_wait_resource_status nb (nb_get_router_status env rq) i ''ACTIVE'' None None) (\<lambda>_.
       io_loop (ret made)))"

definition nb_create_security_group ::
    "'r env \<Rightarrow> net_base \<Rightarrow> (('r, 'x) net_world_scheme) requester \<Rightarrow> py
     \<Rightarrow> (('r, 'x) net_world_scheme, py) io" where
  "nb_create_security_group env nb rq name =
     bnd (remember_id nw_security_groups_update ''security_group''
            (create_security_group env rq [(''name'', py_or name (nb_sec_group_name nb))])) (\<lambda>(i, made). ret made)"

definition nb_create_security_group_rule ::
    "'r env \<Rightarrow> (('r, 'x) net_world_scheme) requester \<Rightarrow> py \<Rightarrow> py \<Rightarrow> py \<Rightarrow> py \<Rightarrow> py
     \<Rightarrow> (('r, 'x) net_world_scheme, py) io" where
  "nb_create_security_group_rule env rq security_group_id ethertype direction remote_ip_prefix protocol =
     bnd (remember_id nw_security_group_rules_update ''security_group_rule''
            (create_security_group_rule env rq
               [(''ethertype'', ethertype), (''direction'', direction), (''remote_ip_prefix'', remote_ip_prefix),
                (''protocol'', protocol), (''security_group_id'', security_group_id)])) (\<lambda>(i, made). ret made)"

definition nb_create_floating_ip ::
    "'r env \<Rightarrow> net_base \<Rightarrow> (('r, 'x) net_world_scheme) requester \<Rightarrow> py
     \<Rightarrow> (('r, 'x) net_world_scheme, py) loopy" where
  "nb_create_floating_ip env nb rq port_id =
     bnd_loop (io_loop (remember_id nw_floating_ips_update ''floatingip''
                 (create_floatingip env rq
                    ([(''floating_network_id'', nb_external_network_id nb)]
                     @ (if truthy port_id then [(''port_id'', port_id)] else []))))) (\<lambda>(i, made).
     bnd_loop (nb_wait_resource_status nb (nb_get_floatingip_status env rq) i
                 (if truthy port_id then ''ACTIVE'' else ''DOWN'') None None) (\<lambda>_.
       io_loop (ret made)))"

text \<open>\<open>fresh\<close> is the text of a \<open>uuid4()\<close>.\<close>

definition firewall_rule_params :: "bool \<Rightarrow> string \<Rightarrow> py \<Rightarrow> py \<Rightarrow> py \<Rightarrow> py \<Rightarrow> (string, py) dict" where
  "firewall_rule_params connectable fresh name src_ip_addr dest_ip_addr protocol =
     [(''protocol'', protocol), (''name'', py_or name (PStr fresh)), (''enabled'', PStr ''True''),
      (''source_ip_address'', src_ip_addr), (''destination_ip_address'', dest_ip_addr),
      (''action'', PStr (if connectable then ''allow'' else ''deny''))]"

definition nb_create_firewall_rule ::
    "'r env \<Rightarrow> (('r, 'x) net_world_scheme) requester \<Rightarrow> string \<Rightarrow> bool \<Rightarrow> py \<Rightarrow> py \<Rightarrow> py \<Rightarrow> py
     \<Rightarrow> (('r, 'x) net_world_scheme, py) io" where
  "nb_create_firewall_rule env rq fresh connectable name src_ip_addr dest_ip_addr protocol =
     bnd (remember_id nw_firewall_rules_update ''firewall_rule''
            (create_firewall_rule env rq
               (firewall_rule_params connectable fresh name src_ip_addr dest_ip_addr protocol)))
       (\<lambda>(i, made). ret made)"

definition nb_create_firewall_policy ::
    "'r env \<Rightarrow> (('r, 'x) net_world_scheme) requester \<Rightarrow> string \<Rightarrow> py \<Rightarrow> (('r, 'x) net_world_scheme, py) io" where
  "nb_create_firewall_policy env rq fresh name =
     bnd (remember_id nw_firewall_policies_update ''firewall_policy''
            (create_firewall_policy env rq [(''name'', py_or name (PStr fresh))])) (\<lambda>(i, made). ret made)"

definition firewall_name :: "net_base \<Rightarrow> string \<Rightarrow> py \<Rightarrow> py" where
  "firewall_name nb fresh name =
     (let n = py_or name (nb_firewall_name nb) in if n = PNone then PStr fresh else n)"

definition nb_create_firewall ::
    "'r env \<Rightarrow> net_base \<Rightarrow> (('r, 'x) net_world_scheme) requester \<Rightarrow> string \<Rightarrow> py \<Rightarrow> py
     \<Rightarrow> (('r, 'x) net_world_scheme, py) io" where
  "nb_create_firewall env nb rq fresh firewall_policy_id name =
     bnd (remember_id nw_firewalls_update ''firewall''
            (create_firewall env rq
               [(''firewall_policy_id'', firewall_policy_id), (''admin_state_up'', PBool True),
                (''router_ids'', PList []), (''name'', firewall_name nb fresh name)])) (\<lambda>(i, made). ret made)"

section \<open>Changing\<close>

definition quietly :: "('w, 'a) io \<Rightarrow> ('w, unit) io" where
  "quietly m = bnd m (\<lambda>_. ret ())"

definition nb_insert_firewall_policy_rule ::
    "'r env \<Rightarrow> 'w requester \<Rightarrow> py \<Rightarrow> py \<Rightarrow> ('w, response_body) io" where
  "nb_insert_firewall_policy_rule env rq firewall_policy_id firewall_rule_id =
     insert_firewall_policy_rule env rq (id_text env firewall_policy_id) firewall_rule_id"

text \<open>The network client has no \<open>firewall_policy_remove_rule\<close>: its method is \<open>remove_firewall_policy_rule\<close>.\<close>

definition nb_remove_firewall_policy_rule :: "py \<Rightarrow> py \<Rightarrow> ('w, response_body) io" where
  "nb_remove_firewall_policy_rule firewall_policy_id firewall_rule_id = throw AttrErr"

definition nb_change_firewall_router ::
    "'r env \<Rightarrow> net_base \<Rightarrow> (('r, 'x) net_world_scheme) requester \<Rightarrow> py \<Rightarrow> py
     \<Rightarrow> (('r, 'x) net_world_scheme, unit) loopy" where
  "nb_change_firewall_router env nb rq firewall_id router_id =
     bnd_loop (io_loop (update_firewall env rq (id_text env firewall_id) [(''router_ids'', PList [router_id])])) (\<lambda>_.
       nb_wait_resource_status nb (nb_get_firewall_status env rq) firewall_id ''ACTIVE'' None None)"

definition nb_change_firewall_policy :: "'r env \<Rightarrow> 'w requester \<Rightarrow> py \<Rightarrow> py \<Rightarrow> ('w, unit) io" where
  "nb_change_firewall_policy env rq firewall_id firewall_policy_id =
     quietly (update_firewall env rq (id_text env firewall_id) [(''firewall_policy_id'', firewall_policy_id)])"

definition nb_remove_firewall_all_routers :: "'r env \<Rightarrow> 'w requester \<Rightarrow> py \<Rightarrow> ('w, unit) io" where
  "nb_remove_firewall_all_routers env rq firewall_id =
     quietly (update_firewall env rq (id_text env firewall_id) [(''router_ids'', PList [])])"

definition nb_router_set_external_gw :: "'r env \<Rightarrow> net_base \<Rightarrow> 'w requester \<Rightarrow> py \<Rightarrow> ('w, py) io" where
  "nb_router_set_external_gw env nb rq router_id =
     bnd (update_router env rq (id_text env router_id)
            [(''external_gateway_info'', PDict [(''network_id'', nb_external_network_id nb)])]) (\<lambda>b.
       lift (rb_item b ''router''))"

definition nb_router_unset_external_gw :: "'r env \<Rightarrow> 'w requester \<Rightarrow> py \<Rightarrow> ('w, py) io" where
  "nb_router_unset_external_gw env rq router_id =
     bnd (update_router env rq (id_text env router_id) [(''external_gateway_info'', PDict [])]) (\<lambda>b.
       lift (rb_item b ''router''))"

definition nb_router_add_subnet :: "'r env \<Rightarrow> 'w requester \<Rightarrow> py \<Rightarrow> py \<Rightarrow> ('w, response_body) io" where
  "nb_router_add_subnet env rq router_id subnet_id =
     add_router_interface_with_subnet_id env rq (id_text env router_id) subnet_id"

definition nb_router_remove_subnet :: "'r env \<Rightarrow> 'w requester \<Rightarrow> py \<Rightarrow> py \<Rightarrow> ('w, response_body) io" where
  "nb_router_remove_subnet env rq router_id subnet_id =
     remove_router_interface_with_subnet_id env rq (id_text env router_id) subnet_id"

text \<open>The port of a floating address: the wait is for the id in the answer.\<close>

definition nb_set_floating_port ::
    "'r env \<Rightarrow> net_base \<Rightarrow> (('r, 'x) net_world_scheme) requester \<Rightarrow> py \<Rightarrow> py \<Rightarrow> string
     \<Rightarrow> (('r, 'x) net_world_scheme, py) loopy" where
  "nb_set_floating_port env nb rq floatingip_id port_id status =
     bnd_loop (io_loop (update_floatingip env rq (id_text env floatingip_id) [(''port_id'', port_id)])) (\<lambda>b.
     bnd_loop (io_loop (lift (nested (PDict (rb_data b)) ''floatingip'' ''id''))) (\<lambda>i.
     bnd_loop (nb_wait_resource_status nb (nb_get_floatingip_status env rq) i status None None) (\<lambda>_.
       io_loop (lift (rb_item b ''floatingip'')))))"

definition nb_associate_floating_ip ::
    "'r env \<Rightarrow> net_base \<Rightarrow> (('r, 'x) net_world_scheme) requester \<Rightarrow> py \<Rightarrow> py
     \<Rightarrow> (('r, 'x) net_world_scheme, py) loopy" where
  "nb_associate_floating_ip env nb rq floatingip_id port_id =
     nb_set_floating_port env nb rq floatingip_id port_id ''ACTIVE''"

definition nb_disassociate_floating_ip ::
    "'r env \<Rightarrow> net_base \<Rightarrow> (('r, 'x) net_world_scheme) requester \<Rightarrow> py
     \<Rightarrow> (('r, 'x) net_world_scheme, py) loopy" where
  "nb_disassociate_floating_ip env nb rq floatingip_id =
     nb_set_floating_port env nb rq floatingip_id PNone ''DOWN''"

section \<open>Deleting\<close>

text \<open>Delete, wait until the resource is gone, then remove the id from its list.\<close>

definition delete_and_wait ::
    "'r env \<Rightarrow> rest_client \<Rightarrow> (('r, 'x) net_world_scheme) requester
     \<Rightarrow> (('r, 'x) net_world_scheme \<Rightarrow> py list)
     \<Rightarrow> ((py list \<Rightarrow> py list) \<Rightarrow> ('r, 'x) net_world_scheme \<Rightarrow> ('r, 'x) net_world_scheme)
     \<Rightarrow> (string \<Rightarrow> (('r, 'x) net_world_scheme, response_body) io) \<Rightarrow> string \<Rightarrow> py
     \<Rightarrow> (('r, 'x) net_world_scheme, unit) loopy" where
  "delete_and_wait env c rq get upd del kind i =
     bnd_loop (io_loop (del (id_text env i))) (\<lambda>_.
     bnd_loop (network_wait_for_deletion env c rq kind (id_text env i)) (\<lambda>_. io_loop (forget get upd i)))"

definition nb_delete_network ::
    "'r env \<Rightarrow> rest_client \<Rightarrow> (('r, 'x) net_world_scheme) requester \<Rightarrow> py
     \<Rightarrow> (('r, 'x) net_world_scheme, unit) loopy" where
  "nb_delete_network env c rq =
     delete_and_wait env c rq nw_networks nw_networks_update (delete_network rq) ''network''"

definition nb_delete_subnet ::
    "'r env \<Rightarrow> rest_client \<Rightarrow> (('r, 'x) net_world_scheme) requester \<Rightarrow> py
     \<Rightarrow> (('r, 'x) net_world_scheme, unit) loopy" where
  "nb_delete_subnet env c rq =
     delete_and_wait env c rq nw_subnets nw_subnets_update (delete_subnet rq) ''subnet''"

definition nb_delete_sec_group_rule ::
    "'r env \<Rightarrow> rest_client \<Rightarrow> (('r, 'x) net_world_scheme) requester \<Rightarrow> py
     \<Rightarrow> (('r, 'x) net_world_scheme, unit) loopy" where
  "nb_delete_sec_group_rule env c rq =
     delete_and_wait env c rq nw_security_group_rules nw_security_group_rules_update
       (delete_security_group_rule rq) ''security_group_rule''"

definition nb_delete_sec_group ::
    "'r env \<Rightarrow> rest_client \<Rightarrow> (('r, 'x) net_world_scheme) requester \<Rightarrow> py
     \<Rightarrow> (('r, 'x) net_world_scheme, unit) loopy" where
  "nb_delete_sec_group env c rq =
     delete_and_wait env c rq nw_security_groups nw_security_groups_update
       (delete_security_group rq) ''security_group''"

definition nb_delete_floating_ip ::
    "'r env \<Rightarrow> net_base \<Rightarrow> rest_client \<Rightarrow> (('r, 'x) net_world_scheme) requester \<Rightarrow> py
     \<Rightarrow> (('r, 'x) net_world_scheme, unit) loopy" where
  "nb_delete_floating_ip env nb c rq i =
     bnd_loop (nb_disassociate_floating_ip env nb rq i) (\<lambda>_.
       delete_and_wait env c rq nw_floating_ips nw_floating_ips_update (delete_floatingip rq) ''floatingip'' i)"

definition nb_delete_router ::
    "'r env \<Rightarrow> rest_client \<Rightarrow> (('r, 'x) net_world_scheme) requester \<Rightarrow> py
     \<Rightarrow> (('r, 'x) net_world_scheme, unit) loopy" where
  "nb_delete_router env c rq i =
     bnd_loop (live_for nw_subnets (\<lambda>subnet. ignoring (io_loop (quietly (nb_router_remove_subnet env rq i subnet))))) (\<lambda>_.
     bnd_loop (io_loop (nb_router_unset_external_gw env rq i)) (\<lambda>_.
       delete_and_wait env c rq nw_routers nw_routers_update (delete_router rq) ''router'' i))"

text \<open>The three resources of a firewall are not waited for before the id is removed.\<close>

definition nb_delete_firewall_rule ::
    "'r env \<Rightarrow> (('r, 'x) net_world_scheme) requester \<Rightarrow> py \<Rightarrow> (('r, 'x) net_world_scheme, unit) io" where
  "nb_delete_firewall_rule env rq i =
     bnd (delete_firewall_rule rq (id_text env i)) (\<lambda>_. forget nw_firewall_rules nw_firewall_rules_update i)"

definition nb_delete_firewall ::
    "'r env \<Rightarrow> (('r, 'x) net_world_scheme) requester \<Rightarrow> py \<Rightarrow> (('r, 'x) net_world_scheme, unit) io" where
  "nb_delete_firewall env rq i =
     bnd (delete_firewall rq (id_text env i)) (\<lambda>_. forget nw_firewalls nw_firewalls_update i)"

text \<open>The wait asks for the status of a firewall with the id of the policy.\<close>

definition nb_delete_firewall_policy ::
    "'r env \<Rightarrow> net_base \<Rightarrow> (('r, 'x) net_world_scheme) requester \<Rightarrow> py
     \<Rightarrow> (('r, 'x) net_world_scheme, unit) loopy" where
  "nb_delete_firewall_policy env nb rq i =
     bnd_loop (io_loop (bnd (delete_firewall_policy rq (id_text env i)) (\<lambda>_.
                 forget nw_firewall_policies nw_firewall_policies_update i))) (\<lambda>_.
       nb_wait_resource_status nb (nb_get_firewall_status env rq) i ''ACTIVE'' None None)"

section \<open>Deleting everything\<close>

definition nb_check_delete_list :: "('r, 'x) net_world_scheme \<Rightarrow> bool" where
  "nb_check_delete_list w =
     (nw_firewalls w = [] \<and> nw_firewall_policies w = [] \<and> nw_firewall_rules w = [] \<and> nw_floating_ips w = []
      \<and> nw_security_group_rules w = [] \<and> nw_security_groups w = [] \<and> nw_routers w = [] \<and> nw_subnets w = []
      \<and> nw_networks w = [])"

text \<open>Every loop runs over a list from which its body removes; an exception of the body is logged.\<close>

definition nb_delete_firewalls ::
    "'r env \<Rightarrow> net_base \<Rightarrow> (('r, 'x) net_world_scheme) requester \<Rightarrow> (('r, 'x) net_world_scheme, unit) loopy" where
  "nb_delete_firewalls env nb rq =
     bnd_loop (live_for nw_firewalls (\<lambda>i. ignoring (io_loop (
                 bnd (nb_remove_firewall_all_routers env rq i) (\<lambda>_. nb_delete_firewall env rq i))))) (\<lambda>_.
     bnd_loop (live_for nw_firewall_policies (\<lambda>p. live_for nw_firewall_rules (\<lambda>r.
                 ignoring (io_loop (quietly (nb_remove_firewall_policy_rule p r)))))) (\<lambda>_.
     bnd_loop (live_for nw_firewall_policies (\<lambda>p. ignoring (nb_delete_firewall_policy env nb rq p))) (\<lambda>_.
       live_for nw_firewall_rules (\<lambda>r. ignoring (io_loop (nb_delete_firewall_rule env rq r))))))"

definition nb_delete_all ::
    "'r env \<Rightarrow> net_base \<Rightarrow> rest_client \<Rightarrow> (('r, 'x) net_world_scheme) requester
     \<Rightarrow> (('r, 'x) net_world_scheme, unit) loopy" where
  "nb_delete_all env nb c rq =
     bnd_loop (nb_delete_firewalls env nb rq) (\<lambda>_.
     bnd_loop (live_for nw_floating_ips (\<lambda>i. ignoring (nb_delete_floating_ip env nb c rq i))) (\<lambda>_.
     bnd_loop (live_for nw_security_group_rules (\<lambda>i. ignoring (nb_delete_sec_group_rule env c rq i))) (\<lambda>_.
     bnd_loop (live_for nw_security_groups (\<lambda>i. ignoring (nb_delete_sec_group env c rq i))) (\<lambda>_.
     bnd_loop (live_for nw_routers (\<lambda>i. ignoring (nb_delete_router env c rq i))) (\<lambda>_.
     bnd_loop (live_for nw_subnets (\<lambda>i. ignoring (nb_delete_subnet env c rq i))) (\<lambda>_.
     bnd_loop (live_for nw_networks (\<lambda>i. ignoring (nb_delete_network env c rq i))) (\<lambda>_.
       io_loop (bnd (gets nb_check_delete_list) (\<lambda>clear.
         if clear then ret () else throw (Auto DeleteException [] []))))))))))"

end
