(* ===== verification/NetworkBaseProps.thy ===== *)
theory NetworkBaseProps
  imports NetworkBase RestProps
begin

text \<open>
  The properties of \<open>testcases/network_tests/base.py\<close>: when a wait gives up, what is remembered of a resource
  whose creation fails later, and what \<open>delete_all\<close> leaves behind.
\<close>

section \<open>Waiting for a status\<close>

lemma loop_simps:
  "bnd_loop (io_loop m) f w = (case m w of (Inl e, w') \<Rightarrow> Some (Inl e, w') | (Inr x, w') \<Rightarrow> f x w')"
  "io_loop m w = Some (m w)"
  by (simp_all add: bnd_loop_def io_loop_def split: prod.splits sum.splits)

text \<open>
  (network_wait_gives_up): a wait for a status that never comes, of a method that itself does not sleep,
  raises \<open>TimeoutException\<close>, and it has paused once for every interval that fits into the timeout and once
  more: it runs over the timeout by up to an interval.
\<close>

theorem network_wait_gives_up:
  assumes "1 \<le> or_default interval (nb_build_interval nb)" "0 \<le> or_default timeout (nb_build_timeout nb)"
    and "\<And>w. \<exists>v w'. ask i w = (Inr v, w') \<and> v \<noteq> PStr status \<and> naps w' = naps w"
  shows "\<exists>w'. nb_wait_resource_status nb ask i status interval timeout w
      = Some (Inl (Auto TimeoutException [] []), w')
    \<and> naps w' = naps w @ replicate
        (nat (or_default timeout (nb_build_timeout nb) div or_default interval (nb_build_interval nb)) + 1)
        (or_default interval (nb_build_interval nb))"
proof -
  let ?i = "or_default interval (nb_build_interval nb)" and ?t = "or_default timeout (nb_build_timeout nb)"
  let ?check = "bnd (ask i) (\<lambda>current. ret (if current = PStr status then Some () else None))"
  have quiet: "\<exists>w'. ?check w = (Inr None, w') \<and> naps w' = naps w \<and> True" for w
    using assms(3) [of w] by (auto simp: bnd_Inr)
  from countdown_all_naps [of ?i "\<lambda>_. True" ?check w ?t, OF assms(1) quiet] assms(2)
  obtain w' where "countdown ?i ?check ?t w = Some (Inr None, w')"
      "naps w' = naps w @ replicate (nat (?t div ?i) + 1) ?i" by (auto simp: rounds_left_def)
  then show ?thesis by (simp add: nb_wait_resource_status_def or_raise_def bnd_loop_def io_loop_def)
qed

definition demo_net_base :: net_base where
  "demo_net_base = \<lparr>nb_network_name = PStr ''n'', nb_subnet_name = PStr ''s'', nb_firewall_name = PNone,
     nb_vlan_id = PNone, nb_subnet_cidr = PNone, nb_subnet_ip_version = PInt 4, nb_router_name = PStr ''r'',
     nb_external_network_id = PStr ''x'', nb_sec_group_name = PStr ''g'', nb_build_interval = 2,
     nb_build_timeout = 5\<rparr>"

definition demo_net_world :: "py list \<Rightarrow> script net_world" where
  "demo_net_world networks = \<lparr>now = 0, remote = [], sent = [], naps = [], nw_networks = networks, nw_subnets = [],
     nw_routers = [], nw_security_groups = [], nw_security_group_rules = [], nw_floating_ips = [],
     nw_firewall_rules = [], nw_firewall_policies = [], nw_firewalls = []\<rparr>"

theorem network_wait_gives_up_witness:
  "\<exists>w'. nb_wait_resource_status demo_net_base (\<lambda>i. ret (PStr ''BUILD'')) (PStr ''n1'') ''ACTIVE'' None None
     (demo_net_world []) = Some (Inl (Auto TimeoutException [] []), w') \<and> naps w' = [2, 2, 2]"
  using network_wait_gives_up [where interval = None and timeout = None and nb = demo_net_base
      and ask = "\<lambda>i. ret (PStr ''BUILD'')" and i = "PStr ''n1''" and status = "''ACTIVE''"
      and w = "demo_net_world []"]
  by (simp add: or_default_def demo_net_base_def demo_net_world_def numeral_eq_Suc)

section \<open>Nothing created is forgotten\<close>

text \<open>The lists of a world; the requests of a client do not change them.\<close>

definition nb_lists :: "('r, 'x) net_world_scheme \<Rightarrow> py list list" where
  "nb_lists w = [nw_networks w, nw_subnets w, nw_routers w, nw_security_groups w, nw_security_group_rules w,
     nw_floating_ips w, nw_firewall_rules w, nw_firewall_policies w, nw_firewalls w]"

definition same_lists :: "('r, 'x) net_world_scheme \<Rightarrow> ('r, 'x) net_world_scheme \<Rightarrow> bool" where
  "same_lists w w' = (nb_lists w' = nb_lists w)"

definition keeps_lists :: "(('r, 'x) net_world_scheme) requester \<Rightarrow> bool" where
  "keeps_lists rq = (\<forall>m u x h b. within same_lists (rq m u x h b))"

lemma same_lists_order: "reflp same_lists" "transp same_lists"
  by (auto simp: same_lists_def reflp_def transp_def)

lemmas same_lists_intros = within_pure [OF same_lists_order(1)] within_bnd [OF same_lists_order(2)]

lemma keeps_listsD: "keeps_lists rq \<Longrightarrow> within same_lists (rq m u x h b)"
  by (simp add: keeps_lists_def)

lemma nb_lists_sleep [simp]: "nb_lists (snd (sleep n w)) = nb_lists w"
  by (simp add: sleep_def nb_lists_def)

lemma resources_keep_lists:
  assumes "keeps_lists rq"
  shows "within same_lists (show_resource env rq uri flds)" "within same_lists (create_resource env rq uri doc)"
    "within same_lists (delete_resource rq uri)" "within same_lists (update_resource env rq uri doc)"
  unfolding show_resource_def create_resource_def delete_resource_def update_resource_def http_get_def
    http_post_def http_put_def http_delete_def
  by (intro same_lists_intros keeps_listsD [OF assms])+

lemma wait_keeps_lists:
  assumes "1 \<le> or_default interval (nb_build_interval nb)" "within same_lists (ask i)"
    and "nb_wait_resource_status nb ask i status interval timeout w = Some (r, w')"
  shows "nb_lists w' = nb_lists w"
proof -
  let ?i = "or_default interval (nb_build_interval nb)" and ?t = "or_default timeout (nb_build_timeout nb)"
  let ?check = "bnd (ask i) (\<lambda>current. ret (if current = PStr status then Some () else None))"
  have "within same_lists ?check" by (intro same_lists_intros assms(2))
  then have check: "nb_lists v' = nb_lists w" if "nb_lists v = nb_lists w" "?check v = (x, v')" for v x v'
    using that(1) withinD [OF \<open>within same_lists ?check\<close> that(2)] by (simp add: same_lists_def)
  obtain x where "countdown ?i ?check ?t w = Some (x, w')"
    using assms(3) unfolding nb_wait_resource_status_def or_raise_def
    by (auto simp: bnd_loop_def io_loop_def split: option.splits sum.splits prod.splits)
  then show ?thesis
    using countdown_keeps [of ?i "\<lambda>v. nb_lists v = nb_lists w" ?check w ?t x w', OF assms(1) check]
    by (simp del: bnd_apply)
qed

text \<open>
  C33 (created_network_remembered): once the service has answered the creation of a network with an id, that id
  is in the list \<open>delete_all\<close> works on, however the wait for the network ends; the other lists are as they were.
\<close>

theorem created_network_remembered:
  assumes "keeps_lists rq" "1 \<le> nb_build_interval nb"
    and "create_network env rq (network_params nb name) w = (Inr b, w1)"
    and "nested (PDict (rb_data b)) ''network'' ''id'' = Inr i"
    and "nb_create_network env nb rq name w = Some (r, w')"
  shows "nb_lists w' = nb_lists (w\<lparr>nw_networks := nw_networks w @ [i]\<rparr>)"
proof -
  let ?w2 = "w1\<lparr>nw_networks := nw_networks w1 @ [i]\<rparr>"
  have w1: "nb_lists w1 = nb_lists w"
    using assms(1,3) by (auto simp: create_network_def same_lists_def dest!: withinD [OF resources_keep_lists(2)])
  obtain made where made: "rb_item b ''network'' = Inr made"
    using assms(4) by (auto simp: nested_def rb_item_def)
  have first: "remember_id nw_networks_update ''network'' (create_network env rq (network_params nb name)) w
      = (Inr (i, made), ?w2)"
    using assms(3,4) made by (simp add: remember_id_def bnd_Inr remember_def)
  have show_it: "within same_lists (nb_get_network_status env rq i)"
    unfolding nb_get_network_status_def status_in_def show_network_def
    by (intro same_lists_intros resources_keep_lists assms(1))
  from assms(5) first obtain x where
    "nb_wait_resource_status nb (nb_get_network_status env rq) i ''ACTIVE'' None None ?w2 = Some (x, w')"
    by (auto simp: nb_create_network_def loop_simps(1))
      (auto simp: bnd_loop_def io_loop_def split: option.splits sum.splits)
  from wait_keeps_lists [OF _ show_it this] assms(2) have "nb_lists w' = nb_lists ?w2"
    by (simp add: or_default_def)
  with w1 show ?thesis by (simp add: nb_lists_def)
qed

definition demo_net_rq :: "(('r, 'x) net_world_scheme) requester" where
  "demo_net_rq m u x h b w =
     (if m = ''DELETE'' then (Inr (\<lparr>rs_status = 204, rs_headers = []\<rparr>, []), w)
      else if m = ''POST'' then (Inr (\<lparr>rs_status = 201, rs_headers = []\<rparr>, ''n''), w)
      else if take 14 u = ''v2.0/networks/'' then (Inl (Auto NotFound [] []), w)
      else (Inr (\<lparr>rs_status = 200, rs_headers = []\<rparr>, ''n''), w))"

lemma demo_net_rq_keeps: "keeps_lists demo_net_rq"
  by (auto simp: keeps_lists_def within_def demo_net_rq_def same_lists_def)

definition demo_net_env :: "script env" where
  "demo_net_env = demo_env [(''n'', PDict [(''network'', PDict [(''id'', PStr ''n1''), (''status'', PStr ''ACTIVE'')])])]"

text \<open>Here the network cannot be shown, so the creation raises, and the id is remembered.\<close>

theorem created_network_remembered_witness:
  "\<exists>e w'. nb_create_network demo_net_env demo_net_base demo_net_rq PNone (demo_net_world [])
     = Some (Inl e, w') \<and> nw_networks w' = [PStr ''n1'']"
proof -
  let ?b = "\<lparr>rb_response = \<lparr>rs_status = 201, rs_headers = []\<rparr>,
    rb_data = [(''network'', PDict [(''id'', PStr ''n1''), (''status'', PStr ''ACTIVE'')])]\<rparr>"
  let ?w = "demo_net_world []"
  have create: "create_network demo_net_env demo_net_rq (network_params demo_net_base PNone) ?w = (Inr ?b, ?w)"
    by (simp add: create_network_def create_resource_def http_post_def demo_net_rq_def bnd_Inr resource_reply_def
        demo_net_env_def demo_env_def json_loads_def json_dumps_def expected_success_def HTTP_SUCCESS_def)
  have status: "nb_get_network_status demo_net_env demo_net_rq i v = (Inl (Auto NotFound [] []), v)" for i v
    by (simp add: nb_get_network_status_def status_in_def show_network_def show_resource_def http_get_def
        resource_uri_def uri_prefix_def demo_net_rq_def bnd_Inl)
  have first: "remember_id nw_networks_update ''network''
      (create_network demo_net_env demo_net_rq (network_params demo_net_base PNone)) ?w
    = (Inr (PStr ''n1'', PDict [(''id'', PStr ''n1''), (''status'', PStr ''ACTIVE'')]),
       ?w\<lparr>nw_networks := nw_networks ?w @ [PStr ''n1'']\<rparr>)"
    by (simp add: remember_id_def bnd_Inr create nested_def remember_def rb_item_def)
  have wait: "nb_wait_resource_status demo_net_base (nb_get_network_status demo_net_env demo_net_rq) i st None None v
      = Some (Inl (Auto NotFound [] []), v)" for i st v
    by (simp add: nb_wait_resource_status_def or_raise_def countdown_def loop_io.simps countdown_round_def
        or_default_def bnd_Inl status bnd_loop_def) (simp add: demo_net_base_def)
  obtain e w' where run: "nb_create_network demo_net_env demo_net_base demo_net_rq PNone ?w = Some (Inl e, w')"
    by (simp add: nb_create_network_def loop_simps first) (simp add: bnd_loop_def wait)
  from created_network_remembered [OF demo_net_rq_keeps _ create _ run, of "PStr ''n1''"]
  have "nb_lists w' = nb_lists (?w\<lparr>nw_networks := [PStr ''n1'']\<rparr>)"
    by (simp add: demo_net_base_def nested_def demo_net_world_def)
  then show ?thesis using run by (auto simp: nb_lists_def)
qed

section \<open>Deleting everything\<close>

text \<open>A service that deletes every network at once: the requests of a deletion and the lists.\<close>

definition deletes_networks :: "'r env \<Rightarrow> (('r, 'x) net_world_scheme) requester \<Rightarrow> bool" where
  "deletes_networks env rq =
     (\<forall>i w. \<exists>rs w1. rq ''DELETE'' (''v2.0/networks/'' @ id_text env i) False None PNone w = (Inr (rs, []), w1)
          \<and> rs_status rs = 204 \<and> nb_lists w1 = nb_lists w
          \<and> (\<exists>e w2. rq ''GET'' (''v2.0/networks/'' @ id_text env i) False None PNone w1 = (Inl e, w2)
               \<and> catches NotFound e \<and> nb_lists w2 = nb_lists w))"

lemma delete_network_ok:
  assumes rq: "deletes_networks env rq" and i: "i \<in> set (nw_networks w)"
  shows "\<exists>w'. nb_delete_network env c rq i w = Some (Inr (), w')
    \<and> nb_lists w' = nb_lists (w\<lparr>nw_networks := remove1 i (nw_networks w)\<rparr>)"
proof -
  obtain rs w1 e w2 where del: "rq ''DELETE'' (''v2.0/networks/'' @ id_text env i) False None PNone w = (Inr (rs, []), w1)"
      "rs_status rs = 204" and get: "rq ''GET'' (''v2.0/networks/'' @ id_text env i) False None PNone w1 = (Inl e, w2)"
      "catches NotFound e" and w2: "nb_lists w2 = nb_lists w"
    using rq unfolding deletes_networks_def by blast
  from get(2) have e: "e \<noteq> AttrErr" by (auto simp: catches_def)
  obtain b where deleted: "delete_network rq (id_text env i) w = (Inr b, w1)"
    using del by (auto simp: delete_network_def delete_resource_def http_delete_def uri_prefix_def bnd_Inr
        expected_success_def HTTP_SUCCESS_def)
  have gone: "is_resource_deleted env rq ''network'' (id_text env i) w1 = (Inr True, w2)"
    using get e by (simp add: is_resource_deleted_def show_methods_def show_network_def show_resource_def
        http_get_def resource_uri_def uri_prefix_def catch_def bnd_Inl)
  have wait: "network_wait_for_deletion env c rq ''network'' (id_text env i) w1 = Some (Inr (), w2)"
    using gone by (simp add: network_wait_for_deletion_def loop_io.simps network_deletion_round_def bnd_Inr)
  have "i \<in> set (nw_networks w2)" using w2 i by (simp add: nb_lists_def)
  then show ?thesis
    using w2 deleted wait
    by (simp add: nb_delete_network_def delete_and_wait_def loop_simps bnd_loop_def io_loop_def forget_def bnd_Inr
        nb_lists_def)
qed

lemma delete_networks_loop:
  assumes rq: "deletes_networks env rq" and w: "tl (nb_lists w) = replicate 8 []" "distinct (nw_networks w)"
  shows "\<exists>w'. live_for nw_networks (\<lambda>i. ignoring (nb_delete_network env c rq i)) w = Some (Inr (), w')
    \<and> nw_networks w' = skipped (nw_networks w) \<and> tl (nb_lists w') = replicate 8 []"
proof (rule live_for_removes)
  fix x :: py and v :: "('a, 'b) net_world_scheme"
  assume "tl (nb_lists v) = replicate 8 []" "x \<in> set (nw_networks v)"
  with delete_network_ok [OF rq this(2), of c]
  show "\<exists>w'. ignoring (nb_delete_network env c rq x) v = Some (Inr (), w')
      \<and> nw_networks w' = remove1 x (nw_networks v) \<and> tl (nb_lists w') = replicate 8 []"
    by (auto simp: ignoring_def catch_loop_def nb_lists_def)
qed (use w in simp_all)

text \<open>
  C32 (network_cleanup_skips): \<open>delete_all\<close> removes ids from the list it iterates over, so it deletes every second
  network only: with two networks or more it raises \<open>DeleteException\<close> and leaves half of them, although the
  service carries out every deletion it is asked for. With one network or none it returns.
\<close>

theorem network_cleanup_skips:
  assumes "deletes_networks env rq" "tl (nb_lists w) = replicate 8 []" "distinct (nw_networks w)"
  shows "\<exists>w'. nb_delete_all env nb c rq w
      = Some (if length (nw_networks w) \<le> 1 then Inr () else Inl (Auto DeleteException [] []), w')
    \<and> nw_networks w' = skipped (nw_networks w)"
proof -
  have empty: "nw_firewalls w = []" "nw_firewall_policies w = []" "nw_firewall_rules w = []" "nw_floating_ips w = []"
      "nw_security_group_rules w = []" "nw_security_groups w = []" "nw_routers w = []" "nw_subnets w = []"
    using assms(2) by (simp_all add: nb_lists_def numeral_eq_Suc)
  obtain w' where w': "live_for nw_networks (\<lambda>i. ignoring (nb_delete_network env c rq i)) w = Some (Inr (), w')"
      "nw_networks w' = skipped (nw_networks w)" "tl (nb_lists w') = replicate 8 []"
    using delete_networks_loop [OF assms] by blast
  have before: "nb_delete_firewalls env nb rq w = Some (Inr (), w)"
    using empty by (simp add: nb_delete_firewalls_def bnd_loop_def live_for_Nil)
  have check: "nb_check_delete_list w' \<longleftrightarrow> length (nw_networks w) \<le> 1"
    using w'(2,3) by (simp add: nb_check_delete_list_def nb_lists_def numeral_eq_Suc skipped_Nil_iff)
  show ?thesis
    using empty before w' check
    by (simp add: nb_delete_all_def bnd_loop_def live_for_Nil io_loop_def bnd_Inr)
qed

theorem network_cleanup_skips_witness:
  "\<exists>w'. nb_delete_all demo_net_env demo_net_base demo_client demo_net_rq (demo_net_world [PStr ''a'', PStr ''b'', PStr ''c''])
     = Some (Inl (Auto DeleteException [] []), w') \<and> nw_networks w' = [PStr ''b'']"
proof -
  have "deletes_networks demo_net_env demo_net_rq"
    by (simp add: deletes_networks_def demo_net_rq_def catches_def isinstance_of_def supers.simps)
  from network_cleanup_skips [OF this, of "demo_net_world [PStr ''a'', PStr ''b'', PStr ''c'']"]
  show ?thesis by (simp add: demo_net_world_def nb_lists_def numeral_eq_Suc)
qed

end
