(* ===== verification/ComputeBase.thy ===== *)
theory ComputeBase
  imports LiveLoops ImageClients NetworkClient
begin

text \<open>
  The base of the compute test cases: \<open>testcases/compute_tests/base_compute.py\<close>, the monitor of
  \<open>base_monitor.py\<close> and the command over SSH of \<open>testcases/base_ssh.py\<close>.

  The lists of the servers and images that were created are fields of the world. The clients of the manager are
  used through their \<open>request\<close>, the record \<open>compute_clients\<close>; the session of \<open>requests\<close> and \<open>paramiko\<close> are
  arguments, as are random names.
\<close>

section \<open>State\<close>

record 'r compute_world = "'r world" +
  cw_servers :: "py list"
  cw_images :: "py list"

record 'w compute_clients =
  cc_servers :: "'w requester"
  cc_images :: "'w requester"
  cc_glance :: "'w requester"
  cc_flavors :: "'w requester"
  cc_network :: "'w requester"

record compute_base =
  cb_image_ref :: py
  cb_server_name :: py
  cb_flavor_ref :: py
  cb_network_id :: py
  cb_security_group_id :: py
  cb_enable_password :: bool
  cb_build_interval :: int
  cb_build_timeout :: int
  cb_delete_interval :: int
  cb_delete_timeout :: int

section \<open>The monitor\<close>

record monitor =
  mo_server :: py
  mo_user :: py
  mo_password :: py

text \<open>A POST of the session: the status and what \<open>response.json()\<close> gives.\<close>

type_synonym 'w poster = "string \<Rightarrow> string \<Rightarrow> ('w, int \<times> (pyexc + py)) io"

definition monitor_init :: "(string \<Rightarrow> py) \<Rightarrow> monitor \<Rightarrow> monitor" where
  "monitor_init option given =
     \<lparr>mo_server = py_or (mo_server given) (option ''zabbix_server''),
      mo_user = py_or (mo_user given) (option ''zabbix_user''),
      mo_password = py_or (mo_password given) (option ''zabbix_passwd'')\<rparr>"

definition monitor_url :: "'r env \<Rightarrow> monitor \<Rightarrow> string" where
  "monitor_url env mo = ''http://'' @ py_text (e_repr env) (mo_server mo) @ '':8090/zabbix/api_jsonrpc.php''"

definition login_doc :: "monitor \<Rightarrow> py" where
  "login_doc mo = PDict
     [(''jsonrpc'', PStr ''2.0''), (''method'', PStr ''user.login''),
      (''params'', PDict [(''user'', mo_user mo), (''password'', mo_password mo)]), (''id'', PInt 1)]"

text \<open>None when the login fails.\<close>

definition login_monitor :: "'r env \<Rightarrow> 'w poster \<Rightarrow> monitor \<Rightarrow> ('w, py) io" where
  "login_monitor env post mo =
     bnd (post (monitor_url env mo) (e_dumps env (login_doc mo))) (\<lambda>(status, json).
       if status = 200 then lift (bindE json (\<lambda>b. getitem b ''result'')) else ret PNone)"

definition host_doc :: "py \<Rightarrow> py \<Rightarrow> py" where
  "host_doc server_id auth_id = PDict
     [(''jsonrpc'', PStr ''2.0''), (''method'', PStr ''host.create''),
      (''params'', PDict
         [(''host'', server_id),
          (''interfaces'', PList [PDict [(''type'', PInt 1), (''main'', PInt 1), (''useip'', PInt 1),
             (''ip'', PStr ''192.168.0.1''), (''dns'', PStr []), (''port'', PStr ''10050'')]]),
          (''groups'', PList [PDict [(''groupid'', PStr ''2'')]]),
          (''templates'', PList [PDict [(''templateid'', PStr ''10002'')]])]),
      (''auth'', auth_id), (''id'', PInt 1)]"

definition create_monitor :: "'r env \<Rightarrow> 'w poster \<Rightarrow> monitor \<Rightarrow> py \<Rightarrow> ('w, unit) io" where
  "create_monitor env post mo server_id =
     bnd (login_monitor env post mo) (\<lambda>auth_id.
       if auth_id = PNone then throw (Auto CreateMonitorException [] [])
       else bnd (post (monitor_url env mo) (e_dumps env (host_doc server_id auth_id))) (\<lambda>(status, json).
         if status = 200 then ret () else throw (Auto CreateMonitorException [] [])))"

section \<open>Looking up references\<close>

definition cb_get_image_id :: "'r env \<Rightarrow> 'w compute_clients \<Rightarrow> py \<Rightarrow> ('w, py) io" where
  "cb_get_image_id env cc name =
     bnd (im1_list_images env (cc_glance cc) False [] PNone []) (\<lambda>b.
     bnd (lift (bindE (py_get (PDict (rb_data b)) ''images'' (PList [])) py_iter)) (\<lambda>images.
       lift (id_named ImageNotFound name images)))"

definition cb_get_flavor_id :: "'r env \<Rightarrow> schemas \<Rightarrow> 'w compute_clients \<Rightarrow> py \<Rightarrow> ('w, py) io" where
  "cb_get_flavor_id env sc cc name =
     bnd (list_flavors env sc (cc_flavors cc) False []) (\<lambda>b. lift (id_named FlavorNotFound name (rl_data b)))"

definition cb_get_network_id :: "'r env \<Rightarrow> 'w compute_clients \<Rightarrow> py \<Rightarrow> ('w, py) io" where
  "cb_get_network_id env cc name =
     bnd (list_networks env (cc_network cc) []) (\<lambda>b.
     bnd (lift (bindE (py_get (PDict (rb_data b)) ''networks'' (PList [])) py_iter)) (\<lambda>networks.
       lift (id_named NetworkNotFound name networks)))"

text \<open>
  \<open>__init__\<close>: \<open>given\<close> are the arguments (PNone when missing) and the numbers of the configuration, \<open>option\<close> the
  options of the section compute, \<open>fresh\<close> a random name. The lists are emptied before anything is looked up.
\<close>

definition cb_init ::
    "'r env \<Rightarrow> schemas \<Rightarrow> (string \<Rightarrow> py) \<Rightarrow> (('r, 'x) compute_world_scheme) compute_clients \<Rightarrow> string
     \<Rightarrow> compute_base \<Rightarrow> (('r, 'x) compute_world_scheme, compute_base) io" where
  "cb_init env sc option cc fresh given =
     bnd (modify (\<lambda>w. w\<lparr>cw_servers := [], cw_images := []\<rparr>)) (\<lambda>_.
     bnd (if truthy (cb_image_ref given) then ret (cb_image_ref given)
          else cb_get_image_id env cc (option ''image_name'')) (\<lambda>image.
     bnd (if truthy (cb_flavor_ref given) then ret (cb_flavor_ref given)
          else cb_get_flavor_id env sc cc (option ''flavor_name'')) (\<lambda>flavor.
     bnd (if truthy (cb_network_id given) then ret (cb_network_id given)
          else cb_get_network_id env cc (option ''fixed_network_name'')) (\<lambda>network.
       ret (given\<lparr>cb_image_ref := image, cb_server_name := py_or (cb_server_name given) (PStr fresh),
                  cb_flavor_ref := flavor, cb_network_id := network\<rparr>)))))"

section \<open>What a server looks like\<close>

definition cb_show_server :: "'r env \<Rightarrow> schemas \<Rightarrow> 'w compute_clients \<Rightarrow> py \<Rightarrow> ('w, response_body) io" where
  "cb_show_server env sc cc server_id = show_server env sc (cc_servers cc) (id_text env server_id)"

definition cb_get_server_host :: "'r env \<Rightarrow> schemas \<Rightarrow> 'w compute_clients \<Rightarrow> py \<Rightarrow> ('w, py) io" where
  "cb_get_server_host env sc cc server_id =
     bnd (cb_show_server env sc cc server_id) (\<lambda>b. ret (rb_get b ''OS-EXT-SRV-ATTR:host''))"

definition cb_get_server_status :: "'r env \<Rightarrow> schemas \<Rightarrow> 'w compute_clients \<Rightarrow> py \<Rightarrow> ('w, py) io" where
  "cb_get_server_status env sc cc server_id =
     bnd (cb_show_server env sc cc server_id) (\<lambda>b. ret (rb_get b ''status''))"

definition cb_get_server_task_state ::
    "'r env \<Rightarrow> schemas \<Rightarrow> 'w compute_clients \<Rightarrow> py \<Rightarrow> ('w, py \<times> py) io" where
  "cb_get_server_task_state env sc cc server_id =
     bnd (cb_show_server env sc cc server_id) (\<lambda>b.
       ret (rb_get b ''status'', rb_get b ''OS-EXT-STS:task_state''))"

definition cb_get_server_volumes :: "'r env \<Rightarrow> schemas \<Rightarrow> 'w compute_clients \<Rightarrow> py \<Rightarrow> ('w, py list) io" where
  "cb_get_server_volumes env sc cc server_id =
     bnd (cb_show_server env sc cc server_id) (\<lambda>b.
       lift (bindE (py_iter (rb_get b ''os-extended-volumes:volumes_attached'')) (mapE (\<lambda>v. getitem v ''id''))))"

definition cb_show_server_interfaces ::
    "'r env \<Rightarrow> schemas \<Rightarrow> 'w compute_clients \<Rightarrow> py \<Rightarrow> ('w, response_body) io" where
  "cb_show_server_interfaces env sc cc server_id =
     list_interfaces env sc (cc_servers cc) (id_text env server_id)"

definition cb_get_server_current_qos :: "'r env \<Rightarrow> schemas \<Rightarrow> 'w compute_clients \<Rightarrow> py \<Rightarrow> ('w, py) io" where
  "cb_get_server_current_qos env sc cc server_id =
     bnd (get_server_network_qos env sc (cc_servers cc) (id_text env server_id)) (\<lambda>b.
       ret (py_or (rb_get b ''network_vif_qos_id'') (PStr ''10'')))"

definition cb_get_qos_types :: "'r env \<Rightarrow> schemas \<Rightarrow> 'w compute_clients \<Rightarrow> ('w, py) io" where
  "cb_get_qos_types env sc cc = get_network_qos_types env sc (cc_servers cc)"

section \<open>Waiting\<close>

definition status_check :: "string \<Rightarrow> py \<Rightarrow> ('w, unit option) io" where
  "status_check status st =
     (if st = PStr status then ret (Some ())
      else if st = PStr ''ERROR'' then throw (Auto ServerError [] []) else ret None)"

definition cb_check_server_status_interval ::
    "'r env \<Rightarrow> schemas \<Rightarrow> (('r, 'x) world_scheme) compute_clients \<Rightarrow> py \<Rightarrow> string \<Rightarrow> int \<Rightarrow> int
     \<Rightarrow> (('r, 'x) world_scheme, unit) loopy" where
  "cb_check_server_status_interval env sc cc server_id status interval timeout =
     or_raise (Auto ServerTimeOut [] [])
       (countdown interval (bnd (cb_get_server_status env sc cc server_id) (status_check status)) timeout)"

text \<open>\<open>task_state.lower()\<close>: a missing task state has no such method.\<close>

definition task_check :: "py \<Rightarrow> py \<times> py \<Rightarrow> ('w, unit option) io" where
  "task_check t_task_state = (\<lambda>(st, task).
     bnd (lift (as_str AttrErr task)) (\<lambda>t.
       if PStr (str_lower t) = t_task_state then ret (Some ())
       else if st = PStr ''ERROR'' then throw (Auto ServerError [] []) else ret None))"

definition cb_check_server_task_state_interval ::
    "'r env \<Rightarrow> schemas \<Rightarrow> (('r, 'x) world_scheme) compute_clients \<Rightarrow> py \<Rightarrow> py \<Rightarrow> int \<Rightarrow> int
     \<Rightarrow> (('r, 'x) world_scheme, unit) loopy" where
  "cb_check_server_task_state_interval env sc cc server_id t_task_state interval timeout =
     or_raise (Auto ServerTimeOut [] [])
       (countdown interval (bnd (cb_get_server_task_state env sc cc server_id) (task_check t_task_state)) timeout)"

definition cb_check_server_volume_interval ::
    "'r env \<Rightarrow> schemas \<Rightarrow> (('r, 'x) world_scheme) compute_clients \<Rightarrow> py \<Rightarrow> py \<Rightarrow> int \<Rightarrow> int
     \<Rightarrow> (('r, 'x) world_scheme, unit) loopy" where
  "cb_check_server_volume_interval env sc cc server_id volume_id interval timeout =
     or_raise (Auto ServerTimeOut [] [])
       (countdown interval
          (bnd (cb_get_server_volumes env sc cc server_id) (\<lambda>volumes.
             ret (if volume_id \<in> set volumes then Some () else None))) timeout)"

text \<open>
  \<open>BaseSSH.run_cmd\<close>: \<open>run\<close> connects and executes, None stands for an \<open>AuthenticationException\<close>, otherwise the
  outputs of the command. The result is its output or False.
\<close>

type_synonym 'w ssh_runner = "string \<Rightarrow> string \<Rightarrow> string \<Rightarrow> ('w, (string \<times> string) option) io"

definition run_cmd :: "'w ssh_runner \<Rightarrow> string \<Rightarrow> string \<Rightarrow> string \<Rightarrow> ('w, py) io" where
  "run_cmd run host passwd cmd =
     bnd (run host passwd cmd) (\<lambda>outputs.
       case outputs of
         None \<Rightarrow> ret (PBool False)
       | Some (stdout, stderr) \<Rightarrow> ret (if stderr \<noteq> [] then PBool False else PStr stdout))"

definition cb_check_server_start_status_interval ::
    "(('r, 'x) world_scheme) ssh_runner \<Rightarrow> string \<Rightarrow> string \<Rightarrow> string \<Rightarrow> int \<Rightarrow> int
     \<Rightarrow> (('r, 'x) world_scheme, py) loopy" where
  "cb_check_server_start_status_interval run server_ip password command interval timeout =
     or_raise (Auto ServerTimeOut [] [])
       (countdown interval
          (bnd (run_cmd run server_ip password command) (\<lambda>r. ret (if r \<noteq> PNone then Some r else None))) timeout)"

section \<open>Operations\<close>

definition cb_wait_status ::
    "'r env \<Rightarrow> schemas \<Rightarrow> compute_base \<Rightarrow> (('r, 'x) world_scheme) compute_clients \<Rightarrow> py \<Rightarrow> string
     \<Rightarrow> (('r, 'x) world_scheme, unit) loopy" where
  "cb_wait_status env sc cb cc server_id status =
     cb_check_server_status_interval env sc cc server_id status (cb_build_interval cb) (cb_build_timeout cb)"

text \<open>\<open>except exceptions.ServerActionSucceed: return True / return True\<close>.\<close>

definition then_true :: "('w, unit) loopy \<Rightarrow> ('w, bool) loopy" where
  "then_true m = bnd_loop (ignoring_class ServerActionSucceed m) (\<lambda>_. io_loop (ret True))"

definition server_params :: "compute_base \<Rightarrow> py \<Rightarrow> py \<Rightarrow> (string, py) dict" where
  "server_params cb network_id sec_grp_id =
     (let grp = py_or sec_grp_id (cb_security_group_id cb) in
      [(''networks'', PList [PDict [(''uuid'', py_or network_id (cb_network_id cb))]])]
      @ (if truthy grp then [(''security_groups'', PList [PDict [(''name'', grp)]])] else []))"

definition cb_create_server ::
    "'r env \<Rightarrow> schemas \<Rightarrow> compute_base \<Rightarrow> (('r, 'x) compute_world_scheme) compute_clients
     \<Rightarrow> (('r, 'x) compute_world_scheme) poster \<Rightarrow> monitor \<Rightarrow> py \<Rightarrow> py \<Rightarrow> py \<Rightarrow> py \<Rightarrow> py
     \<Rightarrow> (('r, 'x) compute_world_scheme, response_body) loopy" where
  "cb_create_server env sc cb cc post mo name image_id flavor_id network_id sec_grp_id =
     bnd_loop (io_loop
       (bnd (create_server env sc (cb_enable_password cb) (cc_servers cc) (py_or name (cb_server_name cb))
               (py_or image_id (cb_image_ref cb)) (py_or flavor_id (cb_flavor_ref cb))
               (server_params cb network_id sec_grp_id)) (\<lambda>server.
        bnd (lift (rb_item server ''id'')) (\<lambda>i.
        bnd (remember cw_servers_update i) (\<lambda>_. ret (server, i)))))) (\<lambda>(server, i).
     bnd_loop (ignoring_class ServerActionSucceed
       (bnd_loop (cb_wait_status env sc cb cc i ''ACTIVE'') (\<lambda>_. io_loop (create_monitor env post mo i)))) (\<lambda>_.
       io_loop (ret server)))"

definition cb_attach_volume ::
    "'r env \<Rightarrow> schemas \<Rightarrow> compute_base \<Rightarrow> (('r, 'x) world_scheme) compute_clients \<Rightarrow> py \<Rightarrow> py
     \<Rightarrow> (('r, 'x) world_scheme, bool) loopy" where
  "cb_attach_volume env sc cb cc server_id volume_id =
     bnd_loop (io_loop (attach_volume env sc (cc_servers cc) (id_text env server_id) volume_id (PStr ''/dev/vdz'')))
       (\<lambda>_. then_true (cb_check_server_volume_interval env sc cc server_id volume_id
                         (cb_build_interval cb) (cb_build_timeout cb)))"

definition cb_detach_volume ::
    "'r env \<Rightarrow> schemas \<Rightarrow> 'w compute_clients \<Rightarrow> py \<Rightarrow> py \<Rightarrow> ('w, unit) io" where
  "cb_detach_volume env sc cc server_id volume_id =
     bnd (detach_volume env sc (cc_servers cc) (id_text env server_id) (id_text env volume_id)) (\<lambda>_. ret ())"

definition cb_delete_server :: "'r env \<Rightarrow> schemas \<Rightarrow> 'w compute_clients \<Rightarrow> py \<Rightarrow> ('w, unit) io" where
  "cb_delete_server env sc cc server_id =
     bnd (delete_server env sc (cc_servers cc) (id_text env server_id)) (\<lambda>_. ret ())"

text \<open>An action on a server, then the wait for a status.\<close>

definition act_and_wait ::
    "'r env \<Rightarrow> schemas \<Rightarrow> compute_base \<Rightarrow> (('r, 'x) world_scheme) compute_clients \<Rightarrow> py
     \<Rightarrow> (('r, 'x) world_scheme, response_body) io \<Rightarrow> string \<Rightarrow> (('r, 'x) world_scheme, bool) loopy" where
  "act_and_wait env sc cb cc server_id act status =
     bnd_loop (io_loop act) (\<lambda>_. then_true (cb_wait_status env sc cb cc server_id status))"

definition cb_power_off ::
    "'r env \<Rightarrow> schemas \<Rightarrow> compute_base \<Rightarrow> (('r, 'x) world_scheme) compute_clients \<Rightarrow> py
     \<Rightarrow> (('r, 'x) world_scheme, bool) loopy" where
  "cb_power_off env sc cb cc server_id =
     act_and_wait env sc cb cc server_id (stop env sc (cc_servers cc) (id_text env server_id) []) ''SHUTOFF''"

definition cb_power_on ::
    "'r env \<Rightarrow> schemas \<Rightarrow> compute_base \<Rightarrow> (('r, 'x) world_scheme) compute_clients \<Rightarrow> py
     \<Rightarrow> (('r, 'x) world_scheme, bool) loopy" where
  "cb_power_on env sc cb cc server_id =
     act_and_wait env sc cb cc server_id (start env sc (cc_servers cc) (id_text env server_id) []) ''ACTIVE''"

definition cb_reboot ::
    "'r env \<Rightarrow> schemas \<Rightarrow> compute_base \<Rightarrow> (('r, 'x) world_scheme) compute_clients \<Rightarrow> py \<Rightarrow> py
     \<Rightarrow> (('r, 'x) world_scheme, bool) loopy" where
  "cb_reboot env sc cb cc server_id reboot_type =
     act_and_wait env sc cb cc server_id (reboot env sc (cc_servers cc) (id_text env server_id) reboot_type) ''ACTIVE''"

definition cb_resize ::
    "'r env \<Rightarrow> schemas \<Rightarrow> compute_base \<Rightarrow> (('r, 'x) world_scheme) compute_clients \<Rightarrow> py \<Rightarrow> py
     \<Rightarrow> (('r, 'x) world_scheme, bool) loopy" where
  "cb_resize env sc cb cc server_id flavor_name =
     bnd_loop (io_loop (bnd (cb_get_flavor_id env sc cc flavor_name) (\<lambda>flavor_id.
                 resize env sc (cc_servers cc) (id_text env server_id) flavor_id []))) (\<lambda>_.
     bnd_loop (ignoring_class ServerActionSucceed
       (bnd_loop (cb_wait_status env sc cb cc server_id ''VERIFY_RESIZE'') (\<lambda>_.
          io_loop (bnd (confirm_resize env sc (cc_servers cc) (id_text env server_id) []) (\<lambda>_. ret ()))))) (\<lambda>_.
       then_true (cb_wait_status env sc cb cc server_id ''ACTIVE'')))"

text \<open>The result is True after the exception only.\<close>

definition cb_set_server_network_qos ::
    "'r env \<Rightarrow> schemas \<Rightarrow> compute_base \<Rightarrow> (('r, 'x) world_scheme) compute_clients \<Rightarrow> py \<Rightarrow> py \<Rightarrow> py
     \<Rightarrow> (('r, 'x) world_scheme, py) loopy" where
  "cb_set_server_network_qos env sc cb cc server_id current_qos_id new_qos_id =
     bnd_loop (io_loop (set_server_network_qos env sc (cc_servers cc) server_id current_qos_id new_qos_id)) (\<lambda>_.
       catch_loop (bnd_loop (cb_wait_status env sc cb cc server_id ''ACTIVE'') (\<lambda>_. io_loop (ret PNone)))
         (\<lambda>e. if catches ServerActionSucceed e then Some (io_loop (ret (PBool True))) else None))"

section \<open>Images\<close>

definition cb_get_image_status :: "'r env \<Rightarrow> schemas \<Rightarrow> 'w compute_clients \<Rightarrow> py \<Rightarrow> ('w, py) io" where
  "cb_get_image_status env sc cc image_id =
     bnd (nova_show_image env sc (cc_images cc) (id_text env image_id)) (\<lambda>b. ret (rb_get b ''status''))"

definition cb_delete_image :: "'r env \<Rightarrow> 'w compute_clients \<Rightarrow> py \<Rightarrow> ('w, unit) io" where
  "cb_delete_image env cc image_id = bnd (im1_delete_image (cc_glance cc) (id_text env image_id)) (\<lambda>_. ret ())"

text \<open>
  The id is read from a header of the answer; \<open>fresh\<close> is the name made up from the class and a random text. The
  image is shown when there is a status to wait for.
\<close>

definition cb_capture_image_from_server ::
    "'r env \<Rightarrow> schemas \<Rightarrow> waiter \<Rightarrow> (('r, 'x) compute_world_scheme) compute_clients \<Rightarrow> string \<Rightarrow> py
     \<Rightarrow> (string, py) dict \<Rightarrow> (('r, 'x) compute_world_scheme, response_body option) loopy" where
  "cb_capture_image_from_server env sc wt cc fresh server_id kwargs =
     bnd_loop (io_loop
       (bnd (capture_image env sc (cc_servers cc) (id_text env server_id) (kw_get kwargs ''name'' (PStr fresh)) PNone [])
          (\<lambda>image.
        bnd (lift (case dget (rs_headers (rb_response image)) ''image_id'' of
                     None \<Rightarrow> Inl (KeyErr ''image_id'') | Some ref \<Rightarrow> Inr (parse_image_id ref))) (\<lambda>image_id.
        bnd (remember cw_images_update (PStr image_id)) (\<lambda>_. ret image_id))))) (\<lambda>image_id.
       case dget kwargs ''wait_until'' of
         None \<Rightarrow> io_loop (ret None)
       | Some status \<Rightarrow>
           bnd_loop (io_loop (lift (as_str TypeErr status))) (\<lambda>st.
           bnd_loop
             (wait_for_image_status wt
                (bnd (nova_show_image env sc (cc_images cc) image_id) (\<lambda>b. ret (rb_data b))) image_id st) (\<lambda>_.
             io_loop (bnd (nova_show_image env sc (cc_images cc) image_id) (\<lambda>b. ret (Some b))))))"

section \<open>Deleting everything\<close>

text \<open>The loop after the deletions: a server that is not found any more is removed from the list.\<close>

definition drop_if_gone ::
    "'r env \<Rightarrow> schemas \<Rightarrow> (('r, 'x) compute_world_scheme) compute_clients \<Rightarrow> py
     \<Rightarrow> (('r, 'x) compute_world_scheme, unit) loopy" where
  "drop_if_gone env sc cc server =
     io_loop (catch (bnd (cb_get_server_status env sc cc server) (\<lambda>_. ret ()))
       (\<lambda>e. if catches NotFound e then Some (forget cw_servers cw_servers_update server) else None))"

definition await_servers_gone ::
    "'r env \<Rightarrow> schemas \<Rightarrow> compute_base \<Rightarrow> (('r, 'x) compute_world_scheme) compute_clients
     \<Rightarrow> (('r, 'x) compute_world_scheme, unit) loopy" where
  "await_servers_gone env sc cb cc =
     while_left cw_servers (cb_delete_interval cb)
       (bnd_loop (live_for cw_servers (drop_if_gone env sc cc)) (\<lambda>_. io_loop (sleep (cb_delete_interval cb))))
       (cb_delete_timeout cb)"

text \<open>
  \<open>except exceptions as e\<close> names the module: it is no class, so no exception matches it, and one that is raised
  leaves \<open>delete_all\<close>.
\<close>

definition drop_if_deleted ::
    "'r env \<Rightarrow> schemas \<Rightarrow> (('r, 'x) compute_world_scheme) compute_clients \<Rightarrow> py
     \<Rightarrow> (('r, 'x) compute_world_scheme, unit) loopy" where
  "drop_if_deleted env sc cc img =
     io_loop (bnd (cb_get_image_status env sc cc img) (\<lambda>st.
       if st = PStr ''DELETED'' then forget cw_images cw_images_update img else ret ()))"

definition await_images_gone ::
    "'r env \<Rightarrow> schemas \<Rightarrow> compute_base \<Rightarrow> (('r, 'x) compute_world_scheme) compute_clients
     \<Rightarrow> (('r, 'x) compute_world_scheme, unit) loopy" where
  "await_images_gone env sc cb cc =
     while_left cw_images (cb_delete_interval cb)
       (bnd_loop (io_loop (sleep (cb_delete_interval cb))) (\<lambda>_. live_for cw_images (drop_if_deleted env sc cc)))
       (cb_delete_timeout cb)"

definition report_left :: "(('r, 'x) compute_world_scheme, unit) io" where
  "report_left =
     bnd (gets cw_servers) (\<lambda>servers.
     bnd (gets cw_images) (\<lambda>images.
       if servers \<noteq> [] then
         bnd (modify (cw_servers_update (\<lambda>_. []))) (\<lambda>_. throw (Auto ServerDeleteException [] []))
       else if images \<noteq> [] then
         bnd (modify (cw_images_update (\<lambda>_. []))) (\<lambda>_. throw (Auto ImageKilledException [] []))
       else ret ()))"

definition cb_delete_all ::
    "'r env \<Rightarrow> schemas \<Rightarrow> compute_base \<Rightarrow> (('r, 'x) compute_world_scheme) compute_clients
     \<Rightarrow> (('r, 'x) compute_world_scheme, unit) loopy" where
  "cb_delete_all env sc cb cc =
     bnd_loop (live_for cw_servers (\<lambda>server. ignoring (io_loop (cb_delete_server env sc cc server)))) (\<lambda>_.
     bnd_loop (await_servers_gone env sc cb cc) (\<lambda>_.
     bnd_loop (live_for cw_images (\<lambda>img. io_loop (cb_delete_image env cc img))) (\<lambda>_.
     bnd_loop (await_images_gone env sc cb cc) (\<lambda>_. io_loop report_left))))"

end
