(* ===== verification/ComputeBaseProps.thy ===== *)
theory ComputeBaseProps
  imports ComputeBase ServersProps
begin

text \<open>
  The properties of \<open>testcases/compute_tests/base_compute.py\<close>: the check that a server has started, that
  \<open>delete_all\<close> ends, and how many servers it can handle.
\<close>

section \<open>The start of a server\<close>

lemma run_cmd_not_none: "run_cmd run host passwd cmd w = (Inr v, w') \<Longrightarrow> v \<noteq> PNone"
  by (auto simp: run_cmd_def bnd_def split: prod.splits sum.splits option.splits if_splits)

text \<open>
  (start_check_never_retries): \<open>_check_server_start_status_interval\<close> is a loop that never goes round: the
  command gives False when it fails, and False is not None, so whatever the first attempt gives is the result,
  without a pause.
\<close>

theorem start_check_never_retries:
  assumes "0 \<le> timeout" "run server_ip password command w = (Inr outputs, w')"
  shows "cb_check_server_start_status_interval run server_ip password command interval timeout w
    = Some (Inr (case outputs of None \<Rightarrow> PBool False
                 | Some (stdout, stderr) \<Rightarrow> if stderr \<noteq> [] then PBool False else PStr stdout), w')"
  using assms
  by (simp add: cb_check_server_start_status_interval_def or_raise_def countdown_def loop_io.simps
      countdown_round_def run_cmd_def bnd_apply bnd_loop_def io_loop_def split: option.splits prod.splits)

definition demo_made :: "py list \<Rightarrow> script compute_world" where
  "demo_made servers = \<lparr>now = 0, remote = [], sent = [], naps = [], cw_servers = servers, cw_images = []\<rparr>"

theorem start_check_never_retries_witness:
  "cb_check_server_start_status_interval (\<lambda>h p c. ret None) ''10.0.0.3'' ''secret'' ''uptime'' 5 60 (demo_made [])
   = Some (Inr (PBool False), demo_made [])"
  using start_check_never_retries [of 60 "\<lambda>h p c. ret None" "''10.0.0.3''" "''secret''" "''uptime''" "demo_made []" None]
  by simp

section \<open>The lists only get shorter\<close>

definition no_longer :: "('r, 'x) compute_world_scheme \<Rightarrow> ('r, 'x) compute_world_scheme \<Rightarrow> bool" where
  "no_longer w w' =
     (length (cw_servers w') \<le> length (cw_servers w) \<and> length (cw_images w') \<le> length (cw_images w))"

lemma no_longer_order: "reflp no_longer" "transp no_longer"
  by (auto simp: no_longer_def reflp_def transp_def)

lemmas no_longer_intros =
  within_pure [OF no_longer_order(1)] within_bnd [OF no_longer_order(2)] within_catch [OF no_longer_order(2)]

text \<open>The requests of the clients leave the lists alone.\<close>

definition clients_quiet :: "(('r, 'x) compute_world_scheme) compute_clients \<Rightarrow> bool" where
  "clients_quiet cc =
     (\<forall>m u x h b. within no_longer (cc_servers cc m u x h b) \<and> within no_longer (cc_images cc m u x h b)
        \<and> within no_longer (cc_glance cc m u x h b))"

lemma clients_quietD:
  assumes "clients_quiet cc"
  shows "within no_longer (cc_servers cc m u x h b)" "within no_longer (cc_images cc m u x h b)"
    "within no_longer (cc_glance cc m u x h b)"
  using assms by (simp_all add: clients_quiet_def)

lemma within_shorter:
  assumes "within no_longer m"
  shows "within (\<lambda>w w'. length (cw_servers w') \<le> length (cw_servers w)) m"
    "within (\<lambda>w w'. length (cw_images w') \<le> length (cw_images w)) m"
  using assms by (simp_all add: within_def no_longer_def)

lemma forget_no_longer:
  "within no_longer (forget cw_servers cw_servers_update i)" "within no_longer (forget cw_images cw_images_update i)"
  by (auto simp: within_def forget_def bnd_def no_longer_def length_remove1)

lemma quiet_operations:
  assumes "clients_quiet cc"
  shows "within no_longer (cb_get_server_status env sc cc i)" "within no_longer (cb_delete_server env sc cc i)"
    "within no_longer (cb_get_image_status env sc cc i)" "within no_longer (cb_delete_image env cc i)"
  unfolding cb_get_server_status_def cb_show_server_def show_server_def get_json_def http_get_def
    cb_delete_server_def delete_server_def delete_raw_def http_delete_def
    cb_get_image_status_def nova_show_image_def get_with_def cb_delete_image_def im1_delete_image_def delete_with_def
  by (intro no_longer_intros clients_quietD [OF assms])+

lemma cb_delete_all_ends:
  assumes "1 \<le> cb_delete_interval cb" "clients_quiet cc"
  shows "always_ends (cb_delete_all env sc cb cc)"
proof -
  note quiet = quiet_operations [OF assms(2)]
  have gone: "within no_longer (catch (bnd (cb_get_server_status env sc cc i) (\<lambda>_. ret ()))
      (\<lambda>e. if catches NotFound e then Some (forget cw_servers cw_servers_update i) else None))" for i
    by (intro no_longer_intros quiet) (auto split: if_splits intro: forget_no_longer)
  have deleted: "within no_longer (bnd (cb_get_image_status env sc cc i) (\<lambda>st.
      if st = PStr ''DELETED'' then forget cw_images cw_images_update i else ret ()))" for i
  proof (intro no_longer_intros quiet)
    fix st
    show "within no_longer (if st = PStr ''DELETED'' then forget cw_images cw_images_update i else ret ())"
      by (simp add: forget_no_longer no_longer_intros(1))
  qed
  have "within no_longer (catch (cb_delete_server env sc cc i) (\<lambda>e. Some (ret ())))" for i
    by (intro no_longer_intros quiet) (auto intro: no_longer_intros)
  then have 1: "always_ends (live_for cw_servers (\<lambda>i. ignoring (io_loop (cb_delete_server env sc cc i))))"
    unfolding ignoring_io by (intro ends_live_for within_shorter)
  have "always_ends (bnd_loop (live_for cw_servers (drop_if_gone env sc cc)) (\<lambda>_. io_loop (sleep (cb_delete_interval cb))))"
    unfolding drop_if_gone_def by (intro ends_bnd ends_live_for within_shorter gone ends_io)
  then have 2: "always_ends (await_servers_gone env sc cb cc)"
    unfolding await_servers_gone_def using while_left_ends [OF assms(1)] by (auto simp: always_ends_def)
  have 3: "always_ends (live_for cw_images (\<lambda>img. io_loop (cb_delete_image env cc img)))"
    by (intro ends_live_for within_shorter quiet)
  have "always_ends (bnd_loop (io_loop (sleep (cb_delete_interval cb))) (\<lambda>_. live_for cw_images (drop_if_deleted env sc cc)))"
    unfolding drop_if_deleted_def by (intro ends_bnd ends_live_for within_shorter deleted ends_io)
  then have 4: "always_ends (await_images_gone env sc cb cc)"
    unfolding await_images_gone_def using while_left_ends [OF assms(1)] by (auto simp: always_ends_def)
  show ?thesis
    unfolding cb_delete_all_def by (intro ends_bnd 1 2 3 4 ends_io)
qed

text \<open>
  (compute_cleanup_ends): \<open>delete_all\<close> comes to an end, with an exception or without, whatever the services
  answer, when the interval of its checks is at least a second.
\<close>

theorem compute_cleanup_ends:
  assumes "1 \<le> cb_delete_interval cb" "clients_quiet cc"
  shows "\<exists>r w'. cb_delete_all env sc cb cc w = Some (r, w')"
  using cb_delete_all_ends [OF assms] by (rule endsE) blast

definition demo_compute_base :: compute_base where
  "demo_compute_base = \<lparr>cb_image_ref = PStr ''i'', cb_server_name = PStr ''s'', cb_flavor_ref = PStr ''f'',
     cb_network_id = PStr ''n'', cb_security_group_id = PNone, cb_enable_password = True, cb_build_interval = 2,
     cb_build_timeout = 60, cb_delete_interval = 10, cb_delete_timeout = 15\<rparr>"

text \<open>Clients of services that know nothing.\<close>

definition empty_clients :: "'w compute_clients" where
  "empty_clients =
     (let rq = (\<lambda>m u x h b. throw (Auto NotFound [] [])) in
      \<lparr>cc_servers = rq, cc_images = rq, cc_glance = rq, cc_flavors = rq, cc_network = rq\<rparr>)"

lemma empty_clients_quiet: "clients_quiet empty_clients"
  by (auto simp: clients_quiet_def empty_clients_def Let_def within_def no_longer_def)

theorem compute_cleanup_ends_witness:
  "\<exists>r w'. cb_delete_all (demo_env []) demo_schemas demo_compute_base empty_clients (demo_made [PStr ''a'']) = Some (r, w')"
  using compute_cleanup_ends [OF _ empty_clients_quiet, of demo_compute_base "demo_env []" demo_schemas "demo_made [PStr ''a'']"]
  by (simp add: demo_compute_base_def)

section \<open>Half of the servers in each round\<close>

definition same_made :: "('r, 'x) compute_world_scheme \<Rightarrow> ('r, 'x) compute_world_scheme \<Rightarrow> bool" where
  "same_made w w' = (cw_servers w' = cw_servers w \<and> cw_images w' = cw_images w)"

text \<open>Every server is gone once its deletion was asked for.\<close>

definition servers_gone ::
    "'r env \<Rightarrow> schemas \<Rightarrow> (('r, 'x) compute_world_scheme) compute_clients \<Rightarrow> bool" where
  "servers_gone env sc cc =
     (\<forall>i w. same_made w (snd (cb_delete_server env sc cc i w))
          \<and> (\<exists>e w1. cb_get_server_status env sc cc i w = (Inl e, w1) \<and> catches NotFound e \<and> same_made w w1))"

lemma check_round_skips:
  assumes gone: "servers_gone env sc cc" and w: "cw_images w = []" "distinct (cw_servers w)"
    and i: "1 \<le> cb_delete_interval cb"
  shows "\<exists>w'. bnd_loop (live_for cw_servers (drop_if_gone env sc cc)) (\<lambda>_. io_loop (sleep (cb_delete_interval cb))) w
      = Some (Inr (), w') \<and> cw_servers w' = skipped (cw_servers w)
    \<and> (cw_images w' = [] \<and> distinct (cw_servers w'))"
proof -
  have step: "\<exists>v'. drop_if_gone env sc cc x v = Some (Inr (), v') \<and> cw_servers v' = remove1 x (cw_servers v)
      \<and> cw_images v' = []"
    if "cw_images v = []" "x \<in> set (cw_servers v)" for x and v :: "('a, 'b) compute_world_scheme"
  proof -
    from gone obtain e v1 where "cb_get_server_status env sc cc x v = (Inl e, v1)" "catches NotFound e"
        "same_made v v1"
      unfolding servers_gone_def by blast
    with that show ?thesis
      by (simp add: drop_if_gone_def io_loop_def catch_def bnd_Inl forget_def bnd_Inr same_made_def)
  qed
  from live_for_removes [of "\<lambda>v. cw_images v = []" cw_servers "drop_if_gone env sc cc" w, OF step w]
  obtain w1 where "live_for cw_servers (drop_if_gone env sc cc) w = Some (Inr (), w1)"
      "cw_servers w1 = skipped (cw_servers w)" "cw_images w1 = []" by blast
  then show ?thesis
    using i w(2) by (simp add: bnd_loop_def io_loop_def sleep_def distinct_skipped)
qed

text \<open>
  (server_cleanup_halves): with every server gone as soon as it was to be deleted, each check of \<open>delete_all\<close>
  still finds only every second one of those that are left; when the rounds that fit into the time are fewer than
  the halvings needed, it raises \<open>ServerDeleteException\<close> although no server is left.
\<close>

theorem server_cleanup_halves:
  assumes "servers_gone env sc cc" "1 \<le> cb_delete_interval cb" "0 \<le> cb_delete_timeout cb"
    and "distinct (cw_servers w)" "cw_images w = []"
  shows "\<exists>w'. cb_delete_all env sc cb cc w
      = Some (if length (cw_servers w) < 2 ^ (nat (cb_delete_timeout cb div cb_delete_interval cb) + 1)
              then Inr () else Inl (Auto ServerDeleteException [] []), w')
    \<and> cw_servers w' = []"
proof -
  let ?n = "nat (cb_delete_timeout cb div cb_delete_interval cb) + 1"
  let ?del = "\<lambda>i. ignoring (io_loop (cb_delete_server env sc cc i))"
  have keep: "\<exists>v'. ?del x v = Some (Inr (), v') \<and> same_made v v'" for x and v :: "('a, 'b) compute_world_scheme"
  proof -
    obtain r v1 where v1: "cb_delete_server env sc cc x v = (r, v1)" by (cases "cb_delete_server env sc cc x v")
    with assms(1) have "same_made v v1" unfolding servers_gone_def by (metis snd_conv)
    with v1 show ?thesis by (cases r) (simp_all add: ignoring_io io_loop_def catch_def)
  qed
  have each: "\<exists>v'. each_loop xs ?del v = Some (Inr (), v') \<and> same_made v v'" for xs v
  proof (induction xs arbitrary: v)
    case Nil
    show ?case by (simp add: io_loop_def same_made_def)
  next
    case (Cons x xs)
    obtain v1 where v1: "?del x v = Some (Inr (), v1)" "same_made v v1" using keep by blast
    obtain v2 where "each_loop xs ?del v1 = Some (Inr (), v2)" "same_made v1 v2" using Cons.IH by blast
    with v1 show ?case by (simp add: bnd_loop_def same_made_def)
  qed
  have still: "cw_servers v' = cw_servers v" if "?del x v = Some (r, v')" for x r v v'
    using keep [of x v] that by (auto simp: same_made_def)
  obtain w1 where w1: "live_for cw_servers ?del w = Some (Inr (), w1)" "same_made w w1"
    using each [of "cw_servers w" w] live_for_still [of ?del cw_servers w, OF still] by auto
  obtain w2 where w2: "await_servers_gone env sc cb cc w1 = Some (Inr (), w2)"
      "length (cw_servers w2) = length (cw_servers w) div 2 ^ ?n" "cw_images w2 = []"
    using while_left_halves [of "cb_delete_interval cb" "\<lambda>v. cw_images v = [] \<and> distinct (cw_servers v)"
        "bnd_loop (live_for cw_servers (drop_if_gone env sc cc)) (\<lambda>_. io_loop (sleep (cb_delete_interval cb)))"
        cw_servers w1 "cb_delete_timeout cb"] check_round_skips [OF assms(1) _ _ assms(2)] w1(2) assms(2-5)
    unfolding await_servers_gone_def same_made_def by (auto simp: rounds_left_def)
  have images: "await_images_gone env sc cb cc w2 = Some (Inr (), w2)"
    using w2(3) by (simp add: await_images_gone_def while_left.simps)
  have left: "cw_servers w2 = [] \<longleftrightarrow> length (cw_servers w) < 2 ^ ?n"
    using w2(2) by (metis div_eq_0_iff length_0_conv power_not_zero zero_neq_numeral)
  show ?thesis
  proof (cases "cw_servers w2 = []")
    case True
    with w1(1) w2(1,3) images left show ?thesis
      by (simp add: cb_delete_all_def bnd_loop_def live_for_Nil io_loop_def report_left_def bnd_Inr)
  next
    case False
    with w1(1) w2(1,3) images left show ?thesis
      by (simp add: cb_delete_all_def bnd_loop_def live_for_Nil io_loop_def report_left_def bnd_Inr)
  qed
qed

text \<open>Four servers, and the time of two rounds.\<close>

theorem server_cleanup_halves_witness:
  "\<exists>w'. cb_delete_all (demo_env []) demo_schemas demo_compute_base empty_clients
      (demo_made [PStr ''a'', PStr ''b'', PStr ''c'', PStr ''d''])
    = Some (Inl (Auto ServerDeleteException [] []), w')"
proof -
  have "servers_gone (demo_env []) demo_schemas empty_clients"
    by (simp add: servers_gone_def same_made_def empty_clients_def Let_def cb_delete_server_def delete_server_def
        delete_raw_def http_delete_def cb_get_server_status_def cb_show_server_def show_server_def get_json_def
        http_get_def bnd_apply catches_def isinstance_of_def supers.simps)
  from server_cleanup_halves [OF this, of demo_compute_base "demo_made [PStr ''a'', PStr ''b'', PStr ''c'', PStr ''d'']"]
  show ?thesis by (auto simp: demo_compute_base_def demo_made_def)
qed

end
