(* ===== verification/VolumeBase.thy ===== *)
theory VolumeBase
  imports LiveLoops VolumeClients
begin

text \<open>
  The class \<open>Base\<close> of \<open>testcases/volume_tests/base.py\<close>: volumes, snapshots, volume types and QoS specifications
  that a test creates, and their removal.

  The lists are fields of the world; a volume type or QoS specification is remembered as the dictionary the
  service answered. The clients of the manager are used through their \<open>request\<close>.
\<close>

section \<open>State\<close>

record 'r volume_world = "'r world" +
  vw_volumes :: "py list"
  vw_snapshots :: "py list"
  vw_volume_types :: "py list"
  vw_qos_specs :: "py list"

record 'w volume_clients =
  vo_volumes :: "'w requester"
  vo_snapshots :: "'w requester"
  vo_types :: "'w requester"
  vo_qos :: "'w requester"

record volume_base =
  vb_volume_size :: py
  vb_volume_backend :: py
  vb_default_size :: py
  vb_build_interval :: int
  vb_build_timeout :: int
  vb_delete_interval :: int
  vb_delete_timeout :: int

definition vb_init ::
    "(string \<Rightarrow> py) \<Rightarrow> volume_base \<Rightarrow> (('r, 'x) volume_world_scheme, volume_base) io" where
  "vb_init option given =
     bnd (modify (\<lambda>w. w\<lparr>vw_volumes := [], vw_snapshots := [], vw_volume_types := [], vw_qos_specs := []\<rparr>)) (\<lambda>_.
       ret (given\<lparr>vb_volume_size := py_or (vb_volume_size given) (option ''volume_size''),
                  vb_volume_backend := py_or (vb_volume_backend given) (option ''backend1_name'')\<rparr>))"

section \<open>Waiting\<close>

definition vb_get_volume_status :: "'r env \<Rightarrow> 'w volume_clients \<Rightarrow> py \<Rightarrow> ('w, py) io" where
  "vb_get_volume_status env vo volume_id =
     bnd (show_volume env (vo_volumes vo) (id_text env volume_id)) (\<lambda>b. ret (rb_get b ''status''))"

definition vb_get_snapshot_status :: "'r env \<Rightarrow> 'w volume_clients \<Rightarrow> py \<Rightarrow> ('w, py) io" where
  "vb_get_snapshot_status env vo snapshot_id =
     bnd (show_snapshot env (vo_snapshots vo) (id_text env snapshot_id)) (\<lambda>b. ret (rb_get b ''status''))"

definition vb_status_check :: "py \<Rightarrow> py \<Rightarrow> ('w, unit option) io" where
  "vb_status_check status st =
     (if st = status then ret (Some ())
      else if st = PStr ''error'' then throw (Auto ServerError [] []) else ret None)"

definition vb_check_volume_status_interval ::
    "'r env \<Rightarrow> (('r, 'x) world_scheme) volume_clients \<Rightarrow> py \<Rightarrow> py \<Rightarrow> int \<Rightarrow> int
     \<Rightarrow> (('r, 'x) world_scheme, unit) loopy" where
  "vb_check_volume_status_interval env vo volume_id status interval timeout =
     or_raise (Auto ServerTimeOut [] [])
       (countdown interval (bnd (vb_get_volume_status env vo volume_id) (vb_status_check status)) timeout)"

definition vb_check_snapshot_status_interval ::
    "'r env \<Rightarrow> (('r, 'x) world_scheme) volume_clients \<Rightarrow> py \<Rightarrow> py \<Rightarrow> int \<Rightarrow> int
     \<Rightarrow> (('r, 'x) world_scheme, unit) loopy" where
  "vb_check_snapshot_status_interval env vo snapshot_id status interval timeout =
     or_raise (Auto ServerTimeOut [] [])
       (countdown interval (bnd (vb_get_snapshot_status env vo snapshot_id) (vb_status_check status)) timeout)"

definition vb_await_volume ::
    "'r env \<Rightarrow> volume_base \<Rightarrow> (('r, 'x) world_scheme) volume_clients \<Rightarrow> py \<Rightarrow> (('r, 'x) world_scheme, unit) loopy" where
  "vb_await_volume env vb vo volume_id =
     vb_check_volume_status_interval env vo volume_id (PStr ''available'') (vb_build_interval vb) (vb_build_timeout vb)"

definition vb_await_snapshot ::
    "'r env \<Rightarrow> volume_base \<Rightarrow> (('r, 'x) world_scheme) volume_clients \<Rightarrow> py \<Rightarrow> (('r, 'x) world_scheme, unit) loopy" where
  "vb_await_snapshot env vb vo snapshot_id =
     vb_check_snapshot_status_interval env vo snapshot_id (PStr ''available'')
       (vb_build_interval vb) (vb_build_timeout vb)"

section \<open>Volumes\<close>

text \<open>A resource of the list \<open>upd\<close>, created, remembered by its id, and waited for.\<close>

definition vb_made ::
    "((py list \<Rightarrow> py list) \<Rightarrow> 'w \<Rightarrow> 'w) \<Rightarrow> ('w, response_body) io \<Rightarrow> (py \<Rightarrow> ('w, unit) loopy)
     \<Rightarrow> ('w, response_body) loopy" where
  "vb_made upd create await =
     bnd_loop (io_loop (bnd create (\<lambda>b.
                        bnd (lift (rb_item b ''id'')) (\<lambda>i. bnd (remember upd i) (\<lambda>_. ret (b, i)))))) (\<lambda>(b, i).
     bnd_loop (ignoring_class ServerActionSucceed (await i)) (\<lambda>_. io_loop (ret b)))"

definition vb_create_volume ::
    "'r env \<Rightarrow> volume_base \<Rightarrow> (('r, 'x) volume_world_scheme) volume_clients \<Rightarrow> string \<Rightarrow> (string, py) dict
     \<Rightarrow> (('r, 'x) volume_world_scheme, response_body) loopy" where
  "vb_create_volume env vb vo fresh kwargs =
     vb_made vw_volumes_update
       (create_volume env 202 (vb_default_size vb) (vo_volumes vo) (vb_volume_size vb)
          (dset kwargs ''name'' (PStr fresh)))
       (vb_await_volume env vb vo)"

definition vb_show_volume :: "'r env \<Rightarrow> 'w volume_clients \<Rightarrow> py \<Rightarrow> ('w, response_body) io" where
  "vb_show_volume env vo volume_id = show_volume env (vo_volumes vo) (id_text env volume_id)"

text \<open>A request on a volume, then the waits; the result is True.\<close>

definition vb_acted ::
    "('w, response_body) io \<Rightarrow> ('w, unit) loopy \<Rightarrow> ('w, bool) loopy" where
  "vb_acted act await =
     bnd_loop (io_loop act) (\<lambda>_. bnd_loop (ignoring_class ServerActionSucceed await) (\<lambda>_. io_loop (ret True)))"

definition vb_extend_volume ::
    "'r env \<Rightarrow> volume_base \<Rightarrow> (('r, 'x) world_scheme) volume_clients \<Rightarrow> py \<Rightarrow> py
     \<Rightarrow> (('r, 'x) world_scheme, bool) loopy" where
  "vb_extend_volume env vb vo volume_id extend_size =
     vb_acted (extend_volume env (vo_volumes vo) (id_text env volume_id) extend_size)
       (vb_await_volume env vb vo volume_id)"

definition vb_update_volume ::
    "'r env \<Rightarrow> volume_base \<Rightarrow> (('r, 'x) world_scheme) volume_clients \<Rightarrow> py \<Rightarrow> (string, py) dict
     \<Rightarrow> (('r, 'x) world_scheme, bool) loopy" where
  "vb_update_volume env vb vo volume_id kwargs =
     vb_acted (update_volume env (vo_volumes vo) (id_text env volume_id) kwargs)
       (vb_await_volume env vb vo volume_id)"

definition vb_rollback_volume ::
    "'r env \<Rightarrow> volume_base \<Rightarrow> (('r, 'x) world_scheme) volume_clients \<Rightarrow> py \<Rightarrow> py
     \<Rightarrow> (('r, 'x) world_scheme, bool) loopy" where
  "vb_rollback_volume env vb vo volume_id snapshot_id =
     vb_acted (rollback_volume env (vo_volumes vo) (id_text env volume_id) snapshot_id)
       (bnd_loop (vb_await_volume env vb vo volume_id) (\<lambda>_. vb_await_snapshot env vb vo snapshot_id))"

definition vb_delete_volume :: "'r env \<Rightarrow> 'w volume_clients \<Rightarrow> py \<Rightarrow> ('w, unit) io" where
  "vb_delete_volume env vo volume_id = bnd (delete_volume (vo_volumes vo) (id_text env volume_id)) (\<lambda>_. ret ())"

definition vb_retype_volume ::
    "'r env \<Rightarrow> 'w volume_clients \<Rightarrow> py \<Rightarrow> py \<Rightarrow> (string, py) dict \<Rightarrow> ('w, unit) io" where
  "vb_retype_volume env vo volume_id volume_type kwargs =
     retype_volume env (vo_volumes vo) (id_text env volume_id) volume_type kwargs"

section \<open>Snapshots\<close>

definition vb_create_snapshot ::
    "'r env \<Rightarrow> volume_base \<Rightarrow> (('r, 'x) volume_world_scheme) volume_clients \<Rightarrow> py \<Rightarrow> (string, py) dict
     \<Rightarrow> (('r, 'x) volume_world_scheme, response_body) loopy" where
  "vb_create_snapshot env vb vo volume_id kwargs =
     vb_made vw_snapshots_update (create_snapshot env 202 (vo_snapshots vo) volume_id kwargs)
       (vb_await_snapshot env vb vo)"

text \<open>The wait is for a snapshot without a status; whatever ends it is ignored.\<close>

definition vb_delete_snapshot ::
    "'r env \<Rightarrow> volume_base \<Rightarrow> (('r, 'x) volume_world_scheme) volume_clients \<Rightarrow> py
     \<Rightarrow> (('r, 'x) volume_world_scheme, unit) loopy" where
  "vb_delete_snapshot env vb vo snapshot_id =
     bnd_loop (io_loop (bnd (delete_snapshot (vo_snapshots vo) (id_text env snapshot_id)) (\<lambda>_.
                 forget vw_snapshots vw_snapshots_update snapshot_id))) (\<lambda>_.
       ignoring (vb_check_snapshot_status_interval env vo snapshot_id PNone
                   (vb_build_interval vb) (vb_build_timeout vb)))"

section \<open>Volume types and QoS specifications\<close>

definition vb_associate_volumetype_with_qos :: "'r env \<Rightarrow> 'w volume_clients \<Rightarrow> py \<Rightarrow> py \<Rightarrow> ('w, unit) io" where
  "vb_associate_volumetype_with_qos env vo qos_id volumetype_id =
     bnd (associate_qos (vo_qos vo) (id_text env qos_id) (id_text env volumetype_id)) (\<lambda>_. ret ())"

definition vb_disassociate_volumetype_with_qos :: "'r env \<Rightarrow> 'w volume_clients \<Rightarrow> py \<Rightarrow> py \<Rightarrow> ('w, unit) io" where
  "vb_disassociate_volumetype_with_qos env vo qos_id volumetype_id =
     bnd (disassociate_qos (vo_qos vo) (id_text env qos_id) (id_text env volumetype_id)) (\<lambda>_. ret ())"

definition vb_disassociate_all :: "'r env \<Rightarrow> 'w volume_clients \<Rightarrow> py \<Rightarrow> ('w, unit) io" where
  "vb_disassociate_all env vo qos_id = bnd (disassociate_all_qos (vo_qos vo) (id_text env qos_id)) (\<lambda>_. ret ())"

definition vb_set_qos_key :: "'r env \<Rightarrow> 'w volume_clients \<Rightarrow> py \<Rightarrow> (string, py) dict \<Rightarrow> ('w, unit) io" where
  "vb_set_qos_key env vo qos_id kwargs = bnd (set_qos_key env (vo_qos vo) (id_text env qos_id) kwargs) (\<lambda>_. ret ())"

definition vb_unset_qos_key :: "'r env \<Rightarrow> 'w volume_clients \<Rightarrow> py \<Rightarrow> py \<Rightarrow> ('w, unit) io" where
  "vb_unset_qos_key env vo qos_id keys = bnd (unset_qos_key env (vo_qos vo) (id_text env qos_id) keys) (\<lambda>_. ret ())"

definition vb_show_volume_type :: "'r env \<Rightarrow> 'w volume_clients \<Rightarrow> py \<Rightarrow> ('w, response_body) io" where
  "vb_show_volume_type env vo volume_type_id = show_volume_type env (vo_types vo) (id_text env volume_type_id)"

definition vb_show_qos_type :: "'r env \<Rightarrow> 'w volume_clients \<Rightarrow> py \<Rightarrow> ('w, response_body) io" where
  "vb_show_qos_type env vo qos_id = show_qos env (vo_qos vo) (id_text env qos_id)"

text \<open>\<open>fresh\<close> is the hexadecimal text of a \<open>uuid4()\<close>; the name of a QoS specification goes through \<open>rand_name\<close>, the argument \<open>namer\<close>.\<close>

definition vb_create_test_volume_type ::
    "'r env \<Rightarrow> (('r, 'x) volume_world_scheme) volume_clients \<Rightarrow> string \<Rightarrow> py \<Rightarrow> (string, py) dict
     \<Rightarrow> (('r, 'x) volume_world_scheme, response_body) io" where
  "vb_create_test_volume_type env vo fresh name kwargs =
     bnd (create_volume_type env (vo_types vo) (py_or name (PStr (fresh @ ''-volumetype''))) kwargs) (\<lambda>b.
     bnd (remember vw_volume_types_update (PDict (rb_data b))) (\<lambda>_. ret b))"

definition vb_create_test_qos_specs ::
    "'r env \<Rightarrow> (('r, 'x) volume_world_scheme) volume_clients \<Rightarrow> (string \<Rightarrow> string) \<Rightarrow> string \<Rightarrow> py \<Rightarrow> py
     \<Rightarrow> (string, py) dict \<Rightarrow> (('r, 'x) volume_world_scheme, response_body) io" where
  "vb_create_test_qos_specs env vo namer fresh name consumer kwargs =
     bnd (create_qos env (vo_qos vo) (py_or name (PStr (namer (fresh @ ''-QoS''))))
            (py_or consumer (PStr ''front-end'')) kwargs) (\<lambda>b.
     bnd (remember vw_qos_specs_update (PDict (rb_data b))) (\<lambda>_. ret b))"

text \<open>The loops run over copies of the lists.\<close>

definition unless_found :: "('w, unit) io \<Rightarrow> ('w, unit) io" where
  "unless_found m = catch m (\<lambda>e. if catches NotFound e then Some (ret ()) else None)"

definition vb_clear_volume_types ::
    "'r env \<Rightarrow> (('r, 'x) volume_world_scheme) volume_clients \<Rightarrow> (('r, 'x) volume_world_scheme, unit) io" where
  "vb_clear_volume_types env vo =
     bnd (gets vw_volume_types) (\<lambda>copy. for_each copy (\<lambda>volume_type.
       unless_found
         (bnd (lift (getitem volume_type ''id'')) (\<lambda>i.
          bnd (delete_volume_type (vo_types vo) (id_text env i)) (\<lambda>_.
            forget vw_volume_types vw_volume_types_update volume_type)))))"

definition vb_clear_qos_specs ::
    "'r env \<Rightarrow> rest_client \<Rightarrow> string option \<Rightarrow> (('r, 'x) volume_world_scheme) volume_clients
     \<Rightarrow> (('r, 'x) volume_world_scheme, unit) loopy" where
  "vb_clear_qos_specs env c caller vo =
     bnd_loop (io_loop (bnd (gets vw_qos_specs) (\<lambda>copy. for_each copy (\<lambda>qos.
       unless_found
         (bnd (lift (getitem qos ''id'')) (\<lambda>i.
          bnd (delete_qos (vo_qos vo) (id_text env i) ''False'') (\<lambda>_.
            forget vw_qos_specs vw_qos_specs_update qos))))))) (\<lambda>_.
     live_for vw_qos_specs (\<lambda>qos. ignoring_class NotFound
       (bnd_loop (io_loop (lift (getitem qos ''id''))) (\<lambda>i.
          wait_for_resource_deletion c caller ''qos'' (id_text env i) (qos_deleted env (vo_qos vo) (id_text env i))))))"

section \<open>Deleting everything\<close>

text \<open>
  \<open>for x in self.xs: try: f(x) except Exception as e: log\<close>. The result is whether \<open>e\<close> has been bound.
\<close>

partial_function (option) try_from ::
    "('w \<Rightarrow> 'a list) \<Rightarrow> ('a \<Rightarrow> ('w, unit) loopy) \<Rightarrow> nat \<Rightarrow> bool \<Rightarrow> ('w, bool) loopy" where
  "try_from get f i bound w =
     (if i < length (get w) then
        (case f (get w ! i) w of
           None \<Rightarrow> None
         | Some (Inl e, w') \<Rightarrow> try_from get f (Suc i) True w'
         | Some (Inr u, w') \<Rightarrow> try_from get f (Suc i) bound w')
      else Some (Inr bound, w))"

definition drop_volume_if_gone ::
    "'r env \<Rightarrow> (('r, 'x) volume_world_scheme) volume_clients \<Rightarrow> py
     \<Rightarrow> (('r, 'x) volume_world_scheme, unit) loopy" where
  "drop_volume_if_gone env vo volume =
     io_loop (catch (bnd (vb_get_volume_status env vo volume) (\<lambda>_. ret ()))
       (\<lambda>e. if catches NotFound e then Some (forget vw_volumes vw_volumes_update volume) else None))"

text \<open>The checks follow each other without a pause.\<close>

definition await_volumes_gone ::
    "'r env \<Rightarrow> volume_base \<Rightarrow> (('r, 'x) volume_world_scheme) volume_clients
     \<Rightarrow> (('r, 'x) volume_world_scheme, unit) loopy" where
  "await_volumes_gone env vb vo =
     while_left vw_volumes (vb_delete_interval vb) (live_for vw_volumes (drop_volume_if_gone env vo))
       (vb_delete_timeout vb)"

text \<open>The report of the volumes that are left names \<open>e\<close>, which is unbound when no deletion raised.\<close>

definition report_volumes :: "bool \<Rightarrow> (('r, 'x) volume_world_scheme, bool) io" where
  "report_volumes bound =
     bnd (gets vw_volumes) (\<lambda>volumes.
       if volumes = [] then ret True
       else bnd (modify (vw_volumes_update (\<lambda>_. []))) (\<lambda>_. if bound then ret False else throw UnboundErr))"

definition reported :: "('w, unit) loopy \<Rightarrow> bool \<Rightarrow> ('w, bool) loopy" where
  "reported m ok = catch_loop (bnd_loop m (\<lambda>_. io_loop (ret ok))) (\<lambda>e. Some (io_loop (ret False)))"

definition vb_delete_all ::
    "'r env \<Rightarrow> volume_base \<Rightarrow> rest_client \<Rightarrow> string option \<Rightarrow> (('r, 'x) volume_world_scheme) volume_clients
     \<Rightarrow> (('r, 'x) volume_world_scheme, unit) loopy" where
  "vb_delete_all env vb c caller vo =
     bnd_loop (try_from vw_snapshots (vb_delete_snapshot env vb vo) 0 False) (\<lambda>bound1.
     bnd_loop (try_from vw_volumes (\<lambda>i. io_loop (vb_delete_volume env vo i)) 0 bound1) (\<lambda>bound.
     bnd_loop (await_volumes_gone env vb vo) (\<lambda>_.
     bnd_loop (io_loop (report_volumes bound)) (\<lambda>ok1.
     bnd_loop (reported (io_loop (vb_clear_volume_types env vo)) ok1) (\<lambda>ok2.
     bnd_loop (reported (vb_clear_qos_specs env c caller vo) ok2) (\<lambda>ok.
       io_loop (if ok then ret () else throw (Auto DeleteException [] []))))))))"

end
