(* ===== verification/VolumeBaseProps.thy ===== *)
theory VolumeBaseProps
  imports VolumeBase RestProps
begin

text \<open>
  The properties of \<open>testcases/volume_tests/base.py\<close>: what \<open>delete_all\<close> forgets, and how it fails.
\<close>

section \<open>Snapshots that stay\<close>

definition vb_lists :: "('r, 'x) volume_world_scheme \<Rightarrow> py list list" where
  "vb_lists w = [vw_volumes w, vw_snapshots w, vw_volume_types w, vw_qos_specs w]"

lemma vb_lists_sleep [simp]: "vb_lists (snd (sleep n w)) = vb_lists w"
  by (simp add: sleep_def vb_lists_def)

text \<open>The loop with a handler is the plain loop when no body raises.\<close>

lemma try_from_removes:
  assumes step: "\<And>x w. ok w \<Longrightarrow> x \<in> set (get w) \<Longrightarrow>
      \<exists>w'. f x w = Some (Inr (), w') \<and> get w' = remove1 x (get w) \<and> ok w'"
  shows "ok w \<Longrightarrow> distinct (get w) \<Longrightarrow> get w = ys @ zs \<Longrightarrow> i = length ys \<Longrightarrow>
    \<exists>w'. try_from get f i b w = Some (Inr b, w') \<and> get w' = ys @ skipped zs \<and> ok w'"
proof (induction zs arbitrary: ys i w rule: skipped.induct)
  case (1 x y zs)
  have "get w ! i = x" using 1 by (simp add: nth_append)
  from step [of w x] 1 obtain w1 where w1: "f x w = Some (Inr (), w1)" "get w1 = (ys @ [y]) @ zs" "ok w1"
    by (auto simp: remove1_append)
  with 1(1) [of w1 "ys @ [y]" "Suc i"] 1(2-) obtain w' where
    "try_from get f (Suc i) b w1 = Some (Inr b, w')" "get w' = (ys @ [y]) @ skipped zs" "ok w'"
    by auto
  with w1 1(2-) \<open>get w ! i = x\<close> show ?case by (subst try_from.simps) simp
next
  case 2
  then show ?case by (subst try_from.simps) simp
next
  case (3 x)
  then have "get w ! i = x" by simp
  from step [of w x] 3 obtain w1 where w1: "f x w = Some (Inr (), w1)" "get w1 = ys" "ok w1"
    by (auto simp: remove1_append)
  then have "try_from get f (Suc i) b w1 = Some (Inr b, w1)" using 3 by (subst try_from.simps) simp
  with w1 3 \<open>get w ! i = x\<close> show ?case by (subst try_from.simps) simp
qed

text \<open>A loop whose bodies leave the list as it is and do not raise.\<close>

lemma try_from_still:
  assumes "\<And>x w. ok w \<Longrightarrow> \<exists>w'. f x w = Some (Inr (), w') \<and> get w' = get w \<and> ok w'"
  shows "ok w \<Longrightarrow> \<exists>w'. try_from get f i b w = Some (Inr b, w') \<and> get w' = get w \<and> ok w'"
proof (induction "length (get w) - i" arbitrary: i w rule: less_induct)
  case less
  show ?case
  proof (cases "i < length (get w)")
    case False
    then show ?thesis using less.prems by (subst try_from.simps) simp
  next
    case True
    from assms [OF less.prems, of "get w ! i"] obtain w1 where
      w1: "f (get w ! i) w = Some (Inr (), w1)" "get w1 = get w" "ok w1" by blast
    have "length (get w1) - Suc i < length (get w) - i" using w1(2) True by (simp add: diff_less_mono2)
    from less.hyps [OF this w1(3)] obtain w' where
      "try_from get f (Suc i) b w1 = Some (Inr b, w')" "get w' = get w1" "ok w'" by blast
    with w1 True show ?thesis by (subst try_from.simps) simp
  qed
qed

text \<open>A service that deletes every snapshot at once.\<close>

definition deletes_snapshots :: "'r env \<Rightarrow> (('r, 'x) volume_world_scheme) volume_clients \<Rightarrow> bool" where
  "deletes_snapshots env vo =
     (\<forall>i w. \<exists>b w1. delete_snapshot (vo_snapshots vo) (id_text env i) w = (Inr b, w1) \<and> vb_lists w1 = vb_lists w
          \<and> (\<forall>v. \<exists>e v1. vb_get_snapshot_status env vo i v = (Inl e, v1) \<and> vb_lists v1 = vb_lists v))"

lemma delete_snapshot_ok:
  assumes vo: "deletes_snapshots env vo" and i: "i \<in> set (vw_snapshots w)" and t: "0 \<le> vb_build_timeout vb"
  shows "\<exists>w'. vb_delete_snapshot env vb vo i w = Some (Inr (), w')
    \<and> vb_lists w' = vb_lists (w\<lparr>vw_snapshots := remove1 i (vw_snapshots w)\<rparr>)"
proof -
  obtain b w1 where w1: "delete_snapshot (vo_snapshots vo) (id_text env i) w = (Inr b, w1)"
      "vb_lists w1 = vb_lists w"
    using vo unfolding deletes_snapshots_def by blast
  let ?w2 = "vw_snapshots_update (remove1 i) w1"
  obtain e w3 where w3: "vb_get_snapshot_status env vo i ?w2 = (Inl e, w3)" "vb_lists w3 = vb_lists ?w2"
    using vo unfolding deletes_snapshots_def by blast
  from w3 t have "ignoring (vb_check_snapshot_status_interval env vo i PNone (vb_build_interval vb)
      (vb_build_timeout vb)) ?w2 = Some (Inr (), w3)"
    by (simp add: ignoring_def catch_loop_def vb_check_snapshot_status_interval_def or_raise_def bnd_loop_def
        countdown_def loop_io.simps countdown_round_def bnd_Inl io_loop_def)
  with w1 w3 i show ?thesis
    by (simp add: vb_delete_snapshot_def bnd_loop_def io_loop_def bnd_Inr forget_def vb_lists_def)
qed

text \<open>
  (snapshots_left_behind): of the snapshots a test created, \<open>delete_all\<close> deletes every second one, and returns
  as if all were gone: the others stay in its list, and no exception reports them.
\<close>

theorem snapshots_left_behind:
  assumes "deletes_snapshots env vo" "0 \<le> vb_build_timeout vb" "distinct (vw_snapshots w)"
    and "vw_volumes w = []" "vw_volume_types w = []" "vw_qos_specs w = []"
  shows "\<exists>w'. vb_delete_all env vb c caller vo w = Some (Inr (), w') \<and> vw_snapshots w' = skipped (vw_snapshots w)
    \<and> length (vw_snapshots w') = length (vw_snapshots w) div 2"
proof -
  let ?rest = "\<lambda>v. vw_volumes v = [] \<and> vw_volume_types v = [] \<and> vw_qos_specs v = []"
  have step: "\<exists>v'. vb_delete_snapshot env vb vo x v = Some (Inr (), v')
      \<and> vw_snapshots v' = remove1 x (vw_snapshots v) \<and> ?rest v'"
    if "?rest v" "x \<in> set (vw_snapshots v)" for x and v :: "('a, 'b) volume_world_scheme"
    using delete_snapshot_ok [OF assms(1) that(2) assms(2)] that(1) by (auto simp: vb_lists_def)
  from try_from_removes [of ?rest vw_snapshots "vb_delete_snapshot env vb vo" w "[]" "vw_snapshots w" 0 False,
      OF step] assms(3-6)
  obtain w1 where w1: "try_from vw_snapshots (vb_delete_snapshot env vb vo) 0 False w = Some (Inr False, w1)"
      "vw_snapshots w1 = skipped (vw_snapshots w)" "?rest w1"
    by auto
  have volumes: "try_from vw_volumes (\<lambda>i. io_loop (vb_delete_volume env vo i)) 0 False w1 = Some (Inr False, w1)"
    using w1(3) by (subst try_from.simps) simp
  have gone: "await_volumes_gone env vb vo w1 = Some (Inr (), w1)"
    using w1(3) by (simp add: await_volumes_gone_def while_left.simps)
  have types: "reported (io_loop (vb_clear_volume_types env vo)) True w1 = Some (Inr True, w1)"
    using w1(3) by (simp add: reported_def catch_loop_def bnd_loop_def io_loop_def vb_clear_volume_types_def bnd_Inr)
  have qos: "reported (vb_clear_qos_specs env c caller vo) True w1 = Some (Inr True, w1)"
    using w1(3)
    by (simp add: reported_def catch_loop_def bnd_loop_def io_loop_def vb_clear_qos_specs_def bnd_Inr live_for_Nil)
  show ?thesis
    using w1 volumes gone types qos
    by (simp add: vb_delete_all_def bnd_loop_def io_loop_def report_volumes_def bnd_Inr length_skipped)
qed

definition demo_volume_base :: volume_base where
  "demo_volume_base = \<lparr>vb_volume_size = PInt 1, vb_volume_backend = PStr ''lvm'', vb_default_size = PInt 1,
     vb_build_interval = 1, vb_build_timeout = 10, vb_delete_interval = 5, vb_delete_timeout = 10\<rparr>"

definition demo_volume_world :: "py list \<Rightarrow> py list \<Rightarrow> script volume_world" where
  "demo_volume_world volumes snapshots = \<lparr>now = 0, remote = [], sent = [], naps = [], vw_volumes = volumes,
     vw_snapshots = snapshots, vw_volume_types = [], vw_qos_specs = []\<rparr>"

text \<open>Deletions are accepted; snapshots are not found any more, volumes are.\<close>

definition demo_volume_clients :: "'w volume_clients" where
  "demo_volume_clients =
     (let accept = (\<lambda>m u x h b. if m = ''DELETE'' then ret (\<lparr>rs_status = 202, rs_headers = []\<rparr>, [])
                                 else throw (Auto NotFound [] []));
          keep = (\<lambda>m u x h b. if m = ''DELETE'' then ret (\<lparr>rs_status = 202, rs_headers = []\<rparr>, [])
                               else ret (\<lparr>rs_status = 200, rs_headers = []\<rparr>, ''v''))
      in \<lparr>vo_volumes = keep, vo_snapshots = accept, vo_types = accept, vo_qos = accept\<rparr>)"

theorem snapshots_left_behind_witness:
  "\<exists>w'. vb_delete_all (demo_env []) demo_volume_base demo_client None demo_volume_clients (demo_volume_world [] [PStr ''a'', PStr ''b''])
     = Some (Inr (), w') \<and> vw_snapshots w' = [PStr ''b'']"
proof -
  have "deletes_snapshots (demo_env []) demo_volume_clients"
    by (simp add: deletes_snapshots_def demo_volume_clients_def Let_def delete_snapshot_def delete_with_def
        http_delete_def checked_text_def expected_success_def HTTP_SUCCESS_def vb_get_snapshot_status_def
        show_snapshot_def get_with_def http_get_def bnd_apply)
  from snapshots_left_behind [OF this, of demo_volume_base "demo_volume_world [] [PStr ''a'', PStr ''b'']" demo_client None]
  show ?thesis by (auto simp: demo_volume_base_def demo_volume_world_def)
qed

section \<open>Volumes that stay\<close>

text \<open>Every deletion of a volume is accepted, and every volume can still be shown.\<close>

definition volumes_stay :: "'r env \<Rightarrow> (('r, 'x) volume_world_scheme) volume_clients \<Rightarrow> bool" where
  "volumes_stay env vo =
     (\<forall>i w. (\<exists>w1. vb_delete_volume env vo i w = (Inr (), w1) \<and> vb_lists w1 = vb_lists w)
          \<and> (\<exists>st w1. vb_get_volume_status env vo i w = (Inr st, w1) \<and> vb_lists w1 = vb_lists w))"

lemma each_loop_still:
  assumes "\<And>x w. \<exists>w'. f x w = Some (Inr (), w') \<and> L w' = L w"
  shows "\<exists>w'. each_loop xs f w = Some (Inr (), w') \<and> L w' = L w"
proof (induction xs arbitrary: w)
  case Nil
  show ?case by (simp add: io_loop_def)
next
  case (Cons x xs)
  obtain w1 where w1: "f x w = Some (Inr (), w1)" "L w1 = L w" using assms by blast
  obtain w2 where "each_loop xs f w1 = Some (Inr (), w2)" "L w2 = L w1" using Cons.IH by blast
  with w1 show ?case by (simp add: bnd_loop_def)
qed

lemma while_left_still:
  assumes i: "1 \<le> interval" and body: "\<And>w. \<exists>w'. body w = Some (Inr (), w') \<and> L w' = L w"
  shows "\<exists>w'. while_left get interval body left w = Some (Inr (), w') \<and> L w' = L w"
proof (induction "nat (left + 1)" arbitrary: left w rule: less_induct)
  case less
  show ?case
  proof (cases "get w \<noteq> [] \<and> 0 \<le> left")
    case False
    then show ?thesis by (subst while_left.simps) auto
  next
    case True
    obtain w1 where w1: "body w = Some (Inr (), w1)" "L w1 = L w" using body by blast
    have "nat (left - interval + 1) < nat (left + 1)" using i True by simp
    from less.hyps [OF this, of w1] w1 True show ?thesis by (subst while_left.simps) simp
  qed
qed

text \<open>
  (volumes_left_unbound): when volumes are still there after the time for their deletion, although no request
  failed, \<open>delete_all\<close> raises an error of its own (the name \<open>e\<close> of its report is unbound) instead of
  \<open>DeleteException\<close>: it empties the list of the volumes, and the volume types and QoS specifications stay.
\<close>

theorem volumes_left_unbound:
  assumes "volumes_stay env vo" "1 \<le> vb_delete_interval vb" "vw_volumes w \<noteq> []" "vw_snapshots w = []"
  shows "\<exists>w'. vb_delete_all env vb c caller vo w = Some (Inl UnboundErr, w')
    \<and> vw_volumes w' = [] \<and> vw_volume_types w' = vw_volume_types w \<and> vw_qos_specs w' = vw_qos_specs w"
proof -
  have snapshots: "try_from vw_snapshots (vb_delete_snapshot env vb vo) 0 False w = Some (Inr False, w)"
    using assms(4) by (subst try_from.simps) simp
  have del: "\<exists>v'. io_loop (vb_delete_volume env vo x) v = Some (Inr (), v')
      \<and> vw_volumes v' = vw_volumes v \<and> vb_lists v' = vb_lists w"
    if "vb_lists v = vb_lists w" for x and v :: "('a, 'b) volume_world_scheme"
  proof -
    obtain v1 where "vb_delete_volume env vo x v = (Inr (), v1)" "vb_lists v1 = vb_lists v"
      using assms(1) unfolding volumes_stay_def by blast
    with that show ?thesis by (simp add: io_loop_def vb_lists_def)
  qed
  from try_from_still [of "\<lambda>v. vb_lists v = vb_lists w" "\<lambda>i. io_loop (vb_delete_volume env vo i)" vw_volumes w 0 False,
      OF del]
  obtain w1 where w1: "try_from vw_volumes (\<lambda>i. io_loop (vb_delete_volume env vo i)) 0 False w
      = Some (Inr False, w1)" "vb_lists w1 = vb_lists w"
    by auto
  have check: "\<exists>v'. drop_volume_if_gone env vo x v = Some (Inr (), v') \<and> vb_lists v' = vb_lists v"
    for x and v :: "('a, 'b) volume_world_scheme"
  proof -
    obtain st v1 where "vb_get_volume_status env vo x v = (Inr st, v1)" "vb_lists v1 = vb_lists v"
      using assms(1) unfolding volumes_stay_def by blast
    then show ?thesis by (simp add: drop_volume_if_gone_def io_loop_def catch_def bnd_Inr)
  qed
  have still: "vw_volumes v' = vw_volumes v" if "drop_volume_if_gone env vo x v = Some (r, v')"
    for x r and v v' :: "('a, 'b) volume_world_scheme"
    using check [of x v] that by (auto simp: vb_lists_def)
  have round: "\<exists>v'. live_for vw_volumes (drop_volume_if_gone env vo) v = Some (Inr (), v') \<and> vb_lists v' = vb_lists v"
    for v :: "('a, 'b) volume_world_scheme"
    using each_loop_still [where f = "drop_volume_if_gone env vo" and L = vb_lists, OF check]
    by (simp add: live_for_still [of "drop_volume_if_gone env vo" vw_volumes, OF still])
  obtain w2 where w2: "await_volumes_gone env vb vo w1 = Some (Inr (), w2)" "vb_lists w2 = vb_lists w1"
    using while_left_still [where L = vb_lists, OF assms(2) round] unfolding await_volumes_gone_def by blast
  show ?thesis
    using snapshots w1 w2 assms(3)
    by (simp add: vb_delete_all_def bnd_loop_def io_loop_def report_volumes_def bnd_Inr vb_lists_def)
qed

theorem volumes_left_unbound_witness:
  "\<exists>w'. vb_delete_all (demo_env [(''v'', PDict [(''volume'', PDict [(''status'', PStr ''deleting'')])])])
     demo_volume_base demo_client None demo_volume_clients (demo_volume_world [PStr ''v1''] []) = Some (Inl UnboundErr, w')"
proof -
  have "volumes_stay (demo_env [(''v'', PDict [(''volume'', PDict [(''status'', PStr ''deleting'')])])])
      demo_volume_clients"
    by (simp add: volumes_stay_def demo_volume_clients_def Let_def vb_delete_volume_def delete_volume_def
        delete_with_def http_delete_def checked_text_def expected_success_def HTTP_SUCCESS_def
        vb_get_volume_status_def show_volume_def get_with_def http_get_def bnd_apply loaded_json_def loaded_part_def
        json_loads_def demo_env_def under_key_def)
  from volumes_left_unbound [OF this, of demo_volume_base "demo_volume_world [PStr ''v1''] []" demo_client None]
  show ?thesis by (auto simp: demo_volume_base_def demo_volume_world_def)
qed

end
