(* ===== verification/TestBase.thy ===== *)
theory TestBase
  imports TestServer TestSupport
begin

text \<open>
  The base class of the test cases, \<open>testcases/test.py\<close>: its class-level stages and their unwinding, the
  credentials and client managers of a class, its decorators, and \<open>call_until_true\<close>.

  The attributes of the class are fields of the world. The stages a test class may override are the record
  \<open>stages\<close>. A client manager is a value of a type of its own: \<open>clients.Manager\<close> is an argument, and so is the
  provider of credentials, through the record \<open>cred_provider\<close>.
\<close>

section \<open>The class\<close>

datatype teardown = ClearIsolatedCreds | ResourceCleanup

record ('r, 'm) class_world = "'r world" +
  tc_set_up_called :: bool
  tc_teardowns :: "(string \<times> teardown) list"
  tc_at_exit :: bool
  tc_managers :: "(string, 'm) dict"
  tc_provider :: "string option"
  tc_validation :: "(string, py) dict"
  tc_network_resources :: "(string, py) dict"

record test_class =
  cl_name :: string
  cl_credentials :: "py list"
  cl_identity_version :: "string option"
  cl_service :: "string option"

record 'w stages =
  st_skip_checks :: "('w, unit) loopy"
  st_setup_credentials :: "('w, unit) loopy"
  st_setup_clients :: "('w, unit) loopy"
  st_resource_setup :: "('w, unit) loopy"
  st_resource_cleanup :: "('w, unit) loopy"
  st_clear_isolated_creds :: "('w, unit) loopy"

definition run_teardown :: "'w stages \<Rightarrow> teardown \<Rightarrow> ('w, unit) loopy" where
  "run_teardown st t =
     (case t of ClearIsolatedCreds \<Rightarrow> st_clear_isolated_creds st | ResourceCleanup \<Rightarrow> st_resource_cleanup st)"

section \<open>Tear-down\<close>

text \<open>
  \<open>while cls.teardowns\<close>: the last one is popped and run. An exception is kept when there is none yet; it does
  not stop the loop.
\<close>

partial_function (option) teardown_loop ::
    "((('r, 'm, 'x) class_world_scheme)) stages \<Rightarrow> pyexc option
     \<Rightarrow> (('r, 'm, 'x) class_world_scheme, pyexc option) loopy" where
  "teardown_loop st found w =
     (if tc_teardowns w = [] then Some (Inr found, w)
      else
        (case run_teardown st (snd (last (tc_teardowns w))) (w\<lparr>tc_teardowns := butlast (tc_teardowns w)\<rparr>) of
           None \<Rightarrow> None
         | Some (Inl e, w') \<Rightarrow> teardown_loop st (keep_first found e) w'
         | Some (Inr u, w') \<Rightarrow> teardown_loop st found w'))"

text \<open>\<open>pending\<close> is the exception that is being handled when the method is called (\<open>sys.exc_info()\<close>).\<close>

definition tear_down_class ::
    "((('r, 'm, 'x) class_world_scheme)) stages \<Rightarrow> pyexc option
     \<Rightarrow> (('r, 'm, 'x) class_world_scheme, unit) loopy" where
  "tear_down_class st pending =
     bnd_loop (io_loop (modify (\<lambda>w. w\<lparr>tc_at_exit := False\<rparr>))) (\<lambda>_.
     bnd_loop (teardown_loop st pending) (\<lambda>found.
       io_loop (case (pending, found) of (None, Some e) \<Rightarrow> throw e | _ \<Rightarrow> ret ())))"

section \<open>Set-up\<close>

definition push_teardown :: "string \<Rightarrow> teardown \<Rightarrow> (('r, 'm, 'x) class_world_scheme, unit) loopy" where
  "push_teardown n t = io_loop (modify (\<lambda>w. w\<lparr>tc_teardowns := tc_teardowns w @ [(n, t)]\<rparr>))"

definition set_up_class ::
    "((('r, 'm, 'x) class_world_scheme)) stages \<Rightarrow> (('r, 'm, 'x) class_world_scheme, unit) loopy" where
  "set_up_class st =
     bnd_loop (io_loop (modify (\<lambda>w. w\<lparr>tc_set_up_called := True, tc_teardowns := []\<rparr>))) (\<lambda>_.
     bnd_loop (st_skip_checks st) (\<lambda>_.
       catch_loop
         (bnd_loop (push_teardown ''credentials'' ClearIsolatedCreds) (\<lambda>_.
          bnd_loop (st_setup_credentials st) (\<lambda>_.
          bnd_loop (st_setup_clients st) (\<lambda>_.
          bnd_loop (push_teardown ''resources'' ResourceCleanup) (\<lambda>_.
            st_resource_setup st)))))
         (\<lambda>e. Some (bnd_loop (tear_down_class st (Some e)) (\<lambda>_. io_loop (throw e))))))"

text \<open>\<open>setUp\<close> of a test: the fixtures it uses, read from the environment of the process.\<close>

datatype fixture = TimeoutFixture int | StdoutFixture | StderrFixture | LogFixture

definition os_env_or :: "(string, string) dict \<Rightarrow> string \<Rightarrow> string \<Rightarrow> string" where
  "os_env_or e k dflt = (case dget e k of None \<Rightarrow> dflt | Some v \<Rightarrow> v)"

definition captured :: "(string, string) dict \<Rightarrow> string \<Rightarrow> bool" where
  "captured e k = (dget e k = Some ''True'' \<or> dget e k = Some ''1'')"

definition test_fixtures :: "(string, string) dict \<Rightarrow> fixture list" where
  "test_fixtures e =
     (let t = (case int_of_str (os_env_or e ''OS_TEST_TIMEOUT'' ''0'') of None \<Rightarrow> 0 | Some n \<Rightarrow> n) in
      (if 0 < t then [TimeoutFixture t] else [])
      @ (if captured e ''OS_STDOUT_CAPTURE'' then [StdoutFixture] else [])
      @ (if captured e ''OS_STDERR_CAPTURE'' then [StderrFixture] else [])
      @ (if dget e ''OS_LOG_CAPTURE'' \<noteq> Some ''False'' \<and> dget e ''OS_LOG_CAPTURE'' \<noteq> Some ''0''
         then [LogFixture] else []))"

definition set_up ::
    "test_class \<Rightarrow> (string, string) dict \<Rightarrow> (('r, 'm, 'x) class_world_scheme, fixture list) io" where
  "set_up tc e =
     bnd (gets tc_set_up_called) (\<lambda>called.
       if \<not> called then throw (PlainExc (''setUpClass does not calls the super'' @ [CHR 0x27]
                                          @ ''ssetUpClass in the '' @ cl_name tc))
       else bnd (modify (\<lambda>w. w\<lparr>tc_at_exit := True\<rparr>)) (\<lambda>_. ret (test_fixtures e)))"

section \<open>Skipping\<close>

record api_flags =
  af_identity_v2 :: bool
  af_identity_v3 :: bool

definition identity_skip :: "api_flags \<Rightarrow> string option \<Rightarrow> pyexc + unit" where
  "identity_skip af v =
     (if v = Some ''v2'' \<and> \<not> af_identity_v2 af then Inl (SkipTest ''Identity api v2 is not enabled'')
      else if v = Some ''v3'' \<and> \<not> af_identity_v3 af then Inl (SkipTest ''Identity api v3 is not enabled'')
      else Inr ())"

text \<open>\<open>is_admin\<close> and \<open>is_alt\<close> are the checks of \<open>common/credentials.py\<close>; each is made when it is needed.\<close>

definition skip_unless :: "bool \<Rightarrow> ('w, bool) io \<Rightarrow> string \<Rightarrow> ('w, unit) io" where
  "skip_unless needed available message =
     (if needed then bnd available (\<lambda>b. if b then ret () else throw (SkipTest message)) else ret ())"

definition skip_checks ::
    "test_class \<Rightarrow> api_flags \<Rightarrow> ('w, bool) io \<Rightarrow> ('w, bool) io \<Rightarrow> ('w, unit) io" where
  "skip_checks tc af is_admin is_alt =
     bnd (skip_unless (PStr ''admin'' \<in> set (cl_credentials tc)) is_admin
            ''Missing Identity Admin API credentials in configuration.'') (\<lambda>_.
     bnd (skip_unless (PStr ''alt'' \<in> set (cl_credentials tc)) is_alt
            ''Missing a 2nd set of API credentials in configuration.'') (\<lambda>_.
       lift (identity_skip af (cl_identity_version tc))))"

section \<open>Credentials and client managers\<close>

text \<open>
  The provider of credentials: its construction, \<open>is_role_available\<close>, \<open>get_creds_by_roles\<close>, the methods
  \<open>get_..._creds\<close> by name, and \<open>clear_isolated_creds\<close>.
\<close>

record ('w, 'c) cred_provider =
  po_make :: "(string, py) dict \<Rightarrow> ('w, unit) io"
  po_is_role_available :: "py \<Rightarrow> ('w, bool) io"
  po_get_creds_by_roles :: "py list \<Rightarrow> bool option \<Rightarrow> ('w, 'c) io"
  po_get_creds :: "string \<Rightarrow> ('w, 'c) io option"
  po_clear :: "('w, unit) loopy"

text \<open>A provider is made once for a class; one with the name of another class is replaced.\<close>

definition get_credentials_provider ::
    "test_class \<Rightarrow> (('r, 'm, 'x) class_world_scheme, 'c) cred_provider
     \<Rightarrow> (('r, 'm, 'x) class_world_scheme, unit) io" where
  "get_credentials_provider tc po =
     bnd (gets tc_provider) (\<lambda>provider.
       if provider = Some (cl_name tc) then ret ()
       else bnd (gets tc_network_resources) (\<lambda>network_resources.
            bnd (po_make po network_resources) (\<lambda>_.
              modify (\<lambda>w. w\<lparr>tc_provider := Some (cl_name tc)\<rparr>))))"

definition skip_role :: "'r env \<Rightarrow> test_class \<Rightarrow> py \<Rightarrow> pyexc" where
  "skip_role env tc role =
     SkipTest (cl_name tc @ '' skipped because the configured credential provider is not able to provide ''
       @ ''credentials with the '' @ py_text (e_repr env) role @ '' role assigned.'')"

definition tc_get_creds ::
    "'r env \<Rightarrow> test_class \<Rightarrow> (('r, 'm, 'x) class_world_scheme, 'c) cred_provider \<Rightarrow> string option \<Rightarrow> py list
     \<Rightarrow> bool option \<Rightarrow> (('r, 'm, 'x) class_world_scheme, 'c) io" where
  "tc_get_creds env tc po cred_type roles force_new =
     (if roles \<noteq> [] then
        bnd (for_each roles (\<lambda>role. bnd (po_is_role_available po role) (\<lambda>b.
               if b then ret () else throw (skip_role env tc role)))) (\<lambda>_.
          po_get_creds_by_roles po roles force_new)
      else
        (let t = (case cred_type of None \<Rightarrow> ''primary'' | Some s \<Rightarrow> if s = [] then ''primary'' else s) in
         case po_get_creds po t of
           Some get \<Rightarrow> get
         | None \<Rightarrow> throw (Auto InvalidCredentials [PStr (''Invalid credentials type '' @ t)] [])))"

definition get_client_manager ::
    "'r env \<Rightarrow> test_class \<Rightarrow> (('r, 'm, 'x) class_world_scheme, 'c) cred_provider
     \<Rightarrow> ('c \<Rightarrow> string option \<Rightarrow> (('r, 'm, 'x) class_world_scheme, 'm) io)
     \<Rightarrow> string option \<Rightarrow> py list \<Rightarrow> bool option \<Rightarrow> (('r, 'm, 'x) class_world_scheme, 'm) io" where
  "get_client_manager env tc po make_manager cred_type roles force_new =
     (if roles \<noteq> [] \<and> cred_type \<noteq> None \<and> cred_type \<noteq> Some [] then throw ValueErr
      else
        bnd (get_credentials_provider tc po) (\<lambda>_.
        bnd (tc_get_creds env tc po cred_type roles force_new) (\<lambda>creds.
          make_manager creds (cl_service tc))))"

definition set_manager :: "string \<Rightarrow> 'm \<Rightarrow> (('r, 'm, 'x) class_world_scheme, unit) io" where
  "set_manager attr m = modify (\<lambda>w. w\<lparr>tc_managers := dset (tc_managers w) attr m\<rparr>)"

text \<open>The aliases of the three usual types.\<close>

definition manager_aliases :: "string \<Rightarrow> string list" where
  "manager_aliases t =
     (if t = ''primary'' then [''os'', ''manager''] else if t = ''admin'' then [''os_adm'', ''admin_manager'']
      else if t = ''alt'' then [''alt_manager''] else [])"

definition setup_one_credential ::
    "'r env \<Rightarrow> test_class \<Rightarrow> (('r, 'm, 'x) class_world_scheme, 'c) cred_provider
     \<Rightarrow> ('c \<Rightarrow> string option \<Rightarrow> (('r, 'm, 'x) class_world_scheme, 'm) io) \<Rightarrow> py
     \<Rightarrow> (('r, 'm, 'x) class_world_scheme, unit) io" where
  "setup_one_credential env tc po make_manager credentials_type =
     (case credentials_type of
        PStr t \<Rightarrow>
          bnd (get_client_manager env tc po make_manager (Some t) [] None) (\<lambda>m.
            for_each ((''os_'' @ t) # manager_aliases t) (\<lambda>attr. set_manager attr m))
      | PList xs \<Rightarrow>
          bnd (get_client_manager env tc po make_manager None (drop 1 xs) (Some True)) (\<lambda>m.
            case xs of
              [] \<Rightarrow> throw IndexErr
            | x # _ \<Rightarrow> set_manager (''os_roles_'' @ py_text (e_repr env) x) m)
      | _ \<Rightarrow> ret ())"

definition setup_credentials ::
    "'r env \<Rightarrow> test_class \<Rightarrow> (('r, 'm, 'x) class_world_scheme, 'c) cred_provider
     \<Rightarrow> ('c \<Rightarrow> string option \<Rightarrow> (('r, 'm, 'x) class_world_scheme, 'm) io)
     \<Rightarrow> (('r, 'm, 'x) class_world_scheme, unit) io" where
  "setup_credentials env tc po make_manager =
     for_each (cl_credentials tc) (setup_one_credential env tc po make_manager)"

text \<open>\<open>hasattr(cls, '_creds_provider')\<close>.\<close>

definition tc_clear_isolated_creds ::
    "(('r, 'm, 'x) class_world_scheme, 'c) cred_provider \<Rightarrow> (('r, 'm, 'x) class_world_scheme, unit) loopy" where
  "tc_clear_isolated_creds po =
     bnd_loop (io_loop (gets tc_provider)) (\<lambda>provider.
       case provider of None \<Rightarrow> io_loop (ret ()) | Some n \<Rightarrow> po_clear po)"

section \<open>Resources\<close>

text \<open>\<open>create\<close> and \<open>clear\<close> are the functions of \<open>common/validation_resources.py\<close> with the clients of a manager.\<close>

definition resource_setup ::
    "('m \<Rightarrow> (string, py) dict \<Rightarrow> (('r, 'm, 'x) class_world_scheme, (string, py) dict) io)
     \<Rightarrow> (('r, 'm, 'x) class_world_scheme, unit) io" where
  "resource_setup create =
     bnd (gets (\<lambda>w. (dget (tc_managers w) ''os'', tc_validation w))) (\<lambda>(os, resources).
       case os of
         None \<Rightarrow> ret ()
       | Some m \<Rightarrow> bnd (create m resources) (\<lambda>made. modify (\<lambda>w. w\<lparr>tc_validation := made\<rparr>)))"

definition resource_cleanup ::
    "('m \<Rightarrow> (string, py) dict \<Rightarrow> (('r, 'm, 'x) class_world_scheme, unit) loopy)
     \<Rightarrow> (('r, 'm, 'x) class_world_scheme, unit) loopy" where
  "resource_cleanup clear =
     bnd_loop (io_loop (gets (\<lambda>w. (dget (tc_managers w) ''os'', tc_validation w)))) (\<lambda>(os, resources).
       if resources = [] then io_loop (ret ())
       else (case os of
         None \<Rightarrow> io_loop (ret ())
       | Some m \<Rightarrow> bnd_loop (clear m resources) (\<lambda>_. io_loop (modify (\<lambda>w. w\<lparr>tc_validation := []\<rparr>)))))"

record validation_conf =
  va_run_validation :: bool
  va_auth_method :: string
  va_connect_method :: string

definition flag_or :: "py \<Rightarrow> bool \<Rightarrow> py" where
  "flag_or v dflt = (if v = PNone then PBool dflt else v)"

definition set_validation_resources ::
    "validation_conf \<Rightarrow> py \<Rightarrow> py \<Rightarrow> py \<Rightarrow> py \<Rightarrow> (('r, 'm, 'x) class_world_scheme, unit) io" where
  "set_validation_resources va keypair floating_ip security_group security_group_rules =
     (if \<not> va_run_validation va then ret ()
      else modify (\<lambda>w.
        if tc_validation w \<noteq> [] then w
        else w\<lparr>tc_validation :=
          [(''keypair'', flag_or keypair (str_lower (va_auth_method va) = ''keypair'')),
           (''security_group'', flag_or security_group True),
           (''security_group_rules'', flag_or security_group_rules True),
           (''floating_ip'', flag_or floating_ip (str_lower (va_connect_method va) = ''floating''))]\<rparr>))"

definition set_network_resources ::
    "py \<Rightarrow> py \<Rightarrow> py \<Rightarrow> py \<Rightarrow> (('r, 'm, 'x) class_world_scheme, unit) io" where
  "set_network_resources network router subnet dhcp =
     modify (\<lambda>w.
       if tc_network_resources w \<noteq> [] then w
       else w\<lparr>tc_network_resources :=
         [(''network'', network), (''router'', router), (''subnet'', subnet), (''dhcp'', dhcp)]\<rparr>)"

text \<open>
  \<open>get_tenant_network\<close>: the networks are listed with the clients of the primary manager, or of an
  administrator when the network service is the one of compute. \<open>lister\<close> gives the listing of a manager,
  \<open>fixed\<close> is the function of \<open>common/fixed_network.py\<close>.
\<close>

definition tc_get_tenant_network ::
    "'r env \<Rightarrow> test_class \<Rightarrow> (('r, 'm, 'x) class_world_scheme, 'c) cred_provider
     \<Rightarrow> ('c \<Rightarrow> string option \<Rightarrow> (('r, 'm, 'x) class_world_scheme, 'm) io) \<Rightarrow> bool
     \<Rightarrow> (('r, 'm, 'x) class_world_scheme, bool) io
     \<Rightarrow> ('m \<Rightarrow> (('r, 'm, 'x) class_world_scheme, py list) io)
     \<Rightarrow> ((('r, 'm, 'x) class_world_scheme, py list) io \<Rightarrow> (('r, 'm, 'x) class_world_scheme, py) io)
     \<Rightarrow> (('r, 'm, 'x) class_world_scheme, py) io" where
  "tc_get_tenant_network env tc po make_manager neutron is_admin lister fixed =
     bnd (get_client_manager env tc po make_manager None [] None) (\<lambda>m.
     bnd (get_credentials_provider tc po) (\<lambda>_.
     bnd (if neutron then ret False else is_admin) (\<lambda>as_admin.
     bnd (if as_admin then
            (case po_get_creds po ''admin'' of
               None \<Rightarrow> throw AttrErr
             | Some get \<Rightarrow> bnd get (\<lambda>creds. make_manager creds None))
          else ret m) (\<lambda>manager. fixed (lister manager)))))"

section \<open>Decorators\<close>

definition service_names :: "string list" where
  "service_names = [''compute'', ''image'', ''baremetal'', ''volume'', ''orchestration'', ''network'', ''identity'',
     ''object_storage'', ''dashboard'', ''telemetry'', ''data_processing'', ''database'']"

text \<open>The option that says whether a service is there; two services always are.\<close>

definition service_option :: "string \<Rightarrow> string option" where
  "service_option s = map_of
     [(''compute'', ''nova''), (''image'', ''glance''), (''baremetal'', ''ironic''), (''volume'', ''cinder''),
      (''orchestration'', ''heat''), (''object_storage'', ''swift''), (''dashboard'', ''horizon''),
      (''telemetry'', ''ceilometer''), (''data_processing'', ''sahara''), (''database'', ''trove'')] s"

definition service_available :: "(string \<Rightarrow> bool) \<Rightarrow> string \<Rightarrow> bool" where
  "service_available available s = (case service_option s of None \<Rightarrow> True | Some o1 \<Rightarrow> available o1)"

text \<open>\<open>services(*args)\<close> checks the names when the test is declared and the services when it runs.\<close>

definition services_declared :: "string list \<Rightarrow> pyexc + string list" where
  "services_declared args =
     (case find (\<lambda>s. s \<notin> set service_names) args of
        Some s \<Rightarrow> Inl (Auto InvalidServiceTag [PStr (s @ '' is not a valid service'')] [])
      | None \<Rightarrow> Inr args)"

definition with_services :: "(string \<Rightarrow> bool) \<Rightarrow> string list \<Rightarrow> ('w, 'a) loopy \<Rightarrow> ('w, 'a) loopy" where
  "with_services available args f =
     (case find (\<lambda>s. \<not> service_available available s) args of
        Some s \<Rightarrow> io_loop (throw (SkipTest (''Skipped because the '' @ s @ '' service is not available'')))
      | None \<Rightarrow> f)"

definition is_extension_enabled :: "(string \<Rightarrow> string list option) \<Rightarrow> string \<Rightarrow> string \<Rightarrow> pyexc + bool" where
  "is_extension_enabled config extension_name service =
     (case config service of
        None \<Rightarrow> Inl (KeyErr service)
      | Some [] \<Rightarrow> Inr False
      | Some (x # xs) \<Rightarrow> Inr (x = ''all'' \<or> extension_name \<in> set (x # xs)))"

definition requires_ext ::
    "(string \<Rightarrow> string list option) \<Rightarrow> string \<Rightarrow> string \<Rightarrow> ('w, 'a) loopy \<Rightarrow> ('w, 'a) loopy" where
  "requires_ext config extension service f =
     (case is_extension_enabled config extension service of
        Inl e \<Rightarrow> io_loop (throw e)
      | Inr True \<Rightarrow> f
      | Inr False \<Rightarrow> io_loop (throw (SkipTest
          (''Skipped because '' @ service @ '' extension: '' @ extension @ '' is not enabled''))))"

text \<open>The attributes \<open>attr(type=...)\<close> adds; \<open>stresstest\<close> sets two more.\<close>

definition attr_types :: "py \<Rightarrow> py list" where
  "attr_types t = (case t of PStr s \<Rightarrow> [PStr s] | PList xs \<Rightarrow> xs | _ \<Rightarrow> [])"

definition stresstest_attrs :: "(string, py) dict \<Rightarrow> (string, py) dict" where
  "stresstest_attrs kwargs =
     [(''st_class_setup_per'', kw_get kwargs ''class_setup_per'' (PStr ''process'')),
      (''st_allow_inheritance'', kw_get kwargs ''allow_inheritance'' (PBool False))]"

section \<open>Waiting\<close>

text \<open>\<open>call_until_true\<close>; the clock counts microseconds. The state of the loop is the time it last read.\<close>

definition call_round ::
    "(('r, 'x) world_scheme, bool) io \<Rightarrow> int \<Rightarrow> int \<Rightarrow> int \<Rightarrow> (('r, 'x) world_scheme, int + bool) io" where
  "call_round func sleep_for timeout t =
     (if t < timeout then
        bnd func (\<lambda>b.
          if b then ret (Inr True)
          else bnd (sleep sleep_for) (\<lambda>_. bnd (gets now) (\<lambda>t'. ret (Inl t'))))
      else ret (Inr False))"

definition call_until_true ::
    "(('r, 'x) world_scheme, bool) io \<Rightarrow> int \<Rightarrow> int \<Rightarrow> (('r, 'x) world_scheme, bool) loopy" where
  "call_until_true func duration sleep_for w =
     loop_io (call_round func sleep_for (now w + duration * 1000000)) (now w) w"

end
