(* ===== verification/NegativeTest.thy ===== *)
theory NegativeTest
  imports Generators RestClient ServersClient
begin

text \<open>
  The negative tests of \<open>testcases/test.py\<close>: \<open>NegativeAutoTest\<close> makes scenarios out of a description of an API
  call, sends requests with an invalid resource or invalid data, and expects a client error.

  The check of a description against its schema (\<open>jsonschema\<close>), the operator \<open>%\<close> that puts the resources into
  the URL, and the random ids are arguments.
\<close>

section \<open>Scenarios\<close>

text \<open>What a scenario sets on the test: a resource to replace by a random id, or altered data; or nothing.\<close>

datatype neg_case =
    InvalidResource string string py
  | InvalidData scenario
  | NoScenario

text \<open>
  The scenarios of the resources. A resource is a name, or a dictionary with a name and an expected result; the
  variable \<open>expected\<close> keeps its value from one resource to the next. \<open>uuid\<close> gives the random ids.
\<close>

fun resource_scenarios ::
    "'r env \<Rightarrow> (nat \<Rightarrow> string) \<Rightarrow> nat \<Rightarrow> py \<Rightarrow> py list \<Rightarrow> pyexc + (string \<times> neg_case) list" where
  "resource_scenarios env uuid n expected [] = Inr []"
| "resource_scenarios env uuid n expected (r # rs) =
     bindE (case r of
              PDict d \<Rightarrow> bindE (getitem (PDict d) ''expected_result'') (\<lambda>e.
                        bindE (getitem (PDict d) ''name'') (\<lambda>name. Inr (e, name)))
            | _ \<Rightarrow> Inr (expected, r)) (\<lambda>(e, name).
     bindE (resource_scenarios env uuid (Suc n) e rs) (\<lambda>rest.
       (let t = py_text (e_repr env) name in
        Inr ((''inv_res_'' @ t, InvalidResource t (uuid n) e) # rest))))"

definition generate_scenario ::
    "'r env \<Rightarrow> ((string, py) dict \<Rightarrow> pyexc + unit) \<Rightarrow> (nat \<Rightarrow> string) \<Rightarrow> (string, py) dict
     \<Rightarrow> pyexc + (string \<times> neg_case) list" where
  "generate_scenario env validate_schema uuid description =
     bindE (validate_schema description) (\<lambda>_.
     bindE (py_iter (field_or description ''resources'' (PList []))) (\<lambda>resources.
     bindE (resource_scenarios env uuid 0 PNone resources) (\<lambda>scenarios.
       (case field_or description ''json-schema'' PNone of
          PNone \<Rightarrow> Inr scenarios
        | schema \<Rightarrow> bindE (generate_scenarios schema None) (\<lambda>generated.
            Inr (scenarios @ map (\<lambda>s. (sc_name s, InvalidData s)) generated))))))"

section \<open>Executing\<close>

text \<open>\<open>get_resource\<close>: the invalid id for the resource of the scenario, a registered one, or None.\<close>

definition get_resource :: "neg_case \<Rightarrow> (string, py) dict \<Rightarrow> py \<Rightarrow> pyexc + py" where
  "get_resource scenario resources name =
     bindE (case name of PDict d \<Rightarrow> getitem (PDict d) ''name'' | _ \<Rightarrow> Inr name) (\<lambda>n.
       (case n of
          PStr s \<Rightarrow>
            Inr (case scenario of
                   InvalidResource r invalid e \<Rightarrow> if r = s then PStr invalid else field_or resources s PNone
                 | _ \<Rightarrow> field_or resources s PNone)
        | _ \<Rightarrow> Inr PNone))"

definition set_resource :: "string \<Rightarrow> py \<Rightarrow> (string, py) dict \<Rightarrow> (string, py) dict" where
  "set_resource name resource resources = dset resources name resource"

text \<open>The data go into the query for some methods, and into the body for the others.\<close>

definition http_arguments :: "'r env \<Rightarrow> py \<Rightarrow> string \<Rightarrow> string \<Rightarrow> pyexc + (string \<times> py)" where
  "http_arguments env json_dict url method =
     (if \<not> truthy json_dict then Inr (url, PNone)
      else if method \<in> {''GET'', ''HEAD'', ''PUT'', ''DELETE''} then
        (case json_dict of
           PDict d \<Rightarrow> Inr (url @ ''?'' @ urlencode_params env d, PNone)
         | _ \<Rightarrow> Inl TypeErr)
      else Inr (url, json_dumps env json_dict))"

definition check_negative_response :: "py \<Rightarrow> int \<Rightarrow> pyexc + unit" where
  "check_negative_response expected_result status =
     (if \<not> (400 \<le> status \<and> status < 500 \<and> status \<noteq> 413) then Inl AssertErr
      else if expected_result = PNone \<or> expected_result = PInt status then Inr () else Inl AssertErr)"

text \<open>The request of a scenario: the expected result, the template of the URL and the body.\<close>

definition scenario_request ::
    "'r env \<Rightarrow> neg_case \<Rightarrow> py \<Rightarrow> py \<Rightarrow> string \<Rightarrow> string \<Rightarrow> pyexc + (py \<times> string \<times> py)" where
  "scenario_request env scenario schema expected url method =
     (case scenario of
        InvalidResource r invalid e \<Rightarrow>
          bindE (if truthy schema then generate_valid schema else Inr PNone) (\<lambda>valid_schema.
          bindE (http_arguments env valid_schema url method) (\<lambda>(u, body). Inr (expected, u, body)))
      | InvalidData s \<Rightarrow>
          bindE (generate_valid schema) (\<lambda>valid_schema.
          bindE (generate_payload s valid_schema) (\<lambda>(local_expected, altered).
          bindE (http_arguments env altered url method) (\<lambda>(u, body).
            Inr (if local_expected \<noteq> PNone then local_expected else expected, u, body))))
      | NoScenario \<Rightarrow>
          Inl (PlainExc (''testscenarios are not active. Please make sure that your test runner supports the ''
                 @ ''load_tests mechanism'')))"

text \<open>
  \<open>is_admin\<close> is the check for credentials of an administrator, \<open>admin_client\<close> makes a client with them; \<open>fmt\<close>
  is the operator \<open>%\<close> on a text and a tuple.
\<close>

definition negative_client ::
    "('w, bool) io \<Rightarrow> ('w, 'w requester) io \<Rightarrow> 'w requester \<Rightarrow> (string, py) dict \<Rightarrow> ('w, 'w requester) io" where
  "negative_client is_admin admin_client client description =
     (if truthy (field_or description ''admin_client'' (PBool False)) then
        bnd is_admin (\<lambda>b.
          if b then admin_client
          else throw (SkipTest ''Missing Identity Admin API credentials inconfiguration.''))
      else ret client)"

definition execute ::
    "'r env \<Rightarrow> (string \<Rightarrow> py list \<Rightarrow> pyexc + string) \<Rightarrow> ('w, bool) io \<Rightarrow> ('w, 'w requester) io \<Rightarrow> 'w requester
     \<Rightarrow> neg_case \<Rightarrow> (string, py) dict \<Rightarrow> (string, py) dict \<Rightarrow> ('w, unit) io" where
  "execute env fmt is_admin admin_client client scenario registered description =
     bnd (lift (bindE (getitem (PDict description) ''name'') (\<lambda>_.
                bindE (getitem (PDict description) ''http-method'') (as_str TypeErr)))) (\<lambda>method.
     bnd (lift (bindE (getitem (PDict description) ''url'') (as_str TypeErr))) (\<lambda>url.
     bnd (lift (bindE (py_iter (field_or description ''resources'' (PList [])))
                  (mapE (get_resource scenario registered)))) (\<lambda>resources.
     bnd (lift (scenario_request env scenario (field_or description ''json-schema'' PNone)
                  (field_or description ''default_result_code'' PNone) url method)) (\<lambda>(expected, template, body).
     bnd (negative_client is_admin admin_client client description) (\<lambda>rq.
     bnd (lift (fmt template resources)) (\<lambda>filled.
     bnd (send_request rq method filled body) (\<lambda>a.
       lift (check_negative_response expected (rs_status (fst a))))))))))"

section \<open>The name of a simple test\<close>

text \<open>
  \<open>SimpleNegativeAutoTest\<close>: the name of the class without \<open>JSON\<close> and \<open>Test\<close>, an underscore before each capital
  letter but the first character, in lower case.
\<close>

definition is_capital :: "char \<Rightarrow> bool" where
  "is_capital c = (let n = (of_char c :: nat) in 65 \<le> n \<and> n \<le> 90)"

fun split_capitals :: "string \<Rightarrow> string" where
  "split_capitals [] = []"
| "split_capitals (c # cs) = (if is_capital c then [CHR 0x5F, c] else [c]) @ split_capitals cs"

definition simple_test_name :: "string \<Rightarrow> string" where
  "simple_test_name klass =
     (let cn = str_replace ''Test'' [] (str_replace ''JSON'' [] klass) in
      ''test_'' @ str_lower (case cn of [] \<Rightarrow> [] | c # cs \<Rightarrow> c # split_capitals cs))"

end
