(* ===== verification/TestBaseProps.thy ===== *)
theory TestBaseProps
  imports TestBase NegativeTest Demo
begin

text \<open>
  The properties of \<open>testcases/test.py\<close>: what is torn down and which exception is reported, when
  \<open>call_until_true\<close> ends, and what a negative test accepts.
\<close>

section \<open>Tear-down\<close>

text \<open>
  The specification: the teardowns of the stack are run one after the other, the last first, whether they raise
  or not; \<open>es\<close> are the exceptions in the order they were raised.
\<close>

inductive unwinds ::
    "((('r, 'm, 'x) class_world_scheme)) stages \<Rightarrow> ('r, 'm, 'x) class_world_scheme \<Rightarrow> pyexc list
     \<Rightarrow> ('r, 'm, 'x) class_world_scheme \<Rightarrow> bool" for st where
  unwound: "tc_teardowns w = [] \<Longrightarrow> unwinds st w [] w"
| quiet: "tc_teardowns w = ts @ [(n, t)] \<Longrightarrow> run_teardown st t (w\<lparr>tc_teardowns := ts\<rparr>) = Some (Inr (), w1)
    \<Longrightarrow> unwinds st w1 es w' \<Longrightarrow> unwinds st w es w'"
| raising: "tc_teardowns w = ts @ [(n, t)] \<Longrightarrow> run_teardown st t (w\<lparr>tc_teardowns := ts\<rparr>) = Some (Inl e, w1)
    \<Longrightarrow> unwinds st w1 es w' \<Longrightarrow> unwinds st w (e # es) w'"

lemma unwinds_empties: "unwinds st w es w' \<Longrightarrow> tc_teardowns w' = []"
  by (induction rule: unwinds.induct)

lemma teardown_loop_unwinds:
  "unwinds st w es w' \<Longrightarrow>
   teardown_loop st found w = Some (Inr (case found of Some e \<Rightarrow> Some e
     | None \<Rightarrow> (case es of [] \<Rightarrow> None | e # _ \<Rightarrow> Some e)), w')"
proof (induction arbitrary: found rule: unwinds.induct)
  case (unwound w)
  then show ?case by (subst teardown_loop.simps) (simp split: option.splits)
next
  case (quiet w ts n t w1 es w')
  then show ?case by (subst teardown_loop.simps) simp
next
  case (raising w ts n t e w1 es w')
  then show ?case by (subst teardown_loop.simps) (simp add: keep_first_def split: option.splits)
qed

text \<open>The stages of a class leave the stack of teardowns alone.\<close>

definition stack_kept :: "((('r, 'm, 'x) class_world_scheme)) stages \<Rightarrow> bool" where
  "stack_kept st =
     (\<forall>f \<in> {st_skip_checks st, st_setup_credentials st, st_setup_clients st, st_resource_setup st,
             st_resource_cleanup st, st_clear_isolated_creds st}.
        \<forall>w r w'. f w = Some (r, w') \<longrightarrow> tc_teardowns w' = tc_teardowns w)"

lemma stack_keptD:
  assumes "stack_kept st"
  shows "st_skip_checks st w = Some (r, w') \<Longrightarrow> tc_teardowns w' = tc_teardowns w"
    "st_setup_credentials st w = Some (r, w') \<Longrightarrow> tc_teardowns w' = tc_teardowns w"
    "st_setup_clients st w = Some (r, w') \<Longrightarrow> tc_teardowns w' = tc_teardowns w"
    "st_resource_setup st w = Some (r, w') \<Longrightarrow> tc_teardowns w' = tc_teardowns w"
    "run_teardown st t w = Some (r, w') \<Longrightarrow> tc_teardowns w' = tc_teardowns w"
  using assms unfolding stack_kept_def by (auto simp: run_teardown_def split: teardown.splits)

text \<open>When the teardowns end, the stack is unwound.\<close>

lemma unwinds_total:
  assumes kept: "stack_kept st" and ends: "\<And>t w. run_teardown st t w \<noteq> None"
  shows "\<exists>es w'. unwinds st w es w'"
proof (induction "length (tc_teardowns w)" arbitrary: w)
  case 0
  then show ?case using unwound by auto
next
  case (Suc k)
  then obtain ts n t where ts: "tc_teardowns w = ts @ [(n, t)]"
    by (metis length_Suc_conv_rev surj_pair)
  obtain r w1 where run: "run_teardown st t (w\<lparr>tc_teardowns := ts\<rparr>) = Some (r, w1)"
    using ends by (metis option.exhaust surj_pair)
  with kept have "tc_teardowns w1 = ts" by (auto dest: stack_keptD(5))
  with Suc ts obtain es w' where "unwinds st w1 es w'" by fastforce
  then show ?case
    using unwinds.quiet [OF ts, of st w1 es w'] unwinds.raising [OF ts, of st _ w1 es w'] run
    by (cases r) auto
qed

text \<open>
  C17 (teardown_runs_all): \<open>tearDownClass\<close> implements the specification: every teardown that was registered runs,
  the last first, also after one that raised; the stack is empty in the end; and the first exception is raised,
  unless it was called while another exception was being handled.
\<close>

theorem teardown_runs_all:
  assumes "unwinds st (w\<lparr>tc_at_exit := False\<rparr>) es w'"
  shows "tear_down_class st pending w
      = Some (case (pending, es) of (None, e # _) \<Rightarrow> Inl e | _ \<Rightarrow> Inr (), w')
    \<and> tc_teardowns w' = []"
  using teardown_loop_unwinds [OF assms, of pending] unwinds_empties [OF assms]
  by (auto simp: tear_down_class_def bnd_loop_def io_loop_def split: option.splits list.splits)

definition demo_stages :: "((('r, 'm, 'x) class_world_scheme)) stages" where
  "demo_stages =
     \<lparr>st_skip_checks = io_loop (ret ()), st_setup_credentials = io_loop (ret ()), st_setup_clients = io_loop (ret ()),
      st_resource_setup = io_loop (throw ValueErr), st_resource_cleanup = io_loop (throw AttrErr),
      st_clear_isolated_creds = io_loop (throw TypeErr)\<rparr>"

definition demo_class_world :: "(script, unit) class_world" where
  "demo_class_world = \<lparr>now = 0, remote = [], sent = [], naps = [], tc_set_up_called = True,
     tc_teardowns = [(''credentials'', ClearIsolatedCreds), (''resources'', ResourceCleanup)], tc_at_exit = True,
     tc_managers = [], tc_provider = None, tc_validation = [], tc_network_resources = []\<rparr>"

lemma demo_stages_kept: "stack_kept demo_stages"
  by (auto simp: stack_kept_def demo_stages_def io_loop_def)

text \<open>Both teardowns raise; the first one that ran is reported.\<close>

theorem teardown_runs_all_witness:
  "\<exists>w'. tear_down_class demo_stages None demo_class_world = Some (Inl AttrErr, w') \<and> tc_teardowns w' = []"
proof -
  let ?w = "demo_class_world\<lparr>tc_at_exit := False\<rparr>"
  let ?w1 = "?w\<lparr>tc_teardowns := [(''credentials'', ClearIsolatedCreds)]\<rparr>"
  let ?w2 = "?w1\<lparr>tc_teardowns := []\<rparr>"
  have "unwinds demo_stages ?w2 [] ?w2" by (rule unwound) simp
  then have "unwinds demo_stages ?w1 [TypeErr] ?w2"
    by (rule raising [rotated 2, where ts = "[]" and n = "''credentials''" and t = ClearIsolatedCreds]) (simp_all add: run_teardown_def demo_stages_def io_loop_def)
  then have "unwinds demo_stages ?w [AttrErr, TypeErr] ?w2"
    by (rule raising [rotated 2, where ts = "[(''credentials'', ClearIsolatedCreds)]"
          and n = "''resources''" and t = ResourceCleanup])
      (simp_all add: run_teardown_def demo_stages_def io_loop_def demo_class_world_def)
  from teardown_runs_all [OF this, of None] show ?thesis by auto
qed

section \<open>Set-up\<close>

text \<open>
  C18 (failed_setup_unwinds): when a stage after the skip checks raises, \<open>setUpClass\<close> raises that exception and no
  other, after the teardowns of the stages that were reached have run: the credentials in any case, the resources
  once the clients were set up. When the skip checks raise nothing is torn down.
\<close>

theorem failed_setup_unwinds:
  assumes "stack_kept st" "\<And>t w. run_teardown st t w \<noteq> None" "set_up_class st w = Some (Inl e, w')"
  shows "(st_skip_checks st (w\<lparr>tc_set_up_called := True, tc_teardowns := []\<rparr>) = Some (Inl e, w'))
    \<or> (\<exists>v es. unwinds st (v\<lparr>tc_at_exit := False\<rparr>) es w'
        \<and> (tc_teardowns v = [(''credentials'', ClearIsolatedCreds)]
             \<and> (\<exists>u. st_setup_credentials st u = Some (Inl e, v) \<or> st_setup_clients st u = Some (Inl e, v))
         \<or> tc_teardowns v = [(''credentials'', ClearIsolatedCreds), (''resources'', ResourceCleanup)]
             \<and> (\<exists>u. st_resource_setup st u = Some (Inl e, v))))"
proof -
  let ?w0 = "w\<lparr>tc_set_up_called := True, tc_teardowns := []\<rparr>"
  let ?creds = "[(''credentials'', ClearIsolatedCreds)]" and ?res = "[(''resources'', ResourceCleanup)]"
  note kept = stack_keptD [OF assms(1)]
  have down: "\<exists>es. unwinds st (v\<lparr>tc_at_exit := False\<rparr>) es w' \<and> e1 = e"
    if "bnd_loop (tear_down_class st (Some e1)) (\<lambda>_. io_loop (throw e1)) v = Some (Inl e, w')" for v e1
  proof -
    obtain es v' where es: "unwinds st (v\<lparr>tc_at_exit := False\<rparr>) es v'"
      using unwinds_total [OF assms(1,2)] by blast
    with that teardown_runs_all [OF es, of "Some e1"] show ?thesis
      by (auto simp: bnd_loop_def io_loop_def)
  qed
  obtain r1 w1 where skip: "st_skip_checks st ?w0 = Some (r1, w1)"
    using assms(3) by (cases "st_skip_checks st ?w0") (auto simp: set_up_class_def bnd_loop_def io_loop_def)
  show ?thesis
  proof (cases r1)
    case (Inl e1)
    with skip assms(3) show ?thesis by (simp add: set_up_class_def bnd_loop_def io_loop_def)
  next
    case (Inr u)
    have w1: "tc_teardowns w1 = []" using kept(1) [OF skip] by simp
    let ?v1 = "w1\<lparr>tc_teardowns := ?creds\<rparr>"
    obtain r2 w2 where creds: "st_setup_credentials st ?v1 = Some (r2, w2)"
      using assms(3) skip Inr w1
      by (cases "st_setup_credentials st ?v1")
        (auto simp: set_up_class_def bnd_loop_def io_loop_def push_teardown_def catch_loop_def)
    have w2: "tc_teardowns w2 = ?creds" using kept(2) [OF creds] by simp
    note run = assms(3) [unfolded set_up_class_def bnd_loop_def io_loop_def push_teardown_def catch_loop_def]
    show ?thesis
    proof (cases r2)
      case (Inl e2)
      then have "bnd_loop (tear_down_class st (Some e2)) (\<lambda>_. io_loop (throw e2)) w2 = Some (Inl e, w')"
        using run skip Inr w1 creds by (simp add: bnd_loop_def io_loop_def split: option.splits sum.splits prod.splits)
      from down [OF this] w2 creds Inl show ?thesis by blast
    next
      case r2: (Inr u2)
      obtain r3 w3 where clients: "st_setup_clients st w2 = Some (r3, w3)"
        using run skip Inr w1 creds r2 by (cases "st_setup_clients st w2") auto
      have w3: "tc_teardowns w3 = ?creds" using kept(3) [OF clients] w2 by simp
      show ?thesis
      proof (cases r3)
        case (Inl e3)
        then have "bnd_loop (tear_down_class st (Some e3)) (\<lambda>_. io_loop (throw e3)) w3 = Some (Inl e, w')"
          using run skip Inr w1 creds r2 clients by (simp add: bnd_loop_def io_loop_def split: option.splits sum.splits prod.splits)
        from down [OF this] w3 clients Inl show ?thesis by blast
      next
        case r3: (Inr u3)
        let ?v3 = "w3\<lparr>tc_teardowns := ?creds @ ?res\<rparr>"
        obtain r4 w4 where res: "st_resource_setup st ?v3 = Some (r4, w4)"
          using run skip Inr w1 creds r2 clients r3 w3 by (cases "st_resource_setup st ?v3") auto
        have w4: "tc_teardowns w4 = ?creds @ ?res" using kept(4) [OF res] by simp
        obtain e4 where r4: "r4 = Inl e4"
          using run skip Inr w1 creds r2 clients r3 w3 res by (cases r4) auto
        then have "bnd_loop (tear_down_class st (Some e4)) (\<lambda>_. io_loop (throw e4)) w4 = Some (Inl e, w')"
          using run skip Inr w1 creds r2 clients r3 w3 res by (simp add: bnd_loop_def io_loop_def split: option.splits sum.splits prod.splits)
        from down [OF this] w4 res r4 show ?thesis by auto
      qed
    qed
  qed
qed

theorem failed_setup_unwinds_witness:
  "\<exists>w' v es. set_up_class demo_stages demo_class_world = Some (Inl ValueErr, w')
     \<and> unwinds demo_stages (v\<lparr>tc_at_exit := False\<rparr>) es w'
     \<and> tc_teardowns v = [(''credentials'', ClearIsolatedCreds), (''resources'', ResourceCleanup)]"
proof -
  have ends: "run_teardown demo_stages t v \<noteq> None" for t v
    by (simp add: run_teardown_def demo_stages_def io_loop_def split: teardown.splits)
  have ret: "st_skip_checks demo_stages v = Some (Inr (), v)" "st_setup_credentials demo_stages v = Some (Inr (), v)"
    "st_setup_clients demo_stages v = Some (Inr (), v)" "st_resource_setup demo_stages v = Some (Inl ValueErr, v)" for v
    by (simp_all add: demo_stages_def io_loop_def)
  let ?v = "demo_class_world\<lparr>tc_teardowns := [(''credentials'', ClearIsolatedCreds), (''resources'', ResourceCleanup)]\<rparr>"
  obtain es v' where "unwinds demo_stages (?v\<lparr>tc_at_exit := False\<rparr>) es v'"
    using unwinds_total [OF demo_stages_kept ends] by blast
  from teardown_loop_unwinds [OF this, of "Some ValueErr"]
  have "set_up_class demo_stages demo_class_world = Some (Inl ValueErr, v')"
    by (simp add: set_up_class_def ret bnd_loop_def io_loop_def push_teardown_def catch_loop_def tear_down_class_def
        demo_class_world_def)
  with failed_setup_unwinds [OF demo_stages_kept ends this] show ?thesis by (auto simp: ret)
qed

section \<open>Calling until true\<close>

interpretation calling: bounded_loop "call_round func sleep_for timeout"
    "\<lambda>t w. 1 \<le> sleep_for \<and> time_mono func \<and> t \<le> now w" "\<lambda>t w. nat (timeout - t)"
  for func :: "(('r, 'x) world_scheme, bool) io" and sleep_for timeout :: int
proof
  fix t t' :: int and w w' :: "('r, 'x) world_scheme"
  assume inv: "1 \<le> sleep_for \<and> time_mono func \<and> t \<le> now w"
    and go: "call_round func sleep_for timeout t w = (Inr (Inl t'), w')"
  have "t < timeout" using go by (auto simp: call_round_def split: if_splits)
  moreover obtain b w1 w2 where "func w = (Inr b, w1)" "sleep sleep_for w1 = (Inr (), w2)" "t' = now w2" "w' = w2"
    using go by (auto simp: call_round_def split: if_splits elim!: bnd_InrE)
  moreover from this inv have "now w \<le> now w1" by (auto dest: time_monoD)
  ultimately show "1 \<le> sleep_for \<and> time_mono func \<and> t' \<le> now w'" "nat (timeout - t') < nat (timeout - t)"
    using inv by (auto simp: sleep_def split: if_splits)
qed

text \<open>
  (call_until_true_ends): with a pause of at least a second between the calls, \<open>call_until_true\<close> returns or
  raises what the function raised. It returns True only after a call that returned True, and False only when
  the time is over; with no time at all it does not call the function.
\<close>

theorem call_until_true_ends:
  assumes "1 \<le> sleep_for" "time_mono func"
  shows "\<exists>r w'. call_until_true func duration sleep_for w = Some (r, w')
    \<and> (case r of
         Inr True \<Rightarrow> \<exists>v. func v = (Inr True, w')
       | Inr False \<Rightarrow> now w + duration * 1000000 \<le> now w'
       | Inl e \<Rightarrow> \<exists>v. func v = (Inl e, w'))
    \<and> (duration \<le> 0 \<longrightarrow> r = Inr False \<and> w' = w)"
proof -
  let ?t = "now w + duration * 1000000"
  from calling.exit_round [of sleep_for func "now w" w ?t] assms obtain s1 w1 r w' where
    last: "s1 \<le> now w1" "call_until_true func duration sleep_for w = Some (r, w')"
    "call_round func sleep_for ?t s1 w1 = (Inl (projl r), w') \<and> isl r
       \<or> call_round func sleep_for ?t s1 w1 = (Inr (Inr (projr r)), w') \<and> \<not> isl r"
    unfolding call_until_true_def by blast
  have nap: "\<exists>v'. sleep sleep_for v = (Inr (), v')" for v :: "('a, 'b) world_scheme"
    using assms(1) by (simp add: sleep_def)
  have "duration \<le> 0 \<longrightarrow> r = Inr False \<and> w' = w"
    using last(2) by (auto simp: call_until_true_def loop_io.simps call_round_def)
  moreover have "case r of Inr True \<Rightarrow> \<exists>v. func v = (Inr True, w') | Inr False \<Rightarrow> ?t \<le> now w'
      | Inl e \<Rightarrow> \<exists>v. func v = (Inl e, w')"
  proof (cases r)
    case (Inl e)
    then have "call_round func sleep_for ?t s1 w1 = (Inl e, w')" using last(3) by simp
    then have "func w1 = (Inl e, w')"
      using nap by (auto simp: call_round_def split: if_splits elim!: bnd_InlE) (metis Pair_inject sum.distinct(1))
    with Inl show ?thesis by auto
  next
    case (Inr b)
    then have "call_round func sleep_for ?t s1 w1 = (Inr (Inr b), w')" using last(3) by simp
    with Inr last(1) show ?thesis
      by (cases b) (auto simp: call_round_def split: if_splits elim!: bnd_InrE)
  qed
  ultimately show ?thesis using last(2) by blast
qed

theorem call_until_true_ends_witness:
  "\<exists>w'. call_until_true (ret False) 3 2 demo_class_world = Some (Inr False, w') \<and> 3000000 \<le> now w'"
proof -
  from call_until_true_ends [of 2 "ret False" 3 demo_class_world] obtain r w' where
    "call_until_true (ret False) 3 2 demo_class_world = Some (r, w')"
    "case r of Inr True \<Rightarrow> \<exists>v. ret False v = (Inr True, w') | Inr False \<Rightarrow> now demo_class_world + 3 * 1000000 \<le> now w'
       | Inl e \<Rightarrow> \<exists>v. ret False v = (Inl e, w')"
    by (auto intro: time_mono_ret)
  then show ?thesis by (auto simp: demo_class_world_def split: sum.splits bool.splits)
qed

section \<open>Negative tests\<close>

text \<open>
  (negative_test_accepts): a negative test passes only when the service answered the request of its scenario
  with a client error other than 413, and with the code that is expected when there is one.
\<close>

theorem negative_test_accepts:
  assumes "execute env fmt is_admin admin_client client scenario registered description w = (Inr (), w')"
  shows "\<exists>method url expected template body resources filled rq w1 a.
    dget description ''http-method'' = Some (PStr method) \<and> dget description ''url'' = Some (PStr url)
    \<and> scenario_request env scenario (field_or description ''json-schema'' PNone)
        (field_or description ''default_result_code'' PNone) url method = Inr (expected, template, body)
    \<and> fmt template resources = Inr filled
    \<and> send_request rq method filled body w1 = (Inr a, w')
    \<and> 400 \<le> rs_status (fst a) \<and> rs_status (fst a) < 500 \<and> rs_status (fst a) \<noteq> 413
    \<and> (expected = PNone \<or> expected = PInt (rs_status (fst a)))"
proof -
  obtain meth w2 where m: "lift (bindE (getitem (PDict description) ''name'') (\<lambda>_.
      bindE (getitem (PDict description) ''http-method'') (as_str TypeErr))) w = (Inr meth, w2)"
    and r1: "bnd (lift (bindE (getitem (PDict description) ''url'') (as_str TypeErr))) (\<lambda>url.
     bnd (lift (bindE (py_iter (field_or description ''resources'' (PList [])))
                  (mapE (get_resource scenario registered)))) (\<lambda>resources.
     bnd (lift (scenario_request env scenario (field_or description ''json-schema'' PNone)
                  (field_or description ''default_result_code'' PNone) url meth)) (\<lambda>(expected, template, body).
     bnd (negative_client is_admin admin_client client description) (\<lambda>rq.
     bnd (lift (fmt template resources)) (\<lambda>filled.
     bnd (send_request rq meth filled body) (\<lambda>a.
       lift (check_negative_response expected (rs_status (fst a))))))))) w2 = (Inr (), w')"
    using assms unfolding execute_def by (rule bnd_InrE) (rule that)
  from r1 obtain url w3 where u: "lift (bindE (getitem (PDict description) ''url'') (as_str TypeErr)) w2 = (Inr url, w3)"
    and r2: "bnd (lift (bindE (py_iter (field_or description ''resources'' (PList [])))
                  (mapE (get_resource scenario registered)))) (\<lambda>resources.
     bnd (lift (scenario_request env scenario (field_or description ''json-schema'' PNone)
                  (field_or description ''default_result_code'' PNone) url meth)) (\<lambda>(expected, template, body).
     bnd (negative_client is_admin admin_client client description) (\<lambda>rq.
     bnd (lift (fmt template resources)) (\<lambda>filled.
     bnd (send_request rq meth filled body) (\<lambda>a.
       lift (check_negative_response expected (rs_status (fst a)))))))) w3 = (Inr (), w')"
    by (rule bnd_InrE) (rule that)
  from r2 obtain resources expected template body rq filled a w4 where
    "scenario_request env scenario (field_or description ''json-schema'' PNone)
       (field_or description ''default_result_code'' PNone) url meth = Inr (expected, template, body)"
    "fmt template resources = Inr filled" "send_request rq meth filled body w4 = (Inr a, w')"
    "check_negative_response expected (rs_status (fst a)) = Inr ()"
    by (auto elim!: bnd_InrE)
  moreover have "dget description ''http-method'' = Some (PStr meth)" "dget description ''url'' = Some (PStr url)"
    using m u by (auto split: option.splits elim!: as_str.elims)
  moreover from calculation(4) have "400 \<le> rs_status (fst a) \<and> rs_status (fst a) < 500 \<and> rs_status (fst a) \<noteq> 413
      \<and> (expected = PNone \<or> expected = PInt (rs_status (fst a)))"
    by (auto simp: check_negative_response_def split: if_splits)
  ultimately show ?thesis by blast
qed

definition demo_description :: "(string, py) dict" where
  "demo_description = [(''name'', PStr ''show-flavor''), (''http-method'', PStr ''GET''), (''url'', PStr ''flavors/%s''),
     (''resources'', PList [PStr ''flavor''])]"

theorem negative_test_accepts_witness:
  "\<exists>filled. 400 \<le> (404 :: int) \<and> execute (demo_env []) (\<lambda>t rs. Inr ''flavors/0'') (ret False) (throw AttrErr)
     (\<lambda>m u x h b. ret (\<lparr>rs_status = 404, rs_headers = []\<rparr>, [])) (InvalidResource ''flavor'' ''0'' PNone) []
     demo_description demo_class_world = (Inr (), demo_class_world) \<and> filled = ''flavors/0''"
proof -
  have run: "execute (demo_env []) (\<lambda>t rs. Inr ''flavors/0'') (ret False) (throw AttrErr)
     (\<lambda>m u x h b. ret (\<lparr>rs_status = 404, rs_headers = []\<rparr>, [])) (InvalidResource ''flavor'' ''0'' PNone) []
     demo_description demo_class_world = (Inr (), demo_class_world)"
    by (simp add: execute_def demo_description_def bnd_apply field_or_def get_resource_def scenario_request_def
        http_arguments_def negative_client_def send_request_def http_get_def check_negative_response_def)
  from negative_test_accepts [OF run] run show ?thesis by auto
qed

text \<open>
  (resource_expectation_ignored): the expected result that a description gives for a resource has no influence on
  the test of that resource.
\<close>

theorem resource_expectation_ignored:
  "execute env fmt is_admin admin_client client (InvalidResource r invalid e) registered description
   = execute env fmt is_admin admin_client client (InvalidResource r invalid e') registered description"
proof -
  have "get_resource (InvalidResource r invalid e) = get_resource (InvalidResource r invalid e')"
    by (intro ext) (simp only: get_resource_def neg_case.case)
  moreover have "scenario_request env (InvalidResource r invalid e) = scenario_request env (InvalidResource r invalid e')"
    by (intro ext) (simp only: scenario_request_def neg_case.case)
  ultimately show ?thesis unfolding execute_def by simp
qed

end
