(* ===== verification/Config.thy ===== *)
theory Config
  imports World
begin

text \<open>
  The declarations of options of \<open>automation/config.py\<close>, their registration, and the two objects the tests
  read them through. A group is its name; the help texts and titles are left out. \<open>oslo.config\<close>,
  \<open>oslo_log\<close> and the file system are the parameter of type \<open>oslo\<close>.
\<close>

section \<open>Options\<close>

datatype opt_type = StrOpt | BoolOpt | IntOpt | ListOpt | DictOpt

record opt =
  op_type :: opt_type
  op_name :: string
  op_default :: py
  op_choices :: "py list option"
  op_secret :: bool
  op_deprecated_name :: "string option"
  op_deprecated :: "(string \<times> string) list"

definition an_opt :: "opt_type \<Rightarrow> string \<Rightarrow> py \<Rightarrow> opt" where
  "an_opt ty name v =
     \<lparr>op_type = ty, op_name = name, op_default = v, op_choices = None, op_secret = False,
      op_deprecated_name = None, op_deprecated = []\<rparr>"

definition endpoint_types :: "py list" where
  "endpoint_types = map PStr [''public'', ''admin'', ''internal'', ''publicURL'', ''adminURL'', ''internalURL'']"

text \<open>A double quote.\<close>

definition dq :: string where
  "dq = [CHR 0x22]"

section \<open>The declarations\<close>

definition auth_group :: string where
  "auth_group = ''auth''"

definition AuthGroup :: "opt list" where
  "AuthGroup =
    [an_opt StrOpt ''test_accounts_file'' PNone,
     (an_opt BoolOpt ''allow_tenant_isolation'' (PBool True))
       \<lparr>op_deprecated := [(''allow_tenant_isolation'', ''compute''),
           (''allow_tenant_isolation'', ''orchestration'')]\<rparr>,
     an_opt ListOpt ''tempest_roles'' (PList []),
     (an_opt StrOpt ''default_credentials_domain_name'' (PStr ''Default''))
       \<lparr>op_deprecated := [(''tenant_isolation_domain_name'', ''auth'')]\<rparr>,
     an_opt BoolOpt ''create_isolated_networks'' (PBool True)]"

definition identity_group :: string where
  "identity_group = ''identity''"

definition IdentityGroup :: "opt list" where
  "IdentityGroup =
    [an_opt StrOpt ''catalog_type'' (PStr ''identity''),
     an_opt BoolOpt ''disable_ssl_certificate_validation'' (PBool False),
     an_opt StrOpt ''ca_certificates_file'' PNone,
     an_opt StrOpt ''uri'' PNone,
     an_opt StrOpt ''uri_v3'' PNone,
     an_opt StrOpt ''auth_version'' (PStr ''v2''),
     an_opt StrOpt ''region'' (PStr ''RegionOne''),
     (an_opt StrOpt ''v2_admin_endpoint_type'' (PStr ''adminURL''))
       \<lparr>op_choices := Some endpoint_types, op_deprecated := [(''endpoint_type'', ''identity'')]\<rparr>,
     (an_opt StrOpt ''v2_public_endpoint_type'' (PStr ''publicURL''))
       \<lparr>op_choices := Some endpoint_types, op_deprecated := [(''endpoint_type'', ''identity'')]\<rparr>,
     (an_opt StrOpt ''v3_endpoint_type'' (PStr ''adminURL''))
       \<lparr>op_choices := Some endpoint_types, op_deprecated := [(''endpoint_type'', ''identity'')]\<rparr>,
     an_opt StrOpt ''username'' PNone,
     an_opt StrOpt ''tenant_name'' PNone,
     an_opt StrOpt ''admin_role'' (PStr ''admin''),
     (an_opt StrOpt ''password'' PNone)\<lparr>op_secret := True\<rparr>,
     an_opt StrOpt ''domain_name'' PNone,
     an_opt StrOpt ''alt_username'' PNone,
     an_opt StrOpt ''alt_tenant_name'' PNone,
     (an_opt StrOpt ''alt_password'' PNone)\<lparr>op_secret := True\<rparr>,
     an_opt StrOpt ''alt_domain_name'' PNone,
     an_opt StrOpt ''admin_username'' PNone,
     an_opt StrOpt ''admin_tenant_name'' PNone,
     (an_opt StrOpt ''admin_password'' PNone)\<lparr>op_secret := True\<rparr>,
     an_opt StrOpt ''admin_domain_name'' PNone,
     an_opt StrOpt ''default_domain_id'' (PStr ''default'')]"

definition identity_feature_group :: string where
  "identity_feature_group = ''identity-feature-enabled''"

definition IdentityFeatureGroup :: "opt list" where
  "IdentityFeatureGroup =
    [an_opt BoolOpt ''trust'' (PBool True),
     an_opt BoolOpt ''api_v2'' (PBool True),
     an_opt BoolOpt ''api_v3'' (PBool True)]"

definition compute_group :: string where
  "compute_group = ''compute''"

definition ComputeGroup :: "opt list" where
  "ComputeGroup =
    [an_opt StrOpt ''admin_password'' (PStr ''kingsoft!@#123''),
     an_opt StrOpt ''image_ref'' PNone,
     an_opt StrOpt ''image_ref_alt'' PNone,
     an_opt StrOpt ''image_name'' (PStr ''test_image''),
     an_opt StrOpt ''flavor_ref'' (PStr ''1''),
     an_opt StrOpt ''flavor_ref_alt'' (PStr ''2''),
     an_opt StrOpt ''flavor_name'' (PStr ''m1.small''),
     an_opt StrOpt ''flavor_name_alt'' (PStr ''m1.medium''),
     an_opt StrOpt ''image_ssh_user'' (PStr ''root''),
     an_opt StrOpt ''image_ssh_password'' (PStr ''password''),
     an_opt StrOpt ''image_alt_ssh_user'' (PStr ''root''),
     an_opt IntOpt ''build_interval'' (PInt 60),
     an_opt IntOpt ''build_timeout'' (PInt 600),
     an_opt IntOpt ''check_delete_interval'' (PInt 30),
     an_opt IntOpt ''check_delete_timeout'' (PInt 300),
     an_opt StrOpt ''ssh_shell_prologue'' (PStr ''set -eu -o pipefail; PATH=$$PATH:/sbin;''),
     an_opt StrOpt ''ssh_auth_method'' (PStr ''keypair''),
     an_opt StrOpt ''ssh_connect_method'' (PStr ''floating''),
     an_opt StrOpt ''ssh_user'' (PStr ''root''),
     an_opt IntOpt ''ping_timeout'' (PInt 120),
     an_opt IntOpt ''ping_size'' (PInt 56),
     an_opt IntOpt ''ping_count'' (PInt 1),
     an_opt IntOpt ''ready_wait'' (PInt 0),
     an_opt StrOpt ''fixed_network_name'' (PStr ''test_network''),
     an_opt StrOpt ''network_for_ssh'' (PStr ''public''),
     an_opt BoolOpt ''use_floatingip_for_ssh'' (PBool True),
     an_opt StrOpt ''catalog_type'' (PStr ''compute''),
     an_opt StrOpt ''region'' (PStr ''RegionOne''),
     (an_opt StrOpt ''endpoint_type'' (PStr ''publicURL''))\<lparr>op_choices := Some endpoint_types\<rparr>,
     an_opt StrOpt ''volume_device_name'' (PStr ''vdb''),
     an_opt IntOpt ''shelved_offload_time'' (PInt 0),
     an_opt StrOpt ''floating_ip_range'' (PStr ''10.0.0.0/29''),
     an_opt StrOpt ''zabbix_server'' (PStr ''10.160.57.98''),
     an_opt StrOpt ''zabbix_user'' (PStr ''admin''),
     an_opt StrOpt ''zabbix_password'' (PStr ''zabbix''),
     an_opt StrOpt ''security_group'' (PStr ''test_sg'')]"

definition compute_features_group :: string where
  "compute_features_group = ''compute-feature-enabled''"

definition ComputeFeaturesGroup :: "opt list" where
  "ComputeFeaturesGroup =
    [an_opt BoolOpt ''disk_config'' (PBool True),
     an_opt ListOpt ''api_extensions'' (PList [PStr ''all'']),
     an_opt BoolOpt ''change_password'' (PBool False),
     an_opt BoolOpt ''console_output'' (PBool True),
     an_opt BoolOpt ''resize'' (PBool False),
     an_opt BoolOpt ''pause'' (PBool True),
     an_opt BoolOpt ''shelve'' (PBool True),
     an_opt BoolOpt ''suspend'' (PBool True),
     an_opt BoolOpt ''live_migration'' (PBool True),
     an_opt BoolOpt ''metadata_service'' (PBool True),
     an_opt BoolOpt ''block_migration_for_live_migration'' (PBool False),
     an_opt BoolOpt ''block_migrate_cinder_iscsi'' (PBool False),
     an_opt BoolOpt ''live_migrate_paused_instances'' (PBool False),
     an_opt BoolOpt ''vnc_console'' (PBool False),
     an_opt BoolOpt ''spice_console'' (PBool False),
     an_opt BoolOpt ''rdp_console'' (PBool False),
     an_opt BoolOpt ''rescue'' (PBool True),
     an_opt BoolOpt ''enable_instance_password'' (PBool True),
     an_opt BoolOpt ''interface_attach'' (PBool True),
     an_opt BoolOpt ''snapshot'' (PBool True),
     an_opt BoolOpt ''ec2_api'' (PBool True),
     an_opt BoolOpt ''preserve_ports'' (PBool False),
     an_opt BoolOpt ''attach_encrypted_volume'' (PBool True),
     an_opt BoolOpt ''allow_duplicate_networks'' (PBool False)]"

definition image_group :: string where
  "image_group = ''image''"

definition ImageGroup :: "opt list" where
  "ImageGroup =
    [an_opt StrOpt ''catalog_type'' (PStr ''image''),
     an_opt StrOpt ''region'' (PStr ''''),
     (an_opt StrOpt ''endpoint_type'' (PStr ''publicURL''))\<lparr>op_choices := Some endpoint_types\<rparr>,
     an_opt StrOpt ''http_image'' (PStr ''http://download.cirros-cloud.net/0.3.1/cirros-0.3.1-x86_64-uec.tar.gz''),
     an_opt IntOpt ''build_timeout'' (PInt 300),
     an_opt IntOpt ''build_interval'' (PInt 30)]"

definition image_feature_group :: string where
  "image_feature_group = ''image-feature-enabled''"

definition ImageFeaturesGroup :: "opt list" where
  "ImageFeaturesGroup =
    [an_opt BoolOpt ''api_v2'' (PBool True),
     an_opt BoolOpt ''api_v1'' (PBool True),
     an_opt BoolOpt ''deactivate_image'' (PBool False)]"

definition network_group :: string where
  "network_group = ''network''"

definition NetworkGroup :: "opt list" where
  "NetworkGroup =
    [an_opt StrOpt ''catalog_type'' (PStr ''network''),
     an_opt StrOpt ''region'' (PStr ''''),
     (an_opt StrOpt ''endpoint_type'' (PStr ''publicURL''))\<lparr>op_choices := Some endpoint_types\<rparr>,
     an_opt StrOpt ''tenant_network_cidr'' (PStr ''10.100.0.0/16''),
     an_opt IntOpt ''tenant_network_mask_bits'' (PInt 28),
     an_opt StrOpt ''tenant_network_v6_cidr'' (PStr ''2003::/48''),
     an_opt IntOpt ''tenant_network_v6_mask_bits'' (PInt 64),
     an_opt BoolOpt ''tenant_networks_reachable'' (PBool False),
     an_opt StrOpt ''tenant_network_name'' (PStr ''test_network''),
     an_opt StrOpt ''tenant_subnet_name'' (PStr ''test_subnet''),
     an_opt StrOpt ''subnet_cidr'' (PStr ''192.168.2.0/24''),
     an_opt IntOpt ''subnet_ip_version'' (PInt 4),
     an_opt StrOpt ''router_name'' (PStr ''test_router''),
     an_opt StrOpt ''firewall_name'' (PStr ''test_firewall''),
     an_opt StrOpt ''external_network'' (PStr ''external''),
     an_opt StrOpt ''sec_group_name'' (PStr ''test_security_group''),
     an_opt StrOpt ''public_network_id'' (PStr ''''),
     an_opt StrOpt ''floating_network_name'' PNone,
     an_opt StrOpt ''public_router_id'' (PStr ''''),
     an_opt IntOpt ''build_timeout'' (PInt 300),
     an_opt IntOpt ''build_interval'' (PInt 30),
     an_opt ListOpt ''dns_servers'' (PList [PStr ''8.8.8.8'', PStr ''8.8.4.4'']),
     (an_opt StrOpt ''port_vnic_type'' PNone)
       \<lparr>op_choices := Some [PNone, PStr ''normal'', PStr ''direct'', PStr ''macvtap'']\<rparr>]"

definition network_feature_group :: string where
  "network_feature_group = ''network-feature-enabled''"

definition NetworkFeaturesGroup :: "opt list" where
  "NetworkFeaturesGroup =
    [an_opt BoolOpt ''ipv6'' (PBool True),
     an_opt ListOpt ''api_extensions'' (PList [PStr ''all'']),
     an_opt BoolOpt ''ipv6_subnet_attributes'' (PBool False),
     an_opt BoolOpt ''port_admin_state_change'' (PBool True)]"

definition messaging_group :: string where
  "messaging_group = ''messaging''"

definition MessagingGroup :: "opt list" where
  "MessagingGroup =
    [an_opt StrOpt ''catalog_type'' (PStr ''messaging''),
     an_opt IntOpt ''max_queues_per_page'' (PInt 20),
     an_opt IntOpt ''max_queue_metadata'' (PInt 65536),
     an_opt IntOpt ''max_messages_per_page'' (PInt 20),
     an_opt IntOpt ''max_message_size'' (PInt 262144),
     an_opt IntOpt ''max_messages_per_claim'' (PInt 20),
     an_opt IntOpt ''max_message_ttl'' (PInt 1209600),
     an_opt IntOpt ''max_claim_ttl'' (PInt 43200),
     an_opt IntOpt ''max_claim_grace'' (PInt 43200)]"

definition validation_group :: string where
  "validation_group = ''validation''"

definition ValidationGroup :: "opt list" where
  "ValidationGroup =
    [(an_opt BoolOpt ''run_validation'' (PBool False))\<lparr>op_deprecated := [(''run_ssh'', ''compute'')]\<rparr>,
     (an_opt StrOpt ''connect_method'' (PStr ''floating''))
       \<lparr>op_choices := Some [PStr ''fixed'', PStr ''floating'']\<rparr>,
     (an_opt StrOpt ''auth_method'' (PStr ''keypair''))\<lparr>op_choices := Some [PStr ''keypair'']\<rparr>,
     (an_opt IntOpt ''ip_version_for_ssh'' (PInt 4))
       \<lparr>op_deprecated := [(''ip_version_for_ssh'', ''compute'')]\<rparr>,
     an_opt IntOpt ''ping_timeout'' (PInt 120),
     (an_opt IntOpt ''connect_timeout'' (PInt 60))
       \<lparr>op_deprecated := [(''ssh_channel_timeout'', ''compute'')]\<rparr>,
     (an_opt IntOpt ''ssh_timeout'' (PInt 300))\<lparr>op_deprecated := [(''ssh_timeout'', ''compute'')]\<rparr>]"

definition volume_group :: string where
  "volume_group = ''volume''"

definition VolumeGroup :: "opt list" where
  "VolumeGroup =
    [an_opt IntOpt ''build_interval'' (PInt 60),
     an_opt IntOpt ''build_timeout'' (PInt 600),
     an_opt IntOpt ''check_delete_interval'' (PInt 30),
     an_opt IntOpt ''check_delete_timeout'' (PInt 300),
     an_opt StrOpt ''catalog_type'' (PStr ''volume''),
     an_opt StrOpt ''region'' (PStr ''''),
     (an_opt StrOpt ''endpoint_type'' (PStr ''publicURL''))\<lparr>op_choices := Some endpoint_types\<rparr>,
     an_opt StrOpt ''backend1_name'' (PStr ''BACKEND_1''),
     an_opt StrOpt ''backend2_name'' (PStr ''BACKEND_2''),
     an_opt StrOpt ''storage_protocol'' (PStr ''iSCSI''),
     an_opt StrOpt ''vendor_name'' (PStr ''Open Source''),
     an_opt StrOpt ''disk_format'' (PStr ''raw''),
     an_opt IntOpt ''volume_size'' (PInt 1),
     an_opt IntOpt ''extend_size'' (PInt 2)]"

definition volume_feature_group :: string where
  "volume_feature_group = ''volume-feature-enabled''"

definition VolumeFeaturesGroup :: "opt list" where
  "VolumeFeaturesGroup =
    [an_opt BoolOpt ''multi_backend'' (PBool False),
     an_opt BoolOpt ''backup'' (PBool True),
     an_opt BoolOpt ''snapshot'' (PBool True),
     an_opt ListOpt ''api_extensions'' (PList [PStr ''all'']),
     an_opt BoolOpt ''api_v1'' (PBool True),
     an_opt BoolOpt ''api_v2'' (PBool True),
     an_opt BoolOpt ''bootable'' (PBool False)]"

definition object_storage_group :: string where
  "object_storage_group = ''object-storage''"

definition ObjectStoreGroup :: "opt list" where
  "ObjectStoreGroup =
    [an_opt StrOpt ''catalog_type'' (PStr ''object-store''),
     an_opt StrOpt ''region'' (PStr ''''),
     (an_opt StrOpt ''endpoint_type'' (PStr ''publicURL''))\<lparr>op_choices := Some endpoint_types\<rparr>,
     an_opt IntOpt ''container_sync_timeout'' (PInt 600),
     an_opt IntOpt ''container_sync_interval'' (PInt 60),
     an_opt StrOpt ''operator_role'' (PStr ''Member''),
     an_opt StrOpt ''reseller_admin_role'' (PStr ''ResellerAdmin''),
     an_opt StrOpt ''realm_name'' (PStr ''realm1''),
     an_opt StrOpt ''cluster_name'' (PStr ''name1'')]"

definition object_storage_feature_group :: string where
  "object_storage_feature_group = ''object-storage-feature-enabled''"

definition ObjectStoreFeaturesGroup :: "opt list" where
  "ObjectStoreFeaturesGroup =
    [an_opt ListOpt ''discoverable_apis'' (PList [PStr ''all'']),
     an_opt BoolOpt ''container_sync'' (PBool True),
     an_opt BoolOpt ''object_versioning'' (PBool True),
     an_opt BoolOpt ''discoverability'' (PBool True)]"

definition database_group :: string where
  "database_group = ''database''"

definition DatabaseGroup :: "opt list" where
  "DatabaseGroup =
    [an_opt StrOpt ''catalog_type'' (PStr ''database''),
     an_opt StrOpt ''db_flavor_ref'' (PStr ''1''),
     an_opt StrOpt ''db_current_version'' (PStr ''v1.0'')]"

definition orchestration_group :: string where
  "orchestration_group = ''orchestration''"

definition OrchestrationGroup :: "opt list" where
  "OrchestrationGroup =
    [an_opt StrOpt ''catalog_type'' (PStr ''orchestration''),
     an_opt StrOpt ''region'' (PStr ''''),
     (an_opt StrOpt ''endpoint_type'' (PStr ''publicURL''))\<lparr>op_choices := Some endpoint_types\<rparr>,
     an_opt StrOpt ''stack_owner_role'' (PStr ''heat_stack_owner''),
     an_opt IntOpt ''build_interval'' (PInt 60),
     an_opt IntOpt ''build_timeout'' (PInt 1200),
     an_opt StrOpt ''instance_type'' (PStr ''m1.micro''),
     an_opt StrOpt ''keypair_name'' PNone,
     an_opt IntOpt ''max_template_size'' (PInt 524288),
     an_opt IntOpt ''max_resources_per_stack'' (PInt 1000)]"

definition telemetry_group :: string where
  "telemetry_group = ''telemetry''"

definition TelemetryGroup :: "opt list" where
  "TelemetryGroup =
    [an_opt StrOpt ''catalog_type'' (PStr ''metering''),
     (an_opt StrOpt ''endpoint_type'' (PStr ''publicURL''))\<lparr>op_choices := Some endpoint_types\<rparr>,
     an_opt BoolOpt ''too_slow_to_test'' (PBool True)]"

definition telemetry_feature_group :: string where
  "telemetry_feature_group = ''telemetry-feature-enabled''"

definition TelemetryFeaturesGroup :: "opt list" where
  "TelemetryFeaturesGroup =
    [an_opt BoolOpt ''events'' (PBool False)]"

definition dashboard_group :: string where
  "dashboard_group = ''dashboard''"

definition DashboardGroup :: "opt list" where
  "DashboardGroup =
    [an_opt StrOpt ''dashboard_url'' (PStr ''http://localhost/''),
     an_opt StrOpt ''login_url'' (PStr ''http://localhost/auth/login/'')]"

definition data_processing_group :: string where
  "data_processing_group = ''data_processing''"

definition DataProcessingGroup :: "opt list" where
  "DataProcessingGroup =
    [an_opt StrOpt ''catalog_type'' (PStr ''data_processing''),
     (an_opt StrOpt ''endpoint_type'' (PStr ''publicURL''))\<lparr>op_choices := Some endpoint_types\<rparr>]"

definition data_processing_feature_group :: string where
  "data_processing_feature_group = ''data_processing-feature-enabled''"

definition DataProcessingFeaturesGroup :: "opt list" where
  "DataProcessingFeaturesGroup =
    [an_opt ListOpt ''plugins'' (PList [PStr ''vanilla'', PStr ''hdp''])]"

definition boto_group :: string where
  "boto_group = ''boto''"

definition BotoGroup :: "opt list" where
  "BotoGroup =
    [an_opt StrOpt ''ec2_url'' (PStr ''http://localhost:8773/services/Cloud''),
     an_opt StrOpt ''s3_url'' (PStr ''http://localhost:8080''),
     (an_opt StrOpt ''aws_secret'' PNone)\<lparr>op_secret := True\<rparr>,
     an_opt StrOpt ''aws_access'' PNone,
     an_opt StrOpt ''aws_zone'' (PStr ''nova''),
     an_opt StrOpt ''s3_materials_path'' (PStr ''/opt/stack/devstack/files/images/s3-materials/cirros-0.3.0''),
     an_opt StrOpt ''ari_manifest'' (PStr ''cirros-0.3.0-x86_64-initrd.manifest.xml''),
     an_opt StrOpt ''ami_manifest'' (PStr ''cirros-0.3.0-x86_64-blank.img.manifest.xml''),
     an_opt StrOpt ''aki_manifest'' (PStr ''cirros-0.3.0-x86_64-vmlinuz.manifest.xml''),
     an_opt StrOpt ''instance_type'' (PStr ''m1.tiny''),
     an_opt IntOpt ''http_socket_timeout'' (PInt 3),
     an_opt IntOpt ''num_retries'' (PInt 1),
     an_opt IntOpt ''build_timeout'' (PInt 60),
     an_opt IntOpt ''build_interval'' (PInt 6)]"

definition stress_group :: string where
  "stress_group = ''stress''"

definition StressGroup :: "opt list" where
  "StressGroup =
    [an_opt StrOpt ''nova_logdir'' PNone,
     an_opt IntOpt ''max_instances'' (PInt 16),
     an_opt StrOpt ''controller'' PNone,
     an_opt StrOpt ''target_controller'' PNone,
     an_opt StrOpt ''target_ssh_user'' PNone,
     an_opt StrOpt ''target_private_key_path'' PNone,
     an_opt StrOpt ''target_logfiles'' PNone,
     an_opt IntOpt ''log_check_interval'' (PInt 60),
     an_opt IntOpt ''default_thread_number_per_action'' (PInt 4),
     an_opt BoolOpt ''leave_dirty_stack'' (PBool False),
     an_opt BoolOpt ''full_clean_stack'' (PBool False)]"

definition scenario_group :: string where
  "scenario_group = ''scenario''"

definition ScenarioGroup :: "opt list" where
  "ScenarioGroup =
    [an_opt StrOpt ''img_dir'' (PStr ''/opt/stack/new/devstack/files/images/cirros-0.3.1-x86_64-uec''),
     (an_opt StrOpt ''img_file'' (PStr ''cirros-0.3.1-x86_64-disk.img''))
       \<lparr>op_deprecated_name := Some ''qcow2_img_file''\<rparr>,
     an_opt StrOpt ''img_disk_format'' (PStr ''qcow2''),
     an_opt StrOpt ''img_container_format'' (PStr ''bare''),
     an_opt DictOpt ''img_properties'' PNone,
     an_opt StrOpt ''ami_img_file'' (PStr ''cirros-0.3.1-x86_64-blank.img''),
     an_opt StrOpt ''ari_img_file'' (PStr ''cirros-0.3.1-x86_64-initrd''),
     an_opt StrOpt ''aki_img_file'' (PStr ''cirros-0.3.1-x86_64-vmlinuz''),
     an_opt StrOpt ''ssh_user'' (PStr ''cirros''),
     an_opt IntOpt ''large_ops_number'' (PInt 0),
     (an_opt StrOpt ''dhcp_client'' (PStr ''udhcpc''))
       \<lparr>op_choices := Some [PStr ''udhcpc'', PStr ''dhclient'']\<rparr>]"

definition service_available_group :: string where
  "service_available_group = ''service_available''"

definition ServiceAvailableGroup :: "opt list" where
  "ServiceAvailableGroup =
    [an_opt BoolOpt ''cinder'' (PBool True),
     an_opt BoolOpt ''neutron'' (PBool False),
     an_opt BoolOpt ''glance'' (PBool True),
     an_opt BoolOpt ''swift'' (PBool True),
     an_opt BoolOpt ''nova'' (PBool True),
     an_opt BoolOpt ''heat'' (PBool False),
     an_opt BoolOpt ''ceilometer'' (PBool True),
     an_opt BoolOpt ''horizon'' (PBool True),
     an_opt BoolOpt ''sahara'' (PBool False),
     an_opt BoolOpt ''ironic'' (PBool False),
     an_opt BoolOpt ''trove'' (PBool False),
     an_opt BoolOpt ''zaqar'' (PBool False)]"

definition debug_group :: string where
  "debug_group = ''debug''"

definition DebugGroup :: "opt list" where
  "DebugGroup =
    [an_opt StrOpt ''trace_requests'' (PStr '''')]"

definition input_scenario_group :: string where
  "input_scenario_group = ''input-scenario''"

definition InputScenarioGroup :: "opt list" where
  "InputScenarioGroup =
    [an_opt StrOpt ''image_regex'' (PStr ''^cirros-0.3.1-x86_64-uec$''),
     an_opt StrOpt ''flavor_regex'' (PStr ''^m1.nano$''),
     an_opt StrOpt ''non_ssh_image_regex'' (PStr ''^.*[Ww]in.*$''),
     an_opt StrOpt ''ssh_user_regex'' (PStr (''[['' @ dq @ ''^.*[Cc]irros.*$'' @ dq @ '', '' @ dq @ ''cirros'' @ dq @ '']]''))]"

definition baremetal_group :: string where
  "baremetal_group = ''baremetal''"

definition BaremetalGroup :: "opt list" where
  "BaremetalGroup =
    [an_opt StrOpt ''catalog_type'' (PStr ''baremetal''),
     an_opt BoolOpt ''driver_enabled'' (PBool False),
     an_opt StrOpt ''driver'' (PStr ''fake''),
     (an_opt StrOpt ''endpoint_type'' (PStr ''publicURL''))\<lparr>op_choices := Some endpoint_types\<rparr>,
     an_opt IntOpt ''active_timeout'' (PInt 300),
     an_opt IntOpt ''association_timeout'' (PInt 30),
     an_opt IntOpt ''power_timeout'' (PInt 60),
     an_opt IntOpt ''unprovision_timeout'' (PInt 300)]"

definition negative_group :: string where
  "negative_group = ''negative''"

definition NegativeGroup :: "opt list" where
  "NegativeGroup =
    [an_opt StrOpt ''test_generator'' (PStr ''tempest.common.generator.negative_generator.NegativeTestGenerator'')]"

definition DefaultGroup :: "opt list" where
  "DefaultGroup =
    [an_opt StrOpt ''resources_prefix'' (PStr ''tempest'')]"

definition all_opts :: "(string option \<times> opt list) list" where
  "all_opts =
    [(Some auth_group, AuthGroup),
     (Some compute_group, ComputeGroup),
     (Some compute_features_group, ComputeFeaturesGroup),
     (Some identity_group, IdentityGroup),
     (Some identity_feature_group, IdentityFeatureGroup),
     (Some image_group, ImageGroup),
     (Some image_feature_group, ImageFeaturesGroup),
     (Some network_group, NetworkGroup),
     (Some network_feature_group, NetworkFeaturesGroup),
     (Some messaging_group, MessagingGroup),
     (Some validation_group, ValidationGroup),
     (Some volume_group, VolumeGroup),
     (Some volume_feature_group, VolumeFeaturesGroup),
     (Some object_storage_group, ObjectStoreGroup),
     (Some object_storage_feature_group, ObjectStoreFeaturesGroup),
     (Some database_group, DatabaseGroup),
     (Some orchestration_group, OrchestrationGroup),
     (Some telemetry_group, TelemetryGroup),
     (Some telemetry_feature_group, TelemetryFeaturesGroup),
     (Some dashboard_group, DashboardGroup),
     (Some data_processing_group, DataProcessingGroup),
     (Some data_processing_feature_group, DataProcessingFeaturesGroup),
     (Some boto_group, BotoGroup),
     (Some stress_group, StressGroup),
     (Some scenario_group, ScenarioGroup),
     (Some service_available_group, ServiceAvailableGroup),
     (Some debug_group, DebugGroup),
     (Some baremetal_group, BaremetalGroup),
     (Some input_scenario_group, InputScenarioGroup),
     (Some negative_group, NegativeGroup),
     (None, DefaultGroup)]"

section \<open>Registration\<close>

record 'w oslo =
  oc_register_group :: "string \<Rightarrow> ('w, unit) io"
  oc_register_opt :: "opt \<Rightarrow> string option \<Rightarrow> ('w, unit) io"
  oc_group :: "string \<Rightarrow> ('w, unit) io"
  oc_option :: "string \<Rightarrow> string \<Rightarrow> ('w, py) io"
  oc_attribute :: "string \<Rightarrow> ('w, py) io"
  oc_set_default :: "string \<Rightarrow> py \<Rightarrow> string \<Rightarrow> ('w, unit) io"
  oc_load :: "string list option \<Rightarrow> ('w, unit) io"
  oc_log_options :: "('w, unit) io"
  oc_log_setup :: "('w, unit) io"
  oc_log_level :: "string \<Rightarrow> int \<Rightarrow> ('w, unit) io"
  oc_log_dir :: "('w, py) io"
  oc_environ :: "string \<Rightarrow> ('w, string option) io"
  oc_isfile :: "string \<Rightarrow> ('w, bool) io"
  oc_exists :: "string \<Rightarrow> ('w, bool) io"
  oc_mkdir :: "string \<Rightarrow> ('w, unit) io"

definition register_opt_group :: "'w oslo \<Rightarrow> string option \<Rightarrow> opt list \<Rightarrow> ('w, unit) io" where
  "register_opt_group oc opt_group options =
     bnd (case opt_group of None \<Rightarrow> ret () | Some g \<Rightarrow> oc_register_group oc g) (\<lambda>_.
       for_each options (\<lambda>opt. oc_register_opt oc opt opt_group))"

definition register_opts :: "'w oslo \<Rightarrow> ('w, unit) io" where
  "register_opts oc = for_each all_opts (\<lambda>(g, os). register_opt_group oc g os)"

definition list_opts :: "(string option \<times> opt list) list" where
  "list_opts = map (\<lambda>(g, os). (g, os)) all_opts"

section \<open>\<open>AutomationConfig\<close>\<close>

text \<open>The attributes that \<open>_set_attrs\<close> gives the object, each with the group it holds.\<close>

definition group_attributes :: "(string \<times> string) list" where
  "group_attributes =
    [(''auth'', ''auth''), (''compute'', ''compute''), (''compute_feature_enabled'', ''compute-feature-enabled''),
     (''identity'', ''identity''), (''identity_feature_enabled'', ''identity-feature-enabled''),
     (''image'', ''image''), (''image_feature_enabled'', ''image-feature-enabled''),
     (''network'', ''network''), (''network_feature_enabled'', ''network-feature-enabled''),
     (''validation'', ''validation''), (''volume'', ''volume''),
     (''volume_feature_enabled'', ''volume-feature-enabled''), (''object_storage'', ''object-storage''),
     (''object_storage_feature_enabled'', ''object-storage-feature-enabled''), (''database'', ''database''),
     (''orchestration'', ''orchestration''), (''messaging'', ''messaging''), (''telemetry'', ''telemetry''),
     (''telemetry_feature_enabled'', ''telemetry-feature-enabled''), (''dashboard'', ''dashboard''),
     (''data_processing'', ''data_processing''),
     (''data_processing_feature_enabled'', ''data_processing-feature-enabled''), (''boto'', ''boto''),
     (''stress'', ''stress''), (''scenario'', ''scenario''), (''service_available'', ''service_available''),
     (''debug'', ''debug''), (''baremetal'', ''baremetal''), (''input_scenario'', ''input-scenario''),
     (''negative'', ''negative'')]"

definition set_attrs :: "'w oslo \<Rightarrow> ('w, (string, string) dict) io" where
  "set_attrs oc =
     bnd (for_each group_attributes (\<lambda>(attr, g). oc_group oc g)) (\<lambda>_.
     bnd (oc_option oc ''auth'' ''default_credentials_domain_name'') (\<lambda>domain.
     bnd (oc_set_default oc ''domain_name'' domain ''identity'') (\<lambda>_.
     bnd (oc_option oc ''auth'' ''default_credentials_domain_name'') (\<lambda>alt_domain.
     bnd (oc_set_default oc ''alt_domain_name'' alt_domain ''identity'') (\<lambda>_.
       ret group_attributes)))))"

definition DEFAULT_CONFIG_FILE :: string where
  "DEFAULT_CONFIG_FILE = ''automation.conf''"

definition failsafe_path :: string where
  "failsafe_path = ''/etc/automation/'' @ DEFAULT_CONFIG_FILE"

text \<open>\<open>default_dir\<close> is the directory \<open>etc\<close> beside the package.\<close>

definition wanted_path :: "'w oslo \<Rightarrow> string \<Rightarrow> string option \<Rightarrow> ('w, string) io" where
  "wanted_path oc default_dir config_path =
     (if config_path \<noteq> None \<and> config_path \<noteq> Some [] then ret (the config_path)
      else bnd (oc_environ oc ''AUTOMATION_CONFIG_DIR'') (\<lambda>d.
           bnd (oc_environ oc ''AUTOMATION_CONFIG'') (\<lambda>f.
             ret (path_join (case d of None \<Rightarrow> default_dir | Some x \<Rightarrow> x)
                            (case f of None \<Rightarrow> DEFAULT_CONFIG_FILE | Some x \<Rightarrow> x)))))"

text \<open>\<open>os.path.exists\<close> of a value that is no string raises a TypeError.\<close>

definition ensure_log_dir :: "'w oslo \<Rightarrow> ('w, unit) io" where
  "ensure_log_dir oc =
     bnd (oc_log_dir oc) (\<lambda>d.
       (case d of
          PStr p \<Rightarrow> bnd (oc_exists oc p) (\<lambda>there. if there then ret () else oc_mkdir oc p)
        | _ \<Rightarrow> throw TypeErr))"

definition config_init :: "'w oslo \<Rightarrow> string \<Rightarrow> string option \<Rightarrow> ('w, (string, string) dict) io" where
  "config_init oc default_dir config_path =
     bnd (wanted_path oc default_dir config_path) (\<lambda>wanted.
     bnd (oc_isfile oc wanted) (\<lambda>is_file.
       (let path = (if is_file then wanted else failsafe_path)
        in bnd (oc_log_options oc) (\<lambda>_.
           bnd (oc_isfile oc path) (\<lambda>found.
           bnd (oc_load oc (if found then Some [path] else None)) (\<lambda>_.
           bnd (oc_log_setup oc) (\<lambda>_.
           bnd (ensure_log_dir oc) (\<lambda>_.
           bnd (register_opts oc) (\<lambda>_. set_attrs oc)))))))))"

text \<open>An attribute of the object: a group that it holds, or what \<open>__getattr__\<close> asks \<open>_CONF\<close> for.\<close>

datatype conf_value = GroupAttr string | ConfAttr py

definition config_getattr :: "'w oslo \<Rightarrow> (string, string) dict \<Rightarrow> string \<Rightarrow> ('w, conf_value) io" where
  "config_getattr oc attrs attr =
     (case dget attrs attr of
        Some g \<Rightarrow> ret (GroupAttr g)
      | None \<Rightarrow> bnd (oc_attribute oc attr) (\<lambda>v. ret (ConfAttr v)))"

section \<open>\<open>AutomationConfigProxy\<close>\<close>

record proxy =
  px_config :: "(string, string) dict option"
  px_path :: "string option"

definition extra_log_defaults :: "(string \<times> int) list" where
  "extra_log_defaults =
    [(''paramiko.transport'', 20), (''requests.packages.urllib3.connectionpool'', 30)]"

definition fix_log_levels :: "'w oslo \<Rightarrow> ('w, unit) io" where
  "fix_log_levels oc = for_each extra_log_defaults (\<lambda>(name, level). oc_log_level oc name level)"

definition ensure_config :: "'w oslo \<Rightarrow> string \<Rightarrow> proxy \<Rightarrow> ('w, proxy) io" where
  "ensure_config oc default_dir px =
     (if px_config px = None then
        bnd (fix_log_levels oc) (\<lambda>_.
        bnd (config_init oc default_dir (px_path px)) (\<lambda>c. ret (px\<lparr>px_config := Some c\<rparr>)))
      else ret px)"

text \<open>A new proxy has the class attributes \<open>_config = None\<close> and \<open>_path = None\<close>.\<close>

definition proxy_init :: "'w oslo \<Rightarrow> string \<Rightarrow> ('w, proxy) io" where
  "proxy_init oc default_dir = ensure_config oc default_dir \<lparr>px_config = None, px_path = None\<rparr>"

definition proxy_getattr :: "'w oslo \<Rightarrow> string \<Rightarrow> proxy \<Rightarrow> string \<Rightarrow> ('w, conf_value \<times> proxy) io" where
  "proxy_getattr oc default_dir px attr =
     bnd (ensure_config oc default_dir px) (\<lambda>px'.
       (case px_config px' of
          None \<Rightarrow> throw AttrErr
        | Some c \<Rightarrow> bnd (config_getattr oc c attr) (\<lambda>v. ret (v, px'))))"

definition set_config_path :: "string \<Rightarrow> proxy \<Rightarrow> proxy" where
  "set_config_path path px = px\<lparr>px_path := Some path\<rparr>"

end
