(* ===== verification/ClientManager.thy ===== *)
theory ClientManager
  imports CredProvider RestClient Config "HOL-Library.Char_ord" "HOL-Library.List_Lexorder"
begin

text \<open>
  \<open>automation/manager.py\<close> and \<open>automation/clients.py\<close>: the manager chooses credentials, makes one authentication
  provider for them and builds every client on it, each with the options of its group. Here a client is its class,
  the REST client it is and the arguments beyond those; that all clients share the provider of the manager is that
  they have none of their own. Also the lookup of a region by the negative client.
\<close>

section \<open>The manager without its clients\<close>

definition get_auth_provider_url :: "conf \<Rightarrow> credentials \<Rightarrow> string" where
  "get_auth_provider_url cf c = (case cr_version c of V3 \<Rightarrow> cf_uri_v3 cf | V2 \<Rightarrow> cf_uri cf)"

definition get_auth_provider :: "'r env \<Rightarrow> conf \<Rightarrow> credentials option \<Rightarrow> pyexc + provider" where
  "get_auth_provider env cf c =
     (case c of
        None \<Rightarrow> Inl (Auto InvalidCredentials [PStr ''Credentials must be specified''] [])
      | Some cr \<Rightarrow> provider_init env cr (get_auth_provider_url cf cr))"

text \<open>The argument \<open>credentials\<close>; the attributes of a \<open>TestResources\<close> are those of its credentials.\<close>

datatype given_credentials =
    Nothing
  | JustCredentials credentials
  | WithResources test_resources

record base_manager =
  mg_auth_version :: string
  mg_credentials :: given_credentials
  mg_provider :: provider

definition credentials_in :: "given_credentials \<Rightarrow> credentials option" where
  "credentials_in g =
     (case g of Nothing \<Rightarrow> None | JustCredentials c \<Rightarrow> Some c | WithResources t \<Rightarrow> Some (tr_credentials t))"

definition base_manager_init ::
    "'r env \<Rightarrow> conf \<Rightarrow> given_credentials \<Rightarrow> ('r world, base_manager) io" where
  "base_manager_init env cf given =
     bnd (case given of
            Nothing \<Rightarrow> bnd (get_configured_credentials env cf ''user'' True None) (\<lambda>c. ret (JustCredentials c))
          | _ \<Rightarrow> ret given) (\<lambda>own.
       (case credentials_in own of
          None \<Rightarrow> throw AttrErr
        | Some c \<Rightarrow>
            if \<not> cred_is_valid c then throw (Auto InvalidCredentials [] [])
            else bnd (lift (get_auth_provider env cf (Some c))) (\<lambda>p.
              ret \<lparr>mg_auth_version = cf_auth_version cf, mg_credentials = own, mg_provider = p\<rparr>)))"

section \<open>Building a client\<close>

record built =
  bt_class :: string
  bt_client :: rest_client
  bt_extras :: "(string, py) dict"

text \<open>The class attribute \<open>api_version\<close>.\<close>

definition v3_classes :: "string list" where
  "v3_classes = [''IdentityV3Client'', ''EndPointClient'', ''ServiceClient'', ''PolicyClient'', ''RegionClient'',
     ''CredentialsClient'']"

definition volume_v2_classes :: "string list" where
  "volume_v2_classes = [''QosSpecsV2Client'', ''VolumesServicesV2Client'', ''BackupsClientV2'', ''SnapshotsV2Client'',
     ''VolumesV2Client'', ''VolumeHostsV2Client'', ''VolumeQuotasV2Client'', ''VolumeV2ExtensionClient'',
     ''VolumeV2AvailabilityZoneClient'', ''VolumeTypesV2Client'']"

definition class_api_version :: "string \<Rightarrow> py" where
  "class_api_version cls =
     (if cls = ''IdentityClient'' then PStr ''v2.0''
      else if cls \<in> set v3_classes then PStr ''v3''
      else if cls \<in> set volume_v2_classes then PStr ''v2'' else PNone)"

definition int_given :: "py \<Rightarrow> int option" where
  "int_given v = (case v of PInt i \<Rightarrow> Some i | _ \<Rightarrow> None)"

definition endpoint_given :: "py \<Rightarrow> py option" where
  "endpoint_given v = (if is_none v then None else Some v)"

definition rest_arguments :: "string list" where
  "rest_arguments = [''service'', ''region'', ''endpoint_type'', ''build_interval'', ''build_timeout'']"

definition build :: "string \<Rightarrow> (string, py) dict \<Rightarrow> built" where
  "build cls params =
     \<lparr>bt_class = cls,
      bt_client = (service_client_init (arg params ''service'') (arg params ''region'')
                     (endpoint_given (arg params ''endpoint_type'')) (int_given (arg params ''build_interval''))
                     (int_given (arg params ''build_timeout'')))\<lparr>rc_api_version := class_api_version cls\<rparr>,
      bt_extras = filter (\<lambda>kv. fst kv \<notin> set rest_arguments) params\<rparr>"

definition build_all :: "(string, py) dict \<Rightarrow> (string \<times> string) list \<Rightarrow> (string \<times> built) list" where
  "build_all params names = map (\<lambda>(attr, cls). (attr, build cls params)) names"

section \<open>The parameters of the groups\<close>

definition default_params :: "conf \<Rightarrow> (string, py) dict" where
  "default_params cf =
    [(''disable_ssl_certificate_validation'', cf_option cf ''identity'' ''disable_ssl_certificate_validation''),
     (''ca_certs'', cf_option cf ''identity'' ''ca_certificates_file''),
     (''trace_requests'', cf_option cf ''debug'' ''trace_requests'')]"

definition default_params_with_timeout_values :: "conf \<Rightarrow> (string, py) dict" where
  "default_params_with_timeout_values cf =
     dupdate [(''build_interval'', cf_option cf ''compute'' ''build_interval''),
              (''build_timeout'', cf_option cf ''compute'' ''build_timeout'')] (default_params cf)"

text \<open>\<open>CONF.group.region or CONF.identity.region\<close>.\<close>

definition region_of :: "conf \<Rightarrow> string \<Rightarrow> py" where
  "region_of cf g = py_or (cf_option cf g ''region'') (cf_option cf ''identity'' ''region'')"

definition group_params :: "conf \<Rightarrow> string \<Rightarrow> (string, py) dict" where
  "group_params cf g =
     dupdate [(''service'', cf_option cf g ''catalog_type''), (''region'', region_of cf g),
              (''endpoint_type'', cf_option cf g ''endpoint_type''),
              (''build_interval'', cf_option cf g ''build_interval''),
              (''build_timeout'', cf_option cf g ''build_timeout'')] (default_params cf)"

section \<open>Compute\<close>

definition compute_names_first :: "(string \<times> string) list" where
  "compute_names_first =
    [(''agents_client'', ''AgentsClient''), (''networks_client'', ''NetworksClient''),
     (''migrations_client'', ''MigrationsClient''),
     (''security_group_default_rules_client'', ''SecurityGroupDefaultRulesClient''),
     (''certificates_client'', ''CertificatesClient'')]"

definition compute_names_rest :: "(string \<times> string) list" where
  "compute_names_rest =
    [(''server_groups_client'', ''ServerGroupsClient''), (''limits_client'', ''LimitsClient''),
     (''images_client'', ''ImagesClient''), (''keypairs_client'', ''KeyPairsClient''),
     (''quotas_client'', ''QuotasClient''), (''quota_classes_client'', ''QuotaClassesClient''),
     (''flavors_client'', ''FlavorsClient''), (''extensions_client'', ''ExtensionsClient''),
     (''floating_ip_pools_client'', ''FloatingIPPoolsClient''),
     (''floating_ips_bulk_client'', ''FloatingIPsBulkClient''), (''floating_ips_client'', ''FloatingIPsClient''),
     (''security_group_rules_client'', ''SecurityGroupRulesClient''),
     (''security_groups_client'', ''SecurityGroupsClient''), (''interfaces_client'', ''InterfacesClient''),
     (''fixed_ips_client'', ''FixedIPsClient''), (''availability_zone_client'', ''AvailabilityZoneClient''),
     (''aggregates_client'', ''AggregatesClient''), (''services_client'', ''ServicesClient''),
     (''tenant_usages_client'', ''TenantUsagesClient''), (''hosts_client'', ''HostsClient''),
     (''hypervisor_client'', ''HypervisorClient''),
     (''instance_usages_audit_log_client'', ''InstanceUsagesAuditLogClient''),
     (''tenant_networks_client'', ''TenantNetworksClient''),
     (''baremetal_nodes_client'', ''BaremetalNodesClient'')]"

definition set_compute_clients :: "conf \<Rightarrow> (string \<times> built) list" where
  "set_compute_clients cf =
     (let params = group_params cf ''compute'';
          params_volume = dupdate params
            [(''build_interval'', cf_option cf ''volume'' ''build_interval''),
             (''build_timeout'', cf_option cf ''volume'' ''build_timeout'')]
      in build_all params compute_names_first
         @ [(''servers_client'', build ''ServersClient''
              (dset params ''enable_instance_password''
                 (cf_option cf ''compute-feature-enabled'' ''enable_instance_password'')))]
         @ build_all params compute_names_rest
         @ [(''volumes_extensions_client'', build ''VolumesExtensionsClient''
              (dset params_volume ''default_volume_size'' (cf_option cf ''volume'' ''volume_size'')))])"

section \<open>Identity\<close>

definition identity_names_rest :: "(string \<times> string) list" where
  "identity_names_rest =
    [(''endpoints_client'', ''EndPointClient''), (''service_client'', ''ServiceClient''),
     (''policy_client'', ''PolicyClient''), (''region_client'', ''RegionClient''),
     (''credentials_client'', ''CredentialsClient'')]"

definition identity_params :: "conf \<Rightarrow> (string, py) dict" where
  "identity_params cf =
     dupdate [(''service'', cf_option cf ''identity'' ''catalog_type''),
              (''region'', cf_option cf ''identity'' ''region'')] (default_params_with_timeout_values cf)"

definition set_identity_clients :: "conf \<Rightarrow> (string \<times> built) list" where
  "set_identity_clients cf =
     (let params = identity_params cf;
          endpoint = (\<lambda>n. dset params ''endpoint_type'' (cf_option cf ''identity'' n))
      in [(''identity_client'', build ''IdentityClient'' (endpoint ''v2_admin_endpoint_type'')),
          (''identity_public_client'', build ''IdentityClient'' (endpoint ''v2_public_endpoint_type'')),
          (''identity_v3_client'', build ''IdentityV3Client'' (endpoint ''v3_endpoint_type''))]
         @ build_all params identity_names_rest)"

text \<open>The token clients, each with its URL.\<close>

definition token_client_for :: "conf \<Rightarrow> string \<Rightarrow> string \<Rightarrow> string \<Rightarrow> pyexc + py option" where
  "token_client_for cf feature uri msg =
     (if truthy (cf_option cf ''identity-feature-enabled'' feature) then
        if truthy (cf_option cf ''identity'' uri) then Inr (Some (cf_option cf ''identity'' uri))
        else Inl (Auto InvalidConfiguration [PStr msg] [])
      else Inr None)"

definition set_token_clients :: "conf \<Rightarrow> pyexc + (string \<times> py) list" where
  "set_token_clients cf =
     bindE (token_client_for cf ''api_v2'' ''uri'' ''Identity v2 API enabled, but no identity.uri set'') (\<lambda>v2.
     bindE (token_client_for cf ''api_v3'' ''uri_v3'' ''Identity v3 API enabled, but no identity.uri_v3 set'') (\<lambda>v3.
       Inr ((case v2 of None \<Rightarrow> [] | Some u \<Rightarrow> [(''token_client'', u)])
            @ (case v3 of None \<Rightarrow> [] | Some u \<Rightarrow> [(''token_v3_client'', u)]))))"

section \<open>Block storage\<close>

definition volume_names_first :: "(string \<times> string) list" where
  "volume_names_first =
    [(''volume_qos_client'', ''QosSpecsClient''), (''volume_qos_v2_client'', ''QosSpecsV2Client''),
     (''volume_services_v2_client'', ''VolumesServicesV2Client''), (''backups_client'', ''BackupsClient''),
     (''backups_v2_client'', ''BackupsClientV2''), (''snapshots_client'', ''SnapshotsClient''),
     (''snapshots_v2_client'', ''SnapshotsV2Client'')]"

definition volume_names_rest :: "(string \<times> string) list" where
  "volume_names_rest =
    [(''volume_types_client'', ''VolumeTypesClient''), (''volume_services_client'', ''VolumesServicesClient''),
     (''volume_hosts_client'', ''VolumeHostsClient''), (''volume_hosts_v2_client'', ''VolumeHostsV2Client''),
     (''volume_quotas_client'', ''VolumeQuotasClient''), (''volume_quotas_v2_client'', ''VolumeQuotasV2Client''),
     (''volumes_extension_client'', ''VolumeExtensionClient''),
     (''volumes_v2_extension_client'', ''VolumeV2ExtensionClient''),
     (''volume_availability_zone_client'', ''VolumeAvailabilityZoneClient''),
     (''volume_v2_availability_zone_client'', ''VolumeV2AvailabilityZoneClient''),
     (''volume_types_v2_client'', ''VolumeTypesV2Client'')]"

definition set_volume_clients :: "conf \<Rightarrow> (string \<times> built) list" where
  "set_volume_clients cf =
     (let params = group_params cf ''volume'';
          sized = dset params ''default_volume_size'' (cf_option cf ''volume'' ''volume_size'')
      in build_all params volume_names_first
         @ [(''volumes_client'', build ''VolumesClient'' sized),
            (''volumes_v2_client'', build ''VolumesV2Client'' sized)]
         @ build_all params volume_names_rest)"

section \<open>The negative client\<close>

definition declared_option :: "string \<Rightarrow> string \<Rightarrow> bool" where
  "declared_option g n = list_ex (\<lambda>(h, opts). h = Some g \<and> list_ex (\<lambda>opt. op_name opt = n) opts) all_opts"

text \<open>\<open>getattr(cfg, name, None)\<close> of a group.\<close>

definition option_or_none :: "conf \<Rightarrow> string \<Rightarrow> string \<Rightarrow> py" where
  "option_or_none cf g n = (if declared_option g n then cf_option cf g n else PNone)"

text \<open>
  \<open>dir(CONF._config)\<close> is sorted. The names before these are no groups: for them \<open>getattr\<close> gives \<open>None\<close> throughout,
  which is what region and endpoint are at the start.
\<close>

definition searched_groups :: "string list" where
  "searched_groups = map snd (sort_key fst group_attributes)"

definition region_and_endpoint_type :: "conf \<Rightarrow> py \<Rightarrow> py \<times> py" where
  "region_and_endpoint_type cf service =
     (let found = foldl (\<lambda>acc g.
            if option_or_none cf g ''catalog_type'' = service
            then (option_or_none cf g ''region'', option_or_none cf g ''endpoint_type'') else acc)
          (PNone, PNone) searched_groups
      in (if truthy (fst found) then fst found else cf_option cf ''identity'' ''region'', snd found))"

definition build_negative_client :: "conf \<Rightarrow> py \<Rightarrow> built" where
  "build_negative_client cf service =
     (let found = region_and_endpoint_type cf service
      in build ''NegativeRestClient''
           (dupdate [(''service'', service), (''region'', fst found), (''endpoint_type'', snd found)]
              (default_params cf)))"

section \<open>The whole manager\<close>

record manager = base_manager +
  mg_clients :: "(string \<times> built) list"
  mg_tokens :: "(string \<times> py) list"

definition manager_init ::
    "'r env \<Rightarrow> conf \<Rightarrow> given_credentials \<Rightarrow> py \<Rightarrow> ('r world, manager) io" where
  "manager_init env cf given service =
     bnd (base_manager_init env cf given) (\<lambda>m.
     (let compute = set_compute_clients cf; identity = set_identity_clients cf
      in bnd (lift (set_token_clients cf)) (\<lambda>tokens.
         (let volume = set_volume_clients cf;
              network = [(''network_client'', build ''NetworkClient'' (group_params cf ''network''))];
              image = (if truthy (cf_option cf ''service_available'' ''glance'')
                       then [(''image_client'', build ''ImageClient'' (group_params cf ''image'')),
                             (''image_client_v2'', build ''ImageClientV2'' (group_params cf ''image''))] else []);
              negative = [(''negative_client'', build_negative_client cf service)]
          in ret (base_manager.extend m
                    \<lparr>mg_clients = compute @ identity @ volume @ network @ image @ negative,
                     mg_tokens = tokens\<rparr>)))))"

definition admin_manager_init :: "'r env \<Rightarrow> conf \<Rightarrow> py \<Rightarrow> ('r world, manager) io" where
  "admin_manager_init env cf service =
     bnd (get_configured_credentials env cf ''identity_admin'' True None) (\<lambda>c.
       manager_init env cf (JustCredentials c) service)"

end
