(* ===== verification/ClientManagerProps.thy ===== *)
theory ClientManagerProps
  imports ClientManager Demo
begin

text \<open>
  What the clients of a manager send their requests to: every client has the service, the region and the endpoint
  of its own group, and all of them share one provider. And which region a negative client finds.
\<close>

section \<open>Classes and attributes\<close>

lemma searched_groups_eq:
  "searched_groups =
    [''auth'', ''baremetal'', ''boto'', ''compute'', ''compute-feature-enabled'', ''dashboard'', ''data_processing'',
     ''data_processing-feature-enabled'', ''database'', ''debug'', ''identity'', ''identity-feature-enabled'',
     ''image'', ''image-feature-enabled'', ''input-scenario'', ''messaging'', ''negative'', ''network'',
     ''network-feature-enabled'', ''object-storage'', ''object-storage-feature-enabled'', ''orchestration'',
     ''scenario'', ''service_available'', ''stress'', ''telemetry'', ''telemetry-feature-enabled'', ''validation'',
     ''volume'', ''volume-feature-enabled'']"
  by code_simp

lemma catalog_groups:
  "filter (\<lambda>g. declared_option g ''catalog_type'') searched_groups =
    [''baremetal'', ''compute'', ''data_processing'', ''database'', ''identity'', ''image'', ''messaging'', ''network'',
     ''object-storage'', ''orchestration'', ''telemetry'', ''volume'']"
  by code_simp

section \<open>Every client asks for its own service\<close>

definition endpoint_or_public :: "py \<Rightarrow> py" where
  "endpoint_or_public e = (if is_none e then PStr ''publicURL'' else e)"

text \<open>What the requests of a client are filtered by.\<close>

definition asks_for :: "py \<Rightarrow> py \<Rightarrow> py \<Rightarrow> string \<times> built \<Rightarrow> bool" where
  "asks_for service region endpoint x =
     (let fs = filters (bt_client (snd x))
      in dget fs ''service'' = Some service \<and> dget fs ''region'' = Some region
         \<and> dget fs ''endpoint_type'' = Some endpoint)"

definition asks_for_group :: "conf \<Rightarrow> string \<Rightarrow> string \<times> built \<Rightarrow> bool" where
  "asks_for_group cf g =
     asks_for (cf_option cf g ''catalog_type'')
       (if truthy (cf_option cf g ''region'') then cf_option cf g ''region'' else cf_option cf ''identity'' ''region'')
       (endpoint_or_public (cf_option cf g ''endpoint_type''))"

lemma built_asks_for:
  "asks_for (arg params ''service'') (arg params ''region'') (endpoint_or_public (arg params ''endpoint_type''))
     (attr, build cls params)"
  by (simp add: asks_for_def build_def filters_def service_client_init_def rest_client_init_def Let_def
      endpoint_given_def endpoint_or_public_def dget_dset)

lemma group_params_args [simp]:
  "arg (group_params cf g) ''service'' = cf_option cf g ''catalog_type''"
  "arg (group_params cf g) ''region'' = region_of cf g"
  "arg (group_params cf g) ''endpoint_type'' = cf_option cf g ''endpoint_type''"
  by (simp_all add: group_params_def default_params_def arg_def dget_dset)

lemma identity_params_args [simp]:
  "arg (identity_params cf) ''service'' = cf_option cf ''identity'' ''catalog_type''"
  "arg (identity_params cf) ''region'' = cf_option cf ''identity'' ''region''"
  "arg (identity_params cf) ''endpoint_type'' = PNone"
  by (simp_all add: identity_params_def default_params_with_timeout_values_def default_params_def arg_def dget_dset)

lemma built_for_group:
  assumes "arg params ''service'' = cf_option cf g ''catalog_type''" "arg params ''region'' = region_of cf g"
    "arg params ''endpoint_type'' = cf_option cf g ''endpoint_type''"
  shows "asks_for_group cf g (attr, build cls params)"
  using built_asks_for [of params] by (simp add: asks_for_group_def assms region_of_def py_or_def)

lemma all_built: "list_all (asks_for_group cf g) (build_all (group_params cf g) names)"
  by (auto simp: build_all_def list_all_iff intro: built_for_group)

lemma compute_clients_ask: "list_all (asks_for_group cf ''compute'') (set_compute_clients cf)"
  by (simp add: set_compute_clients_def Let_def all_built built_for_group)

lemma volume_clients_ask: "list_all (asks_for_group cf ''volume'') (set_volume_clients cf)"
  by (simp add: set_volume_clients_def Let_def all_built built_for_group)

text \<open>The identity clients; only the first three have an endpoint of the configuration.\<close>

definition asks_identity :: "conf \<Rightarrow> py \<Rightarrow> string \<times> built \<Rightarrow> bool" where
  "asks_identity cf endpoint =
     asks_for (cf_option cf ''identity'' ''catalog_type'') (cf_option cf ''identity'' ''region'')
       (endpoint_or_public endpoint)"

lemma identity_clients_ask:
  "list_all2 (asks_identity cf)
     (map (cf_option cf ''identity'') [''v2_admin_endpoint_type'', ''v2_public_endpoint_type'', ''v3_endpoint_type'']
      @ replicate 5 PNone)
     (set_identity_clients cf)"
proof -
  have with_endpoint: "asks_identity cf v (attr, build cls (dset (identity_params cf) ''endpoint_type'' v))" for v attr cls
    using built_asks_for [of "dset (identity_params cf) ''endpoint_type'' v"] by (simp add: asks_identity_def)
  have without: "asks_identity cf PNone (attr, build cls (identity_params cf))" for attr cls
    using built_asks_for [of "identity_params cf"] by (simp add: asks_identity_def)
  show ?thesis
    by (simp add: set_identity_clients_def Let_def build_all_def identity_names_rest_def with_endpoint without
        numeral_eq_Suc)
qed

section \<open>The manager\<close>

lemma base_manager_initE:
  assumes "base_manager_init env cf given w = (Inr m, w')"
  obtains c where "credentials_in (mg_credentials m) = Some c" "cred_is_valid c" "given \<noteq> Nothing \<longrightarrow> mg_credentials m = given"
    "pv_auth_url (mg_provider m) = get_auth_provider_url cf c" "pv_creds (mg_provider m) = c" "pv_cache (mg_provider m) = None"
proof -
  from assms obtain own w1 where own: "(case given of
            Nothing \<Rightarrow> bnd (get_configured_credentials env cf ''user'' True None) (\<lambda>c. ret (JustCredentials c))
          | _ \<Rightarrow> ret given) w = (Inr own, w1)"
      and rest: "(case credentials_in own of None \<Rightarrow> throw AttrErr
        | Some c \<Rightarrow> if \<not> cred_is_valid c then throw (Auto InvalidCredentials [] [])
            else bnd (lift (get_auth_provider env cf (Some c))) (\<lambda>p.
              ret \<lparr>mg_auth_version = cf_auth_version cf, mg_credentials = own, mg_provider = p\<rparr>)) w1 = (Inr m, w')"
    unfolding base_manager_init_def by (rule bnd_InrE)
  from rest obtain c where c: "credentials_in own = Some c" "cred_is_valid c"
    by (auto split: option.splits if_splits)
  from rest c have m: "mg_credentials m = own" "mg_provider m =
      \<lparr>pv_auth_url = get_auth_provider_url cf c, pv_creds = c, pv_cache = None, pv_alt_part = None, pv_alt_auth = None\<rparr>"
    by (auto simp: bnd_def get_auth_provider_def provider_init_def)
  have "given \<noteq> Nothing \<longrightarrow> own = given" using own by (cases given) auto
  with c m show thesis by (intro that [of c]) simp_all
qed

definition image_clients :: "conf \<Rightarrow> (string \<times> built) list" where
  "image_clients cf =
     (if truthy (cf_option cf ''service_available'' ''glance'')
      then [(''image_client'', build ''ImageClient'' (group_params cf ''image'')),
            (''image_client_v2'', build ''ImageClientV2'' (group_params cf ''image''))] else [])"

lemma manager_initE:
  assumes "manager_init env cf given service w = (Inr m, w')"
  obtains m0 tokens where "base_manager_init env cf given w = (Inr m0, w')" "set_token_clients cf = Inr tokens"
    "mg_credentials m = mg_credentials m0" "mg_provider m = mg_provider m0" "mg_tokens m = tokens"
    "mg_clients m = set_compute_clients cf @ set_identity_clients cf @ set_volume_clients cf
       @ [(''network_client'', build ''NetworkClient'' (group_params cf ''network''))] @ image_clients cf
       @ [(''negative_client'', build_negative_client cf service)]"
proof -
  from assms obtain m0 w1 where base: "base_manager_init env cf given w = (Inr m0, w1)"
    and rest: "(let compute = set_compute_clients cf; identity = set_identity_clients cf
      in bnd (lift (set_token_clients cf)) (\<lambda>tokens.
         (let volume = set_volume_clients cf;
              network = [(''network_client'', build ''NetworkClient'' (group_params cf ''network''))];
              image = (if truthy (cf_option cf ''service_available'' ''glance'')
                       then [(''image_client'', build ''ImageClient'' (group_params cf ''image'')),
                             (''image_client_v2'', build ''ImageClientV2'' (group_params cf ''image''))] else []);
              negative = [(''negative_client'', build_negative_client cf service)]
          in ret (base_manager.extend m0
                    \<lparr>mg_clients = compute @ identity @ volume @ network @ image @ negative,
                     mg_tokens = tokens\<rparr>)))) w1 = (Inr m, w')"
    unfolding manager_init_def by (rule bnd_InrE)
  from rest obtain tokens where tokens: "set_token_clients cf = Inr tokens" "w1 = w'"
    and m: "m = base_manager.extend m0
      \<lparr>mg_clients = set_compute_clients cf @ set_identity_clients cf @ set_volume_clients cf
         @ [(''network_client'', build ''NetworkClient'' (group_params cf ''network''))] @ image_clients cf
         @ [(''negative_client'', build_negative_client cf service)], mg_tokens = tokens\<rparr>"
    unfolding image_clients_def by (auto simp: Let_def elim!: bnd_InrE)
  show thesis
    by (rule that [of m0 tokens]) (use base tokens in \<open>simp_all add: m base_manager.defs\<close>)
qed

lemma attributes_of_parts:
  "map fst (set_compute_clients cf) = map fst compute_names_first @ [''servers_client''] @ map fst compute_names_rest
     @ [''volumes_extensions_client'']"
  "map fst (set_identity_clients cf) = [''identity_client'', ''identity_public_client'', ''identity_v3_client'']
     @ map fst identity_names_rest"
  "map fst (set_volume_clients cf) = map fst volume_names_first @ [''volumes_client'', ''volumes_v2_client'']
     @ map fst volume_names_rest"
  "map fst (image_clients cf) \<in> {[], [''image_client'', ''image_client_v2'']}"
  by (simp_all add: set_compute_clients_def set_identity_clients_def set_volume_clients_def image_clients_def
      build_all_def Let_def split_def comp_def)

lemma attributes_distinct:
  assumes "is \<in> {[], [''image_client'', ''image_client_v2'']}"
  shows "distinct ((map fst compute_names_first @ [''servers_client''] @ map fst compute_names_rest
     @ [''volumes_extensions_client'']) @ ([''identity_client'', ''identity_public_client'', ''identity_v3_client'']
     @ map fst identity_names_rest) @ (map fst volume_names_first @ [''volumes_client'', ''volumes_v2_client'']
     @ map fst volume_names_rest) @ [''network_client''] @ is @ [''negative_client''])"
proof -
  consider "is = []" | "is = [''image_client'', ''image_client_v2'']" using assms by blast
  then show ?thesis by cases (hypsubst, code_simp)+
qed

lemma manager_attributes_distinct:
  assumes "manager_init env cf given service w = (Inr m, w')"
  shows "distinct (map fst (mg_clients m))"
proof -
  have m: "mg_clients m = set_compute_clients cf @ set_identity_clients cf @ set_volume_clients cf
       @ [(''network_client'', build ''NetworkClient'' (group_params cf ''network''))] @ image_clients cf
       @ [(''negative_client'', build_negative_client cf service)]"
    using assms by (rule manager_initE)
  show ?thesis
    unfolding m map_append attributes_of_parts(1-3) list.map fst_conv
    using attributes_distinct [OF attributes_of_parts(4)] by simp
qed

text \<open>The attributes of a manager, group by group, in the order in which they are set.\<close>

definition compute_attributes :: "string list" where
  "compute_attributes =
    [''agents_client'', ''networks_client'', ''migrations_client'', ''security_group_default_rules_client'',
     ''certificates_client'', ''servers_client'', ''server_groups_client'', ''limits_client'', ''images_client'',
     ''keypairs_client'', ''quotas_client'', ''quota_classes_client'', ''flavors_client'', ''extensions_client'',
     ''floating_ip_pools_client'', ''floating_ips_bulk_client'', ''floating_ips_client'',
     ''security_group_rules_client'', ''security_groups_client'', ''interfaces_client'', ''fixed_ips_client'',
     ''availability_zone_client'', ''aggregates_client'', ''services_client'', ''tenant_usages_client'',
     ''hosts_client'', ''hypervisor_client'', ''instance_usages_audit_log_client'', ''tenant_networks_client'',
     ''baremetal_nodes_client'', ''volumes_extensions_client'']"

definition identity_attributes :: "string list" where
  "identity_attributes =
    [''identity_client'', ''identity_public_client'', ''identity_v3_client'', ''endpoints_client'', ''service_client'',
     ''policy_client'', ''region_client'', ''credentials_client'']"

definition volume_attributes :: "string list" where
  "volume_attributes =
    [''volume_qos_client'', ''volume_qos_v2_client'', ''volume_services_v2_client'', ''backups_client'',
     ''backups_v2_client'', ''snapshots_client'', ''snapshots_v2_client'', ''volumes_client'', ''volumes_v2_client'',
     ''volume_types_client'', ''volume_services_client'', ''volume_hosts_client'', ''volume_hosts_v2_client'',
     ''volume_quotas_client'', ''volume_quotas_v2_client'', ''volumes_extension_client'',
     ''volumes_v2_extension_client'', ''volume_availability_zone_client'', ''volume_v2_availability_zone_client'',
     ''volume_types_v2_client'']"

definition image_attributes :: "conf \<Rightarrow> string list" where
  "image_attributes cf =
     (if truthy (cf_option cf ''service_available'' ''glance'') then [''image_client'', ''image_client_v2''] else [])"

text \<open>What each attribute of a manager must be: for every one, in order, what its client asks for.\<close>

definition due_clients :: "conf \<Rightarrow> py \<Rightarrow> (string \<times> (string \<times> built \<Rightarrow> bool)) list" where
  "due_clients cf service =
     map (\<lambda>a. (a, asks_for_group cf ''compute'')) compute_attributes
     @ zip identity_attributes (map (asks_identity cf)
         (map (cf_option cf ''identity'') [''v2_admin_endpoint_type'', ''v2_public_endpoint_type'', ''v3_endpoint_type'']
          @ replicate 5 PNone))
     @ map (\<lambda>a. (a, asks_for_group cf ''volume'')) volume_attributes
     @ [(''network_client'', asks_for_group cf ''network'')]
     @ map (\<lambda>a. (a, asks_for_group cf ''image'')) (image_attributes cf)
     @ [(''negative_client'', asks_for service (fst (region_and_endpoint_type cf service))
           (endpoint_or_public (snd (region_and_endpoint_type cf service))))]"

definition is_due :: "string \<times> (string \<times> built \<Rightarrow> bool) \<Rightarrow> string \<times> built \<Rightarrow> bool" where
  "is_due d x \<longleftrightarrow> fst x = fst d \<and> snd d x"

lemma due_of_group:
  assumes "map fst xs = as" "list_all (asks_for_group cf g) xs"
  shows "list_all2 is_due (map (\<lambda>a. (a, asks_for_group cf g)) as) xs"
  using assms unfolding is_due_def by (auto simp: list_all2_conv_all_nth list_all_length)

lemma due_of_identity:
  assumes "map fst xs = as" "list_all2 (asks_identity cf) es xs"
  shows "list_all2 is_due (zip as (map (asks_identity cf) es)) xs"
  using assms unfolding is_due_def by (auto simp: list_all2_conv_all_nth)

lemma negative_client_asks:
  "asks_for service (fst (region_and_endpoint_type cf service)) (endpoint_or_public (snd (region_and_endpoint_type cf service)))
     (''negative_client'', build_negative_client cf service)"
  using built_asks_for [of "dupdate [(''service'', service), (''region'', fst (region_and_endpoint_type cf service)),
      (''endpoint_type'', snd (region_and_endpoint_type cf service))] (default_params cf)" "''negative_client''"
      "''NegativeRestClient''"]
  by (simp add: build_negative_client_def Let_def arg_def default_params_def dget_dset)

lemma clients_due:
  "list_all2 is_due (due_clients cf service)
     (set_compute_clients cf @ set_identity_clients cf @ set_volume_clients cf
       @ [(''network_client'', build ''NetworkClient'' (group_params cf ''network''))] @ image_clients cf
       @ [(''negative_client'', build_negative_client cf service)])"
proof -
  have compute: "map fst (set_compute_clients cf) = compute_attributes"
    and identity: "map fst (set_identity_clients cf) = identity_attributes"
    and volume: "map fst (set_volume_clients cf) = volume_attributes"
    unfolding attributes_of_parts(1-3)
    by (simp_all add: compute_names_first_def compute_names_rest_def compute_attributes_def identity_names_rest_def
        identity_attributes_def volume_names_first_def volume_names_rest_def volume_attributes_def)
  have image: "map fst (image_clients cf) = image_attributes cf" "list_all (asks_for_group cf ''image'') (image_clients cf)"
    by (simp_all add: image_clients_def image_attributes_def built_for_group)
  have network: "is_due (''network_client'', asks_for_group cf ''network'')
      (''network_client'', build ''NetworkClient'' (group_params cf ''network''))"
    by (simp add: is_due_def built_for_group)
  show ?thesis
    unfolding due_clients_def
    by (intro list_all2_appendI due_of_group due_of_identity compute identity volume image identity_clients_ask
        compute_clients_ask volume_clients_ask list_all2_Cons [THEN iffD2] conjI network list_all2_Nil [THEN iffD2])
      (simp_all add: is_due_def negative_client_asks)
qed

text \<open>
  C23 (manager_clients_of_their_group): a manager that was made has exactly the attributes of its groups, in order and
  each once: every compute, block storage, network and image client asks for the service, the region and the endpoint
  of its own group, the image clients being there when Glance is available; every identity client asks for the identity
  service in the identity region, the first three at their configured endpoints and the others at the public one; the
  negative client asks for the given service where the configuration has it. The one provider of them all is for the
  credentials of the manager, with the identity URL of their version.
\<close>

theorem manager_clients_of_their_group:
  assumes "manager_init env cf given service w = (Inr m, w')"
  shows "list_all2 is_due (due_clients cf service) (mg_clients m)
    \<and> distinct (map fst (mg_clients m))
    \<and> (\<exists>c. credentials_in (mg_credentials m) = Some c \<and> cred_is_valid c \<and> pv_creds (mg_provider m) = c
        \<and> pv_auth_url (mg_provider m) = (case cr_version c of V3 \<Rightarrow> cf_uri_v3 cf | V2 \<Rightarrow> cf_uri cf))"
proof -
  obtain m0 tokens where m: "base_manager_init env cf given w = (Inr m0, w')"
    "mg_credentials m = mg_credentials m0" "mg_provider m = mg_provider m0"
    "mg_clients m = set_compute_clients cf @ set_identity_clients cf @ set_volume_clients cf
       @ [(''network_client'', build ''NetworkClient'' (group_params cf ''network''))] @ image_clients cf
       @ [(''negative_client'', build_negative_client cf service)]"
    using assms by (rule manager_initE)
  obtain c where "credentials_in (mg_credentials m) = Some c" "cred_is_valid c" "pv_creds (mg_provider m) = c"
      "pv_auth_url (mg_provider m) = get_auth_provider_url cf c"
    using m(1) by (rule base_manager_initE) (simp add: m(2,3))
  then show ?thesis
    using clients_due [of cf service] manager_attributes_distinct [OF assms] m(4)
    unfolding get_auth_provider_url_def by simp
qed

section \<open>Without an identity URL\<close>

text \<open>
  (manager_needs_identity_urls): once the credentials are accepted the manager is made exactly when every enabled
  version of the identity service has a URL; otherwise an InvalidConfiguration is raised and there is no manager.
\<close>

theorem manager_needs_identity_urls:
  assumes "base_manager_init env cf given w = (Inr m0, w')"
  shows "((\<exists>m. manager_init env cf given service w = (Inr m, w'))
      \<longleftrightarrow> (truthy (cf_option cf ''identity-feature-enabled'' ''api_v2'') \<longrightarrow> truthy (cf_option cf ''identity'' ''uri''))
        \<and> (truthy (cf_option cf ''identity-feature-enabled'' ''api_v3'') \<longrightarrow> truthy (cf_option cf ''identity'' ''uri_v3'')))
    \<and> (\<forall>e w1. manager_init env cf given service w = (Inl e, w1) \<longrightarrow> catches InvalidConfiguration e)"
proof -
  have "manager_init env cf given service w =
    (case set_token_clients cf of
       Inl e \<Rightarrow> (Inl e, w')
     | Inr tokens \<Rightarrow> (Inr (base_manager.extend m0
        \<lparr>mg_clients = set_compute_clients cf @ set_identity_clients cf @ set_volume_clients cf
           @ [(''network_client'', build ''NetworkClient'' (group_params cf ''network''))] @ image_clients cf
           @ [(''negative_client'', build_negative_client cf service)], mg_tokens = tokens\<rparr>), w'))"
    using assms by (simp add: manager_init_def image_clients_def bnd_def Let_def split: sum.splits)
  then show ?thesis
    by (auto simp: set_token_clients_def token_client_for_def bindE_Inl_iff catches_def isinstance_of_def supers.simps
        split: sum.splits if_splits)
qed

section \<open>The region of a negative client\<close>

lemma foldl_found:
  assumes "\<And>h. h \<in> set xs \<Longrightarrow> P h \<longleftrightarrow> h = g" "g \<in> set xs"
  shows "foldl (\<lambda>acc h. if P h then F h else acc) a xs = F g"
  using assms
proof (induction xs rule: rev_induct)
  case (snoc x xs)
  show ?case
  proof (cases "x = g")
    case True
    then show ?thesis using snoc.prems by simp
  next
    case False
    then have "\<not> P x" "g \<in> set xs" using snoc.prems by auto
    then show ?thesis using snoc.IH snoc.prems(1) by simp
  qed
qed simp

text \<open>
  (negative_client_like_regular): a negative client for a service whose catalog type no other group has asks for the
  same service, region and endpoint as the regular clients of that group.
\<close>

theorem negative_client_like_regular:
  assumes "g \<in> set searched_groups"
    and "declared_option g ''catalog_type''" "declared_option g ''region''" "declared_option g ''endpoint_type''"
    and "list_all (\<lambda>h. h = g \<or> option_or_none cf h ''catalog_type'' \<noteq> cf_option cf g ''catalog_type'') searched_groups"
  shows "asks_for_group cf g (''negative_client'', build_negative_client cf (cf_option cf g ''catalog_type''))"
proof -
  have "region_and_endpoint_type cf (cf_option cf g ''catalog_type'')
    = (let r = cf_option cf g ''region''
       in if truthy r then r else cf_option cf ''identity'' ''region'', cf_option cf g ''endpoint_type'')"
  proof -
    have "foldl (\<lambda>acc h. if option_or_none cf h ''catalog_type'' = cf_option cf g ''catalog_type''
        then (option_or_none cf h ''region'', option_or_none cf h ''endpoint_type'') else acc)
        (PNone, PNone) searched_groups = (option_or_none cf g ''region'', option_or_none cf g ''endpoint_type'')"
      by (rule foldl_found) (use assms in \<open>auto simp: list_all_iff option_or_none_def\<close>)
    then show ?thesis
      using assms(3,4) by (simp add: region_and_endpoint_type_def option_or_none_def Let_def)
  qed
  then have "arg (dupdate [(''service'', cf_option cf g ''catalog_type''),
      (''region'', fst (region_and_endpoint_type cf (cf_option cf g ''catalog_type''))),
      (''endpoint_type'', snd (region_and_endpoint_type cf (cf_option cf g ''catalog_type'')))] (default_params cf))
      ''region'' = region_of cf g"
    by (simp add: arg_def default_params_def region_of_def py_or_def dget_dset Let_def)
  then show ?thesis
    using \<open>region_and_endpoint_type cf _ = _\<close>
    by (auto simp: build_negative_client_def Let_def default_params_def arg_def intro!: built_for_group)
qed

section \<open>A configuration\<close>

text \<open>The declared defaults, with some values that a file gives.\<close>

definition default_value :: "string \<Rightarrow> string \<Rightarrow> py" where
  "default_value g n =
     (case find (\<lambda>opt. op_name opt = n) (concat (map snd (filter (\<lambda>x. fst x = Some g) all_opts))) of
        None \<Rightarrow> PNone
      | Some opt \<Rightarrow> op_default opt)"

definition conf_with :: "((string \<times> string) \<times> py) list \<Rightarrow> conf" where
  "conf_with given =
     \<lparr>cf_auth_version = ''v3'', cf_uri = ''http://key/v2.0'', cf_uri_v3 = ''http://key/v3'',
      cf_default_domain = PStr ''Default'',
      cf_option = (\<lambda>g n. case map_of given (g, n) of Some v \<Rightarrow> v | None \<Rightarrow> default_value g n),
      cf_admin_role = ''admin'', cf_operator_role = ''Member'', cf_reseller_role = ''ResellerAdmin'',
      cf_accounts_file = []\<rparr>"

definition identity_urls :: "((string \<times> string) \<times> py) list" where
  "identity_urls = [((''identity'', ''uri''), PStr ''http://key/v2.0''), ((''identity'', ''uri_v3''), PStr ''http://key/v3'')]"

definition valid_creds :: credentials where
  "valid_creds = \<lparr>cr_version = V2, cr_attrs = [(''username'', PStr ''demo''), (''password'', PStr ''s'')],
     cr_initial = [(''username'', PStr ''demo''), (''password'', PStr ''s'')]\<rparr>"

definition plain_world :: "script world" where
  "plain_world = \<lparr>now = 0, remote = [], sent = [], naps = []\<rparr>"

lemma demo_base_manager:
  "\<exists>m. base_manager_init (demo_env []) cf (JustCredentials valid_creds) plain_world = (Inr m, plain_world)"
  by (simp add: base_manager_init_def credentials_in_def get_auth_provider_def provider_init_def bnd_def
      cred_is_valid_def v2_is_valid_def valid_creds_def cget_def aget_def is_none_def)

lemma demo_features:
  "cf_option (conf_with given) = (\<lambda>g n. case map_of given (g, n) of Some v \<Rightarrow> v | None \<Rightarrow> default_value g n)"
  by (simp add: conf_with_def)

lemmas group_name_defs =
  auth_group_def identity_group_def identity_feature_group_def compute_group_def compute_features_group_def
  image_group_def image_feature_group_def network_group_def network_feature_group_def messaging_group_def
  validation_group_def volume_group_def volume_feature_group_def object_storage_group_def
  object_storage_feature_group_def database_group_def orchestration_group_def telemetry_group_def
  telemetry_feature_group_def dashboard_group_def data_processing_group_def data_processing_feature_group_def
  boto_group_def stress_group_def scenario_group_def service_available_group_def debug_group_def
  input_scenario_group_def baremetal_group_def negative_group_def

lemma identity_defaults:
  "default_value ''identity-feature-enabled'' ''api_v2'' = PBool True"
  "default_value ''identity-feature-enabled'' ''api_v3'' = PBool True"
  "default_value ''identity'' ''uri'' = PNone"
  by (simp_all add: default_value_def all_opts_def group_name_defs an_opt_def IdentityGroup_def IdentityFeatureGroup_def)

theorem manager_needs_identity_urls_witness:
  "(\<nexists>m. manager_init (demo_env []) (conf_with []) (JustCredentials valid_creds) PNone plain_world = (Inr m, plain_world))
    \<and> (\<exists>m. manager_init (demo_env []) (conf_with identity_urls) (JustCredentials valid_creds) PNone plain_world
        = (Inr m, plain_world))"
proof -
  obtain m0 m1 where base:
    "base_manager_init (demo_env []) (conf_with []) (JustCredentials valid_creds) plain_world = (Inr m0, plain_world)"
    "base_manager_init (demo_env []) (conf_with identity_urls) (JustCredentials valid_creds) plain_world = (Inr m1, plain_world)"
    using demo_base_manager by blast
  show ?thesis
    using manager_needs_identity_urls [OF base(1), of PNone] manager_needs_identity_urls [OF base(2), of PNone]
    by (simp add: demo_features identity_defaults identity_urls_def)
qed

lemma demo_manager_made:
  "\<exists>m. manager_init (demo_env []) (conf_with identity_urls) (JustCredentials valid_creds) PNone plain_world
     = (Inr m, plain_world)"
proof -
  obtain m where "base_manager_init (demo_env []) (conf_with identity_urls) (JustCredentials valid_creds) plain_world
      = (Inr m, plain_world)"
    using demo_base_manager by blast
  then show ?thesis
    by (simp add: manager_init_def bnd_def Let_def set_token_clients_def token_client_for_def demo_features
        identity_defaults identity_urls_def)
qed

theorem manager_clients_of_their_group_witness:
  "\<exists>m. manager_init (demo_env []) (conf_with identity_urls) (JustCredentials valid_creds) PNone plain_world
      = (Inr m, plain_world)
    \<and> list_all2 is_due (due_clients (conf_with identity_urls) PNone) (mg_clients m)
    \<and> distinct (map fst (mg_clients m))"
proof -
  obtain m where made: "manager_init (demo_env []) (conf_with identity_urls) (JustCredentials valid_creds) PNone plain_world
      = (Inr m, plain_world)"
    using demo_manager_made by blast
  then show ?thesis
    using manager_clients_of_their_group [OF made] by (intro exI [of _ m]) simp
qed

lemma options_of_group:
  "concat (map snd (filter (\<lambda>x. fst x = Some ''baremetal'') all_opts)) = BaremetalGroup"
  "concat (map snd (filter (\<lambda>x. fst x = Some ''compute'') all_opts)) = ComputeGroup"
  "concat (map snd (filter (\<lambda>x. fst x = Some ''data_processing'') all_opts)) = DataProcessingGroup"
  "concat (map snd (filter (\<lambda>x. fst x = Some ''database'') all_opts)) = DatabaseGroup"
  "concat (map snd (filter (\<lambda>x. fst x = Some ''identity'') all_opts)) = IdentityGroup"
  "concat (map snd (filter (\<lambda>x. fst x = Some ''image'') all_opts)) = ImageGroup"
  "concat (map snd (filter (\<lambda>x. fst x = Some ''messaging'') all_opts)) = MessagingGroup"
  "concat (map snd (filter (\<lambda>x. fst x = Some ''network'') all_opts)) = NetworkGroup"
  "concat (map snd (filter (\<lambda>x. fst x = Some ''object-storage'') all_opts)) = ObjectStoreGroup"
  "concat (map snd (filter (\<lambda>x. fst x = Some ''orchestration'') all_opts)) = OrchestrationGroup"
  "concat (map snd (filter (\<lambda>x. fst x = Some ''telemetry'') all_opts)) = TelemetryGroup"
  "concat (map snd (filter (\<lambda>x. fst x = Some ''volume'') all_opts)) = VolumeGroup"
  by (simp_all add: all_opts_def group_name_defs)

lemma default_catalogs:
  "default_value ''baremetal'' ''catalog_type'' = PStr ''baremetal''"
  "default_value ''compute'' ''catalog_type'' = PStr ''compute''"
  "default_value ''data_processing'' ''catalog_type'' = PStr ''data_processing''"
  "default_value ''database'' ''catalog_type'' = PStr ''database''"
  "default_value ''identity'' ''catalog_type'' = PStr ''identity''"
  "default_value ''image'' ''catalog_type'' = PStr ''image''"
  "default_value ''messaging'' ''catalog_type'' = PStr ''messaging''"
  "default_value ''network'' ''catalog_type'' = PStr ''network''"
  "default_value ''object-storage'' ''catalog_type'' = PStr ''object-store''"
  "default_value ''orchestration'' ''catalog_type'' = PStr ''orchestration''"
  "default_value ''telemetry'' ''catalog_type'' = PStr ''metering''"
  "default_value ''volume'' ''catalog_type'' = PStr ''volume''"
  unfolding default_value_def options_of_group
  by (simp_all add: an_opt_def BaremetalGroup_def ComputeGroup_def DataProcessingGroup_def DatabaseGroup_def IdentityGroup_def
      ImageGroup_def MessagingGroup_def NetworkGroup_def ObjectStoreGroup_def OrchestrationGroup_def
      TelemetryGroup_def VolumeGroup_def)

lemma network_options_declared:
  "''network'' \<in> set searched_groups" "declared_option ''network'' ''catalog_type''"
  "declared_option ''network'' ''region''" "declared_option ''network'' ''endpoint_type''"
  by code_simp+

theorem negative_client_like_regular_witness:
  "asks_for_group (conf_with []) ''network''
     (''negative_client'', build_negative_client (conf_with []) (cf_option (conf_with []) ''network'' ''catalog_type''))"
proof (rule negative_client_like_regular [OF network_options_declared])
  have "cf_option (conf_with []) = default_value" by (simp add: conf_with_def)
  then have "cf_option (conf_with []) ''network'' ''catalog_type'' = PStr ''network''"
    by (simp add: default_catalogs)
  moreover have "option_or_none (conf_with []) h ''catalog_type''
      = (if declared_option h ''catalog_type'' then default_value h ''catalog_type'' else PNone)" for h
    using \<open>cf_option (conf_with []) = default_value\<close> by (simp add: option_or_none_def)
  moreover have "default_value h ''catalog_type'' \<noteq> PStr ''network''"
    if "h \<in> set (filter (\<lambda>g. declared_option g ''catalog_type'') searched_groups)" "h \<noteq> ''network''" for h
    using that unfolding catalog_groups by (auto simp: default_catalogs)
  ultimately show "list_all (\<lambda>h. h = ''network'' \<or> option_or_none (conf_with []) h ''catalog_type''
      \<noteq> cf_option (conf_with []) ''network'' ''catalog_type'') searched_groups"
    by (auto simp: list_all_iff)
qed

end
