(* ===== verification/VolumeTestCase.thy ===== *)
theory VolumeTestCase
  imports TestBase VolumeBase ClientManagerProps
begin

text \<open>
  The classes \<open>BaseVolumeTest\<close> and \<open>BaseVolumeAdminTest\<close> of \<open>testcases/volume_tests/base.py\<close>: the stages of a class of
  volume tests over those of \<open>testcases/test.py\<close>.

  The attributes the class sets in \<open>resource_setup\<close> are None before. The clients are those of \<open>VolumeBase\<close>; the
  stages of the base class are arguments (\<open>super_...\<close>).

  The last sections hold \<open>setup_clients\<close> of the two classes: the attributes of the test class are
  clients of its managers, those of version 1 or of version 2 of the API. An attribute that a manager lacks is an
  AttributeError.
\<close>

section \<open>State\<close>

record ('r, 'm) volume_class_world = "('r, 'm) class_world" +
  vt_snapshots :: "py list option"
  vt_volumes :: "py list option"
  vt_qos_specs :: "py list option"

record volume_test =
  vt_class :: test_class
  vt_api_version :: int
  vt_rest :: rest_client
  vt_waiter :: waiter
  vt_caller :: "string option"
  vt_default_size :: py
  vt_image_ref :: py
  vt_flavor_ref :: py
  vt_enable_password :: bool

record volume_flags =
  vf_cinder :: bool
  vf_api_v1 :: bool
  vf_api_v2 :: bool

section \<open>Stages\<close>

definition volume_skip :: "volume_test \<Rightarrow> volume_flags \<Rightarrow> pyexc + unit" where
  "volume_skip vt vf =
     (if \<not> vf_cinder vf then Inl (SkipTest (cl_name (vt_class vt) @ '' skipped as Cinder is not available''))
      else if vt_api_version vt = 1 then
        (if \<not> vf_api_v1 vf then Inl (SkipTest ''Volume API v1 is disabled'') else Inr ())
      else if vt_api_version vt = 2 then
        (if \<not> vf_api_v2 vf then Inl (SkipTest ''Volume API v2 is disabled'') else Inr ())
      else Inl (Auto InvalidConfiguration []
             [(''message'', PStr (''Invalid Cinder API version ('' @ int_str (vt_api_version vt) @ '')''))]))"

definition vt_skip_checks :: "volume_test \<Rightarrow> volume_flags \<Rightarrow> ('w, unit) io \<Rightarrow> ('w, unit) io" where
  "vt_skip_checks vt vf super_skip_checks = bnd super_skip_checks (\<lambda>_. lift (volume_skip vt vf))"

definition vt_setup_credentials ::
    "(('r, 'm, 'x) class_world_scheme, unit) io \<Rightarrow> (('r, 'm, 'x) class_world_scheme, unit) io" where
  "vt_setup_credentials super_setup_credentials =
     bnd (set_network_resources (PBool False) (PBool False) (PBool False) (PBool False)) (\<lambda>_. super_setup_credentials)"

definition vt_resource_setup ::
    "(('r, 'm, 'x) volume_class_world_scheme, unit) io \<Rightarrow> (('r, 'm, 'x) volume_class_world_scheme, unit) io" where
  "vt_resource_setup super_resource_setup =
     bnd super_resource_setup (\<lambda>_. modify (\<lambda>w. w\<lparr>vt_snapshots := Some [], vt_volumes := Some []\<rparr>))"

definition name_field :: "volume_test \<Rightarrow> string" where
  "name_field vt = (if vt_api_version vt = 1 then ''display_name'' else ''name'')"

text \<open>An attribute that has not been set raises AttributeError.\<close>

definition attr_or_raise :: "('w \<Rightarrow> 'a option) \<Rightarrow> ('w, 'a) io" where
  "attr_or_raise get = bnd (gets get) (\<lambda>v. case v of None \<Rightarrow> throw AttrErr | Some x \<Rightarrow> ret x)"

text \<open>Two loops over the same list: ask for the deletions, then wait for them; both ignore exceptions.\<close>

definition clear_dicts ::
    "('w \<Rightarrow> py list option) \<Rightarrow> (py \<Rightarrow> ('w, unit) loopy) \<Rightarrow> (py \<Rightarrow> ('w, unit) loopy)
     \<Rightarrow> (('w, unit) loopy \<Rightarrow> ('w, unit) loopy) \<Rightarrow> ('w, unit) loopy" where
  "clear_dicts get del await guard =
     bnd_loop (io_loop (attr_or_raise get)) (\<lambda>xs.
     bnd_loop (each_loop xs (\<lambda>x. guard (del x))) (\<lambda>_. each_loop xs (\<lambda>x. guard (await x))))"

definition by_id :: "(py \<Rightarrow> ('w, unit) loopy) \<Rightarrow> py \<Rightarrow> ('w, unit) loopy" where
  "by_id f x = bnd_loop (io_loop (lift (getitem x ''id''))) f"

definition vt_clear_volumes ::
    "'r env \<Rightarrow> volume_test \<Rightarrow> (('r, 'm, 'x) volume_class_world_scheme) volume_clients
     \<Rightarrow> (('r, 'm, 'x) volume_class_world_scheme, unit) loopy" where
  "vt_clear_volumes env vt vo =
     clear_dicts vt_volumes (by_id (\<lambda>i. io_loop (vb_delete_volume env vo i)))
       (by_id (\<lambda>i. wait_for_resource_deletion (vt_rest vt) (vt_caller vt) ''volume'' (id_text env i)
                     (volume_deleted env (vo_volumes vo) (id_text env i)))) ignoring"

definition vt_clear_snapshots ::
    "'r env \<Rightarrow> volume_test \<Rightarrow> (('r, 'm, 'x) volume_class_world_scheme) volume_clients
     \<Rightarrow> (('r, 'm, 'x) volume_class_world_scheme, unit) loopy" where
  "vt_clear_snapshots env vt vo =
     clear_dicts vt_snapshots
       (by_id (\<lambda>i. io_loop (bnd (delete_snapshot (vo_snapshots vo) (id_text env i)) (\<lambda>_. ret ()))))
       (by_id (\<lambda>i. wait_for_resource_deletion (vt_rest vt) (vt_caller vt) ''volume-snapshot'' (id_text env i)
                     (snapshot_deleted env (vo_snapshots vo) (id_text env i)))) ignoring"

definition vt_resource_cleanup ::
    "'r env \<Rightarrow> volume_test \<Rightarrow> (('r, 'm, 'x) volume_class_world_scheme) volume_clients
     \<Rightarrow> (('r, 'm, 'x) volume_class_world_scheme, unit) loopy
     \<Rightarrow> (('r, 'm, 'x) volume_class_world_scheme, unit) loopy" where
  "vt_resource_cleanup env vt vo super_resource_cleanup =
     bnd_loop (vt_clear_snapshots env vt vo) (\<lambda>_.
     bnd_loop (vt_clear_volumes env vt vo) (\<lambda>_. super_resource_cleanup))"

definition vt_delete_all ::
    "(('r, 'm, 'x) volume_class_world_scheme, unit) loopy
     \<Rightarrow> (('r, 'm, 'x) volume_class_world_scheme, unit) loopy" where
  "vt_delete_all cleanup = ignoring cleanup"

section \<open>Creating\<close>

definition append_to ::
    "(('w \<Rightarrow> py list option)) \<Rightarrow> (py list option \<Rightarrow> 'w \<Rightarrow> 'w) \<Rightarrow> py \<Rightarrow> ('w, unit) io" where
  "append_to get put x = bnd (attr_or_raise get) (\<lambda>xs. modify (put (Some (xs @ [x]))))"

text \<open>\<open>fresh\<close> is a random name.\<close>

definition vt_create_volume ::
    "'r env \<Rightarrow> volume_test \<Rightarrow> (('r, 'm, 'x) volume_class_world_scheme) volume_clients \<Rightarrow> string \<Rightarrow> py
     \<Rightarrow> (string, py) dict \<Rightarrow> (('r, 'm, 'x) volume_class_world_scheme, response_body) loopy" where
  "vt_create_volume env vt vo fresh vol_size kwargs =
     bnd_loop (io_loop
       (bnd (create_volume env (if vt_api_version vt = 1 then 200 else 202) (vt_default_size vt) (vo_volumes vo)
               vol_size (dset kwargs (name_field vt) (PStr fresh))) (\<lambda>b.
        bnd (append_to vt_volumes (\<lambda>v. vt_volumes_update (\<lambda>_. v)) (PDict (rb_data b))) (\<lambda>_.
        bnd (lift (rb_item b ''id'')) (\<lambda>i. ret (b, i)))))) (\<lambda>(b, i).
     bnd_loop (wait_for_volume_status (vt_waiter vt)
                 (bnd (show_volume env (vo_volumes vo) (id_text env i)) (\<lambda>s. ret (rb_data s)))
                 (id_text env i) ''available'') (\<lambda>_. io_loop (ret b)))"

definition vt_create_snapshot ::
    "'r env \<Rightarrow> volume_test \<Rightarrow> (('r, 'm, 'x) volume_class_world_scheme) volume_clients \<Rightarrow> py
     \<Rightarrow> (string, py) dict \<Rightarrow> (('r, 'm, 'x) volume_class_world_scheme, response_body) loopy" where
  "vt_create_snapshot env vt vo volume_id kwargs =
     bnd_loop (io_loop
       (bnd (create_snapshot env (if vt_api_version vt = 1 then 200 else 202) (vo_snapshots vo) volume_id kwargs) (\<lambda>b.
        bnd (append_to vt_snapshots (\<lambda>v. vt_snapshots_update (\<lambda>_. v)) (PDict (rb_data b))) (\<lambda>_.
        bnd (lift (rb_item b ''id'')) (\<lambda>i. ret (b, i)))))) (\<lambda>(b, i).
     bnd_loop (wait_for_snapshot_status (vt_rest vt) env (show_snapshot env (vo_snapshots vo) (id_text env i))
                 (id_text env i) ''available'') (\<lambda>_. io_loop (ret b)))"

definition vt_create_server ::
    "'r env \<Rightarrow> schemas \<Rightarrow> volume_test \<Rightarrow> 'w requester \<Rightarrow> ('w, py) io \<Rightarrow> py \<Rightarrow> (string, py) dict
     \<Rightarrow> ('w, response_body) io" where
  "vt_create_server env sc vt rq get_network name kwargs =
     bnd get_network (\<lambda>network.
     bnd (lift (set_networks_kwarg network (Some kwargs))) (\<lambda>network_kwargs.
       create_server env sc (vt_enable_password vt) rq name (vt_image_ref vt) (vt_flavor_ref vt) network_kwargs))"

section \<open>Administrators\<close>

definition va_resource_setup ::
    "(('r, 'm, 'x) volume_class_world_scheme, unit) io \<Rightarrow> (('r, 'm, 'x) volume_class_world_scheme, unit) io" where
  "va_resource_setup super_resource_setup =
     bnd (vt_resource_setup super_resource_setup) (\<lambda>_. modify (\<lambda>w. w\<lparr>vt_qos_specs := Some []\<rparr>))"

definition va_create_test_qos_specs ::
    "'r env \<Rightarrow> (('r, 'm, 'x) volume_class_world_scheme) volume_clients \<Rightarrow> string \<Rightarrow> py \<Rightarrow> py \<Rightarrow> (string, py) dict
     \<Rightarrow> (('r, 'm, 'x) volume_class_world_scheme, response_body) io" where
  "va_create_test_qos_specs env vo fresh name consumer kwargs =
     bnd (create_qos env (vo_qos vo) (py_or name (PStr fresh)) (py_or consumer (PStr ''front-end'')) kwargs) (\<lambda>b.
     bnd (lift (rb_item b ''id'')) (\<lambda>i.
     bnd (append_to vt_qos_specs (\<lambda>v. vt_qos_specs_update (\<lambda>_. v)) i) (\<lambda>_. ret b)))"

text \<open>The ids are in the list; only a missing specification is ignored.\<close>

definition va_clear_qos_specs ::
    "'r env \<Rightarrow> volume_test \<Rightarrow> (('r, 'm, 'x) volume_class_world_scheme) volume_clients
     \<Rightarrow> (('r, 'm, 'x) volume_class_world_scheme, unit) loopy" where
  "va_clear_qos_specs env vt vo =
     clear_dicts vt_qos_specs
       (\<lambda>i. io_loop (bnd (delete_qos (vo_qos vo) (id_text env i) ''False'') (\<lambda>_. ret ())))
       (\<lambda>i. wait_for_resource_deletion (vt_rest vt) (vt_caller vt) ''qos'' (id_text env i)
              (qos_deleted env (vo_qos vo) (id_text env i))) (ignoring_class NotFound)"

definition va_resource_cleanup ::
    "'r env \<Rightarrow> volume_test \<Rightarrow> (('r, 'm, 'x) volume_class_world_scheme) volume_clients
     \<Rightarrow> (('r, 'm, 'x) volume_class_world_scheme, unit) loopy
     \<Rightarrow> (('r, 'm, 'x) volume_class_world_scheme, unit) loopy" where
  "va_resource_cleanup env vt vo super_resource_cleanup =
     bnd_loop (va_clear_qos_specs env vt vo) (\<lambda>_. vt_resource_cleanup env vt vo super_resource_cleanup)"

section \<open>Properties\<close>

text \<open>
  (qos_refusal_stops_cleanup): the cleanup of an administrator's class of volume tests starts with the QoS
  specifications and ignores only the missing ones: when the deletion of the first one is refused, the cleanup
  ends there, and no snapshot or volume of the class is deleted.
\<close>

theorem qos_refusal_stops_cleanup:
  assumes "vt_qos_specs w = Some (i # rest)" "delete_qos (vo_qos vo) (id_text env i) ''False'' w = (Inl e, w1)"
    "\<not> catches NotFound e"
  shows "va_resource_cleanup env vt vo super_resource_cleanup w = Some (Inl e, w1)"
  using assms
  by (simp add: va_resource_cleanup_def va_clear_qos_specs_def clear_dicts_def attr_or_raise_def bnd_loop_def
      io_loop_def bnd_apply ignoring_class_def catch_loop_def)

definition refusing_clients :: "'w volume_clients" where
  "refusing_clients =
     (let rq = (\<lambda>m u x h b. throw (Auto BadRequest [] [])) in
      \<lparr>vo_volumes = rq, vo_snapshots = rq, vo_types = rq, vo_qos = rq\<rparr>)"

definition demo_volume_class :: "(unit, unit) volume_class_world" where
  "demo_volume_class = \<lparr>now = 0, remote = (), sent = [], naps = [], tc_set_up_called = True, tc_teardowns = [],
     tc_at_exit = True, tc_managers = [], tc_provider = None, tc_validation = [], tc_network_resources = [],
     vt_snapshots = Some [PDict [(''id'', PStr ''s1'')]], vt_volumes = Some [PDict [(''id'', PStr ''v1'')]],
     vt_qos_specs = Some [PStr ''q1'', PStr ''q2'']\<rparr>"

theorem qos_refusal_stops_cleanup_witness:
  "va_resource_cleanup env vt refusing_clients (io_loop (ret ())) demo_volume_class
   = Some (Inl (Auto BadRequest [] []), demo_volume_class)"
proof (rule qos_refusal_stops_cleanup)
  show "vt_qos_specs demo_volume_class = Some (PStr ''q1'' # [PStr ''q2''])" by (simp add: demo_volume_class_def)
  show "delete_qos (vo_qos refusing_clients) (id_text env (PStr ''q1'')) ''False'' demo_volume_class
      = (Inl (Auto BadRequest [] []), demo_volume_class)"
    by (simp add: refusing_clients_def Let_def delete_qos_def delete_with_def http_delete_def bnd_apply)
  show "\<not> catches NotFound (Auto BadRequest [] [])"
    by (simp add: catches_def isinstance_of_def supers.simps)
qed

section \<open>The attributes\<close>

definition common_volume_attrs :: "(string \<times> string) list" where
  "common_volume_attrs =
    [(''servers_client'', ''servers_client''), (''networks_client'', ''networks_client''),
     (''images_client'', ''images_client'')]"

definition volume_attrs :: "int \<Rightarrow> (string \<times> string) list" where
  "volume_attrs api_version =
     (if api_version = 1 then
        [(''snapshots_client'', ''snapshots_client''), (''volumes_client'', ''volumes_client''),
         (''backups_client'', ''backups_client''), (''volume_services_client'', ''volume_services_client''),
         (''volumes_extension_client'', ''volumes_extension_client''),
         (''availability_zone_client'', ''volume_availability_zone_client'')]
      else
        [(''snapshots_client'', ''snapshots_v2_client''), (''volumes_client'', ''volumes_v2_client''),
         (''volumes_extension_client'', ''volumes_v2_extension_client''),
         (''availability_zone_client'', ''volume_v2_availability_zone_client'')])"

definition admin_volume_attrs :: "int \<Rightarrow> (string \<times> string) list" where
  "admin_volume_attrs api_version =
     (if api_version = 1 then
        [(''volume_qos_client'', ''volume_qos_client''), (''admin_volume_services_client'', ''volume_services_client''),
         (''volume_types_client'', ''volume_types_client''), (''admin_volume_client'', ''volumes_client''),
         (''hosts_client'', ''volume_hosts_client''), (''admin_snapshots_client'', ''snapshots_client''),
         (''backups_adm_client'', ''backups_client''), (''quotas_client'', ''volume_quotas_client'')]
      else if api_version = 2 then
        [(''volume_qos_client'', ''volume_qos_v2_client''),
         (''admin_volume_services_client'', ''volume_services_v2_client''),
         (''volume_types_client'', ''volume_types_v2_client''), (''admin_volume_client'', ''volumes_v2_client''),
         (''hosts_client'', ''volume_hosts_v2_client''), (''admin_snapshots_client'', ''snapshots_v2_client''),
         (''backups_adm_client'', ''backups_v2_client''), (''quotas_client'', ''volume_quotas_v2_client'')]
      else [])"

text \<open>\<open>cls.a = os.b\<close>, one after the other.\<close>

primrec take_clients ::
    "manager \<Rightarrow> (string \<times> string) list \<Rightarrow> (string \<times> built) list \<Rightarrow> pyexc + (string \<times> built) list" where
  "take_clients m [] cls = Inr cls"
| "take_clients m (x # xs) cls =
     (case dget (mg_clients m) (snd x) of
        None \<Rightarrow> Inl AttrErr
      | Some b \<Rightarrow> take_clients m xs (dset cls (fst x) b))"

definition volume_setup_clients ::
    "int \<Rightarrow> manager \<Rightarrow> (string \<times> built) list \<Rightarrow> pyexc + (string \<times> built) list" where
  "volume_setup_clients api_version os cls =
     bindE (take_clients os common_volume_attrs cls) (take_clients os (volume_attrs api_version))"

definition admin_volume_setup_clients ::
    "int \<Rightarrow> manager \<Rightarrow> manager \<Rightarrow> (string \<times> built) list \<Rightarrow> pyexc + (string \<times> built) list" where
  "admin_volume_setup_clients api_version os os_adm cls =
     bindE (volume_setup_clients api_version os cls) (take_clients os_adm (admin_volume_attrs api_version))"

section \<open>Every client is there\<close>

lemma take_clients_ok:
  "list_all (\<lambda>x. dget (mg_clients m) (snd x) \<noteq> None) xs \<Longrightarrow>
   \<exists>cls'. take_clients m xs cls = Inr cls'
     \<and> (\<forall>a. dget cls' a = (case map_of (rev xs) a of None \<Rightarrow> dget cls a | Some b \<Rightarrow> dget (mg_clients m) b))"
proof (induction xs arbitrary: cls)
  case (Cons x xs)
  then obtain b where b: "dget (mg_clients m) (snd x) = Some b" by auto
  obtain cls' where "take_clients m xs (dset cls (fst x) b) = Inr cls'"
    "\<forall>a. dget cls' a = (case map_of (rev xs) a of None \<Rightarrow> dget (dset cls (fst x) b) a | Some c \<Rightarrow> dget (mg_clients m) c)"
    using Cons by fastforce
  with b show ?case by (cases x) (auto simp: map_add_def split: option.splits)
qed simp

lemma client_found:
  assumes "manager_init env cf given service w = (Inr m, w')" "(a, b) \<in> set (mg_clients m)"
  shows "dget (mg_clients m) a = Some b"
  using manager_attributes_distinct [OF assms(1)] assms(2) by (simp add: dget_def)

lemma volume_part:
  assumes "manager_init env cf given service w = (Inr m, w')"
  shows "set (set_volume_clients cf) \<subseteq> set (mg_clients m)" "set (set_compute_clients cf) \<subseteq> set (mg_clients m)"
  using assms by (auto elim: manager_initE)

lemma plain_volume_client:
  assumes "manager_init env cf given service w = (Inr m, w')" "(a, cls) \<in> set volume_names_first \<union> set volume_names_rest"
  shows "dget (mg_clients m) a = Some (build cls (group_params cf ''volume''))"
proof (rule client_found [OF assms(1)])
  have "(a, build cls (group_params cf ''volume'')) \<in> set (set_volume_clients cf)"
    using assms(2) by (force simp: set_volume_clients_def build_all_def Let_def)
  then show "(a, build cls (group_params cf ''volume'')) \<in> set (mg_clients m)"
    using volume_part(1) [OF assms(1)] by blast
qed

lemma sized_volume_client:
  assumes "manager_init env cf given service w = (Inr m, w')"
    "(a, cls) \<in> {(''volumes_client'', ''VolumesClient''), (''volumes_v2_client'', ''VolumesV2Client'')}"
  shows "dget (mg_clients m) a = Some (build cls (dset (group_params cf ''volume'') ''default_volume_size''
    (cf_option cf ''volume'' ''volume_size'')))"
proof (rule client_found [OF assms(1)])
  have "(a, build cls (dset (group_params cf ''volume'') ''default_volume_size'' (cf_option cf ''volume'' ''volume_size'')))
      \<in> set (set_volume_clients cf)"
    using assms(2) by (auto simp: set_volume_clients_def Let_def)
  then show "(a, build cls (dset (group_params cf ''volume'') ''default_volume_size'' (cf_option cf ''volume'' ''volume_size'')))
      \<in> set (mg_clients m)"
    using volume_part(1) [OF assms(1)] by blast
qed

lemma compute_client_found:
  assumes "manager_init env cf given service w = (Inr m, w')" "a \<in> {''servers_client'', ''networks_client'', ''images_client''}"
  shows "\<exists>b. dget (mg_clients m) a = Some b"
proof -
  have "a \<in> set (map fst (set_compute_clients cf))"
    unfolding attributes_of_parts(1) using assms(2)
    by (auto simp: compute_names_first_def compute_names_rest_def)
  then obtain b where "(a, b) \<in> set (mg_clients m)" using volume_part(2) [OF assms(1)] by fastforce
  then show ?thesis using client_found [OF assms(1)] by blast
qed

lemma built_api_version [simp]: "rc_api_version (bt_client (build cls params)) = class_api_version cls"
  by (simp add: build_def)

text \<open>A client of the block storage service with the version \<open>v\<close> of its API.\<close>

definition volume_client_of :: "conf \<Rightarrow> py \<Rightarrow> built option \<Rightarrow> bool" where
  "volume_client_of cf v x =
     (case x of
        None \<Rightarrow> False
      | Some b \<Rightarrow> rc_api_version (bt_client b) = v \<and> asks_for_group cf ''volume'' ([], b))"

lemma v2_names:
  "set [(''snapshots_v2_client'', ''SnapshotsV2Client''), (''volumes_v2_extension_client'', ''VolumeV2ExtensionClient''),
    (''volume_v2_availability_zone_client'', ''VolumeV2AvailabilityZoneClient''),
    (''volume_qos_v2_client'', ''QosSpecsV2Client''), (''volume_services_v2_client'', ''VolumesServicesV2Client''),
    (''volume_types_v2_client'', ''VolumeTypesV2Client''), (''volume_hosts_v2_client'', ''VolumeHostsV2Client''),
    (''backups_v2_client'', ''BackupsClientV2''), (''volume_quotas_v2_client'', ''VolumeQuotasV2Client'')]
   \<subseteq> set volume_names_first \<union> set volume_names_rest"
  by code_simp

lemma v2_client_of:
  assumes "manager_init env cf given service w = (Inr m, w')"
    and "a \<in> snd ` set (volume_attrs 2) \<union> snd ` set (admin_volume_attrs 2)"
  shows "volume_client_of cf (PStr ''v2'') (dget (mg_clients m) a)"
proof -
  note plain = plain_volume_client [OF assms(1) subsetD [OF v2_names]]
  note sized = sized_volume_client [OF assms(1)]
  show ?thesis
    using assms(2)
    by (auto simp: volume_attrs_def admin_volume_attrs_def volume_client_of_def plain sized class_api_version_def
        v3_classes_def volume_v2_classes_def intro!: built_for_group)
qed

lemma attrs_looked_up:
  "list_all (\<lambda>x. map_of (rev (admin_volume_attrs 2)) (fst x) = Some (snd x)) (admin_volume_attrs 2)"
  "list_all (\<lambda>x. map_of (rev (admin_volume_attrs 2)) (fst x) = None
      \<and> map_of (rev (volume_attrs 2)) (fst x) = Some (snd x)) (volume_attrs 2)"
  by code_simp+

text \<open>
  (volume_tests_speak_v2): with version 2 of the API every block storage client of a test class, of its own manager or
  of the administrator's, is one of version 2 that asks for the block storage service, and none is missing.
\<close>

theorem volume_tests_speak_v2:
  assumes "manager_init env cf given service w = (Inr os, w')"
    and "manager_init env cf admin_given admin_service v = (Inr os_adm, v')"
  shows "\<exists>cls. admin_volume_setup_clients 2 os os_adm [] = Inr cls
    \<and> list_all (\<lambda>x. volume_client_of cf (PStr ''v2'') (dget cls (fst x))) (volume_attrs 2 @ admin_volume_attrs 2)"
proof -
  note own = v2_client_of [OF assms(1)] and admin = v2_client_of [OF assms(2)]
  have there: "dget (mg_clients m) a \<noteq> None" if "volume_client_of cf (PStr ''v2'') (dget (mg_clients m) a)" for m a
    using that by (auto simp: volume_client_of_def split: option.splits)
  obtain c1 where c1: "take_clients os common_volume_attrs [] = Inr c1"
    using take_clients_ok [of os common_volume_attrs "[]"] compute_client_found [OF assms(1)]
    by (fastforce simp: common_volume_attrs_def)
  obtain c2 where c2: "take_clients os (volume_attrs 2) c1 = Inr c2"
      "\<forall>a. dget c2 a = (case map_of (rev (volume_attrs 2)) a of None \<Rightarrow> dget c1 a | Some b \<Rightarrow> dget (mg_clients os) b)"
    using take_clients_ok [of os "volume_attrs 2" c1] own there by (fastforce simp: list_all_iff)
  obtain c3 where c3: "take_clients os_adm (admin_volume_attrs 2) c2 = Inr c3"
      "\<forall>a. dget c3 a = (case map_of (rev (admin_volume_attrs 2)) a of None \<Rightarrow> dget c2 a
         | Some b \<Rightarrow> dget (mg_clients os_adm) b)"
    using take_clients_ok [of os_adm "admin_volume_attrs 2" c2] admin there by (fastforce simp: list_all_iff)
  have "volume_client_of cf (PStr ''v2'') (dget c3 (fst x))" if "x \<in> set (volume_attrs 2 @ admin_volume_attrs 2)" for x
  proof (cases "x \<in> set (admin_volume_attrs 2)")
    case True
    then have "map_of (rev (admin_volume_attrs 2)) (fst x) = Some (snd x)"
      using attrs_looked_up(1) by (simp add: list_all_iff)
    then show ?thesis using True admin c3(2) by simp
  next
    case False
    then have x: "x \<in> set (volume_attrs 2)" using that by simp
    then have "map_of (rev (admin_volume_attrs 2)) (fst x) = None" "map_of (rev (volume_attrs 2)) (fst x) = Some (snd x)"
      using attrs_looked_up(2) by (simp_all add: list_all_iff)
    then show ?thesis using x own c3(2) c2(2) by simp
  qed
  then show ?thesis
    using c1 c2(1) c3(1) by (simp add: admin_volume_setup_clients_def volume_setup_clients_def list_all_iff)
qed

theorem volume_tests_speak_v2_witness:
  "\<exists>m cls. manager_init (demo_env []) (conf_with identity_urls) (JustCredentials valid_creds) PNone plain_world
      = (Inr m, plain_world)
    \<and> admin_volume_setup_clients 2 m m [] = Inr cls
    \<and> volume_client_of (conf_with identity_urls) (PStr ''v2'') (dget cls ''volumes_client'')"
proof -
  obtain m where made: "manager_init (demo_env []) (conf_with identity_urls) (JustCredentials valid_creds) PNone plain_world
      = (Inr m, plain_world)"
    using demo_manager_made by blast
  from volume_tests_speak_v2 [OF made made] made show ?thesis by (auto simp: volume_attrs_def)
qed

end
