(* ===== verification/ConfigProps.thy ===== *)
theory ConfigProps
  imports Config
begin

text \<open>
  The declarations are consistent, so registering them succeeds and every group that the object holds exists; which
  file is read; what happens without a directory for the log; and the path that is set too late.
\<close>

section \<open>The declarations\<close>

fun fits :: "opt_type \<Rightarrow> py \<Rightarrow> bool" where
  "fits ty PNone = True"
| "fits StrOpt (PStr s) = True"
| "fits BoolOpt (PBool b) = True"
| "fits IntOpt (PInt i) = True"
| "fits ListOpt (PList xs) = list_all (fits StrOpt) xs"
| "fits DictOpt (PDict d) = True"
| "fits ty v = False"

definition well_declared :: "opt \<Rightarrow> bool" where
  "well_declared opt =
     (fits (op_type opt) (op_default opt)
      \<and> (case op_choices opt of None \<Rightarrow> True | Some cs \<Rightarrow> op_default opt \<in> set cs))"

definition sound_group :: "opt list \<Rightarrow> bool" where
  "sound_group opts = (distinct (map op_name opts) \<and> list_all well_declared opts)"

lemma declarations_sound:
  "distinct (map fst all_opts) \<and> list_all (sound_group \<circ> snd) all_opts"
  by code_simp

lemma held_groups_declared: "Some ` snd ` set group_attributes \<subseteq> fst ` set all_opts"
  by code_simp

lemma domain_options_declared:
  "list_all (\<lambda>(g, n). list_ex (\<lambda>(h, opts). h = Some g \<and> n \<in> op_name ` set opts) all_opts)
     [(''auth'', ''default_credentials_domain_name''), (''identity'', ''domain_name''), (''identity'', ''alt_domain_name'')]"
  by code_simp

section \<open>Registration\<close>

text \<open>
  What \<open>oslo.config\<close> promises of a store in which \<open>gs\<close> are the groups and \<open>os\<close> the options registered so far: a
  new group and a new option of a known group are accepted, and what is registered can be read and be given
  another default.
\<close>

definition keeping :: "('w \<Rightarrow> string list) \<Rightarrow> ('w \<Rightarrow> (string option \<times> string) list) \<Rightarrow> 'w \<Rightarrow> 'w \<Rightarrow> bool" where
  "keeping gs os w w' = (gs w' = gs w \<and> os w' = os w)"

definition store_laws ::
    "'w oslo \<Rightarrow> ('w \<Rightarrow> string list) \<Rightarrow> ('w \<Rightarrow> (string option \<times> string) list) \<Rightarrow> bool" where
  "store_laws oc gs os =
     ((\<forall>g w. g \<notin> set (gs w) \<longrightarrow>
         (\<exists>w'. oc_register_group oc g w = (Inr (), w') \<and> gs w' = gs w @ [g] \<and> os w' = os w))
      \<and> (\<forall>opt g w. set_option g \<subseteq> set (gs w) \<and> (g, op_name opt) \<notin> set (os w) \<longrightarrow>
         (\<exists>w'. oc_register_opt oc opt g w = (Inr (), w') \<and> gs w' = gs w \<and> os w' = os w @ [(g, op_name opt)]))
      \<and> (\<forall>g w. g \<in> set (gs w) \<longrightarrow> (\<exists>w'. oc_group oc g w = (Inr (), w') \<and> keeping gs os w w'))
      \<and> (\<forall>g n w. (Some g, n) \<in> set (os w) \<longrightarrow>
         (\<exists>v w'. oc_option oc g n w = (Inr v, w') \<and> keeping gs os w w')
         \<and> (\<forall>v. \<exists>w'. oc_set_default oc n v g w = (Inr (), w') \<and> keeping gs os w w')))"

lemma store_lawsD:
  assumes "store_laws oc gs os"
  shows "g \<notin> set (gs w) \<Longrightarrow> \<exists>w'. oc_register_group oc g w = (Inr (), w') \<and> gs w' = gs w @ [g] \<and> os w' = os w"
    and "set_option h \<subseteq> set (gs w) \<Longrightarrow> (h, op_name opt) \<notin> set (os w) \<Longrightarrow>
      \<exists>w'. oc_register_opt oc opt h w = (Inr (), w') \<and> gs w' = gs w \<and> os w' = os w @ [(h, op_name opt)]"
    and "g \<in> set (gs w) \<Longrightarrow> \<exists>w'. oc_group oc g w = (Inr (), w') \<and> keeping gs os w w'"
    and "(Some g, n) \<in> set (os w) \<Longrightarrow> \<exists>v w'. oc_option oc g n w = (Inr v, w') \<and> keeping gs os w w'"
    and "(Some g, n) \<in> set (os w) \<Longrightarrow> \<exists>w'. oc_set_default oc n v g w = (Inr (), w') \<and> keeping gs os w w'"
  using assms unfolding store_laws_def by blast+

definition named_options :: "(string option \<times> opt list) list \<Rightarrow> (string option \<times> string) list" where
  "named_options L = concat (map (\<lambda>(g, opts). map (\<lambda>opt. (g, op_name opt)) opts) L)"

definition named_groups :: "(string option \<times> opt list) list \<Rightarrow> string list" where
  "named_groups L = List.map_filter fst L"

lemma options_of_group_registered:
  assumes "store_laws oc gs os"
  shows "set_option g \<subseteq> set (gs w) \<Longrightarrow> distinct (map op_name opts) \<Longrightarrow>
    \<forall>opt \<in> set opts. (g, op_name opt) \<notin> set (os w) \<Longrightarrow>
    \<exists>w'. for_each opts (\<lambda>opt. oc_register_opt oc opt g) w = (Inr (), w')
      \<and> gs w' = gs w \<and> os w' = os w @ map (\<lambda>opt. (g, op_name opt)) opts"
proof (induction opts arbitrary: w)
  case (Cons opt opts)
  from store_lawsD(2) [OF assms, of g w opt] Cons.prems obtain w1 where
    w1: "oc_register_opt oc opt g w = (Inr (), w1)" "gs w1 = gs w" "os w1 = os w @ [(g, op_name opt)]"
    by auto
  with Cons.prems have "\<exists>w'. for_each opts (\<lambda>opt. oc_register_opt oc opt g) w1 = (Inr (), w')
      \<and> gs w' = gs w1 \<and> os w' = os w1 @ map (\<lambda>opt. (g, op_name opt)) opts"
    by (intro Cons.IH) (auto simp: image_iff)
  with w1 show ?case by (auto simp: bnd_def)
qed simp

lemma group_registered:
  assumes laws: "store_laws oc gs os" and sound: "distinct (map op_name opts)"
    and new: "set_option g \<inter> set (gs w) = {}" "g \<notin> fst ` set (os w)"
  shows "\<exists>w'. register_opt_group oc g opts w = (Inr (), w')
    \<and> gs w' = gs w @ named_groups [(g, opts)] \<and> os w' = os w @ named_options [(g, opts)]"
proof -
  obtain w1 where w1: "(case g of None \<Rightarrow> ret () | Some n \<Rightarrow> oc_register_group oc n) w = (Inr (), w1)"
      "gs w1 = gs w @ named_groups [(g, opts)]" "os w1 = os w"
    using new store_lawsD(1) [OF laws, of "the g" w]
    by (cases g) (auto simp: named_groups_def map_filter_simps)
  have "\<exists>w'. for_each opts (\<lambda>opt. oc_register_opt oc opt g) w1 = (Inr (), w')
      \<and> gs w' = gs w1 \<and> os w' = os w1 @ map (\<lambda>opt. (g, op_name opt)) opts"
    using new sound w1(2,3)
    by (intro options_of_group_registered [OF laws])
       (cases g; force simp: named_groups_def map_filter_simps)+
  with w1 show ?thesis by (auto simp: register_opt_group_def bnd_def named_options_def)
qed

lemma groups_registered:
  assumes laws: "store_laws oc gs os"
  shows "distinct (map fst L) \<Longrightarrow> list_all (sound_group \<circ> snd) L \<Longrightarrow> set (named_groups L) \<inter> set (gs w) = {} \<Longrightarrow>
    fst ` set L \<inter> fst ` set (os w) = {} \<Longrightarrow>
    \<exists>w'. for_each L (\<lambda>(g, os). register_opt_group oc g os) w = (Inr (), w')
      \<and> gs w' = gs w @ named_groups L \<and> os w' = os w @ named_options L"
proof (induction L arbitrary: w)
  case (Cons x L)
  obtain g opts where x: "x = (g, opts)" by (cases x)
  have split: "named_groups (x # L) = named_groups [x] @ named_groups L"
    "named_options (x # L) = named_options [x] @ named_options L"
    by (cases g; simp add: named_groups_def named_options_def map_filter_simps x)+
  have "set_option g \<subseteq> set (named_groups (x # L))"
    by (cases g) (simp_all add: named_groups_def map_filter_simps x)
  with Cons.prems obtain w1 where w1: "register_opt_group oc g opts w = (Inr (), w1)"
      "gs w1 = gs w @ named_groups [x]" "os w1 = os w @ named_options [x]"
    using group_registered [OF laws, of opts g w] by (auto simp: x sound_group_def)
  have later: "g \<notin> fst ` set L" using Cons.prems(1) by (auto simp: x)
  then have "set (named_groups [x]) \<inter> set (named_groups L) = {}"
    by (cases g) (force simp: named_groups_def map_filter_simps x map_filter_def)+
  then have groups: "set (named_groups L) \<inter> set (gs w1) = {}"
    using Cons.prems(3) w1(2) split(1) by auto
  have "fst ` set (named_options [x]) \<subseteq> {g}" by (auto simp: named_options_def x)
  then have options: "fst ` set L \<inter> fst ` set (os w1) = {}"
    using Cons.prems(4) later w1(3) by (auto simp: image_Un)
  have "\<exists>w'. for_each L (\<lambda>(g, os). register_opt_group oc g os) w1 = (Inr (), w')
      \<and> gs w' = gs w1 @ named_groups L \<and> os w' = os w1 @ named_options L"
    using Cons.prems(1,2) by (intro Cons.IH groups options) simp_all
  with w1 show ?case using split by (auto simp: bnd_def x)
qed (simp add: named_groups_def named_options_def map_filter_simps)

section \<open>The configuration of a run\<close>

text \<open>The calls beside the registration end without an error and leave the registered options alone.\<close>

definition quiet_call :: "('w \<Rightarrow> string list) \<Rightarrow> ('w \<Rightarrow> (string option \<times> string) list) \<Rightarrow> ('w, 'a) io \<Rightarrow> bool" where
  "quiet_call gs os m = (\<forall>w. \<exists>x w'. m w = (Inr x, w') \<and> keeping gs os w w')"

lemma quiet_callE:
  assumes "quiet_call gs os m"
  obtains x w' where "m w = (Inr x, w')" "gs w' = gs w" "os w' = os w"
  using assms unfolding quiet_call_def keeping_def by blast

lemma quiet_step:
  assumes "quiet_call gs os m" "gs w = G" "os w = N"
  obtains x w' where "m w = (Inr x, w')" "gs w' = G" "os w' = N"
  using assms by (metis quiet_callE)

lemma quiet_unit:
  fixes m :: "('w, unit) io"
  assumes "quiet_call gs os m" "gs w = G" "os w = N"
  obtains w' where "m w = (Inr (), w')" "gs w' = G" "os w' = N"
  using quiet_step [OF assms] by (metis old.unit.exhaust)

definition calls_succeed ::
    "'w oslo \<Rightarrow> ('w \<Rightarrow> string list) \<Rightarrow> ('w \<Rightarrow> (string option \<times> string) list) \<Rightarrow> bool" where
  "calls_succeed oc gs os =
     ((\<forall>n. quiet_call gs os (oc_environ oc n)) \<and> (\<forall>p. quiet_call gs os (oc_isfile oc p))
      \<and> (\<forall>p. quiet_call gs os (oc_exists oc p)) \<and> (\<forall>p. quiet_call gs os (oc_mkdir oc p))
      \<and> (\<forall>fs. quiet_call gs os (oc_load oc fs)) \<and> quiet_call gs os (oc_log_options oc)
      \<and> quiet_call gs os (oc_log_setup oc))"

definition logs_to ::
    "'w oslo \<Rightarrow> ('w \<Rightarrow> string list) \<Rightarrow> ('w \<Rightarrow> (string option \<times> string) list) \<Rightarrow> py \<Rightarrow> bool" where
  "logs_to oc gs os d = (\<forall>w. \<exists>w'. oc_log_dir oc w = (Inr d, w') \<and> keeping gs os w w')"

lemma quiet_call_bnd: "quiet_call gs os m \<Longrightarrow> (\<And>x. quiet_call gs os (f x)) \<Longrightarrow> quiet_call gs os (bnd m f)"
  unfolding quiet_call_def keeping_def bnd_def by (metis (no_types, lifting) old.prod.case sum.case(2))

lemma quiet_call_ret [simp]: "quiet_call gs os (ret x)"
  by (simp add: quiet_call_def keeping_def)

lemma wanted_path_quiet: "calls_succeed oc gs os \<Longrightarrow> quiet_call gs os (wanted_path oc default_dir config_path)"
  by (auto simp: wanted_path_def calls_succeed_def intro!: quiet_call_bnd)

lemma log_dir_quiet:
  assumes calls: "calls_succeed oc gs os" and dir: "logs_to oc gs os (PStr p)"
  shows "quiet_call gs os (ensure_log_dir oc)"
  unfolding quiet_call_def
proof
  fix w
  obtain w1 where w1: "oc_log_dir oc w = (Inr (PStr p), w1)" "keeping gs os w w1"
    using dir unfolding logs_to_def by blast
  have "quiet_call gs os (bnd (oc_exists oc p) (\<lambda>there. if there then ret () else oc_mkdir oc p))"
    using calls by (auto simp: calls_succeed_def intro!: quiet_call_bnd)
  then obtain x w' where
    "bnd (oc_exists oc p) (\<lambda>there. if there then ret () else oc_mkdir oc p) w1 = (Inr x, w')"
    "gs w' = gs w1" "os w' = os w1"
    by (rule quiet_callE)
  with w1 show "\<exists>x w'. ensure_log_dir oc w = (Inr x, w') \<and> keeping gs os w w'"
    by (auto simp: ensure_log_dir_def bnd_def keeping_def)
qed

text \<open>What is left once the file is read.\<close>

lemma file_read:
  assumes "calls_succeed oc gs os"
  shows "\<exists>w'. config_init oc default_dir config_path w
      = bnd (ensure_log_dir oc) (\<lambda>_. bnd (register_opts oc) (\<lambda>_. set_attrs oc)) w' \<and> keeping gs os w w'"
proof -
  have quiet: "\<And>p. quiet_call gs os (oc_isfile oc p)" "quiet_call gs os (oc_log_options oc)"
      "\<And>fs. quiet_call gs os (oc_load oc fs)" "quiet_call gs os (oc_log_setup oc)"
    using assms by (auto simp: calls_succeed_def)
  obtain wanted w1 where w1: "wanted_path oc default_dir config_path w = (Inr wanted, w1)" "gs w1 = gs w" "os w1 = os w"
    using quiet_callE [OF wanted_path_quiet [OF assms]] by blast
  obtain b w2 where w2: "oc_isfile oc wanted w1 = (Inr b, w2)" "gs w2 = gs w" "os w2 = os w"
    using quiet_step [OF quiet(1) w1(2,3)] by blast
  obtain w3 where w3: "oc_log_options oc w2 = (Inr (), w3)" "gs w3 = gs w" "os w3 = os w"
    using quiet_unit [OF quiet(2) w2(2,3)] by blast
  obtain c w4 where w4: "oc_isfile oc (if b then wanted else failsafe_path) w3 = (Inr c, w4)"
      "gs w4 = gs w" "os w4 = os w"
    using quiet_step [OF quiet(1) w3(2,3)] by blast
  obtain w5 where w5: "oc_load oc (if c then Some [if b then wanted else failsafe_path] else None) w4 = (Inr (), w5)"
      "gs w5 = gs w" "os w5 = os w"
    using quiet_unit [OF quiet(3) w4(2,3)] by blast
  obtain w6 where "oc_log_setup oc w5 = (Inr (), w6)" "gs w6 = gs w" "os w6 = os w"
    using quiet_unit [OF quiet(4) w5(2,3)] by blast
  with w1 w2 w3 w4 w5 show ?thesis by (auto simp: config_init_def bnd_apply Let_def keeping_def)
qed

lemma held_groups_found:
  assumes "store_laws oc gs os"
  shows "snd ` set attrs \<subseteq> set (gs w) \<Longrightarrow>
    \<exists>w'. for_each attrs (\<lambda>(attr, g). oc_group oc g) w = (Inr (), w') \<and> keeping gs os w w'"
proof (induction attrs arbitrary: w)
  case (Cons x attrs)
  then obtain w1 where "oc_group oc (snd x) w = (Inr (), w1)" "keeping gs os w w1"
    using store_lawsD(3) [OF assms, of "snd x" w] by auto
  moreover then have "\<exists>w'. for_each attrs (\<lambda>(attr, g). oc_group oc g) w1 = (Inr (), w') \<and> keeping gs os w1 w'"
    using Cons.prems by (intro Cons.IH) (simp add: keeping_def)
  ultimately show ?case by (cases x) (auto simp: bnd_def keeping_def)
qed (simp add: keeping_def)

lemma attributes_set:
  assumes laws: "store_laws oc gs os" and held: "snd ` set group_attributes \<subseteq> set (gs w)"
    and declared: "(Some ''auth'', ''default_credentials_domain_name'') \<in> set (os w)"
      "(Some ''identity'', ''domain_name'') \<in> set (os w)" "(Some ''identity'', ''alt_domain_name'') \<in> set (os w)"
  shows "\<exists>w'. set_attrs oc w = (Inr group_attributes, w') \<and> keeping gs os w w'"
proof -
  obtain w1 where w1: "for_each group_attributes (\<lambda>(attr, g). oc_group oc g) w = (Inr (), w1)" "keeping gs os w w1"
    using held_groups_found [OF laws held] by blast
  have os1: "os w1 = os w" using w1(2) by (simp add: keeping_def)
  obtain v w2 where w2: "oc_option oc ''auth'' ''default_credentials_domain_name'' w1 = (Inr v, w2)"
      "keeping gs os w1 w2"
    using store_lawsD(4) [OF laws, of _ _ w1] declared(1) unfolding os1 by blast
  have os2: "os w2 = os w" using w2(2) os1 by (simp add: keeping_def)
  obtain w3 where w3: "oc_set_default oc ''domain_name'' v ''identity'' w2 = (Inr (), w3)" "keeping gs os w2 w3"
    using store_lawsD(5) [OF laws, of _ _ w2] declared(2) unfolding os2 by blast
  have os3: "os w3 = os w" using w3(2) os2 by (simp add: keeping_def)
  obtain u w4 where w4: "oc_option oc ''auth'' ''default_credentials_domain_name'' w3 = (Inr u, w4)"
      "keeping gs os w3 w4"
    using store_lawsD(4) [OF laws, of _ _ w3] declared(1) unfolding os3 by blast
  have os4: "os w4 = os w" using w4(2) os3 by (simp add: keeping_def)
  obtain w5 where w5: "oc_set_default oc ''alt_domain_name'' u ''identity'' w4 = (Inr (), w5)" "keeping gs os w4 w5"
    using store_lawsD(5) [OF laws, of _ _ w4] declared(3) unfolding os4 by blast
  show ?thesis using w1 w2 w3 w4 w5 by (simp add: set_attrs_def bnd_def keeping_def)
qed

text \<open>
  C24 (configuration_complete): from an empty store, with the calls of the file system and of the log succeeding and a
  directory for the log configured, the object is made: every declared option is registered, once and in the order
  of the declarations, and each of its attributes holds a registered group.
\<close>

theorem configuration_complete:
  assumes laws: "store_laws oc gs os" and calls: "calls_succeed oc gs os" and dir: "logs_to oc gs os (PStr p)"
    and new: "gs w = []" "os w = []"
  shows "\<exists>w'. config_init oc default_dir config_path w = (Inr group_attributes, w')
    \<and> os w' = named_options list_opts \<and> snd ` set group_attributes \<subseteq> set (gs w')"
proof -
  have same: "list_opts = all_opts" by (simp add: list_opts_def)
  obtain w1 where w1: "config_init oc default_dir config_path w
      = bnd (ensure_log_dir oc) (\<lambda>_. bnd (register_opts oc) (\<lambda>_. set_attrs oc)) w1" "keeping gs os w w1"
    using file_read [OF calls] by blast
  have empty: "gs w1 = []" "os w1 = []" using w1(2) new by (simp_all add: keeping_def)
  obtain w2 where w2: "ensure_log_dir oc w1 = (Inr (), w2)" "gs w2 = []" "os w2 = []"
    using quiet_unit [OF log_dir_quiet [OF calls dir] empty] by blast
  have "\<exists>w3. register_opts oc w2 = (Inr (), w3) \<and> gs w3 = gs w2 @ named_groups all_opts
      \<and> os w3 = os w2 @ named_options all_opts"
    unfolding register_opts_def
    by (rule groups_registered [OF laws conjunct1 [OF declarations_sound] conjunct2 [OF declarations_sound]])
       (simp_all only: w2 list.set image_empty Int_empty_right)
  then obtain w3 where w3: "register_opts oc w2 = (Inr (), w3)" "gs w3 = named_groups all_opts"
      "os w3 = named_options all_opts"
    unfolding w2(2,3) append_Nil by blast
  have held: "snd ` set group_attributes \<subseteq> set (named_groups all_opts)" by code_simp
  have declared: "(Some ''auth'', ''default_credentials_domain_name'') \<in> set (named_options all_opts)"
      "(Some ''identity'', ''domain_name'') \<in> set (named_options all_opts)"
      "(Some ''identity'', ''alt_domain_name'') \<in> set (named_options all_opts)"
    by code_simp+
  have "\<exists>w'. set_attrs oc w3 = (Inr group_attributes, w') \<and> keeping gs os w3 w'"
    by (rule attributes_set [OF laws]) (simp_all only: w3 held declared)
  then show ?thesis using w1(1) w2 w3 held by (auto simp: bnd_apply same keeping_def)
qed

text \<open>A store that keeps the names of its groups and options, with no files and a directory for the log.\<close>

definition demo_store :: "(string list \<times> (string option \<times> string) list) oslo" where
  "demo_store =
     \<lparr>oc_register_group = (\<lambda>g (gs, os). (Inr (), gs @ [g], os)),
      oc_register_opt = (\<lambda>opt g (gs, os). (Inr (), gs, os @ [(g, op_name opt)])),
      oc_group = (\<lambda>g (gs, os). (if g \<in> set gs then Inr () else Inl AttrErr, gs, os)),
      oc_option = (\<lambda>g n (gs, os). (if (Some g, n) \<in> set os then Inr (PStr ''Default'') else Inl AttrErr, gs, os)),
      oc_attribute = (\<lambda>a. throw AttrErr),
      oc_set_default = (\<lambda>n v g (gs, os). (if (Some g, n) \<in> set os then Inr () else Inl AttrErr, gs, os)),
      oc_load = (\<lambda>fs. ret ()), oc_log_options = ret (), oc_log_setup = ret (), oc_log_level = (\<lambda>n l. ret ()),
      oc_log_dir = ret (PStr ''/var/log''), oc_environ = (\<lambda>n. ret None), oc_isfile = (\<lambda>p. ret False),
      oc_exists = (\<lambda>p. ret False), oc_mkdir = (\<lambda>p. ret ())\<rparr>"

theorem configuration_complete_witness:
  "\<exists>w'. config_init demo_store ''/opt/etc'' None ([], []) = (Inr group_attributes, w')
    \<and> snd w' = named_options list_opts \<and> snd ` set group_attributes \<subseteq> set (fst w')"
proof (rule configuration_complete)
  show "store_laws demo_store fst snd"
    by (auto simp: store_laws_def demo_store_def keeping_def)
  show "calls_succeed demo_store fst snd"
    by (auto simp: calls_succeed_def demo_store_def quiet_call_def keeping_def)
  show "logs_to demo_store fst snd (PStr ''/var/log'')"
    by (auto simp: logs_to_def demo_store_def keeping_def)
qed simp_all

section \<open>Which file is read\<close>

text \<open>
  (config_file_chosen): the path that is given, or the one that the environment and the defaults name, is read when
  it is a file; otherwise the one below \<open>/etc\<close>, and nothing when that is no file either.
\<close>

theorem config_file_chosen:
  assumes "\<And>p w. oc_isfile oc p w = (Inr (is_file p), w)" "\<And>n w. oc_environ oc n w = (Inr (var n), w)"
    and wanted: "wanted = (case config_path of
        Some p \<Rightarrow> if p = [] then path_join (case var ''AUTOMATION_CONFIG_DIR'' of None \<Rightarrow> default_dir | Some d \<Rightarrow> d)
                            (case var ''AUTOMATION_CONFIG'' of None \<Rightarrow> ''automation.conf'' | Some f \<Rightarrow> f) else p
      | None \<Rightarrow> path_join (case var ''AUTOMATION_CONFIG_DIR'' of None \<Rightarrow> default_dir | Some d \<Rightarrow> d)
                            (case var ''AUTOMATION_CONFIG'' of None \<Rightarrow> ''automation.conf'' | Some f \<Rightarrow> f))"
  shows "config_init oc default_dir config_path w =
    bnd (oc_log_options oc) (\<lambda>_.
    bnd (oc_load oc (if is_file wanted then Some [wanted]
                     else if is_file failsafe_path then Some [failsafe_path] else None)) (\<lambda>_.
    bnd (oc_log_setup oc) (\<lambda>_. bnd (ensure_log_dir oc) (\<lambda>_. bnd (register_opts oc) (\<lambda>_. set_attrs oc))))) w"
proof -
  have "wanted_path oc default_dir config_path w = (Inr wanted, w)"
    using assms by (auto simp: wanted_path_def bnd_def DEFAULT_CONFIG_FILE_def split: option.splits)
  then show ?thesis
    using assms(1) by (cases "is_file wanted") (simp_all add: config_init_def bnd_def Let_def)
qed

text \<open>
  (log_dir_required): without a directory for the log, which is the default of \<open>oslo_log\<close>, a configuration that
  was read ends in a TypeError before any option is registered.
\<close>

theorem log_dir_required:
  assumes "calls_succeed oc gs os" "logs_to oc gs os PNone"
  shows "\<exists>w'. config_init oc default_dir config_path w = (Inl TypeErr, w') \<and> keeping gs os w w'"
proof -
  obtain w1 where w1: "config_init oc default_dir config_path w
      = bnd (ensure_log_dir oc) (\<lambda>_. bnd (register_opts oc) (\<lambda>_. set_attrs oc)) w1" "keeping gs os w w1"
    using file_read [OF assms(1)] by blast
  obtain w2 where "oc_log_dir oc w1 = (Inr PNone, w2)" "keeping gs os w1 w2"
    using assms(2) unfolding logs_to_def by blast
  with w1 show ?thesis by (auto simp: ensure_log_dir_def bnd_apply keeping_def)
qed

theorem log_dir_required_witness:
  "\<exists>w'. config_init (demo_store\<lparr>oc_log_dir := ret PNone\<rparr>) ''/opt/etc'' None ([], []) = (Inl TypeErr, w')
    \<and> keeping fst snd ([], []) w'"
proof (rule log_dir_required)
  show "calls_succeed (demo_store\<lparr>oc_log_dir := ret PNone\<rparr>) fst snd"
    by (auto simp: calls_succeed_def demo_store_def quiet_call_def keeping_def)
  show "logs_to (demo_store\<lparr>oc_log_dir := ret PNone\<rparr>) fst snd PNone"
    by (auto simp: logs_to_def keeping_def)
qed

section \<open>The path that comes too late\<close>

text \<open>
  (late_path_ignored): the proxy reads the configuration when it is made, so a path that is set on it afterwards,
  the only moment there is, changes nothing that it gives out, and no file is read again.
\<close>

theorem late_path_ignored:
  assumes "proxy_init oc default_dir w = (Inr px, w')"
  shows "proxy_getattr oc default_dir (set_config_path path px) attr v
    = bnd (config_getattr oc (the (px_config px)) attr) (\<lambda>x. ret (x, set_config_path path px)) v"
proof -
  have "px_config px \<noteq> None"
    using assms by (auto simp: proxy_init_def ensure_config_def bnd_apply split: sum.splits prod.splits)
  then show ?thesis
    by (auto simp: proxy_getattr_def ensure_config_def set_config_path_def bnd_apply)
qed

end
