(* ===== verification/TestRunner.thy ===== *)
theory TestRunner
  imports World
begin

text \<open>
  \<open>automation/run_testcases.py\<close> and \<open>automation/test_discover/test_discover.py\<close>: the command line, the search for
  test cases and the rounds in which they are run. The operating system is the parameter of type \<open>shell\<close>, a
  command of it ends with an exit status. What is printed and logged is kept in the state.
\<close>

section \<open>The state\<close>

datatype run_log =
    BeginCase string
  | CaseDone string
  | CaseFailed string
  | AllCases int int
  | FailedOne string

record 'o shell =
  sh_system :: "string \<Rightarrow> 'o \<Rightarrow> int \<times> 'o"
  sh_walk :: "string \<Rightarrow> 'o \<Rightarrow> (string \<times> string list) list"
  sh_realpath :: "string \<Rightarrow> 'o \<Rightarrow> string"
  sh_home :: string

record 'o run_world =
  rw_os :: 'o
  rw_commands :: "string list"
  rw_log :: "run_log list"
  rw_out :: "string list"
  rw_python_path :: "string option"

definition os_system :: "'o shell \<Rightarrow> string \<Rightarrow> ('o run_world, int) io" where
  "os_system sh cmd w =
     (case sh_system sh cmd (rw_os w) of
        (status, v) \<Rightarrow> (Inr status, w\<lparr>rw_os := v, rw_commands := rw_commands w @ [cmd]\<rparr>))"

definition log_line :: "run_log \<Rightarrow> ('o run_world, unit) io" where
  "log_line l = modify (\<lambda>w. w\<lparr>rw_log := rw_log w @ [l]\<rparr>)"

definition print_line :: "string \<Rightarrow> ('o run_world, unit) io" where
  "print_line s = modify (\<lambda>w. w\<lparr>rw_out := rw_out w @ [s]\<rparr>)"

section \<open>\<open>TestDiscover\<close>\<close>

definition LONG_RUN_TIMES :: int where
  "LONG_RUN_TIMES = 1000000"

definition is_test_file :: "string \<Rightarrow> bool" where
  "is_test_file name = (take 5 name = ''test_'')"

definition load_tests :: "'o shell \<Rightarrow> string \<Rightarrow> ('o run_world, string list) io" where
  "load_tests sh test_path =
     gets (\<lambda>w. concat (map (\<lambda>(parent, filenames).
        map (\<lambda>f. sh_realpath sh (path_join parent f) (rw_os w)) (filter is_test_file filenames))
        (sh_walk sh test_path (rw_os w))))"

definition basename :: "string \<Rightarrow> string" where
  "basename p = rev (takeWhile (\<lambda>c. c \<noteq> CHR ''/'') (rev p))"

definition list_tests :: "'o shell \<Rightarrow> string \<Rightarrow> ('o run_world, string list) io" where
  "list_tests sh test_path = bnd (load_tests sh test_path) (\<lambda>cs. ret (map basename cs))"

text \<open>
  \<open>cycle\<close> is a number, or the text of the command line: in Python 2 every string is greater than 0.
\<close>

definition run_times :: "py \<Rightarrow> pyexc + int" where
  "run_times cycle =
     (case cycle of
        PStr s \<Rightarrow> (case int_of_str s of None \<Rightarrow> Inl ValueErr | Some n \<Rightarrow> Inr n)
      | PInt n \<Rightarrow> Inr (if n > 0 then n else LONG_RUN_TIMES)
      | _ \<Rightarrow> Inr LONG_RUN_TIMES)"

definition extend_python_path :: "'o shell \<Rightarrow> ('o run_world, unit) io" where
  "extend_python_path sh =
     modify (\<lambda>w. w\<lparr>rw_python_path := Some
       (case rw_python_path w of
          None \<Rightarrow> sh_home sh
        | Some p \<Rightarrow> if p = [] then sh_home sh else p @ '';'' @ sh_home sh)\<rparr>)"

text \<open>
  One test case, with its result: a bare \<open>raise\<close> without an exception is a TypeError, which the handler catches.
\<close>

definition run_one :: "'o shell \<Rightarrow> string \<Rightarrow> ('o run_world, bool) io" where
  "run_one sh testcase =
     bnd (log_line (BeginCase testcase)) (\<lambda>_.
     bnd (os_system sh (''python '' @ testcase)) (\<lambda>status.
       if status = 0 then bnd (log_line (CaseDone testcase)) (\<lambda>_. ret True)
       else bnd (log_line (CaseFailed testcase)) (\<lambda>_. ret False)))"

primrec run_cases :: "'o shell \<Rightarrow> string list \<Rightarrow> string list \<Rightarrow> ('o run_world, string list) io" where
  "run_cases sh failed [] = ret failed"
| "run_cases sh failed (c # cs) =
     bnd (run_one sh c) (\<lambda>ok. run_cases sh (if ok then failed else failed @ [c]) cs)"

definition run_round :: "'o shell \<Rightarrow> string list \<Rightarrow> ('o run_world, unit) io" where
  "run_round sh testcases =
     bnd (run_cases sh [] testcases) (\<lambda>failed.
     bnd (log_line (AllCases (int (length testcases)) (int (length failed)))) (\<lambda>_.
       for_each failed (\<lambda>c. log_line (FailedOne c))))"

text \<open>\<open>while run_times > 0\<close>.\<close>

definition rounds :: "int \<Rightarrow> ('o run_world, unit) io \<Rightarrow> ('o run_world, unit) io" where
  "rounds n m = for_each [0..<nat n] (\<lambda>_. m)"

definition run_all_tests :: "'o shell \<Rightarrow> string \<Rightarrow> py \<Rightarrow> ('o run_world, unit) io" where
  "run_all_tests sh test_path cycle =
     bnd (load_tests sh test_path) (\<lambda>testcases.
     bnd (lift (run_times cycle)) (\<lambda>n.
     bnd (extend_python_path sh) (\<lambda>_. rounds n (run_round sh testcases))))"

definition run_test :: "'o shell \<Rightarrow> string option \<Rightarrow> py \<Rightarrow> ('o run_world, unit) io" where
  "run_test sh testcase cycle =
     (case testcase of
        None \<Rightarrow> ret ()
      | Some c \<Rightarrow>
          bnd (lift (run_times cycle)) (\<lambda>n.
          bnd (extend_python_path sh) (\<lambda>_. rounds n (bnd (run_one sh c) (\<lambda>_. ret ())))))"

section \<open>\<open>getopt.getopt\<close>\<close>

fun short_has_arg :: "char \<Rightarrow> string \<Rightarrow> bool option" where
  "short_has_arg c [] = None"
| "short_has_arg c (x # xs) =
     (if x = c \<and> x \<noteq> CHR '':'' then Some (take 1 xs = '':'') else short_has_arg c xs)"

fun do_shorts ::
    "string \<Rightarrow> (string \<times> string) list \<Rightarrow> string \<Rightarrow> string list
     \<Rightarrow> string + (string \<times> string) list \<times> string list" where
  "do_shorts shortopts opts [] args = Inr (opts, args)"
| "do_shorts shortopts opts (c # optstring) args =
     (case short_has_arg c shortopts of
        None \<Rightarrow> Inl (''option -'' @ [c] @ '' not recognized'')
      | Some False \<Rightarrow> do_shorts shortopts (opts @ [(''-'' @ [c], '''')]) optstring args
      | Some True \<Rightarrow>
          if optstring \<noteq> [] then Inr (opts @ [(''-'' @ [c], optstring)], args)
          else (case args of
                  [] \<Rightarrow> Inl (''option -'' @ [c] @ '' requires argument'')
                | a # rest \<Rightarrow> Inr (opts @ [(''-'' @ [c], a)], rest)))"

definition long_has_args :: "string \<Rightarrow> string list \<Rightarrow> string + bool \<times> string" where
  "long_has_args opt longopts =
     (let possibilities = filter (starts_with opt) longopts
      in if possibilities = [] then Inl (''option --'' @ opt @ '' not recognized'')
         else if opt \<in> set possibilities then Inr (False, opt)
         else if (opt @ ''='') \<in> set possibilities then Inr (True, opt)
         else if length possibilities > 1 then Inl (''option --'' @ opt @ '' not a unique prefix'')
         else (let m = hd possibilities
               in if m \<noteq> [] \<and> last m = CHR ''='' then Inr (True, butlast m) else Inr (False, m)))"

definition do_longs ::
    "string list \<Rightarrow> (string \<times> string) list \<Rightarrow> string \<Rightarrow> string list
     \<Rightarrow> string + (string \<times> string) list \<times> string list" where
  "do_longs longopts opts text args =
     (let opt = takeWhile (\<lambda>c. c \<noteq> CHR ''='') text;
          optarg = (if CHR ''='' \<in> set text then Some (drop (Suc (length opt)) text) else None)
      in (case long_has_args opt longopts of
            Inl e \<Rightarrow> Inl e
          | Inr (True, name) \<Rightarrow>
              (case optarg of
                 Some a \<Rightarrow> Inr (opts @ [(''--'' @ name, a)], args)
               | None \<Rightarrow> (case args of
                            [] \<Rightarrow> Inl (''option --'' @ name @ '' requires argument'')
                          | a # rest \<Rightarrow> Inr (opts @ [(''--'' @ name, a)], rest)))
          | Inr (False, name) \<Rightarrow>
              (case optarg of
                 Some a \<Rightarrow> Inl (''option --'' @ name @ '' must not have an argument'')
               | None \<Rightarrow> Inr (opts @ [(''--'' @ name, '''')], args))))"

lemma do_shorts_shorter: "do_shorts so opts s args = Inr (opts', args') \<Longrightarrow> length args' \<le> length args"
  by (induction so opts s args rule: do_shorts.induct) (auto split: option.splits bool.splits if_splits list.splits)

lemma do_longs_shorter: "do_longs lo opts s args = Inr (opts', args') \<Longrightarrow> length args' \<le> length args"
  by (auto simp: do_longs_def Let_def split: sum.splits option.splits bool.splits prod.splits list.splits)

function getopt ::
    "string \<Rightarrow> string list \<Rightarrow> (string \<times> string) list \<Rightarrow> string list
     \<Rightarrow> string + (string \<times> string) list \<times> string list" where
  "getopt so lo opts [] = Inr (opts, [])"
| "getopt so lo opts (a # args) =
     (if take 1 a \<noteq> ''-'' \<or> a = ''-'' then Inr (opts, a # args)
      else if a = ''--'' then Inr (opts, args)
      else (case (if starts_with ''--'' a then do_longs lo opts (drop 2 a) args
                  else do_shorts so opts (drop 1 a) args) of
              Inl e \<Rightarrow> Inl e
            | Inr (opts', rest) \<Rightarrow> getopt so lo opts' rest))"
  by pat_completeness auto
termination
  by (relation "measure (\<lambda>(so, lo, opts, args). length args)")
     (auto dest!: do_shorts_shorter do_longs_shorter split: if_splits)

section \<open>\<open>run_testcases.py\<close>\<close>

text \<open>The program ends by itself, or by \<open>sys.exit\<close> with a status.\<close>

datatype run_end = Returned | Exited int

definition short_options :: string where
  "short_options = ''hvlar:c:''"

definition long_options :: "string list" where
  "long_options = [''help'', ''version'', ''list'', ''runcase='', ''runallcases'', ''cycle='']"

definition Usage :: "('o run_world, unit) io" where
  "Usage = for_each
     [''run_testcases.py usage:'', ''-h,--help: print help message.'', ''-v, --version: print script version'',
      ''-l, --list: list all testcases'', ''-r, --runcase: run single case'', ''-a, --runallcases: run all cases'',
      ''-c, --cycle: cycle count when run cases''] print_line"

definition Version :: "('o run_world, unit) io" where
  "Version = print_line ''run testcases 1.0.0''"

definition list_all_cases :: "'o shell \<Rightarrow> ('o run_world, unit) io" where
  "list_all_cases sh =
     bnd (load_tests sh ''./testcases/'') (\<lambda>cs. for_each cs (\<lambda>c. print_line (''TESTCASE: '' @ c)))"

datatype run_action = RunCase | RunAll

record run_choice =
  ch_cycle :: py
  ch_action :: "run_action option"
  ch_parameter :: "string option"

text \<open>One option: the choice goes on, or the program ends.\<close>

definition handle_option ::
    "'o shell \<Rightarrow> string \<times> string \<Rightarrow> run_choice \<Rightarrow> ('o run_world, run_choice + int) io" where
  "handle_option sh flag_para c =
     (let flag = fst flag_para; para = snd flag_para
      in if flag \<in> {''-h'', ''--help''} then bnd Usage (\<lambda>_. ret (Inr 1))
         else if flag \<in> {''-v'', ''--version''} then bnd Version (\<lambda>_. ret (Inr 0))
         else if flag \<in> {''-l'', ''--list''} then bnd (list_all_cases sh) (\<lambda>_. ret (Inr 0))
         else if flag \<in> {''-r'', ''--runcase''}
              then ret (Inl (c\<lparr>ch_action := Some RunCase, ch_parameter := Some para\<rparr>))
         else if flag \<in> {''-a'', ''--runallcases''} then ret (Inl (c\<lparr>ch_action := Some RunAll\<rparr>))
         else if flag \<in> {''-c'', ''--cycle''} then ret (Inl (c\<lparr>ch_cycle := PStr para\<rparr>))
         else bnd (print_line ''unhandled option'') (\<lambda>_. ret (Inr 3)))"

primrec handle_options ::
    "'o shell \<Rightarrow> (string \<times> string) list \<Rightarrow> run_choice \<Rightarrow> ('o run_world, run_choice + int) io" where
  "handle_options sh [] c = ret (Inl c)"
| "handle_options sh (x # xs) c =
     bnd (handle_option sh x c) (\<lambda>r. case r of Inl c' \<Rightarrow> handle_options sh xs c' | Inr n \<Rightarrow> ret (Inr n))"

definition perform :: "'o shell \<Rightarrow> run_choice \<Rightarrow> ('o run_world, run_end) io" where
  "perform sh c =
     (case ch_action c of
        None \<Rightarrow> ret (Exited 0)
      | Some a \<Rightarrow>
          if ch_parameter c \<noteq> None \<and> a = RunCase
          then bnd (run_test sh (ch_parameter c) (ch_cycle c)) (\<lambda>_. ret Returned)
          else if ch_parameter c = None \<and> a = RunAll
          then bnd (run_all_tests sh ''./testcases/'' (ch_cycle c)) (\<lambda>_. ret Returned)
          else bnd (print_line ''unhandled option'') (\<lambda>_. ret (Exited 3)))"

definition main :: "'o shell \<Rightarrow> string list \<Rightarrow> ('o run_world, run_end) io" where
  "main sh argv =
     (case getopt short_options long_options [] (drop 1 argv) of
        Inl e \<Rightarrow> bnd (print_line e) (\<lambda>_. bnd Usage (\<lambda>_. ret (Exited 2)))
      | Inr (opts, args) \<Rightarrow>
          bnd (handle_options sh opts \<lparr>ch_cycle = PInt 1, ch_action = None, ch_parameter = None\<rparr>) (\<lambda>r.
            (case r of Inr n \<Rightarrow> ret (Exited n) | Inl c \<Rightarrow> perform sh c)))"

end
