(* ===== verification/TestRunnerProps.thy ===== *)
theory TestRunnerProps
  imports TestRunner
begin

text \<open>
  Every case is run in every round whatever the others do, each round reports exactly the cases that failed, and the
  command line is read back as it was written.
\<close>

section \<open>Rounds\<close>

lemma log_line_apply [simp]: "log_line l w = (Inr (), w\<lparr>rw_log := rw_log w @ [l]\<rparr>)"
  by (simp add: log_line_def modify_def)

lemma print_line_apply [simp]: "print_line s w = (Inr (), w\<lparr>rw_out := rw_out w @ [s]\<rparr>)"
  by (simp add: print_line_def modify_def)

text \<open>\<open>m\<close> ends without an exception and runs the commands \<open>cs\<close>.\<close>

definition runs :: "('o run_world, 'a) io \<Rightarrow> string list \<Rightarrow> bool" where
  "runs m cs = (\<forall>w. \<exists>x w'. m w = (Inr x, w') \<and> rw_commands w' = rw_commands w @ cs)"

named_theorems runs_intros

lemma runs_ret [runs_intros]: "runs (ret x) []"
  by (simp add: runs_def)

lemma runs_log [runs_intros]: "runs (log_line l) []" "runs (print_line s) []"
  by (simp_all add: runs_def)

lemma runs_bnd:
  assumes "runs m cs" "\<And>x. runs (f x) ds"
  shows "runs (bnd m f) (cs @ ds)"
  unfolding runs_def
proof
  fix w
  obtain x w1 where w1: "m w = (Inr x, w1)" "rw_commands w1 = rw_commands w @ cs"
    using assms(1) unfolding runs_def by blast
  obtain y w2 where "f x w1 = (Inr y, w2)" "rw_commands w2 = rw_commands w1 @ ds"
    using assms(2) unfolding runs_def by blast
  with w1 show "\<exists>y w'. bnd m f w = (Inr y, w') \<and> rw_commands w' = rw_commands w @ cs @ ds"
    by (simp add: bnd_def)
qed

lemma runs_for_each: "(\<And>x. runs (f x) (g x)) \<Longrightarrow> runs (for_each xs f) (concat (map g xs))"
  by (induction xs) (auto intro: runs_bnd runs_intros)

lemma runs_one: "runs (run_one sh c) [''python '' @ c]"
  by (auto simp: runs_def run_one_def os_system_def bnd_def split: prod.splits)

lemma runs_cases: "runs (run_cases sh failed cs) (map (\<lambda>c. ''python '' @ c) cs)"
proof (induction cs arbitrary: failed)
  case (Cons c cs)
  show ?case using runs_bnd [OF runs_one [of sh c] Cons.IH] by simp
qed (simp add: runs_intros)

lemma runs_round: "runs (run_round sh cs) (map (\<lambda>c. ''python '' @ c) cs)"
proof -
  have "runs (for_each failed (\<lambda>c. log_line (FailedOne c))) []" for failed :: "string list"
    using runs_for_each [of "\<lambda>c. log_line (FailedOne c)" "\<lambda>_. []" failed]
    by (simp add: runs_log map_replicate_const concat_replicate_trivial)
  then have "runs (bnd (log_line (AllCases n k)) (\<lambda>_. for_each failed (\<lambda>c. log_line (FailedOne c)))) []" for n k failed
    using runs_bnd [OF runs_log(1)] by force
  then show ?thesis
    unfolding run_round_def using runs_bnd [OF runs_cases [of sh "[]" cs]] by force
qed

lemma runs_rounds:
  assumes "runs m cs"
  shows "runs (rounds n m) (concat (replicate (nat n) cs))"
  using runs_for_each [of "\<lambda>_. m" "\<lambda>_. cs" "[0..<nat n]"] assms by (simp add: rounds_def map_replicate_const)

text \<open>
  C29 (all_cases_run): every round runs every test case that was found when the run began, in the same order, whatever
  the cases before it returned.
\<close>

theorem all_cases_run:
  assumes "load_tests sh test_path w = (Inr cases, w)" "run_times cycle = Inr n"
  shows "\<exists>w'. run_all_tests sh test_path cycle w = (Inr (), w')
    \<and> rw_commands w' = rw_commands w @ concat (replicate (nat n) (map (\<lambda>c. ''python '' @ c) cases))"
proof -
  obtain w1 where w1: "extend_python_path sh w = (Inr (), w1)" "rw_commands w1 = rw_commands w"
    by (simp add: extend_python_path_def modify_def)
  obtain w2 where "rounds n (run_round sh cases) w1 = (Inr (), w2)"
      "rw_commands w2 = rw_commands w1 @ concat (replicate (nat n) (map (\<lambda>c. ''python '' @ c) cases))"
    using runs_rounds [OF runs_round, of n sh cases] unfolding runs_def by (metis old.unit.exhaust)
  with w1 assms show ?thesis by (simp add: run_all_tests_def bnd_def)
qed

section \<open>The report of a round\<close>

text \<open>The exit statuses of cases run one after the other, and what a case and its status mean for the report.\<close>

primrec exit_statuses :: "'o shell \<Rightarrow> string list \<Rightarrow> 'o \<Rightarrow> int list" where
  "exit_statuses sh [] v = []"
| "exit_statuses sh (c # cs) v =
     (case sh_system sh (''python '' @ c) v of (status, v') \<Rightarrow> status # exit_statuses sh cs v')"

definition case_lines :: "string \<times> int \<Rightarrow> run_log list" where
  "case_lines x = [BeginCase (fst x), if snd x = 0 then CaseDone (fst x) else CaseFailed (fst x)]"

definition failed_of :: "(string \<times> int) list \<Rightarrow> string list" where
  "failed_of results = map fst (filter (\<lambda>x. snd x \<noteq> 0) results)"

lemma failed_of_simps [simp]:
  "failed_of [] = []" "failed_of ((c, st) # rs) = (if st = 0 then failed_of rs else c # failed_of rs)"
  by (simp_all add: failed_of_def)

lemma reported_lines:
  "for_each cs (\<lambda>c. log_line (FailedOne c)) w = (Inr (), w\<lparr>rw_log := rw_log w @ map FailedOne cs\<rparr>)"
  by (induction cs arbitrary: w) (simp_all add: bnd_def)

lemma run_cases_report:
  "\<exists>w'. run_cases sh failed cs w = (Inr (failed @ failed_of (zip cs (exit_statuses sh cs (rw_os w)))), w')
    \<and> rw_log w' = rw_log w @ concat (map case_lines (zip cs (exit_statuses sh cs (rw_os w))))"
proof (induction cs arbitrary: failed w)
  case (Cons c cs)
  obtain status v where sys: "sh_system sh (''python '' @ c) (rw_os w) = (status, v)" by fastforce
  obtain w1 where w1: "run_one sh c w = (Inr (status = 0), w1)" "rw_log w1 = rw_log w @ case_lines (c, status)" "rw_os w1 = v"
    using sys by (cases "status = 0") (simp_all add: run_one_def os_system_def bnd_def case_lines_def)
  show ?case
    using w1 sys Cons.IH [of "if status = 0 then failed else failed @ [c]" w1] by (auto simp: bnd_def split: if_splits)
qed simp

text \<open>
  C30 (round_report_complete): a round logs every case with its own result, done when its command exits with status 0
  and failed otherwise; its summary has the number of cases and the number of those whose command did not exit
  with 0, and names exactly these, in their order.
\<close>

theorem round_report_complete:
  "\<exists>w'. run_round sh cases w = (Inr (), w')
    \<and> rw_log w' = rw_log w @ concat (map case_lines (zip cases (exit_statuses sh cases (rw_os w))))
        @ AllCases (int (length cases)) (int (length (failed_of (zip cases (exit_statuses sh cases (rw_os w))))))
        # map FailedOne (failed_of (zip cases (exit_statuses sh cases (rw_os w))))"
  using run_cases_report [of sh "[]" cases w] by (auto simp: run_round_def bnd_def reported_lines)

section \<open>The command line\<close>

text \<open>The options of the program, and how one is written: its flag, and its argument in a word of its own.\<close>

definition with_argument :: "string list" where
  "with_argument = [''-r'', ''-c'', ''--runcase'', ''--cycle'']"

definition without_argument :: "string list" where
  "without_argument = [''-h'', ''-v'', ''-l'', ''-a'', ''--help'', ''--version'', ''--list'', ''--runallcases'']"

definition known_option :: "string \<times> string \<Rightarrow> bool" where
  "known_option x = (fst x \<in> set with_argument \<or> fst x \<in> set without_argument \<and> snd x = [])"

definition written :: "string \<times> string \<Rightarrow> string list" where
  "written x = (if fst x \<in> set with_argument then [fst x, snd x] else [fst x])"

lemma getopt_short:
  assumes "c \<noteq> CHR ''-''"
  shows "short_has_arg c so = Some True \<Longrightarrow>
      getopt so lo opts ([CHR ''-'', c] # a # args) = getopt so lo (opts @ [([CHR ''-'', c], a)]) args"
    and "short_has_arg c so = Some False \<Longrightarrow>
      getopt so lo opts ([CHR ''-'', c] # args) = getopt so lo (opts @ [([CHR ''-'', c], [])]) args"
  using assms by (simp_all add: starts_with_def)

lemma getopt_long:
  assumes "name \<noteq> []" "CHR ''='' \<notin> set name"
  shows "long_has_args name lo = Inr (True, name) \<Longrightarrow>
      getopt so lo opts ((''--'' @ name) # a # args) = getopt so lo (opts @ [(''--'' @ name, a)]) args"
    and "long_has_args name lo = Inr (False, name) \<Longrightarrow>
      getopt so lo opts ((''--'' @ name) # args) = getopt so lo (opts @ [(''--'' @ name, [])]) args"
proof -
  have whole: "takeWhile (\<lambda>c. c \<noteq> CHR ''='') name = name"
    using assms(2) by (auto simp: takeWhile_eq_all_conv)
  have head: "take 1 (''--'' @ name) = ''-''" "''--'' @ name \<noteq> ''-''" "''--'' @ name \<noteq> ''--''"
      "starts_with ''--'' (''--'' @ name)" "drop 2 (''--'' @ name) = name"
    using assms(1) by (simp_all add: starts_with_def)
  {
    assume "long_has_args name lo = Inr (True, name)"
    then have "do_longs lo opts name (a # args) = Inr (opts @ [(''--'' @ name, a)], args)"
      using assms(2) by (simp add: do_longs_def Let_def whole)
    with head show "getopt so lo opts ((''--'' @ name) # a # args) = getopt so lo (opts @ [(''--'' @ name, a)]) args"
      by (simp only: getopt.simps if_False if_True not_True_eq_False simp_thms sum.case prod.case)
  next
    assume "long_has_args name lo = Inr (False, name)"
    then have "do_longs lo opts name args = Inr (opts @ [(''--'' @ name, [])], args)"
      using assms(2) by (simp add: do_longs_def Let_def whole)
    with head show "getopt so lo opts ((''--'' @ name) # args) = getopt so lo (opts @ [(''--'' @ name, [])]) args"
      by (simp only: getopt.simps if_False if_True not_True_eq_False simp_thms sum.case prod.case)
  }
qed

lemma option_kinds:
  "map (\<lambda>c. short_has_arg c short_options) ''hvlarc'' = map Some [False, False, False, False, True, True]"
  "map (\<lambda>n. long_has_args n long_options)
     [''help'', ''version'', ''list'', ''runallcases'', ''runcase'', ''cycle'']
   = map Inr [(False, ''help''), (False, ''version''), (False, ''list''), (False, ''runallcases''),
              (True, ''runcase''), (True, ''cycle'')]"
  by code_simp+

lemma getopt_one:
  assumes "known_option x"
  shows "getopt short_options long_options opts (written x @ args)
    = getopt short_options long_options (opts @ [x]) args"
proof -
  obtain flag para where x: "x = (flag, para)" by (cases x)
  note kinds = option_kinds [unfolded list.map list.inject]
  note short = getopt_short [where so = short_options and lo = long_options]
  note long = getopt_long [where so = short_options and lo = long_options]
  have "getopt short_options long_options opts (flag # para # args)
      = getopt short_options long_options (opts @ [(flag, para)]) args" if "flag \<in> set with_argument"
  proof -
    have "flag = ''-r'' \<or> flag = ''-c'' \<or> flag = ''--'' @ ''runcase'' \<or> flag = ''--'' @ ''cycle''"
      using that by (simp add: with_argument_def)
    then show ?thesis
      using kinds by (elim disjE; hypsubst) (rule short(1) long(1); simp)+
  qed
  moreover have "getopt short_options long_options opts (flag # args)
      = getopt short_options long_options (opts @ [(flag, [])]) args" if "flag \<in> set without_argument"
  proof -
    have "flag = ''-h'' \<or> flag = ''-v'' \<or> flag = ''-l'' \<or> flag = ''-a'' \<or> flag = ''--'' @ ''help''
        \<or> flag = ''--'' @ ''version'' \<or> flag = ''--'' @ ''list'' \<or> flag = ''--'' @ ''runallcases''"
      using that by (simp add: without_argument_def)
    then show ?thesis
      using kinds by (elim disjE; hypsubst) (rule short(2) long(2); simp)+
  qed
  moreover have "flag \<notin> set with_argument" if "flag \<in> set without_argument"
    using that by (auto simp: with_argument_def without_argument_def)
  ultimately show ?thesis using assms by (auto simp: known_option_def x written_def)
qed

lemma getopt_stops:
  "args = [] \<or> take 1 (hd args) \<noteq> ''-'' \<Longrightarrow> getopt so lo opts args = Inr (opts, args)"
  by (cases args) auto

lemma written_options_read:
  assumes "list_all known_option xs" "args = [] \<or> take 1 (hd args) \<noteq> ''-''"
  shows "getopt short_options long_options opts (concat (map written xs) @ args) = Inr (opts @ xs, args)"
  using assms(1)
proof (induction xs arbitrary: opts)
  case Nil
  then show ?case using getopt_stops [OF assms(2)] by simp
next
  case (Cons x xs)
  then show ?case using getopt_one [of x opts "concat (map written xs) @ args"] by simp
qed

text \<open>
  (command_line_read_back): options written one after the other, before the first word without a dash, are what
  \<open>getopt\<close> gives to \<open>main\<close>.
\<close>

theorem command_line_read_back:
  assumes "list_all known_option xs" "args = [] \<or> take 1 (hd args) \<noteq> ''-''"
  shows "getopt short_options long_options [] (concat (map written xs) @ args) = Inr (xs, args)"
  using written_options_read [OF assms, of "[]"] by simp

theorem command_line_read_back_witness:
  "getopt short_options long_options []
     (concat (map written [(''-r'', ''test_a.py''), (''--cycle'', ''-3'')]) @ [''rest'', ''-a''])
   = Inr ([(''-r'', ''test_a.py''), (''--cycle'', ''-3'')], [''rest'', ''-a''])"
  by (rule command_line_read_back) (simp_all add: known_option_def with_argument_def)

lemma main_reads:
  assumes "list_all known_option xs"
  shows "main sh (prog # concat (map written xs)) =
    bnd (handle_options sh xs \<lparr>ch_cycle = PInt 1, ch_action = None, ch_parameter = None\<rparr>) (\<lambda>r.
      (case r of Inr n \<Rightarrow> ret (Exited n) | Inl c \<Rightarrow> perform sh c))"
  using written_options_read [OF assms, of "[]" "[]"] by (simp add: main_def)

text \<open>
  (cycle_text_not_endless): a count from the command line is a text, so one that is not positive runs no case at
  all, where \<open>run_all_tests\<close> with the same number makes its one million rounds.
\<close>

theorem cycle_text_not_endless:
  assumes "int_of_str s = Some n" "n \<le> 0"
  shows "\<exists>w'. main sh [prog, ''-a'', ''-c'', s] w = (Inr Returned, w') \<and> rw_commands w' = rw_commands w"
    and "run_times (PStr s) = Inr n" and "run_times (PInt n) = Inr 1000000"
proof -
  have "main sh [prog, ''-a'', ''-c'', s] w = bnd (run_all_tests sh ''./testcases/'' (PStr s)) (\<lambda>_. ret Returned) w"
    using main_reads [of "[(''-a'', []), (''-c'', s)]" sh prog]
    by (simp add: known_option_def with_argument_def without_argument_def written_def handle_option_def bnd_def
        perform_def)
  then show "\<exists>w'. main sh [prog, ''-a'', ''-c'', s] w = (Inr Returned, w') \<and> rw_commands w' = rw_commands w"
    using assms by (simp add: run_all_tests_def run_times_def load_tests_def gets_def rounds_def bnd_def
        extend_python_path_def modify_def)
  show "run_times (PStr s) = Inr n" "run_times (PInt n) = Inr 1000000"
    using assms by (simp_all add: run_times_def LONG_RUN_TIMES_def)
qed

text \<open>Two cases, the first of which fails.\<close>

definition demo_shell :: "nat shell" where
  "demo_shell =
     \<lparr>sh_system = (\<lambda>cmd n. (if n mod 2 = 0 then 256 else 0, n + 1)),
      sh_walk = (\<lambda>p n. [(p, [''base.py'', ''test_a.py'']), (p @ ''sub'', [''test_b.py''])]),
      sh_realpath = (\<lambda>p n. p), sh_home = ''/opt''\<rparr>"

definition demo_run_world :: "nat run_world" where
  "demo_run_world = \<lparr>rw_os = 0, rw_commands = [], rw_log = [], rw_out = [], rw_python_path = None\<rparr>"

theorem all_cases_run_witness:
  "\<exists>w'. run_all_tests demo_shell ''t/'' (PStr ''2'') demo_run_world = (Inr (), w')
    \<and> rw_commands w' = [''python t/test_a.py'', ''python t/sub/test_b.py'', ''python t/test_a.py'', ''python t/sub/test_b.py'']"
proof -
  have found: "load_tests demo_shell ''t/'' demo_run_world = (Inr [''t/test_a.py'', ''t/sub/test_b.py''], demo_run_world)"
    by (simp add: load_tests_def gets_def demo_shell_def demo_run_world_def is_test_file_def path_join_def)
  have "run_times (PStr ''2'') = Inr 2" by code_simp
  from all_cases_run [OF found this] show ?thesis
    by (simp add: demo_run_world_def numeral_eq_Suc)
qed

end
