(* ===== verification/MysqlLoad.thy ===== *)
theory MysqlLoad
  imports World
begin

text \<open>
  \<open>mysql_db_pressure/mysql.py\<close>: rows are inserted into the tables of three services, counted, read and deleted, and
  the time it takes is printed. MySQLdb, the clock and the generator of uuids are the parameter of type \<open>mysql\<close>.
  The calls to the connection are kept in the state, each with whether it succeeded.
\<close>

section \<open>The connection\<close>

record 'd mysql =
  md_connect :: "string \<Rightarrow> string \<Rightarrow> string \<Rightarrow> string \<Rightarrow> 'd \<Rightarrow> (pyexc + unit) \<times> 'd"
  md_execute :: "string \<Rightarrow> 'd \<Rightarrow> (pyexc + unit) \<times> 'd"
  md_fetchall :: "'d \<Rightarrow> (pyexc + py) \<times> 'd"
  md_commit :: "'d \<Rightarrow> (pyexc + unit) \<times> 'd"
  md_rollback :: "'d \<Rightarrow> (pyexc + unit) \<times> 'd"
  md_close :: "'d \<Rightarrow> (pyexc + unit) \<times> 'd"
  md_uuid :: "'d \<Rightarrow> string \<times> 'd"
  md_time :: "'d \<Rightarrow> int \<times> 'd"

datatype db_call = CConnect | CExecute string | CFetch | CCommit | CRollback | CClose

datatype db_report =
    InsertCost int string int int
  | DeleteCost string int int
  | CountCost string int int
  | CountIs string py
  | SearchCost string string int int
  | Said string

record 'd db_client =
  db_ext :: 'd
  db_ip :: string
  db_user :: string
  db_password :: string
  db_database :: string
  db_name :: "string option"
  db_log :: "(db_call \<times> bool) list"
  db_out :: "db_report list"

definition db_do :: "db_call \<Rightarrow> ('d \<Rightarrow> (pyexc + 'a) \<times> 'd) \<Rightarrow> ('d db_client, 'a) io" where
  "db_do c f w = (case f (db_ext w) of (r, v) \<Rightarrow> (r, w\<lparr>db_ext := v, db_log := db_log w @ [(c, \<not> isl r)]\<rparr>))"

definition db_ask :: "('d \<Rightarrow> 'a \<times> 'd) \<Rightarrow> ('d db_client, 'a) io" where
  "db_ask f w = (case f (db_ext w) of (x, v) \<Rightarrow> (Inr x, w\<lparr>db_ext := v\<rparr>))"

definition db_print :: "db_report \<Rightarrow> ('d db_client, unit) io" where
  "db_print r = modify (\<lambda>w. w\<lparr>db_out := db_out w @ [r]\<rparr>)"

definition db_execute :: "'d mysql \<Rightarrow> string \<Rightarrow> ('d db_client, unit) io" where
  "db_execute md sql = db_do (CExecute sql) (md_execute md sql)"

text \<open>\<open>try: m / finally: f\<close>; and \<open>m\<close> with its exception as a value.\<close>

definition try_finally :: "('w, 'a) io \<Rightarrow> ('w, unit) io \<Rightarrow> ('w, 'a) io" where
  "try_finally m f w =
     (case m w of (r, w') \<Rightarrow> (case f w' of (Inl e, w'') \<Rightarrow> (Inl e, w'') | (Inr u, w'') \<Rightarrow> (r, w'')))"

definition attempt :: "('w, 'a) io \<Rightarrow> ('w, pyexc + 'a) io" where
  "attempt m w = (case m w of (r, w') \<Rightarrow> (Inr r, w'))"

definition db_connect :: "'d mysql \<Rightarrow> ('d db_client, unit) io" where
  "db_connect md =
     bnd (gets (\<lambda>w. (db_ip w, db_user w, db_password w, db_database w))) (\<lambda>(ip, user, password, database).
       db_do CConnect (md_connect md ip user password database))"

definition mysql_init ::
    "'d mysql \<Rightarrow> string \<Rightarrow> string \<Rightarrow> string \<Rightarrow> string \<Rightarrow> 'd \<Rightarrow> (pyexc + unit) \<times> 'd db_client" where
  "mysql_init md ip user password database v =
     db_connect md \<lparr>db_ext = v, db_ip = ip, db_user = user, db_password = password, db_database = database,
       db_name = None, db_log = [], db_out = []\<rparr>"

definition reconnect :: "'d mysql \<Rightarrow> ('d db_client, unit) io" where
  "reconnect md = db_connect md"

definition disconnect :: "'d mysql \<Rightarrow> ('d db_client, unit) io" where
  "disconnect md = db_do CClose (md_close md)"

section \<open>Statements\<close>

text \<open>A value between single quotes. Lines of a statement are joined with the blanks before the next one.\<close>

definition sql_quote :: "string \<Rightarrow> string" where
  "sql_quote v = [CHR 0x27] @ v @ [CHR 0x27]"

definition gap :: string where
  "gap = replicate 24 CHR '' ''"

definition row_values :: "string list \<Rightarrow> string" where
  "row_values vs =
     '' VALUES ('' @ str_join '', '' (map sql_quote (take 3 vs)) @ '','' @ gap
       @ str_join '', '' (map sql_quote (drop 3 vs)) @ '')''"

definition instance_row :: "'d mysql \<Rightarrow> string \<Rightarrow> ('d db_client, string) io" where
  "instance_row md name =
     bnd (db_ask (md_uuid md)) (\<lambda>user_id.
     bnd (db_ask (md_uuid md)) (\<lambda>uuid.
       ret (''INSERT INTO instances(user_id, project_id, vm_state,'' @ gap
            @ ''memory_mb, vcpus, hostname, host, reservation_id, display_name,'' @ gap
            @ ''availability_zone, uuid, root_gb)''
            @ row_values [user_id, user_id, ''active'', ''4096'', ''4'', name, name, ''r-f79v0p3a'', name, ''dev'',
                          uuid, ''40''])))"

definition volume_row :: "'d mysql \<Rightarrow> string \<Rightarrow> ('d db_client, string) io" where
  "volume_row md name =
     bnd (db_ask (md_uuid md)) (\<lambda>user_id.
       ret (''INSERT INTO volumes(user_id, id, project_id, host,'' @ gap
            @ ''size, availability_zone, status, display_name,'' @ gap @ ''provider_location)''
            @ row_values [user_id, user_id, user_id, ''controller1.ksc@cluster01@sheepdog01#sheepdog01'', ''40'',
                          ''dev'', ''available'', name, ''127.0.0.1:7000:sheepdog'']))"

definition port_row :: "'d mysql \<Rightarrow> string \<Rightarrow> ('d db_client, string) io" where
  "port_row md name =
     bnd (db_ask (md_uuid md)) (\<lambda>tenant_id.
       ret (''INSERT INTO ports(tenant_id, id, name, network_id,'' @ gap
            @ ''mac_address, admin_state_up, status, device_id,'' @ gap @ ''device_owner)''
            @ row_values [tenant_id, tenant_id, name, tenant_id, ''fa:16:3e:11:fa:e5'', ''1'', ''ACTIVE'', tenant_id,
                          ''compute:dev'']))"

section \<open>Inserting\<close>

text \<open>One row; a bare \<open>except\<close> takes every exception.\<close>

definition insert_row :: "'d mysql \<Rightarrow> ('d db_client, string) io \<Rightarrow> ('d db_client, unit) io" where
  "insert_row md row =
     bnd row (\<lambda>sql.
       catch (bnd (db_execute md sql) (\<lambda>_. db_do CCommit (md_commit md)))
         (\<lambda>e. Some (db_do CRollback (md_rollback md))))"

definition insert_rows ::
    "'d mysql \<Rightarrow> string \<Rightarrow> ('d mysql \<Rightarrow> string \<Rightarrow> ('d db_client, string) io) \<Rightarrow> string \<Rightarrow> int
     \<Rightarrow> ('d db_client, unit) io" where
  "insert_rows md label row name count =
     try_finally
       (catch
          (bnd (db_ask (md_time md)) (\<lambda>start_time.
           bnd (modify (\<lambda>w. w\<lparr>db_name := Some name\<rparr>)) (\<lambda>_.
           bnd (for_each [0..<nat count] (\<lambda>i. insert_row md (row md name))) (\<lambda>_.
           bnd (db_ask (md_time md)) (\<lambda>end_time. db_print (InsertCost count label start_time end_time))))))
          (\<lambda>e. Some (ret ())))
       (db_do CClose (md_close md))"

definition insert_instance :: "'d mysql \<Rightarrow> string \<Rightarrow> int \<Rightarrow> ('d db_client, unit) io" where
  "insert_instance md = insert_rows md ''instance'' instance_row"

definition insert_volume :: "'d mysql \<Rightarrow> string \<Rightarrow> int \<Rightarrow> ('d db_client, unit) io" where
  "insert_volume md = insert_rows md ''volumes'' volume_row"

definition insert_port :: "'d mysql \<Rightarrow> string \<Rightarrow> int \<Rightarrow> ('d db_client, unit) io" where
  "insert_port md = insert_rows md ''port'' port_row"

section \<open>Deleting\<close>

text \<open>\<open>name or self.name\<close> in a text: \<open>None\<close> is printed as such.\<close>

definition named :: "string \<Rightarrow> ('d db_client, string) io" where
  "named name =
     gets (\<lambda>w. if name \<noteq> [] then name else (case db_name w of None \<Rightarrow> ''None'' | Some n \<Rightarrow> n))"

text \<open>
  The \<open>finally\<close> clause: \<open>start_time\<close> is unbound when the first statement failed, and then the connection stays open.
\<close>

definition delete_ending :: "'d mysql \<Rightarrow> string \<Rightarrow> int option \<Rightarrow> ('d db_client, unit) io" where
  "delete_ending md label start_time =
     bnd (db_ask (md_time md)) (\<lambda>end_time.
       (case start_time of
          None \<Rightarrow> throw UnboundErr
        | Some s \<Rightarrow> bnd (db_print (DeleteCost label s end_time)) (\<lambda>_. db_do CClose (md_close md))))"

definition delete_rows ::
    "'d mysql \<Rightarrow> string \<Rightarrow> string \<Rightarrow> string \<Rightarrow> ('d db_client, unit) io" where
  "delete_rows md label condition name =
     bnd (named name) (\<lambda>delete_name.
     bnd (attempt (db_execute md ''SET FOREIGN_KEY_CHECKS=0'')) (\<lambda>r.
       (case r of
          Inl e \<Rightarrow> try_finally (db_do CRollback (md_rollback md)) (delete_ending md label None)
        | Inr u \<Rightarrow>
            bnd (db_ask (md_time md)) (\<lambda>start_time.
              try_finally
                (catch
                   (bnd (db_execute md (''DELETE FROM '' @ label @ '' WHERE '' @ condition @ ''='' @ sql_quote delete_name))
                      (\<lambda>_. db_do CCommit (md_commit md)))
                   (\<lambda>e. Some (db_do CRollback (md_rollback md))))
                (delete_ending md label (Some start_time))))))"

definition delete_instance :: "'d mysql \<Rightarrow> string \<Rightarrow> ('d db_client, unit) io" where
  "delete_instance md = delete_rows md ''instances'' ''hostname''"

definition delete_volume_rows :: "'d mysql \<Rightarrow> string \<Rightarrow> ('d db_client, unit) io" where
  "delete_volume_rows md = delete_rows md ''volumes'' ''display_name''"

definition delete_port_rows :: "'d mysql \<Rightarrow> string \<Rightarrow> ('d db_client, unit) io" where
  "delete_port_rows md = delete_rows md ''ports'' ''name''"

section \<open>Counting and searching\<close>

text \<open>
  \<open>''...%s'' % result\<close> with the tuple of the rows: it must have one element. \<open>result\<close> is \<open>None\<close> before the query
  only in \<open>get_instance_num\<close>; in the others it is unbound.
\<close>

definition print_rows :: "string \<Rightarrow> py option \<Rightarrow> ('d db_client, unit) io" where
  "print_rows label result =
     (case result of
        None \<Rightarrow> throw UnboundErr
      | Some (PList [x]) \<Rightarrow> db_print (CountIs label x)
      | Some (PList xs) \<Rightarrow> throw TypeErr
      | Some v \<Rightarrow> db_print (CountIs label v))"

definition query_rows :: "'d mysql \<Rightarrow> string \<Rightarrow> ('d db_client, py) io" where
  "query_rows md sql = bnd (db_execute md sql) (\<lambda>_. db_do CFetch (md_fetchall md))"

definition count_ending ::
    "'d mysql \<Rightarrow> string \<Rightarrow> string \<Rightarrow> int \<Rightarrow> py option \<Rightarrow> ('d db_client, unit) io" where
  "count_ending md items label start_time result =
     bnd (db_ask (md_time md)) (\<lambda>end_time.
     bnd (db_print (CountCost items start_time end_time)) (\<lambda>_.
     bnd (print_rows label result) (\<lambda>_. db_do CClose (md_close md))))"

definition count_rows ::
    "'d mysql \<Rightarrow> string \<Rightarrow> string \<Rightarrow> string \<Rightarrow> py option \<Rightarrow> string \<Rightarrow> ('d db_client, unit) io" where
  "count_rows md items label condition before name =
     bnd (named name) (\<lambda>get_name.
     bnd (db_ask (md_time md)) (\<lambda>start_time.
     bnd (attempt (query_rows md
            (''select count(id) from '' @ label @ '' where '' @ condition @ ''='' @ sql_quote get_name))) (\<lambda>r.
       (case r of
          Inl e \<Rightarrow> try_finally (db_do CRollback (md_rollback md)) (count_ending md items label start_time before)
        | Inr rows \<Rightarrow> count_ending md items label start_time (Some rows)))))"

definition get_instance_num :: "'d mysql \<Rightarrow> string \<Rightarrow> ('d db_client, unit) io" where
  "get_instance_num md = count_rows md ''instance'' ''instances'' ''hostname'' (Some PNone)"

definition get_volume_num :: "'d mysql \<Rightarrow> string \<Rightarrow> ('d db_client, unit) io" where
  "get_volume_num md = count_rows md ''volume'' ''volumes'' ''display_name'' None"

definition get_port_num :: "'d mysql \<Rightarrow> string \<Rightarrow> ('d db_client, unit) io" where
  "get_port_num md = count_rows md ''ports'' ''ports'' ''display_name'' None"

definition search_row :: "'d mysql \<Rightarrow> string \<Rightarrow> string \<Rightarrow> string \<Rightarrow> ('d db_client, unit) io" where
  "search_row md what table i =
     bnd (db_ask (md_time md)) (\<lambda>start_time.
       try_finally
         (catch (bnd (query_rows md (''select * from '' @ table @ '' where id='' @ sql_quote i)) (\<lambda>rows. ret ()))
            (\<lambda>e. Some (db_do CRollback (md_rollback md))))
         (bnd (db_ask (md_time md)) (\<lambda>end_time.
          bnd (db_print (SearchCost what i start_time end_time)) (\<lambda>_. db_do CClose (md_close md)))))"

definition get_instance :: "'d mysql \<Rightarrow> string \<Rightarrow> ('d db_client, unit) io" where
  "get_instance md = search_row md ''instance'' ''instances''"

definition get_volume_row :: "'d mysql \<Rightarrow> string \<Rightarrow> ('d db_client, unit) io" where
  "get_volume_row md = search_row md ''volumes'' ''volumes''"

definition get_port_row :: "'d mysql \<Rightarrow> string \<Rightarrow> ('d db_client, unit) io" where
  "get_port_row md = search_row md ''ports'' ''ports''"

section \<open>The script\<close>

definition default_row_name :: string where
  "default_row_name = ''test_pressure_mysql''"

definition pressure_script :: "'d mysql \<Rightarrow> ('d db_client, unit) io" where
  "pressure_script md =
     bnd (insert_instance md default_row_name 100000) (\<lambda>_.
     bnd (db_print (Said ''round 2'')) (\<lambda>_.
     bnd (reconnect md) (\<lambda>_.
     bnd (insert_instance md default_row_name 100000) (\<lambda>_.
     bnd (reconnect md) (\<lambda>_.
       delete_instance md default_row_name)))))"

text \<open>
  \<open>test_mysql.py\<close>: for each of the three databases a client of its own, whose first connection is closed at once;
  each operation gets a new connection. The result is that of the script and the clients it made.
\<close>

definition ROUND :: nat where
  "ROUND = 10"

definition searched_id :: string where
  "searched_id = ''87d3e276-2efe-4ae5-9c62-06b68c06fe4b''"

record 'd pressure_ops =
  po_database :: string
  po_count :: "'d mysql \<Rightarrow> string \<Rightarrow> ('d db_client, unit) io"
  po_insert :: "'d mysql \<Rightarrow> string \<Rightarrow> int \<Rightarrow> ('d db_client, unit) io"
  po_search :: "'d mysql \<Rightarrow> string \<Rightarrow> ('d db_client, unit) io"
  po_delete :: "'d mysql \<Rightarrow> string \<Rightarrow> ('d db_client, unit) io"

definition pressure_round :: "'d mysql \<Rightarrow> 'd pressure_ops \<Rightarrow> ('d db_client, unit) io" where
  "pressure_round md po =
     bnd (reconnect md) (\<lambda>_.
     bnd (po_count po md default_row_name) (\<lambda>_.
     bnd (reconnect md) (\<lambda>_. po_insert po md default_row_name 10)))"

definition pressure_session :: "'d mysql \<Rightarrow> 'd pressure_ops \<Rightarrow> ('d db_client, unit) io" where
  "pressure_session md po =
     bnd (disconnect md) (\<lambda>_.
     bnd (for_each [0..<ROUND] (\<lambda>i. pressure_round md po)) (\<lambda>_.
     bnd (reconnect md) (\<lambda>_.
     bnd (po_search po md searched_id) (\<lambda>_.
     bnd (reconnect md) (\<lambda>_. po_delete po md default_row_name)))))"

definition pressure_services :: "'d pressure_ops list" where
  "pressure_services =
     [\<lparr>po_database = ''nova'', po_count = get_instance_num, po_insert = insert_instance, po_search = get_instance,
       po_delete = delete_instance\<rparr>,
      \<lparr>po_database = ''cinder'', po_count = get_volume_num, po_insert = insert_volume, po_search = get_volume_row,
       po_delete = delete_volume_rows\<rparr>,
      \<lparr>po_database = ''neutron'', po_count = get_port_num, po_insert = insert_port, po_search = get_port_row,
       po_delete = delete_port_rows\<rparr>]"

definition test_client :: "'d mysql \<Rightarrow> 'd pressure_ops \<Rightarrow> 'd \<Rightarrow> (pyexc + unit) \<times> 'd db_client" where
  "test_client md po v =
     (case mysql_init md ''10.168.91.1'' ''root'' ''Passw0rd'' (po_database po) v of
        (Inl e, w) \<Rightarrow> (Inl e, w)
      | (Inr u, w) \<Rightarrow> pressure_session md po w)"

primrec test_clients ::
    "'d mysql \<Rightarrow> 'd pressure_ops list \<Rightarrow> 'd \<Rightarrow> (pyexc + unit) \<times> 'd db_client list" where
  "test_clients md [] v = (Inr (), [])"
| "test_clients md (po # pos) v =
     (case test_client md po v of
        (Inl e, w) \<Rightarrow> (Inl e, [w])
      | (Inr u, w) \<Rightarrow> (case test_clients md pos (db_ext w) of (r, ws) \<Rightarrow> (r, w # ws)))"

definition pressure_test :: "'d mysql \<Rightarrow> 'd \<Rightarrow> (pyexc + unit) \<times> 'd db_client list" where
  "pressure_test md = test_clients md pressure_services"

section \<open>Every row is settled\<close>

text \<open>
  After each statement that inserts a row the transaction is ended before the next one begins: by a commit that
  succeeded, or, when the statement or its commit failed, by a rollback. After a rollback that failed nothing follows.
\<close>

fun settled :: "(db_call \<times> bool) list \<Rightarrow> bool" where
  "settled [] = True"
| "settled ((CExecute s, True) # (CCommit, True) # cs) = settled cs"
| "settled ((CExecute s, True) # (CCommit, False) # (CRollback, ok) # cs) = ((ok \<or> cs = []) \<and> settled cs)"
| "settled ((CExecute s, False) # (CRollback, ok) # cs) = ((ok \<or> cs = []) \<and> settled cs)"
| "settled cs = False"

text \<open>The calls alone.\<close>

definition db_calls :: "'d db_client \<Rightarrow> db_call list" where
  "db_calls w = map fst (db_log w)"

end
