(* ===== verification/MysqlLoadProps.thy ===== *)
theory MysqlLoadProps
  imports MysqlLoad
begin

text \<open>
  Inserting settles every row and closes the connection whatever the database answers; deleting and counting leave the
  connection open when a statement fails.
\<close>

definition is_execute :: "db_call \<Rightarrow> bool" where
  "is_execute c = (case c of CExecute s \<Rightarrow> True | _ \<Rightarrow> False)"

definition statements :: "db_call list \<Rightarrow> nat" where
  "statements cs = length (filter is_execute cs)"

lemma statements_simps [simp]:
  "statements [] = 0" "statements (CExecute s # cs) = Suc (statements cs)" "statements (CCommit # cs) = statements cs"
  "statements (CRollback # cs) = statements cs" "statements (CClose # cs) = statements cs"
  "statements (cs @ ds) = statements cs + statements ds"
  by (simp_all add: statements_def is_execute_def)

text \<open>No rollback failed, so that more may follow.\<close>

definition undone :: "(db_call \<times> bool) list \<Rightarrow> bool" where
  "undone ls = ((CRollback, False) \<notin> set ls)"

lemma settled_append: "settled ls \<Longrightarrow> undone ls \<Longrightarrow> settled ks \<Longrightarrow> settled (ls @ ks)"
  by (induction ls rule: settled.induct) (auto simp: undone_def)

lemma undone_append [simp]: "undone (ls @ ks) \<longleftrightarrow> undone ls \<and> undone ks"
  by (auto simp: undone_def)

text \<open>\<open>m\<close> adds the calls \<open>ls\<close>, with \<open>P\<close> of its result; and the same for the calls alone.\<close>

definition adds_log :: "('d db_client, 'a) io \<Rightarrow> ((pyexc + 'a) \<Rightarrow> (db_call \<times> bool) list \<Rightarrow> bool) \<Rightarrow> bool" where
  "adds_log m P = (\<forall>w. \<exists>r w' ls. m w = (r, w') \<and> db_log w' = db_log w @ ls \<and> P r ls)"

definition adds_calls :: "('d db_client, 'a) io \<Rightarrow> ((pyexc + 'a) \<Rightarrow> db_call list \<Rightarrow> bool) \<Rightarrow> bool" where
  "adds_calls m P = (\<forall>w. \<exists>r w' cs. m w = (r, w') \<and> db_calls w' = db_calls w @ cs \<and> P r cs)"

lemma adds_logE:
  assumes "adds_log m P"
  obtains r w' ls where "m w = (r, w')" "db_log w' = db_log w @ ls" "P r ls"
  using assms unfolding adds_log_def by blast

lemma adds_callsE:
  assumes "adds_calls m P"
  obtains r w' cs where "m w = (r, w')" "db_calls w' = db_calls w @ cs" "P r cs"
  using assms unfolding adds_calls_def by blast

lemma db_do_calls: "adds_calls (db_do c f) (\<lambda>r cs. cs = [c])"
  by (auto simp: adds_calls_def db_do_def db_calls_def split: prod.splits)

definition asks_only :: "('d db_client, 'a) io \<Rightarrow> bool" where
  "asks_only m = adds_log m (\<lambda>r ls. (\<exists>x. r = Inr x) \<and> ls = [])"

lemma asks_only_intros:
  "asks_only (db_ask f)" "asks_only (ret x)" "asks_only (db_print rp)" "asks_only (modify (\<lambda>w. w\<lparr>db_name := n\<rparr>))"
  "asks_only (gets g)"
  by (auto simp: asks_only_def adds_log_def db_ask_def db_print_def modify_def gets_def split: prod.splits)

lemma asks_only_bnd:
  assumes "asks_only m" "\<And>x. adds_log (f x) P"
  shows "adds_log (bnd m f) P"
  unfolding adds_log_def
proof
  fix w
  obtain x w1 where w1: "m w = (Inr x, w1)" "db_log w1 = db_log w"
    using assms(1) unfolding asks_only_def by (rule adds_logE [of _ _ w]) auto
  obtain r w2 ls where "f x w1 = (r, w2)" "db_log w2 = db_log w1 @ ls" "P r ls"
    using assms(2) by (rule adds_logE)
  with w1 show "\<exists>r w' ls. bnd m f w = (r, w') \<and> db_log w' = db_log w @ ls \<and> P r ls"
    by (simp add: bnd_def)
qed

lemma rows_ask_only:
  assumes "row \<in> {instance_row, volume_row, port_row}"
  shows "asks_only (row md name)"
  using assms unfolding asks_only_def
  by (auto simp: instance_row_def volume_row_def port_row_def
      intro!: asks_only_bnd asks_only_intros asks_only_intros(2) [unfolded asks_only_def])

section \<open>Inserting\<close>

lemma insert_row_calls:
  assumes "asks_only row"
  shows "adds_log (insert_row md row) (\<lambda>r ls. settled ls \<and> statements (map fst ls) = 1 \<and> (\<not> isl r) = undone ls)"
  unfolding insert_row_def
proof (rule asks_only_bnd [OF assms])
  fix sql
  show "adds_log (catch (bnd (db_execute md sql) (\<lambda>_. db_do CCommit (md_commit md)))
      (\<lambda>e. Some (db_do CRollback (md_rollback md))))
      (\<lambda>r ls. settled ls \<and> statements (map fst ls) = 1 \<and> (\<not> isl r) = undone ls)"
    by (auto simp: adds_log_def catch_def bnd_def db_execute_def db_do_def undone_def split: prod.splits sum.splits)
qed

lemma insert_loop_calls:
  assumes "asks_only row"
  shows "adds_log (for_each xs (\<lambda>i. insert_row md row))
    (\<lambda>r ls. settled ls \<and> statements (map fst ls) \<le> length xs
       \<and> (\<not> isl r) = undone ls \<and> (undone ls \<longrightarrow> statements (map fst ls) = length xs))"
proof (induction xs)
  case (Cons x xs)
  show ?case
    unfolding adds_log_def
  proof
    fix w
    obtain r w1 ls where one: "insert_row md row w = (r, w1)" "db_log w1 = db_log w @ ls" "settled ls"
        "statements (map fst ls) = 1" "(\<not> isl r) = undone ls"
      using insert_row_calls [OF assms] by (rule adds_logE) auto
    obtain q w2 ks where rest: "for_each xs (\<lambda>i. insert_row md row) w1 = (q, w2)" "db_log w2 = db_log w1 @ ks"
        "settled ks" "statements (map fst ks) \<le> length xs"
        "(\<not> isl q) = undone ks" "undone ks \<longrightarrow> statements (map fst ks) = length xs"
      using Cons.IH by (rule adds_logE) auto
    show "\<exists>r w' ls. for_each (x # xs) (\<lambda>i. insert_row md row) w = (r, w') \<and> db_log w' = db_log w @ ls
        \<and> settled ls \<and> statements (map fst ls) \<le> length (x # xs)
        \<and> (\<not> isl r) = undone ls \<and> (undone ls \<longrightarrow> statements (map fst ls) = length (x # xs))"
    proof (cases r)
      case (Inl e)
      then show ?thesis using one by (auto simp: bnd_def)
    next
      case (Inr u)
      then show ?thesis
        using one rest by (intro exI [of _ q] exI [of _ w2] exI [of _ "ls @ ks"]) (simp add: bnd_def settled_append)
    qed
  qed
qed (simp add: adds_log_def undone_def)

text \<open>The rows of a run and the report of their cost.\<close>

definition reported_rows ::
    "'d mysql \<Rightarrow> string \<Rightarrow> ('d mysql \<Rightarrow> string \<Rightarrow> ('d db_client, string) io) \<Rightarrow> string \<Rightarrow> int \<Rightarrow> ('d db_client, unit) io" where
  "reported_rows md label row name count =
     bnd (db_ask (md_time md)) (\<lambda>start_time.
     bnd (modify (\<lambda>w. w\<lparr>db_name := Some name\<rparr>)) (\<lambda>_.
     bnd (for_each [0..<nat count] (\<lambda>i. insert_row md (row md name))) (\<lambda>_.
     bnd (db_ask (md_time md)) (\<lambda>end_time. db_print (InsertCost count label start_time end_time)))))"

lemma reported_rows_calls:
  assumes "row \<in> {instance_row, volume_row, port_row}"
  shows "adds_log (reported_rows md label row name count)
    (\<lambda>r ls. settled ls \<and> statements (map fst ls) \<le> nat count \<and> (undone ls \<longrightarrow> statements (map fst ls) = nat count))"
    (is "adds_log _ ?P")
proof -
  have loop: "adds_log (bnd (for_each [0..<nat count] (\<lambda>i. insert_row md (row md name))) (\<lambda>_.
      bnd (db_ask (md_time md)) (\<lambda>end_time. db_print (InsertCost count label start_time end_time)))) ?P" for start_time
    unfolding adds_log_def
  proof
    fix w
    obtain r w1 ls where one: "for_each [0..<nat count] (\<lambda>i. insert_row md (row md name)) w = (r, w1)"
        "db_log w1 = db_log w @ ls" "?P r ls"
      using insert_loop_calls [OF rows_ask_only [OF assms], of "[0..<nat count]"] by (rule adds_logE) auto
    then show "\<exists>r w' ls. bnd (for_each [0..<nat count] (\<lambda>i. insert_row md (row md name))) (\<lambda>_.
        bnd (db_ask (md_time md)) (\<lambda>end_time. db_print (InsertCost count label start_time end_time))) w = (r, w')
      \<and> db_log w' = db_log w @ ls \<and> ?P r ls"
      by (cases r) (auto simp: bnd_def db_ask_def db_print_def modify_def split: prod.splits)
  qed
  show ?thesis
    unfolding reported_rows_def by (rule asks_only_bnd [OF asks_only_intros(1) asks_only_bnd [OF asks_only_intros(4) loop]])
qed

text \<open>
  C39 (insert_settles_and_closes): whatever the database answers to each call, every row that was sent is committed by a
  commit that succeeded, or a rollback follows it, before the next row; after a rollback that failed no row is sent.
  At most as many rows are sent as were asked for, and fewer only after a rollback that failed. The connection is
  closed at the end, and only an error of this closing is raised.
\<close>

theorem insert_settles_and_closes:
  assumes "row \<in> {instance_row, volume_row, port_row}"
  shows "\<exists>r w' ls. insert_rows md label row name count w = (r, w') \<and> db_log w' = db_log w @ ls @ [(CClose, \<not> isl r)]
    \<and> settled ls \<and> statements (map fst ls) \<le> nat count
    \<and> (statements (map fst ls) = nat count \<or> (CRollback, False) \<in> set ls)
    \<and> (\<forall>e. r = Inl e \<longrightarrow> (\<exists>v v'. md_close md v = (Inl e, v')))"
proof -
  let ?body = "catch (reported_rows md label row name count) (\<lambda>e. Some (ret ()))"
  obtain q w1 ls where one: "reported_rows md label row name count w = (q, w1)" "db_log w1 = db_log w @ ls" "settled ls"
      "statements (map fst ls) \<le> nat count" "undone ls \<longrightarrow> statements (map fst ls) = nat count"
    using reported_rows_calls [OF assms] by (rule adds_logE) auto
  then have body: "?body w = (Inr (), w1)" by (cases q) (simp_all add: catch_def)
  obtain c v where closing: "md_close md (db_ext w1) = (c, v)" by fastforce
  have run: "insert_rows md label row name count w
      = ((case c of Inl e \<Rightarrow> Inl e | Inr u \<Rightarrow> Inr ()), w1\<lparr>db_ext := v, db_log := db_log w1 @ [(CClose, \<not> isl c)]\<rparr>)"
    unfolding insert_rows_def try_finally_def body [unfolded reported_rows_def]
    using closing by (simp add: db_do_def split: sum.splits)
  have "statements (map fst ls) = nat count \<or> (CRollback, False) \<in> set ls" using one(5) by (auto simp: undone_def)
  with run one closing show ?thesis
    by (intro exI [of _ "case c of Inl e \<Rightarrow> Inl e | Inr u \<Rightarrow> Inr ()"]
        exI [of _ "w1\<lparr>db_ext := v, db_log := db_log w1 @ [(CClose, \<not> isl c)]\<rparr>"] exI [of _ ls]) (auto split: sum.splits)
qed

section \<open>Failing statements\<close>

text \<open>
  (delete_leaves_open): when the first statement of a deletion fails, the method ends in an UnboundLocalError of its
  \<open>finally\<close> clause and the connection is not closed.
\<close>

theorem delete_leaves_open:
  assumes "md_execute md ''SET FOREIGN_KEY_CHECKS=0'' (db_ext w) = (Inl e, v)"
  shows "\<exists>w'. delete_rows md label condition name w = (Inl UnboundErr, w')
    \<and> db_calls w' = db_calls w @ [CExecute ''SET FOREIGN_KEY_CHECKS=0'', CRollback]"
  using assms
  by (auto simp: delete_rows_def named_def gets_def bnd_def attempt_def db_execute_def db_do_def try_finally_def
      db_calls_def delete_ending_def db_ask_def split: prod.splits)

text \<open>A database that refuses every statement.\<close>

definition refusing_mysql :: "nat mysql" where
  "refusing_mysql =
     \<lparr>md_connect = (\<lambda>ip u p d n. (Inr (), n)), md_execute = (\<lambda>s n. (Inl (PlainExc ''refused''), n)),
      md_fetchall = (\<lambda>n. (Inr (PList []), n)), md_commit = (\<lambda>n. (Inr (), n)), md_rollback = (\<lambda>n. (Inr (), n)),
      md_close = (\<lambda>n. (Inr (), n)), md_uuid = (\<lambda>n. (nat_str n, n + 1)), md_time = (\<lambda>n. (int n, n + 1))\<rparr>"

definition demo_db_client :: "nat db_client" where
  "demo_db_client = snd (mysql_init refusing_mysql ''10.0.0.1'' ''root'' ''p'' ''nova'' 0)"

theorem insert_settles_and_closes_witness:
  "\<exists>r w' ls. insert_instance refusing_mysql ''x'' 3 demo_db_client = (r, w')
    \<and> db_log w' = db_log demo_db_client @ ls @ [(CClose, \<not> isl r)] \<and> settled ls \<and> statements (map fst ls) \<le> 3"
  using insert_settles_and_closes [of instance_row refusing_mysql "''instance''" "''x''" 3 demo_db_client]
  unfolding insert_instance_def by auto

theorem delete_leaves_open_witness:
  "\<exists>w'. delete_instance refusing_mysql ''x'' demo_db_client = (Inl UnboundErr, w')"
  using delete_leaves_open [of refusing_mysql demo_db_client "PlainExc ''refused''" 0 "''instances''" "''hostname''" "''x''"]
  unfolding delete_instance_def
  by (auto simp: refusing_mysql_def demo_db_client_def mysql_init_def db_connect_def bnd_def gets_def db_do_def)

text \<open>
  (count_leaves_open): a failing count of the volumes or of the ports ends in an UnboundLocalError and leaves the
  connection open, the same failure of the count of the instances does not.
\<close>

theorem count_leaves_open:
  assumes "\<And>sql v. md_execute md sql v = (Inl e, v)" "\<And>v. md_rollback md v = (Inr (), v)" "\<And>v. md_close md v = (Inr (), v)"
  shows "fst (get_volume_num md name w) = Inl UnboundErr" "CClose \<notin> set (drop (length (db_calls w)) (db_calls (snd (get_volume_num md name w))))"
    "fst (get_instance_num md name w) = Inr ()"
  using assms
  by (auto simp: get_volume_num_def get_instance_num_def count_rows_def named_def gets_def bnd_def attempt_def query_rows_def
      db_execute_def db_do_def db_calls_def try_finally_def count_ending_def db_ask_def db_print_def modify_def print_rows_def
      split: prod.splits)

section \<open>The sessions of the test script\<close>

text \<open>
  Whether the client is connected after the calls: a connection is opened when none is open, and everything else
  happens on an open one.
\<close>

fun conn_after :: "bool \<Rightarrow> db_call list \<Rightarrow> bool option" where
  "conn_after b [] = Some b"
| "conn_after b (CConnect # cs) = (if b then None else conn_after True cs)"
| "conn_after b (CClose # cs) = (if b then conn_after False cs else None)"
| "conn_after b (c # cs) = (if b then conn_after True cs else None)"

lemma conn_after_append:
  "conn_after b cs = Some b' \<Longrightarrow> conn_after b (cs @ ds) = conn_after b' ds"
  by (induction b cs rule: conn_after.induct) (auto split: if_splits)

text \<open>\<open>m\<close> succeeds with a result in \<open>P\<close> and takes the connection from \<open>b\<close> to \<open>b'\<close>.\<close>

definition moves :: "bool \<Rightarrow> ('d db_client, 'a) io \<Rightarrow> ('a \<Rightarrow> bool) \<Rightarrow> bool \<Rightarrow> bool" where
  "moves b m P b' = adds_calls m (\<lambda>r cs. (\<exists>x. r = Inr x \<and> P x) \<and> conn_after b cs = Some b')"

lemma movesE:
  assumes "moves b m P b'"
  obtains x w' cs where "m w = (Inr x, w')" "P x" "db_calls w' = db_calls w @ cs" "conn_after b cs = Some b'"
  using assms unfolding moves_def adds_calls_def by blast

lemma movesI:
  assumes "\<And>w. \<exists>x w' cs. m w = (Inr x, w') \<and> P x \<and> db_calls w' = db_calls w @ cs \<and> conn_after b cs = Some b'"
  shows "moves b m P b'"
  using assms unfolding moves_def adds_calls_def by metis

lemma moves_do:
  fixes f :: "'d \<Rightarrow> (pyexc + 'a) \<times> 'd"
  assumes "\<And>v. \<exists>x. fst (f v) = Inr x \<and> P x" "conn_after b [c] = Some b'"
  shows "moves b (db_do c f) P b'"
proof (rule movesI)
  fix w :: "'d db_client"
  obtain x v where "f (db_ext w) = (Inr x, v)" "P x"
    using assms(1) [of "db_ext w"] by (metis prod.collapse)
  then show "\<exists>x w' cs. db_do c f w = (Inr x, w') \<and> P x \<and> db_calls w' = db_calls w @ cs \<and> conn_after b cs = Some b'"
    using assms(2) by (simp add: db_do_def db_calls_def)
qed

lemma moves_bnd:
  assumes "moves b m P b'" "\<And>x. P x \<Longrightarrow> moves b' (f x) Q b''"
  shows "moves b (bnd m f) Q b''"
proof (rule movesI)
  fix w
  obtain x w1 cs where one: "m w = (Inr x, w1)" "P x" "db_calls w1 = db_calls w @ cs" "conn_after b cs = Some b'"
    using assms(1) by (rule movesE)
  obtain y w2 ds where "f x w1 = (Inr y, w2)" "Q y" "db_calls w2 = db_calls w1 @ ds" "conn_after b' ds = Some b''"
    using assms(2) [OF one(2)] by (rule movesE)
  with one show "\<exists>x w' cs. bnd m f w = (Inr x, w') \<and> Q x \<and> db_calls w' = db_calls w @ cs \<and> conn_after b cs = Some b''"
    by (simp add: bnd_def conn_after_append)
qed

lemma moves_finally:
  assumes "moves b m P b'" "moves b' f (\<lambda>_. True) b''"
  shows "moves b (try_finally m f) P b''"
proof (rule movesI)
  fix w
  obtain x w1 cs where one: "m w = (Inr x, w1)" "P x" "db_calls w1 = db_calls w @ cs" "conn_after b cs = Some b'"
    using assms(1) by (rule movesE)
  obtain y w2 ds where "f w1 = (Inr y, w2)" "db_calls w2 = db_calls w1 @ ds" "conn_after b' ds = Some b''"
    using assms(2) by (rule movesE)
  with one show "\<exists>x w' cs. try_finally m f w = (Inr x, w') \<and> P x \<and> db_calls w' = db_calls w @ cs
      \<and> conn_after b cs = Some b''"
    by (simp add: try_finally_def conn_after_append)
qed

lemma moves_via:
  assumes "moves b m P b'"
    and "\<And>w x w'. m w = (Inr x, w') \<Longrightarrow> P x \<Longrightarrow> \<exists>y. k w = (Inr y, w') \<and> Q y"
  shows "moves b k Q b'"
proof (rule movesI)
  fix w
  obtain x w' cs where "m w = (Inr x, w')" "P x" "db_calls w' = db_calls w @ cs" "conn_after b cs = Some b'"
    using assms(1) by (rule movesE)
  with assms(2) show "\<exists>x w' cs. k w = (Inr x, w') \<and> Q x \<and> db_calls w' = db_calls w @ cs \<and> conn_after b cs = Some b'"
    by blast
qed

lemma moves_catch: "moves b m P b' \<Longrightarrow> moves b (catch m h) P b'"
  by (erule moves_via) (simp add: catch_def)

lemma moves_attempt: "moves b m P b' \<Longrightarrow> moves b (attempt m) (\<lambda>r. \<exists>x. r = Inr x \<and> P x) b'"
  by (erule moves_via) (simp add: attempt_def)

lemma moves_weaken: "moves b m P b' \<Longrightarrow> (\<And>x. P x \<Longrightarrow> Q x) \<Longrightarrow> moves b m Q b'"
  by (erule moves_via) simp

lemma moves_quiet:
  assumes "asks_only m"
  shows "moves b m (\<lambda>_. True) b"
proof (rule movesI)
  fix w
  show "\<exists>x w' cs. m w = (Inr x, w') \<and> True \<and> db_calls w' = db_calls w @ cs \<and> conn_after b cs = Some b"
    using assms unfolding asks_only_def db_calls_def by (rule adds_logE [of _ _ w]) auto
qed

lemma moves_for_each:
  assumes "\<And>x. moves b (f x) (\<lambda>_. True) b"
  shows "moves b (for_each xs f) (\<lambda>_. True) b"
  by (induction xs) (auto intro: moves_quiet [OF asks_only_intros(2), unfolded ret_def] moves_bnd assms)

text \<open>A database that takes every statement and answers a query with one row.\<close>

definition accepting :: "'d mysql \<Rightarrow> bool" where
  "accepting md =
     ((\<forall>ip u p d v. fst (md_connect md ip u p d v) = Inr ()) \<and> (\<forall>s v. fst (md_execute md s v) = Inr ())
      \<and> (\<forall>v. \<exists>x. fst (md_fetchall md v) = Inr (PList [x])) \<and> (\<forall>v. fst (md_commit md v) = Inr ())
      \<and> (\<forall>v. fst (md_close md v) = Inr ()))"

lemma accepting_moves:
  assumes "accepting md"
  shows "moves True (disconnect md) (\<lambda>_. True) False"
    and "moves True (db_execute md s) (\<lambda>_. True) True"
    and "moves True (db_do CFetch (md_fetchall md)) (\<lambda>rows. \<exists>x. rows = PList [x]) True"
    and "moves True (db_do CCommit (md_commit md)) (\<lambda>_. True) True"
    and "moves True (db_do CClose (md_close md)) (\<lambda>_. True) False"
    and "moves False (db_connect md) (\<lambda>_. True) True"
proof -
  have connect: "moves False (db_do CConnect (md_connect md ip user password database)) (\<lambda>_. True) True"
    for ip user password database
    using assms by (intro moves_do) (simp_all add: accepting_def)
  show "moves False (db_connect md) (\<lambda>_. True) True"
    unfolding db_connect_def
    by (rule moves_bnd [OF moves_quiet [OF asks_only_intros(5)]]) (simp add: connect split: prod.splits)
  show "moves True (db_do CFetch (md_fetchall md)) (\<lambda>rows. \<exists>x. rows = PList [x]) True"
    using assms unfolding accepting_def by (intro moves_do) (metis, simp)
  show "moves True (disconnect md) (\<lambda>_. True) False" "moves True (db_execute md s) (\<lambda>_. True) True"
    "moves True (db_do CCommit (md_commit md)) (\<lambda>_. True) True" "moves True (db_do CClose (md_close md)) (\<lambda>_. True) False"
    unfolding disconnect_def db_execute_def
    using assms by (intro moves_do; simp add: accepting_def)+
qed

lemmas quiet_moves = asks_only_intros [THEN moves_quiet]

lemma query_moves: "accepting md \<Longrightarrow> moves True (query_rows md sql) (\<lambda>rows. \<exists>x. rows = PList [x]) True"
  unfolding query_rows_def by (rule moves_bnd [OF accepting_moves(2) accepting_moves(3)])

lemma insert_moves:
  assumes "accepting md" "row \<in> {instance_row, volume_row, port_row}"
  shows "moves True (insert_rows md label row name count) (\<lambda>_. True) False"
proof -
  have one: "moves True (insert_row md (row md name)) (\<lambda>_. True) True"
    unfolding insert_row_def
    by (rule moves_bnd [OF moves_quiet [OF rows_ask_only [OF assms(2)]]],
        rule moves_catch, rule moves_bnd [OF accepting_moves(2) [OF assms(1)]], rule accepting_moves(4) [OF assms(1)])
  show ?thesis
    unfolding insert_rows_def
    by (rule moves_finally, rule moves_catch, rule moves_bnd [OF quiet_moves(1)], rule moves_bnd [OF quiet_moves(4)],
        rule moves_bnd, rule moves_for_each, rule one, rule moves_bnd [OF quiet_moves(1)], rule quiet_moves(3),
        rule accepting_moves(5) [OF assms(1)])
qed

lemma search_moves:
  assumes "accepting md"
  shows "moves True (search_row md what table i) (\<lambda>_. True) False"
  unfolding search_row_def
  by (rule moves_bnd [OF quiet_moves(1)], rule moves_finally, rule moves_catch, rule moves_bnd,
      rule query_moves [OF assms], rule quiet_moves(2), rule moves_bnd [OF quiet_moves(1)],
      rule moves_bnd [OF quiet_moves(3)], rule accepting_moves(5) [OF assms])

lemma count_moves:
  assumes "accepting md"
  shows "moves True (count_rows md items label condition before name) (\<lambda>_. True) False"
proof -
  have ending: "moves True (count_ending md items label t (Some (PList [x]))) (\<lambda>_. True) False" for t x
    unfolding count_ending_def print_rows_def
    by (rule moves_bnd [OF quiet_moves(1)], rule moves_bnd [OF quiet_moves(3)], simp, rule moves_bnd [OF quiet_moves(3)],
        rule accepting_moves(5) [OF assms])
  show ?thesis
    unfolding count_rows_def named_def
    by (rule moves_bnd [OF quiet_moves(5)], rule moves_bnd [OF quiet_moves(1)], rule moves_bnd, rule moves_attempt,
        rule query_moves [OF assms]) (auto intro: ending)
qed

lemma delete_moves:
  assumes "accepting md"
  shows "moves True (delete_rows md label condition name) (\<lambda>_. True) False"
proof -
  have ending: "moves True (delete_ending md label (Some t)) (\<lambda>_. True) False" for t
    unfolding delete_ending_def
    by (rule moves_bnd [OF quiet_moves(1)], simp, rule moves_bnd [OF quiet_moves(3)], rule accepting_moves(5) [OF assms])
  have deleting: "moves True (bnd (db_ask (md_time md)) (\<lambda>t.
      try_finally (catch (bnd (db_execute md sql) (\<lambda>_. db_do CCommit (md_commit md))) h) (delete_ending md label (Some t))))
      (\<lambda>_. True) False" for sql h
    by (rule moves_bnd [OF quiet_moves(1)], rule moves_finally, rule moves_catch,
        rule moves_bnd [OF accepting_moves(2) [OF assms]], rule accepting_moves(4) [OF assms], rule ending)
  show ?thesis
    unfolding delete_rows_def named_def
    by (rule moves_bnd [OF quiet_moves(5)], rule moves_bnd, rule moves_attempt, rule accepting_moves(2) [OF assms])
       (auto intro: deleting)
qed

definition orderly :: "'d mysql \<Rightarrow> 'd pressure_ops \<Rightarrow> bool" where
  "orderly md po =
     ((\<forall>n. moves True (po_count po md n) (\<lambda>_. True) False) \<and> (\<forall>n k. moves True (po_insert po md n k) (\<lambda>_. True) False)
      \<and> (\<forall>i. moves True (po_search po md i) (\<lambda>_. True) False) \<and> (\<forall>n. moves True (po_delete po md n) (\<lambda>_. True) False))"

lemma services_orderly:
  assumes "accepting md"
  shows "list_all (orderly md) pressure_services"
  by (simp add: pressure_services_def orderly_def insert_instance_def insert_volume_def insert_port_def
      get_instance_num_def get_volume_num_def get_port_num_def get_instance_def get_volume_row_def get_port_row_def
      delete_instance_def delete_volume_rows_def delete_port_rows_def
      insert_moves search_moves count_moves delete_moves assms)

lemma session_moves:
  assumes "accepting md" "orderly md po"
  shows "moves True (pressure_session md po) (\<lambda>_. True) False"
proof -
  have connect: "moves False (reconnect md) (\<lambda>_. True) True"
    unfolding reconnect_def by (rule accepting_moves(6) [OF assms(1)])
  have round: "moves False (pressure_round md po) (\<lambda>_. True) False"
    using assms(2) unfolding pressure_round_def orderly_def by (blast intro: moves_bnd connect)
  show ?thesis
    using assms(2) unfolding pressure_session_def orderly_def
    by (blast intro: moves_bnd accepting_moves(1) [OF assms(1)] moves_for_each [OF round] connect)
qed

lemma client_session:
  assumes "accepting md" "orderly md po"
  shows "\<exists>w. test_client md po v = (Inr (), w) \<and> conn_after False (db_calls w) = Some False"
proof -
  let ?new = "\<lparr>db_ext = v, db_ip = ''10.168.91.1'', db_user = ''root'', db_password = ''Passw0rd'',
    db_database = po_database po, db_name = None, db_log = [], db_out = []\<rparr>"
  have "moves False (bnd (db_connect md) (\<lambda>_. pressure_session md po)) (\<lambda>_. True) False"
    by (rule moves_bnd [OF accepting_moves(6) [OF assms(1)] session_moves [OF assms]])
  then obtain w cs where "bnd (db_connect md) (\<lambda>_. pressure_session md po) ?new = (Inr (), w)"
      "db_calls w = db_calls ?new @ cs" "conn_after False cs = Some False"
    by (rule movesE [where w = ?new]) (auto simp: db_calls_def)
  then show ?thesis by (auto simp: test_client_def mysql_init_def bnd_def db_calls_def split: prod.splits sum.splits)
qed

text \<open>
  (pressure_test_one_connection): with a database that takes the statements the script makes its three clients, and
  each of them opens a connection only when it has none, sends everything on an open one and ends without one.
\<close>

theorem pressure_test_one_connection:
  assumes "accepting md"
  shows "\<exists>ws. pressure_test md v = (Inr (), ws) \<and> length ws = 3
    \<and> list_all (\<lambda>w. conn_after False (db_calls w) = Some False) ws"
proof -
  have "\<exists>ws. test_clients md pos v = (Inr (), ws) \<and> length ws = length pos
      \<and> list_all (\<lambda>w. conn_after False (db_calls w) = Some False) ws" if "list_all (orderly md) pos" for pos v
    using that
  proof (induction pos arbitrary: v)
    case (Cons po pos)
    obtain w where w: "test_client md po v = (Inr (), w)" "conn_after False (db_calls w) = Some False"
      using client_session [OF assms] Cons.prems by force
    obtain ws where "test_clients md pos (db_ext w) = (Inr (), ws)" "length ws = length pos"
        "list_all (\<lambda>w. conn_after False (db_calls w) = Some False) ws"
      using Cons.IH [of "db_ext w"] Cons.prems by force
    with w show ?case by simp
  qed simp
  moreover have "length pressure_services = 3" by (simp add: pressure_services_def)
  ultimately show ?thesis
    using services_orderly [OF assms] unfolding pressure_test_def by metis
qed

text \<open>A database that takes every statement.\<close>

definition taking_mysql :: "nat mysql" where
  "taking_mysql = refusing_mysql\<lparr>md_execute := \<lambda>s n. (Inr (), n), md_fetchall := \<lambda>n. (Inr (PList [PInt (int n)]), n)\<rparr>"

theorem pressure_test_one_connection_witness:
  "\<exists>ws. pressure_test taking_mysql 0 = (Inr (), ws) \<and> length ws = 3
    \<and> list_all (\<lambda>w. conn_after False (db_calls w) = Some False) ws"
  by (rule pressure_test_one_connection) (simp add: accepting_def taking_mysql_def refusing_mysql_def)

end
