(* ===== verification/RabbitLoad.thy ===== *)
theory RabbitLoad
  imports World Complex_Main
begin

text \<open>
  \<open>rabbit_pressure\<close>: a publisher per host sends one message a second to each of its queues, a consumer of all hosts
  takes them from the queues and averages how long they were on the way. The broker, the clock and the JSON codec are
  the parameter of type \<open>broker\<close>; the consumer of a queue is modelled on a list of deliveries, at whose end it
  waits. Times and averages are exact numbers, and what is only logged is left out.
  Every queue that a host publishes to has exactly one consumer, and one unreadable message ends a consumer.
\<close>

section \<open>Names and numbers\<close>

definition MESSAGES_PER_SECOND :: nat where
  "MESSAGES_PER_SECOND = 1"

definition QUEUES_PER_HOST :: nat where
  "QUEUES_PER_HOST = 40"

definition SECONDS_PER_ROUND :: nat where
  "SECONDS_PER_ROUND = 60"

definition HOST_NUM :: nat where
  "HOST_NUM = 80"

section \<open>The broker\<close>

record 'b broker =
  br_connect :: "string \<Rightarrow> 'b \<Rightarrow> (pyexc + unit) \<times> 'b"
  br_channel :: "'b \<Rightarrow> (pyexc + unit) \<times> 'b"
  br_declare :: "string \<Rightarrow> 'b \<Rightarrow> (pyexc + unit) \<times> 'b"
  br_publish :: "string \<Rightarrow> string \<Rightarrow> py \<Rightarrow> 'b \<Rightarrow> (pyexc + unit) \<times> 'b"
  br_sleep :: "'b \<Rightarrow> 'b"
  br_ack :: "'b \<Rightarrow> (pyexc + unit) \<times> 'b"
  br_cancel :: "'b \<Rightarrow> (pyexc + unit) \<times> 'b"
  br_close_channel :: "'b \<Rightarrow> (pyexc + unit) \<times> 'b"
  br_close :: "'b \<Rightarrow> (pyexc + unit) \<times> 'b"
  br_time :: "'b \<Rightarrow> int \<times> 'b"
  br_loads :: "string \<Rightarrow> py option"
  br_number :: "py \<Rightarrow> rat option"
  br_stop :: "'b \<Rightarrow> bool"

section \<open>The publisher\<close>

record host_publish =
  hp_host :: string
  hp_queue :: "string option"
  hp_queue_num :: nat

text \<open>One message; every exception of it is logged and the loop goes on.\<close>

definition publish_one ::
    "'b broker \<Rightarrow> host_publish \<Rightarrow> string \<Rightarrow> string \<Rightarrow> nat \<Rightarrow> ('b, unit) io" where
  "publish_one br hp exchange queue queue_num b =
     (case br_time br b of
        (t, b1) \<Rightarrow>
          (case br_publish br exchange queue
                  (PDict [(''name'', PStr ''zhangwei pressure test of rabbit''), (''queue_num'', PInt (int queue_num)),
                          (''host'', PStr (hp_host hp)), (''timestamp'', PInt t)]) b1 of
             (Inl e, b2) \<Rightarrow> (Inr (), b2)
           | (Inr u, b2) \<Rightarrow> (Inr (), br_sleep br b2)))"

text \<open>A round without a channel: the message is made, and the unbound name is logged.\<close>

definition publish_nothing :: "'b broker \<Rightarrow> ('b, unit) io" where
  "publish_nothing br b = (Inr (), snd (br_time br b))"

definition message_numbers :: "nat list" where
  "message_numbers = [0..<MESSAGES_PER_SECOND * SECONDS_PER_ROUND]"

text \<open>An exception of the first calls is logged; the last statement needs the name \<open>connection\<close>.\<close>

definition run_compute ::
    "'b broker \<Rightarrow> host_publish \<Rightarrow> nat \<Rightarrow> string \<Rightarrow> string \<Rightarrow> ('b, unit) io" where
  "run_compute br hp queue_num queue exchange b =
     (let curr_queue_num = (if queue_num \<noteq> 0 then queue_num else hp_queue_num hp);
          curr_queue = (if queue \<noteq> [] then queue else (case hp_queue hp of None \<Rightarrow> [] | Some q \<Rightarrow> q))
      in (case br_connect br ''192.169.0.1'' b of
            (Inl e, b1) \<Rightarrow> bnd (for_each message_numbers (\<lambda>i. publish_nothing br)) (\<lambda>_. throw UnboundErr) b1
          | (Inr u, b1) \<Rightarrow>
              (case br_channel br b1 of
                 (Inl e, b2) \<Rightarrow> bnd (for_each message_numbers (\<lambda>i. publish_nothing br)) (\<lambda>_. br_close br) b2
               | (Inr u, b2) \<Rightarrow>
                   bnd (for_each message_numbers (\<lambda>i. publish_one br hp exchange curr_queue curr_queue_num))
                     (\<lambda>_. br_close br) b2)))"

text \<open>The threads of a host: number and name of each queue.\<close>

definition publisher_threads :: "host_publish \<Rightarrow> (nat \<times> string) list" where
  "publisher_threads hp =
     map (\<lambda>i. (i, hp_host hp @ ''_queue_'' @ nat_str i)) [0..<QUEUES_PER_HOST]"

section \<open>The consumer\<close>

definition consumer_threads :: "string list" where
  "consumer_threads =
     concat (map (\<lambda>i. map (\<lambda>j. ''compute'' @ nat_str i @ ''_queue_'' @ nat_str j) [0..<QUEUES_PER_HOST])
       [0..<HOST_NUM])"

record consumed =
  cs_count :: nat
  cs_latency :: rat
  cs_message :: "py option"
  cs_acked :: nat

definition nothing_consumed :: consumed where
  "nothing_consumed = \<lparr>cs_count = 0, cs_latency = 0, cs_message = None, cs_acked = 0\<rparr>"

text \<open>The \<open>try\<close> block of one delivery: whether it ended, and the names that are bound.\<close>

definition measure_message :: "'b broker \<Rightarrow> string \<Rightarrow> consumed \<Rightarrow> 'b \<Rightarrow> bool \<times> consumed \<times> 'b" where
  "measure_message br body c b =
     (let c1 = c\<lparr>cs_count := cs_count c + 1\<rparr>
      in (case br_loads br body of
            None \<Rightarrow> (False, c1, b)
          | Some m \<Rightarrow>
              (let c2 = c1\<lparr>cs_message := Some m\<rparr>
               in (case py_in ''timestamp'' m of
                     Inl e \<Rightarrow> (False, c2, b)
                   | Inr False \<Rightarrow> (True, c2, b)
                   | Inr True \<Rightarrow>
                       (case getitem m ''timestamp'' of
                          Inl e \<Rightarrow> (False, c2, b)
                        | Inr v \<Rightarrow>
                            (let (t, b1) = br_time br b
                             in case br_number br v of
                                  None \<Rightarrow> (False, c2, b1)
                                | Some s \<Rightarrow>
                                    (True, c2\<lparr>cs_latency := (cs_latency c2 + (of_int t - s)) / 2\<rparr>, b1)))))))"

text \<open>
  The handler writes \<open>logging.error(...) % message\<close>: a TypeError, or an unbound name when no message was read yet.
\<close>

definition handler_error :: "consumed \<Rightarrow> pyexc" where
  "handler_error c = (if cs_message c = None then UnboundErr else TypeErr)"

datatype consumer_end = Waiting | Stopped | Died pyexc

fun consume_all :: "'b broker \<Rightarrow> string list \<Rightarrow> consumed \<Rightarrow> 'b \<Rightarrow> consumer_end \<times> consumed \<times> 'b" where
  "consume_all br [] c b = (Waiting, c, b)"
| "consume_all br (body # rest) c b =
     (let (ok, c1, b1) = measure_message br body c b
      in if \<not> ok then (Died (handler_error c1), c1, b1)
         else (case br_ack br b1 of
                 (Inl e, b2) \<Rightarrow> (Died e, c1, b2)
               | (Inr u, b2) \<Rightarrow>
                   (let c2 = c1\<lparr>cs_acked := cs_acked c1 + 1\<rparr>
                    in if br_stop br b2 then (Stopped, c2, b2) else consume_all br rest c2 b2)))"

definition run_consume :: "'b broker \<Rightarrow> string \<Rightarrow> string list \<Rightarrow> 'b \<Rightarrow> consumer_end \<times> consumed \<times> 'b" where
  "run_consume br queue deliveries b =
     (case bnd (br_connect br ''192.168.0.1'') (\<lambda>_. bnd (br_channel br) (\<lambda>_. br_declare br queue)) b of
        (Inl e, b1) \<Rightarrow> (Died e, nothing_consumed, b1)
      | (Inr u, b1) \<Rightarrow>
          (case consume_all br deliveries nothing_consumed b1 of
             (Stopped, c, b2) \<Rightarrow>
               (case bnd (br_cancel br) (\<lambda>_. bnd (br_close_channel br) (\<lambda>_. br_close br)) b2 of
                  (Inl e, b3) \<Rightarrow> (Died e, c, b3)
                | (Inr u, b3) \<Rightarrow> (Stopped, c, b3))
           | other \<Rightarrow> other))"

section \<open>Queues\<close>

lemma digits_then_rest:
  assumes "nat_str i @ CHR ''_'' # s = nat_str j @ CHR ''_'' # t"
  shows "i = j \<and> s = t"
proof -
  have stop: "takeWhile is_digit (nat_str n @ CHR ''_'' # u) = nat_str n"
    "dropWhile is_digit (nat_str n @ CHR ''_'' # u) = CHR ''_'' # u" for n u
  proof -
    have "\<forall>c \<in> set (nat_str n). is_digit c" using nat_str_digits [of n] by (simp add: list_all_iff)
    moreover have "\<not> is_digit (CHR ''_'')" by (simp add: is_digit_def)
    ultimately show "takeWhile is_digit (nat_str n @ CHR ''_'' # u) = nat_str n"
      "dropWhile is_digit (nat_str n @ CHR ''_'' # u) = CHR ''_'' # u"
      by (simp_all add: takeWhile_append2 dropWhile_append2)
  qed
  from arg_cong [OF assms, of "takeWhile is_digit"] arg_cong [OF assms, of "dropWhile is_digit"]
  show ?thesis by (simp add: stop)
qed

definition queue_name :: "nat \<times> nat \<Rightarrow> string" where
  "queue_name x = ''compute'' @ nat_str (fst x) @ ''_queue_'' @ nat_str (snd x)"

lemma inj_queue_name: "inj queue_name"
  by (rule injI) (auto simp: queue_name_def prod_eq_iff dest!: digits_then_rest)

lemma consumer_threads_eq:
  "consumer_threads = map queue_name (concat (map (\<lambda>i. map (Pair i) [0..<QUEUES_PER_HOST]) [0..<HOST_NUM]))"
  by (simp add: consumer_threads_def map_concat queue_name_def comp_def)

lemma distinct_pairs: "distinct (concat (map (\<lambda>i. map (Pair i) [0..<m]) [0..<n]))"
  by (induction n) (auto simp: distinct_map inj_on_def)

definition queues_of_host :: "nat \<Rightarrow> string list" where
  "queues_of_host i =
     map snd (publisher_threads \<lparr>hp_host = ''compute'' @ nat_str i, hp_queue = None, hp_queue_num = 0\<rparr>)"

lemma queues_of_host_eq: "queues_of_host = (\<lambda>i. map (\<lambda>j. queue_name (i, j)) [0..<QUEUES_PER_HOST])"
  by (rule ext) (simp add: queues_of_host_def publisher_threads_def queue_name_def comp_def)

text \<open>
  (queues_consumed_once): the publishers of the hosts \<open>compute0\<close> to \<open>compute79\<close> and the consumer agree on the queues:
  they are the same, in the same order, and no queue has two consumers.
\<close>

theorem queues_consumed_once:
  "consumer_threads = concat (map queues_of_host [0..<80]) \<and> distinct consumer_threads
    \<and> length consumer_threads = 3200"
proof -
  have "distinct consumer_threads"
    unfolding consumer_threads_eq using distinct_pairs inj_on_subset [OF inj_queue_name] by (simp add: distinct_map)
  moreover have "consumer_threads = concat (map queues_of_host [0..<80])"
    by (simp add: consumer_threads_def queues_of_host_eq queue_name_def HOST_NUM_def)
  moreover have "length consumer_threads = 3200"
    by (simp add: consumer_threads_def length_concat comp_def HOST_NUM_def QUEUES_PER_HOST_def sum_list_triv)
  ultimately show ?thesis by blast
qed

section \<open>An unreadable message\<close>

text \<open>A message that the consumer can measure.\<close>

definition measurable :: "'b broker \<Rightarrow> string \<Rightarrow> bool" where
  "measurable br body =
     (\<exists>d v s. br_loads br body = Some (PDict d) \<and> dget d ''timestamp'' = Some v \<and> br_number br v = Some s)"

lemma measurable_measured:
  assumes "measurable br body"
  obtains c' b' where "measure_message br body c b = (True, c', b')" "cs_count c' = cs_count c + 1"
    "cs_acked c' = cs_acked c" "cs_message c' \<noteq> None"
proof -
  obtain d v s where "br_loads br body = Some (PDict d)" "dget d ''timestamp'' = Some v" "br_number br v = Some s"
    using assms unfolding measurable_def by blast
  moreover obtain t b1 where "br_time br b = (t, b1)" by fastforce
  ultimately have "measure_message br body c b =
      (True, c\<lparr>cs_count := cs_count c + 1, cs_message := Some (PDict d),
        cs_latency := (cs_latency c + (of_int t - s)) / 2\<rparr>, b1)"
    by (simp add: measure_message_def dhas_def Let_def)
  then show thesis by (rule that) simp_all
qed

text \<open>
  (bad_message_ends_consumer): while the broker takes the acknowledgements and no stop is asked for, the messages
  before one that is no JSON are each counted and acknowledged; that one is counted, not acknowledged, and ends the
  thread, so the messages after it stay in the queue.
\<close>

theorem bad_message_ends_consumer:
  assumes "list_all (measurable br) good" "br_loads br bad = None" "\<And>b. fst (br_ack br b) = Inr ()" "\<And>b. \<not> br_stop br b"
  shows "\<exists>c b'. consume_all br (good @ bad # rest) nothing_consumed b
      = (Died (if good = [] then UnboundErr else TypeErr), c, b')
    \<and> cs_acked c = length good \<and> cs_count c = length good + 1"
proof -
  have "\<exists>c' b'. consume_all br (good @ bad # rest) c b
      = (Died (if good = [] \<and> cs_message c = None then UnboundErr else TypeErr), c', b')
    \<and> cs_acked c' = cs_acked c + length good \<and> cs_count c' = cs_count c + length good + 1" for c
    using assms(1)
  proof (induction good arbitrary: c b)
    case Nil
    then show ?case using assms(2) by (simp add: measure_message_def handler_error_def Let_def)
  next
    case (Cons g good)
    have "measurable br g" using Cons.prems by simp
    then obtain c1 b1 where m: "measure_message br g c b = (True, c1, b1)" "cs_count c1 = cs_count c + 1"
        "cs_acked c1 = cs_acked c" "cs_message c1 \<noteq> None"
      by (rule measurable_measured [of br g c b])
    obtain b2 where ack: "br_ack br b1 = (Inr (), b2)" using assms(3) [of b1] by (metis prod.collapse)
    let ?c2 = "c1\<lparr>cs_acked := cs_acked c1 + 1\<rparr>"
    obtain c' b' where "consume_all br (good @ bad # rest) ?c2 b2
        = (Died (if good = [] \<and> cs_message ?c2 = None then UnboundErr else TypeErr), c', b')"
        "cs_acked c' = cs_acked ?c2 + length good" "cs_count c' = cs_count ?c2 + length good + 1"
      using Cons.IH [of ?c2 b2] Cons.prems by auto
    with m ack show ?case using assms(4) by (simp add: Let_def)
  qed
  from this [of nothing_consumed] show ?thesis by (simp add: nothing_consumed_def)
qed

definition demo_broker :: "nat broker" where
  "demo_broker =
     \<lparr>br_connect = (\<lambda>h n. (Inr (), n)), br_channel = (\<lambda>n. (Inr (), n)), br_declare = (\<lambda>q n. (Inr (), n)),
      br_publish = (\<lambda>e q m n. (Inr (), n)), br_sleep = (\<lambda>n. n + 1), br_ack = (\<lambda>n. (Inr (), n)),
      br_cancel = (\<lambda>n. (Inr (), n)), br_close_channel = (\<lambda>n. (Inr (), n)), br_close = (\<lambda>n. (Inr (), n)),
      br_time = (\<lambda>n. (int n, n + 1)),
      br_loads = (\<lambda>s. if s = ''m'' then Some (PDict [(''timestamp'', PInt 0)]) else None),
      br_number = (\<lambda>v. case v of PInt i \<Rightarrow> Some (of_int i) | _ \<Rightarrow> None), br_stop = (\<lambda>n. False)\<rparr>"

theorem bad_message_ends_consumer_witness:
  "\<exists>c b'. consume_all demo_broker [''m'', ''m'', ''?'', ''m''] nothing_consumed 0 = (Died TypeErr, c, b')
    \<and> cs_acked c = 2 \<and> cs_count c = 3"
proof -
  have "list_all (measurable demo_broker) [''m'', ''m'']" "br_loads demo_broker ''?'' = None"
    "\<And>b. fst (br_ack demo_broker b) = Inr ()" "\<And>b. \<not> br_stop demo_broker b"
    by (simp_all add: measurable_def demo_broker_def)
  from bad_message_ends_consumer [OF this, of "[''m'']" 0] show ?thesis by (simp add: numeral_eq_Suc)
qed

end
