(* ===== verification/MultipleVM.thy ===== *)
theory MultipleVM
  imports NetworkBaseProps NetworkProps ComputeBaseProps
begin

text \<open>
  \<open>testcases/network_tests/teset_multiple_vm_create_delete.py\<close>: a test that works with the base of the network tests
  and the base of the compute tests at once. It sets up a network, creates some servers on it, each with a floating
  address that must answer, and at the end removes what both bases have created.

  The object is a network base and holds a compute base, so the world has the lists of both; an operation of the
  compute base runs on the part of the world that it knows (\<open>on_compute\<close>). That the network base it holds beside
  itself, with the names of its own, is never used, is as in the code. Random values are arguments.
\<close>

section \<open>The world of both bases\<close>

record 'r vm_world = "'r net_world" +
  vw_servers :: "py list"
  vw_images :: "py list"

definition compute_view :: "'r vm_world \<Rightarrow> 'r compute_world" where
  "compute_view w =
     \<lparr>now = now w, remote = remote w, sent = sent w, naps = naps w, cw_servers = vw_servers w, cw_images = vw_images w\<rparr>"

definition put_compute :: "'r compute_world \<Rightarrow> 'r vm_world \<Rightarrow> 'r vm_world" where
  "put_compute v w =
     w\<lparr>now := now v, remote := remote v, sent := sent v, naps := naps v, vw_servers := cw_servers v, vw_images := cw_images v\<rparr>"

definition on_compute :: "('r compute_world, 'a) loopy \<Rightarrow> ('r vm_world, 'a) loopy" where
  "on_compute m w =
     (case m (compute_view w) of None \<Rightarrow> None | Some (r, v) \<Rightarrow> Some (r, put_compute v w))"

section \<open>Making the test\<close>

text \<open>What the test reads: the two bases, its clients, and the ping.\<close>

record 'r vm_test =
  vm_net :: net_base
  vm_compute :: compute_base
  vm_client :: rest_client
  vm_network_rq :: "('r vm_world) requester"
  vm_compute_clients :: "('r compute_world) compute_clients"
  vm_post :: "('r compute_world) poster"
  vm_monitor :: monitor
  vm_ping :: "string \<Rightarrow> ('r vm_world, string list) io"

text \<open>
  \<open>__init__\<close>: \<open>test\<close> holds the bases as they are before, with the numbers of the configuration and no names; \<open>random\<close>
  is the random part of the names.
\<close>

definition vm_init ::
    "'r env \<Rightarrow> schemas \<Rightarrow> (string \<Rightarrow> py) \<Rightarrow> (string \<Rightarrow> py) \<Rightarrow> string \<Rightarrow> string \<Rightarrow> 'r vm_test
     \<Rightarrow> ('r vm_world, 'r vm_test) loopy" where
  "vm_init env sc net_option compute_option random fresh test =
     catch_loop
       (bnd_loop (io_loop (nb_init env net_option (vm_network_rq test) (vm_net test))) (\<lambda>self.
        bnd_loop (io_loop (nb_init env net_option (vm_network_rq test)
                    ((vm_net test)\<lparr>nb_network_name := PStr (''net-'' @ random), nb_router_name := PStr (''router-'' @ random),
                                   nb_sec_group_name := PStr (''sg-'' @ random)\<rparr>))) (\<lambda>net_base.
        bnd_loop (on_compute (io_loop (cb_init env sc compute_option (vm_compute_clients test) fresh (vm_compute test))))
          (\<lambda>compute. io_loop (ret (test\<lparr>vm_net := self, vm_compute := compute\<rparr>))))))
       (\<lambda>e. Some (io_loop (throw (Auto InitFailed [] []))))"

section \<open>The network of the test\<close>

definition get_id :: "py \<Rightarrow> pyexc + py" where
  "get_id made = py_get made ''id'' PNone"

definition vm_delete_network :: "'r env \<Rightarrow> 'r vm_test \<Rightarrow> ('r vm_world, unit) loopy" where
  "vm_delete_network env t = nb_delete_all env (vm_net t) (vm_client t) (vm_network_rq t)"

definition vm_make_network :: "'r env \<Rightarrow> int \<Rightarrow> 'r vm_test \<Rightarrow> ('r vm_world, py \<times> py) loopy" where
  "vm_make_network env third t =
     (let nb = vm_net t; rq = vm_network_rq t
      in bnd_loop (nb_create_network env nb rq PNone) (\<lambda>network.
         bnd_loop (io_loop (bnd (lift (get_id network)) (\<lambda>i.
                     nb_create_subnet env nb rq third i PNone PNone PNone))) (\<lambda>subnet.
         bnd_loop (nb_create_router env nb rq PNone) (\<lambda>router.
         bnd_loop (io_loop
           (bnd (lift (get_id router)) (\<lambda>router_id.
            bnd (nb_router_set_external_gw env nb rq router_id) (\<lambda>_.
            bnd (lift (get_id subnet)) (\<lambda>subnet_id.
            bnd (nb_router_add_subnet env rq router_id subnet_id) (\<lambda>_.
            bnd (nb_create_security_group env nb rq PNone) (\<lambda>sg.
            bnd (lift (get_id sg)) (\<lambda>sg_id.
            bnd (nb_create_security_group_rule env rq sg_id (PStr ''IPv4'') (PStr ''ingress'') (PStr ''0.0.0.0/0'')
                   (PStr ''ICMP'')) (\<lambda>_. ret sg))))))))) (\<lambda>sg.
           io_loop (ret (network, sg)))))))"

text \<open>An exception takes down what was created and is raised again, unless the clean-up raises one of its own.\<close>

definition vm_set_up :: "'r env \<Rightarrow> int \<Rightarrow> 'r vm_test \<Rightarrow> ('r vm_world, py \<times> py) loopy" where
  "vm_set_up env third t =
     catch_loop (vm_make_network env third t)
       (\<lambda>e. Some (bnd_loop (vm_delete_network env t) (\<lambda>_. io_loop (throw e))))"

section \<open>The servers\<close>

text \<open>\<open>interfaces[0]\<close>.\<close>

definition first_item :: "py \<Rightarrow> pyexc + py" where
  "first_item v =
     (case v of
        PList (x # xs) \<Rightarrow> Inr x
      | PStr (c # cs) \<Rightarrow> Inr (PStr [c])
      | PDict d \<Rightarrow> Inl (KeyErr ''0'')
      | _ \<Rightarrow> Inl TypeErr)"

text \<open>
  One server. A server without an interface is a bare \<open>raise\<close>; whatever that raises, the handler takes it.
\<close>

definition vm_one_server :: "'r env \<Rightarrow> schemas \<Rightarrow> 'r vm_test \<Rightarrow> py \<Rightarrow> py \<Rightarrow> string \<Rightarrow> ('r vm_world, unit) loopy" where
  "vm_one_server env sc t network sg fresh =
     bnd_loop (io_loop (lift (bindE (get_id network) (\<lambda>i. bindE (get_id sg) (\<lambda>j. Inr (i, j)))))) (\<lambda>(network_id, sg_id).
     bnd_loop (on_compute
       (bnd_loop (cb_create_server env sc (vm_compute t) (vm_compute_clients t) (vm_post t) (vm_monitor t)
                    (PStr (''server-'' @ fresh)) PNone PNone network_id sg_id) (\<lambda>server.
        io_loop (bnd (lift (rb_item server ''id'')) (\<lambda>i. cb_show_server_interfaces env sc (vm_compute_clients t) i)))))
       (\<lambda>shown.
     (let interfaces = (case dget (rb_data shown) ''interfaceAttachments'' of None \<Rightarrow> PList [] | Some v \<Rightarrow> v)
      in bnd_loop (io_loop (if truthy interfaces
                            then lift (bindE (first_item interfaces) (\<lambda>x. getitem x ''port_id'')) else throw TypeErr))
           (\<lambda>port_id.
         bnd_loop (nb_create_floating_ip env (vm_net t) (vm_network_rq t) port_id) (\<lambda>floatingip.
         bnd_loop (io_loop (lift (getitem floatingip ''floating_ip_address''))) (\<lambda>addr.
           nb_test_ping_floatingip (vm_net t) (vm_ping t) (id_text env addr) None None))))))"

text \<open>The rounds, with the number of those that succeeded; the names of the servers are \<open>names\<close>.\<close>

primrec vm_servers ::
    "'r env \<Rightarrow> schemas \<Rightarrow> 'r vm_test \<Rightarrow> py \<Rightarrow> py \<Rightarrow> string list \<Rightarrow> nat \<Rightarrow> ('r vm_world, nat) loopy" where
  "vm_servers env sc t network sg [] success_count = io_loop (ret success_count)"
| "vm_servers env sc t network sg (n # ns) success_count =
     bnd_loop (catch_loop (bnd_loop (vm_one_server env sc t network sg n) (\<lambda>_. io_loop (ret (success_count + 1))))
                 (\<lambda>e. Some (io_loop (ret success_count))))
       (vm_servers env sc t network sg ns)"

section \<open>The end of the test\<close>

text \<open>Whether a clean-up ended without an exception.\<close>

definition cleaned :: "('w, unit) loopy \<Rightarrow> ('w, bool) loopy" where
  "cleaned m = catch_loop (bnd_loop m (\<lambda>_. io_loop (ret True))) (\<lambda>e. Some (io_loop (ret False)))"

definition vm_finish :: "'r env \<Rightarrow> schemas \<Rightarrow> 'r vm_test \<Rightarrow> ('r vm_world, unit) loopy" where
  "vm_finish env sc t =
     bnd_loop (cleaned (on_compute (cb_delete_all env sc (vm_compute t) (vm_compute_clients t)))) (\<lambda>compute_gone.
     bnd_loop (cleaned (vm_delete_network env t)) (\<lambda>network_gone.
       io_loop (if compute_gone \<and> network_gone then ret () else throw (Auto DeleteException [] []))))"

text \<open>The result is the number of successes, which is logged.\<close>

definition test_multipleVM ::
    "'r env \<Rightarrow> schemas \<Rightarrow> int \<Rightarrow> string list \<Rightarrow> 'r vm_test \<Rightarrow> ('r vm_world, nat) loopy" where
  "test_multipleVM env sc third names t =
     bnd_loop (vm_set_up env third t) (\<lambda>(network, sg).
     bnd_loop (vm_servers env sc t network sg names 0) (\<lambda>success_count.
     bnd_loop (vm_finish env sc t) (\<lambda>_. io_loop (ret success_count))))"

section \<open>Computations that end within a relation\<close>

definition ends_within :: "('w \<Rightarrow> 'w \<Rightarrow> bool) \<Rightarrow> ('w, 'a) loopy \<Rightarrow> bool" where
  "ends_within R m = (\<forall>w. \<exists>r w'. m w = Some (r, w') \<and> R w w')"

lemma ends_withinE:
  assumes "ends_within R m"
  obtains r w' where "m w = Some (r, w')" "R w w'"
  using assms unfolding ends_within_def by blast

lemma ends_within_ends: "ends_within R m \<Longrightarrow> always_ends m"
  by (fastforce simp: ends_within_def always_ends_def)

text \<open>A relation that computations can be composed along.\<close>

locale kept =
  fixes R :: "'w \<Rightarrow> 'w \<Rightarrow> bool"
  assumes unchanged: "R w w"
    and twice: "R u v \<Longrightarrow> R v w \<Longrightarrow> R u w"
begin

lemma order: "reflp R" "transp R"
  using unchanged twice by (auto intro: reflpI transpI)

lemmas steps = within_pure [OF order(1)] within_bnd [OF order(2)] within_catch [OF order(2)]

lemma io: "within R m \<Longrightarrow> ends_within R (io_loop m)"
  by (simp add: ends_within_def io_loop_def within_def) (metis prod.collapse)

lemma bnd_ends:
  assumes "ends_within R m" "\<And>x. ends_within R (f x)"
  shows "ends_within R (bnd_loop m f)"
  unfolding ends_within_def
proof
  fix w
  obtain r v where v: "m w = Some (r, v)" "R w v" using assms(1) by (rule ends_withinE)
  show "\<exists>r w'. bnd_loop m f w = Some (r, w') \<and> R w w'"
  proof (cases r)
    case (Inr x)
    obtain q u where "f x v = Some (q, u)" "R v u" using assms(2) by (rule ends_withinE)
    with v Inr show ?thesis by (auto simp: bnd_loop_def intro: twice)
  qed (use v in \<open>simp add: bnd_loop_def\<close>)
qed

lemma ignoring_ends:
  assumes "ends_within R m"
  shows "ends_within R (ignoring m)"
  unfolding ends_within_def
proof
  fix w
  obtain r v where "m w = Some (r, v)" "R w v" using assms by (rule ends_withinE)
  then show "\<exists>r w'. ignoring m w = Some (r, w') \<and> R w w'"
    by (cases r) (simp_all add: ignoring_def catch_loop_def io_loop_def)
qed

lemma loop:
  assumes "\<And>s. within R (body s)" "loop_io body s w = Some (r, w')"
  shows "R w w'"
proof -
  have "(\<forall>s. within R (b s)) \<longrightarrow> R w (snd y)" if "loop_io b s w = Some y"
    for b :: "'s \<Rightarrow> ('w, 's + 'b) io" and s w y
  proof (rule loop_io.raw_induct [where P = "\<lambda>b s w y. (\<forall>s. within R (b s)) \<longrightarrow> R w (snd y)", OF _ that], goal_cases)
    case (1 go body s w y)
    show ?case
    proof
      assume body: "\<forall>s. within R (body s)"
      obtain q v where v: "body s w = (q, v)" by fastforce
      from body have "within R (body s)" ..
      from this v have first: "R w v" by (rule withinD)
      show "R w (snd y)"
      proof (cases "\<exists>s'. q = Inr (Inl s')")
        case True
        then obtain s' where "go body s' v = Some y" using 1(2) v by auto
        from 1(1) [OF this] body have "R v (snd y)" by (rule mp)
        with first show ?thesis by (rule twice)
      next
        case False
        then have "snd y = v" using 1(2) v by (auto split: sum.splits)
        with first show ?thesis by simp
      qed
    qed
  qed
  from this [OF assms(2)] assms(1) show ?thesis by simp
qed

lemma live_for_kept:
  assumes "\<And>x. ends_within R (f x)" "\<And>w w'. R w w' \<Longrightarrow> length (get w') \<le> length (get w)"
  shows "ends_within R (live_for get f)"
proof -
  have "\<exists>r w'. live_from get f i w = Some (r, w') \<and> R w w'" for i w
  proof (induction "length (get w) - i" arbitrary: i w rule: less_induct)
    case less
    show ?case
    proof (cases "i < length (get w)")
      case False
      then show ?thesis by (subst live_from.simps) (simp add: unchanged)
    next
      case True
      obtain r v where v: "f (get w ! i) w = Some (r, v)" "R w v" using assms(1) by (rule ends_withinE)
      have "length (get v) - Suc i < length (get w) - i" using True assms(2) [OF v(2)] by linarith
      from less.hyps [OF this] obtain q u where "live_from get f (Suc i) v = Some (q, u)" "R v u" by blast
      with v True show ?thesis by (subst live_from.simps) (cases r; auto intro: twice)
    qed
  qed
  then show ?thesis by (simp add: ends_within_def live_for_def)
qed

end

section \<open>What a clean-up of the network may change\<close>

text \<open>Time goes on, the lists of the network base get shorter at most, and those of the compute base stay.\<close>

definition net_shrinks :: "'r vm_world \<Rightarrow> 'r vm_world \<Rightarrow> bool" where
  "net_shrinks w w' =
     (now w \<le> now w' \<and> list_all2 (\<lambda>xs ys. length ys \<le> length xs) (nb_lists w) (nb_lists w')
      \<and> vw_servers w' = vw_servers w \<and> vw_images w' = vw_images w)"

interpretation shrinking: kept net_shrinks
  by unfold_locales (auto simp: net_shrinks_def nb_lists_def)

text \<open>The requests do not touch the lists.\<close>

definition calm :: "('r vm_world) requester \<Rightarrow> bool" where
  "calm rq =
     (\<forall>m u x h b. within (\<lambda>w w'. now w \<le> now w' \<and> nb_lists w' = nb_lists w \<and> vw_servers w' = vw_servers w
        \<and> vw_images w' = vw_images w) (rq m u x h b))"

lemma calm_request: "calm rq \<Longrightarrow> within net_shrinks (rq m u x h b)"
  by (force simp: calm_def within_def net_shrinks_def nb_lists_def)

lemma calm_resources:
  assumes "calm rq"
  shows "within net_shrinks (show_resource env rq uri flds)" "within net_shrinks (delete_resource rq uri)"
    "within net_shrinks (update_resource env rq uri doc)"
  unfolding show_resource_def delete_resource_def update_resource_def http_get_def http_put_def http_delete_def
  by (intro shrinking.steps calm_request [OF assms])+

lemma calm_updates:
  assumes "calm rq"
  shows "within net_shrinks (update_firewall env rq i kw)" "within net_shrinks (update_floatingip env rq i kw)"
    "within net_shrinks (update_router env rq i kw)"
    "within net_shrinks (remove_router_interface_with_subnet_id env rq i j)"
  unfolding update_firewall_def update_floatingip_def update_router_def update_router_with_def
    remove_router_interface_with_subnet_id_def
  by (intro shrinking.steps calm_resources [OF assms])+

lemma calm_deletions:
  assumes "calm rq"
  shows "within net_shrinks (delete_network rq i)" "within net_shrinks (delete_subnet rq i)"
    "within net_shrinks (delete_router rq i)" "within net_shrinks (delete_security_group rq i)"
    "within net_shrinks (delete_security_group_rule rq i)" "within net_shrinks (delete_floatingip rq i)"
    "within net_shrinks (delete_firewall rq i)" "within net_shrinks (delete_firewall_policy rq i)"
    "within net_shrinks (delete_firewall_rule rq i)"
  unfolding delete_network_def delete_subnet_def delete_router_def delete_security_group_def
    delete_security_group_rule_def delete_floatingip_def delete_firewall_def delete_firewall_policy_def
    delete_firewall_rule_def
  by (intro calm_resources [OF assms])+

lemma calm_statuses:
  assumes "calm rq"
  shows "within net_shrinks (nb_get_firewall_status env rq i)" "within net_shrinks (nb_get_floatingip_status env rq i)"
  unfolding nb_get_firewall_status_def nb_get_floatingip_status_def status_in_def show_firewall_def show_floatingip_def
  by (intro shrinking.steps calm_resources [OF assms])+

lemma forget_shrinks:
  "within net_shrinks (forget nw_networks nw_networks_update i)"
  "within net_shrinks (forget nw_subnets nw_subnets_update i)"
  "within net_shrinks (forget nw_routers nw_routers_update i)"
  "within net_shrinks (forget nw_security_groups nw_security_groups_update i)"
  "within net_shrinks (forget nw_security_group_rules nw_security_group_rules_update i)"
  "within net_shrinks (forget nw_floating_ips nw_floating_ips_update i)"
  "within net_shrinks (forget nw_firewall_rules nw_firewall_rules_update i)"
  "within net_shrinks (forget nw_firewall_policies nw_firewall_policies_update i)"
  "within net_shrinks (forget nw_firewalls nw_firewalls_update i)"
  by (simp_all add: within_def forget_def bnd_def net_shrinks_def nb_lists_def length_remove1)

lemma sleep_shrinks: "within net_shrinks (sleep n)"
  by (simp add: within_def sleep_def net_shrinks_def nb_lists_def)

lemma deleted_shrinks:
  assumes "calm rq"
  shows "within net_shrinks (is_resource_deleted env rq kind i)"
proof -
  have "within net_shrinks (f i)" if "map_of (show_methods env rq) kind = Some f" for f
    using map_of_SomeD [OF that] calm_resources(1) [OF assms]
    by (auto simp: show_methods_def show_network_def show_subnet_def show_port_def show_floatingip_def
        show_metering_label_def show_metering_label_rule_def show_security_group_def show_security_group_rule_def
        show_firewall_rule_def show_firewall_policy_def show_firewall_def show_extension_def show_quotas_def
        show_router_def show_agent_def)
  then show ?thesis
    unfolding is_resource_deleted_def
    by (intro shrinking.steps) (auto split: option.splits if_splits intro: shrinking.steps)
qed

section \<open>The clean-up of the network ends\<close>

lemma countdown_shrinks:
  assumes "1 \<le> interval" "within net_shrinks check"
  shows "ends_within net_shrinks (countdown interval check timeout)"
proof -
  have "within net_shrinks (countdown_round interval check s)" for s
    unfolding countdown_round_def
    by (auto intro!: shrinking.steps assms(2) sleep_shrinks split: option.splits)
  then show ?thesis
    using countdown_ends [OF assms(1), of check timeout] shrinking.loop
    unfolding ends_within_def countdown_def by metis
qed

lemma status_wait_shrinks:
  assumes "1 \<le> nb_build_interval nb" "within net_shrinks (ask i)"
  shows "ends_within net_shrinks (nb_wait_resource_status nb ask i status None None)"
  unfolding nb_wait_resource_status_def or_raise_def or_default_def
  using assms
  by (auto intro!: shrinking.bnd_ends countdown_shrinks shrinking.io shrinking.steps split: option.splits)

lemma deletion_wait_shrinks:
  assumes "calm rq" "1 \<le> rc_build_interval c"
  shows "ends_within net_shrinks (network_wait_for_deletion env c rq kind i)"
proof -
  let ?deleted = "is_resource_deleted env rq kind i"
  note deleted = deleted_shrinks [OF assms(1)]
  have "time_mono ?deleted" using deleted by (auto simp: time_mono_def within_def net_shrinks_def)
  then have fair: "fair_client c ?deleted" using assms(2) by (simp add: fair_client_def)
  have round: "within net_shrinks (network_deletion_round c ?deleted s)" for s
    unfolding network_deletion_round_def by (auto intro!: shrinking.steps deleted sleep_shrinks)
  show ?thesis
    unfolding ends_within_def
  proof
    fix w
    obtain r w' where run: "network_wait_for_deletion env c rq kind i w = Some (r, w')"
      using network_deletion_ends [OF fair] by blast
    with shrinking.loop [where body = "network_deletion_round c ?deleted", OF round]
    show "\<exists>r w'. network_wait_for_deletion env c rq kind i w = Some (r, w') \<and> net_shrinks w w'"
      unfolding network_wait_for_deletion_def by blast
  qed
qed

lemma delete_and_wait_shrinks:
  assumes "calm rq" "1 \<le> rc_build_interval c" "\<And>i. within net_shrinks (del i)"
    "within net_shrinks (forget get upd i)"
  shows "ends_within net_shrinks (delete_and_wait env c rq get upd del kind i)"
  unfolding delete_and_wait_def
  by (intro shrinking.bnd_ends shrinking.io assms deletion_wait_shrinks)

lemma shrinks_length:
  assumes "net_shrinks w w'"
  shows "length (nw_networks w') \<le> length (nw_networks w)" "length (nw_subnets w') \<le> length (nw_subnets w)"
    "length (nw_routers w') \<le> length (nw_routers w)" "length (nw_security_groups w') \<le> length (nw_security_groups w)"
    "length (nw_security_group_rules w') \<le> length (nw_security_group_rules w)"
    "length (nw_floating_ips w') \<le> length (nw_floating_ips w)"
    "length (nw_firewall_rules w') \<le> length (nw_firewall_rules w)"
    "length (nw_firewall_policies w') \<le> length (nw_firewall_policies w)"
    "length (nw_firewalls w') \<le> length (nw_firewalls w)"
  using assms by (simp_all add: net_shrinks_def nb_lists_def)

lemmas loop_shrinks = shrinking.live_for_kept [OF _ shrinks_length(1)] shrinking.live_for_kept [OF _ shrinks_length(2)]
  shrinking.live_for_kept [OF _ shrinks_length(3)] shrinking.live_for_kept [OF _ shrinks_length(4)]
  shrinking.live_for_kept [OF _ shrinks_length(5)] shrinking.live_for_kept [OF _ shrinks_length(6)]
  shrinking.live_for_kept [OF _ shrinks_length(7)] shrinking.live_for_kept [OF _ shrinks_length(8)]
  shrinking.live_for_kept [OF _ shrinks_length(9)]

lemmas shrinking_rules = shrinking.bnd_ends shrinking.io shrinking.ignoring_ends loop_shrinks shrinking.steps

lemma firewalls_shrink:
  assumes "calm rq" "1 \<le> nb_build_interval nb"
  shows "ends_within net_shrinks (nb_delete_firewalls env nb rq)"
  unfolding nb_delete_firewalls_def nb_remove_firewall_all_routers_def nb_delete_firewall_def quietly_def
    nb_remove_firewall_policy_rule_def nb_delete_firewall_policy_def nb_delete_firewall_rule_def
  by (intro shrinking_rules calm_updates calm_deletions forget_shrinks status_wait_shrinks calm_statuses assms)

lemma router_shrinks:
  assumes "calm rq" "1 \<le> rc_build_interval c"
  shows "ends_within net_shrinks (nb_delete_router env c rq i)"
  unfolding nb_delete_router_def quietly_def nb_router_remove_subnet_def nb_router_unset_external_gw_def
  by (intro shrinking_rules calm_updates delete_and_wait_shrinks calm_deletions forget_shrinks assms)

lemma floating_ip_shrinks:
  assumes "calm rq" "1 \<le> rc_build_interval c" "1 \<le> nb_build_interval nb"
  shows "ends_within net_shrinks (nb_delete_floating_ip env nb c rq i)"
  unfolding nb_delete_floating_ip_def nb_disassociate_floating_ip_def nb_set_floating_port_def
  by (intro shrinking_rules calm_updates status_wait_shrinks calm_statuses delete_and_wait_shrinks calm_deletions
      forget_shrinks assms)

lemma network_cleanup_shrinks:
  assumes "calm rq" "1 \<le> rc_build_interval c" "1 \<le> nb_build_interval nb"
  shows "ends_within net_shrinks (nb_delete_all env nb c rq)"
  unfolding nb_delete_all_def nb_delete_sec_group_rule_def nb_delete_sec_group_def nb_delete_subnet_def
    nb_delete_network_def
  by (intro shrinking.bnd_ends loop_shrinks shrinking.ignoring_ends firewalls_shrink floating_ip_shrinks router_shrinks
      delete_and_wait_shrinks calm_deletions forget_shrinks assms)
     (auto intro!: shrinking.io shrinking.steps)

section \<open>The test ends\<close>

lemma ends_catch:
  assumes "always_ends m" "\<And>e k. h e = Some k \<Longrightarrow> always_ends k"
  shows "always_ends (catch_loop m h)"
  unfolding always_ends_def
proof
  fix w
  obtain r w' where "m w = Some (r, w')" using assms(1) by (rule endsE)
  then show "catch_loop m h w \<noteq> None"
    using assms(2) by (cases r) (auto simp: catch_loop_def always_ends_def split: option.splits)
qed

lemma ends_on_compute: "always_ends m \<Longrightarrow> always_ends (on_compute m)"
  unfolding always_ends_def on_compute_def by (auto split: option.splits)

lemma ends_or_raise: "1 \<le> interval \<Longrightarrow> always_ends (or_raise e (countdown interval check timeout))"
  unfolding or_raise_def using countdown_ends [of interval check timeout]
  by (intro ends_bnd ends_io) (fastforce simp: always_ends_def)

lemma ends_status_wait:
  assumes "1 \<le> nb_build_interval nb"
  shows "always_ends (nb_wait_resource_status nb ask i status None None)"
    "always_ends (nb_test_ping_floatingip nb ping addr None None)"
  unfolding nb_wait_resource_status_def nb_test_ping_floatingip_def or_default_def
  using assms by (simp_all add: ends_or_raise)

text \<open>What is needed for it: quiet services, and pauses of a second at least.\<close>

definition vm_fair :: "'r vm_test \<Rightarrow> bool" where
  "vm_fair t =
     (calm (vm_network_rq t) \<and> clients_quiet (vm_compute_clients t) \<and> 1 \<le> nb_build_interval (vm_net t)
      \<and> 1 \<le> cb_build_interval (vm_compute t) \<and> 1 \<le> cb_delete_interval (vm_compute t)
      \<and> 1 \<le> rc_build_interval (vm_client t))"

lemma network_cleanup_ends:
  "vm_fair t \<Longrightarrow> ends_within net_shrinks (vm_delete_network env t)"
  unfolding vm_delete_network_def vm_fair_def by (intro network_cleanup_shrinks) simp_all

lemma set_up_ends:
  assumes "vm_fair t"
  shows "always_ends (vm_set_up env third t)"
proof -
  have "1 \<le> nb_build_interval (vm_net t)" using assms by (simp add: vm_fair_def)
  then have "always_ends (vm_make_network env third t)"
    unfolding vm_make_network_def nb_create_network_def nb_create_router_def Let_def
    by (auto intro!: ends_bnd ends_io ends_status_wait(1) split: prod.splits)
  then show ?thesis
    unfolding vm_set_up_def
    by (auto intro!: ends_catch ends_bnd ends_io network_cleanup_ends [OF assms, THEN ends_within_ends])
qed

lemma create_server_ends:
  assumes "1 \<le> cb_build_interval cb"
  shows "always_ends (cb_create_server env sc cb cc post mo name image_id flavor_id network_id sec_grp_id)"
  unfolding cb_create_server_def ignoring_class_def cb_wait_status_def cb_check_server_status_interval_def
  using assms by (auto intro!: ends_bnd ends_catch ends_io ends_or_raise split: if_splits prod.splits)

lemma one_server_ends:
  assumes "vm_fair t"
  shows "always_ends (vm_one_server env sc t network sg fresh)"
  using assms unfolding vm_one_server_def nb_create_floating_ip_def Let_def vm_fair_def
  by (auto intro!: ends_bnd ends_io ends_on_compute create_server_ends ends_status_wait split: prod.splits)

lemma servers_run:
  assumes "vm_fair t"
  shows "\<exists>k w'. vm_servers env sc t network sg names n w = Some (Inr k, w') \<and> k \<le> n + length names"
proof (induction names arbitrary: n w)
  case Nil
  then show ?case by (simp add: io_loop_def)
next
  case (Cons m ms)
  obtain r v where "vm_one_server env sc t network sg m w = Some (r, v)"
    using one_server_ends [OF assms] by (rule endsE)
  then obtain k v' where "catch_loop (bnd_loop (vm_one_server env sc t network sg m) (\<lambda>_. io_loop (ret (n + 1))))
      (\<lambda>e. Some (io_loop (ret n))) w = Some (Inr k, v')" "k \<le> n + 1"
    by (cases r) (simp_all add: catch_loop_def bnd_loop_def io_loop_def)
  moreover obtain l w' where "vm_servers env sc t network sg ms k v' = Some (Inr l, w')" "l \<le> k + length ms"
    using Cons.IH by blast
  ultimately show ?case by (simp add: bnd_loop_def)
qed

section \<open>What a test leaves behind\<close>

lemma compute_cleanup_clean:
  assumes "cb_delete_all env sc cb cc w = Some (Inr (), w')"
  shows "cw_servers w' = [] \<and> cw_images w' = []"
proof -
  obtain v where "report_left v = (Inr (), w')"
    using assms unfolding cb_delete_all_def
    by (auto simp: bnd_loop_def io_loop_def split: option.splits prod.splits sum.splits)
  then show ?thesis by (auto simp: report_left_def bnd_def split: if_splits)
qed

lemma network_cleanup_clean:
  assumes "nb_delete_all env nb c rq w = Some (Inr (), w')"
  shows "nb_check_delete_list w'"
proof -
  obtain v where "bnd (gets nb_check_delete_list) (\<lambda>clear.
      if clear then ret () else throw (Auto DeleteException [] [])) v = (Inr (), w')"
    using assms unfolding nb_delete_all_def
    by (auto simp: bnd_loop_def io_loop_def split: option.splits prod.splits sum.splits)
  then show ?thesis by (auto simp: bnd_def split: if_splits)
qed

lemma cleaned_run: "m w = Some (r, w') \<Longrightarrow> cleaned m w = Some (Inr (\<not> isl r), w')"
  by (cases r) (simp_all add: cleaned_def catch_loop_def bnd_loop_def io_loop_def)

text \<open>
  Both clean-ups run, whatever becomes of the first. The exception is raised exactly when one of them failed, and
  nothing is left when both have succeeded.
\<close>

lemma finish_run:
  assumes "vm_fair t"
  shows "\<exists>r v q w'. cb_delete_all env sc (vm_compute t) (vm_compute_clients t) (compute_view w) = Some (r, v)
    \<and> vm_delete_network env t (put_compute v w) = Some (q, w')
    \<and> vm_finish env sc t w = Some (if isl r \<or> isl q then Inl (Auto DeleteException [] []) else Inr (), w')
    \<and> (\<not> isl r \<and> \<not> isl q \<longrightarrow> nb_check_delete_list w' \<and> vw_servers w' = [] \<and> vw_images w' = [])"
proof -
  have ends: "always_ends (cb_delete_all env sc (vm_compute t) (vm_compute_clients t))"
    using assms by (auto simp: vm_fair_def intro: cb_delete_all_ends)
  obtain r v where first: "cb_delete_all env sc (vm_compute t) (vm_compute_clients t) (compute_view w) = Some (r, v)"
    using ends by (rule endsE)
  obtain q w' where second: "vm_delete_network env t (put_compute v w) = Some (q, w')"
      "net_shrinks (put_compute v w) w'"
    using network_cleanup_ends [OF assms] by (rule ends_withinE)
  have run: "on_compute (cb_delete_all env sc (vm_compute t) (vm_compute_clients t)) w = Some (r, put_compute v w)"
    using first by (simp add: on_compute_def)
  have "vm_finish env sc t w = Some (if isl r \<or> isl q then Inl (Auto DeleteException [] []) else Inr (), w')"
    using cleaned_run [where m = "on_compute (cb_delete_all env sc (vm_compute t) (vm_compute_clients t))", OF run]
      cleaned_run [where m = "vm_delete_network env t", OF second(1)]
    by (simp add: vm_finish_def bnd_loop_def io_loop_def)
  moreover have "nb_check_delete_list w' \<and> vw_servers w' = [] \<and> vw_images w' = []" if "\<not> isl r \<and> \<not> isl q"
  proof -
    from that obtain x y where "r = Inr x" "q = Inr y" by (cases r; cases q) auto
    with first second compute_cleanup_clean network_cleanup_clean show ?thesis
      unfolding vm_delete_network_def by (fastforce simp: net_shrinks_def put_compute_def)
  qed
  ultimately show ?thesis using first second by blast
qed

text \<open>
  C35 (multiple_vm_ends_clean): the test comes to an end. When it returns, at most the wanted number of servers has
  succeeded and nothing is left of what the two bases remember: no network resource, no server and no image. When
  the network was set up and it does not return, the exception is a \<open>DeleteException\<close>.
\<close>

theorem multiple_vm_ends_clean:
  assumes "vm_fair t"
  shows "\<exists>r w'. test_multipleVM env sc third names t w = Some (r, w')
    \<and> (case r of
         Inr n \<Rightarrow> n \<le> length names \<and> nb_check_delete_list w' \<and> vw_servers w' = [] \<and> vw_images w' = []
       | Inl e \<Rightarrow> vm_set_up env third t w = Some (Inl e, w') \<or> e = Auto DeleteException [] [])"
proof -
  obtain r v where set_up: "vm_set_up env third t w = Some (r, v)"
    using set_up_ends [OF assms] by (rule endsE)
  show ?thesis
  proof (cases r)
    case (Inl e)
    with set_up show ?thesis by (simp add: test_multipleVM_def bnd_loop_def)
  next
    case (Inr made)
    obtain network sg where made: "made = (network, sg)" by (cases made)
    obtain n u where servers: "vm_servers env sc t network sg names 0 v = Some (Inr n, u)" "n \<le> length names"
      using servers_run [OF assms, of env sc network sg names 0 v] by auto
    obtain r1 v1 q w' where "vm_finish env sc t u = Some (if isl r1 \<or> isl q then Inl (Auto DeleteException [] []) else Inr (), w')"
        "\<not> isl (r1 :: pyexc + unit) \<and> \<not> isl (q :: pyexc + unit)
          \<longrightarrow> nb_check_delete_list w' \<and> vw_servers w' = [] \<and> vw_images w' = []"
      using finish_run [OF assms, of env sc u] by blast
    with set_up Inr made servers show ?thesis
      by (cases "isl r1 \<or> isl q") (auto simp: test_multipleVM_def bnd_loop_def io_loop_def)
  qed
qed

definition demo_vm_test :: "script vm_test" where
  "demo_vm_test =
     \<lparr>vm_net = demo_net_base, vm_compute = demo_compute_base, vm_client = demo_client, vm_network_rq = demo_net_rq,
      vm_compute_clients = empty_clients, vm_post = (\<lambda>u b. ret (500, Inr PNone)),
      vm_monitor = \<lparr>mo_server = PStr ''z'', mo_user = PStr ''u'', mo_password = PStr ''p''\<rparr>,
      vm_ping = (\<lambda>cmd. ret [])\<rparr>"

definition no_schemas :: schemas where
  "no_schemas n = \<lparr>sc_status = Codes [], sc_body = PNone, sc_header = PNone\<rparr>"

definition demo_vm_world :: "script vm_world" where
  "demo_vm_world = net_world.extend (demo_net_world []) \<lparr>vw_servers = [], vw_images = []\<rparr>"

lemma demo_vm_fair: "vm_fair demo_vm_test"
proof -
  have "calm demo_net_rq"
    by (auto simp: calm_def within_def demo_net_rq_def)
  with empty_clients_quiet show ?thesis
    by (simp add: vm_fair_def demo_vm_test_def demo_net_base_def demo_compute_base_def demo_client_def
        service_client_init_def rest_client_init_def)
qed

theorem multiple_vm_ends_clean_witness:
  "\<exists>r w'. test_multipleVM demo_net_env no_schemas 7 [''a'', ''b''] demo_vm_test demo_vm_world = Some (r, w')
    \<and> (case r of
         Inr n \<Rightarrow> n \<le> 2 \<and> nb_check_delete_list w' \<and> vw_servers w' = [] \<and> vw_images w' = []
       | Inl e \<Rightarrow> vm_set_up demo_net_env 7 demo_vm_test demo_vm_world = Some (Inl e, w')
           \<or> e = Auto DeleteException [] [])"
proof -
  have two: "length [''a'', ''b''] = 2" by simp
  from multiple_vm_ends_clean [OF demo_vm_fair, of demo_net_env no_schemas 7 "[''a'', ''b'']" demo_vm_world]
  show ?thesis unfolding two .
qed

end
