(* ===== verification/NegativeFlavors.thy ===== *)
theory NegativeFlavors
  imports NegativeTest OtherSchemas Demo
begin

text \<open>
  The schema of a description of a negative test, \<open>BasicGeneratorSet.schema\<close> in
  \<open>common/generator/base_generator.py\<close>, with the check of a description against it, and what the descriptions of the
  negative tests of flavors give. The validator \<open>jsonschema\<close> is not in the repository: it is a parameter, of which the
  properties suppose that it decides \<open>js_valid\<close> for this schema.
\<close>

section \<open>The schema of a description\<close>

definition basic_fields :: "(string, py) dict" where
  "basic_fields = [
     (''type'', PStr ''object''),
     (''properties'', PDict [
        (''name'', PDict [(''type'', PStr ''string'')]),
        (''http-method'', PDict [
           (''enum'', PList [PStr ''GET'', PStr ''PUT'', PStr ''HEAD'', PStr ''POST'', PStr ''PATCH'',
                             PStr ''DELETE'', PStr ''COPY''])]),
        (''admin_client'', PDict [(''type'', PStr ''boolean'')]),
        (''url'', PDict [(''type'', PStr ''string'')]),
        (''default_result_code'', PDict [(''type'', PStr ''integer'')]),
        (''json-schema'', PDict []),
        (''resources'', PDict [
           (''type'', PStr ''array''),
           (''items'', PDict [
              (''oneOf'', PList [
                 PDict [(''type'', PStr ''string'')],
                 PDict [
                    (''type'', PStr ''object''),
                    (''properties'', PDict [
                       (''name'', PDict [(''type'', PStr ''string'')]),
                       (''expected_result'', PDict [(''type'', PStr ''integer'')])])]])])]),
        (''results'', PDict [(''type'', PStr ''object''), (''properties'', PDict [])])]),
     (''required'', PList [PStr ''name'', PStr ''http-method'', PStr ''url'']),
     (''additionalProperties'', PBool False)]"

definition basic_schema :: py where
  "basic_schema = PDict basic_fields"

record json_validator =
  jv_check_schema :: "py \<Rightarrow> pyexc + unit"
  jv_validate :: "py \<Rightarrow> py \<Rightarrow> pyexc + unit"

definition validate_schema :: "json_validator \<Rightarrow> (string, py) dict \<Rightarrow> pyexc + unit" where
  "validate_schema jv description =
     bindE (case dget description ''json-schema'' of None \<Rightarrow> Inr () | Some s \<Rightarrow> jv_check_schema jv s) (\<lambda>_.
       jv_validate jv (PDict description) basic_schema)"

text \<open>
  What is relied on of \<open>jsonschema\<close>: for the one schema that descriptions are checked against, and a document that is a
  dictionary, it accepts exactly what is valid. All keywords of \<open>basic_schema\<close> are among those \<open>js_valid\<close> knows.
\<close>

definition decides :: "checker \<Rightarrow> json_validator \<Rightarrow> bool" where
  "decides ck jv = (\<forall>d. jv_validate jv (PDict d) basic_schema = Inr () \<longleftrightarrow> js_valid ck basic_schema (PDict d))"

lemma validate_schema_ok:
  "decides ck jv \<Longrightarrow> validate_schema jv d = Inr () \<Longrightarrow> js_valid ck basic_schema (PDict d)"
  by (auto simp: validate_schema_def decides_def bindE_Inr_iff split: option.splits)

section \<open>What a checked description has\<close>

definition http_methods :: "string list" where
  "http_methods = [''GET'', ''PUT'', ''HEAD'', ''POST'', ''PATCH'', ''DELETE'', ''COPY'']"

definition description_keys :: "string list" where
  "description_keys = [''name'', ''http-method'', ''admin_client'', ''url'', ''default_result_code'', ''json-schema'',
     ''resources'', ''results'']"

lemma basic_parts:
  "sub_list basic_fields ''required'' = [PStr ''name'', PStr ''http-method'', PStr ''url'']"
  "dkeys (sub_dict basic_fields ''properties'') = description_keys"
  "sub_dict basic_fields ''patternProperties'' = []"
  "dget basic_fields ''additionalProperties'' = Some (PBool False)"
  "dget (sub_dict basic_fields ''properties'') ''name'' = Some (PDict [(''type'', PStr ''string'')])"
  "dget (sub_dict basic_fields ''properties'') ''url'' = Some (PDict [(''type'', PStr ''string'')])"
  "dget (sub_dict basic_fields ''properties'') ''http-method'' = Some (PDict [(''enum'', PList (map PStr http_methods))])"
  by code_simp+

lemma valid_field:
  assumes "js_valid ck basic_schema (PDict d)" "dget (sub_dict basic_fields ''properties'') k = Some s" "dget d k = Some x"
  shows "js_valid ck s x"
proof -
  have "list_all (\<lambda>(k, s). case dget d k of None \<Rightarrow> True | Some x \<Rightarrow> js_valid ck s x) (sub_dict basic_fields ''properties'')"
    using assms(1) by (simp add: basic_schema_def js_valid.simps(1))
  then show ?thesis using dget_Some_mem [OF assms(2)] assms(3) by (fastforce simp: list_all_iff)
qed

lemma valid_description:
  assumes "js_valid ck basic_schema (PDict d)"
  shows "set (dkeys d) \<subseteq> set description_keys"
    and "\<exists>name method url. dget d ''name'' = Some (PStr name) \<and> dget d ''http-method'' = Some (PStr method)
      \<and> method \<in> set http_methods \<and> dget d ''url'' = Some (PStr url)"
proof -
  have names: "names_ok ck basic_fields d"
    using assms by (simp add: basic_schema_def js_valid.simps(1))
  then show "set (dkeys d) \<subseteq> set description_keys"
    by (simp add: names_ok_def basic_parts dhas_iff list_all_iff subset_iff)
  from names have "dhas d ''name''" "dhas d ''http-method''" "dhas d ''url''"
    by (simp_all add: names_ok_def basic_parts)
  then obtain n m u where given: "dget d ''name'' = Some n" "dget d ''http-method'' = Some m" "dget d ''url'' = Some u"
    by (auto simp: dhas_def)
  have "\<exists>s. n = PStr s" "\<exists>s. u = PStr s"
    using js_valid_type [OF valid_field [OF assms basic_parts(5) given(1)]]
      js_valid_type [OF valid_field [OF assms basic_parts(6) given(3)]]
    by (simp_all add: has_type_string)
  moreover have "m \<in> PStr ` set http_methods"
    using valid_field [OF assms basic_parts(7) given(2)] by (simp add: js_valid.simps(1) enum_ok_def)
  ultimately show "\<exists>name method url. dget d ''name'' = Some (PStr name) \<and> dget d ''http-method'' = Some (PStr method)
      \<and> method \<in> set http_methods \<and> dget d ''url'' = Some (PStr url)"
    using given by auto
qed

lemma resource_scenarios_spec:
  "resource_scenarios env uuid n expected rs = Inr xs \<Longrightarrow>
   length xs = length rs \<and> list_all (\<lambda>x. \<exists>r i e. snd x = InvalidResource r i e) xs"
  by (induction env uuid n expected rs arbitrary: xs rule: resource_scenarios.induct)
     (auto simp: bindE_Inr_iff Let_def)

definition is_resource_case :: "string \<times> neg_case \<Rightarrow> bool" where
  "is_resource_case x = (case snd x of InvalidResource r i e \<Rightarrow> True | _ \<Rightarrow> False)"

text \<open>
  C40 (description_checked): when scenarios were made from a description, it has a name, a method that the schema lists
  and a URL, which are what \<open>execute\<close> reads, and no unknown key; there is one scenario for each resource, and
  further ones only when there is a schema of the data.
\<close>

theorem description_checked:
  assumes "decides ck jv" "generate_scenario env (validate_schema jv) uuid d = Inr xs"
  shows "(\<exists>name method url. dget d ''name'' = Some (PStr name) \<and> dget d ''http-method'' = Some (PStr method)
      \<and> method \<in> set http_methods \<and> dget d ''url'' = Some (PStr url))
    \<and> set (dkeys d) \<subseteq> set description_keys
    \<and> (\<exists>rs. py_iter (field_or d ''resources'' (PList [])) = Inr rs \<and> length (filter is_resource_case xs) = length rs)
    \<and> (field_or d ''json-schema'' PNone = PNone \<longrightarrow> list_all is_resource_case xs)"
proof -
  from assms(2) obtain rs ys where checked: "validate_schema jv d = Inr ()"
    and rs: "py_iter (field_or d ''resources'' (PList [])) = Inr rs"
    and ys: "resource_scenarios env uuid 0 PNone rs = Inr ys"
    and rest: "(case field_or d ''json-schema'' PNone of PNone \<Rightarrow> Inr ys
        | schema \<Rightarrow> bindE (generate_scenarios schema None) (\<lambda>generated.
            Inr (ys @ map (\<lambda>s. (sc_name s, InvalidData s)) generated))) = Inr xs"
    by (auto simp: generate_scenario_def bindE_Inr_iff)
  have resources: "length ys = length rs" "list_all is_resource_case ys"
    using resource_scenarios_spec [OF ys] by (auto simp: is_resource_case_def list_all_iff)
  have none: "filter is_resource_case (map (\<lambda>s. (sc_name s, InvalidData s)) g) = []" for g
    by (induction g) (simp_all add: is_resource_case_def)
  obtain g where g: "xs = ys @ map (\<lambda>s. (sc_name s, InvalidData s)) g"
      "field_or d ''json-schema'' PNone = PNone \<longrightarrow> g = []"
    using rest by (cases "field_or d ''json-schema'' PNone") (auto simp: bindE_Inr_iff)
  then have "length (filter is_resource_case xs) = length rs"
      "field_or d ''json-schema'' PNone = PNone \<longrightarrow> list_all is_resource_case xs"
    using resources none [of g] by (auto simp: list_all_iff)
  then show ?thesis
    using valid_description [OF validate_schema_ok [OF assms(1) checked]] rs by simp
qed

section \<open>The negative tests of flavors\<close>

definition desc_of :: "py \<Rightarrow> (string, py) dict" where
  "desc_of v = (case v of PDict d \<Rightarrow> d | _ \<Rightarrow> [])"

lemma flavor_descriptions_valid:
  "list_all (\<lambda>v. js_valid ck basic_schema (PDict (desc_of v)))
     [flavors_v2_flavors_details, flavors_v2_flavor_list, flavors_v2_flavor_create]"
  by (simp add: desc_of_def flavors_v2_flavors_details_def flavors_v2_flavor_list_def flavors_v2_flavor_create_def
      flavors_request_common_flavor_details_def flavors_request_common_flavor_list_def
      flavors_request_common_admin_flavor_create_def build_simps basic_schema_def basic_fields_def js_valid.simps(1)
      names_ok_def sub_list_def sub_dict_def dhas_def enum_ok_def text_ok_def items_ok_def length_ok_def
      above_def below_def dkeys_def)

definition case_names :: "'e + (string \<times> neg_case) list \<Rightarrow> string list option" where
  "case_names r = (case r of Inl e \<Rightarrow> None | Inr xs \<Rightarrow> Some (map fst xs))"

definition accepting_validator :: "json_validator \<Rightarrow> bool" where
  "accepting_validator jv = (\<forall>s. jv_check_schema jv s = Inr ())"

text \<open>
  (flavor_tests_generated): the three descriptions of negative tests of flavors pass the check and give exactly these
  tests. There is none with an invalid \<open>id\<close>: the two generators for it are excluded.
\<close>

theorem flavor_tests_generated:
  assumes "decides ck jv" "accepting_validator jv"
  shows "map (\<lambda>v. case_names (generate_scenario env (validate_schema jv) uuid (desc_of v)))
      [flavors_v2_flavors_details, flavors_v2_flavor_list, flavors_v2_flavor_create]
    = [Some [''inv_res_flavor''],
       Some [''minRam_gen_none'', ''minRam_gen_string'', ''minDisk_gen_none'', ''minDisk_gen_string''],
       Some [''flavor_name_gen_int'', ''flavor_name_gen_none'', ''flavor_ram_gen_int_min'', ''flavor_ram_gen_none'',
             ''flavor_ram_gen_string'', ''flavor_vcpus_gen_int_min'', ''flavor_vcpus_gen_none'',
             ''flavor_vcpus_gen_string'', ''flavor_disk_gen_none'', ''flavor_disk_gen_string'']]"
proof -
  have checked: "validate_schema jv (desc_of v) = Inr ()"
    if "v \<in> {flavors_v2_flavors_details, flavors_v2_flavor_list, flavors_v2_flavor_create}" for v
    using assms flavor_descriptions_valid [of ck] that
    by (auto simp: validate_schema_def decides_def accepting_validator_def split: option.splits)
  have same: "generate_scenario env (validate_schema jv) uuid (desc_of v)
      = generate_scenario env (\<lambda>_. Inr ()) uuid (desc_of v)"
    if "v \<in> {flavors_v2_flavors_details, flavors_v2_flavor_list, flavors_v2_flavor_create}" for v
    using checked [OF that] by (simp add: generate_scenario_def)
  have "case_names (generate_scenario env (\<lambda>_. Inr ()) uuid (desc_of flavors_v2_flavors_details))
      = Some [''inv_res_flavor'']"
    "case_names (generate_scenario env (\<lambda>_. Inr ()) uuid (desc_of flavors_v2_flavor_list)) =
      Some [''minRam_gen_none'', ''minRam_gen_string'', ''minDisk_gen_none'', ''minDisk_gen_string'']"
    "case_names (generate_scenario env (\<lambda>_. Inr ()) uuid (desc_of flavors_v2_flavor_create)) =
      Some [''flavor_name_gen_int'', ''flavor_name_gen_none'', ''flavor_ram_gen_int_min'', ''flavor_ram_gen_none'',
        ''flavor_ram_gen_string'', ''flavor_vcpus_gen_int_min'', ''flavor_vcpus_gen_none'',
        ''flavor_vcpus_gen_string'', ''flavor_disk_gen_none'', ''flavor_disk_gen_string'']"
    by code_simp+
  then show ?thesis by (simp only: list.map same insertI1 insertI2)
qed

text \<open>
  (accepted_resource_fails): the schema does not require \<open>expected_result\<close> of a resource, which the scenarios read:
  such a description passes the check and raises a KeyError.
\<close>

theorem accepted_resource_fails:
  assumes "decides ck jv"
    and "d = [(''name'', PStr n), (''http-method'', PStr ''GET''), (''url'', PStr u),
      (''resources'', PList [PDict [(''name'', PStr r)]])]"
  shows "validate_schema jv d = Inr ()
    \<and> generate_scenario env (validate_schema jv) uuid d = Inl (KeyErr ''expected_result'')"
proof -
  have "js_valid ck basic_schema (PDict d)"
    unfolding assms(2)
    by (simp add: basic_schema_def basic_fields_def js_valid.simps(1) names_ok_def sub_list_def sub_dict_def dhas_def
        enum_ok_def text_ok_def items_ok_def length_ok_def dkeys_def)
  then have "validate_schema jv d = Inr ()"
    using assms by (simp add: validate_schema_def decides_def)
  then show ?thesis by (simp add: generate_scenario_def assms(2) field_or_def)
qed

text \<open>A validator that decides.\<close>

definition demo_checker :: checker where
  "demo_checker = \<lparr>ck_format = (\<lambda>f s. True), ck_search = (\<lambda>p s. p = s)\<rparr>"

definition demo_validator :: json_validator where
  "demo_validator =
     \<lparr>jv_check_schema = (\<lambda>s. Inr ()),
      jv_validate = (\<lambda>v s. if js_valid demo_checker s v then Inr () else Inl (PlainExc ''invalid''))\<rparr>"

lemma demo_validator_decides: "decides demo_checker demo_validator" "accepting_validator demo_validator"
  by (simp_all add: decides_def accepting_validator_def demo_validator_def)

theorem description_checked_witness:
  "\<exists>xs. generate_scenario (demo_env []) (validate_schema demo_validator) nat_str (desc_of flavors_v2_flavors_details) = Inr xs
    \<and> length (filter is_resource_case xs) = 1 \<and> list_all is_resource_case xs"
proof -
  let ?d = "desc_of flavors_v2_flavors_details"
  have valid: "validate_schema demo_validator ?d = Inr ()"
    using flavor_descriptions_valid [of demo_checker] demo_validator_decides
    by (auto simp: validate_schema_def decides_def accepting_validator_def split: option.splits)
  have "case_names (generate_scenario (demo_env []) (\<lambda>_. Inr ()) nat_str ?d) = Some [''inv_res_flavor'']"
    by code_simp
  then obtain xs where xs: "generate_scenario (demo_env []) (validate_schema demo_validator) nat_str ?d = Inr xs"
    using valid by (auto simp: case_names_def generate_scenario_def split: sum.splits)
  from description_checked [OF demo_validator_decides(1) xs] xs show ?thesis
    by (simp add: desc_of_def flavors_v2_flavors_details_def flavors_request_common_flavor_details_def field_or_def)
qed

theorem flavor_tests_generated_witness:
  "case_names (generate_scenario (demo_env []) (validate_schema demo_validator) nat_str (desc_of flavors_v2_flavors_details))
   = Some [''inv_res_flavor'']"
  using flavor_tests_generated [OF demo_validator_decides, of "demo_env []" nat_str] by simp

theorem accepted_resource_fails_witness:
  "generate_scenario (demo_env []) (validate_schema demo_validator) nat_str
     [(''name'', PStr ''n''), (''http-method'', PStr ''GET''), (''url'', PStr ''flavors/%s''),
      (''resources'', PList [PDict [(''name'', PStr ''flavor'')]])] = Inl (KeyErr ''expected_result'')"
  using accepted_resource_fails [OF demo_validator_decides(1) refl, where env = "demo_env []" and uuid = nat_str and n = "''n''"
    and u = "''flavors/%s''" and r = "''flavor''"]
  by simp

end
