(* ===== verification/ComputeCases.thy ===== *)
theory ComputeCases
  imports MultipleVM ComputeClients WaiterProps
begin

text \<open>
  The compute test cases: the files \<open>test_*.py\<close> of \<open>testcases/compute_tests\<close>, over the base of \<open>ComputeBase\<close>.

  Each runs a sequence of operations in a \<open>try\<close> whose \<open>finally\<close> calls \<open>delete_all\<close> (\<open>finally_loop\<close>). What a test uses
  is the record \<open>compute_case\<close>: the object after \<open>__init__\<close>, the clients of its manager and the options. Random names are
  arguments, and log messages are left out.
\<close>

section \<open>The shape of a test\<close>

text \<open>\<open>try: m finally: cleanup\<close>: an exception of the clean-up replaces the outcome of the body.\<close>

definition finally_loop :: "('w, 'a) loopy \<Rightarrow> ('w, unit) loopy \<Rightarrow> ('w, 'a) loopy" where
  "finally_loop m cleanup w =
     (case m w of
        None \<Rightarrow> None
      | Some (r, v) \<Rightarrow>
          (case cleanup v of
             None \<Rightarrow> None
           | Some (Inl e, u) \<Rightarrow> Some (Inl e, u)
           | Some (Inr _, u) \<Rightarrow> Some (r, u)))"

text \<open>\<open>except Exception: raise c\<close>, and the same with a clean-up before it.\<close>

definition failing_as :: "exc_class \<Rightarrow> ('w, 'a) loopy \<Rightarrow> ('w, 'a) loopy" where
  "failing_as c m = catch_loop m (\<lambda>e. Some (io_loop (throw (Auto c [] []))))"

definition cleaning_up :: "('w, unit) loopy \<Rightarrow> (pyexc \<Rightarrow> pyexc) \<Rightarrow> ('w, 'a) loopy \<Rightarrow> ('w, 'a) loopy" where
  "cleaning_up cleanup to m = catch_loop m (\<lambda>e. Some (bnd_loop cleanup (\<lambda>_. io_loop (throw (to e)))))"

text \<open>
  A step of a body whose \<open>finally\<close> reads its variables: when the step raises, the body is over, with the variables
  that are bound by then and the exception.
\<close>

definition stage ::
    "'l \<Rightarrow> ('w, 'a) loopy \<Rightarrow> ('a \<Rightarrow> ('w, 'l \<times> pyexc option) loopy) \<Rightarrow> ('w, 'l \<times> pyexc option) loopy" where
  "stage l m k w =
     (case m w of
        None \<Rightarrow> None
      | Some (Inl e, v) \<Rightarrow> Some (Inr (l, Some e), v)
      | Some (Inr x, v) \<Rightarrow> k x v)"

definition rethrow :: "pyexc option \<Rightarrow> ('w, unit) io" where
  "rethrow oe = (case oe of None \<Rightarrow> ret () | Some e \<Rightarrow> throw e)"

text \<open>The two clean-ups of a test over two bases.\<close>

definition both_cleaned :: "('w, unit) loopy \<Rightarrow> ('w, unit) loopy \<Rightarrow> ('w, unit) loopy" where
  "both_cleaned first second =
     bnd_loop (cleaned first) (\<lambda>ok1. bnd_loop (cleaned second) (\<lambda>ok2.
       io_loop (if ok1 \<and> ok2 then ret () else throw (Auto DeleteException [] []))))"

section \<open>What a test uses\<close>

record 'r compute_case =
  tc_base :: compute_base
  tc_clients :: "('r compute_world) compute_clients"
  tc_post :: "('r compute_world) poster"
  tc_monitor :: monitor
  tc_option :: "string \<Rightarrow> py"
  tc_ready_wait :: int
  tc_waiter :: waiter
  tc_floating_ips :: "('r compute_world) requester"
  tc_migrations :: "('r compute_world) requester"
  tc_volumes :: "('r compute_world) requester"
  tc_volume_waiter :: waiter
  tc_volume_size :: py
  tc_ssh :: "('r compute_world) ssh_runner"
  tc_known_hosts :: "('r compute_world, unit) io"

type_synonym 'r case_step = "('r compute_world, unit) loopy"

text \<open>A script makes its object with \<open>Base()\<close>; \<open>given\<close> holds the numbers of the configuration.\<close>

definition tc_init ::
    "'r env \<Rightarrow> schemas \<Rightarrow> string \<Rightarrow> 'r compute_case \<Rightarrow> ('r compute_world, 'r compute_case) loopy" where
  "tc_init env sc fresh t =
     bnd_loop (io_loop (cb_init env sc (tc_option t) (tc_clients t) fresh (tc_base t))) (\<lambda>base.
       io_loop (ret (t\<lparr>tc_base := base\<rparr>)))"

text \<open>\<open>self.create_server()\<close>, with the id of the server.\<close>

definition tc_create_server ::
    "'r env \<Rightarrow> schemas \<Rightarrow> 'r compute_case \<Rightarrow> ('r compute_world, py) loopy" where
  "tc_create_server env sc t =
     bnd_loop (cb_create_server env sc (tc_base t) (tc_clients t) (tc_post t) (tc_monitor t) PNone PNone PNone PNone PNone)
       (\<lambda>server. io_loop (lift (rb_item server ''id'')))"

definition tc_delete_all :: "'r env \<Rightarrow> schemas \<Rightarrow> 'r compute_case \<Rightarrow> 'r case_step" where
  "tc_delete_all env sc t = cb_delete_all env sc (tc_base t) (tc_clients t)"

definition tc_show :: "'r env \<Rightarrow> schemas \<Rightarrow> 'r compute_case \<Rightarrow> py \<Rightarrow> ('r compute_world, response_body) loopy" where
  "tc_show env sc t i = io_loop (cb_show_server env sc (tc_clients t) i)"

text \<open>\<open>wait_for_server_status\<close> of \<open>waiters\<close>.\<close>

definition tc_await :: "'r env \<Rightarrow> schemas \<Rightarrow> 'r compute_case \<Rightarrow> py \<Rightarrow> string \<Rightarrow> 'r case_step" where
  "tc_await env sc t i status =
     wait_for_server_status (tc_waiter t) (tc_ready_wait t)
       (bnd (cb_show_server env sc (tc_clients t) i) (\<lambda>b. ret (rb_data b))) (id_text env i) status True 0 True"

section \<open>Scripts on one server\<close>

text \<open>\<open>test_create_server.py\<close>; a script is its \<open>__main__\<close>.\<close>

definition with_base ::
    "'r env \<Rightarrow> schemas \<Rightarrow> string \<Rightarrow> 'r compute_case \<Rightarrow> ('r compute_case \<Rightarrow> 'r case_step) \<Rightarrow> 'r case_step" where
  "with_base env sc fresh t body =
     bnd_loop (failing_as InitFailed (tc_init env sc fresh t)) (\<lambda>server.
       finally_loop (body server) (tc_delete_all env sc server))"

definition create_server_script :: "'r env \<Rightarrow> schemas \<Rightarrow> 'r compute_case \<Rightarrow> 'r case_step" where
  "create_server_script env sc t =
     bnd_loop (tc_create_server env sc t) (\<lambda>i. bnd_loop (tc_show env sc t i) (\<lambda>_. io_loop (ret ())))"

definition test_create_server :: "'r env \<Rightarrow> schemas \<Rightarrow> string \<Rightarrow> 'r compute_case \<Rightarrow> 'r case_step" where
  "test_create_server env sc fresh t = with_base env sc fresh t (create_server_script env sc)"

text \<open>\<open>test_server_power_action.py\<close>, with its pauses.\<close>

definition power_body :: "'r env \<Rightarrow> schemas \<Rightarrow> 'r compute_case \<Rightarrow> 'r case_step" where
  "power_body env sc t =
     (let cb = tc_base t; cc = tc_clients t
      in bnd_loop (tc_create_server env sc t) (\<lambda>i.
         bnd_loop (tc_show env sc t i) (\<lambda>_.
         bnd_loop (cb_power_off env sc cb cc i) (\<lambda>_. bnd_loop (io_loop (sleep 1200)) (\<lambda>_.
         bnd_loop (cb_power_on env sc cb cc i) (\<lambda>_. bnd_loop (io_loop (sleep 1200)) (\<lambda>_.
         bnd_loop (cb_reboot env sc cb cc i (PStr ''HARD'')) (\<lambda>_. io_loop (sleep 1200)))))))))"

definition test_power_action :: "'r env \<Rightarrow> schemas \<Rightarrow> string \<Rightarrow> 'r compute_case \<Rightarrow> 'r case_step" where
  "test_power_action env sc fresh t = with_base env sc fresh t (power_body env sc)"

text \<open>\<open>test_resize_server.py\<close>: a server that stays on its host has not been resized, says the test.\<close>

definition resize_body :: "'r env \<Rightarrow> schemas \<Rightarrow> 'r compute_case \<Rightarrow> 'r case_step" where
  "resize_body env sc t =
     bnd_loop (tc_create_server env sc t) (\<lambda>i.
     bnd_loop (tc_show env sc t i) (\<lambda>details.
     bnd_loop (io_loop (lift (py_get (rb_get details ''flavor'') ''id'' PNone))) (\<lambda>original_flavor.
     bnd_loop (cb_resize env sc (tc_base t) (tc_clients t) i (tc_option t ''flavor_name_alt'')) (\<lambda>_.
     bnd_loop (tc_show env sc t i) (\<lambda>resized.
       io_loop (if rb_get resized ''OS-EXT-SRV-ATTR:host'' = rb_get details ''OS-EXT-SRV-ATTR:host''
                then throw (Auto ServerResizeFailed [] []) else ret ()))))))"

definition test_resize_server :: "'r env \<Rightarrow> schemas \<Rightarrow> string \<Rightarrow> 'r compute_case \<Rightarrow> 'r case_step" where
  "test_resize_server env sc fresh t = with_base env sc fresh t (resize_body env sc)"

text \<open>\<open>test_modify_server_qos.py\<close>; without another QoS it ends with \<open>sys.exit(0)\<close>, which the \<open>finally\<close> still sees.\<close>

definition other_qos :: "'r env \<Rightarrow> string \<Rightarrow> py \<Rightarrow> pyexc + string list" where
  "other_qos env current qos_list =
     bindE (py_iter qos_list) (\<lambda>qs.
     bindE (mapE (\<lambda>q. bindE (getitem q ''id'') (\<lambda>i. Inr (id_text env i))) qs) (\<lambda>ids. Inr (remove1 current ids)))"

definition modify_qos_body :: "'r env \<Rightarrow> schemas \<Rightarrow> 'r compute_case \<Rightarrow> 'r case_step" where
  "modify_qos_body env sc t =
     (let cb = tc_base t; cc = tc_clients t
      in bnd_loop (tc_create_server env sc t) (\<lambda>i.
         bnd_loop (tc_show env sc t i) (\<lambda>_.
         bnd_loop (cb_power_off env sc cb cc i) (\<lambda>_.
         bnd_loop (io_loop (bnd (cb_get_server_current_qos env sc cc i) (\<lambda>q. ret (id_text env q)))) (\<lambda>current.
         bnd_loop (io_loop (bnd (cb_get_qos_types env sc cc) (\<lambda>qos_list. lift (other_qos env current qos_list)))) (\<lambda>qos_ids.
         case qos_ids of
           [] \<Rightarrow> io_loop (ret ())
         | new_qos_id # _ \<Rightarrow>
             bnd_loop (cb_set_server_network_qos env sc cb cc i (PStr current) (PStr new_qos_id)) (\<lambda>_.
             bnd_loop (io_loop (bnd (cb_get_server_current_qos env sc cc i) (\<lambda>q. ret (id_text env q)))) (\<lambda>new_qos.
               io_loop (if new_qos \<noteq> new_qos_id then throw (Auto ServerNetworkQosChangeFailed [] []) else ret ())))))))))"

definition test_modify_qos :: "'r env \<Rightarrow> schemas \<Rightarrow> string \<Rightarrow> 'r compute_case \<Rightarrow> 'r case_step" where
  "test_modify_qos env sc fresh t = with_base env sc fresh t (modify_qos_body env sc)"

section \<open>Images\<close>

text \<open>
  \<open>CaptureImageTest\<close> of \<open>test_capture_image.py\<close>. \<open>name\<close> is the name given to the image. Without the image that
  \<open>_capture_image_from_server\<close> shows, the check of its name is a TypeError.
\<close>

definition stop_and_capture ::
    "'r env \<Rightarrow> schemas \<Rightarrow> string \<Rightarrow> 'r compute_case \<Rightarrow> ('r compute_world, response_body option) loopy" where
  "stop_and_capture env sc name t =
     bnd_loop (tc_create_server env sc t) (\<lambda>i.
     bnd_loop (io_loop (stop env sc (cc_servers (tc_clients t)) (id_text env i) [])) (\<lambda>_.
     bnd_loop (tc_await env sc t i ''SHUTOFF'') (\<lambda>_.
       cb_capture_image_from_server env sc (tc_waiter t) (tc_clients t) name i
         [(''name'', PStr name), (''wait_until'', PStr ''ACTIVE'')])))"

definition captured_item :: "response_body option \<Rightarrow> string \<Rightarrow> pyexc + py" where
  "captured_item img k = (case img of None \<Rightarrow> Inl TypeErr | Some b \<Rightarrow> rb_item b k)"

definition captured_well :: "string \<Rightarrow> response_body option \<Rightarrow> pyexc + bool" where
  "captured_well name img =
     bindE (captured_item img ''name'') (\<lambda>n.
       if PStr name \<noteq> n then Inr False
       else bindE (captured_item img ''status'') (\<lambda>st. Inr (st = PStr ''ACTIVE'')))"

definition test_capture_image :: "'r env \<Rightarrow> schemas \<Rightarrow> string \<Rightarrow> 'r compute_case \<Rightarrow> 'r case_step" where
  "test_capture_image env sc name t =
     finally_loop
       (bnd_loop (stop_and_capture env sc name t) (\<lambda>img.
          io_loop (bnd (lift (captured_well name img)) (\<lambda>ok.
            if ok then ret () else throw (Auto ImageNotCorrectlyCaptured [] [])))))
       (tc_delete_all env sc t)"

text \<open>\<open>test_create_vm_from_capture_image.py\<close>. The flavor and the network are looked up again.\<close>

definition create_server_from_image ::
    "'r env \<Rightarrow> schemas \<Rightarrow> string \<Rightarrow> 'r compute_case \<Rightarrow> py \<Rightarrow> ('r compute_world, response_body) loopy" where
  "create_server_from_image env sc server_name t image_id =
     (let cb = tc_base t; cc = tc_clients t
      in bnd_loop (io_loop
           (bnd (cb_get_flavor_id env sc cc (tc_option t ''flavor_name'')) (\<lambda>flavor_ref.
            bnd (cb_get_network_id env cc (tc_option t ''fixed_network_name'')) (\<lambda>network_id.
            bnd (create_server env sc (cb_enable_password cb) (cc_servers cc) (PStr server_name) image_id flavor_ref
                   [(''networks'', PList [PDict [(''uuid'', network_id)]])]) (\<lambda>vm.
            bnd (lift (rb_item vm ''id'')) (\<lambda>i.
            bnd (remember cw_servers_update i) (\<lambda>_. ret i))))))) (\<lambda>i.
         bnd_loop (cb_wait_status env sc cb cc i ''ACTIVE'') (\<lambda>_. tc_show env sc t i)))"

definition test_create_from_capture ::
    "'r env \<Rightarrow> schemas \<Rightarrow> string \<Rightarrow> string \<Rightarrow> 'r compute_case \<Rightarrow> 'r case_step" where
  "test_create_from_capture env sc name server_name t =
     finally_loop
       (bnd_loop (stop_and_capture env sc name t) (\<lambda>img.
        bnd_loop (io_loop (lift (captured_item img ''id''))) (\<lambda>image_id.
        bnd_loop (create_server_from_image env sc server_name t image_id) (\<lambda>vm.
          io_loop (bnd (lift (rb_item vm ''status'')) (\<lambda>st.
            if st \<noteq> PStr ''ACTIVE'' then throw (Auto ServerNotCorrectlyCreatedFromCapturedImage [] []) else ret ()))))))
       (tc_delete_all env sc t)"

section \<open>Migration\<close>

text \<open>\<open>curr_host is not None and orig_host == curr_host\<close> is a failure.\<close>

definition check_moved :: "'r env \<Rightarrow> schemas \<Rightarrow> 'r compute_case \<Rightarrow> py \<Rightarrow> py \<Rightarrow> 'r case_step" where
  "check_moved env sc t i orig_host =
     io_loop (bnd (cb_get_server_host env sc (tc_clients t) i) (\<lambda>curr_host.
       if curr_host \<noteq> PNone \<and> orig_host = curr_host then throw (Auto ServerMigrateFailed [] []) else ret ()))"

text \<open>
  The object \<open>compute\<close> of a migration test is made in its method, beside the object that holds the test; both have
  the same clients. A failure cleans up twice, in the handler and in the \<open>finally\<close>.
\<close>

definition migrating ::
    "'r env \<Rightarrow> schemas \<Rightarrow> string \<Rightarrow> 'r compute_case \<Rightarrow> ('r compute_case \<Rightarrow> py \<Rightarrow> 'r case_step) \<Rightarrow> 'r case_step" where
  "migrating env sc fresh t move =
     bnd_loop (failing_as ServerFault (tc_init env sc fresh t)) (\<lambda>compute.
       finally_loop
         (cleaning_up (tc_delete_all env sc compute) (\<lambda>e. Auto ServerMigrateFailed [] [])
            (bnd_loop (tc_create_server env sc compute) (\<lambda>i.
             bnd_loop (tc_show env sc compute i) (\<lambda>_.
             bnd_loop (io_loop (cb_get_server_host env sc (tc_clients compute) i)) (\<lambda>orig_host.
             bnd_loop (move compute i) (\<lambda>_. check_moved env sc compute i orig_host))))))
         (tc_delete_all env sc compute))"

text \<open>\<open>MigrationTest.migration_test\<close>.\<close>

definition cold_move :: "'r env \<Rightarrow> schemas \<Rightarrow> 'r compute_case \<Rightarrow> py \<Rightarrow> 'r case_step" where
  "cold_move env sc t i =
     (let cc = tc_clients t
      in bnd_loop (cb_power_off env sc (tc_base t) cc i) (\<lambda>_.
         bnd_loop (io_loop (bnd (migrate_server env sc (cc_servers cc) (id_text env i) []) (\<lambda>_.
                     list_migrations env sc (tc_migrations t) []))) (\<lambda>_.
         bnd_loop (cb_check_server_status_interval env sc cc i ''VERIFY_RESIZE'' 10 200) (\<lambda>_.
         bnd_loop (io_loop (confirm_resize env sc (cc_servers cc) (id_text env i) [])) (\<lambda>_.
           cb_check_server_status_interval env sc cc i ''SHUTOFF'' 10 60)))))"

definition migration_test :: "'r env \<Rightarrow> schemas \<Rightarrow> string \<Rightarrow> 'r compute_case \<Rightarrow> 'r case_step" where
  "migration_test env sc fresh t = migrating env sc fresh t (cold_move env sc)"

text \<open>\<open>LiveMigrationTest.live_migration_test\<close>.\<close>

definition live_move :: "'r env \<Rightarrow> schemas \<Rightarrow> 'r compute_case \<Rightarrow> py \<Rightarrow> 'r case_step" where
  "live_move env sc t i =
     (let cc = tc_clients t
      in bnd_loop (io_loop (live_migrate_server env sc (cc_servers cc) (id_text env i) PNone (PBool False))) (\<lambda>_.
           cb_check_server_status_interval env sc cc i ''ACTIVE'' 10 60))"

definition live_migration_test :: "'r env \<Rightarrow> schemas \<Rightarrow> string \<Rightarrow> 'r compute_case \<Rightarrow> 'r case_step" where
  "live_migration_test env sc fresh t = migrating env sc fresh t (live_move env sc)"

section \<open>Floating addresses\<close>

text \<open>The variables that the \<open>finally\<close> reads; one that is None is unbound.\<close>

record floating_locals =
  fl_instance :: "py option"
  fl_id :: "py option"
  fl_ip :: "py option"

definition no_locals :: floating_locals where
  "no_locals = \<lparr>fl_instance = None, fl_id = None, fl_ip = None\<rparr>"

definition bound :: "'a option \<Rightarrow> pyexc + 'a" where
  "bound x = (case x of None \<Rightarrow> Inl UnboundErr | Some v \<Rightarrow> Inr v)"

definition release_floating_ip :: "'r env \<Rightarrow> schemas \<Rightarrow> 'r compute_case \<Rightarrow> floating_locals \<Rightarrow> 'r case_step" where
  "release_floating_ip env sc t l =
     bnd_loop (ignoring (io_loop
       (bnd (lift (bound (fl_ip l))) (\<lambda>ip. bnd (lift (bound (fl_instance l))) (\<lambda>i.
        bnd (disassociate_floating_ip_from_server env sc (tc_floating_ips t) ip (id_text env i)) (\<lambda>_. ret ())))))) (\<lambda>_.
     bnd_loop (ignoring (io_loop
       (bnd (lift (bound (fl_id l))) (\<lambda>j.
        bnd (delete_floating_ip env sc (tc_floating_ips t) (id_text env j)) (\<lambda>_. ret ()))))) (\<lambda>_.
       tc_delete_all env sc t))"

text \<open>A new address on the server \<open>i\<close>, with the variables bound on the way.\<close>

definition with_floating_ip ::
    "'r env \<Rightarrow> schemas \<Rightarrow> 'r compute_case \<Rightarrow> py
     \<Rightarrow> (floating_locals \<Rightarrow> py \<Rightarrow> py \<Rightarrow> ('r compute_world, floating_locals \<times> pyexc option) loopy)
     \<Rightarrow> ('r compute_world, floating_locals \<times> pyexc option) loopy" where
  "with_floating_ip env sc t i k =
     (let l = no_locals\<lparr>fl_instance := Some i\<rparr>
      in stage l (io_loop (bnd (create_floating_ip env sc (tc_floating_ips t) (PStr ''external'')) (\<lambda>fp_body.
                    bnd (lift (rb_item fp_body ''id'')) (\<lambda>j. ret (fp_body, j))))) (\<lambda>(fp_body, j).
         stage (l\<lparr>fl_id := Some j\<rparr>) (io_loop (lift (rb_item fp_body ''ip''))) (\<lambda>ip.
           let l' = l\<lparr>fl_id := Some j, fl_ip := Some ip\<rparr>
           in stage l' (io_loop (associate_floating_ip_to_server env sc (tc_floating_ips t) ip (id_text env i))) (\<lambda>_.
                k l' j ip))))"

text \<open>\<open>FloatingIpTest.test_associate_floatingip\<close>.\<close>

definition associate_body :: "'r env \<Rightarrow> schemas \<Rightarrow> 'r compute_case
     \<Rightarrow> ('r compute_world, floating_locals \<times> pyexc option) loopy" where
  "associate_body env sc t =
     stage no_locals (tc_create_server env sc t) (\<lambda>i.
     with_floating_ip env sc t i (\<lambda>l j ip.
     stage l (io_loop (bnd (show_floating_ip env sc (tc_floating_ips t) (id_text env j)) (\<lambda>b.
                bnd (lift (rb_item b ''instance_id'')) (\<lambda>instance_id.
                  if i \<noteq> instance_id then throw (Auto FloatingIpNotCorrectlyAssociated [] []) else ret ()))))
       (\<lambda>_. io_loop (ret (l, None)))))"

definition test_associate_floatingip :: "'r env \<Rightarrow> schemas \<Rightarrow> 'r compute_case \<Rightarrow> 'r case_step" where
  "test_associate_floatingip env sc t =
     bnd_loop (associate_body env sc t) (\<lambda>(l, e).
     bnd_loop (release_floating_ip env sc t l) (\<lambda>_. io_loop (rethrow e)))"

text \<open>
  \<open>UpdateVMPassword.test_update_vm_password\<close>; \<open>tc_known_hosts\<close> empties the file of known hosts. The name of the server must
  be a text, or \<open>in\<close> raises.
\<close>

definition set_password :: "'r env \<Rightarrow> schemas \<Rightarrow> 'r compute_case \<Rightarrow> py \<Rightarrow> ('r compute_world, py) loopy" where
  "set_password env sc t i =
     bnd_loop (io_loop (change_password env sc (cc_servers (tc_clients t)) (id_text env i) (PStr ''adminPass''))) (\<lambda>_.
     bnd_loop (tc_await env sc t i ''ACTIVE'') (\<lambda>_.
     bnd_loop (tc_show env sc t i) (\<lambda>detail. io_loop (ret (rb_get detail ''name'')))))"

definition check_login :: "'r env \<Rightarrow> schemas \<Rightarrow> 'r compute_case \<Rightarrow> py \<Rightarrow> py \<Rightarrow> py \<Rightarrow> 'r case_step" where
  "check_login env sc t i vm_name ip =
     (let cb = tc_base t
      in bnd_loop (io_loop (bnd (add_security_group env sc (cc_servers (tc_clients t)) (id_text env i)
                                   (tc_option t ''security_group'')) (\<lambda>_. tc_known_hosts t))) (\<lambda>_.
         bnd_loop (cb_check_server_start_status_interval (tc_ssh t) (id_text env ip) ''adminPass'' ''hostname''
                     (cb_build_interval cb) (cb_build_timeout cb)) (\<lambda>r.
           io_loop (bnd (lift (as_str TypeErr vm_name)) (\<lambda>name.
             if \<not> str_contains name (id_text env r) then throw (Auto PasswordNotCorrectlyUpdated [] []) else ret ())))))"

definition update_password_body :: "'r env \<Rightarrow> schemas \<Rightarrow> 'r compute_case
     \<Rightarrow> ('r compute_world, floating_locals \<times> pyexc option) loopy" where
  "update_password_body env sc t =
     stage no_locals (tc_create_server env sc t) (\<lambda>i.
     stage (no_locals\<lparr>fl_instance := Some i\<rparr>) (set_password env sc t i) (\<lambda>vm_name.
     with_floating_ip env sc t i (\<lambda>l j ip.
     stage l (check_login env sc t i vm_name ip) (\<lambda>_. io_loop (ret (l, None))))))"

definition test_update_vm_password :: "'r env \<Rightarrow> schemas \<Rightarrow> 'r compute_case \<Rightarrow> 'r case_step" where
  "test_update_vm_password env sc t =
     bnd_loop (update_password_body env sc t) (\<lambda>(l, e).
     bnd_loop (release_floating_ip env sc t l) (\<lambda>_. io_loop (rethrow e)))"

section \<open>Volumes\<close>

text \<open>\<open>AttachVolumeTest\<close> of \<open>test_attach_volume.py\<close>; \<open>volume\<close> is None until it is created.\<close>

definition tc_await_volume :: "'r env \<Rightarrow> 'r compute_case \<Rightarrow> py \<Rightarrow> string \<Rightarrow> 'r case_step" where
  "tc_await_volume env t i status =
     wait_for_volume_status (tc_volume_waiter t)
       (bnd (show_volume env (tc_volumes t) (id_text env i)) (\<lambda>b. ret (rb_data b))) (id_text env i) status"

definition attach_and_detach :: "'r env \<Rightarrow> 'r compute_case \<Rightarrow> py \<Rightarrow> response_body \<Rightarrow> 'r case_step" where
  "attach_and_detach env t server_id volume =
     bnd_loop (io_loop (lift (rb_item volume ''id''))) (\<lambda>i.
     bnd_loop (tc_await_volume env t i ''available'') (\<lambda>_.
     bnd_loop (io_loop (vol_attach_volume env (tc_volumes t) (id_text env i) server_id (PStr ''/dev/vdc''))) (\<lambda>_.
     bnd_loop (tc_await_volume env t i ''in-use'') (\<lambda>_.
     bnd_loop (io_loop (vol_detach_volume env (tc_volumes t) (id_text env i))) (\<lambda>_.
       tc_await_volume env t i ''available'')))))"

definition attach_volume_body :: "'r env \<Rightarrow> schemas \<Rightarrow> string \<Rightarrow> 'r compute_case
     \<Rightarrow> ('r compute_world, response_body option \<times> pyexc option) loopy" where
  "attach_volume_body env sc name t =
     stage None (tc_create_server env sc t) (\<lambda>i.
     stage None (io_loop (create_volume env 202 (tc_volume_size t) (tc_volumes t) (PInt 1) [(''name'', PStr name)])) (\<lambda>volume.
     stage (Some volume) (attach_and_detach env t i volume) (\<lambda>_. io_loop (ret (Some volume, None)))))"

text \<open>The deletion of the volume: whether it went well. The warning about a failure reads the id again.\<close>

definition delete_test_volume ::
    "'r env \<Rightarrow> 'r compute_case \<Rightarrow> response_body option \<Rightarrow> ('r compute_world, bool) io" where
  "delete_test_volume env t volume =
     (case volume of
        None \<Rightarrow> ret True
      | Some v \<Rightarrow>
          catch (bnd (lift (rb_item v ''id'')) (\<lambda>i. bnd (delete_volume (tc_volumes t) (id_text env i)) (\<lambda>_. ret True)))
            (\<lambda>e. Some (if catches NotFound e then ret True else bnd (lift (rb_item v ''id'')) (\<lambda>_. ret False))))"

definition test_attach_volume :: "'r env \<Rightarrow> schemas \<Rightarrow> string \<Rightarrow> 'r compute_case \<Rightarrow> 'r case_step" where
  "test_attach_volume env sc name t =
     bnd_loop (attach_volume_body env sc name t) (\<lambda>(volume, e).
     bnd_loop (cleaned (tc_delete_all env sc t)) (\<lambda>ok.
     bnd_loop (io_loop (delete_test_volume env t volume)) (\<lambda>volume_ok.
       io_loop (if ok \<and> volume_ok then rethrow e else throw (Auto DeleteException [] [])))))"

section \<open>The tests end\<close>

lemma ends_bnd_reached:
  assumes "always_ends m" "\<And>w x w'. m w = Some (Inr x, w') \<Longrightarrow> always_ends (f x)"
  shows "always_ends (bnd_loop m f)"
  unfolding always_ends_def
proof
  fix w
  obtain r v where v: "m w = Some (r, v)" using assms(1) by (rule endsE)
  then show "bnd_loop m f w \<noteq> None"
    using assms(2) [of w] by (cases r) (auto simp: bnd_loop_def always_ends_def)
qed

lemma ends_finally:
  assumes "always_ends m" "always_ends c"
  shows "always_ends (finally_loop m c)"
  unfolding always_ends_def
proof
  fix w
  obtain r v where "m w = Some (r, v)" using assms(1) by (rule endsE)
  moreover obtain q u where "c v = Some (q, u)" using assms(2) by (rule endsE)
  ultimately show "finally_loop m c w \<noteq> None" by (cases q) (simp_all add: finally_loop_def)
qed

lemma ends_stage:
  assumes "always_ends m" "\<And>x. always_ends (k x)"
  shows "always_ends (stage l m k)"
  unfolding always_ends_def
proof
  fix w
  obtain r v where "m w = Some (r, v)" using assms(1) by (rule endsE)
  then show "stage l m k w \<noteq> None" using assms(2) by (cases r) (auto simp: stage_def always_ends_def)
qed

lemma ends_failing_as: "always_ends m \<Longrightarrow> always_ends (failing_as c m)"
  unfolding failing_as_def by (auto intro!: ends_catch ends_io)

lemma ends_cleaning_up: "always_ends m \<Longrightarrow> always_ends c \<Longrightarrow> always_ends (cleaning_up c f m)"
  unfolding cleaning_up_def by (auto intro!: ends_catch ends_bnd ends_io)

lemma ends_cleaned: "always_ends m \<Longrightarrow> always_ends (cleaned m)"
  unfolding cleaned_def by (auto intro!: ends_catch ends_bnd ends_io)

lemma ends_ignoring: "always_ends m \<Longrightarrow> always_ends (ignoring m)" "always_ends m \<Longrightarrow> always_ends (ignoring_class c m)"
  unfolding ignoring_def ignoring_class_def by (auto intro!: ends_catch ends_io split: if_splits)

lemma ends_countdown: "1 \<le> interval \<Longrightarrow> always_ends (countdown interval check timeout)"
  using countdown_ends [of interval check timeout] by (fastforce simp: always_ends_def)

lemmas ends_intros = ends_bnd ends_io ends_finally ends_stage ends_failing_as ends_cleaning_up ends_cleaned ends_ignoring
  ends_or_raise

text \<open>What the tests need of their world: services that leave the lists and the clock alone, and pauses of a second.\<close>

definition quiet_clock :: "(('r, 'x) world_scheme) requester \<Rightarrow> bool" where
  "quiet_clock rq = (\<forall>m u x h b. time_mono (rq m u x h b))"

definition tc_fair :: "'r compute_case \<Rightarrow> bool" where
  "tc_fair t =
     (clients_quiet (tc_clients t) \<and> quiet_clock (cc_servers (tc_clients t)) \<and> quiet_clock (cc_images (tc_clients t))
      \<and> quiet_clock (tc_volumes t) \<and> (\<forall>m u x h b. within no_longer (tc_volumes t m u x h b)) \<and> 1 \<le> cb_delete_interval (tc_base t) \<and> 1 \<le> cb_build_interval (tc_base t)
      \<and> 1 \<le> wt_interval (tc_waiter t) \<and> 1 \<le> wt_interval (tc_volume_waiter t))"

lemma ends_init: "always_ends (tc_init env sc fresh t)"
  unfolding tc_init_def by (intro ends_intros)

lemma init_fair:
  assumes "tc_fair t" "failing_as c (tc_init env sc fresh t) w = Some (Inr t', w')"
  shows "tc_fair t'"
proof -
  obtain base v v' where base: "cb_init env sc (tc_option t) (tc_clients t) fresh (tc_base t) v = (Inr base, v')"
      "t' = t\<lparr>tc_base := base\<rparr>"
    using assms(2)
    by (auto simp: failing_as_def catch_loop_def tc_init_def bnd_loop_def io_loop_def split: option.splits prod.splits sum.splits)
  then have "cb_delete_interval base = cb_delete_interval (tc_base t)" "cb_build_interval base = cb_build_interval (tc_base t)"
    by (auto simp: cb_init_def elim!: bnd_InrE)
  with base assms(1) show ?thesis by (simp add: tc_fair_def)
qed

lemma ends_cleanup: "tc_fair t \<Longrightarrow> always_ends (tc_delete_all env sc t)"
  unfolding tc_delete_all_def tc_fair_def by (auto intro: cb_delete_all_ends)

lemma ends_create: "tc_fair t \<Longrightarrow> always_ends (tc_create_server env sc t)"
  unfolding tc_create_server_def tc_fair_def by (intro ends_intros create_server_ends) simp_all

lemma mono_shows:
  assumes "quiet_clock rq"
  shows "time_mono (show_server env sc rq i)" "time_mono (nova_show_image env sc rq i)" "time_mono (show_volume env rq i)"
  using assms unfolding show_server_def get_json_def http_get_def nova_show_image_def get_with_def show_volume_def quiet_clock_def
  by (auto intro!: mono_intros)

lemma ends_await:
  assumes "tc_fair t"
  shows "always_ends (tc_await env sc t i status)" "always_ends (tc_await_volume env t i status)"
proof -
  have "fair_polling (tc_waiter t) (bnd (cb_show_server env sc (tc_clients t) i) (\<lambda>b. ret (rb_data b)))"
    "fair_polling (tc_volume_waiter t) (bnd (show_volume env (tc_volumes t) (id_text env i)) (\<lambda>b. ret (rb_data b)))"
    using assms by (auto simp: fair_polling_def tc_fair_def cb_show_server_def intro!: mono_intros mono_shows)
  from server_wait_outcome [OF this(1)] volume_wait_ends [OF this(2)]
  show "always_ends (tc_await env sc t i status)" "always_ends (tc_await_volume env t i status)"
    unfolding tc_await_def tc_await_volume_def always_ends_def by (metis option.distinct(1))+
qed

lemma ends_capture:
  assumes "tc_fair t"
  shows "always_ends (cb_capture_image_from_server env sc (tc_waiter t) (tc_clients t) name i kw)"
proof -
  have "fair_polling (tc_waiter t) (bnd (nova_show_image env sc (cc_images (tc_clients t)) j) (\<lambda>b. ret (rb_data b)))" for j
    using assms by (auto simp: fair_polling_def tc_fair_def intro!: mono_intros mono_shows)
  then have "always_ends (wait_for_image_status (tc_waiter t)
      (bnd (nova_show_image env sc (cc_images (tc_clients t)) j) (\<lambda>b. ret (rb_data b))) j st)" for j st
    unfolding always_ends_def using image_wait_ends by (metis option.distinct(1))
  then show ?thesis
    unfolding cb_capture_image_from_server_def by (auto intro!: ends_bnd ends_io split: option.splits)
qed

lemma ends_waits:
  assumes "1 \<le> cb_build_interval cb"
  shows "always_ends (cb_wait_status env sc cb cc i st)" "always_ends (then_true (cb_wait_status env sc cb cc i st))"
    "always_ends (cb_power_off env sc cb cc i)" "always_ends (cb_power_on env sc cb cc i)"
    "always_ends (cb_reboot env sc cb cc i ty)" "always_ends (cb_resize env sc cb cc i fl)"
    "always_ends (cb_set_server_network_qos env sc cb cc i q q')"
    "always_ends (cb_check_server_start_status_interval run ip pw cmd (cb_build_interval cb) timeout)"
    "1 \<le> interval \<Longrightarrow> always_ends (cb_check_server_status_interval env sc cc i st interval timeout)"
  using assms
  unfolding cb_wait_status_def then_true_def cb_power_off_def cb_power_on_def cb_reboot_def cb_resize_def act_and_wait_def
    cb_set_server_network_qos_def cb_check_server_status_interval_def cb_check_server_start_status_interval_def
  by (auto intro!: ends_intros ends_catch split: if_splits)

section \<open>What a test that passes leaves behind\<close>

definition ends_leaving :: "('w \<Rightarrow> bool) \<Rightarrow> ('w, 'a) loopy \<Rightarrow> bool" where
  "ends_leaving P m = (\<forall>w. \<exists>r w'. m w = Some (r, w') \<and> (\<not> isl r \<longrightarrow> P w'))"

abbreviation ends_clean :: "('r compute_world, 'a) loopy \<Rightarrow> bool" where
  "ends_clean \<equiv> ends_leaving (\<lambda>w. cw_servers w = [] \<and> cw_images w = [])"

lemma finally_Inr:
  "finally_loop m c w = Some (Inr x, w') \<Longrightarrow> \<exists>v. m w = Some (Inr x, v) \<and> c v = Some (Inr (), w')"
  by (auto simp: finally_loop_def split: option.splits prod.splits sum.splits)

lemma leaving_finally:
  assumes "always_ends m" "always_ends c" "\<And>v w'. c v = Some (Inr (), w') \<Longrightarrow> P w'"
  shows "ends_leaving P (finally_loop m c)"
  unfolding ends_leaving_def
proof
  fix w
  have "always_ends (finally_loop m c)" using assms(1,2) by (rule ends_finally)
  then obtain r w' where run: "finally_loop m c w = Some (r, w')" by (rule endsE)
  have "P w'" if "r = Inr x" for x
    using run that finally_Inr [of m c w x w'] assms(3) by blast
  then show "\<exists>r w'. finally_loop m c w = Some (r, w') \<and> (\<not> isl r \<longrightarrow> P w')"
    using run by (cases r) auto
qed

lemma leaving_bnd:
  assumes "always_ends m" "\<And>w x w'. m w = Some (Inr x, w') \<Longrightarrow> ends_leaving P (f x)"
  shows "ends_leaving P (bnd_loop m f)"
  unfolding ends_leaving_def
proof
  fix w
  obtain r v where v: "m w = Some (r, v)" using assms(1) by (rule endsE)
  show "\<exists>r w'. bnd_loop m f w = Some (r, w') \<and> (\<not> isl r \<longrightarrow> P w')"
  proof (cases r)
    case (Inr x)
    with assms(2) v have "ends_leaving P (f x)" by blast
    with v Inr show ?thesis by (auto simp: ends_leaving_def bnd_loop_def)
  qed (use v in \<open>simp add: bnd_loop_def\<close>)
qed

lemma clean_finally:
  assumes "tc_fair t" "always_ends m"
  shows "ends_clean (finally_loop m (tc_delete_all env sc t))"
  using assms compute_cleanup_clean unfolding tc_delete_all_def
  by (intro leaving_finally ends_cleanup [unfolded tc_delete_all_def]) blast+

lemma clean_with_base:
  assumes "tc_fair t" "\<And>t'. tc_fair t' \<Longrightarrow> always_ends (body t')"
  shows "ends_clean (with_base env sc fresh t body)"
  unfolding with_base_def
  by (intro leaving_bnd clean_finally ends_failing_as ends_init assms(2)) (auto dest: init_fair [OF assms(1)])

text \<open>The bodies end.\<close>

lemma ends_scripts:
  assumes "tc_fair t"
  shows "always_ends (create_server_script env sc t)" "always_ends (power_body env sc t)" "always_ends (resize_body env sc t)"
    "always_ends (modify_qos_body env sc t)"
proof -
  have "1 \<le> cb_build_interval (tc_base t)" using assms by (simp add: tc_fair_def)
  note waits = ends_waits [OF this]
  show "always_ends (create_server_script env sc t)" "always_ends (power_body env sc t)" "always_ends (resize_body env sc t)"
    "always_ends (modify_qos_body env sc t)"
    unfolding create_server_script_def power_body_def resize_body_def modify_qos_body_def tc_show_def Let_def
    by (auto intro!: ends_bnd ends_io ends_create [OF assms] waits split: list.splits)
qed

lemma ends_image_steps:
  assumes "tc_fair t"
  shows "always_ends (stop_and_capture env sc name t)" "always_ends (create_server_from_image env sc server_name t img)"
proof -
  have "1 \<le> cb_build_interval (tc_base t)" using assms by (simp add: tc_fair_def)
  note waits = ends_waits [OF this]
  show "always_ends (stop_and_capture env sc name t)" "always_ends (create_server_from_image env sc server_name t img)"
    unfolding stop_and_capture_def create_server_from_image_def tc_show_def Let_def
    by (intro ends_bnd ends_io ends_create [OF assms] ends_await [OF assms] ends_capture [OF assms] waits)+
qed

lemma clean_migrating:
  assumes "tc_fair t" "\<And>t' i. tc_fair t' \<Longrightarrow> always_ends (move t' i)"
  shows "ends_clean (migrating env sc fresh t move)"
proof -
  have "ends_clean (finally_loop (cleaning_up (tc_delete_all env sc t') f
      (bnd_loop (tc_create_server env sc t') (\<lambda>i. bnd_loop (tc_show env sc t' i) (\<lambda>_.
       bnd_loop (io_loop (cb_get_server_host env sc (tc_clients t') i)) (\<lambda>orig_host.
       bnd_loop (move t' i) (\<lambda>_. check_moved env sc t' i orig_host)))))) (tc_delete_all env sc t'))"
    if "tc_fair t'" for t' f
    unfolding tc_show_def check_moved_def
    by (intro clean_finally ends_cleaning_up ends_bnd ends_io ends_create ends_cleanup assms(2) that)
  then show ?thesis
    unfolding migrating_def
    by (intro leaving_bnd ends_failing_as ends_init) (auto dest: init_fair [OF assms(1)])
qed

lemma ends_moves:
  assumes "tc_fair t"
  shows "always_ends (cold_move env sc t i)" "always_ends (live_move env sc t i)"
proof -
  have "1 \<le> cb_build_interval (tc_base t)" using assms by (simp add: tc_fair_def)
  note waits = ends_waits [OF this]
  show "always_ends (cold_move env sc t i)" "always_ends (live_move env sc t i)"
    unfolding cold_move_def live_move_def Let_def by (intro ends_bnd ends_io waits, simp_all)+
qed

lemma clean_release:
  assumes "tc_fair t" "always_ends m"
  shows "ends_clean (bnd_loop m (\<lambda>(l, e). bnd_loop (release_floating_ip env sc t l) (\<lambda>_. io_loop (rethrow e))))"
proof (intro leaving_bnd assms(2))
  fix w w' and x :: "floating_locals \<times> pyexc option"
  obtain l e where x: "x = (l, e)" by (cases x)
  have "ends_clean (bnd_loop (release_floating_ip env sc t l) (\<lambda>_. io_loop (rethrow e)))"
    unfolding ends_leaving_def
  proof
    fix w
    have "always_ends (release_floating_ip env sc t l)"
      unfolding release_floating_ip_def by (intro ends_bnd ends_ignoring ends_io ends_cleanup [OF assms(1)])
    then obtain r v where run: "release_floating_ip env sc t l w = Some (r, v)" by (rule endsE)
    have "cw_servers v = [] \<and> cw_images v = []" if "r = Inr ()"
    proof -
      from run that obtain u where "tc_delete_all env sc t u = Some (Inr (), v)"
        by (auto simp: release_floating_ip_def bnd_loop_def split: option.splits prod.splits sum.splits)
      then show ?thesis unfolding tc_delete_all_def by (rule compute_cleanup_clean)
    qed
    then show "\<exists>r w'. bnd_loop (release_floating_ip env sc t l) (\<lambda>_. io_loop (rethrow e)) w = Some (r, w')
        \<and> (\<not> isl r \<longrightarrow> cw_servers w' = [] \<and> cw_images w' = [])"
      using run by (cases r; cases e) (auto simp: bnd_loop_def io_loop_def rethrow_def)
  qed
  then show "ends_clean (case x of (l, e) \<Rightarrow> bnd_loop (release_floating_ip env sc t l) (\<lambda>_. io_loop (rethrow e)))"
    by (simp add: x)
qed

lemma ends_floating:
  assumes "tc_fair t"
  shows "always_ends (associate_body env sc t)" "always_ends (update_password_body env sc t)"
proof -
  have "1 \<le> cb_build_interval (tc_base t)" using assms by (simp add: tc_fair_def)
  note waits = ends_waits [OF this]
  have floating: "always_ends (with_floating_ip env sc t i k)" if "\<And>l j ip. always_ends (k l j ip)" for i k
    unfolding with_floating_ip_def Let_def using that by (auto intro!: ends_stage ends_io split: prod.splits)
  show "always_ends (associate_body env sc t)" "always_ends (update_password_body env sc t)"
    unfolding associate_body_def update_password_body_def set_password_def check_login_def tc_show_def Let_def
    by (intro ends_stage floating ends_bnd ends_io ends_create [OF assms] ends_await [OF assms] waits)+
qed

lemma within_delete_volume:
  assumes "tc_fair t"
  shows "within no_longer (delete_test_volume env t volume)"
proof -
  have "within no_longer (delete_volume (tc_volumes t) i)" for i
    using assms unfolding delete_volume_def delete_with_def http_delete_def tc_fair_def by (auto intro!: no_longer_intros)
  then show ?thesis
    unfolding delete_test_volume_def
    by (auto intro!: no_longer_intros split: option.splits if_splits)
qed

lemma clean_attach:
  assumes "tc_fair t"
  shows "ends_clean (test_attach_volume env sc name t)"
  unfolding test_attach_volume_def
proof (rule leaving_bnd)
  show "always_ends (attach_volume_body env sc name t)"
    unfolding attach_volume_body_def attach_and_detach_def
    by (intro ends_stage ends_bnd ends_io ends_create [OF assms] ends_await [OF assms])
next
  fix w w' and x :: "response_body option \<times> pyexc option"
  obtain volume e where x: "x = (volume, e)" by (cases x)
  let ?last = "\<lambda>ok. bnd_loop (io_loop (delete_test_volume env t volume)) (\<lambda>volume_ok.
       io_loop (if ok \<and> volume_ok then rethrow e else throw (Auto DeleteException [] [])))"
  have "ends_clean (bnd_loop (cleaned (tc_delete_all env sc t)) ?last)"
    unfolding ends_leaving_def
  proof
    fix w
    have "always_ends (bnd_loop (cleaned (tc_delete_all env sc t)) ?last)"
      by (intro ends_bnd ends_io ends_cleaned ends_cleanup [OF assms])
    then obtain r v where run: "bnd_loop (cleaned (tc_delete_all env sc t)) ?last w = Some (r, v)" by (rule endsE)
    obtain q u where first: "tc_delete_all env sc t w = Some (q, u)"
      using ends_cleanup [OF assms] by (rule endsE)
    obtain p where p: "delete_test_volume env t volume u = (p, v)" "\<not> isl r \<longrightarrow> q = Inr ()"
      using run cleaned_run [where m = "tc_delete_all env sc t", OF first]
      by (cases q; cases e)
        (auto simp: bnd_loop_def io_loop_def rethrow_def split: prod.splits sum.splits if_splits)
    have "cw_servers v = [] \<and> cw_images v = []" if "\<not> isl r"
    proof -
      have "cw_servers u = [] \<and> cw_images u = []"
        using first p(2) that unfolding tc_delete_all_def by (intro compute_cleanup_clean) simp
      moreover have "no_longer u v"
        using p(1) within_delete_volume [OF assms] by (rule withinD [rotated])
      ultimately show ?thesis by (simp add: no_longer_def)
    qed
    then show "\<exists>r w'. bnd_loop (cleaned (tc_delete_all env sc t)) ?last w = Some (r, w')
        \<and> (\<not> isl r \<longrightarrow> cw_servers w' = [] \<and> cw_images w' = [])"
      using run by blast
  qed
  then show "ends_clean (case x of (volume, e) \<Rightarrow> bnd_loop (cleaned (tc_delete_all env sc t)) (\<lambda>ok.
      bnd_loop (io_loop (delete_test_volume env t volume)) (\<lambda>volume_ok.
        io_loop (if ok \<and> volume_ok then rethrow e else throw (Auto DeleteException [] [])))))"
    by (simp add: x)
qed

text \<open>All compute tests, the scripts among them as they are started.\<close>

definition compute_tests ::
    "'r env \<Rightarrow> schemas \<Rightarrow> string \<Rightarrow> string \<Rightarrow> 'r compute_case \<Rightarrow> 'r case_step list" where
  "compute_tests env sc fresh name t =
     [test_create_server env sc fresh t, test_power_action env sc fresh t, test_resize_server env sc fresh t,
      test_modify_qos env sc fresh t, test_capture_image env sc name t, test_create_from_capture env sc name fresh t,
      migration_test env sc fresh t, live_migration_test env sc fresh t, test_associate_floatingip env sc t,
      test_update_vm_password env sc t, test_attach_volume env sc name t]"

text \<open>
  C36 (compute_tests_end_clean): every compute test comes to an end, and one that passes has left no server and no image
  that its base remembers.
\<close>

theorem compute_tests_end_clean:
  assumes "tc_fair t" "case_run \<in> set (compute_tests env sc fresh name t)"
  shows "\<exists>r w'. case_run w = Some (r, w') \<and> (r = Inr () \<longrightarrow> cw_servers w' = [] \<and> cw_images w' = [])"
proof -
  note fair = assms(1)
  have "ends_clean case_run"
    using assms(2) unfolding compute_tests_def test_create_server_def test_power_action_def test_resize_server_def
      test_modify_qos_def test_capture_image_def test_create_from_capture_def migration_test_def live_migration_test_def
      test_associate_floatingip_def test_update_vm_password_def
    by (auto intro!: clean_with_base clean_finally clean_migrating clean_release clean_attach ends_scripts ends_moves
        ends_floating ends_bnd ends_io ends_image_steps fair)
  then show ?thesis unfolding ends_leaving_def by (metis sum.disc(2))
qed

text \<open>A case whose services know nothing.\<close>

definition demo_case :: "script compute_case" where
  "demo_case =
     \<lparr>tc_base = demo_compute_base, tc_clients = empty_clients, tc_post = (\<lambda>u b. ret (500, Inr PNone)),
      tc_monitor = \<lparr>mo_server = PStr ''z'', mo_user = PStr ''u'', mo_password = PStr ''p''\<rparr>, tc_option = (\<lambda>k. PStr k),
      tc_ready_wait = 0, tc_waiter = demo_waiter 10, tc_floating_ips = cc_servers empty_clients,
      tc_migrations = cc_servers empty_clients, tc_volumes = cc_servers empty_clients, tc_volume_waiter = demo_waiter 10,
      tc_volume_size = PInt 1, tc_ssh = (\<lambda>h p c. ret None), tc_known_hosts = ret ()\<rparr>"

lemma demo_case_fair: "tc_fair demo_case"
  using empty_clients_quiet clients_quietD(1) [OF empty_clients_quiet]
  by (simp add: tc_fair_def demo_case_def demo_compute_base_def demo_waiter_def quiet_clock_def empty_clients_def Let_def mono_intros)

theorem compute_tests_end_clean_witness:
  "\<exists>r w'. test_attach_volume (demo_env []) demo_schemas ''vol'' demo_case (demo_made [PStr ''a'']) = Some (r, w')
    \<and> (r = Inr () \<longrightarrow> cw_servers w' = [] \<and> cw_images w' = [])"
  by (rule compute_tests_end_clean [OF demo_case_fair, where fresh = "''s''" and name = "''vol''" and env = "demo_env []"
        and sc = demo_schemas]) (simp add: compute_tests_def)

section \<open>What a test that passes has seen\<close>

lemma catch_loop_passes:
  "catch_loop m h w = Some (Inr x, w') \<Longrightarrow>
   m w = Some (Inr x, w') \<or> (\<exists>e v k. m w = Some (Inl e, v) \<and> h e = Some k \<and> k v = Some (Inr x, w'))"
  by (auto simp: catch_loop_def split: option.splits prod.splits sum.splits)

lemma bnd_loop_passes:
  "bnd_loop m f w = Some (Inr y, w') \<Longrightarrow> \<exists>x v. m w = Some (Inr x, v) \<and> f x v = Some (Inr y, w')"
  by (auto simp: bnd_loop_def split: option.splits prod.splits sum.splits)

lemma io_loop_passes: "io_loop m w = Some (Inr x, w') \<longleftrightarrow> m w = (Inr x, w')"
  by (auto simp: io_loop_def)

lemma cleaning_up_passes: "cleaning_up c f m w = Some (Inr x, w') \<Longrightarrow> m w = Some (Inr x, w')"
  unfolding cleaning_up_def
  by (drule catch_loop_passes) (auto dest!: bnd_loop_passes simp: io_loop_passes)

text \<open>
  (migration_seen): a migration test that passes has asked for the host of its server before and after the move, and
  the answers differ, unless the second one names no host: then it passes without having seen a migration.
\<close>

theorem migration_seen:
  assumes "migrating env sc fresh t move w = Some (Inr (), w')"
  shows "\<exists>t' i orig curr u1 v1 v2 u2. cb_get_server_host env sc (tc_clients t') i u1 = (Inr orig, v1)
    \<and> move t' i v1 = Some (Inr (), v2) \<and> cb_get_server_host env sc (tc_clients t') i v2 = (Inr curr, u2)
    \<and> (curr = PNone \<or> curr \<noteq> orig)"
proof -
  obtain t' v u where "finally_loop (cleaning_up (tc_delete_all env sc t') (\<lambda>e. Auto ServerMigrateFailed [] [])
      (bnd_loop (tc_create_server env sc t') (\<lambda>i. bnd_loop (tc_show env sc t' i) (\<lambda>_.
       bnd_loop (io_loop (cb_get_server_host env sc (tc_clients t') i)) (\<lambda>orig_host.
       bnd_loop (move t' i) (\<lambda>_. check_moved env sc t' i orig_host)))))) (tc_delete_all env sc t') v = Some (Inr (), u)"
    using assms unfolding migrating_def by (blast dest!: bnd_loop_passes)
  then obtain i orig u1 v1 v2 u' where run: "cb_get_server_host env sc (tc_clients t') i u1 = (Inr orig, v1)"
      "move t' i v1 = Some (Inr (), v2)" "check_moved env sc t' i orig v2 = Some (Inr (), u')"
    by (fastforce dest!: finally_Inr cleaning_up_passes bnd_loop_passes simp: io_loop_passes)
  from run(3) obtain curr u2 where "cb_get_server_host env sc (tc_clients t') i v2 = (Inr curr, u2)"
      "curr = PNone \<or> curr \<noteq> orig"
    by (auto simp: check_moved_def io_loop_passes elim!: bnd_InrE split: if_splits)
  with run(1,2) show ?thesis by blast
qed

text \<open>A capture test that passes was shown an image with the name it had asked for, in the status ACTIVE.\<close>

theorem capture_seen:
  assumes "test_capture_image env sc name t w = Some (Inr (), w')"
  shows "\<exists>b i v u. nova_show_image env sc (cc_images (tc_clients t)) i v = (Inr b, u)
    \<and> rb_item b ''name'' = Inr (PStr name) \<and> rb_item b ''status'' = Inr (PStr ''ACTIVE'')"
proof -
  obtain img v u where seen: "stop_and_capture env sc name t w = Some (Inr img, v)"
      "captured_well name img = Inr True"
    using assms unfolding test_capture_image_def
    by (fastforce dest!: finally_Inr bnd_loop_passes simp: io_loop_passes bnd_def lift_def
        split: sum.splits prod.splits if_splits)
  then obtain b where b: "img = Some b" "rb_item b ''name'' = Inr (PStr name)" "rb_item b ''status'' = Inr (PStr ''ACTIVE'')"
    by (cases img) (auto simp: captured_well_def captured_item_def bindE_Inr_iff split: if_splits)
  from seen(1) obtain i v0 where "cb_capture_image_from_server env sc (tc_waiter t) (tc_clients t) name i
      [(''name'', PStr name), (''wait_until'', PStr ''ACTIVE'')] v0 = Some (Inr (Some b), v)"
    unfolding stop_and_capture_def b(1) by (blast dest!: bnd_loop_passes)
  then obtain j v1 u1 where "nova_show_image env sc (cc_images (tc_clients t)) j v1 = (Inr b, u1)"
    unfolding cb_capture_image_from_server_def
    by (fastforce dest!: bnd_loop_passes simp: io_loop_passes elim!: bnd_InrE)
  with b show ?thesis by blast
qed

end
