(* ===== verification/VolumeCases.thy ===== *)
theory VolumeCases
  imports ComputeCases VolumeBaseProps
begin

text \<open>
  The volume test cases: the files \<open>test_*.py\<close> of \<open>testcases/volume_tests\<close>, over the class \<open>Base\<close> of \<open>VolumeBase\<close>.

  A test makes its object \<open>volume\<close> first; each step has its own \<open>try\<close>, most of whose handlers call \<open>delete_all\<close> and
  raise (\<open>cleaning_up\<close>), and the last one has a \<open>finally\<close>. Random names are the arguments \<open>fresh\<close>, one for each call that
  draws one.
\<close>

section \<open>What a test uses\<close>

record ('r, 'x) volume_case =
  vc_base :: volume_base
  vc_rest :: rest_client
  vc_caller :: "string option"
  vc_clients :: "(('r, 'x) volume_world_scheme) volume_clients"
  vc_images :: "(('r, 'x) volume_world_scheme) requester"
  vc_option :: "string \<Rightarrow> py"
  vc_image_name :: py
  vc_extend_size :: py
  vc_namer :: "string \<Rightarrow> string"

type_synonym ('r, 'x) volume_step = "(('r, 'x) volume_world_scheme, unit) loopy"

definition vc_init :: "('r, 'x) volume_case \<Rightarrow> (('r, 'x) volume_world_scheme, ('r, 'x) volume_case) loopy" where
  "vc_init t = io_loop (bnd (vb_init (vc_option t) (vc_base t)) (\<lambda>base. ret (t\<lparr>vc_base := base\<rparr>)))"

definition vc_delete_all :: "'r env \<Rightarrow> ('r, 'x) volume_case \<Rightarrow> ('r, 'x) volume_step" where
  "vc_delete_all env t = vb_delete_all env (vc_base t) (vc_rest t) (vc_caller t) (vc_clients t)"

definition vc_create_volume ::
    "'r env \<Rightarrow> ('r, 'x) volume_case \<Rightarrow> string \<Rightarrow> (string, py) dict
     \<Rightarrow> (('r, 'x) volume_world_scheme, response_body) loopy" where
  "vc_create_volume env t fresh kwargs = vb_create_volume env (vc_base t) (vc_clients t) fresh kwargs"

definition item_of :: "response_body \<Rightarrow> string \<Rightarrow> ('w, py) loopy" where
  "item_of b k = io_loop (lift (rb_item b k))"

text \<open>The object is made, or the test ends with InitFailed.\<close>

definition with_volume ::
    "('r, 'x) volume_case \<Rightarrow> (('r, 'x) volume_case \<Rightarrow> ('r, 'x) volume_step) \<Rightarrow> ('r, 'x) volume_step" where
  "with_volume t body = bnd_loop (failing_as InitFailed (vc_init t)) body"

definition volume_exc :: "exc_class \<Rightarrow> pyexc \<Rightarrow> pyexc" where
  "volume_exc c e = Auto c [] []"

section \<open>Tests of volumes\<close>

text \<open>\<open>test_create_volume.py\<close> and \<open>test_extend_volume.py\<close>.\<close>

definition create_volume_test :: "'r env \<Rightarrow> string \<Rightarrow> ('r, 'x) volume_case \<Rightarrow> ('r, 'x) volume_step" where
  "create_volume_test env fresh t = with_volume t (\<lambda>t.
     finally_loop (bnd_loop (vc_create_volume env t fresh []) (\<lambda>_. io_loop (ret ()))) (vc_delete_all env t))"

definition extend_volume_test :: "'r env \<Rightarrow> string \<Rightarrow> ('r, 'x) volume_case \<Rightarrow> ('r, 'x) volume_step" where
  "extend_volume_test env fresh t = with_volume t (\<lambda>t.
     finally_loop
       (bnd_loop (vc_create_volume env t fresh []) (\<lambda>made.
        bnd_loop (item_of made ''id'') (\<lambda>i.
        bnd_loop (vb_extend_volume env (vc_base t) (vc_clients t) i (vc_extend_size t)) (\<lambda>_. io_loop (ret ())))))
       (vc_delete_all env t))"

text \<open>\<open>TestRenameVolume.test_rename_volume\<close>.\<close>

definition test_rename_volume :: "'r env \<Rightarrow> string \<Rightarrow> ('r, 'x) volume_case \<Rightarrow> ('r, 'x) volume_step" where
  "test_rename_volume env fresh t = with_volume t (\<lambda>t.
     bnd_loop (cleaning_up (vc_delete_all env t) id (vc_create_volume env t fresh [])) (\<lambda>made.
     finally_loop
       (bnd_loop (item_of made ''id'') (\<lambda>i.
        bnd_loop (vb_update_volume env (vc_base t) (vc_clients t) i [(''name'', PStr ''newname'')]) (\<lambda>_.
          io_loop (ret ()))))
       (vc_delete_all env t)))"

text \<open>The status of a new volume is looked at once more.\<close>

definition must_be_available :: "'r env \<Rightarrow> ('r, 'x) volume_case \<Rightarrow> response_body \<Rightarrow> ('r, 'x) volume_step" where
  "must_be_available env t made =
     bnd_loop (item_of made ''id'') (\<lambda>i.
       io_loop (bnd (vb_get_volume_status env (vc_clients t) i) (\<lambda>st.
         if st \<noteq> PStr ''available'' then throw (Auto VolumeBuildErrorException [] []) else ret ())))"

text \<open>\<open>CreateVolumeFromImageTest\<close> of \<open>test_create_volume_from_image.py\<close>: the first image of the configured name.\<close>

definition first_image_id :: "py list \<Rightarrow> pyexc + py" where
  "first_image_id images = (case images of [] \<Rightarrow> Inl IndexErr | x # _ \<Rightarrow> py_get x ''id'' PNone)"

definition create_from_image_test :: "'r env \<Rightarrow> string \<Rightarrow> ('r, 'x) volume_case \<Rightarrow> ('r, 'x) volume_step" where
  "create_from_image_test env fresh t = with_volume t (\<lambda>t.
     finally_loop
       (bnd_loop (io_loop (bnd (im2_list_images env (vc_images t) [(''name'', vc_image_name t)]) (\<lambda>images.
                    lift (first_image_id (rl_data images))))) (\<lambda>image_ref.
        bnd_loop (vc_create_volume env t fresh [(''imageRef'', image_ref)]) (must_be_available env t)))
       (vc_delete_all env t))"

text \<open>
  \<open>CreateVolumeFromImageTest\<close> of \<open>test_delete_volume.py\<close>: the volume is deleted through the client, the object is
  never cleaned up.
\<close>

definition delete_volume_test :: "'r env \<Rightarrow> string \<Rightarrow> ('r, 'x) volume_case \<Rightarrow> ('r, 'x) volume_step" where
  "delete_volume_test env fresh t = with_volume t (\<lambda>t.
     bnd_loop (failing_as VolumeBuildErrorException (vc_create_volume env t fresh [])) (\<lambda>made.
       io_loop (bnd (delete_volume (vo_volumes (vc_clients t)) (id_text env (rb_get made ''id''))) (\<lambda>_. ret ()))))"

section \<open>Tests of snapshots\<close>

definition force_snapshot ::
    "'r env \<Rightarrow> ('r, 'x) volume_case \<Rightarrow> response_body \<Rightarrow> (string, py) dict
     \<Rightarrow> (('r, 'x) volume_world_scheme, response_body) loopy" where
  "force_snapshot env t made kwargs =
     bnd_loop (item_of made ''id'') (\<lambda>i. vb_create_snapshot env (vc_base t) (vc_clients t) i kwargs)"

text \<open>A volume and a snapshot of it, with the exceptions of the tests.\<close>

definition with_snapshot ::
    "'r env \<Rightarrow> string \<Rightarrow> (string, py) dict \<Rightarrow> ('r, 'x) volume_case
     \<Rightarrow> (('r, 'x) volume_case \<Rightarrow> response_body \<Rightarrow> response_body \<Rightarrow> ('r, 'x) volume_step) \<Rightarrow> ('r, 'x) volume_step" where
  "with_snapshot env fresh kwargs t body = with_volume t (\<lambda>t.
     bnd_loop (cleaning_up (vc_delete_all env t) (volume_exc VolumeBuildErrorException) (vc_create_volume env t fresh []))
       (\<lambda>made.
     bnd_loop (cleaning_up (vc_delete_all env t) (volume_exc SnapshotBuildErrorException) (force_snapshot env t made kwargs))
       (\<lambda>snapshot. finally_loop (body t made snapshot) (vc_delete_all env t))))"

text \<open>\<open>VolumeSnaphotTest.test_create_volume_snapshot\<close>: the clean-up after a failure runs twice.\<close>

definition test_create_volume_snapshot :: "'r env \<Rightarrow> string \<Rightarrow> ('r, 'x) volume_case \<Rightarrow> ('r, 'x) volume_step" where
  "test_create_volume_snapshot env fresh t = with_volume t (\<lambda>t.
     bnd_loop (cleaning_up (vc_delete_all env t) (volume_exc VolumeBuildErrorException) (vc_create_volume env t fresh []))
       (\<lambda>made.
     finally_loop
       (cleaning_up (vc_delete_all env t) (volume_exc SnapshotBuildErrorException)
          (bnd_loop (force_snapshot env t made [(''force'', PBool True)]) (\<lambda>_. io_loop (ret ()))))
       (vc_delete_all env t)))"

text \<open>\<open>CreateVolumeFromSnapshotTest\<close> of \<open>test_create_volume_from_snapshot.py\<close>.\<close>

definition create_from_snapshot_test ::
    "'r env \<Rightarrow> string \<Rightarrow> string \<Rightarrow> ('r, 'x) volume_case \<Rightarrow> ('r, 'x) volume_step" where
  "create_from_snapshot_test env fresh fresh2 t =
     with_snapshot env fresh [(''force'', PBool True)] t (\<lambda>t made snapshot.
       bnd_loop (vc_create_volume env t fresh2 [(''snapshot_id'', rb_get snapshot ''id'')]) (must_be_available env t))"

text \<open>\<open>DeleteVolumeSnaphotTest.test_delete_volume_snapshot\<close>.\<close>

definition test_delete_volume_snapshot :: "'r env \<Rightarrow> string \<Rightarrow> ('r, 'x) volume_case \<Rightarrow> ('r, 'x) volume_step" where
  "test_delete_volume_snapshot env fresh t =
     with_snapshot env fresh [(''force'', PBool True)] t (\<lambda>t made snapshot.
       failing_as SnapshotBuildErrorException
         (bnd_loop (item_of snapshot ''id'') (vb_delete_snapshot env (vc_base t) (vc_clients t))))"

text \<open>\<open>RollbackVolumeSnaphotTest.test_rollback_volume_snapshot\<close>.\<close>

definition test_rollback_volume_snapshot :: "'r env \<Rightarrow> string \<Rightarrow> ('r, 'x) volume_case \<Rightarrow> ('r, 'x) volume_step" where
  "test_rollback_volume_snapshot env fresh t =
     with_snapshot env fresh [] t (\<lambda>t made snapshot.
       failing_as VolumeRollbackErrorException
         (bnd_loop (item_of made ''id'') (\<lambda>i. bnd_loop (item_of snapshot ''id'') (\<lambda>j.
          bnd_loop (vb_rollback_volume env (vc_base t) (vc_clients t) i j) (\<lambda>_. io_loop (ret ()))))))"

section \<open>Tests of volume types and QoS specifications\<close>

definition disk_qos_low :: "(string, py) dict" where
  "disk_qos_low = [(''read_iops_sec'', PStr ''100''), (''write_iops_sec'', PStr ''50''),
     (''read_bytes_sec'', PStr ''409600''), (''write_bytes_sec'', PStr ''204800'')]"

definition disk_qos_medium :: "(string, py) dict" where
  "disk_qos_medium = [(''read_iops_sec'', PStr ''200''), (''write_iops_sec'', PStr ''100''),
     (''read_bytes_sec'', PStr ''819200''), (''write_bytes_sec'', PStr ''409600'')]"

definition vc_type ::
    "'r env \<Rightarrow> ('r, 'x) volume_case \<Rightarrow> string \<Rightarrow> py \<Rightarrow> (('r, 'x) volume_world_scheme, response_body) io" where
  "vc_type env t fresh name = vb_create_test_volume_type env (vc_clients t) fresh name []"

definition vc_qos ::
    "'r env \<Rightarrow> ('r, 'x) volume_case \<Rightarrow> string \<Rightarrow> py \<Rightarrow> (string, py) dict
     \<Rightarrow> (('r, 'x) volume_world_scheme, response_body) io" where
  "vc_qos env t fresh name kwargs = vb_create_test_qos_specs env (vc_clients t) (vc_namer t) fresh name PNone kwargs"

text \<open>\<open>TestVolumeType.test_create_volume_type\<close> and \<open>TestQosType.test_create_qos_type\<close>.\<close>

definition test_create_volume_type :: "'r env \<Rightarrow> string \<Rightarrow> ('r, 'x) volume_case \<Rightarrow> ('r, 'x) volume_step" where
  "test_create_volume_type env fresh t = with_volume t (\<lambda>t.
     finally_loop (io_loop (bnd (vc_type env t fresh PNone) (\<lambda>_. ret ()))) (vc_delete_all env t))"

definition test_create_qos_type :: "'r env \<Rightarrow> string \<Rightarrow> ('r, 'x) volume_case \<Rightarrow> ('r, 'x) volume_step" where
  "test_create_qos_type env fresh t = with_volume t (\<lambda>t.
     bnd_loop (cleaning_up (vc_delete_all env t) id (io_loop (vc_qos env t fresh PNone disk_qos_low))) (\<lambda>qos.
     finally_loop
       (io_loop (bnd (lift (rb_item qos ''id'')) (\<lambda>i. bnd (vb_show_qos_type env (vc_clients t) i) (\<lambda>_. ret ()))))
       (vc_delete_all env t)))"

text \<open>\<open>volume_type['name'].split('-')\<close> into exactly two parts.\<close>

definition type_prefix :: "py \<Rightarrow> pyexc + string" where
  "type_prefix name =
     bindE (as_str AttrErr name) (\<lambda>n.
       case str_split CHR ''-'' n of [prefix, fixed] \<Rightarrow> Inr prefix | _ \<Rightarrow> Inl ValueErr)"

definition vc_associate ::
    "'r env \<Rightarrow> ('r, 'x) volume_case \<Rightarrow> response_body \<Rightarrow> response_body \<Rightarrow> (('r, 'x) volume_world_scheme, unit) io" where
  "vc_associate env t qos ty =
     bnd (lift (rb_item qos ''id'')) (\<lambda>i. bnd (lift (rb_item ty ''id'')) (\<lambda>j.
       vb_associate_volumetype_with_qos env (vc_clients t) i j))"

text \<open>A volume of a type; the name in its arguments is replaced by the one \<open>create_volume\<close> draws.\<close>

definition volume_of_type ::
    "'r env \<Rightarrow> ('r, 'x) volume_case \<Rightarrow> string \<Rightarrow> string \<Rightarrow> response_body
     \<Rightarrow> (('r, 'x) volume_world_scheme, response_body) loopy" where
  "volume_of_type env t fresh volume_name ty =
     bnd_loop (item_of ty ''id'') (\<lambda>i.
       vc_create_volume env t fresh [(''volume_type'', i), (''name'', PStr volume_name)])"

text \<open>\<open>TestCreateVolumeWithQos.test_create_volume_with_qos\<close>, without the parts that are commented out.\<close>

definition test_create_volume_with_qos ::
    "'r env \<Rightarrow> string \<Rightarrow> string \<Rightarrow> string \<Rightarrow> string \<Rightarrow> ('r, 'x) volume_case \<Rightarrow> ('r, 'x) volume_step" where
  "test_create_volume_with_qos env fresh fresh2 fresh3 volume_name t = with_volume t (\<lambda>t.
     let step = (\<lambda>m. cleaning_up (vc_delete_all env t) id (io_loop m))
     in bnd_loop (step (vc_type env t fresh PNone)) (\<lambda>ty.
        bnd_loop (step (bnd (lift (bindE (rb_item ty ''name'') type_prefix)) (\<lambda>prefix.
                    vc_qos env t fresh2 (PStr (prefix @ ''-Qos'')) disk_qos_low))) (\<lambda>qos.
        bnd_loop (cleaning_up (vc_delete_all env t) id (io_loop (vc_associate env t qos ty))) (\<lambda>_.
        finally_loop
          (cleaning_up (vc_delete_all env t) id
             (bnd_loop (volume_of_type env t fresh3 volume_name ty) (\<lambda>_. io_loop (ret ()))))
          (vc_delete_all env t)))))"

text \<open>
  \<open>TestUpdateVolumeQos.test_update_volume_qos\<close>. When the volume does not have the new type at the end, the test warns and
  cleans up, and passes.
\<close>

definition type_changed ::
    "'r env \<Rightarrow> ('r, 'x) volume_case \<Rightarrow> response_body \<Rightarrow> response_body \<Rightarrow> (('r, 'x) volume_world_scheme, bool) io" where
  "type_changed env t made medium =
     bnd (lift (rb_item made ''id'')) (\<lambda>i.
     bnd (vb_show_volume env (vc_clients t) i) (\<lambda>retyped.
     bnd (lift (rb_item retyped ''volume_type'')) (\<lambda>current.
     bnd (lift (rb_item medium ''name'')) (\<lambda>name. ret (current = name)))))"

definition check_retyped :: "'r env \<Rightarrow> ('r, 'x) volume_case \<Rightarrow> response_body \<Rightarrow> response_body \<Rightarrow> ('r, 'x) volume_step" where
  "check_retyped env t made medium =
     finally_loop
       (bnd_loop (io_loop (type_changed env t made medium)) (\<lambda>same.
          if same then io_loop (ret ()) else vc_delete_all env t))
       (vc_delete_all env t)"

definition retype_and_await ::
    "'r env \<Rightarrow> ('r, 'x) volume_case \<Rightarrow> response_body \<Rightarrow> response_body \<Rightarrow> ('r, 'x) volume_step" where
  "retype_and_await env t made medium =
     bnd_loop (io_loop (bnd (lift (rb_item made ''id'')) (\<lambda>i. bnd (lift (rb_item medium ''id'')) (\<lambda>j.
                 bnd (vb_retype_volume env (vc_clients t) i j []) (\<lambda>_. ret i))))) (\<lambda>i.
       vb_await_volume env (vc_base t) (vc_clients t) i)"

definition test_update_volume_qos ::
    "'r env \<Rightarrow> (nat \<Rightarrow> string) \<Rightarrow> string \<Rightarrow> ('r, 'x) volume_case \<Rightarrow> ('r, 'x) volume_step" where
  "test_update_volume_qos env fresh volume_name t = with_volume t (\<lambda>t.
     let DA = vc_delete_all env t; low_name = ''low_volume_type''; medium_name = ''medium_volume_type''
     in bnd_loop (cleaning_up DA id (io_loop
          (bnd (vc_type env t (fresh 0) (PStr low_name)) (\<lambda>low.
           bnd (vc_type env t (fresh 1) (PStr medium_name)) (\<lambda>medium. ret (low, medium)))))) (\<lambda>(low, medium).
        bnd_loop (cleaning_up DA id (io_loop
          (bnd (vc_qos env t (fresh 2) (PStr (low_name @ ''-Qos'')) disk_qos_low) (\<lambda>low_qos.
           bnd (vc_qos env t (fresh 3) (PStr (medium_name @ ''-Qos'')) disk_qos_medium) (\<lambda>medium_qos.
             ret (low_qos, medium_qos)))))) (\<lambda>(low_qos, medium_qos).
        bnd_loop (cleaning_up DA id (io_loop
          (bnd (vc_associate env t low_qos low) (\<lambda>_. vc_associate env t medium_qos medium)))) (\<lambda>_.
        bnd_loop (cleaning_up DA id (volume_of_type env t (fresh 4) volume_name low)) (\<lambda>made.
        bnd_loop (cleaning_up DA id (retype_and_await env t made medium)) (\<lambda>_.
          check_retyped env t made medium))))))"

section \<open>The attachment of a volume, over both bases\<close>

text \<open>The world of \<open>test_attach_volume.py\<close> has the lists of a volume base and of a compute base.\<close>

record 'r both_world = "'r volume_world" +
  bw_servers :: "py list"
  bw_images :: "py list"

definition server_view :: "'r both_world \<Rightarrow> 'r compute_world" where
  "server_view w =
     \<lparr>now = now w, remote = remote w, sent = sent w, naps = naps w, cw_servers = bw_servers w, cw_images = bw_images w\<rparr>"

definition put_servers :: "'r compute_world \<Rightarrow> 'r both_world \<Rightarrow> 'r both_world" where
  "put_servers v w =
     w\<lparr>now := now v, remote := remote v, sent := sent v, naps := naps v, bw_servers := cw_servers v, bw_images := cw_images v\<rparr>"

definition on_servers :: "('r compute_world, 'a) loopy \<Rightarrow> ('r both_world, 'a) loopy" where
  "on_servers m w =
     (case m (server_view w) of None \<Rightarrow> None | Some (r, v) \<Rightarrow> Some (r, put_servers v w))"

type_synonym 'r attach_case = "('r, \<lparr>bw_servers :: py list, bw_images :: py list\<rparr>) volume_case"

definition await_in ::
    "'r env \<Rightarrow> ('r, 'x) volume_case \<Rightarrow> py \<Rightarrow> string \<Rightarrow> ('r, 'x) volume_step" where
  "await_in env t i status =
     vb_check_volume_status_interval env (vc_clients t) i (PStr status)
       (vb_build_interval (vc_base t)) (vb_build_timeout (vc_base t))"

definition attach_in_turn ::
    "'r env \<Rightarrow> schemas \<Rightarrow> string \<Rightarrow> 'r attach_case \<Rightarrow> 'r compute_case \<Rightarrow> ('r both_world, unit) loopy" where
  "attach_in_turn env sc fresh volume server =
     bnd_loop (on_servers (tc_create_server env sc server)) (\<lambda>server_id.
     bnd_loop (vc_create_volume env volume fresh []) (\<lambda>made.
     bnd_loop (item_of made ''id'') (\<lambda>volume_id.
     bnd_loop (on_servers (cb_attach_volume env sc (tc_base server) (tc_clients server) server_id volume_id)) (\<lambda>_.
     bnd_loop (await_in env volume volume_id ''in-use'') (\<lambda>_.
     bnd_loop (on_servers (io_loop (cb_detach_volume env sc (tc_clients server) server_id volume_id))) (\<lambda>_.
       await_in env volume volume_id ''available''))))))"

definition attach_volume_script ::
    "'r env \<Rightarrow> schemas \<Rightarrow> string \<Rightarrow> string \<Rightarrow> 'r attach_case \<Rightarrow> 'r compute_case \<Rightarrow> ('r both_world, unit) loopy" where
  "attach_volume_script env sc fresh server_name volume server =
     bnd_loop (failing_as InitFailed
       (bnd_loop (vc_init volume) (\<lambda>v. bnd_loop (on_servers (tc_init env sc server_name server)) (\<lambda>s. io_loop (ret (v, s))))))
       (\<lambda>(volume, server).
          finally_loop (attach_in_turn env sc fresh volume server)
            (both_cleaned (on_servers (tc_delete_all env sc server)) (vc_delete_all env volume)))"

section \<open>The clean-up of the volumes ends\<close>

text \<open>Two more loops along a relation.\<close>

context kept
begin

lemma try_from_kept:
  assumes "\<And>x. ends_within R (f x)" "\<And>w w'. R w w' \<Longrightarrow> length (get w') \<le> length (get w)"
  shows "ends_within R (try_from get f i b)"
proof -
  have "\<exists>r w'. try_from get f i b w = Some (r, w') \<and> R w w'" for w
  proof (induction "length (get w) - i" arbitrary: i b w rule: less_induct)
    case less
    show ?case
    proof (cases "i < length (get w)")
      case False
      then show ?thesis by (subst try_from.simps) (simp add: unchanged)
    next
      case True
      obtain r v where v: "f (get w ! i) w = Some (r, v)" "R w v" using assms(1) by (rule ends_withinE)
      have "length (get v) - Suc i < length (get w) - i" using True assms(2) [OF v(2)] by linarith
      note again = less.hyps [OF this]
      obtain q u where "try_from get f (Suc i) (case r of Inl e \<Rightarrow> True | Inr x \<Rightarrow> b) v = Some (q, u)" "R v u"
        using again by blast
      with v True show ?thesis by (subst try_from.simps) (cases r; auto intro: twice)
    qed
  qed
  then show ?thesis by (simp add: ends_within_def)
qed

lemma while_left_kept:
  assumes i: "1 \<le> interval" and body: "ends_within R body"
  shows "ends_within R (while_left get interval body left)"
proof -
  have "\<exists>r w'. while_left get interval body left w = Some (r, w') \<and> R w w'" for w
  proof (induction "nat (left + 1)" arbitrary: left w rule: less_induct)
    case less
    show ?case
    proof (cases "get w \<noteq> [] \<and> 0 \<le> left")
      case False
      then show ?thesis by (subst while_left.simps) (auto simp: unchanged)
    next
      case True
      obtain r v where v: "body w = Some (r, v)" "R w v" using body by (rule ends_withinE)
      have "nat (left - interval + 1) < nat (left + 1)" using i True by simp
      from less.hyps [OF this, of v] obtain q u where "while_left get interval body (left - interval) v = Some (q, u)" "R v u"
        by blast
      with v True show ?thesis by (subst while_left.simps) (cases r; auto intro: twice)
    qed
  qed
  then show ?thesis by (simp add: ends_within_def)
qed

lemma catch_ends:
  assumes "ends_within R m" "\<And>e k. h e = Some k \<Longrightarrow> ends_within R k"
  shows "ends_within R (catch_loop m h)"
  unfolding ends_within_def
proof
  fix w
  obtain r v where v: "m w = Some (r, v)" "R w v" using assms(1) by (rule ends_withinE)
  show "\<exists>r w'. catch_loop m h w = Some (r, w') \<and> R w w'"
  proof (cases "\<exists>e k. r = Inl e \<and> h e = Some k")
    case True
    then obtain e k where k: "r = Inl e" "h e = Some k" by blast
    obtain q u where "k v = Some (q, u)" "R v u" using assms(2) [OF k(2)] by (rule ends_withinE)
    with v k show ?thesis by (auto simp: catch_loop_def intro: twice)
  next
    case False
    with v show ?thesis by (cases r) (auto simp: catch_loop_def split: option.splits)
  qed
qed

lemma for_each_kept: "(\<And>x. within R (f x)) \<Longrightarrow> within R (for_each xs f)"
  by (induction xs) (auto intro!: steps)

end

definition vol_shrinks :: "('r, 'x) volume_world_scheme \<Rightarrow> ('r, 'x) volume_world_scheme \<Rightarrow> bool" where
  "vol_shrinks w w' = (now w \<le> now w' \<and> list_all2 (\<lambda>xs ys. length ys \<le> length xs) (vb_lists w) (vb_lists w'))"

interpretation vol_shrinking: kept vol_shrinks
  by unfold_locales (auto simp: vol_shrinks_def vb_lists_def)

text \<open>The requests leave the lists alone, and the clock goes on.\<close>

definition volume_quiet :: "(('r, 'x) volume_world_scheme) volume_clients \<Rightarrow> bool" where
  "volume_quiet vo =
     (\<forall>rq \<in> {vo_volumes vo, vo_snapshots vo, vo_types vo, vo_qos vo}. \<forall>m u x h b.
        within (\<lambda>w w'. now w \<le> now w' \<and> vb_lists w' = vb_lists w) (rq m u x h b))"

lemma volume_quietD:
  assumes "volume_quiet vo"
  shows "within vol_shrinks (vo_volumes vo m u x h b)" "within vol_shrinks (vo_snapshots vo m u x h b)"
    "within vol_shrinks (vo_types vo m u x h b)" "within vol_shrinks (vo_qos vo m u x h b)"
  using assms by (force simp: volume_quiet_def within_def vol_shrinks_def vb_lists_def)+

lemma quiet_volume_operations:
  assumes "volume_quiet vo"
  shows "within vol_shrinks (vb_get_volume_status env vo i)" "within vol_shrinks (vb_get_snapshot_status env vo i)"
    "within vol_shrinks (vb_delete_volume env vo i)" "within vol_shrinks (delete_snapshot (vo_snapshots vo) s)"
    "within vol_shrinks (delete_volume_type (vo_types vo) s)" "within vol_shrinks (delete_qos (vo_qos vo) s f)"
    "within vol_shrinks (show_qos env (vo_qos vo) s)"
  unfolding vb_get_volume_status_def show_volume_def vb_get_snapshot_status_def show_snapshot_def vb_delete_volume_def
    delete_volume_def delete_snapshot_def delete_volume_type_def delete_qos_def show_qos_def get_with_def delete_with_def
    http_get_def http_delete_def
  by (auto intro!: vol_shrinking.steps volume_quietD [OF assms])

lemma vol_forget:
  "within vol_shrinks (forget vw_volumes vw_volumes_update i)" "within vol_shrinks (forget vw_snapshots vw_snapshots_update i)"
  "within vol_shrinks (forget vw_volume_types vw_volume_types_update i)"
  "within vol_shrinks (forget vw_qos_specs vw_qos_specs_update i)"
  by (auto simp: within_def forget_def bnd_def vol_shrinks_def vb_lists_def length_remove1)

lemma vol_sleep: "within vol_shrinks (sleep n)"
  by (simp add: within_def sleep_def vol_shrinks_def vb_lists_def)

lemma vol_lengths:
  assumes "vol_shrinks w w'"
  shows "length (vw_volumes w') \<le> length (vw_volumes w)" "length (vw_snapshots w') \<le> length (vw_snapshots w)"
    "length (vw_volume_types w') \<le> length (vw_volume_types w)" "length (vw_qos_specs w') \<le> length (vw_qos_specs w)"
  using assms by (simp_all add: vol_shrinks_def vb_lists_def)

lemma vol_countdown:
  assumes "1 \<le> interval" "within vol_shrinks check"
  shows "ends_within vol_shrinks (countdown interval check timeout)"
proof -
  have "within vol_shrinks (countdown_round interval check s)" for s
    unfolding countdown_round_def
    by (auto intro!: vol_shrinking.steps assms(2) vol_sleep split: option.splits)
  then show ?thesis
    using countdown_ends [OF assms(1), of check timeout] vol_shrinking.loop
    unfolding ends_within_def countdown_def by metis
qed

lemma vol_deletion_wait:
  assumes "volume_quiet vo" "1 \<le> rc_build_interval c"
  shows "ends_within vol_shrinks (wait_for_resource_deletion c caller ty i (qos_deleted env (vo_qos vo) s))"
proof -
  let ?deleted = "qos_deleted env (vo_qos vo) s"
  have deleted: "within vol_shrinks ?deleted"
    unfolding qos_deleted_def is_gone_def
    by (auto intro!: vol_shrinking.steps quiet_volume_operations [OF assms(1)] split: if_splits)
  then have mono: "time_mono ?deleted" by (auto simp: time_mono_def within_def vol_shrinks_def)
  have round: "within vol_shrinks (deletion_round c caller ty i ?deleted s)" for s
    unfolding deletion_round_def by (auto intro!: vol_shrinking.steps deleted vol_sleep)
  show ?thesis
    unfolding ends_within_def wait_for_resource_deletion_def
  proof
    fix w
    have "deletion_inv c ?deleted (time_int w) (time_int w) w"
      using assms(2) mono by (simp add: deletion_inv_def)
    from deletion.terminates [OF this, of caller ty i]
      vol_shrinking.loop [where body = "deletion_round c caller ty i ?deleted", OF round]
    show "\<exists>r w'. loop_io (deletion_round c caller ty i ?deleted) (time_int w) w = Some (r, w') \<and> vol_shrinks w w'"
      by blast
  qed
qed

lemma vol_snapshot_deleted:
  assumes "volume_quiet vo" "1 \<le> vb_build_interval vb"
  shows "ends_within vol_shrinks (vb_delete_snapshot env vb vo i)"
  unfolding vb_delete_snapshot_def vb_check_snapshot_status_interval_def or_raise_def vb_status_check_def
  by (intro vol_shrinking.bnd_ends vol_shrinking.io vol_shrinking.ignoring_ends vol_countdown vol_shrinking.steps
      quiet_volume_operations assms vol_forget)
    (auto intro!: vol_shrinking.steps split: option.splits)

lemma vol_found: "within vol_shrinks m \<Longrightarrow> within vol_shrinks (unless_found m)"
  unfolding unless_found_def by (auto intro!: vol_shrinking.steps split: if_splits)

lemma vol_clear_types:
  assumes "volume_quiet vo"
  shows "within vol_shrinks (vb_clear_volume_types env vo)"
  unfolding vb_clear_volume_types_def
  by (intro vol_shrinking.steps vol_shrinking.for_each_kept vol_found quiet_volume_operations [OF assms] vol_forget)

lemma vol_clear_specs:
  assumes "volume_quiet vo" "1 \<le> rc_build_interval c"
  shows "ends_within vol_shrinks (vb_clear_qos_specs env c caller vo)"
  unfolding vb_clear_qos_specs_def ignoring_class_def
  by (intro vol_shrinking.bnd_ends vol_shrinking.io vol_shrinking.steps vol_shrinking.for_each_kept vol_found
      quiet_volume_operations [OF assms(1)] vol_forget vol_shrinking.live_for_kept vol_lengths vol_shrinking.catch_ends
      vol_deletion_wait assms)
    (auto intro!: vol_shrinking.io vol_shrinking.steps split: if_splits)

lemma vol_gone:
  assumes "volume_quiet vo" "1 \<le> vb_delete_interval vb"
  shows "ends_within vol_shrinks (await_volumes_gone env vb vo)"
  unfolding await_volumes_gone_def drop_volume_if_gone_def
  by (intro vol_shrinking.while_left_kept vol_shrinking.live_for_kept vol_lengths vol_shrinking.io vol_shrinking.steps
      quiet_volume_operations assms)
    (auto intro!: vol_forget split: if_splits)

lemma vol_report: "within vol_shrinks (report_volumes b)"
  by (auto simp: within_def report_volumes_def bnd_def vol_shrinks_def vb_lists_def)

lemma vol_reported: "ends_within vol_shrinks m \<Longrightarrow> ends_within vol_shrinks (reported m ok)"
  unfolding reported_def
  by (auto intro!: vol_shrinking.catch_ends vol_shrinking.bnd_ends vol_shrinking.io vol_shrinking.steps)

lemma volume_cleanup_ends:
  assumes "volume_quiet vo" "1 \<le> rc_build_interval c" "1 \<le> vb_build_interval vb" "1 \<le> vb_delete_interval vb"
  shows "ends_within vol_shrinks (vb_delete_all env vb c caller vo)"
  unfolding vb_delete_all_def
  by (intro vol_shrinking.bnd_ends vol_shrinking.try_from_kept vol_snapshot_deleted vol_gone vol_lengths vol_shrinking.io
      vol_report vol_reported vol_clear_types vol_clear_specs quiet_volume_operations assms)
    (auto intro!: vol_shrinking.steps)

text \<open>When it returns, no volume is left: types and QoS specifications are cleared after the check.\<close>

lemma reported_True: "reported m ok w = Some (Inr True, w') \<Longrightarrow> ok"
  unfolding reported_def
  by (drule catch_loop_passes) (auto dest!: bnd_loop_passes simp: io_loop_passes)

lemma volume_cleanup_clean:
  assumes "volume_quiet vo" "1 \<le> rc_build_interval c" "vb_delete_all env vb c caller vo w = Some (Inr (), w')"
  shows "vw_volumes w' = []"
proof -
  obtain b u1 ok1 u2 ok2 u3 where run: "report_volumes b u1 = (Inr ok1, u2)"
      "reported (io_loop (vb_clear_volume_types env vo)) ok1 u2 = Some (Inr ok2, u3)"
      "reported (vb_clear_qos_specs env c caller vo) ok2 u3 = Some (Inr True, w')"
    using assms(3) unfolding vb_delete_all_def
    by (auto dest!: bnd_loop_passes simp: io_loop_passes split: if_splits)
  have "ok2" using reported_True [OF run(3)] .
  with run(2) have "reported (io_loop (vb_clear_volume_types env vo)) ok1 u2 = Some (Inr True, u3)" by simp
  then have "ok1" by (rule reported_True)
  with run(1) have "vw_volumes u2 = []"
    by (auto simp: report_volumes_def bnd_def split: if_splits)
  moreover have "vol_shrinks u2 u3" "vol_shrinks u3 w'"
    using run(2,3) vol_reported [OF vol_shrinking.io [OF vol_clear_types [OF assms(1)]], of env ok1]
      vol_reported [OF vol_clear_specs [OF assms(1,2)], of env caller ok2]
    unfolding ends_within_def by (metis option.inject prod.inject)+
  ultimately show ?thesis by (auto dest!: vol_lengths(1))
qed

section \<open>The tests end\<close>

definition vc_fair :: "('r, 'x) volume_case \<Rightarrow> bool" where
  "vc_fair t =
     (volume_quiet (vc_clients t) \<and> 1 \<le> rc_build_interval (vc_rest t) \<and> 1 \<le> vb_build_interval (vc_base t)
      \<and> 1 \<le> vb_delete_interval (vc_base t))"

abbreviation no_volumes :: "(('r, 'x) volume_world_scheme, 'a) loopy \<Rightarrow> bool" where
  "no_volumes \<equiv> ends_leaving (\<lambda>w. vw_volumes w = [])"

lemma vc_cleanup_ends: "vc_fair t \<Longrightarrow> always_ends (vc_delete_all env t)"
  unfolding vc_delete_all_def vc_fair_def by (intro ends_within_ends [OF volume_cleanup_ends]) simp_all

lemma vc_cleanup_clean: "vc_fair t \<Longrightarrow> vc_delete_all env t w = Some (Inr (), w') \<Longrightarrow> vw_volumes w' = []"
  unfolding vc_delete_all_def vc_fair_def using volume_cleanup_clean by blast

lemma vc_finally: "vc_fair t \<Longrightarrow> always_ends m \<Longrightarrow> no_volumes (finally_loop m (vc_delete_all env t))"
  by (intro leaving_finally vc_cleanup_ends vc_cleanup_clean)

lemma vc_with_volume:
  assumes "vc_fair t" "\<And>t'. vc_fair t' \<Longrightarrow> ends_leaving P (body t')"
  shows "ends_leaving P (with_volume t body)"
  unfolding with_volume_def
proof (rule leaving_bnd)
  show "always_ends (failing_as InitFailed (vc_init t))"
    unfolding vc_init_def by (intro ends_failing_as ends_io)
next
  fix w w' t'
  assume "failing_as InitFailed (vc_init t) w = Some (Inr t', w')"
  then have "vc_fair t'"
    using assms(1)
    by (auto simp: failing_as_def catch_loop_def vc_init_def io_loop_def vb_init_def bnd_Inr vc_fair_def)
  then show "ends_leaving P (body t')" by (rule assms(2))
qed

lemma vc_waits:
  assumes "vc_fair t"
  shows "always_ends (vb_await_volume env (vc_base t) vo i)" "always_ends (vb_await_snapshot env (vc_base t) vo i)"
    "always_ends (await_in env t i st)" "always_ends (vb_delete_snapshot env (vc_base t) vo i)"
  using assms
  unfolding vc_fair_def vb_await_volume_def vb_await_snapshot_def await_in_def vb_check_volume_status_interval_def
    vb_check_snapshot_status_interval_def vb_delete_snapshot_def
  by (simp_all add: ends_or_raise ends_bnd ends_io ends_ignoring)

lemma vc_steps:
  assumes "vc_fair t"
  shows "always_ends (vc_create_volume env t fresh kw)" "always_ends (vb_create_snapshot env (vc_base t) vo i kw)"
    "always_ends (vb_extend_volume env (vc_base t) vo i n)" "always_ends (vb_update_volume env (vc_base t) vo i kw)"
    "always_ends (vb_rollback_volume env (vc_base t) vo i j)" "always_ends (must_be_available env t made)"
    "always_ends (force_snapshot env t made kw)" "always_ends (volume_of_type env t fresh name ty)"
    "always_ends (retype_and_await env t made ty)" "always_ends (item_of made k)"
  unfolding vc_create_volume_def vb_create_volume_def vb_create_snapshot_def vb_made_def vb_extend_volume_def
    vb_update_volume_def vb_rollback_volume_def vb_acted_def must_be_available_def force_snapshot_def volume_of_type_def
    retype_and_await_def item_of_def
  by (auto intro!: ends_bnd ends_io ends_ignoring vc_waits [OF assms] split: prod.splits)

lemma vc_with_snapshot:
  assumes "vc_fair t" "\<And>t' made snapshot. vc_fair t' \<Longrightarrow> always_ends (body t' made snapshot)"
  shows "no_volumes (with_snapshot env fresh kw t body)"
  unfolding with_snapshot_def
  by (intro vc_with_volume assms(1) leaving_bnd vc_finally ends_cleaning_up vc_cleanup_ends vc_steps assms(2))

text \<open>All tests of volumes that clean up.\<close>

definition volume_tests ::
    "'r env \<Rightarrow> (nat \<Rightarrow> string) \<Rightarrow> ('r, 'x) volume_case \<Rightarrow> ('r, 'x) volume_step list" where
  "volume_tests env fresh t =
     [create_volume_test env (fresh 0) t, extend_volume_test env (fresh 0) t, test_rename_volume env (fresh 0) t,
      create_from_image_test env (fresh 0) t, test_create_volume_snapshot env (fresh 0) t,
      create_from_snapshot_test env (fresh 0) (fresh 1) t, test_delete_volume_snapshot env (fresh 0) t,
      test_rollback_volume_snapshot env (fresh 0) t, test_create_volume_type env (fresh 0) t,
      test_create_qos_type env (fresh 0) t,
      test_create_volume_with_qos env (fresh 0) (fresh 1) (fresh 2) (fresh 3) t,
      test_update_volume_qos env fresh (fresh 5) t]"

lemma volume_test_cases:
  assumes "vc_fair t"
  shows "no_volumes (create_volume_test env a t)" "no_volumes (extend_volume_test env a t)"
    "no_volumes (test_rename_volume env a t)" "no_volumes (create_from_image_test env a t)"
    "no_volumes (test_create_volume_snapshot env a t)" "no_volumes (create_from_snapshot_test env a b t)"
    "no_volumes (test_delete_volume_snapshot env a t)" "no_volumes (test_rollback_volume_snapshot env a t)"
    "no_volumes (test_create_volume_type env a t)" "no_volumes (test_create_qos_type env a t)"
    "no_volumes (test_create_volume_with_qos env a b c d t)" "no_volumes (test_update_volume_qos env fresh a t)"
  unfolding create_volume_test_def extend_volume_test_def test_rename_volume_def create_from_image_test_def
    test_create_volume_snapshot_def create_from_snapshot_test_def test_delete_volume_snapshot_def
    test_rollback_volume_snapshot_def test_create_volume_type_def test_create_qos_type_def
    test_create_volume_with_qos_def test_update_volume_qos_def check_retyped_def Let_def
  by (auto intro!: vc_with_volume vc_with_snapshot vc_finally leaving_bnd ends_cleaning_up ends_failing_as ends_bnd ends_io
      vc_cleanup_ends vc_steps vc_waits assms split: prod.splits)

text \<open>
  (volume_tests_end_clean): every one of these tests comes to an end, and one that passes has left no volume that its
  base remembers.
\<close>

theorem volume_tests_end_clean:
  assumes "vc_fair t" "case_run \<in> set (volume_tests env fresh t)"
  shows "\<exists>r w'. case_run w = Some (r, w') \<and> (r = Inr () \<longrightarrow> vw_volumes w' = [])"
proof -
  have "no_volumes case_run"
    using assms(2) volume_test_cases [OF assms(1)] by (auto simp: volume_tests_def)
  then show ?thesis unfolding ends_leaving_def by (metis sum.disc(2))
qed

definition demo_volume_case :: "(script, unit) volume_case" where
  "demo_volume_case =
     \<lparr>vc_base = demo_volume_base, vc_rest = demo_client, vc_caller = None, vc_clients = demo_volume_clients,
      vc_images = vo_volumes demo_volume_clients, vc_option = (\<lambda>k. PStr k), vc_image_name = PStr ''cirros'',
      vc_extend_size = PInt 2, vc_namer = (\<lambda>n. n)\<rparr>"

lemma demo_volume_fair: "vc_fair demo_volume_case"
  by (auto simp: vc_fair_def demo_volume_case_def demo_volume_base_def volume_quiet_def demo_volume_clients_def Let_def
      within_def demo_client_def service_client_init_def rest_client_init_def)

theorem volume_tests_end_clean_witness:
  "\<exists>r w'. test_create_volume_type (demo_env []) ''a'' demo_volume_case (demo_volume_world [] []) = Some (r, w')
    \<and> (r = Inr () \<longrightarrow> vw_volumes w' = [])"
  by (rule volume_tests_end_clean [OF demo_volume_fair, where fresh = "\<lambda>n. ''a''" and env = "demo_env []"])
    (simp add: volume_tests_def)

text \<open>The test over both bases.\<close>

lemma ends_on_servers: "always_ends m \<Longrightarrow> always_ends (on_servers m)"
  unfolding always_ends_def on_servers_def by (auto split: option.splits)

lemma ends_both: "always_ends a \<Longrightarrow> always_ends b \<Longrightarrow> always_ends (both_cleaned a b)"
  unfolding both_cleaned_def by (intro ends_bnd ends_io ends_cleaned)

lemma cleaned_True: "cleaned m w = Some (Inr True, w') \<Longrightarrow> m w = Some (Inr (), w')"
  unfolding cleaned_def by (drule catch_loop_passes) (auto dest!: bnd_loop_passes simp: io_loop_passes)

lemma both_cleaned_passes:
  assumes "both_cleaned a b w = Some (Inr (), w')"
  shows "\<exists>v. a w = Some (Inr (), v) \<and> b v = Some (Inr (), w')"
  using assms unfolding both_cleaned_def
  by (fastforce dest!: bnd_loop_passes simp: io_loop_passes dest: cleaned_True split: if_splits)

theorem attach_script_ends_clean:
  assumes "vc_fair volume" "tc_fair server"
  shows "\<exists>r w'. attach_volume_script env sc fresh name volume server w = Some (r, w')
    \<and> (r = Inr () \<longrightarrow> vw_volumes w' = [])"
proof -
  have "no_volumes (finally_loop (attach_in_turn env sc fresh v s)
      (both_cleaned (on_servers (tc_delete_all env sc s)) (vc_delete_all env v)))" if "vc_fair v" "tc_fair s" for v s
  proof (intro leaving_finally)
    have "1 \<le> cb_build_interval (tc_base s)" using that(2) by (simp add: tc_fair_def)
    then have "always_ends (cb_attach_volume env sc (tc_base s) (tc_clients s) i j)" for i j
      unfolding cb_attach_volume_def then_true_def cb_check_server_volume_interval_def
      by (intro ends_bnd ends_io ends_ignoring ends_or_raise)
    then show "always_ends (attach_in_turn env sc fresh v s)"
      unfolding attach_in_turn_def
      by (intro ends_bnd ends_on_servers ends_create [OF that(2)] ends_io vc_steps [OF that(1)] vc_waits [OF that(1)])
    show "always_ends (both_cleaned (on_servers (tc_delete_all env sc s)) (vc_delete_all env v))"
      by (intro ends_both ends_on_servers ends_cleanup vc_cleanup_ends that)
    show "vw_volumes w' = []"
      if "both_cleaned (on_servers (tc_delete_all env sc s)) (vc_delete_all env v) u = Some (Inr (), w')" for u w'
      using both_cleaned_passes [OF that] vc_cleanup_clean [OF \<open>vc_fair v\<close>] by blast
  qed
  note body = this
  have "no_volumes (attach_volume_script env sc fresh name volume server)"
    unfolding attach_volume_script_def
  proof (rule leaving_bnd)
    show "always_ends (failing_as InitFailed (bnd_loop (vc_init volume) (\<lambda>v. bnd_loop (on_servers (tc_init env sc name server))
        (\<lambda>s. io_loop (ret (v, s))))))"
      unfolding vc_init_def by (intro ends_failing_as ends_bnd ends_io ends_on_servers ends_init)
  next
    fix w w' x
    assume made: "failing_as InitFailed (bnd_loop (vc_init volume) (\<lambda>v. bnd_loop (on_servers (tc_init env sc name server))
        (\<lambda>s. io_loop (ret (v, s))))) w = Some (Inr x, w')"
    obtain v s where x: "x = (v, s)" by (cases x)
    obtain u u' where "vc_init volume w = Some (Inr v, u)" "on_servers (tc_init env sc name server) u = Some (Inr s, u')"
      using made unfolding x failing_as_def
      by (auto dest!: catch_loop_passes bnd_loop_passes simp: io_loop_passes)
    moreover from this(2) have "tc_init env sc name server (server_view u) = Some (Inr s, server_view u')"
      by (auto simp: on_servers_def server_view_def put_servers_def split: option.splits prod.splits)
    then have "failing_as InitFailed (tc_init env sc name server) (server_view u) = Some (Inr s, server_view u')"
      by (simp add: failing_as_def catch_loop_def)
    ultimately have "vc_fair v" "tc_fair s"
      using assms init_fair
      by (auto simp: vc_init_def io_loop_def vb_init_def bnd_Inr vc_fair_def)
    then show "no_volumes (case x of (volume, server) \<Rightarrow> finally_loop (attach_in_turn env sc fresh volume server)
        (both_cleaned (on_servers (tc_delete_all env sc server)) (vc_delete_all env volume)))"
      unfolding x by (simp add: body)
  qed
  then show ?thesis unfolding ends_leaving_def by (metis sum.disc(2))
qed

section \<open>What a test overlooks\<close>

text \<open>
  (retype_failure_passes): the test of the change of a volume's type passes although the volume does not have the new
  type, whenever the clean-ups go well.
\<close>

theorem retype_failure_passes:
  assumes "type_changed env t made medium w = (Inr False, u)" "vc_delete_all env t u = Some (Inr (), v)"
    "vc_delete_all env t v = Some (Inr (), w')"
  shows "check_retyped env t made medium w = Some (Inr (), w')"
  using assms by (simp add: check_retyped_def finally_loop_def bnd_loop_def io_loop_def)

end
