(* ===== verification/NetworkCases.thy ===== *)
theory NetworkCases
  imports VolumeCases
begin

text \<open>
  The network test cases: the files \<open>test_*.py\<close> of \<open>testcases/network_tests\<close>. They work with a network base and a compute
  base at once, in the world of \<open>MultipleVM\<close> and with its record \<open>vm_test\<close>.

  Random names are arguments. The sessions of \<open>pexpect\<close> are the parameter \<open>pexpect\<close>: its operations, with its exceptions
  as results.
\<close>

section \<open>Steps of the tests\<close>

type_synonym 'r net_step = "('r vm_world, unit) loopy"

definition key_of :: "py \<Rightarrow> string \<Rightarrow> ('w, py) loopy" where
  "key_of v k = io_loop (lift (getitem v k))"

definition vm_cleanup :: "'r env \<Rightarrow> schemas \<Rightarrow> 'r vm_test \<Rightarrow> 'r net_step" where
  "vm_cleanup env sc t =
     both_cleaned (on_compute (cb_delete_all env sc (vm_compute t) (vm_compute_clients t))) (vm_delete_network env t)"

definition allow :: "'r env \<Rightarrow> 'r vm_test \<Rightarrow> py \<Rightarrow> string \<Rightarrow> string \<Rightarrow> ('r vm_world, py) io" where
  "allow env t sg_id direction protocol =
     nb_create_security_group_rule env (vm_network_rq t) sg_id (PStr ''IPv4'') (PStr direction) (PStr ''0.0.0.0/0'')
       (PStr protocol)"

definition new_server ::
    "'r env \<Rightarrow> schemas \<Rightarrow> 'r vm_test \<Rightarrow> py \<Rightarrow> py \<Rightarrow> py \<Rightarrow> ('r vm_world, py) loopy" where
  "new_server env sc t name network_id sg_id =
     on_compute
       (bnd_loop (cb_create_server env sc (vm_compute t) (vm_compute_clients t) (vm_post t) (vm_monitor t) name PNone PNone
                    network_id sg_id) (\<lambda>server. io_loop (lift (rb_item server ''id''))))"

text \<open>The port of the first interface; \<open>none\<close> is what a test raises when there is no interface.\<close>

definition server_interfaces ::
    "'r env \<Rightarrow> schemas \<Rightarrow> 'r vm_test \<Rightarrow> pyexc \<Rightarrow> py \<Rightarrow> ('r vm_world, py) loopy" where
  "server_interfaces env sc t none server_id =
     bnd_loop (on_compute (io_loop (cb_show_server_interfaces env sc (vm_compute_clients t) server_id))) (\<lambda>shown.
       let found = (case dget (rb_data shown) ''interfaceAttachments'' of None \<Rightarrow> PList [] | Some v \<Rightarrow> v)
       in io_loop (if truthy found then ret found else throw none))"

definition first_port ::
    "'r env \<Rightarrow> schemas \<Rightarrow> 'r vm_test \<Rightarrow> pyexc \<Rightarrow> py \<Rightarrow> ('r vm_world, py) loopy" where
  "first_port env sc t none server_id =
     bnd_loop (server_interfaces env sc t none server_id) (\<lambda>found.
       io_loop (lift (bindE (first_item found) (\<lambda>x. getitem x ''port_id''))))"

definition ping_address :: "'r env \<Rightarrow> 'r vm_test \<Rightarrow> py \<Rightarrow> int option \<Rightarrow> int option \<Rightarrow> 'r net_step" where
  "ping_address env t addr interval timeout = nb_test_ping_floatingip (vm_net t) (vm_ping t) (id_text env addr) interval timeout"

section \<open>\<open>test_basic_network.py\<close>\<close>

text \<open>The network base with random names; the compute base is made once the network is there.\<close>

definition named_net :: "string \<Rightarrow> string \<Rightarrow> net_base \<Rightarrow> net_base" where
  "named_net random subnet given =
     given\<lparr>nb_network_name := PStr (''net-'' @ random), nb_router_name := PStr (''router-'' @ random),
           nb_sec_group_name := PStr (''sg-'' @ random), nb_subnet_name := PStr (subnet @ random),
           nb_firewall_name := PStr (''firewall-'' @ random)\<rparr>"

definition net_init ::
    "'r env \<Rightarrow> (string \<Rightarrow> py) \<Rightarrow> string \<Rightarrow> string \<Rightarrow> 'r vm_test \<Rightarrow> ('r vm_world, 'r vm_test) loopy" where
  "net_init env option random subnet t =
     io_loop (bnd (nb_init env option (vm_network_rq t) (named_net random subnet (vm_net t))) (\<lambda>nb.
       ret (t\<lparr>vm_net := nb\<rparr>)))"

definition compute_init ::
    "'r env \<Rightarrow> schemas \<Rightarrow> (string \<Rightarrow> py) \<Rightarrow> compute_base \<Rightarrow> 'r vm_test \<Rightarrow> ('r vm_world, 'r vm_test) loopy" where
  "compute_init env sc option given t =
     bnd_loop (on_compute (io_loop (cb_init env sc option (vm_compute_clients t) [] given))) (\<lambda>cb.
       io_loop (ret (t\<lparr>vm_compute := cb\<rparr>)))"

definition basic_network :: "'r env \<Rightarrow> int \<Rightarrow> 'r vm_test \<Rightarrow> ('r vm_world, py \<times> py) loopy" where
  "basic_network env third t =
     (let nb = vm_net t; rq = vm_network_rq t
      in bnd_loop (nb_create_network env nb rq PNone) (\<lambda>network.
         bnd_loop (key_of network ''id'') (\<lambda>network_id.
         bnd_loop (io_loop (nb_create_subnet env nb rq third network_id PNone PNone PNone)) (\<lambda>subnet.
         bnd_loop (key_of subnet ''id'') (\<lambda>subnet_id.
         bnd_loop (nb_create_router env nb rq PNone) (\<lambda>router.
         bnd_loop (key_of router ''id'') (\<lambda>router_id.
         bnd_loop (io_loop
           (bnd (nb_router_set_external_gw env nb rq router_id) (\<lambda>_.
            bnd (nb_router_add_subnet env rq router_id subnet_id) (\<lambda>_.
            bnd (nb_create_security_group env nb rq PNone) (\<lambda>sg.
            bnd (lift (getitem sg ''id'')) (\<lambda>sg_id.
            bnd (allow env t sg_id ''ingress'' ''ICMP'') (\<lambda>_. ret sg_id))))))) (\<lambda>sg_id.
           io_loop (ret (network_id, sg_id))))))))))"

text \<open>
  A failure to create the server: both clean-ups, whose own exceptions take the name \<open>e\<close>, which is raised afterwards.
\<close>

definition rebinding :: "pyexc \<Rightarrow> ('w, unit) loopy \<Rightarrow> ('w, pyexc) loopy" where
  "rebinding e m = catch_loop (bnd_loop m (\<lambda>_. io_loop (ret e))) (\<lambda>e'. Some (io_loop (ret e')))"

definition basic_server :: "'r env \<Rightarrow> schemas \<Rightarrow> 'r vm_test \<Rightarrow> ('r vm_world, py) loopy" where
  "basic_server env sc t =
     catch_loop
       (bnd_loop (new_server env sc t PNone PNone PNone) (\<lambda>server_id.
        bnd_loop (on_compute (io_loop (cb_show_server env sc (vm_compute_clients t) server_id))) (\<lambda>_.
          io_loop (ret server_id))))
       (\<lambda>e. Some
          (bnd_loop (rebinding e (on_compute (cb_delete_all env sc (vm_compute t) (vm_compute_clients t)))) (\<lambda>e1.
           bnd_loop (rebinding e1 (vm_delete_network env t)) (\<lambda>e2. io_loop (throw e2)))))"

definition basic_check :: "'r env \<Rightarrow> schemas \<Rightarrow> 'r vm_test \<Rightarrow> py \<Rightarrow> 'r net_step" where
  "basic_check env sc t server_id =
     (let nb = vm_net t; rq = vm_network_rq t
      in bnd_loop (first_port env sc t (Auto NotFound [] []) server_id) (\<lambda>port_id.
         bnd_loop (nb_create_floating_ip env nb rq PNone) (\<lambda>created.
         bnd_loop (key_of created ''id'') (\<lambda>i.
         bnd_loop (nb_associate_floating_ip env nb rq i port_id) (\<lambda>_.
         bnd_loop (key_of created ''floating_ip_address'') (\<lambda>addr. ping_address env t addr None None))))))"

definition test_basic_network ::
    "'r env \<Rightarrow> schemas \<Rightarrow> (string \<Rightarrow> py) \<Rightarrow> (string \<Rightarrow> py) \<Rightarrow> string \<Rightarrow> int \<Rightarrow> 'r vm_test \<Rightarrow> 'r net_step" where
  "test_basic_network env sc net_option compute_option random third t =
     bnd_loop (failing_as InitFailed (net_init env net_option random ''subnet-'' t)) (\<lambda>t.
     bnd_loop (cleaning_up (vm_delete_network env t) id (basic_network env third t)) (\<lambda>(network_id, sg_id).
     bnd_loop (cleaning_up (vm_delete_network env t) (volume_exc InitFailed)
       (compute_init env sc compute_option
          ((vm_compute t)\<lparr>cb_network_id := network_id, cb_security_group_id := sg_id,
                          cb_server_name := PStr (''server-'' @ random)\<rparr>) t)) (\<lambda>t.
     bnd_loop (basic_server env sc t) (\<lambda>server_id.
       finally_loop (basic_check env sc t server_id) (vm_cleanup env sc t)))))"

section \<open>\<open>test_firewall.py\<close>\<close>

text \<open>Both bases are made before the test; so they are in \<open>test_accessibility_between_networks.py\<close>.\<close>

definition two_bases ::
    "'r env \<Rightarrow> schemas \<Rightarrow> (string \<Rightarrow> py) \<Rightarrow> (string \<Rightarrow> py) \<Rightarrow> string \<Rightarrow> 'r vm_test \<Rightarrow> ('r vm_world, 'r vm_test) loopy" where
  "two_bases env sc net_option compute_option random t =
     failing_as InitFailed
       (bnd_loop (net_init env net_option random ''subnet'' t) (\<lambda>t.
          compute_init env sc compute_option ((vm_compute t)\<lparr>cb_server_name := PStr (''server-'' @ random)\<rparr>) t))"

text \<open>The arguments \<open>f1\<close>, \<open>f2\<close> and \<open>f3\<close> are the random names of the rule, the policy and the firewall.\<close>

definition firewall_network ::
    "'r env \<Rightarrow> int \<Rightarrow> string \<Rightarrow> string \<Rightarrow> string \<Rightarrow> 'r vm_test \<Rightarrow> ('r vm_world, py \<times> py) loopy" where
  "firewall_network env third f1 f2 f3 t =
     (let nb = vm_net t; rq = vm_network_rq t; any = PStr ''0.0.0.0/0''
      in bnd_loop (nb_create_router env nb rq PNone) (\<lambda>router.
         bnd_loop (nb_create_network env nb rq PNone) (\<lambda>network.
         bnd_loop (key_of network ''id'') (\<lambda>network_id.
         bnd_loop (io_loop (nb_create_subnet env nb rq third network_id PNone PNone PNone)) (\<lambda>subnet.
         bnd_loop (key_of router ''id'') (\<lambda>router_id.
         bnd_loop (io_loop (nb_router_set_external_gw env nb rq router_id)) (\<lambda>_.
         bnd_loop (key_of subnet ''id'') (\<lambda>subnet_id.
         bnd_loop (io_loop
           (bnd (nb_router_add_subnet env rq router_id subnet_id) (\<lambda>_.
            bnd (nb_create_security_group env nb rq PNone) (\<lambda>sg.
            bnd (lift (getitem sg ''id'')) (\<lambda>sg_id.
            bnd (allow env t sg_id ''ingress'' ''ICMP'') (\<lambda>_. ret sg_id)))))) (\<lambda>sg_id.
         bnd_loop (io_loop
           (bnd (nb_create_firewall_rule env rq f1 True PNone any any (PStr ''icmp'')) (\<lambda>rule.
            bnd (nb_create_firewall_policy env rq f2 PNone) (\<lambda>policy.
            bnd (lift (getitem policy ''id'')) (\<lambda>policy_id.
            bnd (lift (getitem rule ''id'')) (\<lambda>rule_id.
            bnd (nb_insert_firewall_policy_rule env rq policy_id rule_id) (\<lambda>_.
            bnd (nb_create_firewall env nb rq f3 policy_id PNone) (\<lambda>firewall.
              lift (getitem firewall ''id''))))))))) (\<lambda>firewall_id.
         bnd_loop (nb_change_firewall_router env nb rq firewall_id router_id) (\<lambda>_.
           io_loop (ret (network_id, sg_id)))))))))))))"

definition firewall_check :: "'r env \<Rightarrow> schemas \<Rightarrow> 'r vm_test \<Rightarrow> py \<Rightarrow> py \<Rightarrow> 'r net_step" where
  "firewall_check env sc t network_id sg_id =
     (let nb = vm_net t; rq = vm_network_rq t
      in bnd_loop (new_server env sc t PNone network_id sg_id) (\<lambda>server_id.
         bnd_loop (first_port env sc t TypeErr server_id) (\<lambda>port_id.
         bnd_loop (nb_create_floating_ip env nb rq PNone) (\<lambda>created.
         bnd_loop (key_of created ''floating_ip_address'') (\<lambda>addr.
         bnd_loop (key_of created ''id'') (\<lambda>i.
         bnd_loop (nb_associate_floating_ip env nb rq i port_id) (\<lambda>_. ping_address env t addr None None)))))))"

definition test_firewall ::
    "'r env \<Rightarrow> schemas \<Rightarrow> int \<Rightarrow> string \<Rightarrow> string \<Rightarrow> string \<Rightarrow> 'r vm_test \<Rightarrow> 'r net_step" where
  "test_firewall env sc third f1 f2 f3 t =
     bnd_loop (cleaning_up (vm_delete_network env t) id (firewall_network env third f1 f2 f3 t)) (\<lambda>(network_id, sg_id).
       finally_loop (firewall_check env sc t network_id sg_id) (vm_cleanup env sc t))"

section \<open>\<open>test_securitygroup.py\<close>\<close>

text \<open>The class is made like \<open>MultipleVMTest\<close>, \<open>vm_init\<close>. The rule is kept for the negative test.\<close>

definition group_network :: "'r env \<Rightarrow> int \<Rightarrow> 'r vm_test \<Rightarrow> ('r vm_world, py \<times> py \<times> py) loopy" where
  "group_network env third t =
     (let nb = vm_net t; rq = vm_network_rq t
      in bnd_loop (nb_create_network env nb rq PNone) (\<lambda>network.
         bnd_loop (io_loop (bnd (lift (get_id network)) (\<lambda>i.
                     nb_create_subnet env nb rq third i PNone PNone PNone))) (\<lambda>subnet.
         bnd_loop (nb_create_router env nb rq PNone) (\<lambda>router.
         bnd_loop (io_loop
           (bnd (lift (get_id router)) (\<lambda>router_id.
            bnd (nb_router_set_external_gw env nb rq router_id) (\<lambda>_.
            bnd (lift (get_id subnet)) (\<lambda>subnet_id.
            bnd (nb_router_add_subnet env rq router_id subnet_id) (\<lambda>_.
            bnd (nb_create_security_group env nb rq (nb_sec_group_name nb)) (\<lambda>sg.
            bnd (lift (get_id sg)) (\<lambda>sg_id.
            bnd (allow env t sg_id ''ingress'' ''ICMP'') (\<lambda>rule. ret (sg, rule)))))))))) (\<lambda>(sg, rule).
           io_loop (ret (network, sg, rule)))))))"

text \<open>
  Without the rule the address must not answer: the ping ends with TimeoutException, the test is over. Another
  exception, and an answer, go on to the handler of the test.
\<close>

definition must_not_answer :: "'r env \<Rightarrow> 'r vm_test \<Rightarrow> py \<Rightarrow> 'r net_step" where
  "must_not_answer env t addr =
     bnd_loop
       (catch_loop
          (bnd_loop (io_loop (sleep 20)) (\<lambda>_. bnd_loop (ping_address env t addr (Some 10) (Some 30)) (\<lambda>_. io_loop (ret True))))
          (\<lambda>e. if catches TimeoutException e then Some (io_loop (ret False)) else None))
       (\<lambda>answered. io_loop (if answered then throw (Auto SecurityGroupException [] []) else ret ()))"

definition group_check :: "'r env \<Rightarrow> schemas \<Rightarrow> string \<Rightarrow> 'r vm_test \<Rightarrow> py \<Rightarrow> py \<Rightarrow> py \<Rightarrow> 'r net_step" where
  "group_check env sc fresh t network sg rule =
     (let nb = vm_net t; rq = vm_network_rq t
      in bnd_loop (io_loop (bnd (nb_create_security_group env nb rq PNone) (\<lambda>_.
                     lift (bindE (get_id network) (\<lambda>i. bindE (get_id sg) (\<lambda>j. Inr (i, j))))))) (\<lambda>(network_id, sg_id).
         bnd_loop (new_server env sc t (PStr (''server-'' @ fresh)) network_id sg_id) (\<lambda>server_id.
         bnd_loop (first_port env sc t TypeErr server_id) (\<lambda>port_id.
         bnd_loop (nb_create_floating_ip env nb rq port_id) (\<lambda>created.
         bnd_loop (key_of created ''floating_ip_address'') (\<lambda>addr.
         bnd_loop (ping_address env t addr None None) (\<lambda>_.
         bnd_loop (key_of rule ''id'') (\<lambda>rule_id.
         bnd_loop (nb_delete_sec_group_rule env (vm_client t) rq rule_id) (\<lambda>_. must_not_answer env t addr)))))))))"

text \<open>Whatever the check raises is only logged.\<close>

definition test_security_group ::
    "'r env \<Rightarrow> schemas \<Rightarrow> int \<Rightarrow> string \<Rightarrow> 'r vm_test \<Rightarrow> 'r net_step" where
  "test_security_group env sc third fresh t =
     bnd_loop (cleaning_up (vm_delete_network env t) id (group_network env third t)) (\<lambda>(network, sg, rule).
       finally_loop (ignoring (group_check env sc fresh t network sg rule)) (vm_cleanup env sc t))"

section \<open>\<open>test_accessibility_between_networks.py\<close>\<close>

text \<open>One session: \<open>px_spawn\<close> starts the command and waits for the first prompt, of which it gives the position.\<close>

record 'w pexpect =
  px_spawn :: "string \<Rightarrow> ('w, nat) io"
  px_expect :: "string \<Rightarrow> ('w, unit) io"
  px_sendline :: "string \<Rightarrow> ('w, unit) io"
  px_read :: "('w, string) io"

definition ping_command :: "string \<Rightarrow> string" where
  "ping_command target = ''ping -c 1 '' @ target @ ''  | grep packet'' @ [CHR 0x5C] @ '' loss''"

definition cmd_ping_between_two_ip :: "'r env \<Rightarrow> 'w pexpect \<Rightarrow> py \<Rightarrow> py \<Rightarrow> py \<Rightarrow> ('w, bool) io" where
  "cmd_ping_between_two_ip env px floating_ip target_ip passwd =
     (let cmd = ping_command (id_text env target_ip); send_passwd = bnd (lift (as_str TypeErr passwd)) (px_sendline px)
      in bnd (px_spawn px (''ssh root@'' @ id_text env floating_ip @ '' '' @ [CHR 0x22] @ cmd @ [CHR 0x22])) (\<lambda>i.
         bnd (if i = 0 then send_passwd
              else if i = 1 then
                bnd (px_sendline px (''yes'' @ [CHR 0x0A])) (\<lambda>_. bnd (px_expect px ''password: '') (\<lambda>_. send_passwd))
              else ret ()) (\<lambda>_.
         bnd (px_sendline px cmd) (\<lambda>_.
         bnd (px_read px) (\<lambda>result. ret (str_contains '', 0% packet loss'' result))))))"

definition test_ip_accessibility ::
    "'r env \<Rightarrow> net_base \<Rightarrow> (('r, 'x) world_scheme) pexpect \<Rightarrow> py \<Rightarrow> py \<Rightarrow> py \<Rightarrow> (('r, 'x) world_scheme, bool) loopy" where
  "test_ip_accessibility env nb px floating_ip target_ip passwd =
     or_raise (Auto TimeoutException [] [])
       (countdown (nb_build_interval nb)
          (bnd (cmd_ping_between_two_ip env px floating_ip target_ip passwd) (\<lambda>ok. ret (if ok then Some True else None)))
          (nb_build_timeout nb))"

text \<open>Two networks on one router.\<close>

definition two_networks ::
    "'r env \<Rightarrow> int \<Rightarrow> int \<Rightarrow> 'r vm_test \<Rightarrow> ('r vm_world, py \<times> py \<times> py) loopy" where
  "two_networks env third1 third2 t =
     (let nb = vm_net t; rq = vm_network_rq t;
          subnet_on = (\<lambda>third network. bnd (lift (getitem network ''id'')) (\<lambda>i. nb_create_subnet env nb rq third i PNone PNone PNone))
      in bnd_loop (nb_create_router env nb rq PNone) (\<lambda>router.
         bnd_loop (nb_create_network env nb rq PNone) (\<lambda>network01.
         bnd_loop (nb_create_network env nb rq PNone) (\<lambda>network02.
         bnd_loop (io_loop
           (bnd (subnet_on third1 network01) (\<lambda>subnet01.
            bnd (subnet_on third2 network02) (\<lambda>subnet02.
            bnd (lift (getitem router ''id'')) (\<lambda>router_id.
            bnd (nb_router_set_external_gw env nb rq router_id) (\<lambda>_.
            bnd (lift (getitem subnet01 ''id'')) (\<lambda>i1.
            bnd (nb_router_add_subnet env rq router_id i1) (\<lambda>_.
            bnd (lift (getitem subnet02 ''id'')) (\<lambda>i2.
            bnd (nb_router_add_subnet env rq router_id i2) (\<lambda>_.
            bnd (nb_create_security_group env nb rq PNone) (\<lambda>sg.
            bnd (lift (getitem sg ''id'')) (\<lambda>sg_id.
            bnd (allow env t sg_id ''ingress'' ''ICMP'') (\<lambda>_.
            bnd (allow env t sg_id ''ingress'' ''TCP'') (\<lambda>_.
            bnd (allow env t sg_id ''egress'' ''TCP'') (\<lambda>_. ret sg_id))))))))))))))) (\<lambda>sg_id.
           io_loop (ret (network01, network02, sg_id)))))))"

text \<open>The variables that later blocks read.\<close>

record access_locals =
  al_addr :: "py option"
  al_server :: "py option"

definition second_block ::
    "'r env \<Rightarrow> schemas \<Rightarrow> 'r vm_test \<Rightarrow> py \<Rightarrow> py \<Rightarrow> py \<Rightarrow> ('r vm_world, access_locals \<times> pyexc option) loopy" where
  "second_block env sc t network01 network02 sg_id =
     (let nb = vm_net t; rq = vm_network_rq t; l0 = \<lparr>al_addr = None, al_server = None\<rparr>
      in stage l0
           (bnd_loop (key_of network01 ''id'') (\<lambda>i. bnd_loop (new_server env sc t PNone i sg_id) (\<lambda>server_id.
            bnd_loop (first_port env sc t TypeErr server_id) (\<lambda>port_id.
            bnd_loop (nb_create_floating_ip env nb rq PNone) (\<lambda>created.
            bnd_loop (key_of created ''floating_ip_address'') (\<lambda>addr. io_loop (ret (port_id, created, addr))))))))
           (\<lambda>(port_id, created, addr).
         let l1 = l0\<lparr>al_addr := Some addr\<rparr>
         in stage l1
              (bnd_loop (key_of created ''id'') (\<lambda>i. bnd_loop (nb_associate_floating_ip env nb rq i port_id) (\<lambda>_.
               bnd_loop (ping_address env t addr None None) (\<lambda>_.
               bnd_loop (key_of network02 ''id'') (\<lambda>j. new_server env sc t PNone j sg_id)))))
              (\<lambda>server2.
            let l2 = l1\<lparr>al_server := Some server2\<rparr>
            in stage l2 (server_interfaces env sc t TypeErr server2) (\<lambda>_. io_loop (ret (l2, None))))))"

text \<open>\<open>instance02_details["addresses"][network02_name][0]["addr"]\<close>.\<close>

definition fixed_ip_of :: "py \<Rightarrow> py \<Rightarrow> pyexc + py" where
  "fixed_ip_of addresses network_name =
     bindE (as_str (KeyErr ''addresses'') network_name) (\<lambda>n.
     bindE (getitem addresses n) (\<lambda>xs. bindE (first_item xs) (\<lambda>x. getitem x ''addr'')))"

definition third_block ::
    "'r env \<Rightarrow> schemas \<Rightarrow> 'r vm_test \<Rightarrow> py \<Rightarrow> access_locals \<Rightarrow> ('r vm_world, py) loopy" where
  "third_block env sc t network02 l =
     bnd_loop (io_loop (lift (bound (al_server l)))) (\<lambda>server2.
     bnd_loop (on_compute (io_loop (cb_show_server env sc (vm_compute_clients t) server2))) (\<lambda>details.
     bnd_loop (key_of network02 ''name'') (\<lambda>network02_name.
       io_loop (lift (bindE (rb_item details ''addresses'') (\<lambda>addresses. fixed_ip_of addresses network02_name))))))"

text \<open>
  The handlers of the second and the third block clean up and do not raise: the test goes on to the next block, whatever
  variables are bound.
\<close>

definition test_accessibility_between_networks ::
    "'r env \<Rightarrow> schemas \<Rightarrow> ('r vm_world) pexpect \<Rightarrow> py \<Rightarrow> int \<Rightarrow> int \<Rightarrow> 'r vm_test \<Rightarrow> 'r net_step" where
  "test_accessibility_between_networks env sc px admin_pass third1 third2 t =
     bnd_loop (cleaning_up (vm_delete_network env t) id (two_networks env third1 third2 t)) (\<lambda>(network01, network02, sg_id).
     bnd_loop (second_block env sc t network01 network02 sg_id) (\<lambda>(l, e).
     bnd_loop (if e = None then io_loop (ret ()) else vm_cleanup env sc t) (\<lambda>_.
     bnd_loop (catch_loop (bnd_loop (third_block env sc t network02 l) (\<lambda>ip. io_loop (ret (Some ip))))
                 (\<lambda>e. Some (bnd_loop (vm_cleanup env sc t) (\<lambda>_. io_loop (ret None))))) (\<lambda>fixed_ip.
       finally_loop
         (bnd_loop (io_loop (lift (bindE (bound (al_addr l)) (\<lambda>a. bindE (bound fixed_ip) (\<lambda>f. Inr (a, f)))))) (\<lambda>(addr, ip).
          bnd_loop (test_ip_accessibility env (vm_net t) px addr ip admin_pass) (\<lambda>_. io_loop (ret ()))))
         (vm_cleanup env sc t)))))"

section \<open>The tests end\<close>

definition net_clean :: "'r vm_world \<Rightarrow> bool" where
  "net_clean w = (nb_check_delete_list w \<and> vw_servers w = [] \<and> vw_images w = [])"

lemma vm_intervals:
  assumes "vm_fair t"
  shows "1 \<le> nb_build_interval (vm_net t)" "1 \<le> cb_build_interval (vm_compute t)"
    "always_ends (cb_delete_all env sc (vm_compute t) (vm_compute_clients t))" "always_ends (vm_delete_network env t)"
  using assms network_cleanup_ends [OF assms] by (auto simp: vm_fair_def intro: cb_delete_all_ends ends_within_ends)

lemma vm_cleanup_ends: "vm_fair t \<Longrightarrow> always_ends (vm_cleanup env sc t)"
  unfolding vm_cleanup_def by (intro ends_both ends_on_compute vm_intervals)

lemma vm_cleanup_clean:
  assumes "vm_fair t" "vm_cleanup env sc t w = Some (Inr (), w')"
  shows "net_clean w'"
proof -
  obtain v where v: "on_compute (cb_delete_all env sc (vm_compute t) (vm_compute_clients t)) w = Some (Inr (), v)"
      "vm_delete_network env t v = Some (Inr (), w')"
    using both_cleaned_passes [OF assms(2) [unfolded vm_cleanup_def]] by blast
  from v(1) obtain u where u: "cb_delete_all env sc (vm_compute t) (vm_compute_clients t) (compute_view w) = Some (Inr (), u)"
      "v = put_compute u w"
    by (auto simp: on_compute_def split: option.splits)
  have "net_shrinks v w'"
    using network_cleanup_ends [OF assms(1)] v(2)
    unfolding ends_within_def by (metis option.inject prod.inject)
  with compute_cleanup_clean [OF u(1)] u(2) have "vw_servers w' = []" "vw_images w' = []"
    by (simp_all add: net_shrinks_def put_compute_def)
  moreover have "nb_check_delete_list w'"
    using v(2) unfolding vm_delete_network_def by (rule network_cleanup_clean)
  ultimately show ?thesis by (simp add: net_clean_def)
qed

lemma vm_finally: "vm_fair t \<Longrightarrow> always_ends m \<Longrightarrow> ends_leaving net_clean (finally_loop m (vm_cleanup env sc t))"
  by (intro leaving_finally vm_cleanup_ends vm_cleanup_clean)

lemma vm_steps:
  assumes "vm_fair t"
  shows "always_ends (nb_create_network env (vm_net t) rq name)" "always_ends (nb_create_router env (vm_net t) rq name)"
    "always_ends (nb_create_floating_ip env (vm_net t) rq port)"
    "always_ends (nb_associate_floating_ip env (vm_net t) rq i port)"
    "always_ends (nb_change_firewall_router env (vm_net t) rq i j)" "always_ends (ping_address env t addr None None)"
    "always_ends (new_server env sc t name network_id sg_id)" "always_ends (first_port env sc t none i)"
    "always_ends (server_interfaces env sc t none i)" "always_ends (key_of v k)"
    "always_ends (must_not_answer env t addr)"
proof -
  note waits = ends_status_wait [OF vm_intervals(1) [OF assms]]
  have ten: "always_ends (ping_address env t addr (Some 10) (Some 30))" for addr
    unfolding ping_address_def nb_test_ping_floatingip_def or_default_def by (simp add: ends_or_raise)
  show "always_ends (nb_create_network env (vm_net t) rq name)" "always_ends (nb_create_router env (vm_net t) rq name)"
    "always_ends (nb_create_floating_ip env (vm_net t) rq port)"
    "always_ends (nb_associate_floating_ip env (vm_net t) rq i port)"
    "always_ends (nb_change_firewall_router env (vm_net t) rq i j)" "always_ends (ping_address env t addr None None)"
    "always_ends (new_server env sc t name network_id sg_id)" "always_ends (first_port env sc t none i)"
    "always_ends (server_interfaces env sc t none i)" "always_ends (key_of v k)"
    unfolding nb_create_network_def nb_create_router_def nb_create_floating_ip_def nb_associate_floating_ip_def
      nb_set_floating_port_def nb_change_firewall_router_def ping_address_def new_server_def first_port_def
      server_interfaces_def key_of_def Let_def
    by (auto intro!: ends_bnd ends_io ends_on_compute create_server_ends vm_intervals [OF assms] waits split: prod.splits)
  show "always_ends (must_not_answer env t addr)"
    unfolding must_not_answer_def by (auto intro!: ends_bnd ends_io ends_catch ten split: if_splits)
qed

lemma vm_networks:
  assumes "vm_fair t"
  shows "always_ends (basic_network env third t)" "always_ends (firewall_network env third f1 f2 f3 t)"
    "always_ends (group_network env third t)" "always_ends (two_networks env third third2 t)"
  unfolding basic_network_def firewall_network_def group_network_def two_networks_def Let_def
  by (auto intro!: ends_bnd ends_io vm_steps [OF assms] split: prod.splits)

lemma rule_deletion_ends:
  assumes "vm_fair t"
  shows "always_ends (nb_delete_sec_group_rule env (vm_client t) (vm_network_rq t) i)"
  using assms unfolding nb_delete_sec_group_rule_def vm_fair_def
  by (intro ends_within_ends [OF delete_and_wait_shrinks] calm_deletions forget_shrinks) simp_all

lemma vm_checks:
  assumes "vm_fair t"
  shows "always_ends (basic_check env sc t i)" "always_ends (firewall_check env sc t n g)"
    "always_ends (group_check env sc fresh t n g r)"
  unfolding basic_check_def firewall_check_def group_check_def Let_def
  by (auto intro!: ends_bnd ends_io vm_steps [OF assms] rule_deletion_ends [OF assms] split: prod.splits)

lemma rebinding_ends: "always_ends m \<Longrightarrow> always_ends (rebinding e m)"
  unfolding rebinding_def by (auto intro!: ends_catch ends_bnd ends_io)

lemma basic_server_ends:
  assumes "vm_fair t"
  shows "always_ends (basic_server env sc t)"
  unfolding basic_server_def
  by (auto intro!: ends_catch ends_bnd ends_io ends_on_compute rebinding_ends vm_steps vm_intervals assms)

text \<open>Making the bases keeps what is needed.\<close>

lemma net_init_fair:
  assumes "vm_fair t" "net_init env option random subnet t w = Some (Inr t', w')"
  shows "vm_fair t'"
proof -
  obtain nb v where nb: "nb_init env option (vm_network_rq t) (named_net random subnet (vm_net t)) w = (Inr nb, v)"
      "t' = t\<lparr>vm_net := nb\<rparr>"
    using assms(2) by (auto simp: net_init_def io_loop_passes elim!: bnd_InrE)
  then have "nb_build_interval nb = nb_build_interval (vm_net t)"
    by (auto simp: nb_init_def named_net_def elim!: bnd_InrE)
  with nb assms(1) show ?thesis by (simp add: vm_fair_def)
qed

lemma compute_init_fair:
  assumes "vm_fair t" "compute_init env sc option given t w = Some (Inr t', w')"
    "cb_build_interval given = cb_build_interval (vm_compute t)" "cb_delete_interval given = cb_delete_interval (vm_compute t)"
  shows "vm_fair t'"
proof -
  obtain cb u v where cb: "cb_init env sc option (vm_compute_clients t) [] given u = (Inr cb, v)"
      "t' = t\<lparr>vm_compute := cb\<rparr>"
    using assms(2)
    by (auto simp: compute_init_def on_compute_def io_loop_def bnd_loop_def split: option.splits prod.splits sum.splits)
  then have "cb_build_interval cb = cb_build_interval given" "cb_delete_interval cb = cb_delete_interval given"
    by (auto simp: cb_init_def elim!: bnd_InrE)
  with cb assms show ?thesis by (simp add: vm_fair_def)
qed

lemma inits_end: "always_ends (net_init env option random subnet t)" "always_ends (compute_init env sc option given t)"
  unfolding net_init_def compute_init_def by (intro ends_bnd ends_io ends_on_compute)+

lemma basic_network_made:
  assumes "vm_fair t"
    "cleaning_up (vm_delete_network env t) to (compute_init env sc option given t) w = Some (Inr t', w')"
    "cb_build_interval given = cb_build_interval (vm_compute t)" "cb_delete_interval given = cb_delete_interval (vm_compute t)"
  shows "vm_fair t'"
  using compute_init_fair [OF assms(1) cleaning_up_passes [OF assms(2)] assms(3,4)] .

abbreviation ends_net_clean :: "('r vm_world, 'a) loopy \<Rightarrow> bool" where
  "ends_net_clean \<equiv> ends_leaving net_clean"

lemma vm_delete_ends: "vm_fair t \<Longrightarrow> always_ends (vm_delete_network env t)"
  by (rule vm_intervals)

lemma basic_network_case:
  assumes "vm_fair t"
  shows "ends_net_clean (test_basic_network env sc net_option compute_option random third t)"
  unfolding test_basic_network_def
proof (rule leaving_bnd)
  show "always_ends (failing_as InitFailed (net_init env net_option random ''subnet-'' t))"
    by (intro ends_failing_as inits_end)
next
  fix w w' t1
  assume "failing_as InitFailed (net_init env net_option random ''subnet-'' t) w = Some (Inr t1, w')"
  then have fair: "vm_fair t1"
    using net_init_fair [OF assms] by (auto simp: failing_as_def dest!: catch_loop_passes simp: io_loop_passes)
  show "ends_net_clean (bnd_loop (cleaning_up (vm_delete_network env t1) id (basic_network env third t1))
      (\<lambda>(network_id, sg_id).
       bnd_loop (cleaning_up (vm_delete_network env t1) (volume_exc InitFailed)
         (compute_init env sc compute_option
            ((vm_compute t1)\<lparr>cb_network_id := network_id, cb_security_group_id := sg_id,
                             cb_server_name := PStr (''server-'' @ random)\<rparr>) t1)) (\<lambda>t.
       bnd_loop (basic_server env sc t) (\<lambda>server_id.
         finally_loop (basic_check env sc t server_id) (vm_cleanup env sc t)))))"
    by (auto intro!: leaving_bnd ends_cleaning_up inits_end vm_networks [OF fair] vm_delete_ends [OF fair]
        basic_server_ends vm_finally vm_checks basic_network_made [OF fair] split: prod.splits)
qed

lemma firewall_case:
  assumes "vm_fair t"
  shows "ends_net_clean (test_firewall env sc third f1 f2 f3 t)"
  unfolding test_firewall_def
  by (auto intro!: leaving_bnd ends_cleaning_up vm_networks vm_finally vm_checks vm_delete_ends assms
      split: prod.splits)

lemma security_group_case:
  assumes "vm_fair t"
  shows "ends_net_clean (test_security_group env sc third fresh t)"
  unfolding test_security_group_def
  by (auto intro!: leaving_bnd ends_cleaning_up vm_networks vm_finally vm_checks ends_ignoring vm_delete_ends assms
      split: prod.splits)

lemma accessibility_blocks:
  assumes "vm_fair t"
  shows "always_ends (second_block env sc t n1 n2 g)" "always_ends (third_block env sc t n2 l)"
    "always_ends (test_ip_accessibility env (vm_net t) px addr ip pass)"
  unfolding second_block_def third_block_def test_ip_accessibility_def Let_def
  by (auto intro!: ends_stage ends_bnd ends_io ends_on_compute ends_or_raise vm_steps vm_intervals assms
      split: prod.splits)

lemma accessibility_case:
  assumes "vm_fair t"
  shows "ends_net_clean (test_accessibility_between_networks env sc px pass third1 third2 t)"
  unfolding test_accessibility_between_networks_def
  by (auto intro!: leaving_bnd vm_finally ends_cleaning_up ends_bnd ends_io ends_catch accessibility_blocks vm_networks
      vm_delete_ends vm_cleanup_ends assms split: prod.splits if_splits)

definition network_tests ::
    "'r env \<Rightarrow> schemas \<Rightarrow> (string \<Rightarrow> py) \<Rightarrow> (string \<Rightarrow> py) \<Rightarrow> ('r vm_world) pexpect \<Rightarrow> py \<Rightarrow> int \<Rightarrow> string \<Rightarrow> 'r vm_test
      \<Rightarrow> 'r net_step list" where
  "network_tests env sc net_option compute_option px pass third fresh t =
     [test_basic_network env sc net_option compute_option fresh third t,
      test_firewall env sc third fresh fresh fresh t,
      test_security_group env sc third fresh t,
      test_accessibility_between_networks env sc px pass third third t]"

text \<open>
  C37 (network_tests_end_clean): every network test comes to an end, whatever the services, the sessions and the pings
  answer; one that passes leaves no network resource, no server and no image that its bases remember.
\<close>

theorem network_tests_end_clean:
  assumes "vm_fair t" "case_run \<in> set (network_tests env sc net_option compute_option px pass third fresh t)"
  shows "\<exists>r w'. case_run w = Some (r, w')
    \<and> (r = Inr () \<longrightarrow> nb_check_delete_list w' \<and> vw_servers w' = [] \<and> vw_images w' = [])"
proof -
  have "ends_net_clean case_run"
    using assms(2) basic_network_case [OF assms(1)] firewall_case [OF assms(1)] security_group_case [OF assms(1)]
      accessibility_case [OF assms(1)]
    by (auto simp: network_tests_def)
  then show ?thesis unfolding ends_leaving_def net_clean_def by (metis sum.disc(2))
qed

definition mute_pexpect :: "('r vm_world) pexpect" where
  "mute_pexpect = \<lparr>px_spawn = (\<lambda>_. ret 0), px_expect = (\<lambda>_. ret ()), px_sendline = (\<lambda>_. ret ()), px_read = ret []\<rparr>"

theorem network_tests_end_clean_witness:
  "\<exists>r w'. test_firewall demo_net_env no_schemas 7 ''a'' ''a'' ''a'' demo_vm_test demo_vm_world = Some (r, w')
    \<and> (r = Inr () \<longrightarrow> nb_check_delete_list w' \<and> vw_servers w' = [] \<and> vw_images w' = [])"
  by (rule network_tests_end_clean [OF demo_vm_fair, where net_option = PStr and compute_option = PStr and env = demo_net_env and sc = no_schemas and third = 7 and fresh = "''a''"
        and px = mute_pexpect and pass = PNone])
    (simp add: network_tests_def)

text \<open>
  The verdict of the security group test is lost: it passes whatever its check raises, an address that answers without
  the rule included, if only the clean-up goes well.
\<close>

theorem security_group_verdict_lost:
  assumes "group_network env third t w = Some (Inr (network, sg, rule), v)"
    "group_check env sc fresh t network sg rule v = Some (Inl e, u)" "vm_cleanup env sc t u = Some (Inr (), w')"
  shows "test_security_group env sc third fresh t w = Some (Inr (), w')"
  using assms
  by (simp add: test_security_group_def finally_loop_def bnd_loop_def cleaning_up_def catch_loop_def ignoring_def io_loop_def
      ret_def)

end
