(* ===== verification/ScriptOps.thy ===== *)
theory ScriptOps
  imports LiveLoops Demo
begin

text \<open>
  The stand-alone test scripts of \<open>src/automation\<close>: their HTTP functions, and the operations of \<open>long_run_tests.py\<close>,
  of which \<open>network_test.py\<close> has copies with other constants. The names of the source carry the prefix \<open>lr\<close>.

  The token is a global variable, the field \<open>sw_token\<close> of the world. A function that is refused with 401 fetches a token
  and calls itself: \<open>sc_frames\<close> is the number of such calls that the interpreter's stack has room for. What
  \<open>httplib2.urlnorm\<close> takes for the authority of a URL, the start time of the script as text and the text of a time are
  parameters. What is only logged or printed is left out.
\<close>

section \<open>HTTP\<close>

record 'r script_conf =
  sc_env :: "'r env"
  sc_authority :: "string \<Rightarrow> string"
  sc_frames :: nat
  sc_name_fix :: string
  sc_time_text :: "int \<Rightarrow> string"

record 'r token_world = "'r world" +
  sw_token :: py

type_synonym ('r, 'x, 'a) script_io = "(('r, 'x) token_world_scheme, 'a) io"

text \<open>What a script logs in with.\<close>

record login =
  lg_url :: string
  lg_tenant :: string
  lg_user :: string
  lg_password :: string

text \<open>\<open>rfind(':')\<close> is -1 without a colon: then the host lacks its last character, and the port is the whole text.\<close>

definition get_hostport :: "string \<Rightarrow> pyexc + string \<times> int" where
  "get_hostport authority =
     (let port = rev (takeWhile (\<lambda>c. c \<noteq> CHR '':'') (rev authority));
          host = (if CHR '':'' \<in> set authority then rev (tl (dropWhile (\<lambda>c. c \<noteq> CHR '':'') (rev authority)))
                  else butlast authority)
      in case int_of_str port of None \<Rightarrow> Inl ValueErr | Some p \<Rightarrow> Inr (host, p))"

definition send_http_request ::
    "'r script_conf \<Rightarrow> string \<Rightarrow> string \<Rightarrow> string option \<Rightarrow> (string, string) dict
     \<Rightarrow> ('r, 'x, http_response \<times> string) script_io" where
  "send_http_request sc method request_url body request_headers =
     bnd (lift (get_hostport (sc_authority sc request_url))) (\<lambda>_.
       http_send (e_srv (sc_env sc))
         \<lparr>rq_method = method, rq_url = request_url, rq_headers = request_headers,
          rq_body = (case body of None \<Rightarrow> PNone | Some b \<Rightarrow> PStr b)\<rparr>)"

definition body_headers :: "string \<Rightarrow> (string, string) dict" where
  "body_headers body = [(''Content-Type'', ''application/json''), (''Content-length'', nat_str (length body))]"

text \<open>The encoding of a token that is no text fails.\<close>

definition get_common_headers :: "py \<Rightarrow> string option \<Rightarrow> pyexc + (string, string) dict" where
  "get_common_headers token request_body =
     (let more = (case request_body of Some (c # cs) \<Rightarrow> body_headers (c # cs) | _ \<Rightarrow> [])
      in if truthy token then bindE (as_str AttrErr token) (\<lambda>t. Inr ((''X-Auth-Token'', t) # more)) else Inr more)"

definition loads_text :: "'r script_conf \<Rightarrow> string \<Rightarrow> pyexc + py" where
  "loads_text sc s = (case e_loads (sc_env sc) s of None \<Rightarrow> Inl ValueErr | Some v \<Rightarrow> Inr v)"

text \<open>\<open>v[k1][k2]...\<close>\<close>

primrec dig :: "py \<Rightarrow> string list \<Rightarrow> pyexc + py" where
  "dig v [] = Inr v"
| "dig v (k # ks) = bindE (getitem v k) (\<lambda>x. dig x ks)"

definition auth_document :: "login \<Rightarrow> py" where
  "auth_document lg =
     PDict [(''auth'', PDict [(''tenantName'', PStr (lg_tenant lg)),
       (''passwordCredentials'', PDict [(''username'', PStr (lg_user lg)), (''password'', PStr (lg_password lg))])])]"

definition get_Token :: "'r script_conf \<Rightarrow> login \<Rightarrow> ('r, 'x, unit) script_io" where
  "get_Token sc lg =
     (let body = e_dumps (sc_env sc) (auth_document lg)
      in bnd (send_http_request sc ''POST'' (lg_url lg) (Some body) (body_headers body)) (\<lambda>(resp, text).
         bnd (lift (bindE (loads_text sc text) (\<lambda>v. dig v [''access'', ''token'', ''id'']))) (\<lambda>t.
           modify (sw_token_update (\<lambda>_. t)))))"

text \<open>
  One attempt, and the function that calls itself after a 401. Without a frame left, the interpreter raises a
  RuntimeError.
\<close>

definition http_attempt ::
    "'r script_conf \<Rightarrow> string \<Rightarrow> string \<Rightarrow> string option \<Rightarrow> ('r, 'x, int \<times> string) script_io" where
  "http_attempt sc method url body =
     bnd (gets sw_token) (\<lambda>token.
     bnd (lift (get_common_headers token body)) (\<lambda>headers.
     bnd (send_http_request sc method url body headers) (\<lambda>(resp, text). ret (rs_status resp, text))))"

definition out_of_frames :: pyexc where
  "out_of_frames = PlainExc ''maximum recursion depth exceeded''"

primrec http_call ::
    "'r script_conf \<Rightarrow> login \<Rightarrow> string \<Rightarrow> string \<Rightarrow> string option \<Rightarrow> nat \<Rightarrow> ('r, 'x, int \<times> string) script_io" where
  "http_call sc lg method url body 0 = throw out_of_frames"
| "http_call sc lg method url body (Suc n) =
     bnd (http_attempt sc method url body) (\<lambda>(status, text).
       if status = 401 then bnd (get_Token sc lg) (\<lambda>_. http_call sc lg method url body n)
       else ret (status, text))"

section \<open>The constants of \<open>long_run_tests.py\<close>\<close>

definition KEYSTONE_HOST :: string where "KEYSTONE_HOST = ''10.160.60.42''"

definition NEUTRON_BASE_URL :: string where "NEUTRON_BASE_URL = ''http://'' @ KEYSTONE_HOST @ '':9696/v2.0''"

definition CINDER_BASE_URL :: string where "CINDER_BASE_URL = ''http://'' @ KEYSTONE_HOST @ '':8776/v2''"

definition NOVA_BASE_URL :: string where "NOVA_BASE_URL = ''http://'' @ KEYSTONE_HOST @ '':8774/v2''"

definition TEST_TENANT_ID :: string where "TEST_TENANT_ID = ''b3acb7d2d5204786ab65d6acf9518f47''"

definition TEST_EXTERNAL_NETWORK_ID :: py where
  "TEST_EXTERNAL_NETWORK_ID = PStr ''947f7a44-6685-403c-b114-66ef3ded1661''"

definition TEST_IMAGE_ID :: py where "TEST_IMAGE_ID = PStr ''59909769-0a17-4d34-94bc-703e24ffd775''"

definition TEST_FLAVOR_ID :: py where "TEST_FLAVOR_ID = PStr ''3''"

definition TEST_SUBNET_CIDR :: py where "TEST_SUBNET_CIDR = PStr ''192.168.0.0/24''"

definition long_run_login :: login where
  "long_run_login =
     \<lparr>lg_url = ''http://'' @ KEYSTONE_HOST @ '':5000/v2.0/tokens '', lg_tenant = ''longrun'', lg_user = ''admin'',
      lg_password = ''admin@kingsoft''\<rparr>"

definition lr_http_post :: "'r script_conf \<Rightarrow> string \<Rightarrow> py \<Rightarrow> ('r, 'x, int \<times> string) script_io" where
  "lr_http_post sc url doc =
     http_call sc long_run_login ''POST'' url (Some (e_dumps (sc_env sc) doc)) (sc_frames sc)"

definition lr_http_put :: "'r script_conf \<Rightarrow> string \<Rightarrow> py \<Rightarrow> ('r, 'x, int \<times> string) script_io" where
  "lr_http_put sc url doc =
     http_call sc long_run_login ''PUT'' url (Some (e_dumps (sc_env sc) doc)) (sc_frames sc)"

definition lr_http_get :: "'r script_conf \<Rightarrow> string \<Rightarrow> ('r, 'x, int \<times> string) script_io" where
  "lr_http_get sc url = http_call sc long_run_login ''GET'' url None (sc_frames sc)"

definition lr_http_delete :: "'r script_conf \<Rightarrow> string \<Rightarrow> ('r, 'x, int \<times> string) script_io" where
  "lr_http_delete sc url = http_call sc long_run_login ''DELETE'' url None (sc_frames sc)"

text \<open>The steps that the operations share: the check of the status, a part of the answer, a text in the path of a URL.\<close>

definition must_be :: "int \<Rightarrow> string \<Rightarrow> int \<times> string \<Rightarrow> ('w, string) io" where
  "must_be code message answer = (if fst answer \<noteq> code then throw (PlainExc message) else ret (snd answer))"

definition part_of :: "'r script_conf \<Rightarrow> string list \<Rightarrow> string \<Rightarrow> ('w, py) io" where
  "part_of sc keys text = lift (bindE (loads_text sc text) (\<lambda>v. dig v keys))"

definition in_path :: "py \<Rightarrow> (string \<Rightarrow> ('w, 'a) io) \<Rightarrow> ('w, 'a) io" where
  "in_path i k = bnd (lift (as_str TypeErr i)) k"

definition lr_create ::
    "'r script_conf \<Rightarrow> string \<Rightarrow> py \<Rightarrow> int \<Rightarrow> string \<Rightarrow> string list \<Rightarrow> ('r, 'x, py) script_io" where
  "lr_create sc url doc code message keys =
     bnd (lr_http_post sc url doc) (\<lambda>r. bnd (must_be code message r) (part_of sc keys))"

definition lr_delete ::
    "'r script_conf \<Rightarrow> string \<Rightarrow> py \<Rightarrow> int \<Rightarrow> string \<Rightarrow> ('r, 'x, unit) script_io" where
  "lr_delete sc url i code message =
     in_path i (\<lambda>t. bnd (lr_http_delete sc (url @ t)) (\<lambda>r. bnd (must_be code message r) (\<lambda>_. ret ())))"

definition lr_update ::
    "'r script_conf \<Rightarrow> string \<Rightarrow> py \<Rightarrow> string \<Rightarrow> py \<Rightarrow> string \<Rightarrow> ('r, 'x, unit) script_io" where
  "lr_update sc url i tail doc message =
     in_path i (\<lambda>t. bnd (lr_http_put sc (url @ t @ tail) doc) (\<lambda>r. bnd (must_be 200 message r) (\<lambda>_. ret ())))"

definition lr_find :: "'r script_conf \<Rightarrow> string \<Rightarrow> py \<Rightarrow> ('r, 'x, py) script_io" where
  "lr_find sc url i = in_path i (\<lambda>t. bnd (lr_http_get sc (url @ t)) (\<lambda>(status, text). part_of sc [] text))"

definition fixed_name :: "'r script_conf \<Rightarrow> string \<Rightarrow> py" where
  "fixed_name sc prefix = PStr (prefix @ sc_name_fix sc)"

section \<open>Monitoring\<close>

definition zabbix_url :: string where "zabbix_url = ''http://10.160.60.66:80/zabbix/api_jsonrpc.php''"

text \<open>Both calls send their document with GET, and with the token.\<close>

definition zabbix_call :: "'r script_conf \<Rightarrow> py \<Rightarrow> string list \<Rightarrow> ('r, 'x, py) script_io" where
  "zabbix_call sc doc keys =
     (let data = e_dumps (sc_env sc) doc
      in bnd (gets sw_token) (\<lambda>token.
         bnd (lift (get_common_headers token (Some data))) (\<lambda>headers.
         bnd (send_http_request sc ''GET'' zabbix_url (Some data) headers) (\<lambda>(resp, text). part_of sc keys text))))"

definition monitor_user_login :: "'r script_conf \<Rightarrow> ('r, 'x, py) script_io" where
  "monitor_user_login sc =
     zabbix_call sc
       (PDict [(''jsonrpc'', PStr ''2.0''), (''method'', PStr ''user.login''),
               (''params'', PDict [(''user'', PStr ''Admin''), (''password'', PStr ''zabbix'')]), (''id'', PInt 0)])
       [''result'']"

definition monitor_host_create :: "'r script_conf \<Rightarrow> py \<Rightarrow> py \<Rightarrow> py \<Rightarrow> ('r, 'x, py) script_io" where
  "monitor_host_create sc auth_id instance_id instance_ip =
     (if truthy instance_id then
        zabbix_call sc
          (PDict [(''jsonrpc'', PStr ''2.0''), (''method'', PStr ''host.create''),
             (''params'', PDict
                [(''host'', instance_id),
                 (''interfaces'', PList [PDict [(''type'', PInt 1), (''main'', PInt 1), (''useip'', PInt 1),
                    (''ip'', instance_ip), (''dns'', PStr []), (''port'', PStr ''10050'')]]),
                 (''groups'', PList [PDict [(''groupid'', PStr ''2'')]]),
                 (''templates'', PList [PDict [(''templateid'', PStr ''10002'')]])]),
             (''auth'', auth_id), (''id'', PInt 1)])
          [''result'', ''hostids'']
      else ret PNone)"

section \<open>Networks, subnets and routers\<close>

definition lr_network_create :: "'r script_conf \<Rightarrow> ('r, 'x, py \<times> py) script_io" where
  "lr_network_create sc =
     bnd (lr_http_post sc (NEUTRON_BASE_URL @ ''/networks'')
       (PDict [(''network'', PDict [(''provider:network_type'', PStr ''vlan''), (''name'', fixed_name sc ''auto_testNetwork''),
          (''provider:physical_network'', PStr ''default''), (''admin_state_up'', PBool True)])])) (\<lambda>r.
     bnd (must_be 201 ''network create failed'' r) (\<lambda>text.
     bnd (part_of sc [''network'', ''id''] text) (\<lambda>i. bnd (part_of sc [''network'', ''name''] text) (\<lambda>n. ret (i, n)))))"

definition lr_network_find :: "'r script_conf \<Rightarrow> py \<Rightarrow> ('r, 'x, py) script_io" where
  "lr_network_find sc = lr_find sc (NEUTRON_BASE_URL @ ''/networks/'')"

definition lr_network_delete :: "'r script_conf \<Rightarrow> py \<Rightarrow> ('r, 'x, unit) script_io" where
  "lr_network_delete sc i = lr_delete sc (NEUTRON_BASE_URL @ ''/networks/'') i 204 ''network delete failed''"

definition lr_subnet_create :: "'r script_conf \<Rightarrow> py \<Rightarrow> py \<Rightarrow> ('r, 'x, py) script_io" where
  "lr_subnet_create sc network_id cidr =
     lr_create sc (NEUTRON_BASE_URL @ ''/subnets'')
       (PDict [(''subnet'', PDict [(''name'', fixed_name sc ''auto_testSubnet''), (''network_id'', network_id),
          (''ip_version'', PInt 4), (''cidr'', cidr)])])
       201 ''subnet create failed'' [''subnet'', ''id'']"

definition lr_subnet_find :: "'r script_conf \<Rightarrow> py \<Rightarrow> ('r, 'x, py) script_io" where
  "lr_subnet_find sc = lr_find sc (NEUTRON_BASE_URL @ ''/subnets/'')"

definition lr_subnet_delete :: "'r script_conf \<Rightarrow> py \<Rightarrow> ('r, 'x, unit) script_io" where
  "lr_subnet_delete sc i = lr_delete sc (NEUTRON_BASE_URL @ ''/subnets/'') i 204 ''subnet delete failed''"

definition lr_router_create :: "'r script_conf \<Rightarrow> ('r, 'x, py) script_io" where
  "lr_router_create sc =
     lr_create sc (NEUTRON_BASE_URL @ ''/routers'')
       (PDict [(''router'', PDict [(''name'', fixed_name sc ''auto_testRouter''), (''admin_state_up'', PBool True)])])
       201 ''router create failed'' [''router'', ''id'']"

definition lr_router_find :: "'r script_conf \<Rightarrow> py \<Rightarrow> ('r, 'x, py) script_io" where
  "lr_router_find sc = lr_find sc (NEUTRON_BASE_URL @ ''/routers/'')"

definition lr_router_set_external_gw :: "'r script_conf \<Rightarrow> py \<Rightarrow> ('r, 'x, unit) script_io" where
  "lr_router_set_external_gw sc i =
     lr_update sc (NEUTRON_BASE_URL @ ''/routers/'') i []
       (PDict [(''router'', PDict [(''external_gateway_info'', PDict [(''network_id'', TEST_EXTERNAL_NETWORK_ID)])])])
       ''router set external gw failed''"

definition lr_router_add_internal_gw :: "'r script_conf \<Rightarrow> py \<Rightarrow> py \<Rightarrow> ('r, 'x, unit) script_io" where
  "lr_router_add_internal_gw sc i subnet_id =
     lr_update sc (NEUTRON_BASE_URL @ ''/routers/'') i ''/add_router_interface'' (PDict [(''subnet_id'', subnet_id)])
       ''router add internal gw failed''"

definition lr_router_remove_internal_gw :: "'r script_conf \<Rightarrow> py \<Rightarrow> py \<Rightarrow> ('r, 'x, unit) script_io" where
  "lr_router_remove_internal_gw sc i subnet_id =
     lr_update sc (NEUTRON_BASE_URL @ ''/routers/'') i ''/remove_router_interface'' (PDict [(''subnet_id'', subnet_id)])
       ''router remove internal gw failed''"

definition lr_router_delete :: "'r script_conf \<Rightarrow> py \<Rightarrow> ('r, 'x, unit) script_io" where
  "lr_router_delete sc i = lr_delete sc (NEUTRON_BASE_URL @ ''/routers/'') i 204 ''router delete failed''"

section \<open>Servers\<close>

definition lr_servers :: string where "lr_servers = NOVA_BASE_URL @ ''/'' @ TEST_TENANT_ID @ ''/servers''"

definition lr_instance_create_by_image :: "'r script_conf \<Rightarrow> py \<Rightarrow> py \<Rightarrow> ('r, 'x, py) script_io" where
  "lr_instance_create_by_image sc network_id securitygroup_id =
     bnd (gets now) (\<lambda>t.
       lr_create sc lr_servers
         (PDict [(''server'', PDict [(''name'', PStr (''auto_testInstance'' @ sc_time_text sc t)), (''imageRef'', TEST_IMAGE_ID),
            (''flavorRef'', TEST_FLAVOR_ID), (''max_count'', PInt 1), (''min_count'', PInt 1),
            (''networks'', PList [PDict [(''uuid'', network_id)]]),
            (''security_groups'', PList [PDict [(''name'', securitygroup_id)]])])])
         202 ''instance create failed'' [''server'', ''id''])"

text \<open>The status of the answer is not looked at.\<close>

definition lr_instance_create_by_volume :: "'r script_conf \<Rightarrow> py \<Rightarrow> py \<Rightarrow> py \<Rightarrow> ('r, 'x, py) script_io" where
  "lr_instance_create_by_volume sc network_id securitygroup_id volume_id =
     bnd (lr_http_post sc (NOVA_BASE_URL @ ''/'' @ TEST_TENANT_ID @ ''/os-volumes_boot'')
       (PDict [(''server'', PDict [(''name'', fixed_name sc ''auto_testInstance''), (''imageRef'', PStr []),
          (''block_device_mapping_v2'', PList [PDict [(''source_type'', PStr ''volume''),
             (''delete_on_termination'', PBool False), (''boot_index'', PInt 0), (''uuid'', volume_id),
             (''destination_type'', PStr ''volume'')]]),
          (''flavorRef'', TEST_FLAVOR_ID), (''max_count'', PInt 1), (''min_count'', PInt 1),
          (''networks'', PList [PDict [(''uuid'', network_id)]]),
          (''security_groups'', PList [PDict [(''name'', securitygroup_id)]])])])) (\<lambda>(status, text).
       part_of sc [''server'', ''id''] text)"

definition lr_instance_find :: "'r script_conf \<Rightarrow> py \<Rightarrow> ('r, 'x, py) script_io" where
  "lr_instance_find sc = lr_find sc (lr_servers @ ''/'')"

definition lr_action :: "'r script_conf \<Rightarrow> py \<Rightarrow> string \<Rightarrow> py \<Rightarrow> ('r, 'x, int \<times> string) script_io" where
  "lr_action sc i name value =
     lr_http_post sc (lr_servers @ ''/'' @ id_text (sc_env sc) i @ ''/action'') (PDict [(name, value)])"

definition lr_instance_stop :: "'r script_conf \<Rightarrow> py \<Rightarrow> ('r, 'x, unit) script_io" where
  "lr_instance_stop sc i =
     bnd (lr_action sc i ''os-stop'' PNone) (\<lambda>r. bnd (must_be 202 ''instance stop failed'' r) (\<lambda>_. ret ()))"

definition lr_instance_start :: "'r script_conf \<Rightarrow> py \<Rightarrow> ('r, 'x, unit) script_io" where
  "lr_instance_start sc i =
     bnd (lr_action sc i ''os-start'' PNone) (\<lambda>r. bnd (must_be 202 ''instance stop failed'' r) (\<lambda>_. ret ()))"

definition lr_instance_resize :: "'r script_conf \<Rightarrow> py \<Rightarrow> py \<Rightarrow> ('r, 'x, unit) script_io" where
  "lr_instance_resize sc i flavor_id =
     bnd (lr_action sc i ''resize'' (PDict [(''flavorRef'', flavor_id)])) (\<lambda>r.
       bnd (must_be 202 ''instance resize failed'' r) (\<lambda>_. ret ()))"

definition lr_instance_resize_confirm :: "'r script_conf \<Rightarrow> py \<Rightarrow> ('r, 'x, unit) script_io" where
  "lr_instance_resize_confirm sc i =
     bnd (lr_action sc i ''confirmResize'' PNone) (\<lambda>r.
       bnd (must_be 204 (''Server resize confirm '' @ id_text (sc_env sc) i @ '' failed'') r) (\<lambda>_. ret ()))"

definition lr_instance_live_migrate :: "'r script_conf \<Rightarrow> py \<Rightarrow> ('r, 'x, int) script_io" where
  "lr_instance_live_migrate sc i =
     bnd (lr_action sc i ''os-migrateLive''
       (PDict [(''disk_over_commit'', PBool False), (''block_migration'', PBool False), (''host'', PNone)]))
       (\<lambda>(status, text). ret status)"

text \<open>The first fixed address, with the address of the interface; two Nones when there is none.\<close>

primrec fixed_address :: "py list \<Rightarrow> pyexc + py \<times> py" where
  "fixed_address [] = Inr (PNone, PNone)"
| "fixed_address (v # vs) =
     bindE (getitem v ''OS-EXT-IPS:type'') (\<lambda>ty.
       if ty = PStr ''fixed'' then
         bindE (getitem v ''addr'') (\<lambda>a. bindE (getitem v ''OS-EXT-IPS-MAC:mac_addr'') (\<lambda>m. Inr (a, m)))
       else fixed_address vs)"

definition lr_instance_find_fix_ip :: "'r script_conf \<Rightarrow> py \<Rightarrow> py \<Rightarrow> ('r, 'x, py \<times> py) script_io" where
  "lr_instance_find_fix_ip sc i network_name =
     bnd (lr_instance_find sc i) (\<lambda>v.
       lift (bindE (dig v [''server'', ''addresses'']) (\<lambda>addresses.
             bindE (as_str (KeyErr []) network_name) (\<lambda>n.
             bindE (getitem addresses n) (\<lambda>x. bindE (py_iter x) fixed_address)))))"

definition lr_instance_find_host :: "'r script_conf \<Rightarrow> py \<Rightarrow> ('r, 'x, py) script_io" where
  "lr_instance_find_host sc i =
     bnd (lr_http_get sc (lr_servers @ ''/'' @ id_text (sc_env sc) i)) (\<lambda>(status, text).
       part_of sc [''server'', ''OS-EXT-SRV-ATTR:host''] text)"

definition lr_instance_volume_attach :: "'r script_conf \<Rightarrow> py \<Rightarrow> py \<Rightarrow> ('r, 'x, unit) script_io" where
  "lr_instance_volume_attach sc i volume_id =
     bnd (lr_http_post sc (lr_servers @ ''/'' @ id_text (sc_env sc) i @ ''/os-volume_attachments'')
            (PDict [(''volumeAttachment'', PDict [(''volumeId'', volume_id)])])) (\<lambda>r.
       bnd (must_be 200 ''volume attach failed'' r) (\<lambda>_. ret ()))"

definition lr_instance_delete :: "'r script_conf \<Rightarrow> py \<Rightarrow> ('r, 'x, unit) script_io" where
  "lr_instance_delete sc i = lr_delete sc (lr_servers @ ''/'') i 204 ''instance delete failed''"

text \<open>\<open>instance_wait\<close>: at most 50 rounds of five seconds; a status that is None (or empty) waits for the deletion.\<close>

primrec lr_instance_rounds :: "'r script_conf \<Rightarrow> string \<Rightarrow> py \<Rightarrow> nat \<Rightarrow> ('r, 'x, unit) script_io" where
  "lr_instance_rounds sc url status 0 = throw (PlainExc ''instance wait time out!'')"
| "lr_instance_rounds sc url status (Suc n) =
     bnd (lr_http_get sc url) (\<lambda>(code, text).
       if code = 404 then (if truthy status then throw (PlainExc ''instance did not found'') else ret ())
       else
         bnd (part_of sc [''server'', ''status''] text) (\<lambda>st.
           if st = PStr ''ERROR'' then throw (PlainExc ''instance status is ERROR'')
           else if st = status then ret ()
           else bnd (sleep 5) (\<lambda>_. lr_instance_rounds sc url status n)))"

definition lr_instance_wait :: "'r script_conf \<Rightarrow> py \<Rightarrow> py \<Rightarrow> ('r, 'x, unit) script_io" where
  "lr_instance_wait sc i status =
     in_path i (\<lambda>t. lr_instance_rounds sc (lr_servers @ ''/'' @ t) status 50)"

section \<open>Ports, floating addresses and security groups\<close>

primrec port_with :: "string \<Rightarrow> py \<Rightarrow> py list \<Rightarrow> pyexc + py" where
  "port_with key x [] = Inr PNone"
| "port_with key x (v # vs) = bindE (getitem v key) (\<lambda>y. if y = x then getitem v ''id'' else port_with key x vs)"

definition lr_ports :: "'r script_conf \<Rightarrow> string \<Rightarrow> string \<Rightarrow> py \<Rightarrow> ('r, 'x, py) script_io" where
  "lr_ports sc query key x =
     bnd (lr_http_get sc (NEUTRON_BASE_URL @ ''/ports?'' @ query)) (\<lambda>(status, text).
     bnd (part_of sc [''ports''] text) (\<lambda>ps. lift (bindE (py_iter ps) (port_with key x))))"

definition lr_port_find_by_mac :: "'r script_conf \<Rightarrow> py \<Rightarrow> ('r, 'x, py) script_io" where
  "lr_port_find_by_mac sc mac = in_path mac (\<lambda>m. lr_ports sc (''mac_address='' @ m) ''mac_address'' mac)"

definition lr_port_find_router_external_port :: "'r script_conf \<Rightarrow> py \<Rightarrow> ('r, 'x, py) script_io" where
  "lr_port_find_router_external_port sc router_id =
     in_path router_id (\<lambda>i. lr_ports sc (''device_id='' @ i) ''network_id'' TEST_EXTERNAL_NETWORK_ID)"

definition lr_floatingip_create :: "'r script_conf \<Rightarrow> py \<Rightarrow> ('r, 'x, py \<times> py) script_io" where
  "lr_floatingip_create sc port_id =
     bnd (lr_http_post sc (NEUTRON_BASE_URL @ ''/floatingips'')
       (PDict [(''floatingip'', PDict [(''floating_network_id'', TEST_EXTERNAL_NETWORK_ID), (''port_id'', port_id)])])) (\<lambda>r.
     bnd (must_be 201 ''floatingip create failed'' r) (\<lambda>text.
     bnd (part_of sc [''floatingip'', ''id''] text) (\<lambda>i.
     bnd (part_of sc [''floatingip'', ''floating_ip_address''] text) (\<lambda>a. ret (i, a)))))"

definition lr_floatingip_delete :: "'r script_conf \<Rightarrow> py \<Rightarrow> ('r, 'x, unit) script_io" where
  "lr_floatingip_delete sc i = lr_delete sc (NEUTRON_BASE_URL @ ''/floatingips/'') i 204 ''floatingip delete failed''"

definition lr_securitygroup_create :: "'r script_conf \<Rightarrow> ('r, 'x, py) script_io" where
  "lr_securitygroup_create sc =
     lr_create sc (NEUTRON_BASE_URL @ ''/security-groups'')
       (PDict [(''security_group'', PDict [(''name'', fixed_name sc ''auto_testSecurityGroup'')])])
       201 ''securitygroup create failed'' [''security_group'', ''id'']"

definition lr_securitygroup_delete :: "'r script_conf \<Rightarrow> py \<Rightarrow> ('r, 'x, unit) script_io" where
  "lr_securitygroup_delete sc i =
     lr_delete sc (NEUTRON_BASE_URL @ ''/security-groups/'') i 204 ''securitygroup delete failed''"

definition ingress_rule :: "string \<Rightarrow> py \<Rightarrow> py" where
  "ingress_rule protocol group_id =
     PDict [(''security_group_rule'', PDict [(''ethertype'', PStr ''IPv4''), (''direction'', PStr ''ingress''),
       (''remote_ip_prefix'', PStr ''0.0.0.0/0''), (''protocol'', PStr protocol), (''security_group_id'', group_id)])]"

definition lr_securitygroup_rule_create :: "'r script_conf \<Rightarrow> py \<Rightarrow> ('r, 'x, py) script_io" where
  "lr_securitygroup_rule_create sc group_id =
     lr_create sc (NEUTRON_BASE_URL @ ''/security-group-rules'') (ingress_rule ''ICMP'' group_id)
       201 ''securitygroup rule create failed'' [''security_group_rule'', ''id'']"

definition lr_securitygroup_rule_create_tcp :: "'r script_conf \<Rightarrow> py \<Rightarrow> ('r, 'x, py) script_io" where
  "lr_securitygroup_rule_create_tcp sc group_id =
     lr_create sc (NEUTRON_BASE_URL @ ''/security-group-rules'') (ingress_rule ''TCP'' group_id)
       201 ''securitygroup rule create failed'' [''security_group_rule'', ''id'']"

definition lr_securitygroup_rule_delete :: "'r script_conf \<Rightarrow> py \<Rightarrow> ('r, 'x, unit) script_io" where
  "lr_securitygroup_rule_delete sc i =
     lr_delete sc (NEUTRON_BASE_URL @ ''/security-group-rules/'') i 204 ''securitygroup rule delete failed''"

section \<open>Firewalls\<close>

definition firewall_rule_document :: "'r script_conf \<Rightarrow> string \<Rightarrow> bool \<Rightarrow> py" where
  "firewall_rule_document sc protocol allowed =
     PDict [(''firewall_rule'', PDict [(''protocol'', PStr protocol), (''name'', fixed_name sc ''auto_testFWrule''),
       (''enabled'', PStr ''True''), (''source_ip_address'', PStr ''0.0.0.0/0''),
       (''destination_ip_address'', PStr ''0.0.0.0/0''), (''action'', PStr (if allowed then ''allow'' else ''deny''))])]"

definition lr_firewall_rule_create :: "'r script_conf \<Rightarrow> bool \<Rightarrow> ('r, 'x, py) script_io" where
  "lr_firewall_rule_create sc pingable =
     lr_create sc (NEUTRON_BASE_URL @ ''/fw/firewall_rules'') (firewall_rule_document sc ''icmp'' pingable)
       201 ''firewall_rule create failed'' [''firewall_rule'', ''id'']"

definition lr_firewall_rule_create_tcp :: "'r script_conf \<Rightarrow> bool \<Rightarrow> ('r, 'x, py) script_io" where
  "lr_firewall_rule_create_tcp sc enable =
     lr_create sc (NEUTRON_BASE_URL @ ''/fw/firewall_rules'') (firewall_rule_document sc ''tcp'' enable)
       201 ''firewall_rule create failed'' [''firewall_rule'', ''id'']"

definition lr_firewall_rule_delete :: "'r script_conf \<Rightarrow> py \<Rightarrow> ('r, 'x, unit) script_io" where
  "lr_firewall_rule_delete sc i =
     lr_delete sc (NEUTRON_BASE_URL @ ''/fw/firewall_rules/'') i 204 ''firewall_rule delete failed''"

definition lr_firewall_policy_create :: "'r script_conf \<Rightarrow> ('r, 'x, py) script_io" where
  "lr_firewall_policy_create sc =
     lr_create sc (NEUTRON_BASE_URL @ ''/fw/firewall_policies'')
       (PDict [(''firewall_policy'', PDict [(''name'', fixed_name sc ''auto_testFWPolicy'')])])
       201 ''firewall_policy create failed'' [''firewall_policy'', ''id'']"

definition lr_policies :: string where "lr_policies = NEUTRON_BASE_URL @ ''/fw/firewall_policies/''"

definition lr_firewall_policy_delete :: "'r script_conf \<Rightarrow> py \<Rightarrow> ('r, 'x, unit) script_io" where
  "lr_firewall_policy_delete sc i = lr_delete sc lr_policies i 204 ''firewall_policy delete failed''"

definition lr_firewall_polcy_insert_rule :: "'r script_conf \<Rightarrow> py \<Rightarrow> py \<Rightarrow> ('r, 'x, unit) script_io" where
  "lr_firewall_polcy_insert_rule sc policy_id rule_id =
     lr_update sc lr_policies policy_id ''/insert_rule''
       (PDict [(''insert_after'', PStr []), (''firewall_rule_id'', rule_id), (''insert_before'', PStr [])])
       ''firewall_polcy_insert_rule failed''"

definition lr_firewall_polcy_remove_rule :: "'r script_conf \<Rightarrow> py \<Rightarrow> py \<Rightarrow> ('r, 'x, unit) script_io" where
  "lr_firewall_polcy_remove_rule sc policy_id rule_id =
     lr_update sc lr_policies policy_id ''/remove_rule'' (PDict [(''firewall_rule_id'', rule_id)])
       ''firewall_polcy_remove_rule failed''"

definition lr_firewalls :: string where "lr_firewalls = NEUTRON_BASE_URL @ ''/fw/firewalls''"

definition lr_firewall_create :: "'r script_conf \<Rightarrow> py \<Rightarrow> ('r, 'x, py) script_io" where
  "lr_firewall_create sc policy_id =
     lr_create sc lr_firewalls
       (PDict [(''firewall'', PDict [(''firewall_policy_id'', policy_id), (''admin_state_up'', PBool True),
          (''router_ids'', PList []), (''name'', fixed_name sc ''test_autoFW'')])])
       201 ''firewall create failed'' [''firewall'', ''id'']"

definition lr_firewall_delete :: "'r script_conf \<Rightarrow> py \<Rightarrow> ('r, 'x, unit) script_io" where
  "lr_firewall_delete sc i = lr_delete sc (lr_firewalls @ ''/'') i 204 ''firewall delete failed''"

definition lr_firewall_find :: "'r script_conf \<Rightarrow> py \<Rightarrow> ('r, 'x, py) script_io" where
  "lr_firewall_find sc = lr_find sc (lr_firewalls @ ''/'')"

text \<open>\<open>firewall_wait\<close>: at most 100 rounds of two seconds.\<close>

primrec lr_firewall_rounds :: "'r script_conf \<Rightarrow> string \<Rightarrow> py \<Rightarrow> nat \<Rightarrow> ('r, 'x, unit) script_io" where
  "lr_firewall_rounds sc url status 0 =
     throw (PlainExc (''timeout waiting for firewall turn to '' @ id_text (sc_env sc) status))"
| "lr_firewall_rounds sc url status (Suc n) =
     bnd (lr_http_get sc url) (\<lambda>(code, text).
       if code = 404 then (if truthy status then throw (PlainExc ''firewall did not found'') else ret ())
       else
         bnd (part_of sc [''firewall'', ''status''] text) (\<lambda>st.
           if st = status then ret () else bnd (sleep 2) (\<lambda>_. lr_firewall_rounds sc url status n)))"

definition lr_firewall_wait :: "'r script_conf \<Rightarrow> py \<Rightarrow> py \<Rightarrow> ('r, 'x, unit) script_io" where
  "lr_firewall_wait sc i status =
     in_path i (\<lambda>t. lr_firewall_rounds sc (lr_firewalls @ ''/'' @ t) status 100)"

definition lr_firewall_change_router :: "'r script_conf \<Rightarrow> py \<Rightarrow> py \<Rightarrow> ('r, 'x, unit) script_io" where
  "lr_firewall_change_router sc i router_id =
     lr_update sc (lr_firewalls @ ''/'') i [] (PDict [(''firewall'', PDict [(''router_ids'', PList [router_id])])])
       ''firewall_change_router failed''"

definition lr_firewall_change_policy :: "'r script_conf \<Rightarrow> py \<Rightarrow> py \<Rightarrow> ('r, 'x, unit) script_io" where
  "lr_firewall_change_policy sc i policy_id =
     lr_update sc (lr_firewalls @ ''/'') i [] (PDict [(''firewall'', PDict [(''firewall_policy_id'', policy_id)])])
       ''firewall_change_router failed''"

definition lr_firewall_remove_all_router :: "'r script_conf \<Rightarrow> py \<Rightarrow> ('r, 'x, unit) script_io" where
  "lr_firewall_remove_all_router sc i =
     lr_update sc (lr_firewalls @ ''/'') i [] (PDict [(''firewall'', PDict [(''router_ids'', PList [])])])
       ''firewall_remove_all_router failed''"

section \<open>Volumes\<close>

definition lr_volumes :: string where "lr_volumes = CINDER_BASE_URL @ ''/'' @ TEST_TENANT_ID @ ''/volumes''"

definition lr_volume_create :: "'r script_conf \<Rightarrow> ('r, 'x, py) script_io" where
  "lr_volume_create sc =
     bnd (lr_http_post sc lr_volumes
            (PDict [(''volume'', PDict [(''size'', PInt 20), (''name'', fixed_name sc ''auto_testVolume'')])]))
       (\<lambda>(status, text). part_of sc [''volume'', ''id''] text)"

text \<open>
  \<open>volume_wait\<close> has no bound. A volume that is gone makes it read the name \<open>instance_status\<close>, which does not exist: a
  NameError.
\<close>

definition lr_volume_round ::
    "'r script_conf \<Rightarrow> string \<Rightarrow> py \<Rightarrow> unit \<Rightarrow> ('r, 'x, unit + unit) script_io" where
  "lr_volume_round sc url status u =
     bnd (lr_http_get sc url) (\<lambda>(code, text).
       if code = 404 then throw UnboundErr
       else
         bnd (part_of sc [''volume'', ''status''] text) (\<lambda>st.
           if st = PStr ''ERROR'' then throw (PlainExc ''volume status is ERROR'')
           else if st = status then ret (Inr ())
           else bnd (sleep 5) (\<lambda>_. ret (Inl ()))))"

definition lr_volume_wait ::
    "'r script_conf \<Rightarrow> py \<Rightarrow> py \<Rightarrow> (('r, 'x) token_world_scheme, unit) loopy" where
  "lr_volume_wait sc i status =
     (let url = lr_volumes @ ''/'' @ id_text (sc_env sc) i
      in bnd_loop (io_loop (lr_http_get sc url)) (\<lambda>_. loop_io (lr_volume_round sc url status) ()))"

definition lr_volume_delete :: "'r script_conf \<Rightarrow> py \<Rightarrow> ('r, 'x, unit) script_io" where
  "lr_volume_delete sc i =
     bnd (lr_http_delete sc (lr_volumes @ ''/'' @ id_text (sc_env sc) i)) (\<lambda>r.
       bnd (must_be 202 ''volume delete failed'' r) (\<lambda>_. ret ()))"

section \<open>What a call returns\<close>

text \<open>A call never returns a 401, and sends at most two requests for each frame.\<close>

lemma http_call_authorized: "http_call sc lg m u b n w = (Inr (st, t), w') \<Longrightarrow> st \<noteq> 401"
  by (induction n arbitrary: w) (auto elim!: bnd_InrE split: if_splits)

lemma send_budget: "within (budget 1 0) (send_http_request sc m u b hs)"
  unfolding send_http_request_def
  by (rule budget_pure_bnd [OF budget_pure(3)]) (simp add: within_def http_send_def budget_def split: prod.splits)

lemma budget_token: "within (budget 0 0) (modify (sw_token_update f))"
  by (simp add: within_def budget_def)

lemma token_budget: "within (budget 1 0) (get_Token sc lg)"
  unfolding get_Token_def Let_def
  by (rule budget_then_pure [OF send_budget])
    (auto simp only: case_prod_beta intro!: budget_pure_bnd [OF budget_pure(3)] budget_token)

lemma attempt_budget: "within (budget 1 0) (http_attempt sc m u b)"
  unfolding http_attempt_def
  by (intro budget_pure_bnd [OF budget_pure(4)] budget_pure_bnd [OF budget_pure(3)] budget_then_pure [OF send_budget])
    (auto simp: within_def split: prod.splits)

lemma budget_requests:
  "within (budget a 0) m \<Longrightarrow> (\<And>x. within (budget b 0) (f x)) \<Longrightarrow> within (budget (a + b) 0) (bnd m f)"
  using budget_bnd [of a 0 m b 0 f] by simp

lemma http_call_budget: "within (budget (2 * n) 0) (http_call sc lg m u b n)"
proof (induction n)
  case 0
  then show ?case by (simp add: within_def)
next
  case (Suc n)
  note again = budget_requests [OF token_budget [of sc lg] Suc]
  have two: "2 * Suc n = 1 + (1 + 2 * n)" by simp
  show ?case
    unfolding http_call.simps two
    by (rule budget_requests [OF attempt_budget]) (simp only: case_prod_beta, rule budget_if [OF again budget_pure(1)])
qed

text \<open>
  C31 (script_calls_bounded): a call of \<open>http_post\<close> and its like ends, sends at most two requests for each frame of the
  interpreter's stack, never sleeps, and never returns an answer that was refused with 401.
\<close>

theorem script_calls_bounded:
  "\<exists>r w'. http_call sc lg m u b n w = (r, w') \<and> budget (2 * n) 0 w w' \<and> r \<notin> range (\<lambda>t. Inr (401, t))"
proof -
  obtain r w' where run: "http_call sc lg m u b n w = (r, w')" by fastforce
  with http_call_budget have "budget (2 * n) 0 w w'" by (rule withinD)
  moreover have "r \<notin> range (\<lambda>t. Inr (401, t))"
    using run http_call_authorized [of sc lg m u b n w 401] by auto
  ultimately show ?thesis using run by blast
qed

end
