(* ===== verification/ScriptCases.thy ===== *)
theory ScriptCases
  imports ScriptOps NetworkCases
begin

text \<open>
  The test cases of \<open>long_run_tests.py\<close> with their clean-up, over the operations of \<open>ScriptOps\<close>. The dictionary \<open>env\<close>
  of a test case is a field of the world, because the clean-up takes out of it what it has deleted. \<open>pexpect\<close> and
  \<open>commands\<close> are the parameter \<open>console\<close>.
\<close>

section \<open>The world of a test case\<close>

text \<open>\<open>testcase_connectivity_between_two_vlan\<close> has two dictionaries. \<open>sw_instance\<close> is the local variable \<open>instance_id\<close> of the long run.\<close>

record 'r case_world = "'r token_world" +
  sw_env :: "(string, py) dict"
  sw_minor :: "(string, py) dict"
  sw_instance :: "py option"

datatype slot = MainEnv | MinorEnv

primrec slot_get :: "slot \<Rightarrow> ('r, 'x) case_world_scheme \<Rightarrow> (string, py) dict" where
  "slot_get MainEnv = sw_env"
| "slot_get MinorEnv = sw_minor"

primrec slot_upd ::
    "slot \<Rightarrow> ((string, py) dict \<Rightarrow> (string, py) dict) \<Rightarrow> ('r, 'x) case_world_scheme \<Rightarrow> ('r, 'x) case_world_scheme" where
  "slot_upd MainEnv = sw_env_update"
| "slot_upd MinorEnv = sw_minor_update"

type_synonym ('r, 'x, 'a) case_io = "(('r, 'x) case_world_scheme, 'a) io"
type_synonym ('r, 'x, 'a) case_loop = "(('r, 'x) case_world_scheme, 'a) loopy"

definition put_env :: "slot \<Rightarrow> string \<Rightarrow> py \<Rightarrow> ('r, 'x, unit) case_io" where
  "put_env sl k v = modify (slot_upd sl (\<lambda>d. dset d k v))"

definition del_env :: "slot \<Rightarrow> string \<Rightarrow> ('r, 'x, unit) case_io" where
  "del_env sl k = modify (slot_upd sl (\<lambda>d. ddel d k))"

section \<open>The console\<close>

text \<open>\<open>cs_expect\<close> gives the position of the pattern that was found; a session is a number.\<close>

datatype pattern = Text string | AtEOF | AtTimeout

record 'w console =
  cs_spawn :: "string \<Rightarrow> int option \<Rightarrow> ('w, nat) io"
  cs_expect :: "nat \<Rightarrow> pattern list \<Rightarrow> int option \<Rightarrow> ('w, nat) io"
  cs_sendline :: "nat \<Rightarrow> string \<Rightarrow> ('w, unit) io"
  cs_read :: "nat \<Rightarrow> ('w, string) io"
  cs_close :: "nat \<Rightarrow> ('w, unit) io"
  cs_output :: "string \<Rightarrow> ('w, string) io"

definition password_prompts :: "pattern list" where
  "password_prompts = [Text ''password:'', Text ''continue connecting (yes/no)?'']"

definition answer_prompt :: "'w console \<Rightarrow> nat \<Rightarrow> string \<Rightarrow> nat \<Rightarrow> ('w, unit) io" where
  "answer_prompt con s passwd i =
     (if i = 0 then cs_sendline con s passwd
      else if i = 1 then
        bnd (cs_sendline con s (''yes'' @ [CHR 0x0A])) (\<lambda>_.
        bnd (cs_expect con s [Text ''password: ''] None) (\<lambda>_. cs_sendline con s passwd))
      else ret ())"

definition arp_command :: "string \<Rightarrow> string \<Rightarrow> string \<Rightarrow> string \<Rightarrow> string" where
  "arp_command controller router ip qg =
     ''ssh root@'' @ controller @ '' '' @ [CHR 0x22] @ ''ip netns exec qrouter-'' @ router @ '' ip a | grep '' @ ip
     @ '' && ip netns exec qrouter-'' @ router @ '' arping -A -I '' @ qg @ '' '' @ ip @ '' -c 3'' @ [CHR 0x22]"

definition lr_refresh_arp_cache ::
    "'r script_conf \<Rightarrow> (('r, 'x) case_world_scheme) console \<Rightarrow> py \<Rightarrow> py \<Rightarrow> ('r, 'x, unit) case_io" where
  "lr_refresh_arp_cache sc con ipaddr router_id =
     (let text = id_text (sc_env sc)
      in bnd (sleep 2) (\<lambda>_.
         bnd (lr_port_find_router_external_port sc router_id) (\<lambda>port_id.
         in_path port_id (\<lambda>p.
           for_each [''10.160.60.72'', ''10.160.60.73'', ''10.160.60.74''] (\<lambda>controller.
             bnd (cs_spawn con (arp_command controller (text router_id) (text ipaddr) (''qg-'' @ take 11 p)) (Some 120)) (\<lambda>s.
             bnd (cs_expect con s password_prompts (Some 60)) (answer_prompt con s ''test'')))))))"

text \<open>\<open>cmd_ping\<close>: a ping every five seconds, at most \<open>count\<close> times.\<close>

primrec ping_rounds :: "(('r, 'x) world_scheme) console \<Rightarrow> string \<Rightarrow> nat \<Rightarrow> (('r, 'x) world_scheme, bool) io" where
  "ping_rounds con ip 0 = ret False"
| "ping_rounds con ip (Suc n) =
     bnd (sleep 5) (\<lambda>_.
     bnd (cs_spawn con (''ping -c 1 '' @ ip) None) (\<lambda>s.
     bnd (cs_expect con s [Text ''0% packet loss'', Text ''100% packet loss'', AtEOF, AtTimeout] None) (\<lambda>i.
       if i = 0 then ret True else ping_rounds con ip n)))"

definition lr_cmd_ping ::
    "(('r, 'x) world_scheme) console \<Rightarrow> py \<Rightarrow> nat \<Rightarrow> (('r, 'x) world_scheme, bool) io" where
  "lr_cmd_ping con ipaddr count =
     in_path ipaddr (\<lambda>ip. bnd (cs_output con (''arp -d '' @ ip)) (\<lambda>_. ping_rounds con ip count))"

definition no_loss_in :: "string \<Rightarrow> bool" where
  "no_loss_in result = str_contains ''0% packet loss'' result"

definition lr_cmd_ping_between_two_ip ::
    "'r script_conf \<Rightarrow> 'w console \<Rightarrow> py \<Rightarrow> py \<Rightarrow> string \<Rightarrow> ('w, bool) io" where
  "lr_cmd_ping_between_two_ip sc con floating_ip target_ip passwd =
     (let text = id_text (sc_env sc); cmd = ping_command (text target_ip)
      in bnd (cs_spawn con (''ssh root@'' @ text floating_ip @ '' '' @ [CHR 0x22] @ cmd @ [CHR 0x22]) (Some 120)) (\<lambda>s.
         bnd (cs_expect con s password_prompts (Some 60)) (\<lambda>i.
         bnd (answer_prompt con s passwd i) (\<lambda>_.
         bnd (cs_sendline con s cmd) (\<lambda>_.
         bnd (cs_read con s) (\<lambda>result. ret (no_loss_in result)))))))"

text \<open>
  \<open>instance_wait_sshable\<close>: a failure closes the session of the variable \<open>ssh\<close>, which is unbound when the first
  session could not be started.
\<close>

definition attempted :: "('w, 'a) io \<Rightarrow> ('w, 'a option) io" where
  "attempted m = catch (bnd m (\<lambda>x. ret (Some x))) (\<lambda>e. Some (ret None))"

primrec sshable_rounds ::
    "(('r, 'x) world_scheme) console \<Rightarrow> string \<Rightarrow> nat \<Rightarrow> nat option \<Rightarrow> (('r, 'x) world_scheme, unit) io" where
  "sshable_rounds con ip 0 ssh = throw (PlainExc ''ssh failed for 50 times!'')"
| "sshable_rounds con ip (Suc n) ssh =
     (let again = (\<lambda>ssh. case ssh of None \<Rightarrow> throw UnboundErr | Some s \<Rightarrow>
             bnd (cs_close con s) (\<lambda>_. bnd (sleep 5) (\<lambda>_. sshable_rounds con ip n (Some s))))
      in bnd (attempted (cs_spawn con (''ssh root@'' @ ip) (Some 120))) (\<lambda>started.
           case started of
             None \<Rightarrow> again ssh
           | Some s \<Rightarrow> bnd (attempted (cs_expect con s password_prompts (Some 60))) (\<lambda>i.
               if i = None then again (Some s) else ret ())))"

definition lr_instance_wait_sshable ::
    "'r script_conf \<Rightarrow> (('r, 'x) world_scheme) console \<Rightarrow> py \<Rightarrow> (('r, 'x) world_scheme, unit) io" where
  "lr_instance_wait_sshable sc con floating_ip = sshable_rounds con (id_text (sc_env sc) floating_ip) 50 None"

section \<open>The clean-up\<close>

text \<open>\<open>while len(ids) > 0: id = ids.pop(); ...\<close> over a list of the dictionary; \<open>xs\<close> is the list reversed.\<close>

primrec drain :: "slot \<Rightarrow> string \<Rightarrow> (py \<Rightarrow> ('r, 'x, unit) case_io) \<Rightarrow> py list \<Rightarrow> ('r, 'x, unit) case_io" where
  "drain sl k f [] = ret ()"
| "drain sl k f (x # xs) =
     bnd (put_env sl k (PList (rev xs))) (\<lambda>_. bnd (f x) (\<lambda>_. drain sl k f xs))"

definition drain_list :: "slot \<Rightarrow> string \<Rightarrow> py \<Rightarrow> (py \<Rightarrow> ('r, 'x, unit) case_io) \<Rightarrow> ('r, 'x, unit) case_io" where
  "drain_list sl k v f = (case v of PList xs \<Rightarrow> drain sl k f (rev xs) | PInt i \<Rightarrow> throw TypeErr | PBool b \<Rightarrow> throw TypeErr | _ \<Rightarrow> throw AttrErr)"

definition cleared :: "slot \<Rightarrow> string \<Rightarrow> py \<Rightarrow> (py \<Rightarrow> ('r, 'x, unit) case_io) \<Rightarrow> ('r, 'x, unit) case_io" where
  "cleared sl k v f = (if truthy v then bnd (f v) (\<lambda>_. del_env sl k) else ret ())"

definition emptied :: "slot \<Rightarrow> string \<Rightarrow> py \<Rightarrow> (py \<Rightarrow> ('r, 'x, unit) case_io) \<Rightarrow> ('r, 'x, unit) case_io" where
  "emptied sl k v f = (if truthy v then drain_list sl k v f else ret ())"

text \<open>The values of the dictionary are read before anything is deleted.\<close>

definition clear_steps :: "'r script_conf \<Rightarrow> slot \<Rightarrow> (string \<Rightarrow> py) \<Rightarrow> ('r, 'x, unit) case_io list" where
  "clear_steps sc sl v =
     (let instance_gone = (\<lambda>i. bnd (lr_instance_delete sc i) (\<lambda>_. lr_instance_wait sc i PNone));
          rule = v ''firewall_rule_id''; policy = v ''firewall_policy_id'';
          router = v ''router_id''; subnet = v ''subnet_id''; gw = v ''subnet_gw_id''
      in [cleared sl ''instance_id'' (v ''instance_id'') instance_gone,
          emptied sl ''instance_ids'' (v ''instance_ids'') instance_gone,
          cleared sl ''volume_id'' (v ''volume_id'') (lr_volume_delete sc),
          emptied sl ''volume_ids'' (v ''volume_ids'') (\<lambda>i. bnd (lr_volume_delete sc i) (\<lambda>_. sleep 2)),
          cleared sl ''firewall_id'' (v ''firewall_id'')
            (\<lambda>i. bnd (lr_firewall_remove_all_router sc i) (\<lambda>_. lr_firewall_delete sc i)),
          (if truthy rule \<and> truthy policy then
             catch (lr_firewall_polcy_remove_rule sc policy rule) (\<lambda>e. Some (ret ())) else ret ()),
          cleared sl ''firewall_rule_id'' rule (lr_firewall_rule_delete sc),
          cleared sl ''firewall_policy_id'' policy (lr_firewall_policy_delete sc),
          cleared sl ''securitygroup_rule_id'' (v ''securitygroup_rule_id'') (lr_securitygroup_rule_delete sc),
          cleared sl ''securitygroup_id'' (v ''securitygroup_id'') (lr_securitygroup_delete sc),
          (if truthy router \<and> truthy subnet then lr_router_remove_internal_gw sc router subnet else ret ()),
          cleared sl ''subnet_gw_id'' gw
            (\<lambda>g. bnd (lift (getitem g ''router_id'')) (\<lambda>r. bnd (lift (getitem g ''subnet_id'')) (\<lambda>s.
                   lr_router_remove_internal_gw sc r s))),
          cleared sl ''subnet_id'' subnet (lr_subnet_delete sc),
          sleep 2,
          cleared sl ''network_id'' (v ''network_id'') (lr_network_delete sc),
          cleared sl ''router_id'' router (lr_router_delete sc),
          cleared sl ''floatingip_id'' (v ''floatingip_id'') (lr_floatingip_delete sc),
          emptied sl ''floatingip_ids'' (v ''floatingip_ids'') (lr_floatingip_delete sc)])"

definition env_value :: "(string, py) dict \<Rightarrow> string \<Rightarrow> py" where
  "env_value d k = (case dget d k of None \<Rightarrow> PNone | Some x \<Rightarrow> x)"

definition clear_env :: "'r script_conf \<Rightarrow> slot \<Rightarrow> ('r, 'x, unit) case_io" where
  "clear_env sc sl = bnd (gets (slot_get sl)) (\<lambda>d. for_each (clear_steps sc sl (env_value d)) (\<lambda>m. m))"

section \<open>The parts of the test cases\<close>

definition TEST_KEEP_ENV :: bool where "TEST_KEEP_ENV = True"

definition TEST_BOOT_VOLUME :: bool where "TEST_BOOT_VOLUME = True"

definition TEST_GUESTOS_PASSWD :: string where "TEST_GUESTOS_PASSWD = ''kingsoft123!@#''"

text \<open>A network with a subnet on a router; \<open>keep_name\<close> when the name of the network is kept too.\<close>

definition network_part ::
    "'r script_conf \<Rightarrow> bool \<Rightarrow> ('r, 'x, py \<times> py \<times> py) case_io" where
  "network_part sc keep_name =
     bnd (lr_network_create sc) (\<lambda>(network_id, network_name).
     bnd (put_env MainEnv ''network_id'' network_id) (\<lambda>_.
     bnd (if keep_name then put_env MainEnv ''network_name'' network_name else ret ()) (\<lambda>_.
     bnd (lr_subnet_create sc network_id TEST_SUBNET_CIDR) (\<lambda>subnet_id.
     bnd (put_env MainEnv ''subnet_id'' subnet_id) (\<lambda>_.
     bnd (lr_router_create sc) (\<lambda>router_id.
     bnd (put_env MainEnv ''router_id'' router_id) (\<lambda>_.
     bnd (lr_router_set_external_gw sc router_id) (\<lambda>_.
     bnd (lr_router_add_internal_gw sc router_id subnet_id) (\<lambda>_.
       ret (network_id, network_name, router_id))))))))))"

definition group_part :: "'r script_conf \<Rightarrow> ('r, 'x, py) case_io" where
  "group_part sc =
     bnd (lr_securitygroup_create sc) (\<lambda>i. bnd (put_env MainEnv ''securitygroup_id'' i) (\<lambda>_. ret i))"

definition rule_part :: "'r script_conf \<Rightarrow> py \<Rightarrow> ('r, 'x, py) case_io" where
  "rule_part sc group_id =
     bnd (lr_securitygroup_rule_create sc group_id) (\<lambda>i. bnd (put_env MainEnv ''securitygroup_rule_id'' i) (\<lambda>_. ret i))"

text \<open>A rule and a policy of the firewall, and the firewall on the router.\<close>

definition policy_part :: "'r script_conf \<Rightarrow> bool \<Rightarrow> ('r, 'x, py \<times> py) case_io" where
  "policy_part sc pingable =
     bnd (lr_firewall_rule_create sc pingable) (\<lambda>rule_id.
     bnd (put_env MainEnv ''firewall_rule_id'' rule_id) (\<lambda>_.
     bnd (lr_firewall_policy_create sc) (\<lambda>policy_id.
     bnd (put_env MainEnv ''firewall_policy_id'' policy_id) (\<lambda>_.
     bnd (lr_firewall_polcy_insert_rule sc policy_id rule_id) (\<lambda>_. ret (rule_id, policy_id))))))"

definition firewall_on :: "'r script_conf \<Rightarrow> py \<Rightarrow> py \<Rightarrow> ('r, 'x, py) case_io" where
  "firewall_on sc policy_id router_id =
     bnd (lr_firewall_create sc policy_id) (\<lambda>firewall_id.
     bnd (put_env MainEnv ''firewall_id'' firewall_id) (\<lambda>_.
     bnd (lr_firewall_change_router sc firewall_id router_id) (\<lambda>_.
     bnd (lr_firewall_wait sc firewall_id (PStr ''ACTIVE'')) (\<lambda>_. ret firewall_id))))"

text \<open>A volume, a server on it, and its floating address; the result is the fixed and the floating address.\<close>

definition server_part ::
    "'r script_conf \<Rightarrow> (('r, 'x) case_world_scheme) console \<Rightarrow> slot \<Rightarrow> py \<Rightarrow> py \<Rightarrow> py \<Rightarrow> py
     \<Rightarrow> ('r, 'x, py \<times> py) case_loop" where
  "server_part sc con sl network_id network_name group_id router_id =
     bnd_loop (io_loop (bnd (lr_volume_create sc) (\<lambda>i. bnd (put_env sl ''volume_id'' i) (\<lambda>_. ret i)))) (\<lambda>volume_id.
     bnd_loop (lr_volume_wait sc volume_id (PStr ''available'')) (\<lambda>_.
     io_loop
       (bnd (if TEST_BOOT_VOLUME then lr_instance_create_by_volume sc network_id group_id volume_id
             else lr_instance_create_by_image sc network_id group_id) (\<lambda>instance_id.
        bnd (put_env sl ''instance_id'' instance_id) (\<lambda>_.
        bnd (lr_instance_wait sc instance_id (PStr ''ACTIVE'')) (\<lambda>_.
        bnd (lr_instance_find_fix_ip sc instance_id network_name) (\<lambda>(ip, mac).
        bnd (lr_port_find_by_mac sc mac) (\<lambda>port_id.
        bnd (lr_floatingip_create sc port_id) (\<lambda>(floatingip_id, addr).
        bnd (put_env sl ''floatingip_id'' floatingip_id) (\<lambda>_.
        bnd (lr_refresh_arp_cache sc con addr router_id) (\<lambda>_. ret (ip, addr))))))))))))"

text \<open>The end of a test that passes, and the frame of a test: an exception is logged and means that it failed.\<close>

definition passing :: "'r script_conf \<Rightarrow> slot list \<Rightarrow> ('r, 'x, bool) case_loop" where
  "passing sc slots =
     io_loop (bnd (if TEST_KEEP_ENV then for_each slots (clear_env sc) else ret ()) (\<lambda>_. ret True))"

definition test_frame ::
    "'r script_conf \<Rightarrow> slot list \<Rightarrow> ('r, 'x, bool) case_loop \<Rightarrow> ('r, 'x, bool) case_loop" where
  "test_frame sc slots m =
     bnd_loop (io_loop (for_each slots (\<lambda>sl. modify (slot_upd sl (\<lambda>_. []))))) (\<lambda>_.
       finally_loop (catch_loop m (\<lambda>e. Some (io_loop (ret False))))
         (io_loop (if TEST_KEEP_ENV then ret () else for_each slots (clear_env sc))))"

text \<open>\<open>if not cmd_ping(...): return False\<close>.\<close>

definition unless_ping ::
    "(('r, 'x) case_world_scheme) console \<Rightarrow> bool \<Rightarrow> py \<Rightarrow> nat \<Rightarrow> ('r, 'x, bool) case_loop \<Rightarrow> ('r, 'x, bool) case_loop" where
  "unless_ping con wanted addr count k =
     bnd_loop (io_loop (lr_cmd_ping con addr count)) (\<lambda>ok. if ok = wanted then k else io_loop (ret False))"

section \<open>The test cases\<close>

definition testcase_basic ::
    "'r script_conf \<Rightarrow> (('r, 'x) case_world_scheme) console \<Rightarrow> ('r, 'x, bool) case_loop" where
  "testcase_basic sc con = test_frame sc [MainEnv]
     (bnd_loop (io_loop
        (bnd (network_part sc False) (\<lambda>(network_id, network_name, router_id).
         bnd (group_part sc) (\<lambda>group_id.
         bnd (rule_part sc group_id) (\<lambda>_.
         bnd (policy_part sc True) (\<lambda>(rule_id, policy_id).
         bnd (firewall_on sc policy_id router_id) (\<lambda>_. ret (network_id, network_name, router_id, group_id))))))))
        (\<lambda>(network_id, network_name, router_id, group_id).
      bnd_loop (server_part sc con MainEnv network_id network_name group_id router_id) (\<lambda>(ip, addr).
        unless_ping con True addr 20 (passing sc [MainEnv]))))"

text \<open>An address must not answer without the rule, must answer with it, and must not answer once it is gone.\<close>

definition testcase_securitygroup ::
    "'r script_conf \<Rightarrow> (('r, 'x) case_world_scheme) console \<Rightarrow> ('r, 'x, bool) case_loop" where
  "testcase_securitygroup sc con = test_frame sc [MainEnv]
     (bnd_loop (io_loop
        (bnd (network_part sc False) (\<lambda>(network_id, network_name, router_id).
         bnd (group_part sc) (\<lambda>group_id. ret (network_id, network_name, router_id, group_id)))))
        (\<lambda>(network_id, network_name, router_id, group_id).
      bnd_loop (server_part sc con MainEnv network_id network_name group_id router_id) (\<lambda>(ip, addr).
      bnd_loop (io_loop (sleep 20)) (\<lambda>_.
      unless_ping con False addr 5
        (bnd_loop (io_loop (rule_part sc group_id)) (\<lambda>rule_id.
         unless_ping con True addr 20
           (bnd_loop (io_loop
              (bnd (lr_securitygroup_rule_delete sc rule_id) (\<lambda>_.
               bnd (del_env MainEnv ''securitygroup_rule_id'') (\<lambda>_. sleep 20)))) (\<lambda>_.
            unless_ping con False addr 5 (passing sc [MainEnv])))))))))"

text \<open>A firewall that denies is replaced by one that allows.\<close>

definition testcase_fw ::
    "'r script_conf \<Rightarrow> (('r, 'x) case_world_scheme) console \<Rightarrow> ('r, 'x, bool) case_loop" where
  "testcase_fw sc con = test_frame sc [MainEnv]
     (bnd_loop (io_loop
        (bnd (network_part sc False) (\<lambda>(network_id, network_name, router_id).
         bnd (group_part sc) (\<lambda>group_id.
         bnd (rule_part sc group_id) (\<lambda>_.
         bnd (policy_part sc False) (\<lambda>(rule_id, policy_id).
         bnd (firewall_on sc policy_id router_id) (\<lambda>firewall_id.
           ret (network_id, network_name, router_id, group_id, rule_id, policy_id, firewall_id))))))))
        (\<lambda>(network_id, network_name, router_id, group_id, rule_id, policy_id, firewall_id).
      bnd_loop (server_part sc con MainEnv network_id network_name group_id router_id) (\<lambda>(ip, addr).
      unless_ping con False addr 5
        (bnd_loop (io_loop
           (bnd (policy_part sc True) (\<lambda>(new_rule, new_policy).
            bnd (lr_firewall_change_policy sc firewall_id new_policy) (\<lambda>_.
            bnd (lr_firewall_polcy_remove_rule sc policy_id rule_id) (\<lambda>_.
            bnd (lr_firewall_rule_delete sc rule_id) (\<lambda>_.
            bnd (lr_firewall_policy_delete sc policy_id) (\<lambda>_.
              lr_firewall_wait sc firewall_id (PStr ''ACTIVE'')))))))) (\<lambda>_.
         unless_ping con True addr 20 (passing sc [MainEnv]))))))"

definition testcase_connectivity_between_two_vlan ::
    "'r script_conf \<Rightarrow> (('r, 'x) case_world_scheme) console \<Rightarrow> ('r, 'x, bool) case_loop" where
  "testcase_connectivity_between_two_vlan sc con = test_frame sc [MinorEnv, MainEnv]
     (bnd_loop (io_loop
        (bnd (network_part sc False) (\<lambda>(network_id, network_name, router_id).
         bnd (group_part sc) (\<lambda>group_id.
         bnd (rule_part sc group_id) (\<lambda>_. ret (network_id, network_name, router_id, group_id))))))
        (\<lambda>(network_id, network_name, router_id, group_id).
      bnd_loop (server_part sc con MainEnv network_id network_name group_id router_id) (\<lambda>(ip, addr).
      unless_ping con True addr 20
        (bnd_loop (io_loop
           (bnd (lr_securitygroup_rule_create_tcp sc group_id) (\<lambda>tcp_rule.
            bnd (put_env MinorEnv ''securitygroup_rule_id'' tcp_rule) (\<lambda>_.
            bnd (lr_network_create sc) (\<lambda>(network2, name2).
            bnd (put_env MinorEnv ''network_id'' network2) (\<lambda>_.
            bnd (lr_subnet_create sc network2 (PStr ''192.168.1.0/24'')) (\<lambda>subnet2.
            bnd (put_env MinorEnv ''subnet_id'' subnet2) (\<lambda>_.
            bnd (lr_router_add_internal_gw sc router_id subnet2) (\<lambda>_.
            bnd (put_env MinorEnv ''subnet_gw_id'' (PDict [(''router_id'', router_id), (''subnet_id'', subnet2)])) (\<lambda>_.
              ret (network2, name2)))))))))))
           (\<lambda>(network2, name2).
         bnd_loop (server_part sc con MinorEnv network2 name2 group_id router_id) (\<lambda>(ip2, addr2).
         unless_ping con True addr2 20
           (bnd_loop (io_loop (bnd (lr_instance_wait_sshable sc con addr) (\<lambda>_.
              lr_cmd_ping_between_two_ip sc con addr ip2 TEST_GUESTOS_PASSWD))) (\<lambda>ok.
            if ok then passing sc [MinorEnv, MainEnv] else io_loop (ret False)))))))))"

section \<open>The long run\<close>

text \<open>\<open>create_Networkenv\<close>: the second rules are not kept in the dictionary. A failure is cleaned up, with an empty dictionary as the result.\<close>

definition create_Networkenv :: "'r script_conf \<Rightarrow> ('r, 'x, unit) case_io" where
  "create_Networkenv sc =
     bnd (modify (slot_upd MainEnv (\<lambda>_. []))) (\<lambda>_.
     catch
       (bnd (network_part sc True) (\<lambda>(network_id, network_name, router_id).
        bnd (group_part sc) (\<lambda>group_id.
        bnd (rule_part sc group_id) (\<lambda>_.
        bnd (lr_securitygroup_rule_create_tcp sc group_id) (\<lambda>_.
        bnd (lr_firewall_rule_create sc True) (\<lambda>rule_id.
        bnd (put_env MainEnv ''firewall_rule_id'' rule_id) (\<lambda>_.
        bnd (lr_firewall_rule_create_tcp sc True) (\<lambda>tcp_id.
        bnd (lr_firewall_policy_create sc) (\<lambda>policy_id.
        bnd (put_env MainEnv ''firewall_policy_id'' policy_id) (\<lambda>_.
        bnd (lr_firewall_polcy_insert_rule sc policy_id rule_id) (\<lambda>_.
        bnd (lr_firewall_polcy_insert_rule sc policy_id tcp_id) (\<lambda>_.
        bnd (firewall_on sc policy_id router_id) (\<lambda>_. ret ())))))))))))))
       (\<lambda>e. Some (bnd (clear_env sc MainEnv) (\<lambda>_. modify (slot_upd MainEnv (\<lambda>_. []))))))"

text \<open>\<open>while c: m\<close>; None when it never ends.\<close>

partial_function (option) while_loop :: "('w \<Rightarrow> bool) \<Rightarrow> ('w, unit) loopy \<Rightarrow> ('w, unit) loopy" where
  "while_loop c m w =
     (if c w then
        (case m w of
           None \<Rightarrow> None
         | Some (Inl e, v) \<Rightarrow> Some (Inl e, v)
         | Some (Inr u, v) \<Rightarrow> while_loop c m v)
      else Some (Inr (), w))"

definition instances_of :: "('r, 'x) case_world_scheme \<Rightarrow> py list" where
  "instances_of w = (case env_value (sw_env w) ''instances'' of PList xs \<Rightarrow> xs | _ \<Rightarrow> [])"

definition bound_instance :: "('r, 'x, py) case_io" where
  "bound_instance = bnd (gets sw_instance) (\<lambda>i. lift (bound i))"

text \<open>A new server of the long run; one that does not answer is left alone.\<close>

definition new_instance ::
    "'r script_conf \<Rightarrow> (('r, 'x) case_world_scheme) console \<Rightarrow> py \<Rightarrow> py \<Rightarrow> py \<Rightarrow> ('r, 'x, unit) case_io" where
  "new_instance sc con network_id group_id network_name =
     bnd (lr_instance_create_by_image sc network_id group_id) (\<lambda>i.
     bnd (modify (sw_instance_update (\<lambda>_. Some i))) (\<lambda>_.
     bnd (lr_instance_wait sc i (PStr ''ACTIVE'')) (\<lambda>_.
     bnd (lr_instance_find_fix_ip sc i network_name) (\<lambda>(ip, mac).
     bnd (lr_port_find_by_mac sc mac) (\<lambda>port_id.
     bnd (lr_floatingip_create sc port_id) (\<lambda>(floatingip_id, addr).
     bnd (lr_cmd_ping con addr 20) (\<lambda>ok.
       if \<not> ok then in_path i (\<lambda>_. ret ())
       else
         bnd (lr_instance_wait_sshable sc con addr) (\<lambda>_.
         bnd (monitor_user_login sc) (\<lambda>token.
         bnd (monitor_host_create sc token i ip) (\<lambda>_.
         bnd (gets instances_of) (\<lambda>xs.
           put_env MainEnv ''instances'' (PList (PList [i, floatingip_id, addr] # xs)))))))))))))"

text \<open>The oldest server is taken out of the list: stopped, started, resized, migrated, and deleted if it moved.\<close>

definition oldest_instance :: "('r, 'x, py \<times> py \<times> py) case_io" where
  "oldest_instance =
     bnd (gets instances_of) (\<lambda>xs.
       if xs = [] then throw IndexErr
       else
         bnd (put_env MainEnv ''instances'' (PList (butlast xs))) (\<lambda>_.
           case last xs of PList [i, f, a] \<Rightarrow> ret (i, f, a) | _ \<Rightarrow> throw TypeErr))"

definition exercise ::
    "'r script_conf \<Rightarrow> (('r, 'x) case_world_scheme) console \<Rightarrow> py \<Rightarrow> py \<Rightarrow> ('r, 'x, bool) case_io" where
  "exercise sc con i addr =
     (let ssh = lr_instance_wait_sshable sc con addr; become = (\<lambda>st. lr_instance_wait sc i (PStr st))
      in bnd ssh (\<lambda>_.
         bnd (lr_instance_stop sc i) (\<lambda>_. bnd (become ''SHUTOFF'') (\<lambda>_.
         bnd (lr_instance_start sc i) (\<lambda>_. bnd (become ''ACTIVE'') (\<lambda>_. bnd ssh (\<lambda>_.
         bnd (lr_instance_resize sc i (PStr ''4'')) (\<lambda>_. bnd (become ''VERIFY_RESIZE'') (\<lambda>_.
         bnd (lr_instance_resize_confirm sc i) (\<lambda>_. bnd (become ''ACTIVE'') (\<lambda>_. bnd ssh (\<lambda>_.
         bnd (lr_volume_create sc) (\<lambda>volume_id.
         bnd bound_instance (\<lambda>newest. bnd (lr_instance_volume_attach sc newest volume_id) (\<lambda>_.
         bnd (lr_instance_find_host sc i) (\<lambda>host_old.
         bnd (lr_instance_live_migrate sc i) (\<lambda>_. bnd (become ''ACTIVE'') (\<lambda>_. bnd ssh (\<lambda>_.
         bnd (lr_instance_find_host sc i) (\<lambda>host_new.
         in_path host_old (\<lambda>a. in_path host_new (\<lambda>b. ret (a \<noteq> b)))))))))))))))))))))))"

definition long_run_round ::
    "'r script_conf \<Rightarrow> (('r, 'x) case_world_scheme) console \<Rightarrow> ('r, 'x, unit) case_loop" where
  "long_run_round sc con =
     bnd_loop (io_loop (gets (\<lambda>w. env_value (sw_env w)))) (\<lambda>v.
     bnd_loop (while_loop (\<lambda>w. length (instances_of w) < 30)
       (io_loop (new_instance sc con (v ''network_id'') (v ''securitygroup_id'') (v ''network_name'')))) (\<lambda>_.
     io_loop
       (bnd (sleep 180) (\<lambda>_.
        bnd oldest_instance (\<lambda>(i, floatingip_id, addr).
        bnd (exercise sc con i addr) (\<lambda>moved.
          if \<not> moved then ret ()
          else
            bnd (lr_instance_delete sc i) (\<lambda>_.
            bnd (lr_instance_wait sc i PNone) (\<lambda>_. lr_floatingip_delete sc floatingip_id))))))))"

definition testcase_vm_mul_create_delete ::
    "'r script_conf \<Rightarrow> (('r, 'x) case_world_scheme) console \<Rightarrow> ('r, 'x, unit) case_loop" where
  "testcase_vm_mul_create_delete sc con =
     bnd_loop (io_loop
       (bnd (create_Networkenv sc) (\<lambda>_.
        bnd (put_env MainEnv ''instances'' (PList [])) (\<lambda>_. modify (sw_instance_update (\<lambda>_. None)))))) (\<lambda>_.
       while_loop (\<lambda>_. True) (ignoring (long_run_round sc con)))"

section \<open>Running the cases\<close>

text \<open>The cases of a round, until one fails: how they ended, and whether the run is over.\<close>

primrec run_in_turn :: "('w, bool) loopy list \<Rightarrow> ('w, bool list \<times> bool) loopy" where
  "run_in_turn [] = io_loop (ret ([], False))"
| "run_in_turn (c # cs) =
     bnd_loop c (\<lambda>ok.
       if \<not> ok \<and> TEST_KEEP_ENV then io_loop (ret ([False], True))
       else bnd_loop (run_in_turn cs) (\<lambda>(oks, over). io_loop (ret (ok # oks, over))))"

primrec tally :: "nat list \<Rightarrow> bool list \<Rightarrow> nat list" where
  "tally [] oks = []"
| "tally (n # ns) oks = (case oks of [] \<Rightarrow> n # ns | ok # rest \<Rightarrow> (if ok then n + 1 else n) # tally ns rest)"

definition TEST_RUN_COUNT :: nat where "TEST_RUN_COUNT = 1"

text \<open>The result is the number of rounds begun and the successes of the four cases.\<close>

primrec run_rounds :: "('w, bool) loopy list \<Rightarrow> nat \<Rightarrow> nat \<Rightarrow> nat list \<Rightarrow> ('w, nat \<times> nat list) loopy" where
  "run_rounds cs 0 i ns = io_loop (ret (i, ns))"
| "run_rounds cs (Suc left) i ns =
     bnd_loop (run_in_turn cs) (\<lambda>(oks, over).
       if over then io_loop (ret (Suc i, tally ns oks)) else run_rounds cs left (Suc i) (tally ns oks))"

definition run_script ::
    "'r script_conf \<Rightarrow> (('r, 'x) case_world_scheme) console \<Rightarrow> ('r, 'x, nat \<times> nat list) case_loop" where
  "run_script sc con =
     run_rounds [testcase_basic sc con, testcase_securitygroup sc con, testcase_fw sc con,
       testcase_connectivity_between_two_vlan sc con] TEST_RUN_COUNT 0 [0, 0, 0, 0]"

section \<open>What the operations leave alone\<close>

text \<open>
  What requests, pauses and a change of the token keep, the operations of the scripts keep.
\<close>

locale script_kept = kept R
  for R :: "('r, 'x) token_world_scheme \<Rightarrow> ('r, 'x) token_world_scheme \<Rightarrow> bool" +
  assumes request: "within R (http_send srv rq)"
    and nap: "within R (sleep n)"
    and new_token: "within R (modify (sw_token_update f))"
begin

lemmas sk_steps = steps request nap new_token

lemma sk_requests:
  "within R (send_http_request sc m u b hs)" "within R (get_Token sc lg)" "within R (http_attempt sc m u b)"
  unfolding send_http_request_def get_Token_def http_attempt_def Let_def
  by (auto intro!: sk_steps split: prod.splits)

lemma sk_http_call: "within R (http_call sc lg m u b n)"
  by (induction n) (auto simp only: http_call.simps intro!: sk_steps sk_requests split: prod.splits if_splits)

lemma sk_shared:
  "within R (lr_http_post sc u d)" "within R (lr_http_put sc u d)"
  "within R (lr_http_get sc u)" "within R (lr_http_delete sc u)"
  "within R (must_be c m r)" "within R (part_of sc ks t)"
  unfolding lr_http_post_def lr_http_put_def lr_http_get_def lr_http_delete_def must_be_def part_of_def
  by (auto intro!: sk_http_call sk_steps)

lemma sk_in_path: "(\<And>t. within R (k t)) \<Longrightarrow> within R (in_path i k)"
  unfolding in_path_def by (intro sk_steps)

lemma sk_operations: "within R (lr_delete sc u i c m)" "within R (lr_update sc u i t d m)"
  unfolding lr_delete_def lr_update_def by (intro sk_in_path sk_steps sk_shared)+

lemma sk_instance_rounds: "within R (lr_instance_rounds sc u st n)"
  by (induction n) (auto simp only: lr_instance_rounds.simps intro!: sk_steps sk_shared split: prod.splits if_splits)

lemma sk_waits: "within R (lr_instance_wait sc i st)"
  unfolding lr_instance_wait_def by (intro sk_in_path sk_instance_rounds)

lemma sk_deleted:
  "within R (lr_volume_delete sc i)" "within R (lr_instance_delete sc i)"
  "within R (lr_firewall_delete sc i)" "within R (lr_firewall_rule_delete sc i)"
  "within R (lr_firewall_policy_delete sc i)" "within R (lr_securitygroup_rule_delete sc i)"
  "within R (lr_securitygroup_delete sc i)" "within R (lr_subnet_delete sc i)"
  "within R (lr_network_delete sc i)" "within R (lr_router_delete sc i)"
  "within R (lr_floatingip_delete sc i)"
  "within R (bnd (lr_instance_delete sc i) (\<lambda>_. lr_instance_wait sc i st))"
  "within R (bnd (lr_volume_delete sc i) (\<lambda>_. sleep n))"
  unfolding lr_volume_delete_def lr_instance_delete_def lr_firewall_delete_def lr_firewall_rule_delete_def
    lr_firewall_policy_delete_def lr_securitygroup_rule_delete_def lr_securitygroup_delete_def lr_subnet_delete_def
    lr_network_delete_def lr_router_delete_def lr_floatingip_delete_def
  by (intro sk_operations sk_steps sk_waits sk_shared)+

lemma sk_removed:
  "within R (bnd (lr_firewall_remove_all_router sc i) (\<lambda>_. lr_firewall_delete sc i))"
  "within R (if c then catch (lr_firewall_polcy_remove_rule sc p r) (\<lambda>e. Some (ret ())) else ret ())"
  "within R (if c then lr_router_remove_internal_gw sc p r else ret ())"
  "within R (bnd (lift a) (\<lambda>r. bnd (lift b) (\<lambda>s. lr_router_remove_internal_gw sc r s)))"
  unfolding lr_firewall_remove_all_router_def lr_firewall_delete_def lr_firewall_polcy_remove_rule_def
    lr_router_remove_internal_gw_def
  by (auto intro!: sk_operations sk_steps)

end

text \<open>The dictionaries stay as they are, and what was sent stays sent.\<close>

definition same_envs :: "('r, 'x) case_world_scheme \<Rightarrow> ('r, 'x) case_world_scheme \<Rightarrow> bool" where
  "same_envs w w' = ((\<forall>sl. slot_get sl w' = slot_get sl w) \<and> (\<exists>rs. sent w' = sent w @ rs))"

lemma slot_frame:
  "slot_get sl (w\<lparr>now := a, remote := b, sent := c\<rparr>) = slot_get sl w"
  "slot_get sl (w\<lparr>now := a, naps := n\<rparr>) = slot_get sl w"
  "slot_get sl (sw_token_update f w) = slot_get sl w"
  by (cases sl; simp)+

lemma sent_token: "sent (sw_token_update f w) = sent w"
  by simp

interpretation env_kept: script_kept same_envs
proof
  fix u v w :: "('r, 'x) case_world_scheme"
  show "same_envs w w" by (simp add: same_envs_def)
  show "same_envs u v \<Longrightarrow> same_envs v w \<Longrightarrow> same_envs u w" by (auto simp: same_envs_def)
next
  fix srv :: "'r server" and rq and n and f
  show "within same_envs (http_send srv rq)"
    by (simp add: within_def http_send_def same_envs_def slot_frame split: prod.splits)
  show "within same_envs (sleep n)"
    by (simp add: within_def sleep_def same_envs_def slot_frame)
  show "within same_envs (modify (sw_token_update f))"
    by (simp add: within_def same_envs_def slot_frame sent_token)
qed

lemmas env_steps = env_kept.sk_steps
lemmas env_shared = env_kept.sk_shared
lemmas env_deleted = env_kept.sk_deleted
lemmas env_removed = env_kept.sk_removed

section \<open>What the clean-up guarantees\<close>

text \<open>A key of the dictionary is dead when it is missing, or its value is None or an empty list.\<close>

definition dead :: "slot \<Rightarrow> string \<Rightarrow> ('r, 'x) case_world_scheme \<Rightarrow> bool" where
  "dead sl k w = (\<not> truthy (env_value (slot_get sl w) k))"

text \<open>
  Starting where what was not there at the beginning is dead, \<open>m\<close> leaves the keys \<open>ks\<close> dead when it returns, and what
  was dead stays dead.
\<close>

definition clears :: "slot \<Rightarrow> (string \<Rightarrow> py) \<Rightarrow> string set \<Rightarrow> ('r, 'x, unit) case_io \<Rightarrow> bool" where
  "clears sl v ks m =
     (\<forall>w w'. m w = (Inr (), w') \<longrightarrow> (\<forall>k. \<not> truthy (v k) \<longrightarrow> dead sl k w)
        \<longrightarrow> (\<forall>k. k \<in> ks \<or> dead sl k w \<longrightarrow> dead sl k w'))"

lemma clears_bnd:
  assumes "clears sl v ks m" "clears sl v ls m'"
  shows "clears sl v (ks \<union> ls) (bnd m (\<lambda>_. m'))"
  unfolding clears_def
proof (intro allI impI)
  fix w w' k
  assume run: "bnd m (\<lambda>_. m') w = (Inr (), w')" and start: "\<forall>k. \<not> truthy (v k) \<longrightarrow> dead sl k w"
    and k: "k \<in> ks \<union> ls \<or> dead sl k w"
  obtain u where u: "m w = (Inr (), u)" "m' u = (Inr (), w')" using run by (auto elim: bnd_InrE)
  have mid: "\<And>k. k \<in> ks \<or> dead sl k w \<Longrightarrow> dead sl k u" using assms(1) u(1) start unfolding clears_def by blast
  with assms(2) u(2) start k show "dead sl k w'" unfolding clears_def by blast
qed

lemma clears_quiet: "within same_envs m \<Longrightarrow> clears sl v {} m"
  unfolding clears_def by (auto dest!: withinD simp: same_envs_def dead_def)

lemma clears_each:
  "list_all2 (clears sl v) kss ms \<Longrightarrow> clears sl v (\<Union> (set kss)) (for_each ms (\<lambda>m. m))"
proof (induction rule: list_all2_induct)
  case Nil
  then show ?case by (simp add: clears_def)
next
  case (Cons ks kss m ms)
  then show ?case by (simp add: clears_bnd)
qed

lemma slot_upd_get: "slot_get sl (slot_upd sl f w) = f (slot_get sl w)"
  by (cases sl) simp_all

lemma env_value_set: "env_value (dset d k v) k' = (if k' = k then v else env_value d k')"
  by (simp add: env_value_def)

lemma env_value_del: "env_value (ddel d k) k' = (if k' = k then PNone else env_value d k')"
  by (simp add: env_value_def)

lemma clears_cleared:
  assumes "within same_envs (f (v k))"
  shows "clears sl v {k} (cleared sl k (v k) f)"
  using assms unfolding clears_def cleared_def
  by (auto elim!: bnd_InrE dest!: withinD
      simp: same_envs_def dead_def del_env_def slot_upd_get env_value_del split: if_splits)

lemma drain_dead:
  assumes "\<And>x. within same_envs (f x)" "drain sl k f xs w = (Inr (), w')"
  shows "dead sl k w \<or> xs \<noteq> [] \<Longrightarrow> dead sl k w'" "k' \<noteq> k \<Longrightarrow> dead sl k' w \<Longrightarrow> dead sl k' w'"
proof -
  have "(dead sl k w \<or> xs \<noteq> [] \<longrightarrow> dead sl k w') \<and> (k' \<noteq> k \<longrightarrow> dead sl k' w \<longrightarrow> dead sl k' w')"
    using assms(2)
  proof (induction xs arbitrary: w)
    case Nil
    then show ?case by simp
  next
    case (Cons x xs)
    obtain u where u: "f x (slot_upd sl (\<lambda>d. dset d k (PList (rev xs))) w) = (Inr (), u)" "drain sl k f xs u = (Inr (), w')"
      using Cons.prems by (auto simp: put_env_def elim!: bnd_InrE)
    have same: "slot_get sl u = dset (slot_get sl w) k (PList (rev xs))"
      using withinD [OF assms(1) u(1)] by (simp add: same_envs_def slot_upd_get)
    then have "xs = [] \<longrightarrow> dead sl k u" "k' \<noteq> k \<longrightarrow> dead sl k' u = dead sl k' w"
      by (simp_all add: dead_def env_value_set)
    with Cons.IH [OF u(2)] show ?case by auto
  qed
  then show "dead sl k w \<or> xs \<noteq> [] \<Longrightarrow> dead sl k w'" "k' \<noteq> k \<Longrightarrow> dead sl k' w \<Longrightarrow> dead sl k' w'" by auto
qed

lemma clears_emptied:
  assumes "\<And>x. within same_envs (f x)"
  shows "clears sl v {k} (emptied sl k (v k) f)"
  unfolding clears_def
proof (intro allI impI)
  fix w w' k'
  assume run: "emptied sl k (v k) f w = (Inr (), w')" and start: "\<forall>k. \<not> truthy (v k) \<longrightarrow> dead sl k w"
    and k': "k' \<in> {k} \<or> dead sl k' w"
  show "dead sl k' w'"
  proof (cases "truthy (v k)")
    case False
    with run start k' show ?thesis by (auto simp: emptied_def)
  next
    case True
    then obtain xs where xs: "v k = PList xs" "drain sl k f (rev xs) w = (Inr (), w')"
      using run by (auto simp: emptied_def drain_list_def split: py.splits)
    with True have "rev xs \<noteq> []" by simp
    with drain_dead [OF assms xs(2)] k' show ?thesis by (cases "k' = k") auto
  qed
qed

definition resource_keys :: "string list" where
  "resource_keys =
     [''instance_id'', ''instance_ids'', ''volume_id'', ''volume_ids'', ''firewall_id'', ''firewall_rule_id'',
      ''firewall_policy_id'', ''securitygroup_rule_id'', ''securitygroup_id'', ''subnet_gw_id'', ''subnet_id'', ''network_id'',
      ''router_id'', ''floatingip_id'', ''floatingip_ids'']"

lemma clear_steps_clear: "clears sl v (set resource_keys) (for_each (clear_steps sc sl v) (\<lambda>m. m))"
proof -
  have all: "list_all2 (clears sl v)
      [{''instance_id''}, {''instance_ids''}, {''volume_id''}, {''volume_ids''}, {''firewall_id''}, {}, {''firewall_rule_id''},
       {''firewall_policy_id''}, {''securitygroup_rule_id''}, {''securitygroup_id''}, {}, {''subnet_gw_id''}, {''subnet_id''}, {},
       {''network_id''}, {''router_id''}, {''floatingip_id''}, {''floatingip_ids''}]
      (clear_steps sc sl v)"
    unfolding clear_steps_def Let_def
    by (simp only: list_all2_Cons list_all2_Nil simp_thms HOL.if_True)
      (intro conjI clears_cleared clears_emptied clears_quiet env_deleted env_removed env_steps)
  have "(\<Union> (set [{''instance_id''}, {''instance_ids''}, {''volume_id''}, {''volume_ids''}, {''firewall_id''}, {}, {''firewall_rule_id''},
       {''firewall_policy_id''}, {''securitygroup_rule_id''}, {''securitygroup_id''}, {}, {''subnet_gw_id''}, {''subnet_id''}, {},
       {''network_id''}, {''router_id''}, {''floatingip_id''}, {''floatingip_ids''}])) = set resource_keys"
    by (simp add: resource_keys_def insert_commute)
  with clears_each [OF all] show ?thesis by simp
qed

lemma clear_env_lists:
  assumes "clear_env sc sl w = (Inr (), w')"
  shows "\<forall>k \<in> set resource_keys. \<not> truthy (env_value (slot_get sl w') k)"
proof -
  have "for_each (clear_steps sc sl (env_value (slot_get sl w))) (\<lambda>m. m) w = (Inr (), w')"
    using assms by (simp add: clear_env_def bnd_def)
  moreover have "\<forall>k. \<not> truthy (env_value (slot_get sl w) k) \<longrightarrow> dead sl k w" by (simp add: dead_def)
  ultimately show ?thesis
    using clear_steps_clear [of sl "env_value (slot_get sl w)" sc] unfolding clears_def dead_def by blast
qed

text \<open>
  Between \<open>w\<close> and \<open>w'\<close> the deletion of a resource was requested and answered with the code that confirms it. The
  requests of the run are the end of the list of all that were sent.
\<close>

definition confirmed ::
    "'r script_conf \<Rightarrow> string \<Rightarrow> int \<Rightarrow> py \<Rightarrow> ('r, 'x) case_world_scheme \<Rightarrow> ('r, 'x) case_world_scheme \<Rightarrow> bool" where
  "confirmed sc url code x w w' =
     (\<exists>(u :: ('r, 'x) case_world_scheme) u' text before after.
        http_attempt sc ''DELETE'' (url @ id_text (sc_env sc) x) None u = (Inr (code, text), u')
        \<and> sent u = sent w @ before \<and> sent w' = sent u' @ after)"

text \<open>The keys with one resource, and those with a list of them: where it is deleted, and what confirms it.\<close>

definition single_resources :: "(string \<times> string \<times> int) list" where
  "single_resources =
     [(''instance_id'', lr_servers @ ''/'', 204), (''volume_id'', lr_volumes @ ''/'', 202),
      (''firewall_id'', lr_firewalls @ ''/'', 204), (''firewall_rule_id'', NEUTRON_BASE_URL @ ''/fw/firewall_rules/'', 204),
      (''firewall_policy_id'', lr_policies, 204),
      (''securitygroup_rule_id'', NEUTRON_BASE_URL @ ''/security-group-rules/'', 204),
      (''securitygroup_id'', NEUTRON_BASE_URL @ ''/security-groups/'', 204),
      (''subnet_id'', NEUTRON_BASE_URL @ ''/subnets/'', 204), (''network_id'', NEUTRON_BASE_URL @ ''/networks/'', 204),
      (''router_id'', NEUTRON_BASE_URL @ ''/routers/'', 204),
      (''floatingip_id'', NEUTRON_BASE_URL @ ''/floatingips/'', 204)]"

definition listed_resources :: "(string \<times> string \<times> int) list" where
  "listed_resources =
     [(''instance_ids'', lr_servers @ ''/'', 204), (''volume_ids'', lr_volumes @ ''/'', 202),
      (''floatingip_ids'', NEUTRON_BASE_URL @ ''/floatingips/'', 204)]"

definition elements_of :: "py \<Rightarrow> py list" where
  "elements_of v = (case v of PList xs \<Rightarrow> xs | _ \<Rightarrow> [])"

definition single_due :: "(string \<Rightarrow> py) \<Rightarrow> string \<Rightarrow> string \<Rightarrow> int \<Rightarrow> (string \<times> int \<times> py) set" where
  "single_due v k url code = (if truthy (v k) then {(url, code, v k)} else {})"

definition listed_due :: "(string \<Rightarrow> py) \<Rightarrow> string \<Rightarrow> string \<Rightarrow> int \<Rightarrow> (string \<times> int \<times> py) set" where
  "listed_due v k url code = {(url, code, x) | x. x \<in> set (elements_of (v k))}"

definition due_deletions :: "(string \<Rightarrow> py) \<Rightarrow> (string \<times> int \<times> py) set" where
  "due_deletions v =
     (\<Union>(k, url, code) \<in> set single_resources. single_due v k url code)
     \<union> (\<Union>(k, url, code) \<in> set listed_resources. listed_due v k url code)"

lemma due_deletionsI:
  "(k, url, code) \<in> set single_resources \<Longrightarrow> truthy (v k) \<Longrightarrow> (url, code, v k) \<in> due_deletions v"
  "(k, url, code) \<in> set listed_resources \<Longrightarrow> x \<in> set (elements_of (v k)) \<Longrightarrow> (url, code, x) \<in> due_deletions v"
  unfolding due_deletions_def single_due_def listed_due_def by fastforce+

text \<open>A computation that, when it returns, has had the deletions \<open>C\<close> confirmed.\<close>

definition confirms :: "'r script_conf \<Rightarrow> (string \<times> int \<times> py) set \<Rightarrow> ('r, 'x, 'a) case_io \<Rightarrow> bool" where
  "confirms sc C m =
     (\<forall>w x w'. m w = (Inr x, w') \<longrightarrow> (\<exists>rs. sent w' = sent w @ rs)
        \<and> (\<forall>url code i. (url, code, i) \<in> C \<longrightarrow> confirmed sc url code i w w'))"

lemma confirmed_later:
  fixes u u' w w' :: "('r, 'x) case_world_scheme"
  assumes "confirmed sc url code i u u'" and u: "sent u = sent w @ rs" "sent w' = sent u' @ ss"
  shows "confirmed sc url code i w w'"
proof -
  obtain v v' :: "('r, 'x) case_world_scheme" and tx before after where
    "http_attempt sc ''DELETE'' (url @ id_text (sc_env sc) i) None v = (Inr (code, tx), v')"
    "sent v = sent u @ before" "sent u' = sent v' @ after"
    using assms(1) unfolding confirmed_def by blast
  with u show ?thesis unfolding confirmed_def by (metis append_assoc)
qed

lemma confirms_bnd:
  assumes "confirms sc C m" "\<And>x. confirms sc D (f x)"
  shows "confirms sc (C \<union> D) (bnd m f)"
  unfolding confirms_def
proof (intro allI impI)
  fix w y w'
  assume "bnd m f w = (Inr y, w')"
  then obtain x u where u: "m w = (Inr x, u)" "f x u = (Inr y, w')" by (rule bnd_InrE)
  obtain rs where rs: "sent u = sent w @ rs" "\<And>url code i. (url, code, i) \<in> C \<Longrightarrow> confirmed sc url code i w u"
    using assms(1) u(1) unfolding confirms_def by blast
  obtain ss where ss: "sent w' = sent u @ ss" "\<And>url code i. (url, code, i) \<in> D \<Longrightarrow> confirmed sc url code i u w'"
    using assms(2) u(2) unfolding confirms_def by blast
  have "confirmed sc url code i w w'" if "(url, code, i) \<in> C" for url code i
    by (rule confirmed_later [OF rs(2) [OF that], of w "[]"]) (simp_all add: ss(1))
  moreover have "confirmed sc url code i w w'" if "(url, code, i) \<in> D" for url code i
    by (rule confirmed_later [OF ss(2) [OF that] rs(1), of w' "[]"]) simp
  ultimately show "(\<exists>rs. sent w' = sent w @ rs)
      \<and> (\<forall>url code i. (url, code, i) \<in> C \<union> D \<longrightarrow> confirmed sc url code i w w')"
    using rs(1) ss(1) by auto
qed

lemma confirms_quiet: "within same_envs m \<Longrightarrow> confirms sc {} m"
  unfolding confirms_def by (auto dest!: withinD simp: same_envs_def)

lemma confirms_less: "confirms sc C m \<Longrightarrow> D \<subseteq> C \<Longrightarrow> confirms sc D m"
  unfolding confirms_def by blast

lemma confirms_after:
  assumes "within same_envs m" "\<And>x. confirms sc C (f x)"
  shows "confirms sc C (bnd m f)"
  using confirms_bnd [OF confirms_quiet [OF assms(1)] assms(2)] by simp

lemma confirms_before:
  assumes "confirms sc C m" "\<And>x. within same_envs (f x)"
  shows "confirms sc C (bnd m f)"
  using confirms_bnd [OF assms(1) confirms_quiet [OF assms(2)]] by simp

text \<open>A call that returned: its last attempt was answered with the code that it returns.\<close>

lemma http_call_answered:
  fixes w w' :: "('r, 'x) case_world_scheme"
  assumes "http_call sc lg m url body n w = (Inr (code, text), w')"
  obtains u before where "http_attempt sc m url body u = (Inr (code, text), w')" "sent u = sent w @ before"
proof -
  have "\<exists>u before. http_attempt sc m url body u = (Inr (code, text), w') \<and> sent u = sent w @ before"
    using assms
  proof (induction n arbitrary: w)
    case (Suc n)
    from Suc.prems obtain st tx v where v: "http_attempt sc m url body w = (Inr (st, tx), v)"
      and rest: "(if st = 401 then bnd (get_Token sc lg) (\<lambda>_. http_call sc lg m url body n) else ret (st, tx)) v
        = (Inr (code, text), w')"
      by (auto elim!: bnd_InrE)
    obtain first where first: "sent v = sent w @ first"
      using withinD [OF env_kept.sk_requests(3) v] by (auto simp: same_envs_def)
    show ?case
    proof (cases "st = 401")
      case True
      with rest obtain x v1 where v1: "get_Token sc lg v = (Inr x, v1)" "http_call sc lg m url body n v1 = (Inr (code, text), w')"
        by (auto elim!: bnd_InrE)
      obtain second where "sent v1 = sent v @ second"
        using withinD [OF env_kept.sk_requests(2) v1(1)] by (auto simp: same_envs_def)
      with Suc.IH [OF v1(2)] first show ?thesis by fastforce
    next
      case False
      with v rest show ?thesis by auto
    qed
  qed simp
  with that show thesis by blast
qed

lemma confirms_call:
  assumes "url @ t = base @ id_text (sc_env sc) i"
  shows "confirms sc {(base, code, i)}
     (bnd (lr_http_delete sc (url @ t)) (\<lambda>r. bnd (must_be code msg r) (\<lambda>_. ret ())) :: ('r, 'x, unit) case_io)"
  unfolding confirms_def
proof (intro allI impI)
  fix w w' :: "('r, 'x) case_world_scheme" and x
  assume run: "bnd (lr_http_delete sc (url @ t)) (\<lambda>r. bnd (must_be code msg r) (\<lambda>_. ret ())) w = (Inr x, w')"
  then obtain tx where call: "lr_http_delete sc (url @ t) w = (Inr (code, tx), w')"
    by (auto elim!: bnd_InrE simp: must_be_def split: if_splits)
  obtain u before where "http_attempt sc ''DELETE'' (url @ t) None u = (Inr (code, tx), w')" "sent u = sent w @ before"
    using call unfolding lr_http_delete_def by (rule http_call_answered)
  then have "confirmed sc base code i w w'"
    unfolding confirmed_def assms [symmetric] by (metis append_Nil2)
  moreover have "\<exists>rs. sent w' = sent w @ rs"
    using withinD [OF env_shared(4) call] by (auto simp: same_envs_def)
  ultimately show "(\<exists>rs. sent w' = sent w @ rs)
      \<and> (\<forall>url code' j. (url, code', j) \<in> {(base, code, i)} \<longrightarrow> confirmed sc url code' j w w')"
    by simp
qed

lemma confirms_lr_delete: "confirms sc {(url, code, i)} (lr_delete sc url i code msg)"
proof (cases i)
  case (PStr s)
  then show ?thesis
    using confirms_call [of url s url sc i code msg]
    by (simp add: lr_delete_def in_path_def id_text_def bnd_def)
qed (simp_all add: lr_delete_def in_path_def confirms_def bnd_def)

lemma confirms_operations:
  "confirms sc {(lr_servers @ ''/'', 204, i)} (bnd (lr_instance_delete sc i) (\<lambda>_. lr_instance_wait sc i PNone))"
  "confirms sc {(lr_volumes @ ''/'', 202, i)} (lr_volume_delete sc i)"
  "confirms sc {(lr_volumes @ ''/'', 202, i)} (bnd (lr_volume_delete sc i) (\<lambda>_. sleep 2))"
  "confirms sc {(lr_firewalls @ ''/'', 204, i)} (bnd (lr_firewall_remove_all_router sc i) (\<lambda>_. lr_firewall_delete sc i))"
  "confirms sc {(NEUTRON_BASE_URL @ ''/fw/firewall_rules/'', 204, i)} (lr_firewall_rule_delete sc i)"
  "confirms sc {(lr_policies, 204, i)} (lr_firewall_policy_delete sc i)"
  "confirms sc {(NEUTRON_BASE_URL @ ''/security-group-rules/'', 204, i)} (lr_securitygroup_rule_delete sc i)"
  "confirms sc {(NEUTRON_BASE_URL @ ''/security-groups/'', 204, i)} (lr_securitygroup_delete sc i)"
  "confirms sc {(NEUTRON_BASE_URL @ ''/subnets/'', 204, i)} (lr_subnet_delete sc i)"
  "confirms sc {(NEUTRON_BASE_URL @ ''/networks/'', 204, i)} (lr_network_delete sc i)"
  "confirms sc {(NEUTRON_BASE_URL @ ''/routers/'', 204, i)} (lr_router_delete sc i)"
  "confirms sc {(NEUTRON_BASE_URL @ ''/floatingips/'', 204, i)} (lr_floatingip_delete sc i)"
proof -
  show volume: "confirms sc {(lr_volumes @ ''/'', 202, i)} (lr_volume_delete sc i)"
    unfolding lr_volume_delete_def by (rule confirms_call) simp
  show "confirms sc {(lr_volumes @ ''/'', 202, i)} (bnd (lr_volume_delete sc i) (\<lambda>_. sleep 2))"
    by (rule confirms_before [OF volume env_kept.nap])
  show "confirms sc {(lr_firewalls @ ''/'', 204, i)} (bnd (lr_firewall_remove_all_router sc i) (\<lambda>_. lr_firewall_delete sc i))"
    unfolding lr_firewall_remove_all_router_def lr_firewall_delete_def
    by (rule confirms_after [OF env_kept.sk_operations(2) confirms_lr_delete])
qed (unfold lr_instance_delete_def lr_firewall_rule_delete_def lr_firewall_policy_delete_def
      lr_securitygroup_rule_delete_def lr_securitygroup_delete_def lr_subnet_delete_def lr_network_delete_def
      lr_router_delete_def lr_floatingip_delete_def,
    (rule confirms_lr_delete confirms_before [OF confirms_lr_delete env_kept.sk_waits])+)

lemma sent_slot: "sent (slot_upd sl f w) = sent w"
  by (cases sl) simp_all

lemma confirms_slot: "confirms sc {} (put_env sl k x)" "confirms sc {} (del_env sl k)"
  by (auto simp: confirms_def put_env_def del_env_def sent_slot)

lemma confirms_cleared:
  assumes "\<And>i. confirms sc {(url, code, i)} (f i)"
  shows "confirms sc (single_due v k url code) (cleared sl k (v k) f)"
proof (cases "truthy (v k)")
  case True
  then show ?thesis
    using confirms_bnd [OF assms confirms_slot(2)] by (simp add: single_due_def cleared_def)
next
  case False
  then show ?thesis by (simp add: single_due_def cleared_def confirms_def)
qed

lemma confirms_drain:
  assumes "\<And>i. confirms sc {(url, code, i)} (f i)"
  shows "confirms sc {(url, code, x) | x. x \<in> set xs} (drain sl k f xs)"
proof (induction xs)
  case Nil
  then show ?case by (simp add: confirms_def)
next
  case (Cons x xs)
  have "confirms sc ({} \<union> ({(url, code, x)} \<union> {(url, code, x) | x. x \<in> set xs})) (drain sl k f (x # xs))"
    unfolding drain.simps by (intro confirms_bnd confirms_slot assms Cons.IH)
  then show ?case by (rule confirms_less) auto
qed

lemma confirms_emptied:
  assumes "\<And>i. confirms sc {(url, code, i)} (f i)"
  shows "confirms sc (listed_due v k url code) (emptied sl k (v k) f)"
proof (cases "truthy (v k)")
  case True
  show ?thesis
  proof (cases "v k")
    case (PList xs)
    then show ?thesis
      using True confirms_drain [OF assms, of "rev xs"]
      by (simp add: listed_due_def elements_of_def emptied_def drain_list_def)
  qed (use True in \<open>simp_all add: emptied_def drain_list_def confirms_def\<close>)
next
  case False
  then show ?thesis
    by (cases "v k") (simp_all add: listed_due_def elements_of_def emptied_def confirms_def)
qed

lemma confirms_each:
  "list_all2 (confirms sc) Cs ms \<Longrightarrow> confirms sc (\<Union> (set Cs)) (for_each ms (\<lambda>m. m))"
proof (induction rule: list_all2_induct)
  case Nil
  then show ?case by (simp add: confirms_def)
next
  case (Cons C Cs m ms)
  then show ?case by (simp add: confirms_bnd)
qed

lemma confirms_removals:
  "confirms sc {} (if c then catch (lr_firewall_polcy_remove_rule sc p r) (\<lambda>e. Some (ret ())) else ret ())"
  "confirms sc {} (if c then lr_router_remove_internal_gw sc p r else ret ())"
  "confirms sc {} (sleep 2)"
  by (intro confirms_quiet env_removed env_kept.nap)+

lemma confirms_gateway:
  "confirms sc {} (cleared sl k g (\<lambda>g. bnd (lift (getitem g a)) (\<lambda>r. bnd (lift (getitem g b)) (\<lambda>s.
     lr_router_remove_internal_gw sc r s))))"
proof (cases "truthy g")
  case True
  then show ?thesis
    using confirms_bnd [OF confirms_quiet [OF env_removed(4)] confirms_slot(2)] by (simp add: cleared_def)
next
  case False
  then show ?thesis by (simp add: cleared_def confirms_def)
qed

lemma clear_steps_confirm: "confirms sc (due_deletions v) (for_each (clear_steps sc sl v) (\<lambda>m. m))"
proof -
  define Cs where "Cs =
      [single_due v ''instance_id'' (lr_servers @ ''/'') 204, listed_due v ''instance_ids'' (lr_servers @ ''/'') 204,
       single_due v ''volume_id'' (lr_volumes @ ''/'') 202, listed_due v ''volume_ids'' (lr_volumes @ ''/'') 202,
       single_due v ''firewall_id'' (lr_firewalls @ ''/'') 204, {},
       single_due v ''firewall_rule_id'' (NEUTRON_BASE_URL @ ''/fw/firewall_rules/'') 204,
       single_due v ''firewall_policy_id'' lr_policies 204,
       single_due v ''securitygroup_rule_id'' (NEUTRON_BASE_URL @ ''/security-group-rules/'') 204,
       single_due v ''securitygroup_id'' (NEUTRON_BASE_URL @ ''/security-groups/'') 204, {}, {},
       single_due v ''subnet_id'' (NEUTRON_BASE_URL @ ''/subnets/'') 204, {},
       single_due v ''network_id'' (NEUTRON_BASE_URL @ ''/networks/'') 204,
       single_due v ''router_id'' (NEUTRON_BASE_URL @ ''/routers/'') 204,
       single_due v ''floatingip_id'' (NEUTRON_BASE_URL @ ''/floatingips/'') 204,
       listed_due v ''floatingip_ids'' (NEUTRON_BASE_URL @ ''/floatingips/'') 204]"
  have "list_all2 (confirms sc) Cs (clear_steps sc sl v)"
    unfolding clear_steps_def Let_def Cs_def
    by (simp only: list_all2_Cons list_all2_Nil simp_thms HOL.if_True)
      (intro conjI confirms_removals confirms_gateway confirms_cleared confirms_emptied confirms_operations)
  then have "confirms sc (\<Union> (set Cs)) (for_each (clear_steps sc sl v) (\<lambda>m. m))" by (rule confirms_each)
  moreover have "due_deletions v \<subseteq> \<Union> (set Cs)"
    unfolding due_deletions_def single_resources_def listed_resources_def Cs_def by simp blast
  ultimately show ?thesis by (rule confirms_less)
qed

text \<open>The clean-up touches no other key.\<close>

definition keeps_rest :: "slot \<Rightarrow> ('r, 'x) case_world_scheme \<Rightarrow> ('r, 'x) case_world_scheme \<Rightarrow> bool" where
  "keeps_rest sl w w' =
     (\<forall>k. k \<notin> set resource_keys \<longrightarrow> env_value (slot_get sl w') k = env_value (slot_get sl w) k)"

interpretation rest_kept: kept "keeps_rest sl" for sl
  by unfold_locales (simp_all add: keeps_rest_def)

lemma rest_quiet: "within same_envs m \<Longrightarrow> within (keeps_rest sl) m"
  by (simp add: within_def same_envs_def keeps_rest_def)

lemma rest_slot:
  assumes "k \<in> set resource_keys"
  shows "within (keeps_rest sl) (put_env sl k x)" "within (keeps_rest sl) (del_env sl k)"
  using assms
  by (auto simp: within_def keeps_rest_def put_env_def del_env_def slot_upd_get env_value_set env_value_del)

lemma rest_cleared:
  assumes "k \<in> set resource_keys" "within same_envs (f x)"
  shows "within (keeps_rest sl) (cleared sl k x f)"
  using rest_kept.steps(5) [OF rest_quiet [OF assms(2)] rest_slot(2) [OF assms(1)]]
  by (simp add: cleared_def rest_kept.steps)

lemma rest_emptied:
  assumes "k \<in> set resource_keys" "\<And>x. within same_envs (f x)"
  shows "within (keeps_rest sl) (emptied sl k x f)"
proof -
  have "within (keeps_rest sl) (drain sl k f xs)" for xs
  proof (induction xs)
    case Nil
    show ?case by (simp add: within_def keeps_rest_def)
  next
    case (Cons x xs)
    show ?case
      unfolding drain.simps
      by (rule rest_kept.steps(5) [OF rest_slot(1) [OF assms(1)] rest_kept.steps(5) [OF rest_quiet [OF assms(2)] Cons]])
  qed
  then show ?thesis
    unfolding emptied_def drain_list_def by (auto intro!: rest_kept.steps split: py.splits)
qed

lemma rest_each: "list_all (within (keeps_rest sl)) ms \<Longrightarrow> within (keeps_rest sl) (for_each ms (\<lambda>m. m))"
  by (induction ms) (simp add: within_def keeps_rest_def, auto intro!: rest_kept.steps)

lemma clear_env_rest: "within (keeps_rest sl) (clear_env sc sl)"
proof -
  have keys: "list_all (\<lambda>k. k \<in> set resource_keys) resource_keys" by (simp add: list_all_iff)
  note known = keys [unfolded resource_keys_def list.pred_inject, folded resource_keys_def]
  have "list_all (within (keeps_rest sl)) (clear_steps sc sl v)" for v
    unfolding clear_steps_def Let_def
    by (simp only: list.pred_inject simp_thms)
      (use known in \<open>intro conjI rest_cleared rest_emptied rest_quiet env_deleted env_removed env_steps; blast\<close>)
  then show ?thesis
    unfolding clear_env_def by (intro rest_kept.steps rest_each)
qed

text \<open>
  C34 (clear_env_complete): when the clean-up of a test returns, every resource that the dictionary had under one of the
  keys that it knows was deleted: the deletion was requested during the clean-up and answered with the code that confirms
  it; and nothing is left under these keys. Other keys, like the \<open>instances\<close> of the endless test, are as they were.
\<close>

theorem clear_env_complete:
  assumes "clear_env sc sl w = (Inr (), w')"
  shows "(\<forall>(k, url, code) \<in> set single_resources.
            truthy (env_value (slot_get sl w) k) \<longrightarrow> confirmed sc url code (env_value (slot_get sl w) k) w w')
    \<and> (\<forall>(k, url, code) \<in> set listed_resources.
         \<forall>x \<in> set (elements_of (env_value (slot_get sl w) k)). confirmed sc url code x w w')
    \<and> (\<forall>k \<in> set resource_keys. \<not> truthy (env_value (slot_get sl w') k))
    \<and> (\<forall>k. k \<notin> set resource_keys \<longrightarrow> env_value (slot_get sl w') k = env_value (slot_get sl w) k)"
proof -
  have "for_each (clear_steps sc sl (env_value (slot_get sl w))) (\<lambda>m. m) w = (Inr (), w')"
    using assms by (simp add: clear_env_def bnd_def)
  then have "confirmed sc url code x w w'" if "(url, code, x) \<in> due_deletions (env_value (slot_get sl w))" for url code x
    using clear_steps_confirm that unfolding confirms_def by blast
  moreover have "keeps_rest sl w w'" using clear_env_rest assms by (rule withinD)
  ultimately show ?thesis
    using clear_env_lists [OF assms] due_deletionsI [where v = "env_value (slot_get sl w)"] unfolding keeps_rest_def by blast
qed

definition demo_script :: "script script_conf" where
  "demo_script =
     \<lparr>sc_env = demo_env [], sc_authority = (\<lambda>u. ''h:1''), sc_frames = 3, sc_name_fix = [], sc_time_text = (\<lambda>t. [])\<rparr>"

definition demo_case_world :: "script \<Rightarrow> (string, py) dict \<Rightarrow> script case_world" where
  "demo_case_world r d =
     \<lparr>now = 0, remote = r, sent = [], naps = [], sw_token = PNone, sw_env = d, sw_minor = [], sw_instance = None\<rparr>"

lemma demo_port: "int_of_str ''1'' = Some 1"
  by (simp add: int_of_str_def str_strip_def is_space_def all_digits_def is_digit_def digits_val_def digit_val_def)

lemma demo_clear_run:
  "\<exists>w'. clear_env demo_script MainEnv
     (demo_case_world [(204, [], [])] [(''network_id'', PStr ''n1'')]) = (Inr (), w')"
  by (simp add: clear_env_def bnd_def clear_steps_def cleared_def emptied_def env_value_def dget_def demo_case_world_def
      sleep_def lr_network_delete_def lr_delete_def in_path_def lr_http_delete_def demo_script_def numeral_3_eq_3
      http_attempt_def get_common_headers_def send_http_request_def get_hostport_def demo_port http_send_def demo_env_def
      scripted_def must_be_def del_env_def Let_def)

theorem clear_env_complete_witness:
  "\<exists>w'. clear_env demo_script MainEnv (demo_case_world [(204, [], [])] [(''network_id'', PStr ''n1'')]) = (Inr (), w')
    \<and> confirmed demo_script (NEUTRON_BASE_URL @ ''/networks/'') 204 (PStr ''n1'')
        (demo_case_world [(204, [], [])] [(''network_id'', PStr ''n1'')]) w'
    \<and> \<not> truthy (env_value (slot_get MainEnv w') ''network_id'')"
proof -
  let ?w = "demo_case_world [(204, [], [])] [(''network_id'', PStr ''n1'')]"
  obtain w' where run: "clear_env demo_script MainEnv ?w = (Inr (), w')"
    using demo_clear_run by blast
  have held: "env_value (slot_get MainEnv ?w) ''network_id'' = PStr ''n1''"
    by (simp add: demo_case_world_def env_value_def)
  have "(''network_id'', NEUTRON_BASE_URL @ ''/networks/'', 204) \<in> set single_resources"
    "''network_id'' \<in> set resource_keys"
    by (simp_all add: single_resources_def resource_keys_def)
  with clear_env_complete [OF run] held have
    "confirmed demo_script (NEUTRON_BASE_URL @ ''/networks/'') 204 (PStr ''n1'') ?w w'"
    "\<not> truthy (env_value (slot_get MainEnv w') ''network_id'')"
    by fastforce+
  with run show ?thesis by blast
qed

section \<open>The two dictionaries do not interfere\<close>

definition keeps_slot :: "slot \<Rightarrow> ('r, 'x) case_world_scheme \<Rightarrow> ('r, 'x) case_world_scheme \<Rightarrow> bool" where
  "keeps_slot sl w w' = (slot_get sl w' = slot_get sl w)"

interpretation slot_kept: kept "keeps_slot sl" for sl
  by unfold_locales (simp_all add: keeps_slot_def)

lemma keeps_quiet: "within same_envs m \<Longrightarrow> within (keeps_slot sl) m"
  by (simp add: within_def same_envs_def keeps_slot_def)

lemma keeps_other:
  assumes "sl \<noteq> sl'"
  shows "within (keeps_slot sl') (put_env sl k v)" "within (keeps_slot sl') (del_env sl k)"
  using assms by (cases sl; cases sl'; simp add: within_def keeps_slot_def put_env_def del_env_def)+

lemma keeps_cleared:
  assumes "sl \<noteq> sl'" "within same_envs (f v)"
  shows "within (keeps_slot sl') (cleared sl k v f)"
proof -
  have "within (keeps_slot sl') (bnd (f v) (\<lambda>_. del_env sl k))"
    by (rule slot_kept.steps(5) [OF keeps_quiet [OF assms(2)] keeps_other(2) [OF assms(1)]])
  then show ?thesis by (simp add: cleared_def slot_kept.steps)
qed

lemma keeps_emptied:
  assumes "sl \<noteq> sl'" "\<And>x. within same_envs (f x)"
  shows "within (keeps_slot sl') (emptied sl k v f)"
proof -
  have "within (keeps_slot sl') (drain sl k f xs)" for xs
  proof (induction xs)
    case Nil
    show ?case by (simp add: within_def keeps_slot_def)
  next
    case (Cons x xs)
    show ?case
      unfolding drain.simps
      by (rule slot_kept.steps(5) [OF keeps_other(1) [OF assms(1)] slot_kept.steps(5) [OF keeps_quiet [OF assms(2)] Cons]])
  qed
  then show ?thesis
    unfolding emptied_def drain_list_def by (auto intro!: slot_kept.steps split: py.splits)
qed

lemma within_each: "list_all (within (keeps_slot sl)) ms \<Longrightarrow> within (keeps_slot sl) (for_each ms (\<lambda>m. m))"
  by (induction ms) (simp add: within_def keeps_slot_def, auto intro!: slot_kept.steps)

lemma clear_env_other:
  assumes "sl \<noteq> sl'"
  shows "within (keeps_slot sl') (clear_env sc sl)"
proof -
  have "list_all (within (keeps_slot sl')) (clear_steps sc sl v)" for v
    unfolding clear_steps_def Let_def
    by (simp only: list.pred_inject simp_thms)
      (intro conjI keeps_cleared [OF assms] keeps_emptied [OF assms] keeps_quiet env_deleted env_removed env_steps)
  then show ?thesis
    unfolding clear_env_def by (intro slot_kept.steps within_each)
qed

section \<open>A test that passes has cleaned up\<close>

definition no_resources :: "slot list \<Rightarrow> ('r, 'x) case_world_scheme \<Rightarrow> bool" where
  "no_resources slots w = (\<forall>sl \<in> set slots. \<forall>k \<in> set resource_keys. \<not> truthy (env_value (slot_get sl w) k))"

lemma for_each_append: "for_each (xs @ ys) f = bnd (for_each xs f) (\<lambda>_. for_each ys f)"
proof (induction xs)
  case Nil
  show ?case by (simp add: bnd_def fun_eq_iff)
qed (simp add: bnd_assoc)

lemma cleared_slots:
  assumes "distinct slots" "for_each slots (clear_env sc) w = (Inr (), w')"
  shows "no_resources slots w'"
  using assms
proof (induction slots arbitrary: w w' rule: rev_induct)
  case Nil
  then show ?case by (simp add: no_resources_def)
next
  case (snoc sl slots)
  obtain u where u: "for_each slots (clear_env sc) w = (Inr (), u)" "clear_env sc sl u = (Inr (), w')"
    using snoc.prems(2) by (auto simp: for_each_append elim!: bnd_InrE)
  from snoc.IH [OF _ u(1)] snoc.prems(1) have before: "no_resources slots u" by simp
  have "slot_get sl' w' = slot_get sl' u" if "sl' \<in> set slots" for sl'
  proof -
    from that snoc.prems(1) have "sl \<noteq> sl'" by auto
    from withinD [OF clear_env_other [OF this] u(2)] show ?thesis by (simp add: keeps_slot_def)
  qed
  with before clear_env_lists [OF u(2)] show ?case by (auto simp: no_resources_def)
qed

text \<open>A computation that says True only in a world with \<open>P\<close>.\<close>

definition true_only :: "('w \<Rightarrow> bool) \<Rightarrow> ('w, bool) loopy \<Rightarrow> bool" where
  "true_only P m = (\<forall>w w'. m w = Some (Inr True, w') \<longrightarrow> P w')"

lemma true_only_intros:
  "(\<And>x. true_only P (f x)) \<Longrightarrow> true_only P (bnd_loop m f)"
  "true_only P (io_loop (ret False))"
  "true_only P a \<Longrightarrow> true_only P b \<Longrightarrow> true_only P (if c then a else b)"
  "true_only P k \<Longrightarrow> true_only P (unless_ping con wanted addr n k)"
  unfolding true_only_def unless_ping_def
  by (auto simp: bnd_loop_def io_loop_def split: option.splits prod.splits sum.splits if_splits)

lemma true_only_passing: "distinct slots \<Longrightarrow> true_only (no_resources slots) (passing sc slots)"
  unfolding true_only_def passing_def TEST_KEEP_ENV_def
  by (auto simp: io_loop_def elim!: bnd_InrE intro: cleared_slots)

lemma true_only_frame: "true_only P m \<Longrightarrow> true_only P (test_frame sc slots m)"
  unfolding true_only_def test_frame_def TEST_KEEP_ENV_def
  by (fastforce dest!: bnd_loop_passes finally_Inr catch_loop_passes simp: io_loop_passes)

definition script_tests ::
    "'r script_conf \<Rightarrow> (('r, 'x) case_world_scheme) console \<Rightarrow> (slot list \<times> ('r, 'x, bool) case_loop) list" where
  "script_tests sc con =
     [([MainEnv], testcase_basic sc con), ([MainEnv], testcase_securitygroup sc con), ([MainEnv], testcase_fw sc con),
      ([MinorEnv, MainEnv], testcase_connectivity_between_two_vlan sc con)]"

text \<open>A test case that returns True has no resource left in its dictionaries.\<close>

theorem script_tests_pass_clean:
  assumes "(slots, case_run) \<in> set (script_tests sc con)" "case_run w = Some (Inr True, w')"
  shows "no_resources slots w'"
proof -
  have "true_only (no_resources slots) case_run"
    using assms(1)
    unfolding script_tests_def testcase_basic_def testcase_securitygroup_def testcase_fw_def
      testcase_connectivity_between_two_vlan_def
    by (auto intro!: true_only_frame true_only_intros true_only_passing split: prod.splits)
  with assms(2) show ?thesis by (auto simp: true_only_def)
qed

section \<open>The long run has no end\<close>

lemma while_True:
  assumes "while_loop (\<lambda>_. True) m w = Some y" "\<And>w e v. m w \<noteq> Some (Inl e, v)"
  shows False
proof -
  have "(\<forall>w. c w) \<longrightarrow> (\<forall>w e v. m w \<noteq> Some (Inl e, v)) \<longrightarrow> False" if "while_loop c m w = Some y"
    for c and m :: "('w, unit) loopy" and w y
  proof (rule while_loop.raw_induct
      [where P = "\<lambda>c m w y. (\<forall>w. c w) \<longrightarrow> (\<forall>w e v. m w \<noteq> Some (Inl e, v)) \<longrightarrow> False", OF _ that], goal_cases)
    case (1 go c m w y)
    show ?case
    proof (intro impI)
      assume c: "\<forall>w. c w" and m: "\<forall>w e v. m w \<noteq> Some (Inl e, v)"
      have "m w \<noteq> None" using 1(2) c by (cases "m w") simp_all
      then obtain r v where v: "m w = Some (r, v)" by (metis option.exhaust surj_pair)
      with m obtain u where "r = Inr u" by (cases r) auto
      with 1(2) v c have "go c m v = Some y" by simp
      from 1(1) [OF this] c m show False by blast
    qed
  qed
  from this [OF assms(1)] assms(2) show ?thesis by blast
qed

text \<open>
  (long_run_never_returns): the long run never returns: every exception of a round is logged and the next round
  begins. It can only end with an exception of the set-up.
\<close>

theorem long_run_never_returns:
  "testcase_vm_mul_create_delete sc con w \<noteq> Some (Inr u, w')"
proof
  assume "testcase_vm_mul_create_delete sc con w = Some (Inr u, w')"
  then obtain v where "while_loop (\<lambda>_. True) (ignoring (long_run_round sc con)) v = Some (Inr u, w')"
    unfolding testcase_vm_mul_create_delete_def by (auto dest!: bnd_loop_passes)
  moreover have "ignoring (long_run_round sc con) w \<noteq> Some (Inl e, v)" for w e v
    by (auto simp: ignoring_def catch_loop_def io_loop_def split: option.splits prod.splits sum.splits)
  ultimately show False by (rule while_True)
qed

text \<open>A ping that lost everything counts as one without loss: the text that is searched for ends the text of a total loss.\<close>

theorem total_loss_accepted: "no_loss_in ''1 packets transmitted, 0 received, 100% packet loss, time 0ms''"
  by code_simp

text \<open>A volume that is gone ends the wait with a NameError.\<close>

theorem lost_volume_name_error:
  assumes "lr_http_get sc (lr_volumes @ ''/'' @ id_text (sc_env sc) i) w = (Inr r, v)"
    "lr_http_get sc (lr_volumes @ ''/'' @ id_text (sc_env sc) i) v = (Inr (404, text), w')"
  shows "lr_volume_wait sc i status w = Some (Inl UnboundErr, w')"
  using assms
  by (simp add: lr_volume_wait_def Let_def bnd_loop_def io_loop_def loop_io.simps [of "lr_volume_round _ _ _"]
      lr_volume_round_def bnd_def)

end
