(* ===== verification/ComputeScript.thy ===== *)
theory ComputeScript
  imports ScriptCases
begin

text \<open>
  The script \<open>src/automation/compute_test.py\<close>: 200 rounds over one server that is booted from a volume, with a clean-up after
  each. The names of the source carry the prefix \<open>ct\<close>. The HTTP functions are those of \<open>ScriptOps\<close>, with another
  login; statuses are hardly looked at. The ids that the clean-up uses are global variables of the script, fields of the
  world. What is only logged is left out, and so are the handles on the log file that the pings open.
\<close>

section \<open>The world and the constants\<close>

record 'r round_world = "'r token_world" +
  rw_server :: py
  rw_volume :: py
  rw_floating_ip :: py

type_synonym ('r, 'x, 'a) round_io = "(('r, 'x) round_world_scheme, 'a) io"

definition ct_nova :: string where "ct_nova = ''http://10.160.60.42:8774/v2''"

definition ct_neutron :: string where "ct_neutron = ''http://10.160.60.42:9696/v2.0''"

definition ct_cinder :: string where "ct_cinder = ''http://10.160.60.42:8776/v2''"

definition TENANTID :: py where "TENANTID = PStr ''82bdaf4930854ae7a4b494dba9563f50''"

definition IMAGEID :: py where "IMAGEID = PStr ''470112e6-845b-4eaa-aa35-6bc567c6612f''"

definition NETID :: py where "NETID = PStr ''568e1807-89c6-46e4-83a2-357ef39812e0''"

definition EXTERNAL_NETWORK_ID :: py where "EXTERNAL_NETWORK_ID = PStr ''3de42525-8bf2-4449-8677-4de6cffe2d32''"

definition GUESTOS_PASSWD :: string where "GUESTOS_PASSWD = ''test''"

definition ct_keep_env :: bool where "ct_keep_env = False"

definition compute_login :: login where
  "compute_login =
     \<lparr>lg_url = ''http://10.160.60.42:5000/v2.0/tokens '', lg_tenant = ''admin'', lg_user = ''admin'',
      lg_password = ''openstack1''\<rparr>"

section \<open>Requests\<close>

definition ct_http_post :: "'r script_conf \<Rightarrow> string \<Rightarrow> py \<Rightarrow> ('r, 'x, int \<times> string) script_io" where
  "ct_http_post sc url doc =
     http_call sc compute_login ''POST'' url (Some (e_dumps (sc_env sc) doc)) (sc_frames sc)"

text \<open>After a 401, \<open>http_put\<close> goes on with \<open>http_post\<close>.\<close>

definition ct_http_put :: "'r script_conf \<Rightarrow> string \<Rightarrow> py \<Rightarrow> ('r, 'x, int \<times> string) script_io" where
  "ct_http_put sc url doc =
     (let body = Some (e_dumps (sc_env sc) doc)
      in case sc_frames sc of
           0 \<Rightarrow> throw out_of_frames
         | Suc n \<Rightarrow>
             bnd (http_attempt sc ''PUT'' url body) (\<lambda>(status, text).
               if status = 401 then bnd (get_Token sc compute_login) (\<lambda>_. http_call sc compute_login ''POST'' url body n)
               else ret (status, text)))"

definition ct_http_get :: "'r script_conf \<Rightarrow> string \<Rightarrow> ('r, 'x, int \<times> string) script_io" where
  "ct_http_get sc url = http_call sc compute_login ''GET'' url None (sc_frames sc)"

definition ct_http_delete :: "'r script_conf \<Rightarrow> string \<Rightarrow> ('r, 'x, int \<times> string) script_io" where
  "ct_http_delete sc url = http_call sc compute_login ''DELETE'' url None (sc_frames sc)"

definition ct_url :: "'r script_conf \<Rightarrow> string \<Rightarrow> string \<Rightarrow> py \<Rightarrow> py \<Rightarrow> string" where
  "ct_url sc base kind tenant_id i = base @ ''/'' @ id_text (sc_env sc) tenant_id @ kind @ id_text (sc_env sc) i"

definition ct_shown :: "'r script_conf \<Rightarrow> string \<Rightarrow> string list \<Rightarrow> ('r, 'x, py) script_io" where
  "ct_shown sc url keys = bnd (ct_http_get sc url) (\<lambda>(status, text). part_of sc keys text)"

text \<open>The random name: eight of the characters, the positions drawn are the argument.\<close>

definition generate_uid :: "string \<Rightarrow> nat list \<Rightarrow> pyexc + string" where
  "generate_uid topic drawn =
     (let characters = ''01234567890abcdefghijklmnopqrstuvwxyz''
      in if \<forall>i \<in> set drawn. i < length characters
         then Inr (topic @ ''-'' @ map ((!) characters) drawn) else Inl IndexErr)"

section \<open>Volumes\<close>

definition ct_create_volume :: "'r script_conf \<Rightarrow> string \<Rightarrow> py \<Rightarrow> py \<Rightarrow> int \<Rightarrow> ('r, 'x, py) script_io" where
  "ct_create_volume sc name tenant_id image_id gigabytes =
     bnd (ct_http_post sc (ct_cinder @ ''/'' @ id_text (sc_env sc) tenant_id @ ''/volumes'')
       (PDict [(''volume'', PDict [(''size'', PInt gigabytes), (''name'', PStr name), (''imageRef'', image_id),
          (''attach_status'', PStr ''detached''), (''metadata'', PDict [])])])) (\<lambda>(status, text).
       part_of sc [''volume'', ''id''] text)"

definition ct_get_volume_status :: "'r script_conf \<Rightarrow> py \<Rightarrow> py \<Rightarrow> ('r, 'x, py) script_io" where
  "ct_get_volume_status sc tenant_id volume_id =
     ct_shown sc (ct_url sc ct_cinder ''/volumes/'' tenant_id volume_id) [''volume'', ''status'']"

definition ct_delete_volume :: "'r script_conf \<Rightarrow> py \<Rightarrow> py \<Rightarrow> ('r, 'x, int) script_io" where
  "ct_delete_volume sc tenant_id volume_id =
     bnd (ct_http_delete sc (ct_url sc ct_cinder ''/volumes/'' tenant_id volume_id)) (\<lambda>(status, text). ret status)"

section \<open>Servers\<close>

definition ct_boot_from_volume :: "'r script_conf \<Rightarrow> py \<Rightarrow> py \<Rightarrow> py \<Rightarrow> string \<Rightarrow> ('r, 'x, py) script_io" where
  "ct_boot_from_volume sc volume_id flavor_id net_id name =
     bnd (ct_http_post sc (ct_nova @ ''/'' @ id_text (sc_env sc) TENANTID @ ''/os-volumes_boot'')
       (PDict [(''server'', PDict [(''name'', PStr name), (''imageRef'', PStr []),
          (''block_device_mapping_v2'', PList [PDict [(''source_type'', PStr ''volume''),
             (''delete_on_termination'', PBool False), (''boot_index'', PInt 0), (''uuid'', volume_id),
             (''destination_type'', PStr ''volume'')]]),
          (''flavorRef'', flavor_id), (''max_count'', PInt 1), (''min_count'', PInt 1),
          (''networks'', PList [PDict [(''uuid'', net_id)]])])])) (\<lambda>(status, text).
       part_of sc [''server'', ''id''] text)"

definition ct_get_server_status :: "'r script_conf \<Rightarrow> py \<Rightarrow> py \<Rightarrow> ('r, 'x, py) script_io" where
  "ct_get_server_status sc tenant_id server_id =
     ct_shown sc (ct_url sc ct_nova ''/servers/'' tenant_id server_id) [''server'', ''status'']"

definition ct_get_server_name :: "'r script_conf \<Rightarrow> py \<Rightarrow> py \<Rightarrow> ('r, 'x, py) script_io" where
  "ct_get_server_name sc tenant_id server_id =
     ct_shown sc (ct_url sc ct_nova ''/servers/'' tenant_id server_id) [''server'', ''name'']"

definition ct_get_server_host :: "'r script_conf \<Rightarrow> py \<Rightarrow> py \<Rightarrow> ('r, 'x, py) script_io" where
  "ct_get_server_host sc tenant_id server_id =
     ct_shown sc (ct_url sc ct_nova ''/servers/'' tenant_id server_id) [''server'', ''OS-EXT-SRV-ATTR:host'']"

definition ct_action :: "'r script_conf \<Rightarrow> py \<Rightarrow> py \<Rightarrow> string \<Rightarrow> py \<Rightarrow> ('r, 'x, int) script_io" where
  "ct_action sc tenant_id server_id name value =
     bnd (ct_http_post sc (ct_url sc ct_nova ''/servers/'' tenant_id server_id @ ''/action'') (PDict [(name, value)]))
       (\<lambda>(status, text). ret status)"

definition ct_reboot_server :: "'r script_conf \<Rightarrow> py \<Rightarrow> py \<Rightarrow> ('r, 'x, int) script_io" where
  "ct_reboot_server sc tenant_id i = ct_action sc tenant_id i ''reboot'' (PDict [(''type'', PStr ''SOFT'')])"

definition ct_stop_server :: "'r script_conf \<Rightarrow> py \<Rightarrow> py \<Rightarrow> ('r, 'x, int) script_io" where
  "ct_stop_server sc tenant_id i = ct_action sc tenant_id i ''os-stop'' PNone"

definition ct_start_server :: "'r script_conf \<Rightarrow> py \<Rightarrow> py \<Rightarrow> ('r, 'x, int) script_io" where
  "ct_start_server sc tenant_id i = ct_action sc tenant_id i ''os-start'' PNone"

text \<open>\<open>rename_server\<close> reads the name \<open>name\<close>, which does not exist: a NameError before anything is sent.\<close>

definition ct_rename_server :: "'r script_conf \<Rightarrow> py \<Rightarrow> py \<Rightarrow> ('r, 'x, int) script_io" where
  "ct_rename_server sc tenant_id i = throw UnboundErr"

definition ct_delete_server :: "'r script_conf \<Rightarrow> py \<Rightarrow> py \<Rightarrow> ('r, 'x, int) script_io" where
  "ct_delete_server sc tenant_id i =
     bnd (ct_http_delete sc (ct_url sc ct_nova ''/servers/'' tenant_id i)) (\<lambda>(status, text). ret status)"

definition ct_migrate :: "'r script_conf \<Rightarrow> py \<Rightarrow> py \<Rightarrow> ('r, 'x, int) script_io" where
  "ct_migrate sc tenant_id i = ct_action sc tenant_id i ''migrate'' PNone"

definition ct_live_migrate :: "'r script_conf \<Rightarrow> py \<Rightarrow> py \<Rightarrow> py \<Rightarrow> ('r, 'x, int) script_io" where
  "ct_live_migrate sc tenant_id i host =
     ct_action sc tenant_id i ''os-migrateLive''
       (PDict [(''disk_over_commit'', PBool False), (''block_migration'', PBool False), (''host'', host)])"

definition ct_resize_server :: "'r script_conf \<Rightarrow> py \<Rightarrow> py \<Rightarrow> py \<Rightarrow> ('r, 'x, int) script_io" where
  "ct_resize_server sc tenant_id i flavor_id = ct_action sc tenant_id i ''resize'' (PDict [(''flavorRef'', flavor_id)])"

definition ct_resize_confirm_server :: "'r script_conf \<Rightarrow> py \<Rightarrow> py \<Rightarrow> ('r, 'x, int) script_io" where
  "ct_resize_confirm_server sc tenant_id i = ct_action sc tenant_id i ''confirmResize'' PNone"

section \<open>Floating addresses\<close>

definition ct_floatingip_create :: "'r script_conf \<Rightarrow> ('r, 'x, py \<times> py) script_io" where
  "ct_floatingip_create sc =
     bnd (ct_http_post sc (ct_neutron @ ''/floatingips'')
       (PDict [(''floatingip'', PDict [(''floating_network_id'', EXTERNAL_NETWORK_ID)])])) (\<lambda>r.
     bnd (must_be 201 ''floatingip create failed'' r) (\<lambda>text.
     bnd (part_of sc [''floatingip'', ''id''] text) (\<lambda>i.
     bnd (part_of sc [''floatingip'', ''floating_ip_address''] text) (\<lambda>a. ret (i, a)))))"

definition ct_floatingip_delete :: "'r script_conf \<Rightarrow> py \<Rightarrow> ('r, 'x, unit) script_io" where
  "ct_floatingip_delete sc i =
     in_path i (\<lambda>t. bnd (ct_http_delete sc (ct_neutron @ ''/floatingips/'' @ t)) (\<lambda>r.
       bnd (must_be 204 ''floatingip delete failed'' r) (\<lambda>_. ret ())))"

definition ct_floating_ip_associate :: "'r script_conf \<Rightarrow> py \<Rightarrow> py \<Rightarrow> py \<Rightarrow> ('r, 'x, int) script_io" where
  "ct_floating_ip_associate sc tenant_id i ip = ct_action sc tenant_id i ''addFloatingIp'' (PDict [(''address'', ip)])"

definition ct_floating_ip_disassociate :: "'r script_conf \<Rightarrow> py \<Rightarrow> py \<Rightarrow> py \<Rightarrow> ('r, 'x, int) script_io" where
  "ct_floating_ip_disassociate sc tenant_id i ip = ct_action sc tenant_id i ''removeFloatingIp'' (PDict [(''address'', ip)])"

definition ct_ping :: "'r script_conf \<Rightarrow> 'w console \<Rightarrow> py \<Rightarrow> string \<Rightarrow> ('w, nat) io" where
  "ct_ping sc con ip second =
     bnd (cs_spawn con (''ping -c 5 '' @ id_text (sc_env sc) ip) None) (\<lambda>s.
       cs_expect con s [Text ''0% packet loss'', Text second, AtEOF, AtTimeout] (Some 30))"

text \<open>Only an unreachable host is an error; a ping without an answer is a warning.\<close>

definition ct_ping_floating_ip :: "'r script_conf \<Rightarrow> 'w console \<Rightarrow> py \<Rightarrow> ('w, unit) io" where
  "ct_ping_floating_ip sc con ip =
     bnd (ct_ping sc con ip ''Host Unreachable'') (\<lambda>i.
       if i = 1 then throw (PlainExc ''The floating_ip is unreachable'') else ret ())"

definition ct_ping_floating_ip_after_remove :: "'r script_conf \<Rightarrow> 'w console \<Rightarrow> py \<Rightarrow> ('w, unit) io" where
  "ct_ping_floating_ip_after_remove sc con ip = bnd (ct_ping sc con ip ''100% packet loss'') (\<lambda>_. ret ())"

section \<open>Looking into the server\<close>

text \<open>The exceptions of \<open>pexpect\<close> that the checks know.\<close>

definition pexpect_EOF :: pyexc where "pexpect_EOF = PlainExc ''pexpect.EOF''"

definition pexpect_TIMEOUT :: pyexc where "pexpect_TIMEOUT = PlainExc ''pexpect.TIMEOUT''"

text \<open>The second line of what a command prints, as a number; 0 when the session ends or times out.\<close>

definition second_line :: "string \<Rightarrow> pyexc + int" where
  "second_line result =
     (case str_split (CHR 0x0A) result of
        a # b # rest \<Rightarrow> (case int_of_str b of None \<Rightarrow> Inl ValueErr | Some n \<Rightarrow> Inr n)
      | _ \<Rightarrow> Inl IndexErr)"

definition ct_ssh_number :: "'r script_conf \<Rightarrow> 'w console \<Rightarrow> py \<Rightarrow> string \<Rightarrow> string \<Rightarrow> ('w, int) io" where
  "ct_ssh_number sc con ip passwd cmd =
     bnd (cs_spawn con (''ssh root@'' @ id_text (sc_env sc) ip @ '' '' @ [CHR 0x22] @ cmd @ [CHR 0x22]) (Some 120)) (\<lambda>s.
     catch
       (bnd (cs_expect con s password_prompts (Some 60)) (\<lambda>i.
        bnd (answer_prompt con s passwd i) (\<lambda>_.
        bnd (cs_sendline con s cmd) (\<lambda>_.
        bnd (cs_read con s) (\<lambda>result. lift (second_line result))))))
       (\<lambda>e. if e = pexpect_EOF \<or> e = pexpect_TIMEOUT then Some (bnd (cs_close con s) (\<lambda>_. ret 0)) else None))"

definition ct_ssh_check_mem :: "'r script_conf \<Rightarrow> 'w console \<Rightarrow> py \<Rightarrow> string \<Rightarrow> ('w, int) io" where
  "ct_ssh_check_mem sc con ip passwd =
     ct_ssh_number sc con ip passwd (''free -g | grep Mem |awk '' @ [CHR 0x27] @ ''{print $2}'' @ [CHR 0x27])"

definition ct_ssh_check_cpu :: "'r script_conf \<Rightarrow> 'w console \<Rightarrow> py \<Rightarrow> string \<Rightarrow> ('w, int) io" where
  "ct_ssh_check_cpu sc con ip passwd = ct_ssh_number sc con ip passwd ''cat /proc/cpuinfo | grep processor | wc -l''"

section \<open>The tests\<close>

text \<open>
  \<open>for index in xrange(n): status = ...; if ...: break; else: sleep\<close>: the last status; \<open>st\<close> is the one before the loop.
\<close>

primrec look_for ::
    "(('r, 'x) world_scheme, py) io \<Rightarrow> (py \<Rightarrow> bool) \<Rightarrow> int \<Rightarrow> nat \<Rightarrow> py \<Rightarrow> (('r, 'x) world_scheme, py) io" where
  "look_for get good nap 0 st = ret st"
| "look_for get good nap (Suc n) st =
     bnd get (\<lambda>st'. if good st' then ret st' else bnd (sleep nap) (\<lambda>_. look_for get good nap n st'))"

definition must_have :: "py \<Rightarrow> string \<Rightarrow> string \<Rightarrow> ('w, unit) io" where
  "must_have status wanted message = (if status \<noteq> PStr wanted then throw (PlainExc message) else ret ())"

text \<open>A volume that does not become available is booted from all the same.\<close>

definition ct_test_boot_from_volume :: "'r script_conf \<Rightarrow> nat list \<Rightarrow> py \<Rightarrow> ('r, 'x, py \<times> py) script_io" where
  "ct_test_boot_from_volume sc drawn flavor_id =
     bnd (lift (generate_uid ''test_compute_zhangwei'' drawn)) (\<lambda>name.
     bnd (ct_create_volume sc name TENANTID IMAGEID 20) (\<lambda>volume_id.
     bnd (sleep 60) (\<lambda>_.
     bnd (look_for (ct_get_volume_status sc TENANTID volume_id) (\<lambda>st. st = PStr ''available'') 15 20 PNone) (\<lambda>_.
     bnd (ct_get_volume_status sc TENANTID volume_id) (\<lambda>_.
     bnd (ct_boot_from_volume sc volume_id flavor_id NETID name) (\<lambda>server_id.
     bnd (sleep 60) (\<lambda>_. ret (server_id, volume_id))))))))"

definition ct_test_reboot :: "'r script_conf \<Rightarrow> py \<Rightarrow> py \<Rightarrow> ('r, 'x, unit) script_io" where
  "ct_test_reboot sc tenant_id i =
     bnd (ct_reboot_server sc tenant_id i) (\<lambda>_.
     bnd (ct_get_server_status sc tenant_id i) (\<lambda>st.
     bnd (must_have st ''REBOOT'' ''Failed to reboot server'') (\<lambda>_.
     bnd (sleep 60) (\<lambda>_.
     bnd (ct_get_server_status sc tenant_id i) (\<lambda>st.
     bnd (must_have st ''ACTIVE'' ''Failed to reboot server'') (\<lambda>_. sleep 60))))))"

definition resize_verdict :: "int \<Rightarrow> int \<Rightarrow> ('w, unit) io" where
  "resize_verdict mem cpu = (if mem = 1 \<and> cpu = 1 then throw (PlainExc ''Resize failed'') else ret ())"

definition ct_test_resize ::
    "'r script_conf \<Rightarrow> (('r, 'x) token_world_scheme) console \<Rightarrow> py \<Rightarrow> py \<Rightarrow> py \<Rightarrow> ('r, 'x, unit) script_io" where
  "ct_test_resize sc con tenant_id i ip =
     (let status = ct_get_server_status sc tenant_id i
      in bnd (ct_stop_server sc tenant_id i) (\<lambda>_. bnd (sleep 60) (\<lambda>_.
         bnd status (\<lambda>st.
         bnd (must_have st ''SHUTOFF'' ''Failed to stop server when resize'') (\<lambda>_. bnd (sleep 30) (\<lambda>_.
         bnd (ct_resize_server sc tenant_id i (PInt 3)) (\<lambda>_. bnd (sleep 30) (\<lambda>_.
         bnd status (\<lambda>st.
         bnd (look_for status (\<lambda>st. st = PStr ''VERIFY_RESIZE'') 10 6 st) (\<lambda>st.
         bnd (must_have st ''VERIFY_RESIZE'' ''Failed to resize to VERIFY_RESIZE'') (\<lambda>_.
         bnd (ct_resize_confirm_server sc tenant_id i) (\<lambda>_. bnd (sleep 10) (\<lambda>_.
         bnd (ct_start_server sc tenant_id i) (\<lambda>_. bnd (sleep 60) (\<lambda>_.
         bnd (look_for status (\<lambda>st. st = PStr ''ACTIVE'') 10 6 st) (\<lambda>_.
         bnd status (\<lambda>st.
         bnd (must_have st ''ACTIVE'' ''Failed to start server after resize'') (\<lambda>_. bnd (sleep 40) (\<lambda>_.
         bnd (ct_ssh_check_mem sc con ip GUESTOS_PASSWD) (\<lambda>mem.
         bnd (ct_ssh_check_cpu sc con ip GUESTOS_PASSWD) (\<lambda>cpu. resize_verdict mem cpu)))))))))))))))))))))"

definition settled_status :: "py \<Rightarrow> bool" where
  "settled_status st = (st = PStr ''VERIFY_RESIZE'' \<or> st = PStr ''ACTIVE'')"

definition has_moved :: "string \<Rightarrow> py \<Rightarrow> py \<Rightarrow> ('w, unit) io" where
  "has_moved message old_host new_host = (if old_host = new_host then throw (PlainExc message) else ret ())"

definition destination :: "py \<Rightarrow> pyexc + py" where
  "destination old_host =
     bindE (py_in ''66'' old_host) (\<lambda>a. bindE (if a then Inr True else py_in ''67'' old_host) (\<lambda>b.
       Inr (PStr (if b then ''bjzjm01-zhengqi-cp-compute060069.bjzjm01.ksyun.com''
                  else ''bjzjm01-zhengqi-cp-compute060066.bjzjm01.ksyun.com''))))"

definition ct_test_live_migrate ::
    "'r script_conf \<Rightarrow> (('r, 'x) token_world_scheme) console \<Rightarrow> py \<Rightarrow> py \<Rightarrow> py \<Rightarrow> ('r, 'x, unit) script_io" where
  "ct_test_live_migrate sc con tenant_id i ip =
     (let status = ct_get_server_status sc tenant_id i
      in bnd (ct_get_server_host sc tenant_id i) (\<lambda>old_host.
         bnd (lift (destination old_host)) (\<lambda>dest_host.
         bnd (ct_live_migrate sc tenant_id i dest_host) (\<lambda>_. bnd (sleep 60) (\<lambda>_.
         bnd (look_for status settled_status 15 10 PNone) (\<lambda>_.
         bnd status (\<lambda>st.
         bnd (if st = PStr ''VERIFY_RESIZE''
              then bnd (ct_resize_confirm_server sc tenant_id i) (\<lambda>_. sleep 20) else ret ()) (\<lambda>_.
         bnd status (\<lambda>st.
         bnd (must_have st ''ACTIVE'' ''Live Migrate process hasn't been detected'') (\<lambda>_.
         bnd (ct_get_server_host sc tenant_id i) (\<lambda>new_host.
         bnd (has_moved ''Server live migrate failed'' old_host new_host) (\<lambda>_. bnd (sleep 30) (\<lambda>_.
           ct_ping_floating_ip sc con ip)))))))))))))"

text \<open>The status that decides about the confirmation is read before the loop.\<close>

definition ct_test_migrate ::
    "'r script_conf \<Rightarrow> (('r, 'x) token_world_scheme) console \<Rightarrow> py \<Rightarrow> py \<Rightarrow> py \<Rightarrow> ('r, 'x, unit) script_io" where
  "ct_test_migrate sc con tenant_id i ip =
     (let status = ct_get_server_status sc tenant_id i
      in bnd (ct_get_server_host sc tenant_id i) (\<lambda>old_host.
         bnd (ct_migrate sc tenant_id i) (\<lambda>_. bnd (sleep 60) (\<lambda>_.
         bnd status (\<lambda>server_status.
         bnd (look_for status settled_status 15 10 PNone) (\<lambda>_.
         bnd (if server_status = PStr ''VERIFY_RESIZE''
              then bnd (ct_resize_confirm_server sc tenant_id i) (\<lambda>_. sleep 20) else ret ()) (\<lambda>_.
         bnd status (\<lambda>st.
         bnd (must_have st ''ACTIVE'' ''Migrate process hasn't been detected'') (\<lambda>_.
         bnd (ct_get_server_host sc tenant_id i) (\<lambda>new_host.
         bnd (has_moved ''Server migrate failed'' old_host new_host) (\<lambda>_. bnd (sleep 30) (\<lambda>_.
           ct_ping_floating_ip sc con ip))))))))))))"

section \<open>The rounds\<close>

text \<open>\<open>try: ... except Exception\<close> with a log message.\<close>

definition logging_errors :: "('w, unit) io \<Rightarrow> ('w, unit) io" where
  "logging_errors m = catch m (\<lambda>e. Some (ret ()))"

definition ct_clean_env :: "'r script_conf \<Rightarrow> py \<Rightarrow> ('r, 'x, unit) round_io" where
  "ct_clean_env sc floating_ip =
     bnd (gets rw_server) (\<lambda>server_id. bnd (gets rw_volume) (\<lambda>volume_id. bnd (gets rw_floating_ip) (\<lambda>floating_ip_id.
       if volume_id = PNone then ret ()
       else
         bnd (logging_errors (if floating_ip \<noteq> PStr ''10.160.60.193'' then ct_floatingip_delete sc floating_ip_id else ret ())) (\<lambda>_.
         bnd (logging_errors (bnd (ct_delete_server sc TENANTID server_id) (\<lambda>_. sleep 10))) (\<lambda>_.
         logging_errors
           (bnd (look_for (ct_get_volume_status sc TENANTID volume_id) (\<lambda>st. st = PStr ''available'') 10 6 PNone) (\<lambda>_.
            bnd (ct_delete_volume sc TENANTID volume_id) (\<lambda>_. ret ()))))))))"

text \<open>The server of the round; its ids become global at once.\<close>

definition boot_stage :: "'r script_conf \<Rightarrow> nat list \<Rightarrow> ('r, 'x, py) round_io" where
  "boot_stage sc drawn =
     catch
       (bnd (ct_test_boot_from_volume sc drawn (PInt 2)) (\<lambda>(server_id, volume_id).
        bnd (modify (rw_server_update (\<lambda>_. server_id))) (\<lambda>_.
        bnd (modify (rw_volume_update (\<lambda>_. volume_id))) (\<lambda>_. ret server_id))))
       (\<lambda>e. Some (throw (PlainExc ''boot server from volume failed'')))"

text \<open>A failed creation of an address is replaced by an address that is always there.\<close>

definition address_stage :: "'r script_conf \<Rightarrow> ('r, 'x, py) round_io" where
  "address_stage sc =
     catch
       (bnd (ct_floatingip_create sc) (\<lambda>(i, ip). bnd (modify (rw_floating_ip_update (\<lambda>_. i))) (\<lambda>_. ret ip)))
       (\<lambda>e. Some (ret (PStr ''10.160.60.193'')))"

definition testcases_one_round ::
    "'r script_conf \<Rightarrow> (('r, 'x) round_world_scheme) console \<Rightarrow> nat list \<Rightarrow> ('r, 'x, py) round_io" where
  "testcases_one_round sc con drawn =
     bnd (boot_stage sc drawn) (\<lambda>i.
     bnd (ct_get_server_status sc TENANTID i) (\<lambda>_.
     bnd (ct_test_reboot sc TENANTID i) (\<lambda>_.
     bnd (ct_stop_server sc TENANTID i) (\<lambda>_. bnd (sleep 60) (\<lambda>_.
     bnd (ct_get_server_status sc TENANTID i) (\<lambda>st.
     bnd (must_have st ''SHUTOFF'' ''Stop the server failed'') (\<lambda>_. bnd (sleep 60) (\<lambda>_.
     bnd (ct_start_server sc TENANTID i) (\<lambda>_. bnd (sleep 60) (\<lambda>_.
     bnd (ct_get_server_status sc TENANTID i) (\<lambda>_. bnd (sleep 30) (\<lambda>_. bnd (sleep 10) (\<lambda>_.
     bnd (address_stage sc) (\<lambda>ip. bnd (sleep 10) (\<lambda>_.
     bnd (ct_floating_ip_associate sc TENANTID i ip) (\<lambda>_. bnd (sleep 30) (\<lambda>_.
     bnd (ct_ping_floating_ip sc con ip) (\<lambda>_.
     bnd (ct_test_resize sc con TENANTID i ip) (\<lambda>_.
     bnd (ct_test_live_migrate sc con TENANTID i ip) (\<lambda>_.
     bnd (ct_test_migrate sc con TENANTID i ip) (\<lambda>_. bnd (sleep 10) (\<lambda>_.
     bnd (ct_floating_ip_disassociate sc TENANTID i ip) (\<lambda>_. bnd (sleep 60) (\<lambda>_.
     bnd (ct_ping_floating_ip_after_remove sc con ip) (\<lambda>_. ret ip)))))))))))))))))))))))))"

text \<open>
  A round of the script: the clean-up after the tests, or, without an address, the one of the handler. An exception of
  the first clean-up would lead to the second one.
\<close>

definition ct_round ::
    "'r script_conf \<Rightarrow> (('r, 'x) round_world_scheme) console \<Rightarrow> nat list \<Rightarrow> ('r, 'x, unit) round_io" where
  "ct_round sc con drawn =
     (let handler = (\<lambda>ip. if ct_keep_env then ret () else ct_clean_env sc ip)
      in bnd (attempted (testcases_one_round sc con drawn)) (\<lambda>ended.
           case ended of
             None \<Rightarrow> handler PNone
           | Some ip \<Rightarrow> catch (ct_clean_env sc ip) (\<lambda>e. Some (handler ip))))"

text \<open>\<open>seeds\<close> has one list of random positions for each of the 200 rounds.\<close>

definition compute_script ::
    "'r script_conf \<Rightarrow> (('r, 'x) round_world_scheme) console \<Rightarrow> (nat \<Rightarrow> nat list) \<Rightarrow> ('r, 'x, unit) round_io" where
  "compute_script sc con seeds = for_each [0..<200] (\<lambda>i. ct_round sc con (seeds i))"

section \<open>What the script guarantees, and what it overlooks\<close>

definition never_raises :: "('w, 'a) io \<Rightarrow> bool" where
  "never_raises m = (\<forall>w. \<not> isl (fst (m w)))"

lemma never_raises_intros:
  "never_raises (ret x)" "never_raises (gets f)" "never_raises (modify g)" "never_raises (logging_errors n)"
  "never_raises (attempted k)"
  by (simp_all add: never_raises_def logging_errors_def attempted_def catch_def bnd_def split: prod.splits sum.splits)

lemma never_raises_bnd: "never_raises m \<Longrightarrow> (\<And>x. never_raises (f x)) \<Longrightarrow> never_raises (bnd m f)"
  by (auto simp: never_raises_def bnd_def split: prod.splits sum.splits) (metis fst_conv isl_def)+

lemma never_raises_catch: "(\<And>e. never_raises (k e)) \<Longrightarrow> never_raises (catch m (\<lambda>e. Some (k e)))"
  by (auto simp: never_raises_def catch_def split: prod.splits sum.splits)

lemma clean_env_quiet: "never_raises (ct_clean_env sc ip)"
  unfolding ct_clean_env_def by (auto intro!: never_raises_bnd never_raises_intros)

lemma round_quiet: "never_raises (ct_round sc con drawn)"
  unfolding ct_round_def Let_def
  by (auto intro!: never_raises_bnd never_raises_intros never_raises_catch clean_env_quiet split: option.splits)

lemma never_raisesD: "never_raises m \<Longrightarrow> m w = (r, w') \<Longrightarrow> \<exists>x. r = Inr x"
  by (cases r) (auto simp: never_raises_def dest: spec [of _ w])

text \<open>The server and the volume of a round stay the same after they were booted, and what was sent stays sent.\<close>

definition same_ids :: "('r, 'x) round_world_scheme \<Rightarrow> ('r, 'x) round_world_scheme \<Rightarrow> bool" where
  "same_ids w w' = (rw_server w' = rw_server w \<and> rw_volume w' = rw_volume w \<and> (\<exists>rs. sent w' = sent w @ rs))"

interpretation ids_kept: script_kept same_ids
proof
  fix u v w :: "('r, 'x) round_world_scheme"
  show "same_ids w w" by (simp add: same_ids_def)
  show "same_ids u v \<Longrightarrow> same_ids v w \<Longrightarrow> same_ids u w" by (auto simp: same_ids_def)
next
  fix srv :: "'r server" and rq and n and f
  show "within same_ids (http_send srv rq)"
    by (simp add: within_def http_send_def same_ids_def split: prod.splits)
  show "within same_ids (sleep n)" by (simp add: within_def sleep_def same_ids_def)
  show "within same_ids (modify (sw_token_update f))" by (simp add: within_def same_ids_def)
qed

text \<open>The consoles are other processes: they change no variable of the script and no list of its requests.\<close>

definition quiet_console :: "(('r, 'x) round_world_scheme) console \<Rightarrow> bool" where
  "quiet_console con =
     ((\<forall>c t. within same_ids (cs_spawn con c t)) \<and> (\<forall>s ps t. within same_ids (cs_expect con s ps t))
      \<and> (\<forall>s t. within same_ids (cs_sendline con s t)) \<and> (\<forall>s. within same_ids (cs_read con s))
      \<and> (\<forall>s. within same_ids (cs_close con s)))"

named_theorems ids_intros \<open>operations that keep the ids of a round\<close>

declare ids_kept.sk_steps [ids_intros] ids_kept.sk_shared(5,6) [ids_intros] ids_kept.sk_in_path [ids_intros]
  ids_kept.sk_http_call [ids_intros] ids_kept.sk_requests [ids_intros]

lemma ids_if [ids_intros]: "within same_ids a \<Longrightarrow> within same_ids b \<Longrightarrow> within same_ids (if c then a else b)"
  by simp

lemma ids_pair [ids_intros]: "(\<And>a b. within same_ids (f a b)) \<Longrightarrow> within same_ids (case p of (a, b) \<Rightarrow> f a b)"
  by (cases p) simp

lemma ids_http [ids_intros]:
  "within same_ids (ct_http_post sc url doc)" "within same_ids (ct_http_get sc url)"
  "within same_ids (ct_http_delete sc url)"
  unfolding ct_http_post_def ct_http_get_def ct_http_delete_def by (intro ids_intros)+

lemma ids_calls [ids_intros]:
  "within same_ids (ct_shown sc url keys)" "within same_ids (ct_action sc t i name v)"
  unfolding ct_shown_def ct_action_def by (intro ids_intros)+

lemma ids_reads [ids_intros]:
  "within same_ids (ct_get_volume_status sc t v)" "within same_ids (ct_get_server_status sc t i)"
  "within same_ids (ct_get_server_host sc t i)"
  unfolding ct_get_volume_status_def ct_get_server_status_def ct_get_server_host_def by (intro ids_intros)+

lemma ids_acts [ids_intros]:
  "within same_ids (ct_reboot_server sc t i)" "within same_ids (ct_stop_server sc t i)"
  "within same_ids (ct_start_server sc t i)" "within same_ids (ct_migrate sc t i)"
  "within same_ids (ct_live_migrate sc t i h)" "within same_ids (ct_resize_server sc t i f)"
  "within same_ids (ct_resize_confirm_server sc t i)" "within same_ids (ct_floating_ip_associate sc t i ip)"
  "within same_ids (ct_floating_ip_disassociate sc t i ip)"
  unfolding ct_reboot_server_def ct_stop_server_def ct_start_server_def ct_migrate_def ct_live_migrate_def
    ct_resize_server_def ct_resize_confirm_server_def ct_floating_ip_associate_def ct_floating_ip_disassociate_def
  by (intro ids_intros)+

lemma ids_deletions [ids_intros]:
  "within same_ids (ct_delete_server sc t i)" "within same_ids (ct_delete_volume sc t v)"
  "within same_ids (ct_floatingip_delete sc f)" "within same_ids (ct_floatingip_create sc)"
  unfolding ct_delete_server_def ct_delete_volume_def ct_floatingip_delete_def ct_floatingip_create_def
  by (intro ids_intros)+

lemma ids_look_for [ids_intros]: "within same_ids get \<Longrightarrow> within same_ids (look_for get good nap n st)"
  by (induction n arbitrary: st) (auto simp only: look_for.simps intro!: ids_intros)

lemma ids_verdicts [ids_intros]:
  "within same_ids (must_have st wanted msg)" "within same_ids (has_moved msg a b)" "within same_ids (resize_verdict m c)"
  unfolding must_have_def has_moved_def resize_verdict_def by (intro ids_intros)+

lemma ids_catch [ids_intros]:
  "within same_ids m \<Longrightarrow> (\<And>e. within same_ids (k e)) \<Longrightarrow> within same_ids (catch m (\<lambda>e. Some (k e)))"
  by (rule ids_kept.steps(6)) auto

lemma ids_logging [ids_intros]: "within same_ids m \<Longrightarrow> within same_ids (logging_errors m)"
  unfolding logging_errors_def by (intro ids_intros)

lemma ids_ping:
  assumes "quiet_console con"
  shows "within same_ids (ct_ping_floating_ip sc con ip)" "within same_ids (ct_ping_floating_ip_after_remove sc con ip)"
  using assms unfolding ct_ping_floating_ip_def ct_ping_floating_ip_after_remove_def ct_ping_def quiet_console_def
  by (auto intro!: ids_intros)

lemma ids_answer:
  assumes "quiet_console con"
  shows "within same_ids (answer_prompt con s passwd i)"
  using assms unfolding answer_prompt_def quiet_console_def by (auto intro!: ids_intros)

lemma ids_looks:
  assumes "quiet_console con"
  shows "within same_ids (ct_ssh_check_mem sc con ip passwd)" "within same_ids (ct_ssh_check_cpu sc con ip passwd)"
proof -
  have "within same_ids (ct_ssh_number sc con ip passwd cmd)" for cmd
    using assms ids_answer [OF assms] unfolding ct_ssh_number_def quiet_console_def
    by (auto intro!: ids_intros ids_kept.steps(6) split: if_splits)
  then show "within same_ids (ct_ssh_check_mem sc con ip passwd)" "within same_ids (ct_ssh_check_cpu sc con ip passwd)"
    unfolding ct_ssh_check_mem_def ct_ssh_check_cpu_def by blast+
qed

lemma ids_tests:
  assumes "quiet_console con"
  shows "within same_ids (ct_test_reboot sc t i)" "within same_ids (ct_test_resize sc con t i ip)"
    "within same_ids (ct_test_live_migrate sc con t i ip)" "within same_ids (ct_test_migrate sc con t i ip)"
  unfolding ct_test_reboot_def ct_test_resize_def ct_test_live_migrate_def ct_test_migrate_def Let_def
  by (intro ids_intros ids_ping [OF assms] ids_looks [OF assms])+

lemma ids_address: "within same_ids (address_stage sc)"
proof -
  have "within same_ids (modify (rw_floating_ip_update (\<lambda>_. i)))" for i
    by (simp add: within_def same_ids_def)
  then show ?thesis unfolding address_stage_def by (intro ids_intros)
qed

lemma within_after:
  "bnd m f w = (r, u) \<Longrightarrow> m w = (Inr i, v) \<Longrightarrow> within R (f i) \<Longrightarrow> R v u"
  by (auto simp: bnd_def dest: withinD)

lemma round_after_boot:
  assumes "testcases_one_round sc con drawn w = (r, u)" "boot_stage sc drawn w = (Inr i, v)" "quiet_console con"
  shows "same_ids v u"
  using assms(1) unfolding testcases_one_round_def
  by (rule within_after [where m = "boot_stage sc drawn", OF _ assms(2)])
    (intro ids_intros ids_tests [OF assms(3)] ids_ping [OF assms(3)] ids_address)

text \<open>An operation ran, whatever became of it, between two moments: its requests are among those of the time between.\<close>

definition tried :: "('r, 'x, 'a) round_io \<Rightarrow> ('r, 'x) round_world_scheme \<Rightarrow> ('r, 'x) round_world_scheme \<Rightarrow> bool" where
  "tried m u w' = (\<exists>v r v' before after. m v = (r, v') \<and> sent v = sent u @ before \<and> sent w' = sent v' @ after)"

lemma triedI:
  "m v = (r, v') \<Longrightarrow> same_ids u v \<Longrightarrow> same_ids v' w' \<Longrightarrow> tried m u w'"
  unfolding tried_def same_ids_def by blast

text \<open>The clean-up tries to remove the floating address, the server and, unless its status cannot be read, the volume.\<close>

lemma look_for_fails:
  "0 \<le> nap \<Longrightarrow> look_for get good nap n st w = (Inl e, w') \<Longrightarrow> \<exists>v. get v = (Inl e, w')"
proof (induction n arbitrary: st w)
  case (Suc n)
  then show ?case
    by (cases "get w") (auto simp: bnd_def sleep_def split: sum.splits if_splits)
qed simp

lemma logging_errors_run: "m w = (r, w') \<Longrightarrow> logging_errors m w = (Inr (), w')"
  by (cases r) (simp_all add: logging_errors_def catch_def)

definition cleaned_up :: "'r script_conf \<Rightarrow> py \<Rightarrow> ('r, 'x) round_world_scheme \<Rightarrow> ('r, 'x) round_world_scheme \<Rightarrow> bool" where
  "cleaned_up sc ip u w' =
     ((ip \<noteq> PStr ''10.160.60.193'' \<longrightarrow> tried (ct_floatingip_delete sc (rw_floating_ip u)) u w')
      \<and> tried (ct_delete_server sc TENANTID (rw_server u)) u w'
      \<and> (tried (ct_delete_volume sc TENANTID (rw_volume u)) u w'
         \<or> (\<exists>v e. ct_get_volume_status sc TENANTID (rw_volume u) v = (Inl e, w'))))"

lemma clean_env_runs:
  fixes u w' :: "('r, 'x) round_world_scheme"
  assumes "rw_volume u \<noteq> PNone" "ct_clean_env sc ip u = (r, w')"
  shows "cleaned_up sc ip u w'"
proof -
  define A :: "('r, 'x, unit) round_io" where
    "A = (if ip \<noteq> PStr ''10.160.60.193'' then ct_floatingip_delete sc (rw_floating_ip u) else ret ())"
  define B :: "('r, 'x, unit) round_io" where
    "B = bnd (ct_delete_server sc TENANTID (rw_server u)) (\<lambda>_. sleep 10)"
  define C :: "('r, 'x, unit) round_io" where
    "C = bnd (look_for (ct_get_volume_status sc TENANTID (rw_volume u)) (\<lambda>st. st = PStr ''available'') 10 6 PNone)
    (\<lambda>_. bnd (ct_delete_volume sc TENANTID (rw_volume u)) (\<lambda>_. ret ()))"
  obtain a u1 where a: "A u = (a, u1)" by fastforce
  obtain b u2 where b: "B u1 = (b, u2)" by fastforce
  obtain c u3 where c: "C u2 = (c, u3)" by fastforce
  have "ct_clean_env sc ip u = (Inr (), u3)"
    using assms(1) logging_errors_run [where m = A, OF a] logging_errors_run [where m = B, OF b]
      logging_errors_run [where m = C, OF c]
    by (simp add: ct_clean_env_def bnd_def A_def B_def C_def)
  with assms(2) have w': "w' = u3" by simp
  have all: "within same_ids A" "within same_ids B" "within same_ids C"
    unfolding A_def B_def C_def by (intro ids_intros)+
  note grows = withinD [OF all(1) a] withinD [OF all(2) b] withinD [OF all(3) c]
  have later: "same_ids u u2" "same_ids u1 u3" using grows ids_kept.twice by blast+
  have address: "tried (ct_floatingip_delete sc (rw_floating_ip u)) u u3" if "ip \<noteq> PStr ''10.160.60.193''"
    using a that by (intro triedI [OF _ ids_kept.unchanged later(2)]) (simp add: A_def)
  have server: "tried (ct_delete_server sc TENANTID (rw_server u)) u u3"
  proof -
    obtain q v where v: "ct_delete_server sc TENANTID (rw_server u) u1 = (q, v)" by fastforce
    then have "same_ids v u2"
      using b ids_kept.unchanged by (cases q) (auto simp: B_def bnd_def dest: withinD [OF ids_kept.nap])
    with v grows(1) grows(3) show ?thesis by (blast intro: triedI ids_kept.twice)
  qed
  have "tried (ct_delete_volume sc TENANTID (rw_volume u)) u u3
      \<or> (\<exists>v e. ct_get_volume_status sc TENANTID (rw_volume u) v = (Inl e, u3))"
  proof -
    obtain q v where v: "look_for (ct_get_volume_status sc TENANTID (rw_volume u)) (\<lambda>st. st = PStr ''available'') 10 6 PNone u2
        = (q, v)" by fastforce
    show ?thesis
    proof (cases q)
      case (Inl e)
      with c v have "v = u3" by (simp add: C_def bnd_def)
      with look_for_fails [OF _ v [unfolded Inl]] show ?thesis by auto
    next
      case (Inr st)
      obtain p x where x: "ct_delete_volume sc TENANTID (rw_volume u) v = (p, x)" by fastforce
      with c v Inr have "x = u3" by (cases p) (simp_all add: C_def bnd_def)
      moreover have "same_ids u2 v"
        using v by (rule withinD [rotated]) (intro ids_intros)
      ultimately show ?thesis using x later(1) ids_kept.unchanged by (blast intro: triedI ids_kept.twice)
    qed
  qed
  with address server show ?thesis unfolding w' cleaned_up_def by blast
qed

text \<open>
  A round: it boots a server. If that fails, the clean-up tries to remove what an earlier round has left. If it
  succeeds, the tests run; however they end, the clean-up removes the server and the volume that were booted.
\<close>

definition round_done ::
    "'r script_conf \<Rightarrow> (('r, 'x) round_world_scheme) console \<Rightarrow> nat list
     \<Rightarrow> ('r, 'x) round_world_scheme \<Rightarrow> ('r, 'x) round_world_scheme \<Rightarrow> bool" where
  "round_done sc con drawn w w' =
     (\<exists>q v. ct_test_boot_from_volume sc drawn (PInt 2) w = (q, v)
        \<and> (case q of
             Inl e \<Rightarrow> rw_volume v \<noteq> PNone \<longrightarrow> cleaned_up sc PNone v w'
           | Inr (server_id, volume_id) \<Rightarrow>
               \<exists>r u. testcases_one_round sc con drawn w = (r, u) \<and> rw_server u = server_id \<and> rw_volume u = volume_id
                 \<and> (volume_id \<noteq> PNone \<longrightarrow> cleaned_up sc (case r of Inl e \<Rightarrow> PNone | Inr ip \<Rightarrow> ip) u w')))"

lemma ct_round_cleans:
  assumes "ct_round sc con drawn w = (q, w')" "testcases_one_round sc con drawn w = (r, u)"
  shows "ct_clean_env sc (case r of Inl e \<Rightarrow> PNone | Inr ip \<Rightarrow> ip) u = (Inr (), w')"
proof -
  obtain p v where v: "ct_clean_env sc (case r of Inl e \<Rightarrow> PNone | Inr ip \<Rightarrow> ip) u = (p, v)" by fastforce
  then have p: "p = Inr ()" using never_raisesD [OF clean_env_quiet] by fastforce
  have "ct_round sc con drawn w = (Inr (), v)"
    using assms(2) v p
    by (cases r) (simp_all add: ct_round_def Let_def attempted_def bnd_def catch_def ct_keep_env_def)
  with assms(1) v p show ?thesis by simp
qed

lemma ct_round_done:
  assumes "quiet_console con" "ct_round sc con drawn w = (q, w')"
  shows "round_done sc con drawn w w'"
proof -
  obtain r u where tests: "testcases_one_round sc con drawn w = (r, u)" by fastforce
  note clean = ct_round_cleans [OF assms(2) tests]
  obtain p v where boot: "ct_test_boot_from_volume sc drawn (PInt 2) w = (p, v)" by fastforce
  show ?thesis
  proof (cases p)
    case (Inl e)
    then have "boot_stage sc drawn w = (Inl (PlainExc ''boot server from volume failed''), v)"
      using boot by (simp add: boot_stage_def catch_def bnd_def)
    then have "r = Inl (PlainExc ''boot server from volume failed'')" "u = v"
      using tests by (simp_all add: testcases_one_round_def bnd_def)
    with clean have "rw_volume v \<noteq> PNone \<longrightarrow> cleaned_up sc PNone v w'" using clean_env_runs by fastforce
    with boot Inl show ?thesis unfolding round_done_def by (intro exI [of _ p] exI [of _ v]) simp
  next
    case (Inr x)
    obtain server_id volume_id where x: "x = (server_id, volume_id)" by fastforce
    define v1 where "v1 = rw_volume_update (\<lambda>_. volume_id) (rw_server_update (\<lambda>_. server_id) v)"
    have "boot_stage sc drawn w = (Inr server_id, v1)"
      using boot Inr x by (simp add: boot_stage_def catch_def bnd_def v1_def)
    then have "same_ids v1 u" by (rule round_after_boot [OF tests _ assms(1)])
    then have ids: "rw_server u = server_id" "rw_volume u = volume_id"
      by (simp_all add: same_ids_def v1_def)
    then have "volume_id \<noteq> PNone \<longrightarrow> cleaned_up sc (case r of Inl e \<Rightarrow> PNone | Inr ip \<Rightarrow> ip) u w'"
      using clean_env_runs [OF _ clean] by blast
    with boot Inr x tests ids show ?thesis unfolding round_done_def by (intro exI [of _ p] exI [of _ v]) auto
  qed
qed

lemma rounds_chain:
  assumes "quiet_console con"
  shows "\<exists>ws. length ws = Suc (length xs) \<and> ws ! 0 = w
    \<and> for_each xs (\<lambda>i. ct_round sc con (seeds i)) w = (Inr (), ws ! length xs)
    \<and> (\<forall>n < length xs. round_done sc con (seeds (xs ! n)) (ws ! n) (ws ! Suc n))"
proof (induction xs arbitrary: w)
  case Nil
  show ?case by (intro exI [of _ "[w]"]) simp
next
  case (Cons x xs)
  obtain q v where v: "ct_round sc con (seeds x) w = (q, v)" by fastforce
  then have q: "q = Inr ()" using never_raisesD [OF round_quiet] by fastforce
  obtain ws where ws: "length ws = Suc (length xs)" "ws ! 0 = v"
      "for_each xs (\<lambda>i. ct_round sc con (seeds i)) v = (Inr (), ws ! length xs)"
      "\<forall>n < length xs. round_done sc con (seeds (xs ! n)) (ws ! n) (ws ! Suc n)"
    using Cons.IH by blast
  have "round_done sc con (seeds ((x # xs) ! n)) ((w # ws) ! n) ((w # ws) ! Suc n)" if "n < length (x # xs)" for n
    using that ws(2,4) ct_round_done [OF assms v] by (cases n) auto
  moreover have "for_each (x # xs) (\<lambda>i. ct_round sc con (seeds i)) w = (Inr (), (w # ws) ! length (x # xs))"
    using v q ws(3) by (simp add: bnd_def)
  ultimately show ?case using ws(1) by (intro exI [of _ "w # ws"]) auto
qed

text \<open>
  C38 (compute_rounds_go_on): the script runs 200 rounds to the end, one after the other, whatever the services and the
  consoles do. Each of them boots a server from a volume; once it is booted, and however the tests on it end, the
  clean-up of the round tries to delete that server, its volume (unless the status of the volume cannot be read)
  and the floating address (unless the tests passed with the fixed one). A round that cannot boot tries to remove
  what the last one left.
\<close>

theorem compute_rounds_go_on:
  assumes "quiet_console con"
  shows "\<exists>ws. length ws = 201 \<and> ws ! 0 = w \<and> compute_script sc con seeds w = (Inr (), ws ! 200)
    \<and> (\<forall>i < 200. round_done sc con (seeds i) (ws ! i) (ws ! Suc i))"
proof -
  obtain ws where "length ws = Suc (length [0..<200::nat])" "ws ! 0 = w"
    "for_each [0..<200] (\<lambda>i. ct_round sc con (seeds i)) w = (Inr (), ws ! length [0..<200::nat])"
    "\<forall>n < length [0..<200::nat]. round_done sc con (seeds ([0..<200] ! n)) (ws ! n) (ws ! Suc n)"
    using rounds_chain [OF assms, of "[0..<200]" w] by blast
  then show ?thesis unfolding compute_script_def by (intro exI [of _ ws]) simp
qed

definition mute_console :: "(('r, 'x) round_world_scheme) console" where
  "mute_console =
     \<lparr>cs_spawn = (\<lambda>c t. ret 0), cs_expect = (\<lambda>s ps t. ret 0), cs_sendline = (\<lambda>s t. ret ()), cs_read = (\<lambda>s. ret []),
      cs_close = (\<lambda>s. ret ()), cs_output = (\<lambda>c. ret [])\<rparr>"

definition demo_round_world :: "script round_world" where
  "demo_round_world =
     \<lparr>now = 0, remote = [], sent = [], naps = [], sw_token = PNone, rw_server = PNone, rw_volume = PNone,
      rw_floating_ip = PNone\<rparr>"

theorem compute_rounds_go_on_witness:
  "\<exists>ws. length ws = 201 \<and> ws ! 0 = demo_round_world
    \<and> compute_script demo_script mute_console (\<lambda>i. []) demo_round_world = (Inr (), ws ! 200)
    \<and> round_done demo_script mute_console [] (ws ! 199) (ws ! 200)"
proof -
  have "quiet_console (mute_console :: (script round_world) console)"
    by (simp add: quiet_console_def mute_console_def within_def same_ids_def ret_def)
  from compute_rounds_go_on [OF this, of demo_round_world demo_script "\<lambda>i. []"] obtain ws where
    ws: "length ws = 201" "ws ! 0 = demo_round_world"
      "compute_script demo_script mute_console (\<lambda>i. []) demo_round_world = (Inr (), ws ! 200)"
      "\<forall>i < 200. round_done demo_script mute_console [] (ws ! i) (ws ! Suc i)"
    by blast
  have "(199 :: nat) < 200" by simp
  with ws(4) have "round_done demo_script mute_console [] (ws ! 199) (ws ! Suc 199)" by blast
  with ws show ?thesis by (intro exI [of _ ws]) simp
qed

text \<open>A resize counts as done when the server could not be looked into: both numbers are 0 then.\<close>

theorem unreachable_resize_passes: "resize_verdict 0 0 w = (Inr (), w)"
  by (simp add: resize_verdict_def)

text \<open>A PUT that is refused is sent again as a POST.\<close>

theorem refused_put_becomes_post:
  assumes "sc_frames sc = Suc n" "http_attempt sc ''PUT'' url (Some (e_dumps (sc_env sc) doc)) w = (Inr (401, text), v)"
    "get_Token sc compute_login v = (Inr (), u)"
  shows "ct_http_put sc url doc w = http_call sc compute_login ''POST'' url (Some (e_dumps (sc_env sc) doc)) n u"
  using assms by (simp add: ct_http_put_def Let_def bnd_def)

end
