(* ===== verification/Spec2Isabelle.thy ===== *)
theory Spec2Isabelle
  imports AuthProps RestProps WaiterProps AccountsProps GeneratorProps ServersProps NetworkProps
    SsdProps SsdReports IdentityClients VolumeClients ComputeClients DataUtils IsolatedProps
    ImageProps NetResources TestServerProps RemoteProps TestSupport SchemaProps
    NetworkBaseProps ComputeBaseProps VolumeBaseProps TestBaseProps VolumeTestCase
    ConfigProps TestRunnerProps ClientManagerProps MysqlLoadProps RabbitLoad MultipleVM NegativeFlavors
    ComputeCases VolumeCases NetworkCases ScriptOps ScriptCases ComputeScript
begin

text \<open>
  A verification development for the OpenStack test client library under
  \<open>src/automation/automation\<close>, the test cases under \<open>src/automation/testcases\<close> with their base classes and the program that runs
  them, the SSD tools under \<open>src/fpga_ssd_backup/tools\<close>, the load generators \<open>src/mysql_db_pressure\<close> and \<open>src/rabbit_pressure\<close>, and two older
  scripts with operations and tests of their own (\<open>src/automation/long_run_tests.py\<close> and \<open>compute_test.py\<close>).

  The program. A test holds credentials and an authentication provider (\<open>auth.py\<close>). The provider
  fetches a token from the identity service through a token client
  (\<open>services/identity/v2/token_client.py\<close>, \<open>v3/token_client.py\<close>), caches it until shortly before it
  expires, and decorates every request with the endpoint's URL and the token. A REST client
  (\<open>common/rest_client.py\<close>) sends decorated requests, retries those refused by a rate limit, turns
  error responses into exceptions (\<open>common/exceptions.py\<close>) and validates the others. Service clients
  (compute, network, identity, block storage and image, under \<open>services/\<close>) are built on it, and waiters (\<open>common/waiters.py\<close>) poll them. Accounts for parallel test processes come from a
  file and are allocated with lock files (\<open>common/accounts.py\<close>, with \<open>common/cred_provider.py\<close> and
  \<open>common/fixed_network.py\<close>). Generators (\<open>common/generator/\<close>) derive valid and negative test data from
  JSON schemas. Isolated credentials (\<open>common/isolated_creds.py\<close>) create a project, a user and a network
  for each test; helpers create the test's servers (\<open>common/compute.py\<close>,
  \<open>common/validation_resources.py\<close>), run commands on them over SSH (\<open>common/ssh.py\<close>,
  \<open>common/utils/linux/remote_client.py\<close>) and compare answers (\<open>common/custom_matchers.py\<close>). The base
  classes of the test cases (\<open>testcases/test.py\<close>, \<open>base.py\<close> and \<open>base_compute.py\<close> in the directories below it)
  set up classes of tests and unwind them, create resources, wait for them and delete them. The options are declared,
  registered and read in \<open>config.py\<close>; a manager (\<open>manager.py\<close>, \<open>clients.py\<close>) builds every client from them on one
  provider; \<open>run_testcases.py\<close> finds the test cases and runs them in rounds (\<open>test_discover.py\<close>). Beside the
  library, an agent on each host (\<open>ssd_op/ssdSingleDeal.py\<close>) checks and prepares SSD cards, a master
  (\<open>master/ssdRpcClient.py\<close>) calls the agents, and reports (\<open>op_tools/\<close>) count bad blocks and erasures. The load
  generators write rows to the databases of the services and messages to their broker.

  The theories, in the order of their imports.

  \<^item> \<open>PyBase\<close>: the prelude. Python values (\<open>py\<close>), dictionaries as association lists in insertion order
    (\<open>dget\<close>, \<open>dset\<close>, \<open>ddel\<close>, \<open>dupdate\<close>), texts, numbers as text; the collection \<open>dict_simps\<close>.
  \<^item> \<open>Exceptions\<close>: the exception classes of \<open>exceptions.py\<close> with their bases and
    messages, the text of an exception, and what the built-in operations raise (\<open>pyexc\<close>).
  \<^item> \<open>World\<close>: effects. A computation is a function from the world to a result or an exception and a
    new world; the world has a clock in microseconds, the state of the remote services and the
    histories of requests and sleeps. \<open>loop_io\<close> is \<open>while True\<close>: its result is None when it never
    ends. The locales \<open>bounded_loop\<close> and \<open>clocked_loop\<close> say when it does.
  \<^item> \<open>Urls\<close>: \<open>urlparse\<close>, \<open>urlunparse\<close>, \<open>urlencode\<close> and \<open>str.replace\<close> as far as the program uses them.
  \<^item> \<open>Credentials\<close>, \<open>TokenClient\<close>, \<open>Auth\<close>, \<open>AuthFacts\<close>, \<open>AuthProps\<close>: credentials with the
    coupled attributes of v3, the two token clients, the provider (\<open>provider\<close>, a field of the world),
    its operations \<open>get_auth\<close>, \<open>set_auth\<close>, \<open>clear_auth\<close>, \<open>fill_credentials\<close>, \<open>base_url\<close> and \<open>auth_request\<close>
    with the altered part of negative tests. \<open>provider_run\<close> is reachability under any sequence of these.
  \<^item> \<open>RestCore\<close>, \<open>RestClient\<close>, \<open>RestProps\<close>: status checks, classification of errors, validation, \<open>request\<close>
    with its retry loop, the verbs, and the wait for a deletion. The locale \<open>rest_api\<close> is what a client
    may rely on; \<open>request\<close> is its interpretation. \<open>budget\<close> bounds the requests and sleeps of a
    computation.
  \<^item> \<open>Waiters\<close>, \<open>WaiterProps\<close>: the four polling functions, each an interpretation of the locale \<open>polling\<close>.
  \<^item> \<open>CredProvider\<close>, \<open>Accounts\<close>, \<open>AccountsProps\<close>: configured credentials, the table of accounts, and the
    lock files. \<open>cluster_run\<close> interleaves the allocations and returns of any number of processes as
    atomic steps; the locale \<open>lock_service\<close> carries the mutual exclusion and is interpreted by
    \<open>get_free_hash\<close> and \<open>remove_hash\<close>.
  \<^item> \<open>Generators\<close>, \<open>GeneratorProps\<close>: the generators; \<open>conforms\<close> is the specification, the part of JSON
    Schema the generators know, and on the schemas \<open>supported\<close>, which use no other keyword, all of it.
  \<^item> \<open>ServersClient\<close>, \<open>ServerActions\<close>, \<open>ServersProps\<close> and \<open>NetworkClient\<close>, \<open>NetworkProps\<close>: every method of the
    two clients over an arbitrary \<open>request\<close> (the argument \<open>rq\<close>), and their waits.
  \<^item> \<open>ClientBase\<close>, \<open>IdentityClients\<close>, \<open>VolumeClients\<close>, \<open>ComputeClients\<close>: the steps that the methods of the
    clients share (send, check the status, take a part of the document), and every method of the
    clients of those services.
  \<^item> \<open>GlanceHttp\<close>, \<open>ImageClients\<close>, \<open>ImageProps\<close>: the HTTP client of the image service
    with its chunked bodies and certificate checks, the two image clients, and their waits; the locale
    \<open>delayed_poll\<close> is a wait that returns when the status arrives in time.
  \<^item> \<open>IsolatedCreds\<close>, \<open>IsolatedProps\<close>, \<open>DataUtils\<close>: isolated credentials over an identity client
    and a network client, with random names drawn from a stream. The exchanges with the service are recorded, and
    \<open>owed_after\<close> reads from the record which resources are still to be deleted.
  \<^item> \<open>NetResources\<close>: the objects of \<open>services/network/resources.py\<close>; the object is a field of the world.
  \<^item> \<open>TestServer\<close>, \<open>TestServerProps\<close>: creation and removal of test servers and validation resources; nothing is
    assumed of the compute service, whose requests are recorded.
  \<^item> \<open>RemoteAccess\<close>, \<open>RemoteProps\<close>: the SSH client and the remote commands; \<open>delivers\<close> is what \<open>paramiko\<close> documents of a channel.
  \<^item> \<open>TestSupport\<close>: the matchers, the search for the running test, the choice of a credential provider.
  \<^item> \<open>SchemaBase\<close>, \<open>ServerSchemas\<close>, \<open>NovaSchemas\<close>, \<open>NovaSchemas2\<close>, \<open>OtherSchemas\<close>, \<open>SchemaProps\<close>: the schemas of
    \<open>automation/api_schema\<close> as values, with the changes their modules make while they are loaded; \<open>js_valid\<close>
    is validity in the part of JSON Schema they use.
  \<^item> \<open>LiveLoops\<close>: loops of the test cases. \<open>live_for\<close> iterates by position over a list of the state that the body
    changes (\<open>skipped\<close> is what it leaves when the body removes its element), \<open>countdown\<close> and \<open>while_left\<close> count
    seconds down by the interval of the checks; the rounds of \<open>countdown\<close> interpret \<open>bounded_loop\<close>.
  \<^item> \<open>NetworkBase\<close>, \<open>NetworkBaseProps\<close>, \<open>ComputeBase\<close>, \<open>ComputeBaseProps\<close>, \<open>VolumeBase\<close>, \<open>VolumeBaseProps\<close>: the
    classes \<open>Base\<close> of the network, compute and volume tests. The lists of what was created are fields of the world.
  \<^item> \<open>TestBase\<close>, \<open>NegativeTest\<close>, \<open>TestBaseProps\<close>, \<open>VolumeTestCase\<close>: the class-level stages of \<open>testcases/test.py\<close>
    with their stack of teardowns (specified by the relation \<open>unwinds\<close>), the negative tests, and the stages of
    the classes of volume tests with the clients that they take from a manager.
  \<^item> \<open>MultipleVM\<close>: the test that works with the network base and the compute base at once. The locale \<open>kept\<close> composes
    computations along a relation of worlds; \<open>shrinking\<close>, what a clean-up may do to the lists, is its interpretation.
  \<^item> \<open>ComputeCases\<close>, \<open>VolumeCases\<close>, \<open>NetworkCases\<close>: the test cases \<open>test_*.py\<close> of the three directories. \<open>finally_loop\<close>,
    \<open>cleaning_up\<close> and \<open>failing_as\<close> are the shapes of their \<open>try\<close> statements, \<open>stage\<close> a step of a body whose \<open>finally\<close> reads
    its variables. \<open>ends_leaving\<close> says that a test ends, with the world in order when it passes.
  \<^item> \<open>ScriptOps\<close>, \<open>ScriptCases\<close>, \<open>ComputeScript\<close>: the two older scripts. \<open>ScriptOps\<close> has the requests, with a new token after
    a refusal, and the operations of \<open>long_run_tests.py\<close> (prefix \<open>lr\<close>), \<open>ScriptCases\<close> its clean-up, test cases and
    long run, \<open>ComputeScript\<close> the script \<open>compute_test.py\<close> (prefix \<open>ct\<close>). The sessions of \<open>pexpect\<close> are the record \<open>console\<close>.
    \<open>clears\<close> says which keys of a dictionary of resources a step of the clean-up leaves without a value, \<open>confirms\<close> which
    deletions were answered, and \<open>keeps_slot\<close>, an interpretation of \<open>kept\<close>, that the clean-up of one dictionary leaves the
    other alone. The locale \<open>script_kept\<close> proves once what all operations of the scripts keep, and is interpreted for
    the dictionaries (\<open>same_envs\<close>) and for the ids of a round (\<open>same_ids\<close>).
  \<^item> \<open>NegativeFlavors\<close>: the schema of a description of negative tests, the check against it (\<open>jsonschema\<close> is a parameter),
    and what the descriptions in the repository give.
  \<^item> \<open>Config\<close>, \<open>ConfigProps\<close>: the declarations of the options as values, their registration, and the objects the tests
    read them through. \<open>store_laws\<close> is what \<open>oslo.config\<close> promises of a store of options.
  \<^item> \<open>ClientManager\<close>, \<open>ClientManagerProps\<close>: the managers. A client is its class, its REST client and its other
    arguments; \<open>asks_for\<close> is the service, region and endpoint of its requests, \<open>due_clients\<close> the table of the attributes with
    what each must ask for. Also the lookup of a region.
  \<^item> \<open>TestRunner\<close>, \<open>TestRunnerProps\<close>: the command line, with \<open>getopt\<close> of the standard library, and the rounds.
  \<^item> \<open>MysqlLoad\<close>, \<open>MysqlLoadProps\<close>, \<open>RabbitLoad\<close>: the load generators. The calls to the database and how they ended are a history;
    \<open>settled\<close> and \<open>conn_after\<close> say what order of them is right, and \<open>moves\<close> is a Hoare triple over the connection.
  \<^item> \<open>SsdFlash\<close>, \<open>SsdServer\<close>, \<open>SsdProps\<close>: the operations of the agent over a machine (what a shell
    command does is the parameter), the dispatch of a request, the master's calls, and both command lines.
  \<^item> \<open>SsdReports\<close>: the reports over the output of the table reader, and the master together with its agents.
  \<^item> \<open>Demo\<close>: a scripted server and other concrete parameters for the witnesses.

  What the properties show. For requests: what is returned is a success, the numbers of requests and
  sleeps are bounded, a rate limit is obeyed, an error response raises the class of its status. For
  authentication: the token is fetched exactly when needed, clearing restores the initial
  credentials, a request is decorated as documented, an altered part is used once. For every wait:
  it ends, and its outcome is justified by the last answer. For accounts: no account is held twice and a free
  one is found. For generators: the valid data of a satisfiable schema is valid, negative data is not. For the service
  clients: the documents sent and the statuses received, and round trips of image data and metadata.
  For isolated credentials and test servers: what was deleted, or asked to be deleted, after a failure. For SSH: reading ends, not
  before the channel is closed, and what had arrived is read. For the test cases: what a failed set-up tears down and which exception it raises, that what
  was created is remembered, which resources the clean-ups leave, and that every test ends and passes
  only when its bases have nothing left. For the scripts: a call sends a bounded number of requests, a clean-up that returns has
  had the deletion of every resource under its keys confirmed, and each of the 200 rounds tries to remove what it made. For the configuration: the declarations are consistent and every group
  that is read exists. For the managers: every attribute has a client that sends its requests to the service, region and endpoint of its own group.
  For the runner: every case runs in every round and the report is that of the exit statuses. For the load generators: rows are
  committed or rolled back one by one, and connections are opened and closed in turn. For the SSD agent: a card reported ready was found, opened and checked step by step, also
  when the master reports on a file of hosts. Other properties state where the code
  does something else than it means to; they are listed as findings of the manifest.

  Bounds. \<open>MAX_RECURSION_DEPTH\<close> is 2, the code's constant; the retry loop recurses on the retries left,
  so no fuel is involved. The polling loops have none either: a loop that ends is \<open>Some\<close>, which the
  termination properties prove under a polling interval of at least one second and answers that do not turn back the
  clock. The requests of the scripts call themselves after a refusal; \<open>sc_frames\<close> is the number of frames the interpreter's
  stack has for that, and without one a RuntimeError is raised, as Python does. Integers are Python's, without a bound.

  Parameters (the record \<open>env\<close>): the HTTP server behind \<open>httplib2\<close>, \<open>json.loads\<close> and \<open>json.dumps\<close>, the
  \<open>jsonschema\<close> validator and \<open>repr\<close>; the response schemas; the configuration (\<open>conf\<close>); the name of the
  calling test, read from the stack. Time passes only in requests and sleeps.

  Not modelled: logging and tracing; the help texts of the options; sockets and the daemon of the SSD agent; the
  script \<open>network_test.py\<close>, an earlier copy of \<open>long_run_tests.py\<close>; the upload tool (five copies of a third-party script) and the vendored \<open>pexpect.py\<close>; the C
  driver and its pressure programs; the stand-alone scripts beside the library, which are single calls of the operating system.
  The averages of \<open>RabbitLoad\<close> are exact where the code has floating point.
\<close>

end
